(* ===== verification/Prelude.thy ===== *)
theory Prelude
  imports Complex_Main
begin

text \<open>
  Shared vocabulary of the development: the exceptions the services throw, the JavaScript idioms
  on optional strings (\<open>x || null\<close>, truthiness), the table operations the SQL statements
  of the backend perform, and the interface of a table whose updates keep the primary key.
\<close>

named_theorems table_simps \<open>rewriting of selections after inserts, updates and deletes\<close>
named_theorems js_simps \<open>rewriting of JavaScript idioms\<close>

section \<open>Exceptions and handlers\<close>

text \<open>
  The exception classes of NestJS that the services throw, an exception raised by the JavaScript
  runtime or a library call, and an error reported by the database.
\<close>

datatype exn =
    BadRequestException string
  | ConflictException string
  | NotFoundException string
  | UnauthorizedException string
  | ForbiddenException string
  | JsError string
  | DatabaseError string

text \<open>
  A handler runs on a state and ends in a state together with either an exception or a value.
  Writes made before an exception stay: the services do not run inside one transaction.
\<close>

type_synonym 'a res = "exn + 'a"
type_synonym ('s, 'a) handler = "'s \<Rightarrow> 's \<times> 'a res"

type_synonym time = int

section \<open>Optional strings\<close>

definition truthy :: "string option \<Rightarrow> bool" where
  "truthy s = (case s of None \<Rightarrow> False | Some t \<Rightarrow> t \<noteq> [])"

text \<open>\<open>s || null\<close>\<close>

definition or_null :: "string option \<Rightarrow> string option" where
  "or_null s = (if truthy s then s else None)"

text \<open>\<open>s || d\<close>\<close>

definition or_else :: "string option \<Rightarrow> string \<Rightarrow> string" where
  "or_else s d = (case s of None \<Rightarrow> d | Some t \<Rightarrow> if t = [] then d else t)"

lemma truthy_simps [js_simps]:
  "truthy None = False" "truthy (Some []) = False" "truthy (Some (c # cs)) = True"
  by (simp_all add: truthy_def)

lemma truthy_iff: "truthy s \<longleftrightarrow> (\<exists>t. s = Some t \<and> t \<noteq> [])"
  by (auto simp: truthy_def split: option.splits)

lemma or_null_eq_Some [js_simps]: "or_null s = Some t \<longleftrightarrow> s = Some t \<and> t \<noteq> []"
  by (auto simp: or_null_def truthy_def split: option.splits)

lemma or_null_truthy [js_simps]: "truthy (or_null s) = truthy s"
  by (auto simp: or_null_def truthy_def split: option.splits)

lemma or_null_idem [js_simps]: "or_null (or_null s) = or_null s"
  by (simp add: or_null_def)

text \<open>A query parameter of a list endpoint: it filters only when it is given and not empty.\<close>

definition query_match :: "string option \<Rightarrow> string option \<Rightarrow> bool" where
  "query_match param column \<longleftrightarrow> \<not> truthy param \<or> column = param"

definition list_of_option :: "'a option \<Rightarrow> 'a list" where
  "list_of_option x = (case x of None \<Rightarrow> [] | Some a \<Rightarrow> [a])"

text \<open>A field of a Prisma \<open>data\<close> object: \<open>undefined\<close> leaves the column as it is.\<close>

definition patch :: "'a option \<Rightarrow> 'a \<Rightarrow> 'a" where
  "patch new old = (case new of None \<Rightarrow> old | Some x \<Rightarrow> x)"

definition patch_null :: "'a option \<Rightarrow> 'a option \<Rightarrow> 'a option" where
  "patch_null new old = (case new of None \<Rightarrow> old | Some x \<Rightarrow> Some x)"

text \<open>\<open>skip\<close> and \<open>take\<close> of a query.\<close>

definition page :: "nat \<Rightarrow> nat \<Rightarrow> 'a list \<Rightarrow> 'a list" where
  "page limit offset rows = take limit (drop offset rows)"

text \<open>\<open>if (b) { ... }\<close> around an assignment.\<close>

definition apply_if :: "bool \<Rightarrow> ('a \<Rightarrow> 'a) \<Rightarrow> 'a \<Rightarrow> 'a" where
  "apply_if b f x = (if b then f x else x)"

lemma apply_if_simps [simp]: "apply_if True f x = f x" "apply_if False f x = x"
  by (simp_all add: apply_if_def)

lemma list_of_option_simps [simp]: "list_of_option None = []" "list_of_option (Some a) = [a]"
  by (simp_all add: list_of_option_def)

lemma apply_if_keeps:
  assumes "\<And>x. g (f x) = g x"
  shows "g (apply_if b f x) = g x"
  using assms by (simp add: apply_if_def)

section \<open>Tables\<close>

text \<open>
  A table is the list of its rows in insertion order. \<open>SELECT ... WHERE P LIMIT 1\<close> is
  \<^const>\<open>List.find\<close>; the other statements are:
\<close>

definition sql_insert :: "'r \<Rightarrow> 'r list \<Rightarrow> 'r list" where
  "sql_insert r rows = rows @ [r]"

definition sql_update :: "('r \<Rightarrow> bool) \<Rightarrow> ('r \<Rightarrow> 'r) \<Rightarrow> 'r list \<Rightarrow> 'r list" where
  "sql_update P f rows = map (\<lambda>r. if P r then f r else r) rows"

definition sql_delete :: "('r \<Rightarrow> bool) \<Rightarrow> 'r list \<Rightarrow> 'r list" where
  "sql_delete P rows = filter (\<lambda>r. \<not> P r) rows"

lemma find_insert [table_simps]:
  "List.find P (sql_insert r rows) =
     (case List.find P rows of Some x \<Rightarrow> Some x | None \<Rightarrow> if P r then Some r else None)"
  by (induction rows) (auto simp: sql_insert_def)

lemma set_insert [table_simps]: "set (sql_insert r rows) = insert r (set rows)"
  by (auto simp: sql_insert_def)

lemma set_update: "set (sql_update P f rows) = (\<lambda>r. if P r then f r else r) ` set rows"
  by (simp add: sql_update_def)

lemma set_delete [table_simps]: "set (sql_delete P rows) = {r \<in> set rows. \<not> P r}"
  by (auto simp: sql_delete_def)

lemma find_Some_memD: "List.find P rows = Some r \<Longrightarrow> r \<in> set rows \<and> P r"
  by (auto simp: find_Some_iff)

lemma find_None_all: "List.find P rows = None \<longleftrightarrow> (\<forall>r \<in> set rows. \<not> P r)"
  by (auto simp: find_None_iff)

lemma filter_insert [table_simps]:
  "filter P (sql_insert r rows) = filter P rows @ (if P r then [r] else [])"
  by (simp add: sql_insert_def)

lemma map_key_insert [table_simps]: "map k (sql_insert r rows) = map k rows @ [k r]"
  by (simp add: sql_insert_def)

lemma map_update_same:
  "(\<And>r. P r \<Longrightarrow> k (f r) = k r) \<Longrightarrow> map k (sql_update P f rows) = map k rows"
  by (simp add: sql_update_def)

text \<open>An update that never makes a row satisfy \<open>Q\<close> leaves a sublist of the selected keys.\<close>

lemma distinct_filter_update:
  assumes "distinct (map k (filter Q rows))"
    and "\<And>r. r \<in> set rows \<Longrightarrow> P r \<Longrightarrow> k (f r) = k r"
    and "\<And>r. r \<in> set rows \<Longrightarrow> P r \<Longrightarrow> Q (f r) \<Longrightarrow> Q r"
  shows "distinct (map k (filter Q (sql_update P f rows)))"
proof -
  have sub: "set (map k (filter Q (sql_update P f xs))) \<subseteq> set (map k (filter Q xs))"
    if "set xs \<subseteq> set rows" for xs
    using that assms(2,3) by (force simp: sql_update_def)
  have "distinct (map k (filter Q (sql_update P f xs)))"
    if "set xs \<subseteq> set rows" "distinct (map k (filter Q xs))" for xs
    using that
  proof (induction xs)
    case (Cons x xs)
    then have x: "x \<in> set rows" and xs: "set xs \<subseteq> set rows" by auto
    let ?y = "if P x then f x else x"
    have *: "sql_update P f (x # xs) = ?y # sql_update P f xs" by (simp add: sql_update_def)
    have "Q ?y \<Longrightarrow> Q x \<and> k ?y = k x" using assms(2,3) x by (auto split: if_splits)
    with Cons xs sub [OF xs] show ?case by (auto simp: * split: if_splits)
  qed (simp add: sql_update_def)
  with assms(1) show ?thesis by blast
qed

lemma distinct_filter_delete:
  "distinct (map k (filter Q rows)) \<Longrightarrow> distinct (map k (filter Q (sql_delete P rows)))"
  by (induction rows) (auto simp: sql_delete_def)

lemma sum_filter_update_le:
  fixes w :: "'r \<Rightarrow> int"
  assumes "\<And>r. r \<in> set rows \<Longrightarrow> 0 \<le> w r"
    and "\<And>r. r \<in> set rows \<Longrightarrow> P r \<Longrightarrow> Q (f r) \<Longrightarrow> Q r \<and> w (f r) = w r"
  shows "sum_list (map w (filter Q (sql_update P f rows))) \<le> sum_list (map w (filter Q rows))"
  using assms
proof (induction rows)
  case (Cons r rows)
  have "sum_list (map w (filter Q (sql_update P f rows))) \<le> sum_list (map w (filter Q rows))"
    by (rule Cons.IH) (use Cons.prems in auto)
  moreover have "0 \<le> w r" using Cons.prems(1) by simp
  ultimately show ?case using Cons.prems(2) [of r] by (auto simp: sql_update_def)
qed (simp add: sql_update_def)

lemma sum_filter_delete_le:
  fixes w :: "'r \<Rightarrow> int"
  assumes "\<And>r. r \<in> set rows \<Longrightarrow> 0 \<le> w r"
  shows "sum_list (map w (filter Q (sql_delete P rows))) \<le> sum_list (map w (filter Q rows))"
  using assms by (induction rows) (auto simp: sql_delete_def add_increasing)

lemma sql_update_cong:
  "(\<And>r. r \<in> set rows \<Longrightarrow> P r \<Longrightarrow> f r = g r) \<Longrightarrow> sql_update P f rows = sql_update P g rows"
  by (auto simp: sql_update_def)

lemma find_update_disjoint:
  assumes "\<And>r. P r \<Longrightarrow> \<not> Q r" and "\<And>r. P r \<Longrightarrow> \<not> Q (f r)"
  shows "List.find Q (sql_update P f rows) = List.find Q rows"
  using assms by (induction rows) (auto simp: sql_update_def)

text \<open>
  The interface every table with a primary key offers its service: an update of a row never
  changes the key, so a selection by key commutes with an update by key.
\<close>

locale keyed_table =
  fixes key :: "'r \<Rightarrow> 'k"
    and upd :: "'u \<Rightarrow> 'r \<Rightarrow> 'r"
  assumes key_upd: "key (upd u r) = key r"
begin

lemma find_same:
  "List.find (\<lambda>r. key r = k) (sql_update (\<lambda>r. key r = k) (upd u) rows) =
     map_option (upd u) (List.find (\<lambda>r. key r = k) rows)"
  by (induction rows) (auto simp: sql_update_def key_upd)

lemma find_other:
  "k' \<noteq> k \<Longrightarrow>
   List.find (\<lambda>r. key r = k') (sql_update (\<lambda>r. key r = k) (upd u) rows) =
     List.find (\<lambda>r. key r = k') rows"
  by (induction rows) (auto simp: sql_update_def key_upd)

lemma keys_update: "map key (sql_update P (upd u) rows) = map key rows"
  by (induction rows) (auto simp: sql_update_def key_upd)

lemma rows_update_iff:
  "r' \<in> set (sql_update P (upd u) rows) \<longleftrightarrow>
     (\<exists>r \<in> set rows. r' = (if P r then upd u r else r))"
  by (auto simp: sql_update_def)

lemma distinct_keys_update:
  "distinct (map key rows) \<Longrightarrow> distinct (map key (sql_update P (upd u) rows))"
  by (simp add: keys_update)

lemma distinct_keys_insert:
  "distinct (map key rows) \<Longrightarrow> key r \<notin> key ` set rows \<Longrightarrow>
   distinct (map key (sql_insert r rows))"
  by (simp add: sql_insert_def)

lemma distinct_keys_delete:
  "distinct (map key rows) \<Longrightarrow> distinct (map key (sql_delete P rows))"
  by (simp add: sql_delete_def distinct_map_filter)

lemma find_unique:
  assumes "distinct (map key rows)" and "r \<in> set rows"
  shows "List.find (\<lambda>x. key x = key r) rows = Some r"
  using assms by (induction rows) (auto simp: rev_image_eqI)

end

end
