(* ===== verification/JsValue.thy ===== *)
theory JsValue
  imports Prelude
begin

text \<open>
  The part of JavaScript the sources compute with: strings as lists of code units (the model
  covers the units 0 to 255), decimal digits and their printing, \<open>BigInt\<close> as the integers,
  \<open>number\<close> as IEEE binary64 with its rounding and its conversion to a string, and JSON values
  with the conversions \<open>String(v)\<close> and \<open>Number(v)\<close>.
\<close>

section \<open>Characters and digits\<close>

definition char_code :: "char \<Rightarrow> int" where
  "char_code c = of_char c"

definition is_digit :: "char \<Rightarrow> bool" where
  "is_digit c \<longleftrightarrow> 48 \<le> char_code c \<and> char_code c \<le> 57"

definition digit_val :: "char \<Rightarrow> int" where
  "digit_val c = char_code c - 48"

definition digit_chr :: "int \<Rightarrow> char" where
  "digit_chr n = char_of (48 + n)"

definition is_space :: "char \<Rightarrow> bool" where
  "is_space c \<longleftrightarrow> char_code c \<in> {9, 10, 11, 12, 13, 32, 160}"

definition to_lower_char :: "char \<Rightarrow> char" where
  "to_lower_char c =
     (if 65 \<le> char_code c \<and> char_code c \<le> 90 \<or>
         192 \<le> char_code c \<and> char_code c \<le> 222 \<and> char_code c \<noteq> 215
      then char_of (char_code c + 32) else c)"

definition toLowerCase :: "string \<Rightarrow> string" where
  "toLowerCase s = map to_lower_char s"

text \<open>
  \<open>toUpperCase\<close> on the code units of the model; the two letters whose upper case is not one of them
  (the micro sign and the y with diaeresis) are kept.
\<close>

definition to_upper_char :: "char \<Rightarrow> string" where
  "to_upper_char c =
     (if 97 \<le> char_code c \<and> char_code c \<le> 122 \<or>
         224 \<le> char_code c \<and> char_code c \<le> 254 \<and> char_code c \<noteq> 247
      then [char_of (char_code c - 32)]
      else if char_code c = 223 then ''SS'' else [c])"

definition toUpperCase :: "string \<Rightarrow> string" where
  "toUpperCase s = concat (map to_upper_char s)"

definition trim :: "string \<Rightarrow> string" where
  "trim s = rev (dropWhile is_space (rev (dropWhile is_space s)))"

definition digits_val :: "string \<Rightarrow> int" where
  "digits_val s = foldl (\<lambda>a c. 10 * a + digit_val c) 0 s"

text \<open>The decimal digits of a number that is not negative.\<close>

function show_digits :: "int \<Rightarrow> string" where
  "show_digits n =
     (if n < 10 then [digit_chr n] else show_digits (n div 10) @ [digit_chr (n mod 10)])"
  by pat_completeness auto
termination
  by (relation "measure nat") auto

declare show_digits.simps [simp del]

lemma char_code_digit_chr [simp]: "0 \<le> n \<Longrightarrow> n < 10 \<Longrightarrow> char_code (digit_chr n) = 48 + n"
  by (simp add: char_code_def digit_chr_def)

lemma digit_val_chr [simp]: "0 \<le> n \<Longrightarrow> n < 10 \<Longrightarrow> digit_val (digit_chr n) = n"
  by (simp add: digit_val_def)

lemma is_digit_chr [simp]: "0 \<le> n \<Longrightarrow> n < 10 \<Longrightarrow> is_digit (digit_chr n)"
  by (simp add: is_digit_def)

lemma digit_chr_val [simp]: "is_digit c \<Longrightarrow> digit_chr (digit_val c) = c"
  by (simp add: is_digit_def digit_val_def digit_chr_def char_code_def)

lemma digit_val_less: "is_digit c \<Longrightarrow> digit_val c < 10"
  and digit_val_nonneg: "is_digit c \<Longrightarrow> 0 \<le> digit_val c"
  by (auto simp: is_digit_def digit_val_def)

lemma is_digit_not_dot [simp]: "is_digit c \<Longrightarrow> c \<noteq> CHR ''.''"
  by (auto simp: is_digit_def char_code_def)

lemma dot_not_digit [simp]: "\<not> is_digit (CHR ''.'')" "\<not> is_space (CHR ''.'')"
  by (simp_all add: is_digit_def is_space_def char_code_def)

lemma is_digit_not_space [simp]: "is_digit c \<Longrightarrow> \<not> is_space c"
  by (auto simp: is_digit_def is_space_def)

lemma digits_val_Nil [simp]: "digits_val [] = 0"
  by (simp add: digits_val_def)

lemma digits_val_snoc [simp]: "digits_val (s @ [c]) = 10 * digits_val s + digit_val c"
  by (simp add: digits_val_def)

lemma digits_val_append:
  "digits_val (s @ t) = digits_val s * 10 ^ length t + digits_val t"
proof (induction t rule: rev_induct)
  case (snoc c t)
  have "digits_val (s @ t @ [c]) = 10 * digits_val (s @ t) + digit_val c"
    by (metis append_assoc digits_val_snoc)
  with snoc show ?case by (simp add: algebra_simps)
qed simp

lemma digits_val_zeros [simp]: "digits_val (replicate n (CHR ''0'')) = 0"
proof (induction n)
  case (Suc n)
  have "replicate (Suc n) (CHR ''0'') = replicate n (CHR ''0'') @ [CHR ''0'']"
    by (simp add: replicate_append_same)
  with Suc show ?case by (simp add: digit_val_def char_code_def del: replicate_Suc)
qed simp

lemma digits_val_nonneg: "list_all is_digit s \<Longrightarrow> 0 \<le> digits_val s"
  by (induction s rule: rev_induct) (auto simp: digit_val_nonneg)

lemma digits_val_bound: "list_all is_digit s \<Longrightarrow> digits_val s < 10 ^ length s"
proof (induction s rule: rev_induct)
  case (snoc c s)
  then have "digits_val s < 10 ^ length s" and "digit_val c < 10"
    by (auto simp: digit_val_less)
  then show ?case by simp
qed simp

lemma digits_val_show [simp]: "0 \<le> n \<Longrightarrow> digits_val (show_digits n) = n"
proof (induction n rule: show_digits.induct)
  case (1 n)
  show ?case
  proof (cases "n < 10")
    case True
    with 1 show ?thesis using digits_val_snoc [of "[]" "digit_chr n"]
      by (simp add: show_digits.simps)
  next
    case False
    with 1 have "digits_val (show_digits (n div 10)) = n div 10" by simp
    with False show ?thesis by (subst show_digits.simps) simp
  qed
qed

lemma show_digits_digits [simp]: "0 \<le> n \<Longrightarrow> list_all is_digit (show_digits n)"
  by (induction n rule: show_digits.induct) (subst show_digits.simps, auto)

lemma show_digits_nonempty [simp]: "show_digits n \<noteq> []"
  by (subst show_digits.simps) simp

lemma show_digits_inject [simp]:
  "0 \<le> m \<Longrightarrow> 0 \<le> n \<Longrightarrow> show_digits m = show_digits n \<longleftrightarrow> m = n"
  by (metis digits_val_show)

lemma length_show_digits: "0 < d \<Longrightarrow> n < 10 ^ d \<Longrightarrow> length (show_digits n) \<le> d"
proof (induction n arbitrary: d rule: show_digits.induct)
  case (1 n)
  show ?case
  proof (cases "n < 10")
    case True
    with 1 show ?thesis by (simp add: show_digits.simps)
  next
    case False
    with 1 obtain e where d: "d = Suc e" by (cases d) auto
    with False 1 have "0 < e" by (cases e) auto
    moreover have "n div 10 < 10 ^ e" using 1(3) d by auto
    ultimately have "length (show_digits (n div 10)) \<le> e" using 1(1) False by blast
    with False d show ?thesis by (subst show_digits.simps) simp
  qed
qed

text \<open>\<open>s.padStart(n, '0')\<close>, \<open>s.replace(/0+$/, '')\<close>\<close>

definition padStart0 :: "nat \<Rightarrow> string \<Rightarrow> string" where
  "padStart0 n s = replicate (n - length s) (CHR ''0'') @ s"

definition strip_zeros :: "string \<Rightarrow> string" where
  "strip_zeros s = rev (dropWhile (\<lambda>c. c = CHR ''0'') (rev s))"

lemma digits_val_pad [simp]: "digits_val (padStart0 n s) = digits_val s"
  by (simp add: padStart0_def digits_val_append)

lemma padStart0_digits [simp]: "list_all is_digit s \<Longrightarrow> list_all is_digit (padStart0 n s)"
  by (auto simp: padStart0_def list_all_iff is_digit_def char_code_def)

lemma length_padStart0 [simp]: "length s \<le> n \<Longrightarrow> length (padStart0 n s) = n"
  by (simp add: padStart0_def)

lemma strip_zeros_restore: "strip_zeros s @ replicate (length s - length (strip_zeros s)) (CHR ''0'') = s"
proof -
  define zs where "zs = takeWhile (\<lambda>c. c = CHR ''0'') (rev s)"
  have zs: "zs = replicate (length zs) (CHR ''0'')"
    unfolding zs_def by (rule sym, rule replicate_length_same) (auto dest: set_takeWhileD)
  have "rev s = zs @ dropWhile (\<lambda>c. c = CHR ''0'') (rev s)"
    by (simp add: zs_def)
  then have s: "s = strip_zeros s @ rev zs"
    by (metis rev_append rev_rev_ident strip_zeros_def)
  then have len: "length s - length (strip_zeros s) = length zs"
    by (metis add_diff_cancel_left' length_append length_rev)
  from zs have "rev zs = replicate (length zs) (CHR ''0'')" by (metis rev_replicate)
  with s len show ?thesis by simp
qed

lemma length_strip_zeros: "length (strip_zeros s) \<le> length s"
  by (metis length_rev length_dropWhile_le strip_zeros_def)

lemma strip_zeros_digits [simp]: "list_all is_digit s \<Longrightarrow> list_all is_digit (strip_zeros s)"
  by (metis append_is_Nil_conv list_all_append strip_zeros_restore)

lemma strip_zeros_Nil: "list_all is_digit s \<Longrightarrow> strip_zeros s = [] \<Longrightarrow> digits_val s = 0"
  by (metis digits_val_zeros self_append_conv2 strip_zeros_restore)

section \<open>BigInt\<close>

text \<open>Division and remainder of \<open>bigint\<close> truncate towards zero.\<close>

definition bigint_div :: "int \<Rightarrow> int \<Rightarrow> int" where
  "bigint_div a b = sgn a * sgn b * (\<bar>a\<bar> div \<bar>b\<bar>)"

definition bigint_mod :: "int \<Rightarrow> int \<Rightarrow> int" where
  "bigint_mod a b = a - b * bigint_div a b"

definition bigint_toString :: "int \<Rightarrow> string" where
  "bigint_toString v = (if v < 0 then CHR ''-'' # show_digits (- v) else show_digits v)"

lemma bigint_div_nonneg [simp]: "0 \<le> a \<Longrightarrow> 0 < b \<Longrightarrow> bigint_div a b = a div b"
  by (cases "a = 0") (simp_all add: bigint_div_def sgn_if)

lemma bigint_mod_nonneg [simp]: "0 \<le> a \<Longrightarrow> 0 < b \<Longrightarrow> bigint_mod a b = a mod b"
  by (simp add: bigint_mod_def minus_mult_div_eq_mod)

lemma bigint_toString_nonneg [simp]: "0 \<le> v \<Longrightarrow> bigint_toString v = show_digits v"
  by (simp add: bigint_toString_def)

definition hex_val :: "char \<Rightarrow> int" where
  "hex_val c = (if is_digit c then digit_val c
     else if 97 \<le> char_code c \<and> char_code c \<le> 122 then char_code c - 87
     else if 65 \<le> char_code c \<and> char_code c \<le> 90 then char_code c - 55 else 36)"

text \<open>The literals \<open>0x\<close>, \<open>0o\<close>, \<open>0b\<close> that both \<open>Number\<close> and \<open>BigInt\<close> read.\<close>

definition radix_literal :: "string \<Rightarrow> int option" where
  "radix_literal s =
     (case s of
        z # x # c # cs \<Rightarrow>
          (let r = (if x = CHR ''x'' \<or> x = CHR ''X'' then 16
                    else if x = CHR ''o'' \<or> x = CHR ''O'' then 8
                    else if x = CHR ''b'' \<or> x = CHR ''B'' then 2 else 0)
           in if z = CHR ''0'' \<and> r \<noteq> 0 \<and> list_all (\<lambda>d. hex_val d < r) (c # cs)
              then Some (foldl (\<lambda>a d. r * a + hex_val d) 0 (c # cs)) else None)
      | _ \<Rightarrow> None)"

definition all_digits :: "string \<Rightarrow> bool" where
  "all_digits s \<longleftrightarrow> s \<noteq> [] \<and> list_all is_digit s"

text \<open>\<open>BigInt(s)\<close>: \<^const>\<open>None\<close> is the \<open>SyntaxError\<close>.\<close>

definition BigInt :: "string \<Rightarrow> int option" where
  "BigInt s0 =
     (let s = trim s0 in
      case s of
        [] \<Rightarrow> Some 0
      | c # cs \<Rightarrow>
          if all_digits s then Some (digits_val s)
          else if c = CHR ''-'' \<and> all_digits cs then Some (- digits_val cs)
          else if c = CHR ''+'' \<and> all_digits cs then Some (digits_val cs)
          else radix_literal s)"

lemma trim_no_space:
  assumes "list_all (\<lambda>c. \<not> is_space c) s"
  shows "trim s = s"
proof -
  have id: "dropWhile is_space t = t" if "list_all (\<lambda>c. \<not> is_space c) t" for t
    using that by (cases t) auto
  from assms have "list_all (\<lambda>c. \<not> is_space c) (rev s)" by (simp add: list_all_iff)
  with assms show ?thesis by (simp add: trim_def id)
qed

lemma trim_digits [simp]: "list_all is_digit s \<Longrightarrow> trim s = s"
  by (rule trim_no_space) (auto simp: list_all_iff)

lemma BigInt_digits: "all_digits s \<Longrightarrow> BigInt s = Some (digits_val s)"
  by (auto simp: BigInt_def all_digits_def Let_def split: list.splits)

lemma BigInt_digit_list: "list_all is_digit s \<Longrightarrow> BigInt s = Some (digits_val s)"
  by (cases "s = []") (simp_all add: BigInt_digits all_digits_def, simp add: BigInt_def trim_def)

lemma BigInt_toString [simp]: "0 \<le> v \<Longrightarrow> BigInt (bigint_toString v) = Some v"
  by (simp add: BigInt_digits all_digits_def)

end
