(* ===== verification/JsNumber.thy ===== *)
theory JsNumber
  imports JsValue
begin

text \<open>
  \<open>number\<close> values (IEEE binary64, modelled by the exact rational each finite value denotes; the
  sign of zero is not represented), the conversions between numbers and strings that ECMAScript
  specifies, and JSON values.
\<close>

datatype jsnum = NaN | PosInf | NegInf | Fin rat

section \<open>Rounding to binary64\<close>

function bit_len :: "int \<Rightarrow> int" where
  "bit_len n = (if n \<le> 0 then 0 else 1 + bit_len (n div 2))"
  by pat_completeness auto
termination
  by (relation "measure nat") auto

declare bit_len.simps [simp del]

definition pow2 :: "int \<Rightarrow> rat" where
  "pow2 e = (if 0 \<le> e then 2 ^ nat e else 1 / 2 ^ nat (- e))"

definition pow10 :: "int \<Rightarrow> rat" where
  "pow10 e = (if 0 \<le> e then 10 ^ nat e else 1 / 10 ^ nat (- e))"

text \<open>The exponent \<open>k\<close> with \<open>2\<^sup>k \<le> q < 2\<^sup>k\<^sup>+\<^sup>1\<close> for positive \<open>q\<close>.\<close>

definition ilog2 :: "rat \<Rightarrow> int" where
  "ilog2 q =
     (let (n, d) = quotient_of q;
          k = bit_len n - bit_len d
      in if pow2 k \<le> q then k else k - 1)"

definition round_half_even :: "rat \<Rightarrow> int" where
  "round_half_even q =
     (let f = \<lfloor>q\<rfloor>; r = q - of_int f
      in if r < 1 / 2 then f else if 1 / 2 < r then f + 1 else if even f then f else f + 1)"

definition round_double :: "rat \<Rightarrow> jsnum" where
  "round_double q =
     (if q = 0 then Fin 0
      else let e = max (- 1074) (ilog2 \<bar>q\<bar> - 52);
               m = round_half_even (\<bar>q\<bar> / pow2 e)
           in if e < 971 \<or> e = 971 \<and> m < 2 ^ 53 then Fin (sgn q * (of_int m * pow2 e))
              else if 0 < q then PosInf else NegInf)"

section \<open>Integers of moderate size are exact\<close>

lemma bit_len_le: "n < 2 ^ k \<Longrightarrow> bit_len n \<le> int k"
proof (induction k arbitrary: n)
  case 0
  then show ?case by (simp add: bit_len.simps)
next
  case (Suc k)
  then have "n div 2 < 2 ^ k" by simp
  then have "bit_len (n div 2) \<le> int k" by (rule Suc.IH)
  then show ?case by (subst bit_len.simps) simp
qed

lemma ilog2_int_le: "n < 2 ^ Suc k \<Longrightarrow> ilog2 (of_int n) \<le> int k"
proof -
  assume "n < 2 ^ Suc k"
  then have "bit_len n \<le> int (Suc k)" by (rule bit_len_le)
  moreover have "bit_len 1 = 1" by (simp add: bit_len.simps)
  ultimately show ?thesis by (simp add: ilog2_def quotient_of_int Let_def)
qed

lemma round_half_even_int [simp]: "round_half_even (of_int n) = n"
  by (simp add: round_half_even_def)

lemma round_double_int: "\<bar>n\<bar> < 2 ^ 53 \<Longrightarrow> round_double (of_int n) = Fin (of_int n)"
proof (cases "n = 0")
  case False
  assume n: "\<bar>n\<bar> < 2 ^ 53"
  define e where "e = max (- 1074) (ilog2 \<bar>of_int n\<bar> - 52)"
  define j where "j = nat (- e)"
  have "ilog2 (of_int \<bar>n\<bar>) \<le> int 52" using n by (intro ilog2_int_le) simp
  then have "e \<le> 0" by (simp add: e_def)
  then have p: "pow2 e = 1 / 2 ^ j" by (auto simp: pow2_def j_def)
  have "\<bar>of_int n\<bar> / pow2 e = of_int (\<bar>n\<bar> * 2 ^ j)" by (simp add: p)
  then have m: "round_half_even (\<bar>of_int n\<bar> / pow2 e) = \<bar>n\<bar> * 2 ^ j" by (simp only: round_half_even_int)
  have "\<bar>of_int n :: rat\<bar> * 2 ^ j * pow2 e = \<bar>of_int n\<bar>" by (simp add: p)
  then have "sgn (of_int n) * (\<bar>of_int n :: rat\<bar> * 2 ^ j * pow2 e) = of_int n" by (simp only: sgn_mult_abs)
  then show ?thesis
    using False \<open>e \<le> 0\<close> m by (simp add: round_double_def e_def [symmetric] Let_def)
qed (simp add: round_double_def)

section \<open>From strings to numbers\<close>

text \<open>An unsigned decimal literal: digits, fraction, exponent.\<close>

definition exponent_part :: "string \<Rightarrow> int option" where
  "exponent_part s =
     (case s of
        [] \<Rightarrow> Some 0
      | e # r \<Rightarrow>
          if e \<noteq> CHR ''e'' \<and> e \<noteq> CHR ''E'' then None
          else if all_digits r then Some (digits_val r)
          else (case r of
                  sg # ds \<Rightarrow>
                    if all_digits ds \<and> sg = CHR ''-'' then Some (- digits_val ds)
                    else if all_digits ds \<and> sg = CHR ''+'' then Some (digits_val ds)
                    else None
                | [] \<Rightarrow> None))"

definition decimal_literal :: "string \<Rightarrow> rat option" where
  "decimal_literal s =
     (let w = takeWhile is_digit s;
          r = dropWhile is_digit s;
          (f, r') = (case r of
                       c # t \<Rightarrow> if c = CHR ''.'' then (takeWhile is_digit t, dropWhile is_digit t)
                               else ([], r)
                     | [] \<Rightarrow> ([], []))
      in if w = [] \<and> f = [] then None
         else map_option (\<lambda>e. of_int (digits_val (w @ f)) * pow10 (e - int (length f)))
                (exponent_part r'))"

definition neg_num :: "jsnum \<Rightarrow> jsnum" where
  "neg_num x = (case x of NaN \<Rightarrow> NaN | PosInf \<Rightarrow> NegInf | NegInf \<Rightarrow> PosInf | Fin q \<Rightarrow> Fin (- q))"

definition unsigned_number :: "string \<Rightarrow> jsnum" where
  "unsigned_number s =
     (if s = ''Infinity'' then PosInf
      else case decimal_literal s of None \<Rightarrow> NaN | Some q \<Rightarrow> round_double q)"

text \<open>\<open>Number(s)\<close> for a string.\<close>

definition number_of_string :: "string \<Rightarrow> jsnum" where
  "number_of_string s0 =
     (let s = trim s0 in
      case s of
        [] \<Rightarrow> Fin 0
      | c # cs \<Rightarrow>
          (case radix_literal s of
             Some n \<Rightarrow> round_double (of_int n)
           | None \<Rightarrow>
               if c = CHR ''-'' then neg_num (unsigned_number cs)
               else if c = CHR ''+'' then unsigned_number cs
               else unsigned_number s))"

section \<open>From numbers to strings\<close>

text \<open>The \<open>n\<close> with \<open>10\<^sup>n\<^sup>-\<^sup>1 \<le> q < 10\<^sup>n\<close> for positive \<open>q\<close>.\<close>

definition decimal_point :: "rat \<Rightarrow> int" where
  "decimal_point q =
     (if 1 \<le> q then int (length (show_digits \<lfloor>q\<rfloor>))
      else 1 - int (length (show_digits (\<lceil>1 / q\<rceil> - 1))))"

text \<open>The \<open>k\<close>-digit decimal nearest to \<open>q\<close> that rounds to \<open>q\<close>, if there is one.\<close>

definition digits_candidate :: "rat \<Rightarrow> int \<Rightarrow> nat \<Rightarrow> int option" where
  "digits_candidate q n k =
     (let x = q * pow10 (int k - n); f = \<lfloor>x\<rfloor>;
          lo = round_double (of_int f * pow10 (n - int k)) = Fin q;
          hi = round_double (of_int (f + 1) * pow10 (n - int k)) = Fin q
      in if lo \<and> (\<not> hi \<or> x - of_int f \<le> 1 / 2) then Some f
         else if hi then Some (f + 1) else None)"

fun shortest_digits :: "rat \<Rightarrow> int \<Rightarrow> nat list \<Rightarrow> int \<times> nat" where
  "shortest_digits q n [] = (\<lfloor>q * pow10 (17 - n)\<rfloor>, 17)"
| "shortest_digits q n (k # ks) =
     (case digits_candidate q n k of Some s \<Rightarrow> (s, k) | None \<Rightarrow> shortest_digits q n ks)"

definition format_number :: "string \<Rightarrow> int \<Rightarrow> string" where
  "format_number ds n =
     (let k = int (length ds); e = n - 1;
          ex = CHR ''e'' # (if e < 0 then CHR ''-'' else CHR ''+'') # show_digits \<bar>e\<bar>
      in if k \<le> n \<and> n \<le> 21 then ds @ replicate (nat (n - k)) (CHR ''0'')
         else if 0 < n \<and> n \<le> 21 then take (nat n) ds @ ''.'' @ drop (nat n) ds
         else if - 6 < n \<and> n \<le> 0 then ''0.'' @ replicate (nat (- n)) (CHR ''0'') @ ds
         else if k = 1 then ds @ ex
         else take 1 ds @ ''.'' @ drop 1 ds @ ex)"

definition positive_to_string :: "rat \<Rightarrow> string" where
  "positive_to_string q =
     (let n = decimal_point q;
          (s, k) = shortest_digits q n [1, 2, 3, 4, 5, 6, 7, 8, 9, 10, 11, 12, 13, 14, 15, 16, 17];
          ds = show_digits s
      in if length ds = k then format_number ds n else format_number (take k ds) (n + 1))"

definition string_of_number :: "jsnum \<Rightarrow> string" where
  "string_of_number x =
     (case x of
        NaN \<Rightarrow> ''NaN''
      | PosInf \<Rightarrow> ''Infinity''
      | NegInf \<Rightarrow> ''-Infinity''
      | Fin q \<Rightarrow> if q = 0 then ''0''
                 else if q < 0 then CHR ''-'' # positive_to_string (- q)
                 else positive_to_string q)"

section \<open>Predicates and comparisons on numbers\<close>

definition isFinite :: "jsnum \<Rightarrow> bool" where
  "isFinite x = (case x of Fin _ \<Rightarrow> True | _ \<Rightarrow> False)"

definition isInteger :: "jsnum \<Rightarrow> bool" where
  "isInteger x = (case x of Fin q \<Rightarrow> of_int \<lfloor>q\<rfloor> = q | _ \<Rightarrow> False)"

definition isSafeInteger :: "jsnum \<Rightarrow> bool" where
  "isSafeInteger x \<longleftrightarrow> isInteger x \<and> (case x of Fin q \<Rightarrow> \<bar>q\<bar> \<le> 2 ^ 53 - 1 | _ \<Rightarrow> False)"

text \<open>\<open>Math.trunc\<close> of a finite number.\<close>

definition trunc_rat :: "rat \<Rightarrow> int" where
  "trunc_rat q = (if q < 0 then \<lceil>q\<rceil> else \<lfloor>q\<rfloor>)"

fun num_less :: "jsnum \<Rightarrow> jsnum \<Rightarrow> bool" where
  "num_less NaN _ = False"
| "num_less _ NaN = False"
| "num_less PosInf _ = False"
| "num_less _ NegInf = False"
| "num_less NegInf _ = True"
| "num_less _ PosInf = True"
| "num_less (Fin p) (Fin q) = (p < q)"

section \<open>JSON values\<close>

text \<open>
  A value of type \<open>unknown\<close>. The fields of an object are listed in the order in which
  \<open>Object.keys\<close> enumerates them.
\<close>

datatype jsval =
    JUndefined
  | JNull
  | JBool bool
  | JNum jsnum
  | JStr string
  | JArr "jsval list"
  | JObj "(string \<times> jsval) list"

fun join_with :: "string \<Rightarrow> string list \<Rightarrow> string" where
  "join_with sep [] = []"
| "join_with sep [x] = x"
| "join_with sep (x # y # xs) = x @ sep @ join_with sep (y # xs)"

definition is_nullish :: "jsval \<Rightarrow> bool" where
  "is_nullish v = (case v of JUndefined \<Rightarrow> True | JNull \<Rightarrow> True | _ \<Rightarrow> False)"

text \<open>Truthiness of a value.\<close>

definition js_truthy :: "jsval \<Rightarrow> bool" where
  "js_truthy v = (case v of
     JUndefined \<Rightarrow> False | JNull \<Rightarrow> False | JBool b \<Rightarrow> b | JNum x \<Rightarrow> x \<noteq> NaN \<and> x \<noteq> Fin 0
   | JStr s \<Rightarrow> s \<noteq> [] | JArr _ \<Rightarrow> True | JObj _ \<Rightarrow> True)"

text \<open>\<open>String(v)\<close>\<close>

fun js_String :: "jsval \<Rightarrow> string" where
  "js_String JUndefined = ''undefined''"
| "js_String JNull = ''null''"
| "js_String (JBool b) = (if b then ''true'' else ''false'')"
| "js_String (JNum x) = string_of_number x"
| "js_String (JStr s) = s"
| "js_String (JArr vs) =
     join_with '','' (map (\<lambda>v. if is_nullish v then [] else js_String v) vs)"
| "js_String (JObj _) = ''[object Object]''"

text \<open>\<open>Number(v)\<close>\<close>

fun js_Number :: "jsval \<Rightarrow> jsnum" where
  "js_Number JUndefined = NaN"
| "js_Number JNull = Fin 0"
| "js_Number (JBool b) = Fin (if b then 1 else 0)"
| "js_Number (JNum x) = x"
| "js_Number (JStr s) = number_of_string s"
| "js_Number (JArr vs) = number_of_string (js_String (JArr vs))"
| "js_Number (JObj _) = NaN"

text \<open>Reading a field: \<open>undefined\<close> when it is absent.\<close>

definition js_field :: "(string \<times> jsval) list \<Rightarrow> string \<Rightarrow> jsval" where
  "js_field fs k = (case map_of fs k of None \<Rightarrow> JUndefined | Some v \<Rightarrow> v)"

text \<open>\<open>s.includes(t)\<close>\<close>

definition js_includes :: "string \<Rightarrow> string \<Rightarrow> bool" where
  "js_includes s t \<longleftrightarrow> (\<exists>k \<in> set [0..<Suc (length s)]. take (length t) (drop k s) = t)"

section \<open>Splitting strings\<close>

text \<open>\<open>s.split(c)\<close> for one separator character, and \<open>s.split(r)\<close> for a class of separators
  that is matched greedily (\<open>/[,\s]+/\<close>): a separator at either end leaves an empty piece.\<close>

fun split_char :: "char \<Rightarrow> string \<Rightarrow> string list" where
  "split_char d [] = [[]]"
| "split_char d (c # cs) =
     (if c = d then [] # split_char d cs
      else case split_char d cs of [] \<Rightarrow> [[c]] | w # ws \<Rightarrow> (c # w) # ws)"

fun split_run :: "(char \<Rightarrow> bool) \<Rightarrow> bool \<Rightarrow> string \<Rightarrow> string list" where
  "split_run sep insep [] = [[]]"
| "split_run sep insep (c # cs) =
     (if sep c then (if insep then split_run sep True cs else [] # split_run sep True cs)
      else case split_run sep False cs of [] \<Rightarrow> [[c]] | w # ws \<Rightarrow> (c # w) # ws)"

definition is_list_sep :: "char \<Rightarrow> bool" where
  "is_list_sep c \<longleftrightarrow> c = CHR '','' \<or> is_space c"

definition split_list :: "string \<Rightarrow> string list" where
  "split_list s = split_run is_list_sep False s"

section \<open>Columns\<close>

text \<open>The database refuses a number that is not a 32-bit integer in an integer column.\<close>

definition int_column :: "jsnum \<Rightarrow> unit res" where
  "int_column x =
     (case x of
        Fin q \<Rightarrow> if isInteger x \<and> - 2147483648 \<le> q \<and> q \<le> 2147483647 then Inr ()
                 else Inl (DatabaseError ''Int out of range'')
      | _ \<Rightarrow> Inl (DatabaseError ''Int out of range''))"

text \<open>\<open>new Date(ms)\<close>; the database client refuses an invalid date.\<close>

definition date_of_ms :: "jsnum \<Rightarrow> time res" where
  "date_of_ms x =
     (case x of
        Fin q \<Rightarrow> if \<bar>q\<bar> \<le> 8640000000000000 then Inr (trunc_rat q) else Inl (DatabaseError ''Invalid Date'')
      | _ \<Rightarrow> Inl (DatabaseError ''Invalid Date''))"

section \<open>JSON text\<close>

text \<open>\<open>JSON.stringify\<close>: \<open>undefined\<close> is dropped from objects and becomes \<open>null\<close> in arrays.\<close>

definition hex_digit :: "int \<Rightarrow> char" where
  "hex_digit n = (if n < 10 then char_of (48 + n) else char_of (87 + n))"

definition json_char :: "char \<Rightarrow> string" where
  "json_char c =
     (let n = char_code c in
      if n = 34 then [CHR 0x5C, CHR 0x22]
      else if n = 92 then [CHR 0x5C, CHR 0x5C]
      else if n = 8 then [CHR 0x5C, CHR ''b''] else if n = 9 then [CHR 0x5C, CHR ''t'']
      else if n = 10 then [CHR 0x5C, CHR ''n''] else if n = 12 then [CHR 0x5C, CHR ''f'']
      else if n = 13 then [CHR 0x5C, CHR ''r'']
      else if n < 32 then CHR 0x5C # ''u00'' @ [hex_digit (n div 16), hex_digit (n mod 16)]
      else [c])"

definition json_string :: "string \<Rightarrow> string" where
  "json_string s = CHR 0x22 # concat (map json_char s) @ [CHR 0x22]"

fun json_stringify :: "jsval \<Rightarrow> string option" where
  "json_stringify JUndefined = None"
| "json_stringify JNull = Some ''null''"
| "json_stringify (JBool b) = Some (if b then ''true'' else ''false'')"
| "json_stringify (JNum x) = Some (if isFinite x then string_of_number x else ''null'')"
| "json_stringify (JStr s) = Some (json_string s)"
| "json_stringify (JArr vs) =
     Some (''['' @ join_with '','' (map (\<lambda>v. case json_stringify v of None \<Rightarrow> ''null'' | Some t \<Rightarrow> t) vs) @ '']'')"
| "json_stringify (JObj fs) =
     Some (''{'' @ join_with '','' (concat (map (\<lambda>(k, v). case json_stringify v of
         None \<Rightarrow> [] | Some t \<Rightarrow> [json_string k @ '':'' @ t]) fs)) @ ''}'')"

section \<open>Arithmetic\<close>

fun num_mul :: "jsnum \<Rightarrow> jsnum \<Rightarrow> jsnum" where
  "num_mul NaN _ = NaN"
| "num_mul _ NaN = NaN"
| "num_mul (Fin p) (Fin q) = round_double (p * q)"
| "num_mul PosInf y = (if num_less (Fin 0) y then PosInf else if num_less y (Fin 0) then NegInf else NaN)"
| "num_mul NegInf y = (if num_less (Fin 0) y then NegInf else if num_less y (Fin 0) then PosInf else NaN)"
| "num_mul (Fin p) PosInf = (if 0 < p then PosInf else if p < 0 then NegInf else NaN)"
| "num_mul (Fin p) NegInf = (if 0 < p then NegInf else if p < 0 then PosInf else NaN)"

fun num_sub :: "jsnum \<Rightarrow> jsnum \<Rightarrow> jsnum" where
  "num_sub NaN _ = NaN"
| "num_sub _ NaN = NaN"
| "num_sub (Fin p) (Fin q) = round_double (p - q)"
| "num_sub PosInf y = (if y = PosInf then NaN else PosInf)"
| "num_sub NegInf y = (if y = NegInf then NaN else NegInf)"
| "num_sub (Fin p) PosInf = NegInf"
| "num_sub (Fin p) NegInf = PosInf"

text \<open>\<open>Math.floor\<close>\<close>

definition num_floor :: "jsnum \<Rightarrow> jsnum" where
  "num_floor x = (case x of Fin q \<Rightarrow> Fin (of_int \<lfloor>q\<rfloor>) | _ \<Rightarrow> x)"

end
