(* ===== verification/DecimalUnits.thy ===== *)
theory DecimalUnits
  imports JsNumber
begin

text \<open>
  Token amounts: the decimal text shown to users and stored in asset metadata against the integer
  number of base units on chain. Three parts of the system convert between them on their own: the
  purchase-request service (\<open>decimalToBaseUnits\<close>, \<open>baseUnitsToDecimal\<close>), the indexer
  (\<open>formatBaseUnits\<close>) and the frontend (\<open>parseTokenAmount\<close>). The lemmas show that the
  conversions are inverse to each other and agree.
\<close>

section \<open>The purchase-request service\<close>

definition asRecord :: "jsval \<Rightarrow> (string \<times> jsval) list" where
  "asRecord v = (case v of JObj fs \<Rightarrow> fs | _ \<Rightarrow> [])"

definition decimalsFromMetadata :: "(string \<times> jsval) list \<Rightarrow> nat" where
  "decimalsFromMetadata metadata =
     (let decimals = js_Number (js_field metadata ''decimals'') in
      case decimals of
        Fin q \<Rightarrow> if isInteger decimals \<and> 0 \<le> q \<and> q \<le> 18 then nat \<lfloor>q\<rfloor> else 6
      | _ \<Rightarrow> 6)"

text \<open>The test \<open>/^\d+(\.\d+)?$/\<close>.\<close>

definition plain_decimal :: "string \<Rightarrow> bool" where
  "plain_decimal s \<longleftrightarrow>
     takeWhile is_digit s \<noteq> [] \<and>
     (case dropWhile is_digit s of [] \<Rightarrow> True | c # t \<Rightarrow> c = CHR ''.'' \<and> all_digits t)"

definition str_or :: "string \<Rightarrow> string \<Rightarrow> string" where
  "str_or s d = (if s = [] then d else s)"

definition decimalToBaseUnits :: "jsval \<Rightarrow> nat \<Rightarrow> int option" where
  "decimalToBaseUnits v decimals =
     (if is_nullish v \<or> v = JStr [] then None
      else let raw = trim (js_String v) in
        if \<not> plain_decimal raw then None
        else let parts = split_char (CHR ''.'') raw;
                 whole = hd parts;
                 fraction = (case tl parts of [] \<Rightarrow> [] | f # _ \<Rightarrow> f);
                 paddedFraction = take decimals (fraction @ replicate decimals (CHR ''0''))
             in case BigInt (str_or whole ''0'') of
                  None \<Rightarrow> None
                | Some w \<Rightarrow>
                    (case BigInt (str_or paddedFraction ''0'') of
                       None \<Rightarrow> None
                     | Some f \<Rightarrow> Some (w * 10 ^ decimals + f)))"

definition baseUnitsToDecimal :: "int \<Rightarrow> nat \<Rightarrow> string" where
  "baseUnitsToDecimal value decimals =
     (let scale = 10 ^ decimals;
          whole = bigint_div value scale;
          fraction = bigint_mod value scale
      in if fraction = 0 then bigint_toString whole
         else bigint_toString whole @ ''.'' @
              strip_zeros (padStart0 decimals (bigint_toString fraction)))"

definition minBigInt :: "int option list \<Rightarrow> int option" where
  "minBigInt values =
     (case List.map_filter (\<lambda>v. v) values of
        [] \<Rightarrow> None
      | v # vs \<Rightarrow> Some (foldl (\<lambda>m x. if x < m then x else m) v vs))"

definition parsePositiveNumber :: "jsval \<Rightarrow> jsnum option" where
  "parsePositiveNumber v =
     (let parsed = js_Number v
      in if isFinite parsed \<and> num_less (Fin 0) parsed then Some parsed else None)"

section \<open>The indexer and the frontend\<close>

definition formatBaseUnits :: "int \<Rightarrow> nat \<Rightarrow> string" where
  "formatBaseUnits value decimals =
     (let scale = 10 ^ decimals in
      if scale = 1 then bigint_toString value
      else let whole = bigint_div value scale; fraction = bigint_mod value scale
           in if fraction = 0 then bigint_toString whole
              else bigint_toString whole @ ''.'' @
                   strip_zeros (padStart0 decimals (bigint_toString fraction)))"

text \<open>\<open>BigInt(10 ** decimals)\<close>: a power of \<open>number\<close>s, rounded to binary64.\<close>

definition bigint_of_number :: "jsnum \<Rightarrow> int res" where
  "bigint_of_number x =
     (case x of
        Fin q \<Rightarrow> if isInteger x then Inr \<lfloor>q\<rfloor> else Inl (JsError ''RangeError'')
      | _ \<Rightarrow> Inl (JsError ''RangeError''))"

definition parseTokenAmount :: "string \<Rightarrow> nat \<Rightarrow> int res" where
  "parseTokenAmount amount decimals =
     (let trimmed = trim amount in
      if \<not> plain_decimal trimmed
      then Inl (JsError (''Invalid token amount: \"'' @ amount @ ''\"''))
      else let parts = split_char (CHR ''.'') trimmed;
               wholePart = hd parts;
               fracPart = (case tl parts of [] \<Rightarrow> [] | f # _ \<Rightarrow> f);
               sliced = take decimals fracPart;
               paddedFrac = sliced @ replicate (decimals - length sliced) (CHR ''0'')
           in case BigInt wholePart of
                None \<Rightarrow> Inl (JsError ''SyntaxError'')
              | Some w \<Rightarrow>
                  (case bigint_of_number (round_double (10 ^ decimals)) of
                     Inl e \<Rightarrow> Inl e
                   | Inr scale \<Rightarrow>
                       (case BigInt paddedFrac of
                          None \<Rightarrow> Inl (JsError ''SyntaxError'')
                        | Some f \<Rightarrow> Inr (w * scale + f))))"

section \<open>Decimal text\<close>

lemma split_char_no_sep: "d \<notin> set s \<Longrightarrow> split_char d s = [s]"
  by (induction s) auto

lemma split_char_once: "d \<notin> set s \<Longrightarrow> split_char d (s @ d # t) = s # split_char d t"
  by (induction s) auto

lemma all_digits_no_dot: "list_all is_digit s \<Longrightarrow> CHR ''.'' \<notin> set s"
  using dot_not_digit(1) by (auto simp: list_all_iff simp del: dot_not_digit)

lemma takeWhile_digits:
  "list_all is_digit w \<Longrightarrow> takeWhile is_digit (w @ CHR ''.'' # f) = w"
  "list_all is_digit w \<Longrightarrow> dropWhile is_digit (w @ CHR ''.'' # f) = CHR ''.'' # f"
  by (induction w) (auto simp: is_digit_def char_code_def)

text \<open>What a string that passes the test looks like, and how the conversions take it apart.\<close>

lemma plain_decimal_cases:
  assumes "plain_decimal s"
  obtains (whole) "all_digits s"
    | (fraction) w f where "s = w @ CHR ''.'' # f" "all_digits w" "all_digits f"
proof (cases "dropWhile is_digit s")
  case Nil
  then have "list_all is_digit s" by (simp add: list_all_iff)
  moreover have "s \<noteq> []" using assms by (auto simp: plain_decimal_def)
  ultimately show ?thesis using whole by (simp add: all_digits_def)
next
  case (Cons c t)
  with assms have "c = CHR ''.''" and t: "all_digits t" and "takeWhile is_digit s \<noteq> []"
    by (auto simp: plain_decimal_def)
  moreover have "list_all is_digit (takeWhile is_digit s)"
    by (auto simp: list_all_iff dest: set_takeWhileD)
  moreover have "s = takeWhile is_digit s @ c # t"
    using Cons takeWhile_dropWhile_id [of is_digit s] by simp
  ultimately show ?thesis using fraction [of "takeWhile is_digit s" t]
    by (simp add: all_digits_def)
qed

lemma plain_decimal_whole: "all_digits s \<Longrightarrow> plain_decimal s"
proof -
  assume *: "all_digits s"
  then have "dropWhile is_digit s = []" by (simp add: all_digits_def list_all_iff)
  moreover from * have "takeWhile is_digit s \<noteq> []" by (cases s) (auto simp: all_digits_def)
  ultimately show ?thesis by (simp only: plain_decimal_def list.case simp_thms not_False_eq_True)
qed

lemma plain_decimal_fraction:
  "all_digits w \<Longrightarrow> all_digits f \<Longrightarrow> plain_decimal (w @ CHR ''.'' # f)"
  by (simp add: plain_decimal_def all_digits_def takeWhile_digits)

lemma plain_decimal_trim: "plain_decimal s \<Longrightarrow> trim s = s"
  by (erule plain_decimal_cases; rule trim_no_space)
    (auto simp: all_digits_def list_all_iff)

lemma split_whole: "all_digits s \<Longrightarrow> split_char (CHR ''.'') s = [s]"
  by (simp add: split_char_no_sep all_digits_no_dot all_digits_def)

lemma split_fraction:
  "all_digits w \<Longrightarrow> all_digits f \<Longrightarrow> split_char (CHR ''.'') (w @ CHR ''.'' # f) = [w, f]"
  by (simp add: split_char_once split_char_no_sep all_digits_no_dot all_digits_def)

lemma BigInt_str_or: "list_all is_digit s \<Longrightarrow> BigInt (str_or s ''0'') = Some (digits_val s)"
proof (cases "s = []")
  case True
  have "BigInt ''0'' = Some 0" by code_simp
  with True show ?thesis by (simp add: str_or_def)
qed (simp add: str_or_def BigInt_digits all_digits_def)

text \<open>The value of a decimal text at a number of decimals: the fraction is cut or extended.\<close>

definition decimal_value :: "string \<Rightarrow> string \<Rightarrow> nat \<Rightarrow> int" where
  "decimal_value w f d = digits_val w * 10 ^ d + digits_val (take d (f @ replicate d (CHR ''0'')))"

lemma take_pad_digits:
  "list_all is_digit f \<Longrightarrow> list_all is_digit (take d (f @ replicate d (CHR ''0'')))"
  by (auto simp: list_all_iff is_digit_def char_code_def dest!: in_set_takeD)

lemma decimalToBaseUnits_whole:
  "all_digits s \<Longrightarrow> decimalToBaseUnits (JStr s) d = Some (decimal_value s [] d)"
  using take_pad_digits [of "[]" d]
  by (auto simp: decimalToBaseUnits_def is_nullish_def plain_decimal_whole split_whole Let_def
      BigInt_str_or plain_decimal_trim decimal_value_def)
    (auto simp: all_digits_def BigInt_str_or)

lemma decimalToBaseUnits_fraction:
  "all_digits w \<Longrightarrow> all_digits f \<Longrightarrow>
   decimalToBaseUnits (JStr (w @ CHR ''.'' # f)) d = Some (decimal_value w f d)"
  using take_pad_digits [of f d]
  by (auto simp: decimalToBaseUnits_def is_nullish_def plain_decimal_fraction split_fraction Let_def
      plain_decimal_trim decimal_value_def)
    (auto simp: all_digits_def BigInt_str_or)

lemma decimalToBaseUnits_nonneg: "decimalToBaseUnits v d = Some n \<Longrightarrow> 0 \<le> n"
proof -
  assume *: "decimalToBaseUnits v d = Some n"
  define raw where "raw = trim (js_String v)"
  from * have p: "plain_decimal raw" and
    n: "\<exists>parts. parts = split_char (CHR ''.'') raw \<and>
        (\<exists>w f. BigInt (str_or (hd parts) ''0'') = Some w \<and>
          BigInt (str_or (take d ((case tl parts of [] \<Rightarrow> [] | f # _ \<Rightarrow> f) @
            replicate d (CHR ''0''))) ''0'') = Some f \<and> n = w * 10 ^ d + f)"
    by (auto simp: decimalToBaseUnits_def Let_def raw_def split: if_splits option.splits)
  from p show ?thesis
  proof (cases rule: plain_decimal_cases)
    case whole
    with n take_pad_digits [of "[]" d] show ?thesis
      by (auto simp: split_whole BigInt_str_or all_digits_def digits_val_nonneg)
  next
    case (fraction w f)
    with n take_pad_digits [of f d] show ?thesis
      by (auto simp: split_fraction BigInt_str_or all_digits_def digits_val_nonneg)
  qed
qed

section \<open>Round trip and agreement\<close>

lemma decimal_value_strip:
  assumes "list_all is_digit p" and "length p = d"
  shows "digits_val (take d (strip_zeros p @ replicate d (CHR ''0''))) = digits_val p"
proof -
  have "length (strip_zeros p) \<le> d" using assms length_strip_zeros by metis
  then have "take d (strip_zeros p @ replicate d (CHR ''0'')) =
      strip_zeros p @ replicate (length p - length (strip_zeros p)) (CHR ''0'')"
    using assms by (simp add: min_def)
  then show ?thesis by (simp add: strip_zeros_restore)
qed

lemma base_units_round_trip:
  assumes "0 \<le> v"
  shows "decimalToBaseUnits (JStr (baseUnitsToDecimal v d)) d = Some v"
proof -
  let ?w = "v div 10 ^ d" and ?f = "v mod 10 ^ d"
  have w: "0 \<le> ?w" and f: "0 \<le> ?f" "?f < 10 ^ d" using assms by (simp_all add: pos_imp_zdiv_nonneg_iff)
  have dw: "all_digits (show_digits ?w)" using w by (simp add: all_digits_def)
  show ?thesis
  proof (cases "?f = 0")
    case True
    then have "v = ?w * 10 ^ d" by (metis add.right_neutral div_mult_mod_eq)
    moreover have "decimal_value (show_digits ?w) [] d = ?w * 10 ^ d"
      using w by (simp add: decimal_value_def)
    ultimately show ?thesis using assms w True dw decimalToBaseUnits_whole [OF dw, of d]
      by (simp add: baseUnitsToDecimal_def Let_def)
  next
    case False
    then have "0 < d" using f by (cases d) auto
    let ?p = "padStart0 d (show_digits ?f)"
    have p: "list_all is_digit ?p" "length ?p = d"
      using f \<open>0 < d\<close> by (simp_all add: length_show_digits)
    have "digits_val ?p = ?f" using f by simp
    with False have "strip_zeros ?p \<noteq> []" using strip_zeros_Nil [OF p(1)] by auto
    with p have ds: "all_digits (strip_zeros ?p)" by (simp add: all_digits_def)
    have "decimal_value (show_digits ?w) (strip_zeros ?p) d = v"
      using w f decimal_value_strip [OF p]
      by (simp add: decimal_value_def del: take_append) (simp add: mult.commute)
    with assms w f False dw ds show ?thesis
      by (simp add: baseUnitsToDecimal_def Let_def decimalToBaseUnits_fraction)
  qed
qed

lemma formatBaseUnits_eq: "formatBaseUnits v d = baseUnitsToDecimal v d"
proof (cases "(10::int) ^ d = 1")
  case True
  have "bigint_div v 1 = v" by (simp add: bigint_div_def mult_sgn_abs)
  with True show ?thesis
    by (simp add: formatBaseUnits_def baseUnitsToDecimal_def bigint_mod_def Let_def)
qed (simp add: formatBaseUnits_def baseUnitsToDecimal_def Let_def)

lemma round_double_pow10: "d \<le> 18 \<Longrightarrow> bigint_of_number (round_double (10 ^ d)) = Inr (10 ^ d)"
proof -
  have "\<forall>d \<in> set [0..<19]. bigint_of_number (round_double (10 ^ d)) = Inr (10 ^ d)"
    by code_simp
  then show "d \<le> 18 \<Longrightarrow> ?thesis" by simp
qed

lemma pad_take:
  "take d f @ replicate (d - length (take d f)) c = take d (f @ replicate d c)"
  by (cases "length f \<le> d") (simp_all add: min_def)

lemma trim_trim [simp]: "trim (trim s) = trim s"
proof -
  have hd: "dropWhile P xs = [] \<or> \<not> P (hd (dropWhile P xs))" for P and xs :: string
    by (cases "dropWhile P xs = []") (auto simp: hd_dropWhile simp del: dropWhile_eq_Nil_conv)
  define t where "t = dropWhile is_space s"
  define u where "u = dropWhile is_space (rev t)"
  have "dropWhile is_space (rev u) = rev u"
  proof (cases "u = []")
    case False
    then obtain ws where "rev t = ws @ u" by (metis takeWhile_dropWhile_id u_def)
    then have "t = rev u @ rev ws" by (metis rev_append rev_rev_ident)
    with False have "hd t = hd (rev u)" and "t \<noteq> []" by auto
    with hd [of is_space s] show ?thesis using False
      by (metis dropWhile_eq_self_iff t_def)
  qed simp
  then show ?thesis by (simp add: trim_def flip: t_def u_def) (simp add: u_def)
qed

lemma parseTokenAmount_agrees:
  assumes "d \<le> 18"
  shows "parseTokenAmount s d =
    (case decimalToBaseUnits (JStr (trim s)) d of
       None \<Rightarrow> Inl (JsError (''Invalid token amount: \"'' @ s @ ''\"''))
     | Some n \<Rightarrow> Inr n)"
proof (cases "plain_decimal (trim s)")
  case False
  then show ?thesis
    by (simp add: parseTokenAmount_def decimalToBaseUnits_def Let_def)
next
  case True
  have pad: "BigInt (take d f @ replicate (d - length (take d f)) (CHR ''0'')) =
      Some (digits_val (take d (f @ replicate d (CHR ''0''))))" if "list_all is_digit f" for f
    unfolding pad_take by (rule BigInt_digit_list) (rule take_pad_digits [OF that])
  from True show ?thesis
  proof (cases rule: plain_decimal_cases)
    case whole
    with assms True pad [of "[]"] show ?thesis
      by (simp add: parseTokenAmount_def Let_def split_whole decimalToBaseUnits_whole
        round_double_pow10 BigInt_digits decimal_value_def)
  next
    case (fraction w f)
    with assms True pad [of f] show ?thesis
      by (simp add: parseTokenAmount_def Let_def split_fraction decimalToBaseUnits_fraction
        round_double_pow10 BigInt_digits decimal_value_def all_digits_def del: take_append)
  qed
qed

section \<open>Properties\<close>

text \<open>
  C32. Base units printed as decimal text, by the purchase service or by the indexer, are read
  back as the same number at the same number of decimals.
\<close>

theorem decimal_text_round_trip:
  assumes "0 \<le> v"
  shows "decimalToBaseUnits (JStr (baseUnitsToDecimal v d)) d = Some v \<and>
         decimalToBaseUnits (JStr (formatBaseUnits v d)) d = Some v"
  using assms by (simp add: base_units_round_trip formatBaseUnits_eq)

theorem decimal_text_round_trip_witness:
  "baseUnitsToDecimal 1234500 6 = ''1.2345'' \<and>
   decimalToBaseUnits (JStr (baseUnitsToDecimal 1234500 6)) 6 = Some 1234500"
proof
  show "baseUnitsToDecimal 1234500 6 = ''1.2345''" by code_simp
  show "decimalToBaseUnits (JStr (baseUnitsToDecimal 1234500 6)) 6 = Some 1234500"
    using decimal_text_round_trip [of 1234500 6] by simp
qed



end
