(* ===== verification/Bytes.thy ===== *)
theory Bytes
  imports JsNumber "HOL-Library.Word"
begin

text \<open>
  Byte buffers: \<open>Buffer\<close> of Node.js with the little-endian reads and writes the sources use,
  account data as the RPC returns it, and the parts of \<open>@solana/web3.js\<close> that are parameters of
  the model (key parsing, address derivation, account lookup).
\<close>

type_synonym byte = "8 word"
type_synonym bytes = "byte list"

section \<open>Little-endian integers\<close>

fun le_bytes :: "nat \<Rightarrow> int \<Rightarrow> bytes" where
  "le_bytes 0 v = []"
| "le_bytes (Suc n) v = word_of_int v # le_bytes n (v div 256)"

fun le_val :: "bytes \<Rightarrow> int" where
  "le_val [] = 0"
| "le_val (b # bs) = uint b + 256 * le_val bs"

lemma length_le_bytes [simp]: "length (le_bytes n v) = n"
  by (induction n arbitrary: v) auto

lemma byte_range: "0 \<le> uint (b :: byte)" "uint (b :: byte) < 256"
  using uint_lt2p [of b] by auto

lemma le_val_le_bytes [simp]: "le_val (le_bytes n v) = v mod 256 ^ n"
proof (induction n arbitrary: v)
  case (Suc n)
  have "uint (word_of_int v :: byte) = v mod 256" by (simp add: uint_word_of_int)
  with Suc show ?case by (simp add: zmod_zmult2_eq)
qed simp

lemma le_val_nonneg: "0 \<le> le_val bs"
  by (induction bs) auto

lemma le_val_bound: "le_val bs < 256 ^ length bs"
proof (induction bs)
  case (Cons b bs)
  then show ?case using byte_range [of b] by simp
qed simp

lemma byte_of_sum: "(word_of_int (uint b + 256 * x) :: byte) = b"
proof -
  have "uint (word_of_int (uint b + 256 * x) :: byte) = (uint b + 256 * x) mod 256"
    by (simp only: uint_word_of_int) simp
  also have "\<dots> = uint b" using byte_range [of b] by simp
  finally show ?thesis by (rule word_uint_eqI)
qed

lemma le_bytes_le_val: "le_bytes (length bs) (le_val bs) = bs"
proof (induction bs)
  case (Cons b bs)
  with byte_range [of b] show ?case
    by (simp only: length_Cons le_val.simps le_bytes.simps byte_of_sum) simp
qed simp

lemma le_bytes_inj:
  "le_bytes n v = le_bytes n w \<Longrightarrow> v mod 256 ^ n = w mod 256 ^ n"
  by (metis le_val_le_bytes)

section \<open>Buffers\<close>

text \<open>\<open>data.subarray(a, b)\<close>: the bounds are clamped to the buffer.\<close>

definition subarray :: "bytes \<Rightarrow> nat \<Rightarrow> nat \<Rightarrow> bytes" where
  "subarray data a b = take (b - a) (drop a data)"

text \<open>\<open>readUInt8\<close>, \<open>readUInt16LE\<close>, \<open>readUInt32LE\<close>, \<open>readBigUInt64LE\<close> for a width of
  1, 2, 4 and 8 bytes, and \<open>readBigInt64LE\<close>.\<close>

definition read_uint :: "nat \<Rightarrow> bytes \<Rightarrow> nat \<Rightarrow> int res" where
  "read_uint n data off =
     (if off + n \<le> length data then Inr (le_val (subarray data off (off + n)))
      else Inl (JsError ''ERR_OUT_OF_RANGE''))"

definition to_signed :: "nat \<Rightarrow> int \<Rightarrow> int" where
  "to_signed n v = (if v < 256 ^ n div 2 then v else v - 256 ^ n)"

definition read_int :: "nat \<Rightarrow> bytes \<Rightarrow> nat \<Rightarrow> int res" where
  "read_int n data off =
     (case read_uint n data off of Inl e \<Rightarrow> Inl e | Inr v \<Rightarrow> Inr (to_signed n v))"

text \<open>\<open>writeUInt16LE\<close> and \<open>writeUInt32LE\<close> refuse a value that does not fit.\<close>

definition write_uint :: "nat \<Rightarrow> int \<Rightarrow> bytes res" where
  "write_uint n v =
     (if 0 \<le> v \<and> v < 256 ^ n then Inr (le_bytes n v) else Inl (JsError ''ERR_OUT_OF_RANGE''))"

lemma subarray_at [simp]: "subarray (pre @ bs @ post) (length pre) (length pre + length bs) = bs"
  by (simp add: subarray_def)

lemma length_subarray: "length (subarray d a b) = min (b - a) (length d - a)"
  by (simp add: subarray_def min.commute)

lemma read_uint_at:
  assumes "length bs = n"
  shows "read_uint n (pre @ bs @ post) (length pre) = Inr (le_val bs)"
  using assms subarray_at [of pre bs post] by (simp add: read_uint_def)

lemma to_signed_mod:
  assumes "- (256 ^ n div 2) \<le> v" and "v < 256 ^ n div 2" and "0 < n"
  shows "to_signed n (v mod 256 ^ n) = v"
proof -
  have even: "(256::int) ^ n = 2 * (256 ^ n div 2)" using assms(3) by simp
  have pos: "0 < (256::int) ^ n" by simp
  show ?thesis
  proof (cases "0 \<le> v")
    case True
    then have "v mod 256 ^ n = v" using assms(2) even pos by (intro mod_pos_pos_trivial) linarith+
    then show ?thesis using assms(2) by (simp add: to_signed_def)
  next
    case False
    have "(v + 256 ^ n) mod 256 ^ n = v + 256 ^ n"
      using False assms(1) even pos by (intro mod_pos_pos_trivial) linarith+
    then have "v mod 256 ^ n = v + 256 ^ n" by simp
    then show ?thesis using assms(1) even by (simp add: to_signed_def)
  qed
qed

lemma read_uint_bounds: "read_uint n d off = Inr v \<Longrightarrow> 0 \<le> v \<and> v < 256 ^ n"
proof -
  assume "read_uint n d off = Inr v"
  then have v: "v = le_val (subarray d off (off + n))" and "off + n \<le> length d"
    by (auto simp: read_uint_def split: if_splits)
  then have "length (subarray d off (off + n)) = n" by (simp add: length_subarray)
  with v show ?thesis using le_val_bound [of "subarray d off (off + n)"] le_val_nonneg by simp
qed

section \<open>Keys, addresses and accounts\<close>

text \<open>
  A public key is its 32 bytes. The library functions are parameters; an error is carried as the
  message of the exception. \<open>pk_of_string\<close> is \<open>new PublicKey(text)\<close>, \<open>pk_of_bytes\<close> is
  \<open>new PublicKey(bytes)\<close>, \<open>ata_of\<close> is \<open>getAssociatedTokenAddressSync(mint, owner, false,
  TOKEN_2022_PROGRAM_ID)\<close>, \<open>find_pda\<close> is \<open>findProgramAddressSync\<close>, and \<open>account_info\<close> is the
  reply of the RPC node to \<open>getAccountInfo\<close>.
\<close>

type_synonym pubkey = bytes

record account =
  acc_owner :: pubkey
  acc_data :: bytes

record chain =
  pk_of_string :: "string \<Rightarrow> string + pubkey"
  pk_of_bytes :: "bytes \<Rightarrow> string + pubkey"
  toBase58 :: "pubkey \<Rightarrow> string"
  token_2022 :: pubkey
  ata_of :: "pubkey \<Rightarrow> pubkey \<Rightarrow> string + pubkey"
  find_pda :: "bytes list \<Rightarrow> pubkey \<Rightarrow> string + (pubkey \<times> int)"
  account_info :: "pubkey \<Rightarrow> string + account option"

definition ascii :: "string \<Rightarrow> bytes" where
  "ascii s = map (\<lambda>c. word_of_int (char_code c)) s"

end
