(* ===== verification/Ledger.thy ===== *)
theory Ledger
  imports JsNumber "HOL-Library.Multiset"
begin

text \<open>
  The transaction ledger (\<open>backend/src/blockchain-transactions\<close>): an upsert keyed by the
  transaction hash that the request services call for every hash a reviewer reports. The theory
  gives the table row, the entry a caller passes, \<open>record\<close>, \<open>list\<close> and \<open>count\<close>, and the
  interface \<open>tx_ledger\<close> through which the services reason about it.
\<close>

section \<open>Environment\<close>

text \<open>
  What a handler reads from outside: the two clocks (\<open>Date.now()\<close> and \<open>NOW()\<close> of the
  database, in milliseconds), the identifiers \<open>randomUUID()\<close> yields in turn, the reading of a
  string as a date, and the database's cast of a string to \<open>bigint\<close>.
\<close>

record env =
  js_now :: time
  db_now :: time
  uuid :: "nat \<Rightarrow> string"
  js_date :: "string \<Rightarrow> time option"
  pg_bigint :: "string \<Rightarrow> int option"

section \<open>Rows and entries\<close>

record ledger_row =
  bt_id :: string
  bt_txHash :: string
  bt_actionType :: string
  bt_actorWallet :: "string option"
  bt_entityType :: "string option"
  bt_entityId :: "string option"
  bt_assetId :: "string option"
  bt_tokenContract :: "string option"
  bt_metadata :: "jsval option"
  bt_networkFeeLamports :: "int option"
  bt_rentDepositLamports :: "int option"
  bt_rentRefundLamports :: "int option"
  bt_netSolChangeLamports :: "int option"
  bt_occurredAt :: time
  bt_createdAt :: time

record ledger_entry =
  le_txHash :: string
  le_actionType :: string
  le_actorWallet :: "string option"
  le_entityType :: "string option"
  le_entityId :: "string option"
  le_assetId :: "string option"
  le_tokenContract :: "string option"
  le_metadata :: "jsval option"
  le_networkFeeLamports :: "string option"
  le_rentDepositLamports :: "string option"
  le_rentRefundLamports :: "string option"
  le_netSolChangeLamports :: "string option"
  le_occurredAt :: "string option"

type_synonym ledger = "ledger_row list"

section \<open>Operations\<close>

text \<open>\<open>${s || null}::bigint\<close>\<close>

definition bigint_param :: "env \<Rightarrow> string option \<Rightarrow> int option res" where
  "bigint_param E s =
     (case or_null s of
        None \<Rightarrow> Inr None
      | Some t \<Rightarrow> (case pg_bigint E t of
                     None \<Rightarrow> Inl (DatabaseError ''invalid input syntax for type bigint'')
                   | Some v \<Rightarrow> Inr (Some v)))"

definition occurred_param :: "env \<Rightarrow> string option \<Rightarrow> time res" where
  "occurred_param E s =
     (case or_null s of
        None \<Rightarrow> Inr (js_now E)
      | Some t \<Rightarrow> (case js_date E t of
                     None \<Rightarrow> Inl (DatabaseError ''Invalid Date'')
                   | Some v \<Rightarrow> Inr v))"

text \<open>\<open>entry.metadata ? JSON.stringify(entry.metadata) : null\<close>\<close>

definition metadata_param :: "jsval option \<Rightarrow> jsval option" where
  "metadata_param v =
     (case v of None \<Rightarrow> None | Some w \<Rightarrow> if js_truthy w then Some w else None)"

text \<open>The \<open>VALUES\<close> row of the insert statement.\<close>

definition excluded_row :: "env \<Rightarrow> string \<Rightarrow> ledger_entry \<Rightarrow> ledger_row res" where
  "excluded_row E u entry =
     (case occurred_param E (le_occurredAt entry) of Inl x \<Rightarrow> Inl x | Inr occurredAt \<Rightarrow>
     (case bigint_param E (le_networkFeeLamports entry) of Inl x \<Rightarrow> Inl x | Inr fee \<Rightarrow>
     (case bigint_param E (le_rentDepositLamports entry) of Inl x \<Rightarrow> Inl x | Inr deposit \<Rightarrow>
     (case bigint_param E (le_rentRefundLamports entry) of Inl x \<Rightarrow> Inl x | Inr refund \<Rightarrow>
     (case bigint_param E (le_netSolChangeLamports entry) of Inl x \<Rightarrow> Inl x | Inr net \<Rightarrow>
       Inr \<lparr> bt_id = u,
         bt_txHash = le_txHash entry,
         bt_actionType = le_actionType entry,
         bt_actorWallet = or_null (le_actorWallet entry),
         bt_entityType = or_null (le_entityType entry),
         bt_entityId = or_null (le_entityId entry),
         bt_assetId = or_null (le_assetId entry),
         bt_tokenContract = or_null (le_tokenContract entry),
         bt_metadata = metadata_param (le_metadata entry),
         bt_networkFeeLamports = fee,
         bt_rentDepositLamports = deposit,
         bt_rentRefundLamports = refund,
         bt_netSolChangeLamports = net,
         bt_occurredAt = occurredAt,
         bt_createdAt = db_now E \<rparr>)))))"

definition coalesce :: "'a option \<Rightarrow> 'a option \<Rightarrow> 'a option" where
  "coalesce a b = (case a of None \<Rightarrow> b | Some x \<Rightarrow> Some x)"

text \<open>The \<open>DO UPDATE SET\<close> clause: \<open>x\<close> is \<open>EXCLUDED\<close>, \<open>r\<close> the stored row.\<close>

definition merge_row :: "ledger_row \<Rightarrow> ledger_row \<Rightarrow> ledger_row" where
  "merge_row x r = r\<lparr>
     bt_actionType := bt_actionType x,
     bt_actorWallet := coalesce (bt_actorWallet x) (bt_actorWallet r),
     bt_entityType := coalesce (bt_entityType x) (bt_entityType r),
     bt_entityId := coalesce (bt_entityId x) (bt_entityId r),
     bt_assetId := coalesce (bt_assetId x) (bt_assetId r),
     bt_tokenContract := coalesce (bt_tokenContract x) (bt_tokenContract r),
     bt_networkFeeLamports := coalesce (bt_networkFeeLamports x) (bt_networkFeeLamports r),
     bt_rentDepositLamports := coalesce (bt_rentDepositLamports x) (bt_rentDepositLamports r),
     bt_rentRefundLamports := coalesce (bt_rentRefundLamports x) (bt_rentRefundLamports r),
     bt_netSolChangeLamports := coalesce (bt_netSolChangeLamports x) (bt_netSolChangeLamports r),
     bt_metadata := coalesce (bt_metadata x) (bt_metadata r) \<rparr>"

definition find_tx :: "ledger \<Rightarrow> string \<Rightarrow> ledger_row option" where
  "find_tx l h = List.find (\<lambda>r. bt_txHash r = h) l"

definition upsert :: "ledger_row \<Rightarrow> ledger \<Rightarrow> ledger" where
  "upsert x l =
     (case find_tx l (bt_txHash x) of
        None \<Rightarrow> sql_insert x l
      | Some _ \<Rightarrow> sql_update (\<lambda>r. bt_txHash r = bt_txHash x) (merge_row x) l)"

definition record_tx :: "env \<Rightarrow> string \<Rightarrow> ledger_entry \<Rightarrow> (ledger, ledger_row option) handler" where
  "record_tx E u entry l =
     (case excluded_row E u entry of
        Inl x \<Rightarrow> (l, Inl x)
      | Inr x \<Rightarrow> (let l' = upsert x l in (l', Inr (find_tx l' (le_txHash entry)))))"

text \<open>
  \<open>Promise.all(entries.map((e) => record(e)))\<close>: every statement is issued, each is atomic in the
  database, and the promise rejects with the first error. The statements are run here in the order
  of the list; the lemmas below show when the order does not matter.
\<close>

fun record_all :: "env \<Rightarrow> nat \<Rightarrow> ledger_entry list \<Rightarrow> (ledger, unit) handler" where
  "record_all E k [] l = (l, Inr ())"
| "record_all E k (e # es) l =
     (let (l1, r1) = record_tx E (uuid E k) e l;
          (l2, r2) = record_all E (Suc k) es l1
      in (l2, case r1 of Inl x \<Rightarrow> Inl x | Inr _ \<Rightarrow> r2))"

text \<open>\<open>Math.min(Math.max(Number(limit) || 250, 1), 1000)\<close>\<close>

definition list_take :: "jsval \<Rightarrow> rat" where
  "list_take limit =
     (case js_Number limit of
        NaN \<Rightarrow> 250
      | PosInf \<Rightarrow> 1000
      | NegInf \<Rightarrow> 1
      | Fin q \<Rightarrow> if q = 0 then 250 else min (max q 1) 1000)"

definition list_tx :: "jsval \<Rightarrow> ledger \<Rightarrow> ledger_row list" where
  "list_tx limit l =
     take (nat (round_half_even (list_take limit)))
       (sort_key (\<lambda>r. - bt_occurredAt r) (sort_key (\<lambda>r. - bt_createdAt r) l))"

definition count_tx :: "ledger \<Rightarrow> nat" where
  "count_tx l = length l"

text \<open>An element \<open>hash && b ? { ..., txHash: hash } : null\<close> of a list of entries.\<close>

definition entry_when ::
    "bool \<Rightarrow> string option \<Rightarrow> (string \<Rightarrow> ledger_entry) \<Rightarrow> ledger_entry list" where
  "entry_when b txHash mk = (if b then list_of_option (map_option mk (or_null txHash)) else [])"

section \<open>The ledger interface\<close>

text \<open>
  What a service relies on: an upsert is visible under its hash, carries the action type and at
  least the fields the entry gives, leaves every other hash alone, keeps one row per hash, and its
  effect on a hash depends on the row stored there and on nothing else.
\<close>

locale tx_ledger =
  fixes lookup :: "'l \<Rightarrow> string \<Rightarrow> 'row option"
    and put :: "'e \<Rightarrow> 'l \<Rightarrow> 'l"
    and hash :: "'e \<Rightarrow> string"
    and result :: "'e \<Rightarrow> 'row option \<Rightarrow> 'row"
    and inv :: "'l \<Rightarrow> bool"
  assumes inv_put: "inv l \<Longrightarrow> inv (put e l)"
    and lookup_put: "inv l \<Longrightarrow> lookup (put e l) (hash e) = Some (result e (lookup l (hash e)))"
    and lookup_put_other: "inv l \<Longrightarrow> h \<noteq> hash e \<Longrightarrow> lookup (put e l) h = lookup l h"
begin

lemma inv_put_all: "inv l \<Longrightarrow> inv (fold put es l)"
  by (induction es arbitrary: l) (auto simp: inv_put)

lemma put_all_frame: "inv l \<Longrightarrow> h \<notin> hash ` set es \<Longrightarrow> lookup (fold put es l) h = lookup l h"
  by (induction es arbitrary: l) (auto simp: inv_put lookup_put_other)

lemma put_all_result:
  assumes "inv l" and "distinct (map hash es)" and "e \<in> set es"
  shows "lookup (fold put es l) (hash e) = Some (result e (lookup l (hash e)))"
  using assms
proof (induction es arbitrary: l)
  case (Cons x es)
  show ?case
  proof (cases "e = x")
    case True
    with Cons.prems have "hash e \<notin> hash ` set es" by auto
    with Cons.prems True show ?thesis
      by (simp add: put_all_frame inv_put lookup_put)
  next
    case False
    with Cons.prems have "hash e \<noteq> hash x" by (auto simp: image_iff)
    moreover from Cons False have
      "lookup (fold put es (put x l)) (hash e) = Some (result e (lookup (put x l) (hash e)))"
      by (simp add: inv_put)
    ultimately show ?thesis using Cons.prems by (simp add: lookup_put_other)
  qed
qed simp

lemma put_all_present:
  "inv l \<Longrightarrow> e \<in> set es \<Longrightarrow> \<exists>r. lookup (fold put es l) (hash e) = Some r"
proof (induction es arbitrary: l)
  case (Cons x es)
  have kept: "\<exists>r. lookup (fold put es l') h = Some r" if "inv l'" "lookup l' h = Some r" for l' h r
    using that by (induction es arbitrary: l' r)
      (simp, metis fold_simps(2) inv_put lookup_put lookup_put_other)
  show ?case
  proof (cases "e = x")
    case True
    with Cons.prems kept [of "put x l" "hash x"] show ?thesis by (simp add: inv_put lookup_put)
  next
    case False
    with Cons show ?thesis by (simp add: inv_put)
  qed
qed simp

lemma put_all_order:
  assumes "inv l" and "mset es = mset es'" and "distinct (map hash es)"
  shows "lookup (fold put es l) h = lookup (fold put es' l) h"
proof -
  from assms(2) have s: "set es = set es'" by (rule mset_eq_setD)
  from assms(2) have "mset (map hash es) = mset (map hash es')" by simp
  with assms(3) have d': "distinct (map hash es')" by (metis mset_eq_imp_distinct_iff)
  show ?thesis
  proof (cases "h \<in> hash ` set es")
    case True
    then obtain e where "e \<in> set es" "h = hash e" by auto
    with assms(1,3) d' s show ?thesis by (simp add: put_all_result)
  next
    case False
    with assms(1) s show ?thesis by (simp add: put_all_frame)
  qed
qed

end

section \<open>The ledger meets the interface\<close>

definition ledger_inv :: "ledger \<Rightarrow> bool" where
  "ledger_inv l \<longleftrightarrow> distinct (map bt_txHash l)"

definition merged :: "ledger_row \<Rightarrow> ledger_row option \<Rightarrow> ledger_row" where
  "merged x old = (case old of None \<Rightarrow> x | Some r \<Rightarrow> merge_row x r)"

lemma merge_row_key [simp]: "bt_txHash (merge_row x r) = bt_txHash r"
  by (simp add: merge_row_def)

interpretation ledger_rows: keyed_table bt_txHash merge_row
  by unfold_locales simp

lemma ledger_inv_upsert: "ledger_inv l \<Longrightarrow> ledger_inv (upsert x l)"
  by (auto simp: ledger_inv_def upsert_def find_tx_def find_None_all image_iff
      intro!: ledger_rows.distinct_keys_insert ledger_rows.distinct_keys_update
      split: option.splits)

lemma find_tx_upsert: "find_tx (upsert x l) (bt_txHash x) = Some (merged x (find_tx l (bt_txHash x)))"
  by (auto simp: upsert_def find_tx_def merged_def ledger_rows.find_same find_insert
      split: option.splits)

lemma find_tx_upsert_other:
  "h \<noteq> bt_txHash x \<Longrightarrow> find_tx (upsert x l) h = find_tx l h"
  by (auto simp: upsert_def find_tx_def ledger_rows.find_other find_insert split: option.splits)

interpretation txl: tx_ledger find_tx upsert bt_txHash merged ledger_inv
  by unfold_locales (simp_all add: ledger_inv_upsert find_tx_upsert find_tx_upsert_other)

section \<open>Entries made by the request services\<close>

text \<open>
  The services never pass fees, metadata or a date, so their entries are always accepted; the row
  they upsert is \<open>plain_row\<close>.
\<close>

definition plain_entry :: "ledger_entry \<Rightarrow> bool" where
  "plain_entry e \<longleftrightarrow> le_networkFeeLamports e = None \<and> le_rentDepositLamports e = None \<and>
     le_rentRefundLamports e = None \<and> le_netSolChangeLamports e = None \<and> le_occurredAt e = None"

definition plain_row :: "env \<Rightarrow> string \<Rightarrow> ledger_entry \<Rightarrow> ledger_row" where
  "plain_row E u e = \<lparr> bt_id = u, bt_txHash = le_txHash e, bt_actionType = le_actionType e,
     bt_actorWallet = or_null (le_actorWallet e), bt_entityType = or_null (le_entityType e),
     bt_entityId = or_null (le_entityId e), bt_assetId = or_null (le_assetId e),
     bt_tokenContract = or_null (le_tokenContract e), bt_metadata = metadata_param (le_metadata e),
     bt_networkFeeLamports = None, bt_rentDepositLamports = None, bt_rentRefundLamports = None,
     bt_netSolChangeLamports = None, bt_occurredAt = js_now E, bt_createdAt = db_now E \<rparr>"

lemma excluded_plain: "plain_entry e \<Longrightarrow> excluded_row E u e = Inr (plain_row E u e)"
  by (simp add: plain_entry_def excluded_row_def plain_row_def occurred_param_def bigint_param_def
      or_null_def truthy_def)

lemma plain_row_hash [simp]: "bt_txHash (plain_row E u e) = le_txHash e"
  by (simp add: plain_row_def)

definition plain_rows :: "env \<Rightarrow> nat \<Rightarrow> ledger_entry list \<Rightarrow> ledger_row list" where
  "plain_rows E k es = map (\<lambda>(i, e). plain_row E (uuid E i) e) (zip [k..<k + length es] es)"

lemma plain_rows_Cons:
  "plain_rows E k (e # es) = plain_row E (uuid E k) e # plain_rows E (Suc k) es"
  by (simp add: plain_rows_def upt_conv_Cons del: upt_Suc)

lemma plain_rows_hashes: "map bt_txHash (plain_rows E k es) = map le_txHash es"
proof (induction es arbitrary: k)
  case (Cons e es)
  then show ?case by (simp add: plain_rows_Cons)
qed (simp add: plain_rows_def)

lemma record_all_plain:
  "list_all plain_entry es \<Longrightarrow> record_all E k es l = (fold upsert (plain_rows E k es) l, Inr ())"
proof (induction es arbitrary: k l)
  case (Cons e es)
  then show ?case by (simp add: record_tx_def excluded_plain plain_rows_Cons Let_def)
qed (simp add: plain_rows_def)

lemma record_all_inv: "ledger_inv l \<Longrightarrow> ledger_inv (fst (record_all E k es l))"
proof (induction es arbitrary: k l)
  case (Cons e es)
  have "ledger_inv (fst (record_tx E (uuid E k) e l))"
    using Cons.prems by (auto simp: record_tx_def ledger_inv_upsert Let_def split: sum.splits)
  with Cons.IH [of "fst (record_tx E (uuid E k) e l)" "Suc k"] show ?case
    by (auto simp: case_prod_beta Let_def)
qed simp

lemma plain_rows_mem:
  "e \<in> set es \<Longrightarrow> \<exists>u. plain_row E u e \<in> set (plain_rows E k es)"
  by (induction es arbitrary: k) (auto simp: plain_rows_Cons)

lemma record_all_present:
  assumes "list_all plain_entry es" and "ledger_inv l" and "e \<in> set es"
  shows "\<exists>r. find_tx (fst (record_all E k es l)) (le_txHash e) = Some r"
proof -
  from plain_rows_mem [OF assms(3)] obtain u where "plain_row E u e \<in> set (plain_rows E k es)"
    by blast
  with assms show ?thesis using txl.put_all_present [of l "plain_row E u e"]
    by (simp add: record_all_plain)
qed

lemma record_all_frame:
  assumes "list_all plain_entry es" and "ledger_inv l" and "h \<notin> le_txHash ` set es"
  shows "find_tx (fst (record_all E k es l)) h = find_tx l h"
proof -
  have "bt_txHash ` set (plain_rows E k es) = le_txHash ` set es"
    by (metis list.set_map plain_rows_hashes)
  with assms txl.put_all_frame [of l h "plain_rows E k es"] show ?thesis
    by (simp add: record_all_plain)
qed

lemma set_entry_when:
  "e \<in> set (entry_when b h mk) \<longleftrightarrow> b \<and> (\<exists>t. h = Some t \<and> t \<noteq> [] \<and> e = mk t)"
  by (auto simp: entry_when_def list_of_option_def or_null_def truthy_def split: option.splits)

lemma hashes_entry_when:
  "(\<And>t. le_txHash (mk t) = t) \<Longrightarrow>
   le_txHash ` set (entry_when b h mk) = {t. b \<and> h = Some t \<and> t \<noteq> []}"
  by (force simp: set_entry_when)

lemma list_take_bounds: "1 \<le> list_take v \<and> list_take v \<le> 1000"
  by (auto simp: list_take_def split: jsnum.splits)

section \<open>Properties\<close>

text \<open>Recording a batch keeps one row per hash and touches the hashes of the batch only.\<close>

lemma record_all_upserts:
  assumes "list_all plain_entry es" and "ledger_inv l"
  shows "ledger_inv (fst (record_all E k es l)) \<and> snd (record_all E k es l) = Inr () \<and>
    (\<forall>h. (h \<in> le_txHash ` set es \<longrightarrow> find_tx (fst (record_all E k es l)) h \<noteq> None) \<and>
         (h \<notin> le_txHash ` set es \<longrightarrow> find_tx (fst (record_all E k es l)) h = find_tx l h))"
proof (intro conjI allI impI)
  show "snd (record_all E k es l) = Inr ()" using assms(1) by (simp add: record_all_plain)
qed (use record_all_present [OF assms] record_all_frame [OF assms] record_all_inv [OF assms(2)]
  in auto)

lemma ledger_upserts_commute:
  assumes "ledger_inv l" and "mset es = mset es'" and "distinct (map bt_txHash es)"
  shows "find_tx (fold upsert es l) h = find_tx (fold upsert es' l) h"
  using assms by (rule txl.put_all_order)

section \<open>A concrete environment\<close>

definition sample_env :: "string \<Rightarrow> env" where
  "sample_env prefix = \<lparr> js_now = 1700000000000, db_now = 1700000000001,
     uuid = (\<lambda>k. prefix @ show_digits (int k)), js_date = (\<lambda>s. None), pg_bigint = BigInt \<rparr>"

definition sample_entry :: "string \<Rightarrow> ledger_entry" where
  "sample_entry h = \<lparr> le_txHash = h, le_actionType = ''MINT'', le_actorWallet = Some ''w'',
     le_entityType = None, le_entityId = None, le_assetId = None, le_tokenContract = None,
     le_metadata = None, le_networkFeeLamports = None, le_rentDepositLamports = None,
     le_rentRefundLamports = None, le_netSolChangeLamports = None, le_occurredAt = None \<rparr>"

lemma record_all_upserts_witness:
  "find_tx (fst (record_all (sample_env ''l'') 0 [sample_entry ''h1'', sample_entry ''h2''] [])) ''h2'' \<noteq> None"
proof -
  have "list_all plain_entry [sample_entry ''h1'', sample_entry ''h2'']" "ledger_inv []" by code_simp+
  from record_all_upserts [OF this] show ?thesis by (simp add: sample_entry_def)
qed

lemma ledger_upserts_commute_witness:
  "find_tx (fold upsert [plain_row (sample_env ''l'') ''a'' (sample_entry ''h1''),
       plain_row (sample_env ''l'') ''b'' (sample_entry ''h2'')] []) ''h1'' =
   find_tx (fold upsert [plain_row (sample_env ''l'') ''b'' (sample_entry ''h2''),
       plain_row (sample_env ''l'') ''a'' (sample_entry ''h1'')] []) ''h1''"
proof (rule ledger_upserts_commute)
  show "ledger_inv []" by code_simp
  show "mset [plain_row (sample_env ''l'') ''a'' (sample_entry ''h1''),
       plain_row (sample_env ''l'') ''b'' (sample_entry ''h2'')] =
     mset [plain_row (sample_env ''l'') ''b'' (sample_entry ''h2''),
       plain_row (sample_env ''l'') ''a'' (sample_entry ''h1'')]" by (simp add: add_mset_commute)
  show "distinct (map bt_txHash [plain_row (sample_env ''l'') ''a'' (sample_entry ''h1''),
       plain_row (sample_env ''l'') ''b'' (sample_entry ''h2'')])" by code_simp
qed

end
