(* ===== verification/PurchaseRequests.thy ===== *)
theory PurchaseRequests
  imports DecimalUnits Bytes Ledger
begin

text \<open>
  Token purchase requests (\<open>backend/src/token-purchase-requests\<close>): an investor asks for tokens,
  the service checks the request against the compliance parameters of the asset, against the
  balances the indexer wrote and against the live Max Investors module, and stores it; reviewers
  then move it through the review states until it is minted, rejected or cancelled.
\<close>

section \<open>Statuses\<close>

definition CLOSED_STATUSES :: "string list" where
  "CLOSED_STATUSES = [''REJECTED'', ''CANCELLED'', ''MINTED'']"

definition ACTIVE_STATUSES :: "string list" where
  "ACTIVE_STATUSES = [''SUBMITTED'', ''PENDING_KYC'', ''PENDING_AML'', ''PENDING_ISSUER_REVIEW'',
     ''APPROVED_FOR_MINT'', ''ACTION_REQUIRED_INVESTOR_IDENTITY'']"

definition VALID_STATUSES :: "string list" where
  "VALID_STATUSES = [''SUBMITTED'', ''PENDING_KYC'', ''PENDING_AML'', ''PENDING_ISSUER_REVIEW'',
     ''APPROVED_FOR_MINT'', ''ACTION_REQUIRED_INVESTOR_IDENTITY'', ''REJECTED'', ''CANCELLED'',
     ''MINTED'']"

section \<open>Rows, inputs and state\<close>

record purchase_row =
  pr_id :: string
  pr_assetId :: "string option"
  pr_tokenContract :: string
  pr_investorWallet :: string
  pr_amount :: "jsnum option"
  pr_fullName :: "string option"
  pr_email :: "string option"
  pr_nationality :: "string option"
  pr_country :: "string option"
  pr_idDocumentUrl :: "string option"
  pr_proofOfAddressUrl :: "string option"
  pr_kycProvider :: "string option"
  pr_amlProvider :: "string option"
  pr_issuerWallet :: "string option"
  pr_requiredClaimTopics :: "string list"
  pr_documents :: "jsval option"
  pr_status :: string
  pr_kycApprovedAt :: "time option"
  pr_kycApprovedBy :: "string option"
  pr_kycClaimTxHash :: "string option"
  pr_amlApprovedAt :: "time option"
  pr_amlApprovedBy :: "string option"
  pr_amlClaimTxHash :: "string option"
  pr_issuerApprovedAt :: "time option"
  pr_issuerApprovedBy :: "string option"
  pr_whitelistTxHash :: "string option"
  pr_whitelistedAt :: "time option"
  pr_activationTxHash :: "string option"
  pr_activatedAt :: "time option"
  pr_mintTxHash :: "string option"
  pr_mintedAt :: "time option"
  pr_rejectionReason :: "string option"
  pr_rejectedAt :: "time option"
  pr_rejectedBy :: "string option"
  pr_createdAt :: time
  pr_updatedAt :: time

text \<open>\<open>CreateTokenPurchaseRequestDto\<close> and \<open>UpdateTokenPurchaseRequestDto\<close>\<close>

record create_purchase =
  cp_assetId :: "string option"
  cp_tokenContract :: string
  cp_investorWallet :: string
  cp_issuerWallet :: string
  cp_kycProvider :: "string option"
  cp_amlProvider :: "string option"
  cp_amount :: jsnum
  cp_fullName :: "string option"
  cp_email :: "string option"
  cp_nationality :: "string option"
  cp_country :: "string option"
  cp_idDocumentUrl :: "string option"
  cp_proofOfAddressUrl :: "string option"
  cp_requiredClaimTopics :: "string list option"
  cp_investorFidRegistered :: "bool option"
  cp_documents :: jsval

record update_purchase =
  up_status :: "string option"
  up_reviewerWallet :: "string option"
  up_rejectionReason :: "string option"
  up_claimTxHash :: "string option"
  up_mintTxHash :: "string option"
  up_whitelistTxHash :: "string option"
  up_activationTxHash :: "string option"

text \<open>The columns of the other tables that the service reads.\<close>

record asset_row =
  as_tokenContract :: string
  as_metadata :: jsval

record balance_row =
  tb_tokenContract :: string
  tb_walletAddress :: string
  tb_balance :: string

record token_state_row =
  ts_tokenContract :: string
  ts_totalSupply :: string

record purchase_db =
  pd_assets :: "asset_row list"
  pd_balances :: "balance_row list"
  pd_states :: "token_state_row list"
  pd_requests :: "purchase_row list"
  pd_ledger :: ledger

text \<open>The chain as the service sees it, with the address of the Max Investors program.\<close>

record purchase_chain = chain +
  maxInvestorsProgram :: pubkey

section \<open>Reading compliance parameters\<close>

fun parseCountryList :: "jsval \<Rightarrow> int list" where
  "parseCountryList (JArr vs) = concat (map parseCountryList vs)"
| "parseCountryList (JNum (Fin q)) = [trunc_rat q]"
| "parseCountryList (JStr s) =
     List.map_filter
       (\<lambda>entry. case number_of_string (trim entry) of Fin q \<Rightarrow> Some (trunc_rat q) | _ \<Rightarrow> None)
       (split_list s)"
| "parseCountryList _ = []"

definition country_cap_of :: "jsnum \<Rightarrow> jsnum \<Rightarrow> (int \<times> int) option" where
  "country_cap_of country cap =
     (case (country, cap) of
        (Fin a, Fin b) \<Rightarrow> Some (trunc_rat a, trunc_rat b)
      | _ \<Rightarrow> None)"

definition parseCountryCaps :: "jsval \<Rightarrow> (int \<times> int) list" where
  "parseCountryCaps v =
     (case v of
        JArr vs \<Rightarrow>
          List.map_filter
            (\<lambda>entry. let r = asRecord entry
               in country_cap_of (js_Number (js_field r ''country'')) (js_Number (js_field r ''cap'')))
            vs
      | JStr s \<Rightarrow>
          List.map_filter
            (\<lambda>entry. case map trim (split_char (CHR '':'') entry) of
                 c # k # _ \<Rightarrow> country_cap_of (number_of_string c) (number_of_string k)
               | _ \<Rightarrow> None)
            (split_list s)
      | _ \<Rightarrow> [])"

definition getComplianceParamSets :: "(string \<times> jsval) list \<Rightarrow> (string \<times> jsval) list list" where
  "getComplianceParamSets metadata =
     filter (\<lambda>params. params \<noteq> [])
       (map (\<lambda>(k, v). asRecord v) (asRecord (js_field metadata ''complianceModuleParams'')))"

fun getParamValue :: "(string \<times> jsval) list list \<Rightarrow> string \<Rightarrow> jsval" where
  "getParamValue [] key = JUndefined"
| "getParamValue (params # rest) key =
     (case map_of params key of Some v \<Rightarrow> v | None \<Rightarrow> getParamValue rest key)"

section \<open>Statuses of a new and of a resumed request\<close>

definition review_status :: "string list \<Rightarrow> string option \<Rightarrow> string option \<Rightarrow> string" where
  "review_status topics kycProvider amlProvider =
     (if ''1'' \<in> set topics \<and> truthy kycProvider then ''PENDING_KYC''
      else if ''2'' \<in> set topics \<and> truthy amlProvider then ''PENDING_AML''
      else ''PENDING_ISSUER_REVIEW'')"

definition topics_of :: "string list option \<Rightarrow> string list" where
  "topics_of ts = (case ts of None \<Rightarrow> [] | Some xs \<Rightarrow> xs)"

definition getInitialStatus :: "create_purchase \<Rightarrow> string" where
  "getInitialStatus data =
     (if cp_investorFidRegistered data = Some False then ''ACTION_REQUIRED_INVESTOR_IDENTITY''
      else review_status (topics_of (cp_requiredClaimTopics data))
             (cp_kycProvider data) (cp_amlProvider data))"

definition getResumeStatus :: "purchase_row \<Rightarrow> string" where
  "getResumeStatus r =
     review_status (pr_requiredClaimTopics r) (pr_kycProvider r) (pr_amlProvider r)"

section \<open>Balances and open requests\<close>

definition getWalletBalanceBaseUnits :: "purchase_db \<Rightarrow> string \<Rightarrow> string \<Rightarrow> int" where
  "getWalletBalanceBaseUnits db tokenContract walletAddress =
     (case List.find (\<lambda>b. tb_tokenContract b = tokenContract \<and> tb_walletAddress b = walletAddress)
             (pd_balances db) of
        None \<Rightarrow> 0
      | Some b \<Rightarrow> if tb_balance b = [] then 0
                  else case BigInt (tb_balance b) of None \<Rightarrow> 0 | Some n \<Rightarrow> n)"

definition read_u64 :: "bytes \<Rightarrow> nat \<Rightarrow> string + int" where
  "read_u64 data off =
     (case read_uint 8 data off of Inl _ \<Rightarrow> Inl ''out of range'' | Inr v \<Rightarrow> Inr v)"

definition getLiveWalletBalanceBaseUnits ::
    "purchase_chain \<Rightarrow> string \<Rightarrow> string \<Rightarrow> string + int" where
  "getLiveWalletBalanceBaseUnits C tokenContract walletAddress =
     (case pk_of_string C tokenContract of Inl e \<Rightarrow> Inl e | Inr mint \<Rightarrow>
     (case pk_of_string C walletAddress of Inl e \<Rightarrow> Inl e | Inr wallet \<Rightarrow>
     (case ata_of C mint wallet of Inl e \<Rightarrow> Inl e | Inr ata \<Rightarrow>
     (case account_info C ata of
        Inl e \<Rightarrow> Inl e
      | Inr None \<Rightarrow> Inr 0
      | Inr (Some account) \<Rightarrow>
          if acc_owner account \<noteq> token_2022 C \<or> length (acc_data account) < 72
          then Inl (''Token account '' @ toBase58 C ata @ '' is malformed.'')
          else read_u64 (acc_data account) 64))))"

definition getLiveMaxInvestorsState :: "purchase_chain \<Rightarrow> string \<Rightarrow> string + (int \<times> int)" where
  "getLiveMaxInvestorsState C tokenContract =
     (case pk_of_string C tokenContract of Inl e \<Rightarrow> Inl e | Inr mint \<Rightarrow>
     (case find_pda C [ascii ''mod_max_investors'', mint] (maxInvestorsProgram C) of
        Inl e \<Rightarrow> Inl e
      | Inr (moduleState, bump) \<Rightarrow>
     (case account_info C moduleState of
        Inl e \<Rightarrow> Inl e
      | Inr None \<Rightarrow>
          Inl (''Max Investors module account '' @ toBase58 C moduleState @ '' is missing.'')
      | Inr (Some account) \<Rightarrow>
          if acc_owner account \<noteq> maxInvestorsProgram C \<or> length (acc_data account) < 120
          then Inl (''Max Investors module account '' @ toBase58 C moduleState @ '' is malformed.'')
          else (case read_u64 (acc_data account) 104 of Inl e \<Rightarrow> Inl e | Inr maxInvestors \<Rightarrow>
               (case read_u64 (acc_data account) 112 of Inl e \<Rightarrow> Inl e | Inr holderCount \<Rightarrow>
                  Inr (maxInvestors, holderCount))))))"

definition getActiveRequests :: "purchase_db \<Rightarrow> string \<Rightarrow> purchase_row list" where
  "getActiveRequests db tokenContract =
     filter (\<lambda>r. pr_tokenContract r = tokenContract \<and> pr_status r \<in> set ACTIVE_STATUSES)
       (pd_requests db)"

definition getCountryRequestWallets :: "purchase_db \<Rightarrow> string \<Rightarrow> int \<Rightarrow> string list" where
  "getCountryRequestWallets db tokenContract country =
     map toLowerCase (remdups (map pr_investorWallet
       (filter (\<lambda>r. pr_tokenContract r = tokenContract \<and>
                    pr_country r = Some (string_of_number (Fin (of_int country))) \<and>
                    pr_status r \<in> set (ACTIVE_STATUSES @ [''MINTED'']))
         (pd_requests db))))"

definition is_open_request :: "string \<Rightarrow> string \<Rightarrow> purchase_row \<Rightarrow> bool" where
  "is_open_request tokenContract investorWallet r \<longleftrightarrow>
     pr_tokenContract r = tokenContract \<and> pr_investorWallet r = investorWallet \<and>
     pr_status r \<notin> set CLOSED_STATUSES"

definition getActiveRequestForInvestor :: "purchase_db \<Rightarrow> string \<Rightarrow> string \<Rightarrow> string option" where
  "getActiveRequestForInvestor db tokenContract investorWallet =
     map_option pr_id (List.find (is_open_request tokenContract investorWallet) (pd_requests db))"

section \<open>The compliance check\<close>

text \<open>The argument of \<open>preflight\<close> and \<open>calculateCompliance\<close>, and the value returned.\<close>

record compliance_query =
  cq_tokenContract :: string
  cq_investorWallet :: string
  cq_country :: jsval
  cq_amount :: jsval

record compliance_result =
  cr_ok :: bool
  cr_canOpenForm :: bool
  cr_amountOk :: bool
  cr_amountError :: "string option"
  cr_blockingReasons :: "string list"
  cr_countryAllowed :: bool
  cr_investorCapReached :: bool
  cr_countryCapReached :: bool
  cr_supplyCapReached :: bool
  cr_duplicateActiveRequest :: bool
  cr_decimals :: nat
  cr_currentSupply :: string
  cr_reservedSupply :: string
  cr_supplyRemaining :: "string option"
  cr_maxRequestableTokens :: "string option"

text \<open>
  The parts of \<open>calculateCompliance\<close> in the order of the code. A step that may push a blocking
  reason yields the reason, so that the list of reasons is the concatenation of the steps.
\<close>

definition asset_metadata :: "purchase_db \<Rightarrow> string \<Rightarrow> (string \<times> jsval) list" where
  "asset_metadata db tokenContract =
     (case List.find (\<lambda>a. as_tokenContract a = tokenContract) (pd_assets db) of
        None \<Rightarrow> asRecord JUndefined
      | Some a \<Rightarrow> asRecord (as_metadata a))"

definition asset_params :: "purchase_db \<Rightarrow> string \<Rightarrow> (string \<times> jsval) list list" where
  "asset_params db tokenContract = getComplianceParamSets (asset_metadata db tokenContract)"

definition asset_decimals :: "purchase_db \<Rightarrow> string \<Rightarrow> nat" where
  "asset_decimals db tokenContract = decimalsFromMetadata (asset_metadata db tokenContract)"

definition asset_limit :: "purchase_db \<Rightarrow> string \<Rightarrow> string \<Rightarrow> int option" where
  "asset_limit db tokenContract key =
     decimalToBaseUnits (getParamValue (asset_params db tokenContract) key)
       (asset_decimals db tokenContract)"

definition requested_base_units :: "purchase_db \<Rightarrow> compliance_query \<Rightarrow> int option" where
  "requested_base_units db q =
     (if is_nullish (cq_amount q) \<or> cq_amount q = JStr [] then None
      else decimalToBaseUnits (cq_amount q) (asset_decimals db (cq_tokenContract q)))"

definition investor_country :: "compliance_query \<Rightarrow> jsnum option" where
  "investor_country q =
     (if is_nullish (cq_country q) \<or> cq_country q = JStr [] then None
      else Some (js_Number (cq_country q)))"

text \<open>\<open>Number.isFinite(investorCountry)\<close> and then \<open>Math.trunc(investorCountry)\<close>\<close>

definition finite_country :: "compliance_query \<Rightarrow> int option" where
  "finite_country q = (case investor_country q of Some (Fin c) \<Rightarrow> Some (trunc_rat c) | _ \<Rightarrow> None)"

definition duplicate_reason :: "purchase_db \<Rightarrow> compliance_query \<Rightarrow> string option" where
  "duplicate_reason db q =
     (case getActiveRequestForInvestor db (cq_tokenContract q) (cq_investorWallet q) of
        None \<Rightarrow> None
      | Some _ \<Rightarrow> Some ''An open purchase request already exists for this investor and token.'')"

definition country_reason :: "purchase_db \<Rightarrow> compliance_query \<Rightarrow> string option" where
  "country_reason db q =
     (let allowedCountries =
            parseCountryList (getParamValue (asset_params db (cq_tokenContract q)) ''allowed_countries'')
      in if allowedCountries = [] then None
         else case investor_country q of
                Some (Fin c) \<Rightarrow>
                  if trunc_rat c \<in> set allowedCountries then None
                  else Some (''Investor country '' @ string_of_number (Fin c) @
                             '' is not allowed by this token.'')
              | _ \<Rightarrow> Some ''Investor country is required for this token.'')"

text \<open>
  The balance used by the checks, the live state \<open>(maxInvestors, holderCount)\<close> when it could be
  read, and the reason pushed when it could not. The live balance is assigned before the module
  state is read, so it stays when that read fails.
\<close>

definition live_checks ::
    "purchase_chain \<Rightarrow> purchase_db \<Rightarrow> compliance_query \<Rightarrow> int \<times> (int \<times> int) option \<times> string option"
    where
  "live_checks C db q =
     (let indexedCurrentBalance =
            getWalletBalanceBaseUnits db (cq_tokenContract q) (cq_investorWallet q);
          configuredMaxInvestors =
            js_Number (getParamValue (asset_params db (cq_tokenContract q)) ''max_investors'');
          failed = (\<lambda>m. Some (''Unable to verify the live Max Investors compliance module: '' @ m))
      in if isFinite configuredMaxInvestors \<and> num_less (Fin 0) configuredMaxInvestors
         then (case getLiveWalletBalanceBaseUnits C (cq_tokenContract q) (cq_investorWallet q) of
                 Inl m \<Rightarrow> (indexedCurrentBalance, None, failed m)
               | Inr live \<Rightarrow>
                   (case getLiveMaxInvestorsState C (cq_tokenContract q) of
                      Inl m \<Rightarrow> (live, None, failed m)
                    | Inr state \<Rightarrow> (live, Some state, None)))
         else (indexedCurrentBalance, None, None))"

definition lockup_reason :: "env \<Rightarrow> purchase_db \<Rightarrow> compliance_query \<Rightarrow> string option" where
  "lockup_reason E db q =
     (let lockupEnd = getParamValue (asset_params db (cq_tokenContract q)) ''lockup_end''
      in if lockupEnd = JUndefined then None
         else case js_Number lockupEnd of
                Fin lockupEndSeconds \<Rightarrow>
                  if of_int (js_now E div 1000) < lockupEndSeconds
                  then Some (''This token is locked until Unix time '' @
                             string_of_number (Fin (of_int (trunc_rat lockupEndSeconds))) @ ''.'')
                  else None
              | _ \<Rightarrow> None)"

definition holder_wallets :: "purchase_db \<Rightarrow> string \<Rightarrow> string list" where
  "holder_wallets db tokenContract =
     map (\<lambda>b. toLowerCase (tb_walletAddress b))
       (filter (\<lambda>b. tb_tokenContract b = tokenContract \<and> tb_balance b \<noteq> ''0'') (pd_balances db))"

definition active_new_investors :: "purchase_db \<Rightarrow> compliance_query \<Rightarrow> string set" where
  "active_new_investors db q =
     set (map toLowerCase
       (filter (\<lambda>wallet. toLowerCase wallet \<noteq> toLowerCase (cq_investorWallet q) \<and>
                  toLowerCase wallet \<notin> set (holder_wallets db (cq_tokenContract q)))
         (map pr_investorWallet (getActiveRequests db (cq_tokenContract q)))))"

definition investor_cap_reason ::
    "purchase_db \<Rightarrow> compliance_query \<Rightarrow> int \<Rightarrow> (int \<times> int) option \<Rightarrow> string option" where
  "investor_cap_reason db q currentBalance liveState =
     (case liveState of
        None \<Rightarrow> None
      | Some (liveMaxInvestors, liveHolderCount) \<Rightarrow>
          if currentBalance = 0 \<and>
             liveHolderCount + int (card (active_new_investors db q)) \<ge> liveMaxInvestors
          then Some (''This token has reached its maximum investor count of '' @
                     bigint_toString liveMaxInvestors @ ''.'')
          else None)"

definition reserved_wallets :: "purchase_db \<Rightarrow> compliance_query \<Rightarrow> int \<Rightarrow> string set" where
  "reserved_wallets db q country =
     insert (toLowerCase (cq_investorWallet q))
       (set (getCountryRequestWallets db (cq_tokenContract q) country))"

definition country_cap_reason ::
    "purchase_db \<Rightarrow> compliance_query \<Rightarrow> int \<Rightarrow> string option" where
  "country_cap_reason db q currentBalance =
     (let countryCaps =
            parseCountryCaps (getParamValue (asset_params db (cq_tokenContract q)) ''country_caps'')
      in if countryCaps \<noteq> [] \<and> currentBalance = 0
         then (case finite_country q of
                 None \<Rightarrow> None
               | Some country \<Rightarrow>
                   (case List.find (\<lambda>(c, cap). c = country) countryCaps of
                      None \<Rightarrow> None
                    | Some (c, cap) \<Rightarrow>
                        if int (card (reserved_wallets db q country)) > cap
                        then Some (''This token has reached its investor cap for country '' @
                                   string_of_number (Fin (of_int country)) @ ''.'')
                        else None))
         else None)"

definition current_supply :: "purchase_db \<Rightarrow> string \<Rightarrow> int res" where
  "current_supply db tokenContract =
     (case List.find (\<lambda>t. ts_tokenContract t = tokenContract) (pd_states db) of
        None \<Rightarrow> Inr 0
      | Some t \<Rightarrow>
          if ts_totalSupply t = [] then Inr 0
          else case BigInt (ts_totalSupply t) of
                 None \<Rightarrow> Inl (JsError (''Cannot convert '' @ ts_totalSupply t @ '' to a BigInt''))
               | Some n \<Rightarrow> Inr n)"

definition request_base_units :: "nat \<Rightarrow> purchase_row \<Rightarrow> int" where
  "request_base_units decimals r =
     (case decimalToBaseUnits (JNum (case pr_amount r of None \<Rightarrow> Fin 0 | Some x \<Rightarrow> x)) decimals of
        None \<Rightarrow> 0
      | Some v \<Rightarrow> v)"

definition reserved_supply :: "purchase_db \<Rightarrow> string \<Rightarrow> int" where
  "reserved_supply db tokenContract =
     foldl (\<lambda>sum r. sum + request_base_units (asset_decimals db tokenContract) r) 0
       (getActiveRequests db tokenContract)"

definition remaining_under :: "int option \<Rightarrow> int \<Rightarrow> int option" where
  "remaining_under limit used =
     (case limit of None \<Rightarrow> None | Some m \<Rightarrow> Some (if m > used then m - used else 0))"

definition supply_cap_reason :: "int option \<Rightarrow> string option" where
  "supply_cap_reason supplyRemaining =
     (case supplyRemaining of
        None \<Rightarrow> None
      | Some n \<Rightarrow> if n \<le> 0 then Some ''This token has reached its supply cap.'' else None)"

text \<open>The assignments to \<open>amountError\<close> in the order of the code: a later one overwrites.\<close>

definition exceeds :: "int option \<Rightarrow> int option \<Rightarrow> bool" where
  "exceeds amount limit =
     (case (amount, limit) of (Some a, Some m) \<Rightarrow> a > m | _ \<Rightarrow> False)"

definition amount_error ::
    "nat \<Rightarrow> int option \<Rightarrow> int option \<Rightarrow> int option \<Rightarrow> int option \<Rightarrow> string option" where
  "amount_error decimals amount maxAmount maxBalanceRemaining supplyRemaining =
     (if exceeds amount supplyRemaining
      then Some (''Only '' @ baseUnitsToDecimal (the supplyRemaining) decimals @
                 '' tokens remain available for request.'')
      else if exceeds amount maxBalanceRemaining
      then Some (''Requested amount would exceed this token's maximum wallet balance. '' @
                 ''You can request up to '' @
                 baseUnitsToDecimal (the maxBalanceRemaining) decimals @ '' tokens.'')
      else if exceeds amount maxAmount
      then Some (''Requested amount exceeds this token's maximum mint/transfer amount of '' @
                 baseUnitsToDecimal (the maxAmount) decimals @ '' tokens.'')
      else (case amount of
              Some a \<Rightarrow> if a \<le> 0 then Some ''Enter a positive token amount.'' else None
            | None \<Rightarrow> None))"

definition calculateCompliance ::
    "env \<Rightarrow> purchase_chain \<Rightarrow> compliance_query \<Rightarrow> purchase_db \<Rightarrow> compliance_result res" where
  "calculateCompliance E C q db =
     (let tokenContract = cq_tokenContract q;
          decimals = asset_decimals db tokenContract;
          amountBaseUnits = requested_base_units db q;
          duplicate = duplicate_reason db q;
          country = country_reason db q;
          (currentBalance, liveState, liveError) = live_checks C db q;
          maxAmount = asset_limit db tokenContract ''max_amount'';
          maxBalance = asset_limit db tokenContract ''max_balance'';
          maxBalanceRemaining = remaining_under maxBalance currentBalance;
          lockup = lockup_reason E db q;
          investorCap = investor_cap_reason db q currentBalance liveState;
          countryCap = country_cap_reason db q currentBalance;
          maxSupply = asset_limit db tokenContract ''max_supply''
      in case current_supply db tokenContract of
           Inl e \<Rightarrow> Inl e
         | Inr currentSupply \<Rightarrow>
             (let reservedSupply = reserved_supply db tokenContract;
                  supplyRemaining = remaining_under maxSupply (currentSupply + reservedSupply);
                  supplyCap = supply_cap_reason supplyRemaining;
                  amountError = amount_error decimals amountBaseUnits maxAmount
                                  maxBalanceRemaining supplyRemaining;
                  blockingReasons = concat (map list_of_option
                    [duplicate, country, liveError, lockup, investorCap, countryCap, supplyCap]);
                  maxRequestableBaseUnits =
                    minBigInt [supplyRemaining, maxAmount, maxBalanceRemaining]
              in Inr \<lparr>
                   cr_ok = (blockingReasons = [] \<and> amountError = None),
                   cr_canOpenForm = (country = None \<and> investorCap = None \<and> countryCap = None \<and>
                                     supplyCap = None),
                   cr_amountOk = (amountError = None \<and>
                     (case amountBaseUnits of None \<Rightarrow> False | Some a \<Rightarrow> a > 0)),
                   cr_amountError = amountError,
                   cr_blockingReasons = blockingReasons,
                   cr_countryAllowed = (country = None),
                   cr_investorCapReached = (investorCap \<noteq> None),
                   cr_countryCapReached = (countryCap \<noteq> None),
                   cr_supplyCapReached = (supplyCap \<noteq> None),
                   cr_duplicateActiveRequest = (duplicate \<noteq> None),
                   cr_decimals = decimals,
                   cr_currentSupply = baseUnitsToDecimal currentSupply decimals,
                   cr_reservedSupply = baseUnitsToDecimal reservedSupply decimals,
                   cr_supplyRemaining =
                     map_option (\<lambda>v. baseUnitsToDecimal v decimals) supplyRemaining,
                   cr_maxRequestableTokens =
                     map_option (\<lambda>v. baseUnitsToDecimal v decimals) maxRequestableBaseUnits \<rparr>))"

section \<open>Handlers\<close>

definition purchase_preflight ::
    "env \<Rightarrow> purchase_chain \<Rightarrow> compliance_query \<Rightarrow> purchase_db \<Rightarrow> compliance_result res" where
  "purchase_preflight E C q db =
     (if cq_tokenContract q = [] \<or> cq_investorWallet q = []
      then Inl (BadRequestException ''tokenContract and investorWallet are required.'')
      else calculateCompliance E C q db)"

definition query_of :: "create_purchase \<Rightarrow> compliance_query" where
  "query_of data = \<lparr> cq_tokenContract = cp_tokenContract data,
     cq_investorWallet = cp_investorWallet data,
     cq_country = (case cp_country data of None \<Rightarrow> JUndefined | Some c \<Rightarrow> JStr c),
     cq_amount = JNum (cp_amount data) \<rparr>"

definition validateCompliance ::
    "env \<Rightarrow> purchase_chain \<Rightarrow> create_purchase \<Rightarrow> purchase_db \<Rightarrow> unit res" where
  "validateCompliance E C data db =
     (case calculateCompliance E C (query_of data) db of
        Inl e \<Rightarrow> Inl e
      | Inr result \<Rightarrow>
          (case cr_amountError result of
             Some m \<Rightarrow> Inl (BadRequestException m)
           | None \<Rightarrow>
               (case cr_blockingReasons result of
                  m # _ \<Rightarrow> Inl (BadRequestException m)
                | [] \<Rightarrow> Inr ())))"

definition new_purchase_row :: "env \<Rightarrow> string \<Rightarrow> create_purchase \<Rightarrow> purchase_row" where
  "new_purchase_row E u data = \<lparr>
     pr_id = u,
     pr_assetId = or_null (cp_assetId data),
     pr_tokenContract = cp_tokenContract data,
     pr_investorWallet = cp_investorWallet data,
     pr_amount = Some (cp_amount data),
     pr_fullName = or_null (cp_fullName data),
     pr_email = or_null (cp_email data),
     pr_nationality = or_null (cp_nationality data),
     pr_country = or_null (cp_country data),
     pr_idDocumentUrl = or_null (cp_idDocumentUrl data),
     pr_proofOfAddressUrl = or_null (cp_proofOfAddressUrl data),
     pr_kycProvider = or_null (cp_kycProvider data),
     pr_amlProvider = or_null (cp_amlProvider data),
     pr_issuerWallet = Some (cp_issuerWallet data),
     pr_requiredClaimTopics = topics_of (cp_requiredClaimTopics data),
     pr_documents = (if js_truthy (cp_documents data) then Some (cp_documents data) else None),
     pr_status = getInitialStatus data,
     pr_kycApprovedAt = None, pr_kycApprovedBy = None, pr_kycClaimTxHash = None,
     pr_amlApprovedAt = None, pr_amlApprovedBy = None, pr_amlClaimTxHash = None,
     pr_issuerApprovedAt = None, pr_issuerApprovedBy = None,
     pr_whitelistTxHash = None, pr_whitelistedAt = None,
     pr_activationTxHash = None, pr_activatedAt = None,
     pr_mintTxHash = None, pr_mintedAt = None,
     pr_rejectionReason = None, pr_rejectedAt = None, pr_rejectedBy = None,
     pr_createdAt = db_now E,
     pr_updatedAt = db_now E \<rparr>"

text \<open>
  \<open>create\<close> awaits three times: the checks read the tables first, then a second query looks for an
  open request, and only then is the row inserted. Each part is a definition of its own, since
  other calls may run in between; \<open>create_purchase_request\<close> is a call that nothing interrupts.
\<close>

definition refuse_open_request :: "create_purchase \<Rightarrow> purchase_db \<Rightarrow> unit res" where
  "refuse_open_request data db =
     (case List.find (is_open_request (cp_tokenContract data) (cp_investorWallet data))
             (pd_requests db) of
        Some _ \<Rightarrow> Inl (ConflictException
          ''An open purchase request already exists for this investor and token.'')
      | None \<Rightarrow> Inr ())"

definition store_purchase_request ::
    "env \<Rightarrow> create_purchase \<Rightarrow> (purchase_db, purchase_row) handler" where
  "store_purchase_request E data db =
     (let row = new_purchase_row E (uuid E 0) data
      in (db\<lparr>pd_requests := sql_insert row (pd_requests db)\<rparr>, Inr row))"

definition create_purchase_request ::
    "env \<Rightarrow> purchase_chain \<Rightarrow> create_purchase \<Rightarrow> (purchase_db, purchase_row) handler" where
  "create_purchase_request E C data db =
     (case validateCompliance E C data db of
        Inl e \<Rightarrow> (db, Inl e)
      | Inr _ \<Rightarrow>
          (case refuse_open_request data db of
             Inl e \<Rightarrow> (db, Inl e)
           | Inr _ \<Rightarrow> store_purchase_request E data db))"

record purchase_filter =
  pf_investorWallet :: "string option"
  pf_kycProvider :: "string option"
  pf_amlProvider :: "string option"
  pf_issuerWallet :: "string option"
  pf_status :: "string option"
  pf_tokenContract :: "string option"

definition purchase_matches :: "purchase_filter \<Rightarrow> purchase_row \<Rightarrow> bool" where
  "purchase_matches q r \<longleftrightarrow>
     query_match (pf_investorWallet q) (Some (pr_investorWallet r)) \<and>
     query_match (pf_kycProvider q) (pr_kycProvider r) \<and>
     query_match (pf_amlProvider q) (pr_amlProvider r) \<and>
     query_match (pf_issuerWallet q) (pr_issuerWallet r) \<and>
     query_match (pf_status q) (Some (pr_status r)) \<and>
     query_match (pf_tokenContract q) (Some (pr_tokenContract r))"

definition findAll_purchases :: "purchase_filter \<Rightarrow> purchase_db \<Rightarrow> purchase_row list" where
  "findAll_purchases q db =
     sort_key (\<lambda>r. - pr_createdAt r) (filter (purchase_matches q) (pd_requests db))"

definition findOne_purchase :: "string \<Rightarrow> purchase_db \<Rightarrow> purchase_row res" where
  "findOne_purchase i db =
     (case List.find (\<lambda>r. pr_id r = i) (pd_requests db) of
        None \<Rightarrow> Inl (NotFoundException ''Token purchase request not found'')
      | Some r \<Rightarrow> Inr r)"

text \<open>The assignments of the \<open>UPDATE\<close> statement, in the order they are pushed.\<close>

definition set_kyc_approved :: "env \<Rightarrow> update_purchase \<Rightarrow> purchase_row \<Rightarrow> purchase_row" where
  "set_kyc_approved E data r = r\<lparr> pr_kycApprovedAt := Some (js_now E),
     pr_kycApprovedBy := or_null (up_reviewerWallet data),
     pr_kycClaimTxHash := or_null (up_claimTxHash data) \<rparr>"

definition set_aml_approved :: "env \<Rightarrow> update_purchase \<Rightarrow> purchase_row \<Rightarrow> purchase_row" where
  "set_aml_approved E data r = r\<lparr> pr_amlApprovedAt := Some (js_now E),
     pr_amlApprovedBy := or_null (up_reviewerWallet data),
     pr_amlClaimTxHash := or_null (up_claimTxHash data) \<rparr>"

definition purchase_assignments ::
    "env \<Rightarrow> string \<Rightarrow> string \<Rightarrow> update_purchase \<Rightarrow> purchase_row \<Rightarrow> purchase_row" where
  "purchase_assignments E currentStatus status data r =
     (let now = js_now E;
          reviewer = or_null (up_reviewerWallet data);
          r1 = r\<lparr> pr_status := status, pr_updatedAt := db_now E \<rparr>;
          r2 = apply_if (status = ''PENDING_AML'') (set_kyc_approved E data) r1;
          r3 = apply_if (status = ''PENDING_ISSUER_REVIEW'' \<and> currentStatus = ''PENDING_KYC'')
                 (set_kyc_approved E data) r2;
          r4 = apply_if (status = ''PENDING_ISSUER_REVIEW'' \<and> currentStatus = ''PENDING_AML'')
                 (set_aml_approved E data) r3;
          r5 = apply_if (status = ''APPROVED_FOR_MINT'')
                 (\<lambda>r. r\<lparr> pr_issuerApprovedAt := Some now, pr_issuerApprovedBy := reviewer \<rparr>) r4;
          r6 = apply_if (truthy (up_whitelistTxHash data))
                 (\<lambda>r. r\<lparr> pr_whitelistTxHash := up_whitelistTxHash data,
                        pr_whitelistedAt := Some now \<rparr>) r5;
          r7 = apply_if (truthy (up_activationTxHash data))
                 (\<lambda>r. r\<lparr> pr_activationTxHash := up_activationTxHash data,
                        pr_activatedAt := Some now \<rparr>) r6;
          r8 = apply_if (status = ''MINTED'')
                 (\<lambda>r. r\<lparr> pr_mintedAt := Some now, pr_mintTxHash := or_null (up_mintTxHash data),
                        pr_issuerApprovedBy := reviewer \<rparr>) r7
      in apply_if (status = ''REJECTED'')
           (\<lambda>r. r\<lparr> pr_rejectedAt := Some now, pr_rejectedBy := reviewer,
                  pr_rejectionReason := Some (or_else (up_rejectionReason data) ''Rejected'') \<rparr>) r8)"

text \<open>\<open>ledgerEntries\<close> of \<open>updateStatus\<close>\<close>

definition purchase_entry ::
    "purchase_row \<Rightarrow> update_purchase \<Rightarrow> string \<Rightarrow> string \<Rightarrow> ledger_entry" where
  "purchase_entry existing data txHash actionType = \<lparr>
     le_txHash = txHash, le_actionType = actionType,
     le_actorWallet = or_null (up_reviewerWallet data),
     le_entityType = Some ''token_purchase_request'',
     le_entityId = Some (pr_id existing),
     le_assetId = or_null (pr_assetId existing),
     le_tokenContract = Some (pr_tokenContract existing),
     le_metadata = None, le_networkFeeLamports = None, le_rentDepositLamports = None,
     le_rentRefundLamports = None, le_netSolChangeLamports = None, le_occurredAt = None \<rparr>"

definition purchase_ledger_entries :: "purchase_row \<Rightarrow> update_purchase \<Rightarrow> ledger_entry list" where
  "purchase_ledger_entries existing data =
     (let currentStatus = pr_status existing;
          mk = (\<lambda>actionType txHash. purchase_entry existing data txHash actionType)
      in entry_when (currentStatus = ''PENDING_KYC'') (up_claimTxHash data) (mk ''PURCHASE_KYC_CLAIM'') @
         entry_when (currentStatus = ''PENDING_AML'') (up_claimTxHash data) (mk ''PURCHASE_AML_CLAIM'') @
         entry_when True (up_whitelistTxHash data) (mk ''INVESTOR_WHITELISTED'') @
         entry_when True (up_activationTxHash data) (mk ''IDENTITY_ACTIVATED'') @
         entry_when True (up_mintTxHash data) (mk ''TOKENS_MINTED''))"

definition updateStatus_purchase ::
    "env \<Rightarrow> string \<Rightarrow> update_purchase \<Rightarrow> (purchase_db, purchase_row) handler" where
  "updateStatus_purchase E i data db =
     (case findOne_purchase i db of
        Inl e \<Rightarrow> (db, Inl e)
      | Inr existing \<Rightarrow>
          (case up_status data of
             None \<Rightarrow> (db, Inl (ConflictException ''Invalid token purchase request status.''))
           | Some status \<Rightarrow>
               if status = [] \<or> status \<notin> set VALID_STATUSES
               then (db, Inl (ConflictException ''Invalid token purchase request status.''))
               else
                 (let assign = purchase_assignments E (pr_status existing) status data;
                      requests = sql_update (\<lambda>r. pr_id r = i) assign (pd_requests db);
                      (ledger, recorded) =
                        record_all E 0 (purchase_ledger_entries existing data) (pd_ledger db);
                      db' = db\<lparr> pd_requests := requests, pd_ledger := ledger \<rparr>
                  in (db', case recorded of Inl e \<Rightarrow> Inl e | Inr _ \<Rightarrow> Inr (assign existing)))))"

definition update_purchase_request ::
    "env \<Rightarrow> string \<Rightarrow> update_purchase \<Rightarrow> (purchase_db, purchase_row) handler" where
  "update_purchase_request E i data db =
     (if truthy (up_status data) then updateStatus_purchase E i data db
      else (db, findOne_purchase i db))"

definition resumeAfterIdentity ::
    "env \<Rightarrow> string \<Rightarrow> (purchase_db, purchase_row) handler" where
  "resumeAfterIdentity E i db =
     (case findOne_purchase i db of
        Inl e \<Rightarrow> (db, Inl e)
      | Inr existing \<Rightarrow>
          if pr_status existing \<noteq> ''ACTION_REQUIRED_INVESTOR_IDENTITY'' then (db, Inr existing)
          else (let assign = (\<lambda>r. r\<lparr> pr_status := getResumeStatus existing,
                                     pr_updatedAt := db_now E \<rparr>)
                in (db\<lparr> pd_requests := sql_update (\<lambda>r. pr_id r = i) assign (pd_requests db) \<rparr>,
                    Inr (assign existing))))"

definition remove_purchase :: "string \<Rightarrow> (purchase_db, purchase_row) handler" where
  "remove_purchase i db =
     (case findOne_purchase i db of
        Inl e \<Rightarrow> (db, Inl e)
      | Inr existing \<Rightarrow>
          (db\<lparr> pd_requests := sql_delete (\<lambda>r. pr_id r = i) (pd_requests db) \<rparr>, Inr existing))"

section \<open>What an accepted request satisfies\<close>

definition balance_used :: "purchase_chain \<Rightarrow> purchase_db \<Rightarrow> compliance_query \<Rightarrow> int" where
  "balance_used C db q = fst (live_checks C db q)"

definition live_state_used ::
    "purchase_chain \<Rightarrow> purchase_db \<Rightarrow> compliance_query \<Rightarrow> (int \<times> int) option" where
  "live_state_used C db q = fst (snd (live_checks C db q))"

definition supply_left :: "purchase_db \<Rightarrow> string \<Rightarrow> int \<Rightarrow> int option" where
  "supply_left db tokenContract supply =
     remaining_under (asset_limit db tokenContract ''max_supply'')
       (supply + reserved_supply db tokenContract)"

text \<open>The amount limits of a query: what \<open>maxRequestableTokens\<close> is the minimum of.\<close>

definition amount_limits ::
    "purchase_chain \<Rightarrow> compliance_query \<Rightarrow> purchase_db \<Rightarrow> int \<Rightarrow> int option list" where
  "amount_limits C q db supply =
     [supply_left db (cq_tokenContract q) supply,
      asset_limit db (cq_tokenContract q) ''max_amount'',
      remaining_under (asset_limit db (cq_tokenContract q) ''max_balance'') (balance_used C db q)]"

lemma amount_error_None:
  "amount_error d amount a b s = None \<longleftrightarrow>
     \<not> exceeds amount s \<and> \<not> exceeds amount b \<and> \<not> exceeds amount a \<and>
     (case amount of None \<Rightarrow> True | Some x \<Rightarrow> 0 < x)"
  by (auto simp: amount_error_def split: option.splits)

lemma exceeds_remaining:
  "exceeds (Some a) (remaining_under (Some m) u) \<longleftrightarrow> (if m > u then m < u + a else 0 < a)"
  by (auto simp: exceeds_def remaining_under_def)

text \<open>The verdict as a conjunction of the steps.\<close>

lemma calculateCompliance_ok_iff:
  "(\<exists>r. calculateCompliance E C q db = Inr r \<and> cr_ok r) \<longleftrightarrow>
   (\<exists>supply. current_supply db (cq_tokenContract q) = Inr supply \<and>
      duplicate_reason db q = None \<and> country_reason db q = None \<and>
      snd (snd (live_checks C db q)) = None \<and> lockup_reason E db q = None \<and>
      investor_cap_reason db q (balance_used C db q) (live_state_used C db q) = None \<and>
      country_cap_reason db q (balance_used C db q) = None \<and>
      supply_cap_reason (supply_left db (cq_tokenContract q) supply) = None \<and>
      amount_error (asset_decimals db (cq_tokenContract q)) (requested_base_units db q)
        (asset_limit db (cq_tokenContract q) ''max_amount'')
        (remaining_under (asset_limit db (cq_tokenContract q) ''max_balance'')
           (balance_used C db q))
        (supply_left db (cq_tokenContract q) supply) = None)"
proof -
  have nil: "list_of_option x = [] \<longleftrightarrow> x = None" for x :: "'a option"
    by (cases x) simp_all
  show ?thesis
    by (simp add: calculateCompliance_def Let_def balance_used_def live_state_used_def
        supply_left_def nil case_prod_beta split: sum.splits)
qed

lemma calculateCompliance_ok_def:
  "calculateCompliance E C q db = Inr r \<Longrightarrow>
   cr_ok r \<longleftrightarrow> cr_blockingReasons r = [] \<and> cr_amountError r = None"
  by (auto simp: calculateCompliance_def Let_def case_prod_beta split: sum.splits)

lemma validateCompliance_iff:
  "validateCompliance E C data db = Inr () \<longleftrightarrow>
   (\<exists>r. calculateCompliance E C (query_of data) db = Inr r \<and> cr_ok r)"
  by (auto simp: validateCompliance_def calculateCompliance_ok_def
      split: sum.splits option.splits list.splits)

lemma query_of_sel [simp]:
  "cq_tokenContract (query_of data) = cp_tokenContract data"
  "cq_investorWallet (query_of data) = cp_investorWallet data"
  "cq_amount (query_of data) = JNum (cp_amount data)"
  by (simp_all add: query_of_def)

lemma duplicate_reason_None:
  "duplicate_reason db q = None \<longleftrightarrow>
   List.find (is_open_request (cq_tokenContract q) (cq_investorWallet q)) (pd_requests db) = None"
  by (simp add: duplicate_reason_def getActiveRequestForInvestor_def split: option.splits)

text \<open>What the checks let through on a state, the second query lets through on the same state.\<close>

lemma checked_not_open:
  "validateCompliance E C data db = Inr () \<Longrightarrow> refuse_open_request data db = Inr ()"
  unfolding validateCompliance_iff calculateCompliance_ok_iff duplicate_reason_None
  by (auto simp: refuse_open_request_def)

lemma open_request_refused:
  assumes "r \<in> set (pd_requests db)"
    and "is_open_request (cp_tokenContract data) (cp_investorWallet data) r"
  shows "\<exists>e. create_purchase_request E C data db = (db, Inl e)"
proof -
  have "validateCompliance E C data db \<noteq> Inr ()"
    using assms unfolding validateCompliance_iff calculateCompliance_ok_iff duplicate_reason_None
      find_None_iff query_of_sel by blast
  then show ?thesis by (cases "validateCompliance E C data db") (auto simp: create_purchase_request_def)
qed

lemma create_success_iff:
  "snd (create_purchase_request E C data db) = Inr row \<longleftrightarrow>
   validateCompliance E C data db = Inr () \<and> row = new_purchase_row E (uuid E 0) data"
  using checked_not_open [of E C data db]
  by (auto simp: create_purchase_request_def store_purchase_request_def Let_def split: sum.splits)

lemma store_effect:
  "fst (store_purchase_request E data db) =
     db\<lparr> pd_requests := sql_insert (new_purchase_row E (uuid E 0) data) (pd_requests db) \<rparr>"
  by (simp add: store_purchase_request_def Let_def)

lemma create_effect:
  "fst (create_purchase_request E C data db) =
     (if validateCompliance E C data db = Inr ()
      then db\<lparr> pd_requests := sql_insert (new_purchase_row E (uuid E 0) data) (pd_requests db) \<rparr>
      else db)"
  using checked_not_open [of E C data db]
  by (auto simp: create_purchase_request_def store_effect split: sum.splits)

text \<open>The initial status of a request is an open one.\<close>

lemma review_status_active: "review_status t k a \<in> set ACTIVE_STATUSES"
  by (simp add: review_status_def ACTIVE_STATUSES_def)

lemma getInitialStatus_active: "getInitialStatus data \<in> set ACTIVE_STATUSES"
  using review_status_active by (simp add: getInitialStatus_def ACTIVE_STATUSES_def)

lemma active_not_closed: "s \<in> set ACTIVE_STATUSES \<Longrightarrow> s \<notin> set CLOSED_STATUSES"
  by (auto simp: ACTIVE_STATUSES_def CLOSED_STATUSES_def)

lemma valid_iff: "s \<in> set VALID_STATUSES \<longleftrightarrow> s \<in> set ACTIVE_STATUSES \<or> s \<in> set CLOSED_STATUSES"
  by (auto simp: ACTIVE_STATUSES_def CLOSED_STATUSES_def VALID_STATUSES_def)

section \<open>Reserved supply\<close>

lemma foldl_sum: "foldl (\<lambda>s r. s + f r) a xs = a + sum_list (map f xs)" for f :: "'a \<Rightarrow> int"
  by (induction xs arbitrary: a) (auto simp: add.assoc)

lemma reserved_supply_sum:
  "reserved_supply db t =
     sum_list (map (request_base_units (asset_decimals db t)) (getActiveRequests db t))"
  by (simp add: reserved_supply_def foldl_sum)

lemma request_base_units_nonneg: "0 \<le> request_base_units d r"
  by (auto simp: request_base_units_def decimalToBaseUnits_nonneg split: option.splits)

lemma reserved_supply_nonneg: "0 \<le> reserved_supply db t"
  unfolding reserved_supply_sum
  by (rule sum_list_nonneg) (auto simp: request_base_units_nonneg)

lemma asset_reads_requests [simp]:
  "asset_limit (db\<lparr> pd_requests := rs \<rparr>) t k = asset_limit db t k"
  "asset_decimals (db\<lparr> pd_requests := rs \<rparr>) t = asset_decimals db t"
  "current_supply (db\<lparr> pd_requests := rs \<rparr>) t = current_supply db t"
  by (simp_all add: asset_limit_def asset_decimals_def asset_params_def asset_metadata_def
      current_supply_def)

lemma asset_reads_ledger [simp]:
  "asset_limit (db\<lparr> pd_ledger := l \<rparr>) t k = asset_limit db t k"
  "asset_decimals (db\<lparr> pd_ledger := l \<rparr>) t = asset_decimals db t"
  "current_supply (db\<lparr> pd_ledger := l \<rparr>) t = current_supply db t"
  by (simp_all add: asset_limit_def asset_decimals_def asset_params_def asset_metadata_def
      current_supply_def)

lemma reserved_supply_insert:
  "reserved_supply (db\<lparr> pd_requests := sql_insert (new_purchase_row E u data) (pd_requests db) \<rparr>) t =
   reserved_supply db t +
     (if cp_tokenContract data = t
      then request_base_units (asset_decimals db t) (new_purchase_row E u data) else 0)"
  using getInitialStatus_active [of data]
  by (simp add: reserved_supply_sum getActiveRequests_def filter_insert new_purchase_row_def)

lemma request_of_create:
  "request_base_units (asset_decimals db (cp_tokenContract data)) (new_purchase_row E u data) =
     (case requested_base_units db (query_of data) of None \<Rightarrow> 0 | Some a \<Rightarrow> a)"
  by (simp add: request_base_units_def new_purchase_row_def requested_base_units_def is_nullish_def)

text \<open>What is minted and what is asked for stays under the cap of the asset.\<close>

definition supply_within_cap :: "purchase_db \<Rightarrow> string \<Rightarrow> bool" where
  "supply_within_cap db t \<longleftrightarrow>
     (case (asset_limit db t ''max_supply'', current_supply db t) of
        (Some m, Inr supply) \<Rightarrow> supply + reserved_supply db t \<le> m
      | _ \<Rightarrow> True)"

lemma create_within_cap:
  assumes "validateCompliance E C data db = Inr ()"
    and "asset_limit db (cp_tokenContract data) ''max_supply'' = Some m"
    and "current_supply db (cp_tokenContract data) = Inr supply"
  shows "supply + reserved_supply (fst (create_purchase_request E C data db))
           (cp_tokenContract data) \<le> m"
proof -
  let ?t = "cp_tokenContract data" and ?a = "requested_base_units db (query_of data)"
  let ?left = "supply_left db ?t supply"
  have left: "?left = remaining_under (Some m) (supply + reserved_supply db ?t)"
    using assms by (simp add: supply_left_def)
  have *: "supply_cap_reason ?left = None" "\<not> exceeds ?a ?left"
    using assms unfolding validateCompliance_iff calculateCompliance_ok_iff amount_error_None
    by auto
  then have "supply + reserved_supply db ?t < m"
    by (auto simp: left supply_cap_reason_def remaining_under_def split: if_splits)
  moreover from this * have "supply + reserved_supply db ?t + a \<le> m" if "?a = Some a" for a
    using that by (auto simp: left exceeds_remaining)
  ultimately show ?thesis using assms
    by (auto simp: create_effect reserved_supply_insert request_of_create split: option.splits)
qed

end
