(* ===== verification/PurchaseProperties.thy ===== *)
theory PurchaseProperties
  imports PurchaseRequests
begin

text \<open>
  Correctness of the purchase requests: the invariant of the table over sequences of handler
  calls, the limits an accepted request keeps, and the behaviour of each handler.
\<close>

section \<open>Updates of a request\<close>

lemmas keeps_purchase_row =
  apply_if_keeps [of pr_id] apply_if_keeps [of pr_tokenContract]
  apply_if_keeps [of pr_investorWallet] apply_if_keeps [of pr_amount]
  apply_if_keeps [of pr_country] apply_if_keeps [of pr_status]

lemma purchase_assignments_keeps [simp]:
  "pr_id (purchase_assignments E c s d r) = pr_id r"
  "pr_tokenContract (purchase_assignments E c s d r) = pr_tokenContract r"
  "pr_investorWallet (purchase_assignments E c s d r) = pr_investorWallet r"
  "pr_amount (purchase_assignments E c s d r) = pr_amount r"
  "pr_country (purchase_assignments E c s d r) = pr_country r"
  "pr_status (purchase_assignments E c s d r) = s"
  by (simp_all add: purchase_assignments_def Let_def keeps_purchase_row set_kyc_approved_def
      set_aml_approved_def)

interpretation reviewed: keyed_table pr_id "\<lambda>(E, c, s, d). purchase_assignments E c s d"
  by unfold_locales auto

lemma findOne_Inr:
  "findOne_purchase i db = Inr r \<longleftrightarrow> List.find (\<lambda>r. pr_id r = i) (pd_requests db) = Some r"
  by (auto simp: findOne_purchase_def split: option.splits)

lemma findOne_memD: "findOne_purchase i db = Inr r \<Longrightarrow> r \<in> set (pd_requests db) \<and> pr_id r = i"
  by (auto simp: findOne_Inr dest: find_Some_memD)

lemma purchase_entries_plain: "list_all plain_entry (purchase_ledger_entries r d)"
  by (auto simp: list_all_iff purchase_ledger_entries_def Let_def set_entry_when purchase_entry_def
      plain_entry_def)

text \<open>The three outcomes of a status update.\<close>

lemma updateStatus_cases:
  obtains (missing) e where "findOne_purchase i db = Inl e"
      "updateStatus_purchase E i d db = (db, Inl e)"
  | (invalid) r where "findOne_purchase i db = Inr r"
      "\<forall>s. up_status d = Some s \<longrightarrow> s \<notin> set VALID_STATUSES"
      "updateStatus_purchase E i d db =
         (db, Inl (ConflictException ''Invalid token purchase request status.''))"
  | (applied) r s where "findOne_purchase i db = Inr r" "up_status d = Some s"
      "s \<in> set VALID_STATUSES"
      "updateStatus_purchase E i d db =
         (db\<lparr> pd_requests := sql_update (\<lambda>r. pr_id r = i)
                (purchase_assignments E (pr_status r) s d) (pd_requests db),
             pd_ledger := fst (record_all E 0 (purchase_ledger_entries r d) (pd_ledger db)) \<rparr>,
          Inr (purchase_assignments E (pr_status r) s d r))"
proof (cases "findOne_purchase i db")
  case (Inl e)
  then show ?thesis using missing by (simp add: updateStatus_purchase_def)
next
  case (Inr r)
  have nonempty: "[] \<notin> set VALID_STATUSES" by (simp add: VALID_STATUSES_def)
  show ?thesis
  proof (cases "\<exists>s. up_status d = Some s \<and> s \<in> set VALID_STATUSES")
    case True
    then obtain s where s: "up_status d = Some s" "s \<in> set VALID_STATUSES" by blast
    with nonempty have "s \<noteq> []" by auto
    with s Inr show ?thesis
      by (intro applied [of r s])
        (simp_all add: updateStatus_purchase_def Let_def record_all_plain purchase_entries_plain)
  next
    case False
    with Inr show ?thesis
      by (intro invalid [of r])
        (auto simp: updateStatus_purchase_def split: option.splits)
  qed
qed

lemma update_purchase_effect:
  "fst (update_purchase_request E i d db) = fst (updateStatus_purchase E i d db) \<or>
   fst (update_purchase_request E i d db) = db"
  by (simp add: update_purchase_request_def)

section \<open>Sequences of calls\<close>

text \<open>
  One handler call on the database. The flag says whether a reviewer may call \<open>updateStatus\<close> on
  a request that is already closed; the code does not refuse it. \<open>randomUUID()\<close> yields an
  identifier that no row has.
\<close>

inductive purchase_step :: "bool \<Rightarrow> purchase_db \<Rightarrow> purchase_db \<Rightarrow> bool" for reopen where
  create: "uuid E 0 \<notin> pr_id ` set (pd_requests db) \<Longrightarrow>
    purchase_step reopen db (fst (create_purchase_request E C data db))"
| update: "reopen \<or> (\<forall>r. findOne_purchase i db = Inr r \<longrightarrow> pr_status r \<notin> set CLOSED_STATUSES) \<Longrightarrow>
    purchase_step reopen db (fst (updateStatus_purchase E i d db))"
| patch: "reopen \<or> (\<forall>r. findOne_purchase i db = Inr r \<longrightarrow> pr_status r \<notin> set CLOSED_STATUSES) \<Longrightarrow>
    purchase_step reopen db (fst (update_purchase_request E i d db))"
| resume: "purchase_step reopen db (fst (resumeAfterIdentity E i db))"
| remove: "purchase_step reopen db (fst (remove_purchase i db))"

inductive_cases purchase_stepE: "purchase_step reopen db db'"

text \<open>The shape of every step: one insert, one update by key, one delete, or nothing.\<close>

lemma purchase_step_cases:
  assumes "purchase_step reopen db db'"
  obtains (same) "db' = db"
  | (insert) E C data where "validateCompliance E C data db = Inr ()"
      "uuid E 0 \<notin> pr_id ` set (pd_requests db)"
      "db' = db\<lparr> pd_requests := sql_insert (new_purchase_row E (uuid E 0) data) (pd_requests db) \<rparr>"
  | (review) E i r s d where "findOne_purchase i db = Inr r" "s \<in> set VALID_STATUSES"
      "reopen \<or> pr_status r \<notin> set CLOSED_STATUSES"
      "db' = db\<lparr> pd_requests := sql_update (\<lambda>r. pr_id r = i)
                   (purchase_assignments E (pr_status r) s d) (pd_requests db),
                pd_ledger := fst (record_all E 0 (purchase_ledger_entries r d) (pd_ledger db)) \<rparr>"
  | (resumed) t i r where "findOne_purchase i db = Inr r"
      "pr_status r = ''ACTION_REQUIRED_INVESTOR_IDENTITY''"
      "db' = db\<lparr> pd_requests := sql_update (\<lambda>r. pr_id r = i)
                   (\<lambda>x. x\<lparr> pr_status := getResumeStatus r, pr_updatedAt := t \<rparr>) (pd_requests db) \<rparr>"
  | (delete) i where "db' = db\<lparr> pd_requests := sql_delete (\<lambda>r. pr_id r = i) (pd_requests db) \<rparr>"
  using assms
proof (cases rule: purchase_step.cases)
  case (create E C data)
  then show ?thesis using same insert by (auto simp: create_effect split: if_splits)
next
  case (update i E d)
  show ?thesis
    by (cases rule: updateStatus_cases [of i db E d])
      (use update same review in \<open>auto simp: fst_conv\<close>)
next
  case (patch i E d)
  show ?thesis
    by (cases rule: updateStatus_cases [of i db E d])
      (use patch update_purchase_effect [of E i d db] same review in \<open>auto simp: fst_conv\<close>)
next
  case (resume E i)
  then show ?thesis using same resumed [of i]
    by (auto simp: resumeAfterIdentity_def Let_def split: sum.splits if_splits)
next
  case (remove i)
  then show ?thesis using same delete by (auto simp: remove_purchase_def split: sum.splits)
qed

section \<open>The table invariant\<close>

definition purchase_inv :: "purchase_db \<Rightarrow> bool" where
  "purchase_inv db \<longleftrightarrow> distinct (map pr_id (pd_requests db)) \<and>
     (\<forall>r \<in> set (pd_requests db). pr_status r \<in> set VALID_STATUSES) \<and> ledger_inv (pd_ledger db)"

definition request_key :: "purchase_row \<Rightarrow> string \<times> string" where
  "request_key r = (pr_tokenContract r, pr_investorWallet r)"

definition open_requests :: "purchase_db \<Rightarrow> purchase_row list" where
  "open_requests db = filter (\<lambda>r. pr_status r \<notin> set CLOSED_STATUSES) (pd_requests db)"

definition one_open_request :: "purchase_db \<Rightarrow> bool" where
  "one_open_request db \<longleftrightarrow> distinct (map request_key (open_requests db))"

lemma ACTION_REQUIRED_active: "''ACTION_REQUIRED_INVESTOR_IDENTITY'' \<in> set ACTIVE_STATUSES"
  by (simp add: ACTIVE_STATUSES_def)

lemma purchase_step_inv:
  assumes "purchase_step reopen db db'" and "purchase_inv db"
  shows "purchase_inv db'"
  using assms(1)
proof (cases rule: purchase_step_cases)
  case (insert E C data)
  with assms(2) getInitialStatus_active [of data] show ?thesis
    by (auto simp: purchase_inv_def map_key_insert set_insert valid_iff new_purchase_row_def)
next
  case (review E i r s d)
  with assms(2) show ?thesis
    by (auto simp: purchase_inv_def record_all_inv set_update map_update_same)
next
  case (resumed t i r)
  with assms(2) show ?thesis
    by (auto simp: purchase_inv_def set_update map_update_same getResumeStatus_def valid_iff
        review_status_active)
next
  case (delete i)
  with assms(2) show ?thesis
    by (auto simp: purchase_inv_def set_delete intro: reviewed.distinct_keys_delete)
qed (use assms in simp)

text \<open>The rows of a table with distinct keys are told apart by their keys.\<close>

lemma findOne_unique:
  assumes "purchase_inv db" and "findOne_purchase i db = Inr r" and "x \<in> set (pd_requests db)"
    and "pr_id x = i"
  shows "x = r"
  using assms reviewed.find_unique [of "pd_requests db" x]
  by (simp add: purchase_inv_def findOne_Inr)

lemma purchase_step_one_open:
  assumes "purchase_step False db db'" and "purchase_inv db" and "one_open_request db"
  shows "one_open_request db'"
  using assms(1)
proof (cases rule: purchase_step_cases)
  case (insert E C data)
  then have "List.find (is_open_request (cp_tokenContract data) (cp_investorWallet data))
      (pd_requests db) = None"
    unfolding validateCompliance_iff calculateCompliance_ok_iff duplicate_reason_None by auto
  then have "request_key (new_purchase_row E (uuid E 0) data) \<notin> request_key ` set (open_requests db)"
    by (auto simp: find_None_all is_open_request_def open_requests_def request_key_def
        new_purchase_row_def)
  with insert assms(3) show ?thesis
    by (auto simp: one_open_request_def open_requests_def filter_insert)
next
  case (review E i r s d)
  have "pr_status x \<notin> set CLOSED_STATUSES" if "x \<in> set (pd_requests db)" "pr_id x = i" for x
    using that findOne_unique [OF assms(2) review(1)] review(3) by simp
  with review assms(3) show ?thesis
    by (auto simp: one_open_request_def open_requests_def request_key_def
        intro!: distinct_filter_update)
next
  case (resumed t i r)
  have "pr_status x \<notin> set CLOSED_STATUSES" if "x \<in> set (pd_requests db)" "pr_id x = i" for x
    using that findOne_unique [OF assms(2) resumed(1)] resumed(2) ACTION_REQUIRED_active
    by (simp add: active_not_closed)
  with resumed assms(3) show ?thesis
    by (auto simp: one_open_request_def open_requests_def request_key_def
        intro!: distinct_filter_update)
next
  case (delete i)
  with assms(3) show ?thesis
    by (simp add: one_open_request_def open_requests_def distinct_filter_delete)
qed (use assms in simp)

lemma reserved_supply_update_le:
  assumes "\<And>x. x \<in> set (pd_requests db) \<Longrightarrow> P x \<Longrightarrow> pr_status x \<in> set ACTIVE_STATUSES"
    and "\<And>x. pr_tokenContract (f x) = pr_tokenContract x" and "\<And>x. pr_amount (f x) = pr_amount x"
  shows "reserved_supply (db\<lparr> pd_requests := sql_update P f (pd_requests db) \<rparr>) t
           \<le> reserved_supply db t"
  unfolding reserved_supply_sum getActiveRequests_def
  using assms by (auto intro!: sum_filter_update_le simp: request_base_units_def
      decimalToBaseUnits_nonneg split: option.splits)

lemma reserved_supply_ledger [simp]:
  "reserved_supply (db\<lparr> pd_ledger := l \<rparr>) t = reserved_supply db t"
  by (simp add: reserved_supply_sum getActiveRequests_def)

lemma supply_within_cap_mono:
  assumes "supply_within_cap db t" and "reserved_supply db' t \<le> reserved_supply db t"
    and "asset_limit db' t ''max_supply'' = asset_limit db t ''max_supply''"
    and "current_supply db' t = current_supply db t"
  shows "supply_within_cap db' t"
  using assms by (auto simp: supply_within_cap_def split: option.splits sum.splits)

lemma purchase_step_supply:
  assumes "purchase_step False db db'" and "purchase_inv db" and "supply_within_cap db t"
  shows "supply_within_cap db' t"
  using assms(1)
proof (cases rule: purchase_step_cases)
  case (insert E C data)
  show ?thesis
  proof (cases "cp_tokenContract data = t")
    case True
    have "db' = fst (create_purchase_request E C data db)" using insert by (simp add: create_effect)
    with True insert(1) create_within_cap [OF insert(1)] show ?thesis
      by (auto simp: supply_within_cap_def create_effect split: option.splits sum.splits)
  next
    case False
    with insert show ?thesis
      by (intro supply_within_cap_mono [OF assms(3)]) (simp_all add: reserved_supply_insert)
  qed
next
  case (review E i r s d)
  have "pr_status x \<in> set ACTIVE_STATUSES" if "x \<in> set (pd_requests db)" "pr_id x = i" for x
    using that findOne_unique [OF assms(2) review(1)] review(3) assms(2)
    by (auto simp: purchase_inv_def valid_iff)
  with review show ?thesis
    by (intro supply_within_cap_mono [OF assms(3)])
      (simp_all add: reserved_supply_update_le)
next
  case (resumed t' i r)
  have "pr_status x \<in> set ACTIVE_STATUSES" if "x \<in> set (pd_requests db)" "pr_id x = i" for x
    using that findOne_unique [OF assms(2) resumed(1)] resumed(2) ACTION_REQUIRED_active by simp
  with resumed show ?thesis
    by (intro supply_within_cap_mono [OF assms(3)])
      (simp_all add: reserved_supply_update_le)
next
  case (delete i)
  then show ?thesis
    by (intro supply_within_cap_mono [OF assms(3)])
      (simp_all add: reserved_supply_sum getActiveRequests_def sum_filter_delete_le
        request_base_units_nonneg)
qed (use assms in simp)

section \<open>Helper facts for the properties\<close>

lemma reachable_inv:
  assumes "(purchase_step reopen)\<^sup>*\<^sup>* db db'" and "purchase_inv db"
  shows "purchase_inv db'"
  using assms by (induction rule: rtranclp_induct) (auto intro: purchase_step_inv)

lemma reachable_one_open:
  assumes "(purchase_step False)\<^sup>*\<^sup>* db db'" and "purchase_inv db" and "one_open_request db"
  shows "one_open_request db'"
  using assms
  by (induction rule: rtranclp_induct)
    (auto intro: purchase_step_one_open dest: reachable_inv)

lemma reachable_supply:
  assumes "(purchase_step False)\<^sup>*\<^sup>* db db'" and "purchase_inv db" and "supply_within_cap db t"
  shows "supply_within_cap db' t"
  using assms
  by (induction rule: rtranclp_induct) (auto intro: purchase_step_supply dest: reachable_inv)

lemma foldl_min: "foldl (\<lambda>m x. if x < m then x else m) a xs = Min (insert a (set xs))"
  for a :: int
proof (induction xs arbitrary: a)
  case (Cons x xs)
  have "Min (insert a (insert x (set xs))) = Min (insert (min a x) (set xs))"
    by (cases "xs = []") (simp_all add: min.assoc)
  with Cons show ?case by (simp add: min_def insert_commute)
qed simp

lemma minBigInt_ge: "(\<forall>m. minBigInt xs = Some m \<longrightarrow> a \<le> m) \<longleftrightarrow> (\<forall>m. Some m \<in> set xs \<longrightarrow> a \<le> m)"
proof (cases "List.map_filter (\<lambda>v. v) xs")
  case Nil
  then have "\<forall>m. Some m \<notin> set xs" by (auto simp: map_filter_def filter_empty_conv)
  with Nil show ?thesis by (simp add: minBigInt_def)
next
  case (Cons v vs)
  have "set (List.map_filter (\<lambda>v. v) xs) = {m. Some m \<in> set xs}"
    by (force simp: map_filter_def)
  with Cons have "insert v (set vs) = {m. Some m \<in> set xs}" by simp
  moreover have "(a \<le> Min (insert v (set vs))) = (\<forall>m \<in> insert v (set vs). a \<le> m)"
    by (rule Min_ge_iff) simp_all
  ultimately show ?thesis using Cons by (simp add: minBigInt_def foldl_min)
qed

lemma exceeds_iff: "\<not> exceeds (Some a) l \<longleftrightarrow> (\<forall>m. l = Some m \<longrightarrow> a \<le> m)"
  by (cases l) (auto simp: exceeds_def)

lemma accepted_facts:
  assumes "snd (create_purchase_request E C d db) = Inr row"
  shows "country_reason db (query_of d) = None"
    and "lockup_reason E db (query_of d) = None"
    and "investor_cap_reason db (query_of d) (balance_used C db (query_of d))
       (live_state_used C db (query_of d)) = None"
    and "country_cap_reason db (query_of d) (balance_used C db (query_of d)) = None"
    and "requested_base_units db (query_of d) = Some a \<Longrightarrow> 0 < a"
    and "requested_base_units db (query_of d) = Some a \<Longrightarrow>
       asset_limit db (cp_tokenContract d) ''max_amount'' = Some m \<Longrightarrow> a \<le> m"
    and "requested_base_units db (query_of d) = Some a \<Longrightarrow>
       remaining_under (asset_limit db (cp_tokenContract d) ''max_balance'')
         (balance_used C db (query_of d)) = Some m \<Longrightarrow> a \<le> m"
proof -
  from assms have "\<exists>r. calculateCompliance E C (query_of d) db = Inr r \<and> cr_ok r"
    by (simp add: create_success_iff validateCompliance_iff)
  note * = this [unfolded calculateCompliance_ok_iff amount_error_None query_of_sel]
  show "country_reason db (query_of d) = None"
    "lockup_reason E db (query_of d) = None"
    "investor_cap_reason db (query_of d) (balance_used C db (query_of d))
       (live_state_used C db (query_of d)) = None"
    "country_cap_reason db (query_of d) (balance_used C db (query_of d)) = None"
    using * by blast+
  show "0 < a" if "requested_base_units db (query_of d) = Some a"
    using * that by auto
  show "a \<le> m" if "requested_base_units db (query_of d) = Some a"
    "asset_limit db (cp_tokenContract d) ''max_amount'' = Some m"
    using * that by (auto simp: exceeds_iff)
  show "a \<le> m" if "requested_base_units db (query_of d) = Some a"
    "remaining_under (asset_limit db (cp_tokenContract d) ''max_balance'')
       (balance_used C db (query_of d)) = Some m"
    using * that by (auto simp: exceeds_iff)
qed

lemma country_wallets_after_create:
  "set (getCountryRequestWallets (fst (create_purchase_request E C d db)) (cp_tokenContract d) c)
     \<subseteq> reserved_wallets db (query_of d) c"
  by (auto simp: create_effect getCountryRequestWallets_def reserved_wallets_def set_insert
      new_purchase_row_def split: if_splits)

section \<open>Properties\<close>

text \<open>
  C1. Over any sequence of purchase-request handler calls, each run to its end, in which
  reviewers do not reopen closed requests, the minted supply plus the amounts of all open
  requests of a token, as the service converts them to base units, stays within the max_supply
  parameter of its asset, provided it was within it at the start. An amount whose text has an
  exponent, which the service cannot convert, counts as nothing here as it does in the code:
  such a request passes every cap (lemma exponent_amount_skips_limits, recorded as a finding).
\<close>

theorem reachable_supply_within_cap:
  assumes "(purchase_step False)\<^sup>*\<^sup>* db db'" and "purchase_inv db" and "supply_within_cap db t"
  shows "supply_within_cap db' t"
  using assms by (rule reachable_supply)

text \<open>
  C24. Over any sequence of handler calls, each run to its end, in which reviewers do not reopen
  closed requests, there is at most one open purchase request per token and investor wallet.
\<close>

theorem reachable_one_open_request:
  assumes "(purchase_step False)\<^sup>*\<^sup>* db db'" and "purchase_inv db" and "one_open_request db"
  shows "one_open_request db'"
  using assms by (rule reachable_one_open)

lemma stored_request_open:
  "is_open_request (cp_tokenContract d) (cp_investorWallet d) (new_purchase_row E u d)"
  using getInitialStatus_active [of d] by (simp add: is_open_request_def new_purchase_row_def active_not_closed)

text \<open>
  C31. Two calls of create whose checks both ran before either row was inserted are both stored,
  since the table has no constraint on them: the second query of neither finds the other, the
  amounts of both are reserved, and for one investor and token the table then holds two open
  requests, although the second call would have been refused had it begun after the first ended.
  The instance also exceeds the max_supply of the asset.
\<close>

theorem overlapping_creates_are_both_stored:
  assumes "validateCompliance E1 C1 d1 db = Inr ()" and "validateCompliance E2 C2 d2 db = Inr ()"
    and "cp_tokenContract d1 = t" and "cp_tokenContract d2 = t"
    and "one = fst (store_purchase_request E1 d1 db)" and "both = fst (store_purchase_request E2 d2 one)"
  shows "refuse_open_request d1 db = Inr () \<and> refuse_open_request d2 db = Inr () \<and>
    reserved_supply both t = reserved_supply db t +
      (case requested_base_units db (query_of d1) of None \<Rightarrow> 0 | Some a \<Rightarrow> a) +
      (case requested_base_units db (query_of d2) of None \<Rightarrow> 0 | Some a \<Rightarrow> a) \<and>
    (cp_investorWallet d1 = cp_investorWallet d2 \<longrightarrow> \<not> one_open_request both \<and>
      (\<exists>e. create_purchase_request E2 C2 d2 one = (one, Inl e)))"
proof (intro conjI impI)
  show "refuse_open_request d1 db = Inr ()" using assms(1) by (rule checked_not_open)
  show "refuse_open_request d2 db = Inr ()" using assms(2) by (rule checked_not_open)
  have dec: "asset_decimals one t = asset_decimals db t"
    by (simp add: assms(5) store_effect)
  have "reserved_supply one t = reserved_supply db t +
      (case requested_base_units db (query_of d1) of None \<Rightarrow> 0 | Some a \<Rightarrow> a)"
    using request_of_create [of db d1 E1 "uuid E1 0"] assms(3)
    unfolding assms(5) store_effect reserved_supply_insert by simp
  moreover have "reserved_supply both t = reserved_supply one t +
      (case requested_base_units db (query_of d2) of None \<Rightarrow> 0 | Some a \<Rightarrow> a)"
    using request_of_create [of db d2 E2 "uuid E2 0"] assms(4) dec
    unfolding assms(6) store_effect reserved_supply_insert by simp
  ultimately show "reserved_supply both t = reserved_supply db t +
      (case requested_base_units db (query_of d1) of None \<Rightarrow> 0 | Some a \<Rightarrow> a) +
      (case requested_base_units db (query_of d2) of None \<Rightarrow> 0 | Some a \<Rightarrow> a)" by simp
  assume same: "cp_investorWallet d1 = cp_investorWallet d2"
  let ?r1 = "new_purchase_row E1 (uuid E1 0) d1" and ?r2 = "new_purchase_row E2 (uuid E2 0) d2"
  have o: "pr_status ?r1 \<notin> set CLOSED_STATUSES" "pr_status ?r2 \<notin> set CLOSED_STATUSES"
    using stored_request_open by (auto simp: is_open_request_def)
  have "request_key ?r1 = request_key ?r2"
    using same assms(3,4) by (simp add: request_key_def new_purchase_row_def)
  then show "\<not> one_open_request both"
    using o by (simp add: one_open_request_def open_requests_def assms(5,6) store_effect filter_insert sql_insert_def)
  have "?r1 \<in> set (pd_requests one)" by (simp add: assms(5) store_effect set_insert)
  then show "\<exists>e. create_purchase_request E2 C2 d2 one = (one, Inl e)"
    using stored_request_open [of d1 E1 "uuid E1 0"] same assms(3,4)
    by (intro open_request_refused) auto
qed

lemma reachable_purchase_inv:
  assumes "(purchase_step True)\<^sup>*\<^sup>* db db'" and "purchase_inv db"
  shows "purchase_inv db'"
  using assms by (rule reachable_inv)

lemma amount_verdict_is_max_requestable:
  assumes "calculateCompliance E C q db = Inr r" and "current_supply db (cq_tokenContract q) = Inr s"
  shows "(cr_amountError r = None \<longleftrightarrow>
      (\<forall>a. requested_base_units db q = Some a \<longrightarrow>
         0 < a \<and> (\<forall>m. minBigInt (amount_limits C q db s) = Some m \<longrightarrow> a \<le> m))) \<and>
    cr_maxRequestableTokens r =
      map_option (\<lambda>v. baseUnitsToDecimal v (cr_decimals r)) (minBigInt (amount_limits C q db s))"
proof -
  have "cr_amountError r = None \<longleftrightarrow>
      (\<forall>a. requested_base_units db q = Some a \<longrightarrow>
         0 < a \<and> (\<forall>m. Some m \<in> set (amount_limits C q db s) \<longrightarrow> a \<le> m))"
    using assms
    by (cases "requested_base_units db q")
      (auto simp: calculateCompliance_def Let_def case_prod_beta amount_error_None exceeds_iff
        amount_limits_def supply_left_def balance_used_def, auto simp: exceeds_def)
  then show ?thesis using assms
    by (auto simp: minBigInt_ge calculateCompliance_def Let_def case_prod_beta amount_limits_def
        supply_left_def balance_used_def)
qed

lemma accepted_request_within_limits:
  assumes "snd (create_purchase_request E C d db) = Inr row"
    and "requested_base_units db (query_of d) = Some a"
  shows "0 < a \<and>
    (\<forall>m. asset_limit db (cp_tokenContract d) ''max_amount'' = Some m \<longrightarrow> a \<le> m) \<and>
    (\<forall>m. asset_limit db (cp_tokenContract d) ''max_balance'' = Some m \<longrightarrow>
       balance_used C db (query_of d) + a \<le> m)"
proof (intro conjI allI impI)
  show pos: "0 < a" using accepted_facts(5) [OF assms] .
  show "a \<le> m" if "asset_limit db (cp_tokenContract d) ''max_amount'' = Some m" for m
    using accepted_facts(6) [OF assms that] .
  show "balance_used C db (query_of d) + a \<le> m"
    if "asset_limit db (cp_tokenContract d) ''max_balance'' = Some m" for m
    using accepted_facts(7) [OF assms] that pos
    by (auto simp: remaining_under_def split: if_splits)
qed

lemma accepted_request_in_country:
  assumes "snd (create_purchase_request E C d db) = Inr row"
    and "allowed = parseCountryList
           (getParamValue (asset_params db (cp_tokenContract d)) ''allowed_countries'')"
    and "caps = parseCountryCaps
           (getParamValue (asset_params db (cp_tokenContract d)) ''country_caps'')"
  shows "(allowed \<noteq> [] \<longrightarrow> (\<exists>c. finite_country (query_of d) = Some c \<and> c \<in> set allowed)) \<and>
    (\<forall>c cap. finite_country (query_of d) = Some c \<longrightarrow> balance_used C db (query_of d) = 0 \<longrightarrow>
       List.find (\<lambda>(k, v). k = c) caps = Some (c, cap) \<longrightarrow>
       int (card (set (getCountryRequestWallets (fst (create_purchase_request E C d db))
                         (cp_tokenContract d) c))) \<le> cap)"
proof -
  have le: "int (card (set (getCountryRequestWallets (fst (create_purchase_request E C d db))
        (cp_tokenContract d) c))) \<le> int (card (reserved_wallets db (query_of d) c))" for c
    by (rule of_nat_mono, rule card_mono [OF _ country_wallets_after_create])
      (simp add: reserved_wallets_def)
  have "\<exists>c. finite_country (query_of d) = Some c \<and> c \<in> set allowed" if "allowed \<noteq> []"
    using accepted_facts(1) [OF assms(1)] that assms(2)
    by (auto simp: country_reason_def finite_country_def Let_def
        split: option.splits jsnum.splits if_splits)
  moreover have "int (card (reserved_wallets db (query_of d) c)) \<le> cap"
    if "finite_country (query_of d) = Some c" "balance_used C db (query_of d) = 0"
      "List.find (\<lambda>(k, v). k = c) caps = Some (c, cap)" for c cap
  proof -
    from that(3) have "caps \<noteq> []" by auto
    with accepted_facts(4) [OF assms(1)] that assms(3) show ?thesis
      by (auto simp: country_cap_reason_def Let_def split: if_splits)
  qed
  ultimately show ?thesis by (blast intro: order_trans [OF le])
qed

lemma accepted_request_investor_cap:
  assumes "snd (create_purchase_request E C d db) = Inr row"
    and "live_state_used C db (query_of d) = Some (maxInvestors, holderCount)"
    and "balance_used C db (query_of d) = 0"
  shows "holderCount + int (card (insert (toLowerCase (cp_investorWallet d))
           (active_new_investors db (query_of d)))) \<le> maxInvestors"
proof -
  have "toLowerCase (cp_investorWallet d) \<notin> active_new_investors db (query_of d)"
    by (auto simp: active_new_investors_def)
  moreover have "finite (active_new_investors db (query_of d))"
    by (simp add: active_new_investors_def)
  moreover have "holderCount + int (card (active_new_investors db (query_of d))) < maxInvestors"
    using accepted_facts(3) [OF assms(1)] assms(2,3)
    by (auto simp: investor_cap_reason_def split: if_splits)
  ultimately show ?thesis by simp
qed

lemma find_after_update:
  "findOne_purchase i db = Inr r \<Longrightarrow>
   findOne_purchase j (db\<lparr> pd_requests := sql_update (\<lambda>r. pr_id r = i)
       (purchase_assignments E c s d) (pd_requests db), pd_ledger := l \<rparr>) =
     (if j = i then Inr (purchase_assignments E c s d r) else findOne_purchase j db)"
  using reviewed.find_same [of i "(E, c, s, d)" "pd_requests db"]
    reviewed.find_other [of j i "(E, c, s, d)" "pd_requests db"]
  by (auto simp: findOne_purchase_def split: option.splits)

text \<open>The columns a review writes, by the status it sets.\<close>

lemma review_columns:
  assumes "r' = purchase_assignments E c s d r"
  shows "s = ''MINTED'' \<Longrightarrow> pr_mintedAt r' = Some (js_now E) \<and> pr_mintTxHash r' = or_null (up_mintTxHash d)"
    and "s = ''REJECTED'' \<Longrightarrow> pr_rejectedAt r' = Some (js_now E) \<and>
       pr_rejectionReason r' = Some (or_else (up_rejectionReason d) ''Rejected'')"
    and "s = ''APPROVED_FOR_MINT'' \<Longrightarrow> pr_issuerApprovedAt r' = Some (js_now E)"
    and "s = ''PENDING_AML'' \<Longrightarrow> pr_kycApprovedAt r' = Some (js_now E)"
    and "s \<noteq> ''MINTED'' \<Longrightarrow> pr_mintTxHash r' = pr_mintTxHash r"
    and "s \<noteq> ''REJECTED'' \<Longrightarrow> pr_rejectionReason r' = pr_rejectionReason r"
  unfolding assms
  by (simp_all add: purchase_assignments_def Let_def set_kyc_approved_def set_aml_approved_def
      apply_if_keeps [of pr_kycApprovedAt] apply_if_keeps [of pr_issuerApprovedAt]
      apply_if_keeps [of pr_mintTxHash] apply_if_keeps [of pr_rejectionReason])

lemma updateStatus_behaviour:
  "case updateStatus_purchase E i d db of
     (db', Inl e) \<Rightarrow> db' = db \<and>
       (e = NotFoundException ''Token purchase request not found'' \<or>
        e = ConflictException ''Invalid token purchase request status.'')
   | (db', Inr row) \<Rightarrow>
       findOne_purchase i db' = Inr row \<and> up_status d = Some (pr_status row) \<and>
       pr_status row \<in> set VALID_STATUSES \<and>
       (pr_status row = ''MINTED'' \<longrightarrow> pr_mintedAt row = Some (js_now E) \<and>
          pr_mintTxHash row = or_null (up_mintTxHash d)) \<and>
       (pr_status row = ''REJECTED'' \<longrightarrow> pr_rejectedAt row = Some (js_now E) \<and>
          pr_rejectionReason row = Some (or_else (up_rejectionReason d) ''Rejected'')) \<and>
       (\<forall>j. j \<noteq> i \<longrightarrow> findOne_purchase j db' = findOne_purchase j db)"
proof (cases rule: updateStatus_cases [of i db E d])
  case (missing e)
  then show ?thesis by (auto simp: findOne_purchase_def split: option.splits)
next
  case (applied r s)
  let ?row = "purchase_assignments E (pr_status r) s d r"
  from applied review_columns(1,2) [of ?row E "pr_status r" s d r] show ?thesis
    by (simp add: find_after_update)
qed simp

text \<open>The hashes a review reports that its ledger entries carry.\<close>

definition reported_hashes :: "purchase_row \<Rightarrow> update_purchase \<Rightarrow> string set" where
  "reported_hashes r d = {h. h \<noteq> [] \<and>
     (up_whitelistTxHash d = Some h \<or> up_activationTxHash d = Some h \<or> up_mintTxHash d = Some h \<or>
      (up_claimTxHash d = Some h \<and> pr_status r \<in> {''PENDING_KYC'', ''PENDING_AML''}))}"

lemma purchase_entry_hash [simp]: "le_txHash (purchase_entry r d t a) = t"
  by (simp add: purchase_entry_def)

lemma purchase_entries_hashes:
  "le_txHash ` set (purchase_ledger_entries r d) = reported_hashes r d"
  unfolding purchase_ledger_entries_def Let_def set_append image_Un reported_hashes_def
  by (simp add: hashes_entry_when) blast

lemma review_records_every_hash:
  assumes "snd (updateStatus_purchase E i d db) = Inr row" and "findOne_purchase i db = Inr r"
    and "ledger_inv (pd_ledger db)"
  shows "(\<forall>h \<in> reported_hashes r d.
            \<exists>t. find_tx (pd_ledger (fst (updateStatus_purchase E i d db))) h = Some t) \<and>
         (\<forall>h. h \<notin> reported_hashes r d \<longrightarrow>
            find_tx (pd_ledger (fst (updateStatus_purchase E i d db))) h = find_tx (pd_ledger db) h)"
proof (cases rule: updateStatus_cases [of i db E d])
  case (applied r' s)
  with assms(2) have r: "r' = r" by simp
  let ?es = "purchase_ledger_entries r d"
  have "\<exists>t. find_tx (fst (record_all E 0 ?es (pd_ledger db))) h = Some t"
    if "h \<in> reported_hashes r d" for h
    using that record_all_present [OF purchase_entries_plain assms(3)] purchase_entries_hashes
    by (metis imageE)
  moreover have "find_tx (fst (record_all E 0 ?es (pd_ledger db))) h = find_tx (pd_ledger db) h"
    if "h \<notin> reported_hashes r d" for h
    using that record_all_frame [OF purchase_entries_plain assms(3)] purchase_entries_hashes
    by metis
  ultimately show ?thesis using applied r by simp
qed (use assms in auto)

section \<open>Concrete instances\<close>

definition sample_params :: "(string \<times> jsval) list" where
  "sample_params = [(''max_supply'', JStr ''1000''), (''max_balance'', JStr ''500''),
     (''max_amount'', JStr ''400.5''), (''allowed_countries'', JStr ''586, 840''),
     (''country_caps'', JStr ''586:2''), (''max_investors'', JNum (Fin 3))]"

definition sample_db :: purchase_db where
  "sample_db = \<lparr> pd_assets = [\<lparr> as_tokenContract = ''MINT'', as_metadata =
       JObj [(''decimals'', JNum (Fin 2)),
             (''complianceModuleParams'', JObj [(''empty'', JObj []), (''rules'', JObj sample_params)])] \<rparr>],
     pd_balances = [\<lparr> tb_tokenContract = ''MINT'', tb_walletAddress = ''Holder'', tb_balance = ''2500'' \<rparr>],
     pd_states = [\<lparr> ts_tokenContract = ''MINT'', ts_totalSupply = ''60000'' \<rparr>],
     pd_requests = [], pd_ledger = [] \<rparr>"

text \<open>A chain with no token accounts and a Max Investors module that admits 3 investors and has 1.\<close>

definition sample_chain :: purchase_chain where
  "sample_chain = \<lparr> pk_of_string = (\<lambda>s. Inr (ascii s)), pk_of_bytes = Inr,
     toBase58 = (\<lambda>k. ''key''), token_2022 = ascii ''Token2022'',
     ata_of = (\<lambda>mint wallet. Inr (ascii ''ata'' @ mint @ wallet)),
     find_pda = (\<lambda>seeds prog. Inr (ascii ''pda'' @ concat seeds, 255)),
     account_info = (\<lambda>k. if take 3 k = ascii ''pda''
       then Inr (Some \<lparr> acc_owner = ascii ''MaxInv'', acc_data = replicate 104 0 @ le_bytes 8 3 @ le_bytes 8 1 \<rparr>)
       else Inr None),
     maxInvestorsProgram = ascii ''MaxInv'' \<rparr>"

definition sample_request :: "string \<Rightarrow> rat \<Rightarrow> create_purchase" where
  "sample_request wallet amount = \<lparr> cp_assetId = None, cp_tokenContract = ''MINT'',
     cp_investorWallet = wallet, cp_issuerWallet = ''Issuer'', cp_kycProvider = Some ''Kyc'',
     cp_amlProvider = None, cp_amount = Fin amount, cp_fullName = None, cp_email = None,
     cp_nationality = None, cp_country = Some ''586'', cp_idDocumentUrl = None,
     cp_proofOfAddressUrl = None, cp_requiredClaimTopics = Some [''1''],
     cp_investorFidRegistered = None, cp_documents = JUndefined \<rparr>"

definition sample_after :: purchase_db where
  "sample_after = fst (create_purchase_request (sample_env ''a'') sample_chain
     (sample_request ''Alice'' 250) sample_db)"

definition sample_review :: "string \<Rightarrow> update_purchase" where
  "sample_review status = \<lparr> up_status = Some status, up_reviewerWallet = Some ''Kyc'',
     up_rejectionReason = None, up_claimTxHash = Some ''tx1'', up_mintTxHash = None,
     up_whitelistTxHash = Some ''tx2'', up_activationTxHash = None \<rparr>"

lemma sample_reachable: "(purchase_step b)\<^sup>*\<^sup>* sample_db sample_after"
  unfolding sample_after_def
  by (rule r_into_rtranclp, rule purchase_step.create) code_simp

lemma sample_inv: "purchase_inv sample_db" "one_open_request sample_db" "supply_within_cap sample_db ''MINT''"
  by code_simp+

lemma sample_accepted:
  "snd (create_purchase_request (sample_env ''a'') sample_chain (sample_request ''Alice'' 250) sample_db) =
   Inr (new_purchase_row (sample_env ''a'') ''a0'' (sample_request ''Alice'' 250))"
  by code_simp

theorem reachable_supply_within_cap_witness:
  "length (pd_requests sample_after) = 1 \<and> supply_within_cap sample_after ''MINT''"
proof
  show "length (pd_requests sample_after) = 1" by code_simp
  show "supply_within_cap sample_after ''MINT''"
    by (rule reachable_supply_within_cap [OF sample_reachable sample_inv(1,3)])
qed

theorem reachable_one_open_request_witness:
  "length (open_requests sample_after) = 1 \<and> one_open_request sample_after"
proof
  show "length (open_requests sample_after) = 1" by code_simp
  show "one_open_request sample_after"
    by (rule reachable_one_open_request [OF sample_reachable sample_inv(1,2)])
qed

lemma reachable_purchase_inv_witness:
  "purchase_inv (fst (updateStatus_purchase (sample_env ''b'') ''a0'' (sample_review ''MINTED'') sample_after))"
  by (rule reachable_purchase_inv
      [OF rtranclp.rtrancl_into_rtrancl [OF sample_reachable purchase_step.update] sample_inv(1)]) simp

lemma amount_verdict_is_max_requestable_witness:
  "\<exists>r. calculateCompliance (sample_env ''a'') sample_chain (query_of (sample_request ''Alice'' 401)) sample_db
     = Inr r \<and> cr_amountError r \<noteq> None \<and> cr_maxRequestableTokens r = Some ''400''"
proof -
  let ?q = "query_of (sample_request ''Alice'' 401)"
  have s: "current_supply sample_db (cq_tokenContract ?q) = Inr 60000" by code_simp
  then obtain r where r: "calculateCompliance (sample_env ''a'') sample_chain ?q sample_db = Inr r"
    by (auto simp: calculateCompliance_def Let_def case_prod_beta)
  have m: "minBigInt (amount_limits sample_chain ?q sample_db 60000) = Some 40000" by code_simp
  have a: "requested_base_units sample_db ?q = Some 40100" by code_simp
  have "asset_decimals sample_db (cq_tokenContract ?q) = 2" by code_simp
  with r s have d: "cr_decimals r = 2"
    by (auto simp: calculateCompliance_def Let_def case_prod_beta)
  have "baseUnitsToDecimal 40000 2 = ''400''" by code_simp
  with r amount_verdict_is_max_requestable [OF r s] m a d show ?thesis by auto
qed

lemma accepted_request_within_limits_witness:
  "balance_used sample_chain sample_db (query_of (sample_request ''Alice'' 250)) + 25000 \<le> 50000 \<and>
   (25000 :: int) \<le> 40050"
proof -
  have t: "cp_tokenContract (sample_request ''Alice'' 250) = ''MINT''" by (simp add: sample_request_def)
  have "requested_base_units sample_db (query_of (sample_request ''Alice'' 250)) = Some 25000"
    by code_simp
  moreover have "asset_limit sample_db ''MINT'' ''max_balance'' = Some 50000"
    "asset_limit sample_db ''MINT'' ''max_amount'' = Some 40050" by code_simp+
  ultimately show ?thesis
    using accepted_request_within_limits [OF sample_accepted, of 25000] by (simp add: t)
qed

lemma updateStatus_behaviour_witness:
  "\<exists>row. findOne_purchase ''a0'' (fst (updateStatus_purchase (sample_env ''b'') ''a0''
       (sample_review ''MINTED'') sample_after)) = Inr row \<and> pr_mintedAt row = Some 1700000000000"
proof -
  let ?u = "updateStatus_purchase (sample_env ''b'') ''a0'' (sample_review ''MINTED'') sample_after"
  have "\<not> isl (snd ?u)" by code_simp
  then obtain row where "snd ?u = Inr row" by (cases "snd ?u") auto
  moreover have "js_now (sample_env ''b'') = 1700000000000" by (simp add: sample_env_def)
  moreover have "up_status (sample_review ''MINTED'') = Some ''MINTED''" by (simp add: sample_review_def)
  ultimately show ?thesis
    using updateStatus_behaviour [where E = "sample_env ''b''" and i = "''a0''"
        and d = "sample_review ''MINTED''" and db = sample_after]
    by (cases ?u) auto
qed

lemma accepted_request_in_country_witness:
  "int (card (set (getCountryRequestWallets sample_after ''MINT'' 586))) \<le> 2"
proof -
  let ?d = "sample_request ''Alice'' 250"
  have *: "finite_country (query_of ?d) = Some 586" "balance_used sample_chain sample_db (query_of ?d) = 0"
    "List.find (\<lambda>(k, v). k = 586) (parseCountryCaps
       (getParamValue (asset_params sample_db (cp_tokenContract ?d)) ''country_caps'')) = Some (586, 2)"
    by code_simp+
  have t: "cp_tokenContract ?d = ''MINT''" by (simp add: sample_request_def)
  show ?thesis
    using accepted_request_in_country [OF sample_accepted refl refl] * t
    by (simp add: sample_after_def)
qed

lemma accepted_request_investor_cap_witness:
  "1 + int (card (insert ''alice'' (active_new_investors sample_db (query_of (sample_request ''Alice'' 250))))) \<le> 3"
proof -
  let ?d = "sample_request ''Alice'' 250"
  have "live_state_used sample_chain sample_db (query_of ?d) = Some (3, 1)"
    "balance_used sample_chain sample_db (query_of ?d) = 0"
    by code_simp+
  moreover have "toLowerCase (cp_investorWallet ?d) = ''alice''" by code_simp
  ultimately show ?thesis using accepted_request_investor_cap [OF sample_accepted] by simp
qed

lemma review_records_every_hash_witness:
  "\<exists>t. find_tx (pd_ledger (fst (updateStatus_purchase (sample_env ''b'') ''a0''
     (sample_review ''PENDING_ISSUER_REVIEW'') sample_after))) ''tx1'' = Some t"
proof -
  let ?r = "new_purchase_row (sample_env ''a'') ''a0'' (sample_request ''Alice'' 250)"
  have "findOne_purchase ''a0'' sample_after = Inr ?r" by code_simp
  moreover have "snd (updateStatus_purchase (sample_env ''b'') ''a0''
      (sample_review ''PENDING_ISSUER_REVIEW'') sample_after) =
    Inr (purchase_assignments (sample_env ''b'') ''PENDING_KYC'' ''PENDING_ISSUER_REVIEW''
      (sample_review ''PENDING_ISSUER_REVIEW'') ?r)" by code_simp
  moreover have "ledger_inv (pd_ledger sample_after)" by code_simp
  moreover have "pr_status ?r = ''PENDING_KYC''" by code_simp
  ultimately show ?thesis
    using review_records_every_hash [of "sample_env ''b''" "''a0''"
        "sample_review ''PENDING_ISSUER_REVIEW''" sample_after]
    by (simp add: reported_hashes_def sample_review_def)
qed

definition overlapped :: purchase_db where
  "overlapped = fst (store_purchase_request (sample_env ''b'') (sample_request ''Alice'' 250)
     (fst (store_purchase_request (sample_env ''a'') (sample_request ''Alice'' 250) sample_db)))"

lemma sample_checked:
  "validateCompliance (sample_env ''a'') sample_chain (sample_request ''Alice'' 250) sample_db = Inr ()"
  "validateCompliance (sample_env ''b'') sample_chain (sample_request ''Alice'' 250) sample_db = Inr ()"
  by code_simp+

theorem overlapping_creates_are_both_stored_witness:
  "\<not> one_open_request overlapped \<and> \<not> supply_within_cap overlapped ''MINT'' \<and>
   supply_within_cap sample_db ''MINT''"
proof (intro conjI)
  show "\<not> one_open_request overlapped"
    using overlapping_creates_are_both_stored [OF sample_checked, of "''MINT''"]
    by (simp add: overlapped_def sample_request_def)
  show "\<not> supply_within_cap overlapped ''MINT''" by code_simp
qed (rule sample_inv(3))

section \<open>Behaviours the checks do not cover\<close>

text \<open>
  A rejected request can be moved back to an open state while a newer request of the same investor
  is open: the table then holds two open requests for the pair.
\<close>

definition reopened :: purchase_db where
  "reopened =
     (let rejected = fst (updateStatus_purchase (sample_env ''b'') ''a0'' (sample_review ''REJECTED'') sample_after);
          second = fst (create_purchase_request (sample_env ''c'') sample_chain (sample_request ''Alice'' 100) rejected)
      in fst (updateStatus_purchase (sample_env ''d'') ''a0'' (sample_review ''PENDING_AML'') second))"

lemma reopening_breaks_one_open_request: "\<not> one_open_request reopened"
  by code_simp

text \<open>
  An amount whose decimal text has an exponent is not recognised as a decimal: the checks on the
  amount are skipped and the request is stored, ten to the power 21 tokens against a cap of 1000.
\<close>

lemma exponent_amount_skips_limits:
  "requested_base_units sample_db (query_of (sample_request ''Alice'' (10 ^ 21))) = None \<and>
   snd (create_purchase_request (sample_env ''a'') sample_chain (sample_request ''Alice'' (10 ^ 21)) sample_db) =
     Inr (new_purchase_row (sample_env ''a'') ''a0'' (sample_request ''Alice'' (10 ^ 21)))"
  by code_simp

end
