(* ===== verification/TokenListings.thy ===== *)
theory TokenListings
  imports Bytes Ledger
begin

text \<open>
  The secondary market (\<open>backend/src/token-listings\<close>): sellers list tokens, buyers file buy
  intents, reviewers move an intent through the eligibility states, and a completed transfer lowers
  the remaining amount of the listing and adds a row to the transfer history.
\<close>

section \<open>Statuses\<close>

definition LISTING_STATUSES :: "string list" where
  "LISTING_STATUSES = [''LISTED'', ''PARTIALLY_FILLED'', ''FILLED'', ''CANCELLED'', ''EXPIRED'']"

definition OPEN_LISTING_STATUSES :: "string list" where
  "OPEN_LISTING_STATUSES = [''LISTED'', ''PARTIALLY_FILLED'']"

definition BUY_INTENT_STATUSES :: "string list" where
  "BUY_INTENT_STATUSES = [''BUYER_INTERESTED'', ''BUYER_CHECKING_ELIGIBILITY'',
     ''ACTION_REQUIRED_BUYER_FID'', ''PENDING_KYC'', ''PENDING_AML'', ''PENDING_ISSUER_WHITELIST'',
     ''PENDING_ISSUER_ACTIVATION'', ''BUYER_ELIGIBLE'', ''READY_FOR_SELLER_ACCEPTANCE'',
     ''SELLER_ACCEPTED'', ''READY_TO_TRANSFER'', ''TRANSFER_SIMULATION_FAILED'', ''TRANSFERRED'',
     ''REJECTED'', ''CANCELLED'', ''EXPIRED'', ''SELLER_NOT_ELIGIBLE'', ''SELLER_FROZEN'',
     ''SELLER_CLAIM_EXPIRED'', ''INSUFFICIENT_TRANSFERABLE_BALANCE'']"

definition BUY_INTENT_CLOSED_STATUSES :: "string list" where
  "BUY_INTENT_CLOSED_STATUSES = [''TRANSFERRED'', ''REJECTED'', ''CANCELLED'', ''EXPIRED'']"

definition SELLER_ACCEPTANCE_STATUSES :: "string list" where
  "SELLER_ACCEPTANCE_STATUSES = [''SELLER_ACCEPTED'', ''READY_TO_TRANSFER'']"

section \<open>Rows, inputs and state\<close>

record listing_row =
  sl_id :: string
  sl_assetId :: "string option"
  sl_tokenContract :: string
  sl_sellerWallet :: string
  sl_targetBuyerWallet :: "string option"
  sl_amountBaseUnits :: string
  sl_amountRemaining :: string
  sl_price :: "jsnum option"
  sl_currency :: "string option"
  sl_status :: string
  sl_settlementTerms :: "string option"
  sl_expiresAt :: "time option"
  sl_createdAt :: time
  sl_updatedAt :: time

record intent_row =
  bi_id :: string
  bi_listingId :: string
  bi_assetId :: "string option"
  bi_tokenContract :: string
  bi_sellerWallet :: string
  bi_buyerWallet :: string
  bi_amountBaseUnits :: string
  bi_fullName :: "string option"
  bi_email :: "string option"
  bi_nationality :: "string option"
  bi_country :: "string option"
  bi_idDocumentUrl :: "string option"
  bi_proofOfAddressUrl :: "string option"
  bi_status :: string
  bi_requiredClaimTopics :: "string list"
  bi_kycProvider :: "string option"
  bi_amlProvider :: "string option"
  bi_issuerWallet :: "string option"
  bi_preflightFailure :: "string option"
  bi_simulationError :: "string option"
  bi_kycClaimTxHash :: "string option"
  bi_kycClaimedAt :: "time option"
  bi_amlClaimTxHash :: "string option"
  bi_amlClaimedAt :: "time option"
  bi_whitelistTxHash :: "string option"
  bi_whitelistedAt :: "time option"
  bi_activationTxHash :: "string option"
  bi_activatedAt :: "time option"
  bi_transferTxHash :: "string option"
  bi_transferredAt :: "time option"
  bi_rejectionReason :: "string option"
  bi_rejectedAt :: "time option"
  bi_rejectedBy :: "string option"
  bi_createdAt :: time
  bi_updatedAt :: time

record history_row =
  th_id :: string
  th_listingId :: string
  th_buyIntentId :: string
  th_tokenContract :: string
  th_fromWallet :: string
  th_toWallet :: string
  th_amountBaseUnits :: string
  th_txHash :: string

record market_db =
  md_listings :: "listing_row list"
  md_intents :: "intent_row list"
  md_history :: "history_row list"
  md_ledger :: ledger

text \<open>The request bodies: \<open>CreateTokenSellListingDto\<close>, \<open>CreateTokenBuyIntentDto\<close>,
  \<open>UpdateTokenBuyIntentDto\<close>; of \<open>UpdateTokenSellListingDto\<close> the service reads the status only.\<close>

record create_listing =
  cl_assetId :: "string option"
  cl_tokenContract :: string
  cl_sellerWallet :: string
  cl_targetBuyerWallet :: "string option"
  cl_amountBaseUnits :: string
  cl_price :: "jsnum option"
  cl_currency :: "string option"
  cl_settlementTerms :: "string option"
  cl_expiresAt :: "string option"

record create_intent =
  ci_buyerWallet :: string
  ci_amountBaseUnits :: string
  ci_fullName :: "string option"
  ci_email :: "string option"
  ci_nationality :: "string option"
  ci_country :: "string option"
  ci_idDocumentUrl :: "string option"
  ci_proofOfAddressUrl :: "string option"
  ci_status :: "string option"
  ci_requiredClaimTopics :: "string list option"
  ci_kycProvider :: "string option"
  ci_amlProvider :: "string option"
  ci_issuerWallet :: "string option"
  ci_preflightFailure :: "string option"
  ci_simulationError :: "string option"

record update_intent =
  ui_status :: string
  ui_reviewerWallet :: "string option"
  ui_rejectionReason :: "string option"
  ui_preflightFailure :: "string option"
  ui_simulationError :: "string option"
  ui_transferTxHash :: "string option"
  ui_claimTxHash :: "string option"
  ui_whitelistTxHash :: "string option"
  ui_activationTxHash :: "string option"

record update_listing =
  ul_status :: string
  ul_reason :: "string option"

section \<open>Listings\<close>

definition parseAmount :: "string \<Rightarrow> string \<Rightarrow> int res" where
  "parseAmount value label =
     (if \<not> all_digits value
      then Inl (ConflictException (label @ '' must be a non-negative base-unit integer string.''))
      else case BigInt value of
             None \<Rightarrow> Inl (JsError ''SyntaxError'')
           | Some n \<Rightarrow> Inr n)"

definition normalizeWallet :: "('m) chain_scheme \<Rightarrow> string \<Rightarrow> string \<Rightarrow> string res" where
  "normalizeWallet C value label =
     (case pk_of_string C value of
        Inl _ \<Rightarrow> Inl (ConflictException (label @ '' must be a valid Solana wallet address.''))
      | Inr k \<Rightarrow> Inr (toBase58 C k))"

definition optional_wallet :: "('m) chain_scheme \<Rightarrow> string option \<Rightarrow> string \<Rightarrow> string option res" where
  "optional_wallet C value label =
     (case or_null value of
        None \<Rightarrow> Inr None
      | Some v \<Rightarrow> (case normalizeWallet C v label of Inl e \<Rightarrow> Inl e | Inr w \<Rightarrow> Inr (Some w)))"

definition date_param :: "env \<Rightarrow> string option \<Rightarrow> time option res" where
  "date_param E s =
     (case or_null s of
        None \<Rightarrow> Inr None
      | Some t \<Rightarrow> (case js_date E t of
                     None \<Rightarrow> Inl (DatabaseError ''Invalid Date'')
                   | Some v \<Rightarrow> Inr (Some v)))"

definition new_listing_row ::
    "env \<Rightarrow> string \<Rightarrow> create_listing \<Rightarrow> string \<Rightarrow> string option \<Rightarrow> time option \<Rightarrow> listing_row" where
  "new_listing_row E u dto sellerWallet targetBuyerWallet expiresAt = \<lparr>
     sl_id = u,
     sl_assetId = or_null (cl_assetId dto),
     sl_tokenContract = cl_tokenContract dto,
     sl_sellerWallet = sellerWallet,
     sl_targetBuyerWallet = targetBuyerWallet,
     sl_amountBaseUnits = cl_amountBaseUnits dto,
     sl_amountRemaining = cl_amountBaseUnits dto,
     sl_price = cl_price dto,
     sl_currency = or_null (cl_currency dto),
     sl_status = ''LISTED'',
     sl_settlementTerms = or_null (cl_settlementTerms dto),
     sl_expiresAt = expiresAt,
     sl_createdAt = db_now E,
     sl_updatedAt = db_now E \<rparr>"

definition createListing ::
    "env \<Rightarrow> ('m) chain_scheme \<Rightarrow> create_listing \<Rightarrow> (market_db, listing_row) handler" where
  "createListing E C dto db =
     (case parseAmount (cl_amountBaseUnits dto) ''amountBaseUnits'' of Inl e \<Rightarrow> (db, Inl e) | Inr amount \<Rightarrow>
      if amount \<le> 0
      then (db, Inl (ConflictException ''Listing amount must be greater than zero.''))
      else
     (case normalizeWallet C (cl_sellerWallet dto) ''sellerWallet'' of
        Inl e \<Rightarrow> (db, Inl e)
      | Inr sellerWallet \<Rightarrow>
     (case optional_wallet C (cl_targetBuyerWallet dto) ''targetBuyerWallet'' of
        Inl e \<Rightarrow> (db, Inl e)
      | Inr targetBuyerWallet \<Rightarrow>
          if targetBuyerWallet = Some sellerWallet
          then (db, Inl (ConflictException ''targetBuyerWallet must be different from sellerWallet.''))
          else
     (case date_param E (cl_expiresAt dto) of
        Inl e \<Rightarrow> (db, Inl e)
      | Inr expiresAt \<Rightarrow>
          (let row = new_listing_row E (uuid E 0) dto sellerWallet targetBuyerWallet expiresAt
           in (db\<lparr> md_listings := sql_insert row (md_listings db) \<rparr>, Inr row))))))"

record listing_filter =
  lf_assetId :: "string option"
  lf_tokenContract :: "string option"
  lf_sellerWallet :: "string option"
  lf_targetBuyerWallet :: "string option"
  lf_status :: "string option"
  lf_open :: "string option"

definition listing_matches :: "env \<Rightarrow> listing_filter \<Rightarrow> listing_row \<Rightarrow> bool" where
  "listing_matches E q r \<longleftrightarrow>
     query_match (lf_assetId q) (sl_assetId r) \<and>
     query_match (lf_tokenContract q) (Some (sl_tokenContract r)) \<and>
     query_match (lf_sellerWallet q) (Some (sl_sellerWallet r)) \<and>
     (if truthy (lf_targetBuyerWallet q) then sl_targetBuyerWallet r = lf_targetBuyerWallet q
      else truthy (lf_sellerWallet q) \<or> sl_targetBuyerWallet r = None) \<and>
     query_match (lf_status q) (Some (sl_status r)) \<and>
     (lf_open q = Some ''true'' \<longrightarrow>
        sl_status r \<in> set OPEN_LISTING_STATUSES \<and>
        (case sl_expiresAt r of None \<Rightarrow> True | Some t \<Rightarrow> t > db_now E))"

definition findListings :: "env \<Rightarrow> listing_filter \<Rightarrow> market_db \<Rightarrow> listing_row list" where
  "findListings E q db =
     sort_key (\<lambda>r. - sl_createdAt r) (filter (listing_matches E q) (md_listings db))"

definition findListing :: "string \<Rightarrow> market_db \<Rightarrow> listing_row res" where
  "findListing i db =
     (case List.find (\<lambda>r. sl_id r = i) (md_listings db) of
        None \<Rightarrow> Inl (NotFoundException ''Token listing not found.'')
      | Some r \<Rightarrow> Inr r)"

definition set_listing_status :: "string \<times> time \<Rightarrow> listing_row \<Rightarrow> listing_row" where
  "set_listing_status p r = r\<lparr> sl_status := fst p, sl_updatedAt := snd p \<rparr>"

definition updateListingStatus ::
    "env \<Rightarrow> string \<Rightarrow> update_listing \<Rightarrow> (market_db, listing_row) handler" where
  "updateListingStatus E i dto db =
     (if ul_status dto \<notin> set LISTING_STATUSES
      then (db, Inl (ConflictException ''Invalid listing status.''))
      else case findListing i db of
             Inl e \<Rightarrow> (db, Inl e)
           | Inr r \<Rightarrow>
               (let assign = set_listing_status (ul_status dto, db_now E)
                in (db\<lparr> md_listings := sql_update (\<lambda>r. sl_id r = i) assign (md_listings db) \<rparr>,
                    Inr (assign r))))"

section \<open>Buy intents\<close>

text \<open>\<open>new Date(String(d)).getTime()\<close>: the text of a date has no milliseconds.\<close>

definition date_via_string :: "time \<Rightarrow> time" where
  "date_via_string t = (t div 1000) * 1000"

definition listing_expired :: "env \<Rightarrow> listing_row \<Rightarrow> bool" where
  "listing_expired E r =
     (case sl_expiresAt r of None \<Rightarrow> False | Some t \<Rightarrow> date_via_string t \<le> js_now E)"

definition is_open_intent :: "string \<Rightarrow> string \<Rightarrow> intent_row \<Rightarrow> bool" where
  "is_open_intent listingId buyerWallet r \<longleftrightarrow>
     bi_listingId r = listingId \<and> bi_buyerWallet r = buyerWallet \<and>
     bi_status r \<notin> set BUY_INTENT_CLOSED_STATUSES"

definition new_intent_row ::
    "env \<Rightarrow> string \<Rightarrow> listing_row \<Rightarrow> create_intent \<Rightarrow> string \<Rightarrow> string \<Rightarrow> intent_row" where
  "new_intent_row E u listing dto buyerWallet status = \<lparr>
     bi_id = u,
     bi_listingId = sl_id listing,
     bi_assetId = or_null (sl_assetId listing),
     bi_tokenContract = sl_tokenContract listing,
     bi_sellerWallet = sl_sellerWallet listing,
     bi_buyerWallet = buyerWallet,
     bi_amountBaseUnits = ci_amountBaseUnits dto,
     bi_fullName = or_null (ci_fullName dto),
     bi_email = or_null (ci_email dto),
     bi_nationality = or_null (ci_nationality dto),
     bi_country = or_null (ci_country dto),
     bi_idDocumentUrl = or_null (ci_idDocumentUrl dto),
     bi_proofOfAddressUrl = or_null (ci_proofOfAddressUrl dto),
     bi_status = status,
     bi_requiredClaimTopics = (case ci_requiredClaimTopics dto of None \<Rightarrow> [] | Some ts \<Rightarrow> ts),
     bi_kycProvider = or_null (ci_kycProvider dto),
     bi_amlProvider = or_null (ci_amlProvider dto),
     bi_issuerWallet = or_null (ci_issuerWallet dto),
     bi_preflightFailure = or_null (ci_preflightFailure dto),
     bi_simulationError = or_null (ci_simulationError dto),
     bi_kycClaimTxHash = None, bi_kycClaimedAt = None,
     bi_amlClaimTxHash = None, bi_amlClaimedAt = None,
     bi_whitelistTxHash = None, bi_whitelistedAt = None,
     bi_activationTxHash = None, bi_activatedAt = None,
     bi_transferTxHash = None, bi_transferredAt = None,
     bi_rejectionReason = None, bi_rejectedAt = None, bi_rejectedBy = None,
     bi_createdAt = db_now E,
     bi_updatedAt = db_now E \<rparr>"

text \<open>The checks of \<open>createBuyIntent\<close>: the listing, the buyer's address and the status to store.\<close>

definition check_buy_intent ::
    "env \<Rightarrow> ('m) chain_scheme \<Rightarrow> string \<Rightarrow> create_intent \<Rightarrow> market_db \<Rightarrow>
       (listing_row \<times> string \<times> string) res" where
  "check_buy_intent E C listingId dto db =
     (case findListing listingId db of Inl e \<Rightarrow> Inl e | Inr listing \<Rightarrow>
      if sl_status listing \<notin> set OPEN_LISTING_STATUSES
      then Inl (ConflictException ''Listing is not open for buyer requests.'')
      else if listing_expired E listing then Inl (ConflictException ''Listing is expired.'')
      else
     (case normalizeWallet C (ci_buyerWallet dto) ''buyerWallet'' of Inl e \<Rightarrow> Inl e | Inr buyerWallet \<Rightarrow>
      if truthy (sl_targetBuyerWallet listing) \<and> sl_targetBuyerWallet listing \<noteq> Some buyerWallet
      then Inl (ConflictException ''This listing is reserved for another wallet.'')
      else
     (case parseAmount (ci_amountBaseUnits dto) ''amountBaseUnits'' of Inl e \<Rightarrow> Inl e | Inr requested \<Rightarrow>
     (case parseAmount (sl_amountRemaining listing) ''amountRemaining'' of Inl e \<Rightarrow> Inl e | Inr remaining \<Rightarrow>
      if requested \<le> 0
      then Inl (ConflictException ''Requested amount must be greater than zero.'')
      else if requested \<noteq> remaining
      then Inl (ConflictException ''Requested amount must match the listing amount.'')
      else
      (let status = or_else (ci_status dto) ''BUYER_INTERESTED''
       in if status \<notin> set BUY_INTENT_STATUSES
          then Inl (ConflictException ''Invalid buy intent status.'')
          else if \<exists>r \<in> set (md_intents db). is_open_intent listingId buyerWallet r
          then Inl (ConflictException ''This buyer already has an open request for this listing.'')
          else Inr (listing, buyerWallet, status))))))"

definition createBuyIntent ::
    "env \<Rightarrow> ('m) chain_scheme \<Rightarrow> string \<Rightarrow> create_intent \<Rightarrow> (market_db, intent_row) handler" where
  "createBuyIntent E C listingId dto db =
     (case check_buy_intent E C listingId dto db of
        Inl e \<Rightarrow> (db, Inl e)
      | Inr (listing, buyerWallet, status) \<Rightarrow>
          (let row = new_intent_row E (uuid E 0) listing dto buyerWallet status
           in (db\<lparr> md_intents := sql_insert row (md_intents db) \<rparr>, Inr row)))"

record intent_filter =
  if_listingId :: "string option"
  if_buyerWallet :: "string option"
  if_sellerWallet :: "string option"
  if_kycProvider :: "string option"
  if_amlProvider :: "string option"
  if_issuerWallet :: "string option"
  if_status :: "string option"

definition intent_matches :: "intent_filter \<Rightarrow> intent_row \<Rightarrow> bool" where
  "intent_matches q r \<longleftrightarrow>
     query_match (if_listingId q) (Some (bi_listingId r)) \<and>
     query_match (if_buyerWallet q) (Some (bi_buyerWallet r)) \<and>
     query_match (if_sellerWallet q) (Some (bi_sellerWallet r)) \<and>
     query_match (if_kycProvider q) (bi_kycProvider r) \<and>
     query_match (if_amlProvider q) (bi_amlProvider r) \<and>
     query_match (if_issuerWallet q) (bi_issuerWallet r) \<and>
     query_match (if_status q) (Some (bi_status r))"

definition findBuyIntents :: "intent_filter \<Rightarrow> market_db \<Rightarrow> intent_row list" where
  "findBuyIntents q db =
     sort_key (\<lambda>r. - bi_createdAt r) (filter (intent_matches q) (md_intents db))"

definition findBuyIntent :: "string \<Rightarrow> market_db \<Rightarrow> intent_row res" where
  "findBuyIntent i db =
     (case List.find (\<lambda>r. bi_id r = i) (md_intents db) of
        None \<Rightarrow> Inl (NotFoundException ''Buy intent not found.'')
      | Some r \<Rightarrow> Inr r)"

section \<open>Status updates of a buy intent\<close>

text \<open>
  \<open>updateBuyIntentStatus\<close> reads the intent and the listing first and writes later, so another
  request may run in between. \<open>plan_intent_update\<close> is the reading part with its checks; it yields
  what the writing part uses: the intent as read and, for a transfer, the new remaining amount.
\<close>

record intent_plan =
  ip_intent :: intent_row
  ip_newRemaining :: "int option"

definition plan_intent_update :: "string \<Rightarrow> update_intent \<Rightarrow> market_db \<Rightarrow> intent_plan res" where
  "plan_intent_update i dto db =
     (if ui_status dto \<notin> set BUY_INTENT_STATUSES
      then Inl (ConflictException ''Invalid buy intent status.'')
      else
     (case findBuyIntent i db of Inl e \<Rightarrow> Inl e | Inr intent \<Rightarrow>
     (case findListing (bi_listingId intent) db of Inl e \<Rightarrow> Inl e | Inr listing \<Rightarrow>
     (case parseAmount (bi_amountBaseUnits intent) ''amountBaseUnits'' of Inl e \<Rightarrow> Inl e | Inr requested \<Rightarrow>
     (case parseAmount (sl_amountRemaining listing) ''amountRemaining'' of Inl e \<Rightarrow> Inl e | Inr remaining \<Rightarrow>
      if ui_status dto \<in> set SELLER_ACCEPTANCE_STATUSES \<and>
         sl_status listing \<notin> set OPEN_LISTING_STATUSES
      then Inl (ConflictException ''Seller cannot accept because listing is not open.'')
      else if ui_status dto \<in> set SELLER_ACCEPTANCE_STATUSES \<and> requested > remaining
      then Inl (ConflictException
        ''Seller cannot accept because requested amount exceeds listing remaining amount.'')
      else if ui_status dto = ''TRANSFERRED''
      then (if \<not> truthy (ui_transferTxHash dto)
            then Inl (ConflictException ''transferTxHash is required when marking transferred.'')
            else if requested > remaining
            then Inl (ConflictException ''Transfer amount exceeds listing remaining amount.'')
            else Inr \<lparr> ip_intent = intent, ip_newRemaining = Some (remaining - requested) \<rparr>)
      else Inr \<lparr> ip_intent = intent, ip_newRemaining = None \<rparr>)))))"

text \<open>The list \<open>updates\<close>, in the order it is built; \<open>currentStatus\<close> is \<open>intent.status\<close>.\<close>

definition intent_assignments ::
    "env \<Rightarrow> string \<Rightarrow> update_intent \<Rightarrow> intent_row \<Rightarrow> intent_row" where
  "intent_assignments E currentStatus dto r =
     (let now = db_now E;
          r1 = r\<lparr> bi_status := ui_status dto, bi_updatedAt := now \<rparr>;
          r2 = apply_if (ui_preflightFailure dto \<noteq> None)
                 (\<lambda>r. r\<lparr> bi_preflightFailure := ui_preflightFailure dto \<rparr>) r1;
          r3 = apply_if (ui_simulationError dto \<noteq> None)
                 (\<lambda>r. r\<lparr> bi_simulationError := ui_simulationError dto \<rparr>) r2;
          r4 = apply_if (truthy (ui_claimTxHash dto) \<and> currentStatus = ''PENDING_KYC'')
                 (\<lambda>r. r\<lparr> bi_kycClaimTxHash := ui_claimTxHash dto, bi_kycClaimedAt := Some now \<rparr>) r3;
          r5 = apply_if (truthy (ui_claimTxHash dto) \<and> currentStatus = ''PENDING_AML'')
                 (\<lambda>r. r\<lparr> bi_amlClaimTxHash := ui_claimTxHash dto, bi_amlClaimedAt := Some now \<rparr>) r4;
          r6 = apply_if (truthy (ui_whitelistTxHash dto))
                 (\<lambda>r. r\<lparr> bi_whitelistTxHash := ui_whitelistTxHash dto, bi_whitelistedAt := Some now \<rparr>) r5;
          r7 = apply_if (truthy (ui_activationTxHash dto))
                 (\<lambda>r. r\<lparr> bi_activationTxHash := ui_activationTxHash dto, bi_activatedAt := Some now \<rparr>) r6;
          r8 = apply_if (ui_status dto = ''REJECTED'')
                 (\<lambda>r. r\<lparr> bi_rejectionReason := Some (or_else (ui_rejectionReason dto) ''Rejected''),
                        bi_rejectedAt := Some now,
                        bi_rejectedBy := or_null (ui_reviewerWallet dto) \<rparr>) r7
      in apply_if (ui_status dto = ''TRANSFERRED'')
           (\<lambda>r. r\<lparr> bi_transferTxHash := ui_transferTxHash dto, bi_transferredAt := Some now \<rparr>) r8)"

definition intent_entry :: "string \<Rightarrow> update_intent \<Rightarrow> intent_row \<Rightarrow> string \<Rightarrow> string \<Rightarrow> ledger_entry" where
  "intent_entry i dto intent actionType txHash = \<lparr>
     le_txHash = txHash, le_actionType = actionType,
     le_actorWallet = or_null (ui_reviewerWallet dto),
     le_entityType = Some ''token_buy_intent'',
     le_entityId = Some i,
     le_assetId = or_null (bi_assetId intent),
     le_tokenContract = Some (bi_tokenContract intent),
     le_metadata = None, le_networkFeeLamports = None, le_rentDepositLamports = None,
     le_rentRefundLamports = None, le_netSolChangeLamports = None, le_occurredAt = None \<rparr>"

definition intent_ledger_entries :: "string \<Rightarrow> update_intent \<Rightarrow> intent_row \<Rightarrow> ledger_entry list" where
  "intent_ledger_entries i dto intent =
     (let status = bi_status intent; mk = intent_entry i dto intent
      in entry_when (status = ''PENDING_KYC'') (ui_claimTxHash dto) (mk ''TRANSFER_ELIGIBILITY_KYC_CLAIM'') @
         entry_when (status = ''PENDING_AML'') (ui_claimTxHash dto) (mk ''TRANSFER_ELIGIBILITY_AML_CLAIM'') @
         entry_when True (ui_whitelistTxHash dto) (mk ''INVESTOR_WHITELISTED'') @
         entry_when True (ui_activationTxHash dto) (mk ''IDENTITY_ACTIVATED'') @
         entry_when True (ui_transferTxHash dto) (mk ''MARKETPLACE_TRANSFER''))"

definition recordBuyIntentLedgerEntries ::
    "env \<Rightarrow> nat \<Rightarrow> string \<Rightarrow> update_intent \<Rightarrow> intent_row \<Rightarrow> (ledger, unit) handler" where
  "recordBuyIntentLedgerEntries E k i dto intent l =
     record_all E k (intent_ledger_entries i dto intent) l"

definition set_remaining :: "int \<times> time \<Rightarrow> listing_row \<Rightarrow> listing_row" where
  "set_remaining p r = r\<lparr>
     sl_amountRemaining := bigint_toString (fst p),
     sl_status := (if fst p = 0 then ''FILLED'' else ''PARTIALLY_FILLED''),
     sl_updatedAt := snd p \<rparr>"

definition new_history_row :: "string \<Rightarrow> string \<Rightarrow> update_intent \<Rightarrow> intent_row \<Rightarrow> history_row" where
  "new_history_row u i dto intent = \<lparr>
     th_id = u, th_listingId = bi_listingId intent, th_buyIntentId = i,
     th_tokenContract = bi_tokenContract intent,
     th_fromWallet = bi_sellerWallet intent,
     th_toWallet = bi_buyerWallet intent,
     th_amountBaseUnits = bi_amountBaseUnits intent,
     th_txHash = (case ui_transferTxHash dto of None \<Rightarrow> [] | Some h \<Rightarrow> h) \<rparr>"

text \<open>The writing part: one transaction for a transfer, one statement otherwise, then the ledger.\<close>

definition commit_intent_update ::
    "env \<Rightarrow> string \<Rightarrow> update_intent \<Rightarrow> intent_plan \<Rightarrow> (market_db, intent_row option) handler" where
  "commit_intent_update E i dto plan db =
     (let intent = ip_intent plan;
          intents = sql_update (\<lambda>r. bi_id r = i) (intent_assignments E (bi_status intent) dto)
                      (md_intents db);
          updated = List.find (\<lambda>r. bi_id r = i) intents
      in case ip_newRemaining plan of
           Some newRemaining \<Rightarrow>
             (let listings = sql_update (\<lambda>r. sl_id r = bi_listingId intent)
                               (set_remaining (newRemaining, db_now E)) (md_listings db);
                  history = sql_insert (new_history_row (uuid E 0) i dto intent) (md_history db);
                  (ledger, recorded) = recordBuyIntentLedgerEntries E 1 i dto intent (md_ledger db)
              in (db\<lparr> md_intents := intents, md_listings := listings, md_history := history,
                      md_ledger := ledger \<rparr>,
                  case recorded of Inl e \<Rightarrow> Inl e | Inr _ \<Rightarrow> Inr updated))
         | None \<Rightarrow>
             (let (ledger, recorded) = recordBuyIntentLedgerEntries E 0 i dto intent (md_ledger db)
              in (db\<lparr> md_intents := intents, md_ledger := ledger \<rparr>,
                  case recorded of Inl e \<Rightarrow> Inl e | Inr _ \<Rightarrow> Inr updated)))"

definition updateBuyIntentStatus ::
    "env \<Rightarrow> string \<Rightarrow> update_intent \<Rightarrow> (market_db, intent_row option) handler" where
  "updateBuyIntentStatus E i dto db =
     (case plan_intent_update i dto db of
        Inl e \<Rightarrow> (db, Inl e)
      | Inr plan \<Rightarrow> commit_intent_update E i dto plan db)"

definition set_intent_resumed :: "string \<times> time \<Rightarrow> intent_row \<Rightarrow> intent_row" where
  "set_intent_resumed p r =
     r\<lparr> bi_status := fst p, bi_preflightFailure := None, bi_updatedAt := snd p \<rparr>"

definition resumeBuyIntentAfterIdentity :: "env \<Rightarrow> string \<Rightarrow> (market_db, intent_row) handler" where
  "resumeBuyIntentAfterIdentity E i db =
     (case findBuyIntent i db of
        Inl e \<Rightarrow> (db, Inl e)
      | Inr intent \<Rightarrow>
          if bi_status intent \<noteq> ''ACTION_REQUIRED_BUYER_FID'' then (db, Inr intent)
          else
            (let topics = bi_requiredClaimTopics intent;
                 nextStatus = (if ''1'' \<in> set topics then ''PENDING_KYC''
                               else if ''2'' \<in> set topics then ''PENDING_AML''
                               else ''PENDING_ISSUER_WHITELIST'');
                 assign = set_intent_resumed (nextStatus, db_now E)
             in (db\<lparr> md_intents := sql_update (\<lambda>r. bi_id r = i) assign (md_intents db) \<rparr>,
                 Inr (assign intent))))"

end
