(* ===== verification/ListingProperties.thy ===== *)
theory ListingProperties
  imports TokenListings
begin

text \<open>
  Correctness of the secondary market: what is left of a listing and what was transferred from it
  always add up to what was listed, a listing is sold whole and at most once, to the buyer it is
  reserved for, and the tables implement an abstract market of listings that are open or sold.
\<close>

section \<open>Updates of rows\<close>

lemmas keeps_intent_row =
  apply_if_keeps [of bi_id] apply_if_keeps [of bi_listingId] apply_if_keeps [of bi_amountBaseUnits]
  apply_if_keeps [of bi_sellerWallet] apply_if_keeps [of bi_buyerWallet]
  apply_if_keeps [of bi_tokenContract] apply_if_keeps [of bi_status]

lemma intent_assignments_keeps [simp]:
  "bi_id (intent_assignments E c d r) = bi_id r"
  "bi_listingId (intent_assignments E c d r) = bi_listingId r"
  "bi_amountBaseUnits (intent_assignments E c d r) = bi_amountBaseUnits r"
  "bi_sellerWallet (intent_assignments E c d r) = bi_sellerWallet r"
  "bi_buyerWallet (intent_assignments E c d r) = bi_buyerWallet r"
  "bi_tokenContract (intent_assignments E c d r) = bi_tokenContract r"
  "bi_status (intent_assignments E c d r) = ui_status d"
  by (simp_all add: intent_assignments_def Let_def keeps_intent_row)

lemma set_intent_resumed_keeps [simp]:
  "bi_id (set_intent_resumed p r) = bi_id r"
  "bi_listingId (set_intent_resumed p r) = bi_listingId r"
  "bi_amountBaseUnits (set_intent_resumed p r) = bi_amountBaseUnits r"
  "bi_sellerWallet (set_intent_resumed p r) = bi_sellerWallet r"
  "bi_buyerWallet (set_intent_resumed p r) = bi_buyerWallet r"
  "bi_tokenContract (set_intent_resumed p r) = bi_tokenContract r"
  by (simp_all add: set_intent_resumed_def)

interpretation intents: keyed_table bi_id "\<lambda>(E, c, d). intent_assignments E c d"
  by unfold_locales auto

interpretation listing_status: keyed_table sl_id set_listing_status
  by unfold_locales (simp add: set_listing_status_def)

interpretation listing_remaining: keyed_table sl_id set_remaining
  by unfold_locales (simp add: set_remaining_def)

lemma parseAmount_Inr: "parseAmount s label = Inr n \<longleftrightarrow> all_digits s \<and> n = digits_val s"
  by (auto simp: parseAmount_def BigInt_digits)

lemma units_nonneg: "all_digits s \<Longrightarrow> 0 \<le> digits_val s"
  by (simp add: all_digits_def digits_val_nonneg)

lemma toString_units: "0 \<le> n \<Longrightarrow> all_digits (bigint_toString n) \<and> digits_val (bigint_toString n) = n"
  by (simp add: all_digits_def)

lemma findListing_Inr:
  "findListing i db = Inr l \<longleftrightarrow> List.find (\<lambda>r. sl_id r = i) (md_listings db) = Some l"
  by (auto simp: findListing_def split: option.splits)

lemma findBuyIntent_Inr:
  "findBuyIntent i db = Inr r \<longleftrightarrow> List.find (\<lambda>r. bi_id r = i) (md_intents db) = Some r"
  by (auto simp: findBuyIntent_def split: option.splits)

lemma intent_entries_plain: "list_all plain_entry (intent_ledger_entries i d r)"
  by (auto simp: list_all_iff intent_ledger_entries_def Let_def set_entry_when intent_entry_def
      plain_entry_def)

section \<open>The market invariant\<close>

definition total_units :: "listing_row \<Rightarrow> int" where
  "total_units l = digits_val (sl_amountBaseUnits l)"

definition remaining_units :: "listing_row \<Rightarrow> int" where
  "remaining_units l = digits_val (sl_amountRemaining l)"

definition transfers_of :: "market_db \<Rightarrow> string \<Rightarrow> history_row list" where
  "transfers_of db i = filter (\<lambda>h. th_listingId h = i) (md_history db)"

definition sold_units :: "market_db \<Rightarrow> string \<Rightarrow> int" where
  "sold_units db i = sum_list (map (\<lambda>h. digits_val (th_amountBaseUnits h)) (transfers_of db i))"

definition listing_ok :: "market_db \<Rightarrow> listing_row \<Rightarrow> bool" where
  "listing_ok db l \<longleftrightarrow> all_digits (sl_amountBaseUnits l) \<and> all_digits (sl_amountRemaining l) \<and>
     0 < total_units l \<and> remaining_units l + sold_units db (sl_id l) = total_units l \<and>
     (\<forall>h \<in> set (transfers_of db (sl_id l)). digits_val (th_amountBaseUnits h) = total_units l)"

definition buyer_allowed :: "listing_row \<Rightarrow> string \<Rightarrow> bool" where
  "buyer_allowed l w \<longleftrightarrow> truthy (sl_targetBuyerWallet l) \<longrightarrow> sl_targetBuyerWallet l = Some w"

definition intent_ok :: "market_db \<Rightarrow> intent_row \<Rightarrow> bool" where
  "intent_ok db r \<longleftrightarrow> all_digits (bi_amountBaseUnits r) \<and>
     (\<exists>l \<in> set (md_listings db). sl_id l = bi_listingId r \<and>
        digits_val (bi_amountBaseUnits r) = total_units l \<and>
        bi_sellerWallet r = sl_sellerWallet l \<and> bi_tokenContract r = sl_tokenContract l \<and>
        buyer_allowed l (bi_buyerWallet r))"

definition history_ok :: "market_db \<Rightarrow> history_row \<Rightarrow> bool" where
  "history_ok db h \<longleftrightarrow>
     (\<exists>l \<in> set (md_listings db). sl_id l = th_listingId h \<and>
        th_fromWallet h = sl_sellerWallet l \<and> th_tokenContract h = sl_tokenContract l \<and>
        buyer_allowed l (th_toWallet h))"

definition market_inv :: "market_db \<Rightarrow> bool" where
  "market_inv db \<longleftrightarrow> distinct (map sl_id (md_listings db)) \<and> distinct (map bi_id (md_intents db)) \<and>
     (\<forall>l \<in> set (md_listings db). listing_ok db l) \<and>
     (\<forall>r \<in> set (md_intents db). intent_ok db r) \<and>
     (\<forall>h \<in> set (md_history db). history_ok db h) \<and> ledger_inv (md_ledger db)"

text \<open>A listing is untouched or sold whole in one transfer.\<close>

lemma listing_ok_cases:
  assumes "listing_ok db l"
  obtains (unsold) "remaining_units l = total_units l" "transfers_of db (sl_id l) = []"
  | (sold) h where "remaining_units l = 0" "transfers_of db (sl_id l) = [h]"
proof -
  let ?hs = "transfers_of db (sl_id l)"
  have "sold_units db (sl_id l) = int (length ?hs) * total_units l"
    using assms unfolding sold_units_def listing_ok_def
    by (auto simp: sum_list_triv cong: map_cong)
  moreover have "0 \<le> remaining_units l" and t: "0 < total_units l"
    using assms by (auto simp: listing_ok_def remaining_units_def units_nonneg)
  moreover have "remaining_units l + sold_units db (sl_id l) = total_units l"
    using assms by (simp add: listing_ok_def)
  ultimately have *: "int (length ?hs) * total_units l \<le> 1 * total_units l"
    and eq: "remaining_units l = total_units l - int (length ?hs) * total_units l"
    by linarith+
  from * t have "int (length ?hs) \<le> 1" using mult_le_cancel_right_pos by blast
  then consider "length ?hs = 0" | "length ?hs = 1" by linarith
  then show thesis
  proof cases
    case 1
    with eq unsold show thesis by simp
  next
    case 2
    then obtain h where "?hs = [h]" by (auto simp: length_Suc_conv)
    with eq sold show thesis by simp
  qed
qed

section \<open>What each call does\<close>

lemma createListing_effect:
  "fst (createListing E C d db) = db \<or>
   (\<exists>s t x. all_digits (cl_amountBaseUnits d) \<and> 0 < digits_val (cl_amountBaseUnits d) \<and>
      fst (createListing E C d db) =
        db\<lparr> md_listings := sql_insert (new_listing_row E (uuid E 0) d s t x) (md_listings db) \<rparr>)"
  by (auto simp: createListing_def parseAmount_Inr Let_def split: sum.splits)

lemma check_buy_intent_facts:
  assumes "check_buy_intent E C i d db = Inr (l, w, s)"
  shows "findListing i db = Inr l" "sl_id l = i" "all_digits (ci_amountBaseUnits d)"
    "0 < digits_val (ci_amountBaseUnits d)" "digits_val (ci_amountBaseUnits d) = remaining_units l"
    "buyer_allowed l w" "sl_status l \<in> set OPEN_LISTING_STATUSES" "\<not> listing_expired E l"
    "s \<in> set BUY_INTENT_STATUSES" "\<forall>r \<in> set (md_intents db). \<not> is_open_intent i w r"
proof -
  show "findListing i db = Inr l" "all_digits (ci_amountBaseUnits d)"
    "0 < digits_val (ci_amountBaseUnits d)" "digits_val (ci_amountBaseUnits d) = remaining_units l"
    "buyer_allowed l w" "sl_status l \<in> set OPEN_LISTING_STATUSES" "\<not> listing_expired E l"
    "s \<in> set BUY_INTENT_STATUSES" "\<forall>r \<in> set (md_intents db). \<not> is_open_intent i w r"
    using assms
    by (auto simp: check_buy_intent_def parseAmount_Inr remaining_units_def buyer_allowed_def Let_def
        split: sum.splits if_splits)
  then show "sl_id l = i" by (auto simp: findListing_Inr dest: find_Some_memD)
qed

lemma createBuyIntent_effect:
  "fst (createBuyIntent E C i d db) = db \<or>
   (\<exists>l w s. check_buy_intent E C i d db = Inr (l, w, s) \<and>
      fst (createBuyIntent E C i d db) =
        db\<lparr> md_intents := sql_insert (new_intent_row E (uuid E 0) l d w s) (md_intents db) \<rparr>)"
  by (auto simp: createBuyIntent_def Let_def split: sum.splits)

lemma plan_facts:
  assumes "plan_intent_update i d db = Inr p"
  obtains r l where "findBuyIntent i db = Inr r" "findListing (bi_listingId r) db = Inr l"
    "ip_intent p = r" "ui_status d \<in> set BUY_INTENT_STATUSES"
    "ui_status d \<noteq> ''TRANSFERRED'' \<Longrightarrow> ip_newRemaining p = None"
    "ui_status d = ''TRANSFERRED'' \<Longrightarrow> truthy (ui_transferTxHash d) \<and>
       digits_val (bi_amountBaseUnits r) \<le> remaining_units l \<and>
       ip_newRemaining p = Some (remaining_units l - digits_val (bi_amountBaseUnits r))"
  using assms
  by (auto simp: plan_intent_update_def parseAmount_Inr remaining_units_def
      split: sum.splits if_splits)

definition transferred_db ::
    "env \<Rightarrow> string \<Rightarrow> update_intent \<Rightarrow> intent_row \<Rightarrow> int \<Rightarrow> market_db \<Rightarrow> market_db" where
  "transferred_db E i d r n db = db\<lparr>
     md_intents := sql_update (\<lambda>r. bi_id r = i) (intent_assignments E (bi_status r) d) (md_intents db),
     md_listings := sql_update (\<lambda>x. sl_id x = bi_listingId r) (set_remaining (n, db_now E))
       (md_listings db),
     md_history := sql_insert (new_history_row (uuid E 0) i d r) (md_history db),
     md_ledger := fst (record_all E 1 (intent_ledger_entries i d r) (md_ledger db)) \<rparr>"

lemma commit_effect:
  "fst (commit_intent_update E i d p db) =
     (case ip_newRemaining p of
        Some n \<Rightarrow> transferred_db E i d (ip_intent p) n db
      | None \<Rightarrow> db\<lparr> md_intents := sql_update (\<lambda>r. bi_id r = i)
                       (intent_assignments E (bi_status (ip_intent p)) d) (md_intents db),
                   md_ledger := fst (record_all E 0 (intent_ledger_entries i d (ip_intent p))
                       (md_ledger db)) \<rparr>)"
  by (auto simp: commit_intent_update_def Let_def recordBuyIntentLedgerEntries_def transferred_db_def
      case_prod_beta split: option.splits)

section \<open>Sequences of calls\<close>

text \<open>
  One call that runs to its end before the next one starts. \<open>randomUUID()\<close> yields an identifier no
  row of the table has.
\<close>

inductive market_step :: "market_db \<Rightarrow> market_db \<Rightarrow> bool" where
  listing: "uuid E 0 \<notin> sl_id ` set (md_listings db) \<Longrightarrow>
    market_step db (fst (createListing E (C :: chain) d db))"
| listing_status: "market_step db (fst (updateListingStatus E i ld db))"
| intent: "uuid E 0 \<notin> bi_id ` set (md_intents db) \<Longrightarrow>
    market_step db (fst (createBuyIntent E (C :: chain) i ci db))"
| intent_status: "market_step db (fst (updateBuyIntentStatus E i ud db))"
| resume: "market_step db (fst (resumeBuyIntentAfterIdentity E i db))"

definition keeps_sale :: "(intent_row \<Rightarrow> intent_row) \<Rightarrow> bool" where
  "keeps_sale f \<longleftrightarrow> (\<forall>r. bi_id (f r) = bi_id r \<and> bi_listingId (f r) = bi_listingId r \<and>
     bi_amountBaseUnits (f r) = bi_amountBaseUnits r \<and> bi_sellerWallet (f r) = bi_sellerWallet r \<and>
     bi_buyerWallet (f r) = bi_buyerWallet r \<and> bi_tokenContract (f r) = bi_tokenContract r)"

lemma keeps_sale_intro [intro]:
  "keeps_sale (intent_assignments E c d)" "keeps_sale (set_intent_resumed p)"
  by (simp_all add: keeps_sale_def)

text \<open>The shape of a step, with the facts about the rows it writes.\<close>

lemma market_step_cases [consumes 1]:
  assumes "market_step db db'"
  obtains (same) "db' = db"
  | (list) row where "sl_id row \<notin> sl_id ` set (md_listings db)" "all_digits (sl_amountBaseUnits row)"
      "0 < total_units row" "sl_amountRemaining row = sl_amountBaseUnits row"
      "db' = db\<lparr> md_listings := sql_insert row (md_listings db) \<rparr>"
  | (restatus) i p where
      "db' = db\<lparr> md_listings := sql_update (\<lambda>r. sl_id r = i) (set_listing_status p) (md_listings db) \<rparr>"
  | (filed) l row where "findListing (sl_id l) db = Inr l" "bi_id row \<notin> bi_id ` set (md_intents db)"
      "bi_listingId row = sl_id l" "all_digits (bi_amountBaseUnits row)"
      "0 < digits_val (bi_amountBaseUnits row)"
      "digits_val (bi_amountBaseUnits row) = remaining_units l"
      "bi_sellerWallet row = sl_sellerWallet l" "bi_tokenContract row = sl_tokenContract l"
      "buyer_allowed l (bi_buyerWallet row)"
      "db' = db\<lparr> md_intents := sql_insert row (md_intents db) \<rparr>"
  | (review) i f led where "keeps_sale f" "ledger_inv (md_ledger db) \<Longrightarrow> ledger_inv led"
      "db' = db\<lparr> md_intents := sql_update (\<lambda>r. bi_id r = i) f (md_intents db), md_ledger := led \<rparr>"
  | (transfer) E i d r l where "findBuyIntent i db = Inr r" "findListing (bi_listingId r) db = Inr l"
      "digits_val (bi_amountBaseUnits r) \<le> remaining_units l"
      "db' = transferred_db E i d r (remaining_units l - digits_val (bi_amountBaseUnits r)) db"
  using assms
proof (cases rule: market_step.cases)
  case (listing E C d)
  from createListing_effect [of E C d db] show ?thesis
  proof (elim disjE exE conjE)
    fix s t x
    let ?row = "new_listing_row E (uuid E 0) d s t x"
    assume "all_digits (cl_amountBaseUnits d)" "0 < digits_val (cl_amountBaseUnits d)"
      "fst (createListing E C d db) = db\<lparr> md_listings := sql_insert ?row (md_listings db) \<rparr>"
    with listing show ?thesis
      by (intro list [of ?row]) (simp_all add: new_listing_row_def total_units_def)
  qed (use listing same in simp)
next
  case (listing_status E i ld)
  then show ?thesis using same restatus
    by (auto simp: updateListingStatus_def Let_def split: sum.splits if_splits)
next
  case (intent E C i ci)
  from createBuyIntent_effect [of E C i ci db] show ?thesis
  proof (elim disjE exE conjE)
    fix l w s
    let ?row = "new_intent_row E (uuid E 0) l ci w s"
    assume c: "check_buy_intent E C i ci db = Inr (l, w, s)" and
      e: "fst (createBuyIntent E C i ci db) = db\<lparr> md_intents := sql_insert ?row (md_intents db) \<rparr>"
    from check_buy_intent_facts [OF c] intent e show ?thesis
      by (intro filed [of l ?row]) (simp_all add: new_intent_row_def)
  qed (use intent same in simp)
next
  case (intent_status E i ud)
  show ?thesis
  proof (cases "plan_intent_update i ud db")
    case (Inl e)
    with intent_status same show ?thesis by (simp add: updateBuyIntentStatus_def)
  next
    case (Inr p)
    then have db': "db' = fst (commit_intent_update E i ud p db)"
      using intent_status by (simp add: updateBuyIntentStatus_def)
    from Inr show ?thesis
    proof (rule plan_facts)
      fix r l
      assume *: "findBuyIntent i db = Inr r" "findListing (bi_listingId r) db = Inr l" "ip_intent p = r"
        "ui_status ud \<noteq> ''TRANSFERRED'' \<Longrightarrow> ip_newRemaining p = None"
        "ui_status ud = ''TRANSFERRED'' \<Longrightarrow> truthy (ui_transferTxHash ud) \<and>
           digits_val (bi_amountBaseUnits r) \<le> remaining_units l \<and>
           ip_newRemaining p = Some (remaining_units l - digits_val (bi_amountBaseUnits r))"
      show ?thesis
      proof (cases "ui_status ud = ''TRANSFERRED''")
        case True
        with * db' show ?thesis by (intro transfer [of i r l E ud]) (simp_all add: commit_effect)
      next
        case False
        with * db' show ?thesis
          by (intro review [of "intent_assignments E (bi_status r) ud" _ i])
            (auto simp: commit_effect intro: record_all_inv)
      qed
    qed
  qed
next
  case (resume E i)
  then show ?thesis using same review [of "set_intent_resumed _" "md_ledger db" i]
    by (auto simp: resumeBuyIntentAfterIdentity_def Let_def split: sum.splits if_splits)
qed

section \<open>The invariant is kept\<close>

lemma listing_unique:
  assumes "market_inv db" and "findListing i db = Inr l" and "x \<in> set (md_listings db)" and "sl_id x = i"
  shows "x = l"
  using assms listing_status.find_unique [of "md_listings db" x]
  by (simp add: market_inv_def findListing_Inr)

lemma listing_mem: "findListing i db = Inr l \<Longrightarrow> l \<in> set (md_listings db) \<and> sl_id l = i"
  by (auto simp: findListing_Inr dest: find_Some_memD)

lemma intent_mem: "findBuyIntent i db = Inr r \<Longrightarrow> r \<in> set (md_intents db) \<and> bi_id r = i"
  by (auto simp: findBuyIntent_Inr dest: find_Some_memD)

text \<open>A change of the listing rows that keeps their sale data keeps what refers to them.\<close>

definition same_sale :: "listing_row \<Rightarrow> listing_row \<Rightarrow> bool" where
  "same_sale l l' \<longleftrightarrow> sl_id l' = sl_id l \<and> sl_amountBaseUnits l' = sl_amountBaseUnits l \<and>
     sl_sellerWallet l' = sl_sellerWallet l \<and> sl_tokenContract l' = sl_tokenContract l \<and>
     sl_targetBuyerWallet l' = sl_targetBuyerWallet l"

lemma refs_mono:
  assumes "\<And>l. l \<in> set (md_listings db) \<Longrightarrow> \<exists>l' \<in> set (md_listings db'). same_sale l l'"
  shows "intent_ok db r \<Longrightarrow> intent_ok db' r" and "history_ok db h \<Longrightarrow> history_ok db' h"
  using assms
  by (fastforce simp: intent_ok_def history_ok_def same_sale_def total_units_def buyer_allowed_def)+

lemma same_sale_update:
  assumes "\<And>l. same_sale l (f l)" and "l \<in> set rows"
  shows "\<exists>l' \<in> set (sql_update P f rows). same_sale l l'"
  using assms by (auto simp: set_update image_iff same_sale_def)

lemma same_sale_intro [simp]: "same_sale l (set_listing_status p l)" "same_sale l (set_remaining q l)"
  by (simp_all add: same_sale_def set_listing_status_def set_remaining_def)

lemma intent_ok_keeps: "keeps_sale f \<Longrightarrow> intent_ok db r \<Longrightarrow> intent_ok db (f r)"
  by (simp add: intent_ok_def keeps_sale_def)

lemma listing_ok_cong:
  "transfers_of db' (sl_id l) = transfers_of db (sl_id l) \<Longrightarrow> listing_ok db' l = listing_ok db l"
  by (simp add: listing_ok_def sold_units_def)

lemma no_transfers_fresh:
  assumes "market_inv db" and "i \<notin> sl_id ` set (md_listings db)"
  shows "transfers_of db i = []"
  using assms by (force simp: market_inv_def history_ok_def transfers_of_def filter_empty_conv)

lemma transfers_insert:
  "transfers_of (transferred_db E i d r n db) j =
     transfers_of db j @ (if bi_listingId r = j then [new_history_row (uuid E 0) i d r] else [])"
  by (simp add: transfers_of_def transferred_db_def filter_insert new_history_row_def)

lemma transfer_sells_whole:
  assumes "market_inv db" and "findBuyIntent i db = Inr r" and "findListing (bi_listingId r) db = Inr l"
    and "digits_val (bi_amountBaseUnits r) \<le> remaining_units l"
  shows "digits_val (bi_amountBaseUnits r) = total_units l" and "remaining_units l = total_units l"
    and "transfers_of db (sl_id l) = []" and "buyer_allowed l (bi_buyerWallet r)"
    and "bi_sellerWallet r = sl_sellerWallet l" and "bi_tokenContract r = sl_tokenContract l"
proof -
  from assms(1,2) have "intent_ok db r" by (auto simp: market_inv_def dest: intent_mem)
  then obtain l' where l': "l' \<in> set (md_listings db)" "sl_id l' = bi_listingId r"
      "digits_val (bi_amountBaseUnits r) = total_units l'" "buyer_allowed l' (bi_buyerWallet r)"
      "bi_sellerWallet r = sl_sellerWallet l'" "bi_tokenContract r = sl_tokenContract l'"
    by (auto simp: intent_ok_def)
  have [simp]: "l' = l" using listing_unique [OF assms(1,3) l'(1,2)] .
  show "digits_val (bi_amountBaseUnits r) = total_units l" "buyer_allowed l (bi_buyerWallet r)"
    "bi_sellerWallet r = sl_sellerWallet l" "bi_tokenContract r = sl_tokenContract l"
    using l' by simp_all
  have ok: "listing_ok db l" using assms(1,3) by (auto simp: market_inv_def dest: listing_mem)
  then have "0 < total_units l" by (simp add: listing_ok_def)
  with ok show "remaining_units l = total_units l" "transfers_of db (sl_id l) = []"
    using l'(3) assms(4) by (cases rule: listing_ok_cases; simp)+
qed

lemma transferred_inv:
  assumes "market_inv db" and "findBuyIntent i db = Inr r" and "findListing (bi_listingId r) db = Inr l"
    and "digits_val (bi_amountBaseUnits r) \<le> remaining_units l"
  shows "market_inv (transferred_db E i d r (remaining_units l - digits_val (bi_amountBaseUnits r)) db)"
    (is "market_inv ?db'")
proof -
  note w = transfer_sells_whole [OF assms]
  note l = listing_mem [OF assms(3)]
  have n: "remaining_units l - digits_val (bi_amountBaseUnits r) = 0" using w by simp
  have refs: "\<exists>l' \<in> set (md_listings ?db'). same_sale x l'" if "x \<in> set (md_listings db)" for x
    using that by (simp add: transferred_db_def same_sale_update)
  have "listing_ok ?db' x" if x: "x \<in> set (md_listings ?db')" for x
  proof -
    from x obtain y where y: "y \<in> set (md_listings db)" and
      xy: "x = (if sl_id y = bi_listingId r then set_remaining (0, db_now E) y else y)"
      by (auto simp: transferred_db_def set_update n)
    have oky: "listing_ok db y" using assms(1) y by (simp add: market_inv_def)
    show ?thesis
    proof (cases "sl_id y = bi_listingId r")
      case True
      then have "y = l" using listing_unique [OF assms(1,3) y] by simp
      with True xy w oky l show ?thesis using toString_units [of 0]
        by (simp add: listing_ok_def set_remaining_def transfers_insert sold_units_def
            total_units_def remaining_units_def new_history_row_def)
    next
      case False
      then have "transfers_of ?db' (sl_id y) = transfers_of db (sl_id y)" by (simp add: transfers_insert)
      from listing_ok_cong [OF this] oky False xy show ?thesis by simp
    qed
  qed
  moreover have "history_ok ?db' (new_history_row (uuid E 0) i d r)"
  proof (rule refs_mono(2) [OF refs])
    show "history_ok db (new_history_row (uuid E 0) i d r)"
      using w l by (auto simp: history_ok_def new_history_row_def)
  qed
  moreover have "intent_ok ?db' x" if "x \<in> set (md_intents ?db')" for x
  proof (rule refs_mono(1) [OF refs])
    show "intent_ok db x" using that assms(1) intent_ok_keeps [OF keeps_sale_intro(1)]
      by (auto simp: transferred_db_def set_update market_inv_def)
  qed
  moreover have "history_ok ?db' h" if "h \<in> set (md_history db)" for h
    by (rule refs_mono(2) [OF refs]) (use that assms(1) in \<open>auto simp: market_inv_def\<close>)
  moreover have "map sl_id (md_listings ?db') = map sl_id (md_listings db)"
    "map bi_id (md_intents ?db') = map bi_id (md_intents db)"
    by (simp_all add: transferred_db_def map_update_same set_remaining_def)
  moreover have "ledger_inv (md_ledger ?db')" using assms(1)
    by (simp add: transferred_db_def record_all_inv market_inv_def)
  moreover have "set (md_history ?db') = insert (new_history_row (uuid E 0) i d r) (set (md_history db))"
    by (simp add: transferred_db_def set_insert)
  ultimately show ?thesis using assms(1) by (simp add: market_inv_def)
qed

lemma market_step_inv:
  assumes "market_step db db'" and "market_inv db"
  shows "market_inv db'"
  using assms(1)
proof (cases rule: market_step_cases)
  case (list row)
  have "transfers_of db' = transfers_of db" by (simp add: list(5) transfers_of_def fun_eq_iff)
  then have "listing_ok db' l = listing_ok db l" for l by (intro listing_ok_cong) simp
  moreover have "listing_ok db row"
    using list no_transfers_fresh [OF assms(2) list(1)]
    by (simp add: listing_ok_def sold_units_def remaining_units_def total_units_def)
  moreover have refs: "\<exists>l' \<in> set (md_listings db'). same_sale l l'"
    if "l \<in> set (md_listings db)" for l
    using that by (auto simp: list(5) set_insert same_sale_def)
  moreover have "set (md_listings db') = insert row (set (md_listings db))" "md_ledger db' = md_ledger db"
    "md_intents db' = md_intents db" "md_history db' = md_history db"
    by (simp_all add: list(5) set_insert)
  moreover have "distinct (map sl_id (md_listings db'))"
    using assms(2) list by (simp add: market_inv_def map_key_insert)
  ultimately show ?thesis using assms(2) refs_mono [of db db'] by (simp add: market_inv_def)
next
  case (restatus i p)
  have "transfers_of db' = transfers_of db" by (simp add: restatus transfers_of_def fun_eq_iff)
  then have "listing_ok db' l = listing_ok db l" for l by (intro listing_ok_cong) simp
  moreover have "listing_ok db (set_listing_status p l) = listing_ok db l" for l
    by (simp add: listing_ok_def set_listing_status_def total_units_def remaining_units_def)
  moreover have refs: "\<exists>l' \<in> set (md_listings db'). same_sale l l'"
    if "l \<in> set (md_listings db)" for l
    using that by (simp add: restatus same_sale_update)
  ultimately show ?thesis using assms(2) refs_mono [of db db'] restatus
    by (auto simp: market_inv_def set_update listing_status.keys_update)
next
  case (filed l row)
  note l = listing_mem [OF filed(1)]
  then have "listing_ok db l" using assms(2) by (auto simp: market_inv_def)
  then have "remaining_units l = total_units l" using filed
    by (cases rule: listing_ok_cases) simp_all
  then have "intent_ok db row" using filed l by (auto simp: intent_ok_def)
  moreover have "listing_ok db' x = listing_ok db x" for x
    by (rule listing_ok_cong) (simp add: filed(10) transfers_of_def)
  moreover have "intent_ok db' x = intent_ok db x" "history_ok db' h = history_ok db h" for x h
    by (simp_all add: filed(10) intent_ok_def history_ok_def)
  ultimately show ?thesis using assms(2) filed
    by (auto simp: market_inv_def map_key_insert set_insert)
next
  case (review i f led)
  have "listing_ok db' x = listing_ok db x" for x
    by (rule listing_ok_cong) (simp add: review(3) transfers_of_def)
  moreover have "intent_ok db' x = intent_ok db x" "history_ok db' h = history_ok db h" for x h
    by (simp_all add: review(3) intent_ok_def history_ok_def)
  moreover have "map bi_id (sql_update (\<lambda>r. bi_id r = i) f (md_intents db)) = map bi_id (md_intents db)"
    using review(1) by (simp add: map_update_same keeps_sale_def)
  ultimately show ?thesis using assms(2) review intent_ok_keeps [OF review(1)]
    by (auto simp: market_inv_def set_update)
next
  case (transfer E i d r l)
  then show ?thesis using transferred_inv [OF assms(2) transfer(1-3)] by simp
qed (use assms in simp)

lemma market_reachable_inv: "market_step\<^sup>*\<^sup>* db db' \<Longrightarrow> market_inv db \<Longrightarrow> market_inv db'"
  by (induction rule: rtranclp_induct) (auto intro: market_step_inv)

section \<open>The abstract market\<close>

text \<open>
  The specification: a listing has a total and a remaining amount; a new listing is whole, and a
  sale takes everything that is listed.
\<close>

type_synonym sale_view = "string \<Rightarrow> (int \<times> int) option"

inductive sale_step :: "sale_view \<Rightarrow> sale_view \<Rightarrow> bool" where
  stutter: "sale_step v v"
| offer: "v i = None \<Longrightarrow> 0 < n \<Longrightarrow> sale_step v (v(i := Some (n, n)))"
| sell: "v i = Some (n, n) \<Longrightarrow> sale_step v (v(i := Some (n, 0)))"

definition market_view :: "market_db \<Rightarrow> sale_view" where
  "market_view db i =
     map_option (\<lambda>l. (total_units l, remaining_units l)) (List.find (\<lambda>r. sl_id r = i) (md_listings db))"

lemma market_view_cong: "md_listings db' = md_listings db \<Longrightarrow> market_view db' = market_view db"
  by (simp add: market_view_def fun_eq_iff)

lemma market_view_restatus:
  "market_view (db\<lparr> md_listings := sql_update (\<lambda>r. sl_id r = i) (set_listing_status p) (md_listings db) \<rparr>) =
   market_view db"
proof
  fix j
  show "market_view (db\<lparr> md_listings := sql_update (\<lambda>r. sl_id r = i) (set_listing_status p) (md_listings db) \<rparr>) j
      = market_view db j"
    by (cases "j = i")
      (simp_all add: market_view_def listing_status.find_same listing_status.find_other
        option.map_comp comp_def set_listing_status_def total_units_def remaining_units_def)
qed

lemma market_view_transfer:
  assumes "findListing (bi_listingId r) db = Inr l" and "0 \<le> n"
  shows "market_view (transferred_db E i d r n db) =
    (market_view db)(bi_listingId r := Some (total_units l, n))"
proof
  fix j
  show "market_view (transferred_db E i d r n db) j =
      ((market_view db)(bi_listingId r := Some (total_units l, n))) j"
    using assms toString_units [of n]
    by (cases "j = bi_listingId r")
      (simp_all add: market_view_def transferred_db_def listing_remaining.find_same
        listing_remaining.find_other findListing_Inr set_remaining_def total_units_def
        remaining_units_def)
qed

lemma market_step_refines:
  assumes "market_step db db'" and "market_inv db"
  shows "sale_step (market_view db) (market_view db')"
  using assms(1)
proof (cases rule: market_step_cases)
  case (list row)
  have none: "List.find (\<lambda>r. sl_id r = sl_id row) (md_listings db) = None"
    using list(1) unfolding find_None_all by (metis image_eqI)
  have "market_view db' = (market_view db)(sl_id row := Some (total_units row, total_units row))"
  proof
    fix j
    show "market_view db' j = ((market_view db)(sl_id row := Some (total_units row, total_units row))) j"
      using none list by (auto simp: market_view_def find_insert remaining_units_def total_units_def
          split: option.splits)
  qed
  moreover have "market_view db (sl_id row) = None" using none by (simp add: market_view_def)
  ultimately show ?thesis using list(3) by (simp add: sale_step.offer)
next
  case (restatus i p)
  then show ?thesis by (simp add: market_view_restatus sale_step.stutter)
next
  case (transfer E i d r l)
  note w = transfer_sells_whole [OF assms(2) transfer(1-3)]
  have "market_view db (bi_listingId r) = Some (total_units l, total_units l)"
    using transfer(2) w(2) by (simp add: market_view_def findListing_Inr)
  with transfer w market_view_transfer [OF transfer(2), of 0 E i d] show ?thesis
    by (simp add: sale_step.sell)
next
  case (filed l row)
  then have "market_view db' = market_view db" by (intro market_view_cong) simp
  then show ?thesis by (simp add: sale_step.stutter)
next
  case (review i f led)
  then have "market_view db' = market_view db" by (intro market_view_cong) simp
  then show ?thesis by (simp add: sale_step.stutter)
qed (simp add: sale_step.stutter)

section \<open>Properties\<close>

text \<open>
  C2. Over any sequence of marketplace calls that run one after the other, what remains of a
  listing and what the transfer history records for it add up to the listed amount, and the
  listing is either untouched or sold whole in exactly one transfer.
\<close>

theorem market_conserves_amounts:
  assumes "market_step\<^sup>*\<^sup>* db db'" and "market_inv db" and "l \<in> set (md_listings db')"
  shows "remaining_units l + sold_units db' (sl_id l) = total_units l \<and>
    (remaining_units l = total_units l \<and> transfers_of db' (sl_id l) = [] \<or>
     remaining_units l = 0 \<and> length (transfers_of db' (sl_id l)) = 1)"
proof -
  from market_reachable_inv [OF assms(1,2)] assms(3) have "listing_ok db' l"
    by (simp add: market_inv_def)
  then have "remaining_units l + sold_units db' (sl_id l) = total_units l"
    by (simp add: listing_ok_def)
  with \<open>listing_ok db' l\<close> show ?thesis
    by (cases rule: listing_ok_cases) simp_all
qed

text \<open>
  C3. The tables implement the abstract market in which a listing is offered whole and sold
  whole: every sequence of marketplace calls is a sequence of abstract offers and sales.
\<close>

theorem market_refines_sales:
  assumes "market_step\<^sup>*\<^sup>* db db'" and "market_inv db"
  shows "sale_step\<^sup>*\<^sup>* (market_view db) (market_view db')"
  using assms
proof (induction rule: rtranclp_induct)
  case (step y z)
  then show ?case
    by (meson market_reachable_inv market_step_refines rtranclp.rtrancl_into_rtrancl)
qed simp

lemma transfers_respect_listing:
  assumes "market_step\<^sup>*\<^sup>* db db'" and "market_inv db" and "h \<in> set (md_history db')"
  shows "\<exists>l \<in> set (md_listings db'). sl_id l = th_listingId h \<and>
    th_fromWallet h = sl_sellerWallet l \<and> th_tokenContract h = sl_tokenContract l \<and>
    sl_targetBuyerWallet l \<in> {None, Some [], Some (th_toWallet h)}"
proof -
  from market_reachable_inv [OF assms(1,2)] assms(3) have "history_ok db' h"
    by (simp add: market_inv_def)
  then show ?thesis
    by (fastforce simp: history_ok_def buyer_allowed_def truthy_def split: option.splits)
qed

lemma buy_intent_accepted_only_for_open_listing:
  assumes "snd (createBuyIntent E C i d db) = Inr row"
  shows "\<exists>l. findListing i db = Inr l \<and> sl_status l \<in> set OPEN_LISTING_STATUSES \<and>
    \<not> listing_expired E l \<and> buyer_allowed l (bi_buyerWallet row) \<and>
    0 < digits_val (bi_amountBaseUnits row) \<and>
    digits_val (bi_amountBaseUnits row) = remaining_units l \<and>
    filter (is_open_intent i (bi_buyerWallet row)) (md_intents db) = []"
proof -
  from assms obtain l w s where c: "check_buy_intent E C i d db = Inr (l, w, s)"
    and row: "row = new_intent_row E (uuid E 0) l d w s"
    by (auto simp: createBuyIntent_def Let_def split: sum.splits)
  from check_buy_intent_facts [OF c] show ?thesis
    by (simp add: row new_intent_row_def filter_empty_conv)
qed

lemma failed_market_calls_change_nothing:
  "(isl (snd (createListing E C d db)) \<longrightarrow> fst (createListing E C d db) = db) \<and>
   (isl (snd (updateListingStatus E i ld db)) \<longrightarrow> fst (updateListingStatus E i ld db) = db) \<and>
   (isl (snd (createBuyIntent E C i ci db)) \<longrightarrow> fst (createBuyIntent E C i ci db) = db) \<and>
   (isl (snd (updateBuyIntentStatus E i ud db)) \<longrightarrow> fst (updateBuyIntentStatus E i ud db) = db) \<and>
   (isl (snd (resumeBuyIntentAfterIdentity E i db)) \<longrightarrow> fst (resumeBuyIntentAfterIdentity E i db) = db)"
proof (intro conjI impI)
  assume "isl (snd (updateBuyIntentStatus E i ud db))"
  moreover have "\<not> isl (snd (commit_intent_update E i ud p db))" for p
    by (simp add: commit_intent_update_def recordBuyIntentLedgerEntries_def Let_def
        record_all_plain intent_entries_plain split: option.splits)
  ultimately show "fst (updateBuyIntentStatus E i ud db) = db"
    by (auto simp: updateBuyIntentStatus_def split: sum.splits)
qed (auto simp: createListing_def updateListingStatus_def createBuyIntent_def
      resumeBuyIntentAfterIdentity_def Let_def split: sum.splits if_splits)

text \<open>
  Two status updates may overlap: both read the listing before either writes. Each passes its check
  against the remaining amount, and both transfers are recorded.
\<close>

text \<open>
  C34. When two transfer reports on the same listing both read before either writes, both are
  recorded and twice the listed amount counts as sold: the remaining amount is read outside the
  transaction that writes it.
\<close>

theorem overlapping_transfers_oversell:
  assumes "market_inv db"
    and "plan_intent_update i d db = Inr p" and "ip_newRemaining p \<noteq> None"
    and "plan_intent_update j e db = Inr q" and "ip_newRemaining q \<noteq> None"
    and "bi_listingId (ip_intent p) = bi_listingId (ip_intent q)"
    and "findListing (bi_listingId (ip_intent p)) db = Inr l"
  shows "sold_units (fst (commit_intent_update F j e q (fst (commit_intent_update E i d p db)))) (sl_id l)
    = 2 * total_units l"
proof -
  from assms(2,3) obtain r where r: "findBuyIntent i db = Inr r" "ip_intent p = r"
    "digits_val (bi_amountBaseUnits r) \<le> remaining_units l"
    using assms(7) by (elim plan_facts) (metis old.sum.inject(2))
  from assms(4,5) obtain r' where r': "findBuyIntent j db = Inr r'" "ip_intent q = r'"
    "digits_val (bi_amountBaseUnits r') \<le> remaining_units l"
    using assms(6,7) by (elim plan_facts) (metis old.sum.inject(2))
  have l: "findListing (bi_listingId r) db = Inr l" "findListing (bi_listingId r') db = Inr l"
    using assms(6,7) r(2) r'(2) by simp_all
  note w = transfer_sells_whole [OF assms(1) r(1) l(1) r(3)]
    and w' = transfer_sells_whole [OF assms(1) r'(1) l(2) r'(3)]
  have i: "sl_id l = bi_listingId r" "sl_id l = bi_listingId r'" using l by (auto dest: listing_mem)
  from assms(3,5) obtain n m where n: "ip_newRemaining p = Some n" "ip_newRemaining q = Some m" by auto
  show ?thesis using w(1,3) w'(1) i r(2) r'(2)
    by (simp add: sold_units_def commit_effect n transfers_insert new_history_row_def)
qed

section \<open>Concrete instances\<close>

definition plain_chain :: chain where
  "plain_chain = \<lparr> pk_of_string = (\<lambda>s. if s = [] then Inl ''Invalid public key input'' else Inr (ascii s)),
     pk_of_bytes = Inr, toBase58 = map (\<lambda>b. char_of (uint b)), token_2022 = ascii ''Token2022'',
     ata_of = (\<lambda>mint wallet. Inr (mint @ wallet)),
     find_pda = (\<lambda>seeds prog. Inr (concat seeds, 255)), account_info = (\<lambda>k. Inr None) \<rparr>"

definition sample_listing :: create_listing where
  "sample_listing = \<lparr> cl_assetId = None, cl_tokenContract = ''MINT'', cl_sellerWallet = ''Sam'',
     cl_targetBuyerWallet = None, cl_amountBaseUnits = ''0100'', cl_price = None, cl_currency = None,
     cl_settlementTerms = None, cl_expiresAt = None \<rparr>"

definition sample_intent :: "string \<Rightarrow> create_intent" where
  "sample_intent w = \<lparr> ci_buyerWallet = w, ci_amountBaseUnits = ''100'', ci_fullName = None,
     ci_email = None, ci_nationality = None, ci_country = None, ci_idDocumentUrl = None,
     ci_proofOfAddressUrl = None, ci_status = None, ci_requiredClaimTopics = None,
     ci_kycProvider = None, ci_amlProvider = None, ci_issuerWallet = None,
     ci_preflightFailure = None, ci_simulationError = None \<rparr>"

definition sample_intent_update :: "string \<Rightarrow> string \<Rightarrow> update_intent" where
  "sample_intent_update status tx = \<lparr> ui_status = status, ui_reviewerWallet = None, ui_rejectionReason = None,
     ui_preflightFailure = None, ui_simulationError = None, ui_transferTxHash = Some tx,
     ui_claimTxHash = None, ui_whitelistTxHash = None, ui_activationTxHash = None \<rparr>"

definition market0 :: market_db where
  "market0 = \<lparr> md_listings = [], md_intents = [], md_history = [], md_ledger = [] \<rparr>"

definition market1 :: market_db where
  "market1 = fst (createListing (sample_env ''l'') plain_chain sample_listing market0)"

definition market2 :: market_db where
  "market2 = fst (createBuyIntent (sample_env ''i'') plain_chain ''l0'' (sample_intent ''Bob'') market1)"

definition market3 :: market_db where
  "market3 = fst (createBuyIntent (sample_env ''j'') plain_chain ''l0'' (sample_intent ''Eve'') market2)"

definition market4 :: market_db where
  "market4 = fst (updateBuyIntentStatus (sample_env ''t'') ''i0'' (sample_intent_update ''TRANSFERRED'' ''tx1'') market3)"

lemma market_steps:
  "market_step market0 market1" "market_step market1 market2" "market_step market2 market3"
  "market_step market3 market4"
proof -
  show "market_step market0 market1" unfolding market1_def by (rule market_step.listing) code_simp
  show "market_step market1 market2" unfolding market2_def by (rule market_step.intent) code_simp
  show "market_step market2 market3" unfolding market3_def by (rule market_step.intent) code_simp
  show "market_step market3 market4" unfolding market4_def by (rule market_step.intent_status)
qed

lemma market_reach: "market_step\<^sup>*\<^sup>* market0 market3" "market_step\<^sup>*\<^sup>* market0 market4"
  using market_steps by (meson rtranclp.rtrancl_into_rtrancl rtranclp.rtrancl_refl)+

lemma market0_inv: "market_inv market0"
  by (simp add: market_inv_def market0_def ledger_inv_def)

lemma market4_rows:
  "map sl_id (md_listings market4) = [''l0'']" "map remaining_units (md_listings market4) = [0]"
  "map th_toWallet (md_history market4) = [''Bob'']"
  by code_simp+

theorem market_conserves_amounts_witness:
  "\<exists>l \<in> set (md_listings market4). remaining_units l = 0 \<and> sold_units market4 (sl_id l) = total_units l \<and>
     length (transfers_of market4 (sl_id l)) = 1"
proof -
  from market4_rows obtain l where l: "md_listings market4 = [l]" "remaining_units l = 0" by auto
  moreover have "total_units (hd (md_listings market4)) = 100" by code_simp
  ultimately show ?thesis
    using market_conserves_amounts [OF market_reach(2) market0_inv, of l] by auto
qed

theorem market_refines_sales_witness:
  "sale_step\<^sup>*\<^sup>* (market_view market0) (market_view market4) \<and> market_view market4 ''l0'' = Some (100, 0)"
proof
  show "sale_step\<^sup>*\<^sup>* (market_view market0) (market_view market4)"
    by (rule market_refines_sales [OF market_reach(2) market0_inv])
  show "market_view market4 ''l0'' = Some (100, 0)" by code_simp
qed

lemma transfers_respect_listing_witness:
  "\<exists>h \<in> set (md_history market4). \<exists>l \<in> set (md_listings market4). sl_id l = th_listingId h \<and>
     th_fromWallet h = sl_sellerWallet l"
proof -
  from market4_rows obtain h where "md_history market4 = [h]" by auto
  then show ?thesis using transfers_respect_listing [OF market_reach(2) market0_inv, of h] by auto
qed

lemma buy_intent_accepted_only_for_open_listing_witness:
  "\<exists>l. findListing ''l0'' market1 = Inr l \<and> remaining_units l = 100"
proof -
  let ?c = "createBuyIntent (sample_env ''i'') plain_chain ''l0'' (sample_intent ''Bob'') market1"
  have "\<not> isl (snd ?c)" by code_simp
  then obtain row where row: "snd ?c = Inr row" by (cases "snd ?c") auto
  then have "row = hd (md_intents market2)"
    by (auto simp: market2_def createBuyIntent_def Let_def market1_def market0_def sql_insert_def
        createListing_def split: sum.splits if_splits)
  moreover have "digits_val (bi_amountBaseUnits (hd (md_intents market2))) = 100" by code_simp
  ultimately show ?thesis
    using buy_intent_accepted_only_for_open_listing [OF row] by auto
qed

lemma failed_market_calls_change_nothing_witness:
  "fst (updateBuyIntentStatus (sample_env ''t'') ''j0'' (sample_intent_update ''TRANSFERRED'' ''tx2'') market4) = market4"
proof -
  have "isl (snd (updateBuyIntentStatus (sample_env ''t'') ''j0''
      (sample_intent_update ''TRANSFERRED'' ''tx2'') market4))" by code_simp
  then show ?thesis using failed_market_calls_change_nothing by blast
qed

theorem overlapping_transfers_oversell_witness:
  "\<exists>p q. plan_intent_update ''i0'' (sample_intent_update ''TRANSFERRED'' ''tx1'') market3 = Inr p \<and>
     plan_intent_update ''j0'' (sample_intent_update ''TRANSFERRED'' ''tx2'') market3 = Inr q \<and>
     sold_units (fst (commit_intent_update (sample_env ''u'') ''j0'' (sample_intent_update ''TRANSFERRED'' ''tx2'') q
       (fst (commit_intent_update (sample_env ''t'') ''i0'' (sample_intent_update ''TRANSFERRED'' ''tx1'') p market3))))
       ''l0'' = 200"
proof -
  let ?p = "plan_intent_update ''i0'' (sample_intent_update ''TRANSFERRED'' ''tx1'') market3"
  let ?q = "plan_intent_update ''j0'' (sample_intent_update ''TRANSFERRED'' ''tx2'') market3"
  have "(case ?p of Inr p \<Rightarrow> ip_newRemaining p = Some 0 \<and> bi_listingId (ip_intent p) = ''l0'' | _ \<Rightarrow> False)"
    "(case ?q of Inr p \<Rightarrow> ip_newRemaining p = Some 0 \<and> bi_listingId (ip_intent p) = ''l0'' | _ \<Rightarrow> False)"
    by code_simp+
  then obtain p q where p: "?p = Inr p" "ip_newRemaining p \<noteq> None" "bi_listingId (ip_intent p) = ''l0''"
    and q: "?q = Inr q" "ip_newRemaining q \<noteq> None" "bi_listingId (ip_intent q) = ''l0''"
    by (auto split: sum.splits)
  have "(case findListing ''l0'' market3 of Inr l \<Rightarrow> total_units l = 100 | _ \<Rightarrow> False)" by code_simp
  then obtain l where l: "findListing ''l0'' market3 = Inr l" "total_units l = 100"
    by (auto split: sum.splits)
  have "sl_id l = ''l0''" using l by (auto dest: listing_mem)
  with overlapping_transfers_oversell [OF market_reachable_inv [OF market_reach(1) market0_inv] p(1,2) q(1,2),
      of l "sample_env ''u''" "sample_env ''t''"] p q l
  show ?thesis by auto
qed

section \<open>Behaviours the checks do not cover\<close>

text \<open>A transfer is accepted on a cancelled listing and overwrites its status.\<close>

lemma transfer_on_cancelled_listing:
  "map sl_status (md_listings (fst (updateBuyIntentStatus (sample_env ''t'') ''i0''
     (sample_intent_update ''TRANSFERRED'' ''tx1'')
     (fst (updateListingStatus (sample_env ''c'') ''l0'' \<lparr> ul_status = ''CANCELLED'', ul_reason = None \<rparr> market2))))) =
   [''FILLED'']"
  by code_simp

text \<open>A buy intent can be filed as transferred: no hash, no history, nothing taken from the listing.\<close>

lemma intent_filed_as_transferred:
  "let db = fst (createBuyIntent (sample_env ''i'') plain_chain ''l0''
              ((sample_intent ''Bob'')\<lparr> ci_status := Some ''TRANSFERRED'' \<rparr>) market1)
   in map bi_status (md_intents db) = [''TRANSFERRED''] \<and> md_history db = [] \<and>
      map remaining_units (md_listings db) = [100]"
  by code_simp

end
