(* ===== verification/TransferRequests.thy ===== *)
theory TransferRequests
  imports Ledger
begin

text \<open>
  Token transfer requests (\<open>backend/src/token-transfer-requests\<close>): a sender files a transfer to a
  recipient, reviewers clear the recipient, and the transfer is reported with its hash. The theory
  gives the handlers, the invariant of the table and the behaviour of each call.
\<close>

section \<open>Statuses, rows and inputs\<close>

definition TRANSFER_CLOSED_STATUSES :: "string list" where
  "TRANSFER_CLOSED_STATUSES = [''TRANSFERRED'', ''REJECTED'', ''CANCELLED'']"

definition TRANSFER_VALID_STATUSES :: "string list" where
  "TRANSFER_VALID_STATUSES = [''DRAFT'', ''ACTION_REQUIRED_RECIPIENT_FID'', ''PENDING_KYC'', ''PENDING_AML'',
     ''PENDING_ISSUER_WHITELIST'', ''PENDING_ISSUER_ACTIVATION'', ''READY_TO_TRANSFER'',
     ''TRANSFER_SIMULATION_FAILED'', ''TRANSFERRED'', ''REJECTED'', ''CANCELLED'', ''SENDER_NOT_ELIGIBLE'',
     ''SENDER_FROZEN'', ''SENDER_CLAIM_EXPIRED'', ''INSUFFICIENT_TRANSFERABLE_BALANCE'']"

record transfer_row =
  tr_id :: string
  tr_assetId :: "string option"
  tr_tokenContract :: string
  tr_fromWallet :: string
  tr_toWallet :: string
  tr_amount :: "jsnum option"
  tr_status :: string
  tr_requiredClaimTopics :: "string list"
  tr_kycProvider :: "string option"
  tr_amlProvider :: "string option"
  tr_issuerWallet :: "string option"
  tr_preflightFailure :: "string option"
  tr_simulationError :: "string option"
  tr_kycClaimTxHash :: "string option"
  tr_kycClaimedAt :: "time option"
  tr_amlClaimTxHash :: "string option"
  tr_amlClaimedAt :: "time option"
  tr_whitelistTxHash :: "string option"
  tr_whitelistedAt :: "time option"
  tr_activationTxHash :: "string option"
  tr_activatedAt :: "time option"
  tr_transferTxHash :: "string option"
  tr_transferredAt :: "time option"
  tr_rejectionReason :: "string option"
  tr_rejectedAt :: "time option"
  tr_rejectedBy :: "string option"
  tr_createdAt :: time
  tr_updatedAt :: time

record transfer_db =
  td_requests :: "transfer_row list"
  td_ledger :: ledger

record create_transfer =
  ct_assetId :: "string option"
  ct_tokenContract :: string
  ct_fromWallet :: string
  ct_toWallet :: string
  ct_amount :: jsnum
  ct_status :: "string option"
  ct_requiredClaimTopics :: "string list option"
  ct_kycProvider :: "string option"
  ct_amlProvider :: "string option"
  ct_issuerWallet :: "string option"
  ct_preflightFailure :: "string option"
  ct_simulationError :: "string option"
  ct_transferTxHash :: "string option"
  ct_whitelistTxHash :: "string option"
  ct_activationTxHash :: "string option"

text \<open>\<open>UpdateTokenTransferRequestDto\<close>: the fields \<open>updateStatus\<close> and the ledger entries read.\<close>

record update_transfer =
  ut_assetId :: "string option"
  ut_tokenContract :: "string option"
  ut_status :: "string option"
  ut_preflightFailure :: "string option"
  ut_simulationError :: "string option"
  ut_reviewerWallet :: "string option"
  ut_rejectionReason :: "string option"
  ut_transferTxHash :: "string option"
  ut_claimTxHash :: "string option"
  ut_whitelistTxHash :: "string option"
  ut_activationTxHash :: "string option"

text \<open>A creation body passed on to \<open>updateStatus\<close>.\<close>

definition as_update :: "create_transfer \<Rightarrow> update_transfer" where
  "as_update d = \<lparr> ut_assetId = ct_assetId d, ut_tokenContract = Some (ct_tokenContract d),
     ut_status = ct_status d, ut_preflightFailure = ct_preflightFailure d,
     ut_simulationError = ct_simulationError d, ut_reviewerWallet = None, ut_rejectionReason = None,
     ut_transferTxHash = ct_transferTxHash d, ut_claimTxHash = None,
     ut_whitelistTxHash = ct_whitelistTxHash d, ut_activationTxHash = ct_activationTxHash d \<rparr>"

section \<open>Handlers\<close>

text \<open>\<open>recordLedgerEntries(id, data, existing?)\<close>\<close>

definition first_truthy :: "string option \<Rightarrow> string option \<Rightarrow> string option" where
  "first_truthy a b = (if truthy a then a else or_null b)"

definition transfer_entry ::
    "string \<Rightarrow> update_transfer \<Rightarrow> transfer_row option \<Rightarrow> string \<Rightarrow> string \<Rightarrow> ledger_entry" where
  "transfer_entry i d existing actionType txHash = \<lparr>
     le_txHash = txHash, le_actionType = actionType,
     le_actorWallet = or_null (ut_reviewerWallet d),
     le_entityType = Some ''token_transfer_request'',
     le_entityId = Some i,
     le_assetId = first_truthy (ut_assetId d) (Option.bind existing tr_assetId),
     le_tokenContract = first_truthy (ut_tokenContract d) (map_option tr_tokenContract existing),
     le_metadata = None, le_networkFeeLamports = None, le_rentDepositLamports = None,
     le_rentRefundLamports = None, le_netSolChangeLamports = None, le_occurredAt = None \<rparr>"

definition transfer_ledger_entries ::
    "string \<Rightarrow> update_transfer \<Rightarrow> transfer_row option \<Rightarrow> ledger_entry list" where
  "transfer_ledger_entries i d existing =
     (let status = or_else (first_truthy (map_option tr_status existing) (ut_status d)) [];
          mk = transfer_entry i d existing
      in entry_when (status = ''PENDING_KYC'') (ut_claimTxHash d) (mk ''TRANSFER_ELIGIBILITY_KYC_CLAIM'') @
         entry_when (status = ''PENDING_AML'') (ut_claimTxHash d) (mk ''TRANSFER_ELIGIBILITY_AML_CLAIM'') @
         entry_when True (ut_whitelistTxHash d) (mk ''INVESTOR_WHITELISTED'') @
         entry_when True (ut_activationTxHash d) (mk ''IDENTITY_ACTIVATED'') @
         entry_when True (ut_transferTxHash d) (mk ''TOKEN_TRANSFER''))"

definition findOne_transfer :: "string \<Rightarrow> transfer_db \<Rightarrow> transfer_row res" where
  "findOne_transfer i db =
     (case List.find (\<lambda>r. tr_id r = i) (td_requests db) of
        None \<Rightarrow> Inl (NotFoundException ''Token transfer request not found'')
      | Some r \<Rightarrow> Inr r)"

text \<open>The list \<open>updates\<close> in the order it is built.\<close>

definition transfer_assignments ::
    "env \<Rightarrow> string \<Rightarrow> string \<Rightarrow> update_transfer \<Rightarrow> transfer_row \<Rightarrow> transfer_row" where
  "transfer_assignments E currentStatus status d r =
     (let now = db_now E;
          r1 = r\<lparr> tr_status := status, tr_updatedAt := now \<rparr>;
          r2 = apply_if (ut_preflightFailure d \<noteq> None)
                 (\<lambda>r. r\<lparr> tr_preflightFailure := ut_preflightFailure d \<rparr>) r1;
          r3 = apply_if (ut_simulationError d \<noteq> None)
                 (\<lambda>r. r\<lparr> tr_simulationError := ut_simulationError d \<rparr>) r2;
          r4 = apply_if (truthy (ut_claimTxHash d) \<and> currentStatus = ''PENDING_KYC'')
                 (\<lambda>r. r\<lparr> tr_kycClaimTxHash := ut_claimTxHash d, tr_kycClaimedAt := Some now \<rparr>) r3;
          r5 = apply_if (truthy (ut_claimTxHash d) \<and> currentStatus = ''PENDING_AML'')
                 (\<lambda>r. r\<lparr> tr_amlClaimTxHash := ut_claimTxHash d, tr_amlClaimedAt := Some now \<rparr>) r4;
          r6 = apply_if (truthy (ut_whitelistTxHash d))
                 (\<lambda>r. r\<lparr> tr_whitelistTxHash := ut_whitelistTxHash d, tr_whitelistedAt := Some now \<rparr>) r5;
          r7 = apply_if (truthy (ut_activationTxHash d))
                 (\<lambda>r. r\<lparr> tr_activationTxHash := ut_activationTxHash d, tr_activatedAt := Some now \<rparr>) r6;
          r8 = apply_if (status = ''TRANSFERRED'')
                 (\<lambda>r. r\<lparr> tr_transferTxHash := or_null (ut_transferTxHash d), tr_transferredAt := Some now \<rparr>) r7
      in apply_if (status = ''REJECTED'')
           (\<lambda>r. r\<lparr> tr_rejectionReason := Some (or_else (ut_rejectionReason d) ''Rejected''),
                  tr_rejectedAt := Some now, tr_rejectedBy := or_null (ut_reviewerWallet d) \<rparr>) r8)"

definition updateStatus_transfer ::
    "env \<Rightarrow> string \<Rightarrow> update_transfer \<Rightarrow> (transfer_db, transfer_row) handler" where
  "updateStatus_transfer E i d db =
     (case findOne_transfer i db of
        Inl e \<Rightarrow> (db, Inl e)
      | Inr existing \<Rightarrow>
          (case ut_status d of
             None \<Rightarrow> (db, Inl (ConflictException ''Invalid token transfer request status.''))
           | Some status \<Rightarrow>
               if status = [] \<or> status \<notin> set TRANSFER_VALID_STATUSES
               then (db, Inl (ConflictException ''Invalid token transfer request status.''))
               else
                 (let assign = transfer_assignments E (tr_status existing) status d;
                      requests = sql_update (\<lambda>r. tr_id r = i) assign (td_requests db);
                      (ledger, recorded) =
                        record_all E 0 (transfer_ledger_entries i d (Some existing)) (td_ledger db)
                  in (db\<lparr> td_requests := requests, td_ledger := ledger \<rparr>,
                      case recorded of Inl e \<Rightarrow> Inl e | Inr _ \<Rightarrow> Inr (assign existing)))))"

definition is_open_transfer :: "string \<Rightarrow> string \<Rightarrow> string \<Rightarrow> transfer_row \<Rightarrow> bool" where
  "is_open_transfer tokenContract fromWallet toWallet r \<longleftrightarrow>
     tr_tokenContract r = tokenContract \<and> tr_fromWallet r = fromWallet \<and> tr_toWallet r = toWallet \<and>
     tr_status r \<notin> set TRANSFER_CLOSED_STATUSES"

definition new_transfer_row :: "env \<Rightarrow> string \<Rightarrow> create_transfer \<Rightarrow> string \<Rightarrow> transfer_row" where
  "new_transfer_row E u d status = \<lparr>
     tr_id = u,
     tr_assetId = or_null (ct_assetId d),
     tr_tokenContract = ct_tokenContract d,
     tr_fromWallet = ct_fromWallet d,
     tr_toWallet = ct_toWallet d,
     tr_amount = Some (ct_amount d),
     tr_status = status,
     tr_requiredClaimTopics = (case ct_requiredClaimTopics d of None \<Rightarrow> [] | Some ts \<Rightarrow> ts),
     tr_kycProvider = or_null (ct_kycProvider d),
     tr_amlProvider = or_null (ct_amlProvider d),
     tr_issuerWallet = or_null (ct_issuerWallet d),
     tr_preflightFailure = or_null (ct_preflightFailure d),
     tr_simulationError = or_null (ct_simulationError d),
     tr_kycClaimTxHash = None, tr_kycClaimedAt = None,
     tr_amlClaimTxHash = None, tr_amlClaimedAt = None,
     tr_whitelistTxHash = or_null (ct_whitelistTxHash d),
     tr_whitelistedAt = (if truthy (ct_whitelistTxHash d) then Some (js_now E) else None),
     tr_activationTxHash = or_null (ct_activationTxHash d),
     tr_activatedAt = (if truthy (ct_activationTxHash d) then Some (js_now E) else None),
     tr_transferTxHash = or_null (ct_transferTxHash d),
     tr_transferredAt = (if status = ''TRANSFERRED'' then Some (js_now E) else None),
     tr_rejectionReason = None, tr_rejectedAt = None, tr_rejectedBy = None,
     tr_createdAt = db_now E,
     tr_updatedAt = db_now E \<rparr>"

definition create_transfer_request ::
    "env \<Rightarrow> create_transfer \<Rightarrow> (transfer_db, transfer_row) handler" where
  "create_transfer_request E d db =
     (let status = or_else (ct_status d) ''DRAFT''
      in if status \<notin> set TRANSFER_VALID_STATUSES
         then (db, Inl (ConflictException ''Invalid token transfer request status.''))
         else
           (case List.find (is_open_transfer (ct_tokenContract d) (ct_fromWallet d) (ct_toWallet d))
                   (td_requests db) of
              Some duplicate \<Rightarrow>
                if status = ''TRANSFERRED'' \<and> truthy (ct_transferTxHash d)
                then updateStatus_transfer E (tr_id duplicate) (as_update d) db
                else (db, Inl (ConflictException
                  ''An open transfer request already exists for this sender, recipient, and token.''))
            | None \<Rightarrow>
                (let row = new_transfer_row E (uuid E 0) d status;
                     (ledger, recorded) =
                       record_all E 1 (transfer_ledger_entries (uuid E 0) (as_update d) None) (td_ledger db)
                 in (db\<lparr> td_requests := sql_insert row (td_requests db), td_ledger := ledger \<rparr>,
                     case recorded of Inl e \<Rightarrow> Inl e | Inr _ \<Rightarrow> Inr row))))"

record transfer_filter =
  tf_fromWallet :: "string option"
  tf_toWallet :: "string option"
  tf_kycProvider :: "string option"
  tf_amlProvider :: "string option"
  tf_issuerWallet :: "string option"
  tf_status :: "string option"
  tf_tokenContract :: "string option"

definition transfer_matches :: "transfer_filter \<Rightarrow> transfer_row \<Rightarrow> bool" where
  "transfer_matches q r \<longleftrightarrow>
     query_match (tf_fromWallet q) (Some (tr_fromWallet r)) \<and>
     query_match (tf_toWallet q) (Some (tr_toWallet r)) \<and>
     query_match (tf_kycProvider q) (tr_kycProvider r) \<and>
     query_match (tf_amlProvider q) (tr_amlProvider r) \<and>
     query_match (tf_issuerWallet q) (tr_issuerWallet r) \<and>
     query_match (tf_status q) (Some (tr_status r)) \<and>
     query_match (tf_tokenContract q) (Some (tr_tokenContract r))"

definition findAll_transfers :: "transfer_filter \<Rightarrow> transfer_db \<Rightarrow> transfer_row list" where
  "findAll_transfers q db =
     sort_key (\<lambda>r. - tr_createdAt r) (filter (transfer_matches q) (td_requests db))"

section \<open>Updates of a request\<close>

lemmas keeps_transfer_row =
  apply_if_keeps [of tr_id] apply_if_keeps [of tr_tokenContract] apply_if_keeps [of tr_fromWallet]
  apply_if_keeps [of tr_toWallet] apply_if_keeps [of tr_amount] apply_if_keeps [of tr_status]
  apply_if_keeps [of tr_transferredAt] apply_if_keeps [of tr_transferTxHash]

lemma transfer_assignments_keeps [simp]:
  "tr_id (transfer_assignments E c s d r) = tr_id r"
  "tr_tokenContract (transfer_assignments E c s d r) = tr_tokenContract r"
  "tr_fromWallet (transfer_assignments E c s d r) = tr_fromWallet r"
  "tr_toWallet (transfer_assignments E c s d r) = tr_toWallet r"
  "tr_amount (transfer_assignments E c s d r) = tr_amount r"
  "tr_status (transfer_assignments E c s d r) = s"
  by (simp_all add: transfer_assignments_def Let_def keeps_transfer_row)

lemma transfer_assignments_transferred:
  "tr_transferredAt (transfer_assignments E c ''TRANSFERRED'' d r) = Some (db_now E)"
  "tr_transferTxHash (transfer_assignments E c ''TRANSFERRED'' d r) = or_null (ut_transferTxHash d)"
  by (simp_all add: transfer_assignments_def Let_def keeps_transfer_row)

interpretation transfers: keyed_table tr_id "\<lambda>(E, c, s, d). transfer_assignments E c s d"
  by unfold_locales auto

lemma findOne_transfer_Inr:
  "findOne_transfer i db = Inr r \<longleftrightarrow> List.find (\<lambda>r. tr_id r = i) (td_requests db) = Some r"
  by (auto simp: findOne_transfer_def split: option.splits)

lemma transfer_entries_plain: "list_all plain_entry (transfer_ledger_entries i d x)"
  by (auto simp: list_all_iff transfer_ledger_entries_def Let_def set_entry_when transfer_entry_def
      plain_entry_def)

lemma updateStatus_transfer_success:
  assumes "findOne_transfer i db = Inr r" and "ut_status d = Some s" and "s \<in> set TRANSFER_VALID_STATUSES"
  shows "updateStatus_transfer E i d db =
    (db\<lparr> td_requests := sql_update (\<lambda>r. tr_id r = i) (transfer_assignments E (tr_status r) s d) (td_requests db),
        td_ledger := fst (record_all E 0 (transfer_ledger_entries i d (Some r)) (td_ledger db)) \<rparr>,
     Inr (transfer_assignments E (tr_status r) s d r))"
proof -
  from assms(3) have "s \<noteq> []" by (auto simp: TRANSFER_VALID_STATUSES_def)
  with assms show ?thesis
    by (simp add: updateStatus_transfer_def Let_def record_all_plain transfer_entries_plain)
qed

lemma updateStatus_transfer_cases:
  obtains (failed) e where "updateStatus_transfer E i d db = (db, Inl e)"
  | (applied) r s where "findOne_transfer i db = Inr r" "ut_status d = Some s"
      "s \<in> set TRANSFER_VALID_STATUSES"
      "updateStatus_transfer E i d db =
         (db\<lparr> td_requests := sql_update (\<lambda>r. tr_id r = i) (transfer_assignments E (tr_status r) s d)
                (td_requests db),
             td_ledger := fst (record_all E 0 (transfer_ledger_entries i d (Some r)) (td_ledger db)) \<rparr>,
          Inr (transfer_assignments E (tr_status r) s d r))"
proof (cases "\<exists>r s. findOne_transfer i db = Inr r \<and> ut_status d = Some s \<and> s \<in> set TRANSFER_VALID_STATUSES")
  case True
  then obtain r s where "findOne_transfer i db = Inr r" "ut_status d = Some s" "s \<in> set TRANSFER_VALID_STATUSES"
    by blast
  then show ?thesis by (intro applied [of r s]) (simp_all add: updateStatus_transfer_success)
next
  case False
  then have "\<exists>e. updateStatus_transfer E i d db = (db, Inl e)"
    by (cases "findOne_transfer i db"; cases "ut_status d") (auto simp: updateStatus_transfer_def)
  then show ?thesis using failed by blast
qed

section \<open>Sequences of calls\<close>

inductive transfer_step :: "bool \<Rightarrow> transfer_db \<Rightarrow> transfer_db \<Rightarrow> bool" for reopen where
  create: "uuid E 0 \<notin> tr_id ` set (td_requests db) \<Longrightarrow>
    transfer_step reopen db (fst (create_transfer_request E d db))"
| update: "reopen \<or> (\<forall>r. findOne_transfer i db = Inr r \<longrightarrow> tr_status r \<notin> set TRANSFER_CLOSED_STATUSES) \<Longrightarrow>
    transfer_step reopen db (fst (updateStatus_transfer E i ud db))"

definition transfer_key :: "transfer_row \<Rightarrow> string \<times> string \<times> string" where
  "transfer_key r = (tr_tokenContract r, tr_fromWallet r, tr_toWallet r)"

definition open_transfers :: "transfer_db \<Rightarrow> transfer_row list" where
  "open_transfers db = filter (\<lambda>r. tr_status r \<notin> set TRANSFER_CLOSED_STATUSES) (td_requests db)"

definition one_open_transfer :: "transfer_db \<Rightarrow> bool" where
  "one_open_transfer db \<longleftrightarrow> distinct (map transfer_key (open_transfers db))"

text \<open>Every row has a valid status, and a transferred row says when.\<close>

definition transfer_inv :: "transfer_db \<Rightarrow> bool" where
  "transfer_inv db \<longleftrightarrow> distinct (map tr_id (td_requests db)) \<and>
     (\<forall>r \<in> set (td_requests db). tr_status r \<in> set TRANSFER_VALID_STATUSES \<and>
        (tr_status r = ''TRANSFERRED'' \<longrightarrow> tr_transferredAt r \<noteq> None)) \<and> ledger_inv (td_ledger db)"

lemma transfer_step_cases [consumes 1]:
  assumes "transfer_step reopen db db'"
  obtains (same) "db' = db"
  | (insert) E d s led where
      "List.find (is_open_transfer (ct_tokenContract d) (ct_fromWallet d) (ct_toWallet d)) (td_requests db) = None"
      "uuid E 0 \<notin> tr_id ` set (td_requests db)" "s \<in> set TRANSFER_VALID_STATUSES"
      "ledger_inv (td_ledger db) \<Longrightarrow> ledger_inv led"
      "db' = db\<lparr> td_requests := sql_insert (new_transfer_row E (uuid E 0) d s) (td_requests db), td_ledger := led \<rparr>"
  | (review) E i r s d led where "findOne_transfer i db = Inr r" "s \<in> set TRANSFER_VALID_STATUSES"
      "transfer_inv db \<Longrightarrow> reopen \<or> tr_status r \<notin> set TRANSFER_CLOSED_STATUSES"
      "ledger_inv (td_ledger db) \<Longrightarrow> ledger_inv led"
      "db' = db\<lparr> td_requests := sql_update (\<lambda>r. tr_id r = i) (transfer_assignments E (tr_status r) s d)
                  (td_requests db), td_ledger := led \<rparr>"
  using assms
proof (cases rule: transfer_step.cases)
  case (create E d)
  let ?find = "List.find (is_open_transfer (ct_tokenContract d) (ct_fromWallet d) (ct_toWallet d)) (td_requests db)"
  let ?s = "or_else (ct_status d) ''DRAFT''"
  consider (bad) "fst (create_transfer_request E d db) = db"
    | (dup) x where "?find = Some x"
        "create_transfer_request E d db = updateStatus_transfer E (tr_id x) (as_update d) db"
    | (new) "?find = None" "?s \<in> set TRANSFER_VALID_STATUSES"
    by (cases "?s \<in> set TRANSFER_VALID_STATUSES"; cases ?find;
        cases "?s = ''TRANSFERRED'' \<and> truthy (ct_transferTxHash d)")
      (auto simp: create_transfer_request_def Let_def)
  then show ?thesis
  proof cases
    case bad
    with create same show ?thesis by simp
  next
    case (dup x)
    then have x: "x \<in> set (td_requests db)" "tr_status x \<notin> set TRANSFER_CLOSED_STATUSES"
      by (auto simp: is_open_transfer_def dest!: find_Some_memD)
    show ?thesis
    proof (cases rule: updateStatus_transfer_cases [of E "tr_id x" "as_update d" db])
      case (applied r s)
      have "tr_status r \<notin> set TRANSFER_CLOSED_STATUSES" if "transfer_inv db"
      proof -
        have "findOne_transfer (tr_id x) db = Inr x"
          using that x(1) transfers.find_unique by (simp add: transfer_inv_def findOne_transfer_Inr)
        with applied(1) x(2) show ?thesis by simp
      qed
      with applied create dup show ?thesis
        by (intro review [OF applied(1,3)]) (auto intro: record_all_inv)
    qed (use create dup same in simp)
  next
    case new
    with create show ?thesis
      by (intro insert [of d E ?s "fst (record_all E 1
            (transfer_ledger_entries (uuid E 0) (as_update d) None) (td_ledger db))"])
        (auto simp: create_transfer_request_def Let_def case_prod_beta intro: record_all_inv)
  qed
next
  case (update i E ud)
  show ?thesis
  proof (cases rule: updateStatus_transfer_cases [of E i ud db])
    case (applied r s)
    with update show ?thesis
      by (intro review [OF applied(1,3)]) (auto intro: record_all_inv)
  qed (use update same in simp)
qed

lemma transfer_step_inv:
  assumes "transfer_step reopen db db'" and "transfer_inv db"
  shows "transfer_inv db'"
  using assms(1)
proof (cases rule: transfer_step_cases)
  case (insert E d s led)
  with assms(2) show ?thesis
    by (auto simp: transfer_inv_def map_key_insert set_insert new_transfer_row_def)
next
  case (review E i r s d led)
  with assms(2) show ?thesis
    by (auto simp: transfer_inv_def set_update map_update_same transfer_assignments_transferred)
qed (use assms in simp)

lemma transfer_step_one_open:
  assumes "transfer_step False db db'" and "transfer_inv db" and "one_open_transfer db"
  shows "one_open_transfer db'"
  using assms(1)
proof (cases rule: transfer_step_cases)
  case (insert E d s led)
  then have "transfer_key (new_transfer_row E (uuid E 0) d s) \<notin> transfer_key ` set (open_transfers db)"
    by (auto simp: find_None_all is_open_transfer_def open_transfers_def transfer_key_def
        new_transfer_row_def)
  with insert assms(3) show ?thesis
    by (auto simp: one_open_transfer_def open_transfers_def filter_insert)
next
  case (review E i r s d led)
  have "x = r" if "x \<in> set (td_requests db)" "tr_id x = i" for x
    using that review(1) assms(2) transfers.find_unique [of "td_requests db" x]
    by (simp add: transfer_inv_def findOne_transfer_Inr)
  with review assms(2,3) show ?thesis
    by (auto simp: one_open_transfer_def open_transfers_def transfer_key_def
        intro!: distinct_filter_update)
qed (use assms in simp)

section \<open>Properties\<close>

lemma transfer_requests_reachable:
  assumes "(transfer_step False)\<^sup>*\<^sup>* db db'" and "transfer_inv db" and "one_open_transfer db"
  shows "transfer_inv db' \<and> one_open_transfer db'"
  using assms
  by (induction rule: rtranclp_induct) (auto intro: transfer_step_inv transfer_step_one_open)

lemma create_transfer_behaviour:
  assumes "transfer_inv db" and "uuid E 0 \<notin> tr_id ` set (td_requests db)"
    and "or_else (ct_status d) ''DRAFT'' \<in> set TRANSFER_VALID_STATUSES"
  shows "case List.find (is_open_transfer (ct_tokenContract d) (ct_fromWallet d) (ct_toWallet d)) (td_requests db) of
     None \<Rightarrow> snd (create_transfer_request E d db) =
         Inr (new_transfer_row E (uuid E 0) d (or_else (ct_status d) ''DRAFT'')) \<and>
       td_requests (fst (create_transfer_request E d db)) =
         td_requests db @ [new_transfer_row E (uuid E 0) d (or_else (ct_status d) ''DRAFT'')]
   | Some x \<Rightarrow>
       if ct_status d = Some ''TRANSFERRED'' \<and> truthy (ct_transferTxHash d)
       then findOne_transfer (tr_id x) (fst (create_transfer_request E d db)) =
              Inr (transfer_assignments E (tr_status x) ''TRANSFERRED'' (as_update d) x) \<and>
            length (td_requests (fst (create_transfer_request E d db))) = length (td_requests db)
       else create_transfer_request E d db = (db, Inl (ConflictException
              ''An open transfer request already exists for this sender, recipient, and token.''))"
proof (cases "List.find (is_open_transfer (ct_tokenContract d) (ct_fromWallet d) (ct_toWallet d)) (td_requests db)")
  case None
  with assms(3) show ?thesis
    by (simp add: create_transfer_request_def Let_def record_all_plain transfer_entries_plain sql_insert_def)
next
  case (Some x)
  have eq: "or_else (ct_status d) ''DRAFT'' = ''TRANSFERRED'' \<longleftrightarrow> ct_status d = Some ''TRANSFERRED''"
    by (auto simp: or_else_def split: option.splits)
  show ?thesis
  proof (cases "ct_status d = Some ''TRANSFERRED'' \<and> truthy (ct_transferTxHash d)")
    case True
    from Some have "x \<in> set (td_requests db)" by (auto dest: find_Some_memD)
    with assms(1) have x: "findOne_transfer (tr_id x) db = Inr x"
      using transfers.find_unique by (simp add: transfer_inv_def findOne_transfer_Inr)
    have "create_transfer_request E d db = updateStatus_transfer E (tr_id x) (as_update d) db"
      using True Some assms(3) eq by (simp add: create_transfer_request_def Let_def)
    moreover have "ut_status (as_update d) = Some ''TRANSFERRED''" using True by (simp add: as_update_def)
    moreover have "''TRANSFERRED'' \<in> set TRANSFER_VALID_STATUSES" by (simp add: TRANSFER_VALID_STATUSES_def)
    ultimately show ?thesis using True Some x
      transfers.find_same [of "tr_id x" "(E, tr_status x, ''TRANSFERRED'', as_update d)" "td_requests db"]
      by (simp add: updateStatus_transfer_success findOne_transfer_Inr sql_update_def)
  next
    case False
    with Some assms(3) eq show ?thesis by (auto simp: create_transfer_request_def Let_def)
  qed
qed

section \<open>Concrete instances\<close>

definition sample_transfer :: "string option \<Rightarrow> string option \<Rightarrow> rat \<Rightarrow> create_transfer" where
  "sample_transfer status hash amount = \<lparr> ct_assetId = None, ct_tokenContract = ''MINT'', ct_fromWallet = ''Ann'',
     ct_toWallet = ''Bob'', ct_amount = Fin amount, ct_status = status, ct_requiredClaimTopics = None,
     ct_kycProvider = None, ct_amlProvider = None, ct_issuerWallet = None, ct_preflightFailure = None,
     ct_simulationError = None, ct_transferTxHash = hash, ct_whitelistTxHash = None,
     ct_activationTxHash = None \<rparr>"

definition transfers0 :: transfer_db where
  "transfers0 = \<lparr> td_requests = [], td_ledger = [] \<rparr>"

definition transfers1 :: transfer_db where
  "transfers1 = fst (create_transfer_request (sample_env ''a'') (sample_transfer None None 5) transfers0)"

lemma transfers_reach: "(transfer_step False)\<^sup>*\<^sup>* transfers0 transfers1"
  unfolding transfers1_def by (rule r_into_rtranclp, rule transfer_step.create) code_simp

lemma transfers_inv: "transfer_inv transfers0" "one_open_transfer transfers0" "transfer_inv transfers1"
  by code_simp+

lemma transfer_requests_reachable_witness:
  "length (open_transfers transfers1) = 1 \<and> transfer_inv transfers1 \<and> one_open_transfer transfers1"
proof
  show "length (open_transfers transfers1) = 1" by code_simp
  show "transfer_inv transfers1 \<and> one_open_transfer transfers1"
    by (rule transfer_requests_reachable [OF transfers_reach transfers_inv(1,2)])
qed

text \<open>The second report closes the draft; the amount of the draft stays although the report has another.\<close>

lemma create_transfer_behaviour_witness:
  "\<exists>r. findOne_transfer ''a0'' (fst (create_transfer_request (sample_env ''b'')
       (sample_transfer (Some ''TRANSFERRED'') (Some ''tx'') 7) transfers1)) = Inr r \<and>
     tr_status r = ''TRANSFERRED'' \<and> tr_amount r = Some (Fin 5)"
proof -
  let ?d = "sample_transfer (Some ''TRANSFERRED'') (Some ''tx'') 7"
  have f: "map_option (\<lambda>x. (tr_id x, tr_amount x)) (List.find (is_open_transfer (ct_tokenContract ?d)
      (ct_fromWallet ?d) (ct_toWallet ?d)) (td_requests transfers1)) = Some (''a0'', Some (Fin 5))"
    by code_simp
  have "uuid (sample_env ''b'') 0 \<notin> tr_id ` set (td_requests transfers1)"
    "or_else (ct_status ?d) ''DRAFT'' \<in> set TRANSFER_VALID_STATUSES"
    "ct_status ?d = Some ''TRANSFERRED'' \<and> truthy (ct_transferTxHash ?d)"
    by code_simp+
  with create_transfer_behaviour [OF transfers_inv(3), of "sample_env ''b''" ?d] f show ?thesis
    by (auto split: option.splits)
qed

end
