(* ===== verification/AdminGuard.thy ===== *)
theory AdminGuard
  imports Bytes "HOL-Library.AList"
begin

text \<open>
  The two guards of the backend (\<open>backend/src/common/guards\<close>): the wallet-signature guard in front
  of the platform administration, with its table of used nonces, and the role guard. The theorems
  say what an accepted request has proved and when a captured request can be replayed.
\<close>

section \<open>Requests and the host\<close>

datatype header_value = HString string | HArray "string list"

record admin_request =
  ar_body :: jsval
  ar_headers :: "(string \<times> header_value) list"
  ar_method :: string
  ar_originalUrl :: string

text \<open>
  The cryptographic functions of the runtime are parameters: the hexadecimal SHA-256 digest of a
  text, the decoding of Base64, and the check of an Ed25519 signature over a text.
\<close>

record guard_host = chain +
  sha256_hex :: "string \<Rightarrow> string"
  base64_bytes :: "string \<Rightarrow> bytes"
  ed25519_verify :: "pubkey \<Rightarrow> string \<Rightarrow> bytes \<Rightarrow> bool"

definition getHeader :: "admin_request \<Rightarrow> string \<Rightarrow> string" where
  "getHeader r name =
     (case map_of (ar_headers r) (toLowerCase name) of
        None \<Rightarrow> []
      | Some (HString s) \<Rightarrow> s
      | Some (HArray vs) \<Rightarrow> (case vs of [] \<Rightarrow> [] | v # _ \<Rightarrow> v))"

section \<open>Text of a request\<close>

definition body_text :: "jsval \<Rightarrow> string" where
  "body_text body =
     (case json_stringify (if is_nullish body then JObj [] else body) of None \<Rightarrow> [] | Some t \<Rightarrow> t)"

definition admin_message :: "guard_host \<Rightarrow> admin_request \<Rightarrow> string" where
  "admin_message H r =
     join_with [CHR 0x0A]
       [''FRACKS_ADMIN_REQUEST'', toUpperCase (ar_method r),
        hd (split_char (CHR ''?'') (ar_originalUrl r)),
        getHeader r ''x-admin-timestamp'', getHeader r ''x-admin-nonce'',
        sha256_hex H (body_text (ar_body r))]"

definition valid_nonce :: "string \<Rightarrow> bool" where
  "valid_nonce n \<longleftrightarrow> 16 \<le> length n \<and> length n \<le> 128 \<and>
     list_all (\<lambda>c. is_digit c \<or> c = CHR ''-'' \<or> 65 \<le> char_code c \<and> char_code c \<le> 90 \<or>
       97 \<le> char_code c \<and> char_code c \<le> 122) n"

section \<open>The signature guard\<close>

definition AUTHORIZATION_WINDOW_MS :: int where
  "AUTHORIZATION_WINDOW_MS = 5 * 60 * 1000"

type_synonym nonces = "(string \<times> time) list"

definition pruneUsedNonces :: "time \<Rightarrow> nonces \<Rightarrow> nonces" where
  "pruneUsedNonces now used = filter (\<lambda>(key, createdAt). \<not> createdAt < now - AUTHORIZATION_WINDOW_MS) used"

definition in_window :: "time \<Rightarrow> string \<Rightarrow> bool" where
  "in_window now timestamp =
     (case number_of_string timestamp of
        Fin q \<Rightarrow> isSafeInteger (Fin q) \<and> \<not> q > of_int (now + 30000) \<and>
                 \<not> q < of_int (now - AUTHORIZATION_WINDOW_MS)
      | _ \<Rightarrow> False)"

definition unauthorized :: "string \<Rightarrow> 'a res" where
  "unauthorized m = Inl (UnauthorizedException m)"

definition wallet_canActivate ::
    "guard_host \<Rightarrow> string option \<Rightarrow> time \<Rightarrow> admin_request \<Rightarrow> (nonces, bool) handler" where
  "wallet_canActivate H platformOwner now r used =
     (let expectedWalletAddress = trim (case platformOwner of None \<Rightarrow> [] | Some s \<Rightarrow> s);
          walletAddress = getHeader r ''x-admin-wallet'';
          timestamp = getHeader r ''x-admin-timestamp'';
          nonce = getHeader r ''x-admin-nonce'';
          signatureBase64 = getHeader r ''x-admin-signature''
      in if expectedWalletAddress = []
         then (used, unauthorized ''Platform admin wallet is not configured.'')
         else if walletAddress = [] \<or> timestamp = [] \<or> nonce = [] \<or> signatureBase64 = []
         then (used, unauthorized ''Platform admin wallet signature is required.'')
         else if \<not> in_window now timestamp
         then (used, unauthorized ''Platform admin wallet signature has expired.'')
         else if \<not> valid_nonce nonce
         then (used, unauthorized ''Platform admin wallet signature nonce is invalid.'')
         else
           (case (pk_of_string H walletAddress, pk_of_string H expectedWalletAddress) of
              (Inr walletPublicKey, Inr expectedWalletPublicKey) \<Rightarrow>
                if walletPublicKey \<noteq> expectedWalletPublicKey
                then (used, unauthorized ''Platform admin wallet is not authorized.'')
                else
                  (let used' = pruneUsedNonces now used;
                       replayKey = toBase58 H walletPublicKey @ '':'' @ nonce;
                       signature = base64_bytes H signatureBase64
                   in if map_of used' replayKey \<noteq> None
                      then (used', unauthorized ''Platform admin wallet signature was already used.'')
                      else if length signature \<noteq> 64
                      then (used', unauthorized ''Platform admin wallet signature is invalid.'')
                      else if \<not> ed25519_verify H walletPublicKey (admin_message H r) signature
                      then (used', unauthorized ''Platform admin wallet signature is invalid.'')
                      else (AList.update replayKey now used', Inr True))
            | _ \<Rightarrow> (used, unauthorized ''Platform admin wallet address is invalid.'')))"

text \<open>The guard over a sequence of requests with their arrival times.\<close>

fun run_guard :: "guard_host \<Rightarrow> string option \<Rightarrow> (time \<times> admin_request) list \<Rightarrow> nonces \<Rightarrow> nonces" where
  "run_guard H owner [] used = used"
| "run_guard H owner ((now, r) # calls) used =
     run_guard H owner calls (fst (wallet_canActivate H owner now r used))"

section \<open>The role guard\<close>

text \<open>The roles a handler asks for and the roles of the authenticated user, when there are any.\<close>

definition roles_canActivate :: "string list option \<Rightarrow> string list option \<Rightarrow> bool res" where
  "roles_canActivate requiredRoles userRoles =
     (case requiredRoles of
        None \<Rightarrow> Inr True
      | Some [] \<Rightarrow> Inr True
      | Some required \<Rightarrow>
          if list_ex (\<lambda>role. role \<in> set (case userRoles of None \<Rightarrow> [] | Some rs \<Rightarrow> rs)) required
          then Inr True else Inl (ForbiddenException ''Insufficient role permissions''))"

section \<open>What acceptance means\<close>

definition expected_key :: "guard_host \<Rightarrow> string option \<Rightarrow> string + pubkey" where
  "expected_key H owner = pk_of_string H (trim (case owner of None \<Rightarrow> [] | Some s \<Rightarrow> s))"

lemma accepted_iff:
  "snd (wallet_canActivate H owner now r used) = Inr True \<longleftrightarrow>
   (\<exists>k. trim (case owner of None \<Rightarrow> [] | Some s \<Rightarrow> s) \<noteq> [] \<and>
      getHeader r ''x-admin-wallet'' \<noteq> [] \<and> getHeader r ''x-admin-timestamp'' \<noteq> [] \<and>
      getHeader r ''x-admin-nonce'' \<noteq> [] \<and> getHeader r ''x-admin-signature'' \<noteq> [] \<and>
      in_window now (getHeader r ''x-admin-timestamp'') \<and> valid_nonce (getHeader r ''x-admin-nonce'') \<and>
      pk_of_string H (getHeader r ''x-admin-wallet'') = Inr k \<and> expected_key H owner = Inr k \<and>
      map_of (pruneUsedNonces now used) (toBase58 H k @ '':'' @ getHeader r ''x-admin-nonce'') = None \<and>
      length (base64_bytes H (getHeader r ''x-admin-signature'')) = 64 \<and>
      ed25519_verify H k (admin_message H r) (base64_bytes H (getHeader r ''x-admin-signature'')))"
  by (auto simp: wallet_canActivate_def unauthorized_def expected_key_def Let_def split: sum.splits)

lemma accepted_state:
  assumes "snd (wallet_canActivate H owner now r used) = Inr True" and "expected_key H owner = Inr k"
  shows "fst (wallet_canActivate H owner now r used) =
    AList.update (toBase58 H k @ '':'' @ getHeader r ''x-admin-nonce'') now (pruneUsedNonces now used)"
  using assms(1) unfolding accepted_iff
  by (auto simp: wallet_canActivate_def unauthorized_def Let_def assms(2) [unfolded expected_key_def]
      expected_key_def split: sum.splits)

lemma guard_state_cases:
  "fst (wallet_canActivate H owner now r used) \<in>
     {used, pruneUsedNonces now used} \<union> {AList.update k now (pruneUsedNonces now used) | k. True}"
  by (auto simp: wallet_canActivate_def unauthorized_def Let_def split: sum.splits)

lemma map_of_filter_keep:
  assumes "map_of xs k = Some v" and "distinct (map fst xs)" and "P (k, v)"
  shows "map_of (filter P xs) k = Some v"
  using assms by (induction xs) (auto simp: image_iff dest: map_of_SomeD)

definition nonces_ok :: "nonces \<Rightarrow> bool" where
  "nonces_ok used \<longleftrightarrow> distinct (map fst used)"

lemma nonces_ok_prune: "nonces_ok used \<Longrightarrow> nonces_ok (pruneUsedNonces now used)"
  by (simp add: nonces_ok_def pruneUsedNonces_def distinct_map_filter)

lemma nonces_ok_step: "nonces_ok used \<Longrightarrow> nonces_ok (fst (wallet_canActivate H owner now r used))"
  using guard_state_cases [of H owner now r used] nonces_ok_prune [of used now]
  by (auto simp: nonces_ok_def distinct_update)

text \<open>A nonce noted at a time no earlier than \<open>t\<close> stays while the clock is within the window of \<open>t\<close>.\<close>

definition noted :: "nonces \<Rightarrow> string \<Rightarrow> time \<Rightarrow> bool" where
  "noted used k t \<longleftrightarrow> (\<exists>v \<ge> t. map_of used k = Some v)"

lemma noted_prune:
  assumes "noted used k t" and "nonces_ok used" and "now \<le> t + AUTHORIZATION_WINDOW_MS"
  shows "noted (pruneUsedNonces now used) k t"
proof -
  from assms(1) obtain v where v: "v \<ge> t" "map_of used k = Some v" by (auto simp: noted_def)
  have "map_of (pruneUsedNonces now used) k = Some v"
    unfolding pruneUsedNonces_def
    by (rule map_of_filter_keep) (use v assms in \<open>auto simp: nonces_ok_def\<close>)
  with v show ?thesis by (auto simp: noted_def)
qed

lemma noted_step:
  assumes "noted used k t" and "nonces_ok used" and "now \<le> t + AUTHORIZATION_WINDOW_MS" and "t \<le> now"
  shows "noted (fst (wallet_canActivate H owner now r used)) k t"
  using guard_state_cases [of H owner now r used] noted_prune [OF assms(1-3)] assms
  by (auto simp: noted_def update_conv')

lemma noted_run:
  assumes "noted used k t" and "nonces_ok used" and "\<forall>(now, r) \<in> set calls. t \<le> now \<and> now \<le> t + AUTHORIZATION_WINDOW_MS"
  shows "noted (run_guard H owner calls used) k t \<and> nonces_ok (run_guard H owner calls used)"
  using assms
  by (induction calls arbitrary: used) (auto simp: noted_step nonces_ok_step)

lemma rejected_if_noted:
  assumes "noted used (toBase58 H k @ '':'' @ getHeader r ''x-admin-nonce'') t" and "nonces_ok used"
    and "now \<le> t + AUTHORIZATION_WINDOW_MS" and "expected_key H owner = Inr k"
  shows "snd (wallet_canActivate H owner now r used) \<noteq> Inr True"
  using noted_prune [OF assms(1-3)] assms(4) unfolding accepted_iff noted_def by auto

section \<open>Properties\<close>

text \<open>
  C5. A request the guard accepts names the configured platform wallet, carries a signature that
  verifies over its method, path, timestamp, nonce and body hash, is within the time window,
  carries a nonce that is not among those the guard noted for this wallet in the last five
  minutes, and has its nonce noted afterwards. An older nonce is forgotten, so that a request
  dated ahead can pass twice (lemma future_dated_admin_request_replayable, recorded as a
  finding).
\<close>

theorem admin_acceptance_is_authorized:
  assumes "snd (wallet_canActivate H owner now r used) = Inr True"
  shows "\<exists>k q. expected_key H owner = Inr k \<and> pk_of_string H (getHeader r ''x-admin-wallet'') = Inr k \<and>
    ed25519_verify H k (admin_message H r) (base64_bytes H (getHeader r ''x-admin-signature'')) \<and>
    number_of_string (getHeader r ''x-admin-timestamp'') = Fin q \<and>
    of_int (now - AUTHORIZATION_WINDOW_MS) \<le> q \<and> q \<le> of_int (now + 30000) \<and>
    map_of (pruneUsedNonces now used) (toBase58 H k @ '':'' @ getHeader r ''x-admin-nonce'') = None \<and>
    map_of (fst (wallet_canActivate H owner now r used)) (toBase58 H k @ '':'' @ getHeader r ''x-admin-nonce'')
      = Some now"
proof -
  from assms obtain k where k: "expected_key H owner = Inr k" by (auto simp: accepted_iff)
  with assms accepted_state [OF assms k] show ?thesis
    unfolding accepted_iff in_window_def
    by (auto simp: update_conv' not_less split: jsnum.splits)
qed

text \<open>
  C4. Once the guard accepted an admin request whose timestamp was not ahead of the server
  clock, no later request with the same nonce and timestamp is accepted, whatever other requests
  arrive in between.
\<close>

theorem admin_request_not_replayed:
  assumes "nonces_ok used" and "snd (wallet_canActivate H owner t1 r used) = Inr True"
    and "number_of_string (getHeader r ''x-admin-timestamp'') = Fin q" and "q \<le> of_int t1"
    and "\<forall>(now, x) \<in> set calls. t1 \<le> now \<and> now \<le> t2"
    and "getHeader r' ''x-admin-nonce'' = getHeader r ''x-admin-nonce''"
    and "getHeader r' ''x-admin-timestamp'' = getHeader r ''x-admin-timestamp''"
  shows "snd (wallet_canActivate H owner t2 r'
    (run_guard H owner calls (fst (wallet_canActivate H owner t1 r used)))) \<noteq> Inr True"
proof (cases "t2 \<le> t1 + AUTHORIZATION_WINDOW_MS")
  case True
  from assms(2) obtain k where k: "expected_key H owner = Inr k" by (auto simp: accepted_iff)
  let ?key = "toBase58 H k @ '':'' @ getHeader r ''x-admin-nonce''"
  have "noted (fst (wallet_canActivate H owner t1 r used)) ?key t1"
    by (simp add: accepted_state [OF assms(2) k] noted_def update_conv')
  then have "noted (run_guard H owner calls (fst (wallet_canActivate H owner t1 r used))) ?key t1 \<and>
      nonces_ok (run_guard H owner calls (fst (wallet_canActivate H owner t1 r used)))"
    by (rule noted_run) (use nonces_ok_step [OF assms(1)] assms(5) True in auto)
  then show ?thesis using rejected_if_noted [of _ H k r' t1 t2 owner] k True assms(6) by simp
next
  case False
  have "\<not> in_window t2 (getHeader r' ''x-admin-timestamp'')"
  proof -
    have "of_int t1 < (of_int (t2 - AUTHORIZATION_WINDOW_MS) :: rat)"
      using False unfolding of_int_less_iff by linarith
    with assms(4) have "q < of_int (t2 - AUTHORIZATION_WINDOW_MS)" by (rule le_less_trans)
    then show ?thesis by (simp add: in_window_def assms(3,7))
  qed
  then show ?thesis by (auto simp: accepted_iff)
qed

lemma future_dated_admin_request_replayable:
  assumes "snd (wallet_canActivate H owner t1 r []) = Inr True"
    and "number_of_string (getHeader r ''x-admin-timestamp'') = Fin q"
    and "t1 + AUTHORIZATION_WINDOW_MS < t2" and "of_int (t2 - AUTHORIZATION_WINDOW_MS) \<le> q"
  shows "snd (wallet_canActivate H owner t2 r (fst (wallet_canActivate H owner t1 r []))) = Inr True"
proof -
  from assms(1) obtain k where k: "expected_key H owner = Inr k" by (auto simp: accepted_iff)
  have "pruneUsedNonces t2 (fst (wallet_canActivate H owner t1 r [])) = []"
    using assms(3) by (simp add: accepted_state [OF assms(1) k] pruneUsedNonces_def)
  moreover have "in_window t2 (getHeader r ''x-admin-timestamp'')"
  proof -
    from assms(1,2) have "isSafeInteger (Fin q)" "q \<le> of_int (t1 + 30000)"
      by (auto simp: accepted_iff in_window_def)
    moreover have "of_int (t1 + 30000) \<le> (of_int (t2 + 30000) :: rat)"
      using assms(3) unfolding of_int_le_iff by (simp add: AUTHORIZATION_WINDOW_MS_def)
    ultimately have "q \<le> of_int (t2 + 30000)" by (meson order_trans)
    with \<open>isSafeInteger (Fin q)\<close> assms(2,4) show ?thesis by (simp add: in_window_def not_less)
  qed
  ultimately show ?thesis using assms(1) unfolding accepted_iff by auto
qed

lemma roles_guard_allows_iff:
  "roles_canActivate required user = Inr True \<longleftrightarrow>
   required \<in> {None, Some []} \<or> (\<exists>rs us. required = Some rs \<and> user = Some us \<and> set rs \<inter> set us \<noteq> {})"
  by (auto simp: roles_canActivate_def list_ex_iff split: option.splits list.splits)

section \<open>Concrete instances\<close>

definition sample_host :: guard_host where
  "sample_host = \<lparr> pk_of_string = (\<lambda>s. Inr (ascii s)), pk_of_bytes = Inr, toBase58 = (\<lambda>k. ''Owner''),
     token_2022 = [], ata_of = (\<lambda>m w. Inr []), find_pda = (\<lambda>s p. Inr ([], 0)), account_info = (\<lambda>k. Inr None),
     sha256_hex = (\<lambda>s. ''00''), base64_bytes = (\<lambda>s. replicate 64 0), ed25519_verify = (\<lambda>k m s. True) \<rparr>"

definition sample_admin_request :: "string \<Rightarrow> admin_request" where
  "sample_admin_request ts = \<lparr> ar_body = JUndefined,
     ar_headers = [(''x-admin-wallet'', HString ''Owner''), (''x-admin-timestamp'', HString ts),
       (''x-admin-nonce'', HString ''0123456789abcdef''), (''x-admin-signature'', HArray [''c2ln''])],
     ar_method = ''post'', ar_originalUrl = ''/issuers?x=1'' \<rparr>"

lemma sample_admin_accepted:
  "snd (wallet_canActivate sample_host (Some ''Owner'') 1700000000000 (sample_admin_request ''1700000000000'') []) = Inr True"
  "snd (wallet_canActivate sample_host (Some ''Owner'') 1700000000000 (sample_admin_request ''1700000020000'') []) = Inr True"
  by code_simp+

lemma sample_timestamps:
  "number_of_string (getHeader (sample_admin_request ''1700000000000'') ''x-admin-timestamp'') = Fin 1700000000000"
  "number_of_string (getHeader (sample_admin_request ''1700000020000'') ''x-admin-timestamp'') = Fin 1700000020000"
  by code_simp+

theorem admin_acceptance_is_authorized_witness:
  "\<exists>k. expected_key sample_host (Some ''Owner'') = Inr k \<and>
     pk_of_string sample_host (getHeader (sample_admin_request ''1700000000000'') ''x-admin-wallet'') = Inr k"
  using admin_acceptance_is_authorized [OF sample_admin_accepted(1)] by blast

theorem admin_request_not_replayed_witness:
  "snd (wallet_canActivate sample_host (Some ''Owner'') 1700000001000 (sample_admin_request ''1700000000000'')
     (run_guard sample_host (Some ''Owner'') [] (fst (wallet_canActivate sample_host (Some ''Owner'') 1700000000000
        (sample_admin_request ''1700000000000'') [])))) \<noteq> Inr True"
  by (rule admin_request_not_replayed [OF _ sample_admin_accepted(1) sample_timestamps(1)])
    (simp_all add: nonces_ok_def)

lemma future_dated_admin_request_replayable_witness:
  "snd (wallet_canActivate sample_host (Some ''Owner'') 1700000310000 (sample_admin_request ''1700000020000'')
     (fst (wallet_canActivate sample_host (Some ''Owner'') 1700000000000 (sample_admin_request ''1700000020000'') []))) = Inr True"
  by (rule future_dated_admin_request_replayable [OF sample_admin_accepted(2) sample_timestamps(2)])
    (simp_all add: AUTHORIZATION_WINDOW_MS_def)

end
