(* ===== verification/Kyc.thy ===== *)
theory Kyc
  imports Ledger
begin

text \<open>
  KYC applications and user roles (\<open>backend/src/modules/kyc\<close>, \<open>backend/src/users\<close>): an investor
  applies once per wallet, a provider approves or rejects, and an approval grants the role the user
  asked for.
\<close>

section \<open>Rows, inputs and state\<close>

definition KYC_PENDING :: string where "KYC_PENDING = ''PENDING''"
definition KYC_UNDER_REVIEW :: string where "KYC_UNDER_REVIEW = ''UNDER_REVIEW''"
definition KYC_APPROVED :: string where "KYC_APPROVED = ''APPROVED''"
definition KYC_REJECTED :: string where "KYC_REJECTED = ''REJECTED''"

lemmas kyc_status_defs = KYC_PENDING_def KYC_UNDER_REVIEW_def KYC_APPROVED_def KYC_REJECTED_def

record kyc_row =
  ky_id :: string
  ky_walletAddress :: string
  ky_email :: "string option"
  ky_fullName :: string
  ky_dateOfBirth :: "string option"
  ky_nationality :: string
  ky_country :: string
  ky_addressLine1 :: string
  ky_addressLine2 :: "string option"
  ky_city :: string
  ky_state :: "string option"
  ky_postalCode :: string
  ky_phoneNumber :: "string option"
  ky_idDocumentUrl :: "string option"
  ky_proofOfAddressUrl :: "string option"
  ky_selfieUrl :: "string option"
  ky_status :: string
  ky_submittedAt :: time
  ky_reviewedAt :: "time option"
  ky_reviewedBy :: "string option"
  ky_rejectionReason :: "string option"
  ky_onchainIdAddress :: "string option"
  ky_onchainIdCreated :: bool
  ky_notes :: "string option"
  ky_riskScore :: "jsnum option"

record user_row =
  us_id :: string
  us_email :: string
  us_walletAddress :: "string option"
  us_roles :: "string list"
  us_requestedRole :: "string option"
  us_roleStatus :: string

record kyc_db =
  kd_applications :: "kyc_row list"
  kd_users :: "user_row list"

record create_kyc =
  ck_walletAddress :: string
  ck_email :: "string option"
  ck_fullName :: string
  ck_dateOfBirth :: "string option"
  ck_nationality :: string
  ck_country :: string
  ck_addressLine1 :: string
  ck_addressLine2 :: "string option"
  ck_city :: string
  ck_state :: "string option"
  ck_postalCode :: string
  ck_phoneNumber :: "string option"
  ck_idDocumentUrl :: "string option"
  ck_proofOfAddressUrl :: "string option"
  ck_selfieUrl :: "string option"

record approve_kyc =
  ak_reviewedBy :: string
  ak_notes :: "string option"
  ak_onchainIdAddress :: "string option"

record reject_kyc =
  rk_reviewedBy :: string
  rk_rejectionReason :: string
  rk_notes :: "string option"

record update_kyc =
  uk_status :: "string option"
  uk_notes :: "string option"
  uk_riskScore :: "jsnum option"

section \<open>Operations\<close>

definition new_kyc_row :: "env \<Rightarrow> string \<Rightarrow> create_kyc \<Rightarrow> kyc_row" where
  "new_kyc_row E u dto = \<lparr> ky_id = u, ky_walletAddress = ck_walletAddress dto, ky_email = ck_email dto,
     ky_fullName = ck_fullName dto, ky_dateOfBirth = ck_dateOfBirth dto,
     ky_nationality = ck_nationality dto, ky_country = ck_country dto,
     ky_addressLine1 = ck_addressLine1 dto, ky_addressLine2 = ck_addressLine2 dto,
     ky_city = ck_city dto, ky_state = ck_state dto, ky_postalCode = ck_postalCode dto,
     ky_phoneNumber = ck_phoneNumber dto, ky_idDocumentUrl = ck_idDocumentUrl dto,
     ky_proofOfAddressUrl = ck_proofOfAddressUrl dto, ky_selfieUrl = ck_selfieUrl dto,
     ky_status = KYC_PENDING, ky_submittedAt = db_now E, ky_reviewedAt = None, ky_reviewedBy = None,
     ky_rejectionReason = None, ky_onchainIdAddress = None, ky_onchainIdCreated = False,
     ky_notes = None, ky_riskScore = None \<rparr>"

text \<open>The update of a resubmission: optional fields that the form leaves out keep their values.\<close>

definition kyc_resubmitted :: "env \<times> create_kyc \<Rightarrow> kyc_row \<Rightarrow> kyc_row" where
  "kyc_resubmitted p r = (case p of (E, dto) \<Rightarrow> r\<lparr> ky_walletAddress := ck_walletAddress dto,
     ky_email := patch_null (ck_email dto) (ky_email r),
     ky_fullName := ck_fullName dto,
     ky_dateOfBirth := patch_null (ck_dateOfBirth dto) (ky_dateOfBirth r),
     ky_nationality := ck_nationality dto, ky_country := ck_country dto,
     ky_addressLine1 := ck_addressLine1 dto,
     ky_addressLine2 := patch_null (ck_addressLine2 dto) (ky_addressLine2 r),
     ky_city := ck_city dto, ky_state := patch_null (ck_state dto) (ky_state r),
     ky_postalCode := ck_postalCode dto,
     ky_phoneNumber := patch_null (ck_phoneNumber dto) (ky_phoneNumber r),
     ky_idDocumentUrl := patch_null (ck_idDocumentUrl dto) (ky_idDocumentUrl r),
     ky_proofOfAddressUrl := patch_null (ck_proofOfAddressUrl dto) (ky_proofOfAddressUrl r),
     ky_selfieUrl := patch_null (ck_selfieUrl dto) (ky_selfieUrl r),
     ky_status := KYC_PENDING, ky_submittedAt := js_now E, ky_reviewedAt := None,
     ky_reviewedBy := None, ky_rejectionReason := None \<rparr>)"

definition create_kyc_application :: "env \<Rightarrow> create_kyc \<Rightarrow> (kyc_db, kyc_row) handler" where
  "create_kyc_application E dto db =
     (case List.find (\<lambda>r. ky_walletAddress r = ck_walletAddress dto) (kd_applications db) of
        Some existing \<Rightarrow>
          if ky_status existing = KYC_REJECTED
          then (db\<lparr> kd_applications := sql_update (\<lambda>r. ky_id r = ky_id existing)
                      (kyc_resubmitted (E, dto)) (kd_applications db) \<rparr>,
                Inr (kyc_resubmitted (E, dto) existing))
          else (db, Inl (ConflictException (''KYC application already exists for wallet '' @
                 ck_walletAddress dto @ '' with status '' @ ky_status existing)))
      | None \<Rightarrow>
          (let row = new_kyc_row E (uuid E 0) dto
           in (db\<lparr> kd_applications := sql_insert row (kd_applications db) \<rparr>, Inr row)))"

definition findAll_kyc :: "string option \<Rightarrow> nat \<Rightarrow> nat \<Rightarrow> string option \<Rightarrow> kyc_db \<Rightarrow> kyc_row list" where
  "findAll_kyc status limit offset role db =
     (let wallets = map us_walletAddress
            (filter (\<lambda>u. us_requestedRole u = role \<and> us_walletAddress u \<noteq> None) (kd_users db))
      in page limit offset (sort_key (\<lambda>r. - ky_submittedAt r)
           (filter (\<lambda>r. query_match status (Some (ky_status r)) \<and>
                        (truthy role \<longrightarrow> Some (ky_walletAddress r) \<in> set wallets))
             (kd_applications db))))"

definition findOne_kyc :: "string \<Rightarrow> kyc_db \<Rightarrow> kyc_row res" where
  "findOne_kyc i db =
     (case List.find (\<lambda>r. ky_id r = i) (kd_applications db) of
        None \<Rightarrow> Inl (NotFoundException (''KYC application '' @ i @ '' not found''))
      | Some r \<Rightarrow> Inr r)"

definition findByWallet_kyc :: "string \<Rightarrow> kyc_db \<Rightarrow> kyc_row option" where
  "findByWallet_kyc w db = List.find (\<lambda>r. ky_walletAddress r = w) (kd_applications db)"

definition kyc_approved :: "env \<times> approve_kyc \<Rightarrow> kyc_row \<Rightarrow> kyc_row" where
  "kyc_approved p r = (case p of (E, dto) \<Rightarrow> r\<lparr> ky_status := KYC_APPROVED,
     ky_reviewedAt := Some (js_now E), ky_reviewedBy := Some (ak_reviewedBy dto),
     ky_notes := patch_null (ak_notes dto) (ky_notes r),
     ky_onchainIdAddress := patch_null (ak_onchainIdAddress dto) (ky_onchainIdAddress r),
     ky_onchainIdCreated := truthy (ak_onchainIdAddress dto) \<rparr>)"

definition roles_with :: "string \<Rightarrow> string list \<Rightarrow> string list" where
  "roles_with role roles = (if role \<in> set roles then roles else roles @ [role])"

definition set_role_approved :: "string list \<Rightarrow> user_row \<Rightarrow> user_row" where
  "set_role_approved newRoles u = u\<lparr> us_roleStatus := ''APPROVED'', us_roles := newRoles \<rparr>"

definition approve_kyc_application :: "env \<Rightarrow> string \<Rightarrow> approve_kyc \<Rightarrow> (kyc_db, kyc_row) handler" where
  "approve_kyc_application E i dto db =
     (case findOne_kyc i db of
        Inl e \<Rightarrow> (db, Inl e)
      | Inr application \<Rightarrow>
          if ky_status application \<noteq> KYC_PENDING \<and> ky_status application \<noteq> KYC_UNDER_REVIEW
          then (db, Inl (BadRequestException (''Cannot approve application with status '' @ ky_status application)))
          else
            (let applications = sql_update (\<lambda>r. ky_id r = i) (kyc_approved (E, dto)) (kd_applications db);
                 user = List.find (\<lambda>u. us_walletAddress u = Some (ky_walletAddress application)) (kd_users db);
                 users = (case user of
                            None \<Rightarrow> kd_users db
                          | Some u \<Rightarrow>
                              (case or_null (us_requestedRole u) of
                                 None \<Rightarrow> kd_users db
                               | Some role \<Rightarrow> sql_update (\<lambda>x. us_id x = us_id u)
                                   (set_role_approved (roles_with role (us_roles u))) (kd_users db)))
             in (db\<lparr> kd_applications := applications, kd_users := users \<rparr>,
                 Inr (kyc_approved (E, dto) application))))"

definition kyc_rejected :: "env \<times> reject_kyc \<Rightarrow> kyc_row \<Rightarrow> kyc_row" where
  "kyc_rejected p r = (case p of (E, dto) \<Rightarrow> r\<lparr> ky_status := KYC_REJECTED,
     ky_reviewedAt := Some (js_now E), ky_reviewedBy := Some (rk_reviewedBy dto),
     ky_rejectionReason := Some (rk_rejectionReason dto),
     ky_notes := patch_null (rk_notes dto) (ky_notes r) \<rparr>)"

definition reject_kyc_application :: "env \<Rightarrow> string \<Rightarrow> reject_kyc \<Rightarrow> (kyc_db, kyc_row) handler" where
  "reject_kyc_application E i dto db =
     (case findOne_kyc i db of
        Inl e \<Rightarrow> (db, Inl e)
      | Inr application \<Rightarrow>
          if ky_status application = KYC_APPROVED
          then (db, Inl (BadRequestException ''Cannot reject an approved application''))
          else (db\<lparr> kd_applications := sql_update (\<lambda>r. ky_id r = i) (kyc_rejected (E, dto))
                       (kd_applications db) \<rparr>, Inr (kyc_rejected (E, dto) application)))"

definition kyc_updated :: "update_kyc \<Rightarrow> kyc_row \<Rightarrow> kyc_row" where
  "kyc_updated dto r = r\<lparr> ky_status := patch (uk_status dto) (ky_status r),
     ky_notes := patch_null (uk_notes dto) (ky_notes r),
     ky_riskScore := patch_null (uk_riskScore dto) (ky_riskScore r) \<rparr>"

definition update_kyc_application :: "string \<Rightarrow> update_kyc \<Rightarrow> (kyc_db, kyc_row) handler" where
  "update_kyc_application i dto db =
     (case findOne_kyc i db of
        Inl e \<Rightarrow> (db, Inl e)
      | Inr r \<Rightarrow> (db\<lparr> kd_applications := sql_update (\<lambda>r. ky_id r = i) (kyc_updated dto) (kd_applications db) \<rparr>,
                  Inr (kyc_updated dto r)))"

definition kyc_onchain :: "string \<Rightarrow> kyc_row \<Rightarrow> kyc_row" where
  "kyc_onchain a r = r\<lparr> ky_onchainIdAddress := Some a, ky_onchainIdCreated := True \<rparr>"

definition markOnchainIdCreated :: "string \<Rightarrow> string \<Rightarrow> (kyc_db, kyc_row) handler" where
  "markOnchainIdCreated i a db =
     (case List.find (\<lambda>r. ky_id r = i) (kd_applications db) of
        None \<Rightarrow> (db, Inl (DatabaseError ''P2025''))
      | Some r \<Rightarrow> (db\<lparr> kd_applications := sql_update (\<lambda>r. ky_id r = i) (kyc_onchain a) (kd_applications db) \<rparr>,
                   Inr (kyc_onchain a r)))"

definition kyc_count :: "string option \<Rightarrow> kyc_db \<Rightarrow> nat" where
  "kyc_count status db =
     length (filter (\<lambda>r. status = None \<or> status = Some (ky_status r)) (kd_applications db))"

definition getPendingCount_kyc :: "kyc_db \<Rightarrow> nat" where
  "getPendingCount_kyc db = kyc_count (Some KYC_PENDING) db"

record kyc_statistics =
  ks_total :: nat
  ks_pending :: nat
  ks_approved :: nat
  ks_rejected :: nat
  ks_underReview :: nat

definition getStatistics :: "kyc_db \<Rightarrow> kyc_statistics" where
  "getStatistics db = \<lparr> ks_total = kyc_count None db, ks_pending = kyc_count (Some KYC_PENDING) db,
     ks_approved = kyc_count (Some KYC_APPROVED) db, ks_rejected = kyc_count (Some KYC_REJECTED) db,
     ks_underReview = kyc_count (Some KYC_UNDER_REVIEW) db \<rparr>"

text \<open>\<open>UsersService\<close>\<close>

definition findAll_users :: "kyc_db \<Rightarrow> user_row list" where
  "findAll_users db = kd_users db"

definition user_with_roles :: "string list \<times> string option \<Rightarrow> user_row \<Rightarrow> user_row" where
  "user_with_roles p u = u\<lparr> us_roles := fst p, us_roleStatus := patch (snd p) (us_roleStatus u) \<rparr>"

definition updateRoles ::
    "string \<Rightarrow> string list \<Rightarrow> string option \<Rightarrow> (kyc_db, user_row) handler" where
  "updateRoles userId roles roleStatus db =
     (case List.find (\<lambda>u. us_id u = userId) (kd_users db) of
        None \<Rightarrow> (db, Inl (NotFoundException ''User not found''))
      | Some u \<Rightarrow>
          (db\<lparr> kd_users := sql_update (\<lambda>x. us_id x = userId) (user_with_roles (roles, roleStatus)) (kd_users db) \<rparr>,
           Inr (user_with_roles (roles, roleStatus) u)))"

section \<open>Changes of an application\<close>

datatype kyc_change =
    Resubmit env create_kyc
  | Approve env approve_kyc
  | Reject env reject_kyc
  | Onchain string
  | Update update_kyc

fun apply_kyc :: "kyc_change \<Rightarrow> kyc_row \<Rightarrow> kyc_row" where
  "apply_kyc (Resubmit E d) r = kyc_resubmitted (E, d) r"
| "apply_kyc (Approve E d) r = kyc_approved (E, d) r"
| "apply_kyc (Reject E d) r = kyc_rejected (E, d) r"
| "apply_kyc (Onchain a) r = kyc_onchain a r"
| "apply_kyc (Update d) r = kyc_updated d r"

lemmas kyc_change_defs = kyc_resubmitted_def kyc_approved_def kyc_rejected_def kyc_onchain_def kyc_updated_def

text \<open>When the handlers let a change through.\<close>

fun kyc_allowed :: "kyc_change \<Rightarrow> kyc_row \<Rightarrow> bool" where
  "kyc_allowed (Resubmit E d) r \<longleftrightarrow> ky_status r = KYC_REJECTED \<and> ky_walletAddress r = ck_walletAddress d"
| "kyc_allowed (Approve E d) r \<longleftrightarrow> ky_status r \<in> {KYC_PENDING, KYC_UNDER_REVIEW}"
| "kyc_allowed (Reject E d) r \<longleftrightarrow> ky_status r \<noteq> KYC_APPROVED"
| "kyc_allowed (Onchain a) r \<longleftrightarrow> True"
| "kyc_allowed (Update d) r \<longleftrightarrow> False"

interpretation kyc_apps: keyed_table ky_id apply_kyc
proof
  show "ky_id (apply_kyc u r) = ky_id r" for u r by (cases u) (simp_all add: kyc_change_defs)
qed

interpretation kyc_users: keyed_table us_id set_role_approved
  by unfold_locales (simp add: set_role_approved_def)

lemma kyc_allowed_wallet: "kyc_allowed c r \<Longrightarrow> ky_walletAddress (apply_kyc c r) = ky_walletAddress r"
  by (cases c) (simp_all add: kyc_change_defs)

text \<open>The review calls, the raw \<open>update\<close> left out.\<close>

inductive kyc_step :: "kyc_db \<Rightarrow> kyc_db \<Rightarrow> bool" where
  create: "uuid E 0 \<notin> ky_id ` set (kd_applications db) \<Longrightarrow>
    kyc_step db (fst (create_kyc_application E cd db))"
| approve: "kyc_step db (fst (approve_kyc_application E i ad db))"
| reject: "kyc_step db (fst (reject_kyc_application E i rd db))"
| onchain: "kyc_step db (fst (markOnchainIdCreated i a db))"
| roles: "kyc_step db (fst (updateRoles j rs st db))"

definition kyc_inv :: "kyc_db \<Rightarrow> bool" where
  "kyc_inv db \<longleftrightarrow> distinct (map ky_id (kd_applications db)) \<and>
     distinct (map ky_walletAddress (kd_applications db)) \<and>
     (\<forall>r \<in> set (kd_applications db). ky_status r \<in> {KYC_PENDING, KYC_UNDER_REVIEW, KYC_APPROVED, KYC_REJECTED})"

lemma kyc_step_cases [consumes 1]:
  assumes "kyc_step db db'"
  obtains (same) "kd_applications db' = kd_applications db"
  | (insert) E d where "uuid E 0 \<notin> ky_id ` set (kd_applications db)"
      "ck_walletAddress d \<notin> ky_walletAddress ` set (kd_applications db)"
      "kd_applications db' = sql_insert (new_kyc_row E (uuid E 0) d) (kd_applications db)"
  | (change) c i r where "r \<in> set (kd_applications db)" "ky_id r = i" "kyc_allowed c r"
      "kd_applications db' = sql_update (\<lambda>r. ky_id r = i) (apply_kyc c) (kd_applications db)"
  using assms
proof (cases rule: kyc_step.cases)
  case (create E d)
  show ?thesis
  proof (cases "List.find (\<lambda>r. ky_walletAddress r = ck_walletAddress d) (kd_applications db)")
    case None
    with create show ?thesis
      by (intro insert [of E d]) (auto simp: create_kyc_application_def Let_def find_None_all)
  next
    case (Some r)
    then have r: "r \<in> set (kd_applications db)" "ky_walletAddress r = ck_walletAddress d"
      by (auto dest: find_Some_memD)
    have upd: "apply_kyc (Resubmit E d) = kyc_resubmitted (E, d)" by (simp add: fun_eq_iff)
    show ?thesis
    proof (cases "ky_status r = KYC_REJECTED")
      case True
      with create r Some show ?thesis
        by (intro change [of r "ky_id r" "Resubmit E d"]) (simp_all add: create_kyc_application_def upd)
    next
      case False
      with create Some same show ?thesis by (simp add: create_kyc_application_def)
    qed
  qed
next
  case (approve E i d)
  have upd: "apply_kyc (Approve E d) = kyc_approved (E, d)" by (simp add: fun_eq_iff)
  from approve same change [of _ i "Approve E d"] show ?thesis
    by (auto simp: approve_kyc_application_def findOne_kyc_def Let_def upd
        dest!: find_Some_memD split: option.splits if_splits)
next
  case (reject E i d)
  have upd: "apply_kyc (Reject E d) = kyc_rejected (E, d)" by (simp add: fun_eq_iff)
  from reject same change [of _ i "Reject E d"] show ?thesis
    by (auto simp: reject_kyc_application_def findOne_kyc_def upd dest!: find_Some_memD
        split: option.splits if_splits)
next
  case (onchain i a)
  have upd: "apply_kyc (Onchain a) = kyc_onchain a" by (simp add: fun_eq_iff)
  from onchain same change [of _ i "Onchain a"] show ?thesis
    by (auto simp: markOnchainIdCreated_def upd dest!: find_Some_memD split: option.splits)
next
  case (roles j rs st)
  with same show ?thesis by (auto simp: updateRoles_def split: option.splits)
qed

lemma kyc_unique:
  assumes "kyc_inv db" and "r \<in> set (kd_applications db)" and "x \<in> set (kd_applications db)" and "ky_id x = ky_id r"
  shows "x = r"
  using assms kyc_apps.find_unique [of "kd_applications db" r] kyc_apps.find_unique [of "kd_applications db" x]
  by (simp add: kyc_inv_def)

lemma kyc_step_inv:
  assumes "kyc_step db db'" and "kyc_inv db"
  shows "kyc_inv db'"
  using assms(1)
proof (cases rule: kyc_step_cases)
  case (insert E d)
  with assms(2) show ?thesis
    by (auto simp: kyc_inv_def map_key_insert set_insert new_kyc_row_def)
next
  case (change c i r)
  have wallet: "map ky_walletAddress (kd_applications db') = map ky_walletAddress (kd_applications db)"
    using kyc_unique [OF assms(2) change(1)] change(2-4) kyc_allowed_wallet [OF change(3)]
    by (auto simp: sql_update_def)
  have "ky_status (apply_kyc c r) \<in> {KYC_PENDING, KYC_UNDER_REVIEW, KYC_APPROVED, KYC_REJECTED}"
    if "ky_status r \<in> {KYC_PENDING, KYC_UNDER_REVIEW, KYC_APPROVED, KYC_REJECTED}"
    using change(3) that by (cases c) (auto simp: kyc_change_defs)
  note new = this
  have "ky_status x \<in> {KYC_PENDING, KYC_UNDER_REVIEW, KYC_APPROVED, KYC_REJECTED}"
    if x: "x \<in> set (kd_applications db')" for x
  proof -
    from x change(4) obtain y where y: "y \<in> set (kd_applications db)"
      "x = (if ky_id y = i then apply_kyc c y else y)" by (auto simp: set_update)
    then have ok: "ky_status y \<in> {KYC_PENDING, KYC_UNDER_REVIEW, KYC_APPROVED, KYC_REJECTED}"
      using assms(2) by (simp add: kyc_inv_def)
    show ?thesis
    proof (cases "ky_id y = i")
      case True
      then have "y = r" using kyc_unique [OF assms(2) change(1) y(1)] change(2) by simp
      with new ok y(2) True show ?thesis by simp
    qed (use ok y(2) in simp)
  qed
  with assms(2) wallet change(4) show ?thesis
    by (simp add: kyc_inv_def kyc_apps.keys_update)
qed (use assms in \<open>simp add: kyc_inv_def\<close>)

lemma kyc_step_approved:
  assumes "kyc_step db db'" and "kyc_inv db" and "findOne_kyc i db = Inr r" and "ky_status r = KYC_APPROVED"
  shows "\<exists>r'. findOne_kyc i db' = Inr r' \<and> ky_status r' = KYC_APPROVED \<and>
    ky_walletAddress r' = ky_walletAddress r \<and> ky_reviewedBy r' = ky_reviewedBy r"
proof -
  have r: "List.find (\<lambda>r. ky_id r = i) (kd_applications db) = Some r"
    using assms(3) by (auto simp: findOne_kyc_def split: option.splits)
  have mem: "r \<in> set (kd_applications db)" "ky_id r = i" using r by (auto dest: find_Some_memD)
  from assms(1) show ?thesis
  proof (cases rule: kyc_step_cases)
    case same
    with r assms(4) show ?thesis by (simp add: findOne_kyc_def)
  next
    case (insert E d)
    with r assms(4) show ?thesis by (simp add: findOne_kyc_def find_insert)
  next
    case (change c j x)
    show ?thesis
    proof (cases "j = i")
      case True
      then have "x = r" using kyc_unique [OF assms(2) mem(1) change(1)] change(2) mem(2) by simp
      with change(3) assms(4) obtain a where "c = Onchain a"
        by (cases c) (simp_all add: kyc_status_defs)
      with True change(4) r assms(4) kyc_apps.find_same [of i "Onchain a" "kd_applications db"] show ?thesis
        by (simp add: findOne_kyc_def kyc_onchain_def)
    next
      case False
      with change(4) r assms(4) kyc_apps.find_other [of i j c "kd_applications db"] show ?thesis
        by (simp add: findOne_kyc_def)
    qed
  qed
qed

section \<open>Properties\<close>

lemma approved_kyc_is_final:
  assumes "kyc_step\<^sup>*\<^sup>* db db'" and "kyc_inv db" and "findOne_kyc i db = Inr r" and "ky_status r = KYC_APPROVED"
  shows "kyc_inv db' \<and> (\<exists>r'. findOne_kyc i db' = Inr r' \<and> ky_status r' = KYC_APPROVED \<and>
    ky_walletAddress r' = ky_walletAddress r \<and> ky_reviewedBy r' = ky_reviewedBy r)"
  using assms
proof (induction rule: rtranclp_induct)
  case (step y z)
  then obtain s where s: "kyc_inv y" "findOne_kyc i y = Inr s" "ky_status s = KYC_APPROVED"
      "ky_walletAddress s = ky_walletAddress r" "ky_reviewedBy s = ky_reviewedBy r" by blast
  with kyc_step_inv [OF step.hyps(2) s(1)] kyc_step_approved [OF step.hyps(2) s(1-3)] show ?case by auto
qed simp

lemma kyc_approval_grants_role_once:
  assumes "findOne_kyc i db = Inr r" and "ky_status r = KYC_PENDING"
    and "distinct (map us_id (kd_users db))" and "u \<in> set (kd_users db)"
    and "List.find (\<lambda>x. us_walletAddress x = Some (ky_walletAddress r)) (kd_users db) = Some u"
    and "us_requestedRole u = Some role" and "role \<noteq> []" and "distinct (us_roles u)"
  shows "\<exists>u'. List.find (\<lambda>x. us_id x = us_id u) (kd_users (fst (approve_kyc_application E i d db))) = Some u' \<and>
      distinct (us_roles u') \<and> set (us_roles u') = insert role (set (us_roles u)) \<and>
      us_roleStatus u' = ''APPROVED'' \<and>
    (\<forall>j. j \<noteq> us_id u \<longrightarrow>
       List.find (\<lambda>x. us_id x = j) (kd_users (fst (approve_kyc_application E i d db))) =
       List.find (\<lambda>x. us_id x = j) (kd_users db))"
proof -
  have "or_null (us_requestedRole u) = Some role" using assms(6,7) by (simp add: or_null_eq_Some)
  then have "kd_users (fst (approve_kyc_application E i d db)) =
      sql_update (\<lambda>x. us_id x = us_id u) (set_role_approved (roles_with role (us_roles u))) (kd_users db)"
    using assms(1,2,5) by (simp add: approve_kyc_application_def Let_def)
  then show ?thesis
    using assms(8) kyc_users.find_same kyc_users.find_other kyc_users.find_unique [OF assms(3,4)]
    by (auto simp: set_role_approved_def roles_with_def)
qed

section \<open>Concrete instances\<close>

definition sample_kyc :: create_kyc where
  "sample_kyc = \<lparr> ck_walletAddress = ''Wal'', ck_email = None, ck_fullName = ''Ann'', ck_dateOfBirth = None,
     ck_nationality = ''PK'', ck_country = ''PK'', ck_addressLine1 = ''x'', ck_addressLine2 = None,
     ck_city = ''L'', ck_state = None, ck_postalCode = ''1'', ck_phoneNumber = None,
     ck_idDocumentUrl = None, ck_proofOfAddressUrl = None, ck_selfieUrl = None \<rparr>"

definition kyc0 :: kyc_db where
  "kyc0 = \<lparr> kd_applications = [new_kyc_row (sample_env ''k'') ''k0'' sample_kyc],
     kd_users = [\<lparr> us_id = ''u'', us_email = ''a'', us_walletAddress = Some ''Wal'', us_roles = [''INVESTOR''],
       us_requestedRole = Some ''ISSUER'', us_roleStatus = ''PENDING'' \<rparr>] \<rparr>"

definition sample_approval :: approve_kyc where
  "sample_approval = \<lparr> ak_reviewedBy = ''rev'', ak_notes = None, ak_onchainIdAddress = None \<rparr>"

definition kyc1 :: kyc_db where
  "kyc1 = fst (approve_kyc_application (sample_env ''k'') ''k0'' sample_approval kyc0)"

definition kyc2 :: kyc_db where
  "kyc2 = fst (reject_kyc_application (sample_env ''k'') ''k0''
     \<lparr> rk_reviewedBy = ''other'', rk_rejectionReason = ''no'', rk_notes = None \<rparr> kyc1)"

lemma approved_kyc_is_final_witness:
  "\<exists>r'. findOne_kyc ''k0'' kyc2 = Inr r' \<and> ky_status r' = KYC_APPROVED \<and> ky_reviewedBy r' = Some ''rev''"
proof -
  have step: "kyc_step\<^sup>*\<^sup>* kyc1 kyc2" unfolding kyc2_def by (rule r_into_rtranclp, rule kyc_step.reject)
  have inv: "kyc_inv kyc1" by code_simp
  have "findOne_kyc ''k0'' kyc1 = Inr (kyc_approved (sample_env ''k'', sample_approval)
      (new_kyc_row (sample_env ''k'') ''k0'' sample_kyc))" by code_simp
  from approved_kyc_is_final [OF step inv this] show ?thesis
    by (auto simp: kyc_approved_def sample_approval_def)
qed

lemma kyc_approval_grants_role_once_witness:
  "\<exists>u'. List.find (\<lambda>x. us_id x = ''u'') (kd_users kyc1) = Some u' \<and> set (us_roles u') = {''ISSUER'', ''INVESTOR''}"
proof -
  let ?u = "\<lparr> us_id = ''u'', us_email = ''a'', us_walletAddress = Some ''Wal'', us_roles = [''INVESTOR''],
       us_requestedRole = Some ''ISSUER'', us_roleStatus = ''PENDING'' \<rparr>"
  let ?r = "new_kyc_row (sample_env ''k'') ''k0'' sample_kyc"
  have *: "findOne_kyc ''k0'' kyc0 = Inr ?r" "ky_status ?r = KYC_PENDING"
    "List.find (\<lambda>x. us_walletAddress x = Some (ky_walletAddress ?r)) (kd_users kyc0) = Some ?u"
    by (simp_all add: findOne_kyc_def kyc0_def new_kyc_row_def sample_kyc_def)
  show ?thesis
    using kyc_approval_grants_role_once [OF *(1,2) _ _ *(3), of "''ISSUER''" "sample_env ''k''" sample_approval]
    by (auto simp: kyc0_def kyc1_def)
qed

section \<open>Behaviours the checks do not cover\<close>

text \<open>The raw update takes an approved application back.\<close>

lemma update_reopens_approved:
  "map ky_status (kd_applications (fst (update_kyc_application ''k0''
     \<lparr> uk_status = Some ''PENDING'', uk_notes = None, uk_riskScore = None \<rparr> kyc1))) = [''PENDING'']"
  by code_simp

text \<open>An approval without an address clears the flag set when the identity was created, not the address.\<close>

lemma approval_clears_onchain_flag:
  "map (\<lambda>r. (ky_onchainIdAddress r, ky_onchainIdCreated r)) (kd_applications
     (fst (approve_kyc_application (sample_env ''k'') ''k0'' sample_approval
       (fst (markOnchainIdCreated ''k0'' ''0xid'' kyc0))))) = [(Some ''0xid'', False)]"
  by code_simp

end
