(* ===== verification/Issuance.thy ===== *)
theory Issuance
  imports Ledger
begin

text \<open>
  Issuance and redemption requests (\<open>backend/src/modules/tokens\<close>, \<open>backend/src/issuance\<close>,
  \<open>backend/src/redemption\<close>). Two services work on the same table of issuance requests: one with
  the states \<open>pending\<close>, \<open>approved\<close>, \<open>rejected\<close> and guards on them, one that sets any status.
\<close>

section \<open>Rows, inputs and state\<close>

definition RS_PENDING :: string where "RS_PENDING = ''pending''"
definition RS_APPROVED :: string where "RS_APPROVED = ''approved''"
definition RS_REJECTED :: string where "RS_REJECTED = ''rejected''"

lemmas request_status_defs = RS_PENDING_def RS_APPROVED_def RS_REJECTED_def

record issuance_row =
  ir_id :: string
  ir_requestId :: int
  ir_tokenContract :: string
  ir_assetId :: int
  ir_recipient :: string
  ir_amount :: string
  ir_requester :: string
  ir_status :: string
  ir_reason :: "string option"
  ir_txHash :: "string option"
  ir_createdAt :: time
  ir_updatedAt :: time
  ir_approvedAt :: "time option"
  ir_approvedBy :: "string option"
  ir_rejectedAt :: "time option"
  ir_rejectedBy :: "string option"
  ir_rejectionReason :: "string option"

record redemption_row =
  rr_id :: string
  rr_requestId :: int
  rr_tokenContract :: string
  rr_assetId :: int
  rr_requester :: string
  rr_amount :: string
  rr_reason :: "string option"
  rr_status :: string
  rr_txHash :: "string option"
  rr_createdAt :: time
  rr_updatedAt :: time

record issuance_db =
  id_issuances :: "issuance_row list"
  id_redemptions :: "redemption_row list"

record create_issuance_request =
  cir_requestId :: int
  cir_tokenAddress :: string
  cir_assetId :: int
  cir_recipient :: string
  cir_amount :: string
  cir_requester :: string
  cir_reason :: "string option"
  cir_txHash :: "string option"

record approve_issuance =
  air_approvedBy :: string
  air_txHash :: string

record reject_issuance =
  rir_rejectedBy :: string
  rir_rejectionReason :: string

record issuance_response =
  rs_id :: jsnum
  rs_requestId :: int
  rs_tokenAddress :: string
  rs_assetId :: int
  rs_recipient :: string
  rs_amount :: string
  rs_requester :: string
  rs_status :: string
  rs_reason :: "string option"
  rs_txHash :: "string option"
  rs_createdAt :: time
  rs_updatedAt :: time
  rs_approvedAt :: "time option"
  rs_approvedBy :: "string option"
  rs_rejectedAt :: "time option"
  rs_rejectedBy :: "string option"
  rs_rejectionReason :: "string option"

record create_issuance =
  cis_requestId :: int
  cis_tokenContract :: string
  cis_assetId :: int
  cis_recipient :: string
  cis_requester :: string
  cis_amount :: string

record create_redemption =
  cre_requestId :: int
  cre_tokenContract :: string
  cre_assetId :: int
  cre_requester :: string
  cre_amount :: string
  cre_reason :: "string option"

text \<open>\<open>UpdateIssuanceStatusDto\<close> and \<open>UpdateRedemptionStatusDto\<close>\<close>

record update_status =
  us_status :: string
  us_txHash :: string

section \<open>The guarded service\<close>

text \<open>\<open>parseInt(s) || 0\<close> for a string.\<close>

definition parse_int_or_zero :: "string \<Rightarrow> jsnum" where
  "parse_int_or_zero s0 =
     (let s = dropWhile is_space s0;
          neg = (case s of c # _ \<Rightarrow> c = CHR ''-'' | [] \<Rightarrow> False);
          t = (case s of c # cs \<Rightarrow> if c = CHR ''-'' \<or> c = CHR ''+'' then cs else s | [] \<Rightarrow> []);
          hex = (case t of z # x # _ \<Rightarrow> z = CHR ''0'' \<and> (x = CHR ''x'' \<or> x = CHR ''X'') | _ \<Rightarrow> False);
          ds = (if hex then takeWhile (\<lambda>c. hex_val c < 16) (drop 2 t) else takeWhile is_digit t);
          n = (if hex then foldl (\<lambda>a c. 16 * a + hex_val c) 0 ds else digits_val ds)
      in if ds = [] then Fin 0 else round_double (of_int (if neg then - n else n)))"

definition toResponseDto :: "issuance_row \<Rightarrow> issuance_response" where
  "toResponseDto r = \<lparr> rs_id = parse_int_or_zero (ir_id r), rs_requestId = ir_requestId r,
     rs_tokenAddress = ir_tokenContract r, rs_assetId = ir_assetId r, rs_recipient = ir_recipient r,
     rs_amount = ir_amount r, rs_requester = ir_requester r, rs_status = ir_status r,
     rs_reason = ir_reason r, rs_txHash = ir_txHash r, rs_createdAt = ir_createdAt r,
     rs_updatedAt = ir_updatedAt r, rs_approvedAt = ir_approvedAt r, rs_approvedBy = ir_approvedBy r,
     rs_rejectedAt = ir_rejectedAt r, rs_rejectedBy = ir_rejectedBy r,
     rs_rejectionReason = ir_rejectionReason r \<rparr>"

definition new_issuance_request :: "env \<Rightarrow> string \<Rightarrow> create_issuance_request \<Rightarrow> issuance_row" where
  "new_issuance_request E u dto = \<lparr> ir_id = u, ir_requestId = cir_requestId dto,
     ir_tokenContract = cir_tokenAddress dto, ir_assetId = cir_assetId dto,
     ir_recipient = cir_recipient dto, ir_amount = cir_amount dto, ir_requester = cir_requester dto,
     ir_status = RS_PENDING, ir_reason = cir_reason dto, ir_txHash = cir_txHash dto,
     ir_createdAt = db_now E, ir_updatedAt = db_now E, ir_approvedAt = None, ir_approvedBy = None,
     ir_rejectedAt = None, ir_rejectedBy = None, ir_rejectionReason = None \<rparr>"

definition same_request :: "string \<Rightarrow> int \<Rightarrow> issuance_row \<Rightarrow> bool" where
  "same_request t n r \<longleftrightarrow> ir_tokenContract r = t \<and> ir_requestId r = n"

definition create_issuance_req ::
    "env \<Rightarrow> create_issuance_request \<Rightarrow> (issuance_db, issuance_response) handler" where
  "create_issuance_req E dto db =
     (case List.find (same_request (cir_tokenAddress dto) (cir_requestId dto)) (id_issuances db) of
        Some _ \<Rightarrow> (db, Inl (BadRequestException (''Issuance request '' @ bigint_toString (cir_requestId dto) @
                     '' for token '' @ cir_tokenAddress dto @ '' already exists'')))
      | None \<Rightarrow>
          (let row = new_issuance_request E (uuid E 0) dto
           in (db\<lparr> id_issuances := sql_insert row (id_issuances db) \<rparr>, Inr (toResponseDto row))))"

definition findByToken ::
    "string \<Rightarrow> string option \<Rightarrow> nat \<Rightarrow> nat \<Rightarrow> issuance_db \<Rightarrow> issuance_response list" where
  "findByToken t status limit offset db =
     map toResponseDto (page limit offset (sort_key (\<lambda>r. - ir_createdAt r)
       (filter (\<lambda>r. ir_tokenContract r = t \<and> query_match status (Some (ir_status r))) (id_issuances db))))"

definition find_issuance :: "string \<Rightarrow> issuance_db \<Rightarrow> issuance_row res" where
  "find_issuance i db =
     (case List.find (\<lambda>r. ir_id r = i) (id_issuances db) of
        None \<Rightarrow> Inl (NotFoundException (''Issuance request '' @ i @ '' not found''))
      | Some r \<Rightarrow> Inr r)"

definition findOne_issuance :: "string \<Rightarrow> issuance_db \<Rightarrow> issuance_response res" where
  "findOne_issuance i db =
     (case find_issuance i db of Inl e \<Rightarrow> Inl e | Inr r \<Rightarrow> Inr (toResponseDto r))"

datatype issuance_change =
    ApproveIssuance env approve_issuance
  | RejectIssuance env reject_issuance
  | SetIssuance env string string

fun apply_issuance :: "issuance_change \<Rightarrow> issuance_row \<Rightarrow> issuance_row" where
  "apply_issuance (ApproveIssuance E dto) r = r\<lparr> ir_status := RS_APPROVED,
     ir_approvedBy := Some (air_approvedBy dto), ir_approvedAt := Some (js_now E),
     ir_txHash := Some (air_txHash dto), ir_updatedAt := js_now E \<rparr>"
| "apply_issuance (RejectIssuance E dto) r = r\<lparr> ir_status := RS_REJECTED,
     ir_rejectedBy := Some (rir_rejectedBy dto), ir_rejectedAt := Some (js_now E),
     ir_rejectionReason := Some (rir_rejectionReason dto), ir_updatedAt := js_now E \<rparr>"
| "apply_issuance (SetIssuance E status txHash) r = r\<lparr> ir_status := status, ir_txHash := Some txHash,
     ir_updatedAt := js_now E \<rparr>"

definition change_issuance :: "issuance_change \<Rightarrow> string \<Rightarrow> issuance_db \<Rightarrow> issuance_db" where
  "change_issuance c i db =
     db\<lparr> id_issuances := sql_update (\<lambda>r. ir_id r = i) (apply_issuance c) (id_issuances db) \<rparr>"

definition approve_issuance_request ::
    "env \<Rightarrow> string \<Rightarrow> approve_issuance \<Rightarrow> (issuance_db, issuance_response) handler" where
  "approve_issuance_request E i dto db =
     (case find_issuance i db of
        Inl e \<Rightarrow> (db, Inl e)
      | Inr r \<Rightarrow>
          if ir_status r \<noteq> RS_PENDING
          then (db, Inl (BadRequestException (''Cannot approve request with status '' @ ir_status r)))
          else (change_issuance (ApproveIssuance E dto) i db,
                Inr (toResponseDto (apply_issuance (ApproveIssuance E dto) r))))"

definition reject_issuance_request ::
    "env \<Rightarrow> string \<Rightarrow> reject_issuance \<Rightarrow> (issuance_db, issuance_response) handler" where
  "reject_issuance_request E i dto db =
     (case find_issuance i db of
        Inl e \<Rightarrow> (db, Inl e)
      | Inr r \<Rightarrow>
          if ir_status r \<noteq> RS_PENDING
          then (db, Inl (BadRequestException (''Cannot reject request with status '' @ ir_status r)))
          else (change_issuance (RejectIssuance E dto) i db,
                Inr (toResponseDto (apply_issuance (RejectIssuance E dto) r))))"

definition getPendingCount :: "string \<Rightarrow> issuance_db \<Rightarrow> nat" where
  "getPendingCount t db =
     length (filter (\<lambda>r. ir_tokenContract r = t \<and> ir_status r = RS_PENDING) (id_issuances db))"

definition findByRequester :: "string \<Rightarrow> nat \<Rightarrow> nat \<Rightarrow> issuance_db \<Rightarrow> issuance_response list" where
  "findByRequester w limit offset db =
     map toResponseDto (page limit offset (sort_key (\<lambda>r. - ir_createdAt r)
       (filter (\<lambda>r. ir_requester r = w) (id_issuances db))))"

section \<open>The unguarded services\<close>

text \<open>The column \<open>status\<close> has the default \<open>PENDING\<close> in the schema.\<close>

definition findAll_issuances :: "string option \<Rightarrow> string option \<Rightarrow> issuance_db \<Rightarrow> issuance_row list" where
  "findAll_issuances t status db =
     sort_key (\<lambda>r. - ir_createdAt r)
       (filter (\<lambda>r. query_match t (Some (ir_tokenContract r)) \<and> query_match status (Some (ir_status r)))
         (id_issuances db))"

definition new_issuance_default :: "env \<Rightarrow> string \<Rightarrow> create_issuance \<Rightarrow> issuance_row" where
  "new_issuance_default E u dto = \<lparr> ir_id = u, ir_requestId = cis_requestId dto,
     ir_tokenContract = cis_tokenContract dto, ir_assetId = cis_assetId dto,
     ir_recipient = cis_recipient dto, ir_amount = cis_amount dto, ir_requester = cis_requester dto,
     ir_status = ''PENDING'', ir_reason = None, ir_txHash = None,
     ir_createdAt = db_now E, ir_updatedAt = db_now E, ir_approvedAt = None, ir_approvedBy = None,
     ir_rejectedAt = None, ir_rejectedBy = None, ir_rejectionReason = None \<rparr>"

definition create_issuance_default :: "env \<Rightarrow> create_issuance \<Rightarrow> (issuance_db, issuance_row) handler" where
  "create_issuance_default E dto db =
     (case List.find (same_request (cis_tokenContract dto) (cis_requestId dto)) (id_issuances db) of
        Some _ \<Rightarrow> (db, Inl (DatabaseError ''P2002''))
      | None \<Rightarrow>
          (let row = new_issuance_default E (uuid E 0) dto
           in (db\<lparr> id_issuances := sql_insert row (id_issuances db) \<rparr>, Inr row)))"

definition updateStatus_issuance ::
    "env \<Rightarrow> string \<Rightarrow> update_status \<Rightarrow> (issuance_db, issuance_row) handler" where
  "updateStatus_issuance E i dto db =
     (case List.find (\<lambda>r. ir_id r = i) (id_issuances db) of
        None \<Rightarrow> (db, Inl (NotFoundException ''Issuance request not found''))
      | Some r \<Rightarrow> (change_issuance (SetIssuance E (us_status dto) (us_txHash dto)) i db,
                   Inr (apply_issuance (SetIssuance E (us_status dto) (us_txHash dto)) r)))"

definition markMinted :: "env \<Rightarrow> string \<Rightarrow> string \<Rightarrow> (issuance_db, issuance_row) handler" where
  "markMinted E i txHash db =
     (case List.find (\<lambda>r. ir_id r = i) (id_issuances db) of
        None \<Rightarrow> (db, Inl (NotFoundException ''Issuance request not found''))
      | Some r \<Rightarrow> (change_issuance (SetIssuance E ''MINTED'' txHash) i db,
                   Inr (apply_issuance (SetIssuance E ''MINTED'' txHash) r)))"

definition findAll_redemptions :: "issuance_db \<Rightarrow> redemption_row list" where
  "findAll_redemptions db = sort_key (\<lambda>r. - rr_createdAt r) (id_redemptions db)"

definition create_redemption_request ::
    "env \<Rightarrow> create_redemption \<Rightarrow> (issuance_db, redemption_row) handler" where
  "create_redemption_request E dto db =
     (if \<exists>r \<in> set (id_redemptions db). rr_tokenContract r = cre_tokenContract dto \<and>
           rr_requestId r = cre_requestId dto
      then (db, Inl (DatabaseError ''P2002''))
      else
        (let row = \<lparr> rr_id = uuid E 0, rr_requestId = cre_requestId dto,
               rr_tokenContract = cre_tokenContract dto, rr_assetId = cre_assetId dto,
               rr_requester = cre_requester dto, rr_amount = cre_amount dto, rr_reason = cre_reason dto,
               rr_status = ''PENDING'', rr_txHash = None, rr_createdAt = db_now E, rr_updatedAt = db_now E \<rparr>
         in (db\<lparr> id_redemptions := sql_insert row (id_redemptions db) \<rparr>, Inr row)))"

definition set_redemption :: "env \<times> update_status \<Rightarrow> redemption_row \<Rightarrow> redemption_row" where
  "set_redemption p r = (case p of (E, dto) \<Rightarrow>
     r\<lparr> rr_status := us_status dto, rr_txHash := Some (us_txHash dto), rr_updatedAt := js_now E \<rparr>)"

definition updateStatus_redemption ::
    "env \<Rightarrow> string \<Rightarrow> update_status \<Rightarrow> (issuance_db, redemption_row) handler" where
  "updateStatus_redemption E i dto db =
     (case List.find (\<lambda>r. rr_id r = i) (id_redemptions db) of
        None \<Rightarrow> (db, Inl (NotFoundException ''Redemption request not found''))
      | Some r \<Rightarrow> (db\<lparr> id_redemptions := sql_update (\<lambda>r. rr_id r = i) (set_redemption (E, dto)) (id_redemptions db) \<rparr>,
                   Inr (set_redemption (E, dto) r)))"

section \<open>Decisions are made once\<close>

interpretation issuances: keyed_table ir_id apply_issuance
proof
  show "ir_id (apply_issuance c r) = ir_id r" for c r by (cases c) simp_all
qed

interpretation redemptions: keyed_table rr_id set_redemption
  by unfold_locales (simp add: set_redemption_def split: prod.splits)

text \<open>Calls of the guarded service, and creations through either service.\<close>

inductive issuance_step :: "issuance_db \<Rightarrow> issuance_db \<Rightarrow> bool" where
  create: "uuid E 0 \<notin> ir_id ` set (id_issuances db) \<Longrightarrow>
    issuance_step db (fst (create_issuance_req E cd db))"
| create_default: "uuid E 0 \<notin> ir_id ` set (id_issuances db) \<Longrightarrow>
    issuance_step db (fst (create_issuance_default E dd db))"
| approve: "issuance_step db (fst (approve_issuance_request E i ad db))"
| reject: "issuance_step db (fst (reject_issuance_request E i rd db))"

definition issuance_key :: "issuance_row \<Rightarrow> string \<times> int" where
  "issuance_key r = (ir_tokenContract r, ir_requestId r)"

definition issuance_inv :: "issuance_db \<Rightarrow> bool" where
  "issuance_inv db \<longleftrightarrow> distinct (map ir_id (id_issuances db)) \<and> distinct (map issuance_key (id_issuances db))"

lemma apply_issuance_key [simp]: "issuance_key (apply_issuance c r) = issuance_key r"
  by (cases c) (simp_all add: issuance_key_def)

lemma issuance_step_cases [consumes 1]:
  assumes "issuance_step db db'"
  obtains (same) "id_issuances db' = id_issuances db"
  | (insert) row where "ir_id row \<notin> ir_id ` set (id_issuances db)"
      "issuance_key row \<notin> issuance_key ` set (id_issuances db)"
      "id_issuances db' = sql_insert row (id_issuances db)"
  | (decide) c i r where "List.find (\<lambda>r. ir_id r = i) (id_issuances db) = Some r" "ir_status r = RS_PENDING"
      "id_issuances db' = sql_update (\<lambda>r. ir_id r = i) (apply_issuance c) (id_issuances db)"
  using assms
proof (cases rule: issuance_step.cases)
  case (create E d)
  show ?thesis
  proof (cases "List.find (same_request (cir_tokenAddress d) (cir_requestId d)) (id_issuances db)")
    case None
    with create show ?thesis
      by (intro insert [of "new_issuance_request E (uuid E 0) d"])
        (auto simp: create_issuance_req_def Let_def find_None_all same_request_def issuance_key_def
          new_issuance_request_def)
  next
    case (Some r)
    with create same show ?thesis by (simp add: create_issuance_req_def)
  qed
next
  case (create_default E d)
  show ?thesis
  proof (cases "List.find (same_request (cis_tokenContract d) (cis_requestId d)) (id_issuances db)")
    case None
    with create_default show ?thesis
      by (intro insert [of "new_issuance_default E (uuid E 0) d"])
        (auto simp: create_issuance_default_def Let_def find_None_all same_request_def issuance_key_def
          new_issuance_default_def)
  next
    case (Some r)
    with create_default same show ?thesis by (simp add: create_issuance_default_def)
  qed
next
  case (approve E i d)
  with same decide show ?thesis
    by (auto simp: approve_issuance_request_def find_issuance_def change_issuance_def
        split: option.splits if_splits)
next
  case (reject E i d)
  with same decide show ?thesis
    by (auto simp: reject_issuance_request_def find_issuance_def change_issuance_def
        split: option.splits if_splits)
qed

lemma issuance_step_inv: "issuance_step db db' \<Longrightarrow> issuance_inv db \<Longrightarrow> issuance_inv db'"
  by (cases rule: issuance_step_cases)
    (auto simp: issuance_inv_def map_key_insert map_update_same issuances.key_upd)

lemma issuance_step_decided:
  assumes "issuance_step db db'" and "find_issuance i db = Inr r" and "ir_status r \<noteq> RS_PENDING"
  shows "find_issuance i db' = Inr r"
proof -
  have r: "List.find (\<lambda>r. ir_id r = i) (id_issuances db) = Some r"
    using assms(2) by (auto simp: find_issuance_def split: option.splits)
  from assms(1) show ?thesis
  proof (cases rule: issuance_step_cases)
    case (decide c j x)
    with r assms(3) have "j \<noteq> i" by auto
    with decide(3) r issuances.find_other [of i j c "id_issuances db"] show ?thesis
      by (simp add: find_issuance_def)
  qed (simp_all add: find_issuance_def r find_insert)
qed

section \<open>Properties\<close>

lemma issuance_decided_once:
  assumes "issuance_step\<^sup>*\<^sup>* db db'" and "issuance_inv db" and "find_issuance i db = Inr r"
    and "ir_status r \<noteq> RS_PENDING"
  shows "issuance_inv db' \<and> find_issuance i db' = Inr r"
  using assms
  by (induction rule: rtranclp_induct) (auto intro: issuance_step_inv issuance_step_decided)

lemma default_request_never_pending:
  assumes "snd (create_issuance_default E d db) = Inr row" and "uuid E 0 \<notin> ir_id ` set (id_issuances db)"
  shows "snd (approve_issuance_request F (ir_id row) a (fst (create_issuance_default E d db))) =
      Inl (BadRequestException ''Cannot approve request with status PENDING'') \<and>
    getPendingCount (cis_tokenContract d) (fst (create_issuance_default E d db)) =
      getPendingCount (cis_tokenContract d) db"
proof -
  have none: "List.find (\<lambda>r. ir_id r = uuid E 0) (id_issuances db) = None"
    using assms(2) unfolding find_None_all by (metis image_eqI)
  from assms(1) have row: "row = new_issuance_default E (uuid E 0) d"
    and db': "fst (create_issuance_default E d db) = db\<lparr> id_issuances := sql_insert row (id_issuances db) \<rparr>"
    by (auto simp: create_issuance_default_def Let_def split: option.splits)
  have "ir_status row = ''PENDING''" "ir_id row = uuid E 0"
    by (simp_all add: row new_issuance_default_def)
  with none show ?thesis
    by (simp add: db' approve_issuance_request_def find_issuance_def find_insert getPendingCount_def
        filter_insert RS_PENDING_def)
qed

section \<open>Concrete instances\<close>

definition issuance0 :: issuance_db where
  "issuance0 = \<lparr> id_issuances = [], id_redemptions = [] \<rparr>"

definition sample_issuance_default :: create_issuance where
  "sample_issuance_default = \<lparr> cis_requestId = 7, cis_tokenContract = ''MINT'', cis_assetId = 1,
     cis_recipient = ''R'', cis_requester = ''Q'', cis_amount = ''10'' \<rparr>"

definition sample_issuance :: create_issuance_request where
  "sample_issuance = \<lparr> cir_requestId = 8, cir_tokenAddress = ''MINT'', cir_assetId = 1,
     cir_recipient = ''R'', cir_amount = ''10'', cir_requester = ''Q'', cir_reason = None, cir_txHash = None \<rparr>"

definition issuance1 :: issuance_db where
  "issuance1 = fst (approve_issuance_request (sample_env ''i'') ''5a0'' \<lparr> air_approvedBy = ''C'', air_txHash = ''tx'' \<rparr>
     (fst (create_issuance_req (sample_env ''5a'') sample_issuance issuance0)))"

definition issuance2 :: issuance_db where
  "issuance2 = fst (reject_issuance_request (sample_env ''i'') ''5a0''
     \<lparr> rir_rejectedBy = ''C'', rir_rejectionReason = ''late'' \<rparr> issuance1)"

lemma issuance_decided_once_witness:
  "\<exists>r. find_issuance ''5a0'' issuance2 = Inr r \<and> ir_status r = RS_APPROVED"
proof -
  have step: "issuance_step\<^sup>*\<^sup>* issuance1 issuance2"
    unfolding issuance2_def by (rule r_into_rtranclp, rule issuance_step.reject)
  have inv: "issuance_inv issuance1" by code_simp
  have "(case find_issuance ''5a0'' issuance1 of Inr r \<Rightarrow> ir_status r = RS_APPROVED | _ \<Rightarrow> False)" by code_simp
  then obtain r where r: "find_issuance ''5a0'' issuance1 = Inr r" "ir_status r = RS_APPROVED"
    by (auto split: sum.splits)
  from issuance_decided_once [OF step inv r(1)] r(2) show ?thesis
    by (simp add: request_status_defs)
qed

lemma default_request_never_pending_witness:
  "snd (approve_issuance_request (sample_env ''f'') ''e0'' \<lparr> air_approvedBy = ''C'', air_txHash = ''tx'' \<rparr>
     (fst (create_issuance_default (sample_env ''e'') sample_issuance_default issuance0))) =
   Inl (BadRequestException ''Cannot approve request with status PENDING'')"
proof -
  have "snd (create_issuance_default (sample_env ''e'') sample_issuance_default issuance0) =
      Inr (new_issuance_default (sample_env ''e'') ''e0'' sample_issuance_default)"
    "uuid (sample_env ''e'') 0 \<notin> ir_id ` set (id_issuances issuance0)" by code_simp+
  from default_request_never_pending [OF this] show ?thesis by (simp add: new_issuance_default_def)
qed

text \<open>The identifier in a response is the number at the start of the row's UUID.\<close>

lemma response_id_is_not_the_row_id:
  "parse_int_or_zero ''550e8400-e29b'' = Fin 550 \<and> parse_int_or_zero ''a50e8400-e29b'' = Fin 0"
  by code_simp

end
