(* ===== verification/Utf8.thy ===== *)
theory Utf8
  imports Bytes
begin

text \<open>
  UTF-8 text as \<open>Buffer.from(s, 'utf8')\<close> writes it and \<open>buf.toString('utf8')\<close> reads it. A text is
  the list of its code points; a lone surrogate is written as U+FFFD, and a malformed sequence is
  read as one U+FFFD for its longest well-formed prefix.
\<close>

type_synonym utext = "int list"

definition replacement :: int where
  "replacement = 65533"

definition surrogate :: "int \<Rightarrow> bool" where
  "surrogate c \<longleftrightarrow> 55296 \<le> c \<and> c \<le> 57343"

definition scalar :: "int \<Rightarrow> bool" where
  "scalar c \<longleftrightarrow> 0 \<le> c \<and> c < 1114112 \<and> \<not> surrogate c"

section \<open>Encoding\<close>

definition utf8_scalar :: "int \<Rightarrow> int list" where
  "utf8_scalar c =
     (if c < 128 then [c]
      else if c < 2048 then [192 + c div 64, 128 + c mod 64]
      else if c < 65536 then [224 + c div 4096, 128 + c div 64 mod 64, 128 + c mod 64]
      else [240 + c div 262144, 128 + c div 4096 mod 64, 128 + c div 64 mod 64, 128 + c mod 64])"

definition byte_of :: "int \<Rightarrow> byte" where
  "byte_of v = word_of_int v"

definition utf8_char :: "int \<Rightarrow> bytes" where
  "utf8_char c = map byte_of (utf8_scalar (if surrogate c then replacement else c))"

definition utf8_encode :: "utext \<Rightarrow> bytes" where
  "utf8_encode s = concat (map utf8_char s)"

section \<open>Decoding\<close>

text \<open>The lead byte gives the number of further bytes, the range of the first of them, and the
  leading bits of the code point.\<close>

definition utf8_lead :: "int \<Rightarrow> (nat \<times> int \<times> int \<times> int) option" where
  "utf8_lead b =
     (if b < 128 then Some (0, 128, 191, b)
      else if b < 194 then None
      else if b < 224 then Some (1, 128, 191, b - 192)
      else if b < 240 then
        Some (2, if b = 224 then 160 else 128, if b = 237 then 159 else 191, b - 224)
      else if b < 245 then
        Some (3, if b = 240 then 144 else 128, if b = 244 then 143 else 191, b - 240)
      else None)"

fun utf8_tail :: "nat \<Rightarrow> int \<Rightarrow> int \<Rightarrow> int \<Rightarrow> bytes \<Rightarrow> int \<times> bytes" where
  "utf8_tail 0 lo hi acc bs = (acc, bs)"
| "utf8_tail (Suc n) lo hi acc [] = (replacement, [])"
| "utf8_tail (Suc n) lo hi acc (b # bs) =
     (if lo \<le> uint b \<and> uint b \<le> hi then utf8_tail n 128 191 (acc * 64 + (uint b - 128)) bs
      else (replacement, b # bs))"

definition utf8_next :: "byte \<Rightarrow> bytes \<Rightarrow> int \<times> bytes" where
  "utf8_next b bs =
     (case utf8_lead (uint b) of
        None \<Rightarrow> (replacement, bs)
      | Some (n, lo, hi, acc) \<Rightarrow> utf8_tail n lo hi acc bs)"

lemma utf8_tail_shrinks: "length (snd (utf8_tail n lo hi acc bs)) \<le> length bs"
  by (induction n lo hi acc bs rule: utf8_tail.induct) auto

lemma utf8_next_shrinks: "length (snd (utf8_next b bs)) \<le> length bs"
  by (auto simp: utf8_next_def utf8_tail_shrinks split: option.splits)

function utf8_decode :: "bytes \<Rightarrow> utext" where
  "utf8_decode [] = []"
| "utf8_decode (b # bs) = fst (utf8_next b bs) # utf8_decode (snd (utf8_next b bs))"
  by pat_completeness auto
termination
  by (relation "measure length") (auto simp: utf8_next_shrinks less_Suc_eq_le)

section \<open>The round trip\<close>

lemma uint_byte: "0 \<le> v \<Longrightarrow> v < 256 \<Longrightarrow> uint (byte_of v) = v"
  by (simp add: byte_of_def uint_word_of_int)

lemma sextets:
  fixes c :: int
  shows "c = (c div 4096 * 64 + c div 64 mod 64) * 64 + c mod 64"
    and "c = ((c div 262144 * 64 + c div 4096 mod 64) * 64 + c div 64 mod 64) * 64 + c mod 64"
proof -
  have d: "x div 64 * 64 + x mod 64 = x" for x :: int by simp
  have "c div 4096 = c div 64 div 64" "c div 262144 = c div 4096 div 64"
    by (simp_all add: zdiv_zmult2_eq [symmetric])
  then show "c = (c div 4096 * 64 + c div 64 mod 64) * 64 + c mod 64"
    and "c = ((c div 262144 * 64 + c div 4096 mod 64) * 64 + c div 64 mod 64) * 64 + c mod 64"
    by (simp_all only: d)
qed

lemma utf8_next_char:
  assumes "scalar c"
  obtains b bs where "utf8_char c = b # bs" and "\<And>rest. utf8_next b (bs @ rest) = (c, rest)"
proof -
  have c: "0 \<le> c" "c < 1114112" "\<not> surrogate c" using assms by (auto simp: scalar_def)
  consider "c < 128" | "128 \<le> c" "c < 2048" | "2048 \<le> c" "c < 65536" | "65536 \<le> c" by linarith
  then show thesis
  proof cases
    case 1
    with c show thesis
      by (intro that [of "byte_of c" "[]"])
        (auto simp: utf8_char_def utf8_scalar_def utf8_next_def utf8_lead_def uint_byte)
  next
    case 2
    define a l where "a = c div 64" and "l = c mod 64"
    have h: "2 \<le> a" "a < 32" "0 \<le> l" "l < 64" using 2 by (auto simp: a_def l_def)
    have sum: "c = a * 64 + l" by (simp add: a_def l_def)
    have enc: "utf8_char c = [byte_of (192 + a), byte_of (128 + l)]"
      using 2 c by (simp add: utf8_char_def utf8_scalar_def a_def l_def)
    show thesis
      using h sum by (intro that [OF enc]) (simp add: utf8_next_def utf8_lead_def uint_byte)
  next
    case 3
    define a m l where "a = c div 4096" and "m = c div 64 mod 64" and "l = c mod 64"
    have h: "0 \<le> a" "a < 16" "0 \<le> m" "m < 64" "0 \<le> l" "l < 64"
      using 3 by (auto simp: a_def m_def l_def)
    have sum: "c = (a * 64 + m) * 64 + l" unfolding a_def m_def l_def by (rule sextets(1))
    have first: "a = 0 \<Longrightarrow> 32 \<le> m" using sum 3 h by simp
    have sur: "a = 13 \<Longrightarrow> m \<le> 31" using sum c h by (auto simp: surrogate_def)
    have enc: "utf8_char c = [byte_of (224 + a), byte_of (128 + m), byte_of (128 + l)]"
      using 3 c by (simp add: utf8_char_def utf8_scalar_def a_def m_def l_def)
    show thesis
      using h first sur sum
      by (intro that [OF enc])
        (auto simp: utf8_next_def utf8_lead_def uint_byte numeral_2_eq_2)
  next
    case 4
    define z a m l where "z = c div 262144" and "a = c div 4096 mod 64" and "m = c div 64 mod 64"
      and "l = c mod 64"
    have h: "0 \<le> z" "z < 5" "0 \<le> a" "a < 64" "0 \<le> m" "m < 64" "0 \<le> l" "l < 64"
      using 4 c by (auto simp: z_def a_def m_def l_def)
    have sum: "c = ((z * 64 + a) * 64 + m) * 64 + l"
      unfolding z_def a_def m_def l_def by (rule sextets(2))
    have first: "z = 0 \<Longrightarrow> 16 \<le> a" using sum 4 h by simp
    have last: "z = 4 \<Longrightarrow> a \<le> 15" using sum c h by simp
    have enc: "utf8_char c =
        [byte_of (240 + z), byte_of (128 + a), byte_of (128 + m), byte_of (128 + l)]"
      using 4 c by (simp add: utf8_char_def utf8_scalar_def z_def a_def m_def l_def)
    show thesis
      using h first last sum
      by (intro that [OF enc])
        (auto simp: utf8_next_def utf8_lead_def uint_byte numeral_3_eq_3)
  qed
qed

lemma utf8_decode_encode: "list_all scalar s \<Longrightarrow> utf8_decode (utf8_encode s) = s"
proof (induction s)
  case (Cons c s)
  then have c: "scalar c" by simp
  obtain b bs where "utf8_char c = b # bs" and "\<And>rest. utf8_next b (bs @ rest) = (c, rest)"
    using utf8_next_char [OF c] by blast
  with Cons show ?case by (simp add: utf8_encode_def)
qed (simp add: utf8_encode_def)

end
