(* ===== verification/Wire.thy ===== *)
theory Wire
  imports Utf8
begin

text \<open>
  The wire format between the web client and the programs on the chain
  (\<open>frontend/src/lib/solana/index.ts\<close>): the encoders of instruction arguments, the readers of
  account data, and the Borsh format as the specification both sides are measured against. The
  locale \<open>wire_block\<close> is the contract of a reader that consumes exactly the encoding of one value,
  and \<open>wire_field\<close> the contract of a reader of fixed width, from which the vector loops follow.
\<close>

section \<open>Encoders\<close>

definition concat_res :: "bytes res list \<Rightarrow> bytes res" where
  "concat_res ps =
     foldr (\<lambda>p acc. case p of Inl e \<Rightarrow> Inl e
                    | Inr b \<Rightarrow> (case acc of Inl e \<Rightarrow> Inl e | Inr bs \<Rightarrow> Inr (b @ bs))) ps (Inr [])"

definition encodeU8 :: "int \<Rightarrow> bytes res" where
  "encodeU8 v = Inr [word_of_int v]"

definition encodeU16 :: "int \<Rightarrow> bytes res" where
  "encodeU16 v = write_uint 2 v"

definition encodeU32 :: "int \<Rightarrow> bytes res" where
  "encodeU32 v = write_uint 4 v"

text \<open>\<open>setBigUint64\<close> and \<open>setBigInt64\<close> reduce modulo \<open>2\<^sup>6\<^sup>4\<close>.\<close>

definition encodeU64 :: "int \<Rightarrow> bytes res" where
  "encodeU64 v = Inr (le_bytes 8 v)"

definition encodeI64 :: "int \<Rightarrow> bytes res" where
  "encodeI64 v = Inr (le_bytes 8 v)"

definition encodeBool :: "bool \<Rightarrow> bytes res" where
  "encodeBool b = Inr [if b then 1 else 0]"

definition encodePubkey :: "pubkey \<Rightarrow> bytes res" where
  "encodePubkey k = Inr k"

definition encodeBytes :: "bytes \<Rightarrow> bytes res" where
  "encodeBytes bs = concat_res [encodeU32 (int (length bs)), Inr bs]"

definition encodeString :: "utext \<Rightarrow> bytes res" where
  "encodeString s =
     (let bs = utf8_encode s in concat_res [encodeU32 (int (length bs)), Inr bs])"

definition encodeFixedBytes :: "bytes \<Rightarrow> nat \<Rightarrow> bytes res" where
  "encodeFixedBytes bs n =
     (if length bs \<noteq> n
      then Inl (JsError (''Expected '' @ show_digits (int n) @ '' bytes, got '' @ show_digits (int (length bs))))
      else Inr bs)"

definition encodeVecU64 :: "int list \<Rightarrow> bytes res" where
  "encodeVecU64 vs = concat_res (encodeU32 (int (length vs)) # map encodeU64 vs)"

definition encodeVecPubkey :: "pubkey list \<Rightarrow> bytes res" where
  "encodeVecPubkey ks = concat_res (encodeU32 (int (length ks)) # map encodePubkey ks)"

definition encodeOptionPubkey :: "pubkey option \<Rightarrow> bytes res" where
  "encodeOptionPubkey k = (case k of None \<Rightarrow> Inr [0] | Some k \<Rightarrow> Inr (1 # k))"

section \<open>Readers\<close>

definition readPubkey :: "('x) chain_scheme \<Rightarrow> bytes \<Rightarrow> nat \<Rightarrow> pubkey res" where
  "readPubkey C data off =
     (case pk_of_bytes C (subarray data off (off + 32)) of Inl e \<Rightarrow> Inl (JsError e) | Inr k \<Rightarrow> Inr k)"

definition readU8 :: "bytes \<Rightarrow> nat \<Rightarrow> int res" where "readU8 = read_uint 1"
definition readU16 :: "bytes \<Rightarrow> nat \<Rightarrow> int res" where "readU16 = read_uint 2"
definition readU32 :: "bytes \<Rightarrow> nat \<Rightarrow> int res" where "readU32 = read_uint 4"
definition readU64 :: "bytes \<Rightarrow> nat \<Rightarrow> int res" where "readU64 = read_uint 8"
definition readI64 :: "bytes \<Rightarrow> nat \<Rightarrow> int res" where "readI64 = read_int 8"

text \<open>\<open>readU8(data, o) === 1\<close> and \<open>Buffer.from(data.subarray(o, o + n))\<close> of the decoders.\<close>

definition readFlag :: "bytes \<Rightarrow> nat \<Rightarrow> bool res" where
  "readFlag data off = (case readU8 data off of Inl e \<Rightarrow> Inl e | Inr v \<Rightarrow> Inr (v = 1))"

definition readSlice :: "nat \<Rightarrow> bytes \<Rightarrow> nat \<Rightarrow> bytes res" where
  "readSlice n data off = Inr (subarray data off (off + n))"

definition readString :: "bytes \<Rightarrow> nat \<Rightarrow> (utext \<times> nat) res" where
  "readString data off =
     (case readU32 data off of Inl e \<Rightarrow> Inl e | Inr len \<Rightarrow>
        let start = off + 4; stop = start + nat len
        in Inr (utf8_decode (subarray data start stop), stop))"

text \<open>The loop of the vector readers: \<open>n\<close> items of \<open>width\<close> bytes each, in order.\<close>

fun read_items :: "(bytes \<Rightarrow> nat \<Rightarrow> 'a res) \<Rightarrow> nat \<Rightarrow> nat \<Rightarrow> bytes \<Rightarrow> nat \<Rightarrow> ('a list \<times> nat) res" where
  "read_items rd width 0 data cursor = Inr ([], cursor)"
| "read_items rd width (Suc n) data cursor =
     (case rd data cursor of Inl e \<Rightarrow> Inl e | Inr x \<Rightarrow>
        case read_items rd width n data (cursor + width) of Inl e \<Rightarrow> Inl e
        | Inr (xs, next) \<Rightarrow> Inr (x # xs, next))"

definition readVecPubkey :: "('x) chain_scheme \<Rightarrow> bytes \<Rightarrow> nat \<Rightarrow> (pubkey list \<times> nat) res" where
  "readVecPubkey C data off =
     (case readU32 data off of Inl e \<Rightarrow> Inl e
      | Inr len \<Rightarrow> read_items (readPubkey C) 32 (nat len) data (off + 4))"

definition readVecU64 :: "bytes \<Rightarrow> nat \<Rightarrow> (int list \<times> nat) res" where
  "readVecU64 data off =
     (case readU32 data off of Inl e \<Rightarrow> Inl e
      | Inr len \<Rightarrow> read_items readU64 8 (nat len) data (off + 4))"

text \<open>
  The decoders thread an offset: \<open>const x = read(data, o); o += n;\<close> is \<open>sized n read\<close> followed by the
  rest, and \<open>const x = read(data, o); o = x.nextOffset;\<close> uses the offset the reader returns.
\<close>

type_synonym 'a parser = "bytes \<Rightarrow> nat \<Rightarrow> 'a res"

definition sized :: "nat \<Rightarrow> 'a parser \<Rightarrow> ('a \<times> nat) parser" where
  "sized n rd data o' = (case rd data o' of Inl e \<Rightarrow> Inl e | Inr x \<Rightarrow> Inr (x, o' + n))"

definition next_field :: "('a \<times> nat) parser \<Rightarrow> ('a \<Rightarrow> 'b parser) \<Rightarrow> 'b parser" where
  "next_field p k data o' = (case p data o' of Inl e \<Rightarrow> Inl e | Inr (x, n) \<Rightarrow> k x data n)"

definition finish :: "'a \<Rightarrow> 'a parser" where
  "finish x data o' = Inr x"

section \<open>The Borsh format\<close>

datatype bval =
    BPubkey pubkey
  | BU8 int
  | BU16 int
  | BU32 int
  | BU64 int
  | BI64 int
  | BBool bool
  | BString utext
  | BBytes bytes
  | BFixed nat bytes
  | BVecU64 "int list"
  | BVecPubkey "pubkey list"
  | BOptPubkey "pubkey option"
  | BVecIssuer "(pubkey \<times> int list \<times> utext) list"

definition borsh_string :: "utext \<Rightarrow> bytes" where
  "borsh_string s = le_bytes 4 (int (length (utf8_encode s))) @ utf8_encode s"

definition borsh_vec_u64 :: "int list \<Rightarrow> bytes" where
  "borsh_vec_u64 vs = le_bytes 4 (int (length vs)) @ concat (map (le_bytes 8) vs)"

text \<open>\<open>TrustedIssuerInput\<close> of the factory program.\<close>

definition borsh_issuer :: "pubkey \<times> int list \<times> utext \<Rightarrow> bytes" where
  "borsh_issuer i = (case i of (k, vs, s) \<Rightarrow> k @ borsh_vec_u64 vs @ borsh_string s)"

fun borsh_val :: "bval \<Rightarrow> bytes" where
  "borsh_val (BPubkey k) = k"
| "borsh_val (BU8 v) = le_bytes 1 v"
| "borsh_val (BU16 v) = le_bytes 2 v"
| "borsh_val (BU32 v) = le_bytes 4 v"
| "borsh_val (BU64 v) = le_bytes 8 v"
| "borsh_val (BI64 v) = le_bytes 8 v"
| "borsh_val (BBool b) = [if b then 1 else 0]"
| "borsh_val (BString s) = borsh_string s"
| "borsh_val (BBytes bs) = le_bytes 4 (int (length bs)) @ bs"
| "borsh_val (BFixed n bs) = bs"
| "borsh_val (BVecU64 vs) = borsh_vec_u64 vs"
| "borsh_val (BVecPubkey ks) = le_bytes 4 (int (length ks)) @ concat ks"
| "borsh_val (BOptPubkey k) = (case k of None \<Rightarrow> [0] | Some k \<Rightarrow> 1 # k)"
| "borsh_val (BVecIssuer es) = le_bytes 4 (int (length es)) @ concat (map borsh_issuer es)"

definition borsh :: "bval list \<Rightarrow> bytes" where
  "borsh vs = concat (map borsh_val vs)"

text \<open>
  The values of each type. A key has 32 bytes and is one the key constructor of the library accepts
  unchanged.
\<close>

definition key_ok :: "('x) chain_scheme \<Rightarrow> pubkey \<Rightarrow> bool" where
  "key_ok C k \<longleftrightarrow> length k = 32 \<and> pk_of_bytes C k = Inr k"

definition fits :: "nat \<Rightarrow> int \<Rightarrow> bool" where
  "fits n v \<longleftrightarrow> 0 \<le> v \<and> v < 256 ^ n"

definition string_ok :: "utext \<Rightarrow> bool" where
  "string_ok s \<longleftrightarrow> list_all scalar s \<and> fits 4 (int (length (utf8_encode s)))"

definition vec_u64_ok :: "int list \<Rightarrow> bool" where
  "vec_u64_ok vs \<longleftrightarrow> fits 4 (int (length vs)) \<and> list_all (fits 8) vs"

definition issuer_ok :: "('x) chain_scheme \<Rightarrow> pubkey \<times> int list \<times> utext \<Rightarrow> bool" where
  "issuer_ok C i = (case i of (k, vs, s) \<Rightarrow> key_ok C k \<and> vec_u64_ok vs \<and> string_ok s)"

fun bval_ok :: "('x) chain_scheme \<Rightarrow> bval \<Rightarrow> bool" where
  "bval_ok C (BPubkey k) = key_ok C k"
| "bval_ok C (BU8 v) = fits 1 v"
| "bval_ok C (BU16 v) = fits 2 v"
| "bval_ok C (BU32 v) = fits 4 v"
| "bval_ok C (BU64 v) = fits 8 v"
| "bval_ok C (BI64 v) = (- (256 ^ 8 div 2) \<le> v \<and> v < 256 ^ 8 div 2)"
| "bval_ok C (BBool b) = True"
| "bval_ok C (BString s) = string_ok s"
| "bval_ok C (BBytes bs) = fits 4 (int (length bs))"
| "bval_ok C (BFixed n bs) = (length bs = n)"
| "bval_ok C (BVecU64 vs) = vec_u64_ok vs"
| "bval_ok C (BVecPubkey ks) = (fits 4 (int (length ks)) \<and> list_all (key_ok C) ks)"
| "bval_ok C (BOptPubkey k) = (case k of None \<Rightarrow> True | Some k \<Rightarrow> key_ok C k)"
| "bval_ok C (BVecIssuer es) = (fits 4 (int (length es)) \<and> list_all (issuer_ok C) es)"

text \<open>A parser that meets the bytes at its offset returns the value, whatever surrounds them.\<close>

definition parses :: "'a parser \<Rightarrow> bytes \<Rightarrow> 'a \<Rightarrow> bool" where
  "parses p bs r \<longleftrightarrow> (\<forall>pre post. p (pre @ bs @ post) (length pre) = Inr r)"

lemma parses_finish: "x = r \<Longrightarrow> parses (finish x) bs r"
  by (simp add: parses_def finish_def)

lemma parses_run:
  assumes "parses p bs r" and "length pre = n"
  shows "p (pre @ bs @ post) n = Inr r"
  using assms by (auto simp: parses_def)

lemma fits_mod [simp]: "fits n v \<Longrightarrow> v mod 256 ^ n = v"
  by (simp add: fits_def)

lemma borsh_simps [simp]: "borsh [] = []" "borsh (v # vs) = borsh_val v @ borsh vs"
  by (simp_all add: borsh_def)

section \<open>The contract of a reader\<close>

locale wire_block =
  fixes C :: "('x) chain_scheme"
    and val :: "'a \<Rightarrow> bval"
    and rd :: "('a \<times> nat) parser"
  assumes reads: "bval_ok C (val x) \<Longrightarrow>
      rd (pre @ borsh_val (val x) @ post) (length pre)
        = Inr (x, length pre + length (borsh_val (val x)))"
begin

lemma next_field_reads:
  assumes "bval_ok C (val x)"
  shows "next_field rd k (pre @ borsh_val (val x) @ post) (length pre)
    = k x ((pre @ borsh_val (val x)) @ post) (length (pre @ borsh_val (val x)))"
  using assms by (simp add: next_field_def reads)

lemma parses_next:
  assumes "bval_ok C (val x)" and "parses (k x) (borsh vs) r"
  shows "parses (next_field rd k) (borsh (val x # vs)) r"
  unfolding parses_def
proof (intro allI)
  fix pre post
  have "k x ((pre @ borsh_val (val x)) @ borsh vs @ post) (length (pre @ borsh_val (val x))) = Inr r"
    using assms(2) unfolding parses_def by blast
  then show "next_field rd k (pre @ borsh (val x # vs) @ post) (length pre) = Inr r"
    using next_field_reads [OF assms(1), of k pre "borsh vs @ post"] by simp
qed

end

locale wire_field =
  fixes C :: "('x) chain_scheme"
    and val :: "'a \<Rightarrow> bval"
    and rd :: "'a parser"
    and width :: nat
  assumes field_width: "bval_ok C (val x) \<Longrightarrow> length (borsh_val (val x)) = width"
    and field_reads: "bval_ok C (val x) \<Longrightarrow>
      rd (pre @ borsh_val (val x) @ post) (length pre) = Inr x"
begin

lemma items_read:
  assumes "list_all (\<lambda>x. bval_ok C (val x)) xs"
  shows "read_items rd width (length xs) (pre @ borsh (map val xs) @ post) (length pre)
    = Inr (xs, length pre + length (borsh (map val xs)))"
  using assms
proof (induction xs arbitrary: pre)
  case (Cons x xs)
  then have x: "bval_ok C (val x)" by simp
  have "rd (pre @ borsh_val (val x) @ borsh (map val xs) @ post) (length pre) = Inr x"
    using field_reads [OF x, of pre "borsh (map val xs) @ post"] by simp
  moreover have "read_items rd width (length xs)
      (pre @ borsh_val (val x) @ borsh (map val xs) @ post) (length pre + width)
    = Inr (xs, length pre + width + length (borsh (map val xs)))"
    using Cons.IH [of "pre @ borsh_val (val x)"] Cons.prems by (simp add: field_width [OF x])
  ultimately show ?case by (simp add: field_width [OF x])
qed simp

end

sublocale wire_field \<subseteq> block: wire_block C val "sized width rd"
  by unfold_locales (simp add: sized_def field_reads field_width)

section \<open>The readers keep the contract\<close>

interpretation pubkey: wire_field C BPubkey "readPubkey C" 32 for C
proof
  fix x pre post
  assume "bval_ok C (BPubkey x)"
  then have k: "length x = 32" "pk_of_bytes C x = Inr x" by (simp_all add: key_ok_def)
  show "length (borsh_val (BPubkey x)) = 32" using k by simp
  show "readPubkey C (pre @ borsh_val (BPubkey x) @ post) (length pre) = Inr x"
    using subarray_at [of pre x post] k by (simp add: readPubkey_def)
qed

lemma read_uint_le_bytes:
  "fits n v \<Longrightarrow> read_uint n (pre @ le_bytes n v @ post) (length pre) = Inr v"
  by (simp add: read_uint_at)

interpretation u8: wire_field C BU8 readU8 1 for C
  by unfold_locales (simp_all add: readU8_def read_uint_le_bytes del: One_nat_def)
interpretation u16: wire_field C BU16 readU16 2 for C
  by unfold_locales (simp_all add: readU16_def read_uint_le_bytes)
interpretation u32: wire_field C BU32 readU32 4 for C
  by unfold_locales (simp_all add: readU32_def read_uint_le_bytes)
interpretation u64: wire_field C BU64 readU64 8 for C
  by unfold_locales (simp_all add: readU64_def read_uint_le_bytes)

interpretation i64: wire_field C BI64 readI64 8 for C
proof
  fix x :: int and pre post
  assume "bval_ok C (BI64 x)"
  then have "to_signed 8 (x mod 256 ^ 8) = x" by (intro to_signed_mod) auto
  then show "readI64 (pre @ borsh_val (BI64 x) @ post) (length pre) = Inr x"
    by (simp add: readI64_def read_int_def read_uint_at)
qed simp

interpretation flag: wire_field C BBool readFlag 1 for C
proof
  fix x :: bool and pre post
  have "read_uint 1 (pre @ [if x then 1 else 0] @ post) (length pre) = Inr (if x then 1 else 0)"
    by (subst read_uint_at) auto
  then show "readFlag (pre @ borsh_val (BBool x) @ post) (length pre) = Inr x"
    by (simp add: readFlag_def readU8_def)
qed simp

interpretation slice: wire_field C "BFixed n" "readSlice n" n for C n
proof
  fix x pre post
  assume "bval_ok C (BFixed n x)"
  then show "readSlice n (pre @ borsh_val (BFixed n x) @ post) (length pre) = Inr x"
    using subarray_at [of pre x post] by (simp add: readSlice_def)
qed simp

lemma readU32_prefix:
  assumes "fits 4 v"
  shows "readU32 (pre @ le_bytes 4 v @ post) (length pre) = Inr v"
  using u32.field_reads [of undefined v pre post] assms by simp

interpretation str: wire_block C BString readString for C
proof
  fix s pre post
  let ?b = "utf8_encode s" and ?h = "le_bytes 4 (int (length (utf8_encode s)))"
  assume "bval_ok C (BString s)"
  then have ok: "list_all scalar s" "fits 4 (int (length ?b))" by (simp_all add: string_ok_def)
  have "subarray ((pre @ ?h) @ ?b @ post) (length (pre @ ?h)) (length (pre @ ?h) + length ?b) = ?b"
    by (rule subarray_at)
  then show "readString (pre @ borsh_val (BString s) @ post) (length pre)
      = Inr (s, length pre + length (borsh_val (BString s)))"
    using readU32_prefix [OF ok(2), of pre "?b @ post"] utf8_decode_encode [OF ok(1)]
    by (simp add: readString_def borsh_string_def Let_def)
qed

lemma borsh_map: "borsh (map f xs) = concat (map (\<lambda>x. borsh_val (f x)) xs)"
  by (simp add: borsh_def comp_def)

interpretation vec_u64: wire_block C BVecU64 readVecU64 for C
proof
  fix vs :: "int list" and pre post
  let ?h = "le_bytes 4 (int (length vs))"
  assume "bval_ok C (BVecU64 vs)"
  then have ok: "fits 4 (int (length vs))" "list_all (\<lambda>v. bval_ok C (BU64 v)) vs"
    by (simp_all add: vec_u64_ok_def)
  show "readVecU64 (pre @ borsh_val (BVecU64 vs) @ post) (length pre)
      = Inr (vs, length pre + length (borsh_val (BVecU64 vs)))"
    using readU32_prefix [OF ok(1), of pre "borsh (map BU64 vs) @ post"]
      u64.items_read [OF ok(2), of "pre @ ?h" post]
    by (simp add: readVecU64_def borsh_vec_u64_def borsh_map)
qed

interpretation vec_pubkey: wire_block C BVecPubkey "readVecPubkey C" for C
proof
  fix ks :: "pubkey list" and pre post
  let ?h = "le_bytes 4 (int (length ks))"
  assume "bval_ok C (BVecPubkey ks)"
  then have ok: "fits 4 (int (length ks))" "list_all (\<lambda>k. bval_ok C (BPubkey k)) ks" by simp_all
  show "readVecPubkey C (pre @ borsh_val (BVecPubkey ks) @ post) (length pre)
      = Inr (ks, length pre + length (borsh_val (BVecPubkey ks)))"
    using readU32_prefix [OF ok(1), of pre "borsh (map BPubkey ks) @ post"]
      pubkey.items_read [OF ok(2), of "pre @ ?h" post]
    by (simp add: readVecPubkey_def borsh_map)
qed

lemmas parses_rules = parses_finish
  pubkey.block.parses_next u8.block.parses_next u16.block.parses_next u32.block.parses_next
  u64.block.parses_next i64.block.parses_next flag.block.parses_next slice.block.parses_next
  str.parses_next vec_u64.parses_next vec_pubkey.parses_next

end
