(* ===== verification/Accounts.thy ===== *)
theory Accounts
  imports Wire
begin

text \<open>
  The accounts of the programs on the chain as the web client reads them
  (\<open>frontend/src/lib/solana/index.ts\<close>, sections 4 and 6): address derivation, the decoders, and the
  layouts the programs write (\<open>contracts/programs\<close>). A decoder is correct when it returns the account
  from every buffer made of an eight-byte discriminator, the layout of the account and padding.
\<close>

section \<open>Account types\<close>

record token_state_account =
  ts_tokenMint :: pubkey
  ts_identityRegistry :: pubkey
  ts_compliance :: pubkey
  ts_paused :: bool
  ts_decimals :: int
  ts_name :: utext
  ts_symbol :: utext
  ts_isin :: utext
  ts_bump :: int

record owner_state_account =
  os_owner :: pubkey
  os_pendingOwner :: pubkey
  os_tokenMint :: pubkey
  os_bump :: int

record agent_role_account =
  ar_agent :: pubkey
  ar_tokenMint :: pubkey
  ar_isActive :: bool
  ar_bump :: int

record frozen_wallet_account =
  fw_wallet :: pubkey
  fw_tokenMint :: pubkey
  fw_frozenBy :: pubkey
  fw_frozenAt :: int
  fw_bump :: int

record partial_freeze_account =
  pf_wallet :: pubkey
  pf_tokenMint :: pubkey
  pf_frozenAmount :: int
  pf_frozenBy :: pubkey
  pf_bump :: int

record identity_registry_state_account =
  irp_tokenMint :: pubkey
  irp_owner :: pubkey
  irp_irsAccount :: pubkey
  irp_tirAccount :: pubkey
  irp_ctrAccount :: pubkey
  irp_identityAgents :: "pubkey list"
  irp_registeredCount :: int
  irp_bump :: int

record identity_registry_storage_state_account =
  irs_owner :: pubkey
  irs_boundRegistries :: "pubkey list"
  irs_registeredCount :: int
  irs_bump :: int

record wallet_identity_account =
  wi_wallet :: pubkey
  wi_fid :: pubkey
  wi_country :: int
  wi_irs :: pubkey
  wi_bump :: int

record trusted_issuers_state_account =
  tir_owner :: pubkey
  tir_tokenMint :: pubkey
  tir_issuerCount :: int
  tir_bump :: int

record issuer_entry_account =
  ie_issuerFid :: pubkey
  ie_tir :: pubkey
  ie_allowedTopics :: "int list"
  ie_isActive :: bool
  ie_label :: utext
  ie_bump :: int

record claim_topics_state_account =
  ctr_owner :: pubkey
  ctr_tokenMint :: pubkey
  ctr_topics :: "int list"
  ctr_bump :: int

record compliance_state_account =
  cs_owner :: pubkey
  cs_tokenMint :: pubkey
  cs_modules :: "pubkey list"
  cs_modulesPaused :: bool
  cs_bump :: int

record fid_account_data =
  fid_owner :: pubkey
  fid_managementKey :: pubkey
  fid_signerKey :: pubkey
  fid_claimCount :: int
  fid_isIssuer :: bool
  fid_country :: int
  fid_bump :: int

record claim_account_data =
  cl_fid :: pubkey
  cl_claimId :: int
  cl_topic :: int
  cl_issuerFid :: pubkey
  cl_dataHash :: bytes
  cl_signerKey :: pubkey
  cl_signature :: bytes
  cl_issuedAt :: int
  cl_expiresAt :: int
  cl_revoked :: bool
  cl_bump :: int

record factory_state_account =
  fs_owner :: pubkey
  fs_tokenProgramId :: pubkey
  fs_fidProgramId :: pubkey
  fs_irpProgramId :: pubkey
  fs_irsProgramId :: pubkey
  fs_tirProgramId :: pubkey
  fs_ctrProgramId :: pubkey
  fs_complianceProgramId :: pubkey
  fs_deploymentCount :: int
  fs_bump :: int

record token_deployment_account =
  td_deploymentId :: int
  td_issuer :: pubkey
  td_salt :: bytes
  td_tokenMint :: pubkey
  td_tokenState :: pubkey
  td_ownerState :: pubkey
  td_irpState :: pubkey
  td_irsState :: pubkey
  td_tirState :: pubkey
  td_ctrState :: pubkey
  td_complianceState :: pubkey
  td_deployedAt :: int
  td_bump :: int

record transfer_approval_account =
  ta_tokenState :: pubkey
  ta_sourceTokenAccount :: pubkey
  ta_destinationTokenAccount :: pubkey
  ta_authority :: pubkey
  ta_sourceWallet :: pubkey
  ta_destinationWallet :: pubkey
  ta_amount :: int
  ta_fromBalance :: int
  ta_toBalance :: int
  ta_fromCountry :: int
  ta_toCountry :: int
  ta_kind :: int
  ta_consumed :: bool
  ta_finalized :: bool
  ta_bump :: int

section \<open>Decoders\<close>

definition decodeTokenState :: "('x) chain_scheme \<Rightarrow> bytes \<Rightarrow> token_state_account res" where
  "decodeTokenState C data =
    (next_field (sized 32 (readPubkey C)) (\<lambda>tokenMint.
     next_field (sized 32 (readPubkey C)) (\<lambda>identityRegistry.
     next_field (sized 32 (readPubkey C)) (\<lambda>compliance.
     next_field (sized 1 readFlag) (\<lambda>paused.
     next_field (sized 1 readU8) (\<lambda>decimals.
     next_field readString (\<lambda>name.
     next_field readString (\<lambda>symbol.
     next_field readString (\<lambda>isin.
     next_field (sized 1 readU8) (\<lambda>bump.
     finish \<lparr> ts_tokenMint = tokenMint, ts_identityRegistry = identityRegistry, ts_compliance = compliance,
        ts_paused = paused, ts_decimals = decimals, ts_name = name, ts_symbol = symbol,
        ts_isin = isin, ts_bump = bump \<rparr>)))))))))) data 8"

definition decodeOwnerState :: "('x) chain_scheme \<Rightarrow> bytes \<Rightarrow> owner_state_account res" where
  "decodeOwnerState C data =
    (next_field (sized 32 (readPubkey C)) (\<lambda>owner.
     next_field (sized 32 (readPubkey C)) (\<lambda>pendingOwner.
     next_field (sized 32 (readPubkey C)) (\<lambda>tokenMint.
     next_field (sized 1 readU8) (\<lambda>bump.
     finish \<lparr> os_owner = owner, os_pendingOwner = pendingOwner, os_tokenMint = tokenMint, os_bump = bump \<rparr>))))) data 8"

definition decodeAgentRole :: "('x) chain_scheme \<Rightarrow> bytes \<Rightarrow> agent_role_account res" where
  "decodeAgentRole C data =
    (next_field (sized 32 (readPubkey C)) (\<lambda>agent.
     next_field (sized 32 (readPubkey C)) (\<lambda>tokenMint.
     next_field (sized 1 readFlag) (\<lambda>isActive.
     next_field (sized 1 readU8) (\<lambda>bump.
     finish \<lparr> ar_agent = agent, ar_tokenMint = tokenMint, ar_isActive = isActive, ar_bump = bump \<rparr>))))) data 8"

definition decodeFrozenWallet :: "('x) chain_scheme \<Rightarrow> bytes \<Rightarrow> frozen_wallet_account res" where
  "decodeFrozenWallet C data =
    (next_field (sized 32 (readPubkey C)) (\<lambda>wallet.
     next_field (sized 32 (readPubkey C)) (\<lambda>tokenMint.
     next_field (sized 32 (readPubkey C)) (\<lambda>frozenBy.
     next_field (sized 8 readI64) (\<lambda>frozenAt.
     next_field (sized 1 readU8) (\<lambda>bump.
     finish \<lparr> fw_wallet = wallet, fw_tokenMint = tokenMint, fw_frozenBy = frozenBy, fw_frozenAt = frozenAt,
        fw_bump = bump \<rparr>)))))) data 8"

definition decodePartialFreeze :: "('x) chain_scheme \<Rightarrow> bytes \<Rightarrow> partial_freeze_account res" where
  "decodePartialFreeze C data =
    (next_field (sized 32 (readPubkey C)) (\<lambda>wallet.
     next_field (sized 32 (readPubkey C)) (\<lambda>tokenMint.
     next_field (sized 8 readU64) (\<lambda>frozenAmount.
     next_field (sized 32 (readPubkey C)) (\<lambda>frozenBy.
     next_field (sized 1 readU8) (\<lambda>bump.
     finish \<lparr> pf_wallet = wallet, pf_tokenMint = tokenMint, pf_frozenAmount = frozenAmount,
        pf_frozenBy = frozenBy, pf_bump = bump \<rparr>)))))) data 8"

definition decodeIdentityRegistryState :: "('x) chain_scheme \<Rightarrow> bytes \<Rightarrow> identity_registry_state_account res" where
  "decodeIdentityRegistryState C data =
    (next_field (sized 32 (readPubkey C)) (\<lambda>tokenMint.
     next_field (sized 32 (readPubkey C)) (\<lambda>owner.
     next_field (sized 32 (readPubkey C)) (\<lambda>irsAccount.
     next_field (sized 32 (readPubkey C)) (\<lambda>tirAccount.
     next_field (sized 32 (readPubkey C)) (\<lambda>ctrAccount.
     next_field (readVecPubkey C) (\<lambda>identityAgents.
     next_field (sized 8 readU64) (\<lambda>registeredCount.
     next_field (sized 1 readU8) (\<lambda>bump.
     finish \<lparr> irp_tokenMint = tokenMint, irp_owner = owner, irp_irsAccount = irsAccount,
        irp_tirAccount = tirAccount, irp_ctrAccount = ctrAccount,
        irp_identityAgents = identityAgents, irp_registeredCount = registeredCount, irp_bump = bump \<rparr>))))))))) data 8"

definition decodeIdentityRegistryStorageState :: "('x) chain_scheme \<Rightarrow> bytes \<Rightarrow> identity_registry_storage_state_account res" where
  "decodeIdentityRegistryStorageState C data =
    (next_field (sized 32 (readPubkey C)) (\<lambda>owner.
     next_field (readVecPubkey C) (\<lambda>bound.
     next_field (sized 8 readU64) (\<lambda>registeredCount.
     next_field (sized 1 readU8) (\<lambda>bump.
     finish \<lparr> irs_owner = owner, irs_boundRegistries = bound, irs_registeredCount = registeredCount,
        irs_bump = bump \<rparr>))))) data 8"

definition decodeWalletIdentity :: "('x) chain_scheme \<Rightarrow> bytes \<Rightarrow> wallet_identity_account res" where
  "decodeWalletIdentity C data =
    (next_field (sized 32 (readPubkey C)) (\<lambda>wallet.
     next_field (sized 32 (readPubkey C)) (\<lambda>fid.
     next_field (sized 2 readU16) (\<lambda>country.
     next_field (sized 32 (readPubkey C)) (\<lambda>irs.
     next_field (sized 1 readU8) (\<lambda>bump.
     finish \<lparr> wi_wallet = wallet, wi_fid = fid, wi_country = country, wi_irs = irs, wi_bump = bump \<rparr>)))))) data 8"

definition decodeTrustedIssuersState :: "('x) chain_scheme \<Rightarrow> bytes \<Rightarrow> trusted_issuers_state_account res" where
  "decodeTrustedIssuersState C data =
    (next_field (sized 32 (readPubkey C)) (\<lambda>owner.
     next_field (sized 32 (readPubkey C)) (\<lambda>tokenMint.
     next_field (sized 4 readU32) (\<lambda>issuerCount.
     next_field (sized 1 readU8) (\<lambda>bump.
     finish \<lparr> tir_owner = owner, tir_tokenMint = tokenMint, tir_issuerCount = issuerCount, tir_bump = bump \<rparr>))))) data 8"

definition decodeIssuerEntry :: "('x) chain_scheme \<Rightarrow> bytes \<Rightarrow> issuer_entry_account res" where
  "decodeIssuerEntry C data =
    (next_field (sized 32 (readPubkey C)) (\<lambda>issuerFid.
     next_field (sized 32 (readPubkey C)) (\<lambda>tir.
     next_field readVecU64 (\<lambda>topics.
     next_field (sized 1 readFlag) (\<lambda>isActive.
     next_field readString (\<lambda>label.
     next_field (sized 1 readU8) (\<lambda>bump.
     finish \<lparr> ie_issuerFid = issuerFid, ie_tir = tir, ie_allowedTopics = topics, ie_isActive = isActive,
        ie_label = label, ie_bump = bump \<rparr>))))))) data 8"

definition decodeClaimTopicsState :: "('x) chain_scheme \<Rightarrow> bytes \<Rightarrow> claim_topics_state_account res" where
  "decodeClaimTopicsState C data =
    (next_field (sized 32 (readPubkey C)) (\<lambda>owner.
     next_field (sized 32 (readPubkey C)) (\<lambda>tokenMint.
     next_field readVecU64 (\<lambda>topics.
     next_field (sized 1 readU8) (\<lambda>bump.
     finish \<lparr> ctr_owner = owner, ctr_tokenMint = tokenMint, ctr_topics = topics, ctr_bump = bump \<rparr>))))) data 8"

definition decodeComplianceState :: "('x) chain_scheme \<Rightarrow> bytes \<Rightarrow> compliance_state_account res" where
  "decodeComplianceState C data =
    (next_field (sized 32 (readPubkey C)) (\<lambda>owner.
     next_field (sized 32 (readPubkey C)) (\<lambda>tokenMint.
     next_field (readVecPubkey C) (\<lambda>modules.
     next_field (sized 1 readFlag) (\<lambda>modulesPaused.
     next_field (sized 1 readU8) (\<lambda>bump.
     finish \<lparr> cs_owner = owner, cs_tokenMint = tokenMint, cs_modules = modules,
        cs_modulesPaused = modulesPaused, cs_bump = bump \<rparr>)))))) data 8"

definition decodeFidAccount :: "('x) chain_scheme \<Rightarrow> bytes \<Rightarrow> fid_account_data res" where
  "decodeFidAccount C data =
    (next_field (sized 32 (readPubkey C)) (\<lambda>owner.
     next_field (sized 32 (readPubkey C)) (\<lambda>managementKey.
     next_field (sized 32 (readPubkey C)) (\<lambda>signerKey.
     next_field (sized 4 readU32) (\<lambda>claimCount.
     next_field (sized 1 readFlag) (\<lambda>isIssuer.
     next_field (sized 2 readU16) (\<lambda>country.
     next_field (sized 1 readU8) (\<lambda>bump.
     finish \<lparr> fid_owner = owner, fid_managementKey = managementKey, fid_signerKey = signerKey,
        fid_claimCount = claimCount, fid_isIssuer = isIssuer, fid_country = country, fid_bump = bump \<rparr>)))))))) data 8"

definition decodeClaimAccount :: "('x) chain_scheme \<Rightarrow> bytes \<Rightarrow> claim_account_data res" where
  "decodeClaimAccount C data =
    (next_field (sized 32 (readPubkey C)) (\<lambda>fid.
     next_field (sized 4 readU32) (\<lambda>claimId.
     next_field (sized 8 readU64) (\<lambda>topic.
     next_field (sized 32 (readPubkey C)) (\<lambda>issuerFid.
     next_field (sized 32 (readSlice 32)) (\<lambda>dataHash.
     next_field (sized 32 (readPubkey C)) (\<lambda>signerKey.
     next_field (sized 64 (readSlice 64)) (\<lambda>signature.
     next_field (sized 8 readI64) (\<lambda>issuedAt.
     next_field (sized 8 readI64) (\<lambda>expiresAt.
     next_field (sized 1 readFlag) (\<lambda>revoked.
     next_field (sized 1 readU8) (\<lambda>bump.
     finish \<lparr> cl_fid = fid, cl_claimId = claimId, cl_topic = topic, cl_issuerFid = issuerFid,
        cl_dataHash = dataHash, cl_signerKey = signerKey, cl_signature = signature,
        cl_issuedAt = issuedAt, cl_expiresAt = expiresAt, cl_revoked = revoked, cl_bump = bump \<rparr>)))))))))))) data 8"

definition decodeFactoryState :: "('x) chain_scheme \<Rightarrow> bytes \<Rightarrow> factory_state_account res" where
  "decodeFactoryState C data =
    (next_field (sized 32 (readPubkey C)) (\<lambda>owner.
     next_field (sized 32 (readPubkey C)) (\<lambda>tokenProgramId.
     next_field (sized 32 (readPubkey C)) (\<lambda>fidProgramId.
     next_field (sized 32 (readPubkey C)) (\<lambda>irpProgramId.
     next_field (sized 32 (readPubkey C)) (\<lambda>irsProgramId.
     next_field (sized 32 (readPubkey C)) (\<lambda>tirProgramId.
     next_field (sized 32 (readPubkey C)) (\<lambda>ctrProgramId.
     next_field (sized 32 (readPubkey C)) (\<lambda>complianceProgramId.
     next_field (sized 8 readU64) (\<lambda>deploymentCount.
     next_field (sized 1 readU8) (\<lambda>bump.
     finish \<lparr> fs_owner = owner, fs_tokenProgramId = tokenProgramId, fs_fidProgramId = fidProgramId,
        fs_irpProgramId = irpProgramId, fs_irsProgramId = irsProgramId,
        fs_tirProgramId = tirProgramId, fs_ctrProgramId = ctrProgramId,
        fs_complianceProgramId = complianceProgramId, fs_deploymentCount = deploymentCount,
        fs_bump = bump \<rparr>))))))))))) data 8"

definition decodeTokenDeployment :: "('x) chain_scheme \<Rightarrow> bytes \<Rightarrow> token_deployment_account res" where
  "decodeTokenDeployment C data =
    (next_field (sized 8 readU64) (\<lambda>deploymentId.
     next_field (sized 32 (readPubkey C)) (\<lambda>issuer.
     next_field (sized 32 (readSlice 32)) (\<lambda>salt.
     next_field (sized 32 (readPubkey C)) (\<lambda>tokenMint.
     next_field (sized 32 (readPubkey C)) (\<lambda>tokenState.
     next_field (sized 32 (readPubkey C)) (\<lambda>ownerState.
     next_field (sized 32 (readPubkey C)) (\<lambda>irpState.
     next_field (sized 32 (readPubkey C)) (\<lambda>irsState.
     next_field (sized 32 (readPubkey C)) (\<lambda>tirState.
     next_field (sized 32 (readPubkey C)) (\<lambda>ctrState.
     next_field (sized 32 (readPubkey C)) (\<lambda>complianceState.
     next_field (sized 8 readI64) (\<lambda>deployedAt.
     next_field (sized 1 readU8) (\<lambda>bump.
     finish \<lparr> td_deploymentId = deploymentId, td_issuer = issuer, td_salt = salt, td_tokenMint = tokenMint,
        td_tokenState = tokenState, td_ownerState = ownerState, td_irpState = irpState,
        td_irsState = irsState, td_tirState = tirState, td_ctrState = ctrState,
        td_complianceState = complianceState, td_deployedAt = deployedAt, td_bump = bump \<rparr>)))))))))))))) data 8"

definition decodeTransferApproval :: "('x) chain_scheme \<Rightarrow> bytes \<Rightarrow> transfer_approval_account res" where
  "decodeTransferApproval C data =
    (next_field (sized 32 (readPubkey C)) (\<lambda>tokenState.
     next_field (sized 32 (readPubkey C)) (\<lambda>sourceTokenAccount.
     next_field (sized 32 (readPubkey C)) (\<lambda>destinationTokenAccount.
     next_field (sized 32 (readPubkey C)) (\<lambda>authority.
     next_field (sized 32 (readPubkey C)) (\<lambda>sourceWallet.
     next_field (sized 32 (readPubkey C)) (\<lambda>destinationWallet.
     next_field (sized 8 readU64) (\<lambda>amount.
     next_field (sized 8 readU64) (\<lambda>fromBalance.
     next_field (sized 8 readU64) (\<lambda>toBalance.
     next_field (sized 2 readU16) (\<lambda>fromCountry.
     next_field (sized 2 readU16) (\<lambda>toCountry.
     next_field (sized 1 readU8) (\<lambda>kind.
     next_field (sized 1 readFlag) (\<lambda>consumed.
     next_field (sized 1 readFlag) (\<lambda>finalized.
     next_field (sized 1 readU8) (\<lambda>bump.
     finish \<lparr> ta_tokenState = tokenState, ta_sourceTokenAccount = sourceTokenAccount,
        ta_destinationTokenAccount = destinationTokenAccount, ta_authority = authority,
        ta_sourceWallet = sourceWallet, ta_destinationWallet = destinationWallet, ta_amount = amount,
        ta_fromBalance = fromBalance, ta_toBalance = toBalance, ta_fromCountry = fromCountry,
        ta_toCountry = toCountry, ta_kind = kind, ta_consumed = consumed, ta_finalized = finalized,
        ta_bump = bump \<rparr>)))))))))))))))) data 8"

section \<open>Layouts the programs write\<close>

definition token_state_layout :: "token_state_account \<Rightarrow> bval list" where
  "token_state_layout a =
     [BPubkey (ts_tokenMint a), BPubkey (ts_identityRegistry a), BPubkey (ts_compliance a),
        BBool (ts_paused a), BU8 (ts_decimals a), BString (ts_name a), BString (ts_symbol a),
        BString (ts_isin a), BU8 (ts_bump a)]"

record owner_state_onchain =
  oc_os_owner :: pubkey
  oc_os_token_mint :: pubkey
  oc_os_bump :: int

definition owner_state_layout :: "owner_state_onchain \<Rightarrow> bval list" where
  "owner_state_layout a =
     [BPubkey (oc_os_owner a), BPubkey (oc_os_token_mint a), BU8 (oc_os_bump a)]"

definition agent_role_layout :: "agent_role_account \<Rightarrow> bval list" where
  "agent_role_layout a =
     [BPubkey (ar_agent a), BPubkey (ar_tokenMint a), BBool (ar_isActive a), BU8 (ar_bump a)]"

definition frozen_wallet_layout :: "frozen_wallet_account \<Rightarrow> bval list" where
  "frozen_wallet_layout a =
     [BPubkey (fw_wallet a), BPubkey (fw_tokenMint a), BPubkey (fw_frozenBy a),
        BI64 (fw_frozenAt a), BU8 (fw_bump a)]"

definition partial_freeze_layout :: "partial_freeze_account \<Rightarrow> bval list" where
  "partial_freeze_layout a =
     [BPubkey (pf_wallet a), BPubkey (pf_tokenMint a), BU64 (pf_frozenAmount a),
        BPubkey (pf_frozenBy a), BU8 (pf_bump a)]"

definition identity_registry_state_layout :: "identity_registry_state_account \<Rightarrow> bval list" where
  "identity_registry_state_layout a =
     [BPubkey (irp_tokenMint a), BPubkey (irp_owner a), BPubkey (irp_irsAccount a),
        BPubkey (irp_tirAccount a), BPubkey (irp_ctrAccount a), BVecPubkey (irp_identityAgents a),
        BU64 (irp_registeredCount a), BU8 (irp_bump a)]"

record identity_registry_storage_state_onchain =
  oc_irs_owner :: pubkey
  oc_irs_authority_seed :: pubkey
  oc_irs_bound_registries :: "pubkey list"
  oc_irs_registered_count :: int
  oc_irs_bump :: int

definition identity_registry_storage_state_layout :: "identity_registry_storage_state_onchain \<Rightarrow> bval list" where
  "identity_registry_storage_state_layout a =
     [BPubkey (oc_irs_owner a), BPubkey (oc_irs_authority_seed a),
        BVecPubkey (oc_irs_bound_registries a), BU64 (oc_irs_registered_count a),
        BU8 (oc_irs_bump a)]"

record wallet_identity_onchain =
  oc_wi_wallet :: pubkey
  oc_wi_fid :: pubkey
  oc_wi_country :: int
  oc_wi_irs :: pubkey
  oc_wi_is_active :: bool
  oc_wi_activated_by :: pubkey
  oc_wi_activated_at :: int
  oc_wi_bump :: int

definition wallet_identity_layout :: "wallet_identity_onchain \<Rightarrow> bval list" where
  "wallet_identity_layout a =
     [BPubkey (oc_wi_wallet a), BPubkey (oc_wi_fid a), BU16 (oc_wi_country a),
        BPubkey (oc_wi_irs a), BBool (oc_wi_is_active a), BPubkey (oc_wi_activated_by a),
        BI64 (oc_wi_activated_at a), BU8 (oc_wi_bump a)]"

definition trusted_issuers_state_layout :: "trusted_issuers_state_account \<Rightarrow> bval list" where
  "trusted_issuers_state_layout a =
     [BPubkey (tir_owner a), BPubkey (tir_tokenMint a), BU32 (tir_issuerCount a), BU8 (tir_bump a)]"

definition issuer_entry_layout :: "issuer_entry_account \<Rightarrow> bval list" where
  "issuer_entry_layout a =
     [BPubkey (ie_issuerFid a), BPubkey (ie_tir a), BVecU64 (ie_allowedTopics a),
        BBool (ie_isActive a), BString (ie_label a), BU8 (ie_bump a)]"

definition claim_topics_state_layout :: "claim_topics_state_account \<Rightarrow> bval list" where
  "claim_topics_state_layout a =
     [BPubkey (ctr_owner a), BPubkey (ctr_tokenMint a), BVecU64 (ctr_topics a), BU8 (ctr_bump a)]"

definition compliance_state_layout :: "compliance_state_account \<Rightarrow> bval list" where
  "compliance_state_layout a =
     [BPubkey (cs_owner a), BPubkey (cs_tokenMint a), BVecPubkey (cs_modules a),
        BBool (cs_modulesPaused a), BU8 (cs_bump a)]"

definition fid_account_layout :: "fid_account_data \<Rightarrow> bval list" where
  "fid_account_layout a =
     [BPubkey (fid_owner a), BPubkey (fid_managementKey a), BPubkey (fid_signerKey a),
        BU32 (fid_claimCount a), BBool (fid_isIssuer a), BU16 (fid_country a), BU8 (fid_bump a)]"

definition claim_account_layout :: "claim_account_data \<Rightarrow> bval list" where
  "claim_account_layout a =
     [BPubkey (cl_fid a), BU32 (cl_claimId a), BU64 (cl_topic a), BPubkey (cl_issuerFid a),
        BFixed 32 (cl_dataHash a), BPubkey (cl_signerKey a), BFixed 64 (cl_signature a),
        BI64 (cl_issuedAt a), BI64 (cl_expiresAt a), BBool (cl_revoked a), BU8 (cl_bump a)]"

definition factory_state_layout :: "factory_state_account \<Rightarrow> bval list" where
  "factory_state_layout a =
     [BPubkey (fs_owner a), BPubkey (fs_tokenProgramId a), BPubkey (fs_fidProgramId a),
        BPubkey (fs_irpProgramId a), BPubkey (fs_irsProgramId a), BPubkey (fs_tirProgramId a),
        BPubkey (fs_ctrProgramId a), BPubkey (fs_complianceProgramId a), BU64 (fs_deploymentCount a),
        BU8 (fs_bump a)]"

record token_deployment_onchain =
  oc_td_deployment_id :: int
  oc_td_asset_id :: int
  oc_td_issuer :: pubkey
  oc_td_salt :: bytes
  oc_td_token_mint :: pubkey
  oc_td_token_state :: pubkey
  oc_td_owner_state :: pubkey
  oc_td_irp_state :: pubkey
  oc_td_irs_state :: pubkey
  oc_td_tir_state :: pubkey
  oc_td_ctr_state :: pubkey
  oc_td_compliance_state :: pubkey
  oc_td_custody_mandate :: pubkey
  oc_td_custody_attestation :: pubkey
  oc_td_deployed_at :: int
  oc_td_bump :: int

definition token_deployment_layout :: "token_deployment_onchain \<Rightarrow> bval list" where
  "token_deployment_layout a =
     [BU64 (oc_td_deployment_id a), BU64 (oc_td_asset_id a), BPubkey (oc_td_issuer a),
        BFixed 32 (oc_td_salt a), BPubkey (oc_td_token_mint a), BPubkey (oc_td_token_state a),
        BPubkey (oc_td_owner_state a), BPubkey (oc_td_irp_state a), BPubkey (oc_td_irs_state a),
        BPubkey (oc_td_tir_state a), BPubkey (oc_td_ctr_state a), BPubkey (oc_td_compliance_state a),
        BPubkey (oc_td_custody_mandate a), BPubkey (oc_td_custody_attestation a),
        BI64 (oc_td_deployed_at a), BU8 (oc_td_bump a)]"

definition transfer_approval_layout :: "transfer_approval_account \<Rightarrow> bval list" where
  "transfer_approval_layout a =
     [BPubkey (ta_tokenState a), BPubkey (ta_sourceTokenAccount a),
        BPubkey (ta_destinationTokenAccount a), BPubkey (ta_authority a),
        BPubkey (ta_sourceWallet a), BPubkey (ta_destinationWallet a), BU64 (ta_amount a),
        BU64 (ta_fromBalance a), BU64 (ta_toBalance a), BU16 (ta_fromCountry a),
        BU16 (ta_toCountry a), BU8 (ta_kind a), BBool (ta_consumed a), BBool (ta_finalized a),
        BU8 (ta_bump a)]"

end
