(* ===== verification/Addresses.thy ===== *)
theory Addresses
  imports Wire
begin

text \<open>
  Program-derived addresses (\<open>frontend/src/lib/solana/index.ts\<close>, section 4). \<open>find_pda\<close> stands for
  \<open>PublicKey.findProgramAddressSync\<close>, which hashes the concatenation of the seeds with the program.
\<close>

record program_ids =
  factory :: pubkey
  token :: pubkey
  tokenHook :: pubkey
  irp :: pubkey
  irs :: pubkey
  tir :: pubkey
  ctr :: pubkey
  compliance :: pubkey
  fid :: pubkey

record module_ids =
  MOD_MAX_INVESTORS :: pubkey
  MOD_COUNTRY_RESTRICT :: pubkey
  MOD_MAX_BALANCE :: pubkey
  MOD_MAX_TRANSFER :: pubkey
  MOD_LOCKUP :: pubkey
  MOD_DAILY_LIMIT :: pubkey
  MOD_SUPPLY_CAP :: pubkey
  MOD_COUNTRY_CAP :: pubkey

definition findProgramAddressSync ::
    "('x) chain_scheme \<Rightarrow> bytes list \<Rightarrow> pubkey \<Rightarrow> (pubkey \<times> int) res" where
  "findProgramAddressSync C seeds program =
     (case find_pda C seeds program of Inl e \<Rightarrow> Inl (JsError e) | Inr a \<Rightarrow> Inr a)"

definition deriveTokenStatePDA where
  "deriveTokenStatePDA C P tokenMint =
     findProgramAddressSync C [ascii ''token_state'', tokenMint] (token P)"

definition deriveOwnerStatePDA where
  "deriveOwnerStatePDA C P tokenMint =
     findProgramAddressSync C [ascii ''owner'', tokenMint] (token P)"

definition deriveAgentRolePDA where
  "deriveAgentRolePDA C P tokenMint agent =
     findProgramAddressSync C [ascii ''agent'', tokenMint, agent] (token P)"

definition deriveFrozenWalletPDA where
  "deriveFrozenWalletPDA C P tokenMint wallet =
     findProgramAddressSync C [ascii ''frozen'', tokenMint, wallet] (token P)"

definition derivePartialFreezePDA where
  "derivePartialFreezePDA C P tokenMint wallet =
     findProgramAddressSync C [ascii ''partial_freeze'', tokenMint, wallet] (token P)"

definition deriveTransferApprovalPDA where
  "deriveTransferApprovalPDA C P sourceTokenAccount destinationTokenAccount authoritySeed =
     findProgramAddressSync C
       [ascii ''transfer_approval'', sourceTokenAccount, destinationTokenAccount, authoritySeed]
       (tokenHook P)"

definition deriveExtraAccountMetasPDA where
  "deriveExtraAccountMetasPDA C P tokenMint =
     findProgramAddressSync C [ascii ''extra-account-metas'', tokenMint] (tokenHook P)"

definition deriveIrpStatePDA where
  "deriveIrpStatePDA C P tokenMint =
     findProgramAddressSync C [ascii ''irp_state'', tokenMint] (irp P)"

definition deriveIrsStatePDA where
  "deriveIrsStatePDA C P authoritySeed =
     findProgramAddressSync C [ascii ''irs_state'', authoritySeed] (irs P)"

definition deriveWalletIdentityPDA where
  "deriveWalletIdentityPDA C P irsState wallet =
     findProgramAddressSync C [ascii ''wallet_identity'', irsState, wallet] (irs P)"

definition deriveTirStatePDA where
  "deriveTirStatePDA C P tokenMint =
     findProgramAddressSync C [ascii ''tir_state'', tokenMint] (tir P)"

definition deriveIssuerEntryPDA where
  "deriveIssuerEntryPDA C P tirState issuerFid =
     findProgramAddressSync C [ascii ''issuer_entry'', tirState, issuerFid] (tir P)"

definition deriveCtrStatePDA where
  "deriveCtrStatePDA C P tokenMint =
     findProgramAddressSync C [ascii ''ctr_state'', tokenMint] (ctr P)"

definition deriveComplianceStatePDA where
  "deriveComplianceStatePDA C P tokenMint =
     findProgramAddressSync C [ascii ''compliance_state'', tokenMint] (compliance P)"

definition deriveFidPDA where
  "deriveFidPDA C P owner = findProgramAddressSync C [ascii ''fid'', owner] (fid P)"

definition deriveClaimPDA where
  "deriveClaimPDA C P fidKey claimId =
     (case write_uint 4 claimId of Inl e \<Rightarrow> Inl e | Inr idBuf \<Rightarrow>
        findProgramAddressSync C [ascii ''claim'', fidKey, idBuf] (fid P))"

definition deriveFactoryStatePDA where
  "deriveFactoryStatePDA C P = findProgramAddressSync C [ascii ''factory_state''] (factory P)"

definition deriveDeploymentPDA where
  "deriveDeploymentPDA C P issuer salt32 =
     findProgramAddressSync C [ascii ''deployment'', issuer, salt32] (factory P)"

text \<open>In an object literal a later entry replaces an earlier one with the same key.\<close>

definition MODULE_STATE_SEEDS :: "('x) chain_scheme \<Rightarrow> module_ids \<Rightarrow> (string \<times> string) list" where
  "MODULE_STATE_SEEDS C M = rev
     [(toBase58 C (MOD_MAX_INVESTORS M), ''mod_max_investors''),
      (toBase58 C (MOD_COUNTRY_RESTRICT M), ''mod_country''),
      (toBase58 C (MOD_MAX_BALANCE M), ''mod_max_balance''),
      (toBase58 C (MOD_MAX_TRANSFER M), ''mod_max_transfer''),
      (toBase58 C (MOD_LOCKUP M), ''mod_lockup''),
      (toBase58 C (MOD_DAILY_LIMIT M), ''mod_daily_limit''),
      (toBase58 C (MOD_SUPPLY_CAP M), ''mod_supply_cap''),
      (toBase58 C (MOD_COUNTRY_CAP M), ''mod_country_cap'')]"

definition deriveComplianceModuleStatePDA ::
    "('x) chain_scheme \<Rightarrow> module_ids \<Rightarrow> pubkey \<Rightarrow> pubkey \<Rightarrow> (pubkey \<times> int) res" where
  "deriveComplianceModuleStatePDA C M moduleProgramId tokenMint =
     (case map_of (MODULE_STATE_SEEDS C M) (toBase58 C moduleProgramId) of
        None \<Rightarrow> Inl (JsError (''Unknown compliance module program: '' @ toBase58 C moduleProgramId))
      | Some seed \<Rightarrow> findProgramAddressSync C [ascii seed, tokenMint] moduleProgramId)"

section \<open>An address belongs to one account\<close>

datatype pda =
    PTokenState pubkey
  | POwnerState pubkey
  | PAgentRole pubkey pubkey
  | PFrozenWallet pubkey pubkey
  | PPartialFreeze pubkey pubkey
  | PTransferApproval pubkey pubkey pubkey
  | PExtraAccountMetas pubkey
  | PIrpState pubkey
  | PIrsState pubkey
  | PWalletIdentity pubkey pubkey
  | PTirState pubkey
  | PIssuerEntry pubkey pubkey
  | PCtrState pubkey
  | PComplianceState pubkey
  | PFid pubkey
  | PClaim pubkey int
  | PFactoryState
  | PDeployment pubkey bytes

fun derive_pda :: "('x) chain_scheme \<Rightarrow> program_ids \<Rightarrow> pda \<Rightarrow> (pubkey \<times> int) res" where
  "derive_pda C P (PTokenState m) = deriveTokenStatePDA C P m"
| "derive_pda C P (POwnerState m) = deriveOwnerStatePDA C P m"
| "derive_pda C P (PAgentRole m a) = deriveAgentRolePDA C P m a"
| "derive_pda C P (PFrozenWallet m w) = deriveFrozenWalletPDA C P m w"
| "derive_pda C P (PPartialFreeze m w) = derivePartialFreezePDA C P m w"
| "derive_pda C P (PTransferApproval s d a) = deriveTransferApprovalPDA C P s d a"
| "derive_pda C P (PExtraAccountMetas m) = deriveExtraAccountMetasPDA C P m"
| "derive_pda C P (PIrpState m) = deriveIrpStatePDA C P m"
| "derive_pda C P (PIrsState a) = deriveIrsStatePDA C P a"
| "derive_pda C P (PWalletIdentity i w) = deriveWalletIdentityPDA C P i w"
| "derive_pda C P (PTirState m) = deriveTirStatePDA C P m"
| "derive_pda C P (PIssuerEntry t f) = deriveIssuerEntryPDA C P t f"
| "derive_pda C P (PCtrState m) = deriveCtrStatePDA C P m"
| "derive_pda C P (PComplianceState m) = deriveComplianceStatePDA C P m"
| "derive_pda C P (PFid k) = deriveFidPDA C P k"
| "derive_pda C P (PClaim f i) = deriveClaimPDA C P f i"
| "derive_pda C P PFactoryState = deriveFactoryStatePDA C P"
| "derive_pda C P (PDeployment i s) = deriveDeploymentPDA C P i s"

text \<open>What the derivation hashes: the program and the concatenated seeds.\<close>

fun pda_preimage :: "program_ids \<Rightarrow> pda \<Rightarrow> pubkey \<times> bytes" where
  "pda_preimage P (PTokenState m) = (token P, ascii ''token_state'' @ m)"
| "pda_preimage P (POwnerState m) = (token P, ascii ''owner'' @ m)"
| "pda_preimage P (PAgentRole m a) = (token P, ascii ''agent'' @ m @ a)"
| "pda_preimage P (PFrozenWallet m w) = (token P, ascii ''frozen'' @ m @ w)"
| "pda_preimage P (PPartialFreeze m w) = (token P, ascii ''partial_freeze'' @ m @ w)"
| "pda_preimage P (PTransferApproval s d a) = (tokenHook P, ascii ''transfer_approval'' @ s @ d @ a)"
| "pda_preimage P (PExtraAccountMetas m) = (tokenHook P, ascii ''extra-account-metas'' @ m)"
| "pda_preimage P (PIrpState m) = (irp P, ascii ''irp_state'' @ m)"
| "pda_preimage P (PIrsState a) = (irs P, ascii ''irs_state'' @ a)"
| "pda_preimage P (PWalletIdentity i w) = (irs P, ascii ''wallet_identity'' @ i @ w)"
| "pda_preimage P (PTirState m) = (tir P, ascii ''tir_state'' @ m)"
| "pda_preimage P (PIssuerEntry t f) = (tir P, ascii ''issuer_entry'' @ t @ f)"
| "pda_preimage P (PCtrState m) = (ctr P, ascii ''ctr_state'' @ m)"
| "pda_preimage P (PComplianceState m) = (compliance P, ascii ''compliance_state'' @ m)"
| "pda_preimage P (PFid k) = (fid P, ascii ''fid'' @ k)"
| "pda_preimage P (PClaim f i) = (fid P, ascii ''claim'' @ f @ le_bytes 4 i)"
| "pda_preimage P PFactoryState = (factory P, ascii ''factory_state'')"
| "pda_preimage P (PDeployment i s) = (factory P, ascii ''deployment'' @ i @ s)"

fun pda_ok :: "pda \<Rightarrow> bool" where
  "pda_ok (PTokenState m) = (length m = 32)"
| "pda_ok (POwnerState m) = (length m = 32)"
| "pda_ok (PAgentRole m a) = (length m = 32 \<and> length a = 32)"
| "pda_ok (PFrozenWallet m w) = (length m = 32 \<and> length w = 32)"
| "pda_ok (PPartialFreeze m w) = (length m = 32 \<and> length w = 32)"
| "pda_ok (PTransferApproval s d a) = (length s = 32 \<and> length d = 32 \<and> length a = 32)"
| "pda_ok (PExtraAccountMetas m) = (length m = 32)"
| "pda_ok (PIrpState m) = (length m = 32)"
| "pda_ok (PIrsState a) = (length a = 32)"
| "pda_ok (PWalletIdentity i w) = (length i = 32 \<and> length w = 32)"
| "pda_ok (PTirState m) = (length m = 32)"
| "pda_ok (PIssuerEntry t f) = (length t = 32 \<and> length f = 32)"
| "pda_ok (PCtrState m) = (length m = 32)"
| "pda_ok (PComplianceState m) = (length m = 32)"
| "pda_ok (PFid k) = (length k = 32)"
| "pda_ok (PClaim f i) = (length f = 32)"
| "pda_ok PFactoryState = True"
| "pda_ok (PDeployment i s) = (length i = 32 \<and> length s = 32)"

definition programs_distinct :: "program_ids \<Rightarrow> bool" where
  "programs_distinct P =
     distinct [factory P, token P, tokenHook P, irp P, irs P, tir P, ctr P, compliance P, fid P]"

lemmas derive_defs = deriveTokenStatePDA_def deriveOwnerStatePDA_def deriveAgentRolePDA_def
  deriveFrozenWalletPDA_def derivePartialFreezePDA_def deriveTransferApprovalPDA_def
  deriveExtraAccountMetasPDA_def deriveIrpStatePDA_def deriveIrsStatePDA_def
  deriveWalletIdentityPDA_def deriveTirStatePDA_def deriveIssuerEntryPDA_def deriveCtrStatePDA_def
  deriveComplianceStatePDA_def deriveFidPDA_def deriveClaimPDA_def deriveFactoryStatePDA_def
  deriveDeploymentPDA_def

lemma findProgramAddressSync_InrD:
  "findProgramAddressSync C s p = Inr a \<Longrightarrow> find_pda C s p = Inr a"
  by (simp add: findProgramAddressSync_def split: sum.splits)

text \<open>A derivation is one call of \<open>find_pda\<close> on seeds whose concatenation is the preimage.\<close>

lemma derive_pda_call:
  assumes "derive_pda C P x = Inr a"
  shows "\<exists>seeds. find_pda C seeds (fst (pda_preimage P x)) = Inr a \<and>
                 concat seeds = snd (pda_preimage P x)"
  using assms
  by (cases x) (auto simp: derive_defs write_uint_def split: if_splits
      intro!: exI dest!: findProgramAddressSync_InrD)

lemma derive_claim_fits: "derive_pda C P (PClaim f i) = Inr a \<Longrightarrow> fits 4 i"
  by (auto simp: deriveClaimPDA_def write_uint_def fits_def split: if_splits)

lemma length_ascii [simp]: "length (ascii s) = length s"
  by (simp add: ascii_def)

text \<open>Within one program the kinds of account have preimages of different lengths.\<close>

fun claim_id_ok :: "pda \<Rightarrow> bool" where
  "claim_id_ok (PClaim f i) = fits 4 i"
| "claim_id_ok x = True"

lemma le_bytes_fits_inj: "fits n v \<Longrightarrow> fits n w \<Longrightarrow> le_bytes n v = le_bytes n w \<Longrightarrow> v = w"
  using le_bytes_inj [of n v w] by simp

lemma pda_preimage_inj:
  assumes P: "programs_distinct P" and ok: "pda_ok x" "pda_ok y" "claim_id_ok x" "claim_id_ok y"
    and eq: "pda_preimage P x = pda_preimage P y"
  shows "x = y"
proof -
  have f: "fst (pda_preimage P x) = fst (pda_preimage P y)"
    and l: "length (snd (pda_preimage P x)) = length (snd (pda_preimage P y))"
    and s: "snd (pda_preimage P x) = snd (pda_preimage P y)" using eq by simp_all
  show ?thesis
    using P f l s ok
    by (cases x; cases y) (simp_all add: programs_distinct_def le_bytes_fits_inj)
qed

lemma derive_claim_id_ok: "derive_pda C P x = Inr a \<Longrightarrow> claim_id_ok x"
  by (cases x) (simp_all add: derive_claim_fits)

text \<open>
  C27. Two different accounts (of 18 kinds, over 32-byte keys, 32-byte salts and any claim id)
  for which the client derives the same address exhibit a collision of the address hash: the
  program and the concatenated seeds it was called with differ.
\<close>

theorem shared_address_is_a_collision:
  assumes "programs_distinct P" and "pda_ok x" and "pda_ok y" and "x \<noteq> y"
    and "derive_pda C P x = Inr (a, b)" and "derive_pda C P y = Inr (a, b')"
  shows "\<exists>seeds program seeds' program'.
    find_pda C seeds program = Inr (a, b) \<and> find_pda C seeds' program' = Inr (a, b') \<and>
    (program, concat seeds) \<noteq> (program', concat seeds')"
proof -
  have "pda_preimage P x \<noteq> pda_preimage P y"
    using pda_preimage_inj [OF assms(1-3)] derive_claim_id_ok assms(4-6) by blast
  with derive_pda_call [OF assms(5)] derive_pda_call [OF assms(6)] show ?thesis
    by (metis prod.collapse)
qed

definition constant_address :: chain where
  "constant_address = \<lparr> pk_of_string = (\<lambda>s. Inr (ascii s)), pk_of_bytes = Inr, toBase58 = (\<lambda>k. []),
     token_2022 = [], ata_of = (\<lambda>m w. Inr []), find_pda = (\<lambda>s p. Inr ([7], 255)),
     account_info = (\<lambda>k. Inr None) \<rparr>"

definition sample_programs :: program_ids where
  "sample_programs = \<lparr> factory = [1], token = [2], tokenHook = [3], irp = [4], irs = [5], tir = [6],
     ctr = [7], compliance = [8], fid = [9] \<rparr>"

theorem shared_address_is_a_collision_witness:
  "\<exists>seeds program seeds' program'.
    find_pda constant_address seeds program = Inr ([7], 255) \<and>
    find_pda constant_address seeds' program' = Inr ([7], 255) \<and>
    (program, concat seeds) \<noteq> (program', concat seeds')"
  by (rule shared_address_is_a_collision [of sample_programs "PTokenState (replicate 32 0)"
        "POwnerState (replicate 32 0)"])
    (simp_all add: programs_distinct_def sample_programs_def constant_address_def derive_defs
      findProgramAddressSync_def)

end
