(* ===== verification/AccountFetch.thy ===== *)
theory AccountFetch
  imports Accounts Addresses
begin

text \<open>
  The account fetchers of \<open>frontend/src/lib/solana/index.ts\<close> and the correctness of the decoders:
  what a program wrote is what the client reads, for the accounts whose decoder follows the layout
  of the program; and what the client reads where it does not.
\<close>

section \<open>Fetching\<close>

definition fetchRawAccount :: "('x) chain_scheme \<Rightarrow> pubkey \<Rightarrow> account option res" where
  "fetchRawAccount C address =
     (case account_info C address of Inl e \<Rightarrow> Inl (JsError e) | Inr info \<Rightarrow> Inr info)"

definition fetchDecodedAccount ::
    "('x) chain_scheme \<Rightarrow> pubkey \<Rightarrow> (bytes \<Rightarrow> 'a res) \<Rightarrow> 'a option res" where
  "fetchDecodedAccount C address decoder =
     (case fetchRawAccount C address of
        Inl e \<Rightarrow> Inl e
      | Inr None \<Rightarrow> Inr None
      | Inr (Some info) \<Rightarrow>
          (case decoder (acc_data info) of Inl e \<Rightarrow> Inl e | Inr a \<Rightarrow> Inr (Some a)))"

text \<open>\<open>const [pda] = derive(...)\<close> followed by the use of the address.\<close>

definition with_pda :: "(pubkey \<times> int) res \<Rightarrow> (pubkey \<Rightarrow> 'a res) \<Rightarrow> 'a res" where
  "with_pda r k = (case r of Inl e \<Rightarrow> Inl e | Inr (pda, bump) \<Rightarrow> k pda)"

definition fetchTokenStateAccount where
  "fetchTokenStateAccount C P tokenMint =
     with_pda (deriveTokenStatePDA C P tokenMint) (\<lambda>pda. fetchDecodedAccount C pda (decodeTokenState C))"

definition fetchOwnerStateAccount where
  "fetchOwnerStateAccount C P tokenMint =
     with_pda (deriveOwnerStatePDA C P tokenMint) (\<lambda>pda. fetchDecodedAccount C pda (decodeOwnerState C))"

definition fetchAgentRoleAccount where
  "fetchAgentRoleAccount C P tokenMint agent =
     with_pda (deriveAgentRolePDA C P tokenMint agent) (\<lambda>pda. fetchDecodedAccount C pda (decodeAgentRole C))"

definition fetchFrozenWalletAccount where
  "fetchFrozenWalletAccount C P tokenMint wallet =
     with_pda (deriveFrozenWalletPDA C P tokenMint wallet) (\<lambda>pda. fetchDecodedAccount C pda (decodeFrozenWallet C))"

definition fetchPartialFreezeAccount where
  "fetchPartialFreezeAccount C P tokenMint wallet =
     with_pda (derivePartialFreezePDA C P tokenMint wallet) (\<lambda>pda. fetchDecodedAccount C pda (decodePartialFreeze C))"

definition fetchTransferApprovalAccount where
  "fetchTransferApprovalAccount C P sourceTokenAccount destinationTokenAccount authoritySeed =
     with_pda (deriveTransferApprovalPDA C P sourceTokenAccount destinationTokenAccount authoritySeed) (\<lambda>pda. fetchDecodedAccount C pda (decodeTransferApproval C))"

definition fetchIrpStateAccount where
  "fetchIrpStateAccount C P tokenMint =
     with_pda (deriveIrpStatePDA C P tokenMint) (\<lambda>pda. fetchDecodedAccount C pda (decodeIdentityRegistryState C))"

definition fetchIrsStateAccount where
  "fetchIrsStateAccount C P authoritySeed =
     with_pda (deriveIrsStatePDA C P authoritySeed) (\<lambda>pda. fetchDecodedAccount C pda (decodeIdentityRegistryStorageState C))"

definition fetchWalletIdentityAccount where
  "fetchWalletIdentityAccount C P irsState wallet =
     with_pda (deriveWalletIdentityPDA C P irsState wallet) (\<lambda>pda. fetchDecodedAccount C pda (decodeWalletIdentity C))"

definition fetchTirStateAccount where
  "fetchTirStateAccount C P tokenMint =
     with_pda (deriveTirStatePDA C P tokenMint) (\<lambda>pda. fetchDecodedAccount C pda (decodeTrustedIssuersState C))"

definition fetchIssuerEntryAccount where
  "fetchIssuerEntryAccount C P tirState issuerFid =
     with_pda (deriveIssuerEntryPDA C P tirState issuerFid) (\<lambda>pda. fetchDecodedAccount C pda (decodeIssuerEntry C))"

definition fetchCtrStateAccount where
  "fetchCtrStateAccount C P tokenMint =
     with_pda (deriveCtrStatePDA C P tokenMint) (\<lambda>pda. fetchDecodedAccount C pda (decodeClaimTopicsState C))"

definition fetchComplianceStateAccount where
  "fetchComplianceStateAccount C P tokenMint =
     with_pda (deriveComplianceStatePDA C P tokenMint) (\<lambda>pda. fetchDecodedAccount C pda (decodeComplianceState C))"

definition fetchFidAccount where
  "fetchFidAccount C P owner =
     with_pda (deriveFidPDA C P owner) (\<lambda>pda. fetchDecodedAccount C pda (decodeFidAccount C))"

definition fetchClaimAccount where
  "fetchClaimAccount C P fidKey claimId =
     with_pda (deriveClaimPDA C P fidKey claimId) (\<lambda>pda. fetchDecodedAccount C pda (decodeClaimAccount C))"

definition fetchFactoryStateAccount where
  "fetchFactoryStateAccount C P =
     with_pda (deriveFactoryStatePDA C P) (\<lambda>pda. fetchDecodedAccount C pda (decodeFactoryState C))"

definition fetchDeploymentAccount where
  "fetchDeploymentAccount C P issuer salt32 =
     with_pda (deriveDeploymentPDA C P issuer salt32) (\<lambda>pda. fetchDecodedAccount C pda (decodeTokenDeployment C))"

record extra_account_metas_raw_account =
  em_tokenMint :: pubkey
  em_pda :: pubkey
  em_data :: bytes

definition fetchExtraAccountMetasAccount where
  "fetchExtraAccountMetasAccount C P tokenMint =
     with_pda (deriveExtraAccountMetasPDA C P tokenMint) (\<lambda>pda.
       case fetchRawAccount C pda of
         Inl e \<Rightarrow> Inl e
       | Inr None \<Rightarrow> Inr None
       | Inr (Some info) \<Rightarrow>
           Inr (Some \<lparr> em_tokenMint = tokenMint, em_pda = pda, em_data = acc_data info \<rparr>))"

section \<open>Decoders read what the programs write\<close>

lemma decodeTokenState_layout:
  assumes "length disc = 8" and "list_all (bval_ok C) (token_state_layout a)"
  shows "decodeTokenState C (disc @ borsh (token_state_layout a) @ pad) = Inr a"
  unfolding decodeTokenState_def
  by (rule parses_run [OF _ assms(1)], unfold token_state_layout_def, intro parses_rules)
    (use assms(2) in \<open>simp_all add: token_state_layout_def\<close>)

lemma decodeAgentRole_layout:
  assumes "length disc = 8" and "list_all (bval_ok C) (agent_role_layout a)"
  shows "decodeAgentRole C (disc @ borsh (agent_role_layout a) @ pad) = Inr a"
  unfolding decodeAgentRole_def
  by (rule parses_run [OF _ assms(1)], unfold agent_role_layout_def, intro parses_rules)
    (use assms(2) in \<open>simp_all add: agent_role_layout_def\<close>)

lemma decodeFrozenWallet_layout:
  assumes "length disc = 8" and "list_all (bval_ok C) (frozen_wallet_layout a)"
  shows "decodeFrozenWallet C (disc @ borsh (frozen_wallet_layout a) @ pad) = Inr a"
  unfolding decodeFrozenWallet_def
  by (rule parses_run [OF _ assms(1)], unfold frozen_wallet_layout_def, intro parses_rules)
    (use assms(2) in \<open>simp_all add: frozen_wallet_layout_def\<close>)

lemma decodePartialFreeze_layout:
  assumes "length disc = 8" and "list_all (bval_ok C) (partial_freeze_layout a)"
  shows "decodePartialFreeze C (disc @ borsh (partial_freeze_layout a) @ pad) = Inr a"
  unfolding decodePartialFreeze_def
  by (rule parses_run [OF _ assms(1)], unfold partial_freeze_layout_def, intro parses_rules)
    (use assms(2) in \<open>simp_all add: partial_freeze_layout_def\<close>)

lemma decodeIdentityRegistryState_layout:
  assumes "length disc = 8" and "list_all (bval_ok C) (identity_registry_state_layout a)"
  shows "decodeIdentityRegistryState C (disc @ borsh (identity_registry_state_layout a) @ pad) = Inr a"
  unfolding decodeIdentityRegistryState_def
  by (rule parses_run [OF _ assms(1)], unfold identity_registry_state_layout_def, intro parses_rules)
    (use assms(2) in \<open>simp_all add: identity_registry_state_layout_def\<close>)

lemma decodeTrustedIssuersState_layout:
  assumes "length disc = 8" and "list_all (bval_ok C) (trusted_issuers_state_layout a)"
  shows "decodeTrustedIssuersState C (disc @ borsh (trusted_issuers_state_layout a) @ pad) = Inr a"
  unfolding decodeTrustedIssuersState_def
  by (rule parses_run [OF _ assms(1)], unfold trusted_issuers_state_layout_def, intro parses_rules)
    (use assms(2) in \<open>simp_all add: trusted_issuers_state_layout_def\<close>)

lemma decodeIssuerEntry_layout:
  assumes "length disc = 8" and "list_all (bval_ok C) (issuer_entry_layout a)"
  shows "decodeIssuerEntry C (disc @ borsh (issuer_entry_layout a) @ pad) = Inr a"
  unfolding decodeIssuerEntry_def
  by (rule parses_run [OF _ assms(1)], unfold issuer_entry_layout_def, intro parses_rules)
    (use assms(2) in \<open>simp_all add: issuer_entry_layout_def\<close>)

lemma decodeClaimTopicsState_layout:
  assumes "length disc = 8" and "list_all (bval_ok C) (claim_topics_state_layout a)"
  shows "decodeClaimTopicsState C (disc @ borsh (claim_topics_state_layout a) @ pad) = Inr a"
  unfolding decodeClaimTopicsState_def
  by (rule parses_run [OF _ assms(1)], unfold claim_topics_state_layout_def, intro parses_rules)
    (use assms(2) in \<open>simp_all add: claim_topics_state_layout_def\<close>)

lemma decodeComplianceState_layout:
  assumes "length disc = 8" and "list_all (bval_ok C) (compliance_state_layout a)"
  shows "decodeComplianceState C (disc @ borsh (compliance_state_layout a) @ pad) = Inr a"
  unfolding decodeComplianceState_def
  by (rule parses_run [OF _ assms(1)], unfold compliance_state_layout_def, intro parses_rules)
    (use assms(2) in \<open>simp_all add: compliance_state_layout_def\<close>)

lemma decodeFidAccount_layout:
  assumes "length disc = 8" and "list_all (bval_ok C) (fid_account_layout a)"
  shows "decodeFidAccount C (disc @ borsh (fid_account_layout a) @ pad) = Inr a"
  unfolding decodeFidAccount_def
  by (rule parses_run [OF _ assms(1)], unfold fid_account_layout_def, intro parses_rules)
    (use assms(2) in \<open>simp_all add: fid_account_layout_def\<close>)

lemma decodeClaimAccount_layout:
  assumes "length disc = 8" and "list_all (bval_ok C) (claim_account_layout a)"
  shows "decodeClaimAccount C (disc @ borsh (claim_account_layout a) @ pad) = Inr a"
  unfolding decodeClaimAccount_def
  by (rule parses_run [OF _ assms(1)], unfold claim_account_layout_def, intro parses_rules)
    (use assms(2) in \<open>simp_all add: claim_account_layout_def\<close>)

lemma decodeFactoryState_layout:
  assumes "length disc = 8" and "list_all (bval_ok C) (factory_state_layout a)"
  shows "decodeFactoryState C (disc @ borsh (factory_state_layout a) @ pad) = Inr a"
  unfolding decodeFactoryState_def
  by (rule parses_run [OF _ assms(1)], unfold factory_state_layout_def, intro parses_rules)
    (use assms(2) in \<open>simp_all add: factory_state_layout_def\<close>)

lemma decodeTransferApproval_layout:
  assumes "length disc = 8" and "list_all (bval_ok C) (transfer_approval_layout a)"
  shows "decodeTransferApproval C (disc @ borsh (transfer_approval_layout a) @ pad) = Inr a"
  unfolding decodeTransferApproval_def
  by (rule parses_run [OF _ assms(1)], unfold transfer_approval_layout_def, intro parses_rules)
    (use assms(2) in \<open>simp_all add: transfer_approval_layout_def\<close>)

section \<open>What is stored is what is fetched\<close>

text \<open>The RPC node returns, for the address, an account a program wrote with this layout.\<close>

definition stored :: "('x) chain_scheme \<Rightarrow> (pubkey \<times> int) res \<Rightarrow> bval list \<Rightarrow> bool" where
  "stored C r layout \<longleftrightarrow>
     (\<exists>pda bump prog disc pad. r = Inr (pda, bump) \<and> length disc = 8 \<and>
        list_all (bval_ok C) layout \<and>
        account_info C pda = Inr (Some \<lparr> acc_owner = prog, acc_data = disc @ borsh layout @ pad \<rparr>))"

lemma stored_fetch:
  assumes "stored C r layout"
    and "\<And>disc pad. length disc = 8 \<Longrightarrow> list_all (bval_ok C) layout \<Longrightarrow>
      dec (disc @ borsh layout @ pad) = Inr a"
  shows "with_pda r (\<lambda>pda. fetchDecodedAccount C pda dec) = Inr (Some a)"
  using assms
  by (auto simp: stored_def with_pda_def fetchDecodedAccount_def fetchRawAccount_def)

text \<open>
  C25. An account of the token program or its transfer hook that a program wrote at the derived
  address (any discriminator, any padding after the data) is what the fetcher of the web client
  returns: token state, agent role, frozen wallet, partial freeze, transfer approval.
\<close>

theorem token_accounts_read_back:
  "(stored C (deriveTokenStatePDA C P m) (token_state_layout s) \<longrightarrow>
      fetchTokenStateAccount C P m = Inr (Some s)) \<and>
   (stored C (deriveAgentRolePDA C P m w) (agent_role_layout g) \<longrightarrow>
      fetchAgentRoleAccount C P m w = Inr (Some g)) \<and>
   (stored C (deriveFrozenWalletPDA C P m w) (frozen_wallet_layout f) \<longrightarrow>
      fetchFrozenWalletAccount C P m w = Inr (Some f)) \<and>
   (stored C (derivePartialFreezePDA C P m w) (partial_freeze_layout p) \<longrightarrow>
      fetchPartialFreezeAccount C P m w = Inr (Some p)) \<and>
   (stored C (deriveTransferApprovalPDA C P src dst auth) (transfer_approval_layout t) \<longrightarrow>
      fetchTransferApprovalAccount C P src dst auth = Inr (Some t))"
  unfolding fetchTokenStateAccount_def fetchAgentRoleAccount_def fetchFrozenWalletAccount_def
    fetchPartialFreezeAccount_def fetchTransferApprovalAccount_def
  by (intro conjI impI; erule stored_fetch)
    (rule decodeTokenState_layout decodeAgentRole_layout decodeFrozenWallet_layout
      decodePartialFreeze_layout decodeTransferApproval_layout; assumption)+

text \<open>
  C26. The state of an identity registry, of the trusted issuers, of the claim topics or of a
  compliance program, an issuer entry, an identity, a claim or the factory state that a program
  wrote at the derived address is what the fetcher of the web client returns. (The record of a
  token deployment is not among them: its decoder shifts the fields, lemma
  deployment_fields_are_shifted.)
\<close>

theorem registry_accounts_read_back:
  "(stored C (deriveIrpStatePDA C P m) (identity_registry_state_layout r) \<longrightarrow>
      fetchIrpStateAccount C P m = Inr (Some r)) \<and>
   (stored C (deriveTirStatePDA C P m) (trusted_issuers_state_layout t) \<longrightarrow>
      fetchTirStateAccount C P m = Inr (Some t)) \<and>
   (stored C (deriveIssuerEntryPDA C P ts i) (issuer_entry_layout e) \<longrightarrow>
      fetchIssuerEntryAccount C P ts i = Inr (Some e)) \<and>
   (stored C (deriveCtrStatePDA C P m) (claim_topics_state_layout c) \<longrightarrow>
      fetchCtrStateAccount C P m = Inr (Some c)) \<and>
   (stored C (deriveComplianceStatePDA C P m) (compliance_state_layout k) \<longrightarrow>
      fetchComplianceStateAccount C P m = Inr (Some k)) \<and>
   (stored C (deriveFidPDA C P w) (fid_account_layout f) \<longrightarrow>
      fetchFidAccount C P w = Inr (Some f)) \<and>
   (stored C (deriveClaimPDA C P fd n) (claim_account_layout l) \<longrightarrow>
      fetchClaimAccount C P fd n = Inr (Some l)) \<and>
   (stored C (deriveFactoryStatePDA C P) (factory_state_layout s) \<longrightarrow>
      fetchFactoryStateAccount C P = Inr (Some s))"
  unfolding fetchIrpStateAccount_def fetchTirStateAccount_def fetchIssuerEntryAccount_def
    fetchCtrStateAccount_def fetchComplianceStateAccount_def fetchFidAccount_def
    fetchClaimAccount_def fetchFactoryStateAccount_def
  by (intro conjI impI; erule stored_fetch)
    (rule decodeIdentityRegistryState_layout decodeTrustedIssuersState_layout
      decodeIssuerEntry_layout decodeClaimTopicsState_layout decodeComplianceState_layout
      decodeFidAccount_layout decodeClaimAccount_layout decodeFactoryState_layout; assumption)+

section \<open>Decoders that do not follow the layout\<close>

lemma next_field_InrE:
  assumes "next_field (sized n rd) k data off = Inr r"
  obtains x where "rd data off = Inr x" and "k x data (off + n) = Inr r"
  using assms by (auto simp: next_field_def sized_def split: sum.splits)

lemma decodeOwnerState_needs_bytes:
  assumes "decodeOwnerState C data = Inr r"
  shows "105 \<le> length data"
proof -
  obtain bump where "readU8 data (8 + 32 + 32 + 32) = Inr bump"
    using assms unfolding decodeOwnerState_def by (elim next_field_InrE) blast
  then show ?thesis by (auto simp: readU8_def read_uint_def split: if_splits)
qed

lemma list_all_layout_length:
  "list_all (bval_ok C) (owner_state_layout a) \<Longrightarrow> length (borsh (owner_state_layout a)) = 65"
  by (simp add: owner_state_layout_def key_ok_def)

lemma owner_state_never_decodes:
  assumes "length disc = 8" and "list_all (bval_ok C) (owner_state_layout a)"
  shows "\<exists>e. decodeOwnerState C (disc @ borsh (owner_state_layout a)) = Inl e"
proof (cases "decodeOwnerState C (disc @ borsh (owner_state_layout a))")
  case (Inr r)
  then show ?thesis
    using decodeOwnerState_needs_bytes [OF Inr] list_all_layout_length [OF assms(2)] assms(1) by simp
qed simp

lemma wallet_identity_bump_is_active_flag:
  assumes "length disc = 8" and "list_all (bval_ok C) (wallet_identity_layout a)"
  shows "decodeWalletIdentity C (disc @ borsh (wallet_identity_layout a) @ pad) = Inr
    \<lparr> wi_wallet = oc_wi_wallet a, wi_fid = oc_wi_fid a, wi_country = oc_wi_country a,
      wi_irs = oc_wi_irs a, wi_bump = (if oc_wi_is_active a then 1 else 0) \<rparr>"
proof -
  let ?read = "[BPubkey (oc_wi_wallet a), BPubkey (oc_wi_fid a), BU16 (oc_wi_country a),
    BPubkey (oc_wi_irs a), BU8 (if oc_wi_is_active a then 1 else 0)]"
  let ?rest = "borsh [BPubkey (oc_wi_activated_by a), BI64 (oc_wi_activated_at a), BU8 (oc_wi_bump a)]"
  have ok: "list_all (bval_ok C) ?read"
    using assms(2) by (simp add: wallet_identity_layout_def fits_def)
  have split: "borsh (wallet_identity_layout a) = borsh ?read @ ?rest"
    by (simp add: wallet_identity_layout_def)
  have "decodeWalletIdentity C (disc @ borsh ?read @ ?rest @ pad) = Inr
    \<lparr> wi_wallet = oc_wi_wallet a, wi_fid = oc_wi_fid a, wi_country = oc_wi_country a,
      wi_irs = oc_wi_irs a, wi_bump = (if oc_wi_is_active a then 1 else 0) \<rparr>"
    unfolding decodeWalletIdentity_def
    by (rule parses_run [OF _ assms(1)], intro parses_rules) (use ok in simp_all)
  then show ?thesis by (simp only: split append_assoc)
qed

lemma subarray_split:
  assumes "length pre = i" and "length bs = n"
  shows "subarray (pre @ bs @ post) i (i + n) = bs"
  using assms subarray_at by blast

text \<open>The second field of the account shifts every later one by eight bytes.\<close>

lemma deployment_bytes:
  fixes disc pad :: bytes
  assumes "length disc = 8" and "list_all (bval_ok C) (token_deployment_layout a)"
  defines "data \<equiv> disc @ borsh (token_deployment_layout a) @ pad"
  shows "subarray data 16 48 = le_bytes 8 (oc_td_asset_id a) @ take 24 (oc_td_issuer a)"
    and "subarray data 80 112 = drop 24 (oc_td_salt a) @ take 24 (oc_td_token_mint a)"
proof -
  have len: "length (oc_td_issuer a) = 32" "length (oc_td_salt a) = 32" "length (oc_td_token_mint a) = 32"
    using assms(2) by (simp_all add: token_deployment_layout_def key_ok_def)
  show "subarray data 16 48 = le_bytes 8 (oc_td_asset_id a) @ take 24 (oc_td_issuer a)"
    unfolding data_def subarray_def token_deployment_layout_def using assms(1) len by simp
  show "subarray data 80 112 = drop 24 (oc_td_salt a) @ take 24 (oc_td_token_mint a)"
    unfolding data_def subarray_def token_deployment_layout_def using assms(1) len by simp
qed

lemma decodeTokenDeployment_fields:
  assumes "decodeTokenDeployment C data = Inr d"
  shows "readPubkey C data 16 = Inr (td_issuer d)" and "readPubkey C data 80 = Inr (td_tokenMint d)"
proof -
  from assms have "\<exists>i s m. readPubkey C data (8 + 8) = Inr i \<and> readPubkey C data (8 + 8 + 32 + 32) = Inr m
      \<and> td_issuer d = i \<and> td_tokenMint d = m"
    unfolding decodeTokenDeployment_def by (elim next_field_InrE) (auto simp: finish_def)
  then show "readPubkey C data 16 = Inr (td_issuer d)" and "readPubkey C data 80 = Inr (td_tokenMint d)"
    by auto
qed

lemma deployment_fields_are_shifted:
  assumes "length disc = 8" and "list_all (bval_ok C) (token_deployment_layout a)"
    and "\<And>k. length k = 32 \<Longrightarrow> pk_of_bytes C k = Inr k"
    and "decodeTokenDeployment C (disc @ borsh (token_deployment_layout a) @ pad) = Inr d"
  shows "td_issuer d = le_bytes 8 (oc_td_asset_id a) @ take 24 (oc_td_issuer a) \<and>
         td_tokenMint d = drop 24 (oc_td_salt a) @ take 24 (oc_td_token_mint a)"
proof -
  have len: "length (oc_td_issuer a) = 32" "length (oc_td_salt a) = 32" "length (oc_td_token_mint a) = 32"
    using assms(2) by (simp_all add: token_deployment_layout_def key_ok_def)
  show ?thesis
    using decodeTokenDeployment_fields [OF assms(4)] deployment_bytes [OF assms(1,2), of pad] len assms(3)
    by (simp add: readPubkey_def)
qed

section \<open>Instances\<close>

definition sample_key :: "int \<Rightarrow> pubkey" where
  "sample_key n = replicate 31 0 @ [word_of_int n]"

definition serving :: "bytes \<Rightarrow> chain" where
  "serving data = constant_address\<lparr> account_info :=
     (\<lambda>k. if k = [7] then Inr (Some \<lparr> acc_owner = [2], acc_data = data \<rparr>) else Inr None) \<rparr>"

definition sample_token_state :: token_state_account where
  "sample_token_state = \<lparr> ts_tokenMint = sample_key 1, ts_identityRegistry = sample_key 2,
     ts_compliance = sample_key 3, ts_paused = True, ts_decimals = 6, ts_name = [70, 233, 8364, 128512],
     ts_symbol = [70], ts_isin = [], ts_bump = 254 \<rparr>"

definition sample_claim :: claim_account_data where
  "sample_claim = \<lparr> cl_fid = sample_key 1, cl_claimId = 7, cl_topic = 3, cl_issuerFid = sample_key 2,
     cl_dataHash = replicate 32 9, cl_signerKey = sample_key 3, cl_signature = replicate 64 5,
     cl_issuedAt = 1700000000, cl_expiresAt = -1, cl_revoked = False, cl_bump = 253 \<rparr>"

lemma serving_stored:
  assumes "list_all (bval_ok C) layout" and "C = serving (replicate 8 0 @ borsh layout)"
    and "r = Inr ([7], b)"
  shows "stored C r layout"
  unfolding stored_def
  by (rule exI [of _ "[7]"], rule exI [of _ b], rule exI [of _ "[2]"], rule exI [of _ "replicate 8 0"],
      rule exI [of _ "[]"]) (use assms in \<open>simp add: serving_def\<close>)

lemma serving_key [simp]: "length k = 32 \<Longrightarrow> key_ok (serving data) k"
  by (simp add: key_ok_def serving_def constant_address_def)

lemma length_sample_key [simp]: "length (sample_key n) = 32"
  by (simp add: sample_key_def)

theorem token_accounts_read_back_witness:
  "fetchTokenStateAccount (serving (replicate 8 0 @ borsh (token_state_layout sample_token_state)))
     sample_programs (sample_key 1) = Inr (Some sample_token_state)"
proof -
  let ?C = "serving (replicate 8 0 @ borsh (token_state_layout sample_token_state))"
  have "list_all (bval_ok ?C) (token_state_layout sample_token_state)"
    by (simp add: token_state_layout_def sample_token_state_def string_ok_def fits_def scalar_def surrogate_def
        utf8_encode_def utf8_char_def utf8_scalar_def)
  moreover have "deriveTokenStatePDA ?C sample_programs (sample_key 1) = Inr ([7], 255)"
    by (simp add: deriveTokenStatePDA_def findProgramAddressSync_def serving_def constant_address_def)
  ultimately have "stored ?C (deriveTokenStatePDA ?C sample_programs (sample_key 1))
      (token_state_layout sample_token_state)" by (intro serving_stored) auto
  then show ?thesis using token_accounts_read_back by blast
qed

theorem registry_accounts_read_back_witness:
  "fetchClaimAccount (serving (replicate 8 0 @ borsh (claim_account_layout sample_claim)))
     sample_programs (sample_key 1) 7 = Inr (Some sample_claim)"
proof -
  let ?C = "serving (replicate 8 0 @ borsh (claim_account_layout sample_claim))"
  have "list_all (bval_ok ?C) (claim_account_layout sample_claim)"
    by (simp add: claim_account_layout_def sample_claim_def fits_def)
  moreover have "deriveClaimPDA ?C sample_programs (sample_key 1) 7 = Inr ([7], 255)"
    by (simp add: deriveClaimPDA_def findProgramAddressSync_def serving_def constant_address_def
        write_uint_def)
  ultimately have "stored ?C (deriveClaimPDA ?C sample_programs (sample_key 1) 7)
      (claim_account_layout sample_claim)" by (intro serving_stored) auto
  then show ?thesis using registry_accounts_read_back by blast
qed

definition sample_owner_state :: owner_state_onchain where
  "sample_owner_state = \<lparr> oc_os_owner = sample_key 1, oc_os_token_mint = sample_key 2, oc_os_bump = 250 \<rparr>"

definition sample_wallet_identity :: wallet_identity_onchain where
  "sample_wallet_identity = \<lparr> oc_wi_wallet = sample_key 1, oc_wi_fid = sample_key 2, oc_wi_country = 840,
     oc_wi_irs = sample_key 3, oc_wi_is_active = True, oc_wi_activated_by = sample_key 4,
     oc_wi_activated_at = 1700000000, oc_wi_bump = 250 \<rparr>"

definition sample_deployment :: token_deployment_onchain where
  "sample_deployment = \<lparr> oc_td_deployment_id = 5, oc_td_asset_id = 9, oc_td_issuer = sample_key 1,
     oc_td_salt = replicate 32 3, oc_td_token_mint = sample_key 2, oc_td_token_state = sample_key 3,
     oc_td_owner_state = sample_key 4, oc_td_irp_state = sample_key 5, oc_td_irs_state = sample_key 6,
     oc_td_tir_state = sample_key 7, oc_td_ctr_state = sample_key 8,
     oc_td_compliance_state = sample_key 9, oc_td_custody_mandate = sample_key 10,
     oc_td_custody_attestation = sample_key 11, oc_td_deployed_at = 1700000000, oc_td_bump = 251 \<rparr>"

lemma owner_state_never_decodes_witness:
  "\<exists>e. decodeOwnerState (serving []) (replicate 8 0 @ borsh (owner_state_layout sample_owner_state)) = Inl e"
  by (rule owner_state_never_decodes)
    (simp_all add: owner_state_layout_def sample_owner_state_def fits_def)

lemma wallet_identity_bump_is_active_flag_witness:
  "\<exists>w. decodeWalletIdentity (serving [])
     (replicate 8 0 @ borsh (wallet_identity_layout sample_wallet_identity) @ []) = Inr w \<and>
     wi_bump w = 1 \<and> oc_wi_bump sample_wallet_identity = 250"
  by (subst wallet_identity_bump_is_active_flag)
    (simp_all add: wallet_identity_layout_def sample_wallet_identity_def fits_def)

lemma sample_deployment_decodes:
  "(case decodeTokenDeployment (serving [])
      (replicate 8 0 @ borsh (token_deployment_layout sample_deployment) @ []) of
    Inl e \<Rightarrow> False | Inr d \<Rightarrow> td_deploymentId d = 5)"
  by code_simp

lemma deployment_fields_are_shifted_witness:
  "\<exists>d. decodeTokenDeployment (serving [])
      (replicate 8 0 @ borsh (token_deployment_layout sample_deployment) @ []) = Inr d \<and>
    td_tokenMint d = replicate 8 3 @ replicate 24 0 \<and> oc_td_token_mint sample_deployment = sample_key 2"
proof -
  obtain d where d: "decodeTokenDeployment (serving [])
      (replicate 8 0 @ borsh (token_deployment_layout sample_deployment) @ []) = Inr d"
    using sample_deployment_decodes by (auto split: sum.splits)
  have "list_all (bval_ok (serving [])) (token_deployment_layout sample_deployment)"
    by (simp add: token_deployment_layout_def sample_deployment_def fits_def)
  then have "td_tokenMint d = drop 24 (oc_td_salt sample_deployment) @ take 24 (oc_td_token_mint sample_deployment)"
    using deployment_fields_are_shifted [OF _ _ _ d]
    by (simp add: serving_def constant_address_def)
  with d show ?thesis
    by (simp add: sample_deployment_def sample_key_def)
qed

end
