(* ===== verification/Instructions.thy ===== *)
theory Instructions
  imports Addresses
begin

text \<open>
  The instruction builders of the web client (\<open>frontend/src/lib/solana/index.ts\<close>, section 5), one
  definition per builder. A builder gives the program, the accounts and the data: the discriminator
  of the instruction followed by the encoded arguments; an encoder that throws makes the builder
  throw before the discriminator is looked up.
\<close>

record account_meta =
  am_pubkey :: pubkey
  am_isSigner :: bool
  am_isWritable :: bool

record transaction_instruction =
  ix_programId :: pubkey
  ix_keys :: "account_meta list"
  ix_data :: bytes

definition INSTRUCTION_DISCRIMINATORS :: "(string \<times> int list) list" where
  "INSTRUCTION_DISCRIMINATORS =
     [(''initialize_token'', [38, 209, 150, 50, 190, 117, 16, 54]),
      (''transfer'', [163, 52, 200, 231, 140, 3, 69, 186]),
      (''mint'', [51, 57, 225, 47, 182, 146, 137, 166]),
      (''burn'', [116, 110, 29, 56, 107, 219, 42, 93]),
      (''forced_transfer'', [60, 52, 242, 236, 23, 136, 230, 190]),
      (''recovery'', [248, 90, 255, 146, 157, 182, 171, 170]),
      (''finalize_recovery'', [180, 175, 56, 254, 138, 101, 151, 219]),
      (''pause'', [211, 22, 221, 251, 74, 121, 193, 47]),
      (''unpause'', [169, 144, 4, 38, 10, 141, 188, 255]),
      (''set_identity_registry'', [166, 159, 194, 134, 36, 79, 162, 255]),
      (''set_compliance'', [46, 128, 120, 26, 105, 175, 165, 6]),
      (''add_agent'', [214, 206, 14, 110, 178, 131, 218, 45]),
      (''remove_agent'', [126, 25, 90, 199, 104, 237, 225, 130]),
      (''transfer_ownership'', [65, 177, 215, 73, 53, 45, 99, 47]),
      (''accept_ownership'', [172, 23, 43, 13, 238, 213, 85, 150]),
      (''freeze_wallet'', [93, 202, 159, 167, 22, 246, 255, 211]),
      (''unfreeze_wallet'', [246, 148, 196, 60, 209, 142, 99, 68]),
      (''freeze_partial'', [19, 13, 72, 194, 88, 59, 68, 51]),
      (''unfreeze_partial'', [90, 232, 228, 78, 237, 178, 102, 144]),
      (''initialize_extra_account_metas'', [22, 213, 130, 114, 1, 174, 121, 36]),
      (''approve_transfer'', [198, 217, 247, 150, 208, 60, 169, 244]),
      (''execute_transfer_hook'', [120, 157, 67, 141, 88, 144, 143, 220]),
      (''initialize_registry'', [189, 181, 20, 17, 174, 57, 249, 59]),
      (''add_identity_agent'', [244, 250, 152, 218, 162, 27, 164, 214]),
      (''remove_identity_agent'', [212, 220, 16, 202, 67, 181, 224, 234]),
      (''update_irs_reference'', [20, 149, 161, 98, 151, 20, 113, 239]),
      (''update_tir_reference'', [145, 204, 216, 68, 163, 1, 119, 61]),
      (''update_ctr_reference'', [94, 88, 135, 53, 9, 209, 48, 89]),
      (''transfer_registry_ownership'', [15, 209, 120, 148, 23, 37, 97, 28]),
      (''is_verified'', [142, 197, 107, 116, 247, 60, 229, 238]),
      (''initialize_irs'', [52, 219, 31, 53, 202, 226, 171, 52]),
      (''bind_registry'', [173, 242, 89, 1, 153, 173, 129, 108]),
      (''unbind_registry'', [114, 46, 163, 242, 212, 25, 179, 186]),
      (''register_identity'', [164, 118, 227, 177, 47, 176, 187, 248]),
      (''update_identity'', [130, 54, 88, 104, 222, 124, 238, 252]),
      (''update_country'', [142, 211, 229, 157, 37, 199, 79, 194]),
      (''remove_identity'', [146, 93, 160, 7, 61, 138, 181, 113]),
      (''initialize_tir'', [208, 51, 155, 69, 110, 179, 90, 141]),
      (''add_trusted_issuer'', [172, 111, 139, 169, 229, 89, 73, 214]),
      (''update_issuer_topics'', [22, 245, 20, 152, 126, 159, 240, 85]),
      (''deactivate_issuer'', [52, 10, 163, 187, 247, 22, 150, 37]),
      (''reactivate_issuer'', [174, 162, 75, 94, 50, 88, 97, 99]),
      (''remove_trusted_issuer'', [249, 241, 232, 207, 37, 38, 64, 221]),
      (''is_trusted_for_topic'', [17, 100, 173, 213, 91, 86, 32, 102]),
      (''initialize_ctr'', [42, 126, 125, 199, 230, 35, 174, 167]),
      (''add_claim_topic'', [161, 108, 94, 222, 8, 165, 138, 97]),
      (''remove_claim_topic'', [227, 165, 23, 147, 154, 68, 26, 221]),
      (''initialize_compliance'', [77, 93, 116, 221, 108, 121, 232, 145]),
      (''bind_module'', [204, 76, 224, 62, 21, 167, 210, 117]),
      (''unbind_module'', [111, 182, 247, 190, 48, 145, 187, 67]),
      (''set_modules_paused'', [12, 128, 245, 18, 209, 111, 131, 155]),
      (''call_module_function'', [128, 194, 221, 247, 80, 181, 107, 234]),
      (''can_transfer'', [233, 153, 157, 96, 140, 58, 200, 137]),
      (''transferred'', [234, 216, 64, 126, 163, 136, 73, 206]),
      (''created'', [181, 154, 183, 237, 76, 88, 131, 92]),
      (''destroyed'', [212, 251, 145, 156, 56, 131, 108, 36]),
      (''create_fid'', [170, 229, 98, 240, 20, 109, 122, 238]),
      (''set_management_key'', [218, 115, 203, 190, 29, 167, 60, 248]),
      (''set_signer_key'', [3, 33, 201, 254, 15, 8, 55, 21]),
      (''add_claim'', [70, 114, 85, 106, 66, 244, 46, 99]),
      (''revoke_claim'', [182, 1, 142, 33, 207, 153, 37, 132]),
      (''remove_claim'', [4, 246, 59, 78, 67, 11, 210, 12]),
      (''initialize_factory'', [179, 64, 75, 250, 39, 254, 240, 178]),
      (''update_program_ids'', [64, 125, 148, 202, 2, 202, 189, 189]),
      (''transfer_factory_ownership'', [134, 88, 151, 250, 30, 237, 59, 180]),
      (''create_token_mint'', [35, 109, 237, 196, 54, 218, 33, 119]),
      (''deploy_token_suite'', [133, 32, 158, 211, 16, 63, 187, 87])]"

definition getInstructionDiscriminator :: "string \<Rightarrow> bytes res" where
  "getInstructionDiscriminator name =
     (case map_of INSTRUCTION_DISCRIMINATORS name of
        None \<Rightarrow> Inl (JsError (''Missing discriminator for instruction: '' @ name))
      | Some value \<Rightarrow> Inr (map word_of_int value))"

definition buildInstructionData :: "string \<Rightarrow> bytes res list \<Rightarrow> bytes res" where
  "buildInstructionData name parts =
     (case concat_res parts of Inl e \<Rightarrow> Inl e | Inr args \<Rightarrow>
        (case getInstructionDiscriminator name of Inl e \<Rightarrow> Inl e | Inr d \<Rightarrow> Inr (d @ args)))"

definition buildInstruction ::
    "pubkey \<Rightarrow> account_meta list \<Rightarrow> bytes res \<Rightarrow> transaction_instruction res" where
  "buildInstruction programId keys data =
     (case data of Inl e \<Rightarrow> Inl e
      | Inr d \<Rightarrow> Inr \<lparr> ix_programId = programId, ix_keys = keys, ix_data = d \<rparr>)"

section \<open>Arguments of the factory\<close>

record program_ids_arg =
  pa_tokenProgramId :: pubkey
  pa_fidProgramId :: pubkey
  pa_irpProgramId :: pubkey
  pa_irsProgramId :: pubkey
  pa_tirProgramId :: pubkey
  pa_ctrProgramId :: pubkey
  pa_complianceProgramId :: pubkey

record trusted_issuer_input_arg =
  ti_issuerFid :: pubkey
  ti_topics :: "int list"
  ti_label :: utext

record deploy_token_suite_args_arg =
  da_issuer :: pubkey
  da_tokenMint :: pubkey
  da_tokenName :: utext
  da_tokenSymbol :: utext
  da_decimals :: int
  da_isin :: utext
  da_claimTopics :: "int list"
  da_trustedIssuers :: "trusted_issuer_input_arg list"
  da_complianceModules :: "pubkey list"
  da_sharedIrs :: "pubkey option"
  da_salt :: bytes

definition encodeProgramIdsArg :: "program_ids_arg \<Rightarrow> bytes res" where
  "encodeProgramIdsArg arg = concat_res
     [encodePubkey (pa_tokenProgramId arg), encodePubkey (pa_fidProgramId arg),
      encodePubkey (pa_irpProgramId arg), encodePubkey (pa_irsProgramId arg),
      encodePubkey (pa_tirProgramId arg), encodePubkey (pa_ctrProgramId arg),
      encodePubkey (pa_complianceProgramId arg)]"

definition encodeTrustedIssuerInput :: "trusted_issuer_input_arg \<Rightarrow> bytes res" where
  "encodeTrustedIssuerInput arg = concat_res
     [encodePubkey (ti_issuerFid arg), encodeVecU64 (ti_topics arg), encodeString (ti_label arg)]"

definition encodeDeployTokenSuiteArgsArg :: "deploy_token_suite_args_arg \<Rightarrow> bytes res" where
  "encodeDeployTokenSuiteArgsArg arg =
     (case encodeFixedBytes (da_salt arg) 32 of Inl e \<Rightarrow> Inl e | Inr salt \<Rightarrow>
        concat_res
          ([encodePubkey (da_issuer arg), encodePubkey (da_tokenMint arg),
            encodeString (da_tokenName arg), encodeString (da_tokenSymbol arg),
            encodeU8 (da_decimals arg), encodeString (da_isin arg), encodeVecU64 (da_claimTopics arg),
            encodeU32 (int (length (da_trustedIssuers arg)))] @
           map encodeTrustedIssuerInput (da_trustedIssuers arg) @
           [encodeVecPubkey (da_complianceModules arg), encodeOptionPubkey (da_sharedIrs arg),
            Inr salt]))"

section \<open>Builders\<close>

definition buildInitializeTokenInstruction where
  "buildInitializeTokenInstruction P keys tokenMint name symbol decimals isin identityRegistry complianceKey =
     buildInstruction (token P) keys (buildInstructionData ''initialize_token''
       [encodePubkey tokenMint, encodeString name, encodeString symbol, encodeU8 decimals,
        encodeString isin, encodePubkey identityRegistry, encodePubkey complianceKey])"

definition buildTransferInstruction where
  "buildTransferInstruction P keys amount fromBalance toBalance =
     buildInstruction (token P) keys (buildInstructionData ''transfer''
       [encodeU64 amount, encodeU64 fromBalance, encodeU64 toBalance])"

definition buildMintInstruction where
  "buildMintInstruction P keys to amount toBalanceAfter =
     buildInstruction (token P) keys (buildInstructionData ''mint''
       [encodePubkey to, encodeU64 amount, encodeU64 toBalanceAfter])"

definition buildBurnInstruction where
  "buildBurnInstruction P keys from amount fromBalanceAfter =
     buildInstruction (token P) keys (buildInstructionData ''burn''
       [encodePubkey from, encodeU64 amount, encodeU64 fromBalanceAfter])"

definition buildForcedTransferInstruction where
  "buildForcedTransferInstruction P keys from to amount fromBalance toBalance =
     buildInstruction (token P) keys (buildInstructionData ''forced_transfer''
       [encodePubkey from, encodePubkey to, encodeU64 amount, encodeU64 fromBalance,
        encodeU64 toBalance])"

definition buildRecoveryInstruction where
  "buildRecoveryInstruction P keys lostWallet newWallet amount =
     buildInstruction (token P) keys (buildInstructionData ''recovery''
       [encodePubkey lostWallet, encodePubkey newWallet, encodeU64 amount])"

definition buildFinalizeRecoveryInstruction where
  "buildFinalizeRecoveryInstruction P keys lostWallet newWallet amount =
     buildInstruction (token P) keys (buildInstructionData ''finalize_recovery''
       [encodePubkey lostWallet, encodePubkey newWallet, encodeU64 amount])"

definition buildPauseInstruction where
  "buildPauseInstruction P keys =
     buildInstruction (token P) keys (buildInstructionData ''pause''
       [])"

definition buildUnpauseInstruction where
  "buildUnpauseInstruction P keys =
     buildInstruction (token P) keys (buildInstructionData ''unpause''
       [])"

definition buildSetIdentityRegistryInstruction where
  "buildSetIdentityRegistryInstruction P keys newIdentityRegistry =
     buildInstruction (token P) keys (buildInstructionData ''set_identity_registry''
       [encodePubkey newIdentityRegistry])"

definition buildSetComplianceInstruction where
  "buildSetComplianceInstruction P keys newCompliance =
     buildInstruction (token P) keys (buildInstructionData ''set_compliance''
       [encodePubkey newCompliance])"

definition buildAddAgentInstruction where
  "buildAddAgentInstruction P keys agent =
     buildInstruction (token P) keys (buildInstructionData ''add_agent''
       [encodePubkey agent])"

definition buildRemoveAgentInstruction where
  "buildRemoveAgentInstruction P keys =
     buildInstruction (token P) keys (buildInstructionData ''remove_agent''
       [])"

definition buildTransferOwnershipInstruction where
  "buildTransferOwnershipInstruction P keys newOwner =
     buildInstruction (token P) keys (buildInstructionData ''transfer_ownership''
       [encodePubkey newOwner])"

definition buildAcceptOwnershipInstruction where
  "buildAcceptOwnershipInstruction P keys =
     buildInstruction (token P) keys (buildInstructionData ''accept_ownership''
       [])"

definition buildFreezeWalletInstruction where
  "buildFreezeWalletInstruction P keys =
     buildInstruction (token P) keys (buildInstructionData ''freeze_wallet''
       [])"

definition buildUnfreezeWalletInstruction where
  "buildUnfreezeWalletInstruction P keys =
     buildInstruction (token P) keys (buildInstructionData ''unfreeze_wallet''
       [])"

definition buildFreezePartialInstruction where
  "buildFreezePartialInstruction P keys amount =
     buildInstruction (token P) keys (buildInstructionData ''freeze_partial''
       [encodeU64 amount])"

definition buildUnfreezePartialInstruction where
  "buildUnfreezePartialInstruction P keys amount =
     buildInstruction (token P) keys (buildInstructionData ''unfreeze_partial''
       [encodeU64 amount])"

definition buildInitializeExtraAccountMetasInstruction where
  "buildInitializeExtraAccountMetasInstruction P keys =
     buildInstruction (tokenHook P) keys (buildInstructionData ''initialize_extra_account_metas''
       [])"

definition buildApproveTransferInstruction where
  "buildApproveTransferInstruction P keys sourceWallet destinationWallet authority amount fromBalance toBalance fromCountry toCountry kind =
     buildInstruction (tokenHook P) keys (buildInstructionData ''approve_transfer''
       [encodePubkey sourceWallet, encodePubkey destinationWallet, encodePubkey authority,
        encodeU64 amount, encodeU64 fromBalance, encodeU64 toBalance, encodeU16 fromCountry,
        encodeU16 toCountry, encodeU8 kind])"

definition buildExecuteTransferHookInstruction where
  "buildExecuteTransferHookInstruction P keys amount =
     buildInstruction (tokenHook P) keys (buildInstructionData ''execute_transfer_hook''
       [encodeU64 amount])"

definition buildInitializeRegistryInstruction where
  "buildInitializeRegistryInstruction P keys tokenMint irsKey tirKey ctrKey =
     buildInstruction (irp P) keys (buildInstructionData ''initialize_registry''
       [encodePubkey tokenMint, encodePubkey irsKey, encodePubkey tirKey,
        encodePubkey ctrKey])"

definition buildAddIdentityAgentInstruction where
  "buildAddIdentityAgentInstruction P keys agent =
     buildInstruction (irp P) keys (buildInstructionData ''add_identity_agent''
       [encodePubkey agent])"

definition buildRemoveIdentityAgentInstruction where
  "buildRemoveIdentityAgentInstruction P keys agent =
     buildInstruction (irp P) keys (buildInstructionData ''remove_identity_agent''
       [encodePubkey agent])"

definition buildUpdateIrsReferenceInstruction where
  "buildUpdateIrsReferenceInstruction P keys newIrs =
     buildInstruction (irp P) keys (buildInstructionData ''update_irs_reference''
       [encodePubkey newIrs])"

definition buildUpdateTirReferenceInstruction where
  "buildUpdateTirReferenceInstruction P keys newTir =
     buildInstruction (irp P) keys (buildInstructionData ''update_tir_reference''
       [encodePubkey newTir])"

definition buildUpdateCtrReferenceInstruction where
  "buildUpdateCtrReferenceInstruction P keys newCtr =
     buildInstruction (irp P) keys (buildInstructionData ''update_ctr_reference''
       [encodePubkey newCtr])"

definition buildTransferRegistryOwnershipInstruction where
  "buildTransferRegistryOwnershipInstruction P keys newOwner =
     buildInstruction (irp P) keys (buildInstructionData ''transfer_registry_ownership''
       [encodePubkey newOwner])"

definition buildIsVerifiedInstruction where
  "buildIsVerifiedInstruction P keys wallet =
     buildInstruction (irp P) keys (buildInstructionData ''is_verified''
       [encodePubkey wallet])"

definition buildInitializeIrsInstruction where
  "buildInitializeIrsInstruction P keys =
     buildInstruction (irs P) keys (buildInstructionData ''initialize_irs''
       [])"

definition buildBindRegistryInstruction where
  "buildBindRegistryInstruction P keys irpPubkey =
     buildInstruction (irs P) keys (buildInstructionData ''bind_registry''
       [encodePubkey irpPubkey])"

definition buildUnbindRegistryInstruction where
  "buildUnbindRegistryInstruction P keys irpPubkey =
     buildInstruction (irs P) keys (buildInstructionData ''unbind_registry''
       [encodePubkey irpPubkey])"

definition buildRegisterIdentityInstruction where
  "buildRegisterIdentityInstruction P keys wallet fidKey country =
     buildInstruction (irs P) keys (buildInstructionData ''register_identity''
       [encodePubkey wallet, encodePubkey fidKey, encodeU16 country])"

definition buildUpdateIdentityInstruction where
  "buildUpdateIdentityInstruction P keys newFid =
     buildInstruction (irs P) keys (buildInstructionData ''update_identity''
       [encodePubkey newFid])"

definition buildUpdateCountryInstruction where
  "buildUpdateCountryInstruction P keys newCountry =
     buildInstruction (irs P) keys (buildInstructionData ''update_country''
       [encodeU16 newCountry])"

definition buildRemoveIdentityInstruction where
  "buildRemoveIdentityInstruction P keys =
     buildInstruction (irs P) keys (buildInstructionData ''remove_identity''
       [])"

definition buildInitializeTirInstruction where
  "buildInitializeTirInstruction P keys tokenMint =
     buildInstruction (tir P) keys (buildInstructionData ''initialize_tir''
       [encodePubkey tokenMint])"

definition buildAddTrustedIssuerInstruction where
  "buildAddTrustedIssuerInstruction P keys issuerFid topics label =
     buildInstruction (tir P) keys (buildInstructionData ''add_trusted_issuer''
       [encodePubkey issuerFid, encodeVecU64 topics, encodeString label])"

definition buildUpdateIssuerTopicsInstruction where
  "buildUpdateIssuerTopicsInstruction P keys newTopics =
     buildInstruction (tir P) keys (buildInstructionData ''update_issuer_topics''
       [encodeVecU64 newTopics])"

definition buildDeactivateIssuerInstruction where
  "buildDeactivateIssuerInstruction P keys =
     buildInstruction (tir P) keys (buildInstructionData ''deactivate_issuer''
       [])"

definition buildReactivateIssuerInstruction where
  "buildReactivateIssuerInstruction P keys =
     buildInstruction (tir P) keys (buildInstructionData ''reactivate_issuer''
       [])"

definition buildRemoveTrustedIssuerInstruction where
  "buildRemoveTrustedIssuerInstruction P keys =
     buildInstruction (tir P) keys (buildInstructionData ''remove_trusted_issuer''
       [])"

definition buildIsTrustedForTopicInstruction where
  "buildIsTrustedForTopicInstruction P keys issuerFid topic =
     buildInstruction (tir P) keys (buildInstructionData ''is_trusted_for_topic''
       [encodePubkey issuerFid, encodeU64 topic])"

definition buildInitializeCtrInstruction where
  "buildInitializeCtrInstruction P keys tokenMint =
     buildInstruction (ctr P) keys (buildInstructionData ''initialize_ctr''
       [encodePubkey tokenMint])"

definition buildAddClaimTopicInstruction where
  "buildAddClaimTopicInstruction P keys topicId =
     buildInstruction (ctr P) keys (buildInstructionData ''add_claim_topic''
       [encodeU64 topicId])"

definition buildRemoveClaimTopicInstruction where
  "buildRemoveClaimTopicInstruction P keys topicId =
     buildInstruction (ctr P) keys (buildInstructionData ''remove_claim_topic''
       [encodeU64 topicId])"

definition buildInitializeComplianceInstruction where
  "buildInitializeComplianceInstruction P keys tokenMint =
     buildInstruction (compliance P) keys (buildInstructionData ''initialize_compliance''
       [encodePubkey tokenMint])"

definition buildBindModuleInstruction where
  "buildBindModuleInstruction P keys modulePubkey =
     buildInstruction (compliance P) keys (buildInstructionData ''bind_module''
       [encodePubkey modulePubkey])"

definition buildUnbindModuleInstruction where
  "buildUnbindModuleInstruction P keys modulePubkey =
     buildInstruction (compliance P) keys (buildInstructionData ''unbind_module''
       [encodePubkey modulePubkey])"

definition buildSetModulesPausedInstruction where
  "buildSetModulesPausedInstruction P keys paused =
     buildInstruction (compliance P) keys (buildInstructionData ''set_modules_paused''
       [encodeBool paused])"

definition buildCallModuleFunctionInstruction where
  "buildCallModuleFunctionInstruction P keys data =
     buildInstruction (compliance P) keys (buildInstructionData ''call_module_function''
       [encodeBytes data])"

definition buildCanTransferInstruction where
  "buildCanTransferInstruction P keys from to amount fromBalance toBalance fromCountry toCountry =
     buildInstruction (compliance P) keys (buildInstructionData ''can_transfer''
       [encodePubkey from, encodePubkey to, encodeU64 amount, encodeU64 fromBalance,
        encodeU64 toBalance, encodeU16 fromCountry, encodeU16 toCountry])"

definition buildTransferredInstruction where
  "buildTransferredInstruction P keys from to amount fromBalanceAfter toBalanceAfter fromCountry toCountry =
     buildInstruction (compliance P) keys (buildInstructionData ''transferred''
       [encodePubkey from, encodePubkey to, encodeU64 amount, encodeU64 fromBalanceAfter,
        encodeU64 toBalanceAfter, encodeU16 fromCountry, encodeU16 toCountry])"

definition buildCreatedInstruction where
  "buildCreatedInstruction P keys to amount toBalanceAfter toCountry =
     buildInstruction (compliance P) keys (buildInstructionData ''created''
       [encodePubkey to, encodeU64 amount, encodeU64 toBalanceAfter, encodeU16 toCountry])"

definition buildDestroyedInstruction where
  "buildDestroyedInstruction P keys from amount fromBalanceAfter fromCountry =
     buildInstruction (compliance P) keys (buildInstructionData ''destroyed''
       [encodePubkey from, encodeU64 amount, encodeU64 fromBalanceAfter,
        encodeU16 fromCountry])"

definition buildCreateFidInstruction where
  "buildCreateFidInstruction P keys isIssuer country =
     buildInstruction (fid P) keys (buildInstructionData ''create_fid''
       [encodeBool isIssuer, encodeU16 country])"

definition buildSetManagementKeyInstruction where
  "buildSetManagementKeyInstruction P keys newKey =
     buildInstruction (fid P) keys (buildInstructionData ''set_management_key''
       [encodePubkey newKey])"

definition buildSetSignerKeyInstruction where
  "buildSetSignerKeyInstruction P keys newKey =
     buildInstruction (fid P) keys (buildInstructionData ''set_signer_key''
       [encodePubkey newKey])"

definition buildAddClaimInstruction where
  "buildAddClaimInstruction P keys topic issuerFid dataHash32 signature64 expiresAt =
     buildInstruction (fid P) keys (buildInstructionData ''add_claim''
       [encodeU64 topic, encodePubkey issuerFid, encodeFixedBytes dataHash32 32,
        encodeFixedBytes signature64 64, encodeI64 expiresAt])"

definition buildRevokeClaimInstruction where
  "buildRevokeClaimInstruction P keys =
     buildInstruction (fid P) keys (buildInstructionData ''revoke_claim''
       [])"

definition buildRemoveClaimInstruction where
  "buildRemoveClaimInstruction P keys =
     buildInstruction (fid P) keys (buildInstructionData ''remove_claim''
       [])"

definition buildInitializeFactoryInstruction where
  "buildInitializeFactoryInstruction P keys =
     buildInstruction (factory P) keys (buildInstructionData ''initialize_factory''
       [])"

definition buildUpdateProgramIdsInstruction where
  "buildUpdateProgramIdsInstruction P keys programIds =
     buildInstruction (factory P) keys (buildInstructionData ''update_program_ids''
       [encodeProgramIdsArg programIds])"

definition buildTransferFactoryOwnershipInstruction where
  "buildTransferFactoryOwnershipInstruction P keys newOwner =
     buildInstruction (factory P) keys (buildInstructionData ''transfer_factory_ownership''
       [encodePubkey newOwner])"

definition buildCreateTokenMintInstruction where
  "buildCreateTokenMintInstruction P keys decimals =
     buildInstruction (factory P) keys (buildInstructionData ''create_token_mint''
       [encodeU8 decimals])"

definition buildDeployTokenSuiteInstruction where
  "buildDeployTokenSuiteInstruction P keys args =
     buildInstruction (factory P) keys (buildInstructionData ''deploy_token_suite''
       [encodeDeployTokenSuiteArgsArg args])"

end
