(* ===== verification/ProgramIdl.thy ===== *)
theory ProgramIdl
  imports Wire
begin

text \<open>
  What a program on the chain makes of the data of an instruction: the interface descriptions of
  the programs (\<open>frontend/src/idl/*.json\<close>) give for each instruction its eight-byte discriminator and
  the types of its arguments; a program takes the entry whose discriminator the data starts with and
  reads the arguments in Borsh format. The structs \<open>ProgramIds\<close> and \<open>DeployTokenSuiteArgs\<close> are
  listed by their fields. The locale \<open>borsh_item\<close> is the contract of a reader of one item.
\<close>

section \<open>Reading Borsh\<close>

datatype bty = TPubkey | TU8 | TU16 | TU32 | TU64 | TI64 | TBool | TString | TBytes | TFixed nat
  | TVecU64 | TVecPubkey | TOptPubkey | TVecIssuer

fun bty_of :: "bval \<Rightarrow> bty" where
  "bty_of (BPubkey k) = TPubkey"
| "bty_of (BU8 v) = TU8"
| "bty_of (BU16 v) = TU16"
| "bty_of (BU32 v) = TU32"
| "bty_of (BU64 v) = TU64"
| "bty_of (BI64 v) = TI64"
| "bty_of (BBool b) = TBool"
| "bty_of (BString s) = TString"
| "bty_of (BBytes b) = TBytes"
| "bty_of (BFixed n b) = TFixed n"
| "bty_of (BVecU64 vs) = TVecU64"
| "bty_of (BVecPubkey ks) = TVecPubkey"
| "bty_of (BOptPubkey k) = TOptPubkey"
| "bty_of (BVecIssuer es) = TVecIssuer"

type_synonym 'a getter = "bytes \<Rightarrow> ('a \<times> bytes) option"

definition get_map :: "('a \<Rightarrow> 'b) \<Rightarrow> 'a getter \<Rightarrow> 'b getter" where
  "get_map f g bs = (case g bs of None \<Rightarrow> None | Some (x, r) \<Rightarrow> Some (f x, r))"

definition get_bind :: "'a getter \<Rightarrow> ('a \<Rightarrow> 'b getter) \<Rightarrow> 'b getter" where
  "get_bind g k bs = (case g bs of None \<Rightarrow> None | Some (x, r) \<Rightarrow> k x r)"

definition get_bytes :: "nat \<Rightarrow> bytes getter" where
  "get_bytes n bs = (if n \<le> length bs then Some (take n bs, drop n bs) else None)"

definition get_uint :: "nat \<Rightarrow> int getter" where
  "get_uint n = get_map le_val (get_bytes n)"

fun get_many :: "nat \<Rightarrow> 'a getter \<Rightarrow> 'a list getter" where
  "get_many 0 g bs = Some ([], bs)"
| "get_many (Suc n) g bs =
     (case g bs of None \<Rightarrow> None | Some (x, r) \<Rightarrow>
        case get_many n g r of None \<Rightarrow> None | Some (xs, r') \<Rightarrow> Some (x # xs, r'))"

definition get_vec :: "'a getter \<Rightarrow> 'a list getter" where
  "get_vec g = get_bind (get_uint 4) (\<lambda>n. get_many (nat n) g)"

text \<open>A string is rejected when its bytes are not well-formed UTF-8.\<close>

definition get_string :: "utext getter" where
  "get_string = get_bind (get_uint 4) (\<lambda>n. get_bind (get_bytes (nat n)) (\<lambda>b r.
     if utf8_encode (utf8_decode b) = b then Some (utf8_decode b, r) else None))"

definition get_flag :: "bool getter" where
  "get_flag = get_bind (get_uint 1) (\<lambda>v r. if v = 0 then Some (False, r) else if v = 1 then Some (True, r) else None)"

definition get_issuer :: "(pubkey \<times> int list \<times> utext) getter" where
  "get_issuer = get_bind (get_bytes 32) (\<lambda>k. get_bind (get_vec (get_uint 8)) (\<lambda>vs.
     get_bind get_string (\<lambda>s r. Some ((k, vs, s), r))))"

fun borsh_get :: "bty \<Rightarrow> bval getter" where
  "borsh_get TPubkey = get_map BPubkey (get_bytes 32)"
| "borsh_get TU8 = get_map BU8 (get_uint 1)"
| "borsh_get TU16 = get_map BU16 (get_uint 2)"
| "borsh_get TU32 = get_map BU32 (get_uint 4)"
| "borsh_get TU64 = get_map BU64 (get_uint 8)"
| "borsh_get TI64 = get_map (\<lambda>v. BI64 (to_signed 8 v)) (get_uint 8)"
| "borsh_get TBool = get_map BBool get_flag"
| "borsh_get TString = get_map BString get_string"
| "borsh_get TBytes = get_map BBytes (get_bind (get_uint 4) (\<lambda>n. get_bytes (nat n)))"
| "borsh_get (TFixed n) = get_map (BFixed n) (get_bytes n)"
| "borsh_get TVecU64 = get_map BVecU64 (get_vec (get_uint 8))"
| "borsh_get TVecPubkey = get_map BVecPubkey (get_vec (get_bytes 32))"
| "borsh_get TOptPubkey = get_bind get_flag
     (\<lambda>some. if some then get_map (\<lambda>k. BOptPubkey (Some k)) (get_bytes 32) else (\<lambda>r. Some (BOptPubkey None, r)))"
| "borsh_get TVecIssuer = get_map BVecIssuer (get_vec get_issuer)"

fun borsh_read :: "bty list \<Rightarrow> bval list getter" where
  "borsh_read [] bs = Some ([], bs)"
| "borsh_read (t # ts) bs =
     (case borsh_get t bs of None \<Rightarrow> None | Some (v, r) \<Rightarrow>
        case borsh_read ts r of None \<Rightarrow> None | Some (vs, r') \<Rightarrow> Some (v # vs, r'))"

type_synonym idl = "(string \<times> int list \<times> bty list) list"

text \<open>The instruction and the arguments a program takes from instruction data.\<close>

definition program_reads :: "idl \<Rightarrow> bytes \<Rightarrow> (string \<times> bval list) option" where
  "program_reads idl data =
     (case List.find (\<lambda>(n, d, ts). map word_of_int d = take 8 data) idl of
        None \<Rightarrow> None
      | Some (n, d, ts) \<Rightarrow>
          (case borsh_read ts (drop 8 data) of None \<Rightarrow> None | Some (vs, r) \<Rightarrow> Some (n, vs)))"

section \<open>Interface descriptions\<close>

definition token_idl :: idl where
  "token_idl =
     [(''add_agent'', [214, 206, 14, 110, 178, 131, 218, 45],
        [TPubkey]),
      (''burn'', [116, 110, 29, 56, 107, 219, 42, 93],
        [TPubkey, TU64, TU64]),
      (''deposit_subscription'', [89, 22, 105, 147, 181, 95, 21, 54],
        [TU64]),
      (''finalize_recovery'', [180, 175, 56, 254, 138, 101, 151, 219],
        [TPubkey, TPubkey, TU64]),
      (''forced_transfer'', [60, 52, 242, 236, 23, 136, 230, 190],
        [TPubkey, TPubkey, TU64, TU64, TU64]),
      (''freeze_partial'', [19, 13, 72, 194, 88, 59, 68, 51],
        [TU64]),
      (''freeze_wallet'', [93, 202, 159, 167, 22, 246, 255, 211],
        []),
      (''initialize_mint_metadata'', [210, 88, 76, 142, 253, 135, 134, 177],
        [TString, TString, TString]),
      (''initialize_token'', [38, 209, 150, 50, 190, 117, 16, 54],
        [TPubkey, TString, TString, TU8, TString, TPubkey, TPubkey]),
      (''mint'', [51, 57, 225, 47, 182, 146, 137, 166],
        [TPubkey, TU64, TU64]),
      (''pause'', [211, 22, 221, 251, 74, 121, 193, 47],
        []),
      (''purchase_mint'', [109, 178, 124, 55, 14, 8, 141, 36],
        [TU64, TU64]),
      (''recovery'', [248, 90, 255, 146, 157, 182, 171, 170],
        [TPubkey, TPubkey, TU64]),
      (''remove_agent'', [126, 25, 90, 199, 104, 237, 225, 130],
        []),
      (''set_compliance'', [46, 128, 120, 26, 105, 175, 165, 6],
        [TPubkey]),
      (''set_identity_registry'', [166, 159, 194, 134, 36, 79, 162, 255],
        [TPubkey]),
      (''settle_subscription_mint'', [36, 157, 21, 78, 31, 26, 216, 58],
        [TU64]),
      (''transfer'', [163, 52, 200, 231, 140, 3, 69, 186],
        [TU64, TU64, TU64]),
      (''transfer_ownership'', [65, 177, 215, 73, 53, 45, 99, 47],
        [TPubkey]),
      (''unfreeze_partial'', [90, 232, 228, 78, 237, 178, 102, 144],
        [TU64]),
      (''unfreeze_wallet'', [246, 148, 196, 60, 209, 142, 99, 68],
        []),
      (''unpause'', [169, 144, 4, 38, 10, 141, 188, 255],
        [])]"

definition token_hook_idl :: idl where
  "token_hook_idl =
     [(''approve_transfer'', [198, 217, 247, 150, 208, 60, 169, 244],
        [TPubkey, TPubkey, TPubkey, TU64, TU64, TU64, TU16, TU16, TU8]),
      (''execute_transfer_hook'', [105, 37, 101, 197, 75, 251, 102, 26],
        [TU64]),
      (''initialize_extra_account_metas'', [22, 213, 130, 114, 1, 174, 121, 36],
        []),
      (''refresh_extra_account_metas'', [237, 164, 193, 76, 205, 209, 59, 17],
        [])]"

definition irp_idl :: idl where
  "irp_idl =
     [(''add_identity_agent'', [244, 250, 152, 218, 162, 27, 164, 214],
        [TPubkey]),
      (''initialize_registry'', [189, 181, 20, 17, 174, 57, 249, 59],
        [TPubkey, TPubkey, TPubkey, TPubkey]),
      (''is_verified'', [142, 197, 107, 116, 247, 60, 229, 238],
        [TPubkey]),
      (''remove_identity_agent'', [212, 220, 16, 202, 67, 181, 224, 234],
        [TPubkey]),
      (''transfer_registry_ownership'', [15, 209, 120, 148, 23, 37, 97, 28],
        [TPubkey]),
      (''update_ctr_reference'', [94, 88, 135, 53, 9, 209, 48, 89],
        [TPubkey]),
      (''update_irs_reference'', [20, 149, 161, 98, 151, 20, 113, 239],
        [TPubkey]),
      (''update_tir_reference'', [145, 204, 216, 68, 163, 1, 119, 61],
        [TPubkey]),
      (''verification_status'', [194, 179, 17, 87, 111, 24, 134, 116],
        [TPubkey])]"

definition irs_idl :: idl where
  "irs_idl =
     [(''bind_registry'', [173, 242, 89, 1, 153, 173, 129, 108],
        [TPubkey]),
      (''cancel_onboarding_application'', [99, 164, 145, 216, 25, 199, 155, 251],
        []),
      (''initialize_irs'', [52, 219, 31, 53, 202, 226, 171, 52],
        [TPubkey]),
      (''register_identity'', [164, 118, 227, 177, 47, 176, 187, 248],
        [TPubkey, TPubkey, TU16]),
      (''remove_identity'', [146, 93, 160, 7, 61, 138, 181, 113],
        []),
      (''remove_own_identity'', [226, 130, 39, 208, 179, 187, 79, 174],
        []),
      (''review_onboarding_application'', [214, 248, 227, 138, 200, 173, 213, 237],
        [TBool]),
      (''set_identity_activation'', [116, 97, 228, 110, 7, 8, 137, 48],
        [TBool]),
      (''submit_onboarding_application'', [142, 90, 133, 118, 109, 180, 144, 88],
        [TPubkey, TFixed 32]),
      (''transfer_ownership'', [65, 177, 215, 73, 53, 45, 99, 47],
        [TPubkey]),
      (''unbind_registry'', [114, 46, 163, 242, 212, 25, 179, 186],
        [TPubkey]),
      (''update_country'', [142, 211, 229, 157, 37, 199, 79, 194],
        [TU16]),
      (''update_identity'', [130, 54, 88, 104, 222, 124, 238, 252],
        [TPubkey])]"

definition tir_idl :: idl where
  "tir_idl =
     [(''add_trusted_issuer'', [172, 111, 139, 169, 229, 89, 73, 214],
        [TPubkey, TVecU64, TString]),
      (''deactivate_issuer'', [52, 10, 163, 187, 247, 22, 150, 37],
        []),
      (''initialize_tir'', [208, 51, 155, 69, 110, 179, 90, 141],
        [TPubkey]),
      (''is_trusted_for_topic'', [17, 100, 173, 213, 91, 86, 32, 102],
        [TPubkey, TU64]),
      (''reactivate_issuer'', [174, 162, 75, 94, 50, 88, 97, 99],
        []),
      (''remove_trusted_issuer'', [249, 241, 232, 207, 37, 38, 64, 221],
        []),
      (''transfer_ownership'', [65, 177, 215, 73, 53, 45, 99, 47],
        [TPubkey]),
      (''update_issuer_topics'', [22, 245, 20, 152, 126, 159, 240, 85],
        [TVecU64])]"

definition ctr_idl :: idl where
  "ctr_idl =
     [(''add_claim_topic'', [161, 108, 94, 222, 8, 165, 138, 97],
        [TU64]),
      (''initialize_ctr'', [42, 126, 125, 199, 230, 35, 174, 167],
        [TPubkey]),
      (''remove_claim_topic'', [227, 165, 23, 147, 154, 68, 26, 221],
        [TU64]),
      (''transfer_ownership'', [65, 177, 215, 73, 53, 45, 99, 47],
        [TPubkey])]"

definition compliance_idl :: idl where
  "compliance_idl =
     [(''bind_module'', [204, 76, 224, 62, 21, 167, 210, 117],
        [TPubkey]),
      (''call_module_function'', [128, 194, 221, 247, 80, 181, 107, 234],
        [TBytes]),
      (''can_transfer'', [233, 153, 157, 96, 140, 58, 200, 137],
        [TPubkey, TPubkey, TU64, TU64, TU64, TU16, TU16]),
      (''created'', [181, 154, 183, 237, 76, 88, 131, 92],
        [TPubkey, TU64, TU64, TU16]),
      (''destroyed'', [212, 251, 145, 156, 56, 131, 108, 36],
        [TPubkey, TU64, TU64, TU16]),
      (''initialize_compliance'', [77, 93, 116, 221, 108, 121, 232, 145],
        [TPubkey]),
      (''set_modules_paused'', [12, 128, 245, 18, 209, 111, 131, 155],
        [TBool]),
      (''transfer_ownership'', [65, 177, 215, 73, 53, 45, 99, 47],
        [TPubkey]),
      (''transferred'', [234, 216, 64, 126, 163, 136, 73, 206],
        [TPubkey, TPubkey, TU64, TU64, TU64, TU16, TU16]),
      (''unbind_module'', [111, 182, 247, 190, 48, 145, 187, 67],
        [TPubkey])]"

definition fid_idl :: idl where
  "fid_idl =
     [(''add_claim'', [70, 114, 85, 106, 66, 244, 46, 99],
        [TU64, TPubkey, TFixed 32, TFixed 64, TI64]),
      (''create_fid'', [170, 229, 98, 240, 20, 109, 122, 238],
        [TBool, TU16]),
      (''remove_claim'', [4, 246, 59, 78, 67, 11, 210, 12],
        []),
      (''revoke_claim'', [182, 1, 142, 33, 207, 153, 37, 132],
        []),
      (''set_management_key'', [218, 115, 203, 190, 29, 167, 60, 248],
        [TPubkey]),
      (''set_signer_key'', [3, 33, 201, 254, 15, 8, 55, 21],
        [TPubkey]),
      (''update_fid_profile'', [159, 190, 109, 197, 159, 196, 229, 194],
        [TBool, TU16])]"

definition factory_idl :: idl where
  "factory_idl =
     [(''accept_custody_mandate'', [42, 105, 124, 166, 212, 48, 135, 19],
        []),
      (''approve_platform_authority'', [140, 146, 189, 4, 101, 222, 84, 131],
        [TPubkey, TU64]),
      (''attest_custody'', [254, 29, 125, 248, 142, 129, 59, 82],
        [TFixed 32, TFixed 32, TI64]),
      (''attest_reserve'', [67, 148, 114, 40, 247, 214, 157, 238],
        [TU16, TFixed 32, TI64]),
      (''create_custody_mandate'', [121, 225, 189, 63, 105, 0, 147, 72],
        [TU64, TPubkey, TPubkey, TPubkey]),
      (''create_token_mint'', [35, 109, 237, 196, 54, 218, 33, 119],
        [TU8]),
      (''deploy_token_suite'', [133, 32, 158, 211, 16, 63, 187, 87],
        [TPubkey, TU64, TPubkey, TString, TString, TU8, TString, TVecU64, TVecIssuer, TVecPubkey, TOptPubkey, TFixed 32]),
      (''initialize_factory'', [179, 64, 75, 250, 39, 254, 240, 178],
        []),
      (''release_custody_mandate'', [29, 50, 152, 59, 221, 125, 111, 101],
        [TFixed 32]),
      (''revoke_platform_authority'', [7, 7, 103, 233, 134, 154, 157, 153],
        [TPubkey, TU64]),
      (''sign_redemption_event'', [235, 238, 140, 90, 52, 127, 109, 155],
        [TU64, TFixed 32]),
      (''transfer_factory_ownership'', [134, 88, 151, 250, 30, 237, 59, 180],
        [TPubkey]),
      (''update_program_ids'', [64, 125, 148, 202, 2, 202, 189, 189],
        [TPubkey, TPubkey, TPubkey, TPubkey, TPubkey, TPubkey, TPubkey])]"

section \<open>The readers invert the format\<close>

locale borsh_item =
  fixes enc :: "'a \<Rightarrow> bytes" and ok :: "'a \<Rightarrow> bool" and get :: "'a getter"
  assumes get_enc: "ok x \<Longrightarrow> get (enc x @ rest) = Some (x, rest)"
begin

lemma get_many_enc:
  "list_all ok xs \<Longrightarrow> get_many (length xs) get (concat (map enc xs) @ rest) = Some (xs, rest)"
  by (induction xs) (simp_all add: get_enc)

end

lemma get_bytes_at: "length b = n \<Longrightarrow> get_bytes n (b @ rest) = Some (b, rest)"
  by (simp add: get_bytes_def)

lemma get_uint_at: "fits n v \<Longrightarrow> get_uint n (le_bytes n v @ rest) = Some (v, rest)"
  by (simp add: get_uint_def get_map_def get_bytes_at)

interpretation item_u64: borsh_item "le_bytes 8" "fits 8" "get_uint 8"
  by unfold_locales (rule get_uint_at)

interpretation item_key: borsh_item "\<lambda>k. k" "\<lambda>k. length k = 32" "get_bytes 32"
  by unfold_locales (rule get_bytes_at)

context borsh_item
begin

lemma get_vec_enc:
  assumes "fits 4 (int (length xs))" and "list_all ok xs"
  shows "get_vec get (le_bytes 4 (int (length xs)) @ concat (map enc xs) @ rest) = Some (xs, rest)"
  using assms by (simp add: get_vec_def get_bind_def get_uint_at get_many_enc)

end

lemma get_string_at: "string_ok s \<Longrightarrow> get_string (borsh_string s @ rest) = Some (s, rest)"
  by (simp add: get_string_def borsh_string_def string_ok_def get_bind_def get_uint_at get_bytes_at
      utf8_decode_encode)

lemma get_vec_u64_at: "vec_u64_ok vs \<Longrightarrow> get_vec (get_uint 8) (borsh_vec_u64 vs @ rest) = Some (vs, rest)"
  using item_u64.get_vec_enc [of vs rest] by (simp add: borsh_vec_u64_def vec_u64_ok_def)

interpretation item_issuer: borsh_item borsh_issuer "issuer_ok C" get_issuer for C
  by unfold_locales
    (auto simp: borsh_issuer_def issuer_ok_def get_issuer_def get_bind_def key_ok_def get_bytes_at
      get_string_at get_vec_u64_at split: prod.splits)

lemma get_flag_at: "get_flag ((if b then 1 else 0) # rest) = Some (b, rest)"
  by (simp add: get_flag_def get_bind_def get_uint_def get_map_def get_bytes_def)

lemma list_all_mono_length: "list_all (key_ok C) ks \<Longrightarrow> list_all (\<lambda>k. length k = 32) ks"
  by (auto simp: list_all_iff key_ok_def)

lemma borsh_get_val:
  assumes "bval_ok C v"
  shows "borsh_get (bty_of v) (borsh_val v @ rest) = Some (v, rest)"
proof (cases v)
  case (BI64 i)
  then have "to_signed 8 (i mod 256 ^ 8) = i" using assms by (intro to_signed_mod) auto
  then show ?thesis
    using BI64 by (simp add: get_map_def get_uint_def get_bytes_at)
next
  case (BVecPubkey ks)
  then show ?thesis
    using assms item_key.get_vec_enc [of ks rest] list_all_mono_length [of C ks] by (simp add: get_map_def)
next
  case (BVecIssuer es)
  then show ?thesis
    using assms item_issuer.get_vec_enc [of es C rest] by (simp add: get_map_def)
next
  case (BOptPubkey k)
  then show ?thesis
    using assms get_flag_at [of True] get_flag_at [of False]
    by (cases k) (simp_all add: get_map_def get_bind_def key_ok_def get_bytes_at)
next
  case (BBool b)
  then show ?thesis using get_flag_at [of b rest] by (simp add: get_map_def)
qed (use assms in \<open>simp_all add: get_map_def get_bind_def key_ok_def get_bytes_at get_uint_at
    get_string_at get_vec_u64_at del: One_nat_def le_bytes.simps\<close>)

lemma borsh_read_borsh:
  "list_all (bval_ok C) vs \<Longrightarrow> borsh_read (map bty_of vs) (borsh vs @ rest) = Some (vs, rest)"
  by (induction vs) (simp_all add: borsh_get_val [of C])

lemma program_reads_entry:
  assumes "List.find (\<lambda>(n, d, ts). map word_of_int d = disc) idl = Some (n, d, map bty_of vs)"
    and "length disc = 8" and "list_all (bval_ok C) vs"
  shows "program_reads idl (disc @ borsh vs) = Some (n, vs)"
  using assms borsh_read_borsh [OF assms(3), of "[]"] by (simp add: program_reads_def)

end
