(* ===== verification/InstructionProperties.thy ===== *)
theory InstructionProperties
  imports Instructions ProgramIdl
begin

text \<open>
  The instructions the web client builds are the instructions the programs take: the program finds
  the entry of its interface the discriminator belongs to and reads back the arguments of the call.
  The calls the client offers are gathered in one datatype per program; four builders that do not
  agree with the interface of their program are treated apart.
\<close>

section \<open>Encoders produce Borsh\<close>

fun encode_bval :: "bval \<Rightarrow> bytes res" where
  "encode_bval (BPubkey k) = encodePubkey k"
| "encode_bval (BU8 v) = encodeU8 v"
| "encode_bval (BU16 v) = encodeU16 v"
| "encode_bval (BU32 v) = encodeU32 v"
| "encode_bval (BU64 v) = encodeU64 v"
| "encode_bval (BI64 v) = encodeI64 v"
| "encode_bval (BBool b) = encodeBool b"
| "encode_bval (BString s) = encodeString s"
| "encode_bval (BBytes b) = encodeBytes b"
| "encode_bval (BFixed n b) = encodeFixedBytes b n"
| "encode_bval (BVecU64 vs) = encodeVecU64 vs"
| "encode_bval (BVecPubkey ks) = encodeVecPubkey ks"
| "encode_bval (BOptPubkey k) = encodeOptionPubkey k"
| "encode_bval (BVecIssuer es) = concat_res (encodeU32 (int (length es)) #
     map (\<lambda>(k, vs, s). encodeTrustedIssuerInput \<lparr> ti_issuerFid = k, ti_topics = vs, ti_label = s \<rparr>) es)"

lemma concat_res_simps [simp]:
  "concat_res [] = Inr []"
  "concat_res (Inl e # ps) = Inl e"
  "concat_res (Inr b # ps) = (case concat_res ps of Inl e \<Rightarrow> Inl e | Inr bs \<Rightarrow> Inr (b @ bs))"
  by (simp_all add: concat_res_def)

lemma concat_res_map:
  "(\<And>x. f x = Inr (g x)) \<Longrightarrow> concat_res (map f xs) = Inr (concat (map g xs))"
  by (induction xs) simp_all

lemma encodeU32_fits: "fits 4 v \<Longrightarrow> encodeU32 v = Inr (le_bytes 4 v)"
  by (simp add: encodeU32_def write_uint_def fits_def)

lemma encodeString_ok: "string_ok s \<Longrightarrow> encodeString s = Inr (borsh_string s)"
  by (simp add: encodeString_def borsh_string_def string_ok_def encodeU32_fits Let_def)

lemma encodeVecU64_ok: "vec_u64_ok vs \<Longrightarrow> encodeVecU64 vs = Inr (borsh_vec_u64 vs)"
  by (simp add: encodeVecU64_def borsh_vec_u64_def vec_u64_ok_def encodeU32_fits
      concat_res_map [OF encodeU64_def])

lemma encode_issuer_ok:
  "issuer_ok C (k, vs, s) \<Longrightarrow>
     encodeTrustedIssuerInput \<lparr> ti_issuerFid = k, ti_topics = vs, ti_label = s \<rparr> = Inr (borsh_issuer (k, vs, s))"
  by (simp add: encodeTrustedIssuerInput_def issuer_ok_def borsh_issuer_def encodePubkey_def
      encodeVecU64_ok encodeString_ok)

lemma concat_res_issuers:
  "list_all (issuer_ok C) es \<Longrightarrow>
     concat_res (map (\<lambda>(k, vs, s). encodeTrustedIssuerInput \<lparr> ti_issuerFid = k, ti_topics = vs, ti_label = s \<rparr>) es)
       = Inr (concat (map borsh_issuer es))"
  by (induction es) (auto simp: encode_issuer_ok)

lemma encode_bval_borsh: "bval_ok C v \<Longrightarrow> encode_bval v = Inr (borsh_val v)"
proof (cases v)
  case (BVecPubkey ks)
  assume "bval_ok C v"
  with BVecPubkey show ?thesis
    using concat_res_map [of encodePubkey "\<lambda>k. k" ks, OF encodePubkey_def]
    by (simp add: encodeVecPubkey_def encodeU32_fits)
qed (simp_all add: encodePubkey_def encodeU8_def encodeU16_def encodeU64_def encodeI64_def
    encodeBool_def encodeString_ok encodeVecU64_ok encodeBytes_def encodeFixedBytes_def
    encodeOptionPubkey_def encodeU32_fits concat_res_issuers [of C] write_uint_def fits_def
    split: option.splits)

lemma concat_res_borsh:
  "list_all (bval_ok C) vs \<Longrightarrow> concat_res (map encode_bval vs) = Inr (borsh vs)"
  by (induction vs) (simp_all add: encode_bval_borsh [of C])

section \<open>From a builder to the program\<close>

text \<open>The argument types a program reads for the discriminator the client sends under a name.\<close>

definition idl_entry :: "idl \<Rightarrow> string \<Rightarrow> bty list option" where
  "idl_entry idl name =
     (case map_of INSTRUCTION_DISCRIMINATORS name of
        None \<Rightarrow> None
      | Some d \<Rightarrow>
          (case List.find (\<lambda>(n, d', ts). map word_of_int d' = (map word_of_int d :: bytes)) idl of
             None \<Rightarrow> None
           | Some (n, d', ts) \<Rightarrow> if n = name \<and> length d = 8 then Some ts else None))"

definition understood ::
    "idl \<Rightarrow> pubkey \<Rightarrow> account_meta list \<Rightarrow> string \<times> bval list \<Rightarrow> transaction_instruction res \<Rightarrow> bool" where
  "understood idl p keys call r \<longleftrightarrow>
     (\<exists>ix. r = Inr ix \<and> ix_programId ix = p \<and> ix_keys ix = keys \<and>
        program_reads idl (ix_data ix) = Some call)"

lemma built_is_understood:
  assumes "idl_entry idl name = Some (map bty_of vs)" and "list_all (bval_ok C) vs"
    and "concat_res parts = Inr (borsh vs)"
  shows "understood idl p keys (name, vs) (buildInstruction p keys (buildInstructionData name parts))"
proof -
  obtain d d' where d: "map_of INSTRUCTION_DISCRIMINATORS name = Some d" "length d = 8"
    "List.find (\<lambda>(n, d', ts). map word_of_int d' = (map word_of_int d :: bytes)) idl
       = Some (name, d', map bty_of vs)"
    using assms(1) by (auto simp: idl_entry_def split: option.splits if_splits)
  have "program_reads idl (map word_of_int d @ borsh vs) = Some (name, vs)"
    using program_reads_entry [OF d(3) _ assms(2)] d(2) by simp
  then show ?thesis
    using d assms(3)
    by (simp add: understood_def buildInstruction_def buildInstructionData_def
        getInstructionDiscriminator_def)
qed

lemma encoded_is_understood:
  assumes "idl_entry idl name = Some (map bty_of vs)" and "list_all (bval_ok C) vs"
    and "parts = map encode_bval vs"
  shows "understood idl p keys (name, vs) (buildInstruction p keys (buildInstructionData name parts))"
  using built_is_understood [OF assms(1,2)] concat_res_borsh [OF assms(2)] assms(3) by blast

section \<open>The calls of the client\<close>

datatype token_call =
    IxInitializeToken pubkey utext utext int utext pubkey pubkey
  | IxTransfer int int int
  | IxMint pubkey int int
  | IxBurn pubkey int int
  | IxForcedTransfer pubkey pubkey int int int
  | IxRecovery pubkey pubkey int
  | IxFinalizeRecovery pubkey pubkey int
  | IxPause
  | IxUnpause
  | IxSetIdentityRegistry pubkey
  | IxSetCompliance pubkey
  | IxAddAgent pubkey
  | IxRemoveAgent
  | IxTransferOwnership pubkey
  | IxFreezeWallet
  | IxUnfreezeWallet
  | IxFreezePartial int
  | IxUnfreezePartial int

fun token_build :: "program_ids \<Rightarrow> account_meta list \<Rightarrow> token_call \<Rightarrow> transaction_instruction res" where
  "token_build P keys (IxInitializeToken tokenMint name symbol decimals isin identityRegistry complianceKey) = buildInitializeTokenInstruction P keys tokenMint name symbol decimals isin identityRegistry complianceKey"
| "token_build P keys (IxTransfer amount fromBalance toBalance) = buildTransferInstruction P keys amount fromBalance toBalance"
| "token_build P keys (IxMint to amount toBalanceAfter) = buildMintInstruction P keys to amount toBalanceAfter"
| "token_build P keys (IxBurn from amount fromBalanceAfter) = buildBurnInstruction P keys from amount fromBalanceAfter"
| "token_build P keys (IxForcedTransfer from to amount fromBalance toBalance) = buildForcedTransferInstruction P keys from to amount fromBalance toBalance"
| "token_build P keys (IxRecovery lostWallet newWallet amount) = buildRecoveryInstruction P keys lostWallet newWallet amount"
| "token_build P keys (IxFinalizeRecovery lostWallet newWallet amount) = buildFinalizeRecoveryInstruction P keys lostWallet newWallet amount"
| "token_build P keys IxPause = buildPauseInstruction P keys"
| "token_build P keys IxUnpause = buildUnpauseInstruction P keys"
| "token_build P keys (IxSetIdentityRegistry newIdentityRegistry) = buildSetIdentityRegistryInstruction P keys newIdentityRegistry"
| "token_build P keys (IxSetCompliance newCompliance) = buildSetComplianceInstruction P keys newCompliance"
| "token_build P keys (IxAddAgent agent) = buildAddAgentInstruction P keys agent"
| "token_build P keys IxRemoveAgent = buildRemoveAgentInstruction P keys"
| "token_build P keys (IxTransferOwnership newOwner) = buildTransferOwnershipInstruction P keys newOwner"
| "token_build P keys IxFreezeWallet = buildFreezeWalletInstruction P keys"
| "token_build P keys IxUnfreezeWallet = buildUnfreezeWalletInstruction P keys"
| "token_build P keys (IxFreezePartial amount) = buildFreezePartialInstruction P keys amount"
| "token_build P keys (IxUnfreezePartial amount) = buildUnfreezePartialInstruction P keys amount"

fun token_args :: "token_call \<Rightarrow> string \<times> bval list" where
  "token_args (IxInitializeToken tokenMint name symbol decimals isin identityRegistry complianceKey) = (''initialize_token'',
     [BPubkey tokenMint, BString name, BString symbol, BU8 decimals, BString isin,
      BPubkey identityRegistry, BPubkey complianceKey])"
| "token_args (IxTransfer amount fromBalance toBalance) = (''transfer'',
     [BU64 amount, BU64 fromBalance, BU64 toBalance])"
| "token_args (IxMint to amount toBalanceAfter) = (''mint'',
     [BPubkey to, BU64 amount, BU64 toBalanceAfter])"
| "token_args (IxBurn from amount fromBalanceAfter) = (''burn'',
     [BPubkey from, BU64 amount, BU64 fromBalanceAfter])"
| "token_args (IxForcedTransfer from to amount fromBalance toBalance) = (''forced_transfer'',
     [BPubkey from, BPubkey to, BU64 amount, BU64 fromBalance, BU64 toBalance])"
| "token_args (IxRecovery lostWallet newWallet amount) = (''recovery'',
     [BPubkey lostWallet, BPubkey newWallet, BU64 amount])"
| "token_args (IxFinalizeRecovery lostWallet newWallet amount) = (''finalize_recovery'',
     [BPubkey lostWallet, BPubkey newWallet, BU64 amount])"
| "token_args IxPause = (''pause'',
     [])"
| "token_args IxUnpause = (''unpause'',
     [])"
| "token_args (IxSetIdentityRegistry newIdentityRegistry) = (''set_identity_registry'',
     [BPubkey newIdentityRegistry])"
| "token_args (IxSetCompliance newCompliance) = (''set_compliance'',
     [BPubkey newCompliance])"
| "token_args (IxAddAgent agent) = (''add_agent'',
     [BPubkey agent])"
| "token_args IxRemoveAgent = (''remove_agent'',
     [])"
| "token_args (IxTransferOwnership newOwner) = (''transfer_ownership'',
     [BPubkey newOwner])"
| "token_args IxFreezeWallet = (''freeze_wallet'',
     [])"
| "token_args IxUnfreezeWallet = (''unfreeze_wallet'',
     [])"
| "token_args (IxFreezePartial amount) = (''freeze_partial'',
     [BU64 amount])"
| "token_args (IxUnfreezePartial amount) = (''unfreeze_partial'',
     [BU64 amount])"

datatype hook_call =
    IxInitializeExtraAccountMetas
  | IxApproveTransfer pubkey pubkey pubkey int int int int int int

fun hook_build :: "program_ids \<Rightarrow> account_meta list \<Rightarrow> hook_call \<Rightarrow> transaction_instruction res" where
  "hook_build P keys IxInitializeExtraAccountMetas = buildInitializeExtraAccountMetasInstruction P keys"
| "hook_build P keys (IxApproveTransfer sourceWallet destinationWallet authority amount fromBalance toBalance fromCountry toCountry kind) = buildApproveTransferInstruction P keys sourceWallet destinationWallet authority amount fromBalance toBalance fromCountry toCountry kind"

fun hook_args :: "hook_call \<Rightarrow> string \<times> bval list" where
  "hook_args IxInitializeExtraAccountMetas = (''initialize_extra_account_metas'',
     [])"
| "hook_args (IxApproveTransfer sourceWallet destinationWallet authority amount fromBalance toBalance fromCountry toCountry kind) = (''approve_transfer'',
     [BPubkey sourceWallet, BPubkey destinationWallet, BPubkey authority, BU64 amount,
      BU64 fromBalance, BU64 toBalance, BU16 fromCountry, BU16 toCountry, BU8 kind])"

datatype irp_call =
    IxInitializeRegistry pubkey pubkey pubkey pubkey
  | IxAddIdentityAgent pubkey
  | IxRemoveIdentityAgent pubkey
  | IxUpdateIrsReference pubkey
  | IxUpdateTirReference pubkey
  | IxUpdateCtrReference pubkey
  | IxTransferRegistryOwnership pubkey
  | IxIsVerified pubkey

fun irp_build :: "program_ids \<Rightarrow> account_meta list \<Rightarrow> irp_call \<Rightarrow> transaction_instruction res" where
  "irp_build P keys (IxInitializeRegistry tokenMint irsKey tirKey ctrKey) = buildInitializeRegistryInstruction P keys tokenMint irsKey tirKey ctrKey"
| "irp_build P keys (IxAddIdentityAgent agent) = buildAddIdentityAgentInstruction P keys agent"
| "irp_build P keys (IxRemoveIdentityAgent agent) = buildRemoveIdentityAgentInstruction P keys agent"
| "irp_build P keys (IxUpdateIrsReference newIrs) = buildUpdateIrsReferenceInstruction P keys newIrs"
| "irp_build P keys (IxUpdateTirReference newTir) = buildUpdateTirReferenceInstruction P keys newTir"
| "irp_build P keys (IxUpdateCtrReference newCtr) = buildUpdateCtrReferenceInstruction P keys newCtr"
| "irp_build P keys (IxTransferRegistryOwnership newOwner) = buildTransferRegistryOwnershipInstruction P keys newOwner"
| "irp_build P keys (IxIsVerified wallet) = buildIsVerifiedInstruction P keys wallet"

fun irp_args :: "irp_call \<Rightarrow> string \<times> bval list" where
  "irp_args (IxInitializeRegistry tokenMint irsKey tirKey ctrKey) = (''initialize_registry'',
     [BPubkey tokenMint, BPubkey irsKey, BPubkey tirKey, BPubkey ctrKey])"
| "irp_args (IxAddIdentityAgent agent) = (''add_identity_agent'',
     [BPubkey agent])"
| "irp_args (IxRemoveIdentityAgent agent) = (''remove_identity_agent'',
     [BPubkey agent])"
| "irp_args (IxUpdateIrsReference newIrs) = (''update_irs_reference'',
     [BPubkey newIrs])"
| "irp_args (IxUpdateTirReference newTir) = (''update_tir_reference'',
     [BPubkey newTir])"
| "irp_args (IxUpdateCtrReference newCtr) = (''update_ctr_reference'',
     [BPubkey newCtr])"
| "irp_args (IxTransferRegistryOwnership newOwner) = (''transfer_registry_ownership'',
     [BPubkey newOwner])"
| "irp_args (IxIsVerified wallet) = (''is_verified'',
     [BPubkey wallet])"

datatype irs_call =
    IxBindRegistry pubkey
  | IxUnbindRegistry pubkey
  | IxRegisterIdentity pubkey pubkey int
  | IxUpdateIdentity pubkey
  | IxUpdateCountry int
  | IxRemoveIdentity

fun irs_build :: "program_ids \<Rightarrow> account_meta list \<Rightarrow> irs_call \<Rightarrow> transaction_instruction res" where
  "irs_build P keys (IxBindRegistry irpPubkey) = buildBindRegistryInstruction P keys irpPubkey"
| "irs_build P keys (IxUnbindRegistry irpPubkey) = buildUnbindRegistryInstruction P keys irpPubkey"
| "irs_build P keys (IxRegisterIdentity wallet fidKey country) = buildRegisterIdentityInstruction P keys wallet fidKey country"
| "irs_build P keys (IxUpdateIdentity newFid) = buildUpdateIdentityInstruction P keys newFid"
| "irs_build P keys (IxUpdateCountry newCountry) = buildUpdateCountryInstruction P keys newCountry"
| "irs_build P keys IxRemoveIdentity = buildRemoveIdentityInstruction P keys"

fun irs_args :: "irs_call \<Rightarrow> string \<times> bval list" where
  "irs_args (IxBindRegistry irpPubkey) = (''bind_registry'',
     [BPubkey irpPubkey])"
| "irs_args (IxUnbindRegistry irpPubkey) = (''unbind_registry'',
     [BPubkey irpPubkey])"
| "irs_args (IxRegisterIdentity wallet fidKey country) = (''register_identity'',
     [BPubkey wallet, BPubkey fidKey, BU16 country])"
| "irs_args (IxUpdateIdentity newFid) = (''update_identity'',
     [BPubkey newFid])"
| "irs_args (IxUpdateCountry newCountry) = (''update_country'',
     [BU16 newCountry])"
| "irs_args IxRemoveIdentity = (''remove_identity'',
     [])"

datatype tir_call =
    IxInitializeTir pubkey
  | IxAddTrustedIssuer pubkey "int list" utext
  | IxUpdateIssuerTopics "int list"
  | IxDeactivateIssuer
  | IxReactivateIssuer
  | IxRemoveTrustedIssuer
  | IxIsTrustedForTopic pubkey int

fun tir_build :: "program_ids \<Rightarrow> account_meta list \<Rightarrow> tir_call \<Rightarrow> transaction_instruction res" where
  "tir_build P keys (IxInitializeTir tokenMint) = buildInitializeTirInstruction P keys tokenMint"
| "tir_build P keys (IxAddTrustedIssuer issuerFid topics label) = buildAddTrustedIssuerInstruction P keys issuerFid topics label"
| "tir_build P keys (IxUpdateIssuerTopics newTopics) = buildUpdateIssuerTopicsInstruction P keys newTopics"
| "tir_build P keys IxDeactivateIssuer = buildDeactivateIssuerInstruction P keys"
| "tir_build P keys IxReactivateIssuer = buildReactivateIssuerInstruction P keys"
| "tir_build P keys IxRemoveTrustedIssuer = buildRemoveTrustedIssuerInstruction P keys"
| "tir_build P keys (IxIsTrustedForTopic issuerFid topic) = buildIsTrustedForTopicInstruction P keys issuerFid topic"

fun tir_args :: "tir_call \<Rightarrow> string \<times> bval list" where
  "tir_args (IxInitializeTir tokenMint) = (''initialize_tir'',
     [BPubkey tokenMint])"
| "tir_args (IxAddTrustedIssuer issuerFid topics label) = (''add_trusted_issuer'',
     [BPubkey issuerFid, BVecU64 topics, BString label])"
| "tir_args (IxUpdateIssuerTopics newTopics) = (''update_issuer_topics'',
     [BVecU64 newTopics])"
| "tir_args IxDeactivateIssuer = (''deactivate_issuer'',
     [])"
| "tir_args IxReactivateIssuer = (''reactivate_issuer'',
     [])"
| "tir_args IxRemoveTrustedIssuer = (''remove_trusted_issuer'',
     [])"
| "tir_args (IxIsTrustedForTopic issuerFid topic) = (''is_trusted_for_topic'',
     [BPubkey issuerFid, BU64 topic])"

datatype ctr_call =
    IxInitializeCtr pubkey
  | IxAddClaimTopic int
  | IxRemoveClaimTopic int

fun ctr_build :: "program_ids \<Rightarrow> account_meta list \<Rightarrow> ctr_call \<Rightarrow> transaction_instruction res" where
  "ctr_build P keys (IxInitializeCtr tokenMint) = buildInitializeCtrInstruction P keys tokenMint"
| "ctr_build P keys (IxAddClaimTopic topicId) = buildAddClaimTopicInstruction P keys topicId"
| "ctr_build P keys (IxRemoveClaimTopic topicId) = buildRemoveClaimTopicInstruction P keys topicId"

fun ctr_args :: "ctr_call \<Rightarrow> string \<times> bval list" where
  "ctr_args (IxInitializeCtr tokenMint) = (''initialize_ctr'',
     [BPubkey tokenMint])"
| "ctr_args (IxAddClaimTopic topicId) = (''add_claim_topic'',
     [BU64 topicId])"
| "ctr_args (IxRemoveClaimTopic topicId) = (''remove_claim_topic'',
     [BU64 topicId])"

datatype compliance_call =
    IxInitializeCompliance pubkey
  | IxBindModule pubkey
  | IxUnbindModule pubkey
  | IxSetModulesPaused bool
  | IxCallModuleFunction bytes
  | IxCanTransfer pubkey pubkey int int int int int
  | IxTransferred pubkey pubkey int int int int int
  | IxCreated pubkey int int int
  | IxDestroyed pubkey int int int

fun compliance_build :: "program_ids \<Rightarrow> account_meta list \<Rightarrow> compliance_call \<Rightarrow> transaction_instruction res" where
  "compliance_build P keys (IxInitializeCompliance tokenMint) = buildInitializeComplianceInstruction P keys tokenMint"
| "compliance_build P keys (IxBindModule modulePubkey) = buildBindModuleInstruction P keys modulePubkey"
| "compliance_build P keys (IxUnbindModule modulePubkey) = buildUnbindModuleInstruction P keys modulePubkey"
| "compliance_build P keys (IxSetModulesPaused paused) = buildSetModulesPausedInstruction P keys paused"
| "compliance_build P keys (IxCallModuleFunction data) = buildCallModuleFunctionInstruction P keys data"
| "compliance_build P keys (IxCanTransfer from to amount fromBalance toBalance fromCountry toCountry) = buildCanTransferInstruction P keys from to amount fromBalance toBalance fromCountry toCountry"
| "compliance_build P keys (IxTransferred from to amount fromBalanceAfter toBalanceAfter fromCountry toCountry) = buildTransferredInstruction P keys from to amount fromBalanceAfter toBalanceAfter fromCountry toCountry"
| "compliance_build P keys (IxCreated to amount toBalanceAfter toCountry) = buildCreatedInstruction P keys to amount toBalanceAfter toCountry"
| "compliance_build P keys (IxDestroyed from amount fromBalanceAfter fromCountry) = buildDestroyedInstruction P keys from amount fromBalanceAfter fromCountry"

fun compliance_args :: "compliance_call \<Rightarrow> string \<times> bval list" where
  "compliance_args (IxInitializeCompliance tokenMint) = (''initialize_compliance'',
     [BPubkey tokenMint])"
| "compliance_args (IxBindModule modulePubkey) = (''bind_module'',
     [BPubkey modulePubkey])"
| "compliance_args (IxUnbindModule modulePubkey) = (''unbind_module'',
     [BPubkey modulePubkey])"
| "compliance_args (IxSetModulesPaused paused) = (''set_modules_paused'',
     [BBool paused])"
| "compliance_args (IxCallModuleFunction data) = (''call_module_function'',
     [BBytes data])"
| "compliance_args (IxCanTransfer from to amount fromBalance toBalance fromCountry toCountry) = (''can_transfer'',
     [BPubkey from, BPubkey to, BU64 amount, BU64 fromBalance, BU64 toBalance, BU16 fromCountry,
      BU16 toCountry])"
| "compliance_args (IxTransferred from to amount fromBalanceAfter toBalanceAfter fromCountry toCountry) = (''transferred'',
     [BPubkey from, BPubkey to, BU64 amount, BU64 fromBalanceAfter, BU64 toBalanceAfter,
      BU16 fromCountry, BU16 toCountry])"
| "compliance_args (IxCreated to amount toBalanceAfter toCountry) = (''created'',
     [BPubkey to, BU64 amount, BU64 toBalanceAfter, BU16 toCountry])"
| "compliance_args (IxDestroyed from amount fromBalanceAfter fromCountry) = (''destroyed'',
     [BPubkey from, BU64 amount, BU64 fromBalanceAfter, BU16 fromCountry])"

datatype fid_call =
    IxCreateFid bool int
  | IxSetManagementKey pubkey
  | IxSetSignerKey pubkey
  | IxAddClaim int pubkey bytes bytes int
  | IxRevokeClaim
  | IxRemoveClaim

fun fid_build :: "program_ids \<Rightarrow> account_meta list \<Rightarrow> fid_call \<Rightarrow> transaction_instruction res" where
  "fid_build P keys (IxCreateFid isIssuer country) = buildCreateFidInstruction P keys isIssuer country"
| "fid_build P keys (IxSetManagementKey newKey) = buildSetManagementKeyInstruction P keys newKey"
| "fid_build P keys (IxSetSignerKey newKey) = buildSetSignerKeyInstruction P keys newKey"
| "fid_build P keys (IxAddClaim topic issuerFid dataHash32 signature64 expiresAt) = buildAddClaimInstruction P keys topic issuerFid dataHash32 signature64 expiresAt"
| "fid_build P keys IxRevokeClaim = buildRevokeClaimInstruction P keys"
| "fid_build P keys IxRemoveClaim = buildRemoveClaimInstruction P keys"

fun fid_args :: "fid_call \<Rightarrow> string \<times> bval list" where
  "fid_args (IxCreateFid isIssuer country) = (''create_fid'',
     [BBool isIssuer, BU16 country])"
| "fid_args (IxSetManagementKey newKey) = (''set_management_key'',
     [BPubkey newKey])"
| "fid_args (IxSetSignerKey newKey) = (''set_signer_key'',
     [BPubkey newKey])"
| "fid_args (IxAddClaim topic issuerFid dataHash32 signature64 expiresAt) = (''add_claim'',
     [BU64 topic, BPubkey issuerFid, BFixed 32 dataHash32, BFixed 64 signature64, BI64 expiresAt])"
| "fid_args IxRevokeClaim = (''revoke_claim'',
     [])"
| "fid_args IxRemoveClaim = (''remove_claim'',
     [])"

datatype factory_call =
    IxInitializeFactory
  | IxUpdateProgramIds program_ids_arg
  | IxTransferFactoryOwnership pubkey
  | IxCreateTokenMint int

fun factory_build :: "program_ids \<Rightarrow> account_meta list \<Rightarrow> factory_call \<Rightarrow> transaction_instruction res" where
  "factory_build P keys IxInitializeFactory = buildInitializeFactoryInstruction P keys"
| "factory_build P keys (IxUpdateProgramIds a) = buildUpdateProgramIdsInstruction P keys a"
| "factory_build P keys (IxTransferFactoryOwnership newOwner) = buildTransferFactoryOwnershipInstruction P keys newOwner"
| "factory_build P keys (IxCreateTokenMint decimals) = buildCreateTokenMintInstruction P keys decimals"

fun factory_args :: "factory_call \<Rightarrow> string \<times> bval list" where
  "factory_args IxInitializeFactory = (''initialize_factory'',
     [])"
| "factory_args (IxUpdateProgramIds a) = (''update_program_ids'',
     [BPubkey (pa_tokenProgramId a), BPubkey (pa_fidProgramId a), BPubkey (pa_irpProgramId a),
      BPubkey (pa_irsProgramId a), BPubkey (pa_tirProgramId a), BPubkey (pa_ctrProgramId a),
      BPubkey (pa_complianceProgramId a)])"
| "factory_args (IxTransferFactoryOwnership newOwner) = (''transfer_factory_ownership'',
     [BPubkey newOwner])"
| "factory_args (IxCreateTokenMint decimals) = (''create_token_mint'',
     [BU8 decimals])"

section \<open>Each program understands its calls\<close>

lemma token_entries:
  "map (idl_entry token_idl)
     [''initialize_token'', ''transfer'', ''mint'', ''burn'', ''forced_transfer'', ''recovery'',
      ''finalize_recovery'', ''pause'', ''unpause'', ''set_identity_registry'',
      ''set_compliance'', ''add_agent'', ''remove_agent'', ''transfer_ownership'',
      ''freeze_wallet'', ''unfreeze_wallet'', ''freeze_partial'', ''unfreeze_partial''] =
   map Some
     [[TPubkey, TString, TString, TU8, TString, TPubkey, TPubkey], [TU64, TU64, TU64],
      [TPubkey, TU64, TU64], [TPubkey, TU64, TU64], [TPubkey, TPubkey, TU64, TU64, TU64],
      [TPubkey, TPubkey, TU64], [TPubkey, TPubkey, TU64], [], [], [TPubkey], [TPubkey],
      [TPubkey], [], [TPubkey], [], [], [TU64], [TU64]]"
  by code_simp

lemma token_understood:
  assumes "list_all (bval_ok C) (snd (token_args c))"
  shows "understood token_idl (token P) keys (token_args c) (token_build P keys c)"
  using assms token_entries
  by (cases c; simp only: token_args.simps token_build.simps snd_conv list.map list.inject
    buildInitializeTokenInstruction_def buildTransferInstruction_def
    buildMintInstruction_def buildBurnInstruction_def buildForcedTransferInstruction_def
    buildRecoveryInstruction_def buildFinalizeRecoveryInstruction_def
    buildPauseInstruction_def buildUnpauseInstruction_def
    buildSetIdentityRegistryInstruction_def buildSetComplianceInstruction_def
    buildAddAgentInstruction_def buildRemoveAgentInstruction_def
    buildTransferOwnershipInstruction_def buildFreezeWalletInstruction_def
    buildUnfreezeWalletInstruction_def buildFreezePartialInstruction_def
    buildUnfreezePartialInstruction_def)
    (elim conjE, rule encoded_is_understood [where C = C]; simp)+

lemma hook_entries:
  "map (idl_entry token_hook_idl)
     [''initialize_extra_account_metas'', ''approve_transfer''] =
   map Some
     [[], [TPubkey, TPubkey, TPubkey, TU64, TU64, TU64, TU16, TU16, TU8]]"
  by code_simp

lemma hook_understood:
  assumes "list_all (bval_ok C) (snd (hook_args c))"
  shows "understood token_hook_idl (tokenHook P) keys (hook_args c) (hook_build P keys c)"
  using assms hook_entries
  by (cases c; simp only: hook_args.simps hook_build.simps snd_conv list.map list.inject
    buildInitializeExtraAccountMetasInstruction_def buildApproveTransferInstruction_def)
    (elim conjE, rule encoded_is_understood [where C = C]; simp)+

lemma irp_entries:
  "map (idl_entry irp_idl)
     [''initialize_registry'', ''add_identity_agent'', ''remove_identity_agent'',
      ''update_irs_reference'', ''update_tir_reference'', ''update_ctr_reference'',
      ''transfer_registry_ownership'', ''is_verified''] =
   map Some
     [[TPubkey, TPubkey, TPubkey, TPubkey], [TPubkey], [TPubkey], [TPubkey], [TPubkey],
      [TPubkey], [TPubkey], [TPubkey]]"
  by code_simp

lemma irp_understood:
  assumes "list_all (bval_ok C) (snd (irp_args c))"
  shows "understood irp_idl (irp P) keys (irp_args c) (irp_build P keys c)"
  using assms irp_entries
  by (cases c; simp only: irp_args.simps irp_build.simps snd_conv list.map list.inject
    buildInitializeRegistryInstruction_def buildAddIdentityAgentInstruction_def
    buildRemoveIdentityAgentInstruction_def buildUpdateIrsReferenceInstruction_def
    buildUpdateTirReferenceInstruction_def buildUpdateCtrReferenceInstruction_def
    buildTransferRegistryOwnershipInstruction_def buildIsVerifiedInstruction_def)
    (elim conjE, rule encoded_is_understood [where C = C]; simp)+

lemma irs_entries:
  "map (idl_entry irs_idl)
     [''bind_registry'', ''unbind_registry'', ''register_identity'', ''update_identity'',
      ''update_country'', ''remove_identity''] =
   map Some
     [[TPubkey], [TPubkey], [TPubkey, TPubkey, TU16], [TPubkey], [TU16], []]"
  by code_simp

lemma irs_understood:
  assumes "list_all (bval_ok C) (snd (irs_args c))"
  shows "understood irs_idl (irs P) keys (irs_args c) (irs_build P keys c)"
  using assms irs_entries
  by (cases c; simp only: irs_args.simps irs_build.simps snd_conv list.map list.inject
    buildBindRegistryInstruction_def buildUnbindRegistryInstruction_def
    buildRegisterIdentityInstruction_def buildUpdateIdentityInstruction_def
    buildUpdateCountryInstruction_def buildRemoveIdentityInstruction_def)
    (elim conjE, rule encoded_is_understood [where C = C]; simp)+

lemma tir_entries:
  "map (idl_entry tir_idl)
     [''initialize_tir'', ''add_trusted_issuer'', ''update_issuer_topics'',
      ''deactivate_issuer'', ''reactivate_issuer'', ''remove_trusted_issuer'',
      ''is_trusted_for_topic''] =
   map Some
     [[TPubkey], [TPubkey, TVecU64, TString], [TVecU64], [], [], [], [TPubkey, TU64]]"
  by code_simp

lemma tir_understood:
  assumes "list_all (bval_ok C) (snd (tir_args c))"
  shows "understood tir_idl (tir P) keys (tir_args c) (tir_build P keys c)"
  using assms tir_entries
  by (cases c; simp only: tir_args.simps tir_build.simps snd_conv list.map list.inject
    buildInitializeTirInstruction_def buildAddTrustedIssuerInstruction_def
    buildUpdateIssuerTopicsInstruction_def buildDeactivateIssuerInstruction_def
    buildReactivateIssuerInstruction_def buildRemoveTrustedIssuerInstruction_def
    buildIsTrustedForTopicInstruction_def)
    (elim conjE, rule encoded_is_understood [where C = C]; simp)+

lemma ctr_entries:
  "map (idl_entry ctr_idl)
     [''initialize_ctr'', ''add_claim_topic'', ''remove_claim_topic''] =
   map Some
     [[TPubkey], [TU64], [TU64]]"
  by code_simp

lemma ctr_understood:
  assumes "list_all (bval_ok C) (snd (ctr_args c))"
  shows "understood ctr_idl (ctr P) keys (ctr_args c) (ctr_build P keys c)"
  using assms ctr_entries
  by (cases c; simp only: ctr_args.simps ctr_build.simps snd_conv list.map list.inject
    buildInitializeCtrInstruction_def buildAddClaimTopicInstruction_def
    buildRemoveClaimTopicInstruction_def)
    (elim conjE, rule encoded_is_understood [where C = C]; simp)+

lemma compliance_entries:
  "map (idl_entry compliance_idl)
     [''initialize_compliance'', ''bind_module'', ''unbind_module'', ''set_modules_paused'',
      ''call_module_function'', ''can_transfer'', ''transferred'', ''created'', ''destroyed''] =
   map Some
     [[TPubkey], [TPubkey], [TPubkey], [TBool], [TBytes],
      [TPubkey, TPubkey, TU64, TU64, TU64, TU16, TU16],
      [TPubkey, TPubkey, TU64, TU64, TU64, TU16, TU16], [TPubkey, TU64, TU64, TU16],
      [TPubkey, TU64, TU64, TU16]]"
  by code_simp

lemma compliance_understood:
  assumes "list_all (bval_ok C) (snd (compliance_args c))"
  shows "understood compliance_idl (compliance P) keys (compliance_args c) (compliance_build P keys c)"
  using assms compliance_entries
  by (cases c; simp only: compliance_args.simps compliance_build.simps snd_conv list.map list.inject
    buildInitializeComplianceInstruction_def buildBindModuleInstruction_def
    buildUnbindModuleInstruction_def buildSetModulesPausedInstruction_def
    buildCallModuleFunctionInstruction_def buildCanTransferInstruction_def
    buildTransferredInstruction_def buildCreatedInstruction_def
    buildDestroyedInstruction_def)
    (elim conjE, rule encoded_is_understood [where C = C]; simp)+

lemma fid_entries:
  "map (idl_entry fid_idl)
     [''create_fid'', ''set_management_key'', ''set_signer_key'', ''add_claim'',
      ''revoke_claim'', ''remove_claim''] =
   map Some
     [[TBool, TU16], [TPubkey], [TPubkey], [TU64, TPubkey, TFixed 32, TFixed 64, TI64], [], []]"
  by code_simp

lemma fid_understood:
  assumes "list_all (bval_ok C) (snd (fid_args c))"
  shows "understood fid_idl (fid P) keys (fid_args c) (fid_build P keys c)"
  using assms fid_entries
  by (cases c; simp only: fid_args.simps fid_build.simps snd_conv list.map list.inject
    buildCreateFidInstruction_def buildSetManagementKeyInstruction_def
    buildSetSignerKeyInstruction_def buildAddClaimInstruction_def
    buildRevokeClaimInstruction_def buildRemoveClaimInstruction_def)
    (elim conjE, rule encoded_is_understood [where C = C]; simp)+

lemma factory_entries:
  "map (idl_entry factory_idl)
     [''initialize_factory'', ''update_program_ids'', ''transfer_factory_ownership'',
      ''create_token_mint''] =
   map Some
     [[], [TPubkey, TPubkey, TPubkey, TPubkey, TPubkey, TPubkey, TPubkey], [TPubkey], [TU8]]"
  by code_simp

lemma factory_understood:
  assumes "list_all (bval_ok C) (snd (factory_args c))"
  shows "understood factory_idl (factory P) keys (factory_args c) (factory_build P keys c)"
proof (cases c)
  case (IxUpdateProgramIds a)
  have "concat_res [encodeProgramIdsArg a] = Inr (borsh (snd (factory_args c)))"
    using IxUpdateProgramIds by (simp add: encodeProgramIdsArg_def encodePubkey_def)
  then show ?thesis
    using assms factory_entries IxUpdateProgramIds
      built_is_understood [of factory_idl "''update_program_ids''" "snd (factory_args c)" C]
    by (simp add: buildUpdateProgramIdsInstruction_def)
qed (use assms factory_entries in \<open>simp_all only: factory_args.simps factory_build.simps snd_conv list.map
      list.inject buildInitializeFactoryInstruction_def buildTransferFactoryOwnershipInstruction_def
      buildCreateTokenMintInstruction_def\<close>,
    (elim conjE, rule encoded_is_understood [where C = C]; simp)+)

section \<open>All programs together\<close>

datatype client_call =
    TokenCall token_call
  | HookCall hook_call
  | IrpCall irp_call
  | IrsCall irs_call
  | TirCall tir_call
  | CtrCall ctr_call
  | ComplianceCall compliance_call
  | FidCall fid_call
  | FactoryCall factory_call

fun build_call :: "program_ids \<Rightarrow> account_meta list \<Rightarrow> client_call \<Rightarrow> transaction_instruction res" where
  "build_call P keys (TokenCall c) = token_build P keys c"
| "build_call P keys (HookCall c) = hook_build P keys c"
| "build_call P keys (IrpCall c) = irp_build P keys c"
| "build_call P keys (IrsCall c) = irs_build P keys c"
| "build_call P keys (TirCall c) = tir_build P keys c"
| "build_call P keys (CtrCall c) = ctr_build P keys c"
| "build_call P keys (ComplianceCall c) = compliance_build P keys c"
| "build_call P keys (FidCall c) = fid_build P keys c"
| "build_call P keys (FactoryCall c) = factory_build P keys c"

fun call_args :: "client_call \<Rightarrow> string \<times> bval list" where
  "call_args (TokenCall c) = token_args c"
| "call_args (HookCall c) = hook_args c"
| "call_args (IrpCall c) = irp_args c"
| "call_args (IrsCall c) = irs_args c"
| "call_args (TirCall c) = tir_args c"
| "call_args (CtrCall c) = ctr_args c"
| "call_args (ComplianceCall c) = compliance_args c"
| "call_args (FidCall c) = fid_args c"
| "call_args (FactoryCall c) = factory_args c"

fun call_target :: "program_ids \<Rightarrow> client_call \<Rightarrow> pubkey \<times> idl" where
  "call_target P (TokenCall c) = (token P, token_idl)"
| "call_target P (HookCall c) = (tokenHook P, token_hook_idl)"
| "call_target P (IrpCall c) = (irp P, irp_idl)"
| "call_target P (IrsCall c) = (irs P, irs_idl)"
| "call_target P (TirCall c) = (tir P, tir_idl)"
| "call_target P (CtrCall c) = (ctr P, ctr_idl)"
| "call_target P (ComplianceCall c) = (compliance P, compliance_idl)"
| "call_target P (FidCall c) = (fid P, fid_idl)"
| "call_target P (FactoryCall c) = (factory P, factory_idl)"

text \<open>
  C7. For 63 of the 67 instruction builders and all arguments in range: the builder returns an
  instruction for the right program with the given accounts, and the program, which takes the
  entry of its interface with the discriminator of the data and reads the arguments in Borsh
  format, reads exactly the instruction and the arguments of the call.
\<close>

theorem programs_read_the_calls_of_the_client:
  assumes "list_all (bval_ok C) (snd (call_args c))"
  shows "\<exists>ix. build_call P keys c = Inr ix \<and> ix_programId ix = fst (call_target P c) \<and>
    ix_keys ix = keys \<and> program_reads (snd (call_target P c)) (ix_data ix) = Some (call_args c)"
proof -
  have "understood (snd (call_target P c)) (fst (call_target P c)) keys (call_args c) (build_call P keys c)"
    using assms
    by (cases c)
      (simp_all add: token_understood hook_understood irp_understood irs_understood tir_understood
        ctr_understood compliance_understood fid_understood factory_understood)
  then show ?thesis by (simp add: understood_def)
qed

section \<open>Builders that do not match the interface\<close>

lemma no_entry_is_rejected:
  assumes "map_of INSTRUCTION_DISCRIMINATORS name = Some d" and "length d = 8"
    and "List.find (\<lambda>(n, d', ts). map word_of_int d' = (map word_of_int d :: bytes)) idl = None"
    and "concat_res parts = Inr args"
  shows "\<exists>ix. buildInstruction p keys (buildInstructionData name parts) = Inr ix \<and>
    program_reads idl (ix_data ix) = None"
  using assms
  by (simp add: buildInstruction_def buildInstructionData_def getInstructionDiscriminator_def
      program_reads_def)

lemma missing_entries:
  "map_of INSTRUCTION_DISCRIMINATORS ''accept_ownership'' = Some [172, 23, 43, 13, 238, 213, 85, 150]"
  "List.find (\<lambda>(n, d', ts). map word_of_int d' =
     (map word_of_int [172, 23, 43, 13, 238, 213, 85, 150] :: bytes)) token_idl = None"
  "map_of INSTRUCTION_DISCRIMINATORS ''execute_transfer_hook'' = Some [120, 157, 67, 141, 88, 144, 143, 220]"
  "List.find (\<lambda>(n, d', ts). map word_of_int d' =
     (map word_of_int [120, 157, 67, 141, 88, 144, 143, 220] :: bytes)) token_hook_idl = None"
  by code_simp+

lemma initialize_irs_data:
  "(case buildInstructionData ''initialize_irs'' [] of Inl e \<Rightarrow> False
    | Inr d \<Rightarrow> program_reads irs_idl d = None)"
  by code_simp

lemma programs_reject_three_builders:
  "(\<exists>ix. buildAcceptOwnershipInstruction P keys = Inr ix \<and> program_reads token_idl (ix_data ix) = None) \<and>
   (\<exists>ix. buildExecuteTransferHookInstruction P keys amount = Inr ix \<and>
      program_reads token_hook_idl (ix_data ix) = None) \<and>
   (\<exists>ix. buildInitializeIrsInstruction P keys = Inr ix \<and> program_reads irs_idl (ix_data ix) = None)"
proof (intro conjI)
  show "\<exists>ix. buildAcceptOwnershipInstruction P keys = Inr ix \<and> program_reads token_idl (ix_data ix) = None"
    unfolding buildAcceptOwnershipInstruction_def
    by (rule no_entry_is_rejected [OF missing_entries(1) _ missing_entries(2)]) simp_all
  show "\<exists>ix. buildExecuteTransferHookInstruction P keys amount = Inr ix \<and>
      program_reads token_hook_idl (ix_data ix) = None"
    unfolding buildExecuteTransferHookInstruction_def
    by (rule no_entry_is_rejected [OF missing_entries(3) _ missing_entries(4)]) (simp_all add: encodeU64_def)
  show "\<exists>ix. buildInitializeIrsInstruction P keys = Inr ix \<and> program_reads irs_idl (ix_data ix) = None"
    using initialize_irs_data
    by (auto simp: buildInitializeIrsInstruction_def buildInstruction_def split: sum.splits)
qed

text \<open>
  The factory reads an asset id after the issuer; the client does not send one, so the factory takes
  the first eight bytes of the mint for it.
\<close>

lemma borsh_read_ConsE:
  assumes "borsh_read (t # ts) bs = Some (vs, r)"
  obtains v r' vs' where "borsh_get t bs = Some (v, r')" and "borsh_read ts r' = Some (vs', r)"
    and "vs = v # vs'"
  using assms by (auto split: option.splits)

lemma deploy_entry:
  "idl_entry factory_idl ''deploy_token_suite'' = Some
     [TPubkey, TU64, TPubkey, TString, TString, TU8, TString, TVecU64, TVecIssuer, TVecPubkey,
      TOptPubkey, TFixed 32]"
  by code_simp

lemma concat_res_single: "concat_res [p] = p"
  by (cases p) simp_all

lemma deploy_arguments_start:
  assumes "encodeDeployTokenSuiteArgsArg a = Inr d"
  shows "\<exists>rest. d = da_issuer a @ da_tokenMint a @ rest"
proof -
  obtain ps where "concat_res (Inr (da_issuer a) # Inr (da_tokenMint a) # ps) = Inr d"
    using assms by (auto simp: encodeDeployTokenSuiteArgsArg_def encodePubkey_def simp del: concat_res_simps
        split: sum.splits)
  then show ?thesis by (auto split: sum.splits)
qed

lemma deploy_reads_asset_id_from_mint:
  assumes "buildDeployTokenSuiteInstruction P keys a = Inr ix"
    and "length (da_issuer a) = 32" and "length (da_tokenMint a) = 32"
    and "program_reads factory_idl (ix_data ix) = Some (name, vs)"
  shows "name = ''deploy_token_suite'' \<and> vs ! 0 = BPubkey (da_issuer a) \<and>
    vs ! 1 = BU64 (le_val (take 8 (da_tokenMint a)))"
proof -
  obtain d args where d: "map_of INSTRUCTION_DISCRIMINATORS ''deploy_token_suite'' = Some d"
    and args: "encodeDeployTokenSuiteArgsArg a = Inr args" and ix: "ix_data ix = map word_of_int d @ args"
    using assms(1)
    by (auto simp: buildDeployTokenSuiteInstruction_def buildInstruction_def buildInstructionData_def
        getInstructionDiscriminator_def concat_res_single split: sum.splits option.splits)
  obtain d' where len: "length d = 8"
    and entry: "List.find (\<lambda>(n, d', ts). map word_of_int d' = (map word_of_int d :: bytes)) factory_idl =
      Some (''deploy_token_suite'', d', [TPubkey, TU64, TPubkey, TString, TString, TU8, TString, TVecU64,
        TVecIssuer, TVecPubkey, TOptPubkey, TFixed 32])"
    using deploy_entry d by (auto simp: idl_entry_def split: option.splits if_splits)
  obtain rest where rest: "args = da_issuer a @ da_tokenMint a @ rest"
    using deploy_arguments_start [OF args] by blast
  have mint: "drop 8 (da_tokenMint a) @ rest = drop 8 (da_tokenMint a @ rest)" using assms(3) by simp
  have "borsh_get TPubkey args = Some (BPubkey (da_issuer a), da_tokenMint a @ rest)"
    using rest assms(2) by (simp add: get_map_def get_bytes_at)
  moreover have "borsh_get TU64 (da_tokenMint a @ rest) =
      Some (BU64 (le_val (take 8 (da_tokenMint a))), drop 8 (da_tokenMint a @ rest))"
    using assms(3) by (simp add: get_map_def get_uint_def get_bytes_def)
  ultimately show ?thesis
    using assms(4) entry len unfolding ix program_reads_def
    by (auto elim!: borsh_read_ConsE split: option.splits simp del: borsh_read.simps borsh_get.simps)
qed

section \<open>Instances\<close>

definition plain_keys :: chain where
  "plain_keys = constant_address\<lparr> pk_of_bytes := Inr \<rparr>"

theorem programs_read_the_calls_of_the_client_witness:
  "\<exists>ix. build_call sample_programs [] (TokenCall (IxMint (replicate 32 5) 1000 2500)) = Inr ix \<and>
    ix_programId ix = token sample_programs \<and>
    ix_keys ix = [] \<and> program_reads token_idl (ix_data ix) =
      Some (''mint'', [BPubkey (replicate 32 5), BU64 1000, BU64 2500])"
  using programs_read_the_calls_of_the_client
    [of plain_keys "TokenCall (IxMint (replicate 32 5) 1000 2500)" sample_programs "[]"]
  by (simp add: key_ok_def plain_keys_def constant_address_def fits_def)

text \<open>A name that carries a second argument list, so that the shifted data can be read at all.\<close>

definition sample_deploy :: deploy_token_suite_args_arg where
  "sample_deploy = \<lparr> da_issuer = replicate 32 1, da_tokenMint = replicate 32 2,
     da_tokenName = replicate 4 65 @ replicate 62 0, da_tokenSymbol = [], da_decimals = 6, da_isin = [],
     da_claimTopics = [], da_trustedIssuers = [], da_complianceModules = [], da_sharedIrs = None,
     da_salt = replicate 32 3 \<rparr>"

lemma sample_deploy_reads:
  "(case buildDeployTokenSuiteInstruction sample_programs [] sample_deploy of
      Inl e \<Rightarrow> False
    | Inr ix \<Rightarrow> (case program_reads factory_idl (ix_data ix) of None \<Rightarrow> False | Some r \<Rightarrow> True))"
  by code_simp

lemma deploy_reads_asset_id_from_mint_witness:
  "\<exists>ix vs. buildDeployTokenSuiteInstruction sample_programs [] sample_deploy = Inr ix \<and>
    program_reads factory_idl (ix_data ix) = Some (''deploy_token_suite'', vs) \<and>
    vs ! 1 = BU64 (le_val (replicate 8 2))"
proof -
  obtain ix n vs where r: "buildDeployTokenSuiteInstruction sample_programs [] sample_deploy = Inr ix"
    "program_reads factory_idl (ix_data ix) = Some (n, vs)"
    using sample_deploy_reads by (auto split: sum.splits option.splits)
  show ?thesis
    using deploy_reads_asset_id_from_mint [OF r(1) _ _ r(2)] r by (simp add: sample_deploy_def)
qed

end
