(* ===== verification/IndexerParse.thy ===== *)
theory IndexerParse
  imports AccountFetch DecimalUnits
begin

text \<open>
  How the indexer of the backend reads account data (\<open>backend/src/indexer/indexer.service.ts\<close>,
  the functions below the class). Unlike the decoders of the client these check the length before
  they read and answer \<open>null\<close>, an empty list or a shorter list when the data ends early. Text read
  from the chain is stored in string columns; a string of the model covers the code points 0 to 255.
\<close>

definition string_of_text :: "utext \<Rightarrow> string" where
  "string_of_text s = map char_of s"

definition TOKEN_DEPLOYMENT_SIZE :: nat where
  "TOKEN_DEPLOYMENT_SIZE = 345"

definition ISSUER_ENTRY_SIZE :: nat where
  "ISSUER_ENTRY_SIZE = 8 + 32 + 32 + 4 + 8 * 20 + 1 + 4 + 64 + 1"

section \<open>Account parsers\<close>

record parsed_deployment =
  pd_deploymentId :: int
  pd_issuer :: pubkey
  pd_tokenMint :: pubkey
  pd_tokenState :: pubkey
  pd_complianceState :: pubkey
  pd_deployedAt :: int

text \<open>\<open>offset += 32\<close> over a field that is not read.\<close>

definition skip_field :: "nat \<Rightarrow> 'b parser \<Rightarrow> 'b parser" where
  "skip_field n k data o' = k data (o' + n)"

definition parseTokenDeployment :: "('x) chain_scheme \<Rightarrow> account \<Rightarrow> parsed_deployment option res" where
  "parseTokenDeployment C account =
     (let data = acc_data account
      in if length data < TOKEN_DEPLOYMENT_SIZE then Inr None
         else
           next_field (sized 8 readU64) (\<lambda>deploymentId.
           next_field (sized 32 (readPubkey C)) (\<lambda>issuer.
           skip_field 32 (
           next_field (sized 32 (readPubkey C)) (\<lambda>tokenMint.
           next_field (sized 32 (readPubkey C)) (\<lambda>tokenState.
           skip_field 32 (skip_field 32 (skip_field 32 (skip_field 32 (skip_field 32 (
           next_field (sized 32 (readPubkey C)) (\<lambda>complianceState.
           next_field (sized 8 readI64) (\<lambda>deployedAt.
           finish (Some \<lparr> pd_deploymentId = deploymentId, pd_issuer = issuer,
             pd_tokenMint = tokenMint, pd_tokenState = tokenState,
             pd_complianceState = complianceState, pd_deployedAt = deployedAt \<rparr>)))))))))))))
           data 8)"

definition readAnchorString :: "bytes \<Rightarrow> nat \<Rightarrow> (string \<times> nat) option res" where
  "readAnchorString data offset =
     (if length data < offset + 4 then Inr None
      else case readU32 data offset of Inl e \<Rightarrow> Inl e | Inr len \<Rightarrow>
        let start = offset + 4; stop = start + nat len
        in if length data < stop then Inr None
           else Inr (Some (string_of_text (utf8_decode (subarray data start stop)), stop)))"

text \<open>\<open>previous ? readAnchorString(data, previous.nextOffset) : null\<close>\<close>

definition next_string :: "bytes \<Rightarrow> (string \<times> nat) option \<Rightarrow> (string \<times> nat) option res" where
  "next_string data prev =
     (case prev of None \<Rightarrow> Inr None | Some (v, nextOffset) \<Rightarrow> readAnchorString data nextOffset)"

definition string_or_empty :: "(string \<times> nat) option \<Rightarrow> string" where
  "string_or_empty r = (case r of None \<Rightarrow> [] | Some (v, n) \<Rightarrow> v)"

record parsed_token_state =
  pt_paused :: bool
  pt_decimals :: int
  pt_name :: string
  pt_symbol :: string
  pt_isin :: string

definition parseTokenState :: "account \<Rightarrow> parsed_token_state option res" where
  "parseTokenState account =
     (let data = acc_data account; offset = 8 + 32 + 32 + 32
      in if length data < offset + 2 then Inr None
         else
           (case readFlag data offset of Inl e \<Rightarrow> Inl e | Inr paused \<Rightarrow>
           (case readU8 data (offset + 1) of Inl e \<Rightarrow> Inl e | Inr decimals \<Rightarrow>
           (case readAnchorString data (offset + 2) of Inl e \<Rightarrow> Inl e | Inr nameResult \<Rightarrow>
           (case next_string data nameResult of Inl e \<Rightarrow> Inl e | Inr symbolResult \<Rightarrow>
           (case next_string data symbolResult of Inl e \<Rightarrow> Inl e | Inr isinResult \<Rightarrow>
              Inr (Some \<lparr> pt_paused = paused, pt_decimals = decimals,
                pt_name = string_or_empty nameResult, pt_symbol = string_or_empty symbolResult,
                pt_isin = string_or_empty isinResult \<rparr>)))))))"

definition parseOwnerState :: "('x) chain_scheme \<Rightarrow> account \<Rightarrow> pubkey option res" where
  "parseOwnerState C account =
     (let data = acc_data account
      in if length data < 8 + 32 then Inr None
         else (case readPubkey C data 8 of Inl e \<Rightarrow> Inl e | Inr k \<Rightarrow> Inr (Some k)))"

text \<open>The loops of the vector readers: they stop where the data ends.\<close>

fun read_available :: "'a parser \<Rightarrow> nat \<Rightarrow> nat \<Rightarrow> bytes \<Rightarrow> nat \<Rightarrow> 'a list res" where
  "read_available rd width 0 data offset = Inr []"
| "read_available rd width (Suc n) data offset =
     (if length data < offset + width then Inr []
      else case rd data offset of Inl e \<Rightarrow> Inl e | Inr x \<Rightarrow>
        case read_available rd width n data (offset + width) of Inl e \<Rightarrow> Inl e
        | Inr xs \<Rightarrow> Inr (x # xs))"

definition read_vector :: "'a parser \<Rightarrow> nat \<Rightarrow> bytes \<Rightarrow> nat \<Rightarrow> 'a list res" where
  "read_vector rd width data offset =
     (if length data < offset + 4 then Inr []
      else case readU32 data offset of Inl e \<Rightarrow> Inl e
        | Inr count \<Rightarrow> read_available rd width (nat count) data (offset + 4))"

definition parseComplianceState :: "('x) chain_scheme \<Rightarrow> account \<Rightarrow> pubkey list res" where
  "parseComplianceState C account = read_vector (readPubkey C) 32 (acc_data account) (8 + 32 + 32)"

text \<open>\<open>data.readBigUInt64LE(offset).toString()\<close>\<close>

definition readU64_text :: "string parser" where
  "readU64_text data offset =
     (case readU64 data offset of Inl e \<Rightarrow> Inl e | Inr v \<Rightarrow> Inr (bigint_toString v))"

definition parseClaimTopicsState :: "account \<Rightarrow> string list res" where
  "parseClaimTopicsState account = read_vector readU64_text 8 (acc_data account) (8 + 32 + 32)"

record parsed_issuer =
  pi_issuerFid :: pubkey
  pi_topics :: "string list"
  pi_active :: bool
  pi_label :: string

text \<open>The topic loop of \<open>parseIssuerEntry\<close> gives up the entry where the data ends.\<close>

fun issuer_topics :: "nat \<Rightarrow> bytes \<Rightarrow> nat \<Rightarrow> (string list \<times> nat) option res" where
  "issuer_topics 0 data offset = Inr (Some ([], offset))"
| "issuer_topics (Suc n) data offset =
     (if length data < offset + 8 then Inr None
      else case readU64_text data offset of Inl e \<Rightarrow> Inl e | Inr t \<Rightarrow>
        case issuer_topics n data (offset + 8) of Inl e \<Rightarrow> Inl e
        | Inr None \<Rightarrow> Inr None
        | Inr (Some (ts, next)) \<Rightarrow> Inr (Some (t # ts, next)))"

definition parseIssuerEntry :: "('x) chain_scheme \<Rightarrow> account \<Rightarrow> parsed_issuer option res" where
  "parseIssuerEntry C account =
     (let data = acc_data account
      in if length data < ISSUER_ENTRY_SIZE then Inr None
         else
           (case readPubkey C data 8 of Inl e \<Rightarrow> Inl e | Inr issuerFid \<Rightarrow>
           (case readU32 data (8 + 32 + 32) of Inl e \<Rightarrow> Inl e | Inr topicCount \<Rightarrow>
           (case issuer_topics (nat topicCount) data (8 + 32 + 32 + 4) of
              Inl e \<Rightarrow> Inl e
            | Inr None \<Rightarrow> Inr None
            | Inr (Some (topics, offset)) \<Rightarrow>
                if length data < offset + 1 + 4 then Inr None
                else
                  (case readFlag data offset of Inl e \<Rightarrow> Inl e | Inr active \<Rightarrow>
                  (case readU32 data (offset + 1) of Inl e \<Rightarrow> Inl e | Inr labelLength \<Rightarrow>
                     let start = offset + 1 + 4; stop = start + nat labelLength
                     in if length data < stop then Inr None
                        else Inr (Some \<lparr> pi_issuerFid = issuerFid, pi_topics = topics,
                          pi_active = active,
                          pi_label = string_of_text (utf8_decode (subarray data start stop)) \<rparr>)))))))"

section \<open>Compliance modules\<close>

definition readU16_text :: "string parser" where
  "readU16_text data offset =
     (case readU16 data offset of Inl e \<Rightarrow> Inl e | Inr v \<Rightarrow> Inr (show_digits v))"

definition readU16Vector :: "bytes \<Rightarrow> nat \<Rightarrow> string list res" where
  "readU16Vector data offset = read_vector readU16_text 2 data offset"

definition country_cap_text :: "string parser" where
  "country_cap_text data offset =
     (case readU16 data offset of Inl e \<Rightarrow> Inl e | Inr country \<Rightarrow>
     (case readU64 data (offset + 2) of Inl e \<Rightarrow> Inl e | Inr cap \<Rightarrow>
        Inr (show_digits country @ '':'' @ bigint_toString cap)))"

definition readCountryCapVector :: "bytes \<Rightarrow> nat \<Rightarrow> string list res" where
  "readCountryCapVector data offset = read_vector country_cap_text 10 data offset"

text \<open>The configured program of each module as \<open>MODULE_PROGRAM_IDS\<close> gives it, in Base58.\<close>

definition is_module :: "('x) chain_scheme \<Rightarrow> account \<Rightarrow> pubkey \<Rightarrow> bool" where
  "is_module C account program \<longleftrightarrow> toBase58 C (acc_owner account) = toBase58 C program"

definition one_param :: "string \<Rightarrow> string \<Rightarrow> (string \<times> string) list option" where
  "one_param key v = Some [(key, v)]"

definition list_param :: "string \<Rightarrow> string list res \<Rightarrow> (string \<times> string) list option res" where
  "list_param key r =
     (case r of Inl e \<Rightarrow> Inl e
      | Inr vs \<Rightarrow> Inr (if vs \<noteq> [] then one_param key (join_with '','' vs) else None))"

definition value_param ::
    "string \<Rightarrow> (int \<Rightarrow> string) \<Rightarrow> int res \<Rightarrow> (string \<times> string) list option res" where
  "value_param key show_value r =
     (case r of Inl e \<Rightarrow> Inl e | Inr v \<Rightarrow> Inr (one_param key (show_value v)))"

definition parseComplianceModuleParams ::
    "('x) chain_scheme \<Rightarrow> module_ids \<Rightarrow> account \<Rightarrow> nat \<Rightarrow> (string \<times> string) list option res" where
  "parseComplianceModuleParams C M account decimals =
     (let data = acc_data account; fmt = (\<lambda>v. formatBaseUnits v decimals)
      in if is_module C account (MOD_COUNTRY_RESTRICT M)
         then list_param ''allowed_countries'' (readU16Vector data 72)
         else if is_module C account (MOD_COUNTRY_CAP M)
         then list_param ''country_caps'' (readCountryCapVector data 104)
         else if is_module C account (MOD_MAX_BALANCE M) \<and> length data \<ge> 80
         then value_param ''max_balance'' fmt (readU64 data 72)
         else if is_module C account (MOD_MAX_TRANSFER M) \<and> length data \<ge> 80
         then value_param ''max_amount'' fmt (readU64 data 72)
         else if is_module C account (MOD_LOCKUP M) \<and> length data \<ge> 80
         then value_param ''lockup_end'' bigint_toString (readI64 data 72)
         else if is_module C account (MOD_MAX_INVESTORS M) \<and> length data \<ge> 112
         then value_param ''max_investors'' bigint_toString (readU64 data 104)
         else if is_module C account (MOD_DAILY_LIMIT M) \<and> length data \<ge> 112
         then value_param ''daily_limit'' fmt (readU64 data 104)
         else if is_module C account (MOD_SUPPLY_CAP M) \<and> length data \<ge> 112
         then value_param ''max_supply'' fmt (readU64 data 104)
         else Inr None)"

end
