(* ===== verification/Handlers.thy ===== *)
theory Handlers
  imports Prelude
begin

text \<open>
  Sequencing of handlers: a step that throws ends the handler with the writes made so far. The
  type of thrown values is a parameter: an exception of
  the backend, or the value a call of the web client threw. The collection \<open>keeps_intros\<close> has the rules by which an invariant is carried through a handler.
\<close>

named_theorems keeps_intros \<open>a handler keeps an invariant of its state\<close>

type_synonym ('s, 'e, 'a) action = "'s \<Rightarrow> 's \<times> ('e + 'a)"

definition h_return :: "'a \<Rightarrow> ('s, 'e, 'a) action" where
  "h_return x s = (s, Inr x)"

definition h_throw :: "'e \<Rightarrow> ('s, 'e, 'a) action" where
  "h_throw e s = (s, Inl e)"

definition h_lift :: "'e + 'a \<Rightarrow> ('s, 'e, 'a) action" where
  "h_lift r s = (s, r)"

definition h_modify :: "('s \<Rightarrow> 's) \<Rightarrow> ('s, 'e, unit) action" where
  "h_modify f s = (f s, Inr ())"

definition h_read :: "('s \<Rightarrow> 'a) \<Rightarrow> ('s, 'e, 'a) action" where
  "h_read f s = (s, Inr (f s))"

definition h_bind :: "('s, 'e, 'a) action \<Rightarrow> ('a \<Rightarrow> ('s, 'e, 'b) action) \<Rightarrow> ('s, 'e, 'b) action" where
  "h_bind m k s = (case m s of (t, Inl e) \<Rightarrow> (t, Inl e) | (t, Inr x) \<Rightarrow> k x t)"

text \<open>\<open>try { m } catch (error) { k(error) }\<close>\<close>

definition h_catch :: "('s, 'e, 'a) action \<Rightarrow> ('e \<Rightarrow> ('s, 'e, 'a) action) \<Rightarrow> ('s, 'e, 'a) action" where
  "h_catch m k s = (case m s of (t, Inl e) \<Rightarrow> k e t | (t, Inr x) \<Rightarrow> (t, Inr x))"

text \<open>A loop over a list that collects the values its body pushes.\<close>

fun h_collect :: "('x \<Rightarrow> ('s, 'e, 'a list) action) \<Rightarrow> 'x list \<Rightarrow> ('s, 'e, 'a list) action" where
  "h_collect body [] = h_return []"
| "h_collect body (x # xs) =
     h_bind (body x) (\<lambda>ys. h_bind (h_collect body xs) (\<lambda>zs. h_return (ys @ zs)))"

fun h_each :: "('x \<Rightarrow> ('s, 'e, unit) action) \<Rightarrow> 'x list \<Rightarrow> ('s, 'e, unit) action" where
  "h_each body [] = h_return ()"
| "h_each body (x # xs) = h_bind (body x) (\<lambda>_. h_each body xs)"

lemma h_bind_return [simp]: "h_bind (h_return x) k = k x"
  by (rule ext) (simp add: h_bind_def h_return_def)

lemma h_bind_throw [simp]: "h_bind (h_throw e) k = h_throw e"
  by (rule ext) (simp add: h_bind_def h_throw_def)

lemma h_return_bind [simp]: "h_bind m h_return = m"
  by (rule ext) (auto simp: h_bind_def h_return_def split: prod.splits sum.splits)

lemma h_bind_assoc: "h_bind (h_bind m k) l = h_bind m (\<lambda>x. h_bind (k x) l)"
  by (rule ext) (auto simp: h_bind_def split: prod.splits sum.splits)

lemma h_bind_Inr:
  "m s = (t, Inr x) \<Longrightarrow> h_bind m k s = k x t"
  by (simp add: h_bind_def)

lemma h_bind_Inl:
  "m s = (t, Inl e) \<Longrightarrow> h_bind m k s = (t, Inl e)"
  by (simp add: h_bind_def)

lemma h_bind_InrE:
  assumes "h_bind m k s = (u, Inr y)"
  obtains t x where "m s = (t, Inr x)" and "k x t = (u, Inr y)"
  using assms by (auto simp: h_bind_def split: prod.splits sum.splits)

definition keeps :: "('s \<Rightarrow> bool) \<Rightarrow> ('s, 'e, 'a) action \<Rightarrow> bool" where
  "keeps I m \<longleftrightarrow> (\<forall>s. I s \<longrightarrow> I (fst (m s)))"

lemma keepsD: "keeps I m \<Longrightarrow> I s \<Longrightarrow> I (fst (m s))"
  by (simp add: keeps_def)

lemma keeps_basic [keeps_intros]:
  "keeps I (h_return x)" "keeps I (h_throw e)" "keeps I (h_lift r)" "keeps I (h_read f)"
  by (simp_all add: keeps_def h_return_def h_throw_def h_lift_def h_read_def)

lemma keeps_modify: "(\<And>s. I s \<Longrightarrow> I (f s)) \<Longrightarrow> keeps I (h_modify f)"
  by (simp add: keeps_def h_modify_def)

lemma keeps_bind [keeps_intros]:
  "keeps I m \<Longrightarrow> (\<And>x. keeps I (k x)) \<Longrightarrow> keeps I (h_bind m k)"
  unfolding keeps_def h_bind_def by (fastforce split: prod.splits sum.splits)

lemma keeps_catch [keeps_intros]:
  "keeps I m \<Longrightarrow> (\<And>e. keeps I (k e)) \<Longrightarrow> keeps I (h_catch m k)"
  unfolding keeps_def h_catch_def by (fastforce split: prod.splits sum.splits)

lemma keeps_collect [keeps_intros]: "(\<And>x. keeps I (body x)) \<Longrightarrow> keeps I (h_collect body xs)"
  by (induction xs) (auto intro!: keeps_intros)

lemma keeps_each [keeps_intros]: "(\<And>x. keeps I (body x)) \<Longrightarrow> keeps I (h_each body xs)"
  by (induction xs) (auto intro!: keeps_intros)

lemma keeps_if [keeps_intros]: "keeps I m \<Longrightarrow> keeps I n \<Longrightarrow> keeps I (if b then m else n)"
  by simp

lemma keeps_option [keeps_intros]:
  "keeps I m \<Longrightarrow> (\<And>x. keeps I (k x)) \<Longrightarrow> keeps I (case v of None \<Rightarrow> m | Some x \<Rightarrow> k x)"
  by (cases v) simp_all

end
