(* ===== verification/Indexer.thy ===== *)
theory Indexer
  imports IndexerParse Handlers PurchaseRequests "HOL-Library.AList"
begin

text \<open>
  The indexer of the backend (\<open>backend/src/indexer\<close>): it lists the deployments of the factory, reads
  the token state, claim topics, trusted issuers and compliance modules of each token from the
  chain, and writes the assets, token states and balances the other services read. Calls to the RPC
  node are retried with fallback endpoints.

  The RPC node is a parameter: its answers depend on the endpoint in use and on the number of calls
  made before. An account that does not exist and a call that was given up are both \<open>null\<close> in the
  code. The setting \<open>INDEXER_RPC_MAX_RETRIES\<close> is taken as a finite number or as not a number.
\<close>

section \<open>Configuration\<close>

record indexer_config =
  rpcEndpoints :: "string list"
  factoryProgram :: string
  tokenContracts :: "string list"
  maxAssetScan :: jsnum
  txScanLimit :: jsnum
  txScanPages :: jsnum

text \<open>\<open>parseInt(s, 10)\<close>\<close>

definition parseInt10 :: "string \<Rightarrow> jsnum" where
  "parseInt10 s0 =
     (let s = dropWhile is_space s0;
          neg = (case s of c # _ \<Rightarrow> c = CHR ''-'' | [] \<Rightarrow> False);
          t = (case s of c # cs \<Rightarrow> if c = CHR ''-'' \<or> c = CHR ''+'' then cs else s | [] \<Rightarrow> []);
          ds = takeWhile is_digit t
      in if ds = [] then NaN
         else round_double (of_int (if neg then - digits_val ds else digits_val ds)))"

text \<open>\<open>[...new Set(xs)]\<close>: the first occurrence of each value.\<close>

definition js_set :: "'a list \<Rightarrow> 'a list" where
  "js_set xs = rev (remdups (rev xs))"

definition default_rpcEndpoint :: string where
  "default_rpcEndpoint = ''https://devnet.helius-rpc.com/?api-key=f2852f85-8a60-4eaf-bbe7-009aa1b9e41f''"

definition default_factoryProgram :: string where
  "default_factoryProgram = ''FtrzQ1hhjL7vbEPAxLBeLgrmomanSVj9UpV6LLJ5TYFS''"

definition getIndexerConfig :: "(string \<Rightarrow> string option) \<Rightarrow> indexer_config" where
  "getIndexerConfig env = \<lparr>
     rpcEndpoints = js_set (filter (\<lambda>e. e \<noteq> []) (map trim (List.map_filter (\<lambda>e. e)
       [env ''SOLANA_RPC_URL1'', env ''SOLANA_RPC_URL2'', env ''SOLANA_RPC_URL'',
        Some default_rpcEndpoint]))),
     factoryProgram = or_else (env ''FRACKS_FACTORY'') default_factoryProgram,
     tokenContracts = filter (\<lambda>t. t \<noteq> [])
       (map trim (split_char (CHR '','') (or_else (env ''INDEXER_TOKENS'') []))),
     maxAssetScan = parseInt10 (or_else (env ''INDEXER_MAX_ASSETS'') ''25''),
     txScanLimit = parseInt10 (or_else (env ''INDEXER_TX_SCAN_LIMIT'') ''100''),
     txScanPages = parseInt10 (or_else (env ''INDEXER_TX_SCAN_PAGES'') ''1'') \<rparr>"

text \<open>The configuration of the service: the settings above, the retry bound and the programs.\<close>

record indexer_settings = indexer_config +
  rpcMaxRetries :: "rat option"
  ctrProgram :: string
  tirProgram :: string
  tokenProgram :: string
  modulePrograms :: module_ids

section \<open>State\<close>

record indexed_asset = asset_row +
  ia_factoryAssetId :: jsnum
  ia_referenceId :: string
  ia_name :: string
  ia_symbol :: string
  ia_description :: string
  ia_issuerWallet :: string
  ia_legalOwner :: string
  ia_deployedAt :: time

record indexed_token_state = token_state_row +
  it_name :: string
  it_symbol :: string
  it_decimals :: int

record run_row =
  run_status :: string
  run_error :: "string option"
  run_lastRunAt :: time

record indexer =
  activeRpcIndex :: nat
  rpcCalls :: nat
  ix_assets :: "indexed_asset list"
  ix_states :: "indexed_token_state list"
  ix_balances :: "balance_row list"
  ix_tracked :: "string list"
  ix_users :: "string option list"
  ix_runs :: "run_row list"

datatype account_filter = DataSize nat | Memcmp nat string

text \<open>The RPC node: the first two arguments are the endpoint and the number of calls before.\<close>

record indexer_host = chain +
  getProgramAccounts :: "nat \<Rightarrow> nat \<Rightarrow> pubkey \<Rightarrow> account_filter list \<Rightarrow> string + account list"
  getAccountInfo :: "nat \<Rightarrow> nat \<Rightarrow> pubkey \<Rightarrow> string + account option"
  getMultipleAccountsInfo :: "nat \<Rightarrow> nat \<Rightarrow> pubkey list \<Rightarrow> string + account option list"
  getMint :: "nat \<Rightarrow> nat \<Rightarrow> pubkey \<Rightarrow> string + (int \<times> int)"
  getTokenAmount :: "nat \<Rightarrow> nat \<Rightarrow> pubkey \<Rightarrow> string + int"
  host_now :: "nat \<Rightarrow> time"
  error_stack :: "exn \<Rightarrow> string option"

definition js_res :: "string + 'a \<Rightarrow> 'a res" where
  "js_res r = (case r of Inl e \<Rightarrow> Inl (JsError e) | Inr x \<Rightarrow> Inr x)"

section \<open>Calls with retries\<close>

definition isRecoverableRpcError :: "string \<Rightarrow> bool" where
  "isRecoverableRpcError message \<longleftrightarrow>
     js_includes message ''429'' \<or> js_includes message ''Too Many Requests'' \<or>
     js_includes message ''fetch failed'' \<or> js_includes message ''Failed to fetch'' \<or>
     js_includes message ''ECONNRESET'' \<or> js_includes message ''ETIMEDOUT'' \<or>
     js_includes message ''ENOTFOUND''"

definition switchToNextRpcEndpoint :: "('c) indexer_config_scheme \<Rightarrow> indexer \<Rightarrow> indexer" where
  "switchToNextRpcEndpoint cfg s =
     (if activeRpcIndex s + 1 \<ge> length (rpcEndpoints cfg) then s
      else s\<lparr> activeRpcIndex := activeRpcIndex s + 1 \<rparr>)"

definition count_call :: "indexer \<Rightarrow> indexer" where
  "count_call s = s\<lparr> rpcCalls := rpcCalls s + 1 \<rparr>"

lemma attempt_floor: "of_nat n \<le> (q :: rat) \<Longrightarrow> int n \<le> \<lfloor>q\<rfloor>"
  by (simp add: le_floor_iff)

function rpc_attempts ::
    "('c) indexer_config_scheme \<Rightarrow> rat option \<Rightarrow> (nat \<Rightarrow> nat \<Rightarrow> string + 'a) \<Rightarrow> nat \<Rightarrow> (indexer, 'a option) handler" where
  "rpc_attempts cfg None op attempt s = (s, Inr None)"
| "rpc_attempts cfg (Some q) op attempt s =
     (if of_nat attempt \<le> q
      then (case op (activeRpcIndex s) (rpcCalls s) of
              Inr x \<Rightarrow> (count_call s, Inr (Some x))
            | Inl e \<Rightarrow>
                if \<not> isRecoverableRpcError e \<or> of_nat attempt = q
                then (count_call s, Inl (JsError e))
                else rpc_attempts cfg (Some q) op (attempt + 1)
                       (switchToNextRpcEndpoint cfg (count_call s)))
      else (s, Inr None))"
  by pat_completeness auto
termination
  by (relation "measure (\<lambda>(cfg, m, op, attempt, s).
        case m of None \<Rightarrow> 0 | Some q \<Rightarrow> nat (\<lfloor>q\<rfloor> + 1) - attempt)")
    (auto dest: attempt_floor)

declare rpc_attempts.simps [simp del]

definition withRpcRetries ::
    "('c) indexer_settings_scheme \<Rightarrow> (nat \<Rightarrow> nat \<Rightarrow> string + 'a) \<Rightarrow> (indexer, 'a option) handler" where
  "withRpcRetries cfg op = rpc_attempts cfg (rpcMaxRetries cfg) op 0"

text \<open>\<open>withRpcRetries\<close> around \<open>getAccountInfo\<close>: no account and no answer are both \<open>null\<close>.\<close>

definition rpc_account ::
    "indexer_host \<Rightarrow> ('c) indexer_settings_scheme \<Rightarrow> pubkey \<Rightarrow> (indexer, account option) handler" where
  "rpc_account H cfg k =
     h_bind (withRpcRetries cfg (\<lambda>i n. getAccountInfo H i n k)) (\<lambda>r. h_return (Option.bind r (\<lambda>x. x)))"

section \<open>Reading the metadata of a token\<close>

definition readClaimTopics ::
    "indexer_host \<Rightarrow> ('c) indexer_settings_scheme \<Rightarrow> pubkey \<Rightarrow> (indexer, string list) handler" where
  "readClaimTopics H cfg ctrState =
     h_bind (rpc_account H cfg ctrState) (\<lambda>account.
       case account of None \<Rightarrow> h_return [] | Some a \<Rightarrow> h_lift (parseClaimTopicsState a))"

definition readFidOwner ::
    "indexer_host \<Rightarrow> ('c) indexer_settings_scheme \<Rightarrow> pubkey \<Rightarrow> (indexer, string) handler" where
  "readFidOwner H cfg fidKey =
     h_bind (rpc_account H cfg fidKey) (\<lambda>account.
       case account of
         None \<Rightarrow> h_return []
       | Some a \<Rightarrow>
           if length (acc_data a) < 40 then h_return []
           else h_bind (h_lift (readPubkey H (acc_data a) 8)) (\<lambda>k. h_return (toBase58 H k)))"

definition issuer_json :: "indexer_host \<Rightarrow> parsed_issuer \<Rightarrow> string \<Rightarrow> jsval" where
  "issuer_json H issuer walletAddress = JObj
     [(''label'', JStr (pi_label issuer)),
      (''issuerFid'', JStr (toBase58 H (pi_issuerFid issuer))),
      (''walletAddress'', JStr walletAddress),
      (''topics'', JArr (map JStr (pi_topics issuer))),
      (''active'', JBool (pi_active issuer))]"

definition readTrustedIssuers ::
    "indexer_host \<Rightarrow> ('c) indexer_settings_scheme \<Rightarrow> pubkey \<Rightarrow> (indexer, jsval list) handler" where
  "readTrustedIssuers H cfg tirState =
     h_bind (h_lift (js_res (pk_of_string H (tirProgram cfg)))) (\<lambda>tirKey.
     h_bind (withRpcRetries cfg (\<lambda>i n. getProgramAccounts H i n tirKey
        [DataSize ISSUER_ENTRY_SIZE, Memcmp (8 + 32) (toBase58 H tirState)])) (\<lambda>accounts.
     case accounts of None \<Rightarrow> h_return [] | Some as \<Rightarrow>
       h_collect (\<lambda>account.
         h_bind (h_lift (parseIssuerEntry H account)) (\<lambda>issuer.
           case issuer of None \<Rightarrow> h_return [] | Some i \<Rightarrow>
             h_bind (readFidOwner H cfg (pi_issuerFid i)) (\<lambda>walletAddress.
               h_return [issuer_json H i walletAddress]))) as))"

text \<open>The module loop: the list of programs and the object of their parameters.\<close>

definition add_module ::
    "indexer_host \<Rightarrow> module_ids \<Rightarrow> nat \<Rightarrow> account option \<Rightarrow>
     string list \<times> (string \<times> jsval) list \<Rightarrow> (string list \<times> (string \<times> jsval) list) res" where
  "add_module H M decimals moduleAccount acc =
     (case moduleAccount of None \<Rightarrow> Inr acc | Some account \<Rightarrow>
       (case parseComplianceModuleParams H M account decimals of
          Inl e \<Rightarrow> Inl e
        | Inr None \<Rightarrow> Inr acc
        | Inr (Some params) \<Rightarrow>
            let programId = toBase58 H (acc_owner account)
            in Inr (fst acc @ [programId],
                    AList.update programId (JObj (map (\<lambda>(k, v). (k, JStr v)) params)) (snd acc))))"

fun add_modules ::
    "indexer_host \<Rightarrow> module_ids \<Rightarrow> nat \<Rightarrow> account option list \<Rightarrow>
     string list \<times> (string \<times> jsval) list \<Rightarrow> (string list \<times> (string \<times> jsval) list) res" where
  "add_modules H M decimals [] acc = Inr acc"
| "add_modules H M decimals (a # as) acc =
     (case add_module H M decimals a acc of Inl e \<Rightarrow> Inl e
      | Inr acc' \<Rightarrow> add_modules H M decimals as acc')"

definition readComplianceMetadata ::
    "indexer_host \<Rightarrow> ('c) indexer_settings_scheme \<Rightarrow> pubkey \<Rightarrow> nat option \<Rightarrow>
     (indexer, string list \<times> (string \<times> jsval) list) handler" where
  "readComplianceMetadata H cfg complianceState decimals =
     h_bind (rpc_account H cfg complianceState) (\<lambda>account.
     h_bind (h_lift (case account of None \<Rightarrow> Inr [] | Some a \<Rightarrow> parseComplianceState H a)) (\<lambda>moduleStates.
     if moduleStates = [] then h_return ([], [])
     else
       h_bind (withRpcRetries cfg (\<lambda>i n. getMultipleAccountsInfo H i n moduleStates)) (\<lambda>moduleAccounts.
         h_lift (add_modules H (modulePrograms cfg) (case decimals of None \<Rightarrow> 6 | Some d \<Rightarrow> d)
           (case moduleAccounts of None \<Rightarrow> [] | Some as \<Rightarrow> take (length moduleStates) as) ([], [])))))"

text \<open>
  The object of \<open>buildIndexedMetadata\<close>. It is printed as JSON and parsed again before it is stored;
  it has strings, integers, booleans, arrays and objects only, so the value is the same.
\<close>

definition metadata_object ::
    "nat option \<Rightarrow> string list \<Rightarrow> jsval list \<Rightarrow> string list \<Rightarrow> (string \<times> jsval) list \<Rightarrow> jsval" where
  "metadata_object decimals claimTopics trustedIssuers complianceModules complianceModuleParams = JObj
     ((case decimals of None \<Rightarrow> [] | Some d \<Rightarrow> [(''decimals'', JNum (Fin (of_nat d)))]) @
      [(''claimTopics'', JArr (map JStr claimTopics)),
       (''trustedIssuers'', JArr trustedIssuers),
       (''complianceModules'', JArr (map JStr complianceModules)),
       (''complianceModuleParams'', JObj complianceModuleParams)])"

definition buildIndexedMetadata ::
    "indexer_host \<Rightarrow> ('c) indexer_settings_scheme \<Rightarrow> pubkey \<Rightarrow> pubkey \<Rightarrow> nat option \<Rightarrow>
     (indexer, jsval option) handler" where
  "buildIndexedMetadata H cfg tokenMint complianceState decimals =
     h_bind (h_lift (js_res (pk_of_string H (ctrProgram cfg)))) (\<lambda>ctrKey.
     h_bind (h_lift (js_res (find_pda H [ascii ''ctr_state'', tokenMint] ctrKey))) (\<lambda>(ctrState, _).
     h_bind (h_lift (js_res (pk_of_string H (tirProgram cfg)))) (\<lambda>tirKey.
     h_bind (h_lift (js_res (find_pda H [ascii ''tir_state'', tokenMint] tirKey))) (\<lambda>(tirState, _).
     h_bind (readClaimTopics H cfg ctrState) (\<lambda>claimTopics.
     h_bind (readTrustedIssuers H cfg tirState) (\<lambda>trustedIssuers.
     h_bind (readComplianceMetadata H cfg complianceState decimals) (\<lambda>(modules, params).
       h_return (if claimTopics = [] \<and> trustedIssuers = [] \<and> modules = [] \<and> decimals = None then None
                 else Some (metadata_object decimals claimTopics trustedIssuers modules params)))))))))"

section \<open>Factory tokens\<close>

record factory_token_info =
  ft_asset_id :: jsnum
  ft_contract_address :: string
  ft_name :: string
  ft_symbol :: string
  ft_reference_id :: string
  ft_description :: string
  ft_legal_owner :: string
  ft_metadata :: "jsval option"
  ft_deployed_at :: jsnum

text \<open>\<open>Number(b)\<close> of a \<open>bigint\<close>.\<close>

definition number_of_bigint :: "int \<Rightarrow> jsnum" where
  "number_of_bigint v = round_double (of_int v)"

definition factory_token ::
    "indexer_host \<Rightarrow> ('c) indexer_settings_scheme \<Rightarrow> account \<Rightarrow> (indexer, factory_token_info list) handler" where
  "factory_token H cfg account =
     h_bind (h_lift (parseTokenDeployment H account)) (\<lambda>deployment.
     case deployment of None \<Rightarrow> h_return [] | Some d \<Rightarrow>
     h_bind (rpc_account H cfg (pd_tokenState d)) (\<lambda>tokenStateInfo.
     h_bind (h_lift (case tokenStateInfo of None \<Rightarrow> Inr None | Some a \<Rightarrow> parseTokenState a)) (\<lambda>tokenState.
     h_bind (buildIndexedMetadata H cfg (pd_tokenMint d) (pd_complianceState d)
       (map_option (\<lambda>t. nat (pt_decimals t)) tokenState)) (\<lambda>metadata.
     h_return [\<lparr>
       ft_asset_id = number_of_bigint (pd_deploymentId d),
       ft_contract_address = toBase58 H (pd_tokenMint d),
       ft_name = (case tokenState of None \<Rightarrow> [] | Some t \<Rightarrow> pt_name t),
       ft_symbol = (case tokenState of None \<Rightarrow> [] | Some t \<Rightarrow> pt_symbol t),
       ft_reference_id = or_else (map_option pt_isin tokenState) (toBase58 H (pd_tokenMint d)),
       ft_description = [],
       ft_legal_owner = toBase58 H (pd_issuer d),
       ft_metadata = metadata,
       ft_deployed_at = number_of_bigint (pd_deployedAt d) \<rparr>]))))"

definition sort_value :: "jsnum \<Rightarrow> rat" where
  "sort_value x = (case x of Fin q \<Rightarrow> q | _ \<Rightarrow> 0)"

definition fetchAllFactoryTokens ::
    "indexer_host \<Rightarrow> ('c) indexer_settings_scheme \<Rightarrow> (indexer, factory_token_info list) handler" where
  "fetchAllFactoryTokens H cfg =
     h_bind (h_lift (js_res (pk_of_string H (factoryProgram cfg)))) (\<lambda>programId.
     h_bind (withRpcRetries cfg
       (\<lambda>i n. getProgramAccounts H i n programId [DataSize TOKEN_DEPLOYMENT_SIZE])) (\<lambda>accounts.
     case accounts of None \<Rightarrow> h_return [] | Some as \<Rightarrow>
       h_bind (h_collect (factory_token H cfg) as) (\<lambda>tokens.
         h_return (sort_key (\<lambda>t. sort_value (ft_asset_id t)) tokens))))"

section \<open>Writing assets\<close>

definition isRecord :: "jsval \<Rightarrow> (string \<times> jsval) list option" where
  "isRecord v = (case v of JObj fs \<Rightarrow> Some fs | _ \<Rightarrow> None)"

text \<open>\<open>{ ...a, ...b }\<close>: a key keeps its first position and its last value.\<close>

definition js_spread :: "(string \<times> jsval) list \<Rightarrow> (string \<times> jsval) list \<Rightarrow> (string \<times> jsval) list" where
  "js_spread a b = foldl (\<lambda>acc (k, v). AList.update k v acc) a b"

definition nonempty_array :: "jsval \<Rightarrow> bool" where
  "nonempty_array v = (case v of JArr (x # xs) \<Rightarrow> True | _ \<Rightarrow> False)"

definition nonempty_object :: "jsval \<Rightarrow> bool" where
  "nonempty_object v = (case v of JObj (x # xs) \<Rightarrow> True | _ \<Rightarrow> False)"

definition mergeMetadata :: "jsval \<Rightarrow> jsval \<Rightarrow> (string \<times> jsval) list option" where
  "mergeMetadata existing indexed =
     (case (isRecord existing, isRecord indexed) of
        (None, None) \<Rightarrow> None
      | (None, Some i) \<Rightarrow> Some i
      | (Some e, None) \<Rightarrow> Some e
      | (Some e, Some i) \<Rightarrow>
          let pick = (\<lambda>good k. (k, if good (js_field i k) then js_field i k else js_field e k))
          in Some (js_spread (js_spread e i)
               [pick nonempty_array ''trustedIssuers'', pick nonempty_array ''claimTopics'',
                pick nonempty_array ''complianceModules'',
                pick nonempty_object ''complianceModuleParams'']))"

text \<open>A field that is \<open>undefined\<close> is not stored.\<close>

definition stored_json :: "(string \<times> jsval) list \<Rightarrow> jsval" where
  "stored_json fs = JObj (filter (\<lambda>(k, v). v \<noteq> JUndefined) fs)"

text \<open>\<open>new Date(seconds * 1000)\<close>; the database client refuses an invalid date.\<close>

definition date_of_seconds :: "jsnum \<Rightarrow> time res" where
  "date_of_seconds x =
     (case x of
        Fin q \<Rightarrow> if \<bar>q * 1000\<bar> \<le> 8640000000000000 then Inr (trunc_rat (q * 1000))
                 else Inl (DatabaseError ''Invalid Date'')
      | _ \<Rightarrow> Inl (DatabaseError ''Invalid Date''))"

definition checked_deployedAt :: "factory_token_info \<Rightarrow> time res" where
  "checked_deployedAt tok =
     (case int_column (ft_asset_id tok) of Inl e \<Rightarrow> Inl e | Inr _ \<Rightarrow> date_of_seconds (ft_deployed_at tok))"

definition update_asset ::
    "factory_token_info \<times> time \<times> (string \<times> jsval) list option \<Rightarrow> indexed_asset \<Rightarrow> indexed_asset" where
  "update_asset p a =
     (case p of (tok, deployedAt, metadata) \<Rightarrow>
       a\<lparr> ia_factoryAssetId := ft_asset_id tok, ia_referenceId := ft_reference_id tok,
          ia_name := ft_name tok, ia_symbol := ft_symbol tok,
          ia_description := ft_description tok, ia_issuerWallet := ft_legal_owner tok,
          ia_legalOwner := ft_legal_owner tok,
          as_metadata := (case metadata of None \<Rightarrow> as_metadata a | Some m \<Rightarrow> stored_json m),
          ia_deployedAt := deployedAt \<rparr>)"

definition new_asset ::
    "factory_token_info \<Rightarrow> time \<Rightarrow> (string \<times> jsval) list option \<Rightarrow> indexed_asset" where
  "new_asset tok deployedAt metadata = \<lparr>
     as_tokenContract = ft_contract_address tok,
     as_metadata = (case metadata of None \<Rightarrow> JNull | Some m \<Rightarrow> stored_json m),
     ia_factoryAssetId = ft_asset_id tok, ia_referenceId = ft_reference_id tok,
     ia_name = ft_name tok, ia_symbol = ft_symbol tok, ia_description = ft_description tok,
     ia_issuerWallet = ft_legal_owner tok, ia_legalOwner = ft_legal_owner tok,
     ia_deployedAt = deployedAt \<rparr>"

definition upsertAsset :: "factory_token_info \<Rightarrow> (indexer, unit) handler" where
  "upsertAsset tok s =
     (let indexedMetadata = (case ft_metadata tok of None \<Rightarrow> JNull | Some m \<Rightarrow> m);
          same = (\<lambda>a. as_tokenContract a = ft_contract_address tok);
          existing = List.find same (ix_assets s);
          metadata = mergeMetadata
            (case existing of None \<Rightarrow> JUndefined | Some a \<Rightarrow> as_metadata a) indexedMetadata
      in case checked_deployedAt tok of
           Inl e \<Rightarrow> (s, Inl e)
         | Inr deployedAt \<Rightarrow>
             (s\<lparr> ix_assets :=
                  (if existing = None
                   then sql_insert (new_asset tok deployedAt metadata) (ix_assets s)
                   else sql_update same (update_asset (tok, deployedAt, metadata)) (ix_assets s)) \<rparr>,
              Inr ()))"

definition upsertAssets :: "factory_token_info list \<Rightarrow> (indexer, unit) handler" where
  "upsertAssets tokens = h_each upsertAsset tokens"

section \<open>Syncing a token\<close>

definition derive_owner ::
    "indexer_host \<Rightarrow> ('c) indexer_settings_scheme \<Rightarrow> pubkey \<Rightarrow> (pubkey \<times> int) res" where
  "derive_owner H cfg tokenMint =
     (case js_res (pk_of_string H (tokenProgram cfg)) of Inl e \<Rightarrow> Inl e
      | Inr tokenProgramKey \<Rightarrow> js_res (find_pda H [ascii ''owner'', tokenMint] tokenProgramKey))"

definition upsert_token_state :: "string \<Rightarrow> int \<Rightarrow> int \<Rightarrow> indexer \<Rightarrow> indexer" where
  "upsert_token_state tokenContract decimals supply' s =
     (let same = (\<lambda>r. ts_tokenContract r = tokenContract)
      in s\<lparr> ix_states :=
           (if List.find same (ix_states s) = None
            then sql_insert \<lparr> ts_tokenContract = tokenContract, ts_totalSupply = bigint_toString supply',
                   it_name = [], it_symbol = [], it_decimals = decimals \<rparr> (ix_states s)
            else sql_update same
                   (\<lambda>r. r\<lparr> it_decimals := decimals, ts_totalSupply := bigint_toString supply' \<rparr>)
                   (ix_states s)) \<rparr>)"

definition set_issuer :: "string \<Rightarrow> string \<Rightarrow> indexer \<Rightarrow> indexer" where
  "set_issuer tokenContract wallet s = s\<lparr> ix_assets :=
     sql_update (\<lambda>a. as_tokenContract a = tokenContract)
       (\<lambda>a. a\<lparr> ia_issuerWallet := wallet, ia_legalOwner := wallet \<rparr>) (ix_assets s) \<rparr>"

definition upsert_balance :: "string \<Rightarrow> string \<Rightarrow> string \<Rightarrow> indexer \<Rightarrow> indexer" where
  "upsert_balance tokenContract walletAddress balance s =
     (let same = (\<lambda>b. tb_tokenContract b = tokenContract \<and> tb_walletAddress b = walletAddress)
      in s\<lparr> ix_balances :=
           (if List.find same (ix_balances s) = None
            then sql_insert \<lparr> tb_tokenContract = tokenContract, tb_walletAddress = walletAddress,
                   tb_balance = balance \<rparr> (ix_balances s)
            else sql_update same (\<lambda>b. b\<lparr> tb_balance := balance \<rparr>) (ix_balances s)) \<rparr>)"

definition discoverWalletsFromTxs :: "string \<Rightarrow> string list" where
  "discoverWalletsFromTxs tokenContract = []"

text \<open>\<open>createMany\<close> with \<open>skipDuplicates\<close>: the address is the key of the table.\<close>

definition track_wallets :: "string list \<Rightarrow> indexer \<Rightarrow> indexer" where
  "track_wallets discovered s =
     s\<lparr> ix_tracked := ix_tracked s @ filter (\<lambda>w. w \<notin> set (ix_tracked s)) (js_set discovered) \<rparr>"

text \<open>A call to the node outside of \<open>withRpcRetries\<close>: \<open>None\<close> when it throws.\<close>

definition one_call :: "(nat \<Rightarrow> nat \<Rightarrow> string + 'a) \<Rightarrow> (indexer, 'a option) handler" where
  "one_call op s =
     (count_call s, Inr (case op (activeRpcIndex s) (rpcCalls s) of Inl e \<Rightarrow> None | Inr x \<Rightarrow> Some x))"

definition wallet_balance ::
    "indexer_host \<Rightarrow> pubkey \<Rightarrow> string \<Rightarrow> (indexer, string) handler" where
  "wallet_balance H tokenMint walletAddress =
     (case pk_of_string H walletAddress of Inl e \<Rightarrow> h_return ''0'' | Inr walletPk \<Rightarrow>
     (case ata_of H tokenMint walletPk of Inl e \<Rightarrow> h_return ''0'' | Inr ata \<Rightarrow>
       h_bind (one_call (\<lambda>i n. getTokenAmount H i n ata)) (\<lambda>amount.
         h_return (case amount of None \<Rightarrow> ''0'' | Some v \<Rightarrow> bigint_toString v))))"

definition known_wallets :: "string list \<Rightarrow> indexer \<Rightarrow> string list" where
  "known_wallets discovered s =
     js_set (filter (\<lambda>w. w \<noteq> [])
       (List.map_filter (\<lambda>w. w) (ix_users s) @ ix_tracked s @ discovered))"

definition syncToken ::
    "indexer_host \<Rightarrow> ('c) indexer_settings_scheme \<Rightarrow> string \<Rightarrow> (indexer, unit) handler" where
  "syncToken H cfg tokenContract =
     h_bind (h_lift (js_res (pk_of_string H tokenContract))) (\<lambda>tokenMint.
     h_bind (h_lift (derive_owner H cfg tokenMint)) (\<lambda>(ownerState, _).
     h_bind (rpc_account H cfg ownerState) (\<lambda>ownerInfo.
     h_bind (h_lift (case ownerInfo of None \<Rightarrow> Inr None | Some a \<Rightarrow> parseOwnerState H a)) (\<lambda>ownerWallet.
     h_bind (one_call (\<lambda>i n. getMint H i n tokenMint)) (\<lambda>mintInfo.
     h_bind (case mintInfo of None \<Rightarrow> h_return ()
             | Some m \<Rightarrow> h_modify (upsert_token_state tokenContract (fst m) (snd m))) (\<lambda>_.
     h_bind (case ownerWallet of None \<Rightarrow> h_return ()
             | Some k \<Rightarrow> h_modify (set_issuer tokenContract (toBase58 H k))) (\<lambda>_.
     h_bind (h_modify (track_wallets (discoverWalletsFromTxs tokenContract))) (\<lambda>_.
     h_bind (h_read (known_wallets (discoverWalletsFromTxs tokenContract))) (\<lambda>walletAddresses.
       h_each (\<lambda>walletAddress.
         h_bind (wallet_balance H tokenMint walletAddress) (\<lambda>balance.
           h_modify (upsert_balance tokenContract walletAddress balance))) walletAddresses)))))))))"

section \<open>A run\<close>

definition updateState :: "indexer_host \<Rightarrow> string \<Rightarrow> string option \<Rightarrow> indexer \<Rightarrow> indexer" where
  "updateState H status error s =
     (let row = \<lparr> run_status = status, run_error = error, run_lastRunAt = host_now H (rpcCalls s) \<rparr>
      in s\<lparr> ix_runs := (case ix_runs s of [] \<Rightarrow> [row] | r # rs \<Rightarrow> row # rs) \<rparr>)"

definition exn_message :: "exn \<Rightarrow> string" where
  "exn_message e = (case e of
     BadRequestException m \<Rightarrow> m | ConflictException m \<Rightarrow> m | NotFoundException m \<Rightarrow> m
   | UnauthorizedException m \<Rightarrow> m | ForbiddenException m \<Rightarrow> m | JsError m \<Rightarrow> m | DatabaseError m \<Rightarrow> m)"

definition sync_tokens ::
    "indexer_host \<Rightarrow> ('c) indexer_settings_scheme \<Rightarrow> (indexer, unit) handler" where
  "sync_tokens H cfg =
     h_bind (fetchAllFactoryTokens H cfg) (\<lambda>factoryTokens.
     h_bind (upsertAssets factoryTokens) (\<lambda>_.
     h_bind (h_each (\<lambda>contract. h_catch (syncToken H cfg contract) (\<lambda>e. h_return ()))
       (js_set (tokenContracts cfg @ map ft_contract_address factoryTokens))) (\<lambda>_.
     h_modify (updateState H ''IDLE'' None))))"

text \<open>
  The stored text is the message, a newline and the stack, trimmed; the stack is what the runtime
  keeps for an error, when it keeps one.
\<close>

definition failure_text :: "indexer_host \<Rightarrow> exn \<Rightarrow> string" where
  "failure_text H e = trim (exn_message e @ [CHR 0x0A] @ or_else (error_stack H e) [])"

definition syncOnce ::
    "indexer_host \<Rightarrow> ('c) indexer_settings_scheme \<Rightarrow> (indexer, unit) handler" where
  "syncOnce H cfg =
     h_bind (h_modify (updateState H ''RUNNING'' None)) (\<lambda>_.
     h_catch (sync_tokens H cfg) (\<lambda>e.
       h_bind (h_modify (updateState H ''ERROR'' (Some (or_else (Some (failure_text H e)) ''Indexer failed''))))
         (\<lambda>_. h_throw e)))"

end
