(* ===== verification/ModuleStates.thy ===== *)
theory ModuleStates
  imports Accounts Addresses
begin

text \<open>
  The states of the eight compliance modules (\<open>contracts/programs/modules\<close>): their records, their
  Borsh encodings, and the programs that own them. Both the indexer and the web client read them.
\<close>

datatype module_state =
    MaxBalanceModule pubkey pubkey int int
  | MaxTransferModule pubkey pubkey int int
  | LockupModule pubkey pubkey int int
  | MaxInvestorsModule pubkey pubkey pubkey int int int
  | DailyTransferLimitModule pubkey pubkey pubkey int int
  | SupplyCapModule pubkey pubkey pubkey int int int
  | CountryRestrictModule pubkey pubkey "int list" int
  | InvestorCountryCapModule pubkey pubkey pubkey "(int \<times> int) list" int

fun module_bytes :: "module_state \<Rightarrow> bytes" where
  "module_bytes (MaxBalanceModule w m v b) = w @ m @ le_bytes 8 v @ le_bytes 1 b"
| "module_bytes (MaxTransferModule w m v b) = w @ m @ le_bytes 8 v @ le_bytes 1 b"
| "module_bytes (LockupModule w m v b) = w @ m @ le_bytes 8 v @ le_bytes 1 b"
| "module_bytes (MaxInvestorsModule w m h v n b) = w @ m @ h @ le_bytes 8 v @ le_bytes 8 n @ le_bytes 1 b"
| "module_bytes (DailyTransferLimitModule w m h v b) = w @ m @ h @ le_bytes 8 v @ le_bytes 1 b"
| "module_bytes (SupplyCapModule w m h v n b) = w @ m @ h @ le_bytes 8 v @ le_bytes 8 n @ le_bytes 1 b"
| "module_bytes (CountryRestrictModule w m cs b) =
     w @ m @ le_bytes 4 (int (length cs)) @ concat (map (le_bytes 2) cs) @ le_bytes 1 b"
| "module_bytes (InvestorCountryCapModule w m h cs b) =
     w @ m @ h @ le_bytes 4 (int (length cs)) @
     concat (map (\<lambda>(c, k). le_bytes 2 c @ le_bytes 8 k) cs) @ le_bytes 1 b"

fun module_ok :: "module_state \<Rightarrow> bool" where
  "module_ok (MaxBalanceModule w m v b) = (length w = 32 \<and> length m = 32 \<and> fits 8 v)"
| "module_ok (MaxTransferModule w m v b) = (length w = 32 \<and> length m = 32 \<and> fits 8 v)"
| "module_ok (LockupModule w m v b) =
     (length w = 32 \<and> length m = 32 \<and> - (256 ^ 8 div 2) \<le> v \<and> v < 256 ^ 8 div 2)"
| "module_ok (MaxInvestorsModule w m h v n b) = (length w = 32 \<and> length m = 32 \<and> length h = 32 \<and> fits 8 v)"
| "module_ok (DailyTransferLimitModule w m h v b) = (length w = 32 \<and> length m = 32 \<and> length h = 32 \<and> fits 8 v)"
| "module_ok (SupplyCapModule w m h v n b) = (length w = 32 \<and> length m = 32 \<and> length h = 32 \<and> fits 8 v)"
| "module_ok (CountryRestrictModule w m cs b) =
     (length w = 32 \<and> length m = 32 \<and> fits 4 (int (length cs)) \<and> list_all (fits 2) cs)"
| "module_ok (InvestorCountryCapModule w m h cs b) =
     (length w = 32 \<and> length m = 32 \<and> length h = 32 \<and> fits 4 (int (length cs)) \<and>
      list_all (\<lambda>(c, k). fits 2 c \<and> fits 8 k) cs)"

fun module_program :: "module_ids \<Rightarrow> module_state \<Rightarrow> pubkey" where
  "module_program M (MaxBalanceModule w m v b) = MOD_MAX_BALANCE M"
| "module_program M (MaxTransferModule w m v b) = MOD_MAX_TRANSFER M"
| "module_program M (LockupModule w m v b) = MOD_LOCKUP M"
| "module_program M (MaxInvestorsModule w m h v n b) = MOD_MAX_INVESTORS M"
| "module_program M (DailyTransferLimitModule w m h v b) = MOD_DAILY_LIMIT M"
| "module_program M (SupplyCapModule w m h v n b) = MOD_SUPPLY_CAP M"
| "module_program M (CountryRestrictModule w m cs b) = MOD_COUNTRY_RESTRICT M"
| "module_program M (InvestorCountryCapModule w m h cs b) = MOD_COUNTRY_CAP M"

definition modules_distinct :: "('x) chain_scheme \<Rightarrow> module_ids \<Rightarrow> bool" where
  "modules_distinct C M = distinct (map (toBase58 C)
     [MOD_SUPPLY_CAP M, MOD_DAILY_LIMIT M, MOD_MAX_INVESTORS M, MOD_LOCKUP M, MOD_MAX_TRANSFER M,
      MOD_MAX_BALANCE M, MOD_COUNTRY_CAP M, MOD_COUNTRY_RESTRICT M])"

lemma readU64_skip: "fits 8 v \<Longrightarrow> length pre = n \<Longrightarrow> readU64 (pre @ le_bytes 8 v @ post) n = Inr v"
  using u64.field_reads [of undefined v pre post] by simp

lemma readI64_skip:
  "- (256 ^ 8 div 2) \<le> v \<Longrightarrow> v < 256 ^ 8 div 2 \<Longrightarrow> length pre = n \<Longrightarrow>
     readI64 (pre @ le_bytes 8 v @ post) n = Inr v"
  using i64.field_reads [of undefined v pre post] by simp

end
