(* ===== verification/IndexerProperties.thy ===== *)
theory IndexerProperties
  imports Indexer ModuleStates
begin

text \<open>
  Properties of the indexer: the retry loop reaches a working endpoint within its bound, the
  parsers read the accounts the programs write.
\<close>

section \<open>Retries\<close>

lemma switch_active:
  "activeRpcIndex s < length (rpcEndpoints cfg) \<Longrightarrow>
     activeRpcIndex (switchToNextRpcEndpoint cfg s) < length (rpcEndpoints cfg) \<and>
     activeRpcIndex s \<le> activeRpcIndex (switchToNextRpcEndpoint cfg s)"
  by (simp add: switchToNextRpcEndpoint_def)

lemma switch_simps [simp]:
  "rpcCalls (switchToNextRpcEndpoint cfg s) = rpcCalls s"
  "activeRpcIndex (count_call s) = activeRpcIndex s" "rpcCalls (count_call s) = rpcCalls s + 1"
  by (simp_all add: switchToNextRpcEndpoint_def count_call_def)

lemma rpc_attempts_calls:
  "rpcCalls (fst (rpc_attempts cfg m op attempt s)) \<le>
     rpcCalls s + (case m of None \<Rightarrow> 0 | Some q \<Rightarrow> nat (\<lfloor>q\<rfloor> + 1) - attempt)"
proof (induction cfg m op attempt s rule: rpc_attempts.induct)
  case (2 cfg q op attempt s)
  show ?case
  proof (cases "of_nat attempt \<le> q")
    case True
    then have le: "int attempt \<le> \<lfloor>q\<rfloor>" by (rule attempt_floor)
    then show ?thesis
      using 2 True by (subst rpc_attempts.simps) (auto split: sum.splits)
  qed (simp add: rpc_attempts.simps)
qed (simp add: rpc_attempts.simps)

lemma rpc_attempts_reach:
  assumes "\<And>i n. i < j \<Longrightarrow> (\<exists>e. op i n = Inl e \<and> isRecoverableRpcError e) \<or> (\<exists>x. op i n = Inr x)"
    and "\<And>n. \<exists>x. op j n = Inr x"
    and "j < length (rpcEndpoints cfg)"
  shows "activeRpcIndex s \<le> j \<Longrightarrow> of_nat (attempt + (j - activeRpcIndex s)) \<le> q \<Longrightarrow>
    \<exists>x t. rpc_attempts cfg (Some q) op attempt s = (t, Inr (Some x)) \<and> activeRpcIndex t \<le> j \<and>
      rpcCalls t \<le> rpcCalls s + Suc (j - activeRpcIndex s)"
proof (induction "j - activeRpcIndex s" arbitrary: attempt s)
  case 0
  then have "activeRpcIndex s = j" by simp
  then show ?case using 0 assms(2) [of "rpcCalls s"] by (auto simp: rpc_attempts.simps)
next
  case (Suc d)
  let ?a = "activeRpcIndex s" and ?s = "switchToNextRpcEndpoint cfg (count_call s)"
  have a: "?a < j" using Suc.hyps(2) by simp
  then have next': "activeRpcIndex ?s = Suc ?a"
    using assms(3) by (simp add: switchToNextRpcEndpoint_def)
  have "of_nat attempt + of_nat (j - ?a) \<le> q" using Suc.prems by simp
  moreover have "(1 :: rat) \<le> of_nat (j - ?a)" using a by simp
  ultimately have le: "of_nat attempt \<le> q" "of_nat attempt \<noteq> q" by linarith+
  have d: "d = j - activeRpcIndex ?s" "activeRpcIndex ?s \<le> j" using Suc.hyps(2) a next' by simp_all
  have "attempt + 1 + (j - activeRpcIndex ?s) = attempt + (j - ?a)" using a next' by simp
  then have q: "of_nat (attempt + 1 + (j - activeRpcIndex ?s)) \<le> q" using Suc.prems by simp
  show ?case
  proof (cases "op ?a (rpcCalls s)")
    case (Inl e)
    then have e: "isRecoverableRpcError e" using assms(1) [OF a, of "rpcCalls s"] by auto
    obtain x t where "rpc_attempts cfg (Some q) op (attempt + 1) ?s = (t, Inr (Some x))"
      "activeRpcIndex t \<le> j" "rpcCalls t \<le> rpcCalls ?s + Suc (j - activeRpcIndex ?s)"
      using Suc.hyps(1) [OF d q] by blast
    then show ?thesis using Inl e le a next' by (auto simp: rpc_attempts.simps)
  next
    case (Inr x)
    then show ?thesis using le a by (simp add: rpc_attempts.simps)
  qed
qed

text \<open>
  C30. When the endpoints before a working one only fail with recoverable errors and the retry
  bound covers the distance to it, a call with retries returns an answer, after at most one call
  per endpoint up to the working one.
\<close>

theorem retries_reach_a_working_endpoint:
  assumes "rpcMaxRetries cfg = Some q"
    and "activeRpcIndex s \<le> j" and "j < length (rpcEndpoints cfg)" and "of_nat (j - activeRpcIndex s) \<le> q"
    and "\<And>i n. i < j \<Longrightarrow> (\<exists>e. op i n = Inl e \<and> isRecoverableRpcError e) \<or> (\<exists>x. op i n = Inr x)"
    and "\<And>n. \<exists>x. op j n = Inr x"
  shows "\<exists>x t. withRpcRetries cfg op s = (t, Inr (Some x)) \<and> activeRpcIndex t \<le> j \<and>
    rpcCalls t \<le> rpcCalls s + Suc (j - activeRpcIndex s)"
  unfolding withRpcRetries_def assms(1)
  by (rule rpc_attempts_reach [of j op cfg s 0 q]) (use assms in auto)

text \<open>A node whose first endpoint is over its limit.\<close>

definition sample_modules :: module_ids where
  "sample_modules = \<lparr> MOD_MAX_INVESTORS = [1], MOD_COUNTRY_RESTRICT = [2], MOD_MAX_BALANCE = [3],
     MOD_MAX_TRANSFER = [4], MOD_LOCKUP = [5], MOD_DAILY_LIMIT = [6], MOD_SUPPLY_CAP = [7],
     MOD_COUNTRY_CAP = [8] \<rparr>"

definition sample_indexer_host :: indexer_host where
  "sample_indexer_host = \<lparr> pk_of_string = (\<lambda>s. Inr (ascii s)), pk_of_bytes = Inr,
     toBase58 = map (\<lambda>b. char_of (uint b + 64)), token_2022 = [], ata_of = (\<lambda>m w. Inr []),
     find_pda = (\<lambda>s p. Inr ([], 0)), account_info = (\<lambda>k. Inr None),
     getProgramAccounts = (\<lambda>i n p f. Inr []),
     getAccountInfo = (\<lambda>i n k. if i = 0 then Inl ''429 Too Many Requests'' else Inr None),
     getMultipleAccountsInfo = (\<lambda>i n ks. Inr []), getMint = (\<lambda>i n k. Inl ''no mint''),
     getTokenAmount = (\<lambda>i n k. Inl ''no account''), host_now = (\<lambda>n. int n),
     error_stack = (\<lambda>e. Some (''Error: '' @ exn_message e)) \<rparr>"

definition empty_indexer :: indexer where
  "empty_indexer = \<lparr> activeRpcIndex = 0, rpcCalls = 0, ix_assets = [], ix_states = [], ix_balances = [],
     ix_tracked = [], ix_users = [], ix_runs = [] \<rparr>"

definition sample_settings :: "string \<Rightarrow> indexer_settings" where
  "sample_settings tok = \<lparr> rpcEndpoints = [''https://one'', ''https://two''], factoryProgram = ''Factory'',
     tokenContracts = [tok], maxAssetScan = Fin 25, txScanLimit = Fin 100, txScanPages = Fin 1,
     rpcMaxRetries = Some 3, ctrProgram = ''Ctr'', tirProgram = ''Tir'', tokenProgram = ''Token'',
     modulePrograms = sample_modules \<rparr>"

theorem retries_reach_a_working_endpoint_witness:
  "\<exists>x t. withRpcRetries (sample_settings ''Tok'') (\<lambda>i n. getAccountInfo sample_indexer_host i n []) empty_indexer =
     (t, Inr (Some x)) \<and> activeRpcIndex t \<le> 1 \<and> rpcCalls t \<le> 2"
proof -
  have "isRecoverableRpcError ''429 Too Many Requests''" by code_simp
  then show ?thesis
    using retries_reach_a_working_endpoint [of "sample_settings ''Tok''" 3 empty_indexer 1
        "\<lambda>i n. getAccountInfo sample_indexer_host i n []"]
    by (simp add: sample_settings_def sample_indexer_host_def empty_indexer_def numeral_2_eq_2)
qed

section \<open>Parsers and layouts\<close>

lemma read_available_all:
  assumes "\<And>x pre post. ok x \<Longrightarrow> length (enc x) = width \<and>
      rd (pre @ enc x @ post) (length pre) = Inr (show' x)"
    and "list_all ok xs"
  shows "read_available rd width (length xs) (pre @ concat (map enc xs) @ post) (length pre)
    = Inr (map show' xs)"
  using assms(2)
proof (induction xs arbitrary: pre)
  case (Cons x xs)
  then have x: "ok x" by simp
  have "read_available rd width (length xs) ((pre @ enc x) @ concat (map enc xs) @ post)
      (length (pre @ enc x)) = Inr (map show' xs)" by (rule Cons.IH) (use Cons.prems in simp)
  moreover have "rd (pre @ enc x @ concat (map enc xs) @ post) (length pre) = Inr (show' x)"
    using assms(1) [OF x, of pre "concat (map enc xs) @ post"] by simp
  ultimately show ?case using assms(1) [OF x, of pre "[]"] by simp
qed simp

lemma read_vector_all:
  assumes "\<And>x pre post. ok x \<Longrightarrow> length (enc x) = width \<and>
      rd (pre @ enc x @ post) (length pre) = Inr (show' x)"
    and "list_all ok xs" and "fits 4 (int (length xs))"
  shows "read_vector rd width (pre @ le_bytes 4 (int (length xs)) @ concat (map enc xs) @ post) (length pre)
    = Inr (map show' xs)"
proof -
  let ?h = "le_bytes 4 (int (length xs))"
  have "read_available rd width (length xs) ((pre @ ?h) @ concat (map enc xs) @ post) (length (pre @ ?h))
      = Inr (map show' xs)"
    by (rule read_available_all [where ok = ok]) (use assms in auto)
  then show ?thesis
    using readU32_prefix [OF assms(3), of pre "concat (map enc xs) @ post"]
    by (simp add: read_vector_def)
qed

lemma readU64_text_at: "fits 8 v \<Longrightarrow> length (le_bytes 8 v) = 8 \<and>
    readU64_text (pre @ le_bytes 8 v @ post) (length pre) = Inr (bigint_toString v)"
  using u64.field_reads [of undefined v pre post] by (simp add: readU64_text_def)

lemma readPubkey_at: "key_ok C k \<Longrightarrow> length k = 32 \<and> readPubkey C (pre @ k @ post) (length pre) = Inr k"
  using pubkey.field_reads [of C k pre post] by (simp add: key_ok_def)

lemma map_id_list [simp]: "map (\<lambda>k. k) xs = xs"
  by (induction xs) simp_all

lemma parseComplianceState_layout:
  assumes "length disc = 8" and "list_all (bval_ok C) (compliance_state_layout a)"
    and "acc_data account = disc @ borsh (compliance_state_layout a) @ pad"
  shows "parseComplianceState C account = Inr (cs_modules a)"
proof -
  have ok: "key_ok C (cs_owner a)" "key_ok C (cs_tokenMint a)" "fits 4 (int (length (cs_modules a)))"
    "list_all (key_ok C) (cs_modules a)"
    using assms(2) by (simp_all add: compliance_state_layout_def)
  let ?pre = "disc @ cs_owner a @ cs_tokenMint a"
  let ?post = "borsh [BBool (cs_modulesPaused a), BU8 (cs_bump a)] @ pad"
  have "read_vector (readPubkey C) 32
      (?pre @ le_bytes 4 (int (length (cs_modules a))) @ concat (map (\<lambda>k. k) (cs_modules a)) @ ?post)
      (length ?pre) = Inr (map (\<lambda>k. k) (cs_modules a))"
    by (rule read_vector_all [where ok = "key_ok C"]) (use ok readPubkey_at in auto)
  then show ?thesis
    using assms(1,3) ok by (simp add: parseComplianceState_def compliance_state_layout_def key_ok_def)
qed

lemma parseClaimTopicsState_layout:
  assumes "length disc = 8" and "list_all (bval_ok C) (claim_topics_state_layout a)"
    and "acc_data account = disc @ borsh (claim_topics_state_layout a) @ pad"
  shows "parseClaimTopicsState account = Inr (map bigint_toString (ctr_topics a))"
proof -
  have ok: "key_ok C (ctr_owner a)" "key_ok C (ctr_tokenMint a)" "vec_u64_ok (ctr_topics a)"
    using assms(2) by (simp_all add: claim_topics_state_layout_def)
  let ?pre = "disc @ ctr_owner a @ ctr_tokenMint a" and ?post = "borsh [BU8 (ctr_bump a)] @ pad"
  have "read_vector readU64_text 8
      (?pre @ le_bytes 4 (int (length (ctr_topics a))) @ concat (map (le_bytes 8) (ctr_topics a)) @ ?post)
      (length ?pre) = Inr (map bigint_toString (ctr_topics a))"
    by (rule read_vector_all [where ok = "fits 8"]) (use ok readU64_text_at in \<open>auto simp: vec_u64_ok_def\<close>)
  then show ?thesis
    using assms(1,3) ok
    by (simp add: parseClaimTopicsState_def claim_topics_state_layout_def key_ok_def borsh_vec_u64_def)
qed

lemma parseOwnerState_layout:
  assumes "length disc = 8" and "list_all (bval_ok C) (owner_state_layout a)"
    and "acc_data account = disc @ borsh (owner_state_layout a) @ pad"
  shows "parseOwnerState C account = Inr (Some (oc_os_owner a))"
proof -
  have ok: "key_ok C (oc_os_owner a)" using assms(2) by (simp add: owner_state_layout_def)
  show ?thesis
    using readPubkey_at [OF ok, of disc] assms(1,3) ok
    by (simp add: parseOwnerState_def owner_state_layout_def key_ok_def)
qed

lemma readAnchorString_at:
  assumes "string_ok s"
  shows "readAnchorString (pre @ borsh_string s @ post) (length pre)
    = Inr (Some (string_of_text s, length pre + length (borsh_string s)))"
proof -
  let ?b = "utf8_encode s" and ?h = "le_bytes 4 (int (length (utf8_encode s)))"
  have "subarray ((pre @ ?h) @ ?b @ post) (length (pre @ ?h)) (length (pre @ ?h) + length ?b) = ?b"
    by (rule subarray_at)
  then show ?thesis
    using assms readU32_prefix [of "int (length ?b)" pre "?b @ post"]
    by (simp add: readAnchorString_def borsh_string_def string_ok_def utf8_decode_encode Let_def)
qed

lemma borsh_string_length: "length (borsh_string s) = 4 + length (utf8_encode s)"
  by (simp add: borsh_string_def)

lemma parseTokenState_layout:
  assumes "length disc = 8" and "list_all (bval_ok C) (token_state_layout a)"
    and "acc_data account = disc @ borsh (token_state_layout a) @ pad"
  shows "parseTokenState account = Inr (Some \<lparr> pt_paused = ts_paused a, pt_decimals = ts_decimals a,
    pt_name = string_of_text (ts_name a), pt_symbol = string_of_text (ts_symbol a),
    pt_isin = string_of_text (ts_isin a) \<rparr>)"
proof -
  have ok: "length (ts_tokenMint a) = 32" "length (ts_identityRegistry a) = 32" "length (ts_compliance a) = 32"
    "fits 1 (ts_decimals a)" "string_ok (ts_name a)" "string_ok (ts_symbol a)" "string_ok (ts_isin a)"
    using assms(2) by (simp_all add: token_state_layout_def key_ok_def)
  define p0 where "p0 = disc @ ts_tokenMint a @ ts_identityRegistry a @ ts_compliance a"
  define fl where "fl = borsh_val (BBool (ts_paused a))"
  define dc where "dc = borsh_val (BU8 (ts_decimals a))"
  define n where "n = borsh_string (ts_name a)"
  define y where "y = borsh_string (ts_symbol a)"
  define z where "z = borsh_string (ts_isin a)"
  define post where "post = borsh [BU8 (ts_bump a)] @ pad"
  define data where "data = p0 @ fl @ dc @ n @ y @ z @ post"
  have d: "acc_data account = data"
    using assms(3) by (simp add: data_def p0_def fl_def dc_def n_def y_def z_def post_def token_state_layout_def)
  have len: "length p0 = 104" "length fl = 1" "length dc = 1"
    using assms(1) ok by (simp_all add: p0_def fl_def dc_def)
  have flag: "readFlag data 104 = Inr (ts_paused a)"
    using flag.field_reads [of C "ts_paused a" p0 "dc @ n @ y @ z @ post"] len
    by (simp add: data_def fl_def)
  have dec: "readU8 data 105 = Inr (ts_decimals a)"
    using u8.field_reads [of C "ts_decimals a" "p0 @ fl" "n @ y @ z @ post"] len ok
    by (simp add: data_def dc_def)
  have nm: "readAnchorString data 106 = Inr (Some (string_of_text (ts_name a), 106 + length n))"
    using readAnchorString_at [OF ok(5), of "p0 @ fl @ dc" "y @ z @ post"] len by (simp add: data_def n_def)
  have sy: "readAnchorString data (106 + length n) =
      Inr (Some (string_of_text (ts_symbol a), 106 + length n + length y))"
    using readAnchorString_at [OF ok(6), of "p0 @ fl @ dc @ n" "z @ post"] len by (simp add: data_def y_def)
  have isn: "readAnchorString data (106 + length n + length y) =
      Inr (Some (string_of_text (ts_isin a), 106 + length n + length y + length z))"
    using readAnchorString_at [OF ok(7), of "p0 @ fl @ dc @ n @ y" post] len
    by (simp add: data_def z_def add.assoc)
  have "106 \<le> length data" using len by (simp add: data_def)
  then show ?thesis
    using flag dec nm sy isn
    by (simp add: parseTokenState_def next_string_def string_or_empty_def d)
qed

section \<open>Compliance modules\<close>

text \<open>The parameter the platform stores for a module.\<close>

fun module_param :: "nat \<Rightarrow> module_state \<Rightarrow> (string \<times> string) option" where
  "module_param d (MaxBalanceModule w m v b) = Some (''max_balance'', formatBaseUnits v d)"
| "module_param d (MaxTransferModule w m v b) = Some (''max_amount'', formatBaseUnits v d)"
| "module_param d (LockupModule w m v b) = Some (''lockup_end'', bigint_toString v)"
| "module_param d (MaxInvestorsModule w m h v n b) = Some (''max_investors'', bigint_toString v)"
| "module_param d (DailyTransferLimitModule w m h v b) = Some (''daily_limit'', formatBaseUnits v d)"
| "module_param d (SupplyCapModule w m h v n b) = Some (''max_supply'', formatBaseUnits v d)"
| "module_param d (CountryRestrictModule w m cs b) =
     (if cs = [] then None else Some (''allowed_countries'', join_with '','' (map show_digits cs)))"
| "module_param d (InvestorCountryCapModule w m h cs b) =
     (if cs = [] then None
      else Some (''country_caps'',
        join_with '','' (map (\<lambda>(c, k). show_digits c @ '':'' @ bigint_toString k) cs)))"

lemma readU16_text_at: "fits 2 v \<Longrightarrow> length (le_bytes 2 v) = 2 \<and>
    readU16_text (pre @ le_bytes 2 v @ post) (length pre) = Inr (show_digits v)"
  using u16.field_reads [of undefined v pre post] by (simp add: readU16_text_def)

lemma country_cap_text_at:
  assumes "fits 2 c" and "fits 8 k"
  shows "country_cap_text (pre @ (le_bytes 2 c @ le_bytes 8 k) @ post) (length pre) =
    Inr (show_digits c @ '':'' @ bigint_toString k)"
  using u16.field_reads [of undefined c pre "le_bytes 8 k @ post"]
    u64.field_reads [of undefined k "pre @ le_bytes 2 c" post] assms
  by (simp add: country_cap_text_def)

lemma readU16Vector_at:
  assumes "list_all (fits 2) cs" and "fits 4 (int (length cs))" and "length pre = n"
  shows "readU16Vector (pre @ le_bytes 4 (int (length cs)) @ concat (map (le_bytes 2) cs) @ post) n =
    Inr (map show_digits cs)"
  unfolding readU16Vector_def assms(3) [symmetric]
  by (rule read_vector_all [where ok = "fits 2"]) (use assms readU16_text_at in auto)

lemma readCountryCapVector_at:
  assumes "list_all (\<lambda>(c, k). fits 2 c \<and> fits 8 k) cs" and "fits 4 (int (length cs))" and "length pre = n"
  shows "readCountryCapVector (pre @ le_bytes 4 (int (length cs)) @
      concat (map (\<lambda>(c, k). le_bytes 2 c @ le_bytes 8 k) cs) @ post) n =
    Inr (map (\<lambda>(c, k). show_digits c @ '':'' @ bigint_toString k) cs)"
  unfolding readCountryCapVector_def assms(3) [symmetric]
  by (rule read_vector_all [where ok = "\<lambda>(c, k). fits 2 c \<and> fits 8 k"])
    (use assms country_cap_text_at in auto)

lemmas module_parse_simps = parseComplianceModuleParams_def is_module_def list_param_def value_param_def
  one_param_def modules_distinct_def Let_def

lemma parse_module_params:
  assumes "length disc = 8" and "module_ok ms" and "modules_distinct C M"
    and "acc_data account = disc @ module_bytes ms @ pad" and "acc_owner account = module_program M ms"
  shows "parseComplianceModuleParams C M account d = Inr (map_option (\<lambda>kv. [kv]) (module_param d ms))"
proof (cases ms)
  case (CountryRestrictModule w m cs b)
  then show ?thesis
    using assms readU16Vector_at [of cs "disc @ w @ m" 72 "le_bytes 1 b @ pad"]
    by (simp add: module_parse_simps)
next
  case (InvestorCountryCapModule w m h cs b)
  then show ?thesis
    using assms readCountryCapVector_at [of cs "disc @ w @ m @ h" 104 "le_bytes 1 b @ pad"]
    by (cases "cs = []") (simp_all add: module_parse_simps)
next
  case (MaxBalanceModule w m v b)
  then show ?thesis
    using assms readU64_skip [of v "disc @ w @ m" 72 "le_bytes 1 b @ pad"]
    by (simp add: module_parse_simps)
next
  case (MaxTransferModule w m v b)
  then show ?thesis
    using assms readU64_skip [of v "disc @ w @ m" 72 "le_bytes 1 b @ pad"]
    by (simp add: module_parse_simps)
next
  case (LockupModule w m v b)
  then show ?thesis
    using assms readI64_skip [of v "disc @ w @ m" 72 "le_bytes 1 b @ pad"]
    by (simp add: module_parse_simps)
next
  case (MaxInvestorsModule w m h v n b)
  then show ?thesis
    using assms readU64_skip [of v "disc @ w @ m @ h" 104 "le_bytes 8 n @ le_bytes 1 b @ pad"]
    by (simp add: module_parse_simps)
next
  case (DailyTransferLimitModule w m h v b)
  then show ?thesis
    using assms readU64_skip [of v "disc @ w @ m @ h" 104 "le_bytes 1 b @ pad"]
    by (simp add: module_parse_simps)
next
  case (SupplyCapModule w m h v n b)
  then show ?thesis
    using assms readU64_skip [of v "disc @ w @ m @ h" 104 "le_bytes 8 n @ le_bytes 1 b @ pad"]
    by (simp add: module_parse_simps)
qed

section \<open>Issuer entries\<close>

lemma issuer_topics_at:
  assumes "list_all (fits 8) vs"
  shows "issuer_topics (length vs) (pre @ concat (map (le_bytes 8) vs) @ post) (length pre) =
    Inr (Some (map bigint_toString vs, length pre + length (concat (map (le_bytes 8) vs))))"
  using assms
proof (induction vs arbitrary: pre)
  case (Cons v vs)
  have "issuer_topics (length vs) ((pre @ le_bytes 8 v) @ concat (map (le_bytes 8) vs) @ post)
      (length (pre @ le_bytes 8 v)) = Inr (Some (map bigint_toString vs,
        length (pre @ le_bytes 8 v) + length (concat (map (le_bytes 8) vs))))"
    by (rule Cons.IH) (use Cons.prems in simp)
  moreover have "readU64_text (pre @ le_bytes 8 v @ concat (map (le_bytes 8) vs) @ post) (length pre) =
      Inr (bigint_toString v)"
    using readU64_text_at [of v pre "concat (map (le_bytes 8) vs) @ post"] Cons.prems by simp
  ultimately show ?case by simp
qed simp

lemma parseIssuerEntry_layout:
  assumes "length disc = 8" and "list_all (bval_ok C) (issuer_entry_layout a)"
    and "acc_data account = disc @ borsh (issuer_entry_layout a) @ pad"
    and "ISSUER_ENTRY_SIZE \<le> length (acc_data account)"
  shows "parseIssuerEntry C account = Inr (Some \<lparr> pi_issuerFid = ie_issuerFid a,
    pi_topics = map bigint_toString (ie_allowedTopics a), pi_active = ie_isActive a,
    pi_label = string_of_text (ie_label a) \<rparr>)"
proof -
  have ok: "key_ok C (ie_issuerFid a)" "length (ie_issuerFid a) = 32" "length (ie_tir a) = 32"
    "fits 4 (int (length (ie_allowedTopics a)))" "list_all (fits 8) (ie_allowedTopics a)" "string_ok (ie_label a)"
    using assms(2) by (simp_all add: issuer_entry_layout_def key_ok_def vec_u64_ok_def)
  define hd where "hd = disc @ ie_issuerFid a @ ie_tir a"
  define cnt where "cnt = le_bytes 4 (int (length (ie_allowedTopics a)))"
  define ts where "ts = concat (map (le_bytes 8) (ie_allowedTopics a))"
  define fl where "fl = borsh_val (BBool (ie_isActive a))"
  define b where "b = utf8_encode (ie_label a)"
  define ln where "ln = le_bytes 4 (int (length b))"
  define post where "post = borsh [BU8 (ie_bump a)] @ pad"
  define data where "data = hd @ cnt @ ts @ fl @ ln @ b @ post"
  have d: "acc_data account = data"
    using assms(3)
    by (simp add: data_def hd_def cnt_def ts_def fl_def b_def ln_def post_def issuer_entry_layout_def
        borsh_vec_u64_def borsh_string_def)
  have len: "length hd = 72" "length cnt = 4" "length fl = 1" "length ln = 4"
    using assms(1) ok by (simp_all add: hd_def cnt_def fl_def ln_def)
  have fitb: "fits 4 (int (length b))" "utf8_decode b = ie_label a"
    using ok(6) by (simp_all add: string_ok_def b_def utf8_decode_encode)
  have key: "readPubkey C data 8 = Inr (ie_issuerFid a)"
    using readPubkey_at [OF ok(1), of disc "ie_tir a @ cnt @ ts @ fl @ ln @ b @ post"] assms(1)
    by (simp add: data_def hd_def)
  have count: "readU32 data 72 = Inr (int (length (ie_allowedTopics a)))"
    using readU32_prefix [OF ok(4), of hd "ts @ fl @ ln @ b @ post"] len by (simp add: data_def cnt_def)
  have topics: "issuer_topics (length (ie_allowedTopics a)) data 76 =
      Inr (Some (map bigint_toString (ie_allowedTopics a), 76 + length ts))"
    using issuer_topics_at [OF ok(5), of "hd @ cnt" "fl @ ln @ b @ post"] len by (simp add: data_def ts_def)
  have active: "readFlag data (76 + length ts) = Inr (ie_isActive a)"
    using flag.field_reads [of C "ie_isActive a" "hd @ cnt @ ts" "ln @ b @ post"] len
    by (simp add: data_def fl_def)
  have label: "readU32 data (76 + length ts + 1) = Inr (int (length b))"
    using readU32_prefix [OF fitb(1), of "hd @ cnt @ ts @ fl" "b @ post"] len by (simp add: data_def ln_def)
  have sub: "subarray data (76 + length ts + 1 + 4) (76 + length ts + 1 + 4 + length b) = b"
    using subarray_at [of "hd @ cnt @ ts @ fl @ ln" b post] len by (simp add: data_def)
  have "76 + length ts + 5 + length b \<le> length data" using len by (simp add: data_def)
  then show ?thesis
    using assms(4) key count topics active label sub fitb(2)
    by (simp add: parseIssuerEntry_def d Let_def)
qed

lemma indexer_parses_program_accounts:
  assumes "length disc = 8"
  shows
    "(list_all (bval_ok C) (token_state_layout ts) \<and> acc_data a = disc @ borsh (token_state_layout ts) @ pad \<longrightarrow>
        parseTokenState a = Inr (Some \<lparr> pt_paused = ts_paused ts, pt_decimals = ts_decimals ts,
          pt_name = string_of_text (ts_name ts), pt_symbol = string_of_text (ts_symbol ts),
          pt_isin = string_of_text (ts_isin ts) \<rparr>)) \<and>
     (list_all (bval_ok C) (owner_state_layout os) \<and> acc_data a = disc @ borsh (owner_state_layout os) @ pad \<longrightarrow>
        parseOwnerState C a = Inr (Some (oc_os_owner os))) \<and>
     (list_all (bval_ok C) (compliance_state_layout cs) \<and>
        acc_data a = disc @ borsh (compliance_state_layout cs) @ pad \<longrightarrow>
        parseComplianceState C a = Inr (cs_modules cs)) \<and>
     (list_all (bval_ok C) (claim_topics_state_layout ct) \<and>
        acc_data a = disc @ borsh (claim_topics_state_layout ct) @ pad \<longrightarrow>
        parseClaimTopicsState a = Inr (map bigint_toString (ctr_topics ct))) \<and>
     (list_all (bval_ok C) (issuer_entry_layout ie) \<and> acc_data a = disc @ borsh (issuer_entry_layout ie) @ pad \<and>
        ISSUER_ENTRY_SIZE \<le> length (acc_data a) \<longrightarrow>
        parseIssuerEntry C a = Inr (Some \<lparr> pi_issuerFid = ie_issuerFid ie,
          pi_topics = map bigint_toString (ie_allowedTopics ie), pi_active = ie_isActive ie,
          pi_label = string_of_text (ie_label ie) \<rparr>)) \<and>
     (module_ok ms \<and> modules_distinct C M \<and> acc_data a = disc @ module_bytes ms @ pad \<and>
        acc_owner a = module_program M ms \<longrightarrow>
        parseComplianceModuleParams C M a d = Inr (map_option (\<lambda>kv. [kv]) (module_param d ms)))"
proof (intro conjI impI; elim conjE)
  assume "list_all (bval_ok C) (token_state_layout ts)" "acc_data a = disc @ borsh (token_state_layout ts) @ pad"
  then show "parseTokenState a = Inr (Some \<lparr> pt_paused = ts_paused ts, pt_decimals = ts_decimals ts,
      pt_name = string_of_text (ts_name ts), pt_symbol = string_of_text (ts_symbol ts),
      pt_isin = string_of_text (ts_isin ts) \<rparr>)"
    by (rule parseTokenState_layout [OF assms])
next
  assume "list_all (bval_ok C) (owner_state_layout os)" "acc_data a = disc @ borsh (owner_state_layout os) @ pad"
  then show "parseOwnerState C a = Inr (Some (oc_os_owner os))"
    by (rule parseOwnerState_layout [OF assms])
next
  assume "list_all (bval_ok C) (compliance_state_layout cs)"
    "acc_data a = disc @ borsh (compliance_state_layout cs) @ pad"
  then show "parseComplianceState C a = Inr (cs_modules cs)"
    by (rule parseComplianceState_layout [OF assms])
next
  assume "list_all (bval_ok C) (claim_topics_state_layout ct)"
    "acc_data a = disc @ borsh (claim_topics_state_layout ct) @ pad"
  then show "parseClaimTopicsState a = Inr (map bigint_toString (ctr_topics ct))"
    by (rule parseClaimTopicsState_layout [OF assms])
next
  assume "list_all (bval_ok C) (issuer_entry_layout ie)" "acc_data a = disc @ borsh (issuer_entry_layout ie) @ pad"
    "ISSUER_ENTRY_SIZE \<le> length (acc_data a)"
  then show "parseIssuerEntry C a = Inr (Some \<lparr> pi_issuerFid = ie_issuerFid ie,
      pi_topics = map bigint_toString (ie_allowedTopics ie), pi_active = ie_isActive ie,
      pi_label = string_of_text (ie_label ie) \<rparr>)"
    by (rule parseIssuerEntry_layout [OF assms])
next
  assume "module_ok ms" "modules_distinct C M" "acc_data a = disc @ module_bytes ms @ pad"
    "acc_owner a = module_program M ms"
  then show "parseComplianceModuleParams C M a d = Inr (map_option (\<lambda>kv. [kv]) (module_param d ms))"
    by (rule parse_module_params [OF assms])
qed

lemma indexer_parses_program_accounts_witness:
  "parseOwnerState sample_indexer_host \<lparr> acc_owner = [], acc_data = replicate 8 0 @
     borsh (owner_state_layout sample_owner_state) @ [] \<rparr> = Inr (Some (sample_key 1)) \<and>
   parseComplianceModuleParams sample_indexer_host sample_modules
     \<lparr> acc_owner = [3], acc_data = replicate 8 0 @
        module_bytes (MaxBalanceModule (sample_key 1) (sample_key 2) 1234500 254) @ [] \<rparr> 6 =
     Inr (Some [(''max_balance'', formatBaseUnits 1234500 6)])"
proof -
  let ?a = "\<lambda>o' b. \<lparr> acc_owner = o', acc_data = replicate 8 0 @ b @ [] \<rparr>"
  let ?m = "MaxBalanceModule (sample_key 1) (sample_key 2) 1234500 254"
  have "list_all (bval_ok sample_indexer_host) (owner_state_layout sample_owner_state)" by code_simp
  moreover have "module_ok ?m \<and> modules_distinct sample_indexer_host sample_modules \<and>
      [3] = module_program sample_modules ?m" by code_simp
  ultimately show ?thesis
    using indexer_parses_program_accounts [of "replicate 8 0" sample_indexer_host _
        "?a [] (borsh (owner_state_layout sample_owner_state))" "[]" sample_owner_state]
      indexer_parses_program_accounts [of "replicate 8 0" sample_indexer_host _ "?a [3] (module_bytes ?m)" "[]" _ _ _ _
        ?m sample_modules 6]
    by (simp add: sample_owner_state_def)
qed

end
