(* ===== verification/IndexedLimits.thy ===== *)
theory IndexedLimits
  imports IndexerProperties
begin

text \<open>
  The composition of the chain, the indexer and the purchase service: the limits the compliance
  modules of a token hold on the chain are, after the indexer stored the token, the limits the
  purchase service reads from the metadata of the asset.
\<close>

text \<open>The tables of the indexer as the purchase service sees them.\<close>

definition purchase_view :: "indexer \<Rightarrow> purchase_db \<Rightarrow> purchase_db" where
  "purchase_view s db = db\<lparr> pd_assets := map asset_row.truncate (ix_assets s),
     pd_balances := ix_balances s, pd_states := map token_state_row.truncate (ix_states s) \<rparr>"

section \<open>Objects\<close>

lemma update_new: "k \<notin> fst ` set al \<Longrightarrow> AList.update k v al = al @ [(k, v)]"
  by (induction al) auto

lemma map_of_spread:
  "distinct (map fst b) \<Longrightarrow> map_of (js_spread a b) k = (case map_of b k of Some v \<Rightarrow> Some v | None \<Rightarrow> map_of a k)"
proof (induction b arbitrary: a)
  case (Cons kv b)
  obtain x v where kv: "kv = (x, v)" by force
  have "js_spread a (kv # b) = js_spread (AList.update x v a) b" by (simp add: js_spread_def kv)
  moreover have "map_of b x = None" using Cons.prems kv by (simp add: map_of_eq_None_iff)
  ultimately show ?case
    using Cons by (cases "k = x") (simp_all add: kv update_conv' split: option.splits)
qed (simp add: js_spread_def)

lemma js_field_spread:
  "distinct (map fst b) \<Longrightarrow> js_field (js_spread a b) k = (if k \<in> fst ` set b then js_field b k else js_field a k)"
proof (cases "map_of b k")
  case None
  moreover assume "distinct (map fst b)"
  moreover have "k \<notin> fst ` set b" using None by (simp add: map_of_eq_None_iff)
  ultimately show ?thesis by (simp add: js_field_def map_of_spread)
next
  case (Some v)
  moreover assume "distinct (map fst b)"
  moreover have "k \<in> fst ` set b" using map_of_SomeD [OF Some] by force
  ultimately show ?thesis by (simp add: js_field_def map_of_spread)
qed

lemma js_field_stored:
  assumes "js_field fs k \<noteq> JUndefined"
  shows "js_field (asRecord (stored_json fs)) k = js_field fs k"
proof -
  have "js_field (filter (\<lambda>(k, v). v \<noteq> JUndefined) fs) k = js_field fs k" if "js_field fs k \<noteq> JUndefined" for fs
    using that
  proof (induction fs)
    case (Cons kv fs)
    obtain x v where kv: "kv = (x, v)" by force
    from Cons show ?case by (cases "x = k") (auto simp: kv js_field_def split: option.splits if_splits)
  qed simp
  with assms show ?thesis by (simp add: stored_json_def asRecord_def)
qed

lemma merge_metadata_fields:
  assumes "distinct (map fst i)" and "nonempty_object (js_field i ''complianceModuleParams'')"
    and "''decimals'' \<in> fst ` set i"
  obtains m where "mergeMetadata e (JObj i) = Some m"
    and "js_field m ''complianceModuleParams'' = js_field i ''complianceModuleParams''"
    and "js_field m ''decimals'' = js_field i ''decimals''"
proof (cases "isRecord e")
  case None
  then show thesis by (intro that [of i]) (auto simp: mergeMetadata_def isRecord_def)
next
  case (Some f)
  define pick where "pick = (\<lambda>good k. (k, if good (js_field i k) then js_field i k else js_field f k))"
  define ps where "ps = [pick nonempty_array ''trustedIssuers'', pick nonempty_array ''claimTopics'',
    pick nonempty_array ''complianceModules'', pick nonempty_object ''complianceModuleParams'']"
  have keys: "map fst ps = [''trustedIssuers'', ''claimTopics'', ''complianceModules'', ''complianceModuleParams'']"
    by (simp add: ps_def pick_def)
  have d: "distinct (map fst ps)" unfolding keys by simp
  have mem: "''complianceModuleParams'' \<in> fst ` set ps" "''decimals'' \<notin> fst ` set ps"
    unfolding set_map [symmetric] keys by simp_all
  have "js_field ps ''complianceModuleParams'' = js_field i ''complianceModuleParams''"
    using assms(2) by (simp add: ps_def pick_def js_field_def [of "_ # _"])
  moreover have "mergeMetadata e (JObj i) = Some (js_spread (js_spread f i) ps)"
    using Some by (simp add: mergeMetadata_def isRecord_def ps_def pick_def Let_def)
  ultimately show thesis
    using js_field_spread [OF d, of "js_spread f i"] js_field_spread [OF assms(1), of f] mem assms(3)
    by (intro that [of "js_spread (js_spread f i) ps"]) simp_all
qed

section \<open>Modules\<close>

definition module_account :: "module_ids \<Rightarrow> module_state \<Rightarrow> account option \<Rightarrow> bool" where
  "module_account M ms a \<longleftrightarrow>
     (\<exists>x disc pad. a = Some x \<and> length disc = 8 \<and> acc_owner x = module_program M ms \<and>
        acc_data x = disc @ module_bytes ms @ pad)"

definition module_entries :: "indexer_host \<Rightarrow> module_ids \<Rightarrow> nat \<Rightarrow> module_state list \<Rightarrow> (string \<times> jsval) list" where
  "module_entries H M d mss = List.map_filter (\<lambda>ms.
     map_option (\<lambda>(k, v). (toBase58 H (module_program M ms), JObj [(k, JStr v)])) (module_param d ms)) mss"

lemma add_module_entry:
  assumes "module_account M ms a" and "module_ok ms" and "modules_distinct H M"
    and "toBase58 H (module_program M ms) \<notin> fst ` set ps"
  shows "add_module H M d a (ns, ps) =
    Inr (ns @ map fst (module_entries H M d [ms]), ps @ module_entries H M d [ms])"
proof -
  obtain x disc pad where x: "a = Some x" "length disc = 8" "acc_owner x = module_program M ms"
    "acc_data x = disc @ module_bytes ms @ pad"
    using assms(1) unfolding module_account_def by blast
  show ?thesis
    using parse_module_params [OF x(2) assms(2,3) x(4,3), of d] assms(4) x
    by (cases "module_param d ms")
      (auto simp: add_module_def module_entries_def map_filter_def update_new Let_def)
qed

lemma module_entries_Cons: "module_entries H M d (ms # mss) = module_entries H M d [ms] @ module_entries H M d mss"
  by (simp add: module_entries_def map_filter_def)

lemma module_entries_keys: "fst ` set (module_entries H M d mss) \<subseteq> (\<lambda>ms. toBase58 H (module_program M ms)) ` set mss"
  by (auto simp: module_entries_def map_filter_def image_iff split: option.splits)

lemma disjoint_insert_key: "A \<subseteq> {x} \<Longrightarrow> x \<notin> I \<Longrightarrow> B \<inter> I = {} \<Longrightarrow> (B \<union> A) \<inter> I = {}"
  by blast

lemma add_modules_entries:
  assumes "list_all2 (module_account M) mss as" and "list_all module_ok mss" and "modules_distinct H M"
    and "distinct (map (\<lambda>ms. toBase58 H (module_program M ms)) mss)"
    and "fst ` set ps \<inter> (\<lambda>ms. toBase58 H (module_program M ms)) ` set mss = {}"
  shows "add_modules H M d as (ns, ps) =
    Inr (ns @ map fst (module_entries H M d mss), ps @ module_entries H M d mss)"
  using assms(1,2,4,5)
proof (induction arbitrary: ns ps rule: list_all2_induct)
  case (Cons ms mss a as)
  have new: "toBase58 H (module_program M ms) \<notin> fst ` set ps" using Cons.prems by auto
  have step: "add_module H M d a (ns, ps) =
      Inr (ns @ map fst (module_entries H M d [ms]), ps @ module_entries H M d [ms])"
    by (rule add_module_entry) (use Cons new assms(3) in auto)
  let ?I = "(\<lambda>ms. toBase58 H (module_program M ms)) ` set mss"
  have own: "fst ` set (module_entries H M d [ms]) \<subseteq> {toBase58 H (module_program M ms)}"
    using module_entries_keys [of H M d "[ms]"] by simp
  have "toBase58 H (module_program M ms) \<notin> ?I" using Cons.prems by simp
  moreover have "fst ` set ps \<inter> ?I = {}" using Cons.prems by simp
  ultimately have "fst ` set (ps @ module_entries H M d [ms]) \<inter> ?I = {}"
    unfolding set_append image_Un by (intro disjoint_insert_key [OF own])
  then have "add_modules H M d as (ns @ map fst (module_entries H M d [ms]), ps @ module_entries H M d [ms]) =
      Inr ((ns @ map fst (module_entries H M d [ms])) @ map fst (module_entries H M d mss),
           (ps @ module_entries H M d [ms]) @ module_entries H M d mss)"
    by (intro Cons.IH) (use Cons.prems in simp_all)
  with step show ?case by (simp add: module_entries_Cons [of H M d ms mss])
qed (simp add: module_entries_def map_filter_def)

lemma same_key_same_program:
  "module_param d ms = Some (k, v) \<Longrightarrow> module_param d ms' = Some (k, v') \<Longrightarrow>
     module_program M ms = module_program M ms'"
  by (cases ms; cases ms') (auto split: if_splits)

lemma param_of_entries:
  assumes "ms \<in> set mss" and "module_param d ms = Some (k, v)"
    and "\<And>ms' v'. ms' \<in> set mss \<Longrightarrow> module_param d ms' = Some (k, v') \<Longrightarrow> v' = v"
  shows "getParamValue (map (\<lambda>(p, j). asRecord j) (module_entries H M d mss)) k = JStr v"
  using assms
proof (induction mss)
  case (Cons m mss)
  show ?case
  proof (cases "module_param d m")
    case None
    then have "ms \<in> set mss" using Cons.prems by auto
    then have "getParamValue (map (\<lambda>(p, j). asRecord j) (module_entries H M d mss)) k = JStr v"
      using Cons.IH [OF _ Cons.prems(2)] Cons.prems(3) by (meson list.set_intros(2))
    with None show ?thesis by (simp add: module_entries_def map_filter_def)
  next
    case (Some kv)
    obtain k' v' where kv: "kv = (k', v')" by force
    have e: "module_entries H M d (m # mss) =
        (toBase58 H (module_program M m), JObj [(k', JStr v')]) # module_entries H M d mss"
      using Some kv by (simp add: module_entries_def map_filter_def)
    show ?thesis
    proof (cases "k' = k")
      case True
      then have "v' = v" using Cons.prems(3) [of m v'] Some kv by simp
      with True e show ?thesis by (simp add: asRecord_def)
    next
      case False
      then have "ms \<in> set mss" using Cons.prems(1,2) Some kv by auto
      then have "getParamValue (map (\<lambda>(p, j). asRecord j) (module_entries H M d mss)) k = JStr v"
        using Cons.IH [OF _ Cons.prems(2)] Cons.prems(3) by (meson list.set_intros(2))
      with False e show ?thesis by (simp add: asRecord_def)
    qed
  qed
qed simp

lemma entries_nonempty: "list_all (\<lambda>(p, j). asRecord j \<noteq> []) (module_entries H M d mss)"
  by (induction mss) (auto simp: module_entries_def map_filter_def asRecord_def split: option.splits)

lemma entries_filter:
  "filter (\<lambda>ps. ps \<noteq> []) (map (\<lambda>(p, j). asRecord j) (module_entries H M d mss)) =
     map (\<lambda>(p, j). asRecord j) (module_entries H M d mss)"
  using entries_nonempty [of H M d mss] by (auto simp: filter_id_conv list_all_iff)

lemma entries_member: "ms \<in> set mss \<Longrightarrow> module_param d ms \<noteq> None \<Longrightarrow> module_entries H M d mss \<noteq> []"
  by (auto simp: module_entries_def map_filter_def filter_empty_conv)

section \<open>From the chain to the purchase check\<close>

text \<open>The limits in base units that a module holds and the purchase service reads.\<close>

fun module_limit :: "module_state \<Rightarrow> (string \<times> int) option" where
  "module_limit (MaxBalanceModule w m v b) = Some (''max_balance'', v)"
| "module_limit (MaxTransferModule w m v b) = Some (''max_amount'', v)"
| "module_limit (SupplyCapModule w m h v n b) = Some (''max_supply'', v)"
| "module_limit _ = None"

lemma module_limit_param:
  "module_limit ms = Some (k, v) \<Longrightarrow> module_ok ms \<Longrightarrow>
     module_param d ms = Some (k, formatBaseUnits v d) \<and> 0 \<le> v"
  by (cases ms) (auto simp: fits_def)

interpretation assets: keyed_table as_tokenContract update_asset
  by unfold_locales (simp add: update_asset_def split: prod.splits)

lemma find_truncate:
  "List.find (\<lambda>a. as_tokenContract a = c) (map asset_row.truncate as) =
     map_option asset_row.truncate (List.find (\<lambda>a. as_tokenContract a = c) as)"
  by (induction as) (simp_all add: asset_row.truncate_def)

lemma upsert_asset_metadata:
  assumes "upsertAsset tok s = (t, Inr ())" and "ft_metadata tok = Some (JObj i)"
    and "distinct (map fst i)" and "nonempty_object (js_field i ''complianceModuleParams'')"
    and "''decimals'' \<in> fst ` set i" and "js_field i ''decimals'' \<noteq> JUndefined"
  shows "js_field (asset_metadata (purchase_view t db) (ft_contract_address tok)) ''complianceModuleParams''
      = js_field i ''complianceModuleParams'' \<and>
    js_field (asset_metadata (purchase_view t db) (ft_contract_address tok)) ''decimals'' = js_field i ''decimals''"
proof -
  let ?c = "ft_contract_address tok"
  define ex where "ex = List.find (\<lambda>a. as_tokenContract a = ?c) (ix_assets s)"
  obtain m where m: "mergeMetadata (case ex of None \<Rightarrow> JUndefined | Some a \<Rightarrow> as_metadata a) (JObj i) = Some m"
    "js_field m ''complianceModuleParams'' = js_field i ''complianceModuleParams''"
    "js_field m ''decimals'' = js_field i ''decimals''"
    by (rule merge_metadata_fields [OF assms(3-5)])
  obtain dt where dt: "checked_deployedAt tok = Inr dt"
    using assms(1) by (auto simp: upsertAsset_def Let_def split: sum.splits)
  have "upsertAsset tok s = (s\<lparr> ix_assets := (if ex = None then sql_insert (new_asset tok dt (Some m)) (ix_assets s)
      else sql_update (\<lambda>a. as_tokenContract a = ?c) (update_asset (tok, dt, Some m)) (ix_assets s)) \<rparr>, Inr ())"
    unfolding upsertAsset_def Let_def dt assms(2) ex_def [symmetric] option.case m(1) sum.case by (rule refl)
  then have t: "ix_assets t = (if ex = None then sql_insert (new_asset tok dt (Some m)) (ix_assets s)
      else sql_update (\<lambda>a. as_tokenContract a = ?c) (update_asset (tok, dt, Some m)) (ix_assets s))"
    using assms(1) by auto
  have "\<exists>a. List.find (\<lambda>a. as_tokenContract a = ?c) (ix_assets t) = Some a \<and> as_metadata a = stored_json m"
  proof (cases ex)
    case None
    then show ?thesis
      using t by (simp add: ex_def find_insert new_asset_def)
  next
    case (Some a)
    then show ?thesis
      using t assets.find_same [of ?c "(tok, dt, Some m)" "ix_assets s"]
      by (simp add: ex_def update_asset_def)
  qed
  moreover have "js_field i ''complianceModuleParams'' \<noteq> JUndefined"
    using assms(4) by (auto simp: nonempty_object_def split: jsval.splits)
  ultimately show ?thesis
    using js_field_stored [of m] m(2,3) assms(6)
    by (auto simp: asset_metadata_def purchase_view_def find_truncate asset_row.truncate_def)
qed

lemma metadata_object_fields:
  "distinct (map fst (asRecord (metadata_object (Some d) ts is' ns ps)))"
  "js_field (asRecord (metadata_object (Some d) ts is' ns ps)) ''complianceModuleParams'' = JObj ps"
  "js_field (asRecord (metadata_object (Some d) ts is' ns ps)) ''decimals'' = JNum (Fin (of_nat d))"
  "''decimals'' \<in> fst ` set (asRecord (metadata_object (Some d) ts is' ns ps))"
  by (simp_all add: metadata_object_def asRecord_def js_field_def)

lemma decimals_of_nat:
  "js_field m ''decimals'' = JNum (Fin (of_nat d)) \<Longrightarrow> d \<le> 18 \<Longrightarrow> decimalsFromMetadata m = d"
  by (simp add: decimalsFromMetadata_def isInteger_def Let_def)


section \<open>An instance\<close>

definition sample_states :: "module_state list" where
  "sample_states = [MaxBalanceModule (sample_key 1) (sample_key 2) 1234500 254,
     SupplyCapModule (sample_key 1) (sample_key 2) (sample_key 3) 5000000 0 253]"

definition sample_accounts :: "account option list" where
  "sample_accounts = map (\<lambda>ms. Some \<lparr> acc_owner = module_program sample_modules ms,
     acc_data = replicate 8 0 @ module_bytes ms @ [] \<rparr>) sample_states"

definition sample_token :: factory_token_info where
  "sample_token = \<lparr> ft_asset_id = Fin 1, ft_contract_address = ''Mint'', ft_name = [], ft_symbol = [],
     ft_reference_id = [], ft_description = [], ft_legal_owner = [],
     ft_metadata = (case add_modules sample_indexer_host sample_modules 6 sample_accounts ([], []) of
        Inl e \<Rightarrow> None | Inr (names, params) \<Rightarrow> Some (metadata_object (Some 6) [] [] names params)),
     ft_deployed_at = Fin 1700000000 \<rparr>"

definition empty_purchase_db :: purchase_db where
  "empty_purchase_db = \<lparr> pd_assets = [], pd_balances = [], pd_states = [], pd_requests = [], pd_ledger = [] \<rparr>"

lemma sample_accounts_match: "list_all2 (module_account sample_modules) sample_states sample_accounts"
proof -
  have "module_account sample_modules ms
      (Some \<lparr> acc_owner = module_program sample_modules ms, acc_data = replicate 8 0 @ module_bytes ms @ [] \<rparr>)" for ms
    unfolding module_account_def
    by (intro exI conjI) (rule refl, rule length_replicate, simp_all)
  then show ?thesis by (simp add: sample_accounts_def list_all2_map2 list_all2_same)
qed

lemma sample_host_distinct: "modules_distinct sample_indexer_host sample_modules"
  by code_simp

lemma sample_states_distinct:
  "list_all module_ok sample_states"
  "distinct (map (\<lambda>ms. toBase58 sample_indexer_host (module_program sample_modules ms)) sample_states)"
  by code_simp+


end
