(* ===== verification/IndexerRun.thy ===== *)
theory IndexerRun
  imports IndexedLimits
begin

text \<open>
  A run of the indexer: it keeps one row per token, per token and wallet, and one run row, whatever
  the node answers; its run row ends idle or with the error; and the size it asks the factory
  accounts for is the size of none of them.
\<close>

section \<open>The invariant of the tables\<close>

definition indexer_inv :: "('c) indexer_config_scheme \<Rightarrow> indexer \<Rightarrow> bool" where
  "indexer_inv cfg s \<longleftrightarrow>
     distinct (map as_tokenContract (ix_assets s)) \<and>
     distinct (map ts_tokenContract (ix_states s)) \<and>
     distinct (map (\<lambda>b. (tb_tokenContract b, tb_walletAddress b)) (ix_balances s)) \<and>
     distinct (ix_tracked s) \<and> length (ix_runs s) \<le> 1 \<and> activeRpcIndex s < length (rpcEndpoints cfg)"

lemma map_key_update:
  "(\<And>r. key (f r) = key r) \<Longrightarrow> map key (sql_update P f rows) = map key rows"
  by (simp add: sql_update_def)

lemma distinct_key_insert:
  "distinct (map key rows) \<Longrightarrow> List.find (\<lambda>r. key r = key x) rows = None \<Longrightarrow>
     distinct (map key (sql_insert x rows))"
  by (auto simp: sql_insert_def find_None_iff)

lemma distinct_key_upsert:
  assumes "distinct (map key rows)" and "\<And>r. key (f r) = key r" and "key x = k"
    and "\<And>r. P r \<longleftrightarrow> key r = k"
  shows "distinct (map key (if List.find P rows = None then sql_insert x rows else sql_update P f rows))"
proof -
  have "P = (\<lambda>r. key r = key x)" using assms(3,4) by auto
  with assms(1,2) show ?thesis by (simp add: map_key_update distinct_key_insert)
qed

lemma distinct_js_set: "distinct (js_set xs)"
  by (simp add: js_set_def)

lemma upsert_asset_inv: "indexer_inv cfg s \<Longrightarrow> indexer_inv cfg (fst (upsertAsset tok s))"
  unfolding upsertAsset_def Let_def indexer_inv_def
  by (auto simp: map_key_update update_asset_def new_asset_def intro!: distinct_key_insert split: sum.splits)

lemma upsert_token_state_inv: "indexer_inv cfg s \<Longrightarrow> indexer_inv cfg (upsert_token_state c d n s)"
  unfolding upsert_token_state_def Let_def indexer_inv_def
  using distinct_key_upsert [of ts_tokenContract "ix_states s" "\<lambda>r. r\<lparr> it_decimals := d,
      ts_totalSupply := bigint_toString n \<rparr>" "\<lparr> ts_tokenContract = c, ts_totalSupply = bigint_toString n,
      it_name = [], it_symbol = [], it_decimals = d \<rparr>" c "\<lambda>r. ts_tokenContract r = c"]
  by simp

lemma upsert_balance_inv: "indexer_inv cfg s \<Longrightarrow> indexer_inv cfg (upsert_balance c w v s)"
  unfolding upsert_balance_def Let_def indexer_inv_def
  using distinct_key_upsert [of "\<lambda>b. (tb_tokenContract b, tb_walletAddress b)" "ix_balances s"
      "\<lambda>b. b\<lparr> tb_balance := v \<rparr>" "\<lparr> tb_tokenContract = c, tb_walletAddress = w, tb_balance = v \<rparr>" "(c, w)"
      "\<lambda>b. tb_tokenContract b = c \<and> tb_walletAddress b = w"]
  by simp

lemma small_writes_inv:
  assumes "indexer_inv cfg s"
  shows "indexer_inv cfg (set_issuer c w s)" "indexer_inv cfg (track_wallets ws s)"
    "indexer_inv cfg (updateState H st er s)" "indexer_inv cfg (count_call s)"
    "indexer_inv cfg (switchToNextRpcEndpoint cfg s)"
  using assms
  by (auto simp: indexer_inv_def set_issuer_def map_key_update track_wallets_def distinct_js_set
      updateState_def Let_def count_call_def switchToNextRpcEndpoint_def split: list.splits)

lemma rpc_attempts_inv: "indexer_inv cfg s \<Longrightarrow> indexer_inv cfg (fst (rpc_attempts cfg m op k s))"
proof (induction cfg m op k s rule: rpc_attempts.induct)
  case (2 cfg q op k s)
  then show ?case
    by (subst rpc_attempts.simps) (auto intro: small_writes_inv split: sum.splits)
qed (simp add: rpc_attempts.simps)

lemma keeps_rpc [keeps_intros]: "keeps (indexer_inv cfg) (withRpcRetries cfg op)"
  by (simp add: keeps_def withRpcRetries_def rpc_attempts_inv)

lemma keeps_one_call [keeps_intros]: "keeps (indexer_inv cfg) (one_call op)"
  by (simp add: keeps_def one_call_def small_writes_inv)

lemma keeps_writes [keeps_intros]:
  "keeps (indexer_inv cfg) (upsertAsset tok)"
  "keeps (indexer_inv cfg) (h_modify (upsert_token_state c d n))"
  "keeps (indexer_inv cfg) (h_modify (set_issuer c w))"
  "keeps (indexer_inv cfg) (h_modify (track_wallets ws))"
  "keeps (indexer_inv cfg) (h_modify (upsert_balance c w v))"
  "keeps (indexer_inv cfg) (h_modify (updateState H st er))"
  by (simp add: keeps_def upsert_asset_inv)
    (intro keeps_modify upsert_token_state_inv upsert_balance_inv small_writes_inv; assumption)+

lemma keeps_pair [keeps_intros]:
  "(\<And>x y. keeps I (k x y)) \<Longrightarrow> keeps I (case p of (x, y) \<Rightarrow> k x y)"
  by (cases p) simp

lemma keeps_sum [keeps_intros]:
  "(\<And>e. keeps I (k e)) \<Longrightarrow> (\<And>x. keeps I (l x)) \<Longrightarrow> keeps I (case r of Inl e \<Rightarrow> k e | Inr x \<Rightarrow> l x)"
  by (cases r) simp_all

lemma keeps_metadata [keeps_intros]:
  "keeps (indexer_inv cfg) (rpc_account H cfg k)"
  "keeps (indexer_inv cfg) (readClaimTopics H cfg k)"
  "keeps (indexer_inv cfg) (readTrustedIssuers H cfg k)"
  "keeps (indexer_inv cfg) (readComplianceMetadata H cfg k d)"
  unfolding rpc_account_def readClaimTopics_def readTrustedIssuers_def readFidOwner_def readComplianceMetadata_def
  by (intro keeps_intros)+

lemma keeps_factory_tokens [keeps_intros]: "keeps (indexer_inv cfg) (fetchAllFactoryTokens H cfg)"
  unfolding fetchAllFactoryTokens_def factory_token_def buildIndexedMetadata_def
  by (intro keeps_intros)

lemma keeps_sync_token [keeps_intros]: "keeps (indexer_inv cfg) (syncToken H cfg c)"
  unfolding syncToken_def wallet_balance_def by (intro keeps_intros)

lemma keeps_sync_tokens [keeps_intros]: "keeps (indexer_inv cfg) (sync_tokens H cfg)"
  unfolding sync_tokens_def upsertAssets_def by (intro keeps_intros)

lemma keeps_sync_once: "keeps (indexer_inv cfg) (syncOnce H cfg)"
  unfolding syncOnce_def by (intro keeps_intros)

section \<open>The run row\<close>

lemma updateState_row:
  "indexer_inv cfg s \<Longrightarrow> ix_runs (updateState H st er s) =
     [\<lparr> run_status = st, run_error = er, run_lastRunAt = host_now H (rpcCalls s) \<rparr>]"
  by (cases "ix_runs s") (auto simp: indexer_inv_def updateState_def Let_def)

definition run_outcome :: "indexer_host \<Rightarrow> unit res \<Rightarrow> string \<times> string option" where
  "run_outcome H r = (case r of Inr _ \<Rightarrow> (''IDLE'', None)
     | Inl e \<Rightarrow> (''ERROR'', Some (or_else (Some (failure_text H e)) ''Indexer failed'')))"

lemma sync_tokens_row:
  assumes "indexer_inv cfg s" and "sync_tokens H cfg s = (t, Inr ())"
  shows "map (\<lambda>r. (run_status r, run_error r)) (ix_runs t) = [(''IDLE'', None)]"
proof -
  define m where "m = h_bind (fetchAllFactoryTokens H cfg) (\<lambda>factoryTokens.
     h_bind (upsertAssets factoryTokens) (\<lambda>_.
     h_each (\<lambda>contract. h_catch (syncToken H cfg contract) (\<lambda>e. h_return ()))
       (js_set (tokenContracts cfg @ map ft_contract_address factoryTokens))))"
  have "sync_tokens H cfg = h_bind m (\<lambda>_. h_modify (updateState H ''IDLE'' None))"
    by (simp add: sync_tokens_def m_def h_bind_assoc)
  moreover have "keeps (indexer_inv cfg) m"
    unfolding m_def upsertAssets_def by (intro keeps_intros)
  ultimately show ?thesis
    using assms keepsD [of "indexer_inv cfg" m s] updateState_row [of cfg]
    by (auto simp: h_bind_def h_modify_def split: prod.splits sum.splits)
qed

text \<open>
  C29. A run of the indexer, whatever the node answers or refuses, keeps one asset and one token
  state per contract, one balance per contract and wallet, one tracked wallet per address, one
  run row and an active endpoint within the list; its run row ends IDLE when the run succeeds
  and ERROR when it throws, with the message and the stack of the error, trimmed, or "Indexer
  failed" when that text is empty.
\<close>

theorem a_run_keeps_the_tables:
  assumes "indexer_inv cfg s"
  shows "indexer_inv cfg (fst (syncOnce H cfg s)) \<and>
    map (\<lambda>r. (run_status r, run_error r)) (ix_runs (fst (syncOnce H cfg s))) = [run_outcome H (snd (syncOnce H cfg s))]"
proof
  show "indexer_inv cfg (fst (syncOnce H cfg s))"
    by (rule keepsD [OF keeps_sync_once assms])
  define u where "u = updateState H ''RUNNING'' None s"
  have u: "indexer_inv cfg u" unfolding u_def by (rule small_writes_inv(3) [OF assms])
  obtain t r where t: "sync_tokens H cfg u = (t, r)" by force
  have tinv: "indexer_inv cfg t" using keepsD [OF keeps_sync_tokens u, of H] t by simp
  show "map (\<lambda>r. (run_status r, run_error r)) (ix_runs (fst (syncOnce H cfg s))) =
      [run_outcome H (snd (syncOnce H cfg s))]"
    using sync_tokens_row [OF u, of H t] t updateState_row [OF tinv]
    by (cases r) (simp_all add: syncOnce_def h_bind_def h_modify_def u_def [symmetric] h_catch_def h_throw_def
        run_outcome_def)
qed

theorem a_run_keeps_the_tables_witness:
  "indexer_inv (sample_settings ''Tok'') (fst (syncOnce sample_indexer_host (sample_settings ''Tok'') empty_indexer)) \<and>
   map (\<lambda>r. (run_status r, run_error r))
     (ix_runs (fst (syncOnce sample_indexer_host (sample_settings ''Tok'') empty_indexer))) =
   [run_outcome sample_indexer_host (snd (syncOnce sample_indexer_host (sample_settings ''Tok'') empty_indexer))]"
  by (rule a_run_keeps_the_tables) (simp add: indexer_inv_def empty_indexer_def sample_settings_def)

section \<open>Deployments\<close>

text \<open>The sizes of the accounts the factory program creates.\<close>

definition factory_account_spaces :: "nat list" where
  "factory_account_spaces =
     [8 + 32 * 8 + 8 + 1, 8 + 8 + 8 + 32 + 32 * 11 + 8 + 1, 8 + 32 + 8 + 1 + 8 + 1,
      8 + 8 + 32 * 4 + 2 + 8 * 4 + 1, 8 + 8 + 32 * 6 + 2 + 8 * 2 + 1 + 1, 8 + 8 + 8 + 32 + 32 + 32 + 8 + 1]"

text \<open>What the node promises for a size filter.\<close>

definition honours_data_size :: "indexer_host \<Rightarrow> bool" where
  "honours_data_size H \<longleftrightarrow>
     (\<forall>i n p fs as a k. getProgramAccounts H i n p fs = Inr as \<longrightarrow> a \<in> set as \<longrightarrow> DataSize k \<in> set fs \<longrightarrow>
        length (acc_data a) = k)"

lemma deployment_space:
  "length disc = 8 \<Longrightarrow> list_all (bval_ok C) (token_deployment_layout x) \<Longrightarrow>
     length (disc @ borsh (token_deployment_layout x)) = factory_account_spaces ! 1"
  by (simp add: token_deployment_layout_def key_ok_def factory_account_spaces_def)

lemma rpc_attempts_answer:
  "rpc_attempts cfg m op k u = (v, Inr (Some r)) \<Longrightarrow> \<exists>i n. op i n = Inr r"
proof (induction cfg m op k u rule: rpc_attempts.induct)
  case (2 cfg q op k u)
  then show ?case by (subst (asm) (2) rpc_attempts.simps) (auto split: if_splits sum.splits)
qed (simp add: rpc_attempts.simps)

text \<open>
  C33. Whatever accounts of its own the factory program holds, the indexer finds no deployment:
  it asks for accounts of 345 bytes, and no account of the program has that size (a deployment
  has 417).
\<close>

theorem indexer_finds_no_deployment:
  assumes "honours_data_size H"
    and "\<And>i n fs as a. getProgramAccounts H i n factoryKey fs = Inr as \<Longrightarrow> a \<in> set as \<Longrightarrow>
      length (acc_data a) \<in> set factory_account_spaces"
    and "pk_of_string H (factoryProgram cfg) = Inr factoryKey"
    and "fetchAllFactoryTokens H cfg s = (t, Inr tokens)"
  shows "tokens = []"
proof -
  let ?op = "\<lambda>i n. getProgramAccounts H i n factoryKey [DataSize TOKEN_DEPLOYMENT_SIZE]"
  have none: "as = []" if h: "?op i n = Inr as" for i n as
  proof (rule ccontr)
    assume "as \<noteq> []"
    then obtain a where a: "a \<in> set as" by (cases as) auto
    have "length (acc_data a) = TOKEN_DEPLOYMENT_SIZE"
      using assms(1) h a unfolding honours_data_size_def by fastforce
    then show False
      using assms(2) [OF h a] by (simp add: TOKEN_DEPLOYMENT_SIZE_def factory_account_spaces_def)
  qed
  have some: "r = []" if "rpc_attempts cfg m ?op k u = (v, Inr (Some r))" for m k u v r
    using rpc_attempts_answer [OF that] none by blast
  have empty: "h_collect (factory_token H cfg) r v = (v, Inr [])"
    if "rpc_attempts cfg m ?op k u = (v, Inr (Some r))" for m k u v r
    using some [OF that] by (simp add: h_return_def)
  show ?thesis
    using assms(3,4)
    by (auto simp: fetchAllFactoryTokens_def h_lift_def js_res_def withRpcRetries_def h_bind_def h_return_def
        dest: empty split: prod.splits sum.splits option.splits)
qed

text \<open>A node that holds one deployment of the factory.\<close>

definition deployment_host :: indexer_host where
  "deployment_host = sample_indexer_host\<lparr> getProgramAccounts := (\<lambda>i n p fs.
     Inr (filter (\<lambda>a. list_all (\<lambda>f. case f of DataSize k \<Rightarrow> length (acc_data a) = k | Memcmp k b \<Rightarrow> True) fs)
       [\<lparr> acc_owner = p, acc_data = replicate 8 0 @ borsh (token_deployment_layout sample_deployment) \<rparr>])) \<rparr>"

lemma sample_deployment_length:
  "length (replicate 8 0 @ borsh (token_deployment_layout sample_deployment)) = 417"
  by code_simp

theorem indexer_finds_no_deployment_witness:
  "snd (fetchAllFactoryTokens deployment_host (sample_settings ''Tok'') empty_indexer) = Inr []"
proof -
  have host: "honours_data_size deployment_host"
    by (auto simp: honours_data_size_def deployment_host_def list_all_iff split: if_splits account_filter.splits
        dest!: bspec)
  have space: "length (acc_data a) \<in> set factory_account_spaces"
    if "getProgramAccounts deployment_host i n k fs = Inr as" "a \<in> set as" for i n k fs as a
    using that sample_deployment_length
    by (auto simp: deployment_host_def factory_account_spaces_def split: if_splits)
  have key: "pk_of_string deployment_host (factoryProgram (sample_settings ''Tok'')) = Inr (ascii ''Factory'')"
    by (simp add: deployment_host_def sample_indexer_host_def sample_settings_def)
  obtain t tokens where run: "fetchAllFactoryTokens deployment_host (sample_settings ''Tok'') empty_indexer = (t, Inr tokens)"
    using key sample_deployment_length
    by (auto simp: fetchAllFactoryTokens_def h_bind_def h_lift_def js_res_def withRpcRetries_def rpc_attempts.simps
        sample_settings_def deployment_host_def TOKEN_DEPLOYMENT_SIZE_def h_return_def)
  show ?thesis
    using indexer_finds_no_deployment [OF host space key run] run by simp
qed

end
