(* ===== verification/ComplianceRules.thy ===== *)
theory ComplianceRules
  imports Kyc Handlers "HOL-Library.Multiset"
begin

text \<open>
  Country rules, transfer limits and identity snapshots with their activity log
  (\<open>backend/src/compliance\<close>, \<open>backend/src/identity-snapshots\<close>, \<open>backend/src/activity\<close>): each write is
  followed by a row of the log, and a simulated transfer is judged by the newest rule, the limit of
  the sender and the newest snapshot of the recipient.

  Whether the database client takes the JavaScript \<open>null\<close> for a JSON column is a parameter; where it
  does not, it throws.
\<close>

section \<open>State\<close>

record activity_row =
  al_id :: string
  al_actionType :: string
  al_actorUserId :: "string option"
  al_actorWallet :: "string option"
  al_entityType :: "string option"
  al_entityId :: "string option"
  al_assetId :: "string option"
  al_oldValue :: jsval
  al_newValue :: jsval
  al_reason :: "string option"
  al_txHash :: "string option"
  al_createdAt :: time

record rule_row =
  cr_id :: string
  cr_allowedCountries :: "string list"
  cr_createdAt :: time

record limit_row =
  tl_id :: string
  tl_address :: string
  tl_limit :: "string option"
  tl_updatedAt :: time

record snapshot_row =
  is_id :: string
  is_wallet :: string
  is_claimTopics :: "string list"
  is_verified :: bool
  is_country :: "string option"
  is_createdAt :: time

record rules_db =
  rd_rules :: "rule_row list"
  rd_limits :: "limit_row list"
  rd_snapshots :: "snapshot_row list"
  rd_users :: "user_row list"
  rd_log :: "activity_row list"

section \<open>The activity log\<close>

record activity_entry =
  ae_actionType :: string
  ae_actorUserId :: "string option"
  ae_actorWallet :: "string option"
  ae_entityType :: "string option"
  ae_entityId :: "string option"
  ae_assetId :: "string option"
  ae_oldValue :: jsval
  ae_newValue :: jsval
  ae_reason :: "string option"
  ae_txHash :: "string option"

text \<open>A value that is \<open>undefined\<close> leaves the column null.\<close>

definition json_column :: "bool \<Rightarrow> jsval \<Rightarrow> jsval res" where
  "json_column nulls v =
     (case v of
        JUndefined \<Rightarrow> Inr JNull
      | JNull \<Rightarrow> if nulls then Inr JNull else Inl (DatabaseError ''Argument must not be null'')
      | _ \<Rightarrow> Inr v)"

definition record_activity :: "bool \<Rightarrow> env \<Rightarrow> activity_entry \<Rightarrow> (rules_db, unit) handler" where
  "record_activity nulls E entry =
     h_bind (h_lift (json_column nulls (ae_oldValue entry))) (\<lambda>old.
     h_bind (h_lift (json_column nulls (ae_newValue entry))) (\<lambda>new.
     h_modify (\<lambda>db. db\<lparr> rd_log := sql_insert \<lparr>
       al_id = uuid E 1, al_actionType = ae_actionType entry,
       al_actorUserId = or_null (ae_actorUserId entry), al_actorWallet = or_null (ae_actorWallet entry),
       al_entityType = or_null (ae_entityType entry), al_entityId = or_null (ae_entityId entry),
       al_assetId = or_null (ae_assetId entry), al_oldValue = old, al_newValue = new,
       al_reason = or_null (ae_reason entry), al_txHash = or_null (ae_txHash entry),
       al_createdAt = db_now E \<rparr> (rd_log db) \<rparr>)))"

definition list_activity :: "nat \<Rightarrow> nat \<Rightarrow> rules_db \<Rightarrow> activity_row list" where
  "list_activity limit offset db = page limit offset (sort_key (\<lambda>r. - al_createdAt r) (rd_log db))"

text \<open>The wallet of the user who acts, or null.\<close>

definition actor_wallet :: "string option \<Rightarrow> rules_db \<Rightarrow> string option" where
  "actor_wallet actorUserId db =
     (case or_null actorUserId of
        None \<Rightarrow> None
      | Some i \<Rightarrow>
          (case List.find (\<lambda>u. us_id u = i) (rd_users db) of
             None \<Rightarrow> None | Some u \<Rightarrow> or_null (us_walletAddress u)))"

section \<open>Rules and limits\<close>

definition newest_rule :: "rules_db \<Rightarrow> rule_row option" where
  "newest_rule db = (case sort_key (\<lambda>r. - cr_createdAt r) (rd_rules db) of [] \<Rightarrow> None | r # _ \<Rightarrow> Some r)"

definition getRules :: "rules_db \<Rightarrow> rule_row list" where
  "getRules db = sort_key (\<lambda>r. - cr_createdAt r) (rd_rules db)"

record set_countries =
  sc_allowedCountries :: "string list"
  sc_reason :: string
  sc_txHash :: "string option"

definition countries_json :: "string list \<Rightarrow> jsval" where
  "countries_json cs = JArr (map JStr cs)"

definition setAllowedCountries ::
    "bool \<Rightarrow> env \<Rightarrow> set_countries \<Rightarrow> string option \<Rightarrow> (rules_db, rule_row) handler" where
  "setAllowedCountries nulls E dto actorUserId =
     h_bind (h_read newest_rule) (\<lambda>previous.
     let row = \<lparr> cr_id = uuid E 0, cr_allowedCountries = sc_allowedCountries dto, cr_createdAt = db_now E \<rparr>
     in h_bind (h_modify (\<lambda>db. db\<lparr> rd_rules := sql_insert row (rd_rules db) \<rparr>)) (\<lambda>_.
        h_bind (h_read (actor_wallet actorUserId)) (\<lambda>actorWallet.
        h_bind (record_activity nulls E \<lparr>
          ae_actionType = ''SET_COUNTRY_RESTRICTION'', ae_actorUserId = or_null actorUserId,
          ae_actorWallet = actorWallet, ae_entityType = Some ''compliance_rule'',
          ae_entityId = Some (cr_id row), ae_assetId = None,
          ae_oldValue = (case previous of None \<Rightarrow> JNull | Some p \<Rightarrow> countries_json (cr_allowedCountries p)),
          ae_newValue = countries_json (sc_allowedCountries dto),
          ae_reason = Some (sc_reason dto), ae_txHash = sc_txHash dto \<rparr>) (\<lambda>_.
        h_return row))))"

definition getTransferLimits :: "rules_db \<Rightarrow> limit_row list" where
  "getTransferLimits db = sort_key (\<lambda>r. - tl_updatedAt r) (rd_limits db)"

record set_limit =
  lm_address :: string
  lm_limit :: "string option"
  lm_reason :: string
  lm_txHash :: "string option"

definition limit_of :: "string \<Rightarrow> rules_db \<Rightarrow> limit_row option" where
  "limit_of address db = List.find (\<lambda>r. tl_address r = address) (rd_limits db)"

text \<open>A limit that is \<open>undefined\<close> leaves the stored one.\<close>

definition upsert_limit :: "env \<Rightarrow> string \<Rightarrow> string option \<Rightarrow> rules_db \<Rightarrow> rules_db" where
  "upsert_limit E address limit db = db\<lparr> rd_limits :=
     (if limit_of address db = None
      then sql_insert \<lparr> tl_id = uuid E 0, tl_address = address, tl_limit = limit, tl_updatedAt = db_now E \<rparr>
             (rd_limits db)
      else sql_update (\<lambda>r. tl_address r = address)
             (\<lambda>r. r\<lparr> tl_limit := patch_null limit (tl_limit r), tl_updatedAt := db_now E \<rparr>) (rd_limits db)) \<rparr>"

definition limit_json :: "string option \<Rightarrow> jsval" where
  "limit_json v = (case v of None \<Rightarrow> JNull | Some s \<Rightarrow> JStr s)"

definition setTransferLimit ::
    "bool \<Rightarrow> env \<Rightarrow> set_limit \<Rightarrow> string option \<Rightarrow> (rules_db, limit_row option) handler" where
  "setTransferLimit nulls E dto actorUserId =
     h_bind (h_read (limit_of (lm_address dto))) (\<lambda>previous.
     h_bind (h_modify (upsert_limit E (lm_address dto) (lm_limit dto))) (\<lambda>_.
     h_bind (h_read (limit_of (lm_address dto))) (\<lambda>row.
     h_bind (h_read (actor_wallet actorUserId)) (\<lambda>actorWallet.
     h_bind (record_activity nulls E \<lparr>
       ae_actionType = ''SET_TRANSFER_LIMIT'', ae_actorUserId = or_null actorUserId,
       ae_actorWallet = actorWallet, ae_entityType = Some ''transfer_limit'',
       ae_entityId = map_option tl_id row, ae_assetId = None,
       ae_oldValue = limit_json (or_null (Option.bind previous tl_limit)),
       ae_newValue = limit_json (lm_limit dto),
       ae_reason = Some (lm_reason dto), ae_txHash = lm_txHash dto \<rparr>) (\<lambda>_.
     h_return row)))))"

section \<open>Identity snapshots\<close>

record create_snapshot =
  sn_wallet :: string
  sn_claimTopics :: "string list"
  sn_verified :: bool
  sn_country :: "string option"
  sn_reason :: string
  sn_txHash :: "string option"

definition list_snapshots :: "string option \<Rightarrow> rules_db \<Rightarrow> snapshot_row list" where
  "list_snapshots wallet db =
     sort_key (\<lambda>r. - is_createdAt r)
       (filter (\<lambda>r. query_match wallet (Some (is_wallet r))) (rd_snapshots db))"

definition create_snapshot_row :: "env \<Rightarrow> create_snapshot \<Rightarrow> snapshot_row" where
  "create_snapshot_row E dto = \<lparr> is_id = uuid E 0, is_wallet = sn_wallet dto,
     is_claimTopics = sn_claimTopics dto, is_verified = sn_verified dto,
     is_country = or_null (sn_country dto), is_createdAt = db_now E \<rparr>"

definition create_identity_snapshot ::
    "bool \<Rightarrow> env \<Rightarrow> create_snapshot \<Rightarrow> string option \<Rightarrow> (rules_db, snapshot_row) handler" where
  "create_identity_snapshot nulls E dto actorUserId =
     (let row = create_snapshot_row E dto
      in h_bind (h_modify (\<lambda>db. db\<lparr> rd_snapshots := sql_insert row (rd_snapshots db) \<rparr>)) (\<lambda>_.
         h_bind (h_read (actor_wallet actorUserId)) (\<lambda>actorWallet.
         h_bind (record_activity nulls E \<lparr>
           ae_actionType = ''IDENTITY_SNAPSHOT'', ae_actorUserId = or_null actorUserId,
           ae_actorWallet = actorWallet, ae_entityType = Some ''identity_snapshot'',
           ae_entityId = Some (is_id row), ae_assetId = None, ae_oldValue = JNull,
           ae_newValue = JObj [(''wallet'', JStr (sn_wallet dto)),
             (''claimTopics'', JArr (map JStr (sn_claimTopics dto))),
             (''verified'', JBool (sn_verified dto)),
             (''country'', limit_json (or_null (sn_country dto)))],
           ae_reason = Some (sn_reason dto), ae_txHash = sn_txHash dto \<rparr>) (\<lambda>_.
         h_return row))))"

section \<open>Simulated transfers\<close>

record transfer_payload =
  tp_from :: string
  tp_to :: string
  tp_amount :: "string option"

definition newest_snapshot :: "string \<Rightarrow> rules_db \<Rightarrow> snapshot_row option" where
  "newest_snapshot wallet db =
     (case sort_key (\<lambda>r. - is_createdAt r) (filter (\<lambda>r. is_wallet r = wallet) (rd_snapshots db)) of
        [] \<Rightarrow> None | r # _ \<Rightarrow> Some r)"

definition BigInt_res :: "string \<Rightarrow> int res" where
  "BigInt_res s = (case BigInt s of None \<Rightarrow> Inl (JsError ''Cannot convert to a BigInt'') | Some n \<Rightarrow> Inr n)"

definition limit_verdict :: "int \<Rightarrow> limit_row option \<Rightarrow> bool res" where
  "limit_verdict amount transferLimit =
     (case or_null (Option.bind transferLimit tl_limit) of
        None \<Rightarrow> Inr False
      | Some l \<Rightarrow> (case BigInt_res l of Inl e \<Rightarrow> Inl e | Inr limit \<Rightarrow> Inr (amount > limit)))"

definition simulateTransfer :: "transfer_payload \<Rightarrow> rules_db \<Rightarrow> (bool \<times> string) res" where
  "simulateTransfer payload db =
     (case BigInt_res (or_else (tp_amount payload) ''0'') of Inl e \<Rightarrow> Inl e
      | Inr amount \<Rightarrow>
     (case limit_verdict amount (limit_of (tp_from payload) db) of Inl e \<Rightarrow> Inl e
      | Inr True \<Rightarrow> Inr (False, ''Transfer exceeds limit'')
      | Inr False \<Rightarrow>
     (case newest_snapshot (tp_to payload) db of
        None \<Rightarrow> Inr (False, ''Recipient missing KYC claim'')
      | Some s \<Rightarrow>
          if \<not> is_verified s then Inr (False, ''Recipient missing KYC claim'')
          else
            let countries = (case newest_rule db of None \<Rightarrow> [] | Some r \<Rightarrow> cr_allowedCountries r)
            in (case or_null (is_country s) of
                  Some c \<Rightarrow> if countries \<noteq> [] \<and> c \<notin> set countries
                            then Inr (False, ''Recipient country not allowed'') else Inr (True, ''Allowed'')
                | None \<Rightarrow> if countries \<noteq> [] then Inr (False, ''Recipient missing country info'')
                          else Inr (True, ''Allowed'')))))"

section \<open>The verdict\<close>

lemma BigInt_res_Inr: "BigInt_res s = Inr n \<longleftrightarrow> BigInt s = Some n"
  by (auto simp: BigInt_res_def split: option.splits)

lemma limit_verdict_ok:
  "limit_verdict n row = Inr False \<longleftrightarrow>
     (\<forall>l. Option.bind row tl_limit = Some l \<and> l \<noteq> [] \<longrightarrow> (\<exists>k. BigInt l = Some k \<and> n \<le> k))"
proof (cases "or_null (Option.bind row tl_limit)")
  case None
  then show ?thesis by (auto simp: limit_verdict_def or_null_def truthy_def split: option.splits if_splits)
next
  case (Some l)
  then have "Option.bind row tl_limit = Some l" "l \<noteq> []" by (simp_all add: or_null_eq_Some)
  then show ?thesis
    using Some by (auto simp: limit_verdict_def BigInt_res_def not_less split: option.splits)
qed

lemma simulated_transfer_is_allowed_iff:
  "(\<exists>reason. simulateTransfer p db = Inr (True, reason)) \<longleftrightarrow>
     (\<exists>amount s. BigInt (or_else (tp_amount p) ''0'') = Some amount \<and>
        (\<forall>l. Option.bind (limit_of (tp_from p) db) tl_limit = Some l \<and> l \<noteq> [] \<longrightarrow>
           (\<exists>k. BigInt l = Some k \<and> amount \<le> k)) \<and>
        newest_snapshot (tp_to p) db = Some s \<and> is_verified s \<and>
        (\<forall>r. newest_rule db = Some r \<and> cr_allowedCountries r \<noteq> [] \<longrightarrow>
           (\<exists>c \<in> set (cr_allowedCountries r). c \<noteq> [] \<and> is_country s = Some c)))"
proof (cases "BigInt (or_else (tp_amount p) ''0'')")
  case None
  then show ?thesis by (simp add: simulateTransfer_def BigInt_res_def)
next
  case (Some n)
  note n = this
  show ?thesis
  proof (cases "limit_verdict n (limit_of (tp_from p) db)")
    case (Inr over)
    show ?thesis
    proof (cases over)
      case True
      then show ?thesis
        using n Inr limit_verdict_ok [of n "limit_of (tp_from p) db"] by (simp add: simulateTransfer_def BigInt_res_def)
    next
      case False
      define cs where "cs = (case newest_rule db of None \<Rightarrow> [] | Some r \<Rightarrow> cr_allowedCountries r)"
      have rule: "(\<forall>r. newest_rule db = Some r \<and> cr_allowedCountries r \<noteq> [] \<longrightarrow>
           (\<exists>c \<in> set (cr_allowedCountries r). c \<noteq> [] \<and> is_country s = Some c)) \<longleftrightarrow>
           cs = [] \<or> (\<exists>c \<in> set cs. or_null (is_country s) = Some c)" for s
        by (auto simp: cs_def or_null_eq_Some split: option.splits)
      show ?thesis
        unfolding rule
        using n Inr False limit_verdict_ok [of n "limit_of (tp_from p) db"]
        by (auto simp: simulateTransfer_def BigInt_res_def Let_def cs_def [symmetric] split: option.splits)
    qed
  next
    case (Inl e)
    then show ?thesis
      using n limit_verdict_ok [of n "limit_of (tp_from p) db"] by (simp add: simulateTransfer_def BigInt_res_def)
  qed
qed

section \<open>The log of country rules\<close>

definition logged_value :: "jsval \<Rightarrow> jsval" where
  "logged_value v = (if v = JUndefined then JNull else v)"

definition activity_of :: "env \<Rightarrow> activity_entry \<Rightarrow> activity_row" where
  "activity_of E entry = \<lparr> al_id = uuid E 1, al_actionType = ae_actionType entry,
     al_actorUserId = or_null (ae_actorUserId entry), al_actorWallet = or_null (ae_actorWallet entry),
     al_entityType = or_null (ae_entityType entry), al_entityId = or_null (ae_entityId entry),
     al_assetId = or_null (ae_assetId entry), al_oldValue = logged_value (ae_oldValue entry),
     al_newValue = logged_value (ae_newValue entry), al_reason = or_null (ae_reason entry),
     al_txHash = or_null (ae_txHash entry), al_createdAt = db_now E \<rparr>"

lemma record_activity_ok:
  "record_activity True E entry db = (db\<lparr> rd_log := sql_insert (activity_of E entry) (rd_log db) \<rparr>, Inr ())"
proof -
  have "json_column True v = Inr (logged_value v)" for v
    by (cases v) (simp_all add: json_column_def logged_value_def)
  then show ?thesis
    by (simp add: record_activity_def activity_of_def h_bind_def h_lift_def h_modify_def)
qed

inductive rules_step :: "rules_db \<Rightarrow> rules_db \<Rightarrow> bool" where
  countries: "uuid E 0 \<noteq> [] \<Longrightarrow> (\<And>r. r \<in> set (rd_rules db) \<Longrightarrow> cr_createdAt r < db_now E) \<Longrightarrow>
    rules_step db (fst (setAllowedCountries True E d a db))"
| limit: "rules_step db (fst (setTransferLimit True E l a db))"
| snapshot: "rules_step db (fst (create_identity_snapshot True E s a db))"

definition country_log :: "rules_db \<Rightarrow> activity_row list" where
  "country_log db = filter (\<lambda>r. al_actionType r = ''SET_COUNTRY_RESTRICTION'') (rd_log db)"

definition rules_inv :: "rules_db \<Rightarrow> bool" where
  "rules_inv db \<longleftrightarrow>
     sorted_wrt (<) (map cr_createdAt (rd_rules db)) \<and>
     map al_entityId (country_log db) = map (\<lambda>r. Some (cr_id r)) (rd_rules db) \<and>
     map al_newValue (country_log db) = map (\<lambda>r. countries_json (cr_allowedCountries r)) (rd_rules db) \<and>
     JNull # map al_newValue (country_log db) =
       map al_oldValue (country_log db) @
       [case newest_rule db of None \<Rightarrow> JNull | Some r \<Rightarrow> countries_json (cr_allowedCountries r)]"

lemma sort_newest_first:
  fixes f :: "'r \<Rightarrow> int"
  assumes "sorted_wrt (<) (map f xs)"
  shows "sort_key (\<lambda>r. - f r) xs = rev xs"
proof (rule sort_key_inj_key_eq)
  show "mset xs = mset (rev xs)" by simp
  have "distinct (map f xs)" using assms by (simp add: strict_sorted_iff)
  then show "inj_on (\<lambda>r. - f r) (set xs)" by (auto simp: distinct_map inj_on_def)
  have "sorted (map f xs)" using assms by (rule strict_sorted_imp_sorted)
  then show "sorted (map (\<lambda>r. - f r) (rev xs))"
    by (induction xs) (auto simp: sorted_append)
qed

lemma newest_rule_last:
  "sorted_wrt (<) (map cr_createdAt (rd_rules db)) \<Longrightarrow>
     newest_rule db = (if rd_rules db = [] then None else Some (last (rd_rules db)))"
  using sort_newest_first [of cr_createdAt "rd_rules db"]
  by (simp add: newest_rule_def rev_is_Nil_conv last_rev [symmetric] split: list.splits)

lemma countries_effect:
  "\<exists>l. rd_log (fst (setAllowedCountries True E d a db)) = rd_log db @ [l] \<and>
     al_actionType l = ''SET_COUNTRY_RESTRICTION'' \<and> al_entityId l = or_null (Some (uuid E 0)) \<and>
     al_oldValue l = (case newest_rule db of None \<Rightarrow> JNull | Some p \<Rightarrow> countries_json (cr_allowedCountries p)) \<and>
     al_newValue l = countries_json (sc_allowedCountries d)"
  "rd_rules (fst (setAllowedCountries True E d a db)) = rd_rules db @
     [\<lparr> cr_id = uuid E 0, cr_allowedCountries = sc_allowedCountries d, cr_createdAt = db_now E \<rparr>]"
  by (simp_all add: setAllowedCountries_def record_activity_ok h_bind_def h_read_def h_modify_def h_return_def
      Let_def activity_of_def logged_value_def countries_json_def sql_insert_def split: option.splits)

lemma other_effects:
  "rd_rules (fst (setTransferLimit True E l a db)) = rd_rules db"
  "country_log (fst (setTransferLimit True E l a db)) = country_log db"
  "rd_rules (fst (create_identity_snapshot True E s a db)) = rd_rules db"
  "country_log (fst (create_identity_snapshot True E s a db)) = country_log db"
  by (simp_all add: setTransferLimit_def create_identity_snapshot_def record_activity_ok h_bind_def h_read_def
      h_modify_def h_return_def Let_def country_log_def activity_of_def upsert_limit_def sql_insert_def)

lemma rules_inv_cong:
  assumes "rd_rules db' = rd_rules db" and "country_log db' = country_log db" and "rules_inv db"
  shows "rules_inv db'"
  using assms(3) unfolding rules_inv_def newest_rule_def assms(1,2) .

lemma rules_step_inv: "rules_step db db' \<Longrightarrow> rules_inv db \<Longrightarrow> rules_inv db'"
proof (induction rule: rules_step.induct)
  case (countries E db d a)
  let ?db = "fst (setAllowedCountries True E d a db)"
  obtain l where l: "rd_log ?db = rd_log db @ [l]" "al_actionType l = ''SET_COUNTRY_RESTRICTION''"
    "al_entityId l = or_null (Some (uuid E 0))" "al_newValue l = countries_json (sc_allowedCountries d)"
    "al_oldValue l = (case newest_rule db of None \<Rightarrow> JNull | Some p \<Rightarrow> countries_json (cr_allowedCountries p))"
    using countries_effect(1) [of E d a db] by blast
  have rules: "rd_rules ?db = rd_rules db @
      [\<lparr> cr_id = uuid E 0, cr_allowedCountries = sc_allowedCountries d, cr_createdAt = db_now E \<rparr>]"
    by (rule countries_effect(2))
  have inv: "sorted_wrt (<) (map cr_createdAt (rd_rules db))"
    "map al_entityId (country_log db) = map (\<lambda>r. Some (cr_id r)) (rd_rules db)"
    "map al_newValue (country_log db) = map (\<lambda>r. countries_json (cr_allowedCountries r)) (rd_rules db)"
    "JNull # map al_newValue (country_log db) = map al_oldValue (country_log db) @ [al_oldValue l]"
    using countries.prems unfolding rules_inv_def l(5) by blast+
  have sorted: "sorted_wrt (<) (map cr_createdAt (rd_rules ?db))"
    using inv(1) countries.hyps by (simp add: rules sorted_wrt_append)
  have log: "country_log ?db = country_log db @ [l]" using l by (simp add: country_log_def)
  have newest: "newest_rule ?db = Some (last (rd_rules ?db))"
    using newest_rule_last [OF sorted] by (simp add: rules)
  have "JNull # map al_newValue (country_log ?db) = map al_oldValue (country_log ?db) @
      [countries_json (sc_allowedCountries d)]"
    using inv(4) by (simp add: log l(4))
  then show ?case
    unfolding rules_inv_def using sorted inv(2,3) countries.hyps l(3,4)
    by (simp add: newest rules log or_null_def truthy_def)
next
  case (limit db E l a)
  then show ?case by (rule rules_inv_cong [OF other_effects(1,2)])
next
  case (snapshot db E s a)
  then show ?case by (rule rules_inv_cong [OF other_effects(3,4)])
qed

lemma country_rules_are_logged_in_a_chain:
  assumes "rules_step\<^sup>*\<^sup>* db db'" and "rules_inv db"
  shows "map al_entityId (country_log db') = map (\<lambda>r. Some (cr_id r)) (rd_rules db') \<and>
    map al_newValue (country_log db') = map (\<lambda>r. countries_json (cr_allowedCountries r)) (rd_rules db') \<and>
    (\<forall>i. Suc i < length (country_log db') \<longrightarrow>
       al_oldValue (country_log db' ! Suc i) = al_newValue (country_log db' ! i)) \<and>
    (rd_rules db' \<noteq> [] \<longrightarrow> newest_rule db' = Some (last (rd_rules db')))"
proof -
  have inv: "rules_inv db'" using assms by induction (auto dest: rules_step_inv)
  have chain: "al_oldValue (country_log db' ! Suc i) = al_newValue (country_log db' ! i)"
    if "Suc i < length (country_log db')" for i
  proof -
    let ?v = "[case newest_rule db' of None \<Rightarrow> JNull | Some r \<Rightarrow> countries_json (cr_allowedCountries r)]"
    have "JNull # map al_newValue (country_log db') = map al_oldValue (country_log db') @ ?v"
      using inv unfolding rules_inv_def by (elim conjE)
    then have "(JNull # map al_newValue (country_log db')) ! Suc i = (map al_oldValue (country_log db') @ ?v) ! Suc i"
      by (rule arg_cong)
    then show ?thesis using that by (simp add: nth_append)
  qed
  show ?thesis
    using inv chain newest_rule_last [of db'] by (simp add: rules_inv_def)
qed

section \<open>Limits\<close>

lemma clearing_a_limit_is_logged_and_not_done:
  assumes "limit_of (lm_address d) db = Some row" and "lm_limit d = None"
  shows "\<exists>row'. snd (setTransferLimit True E d a db) = Inr (Some row') \<and> tl_limit row' = tl_limit row \<and>
    limit_of (lm_address d) (fst (setTransferLimit True E d a db)) = Some row' \<and>
    (\<exists>l. rd_log (fst (setTransferLimit True E d a db)) = rd_log db @ [l] \<and>
       al_actionType l = ''SET_TRANSFER_LIMIT'' \<and> al_newValue l = JNull)"
proof -
  let ?row = "row\<lparr> tl_updatedAt := db_now E \<rparr>"
  have key: "tl_address row = lm_address d" using assms(1) by (auto simp: limit_of_def dest: find_Some_memD)
  have "List.find (\<lambda>r. tl_address r = lm_address d) (sql_update (\<lambda>r. tl_address r = lm_address d)
      (\<lambda>r. r\<lparr> tl_limit := patch_null None (tl_limit r), tl_updatedAt := db_now E \<rparr>) rows) = Some ?row"
    if "List.find (\<lambda>r. tl_address r = lm_address d) rows = Some row" for rows
    using that by (induction rows) (auto simp: sql_update_def patch_null_def split: if_splits)
  then have found: "limit_of (lm_address d) (upsert_limit E (lm_address d) None db) = Some ?row"
    using assms(1) by (simp add: limit_of_def upsert_limit_def)
  moreover have "limit_of k (x\<lparr> rd_log := y \<rparr>) = limit_of k x" for k x y by (simp add: limit_of_def)
  moreover have "rd_log (upsert_limit E k v x) = rd_log x" for k v x by (simp add: upsert_limit_def)
  ultimately show ?thesis
    by (simp add: setTransferLimit_def assms record_activity_ok h_bind_def h_read_def h_modify_def h_return_def
        sql_insert_def activity_of_def logged_value_def limit_json_def)
qed

section \<open>An instance\<close>

definition rules0 :: rules_db where
  "rules0 = \<lparr> rd_rules = [], rd_limits = [\<lparr> tl_id = ''l'', tl_address = ''A'', tl_limit = Some ''100'', tl_updatedAt = 0 \<rparr>],
     rd_snapshots = [\<lparr> is_id = ''s'', is_wallet = ''B'', is_claimTopics = [''1''], is_verified = True,
       is_country = Some ''PK'', is_createdAt = 0 \<rparr>], rd_users = [], rd_log = [] \<rparr>"

definition rules_env :: "int \<Rightarrow> env" where
  "rules_env n = (sample_env ''r'')\<lparr> js_now := n, db_now := n \<rparr>"

definition rules1 :: rules_db where
  "rules1 = fst (setAllowedCountries True (rules_env 1)
     \<lparr> sc_allowedCountries = [''PK''], sc_reason = ''first'', sc_txHash = None \<rparr> None rules0)"

definition rules2 :: rules_db where
  "rules2 = fst (setAllowedCountries True (rules_env 2)
     \<lparr> sc_allowedCountries = [''PK'', ''AE''], sc_reason = ''second'', sc_txHash = None \<rparr> None rules1)"

lemma rules2_reachable: "rules_step\<^sup>*\<^sup>* rules0 rules2"
proof -
  have "rules_step rules0 rules1"
    unfolding rules1_def by (rule rules_step.countries) (simp_all add: rules0_def rules_env_def sample_env_def)
  moreover have "rules_step rules1 rules2"
    unfolding rules2_def
  proof (rule rules_step.countries)
    show "uuid (rules_env 2) 0 \<noteq> []" by (simp add: rules_env_def sample_env_def)
    have "list_all (\<lambda>r. cr_createdAt r < db_now (rules_env 2)) (rd_rules rules1)" by code_simp
    then show "cr_createdAt r < db_now (rules_env 2)" if "r \<in> set (rd_rules rules1)" for r
      using that by (simp add: list_all_iff)
  qed
  ultimately show ?thesis by simp
qed

lemma rules0_inv: "rules_inv rules0"
  by (simp add: rules_inv_def rules0_def country_log_def newest_rule_def)

lemma country_rules_are_logged_in_a_chain_witness:
  "al_oldValue (country_log rules2 ! 1) = al_newValue (country_log rules2 ! 0) \<and> length (country_log rules2) = 2"
proof -
  have two: "length (country_log rules2) = 2" by code_simp
  then have "Suc 0 < length (country_log rules2)" by simp
  with country_rules_are_logged_in_a_chain [OF rules2_reachable rules0_inv]
  have "al_oldValue (country_log rules2 ! Suc 0) = al_newValue (country_log rules2 ! 0)" by blast
  with two show ?thesis by simp
qed

lemma simulated_transfer_is_allowed_iff_witness:
  "\<exists>reason. simulateTransfer \<lparr> tp_from = ''A'', tp_to = ''B'', tp_amount = Some ''100'' \<rparr> rules2 = Inr (True, reason)"
proof -
  let ?p = "\<lparr> tp_from = ''A'', tp_to = ''B'', tp_amount = Some ''100'' \<rparr>"
  let ?s = "\<lparr> is_id = ''s'', is_wallet = ''B'', is_claimTopics = [''1''], is_verified = True,
       is_country = Some ''PK'', is_createdAt = 0 \<rparr>"
  have "BigInt (or_else (tp_amount ?p) ''0'') = Some 100" "BigInt ''100'' = Some 100"
    "Option.bind (limit_of (tp_from ?p) rules2) tl_limit = Some ''100''"
    "newest_snapshot (tp_to ?p) rules2 = Some ?s" "is_verified ?s"
    "newest_rule rules2 = Some \<lparr> cr_id = ''r0'', cr_allowedCountries = [''PK'', ''AE''], cr_createdAt = 2 \<rparr>"
    by code_simp+
  then show ?thesis
    unfolding simulated_transfer_is_allowed_iff
    by (intro exI [of _ 100] exI [of _ ?s]) simp
qed

lemma clearing_a_limit_is_logged_and_not_done_witness:
  "\<exists>row'. limit_of ''A'' (fst (setTransferLimit True (rules_env 3)
     \<lparr> lm_address = ''A'', lm_limit = None, lm_reason = ''clear'', lm_txHash = None \<rparr> None rules0)) = Some row' \<and>
     tl_limit row' = Some ''100''"
proof -
  let ?d = "\<lparr> lm_address = ''A'', lm_limit = None, lm_reason = ''clear'', lm_txHash = None \<rparr>"
  have "limit_of (lm_address ?d) rules0 = Some \<lparr> tl_id = ''l'', tl_address = ''A'', tl_limit = Some ''100'', tl_updatedAt = 0 \<rparr>"
    by (simp add: limit_of_def rules0_def)
  from clearing_a_limit_is_logged_and_not_done [OF this, of "rules_env 3" None] show ?thesis by auto
qed

end
