(* ===== verification/AssetRegistry.thy ===== *)
theory AssetRegistry
  imports ComplianceRules Bytes
begin

text \<open>
  Trusted issuers, asset requests and assets (\<open>backend/src/trusted-issuers\<close>,
  \<open>backend/src/asset-requests\<close>, \<open>backend/src/assets\<close>). An optional field of a body is a value or
  \<open>undefined\<close>.
\<close>

section \<open>Trusted issuers\<close>

record issuer_row =
  ti_id :: string
  ti_walletAddress :: string
  ti_authorityName :: string
  ti_kycAuthorized :: bool
  ti_amlAuthorized :: bool
  ti_createdAt :: time

record create_issuer =
  ci_walletAddress :: string
  ci_authorityName :: string
  ci_kycAuthorized :: bool
  ci_amlAuthorized :: bool

definition normalizeIssuerWallet :: "('x) chain_scheme \<Rightarrow> string \<Rightarrow> string res" where
  "normalizeIssuerWallet C v =
     (case pk_of_string C (trim v) of
        Inl e \<Rightarrow> Inl (ConflictException ''Issuer wallet address must be a valid Solana wallet address.'')
      | Inr k \<Rightarrow> Inr (toBase58 C k))"

text \<open>The order of the names is the collation of the database.\<close>

definition findAll_issuers :: "(string \<Rightarrow> nat) \<Rightarrow> issuer_row list \<Rightarrow> issuer_row list" where
  "findAll_issuers collation rows =
     sort_key (\<lambda>r. collation (ti_authorityName r)) (sort_key ti_createdAt rows)"

definition create_trusted_issuer ::
    "('x) chain_scheme \<Rightarrow> env \<Rightarrow> create_issuer \<Rightarrow> (issuer_row list, issuer_row) handler" where
  "create_trusted_issuer C E dto rows =
     (if \<not> ci_kycAuthorized dto \<and> \<not> ci_amlAuthorized dto
      then (rows, Inl (ConflictException ''Authorize the trusted issuer for KYC, AML, or both.''))
      else case normalizeIssuerWallet C (ci_walletAddress dto) of
        Inl e \<Rightarrow> (rows, Inl e)
      | Inr walletAddress \<Rightarrow>
          let authorityName = trim (ci_authorityName dto)
          in if authorityName = [] then (rows, Inl (ConflictException ''Issuer authority name is required.''))
             else if List.find (\<lambda>r. ti_walletAddress r = walletAddress) rows \<noteq> None
             then (rows, Inl (ConflictException ''A trusted issuer with this wallet address already exists.''))
             else
               let row = \<lparr> ti_id = uuid E 0, ti_walletAddress = walletAddress,
                     ti_authorityName = authorityName, ti_kycAuthorized = ci_kycAuthorized dto,
                     ti_amlAuthorized = ci_amlAuthorized dto, ti_createdAt = db_now E \<rparr>
               in (sql_insert row rows, Inr row))"

definition remove_trusted_issuer :: "string \<Rightarrow> (issuer_row list, issuer_row) handler" where
  "remove_trusted_issuer i rows =
     (case List.find (\<lambda>r. ti_id r = i) rows of
        None \<Rightarrow> (rows, Inl (NotFoundException ''Trusted issuer not found.''))
      | Some r \<Rightarrow> (sql_delete (\<lambda>r. ti_id r = i) rows, Inr r))"

section \<open>Asset requests\<close>

definition ASSET_REQUEST_STATUSES :: "string list" where
  "ASSET_REQUEST_STATUSES = [''PENDING_REVIEW'', ''APPROVED'', ''REJECTED'', ''DEPLOYED'', ''CANCELED'']"

record asset_request_row =
  aq_id :: string
  aq_status :: string
  aq_issuerWallet :: string
  aq_legalOwner :: "string option"
  aq_referenceId :: "string option"
  aq_name :: string
  aq_symbol :: string
  aq_description :: "string option"
  aq_assetType :: string
  aq_currency :: string
  aq_location :: "string option"
  aq_underlyingValue :: "jsnum option"
  aq_totalSupply :: "jsnum option"
  aq_decimals :: "jsnum option"
  aq_initialPrice :: "jsnum option"
  aq_claimTopics :: "string list"
  aq_trustedIssuers :: jsval
  aq_complianceModules :: "string list"
  aq_documents :: jsval
  aq_metadata :: jsval
  aq_reviewedAt :: "time option"
  aq_reviewedBy :: "string option"
  aq_rejectionReason :: "string option"
  aq_deployedAssetId :: "string option"
  aq_txHash :: "string option"
  aq_createdAt :: time

record create_asset_request =
  cq_issuerWallet :: string
  cq_legalOwner :: "string option"
  cq_referenceId :: "string option"
  cq_name :: string
  cq_symbol :: string
  cq_description :: "string option"
  cq_assetType :: string
  cq_currency :: string
  cq_location :: "string option"
  cq_underlyingValue :: "jsnum option"
  cq_totalSupply :: "jsnum option"
  cq_decimals :: "jsnum option"
  cq_initialPrice :: "jsnum option"
  cq_claimTopics :: "string list option"
  cq_complianceModules :: "string list option"
  cq_trustedIssuers :: jsval
  cq_documents :: jsval
  cq_metadata :: jsval

record update_asset_request =
  uq_status :: string
  uq_reviewedBy :: "string option"
  uq_rejectionReason :: "string option"
  uq_deployedAssetId :: "string option"
  uq_txHash :: "string option"

definition findAll_asset_requests :: "string option \<Rightarrow> asset_request_row list \<Rightarrow> asset_request_row list" where
  "findAll_asset_requests status rows =
     sort_key (\<lambda>r. - aq_createdAt r) (filter (\<lambda>r. query_match status (Some (aq_status r))) rows)"

definition findOne_asset_request :: "string \<Rightarrow> asset_request_row list \<Rightarrow> asset_request_row res" where
  "findOne_asset_request i rows =
     (case List.find (\<lambda>r. aq_id r = i) rows of
        None \<Rightarrow> Inl (NotFoundException ''Asset request not found'')
      | Some r \<Rightarrow> Inr r)"

definition int_columns :: "jsnum option list \<Rightarrow> unit res" where
  "int_columns vs = foldr (\<lambda>v r. case map_option int_column v of Some (Inl e) \<Rightarrow> Inl e | _ \<Rightarrow> r) vs (Inr ())"

definition new_asset_request ::
    "env \<Rightarrow> create_asset_request \<Rightarrow> jsval \<Rightarrow> jsval \<Rightarrow> jsval \<Rightarrow> asset_request_row" where
  "new_asset_request E dto trustedIssuers documents metadata = \<lparr>
     aq_id = uuid E 0, aq_status = ''PENDING_REVIEW'', aq_issuerWallet = cq_issuerWallet dto,
     aq_legalOwner = Some (or_else (cq_legalOwner dto) (cq_issuerWallet dto)),
     aq_referenceId = cq_referenceId dto, aq_name = cq_name dto, aq_symbol = toUpperCase (cq_symbol dto),
     aq_description = cq_description dto, aq_assetType = cq_assetType dto, aq_currency = cq_currency dto,
     aq_location = cq_location dto, aq_underlyingValue = cq_underlyingValue dto,
     aq_totalSupply = cq_totalSupply dto,
     aq_decimals = (case cq_decimals dto of None \<Rightarrow> Some (Fin 6) | Some d \<Rightarrow> Some d),
     aq_initialPrice = cq_initialPrice dto,
     aq_claimTopics = (case cq_claimTopics dto of None \<Rightarrow> [] | Some ts \<Rightarrow> ts),
     aq_trustedIssuers = trustedIssuers,
     aq_complianceModules = (case cq_complianceModules dto of None \<Rightarrow> [] | Some ms \<Rightarrow> ms),
     aq_documents = documents, aq_metadata = metadata, aq_reviewedAt = None, aq_reviewedBy = None,
     aq_rejectionReason = None, aq_deployedAssetId = None, aq_txHash = None, aq_createdAt = db_now E \<rparr>"

definition create_asset_req ::
    "bool \<Rightarrow> env \<Rightarrow> create_asset_request \<Rightarrow> (asset_request_row list, asset_request_row) handler" where
  "create_asset_req nulls E dto =
     h_bind (h_lift (int_columns [cq_totalSupply dto, cq_decimals dto])) (\<lambda>_.
     h_bind (h_lift (json_column nulls (cq_trustedIssuers dto))) (\<lambda>trustedIssuers.
     h_bind (h_lift (json_column nulls (cq_documents dto))) (\<lambda>documents.
     h_bind (h_lift (json_column nulls (cq_metadata dto))) (\<lambda>metadata.
     let row = new_asset_request E dto trustedIssuers documents metadata
     in h_bind (h_modify (sql_insert row)) (\<lambda>_. h_return row)))))"

definition reviewed_request ::
    "env \<times> update_asset_request \<Rightarrow> asset_request_row \<Rightarrow> asset_request_row" where
  "reviewed_request p r =
     (case p of (E, dto) \<Rightarrow> r\<lparr>
       aq_status := uq_status dto,
       aq_reviewedAt := (if uq_status dto = ''PENDING_REVIEW'' then None else Some (js_now E)),
       aq_reviewedBy := patch_null (uq_reviewedBy dto) (aq_reviewedBy r),
       aq_rejectionReason := (if uq_status dto = ''REJECTED'' then or_null (uq_rejectionReason dto) else None),
       aq_deployedAssetId := patch_null (uq_deployedAssetId dto) (aq_deployedAssetId r),
       aq_txHash := patch_null (uq_txHash dto) (aq_txHash r) \<rparr>)"

definition updateStatus_asset_request ::
    "env \<Rightarrow> string \<Rightarrow> update_asset_request \<Rightarrow> (asset_request_row list, asset_request_row) handler" where
  "updateStatus_asset_request E i dto rows =
     (if uq_status dto \<notin> set ASSET_REQUEST_STATUSES
      then (rows, Inl (BadRequestException ''Invalid asset request status''))
      else case findOne_asset_request i rows of
        Inl e \<Rightarrow> (rows, Inl e)
      | Inr r \<Rightarrow> (sql_update (\<lambda>r. aq_id r = i) (reviewed_request (E, dto)) rows,
                  Inr (reviewed_request (E, dto) r)))"

section \<open>Assets\<close>

record asset_table_row =
  at_id :: string
  at_factoryAssetId :: "jsnum option"
  at_tokenContract :: string
  at_referenceId :: "string option"
  at_name :: string
  at_symbol :: string
  at_description :: "string option"
  at_issuerWallet :: "string option"
  at_legalOwner :: "string option"
  at_metadata :: jsval
  at_deployedAt :: "time option"
  at_lifecycleState :: string
  at_createdAt :: time

record assets_db =
  ad_assets :: "asset_table_row list"
  ad_ledger :: ledger

record create_asset =
  ca_factoryAssetId :: "jsnum option"
  ca_tokenContract :: string
  ca_name :: string
  ca_symbol :: string
  ca_referenceId :: "string option"
  ca_description :: "string option"
  ca_issuerWallet :: "string option"
  ca_legalOwner :: "string option"
  ca_deployedAt :: "string option"
  ca_lifecycleState :: "string option"
  ca_metadata :: jsval

record update_asset_dto =
  ua_factoryAssetId :: "jsnum option"
  ua_tokenContract :: "string option"
  ua_name :: "string option"
  ua_symbol :: "string option"
  ua_referenceId :: "string option"
  ua_description :: "string option"
  ua_issuerWallet :: "string option"
  ua_legalOwner :: "string option"
  ua_deployedAt :: "string option"
  ua_lifecycleState :: "string option"
  ua_metadata :: jsval

text \<open>The database client: whether a JSON column takes \<open>null\<close>, and its reading of a date in text.\<close>

record db_client =
  json_nulls :: bool
  client_date :: "string \<Rightarrow> time option"

definition starts_with :: "string \<Rightarrow> string \<Rightarrow> bool" where
  "starts_with p s \<longleftrightarrow> take (length p) s = p"

definition findAll_assets :: "assets_db \<Rightarrow> asset_table_row list" where
  "findAll_assets db =
     sort_key (\<lambda>r. - at_createdAt r)
       (filter (\<lambda>r. at_lifecycleState r = ''PENDING_APPROVAL'' \<or> \<not> starts_with ''zig1'' (at_tokenContract r))
         (ad_assets db))"

text \<open>The contract is a unique column.\<close>

definition insert_asset :: "asset_table_row \<Rightarrow> (assets_db, unit) handler" where
  "insert_asset row db =
     (if at_tokenContract row \<in> at_tokenContract ` set (ad_assets db)
      then (db, Inl (DatabaseError ''Unique constraint failed''))
      else (db\<lparr> ad_assets := sql_insert row (ad_assets db) \<rparr>, Inr ()))"

definition asset_of_dto :: "env \<Rightarrow> create_asset \<Rightarrow> jsval \<Rightarrow> time option \<Rightarrow> string \<Rightarrow> asset_table_row" where
  "asset_of_dto E dto metadata deployedAt lifecycleState = \<lparr>
     at_id = uuid E 0, at_factoryAssetId = ca_factoryAssetId dto, at_tokenContract = ca_tokenContract dto,
     at_referenceId = ca_referenceId dto, at_name = ca_name dto, at_symbol = ca_symbol dto,
     at_description = ca_description dto, at_issuerWallet = ca_issuerWallet dto,
     at_legalOwner = ca_legalOwner dto, at_metadata = metadata, at_deployedAt = deployedAt,
     at_lifecycleState = lifecycleState, at_createdAt = db_now E \<rparr>"

definition create_asset_row :: "db_client \<Rightarrow> env \<Rightarrow> create_asset \<Rightarrow> (assets_db, asset_table_row) handler" where
  "create_asset_row D E dto =
     h_bind (h_lift (int_columns [ca_factoryAssetId dto])) (\<lambda>_.
     h_bind (h_lift (json_column (json_nulls D) (ca_metadata dto))) (\<lambda>metadata.
     h_bind (h_lift (case ca_deployedAt dto of
         None \<Rightarrow> Inr None
       | Some t \<Rightarrow> (case client_date D t of
             None \<Rightarrow> Inl (DatabaseError ''Invalid value for argument deployedAt'') | Some d \<Rightarrow> Inr (Some d)))) (\<lambda>deployedAt.
     let row = asset_of_dto E dto metadata deployedAt
           (case ca_lifecycleState dto of None \<Rightarrow> ''ISSUED'' | Some l \<Rightarrow> l)
     in h_bind (insert_asset row) (\<lambda>_. h_return row))))"

text \<open>\<open>t ? new Date(t) : new Date()\<close>\<close>

definition date_or_now :: "env \<Rightarrow> string option \<Rightarrow> time res" where
  "date_or_now E t =
     (case or_null t of
        None \<Rightarrow> Inr (js_now E)
      | Some s \<Rightarrow> (case js_date E s of None \<Rightarrow> Inl (DatabaseError ''Invalid Date'') | Some d \<Rightarrow> Inr d))"

text \<open>The update of a deployed asset: a field that is \<open>undefined\<close> leaves the column.\<close>

definition redeployed :: "create_asset \<times> jsval option \<times> time \<Rightarrow> asset_table_row \<Rightarrow> asset_table_row" where
  "redeployed p r =
     (case p of (dto, metadata, deployedAt) \<Rightarrow> r\<lparr>
       at_factoryAssetId := patch_null (ca_factoryAssetId dto) (at_factoryAssetId r),
       at_referenceId := patch_null (ca_referenceId dto) (at_referenceId r),
       at_name := ca_name dto, at_symbol := ca_symbol dto,
       at_description := patch_null (ca_description dto) (at_description r),
       at_issuerWallet := patch_null (ca_issuerWallet dto) (at_issuerWallet r),
       at_legalOwner := patch_null (ca_legalOwner dto) (at_legalOwner r),
       at_deployedAt := Some deployedAt,
       at_lifecycleState := or_else (ca_lifecycleState dto) ''ISSUED'',
       at_metadata := patch metadata (at_metadata r) \<rparr>)"

definition find_asset :: "string \<Rightarrow> assets_db \<Rightarrow> asset_table_row option" where
  "find_asset c db = List.find (\<lambda>r. at_tokenContract r = c) (ad_assets db)"

definition upsert_deployed ::
    "env \<Rightarrow> create_asset \<Rightarrow> jsval \<Rightarrow> time \<Rightarrow> assets_db \<Rightarrow> assets_db" where
  "upsert_deployed E dto metadata deployedAt db =
     db\<lparr> ad_assets :=
       (if find_asset (ca_tokenContract dto) db = None
        then sql_insert (asset_of_dto E dto metadata (Some deployedAt)
               (or_else (ca_lifecycleState dto) ''ISSUED'')) (ad_assets db)
        else sql_update (\<lambda>r. at_tokenContract r = ca_tokenContract dto)
               (redeployed (dto, if ca_metadata dto = JUndefined then None else Some metadata, deployedAt))
               (ad_assets db)) \<rparr>"

definition metadata_txHash :: "jsval \<Rightarrow> string option" where
  "metadata_txHash v =
     (case v of
        JObj fs \<Rightarrow> (case js_field fs ''txHash'' of JStr h \<Rightarrow> or_null (Some h) | _ \<Rightarrow> None)
      | _ \<Rightarrow> None)"

definition deployment_entry :: "create_asset \<Rightarrow> asset_table_row \<Rightarrow> string \<Rightarrow> ledger_entry" where
  "deployment_entry dto asset txHash = \<lparr> le_txHash = txHash, le_actionType = ''TOKEN_DEPLOYED'',
     le_actorWallet = ca_issuerWallet dto, le_entityType = Some ''asset'', le_entityId = Some (at_id asset),
     le_assetId = Some (at_id asset), le_tokenContract = Some (ca_tokenContract dto), le_metadata = None,
     le_networkFeeLamports = None, le_rentDepositLamports = None, le_rentRefundLamports = None,
     le_netSolChangeLamports = None, le_occurredAt = ca_deployedAt dto \<rparr>"

definition record_deployment :: "env \<Rightarrow> create_asset \<Rightarrow> asset_table_row \<Rightarrow> (assets_db, unit) handler" where
  "record_deployment E dto asset db =
     (case metadata_txHash (ca_metadata dto) of
        None \<Rightarrow> (db, Inr ())
      | Some h \<Rightarrow>
          (case record_tx E (uuid E 1) (deployment_entry dto asset h) (ad_ledger db) of
             (l, Inl e) \<Rightarrow> (db\<lparr> ad_ledger := l \<rparr>, Inl e)
           | (l, Inr _) \<Rightarrow> (db\<lparr> ad_ledger := l \<rparr>, Inr ())))"

definition createDeployed :: "db_client \<Rightarrow> env \<Rightarrow> create_asset \<Rightarrow> (assets_db, asset_table_row option) handler" where
  "createDeployed D E dto =
     h_bind (h_lift (int_columns [ca_factoryAssetId dto])) (\<lambda>_.
     h_bind (h_lift (json_column (json_nulls D) (ca_metadata dto))) (\<lambda>metadata.
     h_bind (h_lift (date_or_now E (ca_deployedAt dto))) (\<lambda>deployedAt.
     h_bind (h_modify (upsert_deployed E dto metadata deployedAt)) (\<lambda>_.
     h_bind (h_read (find_asset (ca_tokenContract dto))) (\<lambda>asset.
     h_bind (case asset of None \<Rightarrow> h_return () | Some a \<Rightarrow> record_deployment E dto a) (\<lambda>_.
     h_return asset))))))"

text \<open>An application: the body is any JSON value.\<close>

definition text_column :: "jsval \<Rightarrow> string res" where
  "text_column v = (case v of JStr s \<Rightarrow> Inr s | _ \<Rightarrow> Inl (DatabaseError ''Invalid value provided''))"

definition optional_text_column :: "jsval \<Rightarrow> string option res" where
  "optional_text_column v =
     (case v of JUndefined \<Rightarrow> Inr None | JNull \<Rightarrow> Inr None | JStr s \<Rightarrow> Inr (Some s)
      | _ \<Rightarrow> Inl (DatabaseError ''Invalid value provided''))"

definition json_object :: "(string \<times> jsval) list \<Rightarrow> jsval" where
  "json_object fs = JObj (filter (\<lambda>(k, v). v \<noteq> JUndefined) fs)"

definition asset_details :: "jsval \<Rightarrow> (string \<times> jsval) list res" where
  "asset_details v =
     (case v of
        JUndefined \<Rightarrow> Inl (JsError ''Cannot read properties of undefined'')
      | JNull \<Rightarrow> Inl (JsError ''Cannot read properties of null'')
      | JObj fs \<Rightarrow> Inr fs
      | _ \<Rightarrow> Inr [])"

definition application_row ::
    "env \<Rightarrow> (string \<times> jsval) list \<Rightarrow> (string \<times> jsval) list \<Rightarrow> string \<Rightarrow> string \<Rightarrow> string \<Rightarrow> string option \<Rightarrow>
     string \<Rightarrow> asset_table_row" where
  "application_row E dto d issuerWallet name symbol description legalOwner = \<lparr>
     at_id = uuid E 1, at_factoryAssetId = None, at_tokenContract = ''pending-'' @ uuid E 0,
     at_referenceId = None, at_name = name, at_symbol = symbol, at_description = description,
     at_issuerWallet = Some issuerWallet, at_legalOwner = Some legalOwner,
     at_metadata = json_object [(''assetType'', js_field d ''assetType''),
       (''underlyingValue'', js_field d ''underlyingValue''), (''totalSupply'', js_field d ''totalSupply''),
       (''location'', js_field d ''location''), (''currency'', js_field d ''currency''),
       (''tokenDetails'', js_field dto ''tokenDetails''),
       (''complianceRequirements'', js_field dto ''complianceRequirements'')],
     at_deployedAt = None, at_lifecycleState = ''PENDING_APPROVAL'', at_createdAt = db_now E \<rparr>"

definition apply_asset :: "env \<Rightarrow> (string \<times> jsval) list \<Rightarrow> string \<Rightarrow> (assets_db, asset_table_row) handler" where
  "apply_asset E dto issuerWallet =
     h_bind (h_lift (asset_details (js_field dto ''assetDetails''))) (\<lambda>d.
     h_bind (h_lift (text_column (js_field d ''name''))) (\<lambda>name.
     h_bind (h_lift (text_column (js_field d ''symbol''))) (\<lambda>symbol.
     h_bind (h_lift (optional_text_column (js_field d ''description''))) (\<lambda>description.
     h_bind (h_lift (if js_truthy (js_field d ''legalOwner'') then text_column (js_field d ''legalOwner'')
                     else Inr issuerWallet)) (\<lambda>legalOwner.
     let row = application_row E dto d issuerWallet name symbol description legalOwner
     in h_bind (insert_asset row) (\<lambda>_. h_return row))))))"

definition remove_asset :: "string \<Rightarrow> (assets_db, asset_table_row) handler" where
  "remove_asset i db =
     (case List.find (\<lambda>r. at_id r = i) (ad_assets db) of
        None \<Rightarrow> (db, Inl (DatabaseError ''Record to delete does not exist.''))
      | Some r \<Rightarrow> (db\<lparr> ad_assets := sql_delete (\<lambda>r. at_id r = i) (ad_assets db) \<rparr>, Inr r))"

definition changed_asset ::
    "update_asset_dto \<times> jsval option \<times> time option \<Rightarrow> asset_table_row \<Rightarrow> asset_table_row" where
  "changed_asset p r =
     (case p of (dto, metadata, deployedAt) \<Rightarrow> r\<lparr>
       at_factoryAssetId := patch_null (ua_factoryAssetId dto) (at_factoryAssetId r),
       at_tokenContract := patch (ua_tokenContract dto) (at_tokenContract r),
       at_name := patch (ua_name dto) (at_name r), at_symbol := patch (ua_symbol dto) (at_symbol r),
       at_referenceId := patch_null (ua_referenceId dto) (at_referenceId r),
       at_description := patch_null (ua_description dto) (at_description r),
       at_issuerWallet := patch_null (ua_issuerWallet dto) (at_issuerWallet r),
       at_legalOwner := patch_null (ua_legalOwner dto) (at_legalOwner r),
       at_lifecycleState := patch (ua_lifecycleState dto) (at_lifecycleState r),
       at_metadata := patch metadata (at_metadata r),
       at_deployedAt := patch_null deployedAt (at_deployedAt r) \<rparr>)"

definition update_asset_by_id ::
    "db_client \<Rightarrow> env \<Rightarrow> string \<Rightarrow> update_asset_dto \<Rightarrow> (assets_db, asset_table_row) handler" where
  "update_asset_by_id D E i dto =
     h_bind (h_lift (int_columns [ua_factoryAssetId dto])) (\<lambda>_.
     h_bind (h_lift (json_column (json_nulls D) (ua_metadata dto))) (\<lambda>metadata.
     h_bind (h_lift (case or_null (ua_deployedAt dto) of
         None \<Rightarrow> Inr None
       | Some t \<Rightarrow> (case js_date E t of
             None \<Rightarrow> Inl (DatabaseError ''Invalid Date'') | Some d \<Rightarrow> Inr (Some d)))) (\<lambda>deployedAt.
     (\<lambda>db. case List.find (\<lambda>r. at_id r = i) (ad_assets db) of
        None \<Rightarrow> (db, Inl (DatabaseError ''Record to update not found.''))
      | Some r \<Rightarrow>
          let p = (dto, if ua_metadata dto = JUndefined then None else Some metadata, deployedAt);
              r' = changed_asset p r
          in if \<exists>x \<in> set (ad_assets db). at_id x \<noteq> i \<and> at_tokenContract x = at_tokenContract r'
             then (db, Inl (DatabaseError ''Unique constraint failed''))
             else (db\<lparr> ad_assets := sql_update (\<lambda>r. at_id r = i) (changed_asset p) (ad_assets db) \<rparr>,
                   Inr r')))))"

end
