(* ===== verification/IndexedQueries.thy ===== *)
theory IndexedQueries
  imports AssetRegistry Issuance Indexer
begin

text \<open>
  The read side of the indexer (\<open>backend/src/indexed\<close>): selections over the tables the indexer and
  the request services write, newest first, and the table of tracked wallets. A row comes with the
  two dates the database keeps for it.
\<close>

record 'r stamped =
  st_row :: 'r
  st_createdAt :: time
  st_updatedAt :: time

record token_asset_row =
  ta_tokenContract :: string
  ta_assetId :: int
  ta_referenceId :: string
  ta_description :: string
  ta_legalOwner :: string
  ta_metadata :: jsval
  ta_totalTokenized :: string

record wallet_row =
  tw_walletAddress :: string
  tw_label :: "string option"

record indexed_db =
  in_runs :: "run_row stamped list"
  in_assets :: "asset_table_row stamped list"
  in_states :: "indexed_token_state stamped list"
  in_tokenAssets :: "token_asset_row stamped list"
  in_balances :: "balance_row stamped list"
  in_wallets :: "wallet_row stamped list"
  in_issuances :: "issuance_row stamped list"
  in_redemptions :: "redemption_row stamped list"

definition by_update :: "'r stamped list \<Rightarrow> 'r list" where
  "by_update rows = map st_row (sort_key (\<lambda>r. - st_updatedAt r) rows)"

definition by_creation :: "'r stamped list \<Rightarrow> 'r list" where
  "by_creation rows = map st_row (sort_key (\<lambda>r. - st_createdAt r) rows)"

definition getIndexerState :: "indexed_db \<Rightarrow> run_row option" where
  "getIndexerState db = (case by_update (in_runs db) of [] \<Rightarrow> None | r # _ \<Rightarrow> Some r)"

definition listAssets :: "indexed_db \<Rightarrow> asset_table_row list" where
  "listAssets db = by_update (filter (\<lambda>r. at_lifecycleState (st_row r) = ''PENDING_APPROVAL'' \<or>
     \<not> starts_with ''zig1'' (at_tokenContract (st_row r))) (in_assets db))"

definition listTokens :: "indexed_db \<Rightarrow> indexed_token_state list" where
  "listTokens db = by_update (in_states db)"

definition getToken :: "string \<Rightarrow> indexed_db \<Rightarrow> indexed_token_state option" where
  "getToken contract db =
     map_option st_row (List.find (\<lambda>r. ts_tokenContract (st_row r) = contract) (in_states db))"

definition listTokenAssets :: "string \<Rightarrow> indexed_db \<Rightarrow> token_asset_row list" where
  "listTokenAssets contract db =
     sort_key ta_assetId (map st_row (filter (\<lambda>r. ta_tokenContract (st_row r) = contract) (in_tokenAssets db)))"

definition listTokenBalances :: "string \<Rightarrow> string option \<Rightarrow> indexed_db \<Rightarrow> balance_row list" where
  "listTokenBalances contract wallet db =
     by_update (filter (\<lambda>r. tb_tokenContract (st_row r) = contract \<and>
       query_match wallet (Some (tb_walletAddress (st_row r)))) (in_balances db))"

definition listTrackedWallets :: "indexed_db \<Rightarrow> wallet_row list" where
  "listTrackedWallets db = by_update (in_wallets db)"

definition addTrackedWallet :: "env \<Rightarrow> string \<Rightarrow> string option \<Rightarrow> indexed_db \<Rightarrow> indexed_db" where
  "addTrackedWallet E walletAddress label db =
     (let same = (\<lambda>r. tw_walletAddress (st_row r) = walletAddress)
      in db\<lparr> in_wallets :=
           (if List.find same (in_wallets db) = None
            then sql_insert \<lparr> st_row = \<lparr> tw_walletAddress = walletAddress, tw_label = label \<rparr>,
                   st_createdAt = db_now E, st_updatedAt = db_now E \<rparr> (in_wallets db)
            else sql_update same (\<lambda>r. r\<lparr> st_row := (st_row r)\<lparr> tw_label := patch_null label (tw_label (st_row r)) \<rparr>,
                   st_updatedAt := db_now E \<rparr>) (in_wallets db)) \<rparr>)"

definition listIssuanceRequests :: "string \<Rightarrow> indexed_db \<Rightarrow> issuance_row list" where
  "listIssuanceRequests contract db =
     by_creation (filter (\<lambda>r. ir_tokenContract (st_row r) = contract) (in_issuances db))"

definition listRedemptionRequests :: "string \<Rightarrow> indexed_db \<Rightarrow> redemption_row list" where
  "listRedemptionRequests contract db =
     by_creation (filter (\<lambda>r. rr_tokenContract (st_row r) = contract) (in_redemptions db))"

text \<open>A wallet has one row, and its label is the last one given.\<close>

lemma addTrackedWallet_label:
  "\<exists>r. List.find (\<lambda>r. tw_walletAddress (st_row r) = w) (in_wallets (addTrackedWallet E w (Some l) db)) = Some r \<and>
     tw_label (st_row r) = Some l"
proof -
  have "List.find (\<lambda>r. tw_walletAddress (st_row r) = w) (sql_update (\<lambda>r. tw_walletAddress (st_row r) = w)
      (\<lambda>r. r\<lparr> st_row := (st_row r)\<lparr> tw_label := v r \<rparr>, st_updatedAt := t \<rparr>) rows) =
      map_option (\<lambda>r. r\<lparr> st_row := (st_row r)\<lparr> tw_label := v r \<rparr>, st_updatedAt := t \<rparr>)
        (List.find (\<lambda>r. tw_walletAddress (st_row r) = w) rows)" for v t and rows :: "wallet_row stamped list"
    by (induction rows) (auto simp: sql_update_def)
  then show ?thesis
    by (cases "List.find (\<lambda>r. tw_walletAddress (st_row r) = w) (in_wallets db)")
      (auto simp: addTrackedWallet_def Let_def find_insert patch_null_def)
qed

end
