(* ===== verification/AssetProperties.thy ===== *)
theory AssetProperties
  imports AssetRegistry DecimalUnits
begin

text \<open>
  Properties of trusted issuers, asset requests and assets: the tables keep their keys and the
  columns of a review agree with its status over any sequence of calls; storing a deployed asset
  leaves the other assets alone and records its transaction.
\<close>

section \<open>Trusted issuers\<close>

inductive issuers_step :: "('x) chain_scheme \<Rightarrow> issuer_row list \<Rightarrow> issuer_row list \<Rightarrow> bool" for C where
  create: "uuid E 0 \<notin> ti_id ` set rows \<Longrightarrow> issuers_step C rows (fst (create_trusted_issuer C E d rows))"
| remove: "issuers_step C rows (fst (remove_trusted_issuer i rows))"

definition trusted_ok :: "('x) chain_scheme \<Rightarrow> issuer_row \<Rightarrow> bool" where
  "trusted_ok C r \<longleftrightarrow> (ti_kycAuthorized r \<or> ti_amlAuthorized r) \<and>
     trim (ti_authorityName r) = ti_authorityName r \<and> ti_authorityName r \<noteq> [] \<and>
     (\<exists>s. normalizeIssuerWallet C s = Inr (ti_walletAddress r))"

definition issuers_inv :: "('x) chain_scheme \<Rightarrow> issuer_row list \<Rightarrow> bool" where
  "issuers_inv C rows \<longleftrightarrow> distinct (map ti_id rows) \<and> distinct (map ti_walletAddress rows) \<and>
     (\<forall>r \<in> set rows. trusted_ok C r)"

lemma create_issuer_cases:
  obtains (same) "fst (create_trusted_issuer C E d rows) = rows"
  | (new) r where "fst (create_trusted_issuer C E d rows) = sql_insert r rows" "ti_id r = uuid E 0"
      "trusted_ok C r" "ti_walletAddress r \<notin> ti_walletAddress ` set rows"
proof -
  show thesis
  proof (cases "snd (create_trusted_issuer C E d rows)")
    case (Inl e)
    then have "fst (create_trusted_issuer C E d rows) = rows"
      by (auto simp: create_trusted_issuer_def Let_def split: if_splits sum.splits)
    then show thesis by (rule same)
  next
    case (Inr r)
    then show thesis
      by (intro new [of r])
        (auto simp: create_trusted_issuer_def trusted_ok_def trim_trim Let_def find_None_all
          split: if_splits sum.splits)
  qed
qed

lemma issuers_step_inv: "issuers_step C rows rows' \<Longrightarrow> issuers_inv C rows \<Longrightarrow> issuers_inv C rows'"
proof (induction rule: issuers_step.induct)
  case (create E rows d)
  then show ?case
    by (cases rule: create_issuer_cases [of C E d rows])
      (auto simp: issuers_inv_def map_key_insert set_insert)
next
  case (remove rows i)
  then show ?case
    by (auto simp: remove_trusted_issuer_def issuers_inv_def sql_delete_def distinct_map_filter
        split: option.splits)
qed

lemma trusted_issuers_reachable:
  assumes "(issuers_step C)\<^sup>*\<^sup>* [] rows"
  shows "issuers_inv C rows"
  using assms by induction (simp add: issuers_inv_def, erule (1) issuers_step_inv)

section \<open>Asset requests\<close>

inductive asset_requests_step :: "bool \<Rightarrow> asset_request_row list \<Rightarrow> asset_request_row list \<Rightarrow> bool" for nulls where
  create: "uuid E 0 \<notin> aq_id ` set rows \<Longrightarrow> asset_requests_step nulls rows (fst (create_asset_req nulls E d rows))"
| review: "asset_requests_step nulls rows (fst (updateStatus_asset_request E i u rows))"

definition request_ok :: "asset_request_row \<Rightarrow> bool" where
  "request_ok r \<longleftrightarrow> aq_status r \<in> set ASSET_REQUEST_STATUSES \<and>
     (aq_reviewedAt r = None \<longleftrightarrow> aq_status r = ''PENDING_REVIEW'') \<and>
     (aq_rejectionReason r \<noteq> None \<longrightarrow> aq_status r = ''REJECTED'')"

definition asset_requests_inv :: "asset_request_row list \<Rightarrow> bool" where
  "asset_requests_inv rows \<longleftrightarrow> distinct (map aq_id rows) \<and> list_all request_ok rows"

interpretation asset_requests: keyed_table aq_id reviewed_request
  by unfold_locales (simp add: reviewed_request_def split: prod.splits)

lemma new_request_ok: "request_ok (new_asset_request E d t m n)"
  by (simp add: request_ok_def new_asset_request_def ASSET_REQUEST_STATUSES_def)

lemma reviewed_request_ok: "uq_status u \<in> set ASSET_REQUEST_STATUSES \<Longrightarrow> request_ok (reviewed_request (E, u) r)"
  by (simp add: request_ok_def reviewed_request_def)

lemma asset_requests_step_inv:
  "asset_requests_step nulls rows rows' \<Longrightarrow> asset_requests_inv rows \<Longrightarrow> asset_requests_inv rows'"
proof (induction rule: asset_requests_step.induct)
  case (create E rows d)
  have "fst (create_asset_req nulls E d rows) = rows \<or>
      (\<exists>t m n. fst (create_asset_req nulls E d rows) = sql_insert (new_asset_request E d t m n) rows)"
    by (auto simp: create_asset_req_def h_bind_def h_lift_def h_modify_def h_return_def Let_def split: sum.splits)
  with create show ?case
    by (auto simp: asset_requests_inv_def map_key_insert sql_insert_def new_request_ok)
      (auto simp: new_asset_request_def)
next
  case (review rows E i u)
  then show ?case
    by (auto simp: asset_requests_inv_def updateStatus_asset_request_def asset_requests.keys_update
        list_all_iff set_update reviewed_request_ok split: sum.splits)
qed

lemma asset_request_reviews_agree_with_status:
  assumes "(asset_requests_step nulls)\<^sup>*\<^sup>* [] rows" and "r \<in> set rows"
  shows "aq_status r \<in> set ASSET_REQUEST_STATUSES \<and> (aq_reviewedAt r = None \<longleftrightarrow> aq_status r = ''PENDING_REVIEW'') \<and>
    (aq_rejectionReason r \<noteq> None \<longrightarrow> aq_status r = ''REJECTED'') \<and>
    findOne_asset_request (aq_id r) rows = Inr r"
proof -
  have "asset_requests_inv rows"
    using assms(1) by induction (simp add: asset_requests_inv_def, erule (1) asset_requests_step_inv)
  then show ?thesis
    using assms(2) asset_requests.find_unique [of rows r]
    by (auto simp: asset_requests_inv_def list_all_iff request_ok_def findOne_asset_request_def)
qed

section \<open>Assets\<close>

inductive assets_step :: "db_client \<Rightarrow> assets_db \<Rightarrow> assets_db \<Rightarrow> bool" for D where
  create: "uuid E 0 \<notin> at_id ` set (ad_assets db) \<Longrightarrow> assets_step D db (fst (create_asset_row D E d db))"
| deployed: "uuid E 0 \<notin> at_id ` set (ad_assets db) \<Longrightarrow> assets_step D db (fst (createDeployed D E d db))"
| applied: "uuid E 1 \<notin> at_id ` set (ad_assets db) \<Longrightarrow> assets_step D db (fst (apply_asset E a w db))"
| change: "assets_step D db (fst (update_asset_by_id D E i u db))"
| remove: "assets_step D db (fst (remove_asset i db))"

definition assets_inv :: "assets_db \<Rightarrow> bool" where
  "assets_inv db \<longleftrightarrow> distinct (map at_id (ad_assets db)) \<and> distinct (map at_tokenContract (ad_assets db)) \<and>
     ledger_inv (ad_ledger db)"

interpretation deployed_assets: keyed_table at_tokenContract redeployed
  by unfold_locales (simp add: redeployed_def split: prod.splits)

interpretation deployed_ids: keyed_table at_id redeployed
  by unfold_locales (simp add: redeployed_def split: prod.splits)

interpretation changed_ids: keyed_table at_id changed_asset
  by unfold_locales (simp add: changed_asset_def split: prod.splits)

lemma keeps_insert_asset:
  "assets_inv db \<Longrightarrow> at_id r \<notin> at_id ` set (ad_assets db) \<Longrightarrow> assets_inv (fst (insert_asset r db))"
  by (auto simp: insert_asset_def assets_inv_def map_key_insert)

lemma insert_call_inv:
  assumes "fst (m db) = db \<or> (\<exists>r. fst (m db) = fst (insert_asset r db) \<and> at_id r = u)"
    and "u \<notin> at_id ` set (ad_assets db)" and "assets_inv db"
  shows "assets_inv (fst (m db))"
  using assms keeps_insert_asset by auto

lemma create_asset_row_inserts:
  "fst (create_asset_row D E d db) = db \<or>
     (\<exists>r. fst (create_asset_row D E d db) = fst (insert_asset r db) \<and> at_id r = uuid E 0)"
proof -
  have "at_id (asset_of_dto E d m t l) = uuid E 0" for m t l by (simp add: asset_of_dto_def)
  then show ?thesis
    by (auto simp: create_asset_row_def h_bind_def h_lift_def h_return_def Let_def
        split: sum.splits prod.splits) (metis fst_conv)+
qed

lemma apply_asset_inserts:
  "fst (apply_asset E a w db) = db \<or>
     (\<exists>r. fst (apply_asset E a w db) = fst (insert_asset r db) \<and> at_id r = uuid E 1)"
proof -
  have "at_id (application_row E a d w n y de o') = uuid E 1" for d n y de o' by (simp add: application_row_def)
  then show ?thesis
    by (auto simp: apply_asset_def h_bind_def h_lift_def h_return_def Let_def
        split: sum.splits prod.splits) (metis fst_conv)+
qed

lemma upsert_deployed_inv:
  assumes "assets_inv db" and "uuid E 0 \<notin> at_id ` set (ad_assets db)"
  shows "assets_inv (upsert_deployed E d m t db)"
  using assms
  by (auto simp: upsert_deployed_def assets_inv_def map_key_insert deployed_assets.keys_update deployed_ids.keys_update
      asset_of_dto_def find_asset_def find_None_all)

lemma record_deployment_inv: "assets_inv db \<Longrightarrow> assets_inv (fst (record_deployment E d a db))"
  by (auto simp: record_deployment_def record_tx_def assets_inv_def ledger_inv_upsert Let_def
      split: option.splits sum.splits)

lemma changed_contracts:
  assumes "distinct (map at_id rows)" and "distinct (map at_tokenContract rows)"
    and "List.find (\<lambda>r. at_id r = i) rows = Some r"
    and "\<not> (\<exists>x \<in> set rows. at_id x \<noteq> i \<and> at_tokenContract x = at_tokenContract (changed_asset p r))"
  shows "distinct (map at_tokenContract (sql_update (\<lambda>r. at_id r = i) (changed_asset p) rows))"
proof -
  have inj: "inj_on at_tokenContract (set rows)" and d: "distinct rows"
    using assms(2) by (simp_all add: distinct_map)
  have only: "x = r" if "x \<in> set rows" "at_id x = i" for x
    using assms(1,3) that by (auto simp: distinct_map dest!: find_Some_memD inj_onD)
  have "inj_on (\<lambda>x. at_tokenContract (if at_id x = i then changed_asset p x else x)) (set rows)"
    using inj only assms(4) by (auto simp: inj_on_def) metis+
  then show ?thesis using d by (simp add: sql_update_def distinct_map comp_def)
qed

lemma assets_step_inv: "assets_step D db db' \<Longrightarrow> assets_inv db \<Longrightarrow> assets_inv db'"
proof (induction rule: assets_step.induct)
  case (create E db d)
  then show ?case by (rule insert_call_inv [OF create_asset_row_inserts])
next
  case (deployed E db d)
  then show ?case
    by (auto simp: createDeployed_def h_bind_def h_lift_def h_modify_def h_read_def h_return_def
        intro!: upsert_deployed_inv split: sum.splits prod.splits option.splits)
      (metis fst_conv record_deployment_inv upsert_deployed_inv)+
next
  case (applied E db a w)
  then show ?case by (rule insert_call_inv [OF apply_asset_inserts])
next
  case (change db E i u)
  then show ?case
    by (auto simp: update_asset_by_id_def h_bind_def h_lift_def Let_def assets_inv_def changed_ids.keys_update
        changed_contracts split: sum.splits option.splits)
next
  case (remove db i)
  then show ?case
    by (auto simp: remove_asset_def assets_inv_def sql_delete_def distinct_map_filter split: option.splits)
qed

lemma assets_reachable:
  assumes "(assets_step D)\<^sup>*\<^sup>* \<lparr> ad_assets = [], ad_ledger = [] \<rparr> db" and "r \<in> set (ad_assets db)"
  shows "find_asset (at_tokenContract r) db = Some r \<and> List.find (\<lambda>x. at_id x = at_id r) (ad_assets db) = Some r"
proof -
  have "assets_inv db"
    using assms(1) by induction (simp add: assets_inv_def ledger_inv_def, erule (1) assets_step_inv)
  then show ?thesis
    using assms(2) deployed_assets.find_unique [of "ad_assets db" r] deployed_ids.find_unique [of "ad_assets db" r]
    by (simp add: assets_inv_def find_asset_def)
qed

lemma find_upserted:
  "find_asset (ca_tokenContract d) (upsert_deployed E d m t db) =
     Some (case find_asset (ca_tokenContract d) db of
       None \<Rightarrow> asset_of_dto E d m (Some t) (or_else (ca_lifecycleState d) ''ISSUED'')
     | Some r \<Rightarrow> redeployed (d, if ca_metadata d = JUndefined then None else Some m, t) r)"
  by (auto simp: find_asset_def upsert_deployed_def find_insert asset_of_dto_def deployed_assets.find_same
      split: option.splits)

lemma find_upserted_other:
  "c \<noteq> ca_tokenContract d \<Longrightarrow> find_asset c (upsert_deployed E d m t db) = find_asset c db"
  by (auto simp: find_asset_def upsert_deployed_def find_insert asset_of_dto_def deployed_assets.find_other
      split: option.splits)

lemma record_deployment_effect:
  assumes "record_deployment E d a db = (db', Inr ())"
  shows "ad_assets db' = ad_assets db \<and>
    (\<forall>h. metadata_txHash (ca_metadata d) = Some h \<longrightarrow> find_tx (ad_ledger db') h \<noteq> None) \<and>
    (\<forall>h. metadata_txHash (ca_metadata d) \<noteq> Some h \<longrightarrow> find_tx (ad_ledger db') h = find_tx (ad_ledger db) h)"
proof (cases "metadata_txHash (ca_metadata d)")
  case None
  with assms show ?thesis by (simp add: record_deployment_def)
next
  case (Some h)
  from assms Some obtain x where x: "excluded_row E (uuid E 1) (deployment_entry d a h) = Inr x"
    and db': "db' = db\<lparr> ad_ledger := upsert x (ad_ledger db) \<rparr>"
    by (auto simp: record_deployment_def record_tx_def Let_def split: sum.splits)
  have "bt_txHash x = h"
    using x by (auto simp: excluded_row_def deployment_entry_def split: sum.splits)
  then show ?thesis
    using Some find_tx_upsert [of x "ad_ledger db"] find_tx_upsert_other [of _ x "ad_ledger db"] by (auto simp: db')
qed

lemma deployed_asset_is_stored_and_recorded:
  assumes "createDeployed D E d db = (db', Inr a)"
  shows "\<exists>r. a = Some r \<and> find_asset (ca_tokenContract d) db' = Some r \<and>
    at_name r = ca_name d \<and> at_symbol r = ca_symbol d \<and> at_deployedAt r \<noteq> None \<and>
    at_lifecycleState r = or_else (ca_lifecycleState d) ''ISSUED'' \<and>
    (\<forall>old. find_asset (ca_tokenContract d) db = Some old \<longrightarrow> at_id r = at_id old) \<and>
    (\<forall>c. c \<noteq> ca_tokenContract d \<longrightarrow> find_asset c db' = find_asset c db) \<and>
    (\<forall>h. metadata_txHash (ca_metadata d) = Some h \<longrightarrow> find_tx (ad_ledger db') h \<noteq> None) \<and>
    (\<forall>h. metadata_txHash (ca_metadata d) \<noteq> Some h \<longrightarrow> find_tx (ad_ledger db') h = find_tx (ad_ledger db) h)"
proof -
  obtain m t where m: "json_column (json_nulls D) (ca_metadata d) = Inr m" "date_or_now E (ca_deployedAt d) = Inr t"
    using assms by (auto simp: createDeployed_def h_bind_def h_lift_def split: sum.splits)
  let ?u = "upsert_deployed E d m t db"
  obtain r where r: "find_asset (ca_tokenContract d) ?u = Some r" using find_upserted by blast
  have rec: "record_deployment E d r ?u = (db', Inr ())" and a: "a = Some r"
    using assms m r
    by (auto simp: createDeployed_def h_bind_def h_lift_def h_modify_def h_read_def h_return_def
        split: sum.splits prod.splits)
  have same: "find_asset c db' = find_asset c ?u" for c
    using record_deployment_effect [OF rec] by (simp add: find_asset_def)
  have "ad_ledger ?u = ad_ledger db" by (simp add: upsert_deployed_def)
  then show ?thesis
    using a r record_deployment_effect [OF rec] find_upserted [of d E m t db]
    by (auto simp: same find_upserted_other redeployed_def asset_of_dto_def split: option.splits)
qed

section \<open>Instances\<close>

definition sample_issuer :: create_issuer where
  "sample_issuer = \<lparr> ci_walletAddress = '' W '', ci_authorityName = ''Bank '', ci_kycAuthorized = True,
     ci_amlAuthorized = False \<rparr>"

definition text_chain :: chain where
  "text_chain = \<lparr> pk_of_string = (\<lambda>s. Inr (ascii s)), pk_of_bytes = Inr,
     toBase58 = map (\<lambda>b. char_of (uint b)), token_2022 = [], ata_of = (\<lambda>m w. Inr []),
     find_pda = (\<lambda>s p. Inr ([], 0)), account_info = (\<lambda>k. Inr None) \<rparr>"

lemma trusted_issuers_reachable_witness:
  "issuers_inv text_chain (fst (create_trusted_issuer text_chain (sample_env ''i'') sample_issuer []))"
  by (rule trusted_issuers_reachable, rule r_into_rtranclp, rule issuers_step.create) simp

definition sample_asset_request :: create_asset_request where
  "sample_asset_request = \<lparr> cq_issuerWallet = ''W'', cq_legalOwner = None, cq_referenceId = None, cq_name = ''Tower'',
     cq_symbol = ''twr'', cq_description = None, cq_assetType = ''REAL_ESTATE'', cq_currency = ''USD'',
     cq_location = None, cq_underlyingValue = None, cq_totalSupply = Some (Fin 1000), cq_decimals = None,
     cq_initialPrice = None, cq_claimTopics = None, cq_complianceModules = None, cq_trustedIssuers = JUndefined,
     cq_documents = JUndefined, cq_metadata = JUndefined \<rparr>"

definition requests1 :: "asset_request_row list" where
  "requests1 = fst (create_asset_req True (sample_env ''q'') sample_asset_request [])"

definition requests2 :: "asset_request_row list" where
  "requests2 = fst (updateStatus_asset_request (sample_env ''r'') ''q0'' \<lparr> uq_status = ''REJECTED'',
     uq_reviewedBy = Some ''admin'', uq_rejectionReason = Some ''no deed'', uq_deployedAssetId = None,
     uq_txHash = None \<rparr> requests1)"

lemma asset_request_reviews_agree_with_status_witness:
  "\<exists>r \<in> set requests2. aq_status r = ''REJECTED'' \<and> aq_symbol r = ''TWR'' \<and> aq_reviewedAt r \<noteq> None"
proof -
  have "asset_requests_step True [] requests1"
    unfolding requests1_def by (rule asset_requests_step.create) simp
  moreover have "asset_requests_step True requests1 requests2"
    unfolding requests2_def by (rule asset_requests_step.review)
  ultimately have reach: "(asset_requests_step True)\<^sup>*\<^sup>* [] requests2" by simp
  have "\<exists>r \<in> set requests2. aq_status r = ''REJECTED'' \<and> aq_symbol r = ''TWR''" by code_simp
  then obtain r where r: "r \<in> set requests2" "aq_status r = ''REJECTED''" "aq_symbol r = ''TWR''" by blast
  then show ?thesis
    using asset_request_reviews_agree_with_status [OF reach r(1)] by (intro bexI [of _ r]) simp_all
qed

definition sample_asset :: create_asset where
  "sample_asset = \<lparr> ca_factoryAssetId = Some (Fin 1), ca_tokenContract = ''Mint'', ca_name = ''Tower'', ca_symbol = ''TWR'',
     ca_referenceId = None, ca_description = None, ca_issuerWallet = Some ''W'', ca_legalOwner = None,
     ca_deployedAt = None, ca_lifecycleState = None, ca_metadata = JObj [(''txHash'', JStr ''h1'')] \<rparr>"

definition plain_client :: db_client where
  "plain_client = \<lparr> json_nulls = True, client_date = (\<lambda>s. None) \<rparr>"

definition assets0 :: assets_db where
  "assets0 = \<lparr> ad_assets = [], ad_ledger = [] \<rparr>"

lemma sample_deployed:
  "\<exists>a. createDeployed plain_client (sample_env ''a'') sample_asset assets0 =
     (fst (createDeployed plain_client (sample_env ''a'') sample_asset assets0), Inr a)"
proof -
  have "case snd (createDeployed plain_client (sample_env ''a'') sample_asset assets0) of Inl e \<Rightarrow> False | Inr a \<Rightarrow> True"
    by code_simp
  then show ?thesis
    by (cases "createDeployed plain_client (sample_env ''a'') sample_asset assets0") (auto split: sum.splits)
qed

lemma deployed_asset_is_stored_and_recorded_witness:
  "find_tx (ad_ledger (fst (createDeployed plain_client (sample_env ''a'') sample_asset assets0))) ''h1'' \<noteq> None"
proof -
  obtain a where a: "createDeployed plain_client (sample_env ''a'') sample_asset assets0 =
     (fst (createDeployed plain_client (sample_env ''a'') sample_asset assets0), Inr a)"
    using sample_deployed by blast
  have "metadata_txHash (ca_metadata sample_asset) = Some ''h1''" by code_simp
  then show ?thesis using deployed_asset_is_stored_and_recorded [OF a] by blast
qed

lemma assets_reachable_witness:
  "\<exists>r. find_asset ''Mint'' (fst (createDeployed plain_client (sample_env ''a'') sample_asset assets0)) = Some r \<and> at_name r = ''Tower''"
proof -
  let ?db = "fst (createDeployed plain_client (sample_env ''a'') sample_asset assets0)"
  have "(assets_step plain_client)\<^sup>*\<^sup>* \<lparr> ad_assets = [], ad_ledger = [] \<rparr> ?db"
    unfolding assets0_def by (rule r_into_rtranclp, rule assets_step.deployed) simp
  note reach = this
  have "\<exists>r \<in> set (ad_assets ?db). at_tokenContract r = ''Mint'' \<and> at_name r = ''Tower''" by code_simp
  then obtain r where "r \<in> set (ad_assets ?db)" "at_tokenContract r = ''Mint''" "at_name r = ''Tower''" by blast
  with assets_reachable [OF reach] show ?thesis by metis
qed

end
