(* ===== verification/Auth.thy ===== *)
theory Auth
  imports Kyc Handlers
begin

text \<open>
  Accounts and sessions (\<open>backend/src/auth\<close>): registration, login, refresh tokens that are rotated
  on use, and the access-token strategy. Password hashing (bcryptjs) and the signing and
  verification of tokens (the JWT service) are parameters.
\<close>

section \<open>State and parameters\<close>

record auth_user = user_row +
  us_passwordHash :: string
  us_createdAt :: time

record session_row =
  se_id :: string
  se_userId :: string
  se_refreshTokenHash :: string
  se_expiresAt :: time
  se_createdAt :: time

record auth_db =
  au_users :: "auth_user list"
  au_sessions :: "session_row list"

record jwt_config =
  accessSecret :: "string option"
  refreshSecret :: "string option"
  accessExpiresIn :: "string option"
  refreshExpiresIn :: "string option"

record jwt_payload =
  jp_sub :: string
  jp_email :: string
  jp_roles :: "string list"

text \<open>
  The libraries: \<open>hash\<close> takes the salt it draws; \<open>sign\<close> takes the secret, the lifetime and the
  clock, and throws on a secret or a lifetime it does not accept; \<open>verify\<close> is \<open>None\<close> when it throws.
\<close>

record auth_host =
  bcrypt_hash :: "string \<Rightarrow> string \<Rightarrow> string"
  bcrypt_compare :: "string \<Rightarrow> string \<Rightarrow> bool"
  jwt_sign :: "string \<Rightarrow> string \<Rightarrow> time \<Rightarrow> jwt_payload \<Rightarrow> string + string"
  jwt_verify :: "string option \<Rightarrow> time \<Rightarrow> string \<Rightarrow> string option"

definition Role_INVESTOR :: string where
  "Role_INVESTOR = ''investor''"

section \<open>Tokens\<close>

definition unit_ms :: "char \<Rightarrow> int option" where
  "unit_ms c = map_of [(CHR ''s'', 1000), (CHR ''m'', 60 * 1000), (CHR ''h'', 60 * 60 * 1000),
     (CHR ''d'', 24 * 60 * 60 * 1000)] c"

definition num_times :: "jsnum \<Rightarrow> int \<Rightarrow> jsnum" where
  "num_times x k = (case x of Fin q \<Rightarrow> round_double (q * of_int k) | _ \<Rightarrow> x)"

definition num_plus :: "int \<Rightarrow> jsnum \<Rightarrow> jsnum" where
  "num_plus k x = (case x of Fin q \<Rightarrow> round_double (of_int k + q) | _ \<Rightarrow> x)"

text \<open>\<open>expiresIn.match(/^(\d+)([smhd])$/)\<close>: the digits and the unit.\<close>

definition match_expiry :: "string \<Rightarrow> (string \<times> int) option" where
  "match_expiry s =
     (if s = [] \<or> butlast s = [] \<or> \<not> list_all is_digit (butlast s) then None
      else map_option (\<lambda>k. (butlast s, k)) (unit_ms (last s)))"

definition parseExpiry :: "env \<Rightarrow> string \<Rightarrow> time res" where
  "parseExpiry E expiresIn =
     (case match_expiry expiresIn of
        None \<Rightarrow> date_of_ms (num_plus (js_now E) (Fin (7 * 24 * 60 * 60 * 1000)))
      | Some (ds, k) \<Rightarrow>
          date_of_ms (num_plus (js_now E) (num_times (round_double (of_int (digits_val ds))) k)))"

definition getOrThrow :: "string \<Rightarrow> string option \<Rightarrow> string res" where
  "getOrThrow key v =
     (case v of None \<Rightarrow> Inl (JsError (''Configuration key '' @ key @ '' does not exist'')) | Some s \<Rightarrow> Inr s)"

definition signed :: "auth_host \<Rightarrow> string \<Rightarrow> string \<Rightarrow> time \<Rightarrow> jwt_payload \<Rightarrow> string res" where
  "signed H secret expiresIn now payload =
     (case jwt_sign H secret expiresIn now payload of Inl e \<Rightarrow> Inl (JsError e) | Inr t \<Rightarrow> Inr t)"

text \<open>The salt of the hash and the id of the session are the two ids the call draws.\<close>

definition issueTokens ::
    "auth_host \<Rightarrow> jwt_config \<Rightarrow> env \<Rightarrow> string \<Rightarrow> string \<Rightarrow> string list \<Rightarrow> (auth_db, string \<times> string) handler" where
  "issueTokens H cfg E userId email roles =
     h_bind (h_lift (getOrThrow ''jwt.accessSecret'' (accessSecret cfg))) (\<lambda>access.
     h_bind (h_lift (getOrThrow ''jwt.refreshSecret'' (refreshSecret cfg))) (\<lambda>refresh.
     let payload = \<lparr> jp_sub = userId, jp_email = email, jp_roles = roles \<rparr>;
         accessLife = or_else (accessExpiresIn cfg) ''15m'';
         refreshLife = or_else (refreshExpiresIn cfg) ''7d''
     in h_bind (h_lift (signed H access accessLife (js_now E) payload)) (\<lambda>accessToken.
        h_bind (h_lift (signed H refresh refreshLife (js_now E) payload)) (\<lambda>refreshToken.
        h_bind (h_lift (parseExpiry E refreshLife)) (\<lambda>expiresAt.
        h_bind (h_modify (\<lambda>db. db\<lparr> au_sessions := sql_insert
          \<lparr> se_id = uuid E 1, se_userId = userId,
            se_refreshTokenHash = bcrypt_hash H (uuid E 2) refreshToken,
            se_expiresAt = expiresAt, se_createdAt = db_now E \<rparr> (au_sessions db) \<rparr>)) (\<lambda>_.
        h_return (accessToken, refreshToken)))))))"

section \<open>Operations\<close>

definition new_user ::
    "auth_host \<Rightarrow> env \<Rightarrow> string \<Rightarrow> string \<Rightarrow> string option \<Rightarrow> string option \<Rightarrow> auth_user" where
  "new_user H E email password walletAddress requestedRole = \<lparr>
     us_id = uuid E 0, us_email = email, us_walletAddress = walletAddress,
     us_roles = (if requestedRole = Some ''issuer'' then [] else [Role_INVESTOR]),
     us_requestedRole = requestedRole, us_roleStatus = ''PENDING'',
     us_passwordHash = bcrypt_hash H (uuid E 3) password, us_createdAt = db_now E \<rparr>"

text \<open>The email and the wallet address are unique columns.\<close>

definition insert_user :: "auth_user \<Rightarrow> (auth_db, unit) handler" where
  "insert_user u db =
     (if \<exists>v \<in> set (au_users db). us_email v = us_email u \<or>
         us_walletAddress u \<noteq> None \<and> us_walletAddress v = us_walletAddress u
      then (db, Inl (DatabaseError ''Unique constraint failed''))
      else (db\<lparr> au_users := sql_insert u (au_users db) \<rparr>, Inr ()))"

definition register ::
    "auth_host \<Rightarrow> jwt_config \<Rightarrow> env \<Rightarrow> string \<Rightarrow> string \<Rightarrow> string option \<Rightarrow> string option \<Rightarrow>
     (auth_db, string \<times> string) handler" where
  "register H cfg E email password walletAddress requestedRole =
     h_bind (h_read (\<lambda>db. List.find (\<lambda>u. us_email u = email) (au_users db))) (\<lambda>existing.
     if existing \<noteq> None then h_throw (ConflictException ''Email already registered'')
     else
       let user = new_user H E email password walletAddress requestedRole
       in h_bind (insert_user user) (\<lambda>_.
          issueTokens H cfg E (us_id user) (us_email user) (us_roles user)))"

definition login ::
    "auth_host \<Rightarrow> jwt_config \<Rightarrow> env \<Rightarrow> string \<Rightarrow> string \<Rightarrow> (auth_db, string \<times> string) handler" where
  "login H cfg E email password =
     h_bind (h_read (\<lambda>db. List.find (\<lambda>u. us_email u = email) (au_users db))) (\<lambda>user.
     case user of
       None \<Rightarrow> h_throw (UnauthorizedException ''Invalid credentials'')
     | Some u \<Rightarrow>
         if \<not> bcrypt_compare H password (us_passwordHash u)
         then h_throw (UnauthorizedException ''Invalid credentials'')
         else issueTokens H cfg E (us_id u) (us_email u) (us_roles u))"

text \<open>The newest session of a user that has not expired.\<close>

definition live_sessions :: "env \<Rightarrow> string \<Rightarrow> auth_db \<Rightarrow> session_row list" where
  "live_sessions E userId db =
     sort_key (\<lambda>s. - se_createdAt s)
       (filter (\<lambda>s. se_userId s = userId \<and> se_expiresAt s > js_now E) (au_sessions db))"

definition verifyRefreshToken :: "auth_host \<Rightarrow> jwt_config \<Rightarrow> env \<Rightarrow> string \<Rightarrow> string res" where
  "verifyRefreshToken H cfg E tok =
     (case jwt_verify H (refreshSecret cfg) (js_now E) tok of
        None \<Rightarrow> Inl (UnauthorizedException ''Invalid refresh token'')
      | Some sub \<Rightarrow> Inr sub)"

definition refresh_tokens ::
    "auth_host \<Rightarrow> jwt_config \<Rightarrow> env \<Rightarrow> string \<Rightarrow> (auth_db, string \<times> string) handler" where
  "refresh_tokens H cfg E refreshToken =
     h_bind (h_lift (verifyRefreshToken H cfg E refreshToken)) (\<lambda>sub.
     h_bind (h_read (live_sessions E sub)) (\<lambda>sessions.
     case sessions of
       [] \<Rightarrow> h_throw (UnauthorizedException ''Session expired'')
     | session # _ \<Rightarrow>
         if \<not> bcrypt_compare H refreshToken (se_refreshTokenHash session)
         then h_throw (UnauthorizedException ''Invalid refresh token'')
         else
           h_bind (h_read (\<lambda>db. List.find (\<lambda>u. us_id u = sub) (au_users db))) (\<lambda>user.
           case user of
             None \<Rightarrow> h_throw (UnauthorizedException ''Invalid user'')
           | Some u \<Rightarrow>
               h_bind (h_modify (\<lambda>db. db\<lparr> au_sessions :=
                 sql_delete (\<lambda>s. se_id s = se_id session) (au_sessions db) \<rparr>)) (\<lambda>_.
               issueTokens H cfg E (us_id u) (us_email u) (us_roles u)))))"

record me_view =
  me_id :: string
  me_email :: string
  me_walletAddress :: "string option"
  me_roles :: "string list"
  me_requestedRole :: "string option"
  me_roleStatus :: string
  me_createdAt :: time

definition me :: "string \<Rightarrow> auth_db \<Rightarrow> me_view option" where
  "me userId db = map_option (\<lambda>u. \<lparr> me_id = us_id u, me_email = us_email u,
     me_walletAddress = us_walletAddress u, me_roles = us_roles u,
     me_requestedRole = us_requestedRole u, me_roleStatus = us_roleStatus u,
     me_createdAt = us_createdAt u \<rparr>) (List.find (\<lambda>u. us_id u = userId) (au_users db))"

record request_user =
  ru_userId :: string
  ru_email :: string
  ru_roles :: "string list"

definition jwt_validate :: "jwt_payload \<Rightarrow> request_user" where
  "jwt_validate p = \<lparr> ru_userId = jp_sub p, ru_email = jp_email p, ru_roles = jp_roles p \<rparr>"

section \<open>The tables\<close>

inductive auth_step :: "auth_host \<Rightarrow> jwt_config \<Rightarrow> auth_db \<Rightarrow> auth_db \<Rightarrow> bool" for H cfg where
  register: "uuid E 0 \<notin> us_id ` set (au_users db) \<Longrightarrow> uuid E 1 \<notin> se_id ` set (au_sessions db) \<Longrightarrow>
    auth_step H cfg db (fst (register H cfg E email pw w role db))"
| login: "uuid E 1 \<notin> se_id ` set (au_sessions db) \<Longrightarrow>
    auth_step H cfg db (fst (login H cfg E email pw db))"
| refresh: "uuid E 1 \<notin> se_id ` set (au_sessions db) \<Longrightarrow>
    auth_step H cfg db (fst (refresh_tokens H cfg E tok db))"

definition auth_inv :: "auth_db \<Rightarrow> bool" where
  "auth_inv db \<longleftrightarrow>
     distinct (map us_id (au_users db)) \<and> distinct (map us_email (au_users db)) \<and>
     distinct (List.map_filter us_walletAddress (au_users db)) \<and>
     distinct (map se_id (au_sessions db)) \<and>
     (\<forall>s \<in> set (au_sessions db). se_userId s \<in> us_id ` set (au_users db))"

definition new_session :: "auth_host \<Rightarrow> env \<Rightarrow> string \<Rightarrow> string \<Rightarrow> time \<Rightarrow> session_row" where
  "new_session H E userId tok expiresAt = \<lparr> se_id = uuid E 1, se_userId = userId,
     se_refreshTokenHash = bcrypt_hash H (uuid E 2) tok, se_expiresAt = expiresAt, se_createdAt = db_now E \<rparr>"

lemma new_session_simps [simp]:
  "se_id (new_session H E u t x) = uuid E 1" "se_userId (new_session H E u t x) = u"
  "se_refreshTokenHash (new_session H E u t x) = bcrypt_hash H (uuid E 2) t"
  "se_expiresAt (new_session H E u t x) = x" "se_createdAt (new_session H E u t x) = db_now E"
  by (simp_all add: new_session_def)

lemma issueTokens_cases:
  obtains (failed) e where "issueTokens H cfg E u em rs db = (db, Inl e)"
  | (issued) asec rsec a t x where "accessSecret cfg = Some asec" "refreshSecret cfg = Some rsec"
      "signed H asec (or_else (accessExpiresIn cfg) ''15m'') (js_now E) \<lparr> jp_sub = u, jp_email = em, jp_roles = rs \<rparr> = Inr a"
      "signed H rsec (or_else (refreshExpiresIn cfg) ''7d'') (js_now E) \<lparr> jp_sub = u, jp_email = em, jp_roles = rs \<rparr> = Inr t"
      "parseExpiry E (or_else (refreshExpiresIn cfg) ''7d'') = Inr x"
      "issueTokens H cfg E u em rs db =
        (db\<lparr> au_sessions := sql_insert (new_session H E u t x) (au_sessions db) \<rparr>, Inr (a, t))"
proof -
  note defs = issueTokens_def h_bind_def h_lift_def h_modify_def h_return_def Let_def new_session_def getOrThrow_def
  show thesis
  proof (cases "accessSecret cfg")
    case None
    then show thesis by (intro failed) (simp add: defs)
  next
    case (Some asec)
    note a = this
    show thesis
    proof (cases "refreshSecret cfg")
      case None
      then show thesis using a by (intro failed) (simp add: defs)
    next
      case (Some rsec)
      let ?p = "\<lparr> jp_sub = u, jp_email = em, jp_roles = rs \<rparr>"
      show thesis
        using a Some failed issued
        by (cases "signed H asec (or_else (accessExpiresIn cfg) ''15m'') (js_now E) ?p";
            cases "signed H rsec (or_else (refreshExpiresIn cfg) ''7d'') (js_now E) ?p";
            cases "parseExpiry E (or_else (refreshExpiresIn cfg) ''7d'')")
          (simp_all add: defs)
    qed
  qed
qed

lemma distinct_filter_key: "distinct (map k rows) \<Longrightarrow> distinct (map k (sql_delete P rows))"
  by (simp add: sql_delete_def distinct_map_filter)

lemma issueTokens_inv:
  assumes "auth_inv db" and "uuid E 1 \<notin> se_id ` set (au_sessions db)" and "u \<in> us_id ` set (au_users db)"
  shows "auth_inv (fst (issueTokens H cfg E u em rs db))"
  by (cases rule: issueTokens_cases [of H cfg E u em rs db])
    (use assms in \<open>auto simp: auth_inv_def map_key_insert set_insert\<close>)

lemma insert_user_inv:
  assumes "auth_inv db" and "us_id u \<notin> us_id ` set (au_users db)"
  shows "auth_inv (fst (insert_user u db))"
proof -
  have "distinct (List.map_filter us_walletAddress (rows @ [u]))"
    if "distinct (List.map_filter us_walletAddress rows)"
      "\<And>v. v \<in> set rows \<Longrightarrow> us_walletAddress u = None \<or> us_walletAddress v \<noteq> us_walletAddress u" for rows
    using that by (auto simp: map_filter_def image_iff)
  then show ?thesis
    using assms by (auto simp: insert_user_def auth_inv_def map_key_insert sql_insert_def)
qed

lemma delete_session_inv:
  "auth_inv db \<Longrightarrow> auth_inv (db\<lparr> au_sessions := sql_delete P (au_sessions db) \<rparr>)"
  by (auto simp: auth_inv_def distinct_filter_key set_delete)

lemma auth_step_inv: "auth_step H cfg db db' \<Longrightarrow> auth_inv db \<Longrightarrow> auth_inv db'"
proof (induction rule: auth_step.induct)
  case (register E db email pw w role)
  let ?u = "new_user H E email pw w role"
  have new: "auth_inv (fst (insert_user ?u db))"
    by (rule insert_user_inv) (use register in \<open>simp_all add: new_user_def\<close>)
  have "auth_inv (fst (issueTokens H cfg E (us_id ?u) (us_email ?u) (us_roles ?u) db1))"
    if "insert_user ?u db = (db1, Inr ())" for db1
    by (rule issueTokens_inv)
      (use new that register in \<open>auto simp: insert_user_def sql_insert_def split: if_splits\<close>)
  with new register.prems show ?case
    by (auto simp: register_def h_bind_def h_read_def h_throw_def Let_def split: prod.splits sum.splits)
next
  case (login E db email pw)
  then show ?case
    by (auto simp: login_def h_bind_def h_read_def h_throw_def split: option.splits
        intro!: issueTokens_inv dest!: find_Some_memD)
next
  case (refresh E db tok)
  then show ?case
    by (auto simp: refresh_tokens_def h_bind_def h_read_def h_lift_def h_throw_def h_modify_def set_delete
        split: option.splits list.splits sum.splits intro!: issueTokens_inv delete_session_inv
        dest!: find_Some_memD)
qed

section \<open>Refresh\<close>

lemma live_sessions_mem:
  "s \<in> set (live_sessions E u db) \<longleftrightarrow> s \<in> set (au_sessions db) \<and> se_userId s = u \<and> js_now E < se_expiresAt s"
  by (auto simp: live_sessions_def)

lemma live_sessions_newest:
  assumes "live_sessions E u db = s # ss" and "x \<in> set (live_sessions E u db)"
  shows "se_createdAt x \<le> se_createdAt s"
proof -
  have "sorted (map (\<lambda>s. - se_createdAt s) (live_sessions E u db))" by (simp add: live_sessions_def)
  then show ?thesis using assms by auto
qed

lemma refresh_eq:
  assumes "jwt_verify H (refreshSecret cfg) (js_now E) tok = Some u" and "live_sessions E u db = s # ss"
    and "bcrypt_compare H tok (se_refreshTokenHash s)" and "List.find (\<lambda>x. us_id x = u) (au_users db) = Some usr"
  shows "refresh_tokens H cfg E tok db = issueTokens H cfg E u (us_email usr) (us_roles usr)
    (db\<lparr> au_sessions := sql_delete (\<lambda>x. se_id x = se_id s) (au_sessions db) \<rparr>)"
proof -
  have "us_id usr = u" using assms(4) by (auto dest: find_Some_memD)
  with assms show ?thesis
    by (simp add: refresh_tokens_def verifyRefreshToken_def h_bind_def h_lift_def h_read_def h_modify_def)
qed

lemma refresh_accepted:
  assumes "refresh_tokens H cfg E tok db = (db', Inr r)"
  obtains u s ss usr where "jwt_verify H (refreshSecret cfg) (js_now E) tok = Some u"
    "live_sessions E u db = s # ss" "bcrypt_compare H tok (se_refreshTokenHash s)"
    "List.find (\<lambda>x. us_id x = u) (au_users db) = Some usr"
  using assms
  by (auto simp: refresh_tokens_def verifyRefreshToken_def h_bind_def h_lift_def h_read_def h_throw_def
      split: option.splits list.splits if_splits)

text \<open>
  C6. A refresh succeeds only for a verified token that matches the newest live session of its
  user; it removes that session, stores exactly one new session, and signs the new tokens with
  the current email and roles of the user.
\<close>

theorem refresh_rotates_the_newest_session:
  assumes "uuid E 1 \<notin> se_id ` set (au_sessions db)"
    and "refresh_tokens H cfg E tok db = (db', Inr (a, t))"
  shows "\<exists>u s usr asec rsec x. jwt_verify H (refreshSecret cfg) (js_now E) tok = Some u \<and>
    s \<in> set (live_sessions E u db) \<and> (\<forall>y \<in> set (live_sessions E u db). se_createdAt y \<le> se_createdAt s) \<and>
    bcrypt_compare H tok (se_refreshTokenHash s) \<and>
    List.find (\<lambda>v. us_id v = u) (au_users db) = Some usr \<and>
    jwt_sign H asec (or_else (accessExpiresIn cfg) ''15m'') (js_now E)
      \<lparr> jp_sub = u, jp_email = us_email usr, jp_roles = us_roles usr \<rparr> = Inr a \<and>
    jwt_sign H rsec (or_else (refreshExpiresIn cfg) ''7d'') (js_now E)
      \<lparr> jp_sub = u, jp_email = us_email usr, jp_roles = us_roles usr \<rparr> = Inr t \<and>
    Some asec = accessSecret cfg \<and> Some rsec = refreshSecret cfg \<and>
    au_users db' = au_users db \<and> se_id s \<notin> se_id ` set (au_sessions db') \<and>
    au_sessions db' = sql_delete (\<lambda>y. se_id y = se_id s) (au_sessions db) @ [new_session H E u t x]"
proof -
  obtain u s ss usr where r: "jwt_verify H (refreshSecret cfg) (js_now E) tok = Some u"
    "live_sessions E u db = s # ss" "bcrypt_compare H tok (se_refreshTokenHash s)"
    "List.find (\<lambda>x. us_id x = u) (au_users db) = Some usr"
    by (rule refresh_accepted [OF assms(2)])
  let ?db = "db\<lparr> au_sessions := sql_delete (\<lambda>x. se_id x = se_id s) (au_sessions db) \<rparr>"
  have eq: "issueTokens H cfg E u (us_email usr) (us_roles usr) ?db = (db', Inr (a, t))"
    using assms(2) refresh_eq [OF r] by simp
  have s: "s \<in> set (live_sessions E u db)" using r(2) by simp
  then have "se_id s \<noteq> uuid E 1" using assms(1) unfolding live_sessions_mem by (metis image_eqI)
  moreover from eq obtain asec rsec x where
    "Some asec = accessSecret cfg" "Some rsec = refreshSecret cfg"
    "signed H asec (or_else (accessExpiresIn cfg) ''15m'') (js_now E) \<lparr> jp_sub = u, jp_email = us_email usr, jp_roles = us_roles usr \<rparr> = Inr a"
    "signed H rsec (or_else (refreshExpiresIn cfg) ''7d'') (js_now E) \<lparr> jp_sub = u, jp_email = us_email usr, jp_roles = us_roles usr \<rparr> = Inr t"
    "db' = ?db\<lparr> au_sessions := sql_insert (new_session H E u t x) (au_sessions ?db) \<rparr>"
    by (cases rule: issueTokens_cases [of H cfg E u "us_email usr" "us_roles usr" ?db]) auto
  ultimately show ?thesis
    using r s live_sessions_newest [OF r(2)]
    by (intro exI [of _ u] exI [of _ s] exI [of _ usr] exI [of _ asec] exI [of _ rsec] exI [of _ x])
      (auto simp: sql_insert_def set_delete signed_def split: sum.splits)
qed

text \<open>
  What the libraries document: bcryptjs compares the first 72 bytes only; a signed token starts with
  the encoded header and the encoded payload, whose first field is the subject, so that tokens for
  the same subject of 36 characters agree on their first 72 characters.
\<close>

definition bcrypt_72 :: "auth_host \<Rightarrow> bool" where
  "bcrypt_72 H \<longleftrightarrow> (\<forall>salt p q. take 72 p = take 72 q \<longrightarrow> bcrypt_compare H p (bcrypt_hash H salt q))"

definition jwt_subject_first :: "auth_host \<Rightarrow> bool" where
  "jwt_subject_first H \<longleftrightarrow>
     (\<forall>sec ex n p t ex' n' p' t'. length (jp_sub p) = 36 \<longrightarrow> jp_sub p' = jp_sub p \<longrightarrow>
        jwt_sign H sec ex n p = Inr t \<longrightarrow> jwt_sign H sec ex' n' p' = Inr t' \<longrightarrow> take 72 t = take 72 t')"

definition session_issued :: "auth_host \<Rightarrow> string \<Rightarrow> session_row \<Rightarrow> bool" where
  "session_issued H sec s \<longleftrightarrow>
     (\<exists>salt ex n p t. jwt_sign H sec ex n p = Inr t \<and> jp_sub p = se_userId s \<and>
        se_refreshTokenHash s = bcrypt_hash H salt t)"

definition sessions_issued :: "auth_host \<Rightarrow> string \<Rightarrow> auth_db \<Rightarrow> bool" where
  "sessions_issued H sec db \<longleftrightarrow> (\<forall>s \<in> set (au_sessions db). session_issued H sec s)"

lemma issueTokens_issued:
  assumes "refreshSecret cfg = Some sec" and "sessions_issued H sec db"
  shows "sessions_issued H sec (fst (issueTokens H cfg E u em rs db))"
proof (cases rule: issueTokens_cases [of H cfg E u em rs db])
  case (issued asec rsec a t x)
  have "jwt_sign H sec (or_else (refreshExpiresIn cfg) ''7d'') (js_now E) \<lparr> jp_sub = u, jp_email = em, jp_roles = rs \<rparr> = Inr t"
    using issued(2,4) assms(1) by (auto simp: signed_def split: sum.splits)
  then have "session_issued H sec (new_session H E u t x)"
    unfolding session_issued_def by (intro exI conjI) (assumption, simp_all)
  with assms(2) show ?thesis
    by (simp add: issued(6) sessions_issued_def set_insert)
qed (use assms in simp)

lemma auth_step_issued:
  assumes "refreshSecret cfg = Some sec"
  shows "auth_step H cfg db db' \<Longrightarrow> sessions_issued H sec db \<Longrightarrow> sessions_issued H sec db'"
proof (induction rule: auth_step.induct)
  case (register E db email pw w role)
  have "sessions_issued H sec (fst (insert_user u db))" for u
    using register.prems by (simp add: insert_user_def sessions_issued_def)
  with register.prems show ?case
    by (auto simp: register_def h_bind_def h_read_def h_throw_def Let_def split: prod.splits sum.splits
        intro!: issueTokens_issued [OF assms]) (metis fst_conv)+
next
  case (login E db email pw)
  then show ?case
    by (auto simp: login_def h_bind_def h_read_def h_throw_def split: option.splits
        intro!: issueTokens_issued [OF assms])
next
  case (refresh E db tok)
  have "sessions_issued H sec (db\<lparr> au_sessions := sql_delete P (au_sessions db) \<rparr>)" for P
    using refresh.prems by (simp add: sessions_issued_def set_delete)
  with refresh.prems show ?case
    by (auto simp: refresh_tokens_def h_bind_def h_read_def h_lift_def h_throw_def h_modify_def
        split: option.splits list.splits sum.splits intro!: issueTokens_issued [OF assms])
qed

definition auth0 :: auth_db where
  "auth0 = \<lparr> au_users = [], au_sessions = [] \<rparr>"

lemma auth_reachable:
  assumes "(auth_step H cfg)\<^sup>*\<^sup>* auth0 db"
  shows "auth_inv db" and "refreshSecret cfg = Some sec \<Longrightarrow> sessions_issued H sec db"
proof -
  show "auth_inv db"
    using assms by induction (auto simp: auth0_def auth_inv_def map_filter_def dest: auth_step_inv)
  show "sessions_issued H sec db" if "refreshSecret cfg = Some sec"
    using assms by induction (auto simp: auth0_def sessions_issued_def dest: auth_step_issued [OF that])
qed

lemma replaced_refresh_token_is_accepted:
  assumes "bcrypt_72 H" and "jwt_subject_first H" and "(auth_step H cfg)\<^sup>*\<^sup>* auth0 db"
    and "refreshSecret cfg = Some sec" and "jwt_sign H sec ex n p = Inr tok" and "length (jp_sub p) = 36"
    and "jwt_verify H (Some sec) (js_now E) tok = Some (jp_sub p)"
    and "live_sessions E (jp_sub p) db \<noteq> []"
  shows "\<exists>usr s. usr \<in> set (au_users db) \<and> us_id usr = jp_sub p \<and> s \<in> set (live_sessions E (jp_sub p) db) \<and>
    refresh_tokens H cfg E tok db = issueTokens H cfg E (jp_sub p) (us_email usr) (us_roles usr)
      (db\<lparr> au_sessions := sql_delete (\<lambda>x. se_id x = se_id s) (au_sessions db) \<rparr>)"
proof -
  obtain s ss where s: "live_sessions E (jp_sub p) db = s # ss" using assms(8) by (cases "live_sessions E (jp_sub p) db") auto
  then have mem: "s \<in> set (au_sessions db)" "se_userId s = jp_sub p"
    using live_sessions_mem [of s E "jp_sub p" db] by auto
  obtain salt ex' n' p' t where t: "jwt_sign H sec ex' n' p' = Inr t" "jp_sub p' = jp_sub p"
    "se_refreshTokenHash s = bcrypt_hash H salt t"
    using auth_reachable(2) [OF assms(3,4)] mem unfolding sessions_issued_def session_issued_def by metis
  have "take 72 tok = take 72 t"
    using assms(2,5,6) t(1,2) unfolding jwt_subject_first_def by blast
  then have cmp: "bcrypt_compare H tok (se_refreshTokenHash s)" using assms(1) t(3) by (simp add: bcrypt_72_def)
  have "jp_sub p \<in> us_id ` set (au_users db)"
    using auth_reachable(1) [OF assms(3)] mem unfolding auth_inv_def by metis
  then obtain usr where usr: "List.find (\<lambda>x. us_id x = jp_sub p) (au_users db) = Some usr"
    by (cases "List.find (\<lambda>x. us_id x = jp_sub p) (au_users db)") (auto simp: find_None_iff)
  show ?thesis
    using refresh_eq [of H cfg E tok "jp_sub p" db s ss usr] assms(4,7) s cmp usr find_Some_memD [OF usr]
    by (intro exI [of _ usr] exI [of _ s]) simp
qed

section \<open>An instance\<close>

definition jwt_header :: string where
  "jwt_header = ''eyJhbGciOiJIUzI1NiIsInR5cCI6IkpXVCJ9.''"

definition sample_auth_host :: auth_host where
  "sample_auth_host = \<lparr> bcrypt_hash = (\<lambda>salt p. take 72 p), bcrypt_compare = (\<lambda>p h. take 72 p = h),
     jwt_sign = (\<lambda>sec ex n p. Inr (jwt_header @ jp_sub p @ ''.'' @ jp_email p @ ''.'' @ bigint_toString n @ ''.'' @ sec)),
     jwt_verify = (\<lambda>sec n t. if take 37 t = jwt_header then Some (take 36 (drop 37 t)) else None) \<rparr>"

definition sample_jwt :: jwt_config where
  "sample_jwt = \<lparr> accessSecret = Some ''a'', refreshSecret = Some ''r'', accessExpiresIn = None,
     refreshExpiresIn = Some ''7d'' \<rparr>"

text \<open>An id of the length of a UUID.\<close>

definition sample_uid :: string where
  "sample_uid = ''550e8400-e29b-41d4-a716-446655440000''"

definition auth_env :: "int \<Rightarrow> env" where
  "auth_env n = \<lparr> js_now = n, db_now = n,
     uuid = (\<lambda>k. if k = 0 then sample_uid else bigint_toString (100 * n + int k)),
     js_date = (\<lambda>s. None), pg_bigint = (\<lambda>s. None) \<rparr>"

definition auth1 :: auth_db where
  "auth1 = fst (register sample_auth_host sample_jwt (auth_env 1) ''a@b'' ''password'' None None auth0)"

definition token_at :: "int \<Rightarrow> string" where
  "token_at n = jwt_header @ sample_uid @ ''.'' @ ''a@b'' @ ''.'' @ bigint_toString n @ ''.'' @ ''r''"

definition auth2 :: auth_db where
  "auth2 = fst (refresh_tokens sample_auth_host sample_jwt (auth_env 2) (token_at 1) auth1)"

lemma auth2_reachable: "(auth_step sample_auth_host sample_jwt)\<^sup>*\<^sup>* auth0 auth2"
proof -
  have "auth_step sample_auth_host sample_jwt auth0 auth1"
    unfolding auth1_def by (rule auth_step.register) (simp_all add: auth0_def)
  moreover have "auth_step sample_auth_host sample_jwt auth1 auth2"
    unfolding auth2_def by (rule auth_step.refresh) code_simp
  ultimately show ?thesis by simp
qed

lemma sample_auth_laws: "bcrypt_72 sample_auth_host" "jwt_subject_first sample_auth_host"
proof -
  show "bcrypt_72 sample_auth_host" by (simp add: bcrypt_72_def sample_auth_host_def)
  have "length jwt_header = 37" by (simp add: jwt_header_def)
  then show "jwt_subject_first sample_auth_host"
    by (auto simp: jwt_subject_first_def sample_auth_host_def)
qed

theorem refresh_rotates_the_newest_session_witness:
  "\<exists>s. s \<in> set (au_sessions auth1) \<and> se_id s \<notin> se_id ` set (au_sessions auth2)"
proof -
  have "uuid (auth_env 2) 1 \<notin> se_id ` set (au_sessions auth1)" by code_simp
  moreover have "case snd (refresh_tokens sample_auth_host sample_jwt (auth_env 2) (token_at 1) auth1) of
      Inl e \<Rightarrow> False | Inr r \<Rightarrow> True" by code_simp
  then obtain a t where "refresh_tokens sample_auth_host sample_jwt (auth_env 2) (token_at 1) auth1 = (auth2, Inr (a, t))"
    unfolding auth2_def by (cases "refresh_tokens sample_auth_host sample_jwt (auth_env 2) (token_at 1) auth1")
      (auto split: sum.splits)
  ultimately show ?thesis
    using refresh_rotates_the_newest_session [of "auth_env 2" auth1 sample_auth_host sample_jwt "token_at 1" auth2]
    by (metis live_sessions_mem)
qed

lemma replaced_refresh_token_is_accepted_witness:
  "\<exists>usr s. usr \<in> set (au_users auth2) \<and> s \<in> set (live_sessions (auth_env 3) sample_uid auth2) \<and>
     refresh_tokens sample_auth_host sample_jwt (auth_env 3) (token_at 1) auth2 =
       issueTokens sample_auth_host sample_jwt (auth_env 3) sample_uid (us_email usr) (us_roles usr)
         (auth2\<lparr> au_sessions := sql_delete (\<lambda>x. se_id x = se_id s) (au_sessions auth2) \<rparr>)"
proof -
  let ?p = "\<lparr> jp_sub = sample_uid, jp_email = ''a@b'', jp_roles = [Role_INVESTOR] \<rparr>"
  have "refreshSecret sample_jwt = Some ''r''" by (simp add: sample_jwt_def)
  moreover have "jwt_sign sample_auth_host ''r'' ''7d'' 1 ?p = Inr (token_at 1)" "length (jp_sub ?p) = 36"
    by (simp_all add: sample_auth_host_def token_at_def sample_uid_def)
  moreover have "jwt_verify sample_auth_host (Some ''r'') (js_now (auth_env 3)) (token_at 1) = Some (jp_sub ?p)"
    by code_simp
  moreover have "live_sessions (auth_env 3) (jp_sub ?p) auth2 \<noteq> []" by code_simp
  ultimately show ?thesis
    using replaced_refresh_token_is_accepted [OF sample_auth_laws auth2_reachable, of "''r''" "''7d''" 1 ?p "token_at 1" "auth_env 3"]
    by auto
qed

end
