(* ===== verification/Sandbox.thy ===== *)
theory Sandbox
  imports JsNumber
begin

text \<open>
  The sandbox of the backend (\<open>backend/src/sandbox\<close>): simulators of external institutions and an
  exit desk with a credit line. The SHA-256 digest is a parameter.
\<close>

section \<open>State and constants\<close>

record market_listing =
  ml_id :: string
  ml_tokenMint :: string
  ml_seller :: string
  ml_quantity :: jsnum
  ml_pricePerToken :: jsnum
  ml_status :: string

record sandbox =
  creditLinePkr :: jsnum
  sb_listings :: "market_listing list"

definition initial_sandbox :: sandbox where
  "initial_sandbox = \<lparr> creditLinePkr = Fin 50000000, sb_listings =
     [\<lparr> ml_id = ''SM-001'', ml_tokenMint = ''demo-real-estate-token'',
        ml_seller = ''SeedInvestor111111111111111111111111111111111'', ml_quantity = Fin 2500,
        ml_pricePerToken = Fin 980, ml_status = ''OPEN'' \<rparr>,
      \<lparr> ml_id = ''SM-002'', ml_tokenMint = ''demo-real-estate-token'',
        ml_seller = ''SeedInvestor222222222222222222222222222222222'', ml_quantity = Fin 1000,
        ml_pricePerToken = Fin 1015, ml_status = ''OPEN'' \<rparr>] \<rparr>"

definition hashPayload :: "(string \<Rightarrow> string) \<Rightarrow> jsval \<Rightarrow> string res" where
  "hashPayload sha256 payload =
     (case json_stringify payload of
        None \<Rightarrow> Inl (JsError ''The data argument must be of type string'')
      | Some t \<Rightarrow> Inr (sha256 t))"

section \<open>Simulators\<close>

definition integration :: "string \<Rightarrow> string \<Rightarrow> string \<Rightarrow> jsval" where
  "integration mock production status =
     JObj [(''mock'', JStr mock), (''production'', JStr production), (''status'', JStr status)]"

definition readiness :: jsval where
  "readiness = JObj
     [(''phase4Status'', JStr ''SANDBOX_ONLY''),
      (''message'', JStr ''Real NADRA, bank, PLRA, valuer, custodian, PLF, certifier, court, insurance, Shariah, RDA, and FBR integrations require external agreements before production.''),
      (''integrations'', JArr
        [integration ''NADRA Simulator'' ''NADRA Verisys API'' ''MOU_REQUIRED'',
         integration ''Bank Payment Simulator'' ''Bank BaaS API'' ''PARTNERSHIP_REQUIRED'',
         integration ''PLRA Simulator'' ''PLRA digital Fard API'' ''MOU_REQUIRED'',
         integration ''Valuer Simulator'' ''SECP valuer integration'' ''PARTNERSHIP_REQUIRED'',
         integration ''Custodian Simulator'' ''Licensed custodian integration'' ''PARTNERSHIP_REQUIRED'',
         integration ''PLF Institution Simulator'' ''NBFC/bank credit line'' ''REGULATORY_APPROVAL_REQUIRED'',
         integration ''Court Simulator'' ''Manual compliance workflow'' ''NO_PUBLIC_API'',
         integration ''Insurance Simulator'' ''Licensed insurer API'' ''PARTNERSHIP_REQUIRED'',
         integration ''FBR CGT Reporting'' ''FBR reporting workflow'' ''SPEC_REQUIRED''])]"

definition listSecondaryMarket :: "sandbox \<Rightarrow> market_listing list" where
  "listSecondaryMarket s = sb_listings s"

definition certifyMilestone :: "(string \<Rightarrow> string) \<Rightarrow> jsval \<Rightarrow> jsval res" where
  "certifyMilestone sha256 body = (case hashPayload sha256 body of Inl e \<Rightarrow> Inl e | Inr h \<Rightarrow> Inr (JObj
     [(''status'', JStr ''CERTIFIED''), (''topic'', JNum (Fin 6)),
      (''certifier'', JStr ''sandbox-construction-certifier''), (''certificateHash'', JStr h),
      (''onChainInstruction'', JStr ''fracks_asset_registry.attest_milestone'')]))"

definition heir :: "string \<Rightarrow> rat \<Rightarrow> jsval" where
  "heir label shareBps = JObj [(''label'', JStr label), (''shareBps'', JNum (Fin shareBps))]"

definition getWirasat :: "(string \<Rightarrow> string) \<Rightarrow> string \<Rightarrow> jsval res" where
  "getWirasat sha256 reference =
     (case hashPayload sha256 (JObj [(''reference'', JStr reference), (''type'', JStr ''deceased-cnic'')]) of
        Inl e \<Rightarrow> Inl e
      | Inr cnic \<Rightarrow>
     (case hashPayload sha256 (JObj [(''reference'', JStr reference), (''type'', JStr ''court'')]) of
        Inl e \<Rightarrow> Inl e
      | Inr court \<Rightarrow> Inr (JObj
         [(''reference'', JStr reference), (''status'', JStr ''FOUND''), (''deceasedCnicHash'', JStr cnic),
          (''courtRefHash'', JStr court),
          (''heirs'', JArr [heir ''spouse'' 1250, heir ''son'' 4375, heir ''daughter'' 4375])])))"

definition getInsurancePolicy :: "(string \<Rightarrow> string) \<Rightarrow> string \<Rightarrow> jsval res" where
  "getInsurancePolicy sha256 assetId =
     (case hashPayload sha256 (JObj [(''assetId'', JStr assetId), (''policy'', JStr ''sandbox'')]) of
        Inl e \<Rightarrow> Inl e
      | Inr h \<Rightarrow> Inr (JObj
         [(''assetId'', JStr assetId), (''policyStatus'', JStr ''ACTIVE''),
          (''insurer'', JStr ''Sandbox Property Insurer''), (''coveredAmount'', JNum (Fin 100000000)),
          (''policyHash'', JStr h)]))"

text \<open>\<open>{ assetId, ...body }\<close>: a field of the body replaces the asset id.\<close>

definition loss_payload :: "string \<Rightarrow> (string \<times> jsval) list \<Rightarrow> jsval" where
  "loss_payload assetId body =
     (let own = (case map_of body ''assetId'' of None \<Rightarrow> JStr assetId | Some v \<Rightarrow> v)
      in JObj ((''assetId'', own) # filter (\<lambda>(k, v). k \<noteq> ''assetId'') body))"

definition declareInsuranceLoss :: "(string \<Rightarrow> string) \<Rightarrow> string \<Rightarrow> (string \<times> jsval) list \<Rightarrow> jsval res" where
  "declareInsuranceLoss sha256 assetId body =
     (case hashPayload sha256 (loss_payload assetId body) of Inl e \<Rightarrow> Inl e | Inr h \<Rightarrow> Inr (JObj
       [(''assetId'', JStr assetId), (''status'', JStr ''CLAIM_APPROVED''), (''insuranceClaimHash'', JStr h),
        (''simulatedWebhook'', JStr ''insurance.claim.approved''),
        (''onChainInstruction'', JStr ''fracks_asset_registry.declare_total_loss'')]))"

definition certifyShariah :: "(string \<Rightarrow> string) \<Rightarrow> jsval \<Rightarrow> jsval res" where
  "certifyShariah sha256 body = (case hashPayload sha256 body of Inl e \<Rightarrow> Inl e | Inr h \<Rightarrow> Inr (JObj
     [(''status'', JStr ''CERTIFIED''), (''topic'', JNum (Fin 7)), (''board'', JStr ''sandbox-shariah-board''),
      (''certificationHash'', JStr h)]))"

section \<open>The exit desk\<close>

text \<open>The body is any JSON object; a field that is missing is \<open>undefined\<close>.\<close>

definition exit_proceeds :: "(string \<times> jsval) list \<Rightarrow> jsnum" where
  "exit_proceeds request =
     num_floor (num_mul (num_mul (js_Number (js_field request ''quantity'')) (js_Number (js_field request ''nav'')))
       (round_double (98 / 100)))"

datatype exit_answer =
    ExitRejected jsnum
  | ExitApproved string jsnum jsnum

definition requestQuickExit ::
    "(string \<Rightarrow> string) \<Rightarrow> (string \<times> jsval) list \<Rightarrow> (sandbox, exit_answer) handler" where
  "requestQuickExit sha256 request s =
     (let proceeds = exit_proceeds request
      in if num_less (creditLinePkr s) proceeds then (s, Inr (ExitRejected (creditLinePkr s)))
         else
           let s' = s\<lparr> creditLinePkr := num_sub (creditLinePkr s) proceeds \<rparr>
           in case hashPayload sha256 (JObj request) of
                Inl e \<Rightarrow> (s', Inl e)
              | Inr h \<Rightarrow> (s', Inr (ExitApproved h proceeds (creditLinePkr s'))))"

text \<open>The answer as it is sent.\<close>

fun exit_json :: "exit_answer \<Rightarrow> jsval" where
  "exit_json (ExitRejected available) = JObj
     [(''status'', JStr ''REJECTED''), (''reason'', JStr ''PLF credit line exhausted''),
      (''availableCreditLinePkr'', JNum available)]"
| "exit_json (ExitApproved h proceeds available) = JObj
     [(''status'', JStr ''APPROVED''), (''requestHash'', JStr h), (''proceeds'', JNum proceeds),
      (''discountBps'', JNum (Fin 200)), (''availableCreditLinePkr'', JNum available),
      (''simulatedSteps'', JArr [JStr ''requested'', JStr ''institution_buying'', JStr ''fiat_on_the_way'',
        JStr ''complete''])]"

fun run_exits ::
    "(string \<Rightarrow> string) \<Rightarrow> (string \<times> jsval) list list \<Rightarrow> sandbox \<Rightarrow> sandbox \<times> jsnum list" where
  "run_exits sha256 [] s = (s, [])"
| "run_exits sha256 (r # rs) s =
     (let (s1, a) = requestQuickExit sha256 r s; (s2, ps) = run_exits sha256 rs s1
      in (s2, (case a of Inr (ExitApproved h p c) \<Rightarrow> [p] | _ \<Rightarrow> []) @ ps))"

section \<open>Properties\<close>

definition proper_exit :: "(string \<times> jsval) list \<Rightarrow> bool" where
  "proper_exit r \<longleftrightarrow> (\<exists>p \<ge> 0. exit_proceeds r = Fin (of_int p))"

lemma json_object_stringify: "json_stringify (JObj fs) \<noteq> None"
  by simp

lemma exit_keeps_credit:
  assumes "creditLinePkr s = Fin (of_int c)" and "0 \<le> c" and "c \<le> 50000000" and "proper_exit r"
  obtains (rejected) p where "requestQuickExit sha r s = (s, Inr (ExitRejected (Fin (of_int c))))"
      "exit_proceeds r = Fin (of_int p)" "c < p"
  | (approved) h p where "0 \<le> p" "p \<le> c" "exit_proceeds r = Fin (of_int p)"
      "requestQuickExit sha r s = (s\<lparr> creditLinePkr := Fin (of_int (c - p)) \<rparr>,
         Inr (ExitApproved h (Fin (of_int p)) (Fin (of_int (c - p)))))"
proof -
  obtain p where p: "0 \<le> p" "exit_proceeds r = Fin (of_int p)" using assms(4) by (auto simp: proper_exit_def)
  show thesis
  proof (cases "c < p")
    case True
    then show thesis using assms(1) p by (intro rejected [of p]) (simp_all add: requestQuickExit_def Let_def)
  next
    case False
    then have "round_double (of_int (c - p)) = Fin (of_int (c - p))"
      using assms p by (intro round_double_int) auto
    then have "num_sub (Fin (of_int c)) (Fin (of_int p)) = Fin (of_int (c - p))" by simp
    moreover obtain h where "hashPayload sha (JObj r) = Inr h" by (simp add: hashPayload_def)
    ultimately show thesis
      using False assms(1) p
      by (intro approved [of p h]) (simp_all add: requestQuickExit_def Let_def del: num_sub.simps)
  qed
qed

lemma approved_exits_stay_within_the_credit_line:
  assumes "creditLinePkr s = Fin (of_int c)" and "0 \<le> c" and "c \<le> 50000000" and "list_all proper_exit rs"
  shows "\<exists>ps c'. run_exits sha rs s = (s\<lparr> creditLinePkr := Fin (of_int c') \<rparr>, map (\<lambda>p. Fin (of_int p)) ps) \<and>
    0 \<le> c' \<and> list_all (\<lambda>p. 0 \<le> p) ps \<and> sum_list ps + c' = c"
  using assms
proof (induction rs arbitrary: s c)
  case Nil
  then show ?case by (intro exI [of _ "[]"] exI [of _ c]) simp
next
  case (Cons r rs)
  from Cons.prems have r: "proper_exit r" "list_all proper_exit rs" by simp_all
  from Cons.prems(1-3) r(1) show ?case
  proof (cases rule: exit_keeps_credit [where sha = sha])
    case (rejected p)
    with Cons.IH [OF Cons.prems(1-3) r(2)] show ?thesis by (auto simp: Let_def)
  next
    case (approved h p)
    have "\<exists>ps c'. run_exits sha rs (s\<lparr> creditLinePkr := Fin (of_int (c - p)) \<rparr>) =
        (s\<lparr> creditLinePkr := Fin (of_int (c - p)) \<rparr>\<lparr> creditLinePkr := Fin (of_int c') \<rparr>, map (\<lambda>p. Fin (of_int p)) ps) \<and>
      0 \<le> c' \<and> list_all (\<lambda>p. 0 \<le> p) ps \<and> sum_list ps + c' = c - p"
      by (rule Cons.IH) (use approved Cons.prems r(2) in simp_all)
    then obtain ps c' where "run_exits sha rs (s\<lparr> creditLinePkr := Fin (of_int (c - p)) \<rparr>) =
        (s\<lparr> creditLinePkr := Fin (of_int c') \<rparr>, map (\<lambda>p. Fin (of_int p)) ps)"
      "0 \<le> c'" "list_all (\<lambda>p. 0 \<le> p) ps" "sum_list ps + c' = c - p" by auto
    with approved show ?thesis
      by (intro exI [of _ "p # ps"] exI [of _ c']) (simp add: Let_def)
  qed
qed

text \<open>A request without a price takes the limit away.\<close>

lemma NaN_not_less: "\<not> num_less NaN x" "\<not> num_less x NaN"
  by (cases x; simp)+

lemma missing_nav: "js_field r ''nav'' = JUndefined \<Longrightarrow> exit_proceeds r = NaN"
  by (cases "js_Number (js_field r ''quantity'')") (simp_all add: exit_proceeds_def num_floor_def)

lemma an_exit_without_price_removes_the_limit:
  assumes "js_field r ''nav'' = JUndefined"
  shows "creditLinePkr (fst (requestQuickExit sha r s)) = NaN \<and>
    (\<exists>h. snd (requestQuickExit sha r s) = Inr (ExitApproved h NaN NaN)) \<and>
    (\<exists>h. snd (requestQuickExit sha r' (fst (requestQuickExit sha r s))) = Inr (ExitApproved h (exit_proceeds r') NaN))"
proof -
  obtain h h' where h: "hashPayload sha (JObj r) = Inr h" "hashPayload sha (JObj r') = Inr h'"
    by (simp add: hashPayload_def)
  have sub: "num_sub x NaN = NaN" for x by (cases x) simp_all
  have first: "requestQuickExit sha r s = (s\<lparr> creditLinePkr := NaN \<rparr>, Inr (ExitApproved h NaN NaN))"
    using h(1) by (simp add: requestQuickExit_def missing_nav [OF assms] NaN_not_less sub Let_def)
  then show ?thesis
    using h(2) by (simp add: requestQuickExit_def [of _ r'] NaN_not_less Let_def)
qed

section \<open>Instances\<close>

definition sample_exit :: "rat \<Rightarrow> (string \<times> jsval) list" where
  "sample_exit q = [(''wallet'', JStr ''W''), (''tokenMint'', JStr ''M''), (''quantity'', JNum (Fin q)),
     (''nav'', JNum (Fin 1000))]"

lemma sample_proceeds: "exit_proceeds (sample_exit 30000) = Fin (of_int 29400000)"
  by code_simp

lemma approved_exits_stay_within_the_credit_line_witness:
  "\<exists>ps c'. run_exits (\<lambda>t. t) [sample_exit 30000, sample_exit 30000] initial_sandbox =
     (initial_sandbox\<lparr> creditLinePkr := Fin (of_int c') \<rparr>, map (\<lambda>p. Fin (of_int p)) ps) \<and>
   0 \<le> c' \<and> list_all (\<lambda>p. 0 \<le> p) ps \<and> sum_list ps + c' = 50000000"
proof (rule approved_exits_stay_within_the_credit_line)
  show "creditLinePkr initial_sandbox = Fin (of_int 50000000)" by (simp add: initial_sandbox_def)
  have "proper_exit (sample_exit 30000)"
    unfolding proper_exit_def sample_proceeds by (intro exI [of _ 29400000]) simp
  then show "list_all proper_exit [sample_exit 30000, sample_exit 30000]" by simp
qed simp_all

lemma an_exit_without_price_removes_the_limit_witness:
  "\<exists>h p. snd (requestQuickExit (\<lambda>t. t) (sample_exit 999999999)
     (fst (requestQuickExit (\<lambda>t. t) [(''quantity'', JNum (Fin 1))] initial_sandbox))) = Inr (ExitApproved h p NaN)"
  using an_exit_without_price_removes_the_limit [of "[(''quantity'', JNum (Fin 1))]" "\<lambda>t. t" initial_sandbox "sample_exit 999999999"]
  by (auto simp: js_field_def)

end
