(* ===== verification/ErrorMessages.thy ===== *)
theory ErrorMessages
  imports JsNumber
begin

text \<open>
  The error decoder of the web client (\<open>frontend/src/lib/errors.ts\<close>): from whatever a call to a
  program, a wallet or the RPC node threw, it makes the message the pages show. A thrown value is a
  JSON value; an error object is an object with the field \<open>message\<close> and, where the library adds
  them, \<open>code\<close>, \<open>error\<close> and \<open>logs\<close>. A dash of the messages that is not a Latin-1 character is
  written as its UTF-8 bytes. An error name that is a property of \<open>Object.prototype\<close> is taken as
  absent from the tables, as every other name they do not list.
\<close>

section \<open>Tables\<close>

record error_entry =
  ee_name :: string
  ee_message :: string
  ee_userMessage :: string

definition error_row :: "int \<Rightarrow> string \<Rightarrow> string \<Rightarrow> string \<Rightarrow> int \<times> error_entry" where
  "error_row code name message userMessage =
     (code, \<lparr> ee_name = name, ee_message = message, ee_userMessage = userMessage \<rparr>)"

definition TOKEN_HOOK_ERRORS :: "(int \<times> error_entry) list" where
  "TOKEN_HOOK_ERRORS = [
     error_row 6000 ''InvalidTokenState''
       ''Invalid FRACKS token state.''
       ''The token state account is invalid or not initialized.'',
     error_row 6001 ''InvalidTokenAccount''
       ''Invalid Token-2022 account.''
       ''The token account is not a valid Token-2022 account.'',
     error_row 6002 ''MissingTransferHook''
       ''Token-2022 mint is missing the FRACKS transfer hook.''
       ''This token does not have the required transfer hook configured.'',
     error_row 6003 ''MissingPermanentDelegate''
       ''Token-2022 mint is missing the FRACKS permanent delegate.''
       ''This token does not have the required permanent delegate extension.'',
     error_row 6004 ''InvalidExtraAccountMetas''
       ''Invalid extra-account-metas account.''
       ''The hook configuration account is invalid.'',
     error_row 6005 ''ProgramCalledOutsideTransfer''
       ''Transfer hook was called outside an active Token-2022 transfer.''
       ''The transfer hook can only be invoked during a token transfer.'',
     error_row 6006 ''MissingTransferApproval''
       ''FRACKS transfer approval is missing or invalid.''
       ''Transfer requires a compliance pre-approval. Please request approval before transferring.'',
     error_row 6007 ''NotController''
       ''Invalid controller authority.''
       ''You are not authorized to perform this action.'',
     error_row 6008 ''InsufficientBalance''
       ''Insufficient transferable balance.''
       ''Insufficient balance. Some funds may be frozen or locked up.'',
     error_row 6009 ''ArithmeticOverflow''
       ''Arithmetic overflow.''
       ''A numerical overflow occurred. The amount may be too large.'',
     error_row 6010 ''InvalidCompliance''
       ''Invalid compliance account.''
       ''The compliance configuration account is invalid.'',
     error_row 6011 ''InvalidOwnerState''
       ''Invalid FRACKS owner state.''
       ''The token ownership account is invalid.'',
     error_row 6012 ''NotOwner''
       ''Signer is not the FRACKS token owner.''
       ''Only the token owner can perform this action.'',
     error_row 6013 ''TooManyModules''
       ''Too many compliance modules for Token-2022 extra-account-metas.''
       ''The token has too many compliance modules attached. Remove some modules first.'',
     error_row 6014 ''InvalidComplianceModule''
       ''Invalid compliance module account.''
       ''One of the compliance module accounts is invalid.'']"

definition TOKEN_RAW_ERRORS :: "(int \<times> error_entry) list" where
  "TOKEN_RAW_ERRORS = [
     error_row 6000 ''NotOwner''
       ''Signer is not the owner.''
       ''Only the token owner can perform this action.'',
     error_row 6001 ''WalletNotVerified''
       ''Wallet is not verified.''
       ''Investor wallet is not registered and active in this token identity registry.'',
     error_row 6002 ''WalletFrozen''
       ''Wallet is frozen.''
       ''This wallet is frozen and cannot receive tokens.'',
     error_row 6003 ''TokenPaused''
       ''Token is paused.''
       ''This token is currently paused.'',
     error_row 6004 ''ComplianceCheckFailed''
       ''Compliance check failed.''
       ''This operation does not satisfy the token's configured compliance rules.'',
     error_row 6009 ''NotAgent''
       ''Signer is not an active agent.''
       ''Connected wallet is not an active token agent.'',
     error_row 6011 ''UnauthorizedAuthority''
       ''Signer is neither the suite owner nor an active agent.''
       ''Connected wallet is not authorized to operate this token suite.'',
     error_row 6032 ''InvalidTokenAccount''
       ''Token-2022 account is invalid.''
       ''A Token-2022 mint or token account is invalid.'']"

definition COMPLIANCE_RAW_ERRORS :: "(int \<times> error_entry) list" where
  "COMPLIANCE_RAW_ERRORS = [
     error_row 6047 ''ModuleAlreadyBound''
       ''Module is already bound.''
       ''This compliance module is already attached to the token.'',
     error_row 6048 ''ModuleNotBound''
       ''Module is not bound.''
       ''This compliance module is not attached to the token.'',
     error_row 6049 ''MissingModuleAccount''
       ''Missing module account.''
       ''A required compliance module account is missing.'',
     error_row 6050 ''InvalidModuleAccount''
       ''Invalid module account.''
       ''A compliance module account is invalid.'',
     error_row 6051 ''MissingModuleProgramAccount''
       ''Missing module program account.''
       ''A required compliance module program account is missing.'',
     error_row 6052 ''ModuleHookAuthorityMismatch''
       ''Module hook authority is not bound to this compliance state.''
       ''A compliance module's hook authority does not match the expected compliance state.'',
     error_row 6053 ''MissingModuleSupportAccount''
       ''Missing module support account.''
       ''A required compliance module support account is missing.'',
     error_row 6054 ''ComplianceCheckFailed''
       ''Compliance check failed.''
       ''This investor or mint does not satisfy the token's configured compliance modules.'']"

definition IRS_RAW_ERRORS :: "(int \<times> error_entry) list" where
  "IRS_RAW_ERRORS = [
     error_row 6015 ''WalletAlreadyRegistered''
       ''Wallet is already registered.''
       ''This wallet already has an identity registered.'',
     error_row 6016 ''WalletNotRegistered''
       ''Wallet is not registered.''
       ''This wallet does not have an identity registered.'',
     error_row 6017 ''InvalidCountryCode''
       ''Country code is invalid.''
       ''The provided country code is not valid.'',
     error_row 6038 ''InvalidFidAccount''
       ''FID account is missing or does not match the wallet.''
       ''This investor must create/register their FID first. The FID account is missing or does not belong to this wallet.'',
     error_row 6039 ''InvalidInvestorFid''
       ''Investor registration requires a non-issuer FID.''
       ''Investor onboarding requires an investor FID, not an issuer FID.'',
     error_row 6040 ''FidCountryMismatch''
       ''FID country does not match IRS identity country.''
       ''The investor FID country does not match the country entered for this identity.'']"

definition FRACKS_COMMON_ERRORS :: "(int \<times> error_entry) list" where
  "FRACKS_COMMON_ERRORS = [
     error_row 12000 ''NotOwner''
       ''Signer is not the owner.''
       ''Only the token owner can perform this action.'',
     error_row 12001 ''WalletNotVerified''
       ''Wallet is not verified.''
       ''Your wallet has not been verified. Complete KYC/identity verification to participate.'',
     error_row 12002 ''WalletFrozen''
       ''Wallet is frozen.''
       ''This wallet is frozen and cannot send or receive tokens.'',
     error_row 12003 ''TokenPaused''
       ''Token is paused.''
       ''All transfers for this token are currently paused by the issuer.'',
     error_row 12004 ''ComplianceCheckFailed''
       ''Compliance check failed.''
       ''This transfer does not meet compliance requirements. Contact the token issuer for details.'',
     error_row 12007 ''IssuerNotTrusted''
       ''Claim issuer is not trusted.''
       ''The identity claim issuer is not in the trusted issuers registry.'',
     error_row 12008 ''InvalidClaimSignature''
       ''Claim signature is invalid.''
       ''The identity claim has an invalid cryptographic signature.'',
     error_row 12009 ''NotAgent''
       ''Signer is not an active agent.''
       ''You do not have agent permissions for this token.'',
     error_row 12010 ''InsufficientBalance''
       ''Insufficient transferable balance.''
       ''Insufficient balance. Some funds may be frozen or subject to a lockup.'',
     error_row 12012 ''FidAlreadyExists''
       ''FID already exists for this wallet.''
       ''An identity record already exists for this wallet address.'',
     error_row 12013 ''InvalidRegistryReference''
       ''Registry reference is invalid.''
       ''The identity registry reference is invalid.'',
     error_row 12014 ''MaxModulesReached''
       ''Max modules reached.''
       ''The compliance module limit has been reached. Remove an existing module before adding a new one.'',
     error_row 12015 ''WalletAlreadyRegistered''
       ''Wallet is already registered.''
       ''This wallet already has an identity registered.'',
     error_row 12016 ''WalletNotRegistered''
       ''Wallet is not registered.''
       ''This wallet does not have an identity registered.'',
     error_row 12017 ''InvalidCountryCode''
       ''Country code is invalid.''
       ''The provided country code is not a valid ISO 3166-1 numeric code.'',
     error_row 12025 ''NotPendingOwner''
       ''Pending owner mismatch.''
       ''Only the pending owner can accept ownership.'',
     error_row 12026 ''MetadataTooLong''
       ''Metadata exceeds the documented length limits.''
       ''Token name, symbol, or ISIN exceeds the maximum length.'',
     error_row 12027 ''MissingEd25519Instruction''
       ''An ed25519 verification instruction is required before add_claim.''
       ''Identity claims require an Ed25519 signature verification instruction.'',
     error_row 12028 ''InvalidInstructionsSysvar''
       ''The provided instructions sysvar account is invalid.''
       ''Transaction instruction sysvar is missing or invalid.'',
     error_row 12029 ''ArithmeticOverflow''
       ''Arithmetic overflow.''
       ''A numerical overflow occurred.'',
     error_row 12030 ''ClaimFidMismatch''
       ''Claim account does not belong to the provided FID.''
       ''The claim does not belong to this identity.'',
     error_row 12031 ''RegistryAlreadyBound''
       ''Registry is already bound.''
       ''This identity registry is already bound.'',
     error_row 12032 ''RegistryNotBound''
       ''Registry is not bound.''
       ''This identity registry is not bound.'',
     error_row 12033 ''MaxBoundRegistriesReached''
       ''Maximum bound registries reached.''
       (''Cannot bind more registries '' @ [CHR 0xE2] @ [CHR 0x80] @ [CHR 0x93] @ '' the limit has been reached.''),
     error_row 12034 ''ArithmeticOverflow''
       ''Arithmetic overflow.''
       ''A numerical overflow occurred.'',
     error_row 12035 ''TooManyTopics''
       ''Too many topics supplied.''
       ''The number of claim topics exceeds the maximum allowed.'',
     error_row 12036 ''LabelTooLong''
       ''Issuer label is too long.''
       ''The issuer label exceeds the 64-character limit.'',
     error_row 12037 ''DuplicateTopic''
       ''Duplicate topic supplied.''
       ''Each claim topic must appear only once.'',
     error_row 12038 ''ArithmeticOverflow''
       ''Arithmetic overflow.''
       ''A numerical overflow occurred.'',
     error_row 12039 ''MaxTopicsReached''
       ''Maximum topics reached.''
       ''The maximum number of claim topics has been reached.'',
     error_row 12040 ''TopicAlreadyExists''
       ''Topic already exists.''
       ''This claim topic has already been registered.'',
     error_row 12041 ''TopicNotFound''
       ''Topic not found.''
       ''The requested claim topic was not found.'',
     error_row 12042 ''IdentityAgentAlreadyExists''
       ''Identity agent already exists.''
       ''This wallet is already an identity agent.'',
     error_row 12043 ''MaxIdentityAgentsReached''
       ''Maximum identity agents reached.''
       ''The maximum number of identity agents has been reached.'',
     error_row 12044 ''TrustedIssuerNotFound''
       ''Trusted issuer entry not found.''
       ''The trusted issuer entry was not found in the registry.'',
     error_row 12045 ''IssuerFidNotFound''
       ''Issuer FID account not found.''
       ''The issuer identity (FID) account was not found.'',
     error_row 12046 ''InvalidClaimSignature''
       ''Claim signature is invalid.''
       ''The identity claim has an invalid cryptographic signature.'',
     error_row 12047 ''ModuleAlreadyBound''
       ''Module is already bound.''
       ''This compliance module is already attached to the token.'',
     error_row 12048 ''ModuleNotBound''
       ''Module is not bound.''
       ''This compliance module is not attached to the token.'',
     error_row 12049 ''MissingModuleAccount''
       ''Missing module account.''
       ''A required compliance module account is missing.'',
     error_row 12050 ''InvalidModuleAccount''
       ''Invalid module account.''
       ''A compliance module account is invalid.'',
     error_row 12051 ''MissingModuleProgramAccount''
       ''Missing module program account.''
       ''A required compliance module program account is missing.'',
     error_row 12052 ''ModuleHookAuthorityMismatch''
       ''Module hook authority is not bound to this compliance state.''
       ''A compliance module's hook authority does not match the expected compliance state.'',
     error_row 12053 ''MissingModuleSupportAccount''
       ''Missing module support account.''
       ''A required compliance module support account is missing.'',
     error_row 6077 ''InvalidCustodian''
       ''Invalid custodian wallet.''
       ''Select a valid custodian wallet for this asset.'',
     error_row 6078 ''InvalidIssuerFid''
       ''Issuer FID account is invalid.''
       ''Issuer wallet must register FID before token deployment.'',
     error_row 6079 ''InvalidCustodianFid''
       ''Custodian FID account is invalid.''
       ''Custodian wallet must register FID before custody attestation.'',
     error_row 6080 ''CustodianCannotEqualIssuer''
       ''Custodian cannot equal issuer.''
       ''Choose a custodian wallet that is different from the issuer wallet.'',
     error_row 6082 ''UnauthorizedCustodyMandate''
       ''Only issuer or platform admin can create custody mandate.''
       ''Only the issuer or platform admin can create this custody mandate.'',
     error_row 6083 ''UnauthorizedCustodian''
       ''Only the mandated custodian can perform this custody action.''
       ''Connect the selected custodian wallet to accept or attest custody.'',
     error_row 6084 ''InvalidCustodyMandate''
       ''Custody mandate does not match this asset.''
       ''Custody mandate does not match this asset deployment. Refresh and retry.'',
     error_row 6085 ''CustodyMandateInactive''
       ''Custody mandate is inactive or not accepted.''
       ''Custody mandate must be accepted by the custodian before deployment.'',
     error_row 6086 ''CustodyAttestationMissing''
       ''Active custody attestation is missing for this asset.''
       ''Custodian must attest custody before the token suite can be deployed.'',
     error_row 6087 ''CustodyAttestationExpired''
       ''Custody attestation is expired.''
       ''Custody attestation expired. Custodian must submit a fresh attestation.'',
     error_row 6088 ''InvalidAttestationValidity''
       ''Invalid attestation validity period.''
       ''Custody attestation validity must be greater than zero and within one year.'',
     error_row 6089 ''InvalidReserveRatio''
       ''Reserve ratio is invalid.''
       ''Reserve ratio must be between 0 and 10000 basis points.'',
     error_row 6091 ''PlatformAuthorityMissing''
       ''Custodian platform authority is missing.''
       ''Platform admin must approve this custodian authority before deployment.'',
     error_row 12060 ''DeploymentAlreadyExists''
       ''Deployment already exists for this issuer and salt.''
       ''A token suite with this salt has already been deployed by this issuer. Use a different salt.'',
     error_row 12061 ''InvalidDerivedAccount''
       ''One or more derived accounts do not match the expected PDA.''
       ''An account address does not match the expected derived address.'',
     error_row 12062 ''ProgramIdMismatch''
       ''The provided program IDs do not match the factory configuration.''
       ''Program IDs do not match the factory's registered programs.'',
     error_row 12063 ''MissingTrustedIssuerAccounts''
       ''Missing issuer entry accounts for trusted issuer initialization.''
       ''Trusted issuer accounts were not provided.'',
     error_row 12064 ''InvalidTokenMetadata''
       ''Token metadata is invalid.''
       ''Token name, symbol, or ISIN is invalid.'',
     error_row 12065 ''TooManyClaimTopics''
       ''Too many claim topics were provided.''
       ''Reduce the number of claim topics and try again.'',
     error_row 12066 ''TooManyTrustedIssuers''
       ''Too many trusted issuers were provided.''
       ''Reduce the number of trusted issuers and try again.'',
     error_row 12067 ''TooManyComplianceModules''
       ''Too many compliance modules were provided.''
       ''Too many compliance modules selected. Reduce the module count and try again.'',
     error_row 12068 ''TrustedIssuerTopicsEmpty''
       ''Trusted issuers must declare at least one topic.''
       ''Each trusted issuer must be associated with at least one claim topic.'',
     error_row 12069 ''InvalidTrustedIssuerLabel''
       ''Trusted issuer labels must be between 1 and 64 characters.''
       ''Issuer label must be between 1 and 64 characters.'',
     error_row 12070 ''ArithmeticOverflow''
       ''Arithmetic overflow.''
       ''A numerical overflow occurred.'',
     error_row 12071 ''MissingComplianceModuleAccounts''
       ''Missing compliance module accounts for hook extra-account-metas initialization.''
       ''Compliance module accounts are missing from the transaction.'',
     error_row 12072 ''TokenMintAlreadyInitialized''
       ''Token-2022 mint account is already initialized.''
       ''The token mint has already been initialized.'',
     error_row 12073 ''InvalidTokenMint''
       ''Token-2022 mint account is invalid.''
       ''The provided token mint address is invalid.'',
     error_row 12074 ''NotPendingOwner''
       ''Pending owner mismatch.''
       ''Only the pending owner can accept ownership.'',
     error_row 12075 ''InvalidPendingOwner''
       ''Pending owner cannot be the default pubkey.''
       ''The pending owner address is invalid.'']"

definition COMPLIANCE_MODULE_ERRORS :: "(int \<times> error_entry) list" where
  "COMPLIANCE_MODULE_ERRORS = [
     error_row 12001 ''NotAuthorized''
       ''Signer is not authorized to update module hook state.''
       ''You are not authorized to update this compliance module's state.'',
     error_row 12002 ''MaxSupplyExceeded''
       ''Max supply exceeded.''
       ''This mint would exceed the configured supply cap. The issuer has capped the total supply.'',
     error_row 12003 ''ArithmeticOverflow''
       ''Arithmetic overflow.''
       ''A numerical overflow occurred in a compliance module.'',
     error_row 12004 ''TooManyCountryCaps''
       ''Too many country caps.''
       ''The number of country caps exceeds the maximum allowed.'']"

definition ANCHOR_FRAMEWORK_ERRORS :: "(int \<times> error_entry) list" where
  "ANCHOR_FRAMEWORK_ERRORS = [
     error_row 100 ''InstructionMissing''
       ''8-byte instruction identifier not provided.''
       ''Transaction malformed: instruction identifier missing.'',
     error_row 101 ''InstructionFallbackNotFound''
       ''Fallback functions are not supported.''
       ''The instruction sent doesn't match any on-chain instruction. The IDL version may be out of sync with the deployed program.'',
     error_row 102 ''InstructionDidNotDeserialize''
       ''The program could not deserialize the instruction.''
       ''Instruction arguments are invalid or the IDL is mismatched with the on-chain program.'',
     error_row 103 ''InstructionDidNotSerialize''
       ''The program could not serialize the instruction.''
       ''Failed to serialize instruction response.'',
     error_row 1000 ''IdlInstructionStub''
       ''The program was compiled without IDL instructions.''
       ''IDL instructions are not available in this build.'',
     error_row 1001 ''IdlInstructionInvalidProgram''
       ''Invalid program given to the IDL instruction.''
       ''IDL instruction received an invalid program.'',
     error_row 2000 ''ConstraintMut''
       ''A mut constraint was violated.''
       ''An account required to be mutable is not mutable.'',
     error_row 2001 ''ConstraintHasOne''
       ''A has_one constraint was violated.''
       ''An account ownership check failed.'',
     error_row 2002 ''ConstraintSigner''
       ''A signer constraint was violated.''
       ''A required signer did not sign the transaction.'',
     error_row 2003 ''ConstraintRaw''
       ''A raw constraint was violated.''
       ''A constraint check failed.'',
     error_row 2004 ''ConstraintOwner''
       ''An owner constraint was violated.''
       ''An account is not owned by the expected program.'',
     error_row 2005 ''ConstraintRentExempt''
       ''A rent exemption constraint was violated.''
       ''An account does not have enough SOL to be rent-exempt.'',
     error_row 2006 ''ConstraintSeeds''
       ''A seeds constraint was violated.''
       ''A PDA address did not match the expected derived address.'',
     error_row 2007 ''ConstraintExecutable''
       ''An executable constraint was violated.''
       ''An account expected to be executable (a program) is not.'',
     error_row 2008 ''ConstraintState''
       ''A state constraint was violated.''
       ''An account state constraint failed.'',
     error_row 2009 ''ConstraintAssociated''
       ''An associated constraint was violated.''
       ''An associated token account address is incorrect.'',
     error_row 2010 ''ConstraintAssociatedInit''
       ''An associated init constraint was violated.''
       ''Failed to initialize an associated token account.'',
     error_row 2011 ''ConstraintClose''
       ''A close constraint was violated.''
       ''Account close destination is invalid.'',
     error_row 2012 ''ConstraintAddress''
       ''An address constraint was violated.''
       ''An account address does not match the expected address.'',
     error_row 2013 ''ConstraintZero''
       ''Expected zero account discriminant.''
       ''An account was expected to be empty/uninitialized.'',
     error_row 2014 ''ConstraintTokenMint''
       ''A token mint constraint was violated.''
       ''Token account mint does not match the expected mint.'',
     error_row 2015 ''ConstraintTokenOwner''
       ''A token owner constraint was violated.''
       ''Token account owner does not match the expected owner.'',
     error_row 2016 ''ConstraintMintMintAuthority''
       ''Mint authority constraint violated.''
       ''Mint authority does not match the expected authority.'',
     error_row 2017 ''ConstraintMintFreezeAuthority''
       ''Freeze authority constraint violated.''
       ''Freeze authority does not match the expected authority.'',
     error_row 2018 ''ConstraintMintDecimals''
       ''Mint decimals constraint violated.''
       ''Mint decimals do not match the expected value.'',
     error_row 2019 ''ConstraintSpace''
       ''A space constraint was violated.''
       ''Account does not have the expected size.'',
     error_row 3000 ''AccountDiscriminatorAlreadySet''
       ''Account discriminator already set.''
       ''Attempted to re-initialize an already-initialized account.'',
     error_row 3001 ''AccountDiscriminatorNotFound''
       ''Account discriminator not found.''
       (''Account discriminator missing '' @ [CHR 0xE2] @ [CHR 0x80] @ [CHR 0x94] @ '' the account may not be initialized.''),
     error_row 3002 ''AccountDiscriminatorMismatch''
       ''Account discriminator mismatch.''
       (''Account type mismatch '' @ [CHR 0xE2] @ [CHR 0x80] @ [CHR 0x94] @ '' the account data does not match the expected account type.''),
     error_row 3003 ''AccountDidNotDeserialize''
       ''Failed to deserialize account.''
       ''Could not read account data. The account may be corrupted or the IDL is out of date.'',
     error_row 3004 ''AccountDidNotSerialize''
       ''Failed to serialize account.''
       ''Could not write account data.'',
     error_row 3005 ''AccountNotEnoughKeys''
       ''Not enough account keys given to instruction.''
       ''Transaction is missing required accounts.'',
     error_row 3006 ''AccountNotMutable''
       ''The given account is not mutable.''
       ''An account that must be writable is read-only.'',
     error_row 3007 ''AccountOwnedByWrongProgram''
       ''Account owned by wrong program.''
       ''An account is owned by an unexpected program.'',
     error_row 3008 ''InvalidProgramId''
       ''Program ID was not as expected.''
       ''A program account has an unexpected program ID.'',
     error_row 3009 ''InvalidProgramExecutable''
       ''Program is not executable.''
       ''A program account is not marked as executable.'',
     error_row 3010 ''AccountNotSigner''
       ''The given account did not sign.''
       ''A required account signature is missing.'',
     error_row 3011 ''AccountNotSystemOwned''
       ''Account is not owned by system program.''
       ''An account expected to be system-owned is not.'',
     error_row 3012 ''AccountNotInitialized''
       ''The program expected this account to be initialized.''
       ''An account has not been initialized. Please initialize it first.'',
     error_row 3013 ''AccountNotProgramData''
       ''The given account is not a program data account.''
       ''An account expected to be program data is not.'',
     error_row 3014 ''AccountNotAssociatedTokenAccount''
       ''The given account is not the associated token account.''
       ''An account is not the correct associated token account.'',
     error_row 3015 ''AccountSysvarMismatch''
       ''The given public key does not match the required sysvar.''
       ''A sysvar account address is incorrect.'',
     error_row 3016 ''AccountReallocExceedsLimit''
       ''The account reallocation exceeds the MAX_PERMITTED_DATA_INCREASE limit.''
       ''Account data resize exceeds the permitted limit.'',
     error_row 3017 ''AccountDuplicateReallocs''
       ''The account was duplicated for realloc.''
       ''Account reallocation was attempted more than once.'',
     error_row 4000 ''DeclaredProgramIdMismatch''
       ''The declared program id does not match the actual program id.''
       ''Program ID mismatch between the IDL and the running program.'',
     error_row 5000 ''Deprecated''
       ''Deprecated account used.''
       ''A deprecated account type was used.'']"

definition ERROR_NAME_USER_MESSAGES :: "(string \<times> string) list" where
  "ERROR_NAME_USER_MESSAGES = [
     (''ComplianceCheckFailed'',
       ''This operation does not satisfy the token's configured compliance rules.''),
     (''WalletNotVerified'',
       ''Wallet is not verified. The sender and recipient must both have active FID identity and valid required claims.''),
     (''InvalidFidAccount'',
       ''This investor must create/register their FID first. The FID account is missing or does not belong to this wallet.''),
     (''InvalidInvestorFid'',
       ''Investor onboarding requires an investor FID, not an issuer FID.''),
     (''FidCountryMismatch'',
       ''The investor FID country does not match the country entered for this identity.''),
     (''WalletAlreadyRegistered'',
       ''This wallet already has an identity registered.''),
     (''WalletNotRegistered'',
       ''This wallet does not have an identity registered.''),
     (''DuplicateClaimTopicIssuer'',
       ''An active claim already exists for this provider, topic, and investor. Forward the request instead of issuing a duplicate claim.'')]"

definition COMPLIANCE_CHECK_USER_MESSAGES :: "(string \<times> string) list" where
  "COMPLIANCE_CHECK_USER_MESSAGES = [
     (''DailyLimitExceeded'',
       ''Daily transfer limit exceeded. Try again after the 24-hour window resets.''),
     (''MaxBalanceExceeded'',
       ''Maximum balance would be exceeded. The recipient cannot hold more tokens.''),
     (''MaxTransferExceeded'',
       ''Transfer amount exceeds the single-transfer limit.''),
     (''LockupActive'',
       ''Tokens are in lockup and cannot be transferred until the lockup period expires.''),
     (''SupplyCapExceeded'',
       ''Total supply cap would be exceeded. No more tokens can be minted.''),
     (''MaxInvestorsExceeded'',
       ''Maximum number of investors has been reached. No new wallets can receive tokens.''),
     (''CountryRestricted'',
       ''Country not allowed. This transfer involves a restricted jurisdiction.''),
     (''CountryCapExceeded'',
       ''Country investor cap reached. No more investors from this country are permitted.'')]"

section \<open>Matching\<close>

text \<open>
  \<open>text.match(re)\<close>: the first position at which the pattern matches; the pattern sees the character
  before the position (none at the start) and the rest of the text.
\<close>

fun regex_search :: "(char option \<Rightarrow> string \<Rightarrow> 'a option) \<Rightarrow> char option \<Rightarrow> string \<Rightarrow> 'a option" where
  "regex_search p prev [] = p prev []"
| "regex_search p prev (c # cs) =
     (case p prev (c # cs) of Some x \<Rightarrow> Some x | None \<Rightarrow> regex_search p (Some c) cs)"

definition is_letter :: "char \<Rightarrow> bool" where
  "is_letter c \<longleftrightarrow> 65 \<le> char_code c \<and> char_code c \<le> 90 \<or> 97 \<le> char_code c \<and> char_code c \<le> 122"

definition is_word_char :: "char \<Rightarrow> bool" where
  "is_word_char c \<longleftrightarrow> is_letter c \<or> is_digit c \<or> c = CHR ''_''"

definition is_hex_char :: "char \<Rightarrow> bool" where
  "is_hex_char c \<longleftrightarrow> is_digit c \<or> char_code (to_lower_char c) \<in> {97..102}"

text \<open>A literal prefix, ignoring case, then white space, then a non-empty run of characters of a
  class, which is captured.\<close>

definition labelled :: "string \<Rightarrow> string \<Rightarrow> (char \<Rightarrow> bool) \<Rightarrow> char option \<Rightarrow> string \<Rightarrow> string option" where
  "labelled label mark ok prev s =
     (if toLowerCase (take (length label) s) = toLowerCase label
      then let r = dropWhile is_space (drop (length label) s)
           in if toLowerCase (take (length mark) r) = toLowerCase mark
              then let w = takeWhile ok (drop (length mark) r) in if w = [] then None else Some w
              else None
      else None)"

definition match_error_name :: "string \<Rightarrow> string option" where
  "match_error_name = regex_search (labelled ''Error Code:'' [] is_word_char) None"

definition match_error_number :: "string \<Rightarrow> string option" where
  "match_error_number = regex_search (labelled ''Error Number:'' [] is_digit) None"

definition match_hex_code :: "string \<Rightarrow> string option" where
  "match_hex_code = regex_search (labelled ''custom program error:'' ''0x'' is_hex_char) None"

text \<open>\<open>/\b(6\d{3}|12\d{3})\b/\<close>\<close>

definition raw_code_at :: "char option \<Rightarrow> string \<Rightarrow> string option" where
  "raw_code_at prev s =
     (let try_len = (\<lambda>n lead.
            if take (length lead) s = lead \<and> length (take n s) = n \<and> list_all is_digit (take n s) \<and>
               (case drop n s of [] \<Rightarrow> True | c # _ \<Rightarrow> \<not> is_word_char c)
            then Some (take n s) else None)
      in if (case prev of None \<Rightarrow> True | Some c \<Rightarrow> \<not> is_word_char c)
         then (case try_len 4 ''6'' of Some w \<Rightarrow> Some w | None \<Rightarrow> try_len 5 ''12'')
         else None)"

definition match_raw_code :: "string \<Rightarrow> string option" where
  "match_raw_code = regex_search raw_code_at None"

definition hex_digit_val :: "char \<Rightarrow> int" where
  "hex_digit_val c = (if is_digit c then digit_val c else char_code (to_lower_char c) - 87)"

text \<open>\<open>parseInt(w, 16)\<close> and \<open>parseInt(w, 10)\<close> of a run of digits\<close>

definition parse_hex :: "string \<Rightarrow> jsnum" where
  "parse_hex w = round_double (of_int (foldl (\<lambda>a c. 16 * a + hex_digit_val c) 0 w))"

definition parse_decimal :: "string \<Rightarrow> jsnum" where
  "parse_decimal w = round_double (of_int (digits_val w))"

section \<open>Reading an error\<close>

text \<open>\<open>'message' in err\<close> of an object\<close>

definition error_field :: "jsval \<Rightarrow> string \<Rightarrow> jsval option" where
  "error_field err k = (case err of JObj fs \<Rightarrow> map_of fs k | _ \<Rightarrow> None)"

definition error_message :: "jsval \<Rightarrow> string" where
  "error_message err =
     (case error_field err ''message'' of
        Some m \<Rightarrow> js_String m
      | None \<Rightarrow> (case err of JStr s \<Rightarrow> s | _ \<Rightarrow> []))"

text \<open>\<open>String('message' in err ? err.message : err)\<close>\<close>

definition error_string :: "jsval \<Rightarrow> string" where
  "error_string err =
     (case error_field err ''message'' of Some m \<Rightarrow> js_String m | None \<Rightarrow> js_String err)"

definition first_code :: "jsnum option list \<Rightarrow> jsnum option" where
  "first_code cs = (case List.map_filter (\<lambda>c. c) cs of [] \<Rightarrow> None | c # _ \<Rightarrow> Some c)"

text \<open>
  The optional fields \<open>error.errorCode.number\<close> and \<open>code\<close> where they are numbers, then the three
  patterns on the message. An \<open>errorCode\<close> that is \<open>null\<close> is a \<open>TypeError\<close> in the code, which no
  library throws; it is read as absent.
\<close>

definition extractAnchorErrorCode :: "jsval \<Rightarrow> jsnum option" where
  "extractAnchorErrorCode err =
     (let anchor = (case error_field err ''error'' of
            Some e \<Rightarrow> (case error_field e ''errorCode'' of
                Some ec \<Rightarrow> (case error_field ec ''number'' of Some (JNum n) \<Rightarrow> Some n | _ \<Rightarrow> None)
              | None \<Rightarrow> None)
          | None \<Rightarrow> None);
          code = (case error_field err ''code'' of Some (JNum n) \<Rightarrow> Some n | _ \<Rightarrow> None);
          msg = error_message err
      in first_code [anchor, code, map_option parse_hex (match_hex_code msg),
           map_option parse_decimal (match_error_number msg),
           map_option parse_decimal (match_raw_code msg)])"

definition extractAnchorErrorName :: "jsval \<Rightarrow> string option" where
  "extractAnchorErrorName err = match_error_name (error_message err)"

definition extractErrorText :: "jsval \<Rightarrow> string" where
  "extractErrorText err =
     (let logs = (case error_field err ''logs'' of
            Some (JArr ls) \<Rightarrow> join_with [CHR 0x0A] (map js_String ls) | _ \<Rightarrow> [])
      in join_with [CHR 0x0A] (filter (\<lambda>s. s \<noteq> []) [error_message err, logs]))"

section \<open>Decoding\<close>

text \<open>\<open>table[code]\<close> for a finite number; the infinities and \<open>NaN\<close> are no keys of the tables.\<close>

definition table_at :: "(int \<times> 'a) list \<Rightarrow> rat \<Rightarrow> 'a option" where
  "table_at t q = (if of_int \<lfloor>q\<rfloor> = q then map_of t \<lfloor>q\<rfloor> else None)"

definition first_some :: "'a option list \<Rightarrow> 'a option" where
  "first_some xs = (case List.map_filter (\<lambda>x. x) xs of [] \<Rightarrow> None | x # _ \<Rightarrow> Some x)"

definition lookupErrorCode :: "jsnum \<Rightarrow> error_entry option" where
  "lookupErrorCode code =
     (case code of
        Fin q \<Rightarrow>
          if 100 \<le> q \<and> q < 6000 then table_at ANCHOR_FRAMEWORK_ERRORS q
          else if 6000 \<le> q \<and> q < 7000 then
            first_some [table_at IRS_RAW_ERRORS q, table_at COMPLIANCE_RAW_ERRORS q,
              table_at TOKEN_RAW_ERRORS q, table_at TOKEN_HOOK_ERRORS q]
          else if 12000 \<le> q then
            first_some [table_at FRACKS_COMMON_ERRORS q, table_at COMPLIANCE_MODULE_ERRORS q]
          else None
      | _ \<Rightarrow> None)"

record decoded_error = error_entry +
  de_code :: jsnum

definition decoded :: "jsnum \<Rightarrow> string \<Rightarrow> string \<Rightarrow> string \<Rightarrow> decoded_error" where
  "decoded code name message userMessage =
     \<lparr> ee_name = name, ee_message = message, ee_userMessage = userMessage, de_code = code \<rparr>"

definition parseAnchorError :: "jsval \<Rightarrow> decoded_error option" where
  "parseAnchorError err =
     (let name = (case match_error_name (extractErrorText err) of
            Some n \<Rightarrow> Some n | None \<Rightarrow> extractAnchorErrorName err);
          by_name = (case name of Some n \<Rightarrow> map_of ERROR_NAME_USER_MESSAGES n | None \<Rightarrow> None)
      in case (name, by_name) of
           (Some n, Some u) \<Rightarrow> Some (decoded (Fin (- 1)) n n u)
         | _ \<Rightarrow>
           if name = Some ''MaxSupplyExceeded'' then
             Some (decoded (Fin 6002) ''MaxSupplyExceeded'' ''Max supply exceeded.''
               ''This mint would exceed the configured supply cap. The token was likely deployed with a supply cap that was not scaled by mint decimals.'')
           else (case extractAnchorErrorCode err of
             None \<Rightarrow> None
           | Some code \<Rightarrow>
               if code = Fin 0 then
                 Some (decoded code ''AccountAlreadyInUse'' ''Account already in use.''
                   ''The required on-chain account already exists. Refresh the page and use the matching update action instead.'')
               else (case lookupErrorCode code of
                 None \<Rightarrow> Some (decoded code ''UnknownProgramError''
                     (''Unknown program error code: '' @ string_of_number code)
                     (''An unexpected on-chain error occurred (code '' @ string_of_number code @ '').''))
               | Some e \<Rightarrow> Some (decoded code (ee_name e) (ee_message e) (ee_userMessage e)))))"

text \<open>\<open>for (const [key, userMsg] of Object.entries(table)) if (msg.toLowerCase().includes(key.toLowerCase()))\<close>\<close>

definition named_in :: "(string \<times> string) list \<Rightarrow> string \<Rightarrow> string option" where
  "named_in t msg =
     map_option snd (find (\<lambda>e. js_includes (toLowerCase msg) (toLowerCase (fst e))) t)"

definition decodeTransferHookError :: "jsval \<Rightarrow> string" where
  "decodeTransferHookError err =
     (case parseAnchorError err of
        Some d \<Rightarrow> ee_userMessage d
      | None \<Rightarrow>
          let msg = error_string err
          in case (case match_error_name msg of
                     Some n \<Rightarrow> map_of ERROR_NAME_USER_MESSAGES n | None \<Rightarrow> None) of
               Some u \<Rightarrow> u
             | None \<Rightarrow> (case first_some [named_in COMPLIANCE_CHECK_USER_MESSAGES msg,
                                          named_in ERROR_NAME_USER_MESSAGES msg] of
                 Some u \<Rightarrow> u
               | None \<Rightarrow> ''Transfer failed due to a compliance or hook error. Contact the token issuer.''))"

definition getComplianceErrorMessage :: "jsnum \<Rightarrow> string" where
  "getComplianceErrorMessage code =
     (case lookupErrorCode code of
        Some e \<Rightarrow> ee_userMessage e
      | None \<Rightarrow> ''Compliance check failed with error code '' @ string_of_number code @ ''.'')"

definition complianceCodes :: "jsnum list" where
  "complianceCodes = map Fin [6006, 6010, 6013, 6014, 12004, 12047, 12048, 12049, 12050, 12051,
     12052, 12053, 12014]"

definition isComplianceError :: "jsval \<Rightarrow> bool" where
  "isComplianceError err =
     (case extractAnchorErrorCode err of
        None \<Rightarrow> False
      | Some code \<Rightarrow>
          List.member complianceCodes code \<or>
          (let msg = error_string err
           in (case match_error_name msg of
                 Some n \<Rightarrow> map_of ERROR_NAME_USER_MESSAGES n \<noteq> None | None \<Rightarrow> False) \<or>
              named_in COMPLIANCE_CHECK_USER_MESSAGES msg \<noteq> None))"

text \<open>\<open>msg.replace(pat, '')\<close> for a string pattern: the first occurrence is removed.\<close>

fun remove_first :: "string \<Rightarrow> string \<Rightarrow> string" where
  "remove_first pat [] = []"
| "remove_first pat (c # cs) =
     (if take (length pat) (c # cs) = pat then drop (length pat) (c # cs)
      else c # remove_first pat cs)"

definition contains_any :: "string \<Rightarrow> string list \<Rightarrow> bool" where
  "contains_any msg ws = list_ex (js_includes msg) ws"

definition formatTransactionError :: "jsval \<Rightarrow> string" where
  "formatTransactionError err =
    (if \<not> js_truthy err then ''An unknown error occurred.''
     else case parseAnchorError err of
       Some d \<Rightarrow> ee_userMessage d
     | None \<Rightarrow>
       let msg = error_string err
       in if contains_any msg [''User rejected'', ''user rejected'', ''Transaction rejected''] then
            ''Transaction was rejected in your wallet.''
          else if contains_any msg [''insufficient lamports'', ''not enough SOL'', ''insufficient funds for rent''] then
            ''Insufficient SOL to pay for transaction fees and rent.''
          else if contains_any msg [''Only the platform admin can deploy token suites'', ''not the factory owner''] then
            ''Only the platform admin wallet can deploy token suites. Connect the factory owner/admin wallet, then enter the issuer wallet as final owner.''
          else if contains_any msg [''ComputationalBudgetExceeded''] then
            ''Transaction exceeded the Solana compute budget. Try again, or reduce the number of modules/accounts in this operation.''
          else if contains_any msg [''encoding overruns Uint8Array'', ''VersionedTransaction too large'', ''Transaction too large''] then
            ''The transfer transaction was too large to serialize. The app will create any missing recipient token account separately, then send the compliant transfer.''
          else if contains_any msg [''ProgramFailedToComplete''] then
            ''The on-chain program could not finish the instruction. Please refresh state and try again; if it repeats, check that the connected wallet has the required role.''
          else if contains_any msg [''unsafe'', ''Transaction resulted in an error''] then
            ''Wallet flagged this transaction because simulation failed. Check the selected wallet role, token, and compliance accounts before retrying.''
          else if contains_any msg [''Blockhash not found'', ''block height exceeded''] then
            ''Transaction expired. Please try again.''
          else if contains_any msg [''Transaction simulation failed''] then
            (let inner = trim (remove_first ''Transaction simulation failed: '' msg)
             in ''Simulation failed: '' @ (if inner = [] then ''unknown reason'' else inner))
          else if contains_any msg [''Failed to fetch'', ''Network Error'', ''ECONNREFUSED'', ''429'', ''Too Many Requests''] then
            ''RPC rate limit hit. Please retry in a moment or switch to a less busy Solana devnet RPC endpoint.''
          else if msg = [] then ''An unexpected error occurred.'' else msg)"

end
