(* ===== verification/ErrorProperties.thy ===== *)
theory ErrorProperties
  imports ErrorMessages
begin

text \<open>
  What the error decoder shows: which entries of its tables can be reached, that every error has a
  message, and that the code of a program error is read back from the text of the RPC node.
\<close>

section \<open>Reachable entries\<close>

lemma table_at_int [simp]: "table_at t (of_int k) = map_of t k"
  by (simp add: table_at_def)

lemma first_some_simps [simp]:
  "first_some [] = None" "first_some (None # xs) = first_some xs" "first_some (Some x # xs) = Some x"
  by (simp_all add: first_some_def map_filter_def)

lemma first_code_simps [simp]:
  "first_code [] = None" "first_code (None # xs) = first_code xs" "first_code (Some x # xs) = Some x"
  by (simp_all add: first_code_def map_filter_def)

lemma hook_codes:
  "map fst TOKEN_HOOK_ERRORS =
     [6000, 6001, 6002, 6003, 6004, 6005, 6006, 6007, 6008, 6009, 6010, 6011, 6012, 6013, 6014]"
  by (simp add: TOKEN_HOOK_ERRORS_def error_row_def)

lemma token_codes:
  "map fst TOKEN_RAW_ERRORS =
     [6000, 6001, 6002, 6003, 6004, 6009, 6011, 6032]"
  by (simp add: TOKEN_RAW_ERRORS_def error_row_def)

lemma compliance_codes:
  "map fst COMPLIANCE_RAW_ERRORS =
     [6047, 6048, 6049, 6050, 6051, 6052, 6053, 6054]"
  by (simp add: COMPLIANCE_RAW_ERRORS_def error_row_def)

lemma irs_codes:
  "map fst IRS_RAW_ERRORS =
     [6015, 6016, 6017, 6038, 6039, 6040]"
  by (simp add: IRS_RAW_ERRORS_def error_row_def)

lemma common_codes:
  "map fst FRACKS_COMMON_ERRORS =
     [12000, 12001, 12002, 12003, 12004, 12007, 12008, 12009, 12010, 12012, 12013, 12014,
     12015, 12016, 12017, 12025, 12026, 12027, 12028, 12029, 12030, 12031, 12032, 12033,
     12034, 12035, 12036, 12037, 12038, 12039, 12040, 12041, 12042, 12043, 12044, 12045,
     12046, 12047, 12048, 12049, 12050, 12051, 12052, 12053, 6077, 6078, 6079, 6080, 6082,
     6083, 6084, 6085, 6086, 6087, 6088, 6089, 6091, 12060, 12061, 12062, 12063, 12064,
     12065, 12066, 12067, 12068, 12069, 12070, 12071, 12072, 12073, 12074, 12075]"
  by (simp add: FRACKS_COMMON_ERRORS_def error_row_def)

lemma module_codes:
  "map fst COMPLIANCE_MODULE_ERRORS =
     [12001, 12002, 12003, 12004]"
  by (simp add: COMPLIANCE_MODULE_ERRORS_def error_row_def)

lemma framework_codes:
  "map fst ANCHOR_FRAMEWORK_ERRORS =
     [100, 101, 102, 103, 1000, 1001, 2000, 2001, 2002, 2003, 2004, 2005, 2006, 2007, 2008,
     2009, 2010, 2011, 2012, 2013, 2014, 2015, 2016, 2017, 2018, 2019, 3000, 3001, 3002,
     3003, 3004, 3005, 3006, 3007, 3008, 3009, 3010, 3011, 3012, 3013, 3014, 3015, 3016,
     3017, 4000, 5000]"
  by (simp add: ANCHOR_FRAMEWORK_ERRORS_def error_row_def)

lemmas code_lists = hook_codes token_codes compliance_codes irs_codes common_codes module_codes
  framework_codes

lemma map_of_keys: "map_of t k = None \<longleftrightarrow> k \<notin> set (map fst t)"
  by (simp add: map_of_eq_None_iff)

lemma entry_found: "(k, e) \<in> set t \<Longrightarrow> distinct (map fst t) \<Longrightarrow> map_of t k = Some e"
  by (rule map_of_is_SomeI)

lemma entry_code: "(k, e) \<in> set t \<Longrightarrow> k \<in> set (map fst t)"
  by force

lemma tables_distinct:
  "distinct (map fst ANCHOR_FRAMEWORK_ERRORS)" "distinct (map fst IRS_RAW_ERRORS)"
  "distinct (map fst COMPLIANCE_RAW_ERRORS)" "distinct (map fst TOKEN_RAW_ERRORS)"
  "distinct (map fst TOKEN_HOOK_ERRORS)" "distinct (map fst FRACKS_COMMON_ERRORS)"
  by (simp_all only: code_lists) simp_all

lemma lookup_int:
  "lookupErrorCode (Fin (of_int k)) =
     (if 100 \<le> k \<and> k < 6000 then map_of ANCHOR_FRAMEWORK_ERRORS k
      else if 6000 \<le> k \<and> k < 7000 then
        first_some [map_of IRS_RAW_ERRORS k, map_of COMPLIANCE_RAW_ERRORS k,
          map_of TOKEN_RAW_ERRORS k, map_of TOKEN_HOOK_ERRORS k]
      else if 12000 \<le> k then
        first_some [map_of FRACKS_COMMON_ERRORS k, map_of COMPLIANCE_MODULE_ERRORS k]
      else None)"
  by (simp add: lookupErrorCode_def)

lemma framework_shown: "(k, e) \<in> set ANCHOR_FRAMEWORK_ERRORS \<Longrightarrow> lookupErrorCode (Fin (of_int k)) = Some e"
proof -
  assume a: "(k, e) \<in> set ANCHOR_FRAMEWORK_ERRORS"
  then have "100 \<le> k \<and> k < 6000" by (drule_tac entry_code) (auto simp: framework_codes)
  with entry_found [OF a tables_distinct(1)] show ?thesis by (simp add: lookup_int)
qed

lemma common_shown: 
  assumes a: "(k, e) \<in> set FRACKS_COMMON_ERRORS"
  shows "lookupErrorCode (Fin (of_int k)) = (if 12000 \<le> k then Some e else None)"
proof (cases "12000 \<le> k")
  case True
  with entry_found [OF a tables_distinct(6)] show ?thesis by (simp add: lookup_int)
next
  case False
  with entry_code [OF a] have k: "k \<in> {6077, 6078, 6079, 6080, 6082, 6083, 6084, 6085, 6086, 6087, 6088, 6089, 6091}"
    by (auto simp: common_codes)
  have "map_of IRS_RAW_ERRORS k = None" "map_of COMPLIANCE_RAW_ERRORS k = None"
    "map_of TOKEN_RAW_ERRORS k = None" "map_of TOKEN_HOOK_ERRORS k = None"
    unfolding map_of_keys code_lists using k by auto
  with False k show ?thesis by (auto simp: lookup_int)
qed

text \<open>The entries of a table other than the first one that has the code are not shown.\<close>

lemma token_shown:
  assumes a: "(k, e) \<in> set TOKEN_RAW_ERRORS"
  shows "lookupErrorCode (Fin (of_int k)) = Some e"
proof -
  from entry_code [OF a] have k: "k \<in> {6000, 6001, 6002, 6003, 6004, 6009, 6011, 6032}"
    by (auto simp: token_codes)
  have "map_of IRS_RAW_ERRORS k = None" "map_of COMPLIANCE_RAW_ERRORS k = None"
    unfolding map_of_keys code_lists using k by auto
  with entry_found [OF a tables_distinct(4)] k show ?thesis by (auto simp: lookup_int)
qed

lemma hook_hidden:
  assumes "k \<in> {6000, 6001, 6002, 6003, 6004, 6009, 6011}"
  shows "\<exists>e. map_of TOKEN_RAW_ERRORS k = Some e \<and> lookupErrorCode (Fin (of_int k)) = Some e"
proof -
  have "map_of TOKEN_RAW_ERRORS k \<noteq> None" using assms by (auto simp: map_of_keys token_codes)
  then obtain e where e: "map_of TOKEN_RAW_ERRORS k = Some e" by blast
  from token_shown [OF map_of_SomeD [OF e]] e show ?thesis by blast
qed

definition shown_entries :: "(int \<times> error_entry) list" where
  "shown_entries = ANCHOR_FRAMEWORK_ERRORS @ IRS_RAW_ERRORS @ COMPLIANCE_RAW_ERRORS @
     TOKEN_RAW_ERRORS @ TOKEN_HOOK_ERRORS @ FRACKS_COMMON_ERRORS"

lemmas table_defs = ANCHOR_FRAMEWORK_ERRORS_def IRS_RAW_ERRORS_def COMPLIANCE_RAW_ERRORS_def
  TOKEN_RAW_ERRORS_def TOKEN_HOOK_ERRORS_def FRACKS_COMMON_ERRORS_def COMPLIANCE_MODULE_ERRORS_def
  error_row_def

lemma module_texts: "list_all (\<lambda>e. snd e \<notin> snd ` set COMPLIANCE_MODULE_ERRORS) shown_entries"
  by (simp add: shown_entries_def table_defs)

lemma messages_given: "list_all (\<lambda>e. ee_userMessage (snd e) \<noteq> []) shown_entries"
  by (simp add: shown_entries_def table_defs)

lemma first_some_SomeD: "first_some xs = Some x \<Longrightarrow> Some x \<in> set xs"
  by (induction xs) (auto simp: first_some_def map_filter_def split: option.splits if_splits)

lemma module_codes_common: "map_of FRACKS_COMMON_ERRORS k = None \<Longrightarrow> map_of COMPLIANCE_MODULE_ERRORS k = None"
  unfolding map_of_keys common_codes module_codes by auto

lemma table_at_mem: "table_at t q = Some e \<Longrightarrow> e \<in> snd ` set t"
  by (auto simp: table_at_def split: if_splits dest!: map_of_SomeD intro!: image_eqI [rotated])

lemma common_before_module:
  "table_at FRACKS_COMMON_ERRORS q = None \<Longrightarrow> table_at COMPLIANCE_MODULE_ERRORS q = None"
  using module_codes_common by (auto simp: table_at_def split: if_splits)

lemma first_some_two: "first_some [a, b] = Some x \<Longrightarrow> (a = None \<Longrightarrow> b = None) \<Longrightarrow> a = Some x"
  by (cases a) auto

lemma lookup_shown:
  assumes "lookupErrorCode c = Some e"
  shows "e \<in> snd ` set shown_entries"
proof -
  obtain q where c: "c = Fin q" using assms by (cases c) (auto simp: lookupErrorCode_def)
  have S: "snd ` set shown_entries = snd ` set ANCHOR_FRAMEWORK_ERRORS \<union> snd ` set IRS_RAW_ERRORS \<union>
      snd ` set COMPLIANCE_RAW_ERRORS \<union> snd ` set TOKEN_RAW_ERRORS \<union> snd ` set TOKEN_HOOK_ERRORS \<union>
      snd ` set FRACKS_COMMON_ERRORS"
    by (simp add: shown_entries_def image_Un Un_assoc)
  consider "table_at ANCHOR_FRAMEWORK_ERRORS q = Some e"
    | "first_some [table_at IRS_RAW_ERRORS q, table_at COMPLIANCE_RAW_ERRORS q,
              table_at TOKEN_RAW_ERRORS q, table_at TOKEN_HOOK_ERRORS q] = Some e"
    | "first_some [table_at FRACKS_COMMON_ERRORS q, table_at COMPLIANCE_MODULE_ERRORS q] = Some e"
    using assms unfolding lookupErrorCode_def c jsnum.case by (metis option.distinct(1))
  then show ?thesis
  proof cases
    case 1 then show ?thesis by (simp add: S table_at_mem)
  next
    case 2
    from first_some_SomeD [OF this] have "table_at IRS_RAW_ERRORS q = Some e \<or>
      table_at COMPLIANCE_RAW_ERRORS q = Some e \<or> table_at TOKEN_RAW_ERRORS q = Some e \<or>
      table_at TOKEN_HOOK_ERRORS q = Some e" by auto
    then show ?thesis by (elim disjE) (simp_all add: S table_at_mem)
  next
    case 3
    from first_some_two [OF this common_before_module] have "table_at FRACKS_COMMON_ERRORS q = Some e" .
    then show ?thesis by (simp add: S table_at_mem)
  qed
qed

lemma shown_all: "list_all P shown_entries \<Longrightarrow> e \<in> snd ` set shown_entries \<Longrightarrow> (\<And>x. P x \<Longrightarrow> Q (snd x)) \<Longrightarrow> Q e"
  by (auto simp: list_all_iff)

lemma module_hidden: "lookupErrorCode c = Some e \<Longrightarrow> e \<notin> snd ` set COMPLIANCE_MODULE_ERRORS"
  by (rule shown_all [OF module_texts lookup_shown])

lemma lookup_given: "lookupErrorCode c = Some e \<Longrightarrow> ee_userMessage e \<noteq> []"
  by (rule shown_all [OF messages_given lookup_shown])

lemma names_given:
  "list_all (\<lambda>e. snd e \<noteq> []) (ERROR_NAME_USER_MESSAGES @ COMPLIANCE_CHECK_USER_MESSAGES)"
  by (simp add: ERROR_NAME_USER_MESSAGES_def COMPLIANCE_CHECK_USER_MESSAGES_def)

lemma named_in_mem: "named_in t m = Some u \<Longrightarrow> u \<in> snd ` set t"
  by (induction t) (auto simp: named_in_def split: if_splits)

lemma named_given:
  "map_of ERROR_NAME_USER_MESSAGES n = Some u \<Longrightarrow> u \<noteq> []"
  "named_in ERROR_NAME_USER_MESSAGES m = Some u \<Longrightarrow> u \<noteq> []"
  "named_in COMPLIANCE_CHECK_USER_MESSAGES m = Some u \<Longrightarrow> u \<noteq> []"
proof -
  have n: "e \<in> set ERROR_NAME_USER_MESSAGES \<union> set COMPLIANCE_CHECK_USER_MESSAGES \<Longrightarrow> snd e \<noteq> []" for e
    using names_given unfolding list_all_iff set_append by blast
  show "map_of ERROR_NAME_USER_MESSAGES n = Some u \<Longrightarrow> u \<noteq> []"
    using n [of "(n, u)"] by (auto dest: map_of_SomeD)
  show "named_in ERROR_NAME_USER_MESSAGES m = Some u \<Longrightarrow> u \<noteq> []"
    using n by (auto dest!: named_in_mem)
  show "named_in COMPLIANCE_CHECK_USER_MESSAGES m = Some u \<Longrightarrow> u \<noteq> []"
    using n by (auto dest!: named_in_mem)
qed

lemma decoded_message [simp]: "ee_userMessage (decoded c n m u) = u"
  by (simp add: decoded_def)

lemma parse_given: "parseAnchorError err = Some d \<Longrightarrow> ee_userMessage d \<noteq> []"
  unfolding parseAnchorError_def Let_def
  by (auto dest: named_given lookup_given split: option.splits if_splits)

lemma decode_given: "decodeTransferHookError err \<noteq> []"
proof (cases "parseAnchorError err")
  case None
  define msg where "msg = error_string err"
  have "first_some [named_in COMPLIANCE_CHECK_USER_MESSAGES msg, named_in ERROR_NAME_USER_MESSAGES msg] = Some u \<Longrightarrow> u \<noteq> []" for u
    using named_given(2,3) [of msg] by (force dest!: first_some_SomeD)
  with None show ?thesis
    by (auto simp: decodeTransferHookError_def Let_def msg_def [symmetric] dest: named_given(1)
        split: option.split)
next
  case (Some d)
  then show ?thesis by (simp add: decodeTransferHookError_def parse_given)
qed

lemma format_given: "formatTransactionError err \<noteq> []"
proof (cases "parseAnchorError err")
  case None
  then show ?thesis unfolding formatTransactionError_def Let_def by simp
next
  case (Some d)
  then show ?thesis by (simp add: formatTransactionError_def parse_given)
qed
section \<open>Codes in messages\<close>

text \<open>\<open>format!("{:x}", n)\<close> of the RPC node\<close>

definition hex_char :: "nat \<Rightarrow> char" where
  "hex_char d = char_of (if d < 10 then 48 + d else 87 + d)"

fun show_hex :: "nat \<Rightarrow> string" where
  "show_hex n = (if n < 16 then [hex_char n] else show_hex (n div 16) @ [hex_char (n mod 16)])"

declare show_hex.simps [simp del]

lemma all_below_16: "(\<forall>d<16. P d) \<longleftrightarrow> list_all P [0..<16]" for P :: "nat \<Rightarrow> bool"
  by (auto simp: list_all_iff)

lemma hex_char_ok:
  assumes "d < 16"
  shows "is_hex_char (hex_char d) \<and> hex_digit_val (hex_char d) = int d \<and> \<not> is_space (hex_char d) \<and> hex_char d \<noteq> CHR '':''"
proof -
  have "\<forall>d<16. is_hex_char (hex_char d) \<and> hex_digit_val (hex_char d) = int d \<and> \<not> is_space (hex_char d) \<and> hex_char d \<noteq> CHR '':''"
    unfolding all_below_16 by code_simp
  then show ?thesis using assms by blast
qed

lemma show_hex_chars: "c \<in> set (show_hex n) \<Longrightarrow> is_hex_char c \<and> \<not> is_space c \<and> c \<noteq> CHR '':''"
proof (induction n rule: show_hex.induct)
  case (1 n)
  then show ?case by (subst (asm) (2) show_hex.simps) (auto simp: hex_char_ok split: if_splits)
qed

lemma show_hex_ne [simp]: "show_hex n \<noteq> []"
  by (subst show_hex.simps) simp

lemma show_hex_val: "foldl (\<lambda>a c. 16 * a + hex_digit_val c) 0 (show_hex n) = int n"
proof (induction n rule: show_hex.induct)
  case (1 n)
  have "16 * int (n div 16) + int (n mod 16) = int n"
    by (metis mult_div_mod_eq of_nat_add of_nat_mult of_nat_numeral)
  with 1 show ?case by (subst show_hex.simps) (auto simp: hex_char_ok)
qed

lemma parse_show_hex: "n < 2 ^ 53 \<Longrightarrow> parse_hex (show_hex n) = Fin (of_nat n)"
  using round_double_int [of "int n"] by (simp add: parse_hex_def show_hex_val)

lemma lower_colon: "to_lower_char c = CHR '':'' \<longleftrightarrow> c = CHR '':''"
proof
  have v: "char_code (char_of n) = n mod 256" for n :: int by (simp add: char_code_def)
  have col: "char_code (CHR '':'') = 58" by (simp add: char_code_def)
  assume a: "to_lower_char c = CHR '':''"
  show "c = CHR '':''"
  proof (cases "to_lower_char c = c")
    case False
    then have "65 \<le> char_code c \<and> char_code c \<le> 222" "to_lower_char c = char_of (char_code c + 32)"
      by (auto simp: to_lower_char_def split: if_splits)
    with a v [of "char_code c + 32"] col show ?thesis by simp
  qed (use a in simp)
qed (simp add: to_lower_char_def char_code_def)

lemma lower_colon_mem: "CHR '':'' \<in> set (toLowerCase s) \<longleftrightarrow> CHR '':'' \<in> set s"
proof -
  have "CHR '':'' \<in> set (toLowerCase s) \<longleftrightarrow> (\<exists>c \<in> set s. to_lower_char c = CHR '':'')"
    unfolding toLowerCase_def set_map image_iff by metis
  then show ?thesis by (simp only: lower_colon) simp
qed

lemma toLowerCase_nth: "i < length s \<Longrightarrow> toLowerCase s ! i = to_lower_char (s ! i)"
  by (simp add: toLowerCase_def)

text \<open>A label that ends in a colon matches only where the first colon of the text ends it.\<close>

lemma labelled_none:
  assumes "CHR '':'' \<notin> set s" and "CHR '':'' \<in> set label"
  shows "labelled label mark ok prev s = None"
proof -
  have "toLowerCase (take (length label) s) \<noteq> toLowerCase label"
  proof
    assume "toLowerCase (take (length label) s) = toLowerCase label"
    then have "CHR '':'' \<in> set (take (length label) s)" using assms(2) lower_colon_mem by metis
    then show False using assms(1) by (auto dest: in_set_takeD)
  qed
  then show ?thesis by (simp add: labelled_def)
qed

lemma toLowerCase_append: "toLowerCase (a @ b) = toLowerCase a @ toLowerCase b"
  by (simp add: toLowerCase_def)

lemma length_toLowerCase [simp]: "length (toLowerCase s) = length s"
  by (simp add: toLowerCase_def)

lemma labelled_colon:
  assumes m: "labelled (l @ '':'') mark ok prev (a @ CHR '':'' # b) \<noteq> None"
    and a: "CHR '':'' \<notin> set a" and l: "CHR '':'' \<notin> set l"
  shows "length l = length a"
proof -
  let ?s = "a @ CHR '':'' # b"
  have eq: "toLowerCase (take (Suc (length l)) ?s) = toLowerCase (l @ '':'')"
    using m by (auto simp: labelled_def split: if_splits)
  have nth: "i < Suc (length l) \<Longrightarrow> (?s ! i = CHR '':'' \<longleftrightarrow> (l @ '':'') ! i = CHR '':'')" for i
  proof -
    assume i: "i < Suc (length l)"
    have len: "Suc (length l) \<le> length ?s"
      using arg_cong [OF eq, of length] by simp
    have "toLowerCase (take (Suc (length l)) ?s) ! i = to_lower_char (?s ! i)"
      using i len by (subst toLowerCase_nth) (simp, simp only: nth_take [OF i])
    moreover have "toLowerCase (l @ '':'') ! i = to_lower_char ((l @ '':'') ! i)"
      using i by (intro toLowerCase_nth) simp
    ultimately show ?thesis using eq lower_colon by metis
  qed
  show ?thesis
  proof (cases "length l" "length a" rule: linorder_cases)
    case less
    then have "?s ! length l = CHR '':''" using nth [of "length l"] by simp
    then have "a ! length l = CHR '':''" using less by (simp add: nth_append)
    then show ?thesis using a less nth_mem by metis
  next
    case greater
    then have "(l @ '':'') ! length a = CHR '':''" using nth [of "length a"] by simp
    then have "l ! length a = CHR '':''" using greater by (simp add: nth_append)
    then show ?thesis using l greater nth_mem by metis
  qed
qed

lemma search_no_colon:
  "CHR '':'' \<notin> set b \<Longrightarrow> regex_search (labelled (l @ '':'') mark ok) prev b = None"
  by (induction b arbitrary: prev) (simp_all add: labelled_none)

lemma search_short:
  assumes "CHR '':'' \<notin> set b" and "CHR '':'' \<notin> set l"
  shows "CHR '':'' \<notin> set a \<Longrightarrow> length a < length l \<Longrightarrow>
    regex_search (labelled (l @ '':'') mark ok) prev (a @ CHR '':'' # b) = None"
proof (induction a arbitrary: prev)
  case Nil
  have "labelled (l @ '':'') mark ok prev ([] @ CHR '':'' # b) = None"
    using labelled_colon [of l mark ok prev "[]" b] Nil assms(2) by fastforce
  then show ?case using search_no_colon [OF assms(1)] by simp
next
  case (Cons c a)
  have "labelled (l @ '':'') mark ok prev ((c # a) @ CHR '':'' # b) = None"
    using labelled_colon [of l mark ok prev "c # a" b] Cons.prems assms(2) by fastforce
  then show ?case using Cons by simp
qed

lemma labelled_prev: "labelled l mark ok prev s = labelled l mark ok None s"
  by (simp add: labelled_def)

lemma search_at:
  assumes "CHR '':'' \<notin> set b" and "CHR '':'' \<notin> set l" and "CHR '':'' \<notin> set x" and "length x = length l"
    and "x \<noteq> []"
  shows "CHR '':'' \<notin> set a \<Longrightarrow>
    regex_search (labelled (l @ '':'') mark ok) prev (a @ x @ CHR '':'' # b) =
    labelled (l @ '':'') mark ok None (x @ CHR '':'' # b)"
proof (induction a arbitrary: prev)
  case Nil
  show ?case
  proof (cases x)
    case (Cons c y)
    have "regex_search (labelled (l @ '':'') mark ok) (Some c) (y @ CHR '':'' # b) = None"
      using assms Cons by (intro search_short) auto
    then show ?thesis
      using Cons labelled_prev [of "l @ '':''" mark ok prev "x @ CHR '':'' # b"]
      by (simp split: option.split)
  qed (use assms in simp)
next
  case (Cons c a)
  have "labelled (l @ '':'') mark ok prev ((c # a @ x) @ CHR '':'' # b) = None"
    using labelled_colon [of l mark ok prev "c # a @ x" b] Cons.prems assms by fastforce
  then show ?case using Cons by simp
qed

definition program_error_text :: "string \<Rightarrow> nat \<Rightarrow> string" where
  "program_error_text pre n = pre @ ''custom program error: 0x'' @ show_hex n"

lemma takeWhile_all: "list_all P xs \<Longrightarrow> takeWhile P xs = xs"
  by (induction xs) auto

lemma hex_text_colon: "CHR '':'' \<notin> set ('' 0x'' @ show_hex n)"
  using show_hex_chars by auto

lemma hex_code_found:
  assumes "CHR '':'' \<notin> set pre"
  shows "match_hex_code (program_error_text pre n) = Some (show_hex n)"
proof -
  have w: "takeWhile is_hex_char (show_hex n) = show_hex n"
    using show_hex_chars by (intro takeWhile_all) (auto simp: list_all_iff)
  have t: "program_error_text pre n =
      pre @ ''custom program error'' @ CHR '':'' # '' 0x'' @ show_hex n"
    by (simp add: program_error_text_def)
  have "match_hex_code (program_error_text pre n) =
      labelled (''custom program error'' @ '':'') ''0x'' is_hex_char None
        (''custom program error'' @ CHR '':'' # '' 0x'' @ show_hex n)"
    unfolding match_hex_code_def t
    using search_at [OF hex_text_colon, of "''custom program error''" "''custom program error''" pre]
      assms by simp
  also have "\<dots> = Some (show_hex n)"
    by (simp add: labelled_def is_space_def char_code_def w)
  finally show ?thesis .
qed

lemma error_name_absent:
  assumes "CHR '':'' \<notin> set pre"
  shows "match_error_name (program_error_text pre n) = None"
proof -
  have t: "program_error_text pre n =
      (pre @ ''custom pro'') @ ''gram error'' @ CHR '':'' # '' 0x'' @ show_hex n"
    by (simp add: program_error_text_def)
  have "match_error_name (program_error_text pre n) =
      labelled (''Error Code'' @ '':'') [] is_word_char None
        (''gram error'' @ CHR '':'' # '' 0x'' @ show_hex n)"
    unfolding match_error_name_def t
    using search_at [OF hex_text_colon, of "''Error Code''" "''gram error''" "pre @ ''custom pro''"]
      assms by simp
  also have "\<dots> = None"
    by (simp add: labelled_def toLowerCase_def to_lower_char_def char_code_def)
  finally show ?thesis .
qed

definition program_error :: "string \<Rightarrow> nat \<Rightarrow> jsval" where
  "program_error pre n = JObj [(''message'', JStr (program_error_text pre n))]"

lemma program_error_text_ne: "program_error_text pre n \<noteq> []"
  by (simp add: program_error_text_def)

lemma program_error_fields:
  "error_field (program_error pre n) ''error'' = None" "error_field (program_error pre n) ''code'' = None"
  "error_field (program_error pre n) ''logs'' = None" "error_message (program_error pre n) = program_error_text pre n"
  by (simp_all add: error_field_def error_message_def program_error_def)

text \<open>
  C37. A positive error code of a program, below 2 ^ 53, that ends the message of an error
  object without logs and without a code of its own, in hexadecimal, is read back as the same
  number, whatever precedes it without a colon. The user is shown the text that lookupErrorCode
  yields for it, or the text with the number where it yields none, as for the entries 6077 to
  6091 of FRACKS_COMMON_ERRORS, which no code reaches (lemma unreachable_error_entries).
\<close>

theorem program_codes_are_decoded:
  assumes "CHR '':'' \<notin> set pre" and "0 < n" and "n < 2 ^ 53"
  shows "map_option de_code (parseAnchorError (program_error pre n)) = Some (Fin (of_nat n)) \<and>
    formatTransactionError (program_error pre n) =
      (case lookupErrorCode (Fin (of_nat n)) of
        Some e \<Rightarrow> ee_userMessage e
      | None \<Rightarrow> ''An unexpected on-chain error occurred (code '' @ string_of_number (Fin (of_nat n)) @ '').'')"
proof -
  have c: "extractAnchorErrorCode (program_error pre n) = Some (Fin (of_nat n))"
    using hex_code_found [OF assms(1)] parse_show_hex [OF assms(3)]
    by (simp add: extractAnchorErrorCode_def program_error_fields Let_def)
  have nm: "match_error_name (extractErrorText (program_error pre n)) = None"
    "extractAnchorErrorName (program_error pre n) = None"
    using error_name_absent [OF assms(1)] program_error_text_ne
    by (simp_all add: extractErrorText_def extractAnchorErrorName_def program_error_fields Let_def)
  have t: "js_truthy (program_error pre n)" by (simp add: js_truthy_def program_error_def)
  from assms(2) show ?thesis
    by (auto simp: parseAnchorError_def formatTransactionError_def nm c t Let_def decoded_def
        split: option.split)
qed

theorem program_codes_are_decoded_witness:
  "map_option de_code (parseAnchorError (program_error ''Instruction 2 failed, '' 6001)) = Some (Fin 6001)"
  using program_codes_are_decoded [of "''Instruction 2 failed, ''" 6001] by simp

section \<open>Which entries are shown\<close>

lemma unreachable_error_entries:
  "(\<forall>(k, e) \<in> set FRACKS_COMMON_ERRORS.
      lookupErrorCode (Fin (of_int k)) = (if 12000 \<le> k then Some e else None)) \<and>
   (\<forall>k \<in> {6000, 6001, 6002, 6003, 6004, 6009, 6011}. map_of TOKEN_HOOK_ERRORS k \<noteq> None \<and>
      lookupErrorCode (Fin (of_int k)) = map_of TOKEN_RAW_ERRORS k) \<and>
   (\<forall>c e. lookupErrorCode c = Some e \<longrightarrow> e \<notin> snd ` set COMPLIANCE_MODULE_ERRORS)"
proof (intro conjI ballI allI impI)
  fix x assume x: "x \<in> set FRACKS_COMMON_ERRORS"
  obtain k e where "x = (k, e)" by (rule prod.exhaust)
  with x common_shown [of k e] show "case x of (k, e) \<Rightarrow> lookupErrorCode (Fin (of_int k)) = (if 12000 \<le> k then Some e else None)"
    by (simp only: prod.case)
next
  fix k :: int assume k: "k \<in> {6000, 6001, 6002, 6003, 6004, 6009, 6011}"
  show "map_of TOKEN_HOOK_ERRORS k \<noteq> None" unfolding map_of_keys hook_codes using k by auto
  show "lookupErrorCode (Fin (of_int k)) = map_of TOKEN_RAW_ERRORS k" using hook_hidden [OF k] by force
next
  fix c e assume "lookupErrorCode c = Some e"
  then show "e \<notin> snd ` set COMPLIANCE_MODULE_ERRORS" by (rule module_hidden)
qed

lemma unreachable_error_entries_witness:
  "lookupErrorCode (Fin 6087) = None \<and> map_of FRACKS_COMMON_ERRORS 6087 \<noteq> None"
proof -
  have "map_of FRACKS_COMMON_ERRORS 6087 \<noteq> None" unfolding map_of_keys common_codes by simp
  then obtain e where e: "map_of FRACKS_COMMON_ERRORS 6087 = Some e" by blast
  have "case (6087, e) of (k, e) \<Rightarrow>
      lookupErrorCode (Fin (of_int k)) = (if 12000 \<le> k then Some e else None)"
    using unreachable_error_entries [THEN conjunct1] map_of_SomeD [OF e] by (rule bspec)
  with e show ?thesis by simp
qed

lemma every_error_has_a_message:
  "formatTransactionError err \<noteq> [] \<and> decodeTransferHookError err \<noteq> [] \<and>
   getComplianceErrorMessage code \<noteq> []"
proof -
  have "getComplianceErrorMessage code \<noteq> []"
    by (simp add: getComplianceErrorMessage_def lookup_given split: option.split)
  with format_given decode_given show ?thesis by blast
qed

end
