(* ===== verification/ClientHost.thy ===== *)
theory ClientHost
  imports AccountFetch Handlers ErrorMessages Instructions
begin

text \<open>
  What the client services of the web application (\<open>frontend/src/services\<close>) run on: the RPC node,
  the wallet and the Anchor library as parameters, over a world of any type. A read asks the node
  about the world as it is at that moment; a transaction that is sent may change the world. A
  service keeps the promise for the state of the factory that its first operation asked for.

  What a call throws is a JSON value, as in the error decoder; an error the services throw
  themselves is an object with the field \<open>message\<close>.
\<close>

section \<open>Node, wallet and libraries\<close>

datatype client_filter = FilterSize nat | FilterKey nat pubkey | FilterBytes nat bytes

record spl_account =
  spl_mint :: pubkey
  spl_owner :: pubkey
  spl_amount :: int

datatype client_ix =
    RawIx transaction_instruction
  | AnchorIx pubkey string "bval list" "(string \<times> pubkey) list" "account_meta list"
  | CreateAtaIdempotentIx pubkey pubkey pubkey pubkey
  | CreateAtaIx pubkey pubkey pubkey pubkey
  | TransferCheckedIx pubkey pubkey pubkey pubkey int int "account_meta list"

text \<open>
  \<open>AnchorIx\<close> is a call \<open>program.methods.m(args).accounts(...).remainingAccounts(...)\<close>; the library
  builds its instruction from the interface description of the program. The fields named after a
  function of a library are that function at a world; \<open>anchor_...\<close> are the typed account fetchers of
  Anchor, whose first argument is the address of the program.
\<close>

record 'w client = chain +
  wallet_key :: pubkey
  system_program :: pubkey
  sysvar_instructions :: pubkey
  account_at :: "'w \<Rightarrow> pubkey \<Rightarrow> jsval + account option"
  accounts_at :: "'w \<Rightarrow> pubkey list \<Rightarrow> jsval + account option list"
  program_accounts_at :: "'w \<Rightarrow> pubkey \<Rightarrow> client_filter list \<Rightarrow> jsval + (pubkey \<times> account) list"
  token_balance_at :: "'w \<Rightarrow> pubkey \<Rightarrow> jsval + int"
  spl_account_at :: "'w \<Rightarrow> pubkey \<Rightarrow> jsval + spl_account"
  spl_mint_at :: "'w \<Rightarrow> pubkey \<Rightarrow> jsval + unit"
  now_ms :: "'w \<Rightarrow> int"
  anchor_token_state :: "'w \<Rightarrow> pubkey \<Rightarrow> pubkey \<Rightarrow> jsval + token_state_account"
  anchor_owner_state :: "'w \<Rightarrow> pubkey \<Rightarrow> pubkey \<Rightarrow> jsval + owner_state_onchain"
  anchor_agent_role :: "'w \<Rightarrow> pubkey \<Rightarrow> pubkey \<Rightarrow> jsval + agent_role_account"
  anchor_frozen_wallet :: "'w \<Rightarrow> pubkey \<Rightarrow> pubkey \<Rightarrow> jsval + frozen_wallet_account"
  anchor_compliance_state :: "'w \<Rightarrow> pubkey \<Rightarrow> pubkey \<Rightarrow> jsval + compliance_state_account"
  anchor_irp_state :: "'w \<Rightarrow> pubkey \<Rightarrow> pubkey \<Rightarrow> jsval + identity_registry_state_account"
  anchor_irs_state :: "'w \<Rightarrow> pubkey \<Rightarrow> pubkey \<Rightarrow> jsval + identity_registry_storage_state_onchain"
  anchor_ctr_topics :: "'w \<Rightarrow> pubkey \<Rightarrow> pubkey \<Rightarrow> jsval + int list"
  anchor_fid_account :: "'w \<Rightarrow> pubkey \<Rightarrow> pubkey \<Rightarrow> jsval + fid_account_data"
  anchor_module_owner :: "'w \<Rightarrow> pubkey \<Rightarrow> pubkey \<Rightarrow> jsval + pubkey"
  decode_frozen_wallet :: "bytes \<Rightarrow> jsval + pubkey"
  decode_claim :: "bytes \<Rightarrow> jsval + claim_account_data"
  decode_wallet_identity :: "bytes \<Rightarrow> jsval + wallet_identity_onchain"
  sha256 :: "bytes \<Rightarrow> bytes"
  send_tx :: "client_ix list \<Rightarrow> 'w \<Rightarrow> 'w \<times> (jsval + string)"

section \<open>Operations of a service\<close>

record 'w service =
  factoryStatePromise :: "factory_state_account option option"
  world :: 'w

type_synonym ('w, 'a) operation = "('w service, jsval, 'a) action"

definition error_of :: "string \<Rightarrow> jsval" where
  "error_of m = JObj [(''message'', JStr m)]"

definition exn_text :: "exn \<Rightarrow> string" where
  "exn_text e = (case e of
     BadRequestException m \<Rightarrow> m | ConflictException m \<Rightarrow> m | NotFoundException m \<Rightarrow> m
   | UnauthorizedException m \<Rightarrow> m | ForbiddenException m \<Rightarrow> m | JsError m \<Rightarrow> m | DatabaseError m \<Rightarrow> m)"

text \<open>\<open>throw new Error(m)\<close>; a pure step; a read of the node; a transaction.\<close>

definition fail_with :: "string \<Rightarrow> ('w, 'a) operation" where
  "fail_with m = h_throw (error_of m)"

definition pure_step :: "'a res \<Rightarrow> ('w, 'a) operation" where
  "pure_step r = (case r of Inl e \<Rightarrow> h_throw (error_of (exn_text e)) | Inr x \<Rightarrow> h_return x)"

definition ask :: "('w \<Rightarrow> jsval + 'a) \<Rightarrow> ('w, 'a) operation" where
  "ask q s = (s, q (world s))"

definition ask_now :: "('w, 'c) client_scheme \<Rightarrow> ('w, int) operation" where
  "ask_now C s = (s, Inr (now_ms C (world s)))"

definition send_all :: "('w, 'c) client_scheme \<Rightarrow> client_ix list \<Rightarrow> ('w, string) operation" where
  "send_all C ixs s = (case send_tx C ixs (world s) of (w, r) \<Rightarrow> (s\<lparr> world := w \<rparr>, r))"

text \<open>\<open>const [pda] = PublicKey.findProgramAddressSync(seeds, program)\<close>\<close>

definition pda_of :: "('w, 'c) client_scheme \<Rightarrow> bytes list \<Rightarrow> pubkey \<Rightarrow> ('w, pubkey) operation" where
  "pda_of C seeds program =
     h_bind (pure_step (findProgramAddressSync C seeds program)) (\<lambda>(pda, bump). h_return pda)"

text \<open>\<open>try { ... } catch { return d }\<close>\<close>

definition or_default :: "'a \<Rightarrow> ('w, 'a) operation \<Rightarrow> ('w, 'a) operation" where
  "or_default d m = h_catch m (\<lambda>_. h_return d)"

text \<open>\<open>try { ... } catch (err) { throw new Error(formatTransactionError(err)) }\<close>\<close>

definition with_formatted_errors :: "('w, 'a) operation \<Rightarrow> ('w, 'a) operation" where
  "with_formatted_errors m = h_catch m (\<lambda>e. fail_with (formatTransactionError e))"

text \<open>
  \<open>fetchFactoryStateAccount().catch(() => null)\<close> with the promise the service keeps. The decoder of
  the fetcher reads the account the node has at the world.
\<close>

definition chain_at :: "('w, 'c) client_scheme \<Rightarrow> 'w \<Rightarrow> ('w, 'c) client_scheme" where
  "chain_at C w = C\<lparr> account_info := (\<lambda>k. case account_at C w k of
     Inl e \<Rightarrow> Inl (error_string e) | Inr a \<Rightarrow> Inr a) \<rparr>"

definition getFactoryState ::
    "('w, 'c) client_scheme \<Rightarrow> program_ids \<Rightarrow> ('w, factory_state_account option) operation" where
  "getFactoryState C P s =
     (case factoryStatePromise s of
        Some st \<Rightarrow> (s, Inr st)
      | None \<Rightarrow>
          let st = (case fetchFactoryStateAccount (chain_at C (world s)) P of
                      Inl _ \<Rightarrow> None | Inr a \<Rightarrow> a)
          in (s\<lparr> factoryStatePromise := Some st \<rparr>, Inr st))"

section \<open>Operations and the world\<close>

text \<open>An operation that only reads leaves the world as it is.\<close>

definition reads_only :: "('w, 'a) operation \<Rightarrow> bool" where
  "reads_only m \<longleftrightarrow> (\<forall>w. keeps (\<lambda>s. world s = w) m)"

named_theorems reads_intros \<open>an operation of a service only reads\<close>

lemma reads_onlyD: "reads_only m \<Longrightarrow> world (fst (m s)) = world s"
  by (simp add: reads_only_def keeps_def)

lemma reads_basic [reads_intros]:
  "reads_only (h_return x)" "reads_only (h_throw e)" "reads_only (h_lift r)" "reads_only (h_read f)"
  "reads_only (fail_with m)" "reads_only (pure_step p)" "reads_only (ask q)" "reads_only (ask_now C)"
  "reads_only (getFactoryState C P)"
  by (auto simp: reads_only_def keeps_def h_return_def h_throw_def h_lift_def h_read_def fail_with_def
      pure_step_def ask_def ask_now_def getFactoryState_def Let_def split: sum.split option.split)

lemma reads_bind [reads_intros]:
  "reads_only m \<Longrightarrow> (\<And>x. reads_only (k x)) \<Longrightarrow> reads_only (h_bind m k)"
  unfolding reads_only_def by (blast intro: keeps_bind)

lemma reads_catch [reads_intros]:
  "reads_only m \<Longrightarrow> (\<And>e. reads_only (k e)) \<Longrightarrow> reads_only (h_catch m k)"
  unfolding reads_only_def by (blast intro: keeps_catch)

lemma reads_collect [reads_intros]: "(\<And>x. reads_only (body x)) \<Longrightarrow> reads_only (h_collect body xs)"
  unfolding reads_only_def by (blast intro: keeps_collect)

lemma reads_each [reads_intros]: "(\<And>x. reads_only (body x)) \<Longrightarrow> reads_only (h_each body xs)"
  unfolding reads_only_def by (blast intro: keeps_each)

lemma reads_cases [reads_intros]:
  "reads_only m \<Longrightarrow> reads_only n \<Longrightarrow> reads_only (if b then m else n)"
  "reads_only m \<Longrightarrow> (\<And>x. reads_only (k x)) \<Longrightarrow> reads_only (case v of None \<Rightarrow> m | Some x \<Rightarrow> k x)"
  "(\<And>x y. reads_only (l x y)) \<Longrightarrow> reads_only (case p of (x, y) \<Rightarrow> l x y)"
  by (simp, cases v, simp_all, cases p, simp)

lemma reads_helpers [reads_intros]:
  "reads_only (pda_of C seeds program)"
  "reads_only m \<Longrightarrow> reads_only (or_default d m)"
  "reads_only m \<Longrightarrow> reads_only (with_formatted_errors m)"
  unfolding pda_of_def or_default_def with_formatted_errors_def by (intro reads_intros; assumption?)+

text \<open>What an operation yields, step by step.\<close>

lemma pure_step_InrD: "pure_step r s = (t, Inr x) \<Longrightarrow> t = s \<and> r = Inr x"
  by (auto simp: pure_step_def h_throw_def h_return_def split: sum.splits)

lemma pda_of_InrD: "pda_of C seeds p s = (t, Inr k) \<Longrightarrow> t = s \<and> (\<exists>b. find_pda C seeds p = Inr (k, b))"
  by (auto simp: pda_of_def h_return_def elim!: h_bind_InrE dest!: pure_step_InrD
      findProgramAddressSync_InrD)

lemma ask_InrD: "ask q s = (t, Inr x) \<Longrightarrow> t = s \<and> q (world s) = Inr x"
  by (auto simp: ask_def)

lemma bind_pureE:
  assumes "h_bind (pure_step r) k s = (t, Inr y)"
  obtains x where "r = Inr x" and "k x s = (t, Inr y)"
  using assms by (elim h_bind_InrE) (auto dest: pure_step_InrD)

lemma bind_pdaE:
  assumes "h_bind (pda_of C seeds p) k s = (t, Inr y)"
  obtains a b where "find_pda C seeds p = Inr (a, b)" and "k a s = (t, Inr y)"
  using assms by (elim h_bind_InrE) (auto dest: pda_of_InrD)

lemma bind_askE:
  assumes "h_bind (ask q) k s = (t, Inr y)"
  obtains x where "q (world s) = Inr x" and "k x s = (t, Inr y)"
  using assms by (elim h_bind_InrE) (auto dest: ask_InrD)

lemma bind_now: "h_bind (ask_now C) k s = k (now_ms C (world s)) s"
  by (simp add: h_bind_def ask_now_def)

lemma pda_of_run: "find_pda C seeds p = Inr (k, b) \<Longrightarrow> pda_of C seeds p s = (s, Inr k)"
  by (simp add: pda_of_def findProgramAddressSync_def pure_step_def h_return_def)

lemma bind_pda: "find_pda C seeds p = Inr (a, b) \<Longrightarrow> h_bind (pda_of C seeds p) k s = k a s"
  by (simp add: h_bind_Inr [OF pda_of_run])

lemma bind_ask: "q (world s) = Inr x \<Longrightarrow> h_bind (ask q) k s = k x s"
  by (simp add: h_bind_def ask_def)

lemma bind_pure: "h_bind (pure_step (Inr x)) k = k x"
  by (simp add: pure_step_def)

end
