(* ===== verification/TokenParsers.thy ===== *)
theory TokenParsers
  imports ClientHost
begin

text \<open>
  The account readers of the token service of the web client (\<open>frontend/src/services/token.ts\<close>), at
  fixed offsets of the account data, and what they read of the accounts the programs write.
\<close>

section \<open>Programs of a token suite\<close>

record suite_ids =
  si_token :: pubkey
  si_fid :: pubkey
  si_irs :: pubkey
  si_tir :: pubkey
  si_ctr :: pubkey
  si_compliance :: pubkey

text \<open>The constants are the texts of keys.\<close>

definition const_key :: "('x) chain_scheme \<Rightarrow> string \<Rightarrow> pubkey" where
  "const_key C s = (case pk_of_string C s of Inl _ \<Rightarrow> [] | Inr k \<Rightarrow> k)"

definition DEPLOYED_PROGRAM_IDS :: "('x) chain_scheme \<Rightarrow> suite_ids" where
  "DEPLOYED_PROGRAM_IDS C = \<lparr>
     si_token = const_key C ''6Naj8HsuNdUJQyyzmPssm1mZRDF7F5VMQ91n9QyMoyGj'',
     si_fid = const_key C ''Fb2roXDWjEaZwWJvxAWJTCRsK4Hy4V64MuCwoGXWMUtW'',
     si_irs = const_key C ''CnAZUQ9jFm2eLGA8d8ek1gpLwGc6xZqvnbyJ9s7swbWc'',
     si_tir = const_key C ''9bgANehpsEDdgyo5DwpY36wmnPdpCihSiAP9TLoBBf4L'',
     si_ctr = const_key C ''8MuWrtbZ1zPzrDhSKPjDd78SMQAMtBuprPnc1Zam1Gig'',
     si_compliance = const_key C ''HnJiNrmDeVFZksgEXaQwyVqHXQLRcyqXEksbYhkiPFFV'' \<rparr>"

definition getProgramIds :: "('w, 'c) client_scheme \<Rightarrow> program_ids \<Rightarrow> ('w, suite_ids) operation" where
  "getProgramIds C P =
     h_bind (getFactoryState C P) (\<lambda>state. h_return (case state of
         None \<Rightarrow> DEPLOYED_PROGRAM_IDS C
       | Some f \<Rightarrow> \<lparr> si_token = fs_tokenProgramId f, si_fid = fs_fidProgramId f, si_irs = fs_irsProgramId f,
           si_tir = fs_tirProgramId f, si_ctr = fs_ctrProgramId f,
           si_compliance = fs_complianceProgramId f \<rparr>))"

section \<open>Readers\<close>

definition CLAIM_ACCOUNT_SIZE :: nat where "CLAIM_ACCOUNT_SIZE = 230"

definition byte_list :: "int list \<Rightarrow> bytes" where
  "byte_list bs = map word_of_int bs"

definition CLAIM_ACCOUNT_DISCRIMINATOR :: bytes where
  "CLAIM_ACCOUNT_DISCRIMINATOR = byte_list [113, 109, 47, 96, 242, 219, 61, 165]"

definition skip :: "nat \<Rightarrow> (unit \<times> nat) parser" where
  "skip n data o' = Inr ((), o' + n)"

record parsed_claim =
  pc_fid :: pubkey
  pc_claimId :: int
  pc_topic :: int
  pc_issuerFid :: pubkey
  pc_signerKey :: pubkey
  pc_revoked :: bool
  pc_expiresAt :: int

definition claim_fields :: "('x) chain_scheme \<Rightarrow> parsed_claim parser" where
  "claim_fields C =
    next_field (sized 32 (readPubkey C)) (\<lambda>fid.
    next_field (sized 4 readU32) (\<lambda>claimId.
    next_field (sized 8 readU64) (\<lambda>topic.
    next_field (sized 32 (readPubkey C)) (\<lambda>issuerFid.
    next_field (skip 32) (\<lambda>_.
    next_field (sized 32 (readPubkey C)) (\<lambda>signerKey.
    next_field (skip 64) (\<lambda>_.
    next_field (skip 8) (\<lambda>_.
    next_field (sized 8 readI64) (\<lambda>expiresAt.
    next_field (sized 1 readFlag) (\<lambda>revoked.
    finish \<lparr> pc_fid = fid, pc_claimId = claimId, pc_topic = topic, pc_issuerFid = issuerFid,
      pc_signerKey = signerKey, pc_revoked = revoked, pc_expiresAt = expiresAt \<rparr>))))))))))"

definition some_res :: "'a res \<Rightarrow> 'a option res" where
  "some_res r = (case r of Inl e \<Rightarrow> Inl e | Inr x \<Rightarrow> Inr (Some x))"

definition parseClaimAccount :: "('x) chain_scheme \<Rightarrow> bytes \<Rightarrow> parsed_claim option res" where
  "parseClaimAccount C data =
     (if length data < 8 + 32 + 4 + 8 + 32 + 32 + 32 + 64 + 8 + 8 + 1 + 1 then Inr None
      else if subarray data 0 (length CLAIM_ACCOUNT_DISCRIMINATOR) \<noteq> CLAIM_ACCOUNT_DISCRIMINATOR
      then Inr None
      else some_res (claim_fields C data 8))"

definition hasDiscriminator :: "bytes \<Rightarrow> bytes \<Rightarrow> bool" where
  "hasDiscriminator data discriminator \<longleftrightarrow>
     length data \<ge> length discriminator \<and> subarray data 0 (length discriminator) = discriminator"

text \<open>The loop of \<open>parseCtrTopics\<close> stops at the end of the data.\<close>

fun ctr_topic_loop :: "nat \<Rightarrow> bytes \<Rightarrow> nat \<Rightarrow> int list res" where
  "ctr_topic_loop 0 data offset = Inr []"
| "ctr_topic_loop (Suc n) data offset =
     (if length data < offset + 8 then Inr []
      else case readU64 data offset of Inl e \<Rightarrow> Inl e | Inr t \<Rightarrow>
        case ctr_topic_loop n data (offset + 8) of Inl e \<Rightarrow> Inl e | Inr ts \<Rightarrow> Inr (t # ts))"

definition parseCtrTopics :: "bytes \<Rightarrow> int list res" where
  "parseCtrTopics data =
     (if length data < 8 + 32 + 32 + 4 then Inr []
      else case readU32 data (8 + 32 + 32) of Inl e \<Rightarrow> Inl e
           | Inr topicCount \<Rightarrow> ctr_topic_loop (nat topicCount) data (8 + 32 + 32 + 4))"

text \<open>The loop of \<open>parseIssuerEntryForTopic\<close>: \<open>None\<close> is \<open>return false\<close> at the end of the data.\<close>

fun issuer_topic_loop :: "nat \<Rightarrow> int \<Rightarrow> bytes \<Rightarrow> nat \<Rightarrow> bool \<Rightarrow> (bool \<times> nat) option res" where
  "issuer_topic_loop 0 topic data offset hasTopic = Inr (Some (hasTopic, offset))"
| "issuer_topic_loop (Suc n) topic data offset hasTopic =
     (if length data < offset + 8 then Inr None
      else case readU64 data offset of Inl e \<Rightarrow> Inl e
           | Inr t \<Rightarrow> issuer_topic_loop n topic data (offset + 8) (if t = topic then True else hasTopic))"

definition parseIssuerEntryForTopic :: "bytes \<Rightarrow> int \<Rightarrow> bool res" where
  "parseIssuerEntryForTopic data topic =
     (let offset = 8 + 32 + 32
      in if length data < offset + 4 then Inr False
         else case readU32 data offset of Inl e \<Rightarrow> Inl e | Inr topicCount \<Rightarrow>
           case issuer_topic_loop (nat topicCount) topic data (offset + 4) False of
             Inl e \<Rightarrow> Inl e
           | Inr None \<Rightarrow> Inr False
           | Inr (Some (hasTopic, o')) \<Rightarrow>
               if length data < o' + 1 then Inr False
               else case readU8 data o' of Inl e \<Rightarrow> Inl e | Inr v \<Rightarrow> Inr (v = 1 \<and> hasTopic))"

definition parseFidIsIssuerAndSigner :: "('x) chain_scheme \<Rightarrow> bytes \<Rightarrow> pubkey \<Rightarrow> bool res" where
  "parseFidIsIssuerAndSigner C data expectedSigner =
     (if length data < 8 + 32 + 32 + 32 + 4 + 1 then Inr False
      else case readPubkey C data (8 + 32 + 32) of Inl e \<Rightarrow> Inl e | Inr signerKey \<Rightarrow>
        case readFlag data (8 + 32 + 32 + 32 + 4) of Inl e \<Rightarrow> Inl e | Inr isIssuer \<Rightarrow>
          Inr (isIssuer \<and> signerKey = expectedSigner))"

record wallet_identity_data =
  wd_wallet :: pubkey
  wd_fid :: pubkey
  wd_country :: int
  wd_irs :: pubkey
  wd_isActive :: bool

definition wallet_identity_fields :: "('x) chain_scheme \<Rightarrow> wallet_identity_data parser" where
  "wallet_identity_fields C =
    next_field (sized 32 (readPubkey C)) (\<lambda>wallet.
    next_field (sized 32 (readPubkey C)) (\<lambda>fid.
    next_field (sized 2 readU16) (\<lambda>country.
    next_field (sized 32 (readPubkey C)) (\<lambda>irs.
    next_field (sized 1 readFlag) (\<lambda>isActive.
    finish \<lparr> wd_wallet = wallet, wd_fid = fid, wd_country = country, wd_irs = irs,
      wd_isActive = isActive \<rparr>)))))"

definition parseWalletIdentityAccount ::
    "('x) chain_scheme \<Rightarrow> bytes \<Rightarrow> wallet_identity_data option res" where
  "parseWalletIdentityAccount C data =
     (if length data < 8 + 32 + 32 + 2 + 32 + 1 then Inr None
      else some_res (wallet_identity_fields C data 8))"

definition claimIdLeBytes :: "int \<Rightarrow> bytes res" where
  "claimIdLeBytes claimId = write_uint 4 claimId"

definition u16LeBytes :: "int \<Rightarrow> bytes res" where
  "u16LeBytes value = write_uint 2 value"

definition u64LeBytes :: "int \<Rightarrow> bytes" where
  "u64LeBytes value = le_bytes 8 value"

definition accountTypeFromRole :: "string \<Rightarrow> string" where
  "accountTypeFromRole role =
     (if role = ''claim'' then ''ClaimAccount''
      else if role = ''claimTopicIndex'' then ''ClaimTopicIndex''
      else if role = ''trustedIssuerEntry'' then ''IssuerEntry''
      else if role = ''issuerFid'' then ''FidAccount''
      else ''Unknown'')"

definition detailRole :: "nat \<Rightarrow> string" where
  "detailRole index =
     (if index = 0 then ''claim'' else if index = 1 then ''claimTopicIndex''
      else if index = 2 then ''trustedIssuerEntry'' else if index = 3 then ''issuerFid''
      else ''unknown'')"

end
