(* ===== verification/TokenClaims.thy ===== *)
theory TokenClaims
  imports TokenParsers
begin

text \<open>
  The verification of an investor before tokens are minted (\<open>frontend/src/services/token.ts\<close>): the
  registries of the token, the identity of the recipient, and a valid claim of a trusted issuer for
  every topic the token requires. The accounts of the accepted claims are what the client appends to
  the mint instruction.
\<close>

section \<open>Token state\<close>

text \<open>The interface \<open>TokenState\<close>: the keys are written in Base58.\<close>

record token_view =
  tv_tokenMint :: string
  tv_identityRegistry :: string
  tv_compliance :: string
  tv_paused :: bool
  tv_decimals :: int
  tv_name :: utext
  tv_symbol :: utext
  tv_isin :: utext
  tv_bump :: int

record owner_view =
  ov_owner :: string
  ov_tokenMint :: string
  ov_bump :: int

definition findTokenStatePda ::
    "('w, 'c) client_scheme \<Rightarrow> pubkey \<Rightarrow> pubkey \<Rightarrow> ('w, pubkey) operation" where
  "findTokenStatePda C mint programId = pda_of C [ascii ''token_state'', mint] programId"

definition findOwnerStatePda ::
    "('w, 'c) client_scheme \<Rightarrow> pubkey \<Rightarrow> pubkey \<Rightarrow> ('w, pubkey) operation" where
  "findOwnerStatePda C mint programId = pda_of C [ascii ''owner'', mint] programId"

definition findAgentRolePda ::
    "('w, 'c) client_scheme \<Rightarrow> pubkey \<Rightarrow> pubkey \<Rightarrow> pubkey \<Rightarrow> ('w, pubkey) operation" where
  "findAgentRolePda C mint agent programId = pda_of C [ascii ''agent'', mint, agent] programId"

definition findFrozenWalletPda ::
    "('w, 'c) client_scheme \<Rightarrow> pubkey \<Rightarrow> pubkey \<Rightarrow> pubkey \<Rightarrow> ('w, pubkey) operation" where
  "findFrozenWalletPda C mint wallet programId = pda_of C [ascii ''frozen'', mint, wallet] programId"

definition fetchTokenState ::
    "('w, 'c) client_scheme \<Rightarrow> program_ids \<Rightarrow> pubkey \<Rightarrow> ('w, token_view) operation" where
  "fetchTokenState C P mint =
     h_bind (getProgramIds C P) (\<lambda>ids.
     h_bind (findTokenStatePda C mint (si_token ids)) (\<lambda>tokenStatePda.
     h_bind (ask (\<lambda>w. anchor_token_state C w (si_token ids) tokenStatePda)) (\<lambda>raw.
     h_return \<lparr> tv_tokenMint = toBase58 C (ts_tokenMint raw),
       tv_identityRegistry = toBase58 C (ts_identityRegistry raw),
       tv_compliance = toBase58 C (ts_compliance raw), tv_paused = ts_paused raw,
       tv_decimals = ts_decimals raw, tv_name = ts_name raw, tv_symbol = ts_symbol raw,
       tv_isin = ts_isin raw, tv_bump = ts_bump raw \<rparr>)))"

definition fetchOwnerState ::
    "('w, 'c) client_scheme \<Rightarrow> program_ids \<Rightarrow> pubkey \<Rightarrow> ('w, owner_view) operation" where
  "fetchOwnerState C P mint =
     h_bind (getProgramIds C P) (\<lambda>ids.
     h_bind (findOwnerStatePda C mint (si_token ids)) (\<lambda>ownerStatePda.
     h_bind (ask (\<lambda>w. anchor_owner_state C w (si_token ids) ownerStatePda)) (\<lambda>raw.
     h_return \<lparr> ov_owner = toBase58 C (oc_os_owner raw),
       ov_tokenMint = toBase58 C (oc_os_token_mint raw), ov_bump = oc_os_bump raw \<rparr>)))"

section \<open>Registries\<close>

record registry_context =
  rc_ids :: suite_ids
  rc_tokenState :: token_view
  rc_irpState :: pubkey
  rc_irpOwner :: pubkey
  rc_irsState :: pubkey
  rc_irsOwner :: pubkey
  rc_tirState :: pubkey
  rc_ctrState :: pubkey
  rc_complianceState :: pubkey
  rc_walletIdentity :: pubkey
  rc_walletIdentityData :: "wallet_identity_data option"
  rc_requiredTopics :: "int list"

text \<open>\<open>new PublicKey(text)\<close>, \<open>new PublicKey(data.subarray(a, a + 32))\<close>, and an entry of the answer
  to \<open>getMultipleAccountsInfo\<close>.\<close>

definition key_of_text :: "('w, 'c) client_scheme \<Rightarrow> string \<Rightarrow> ('w, pubkey) operation" where
  "key_of_text C t =
     pure_step (case pk_of_string C t of Inl e \<Rightarrow> Inl (JsError e) | Inr k \<Rightarrow> Inr k)"

definition key_at :: "('w, 'c) client_scheme \<Rightarrow> account \<Rightarrow> nat \<Rightarrow> ('w, pubkey) operation" where
  "key_at C info off = pure_step (readPubkey C (acc_data info) off)"

definition info_at :: "account option list \<Rightarrow> nat \<Rightarrow> account option" where
  "info_at infos i = (if i < length infos then infos ! i else None)"

text \<open>\<open>if (cond) throw new Error(text)\<close>\<close>

definition refuse :: "bool \<Rightarrow> string \<Rightarrow> ('w, unit) operation" where
  "refuse cond text = (if cond then fail_with text else h_return ())"

definition resolveMintRegistryContext ::
    "('w, 'c) client_scheme \<Rightarrow> pubkey \<Rightarrow> pubkey \<Rightarrow> suite_ids \<Rightarrow> token_view \<Rightarrow> bool \<Rightarrow>
     ('w, registry_context) operation" where
  "resolveMintRegistryContext C mintPubkey recipient ids tokenStateData enforceOwnerInvariant =
    h_bind (key_of_text C (tv_identityRegistry tokenStateData)) (\<lambda>irpState.
    h_bind (ask (\<lambda>w. account_at C w irpState)) (\<lambda>irp.
    h_bind (case irp of
        Some info \<Rightarrow> if length (acc_data info) < 168 then h_return None else h_return (Some info)
      | None \<Rightarrow> h_return None) (\<lambda>irp'.
    case irp' of
      None \<Rightarrow> fail_with (''Identity registry protocol account '' @ toBase58 C irpState @
        '' is missing or malformed for token '' @ toBase58 C mintPubkey @ ''.'')
    | Some irpInfo \<Rightarrow>
      h_bind (key_at C irpInfo 8) (\<lambda>irpTokenMint.
      h_bind (key_at C irpInfo 40) (\<lambda>irpOwner.
      h_bind (key_at C irpInfo 72) (\<lambda>irsState.
      h_bind (key_at C irpInfo 104) (\<lambda>tirState.
      h_bind (key_at C irpInfo 136) (\<lambda>ctrState.
      h_bind (key_of_text C (tv_compliance tokenStateData)) (\<lambda>complianceState.
      h_bind (refuse (irpTokenMint \<noteq> mintPubkey)
        (''Token registry mismatch. IRP '' @ toBase58 C irpState @ '' is bound to mint '' @
         toBase58 C irpTokenMint @ '', not '' @ toBase58 C mintPubkey @ ''.'')) (\<lambda>_.
      h_bind (pda_of C [ascii ''wallet_identity'', irsState, recipient] (si_irs ids)) (\<lambda>walletIdentity.
      h_bind (ask (\<lambda>w. accounts_at C w [irsState, tirState, ctrState, complianceState, walletIdentity])) (\<lambda>infos.
      case info_at infos 0 of
        None \<Rightarrow> fail_with (''Identity Registry Storage account '' @ toBase58 C irsState @ '' is missing.'')
      | Some irsInfo \<Rightarrow>
      h_bind (refuse (length (acc_data irsInfo) < 40)
        (''Identity Registry Storage account '' @ toBase58 C irsState @ '' is malformed.'')) (\<lambda>_.
      h_bind (key_at C irsInfo 8) (\<lambda>irsOwner.
      h_bind (refuse (enforceOwnerInvariant \<and> irsOwner \<noteq> irpOwner)
        (''Token registry ownership is misconfigured. IRP owner '' @ toBase58 C irpOwner @
         '' does not match IRS owner '' @ toBase58 C irsOwner @
         ''. This token suite cannot verify investor identities until the registry owners are repaired or the token is redeployed with aligned IRP/IRS ownership.'')) (\<lambda>_.
      h_bind (refuse (info_at infos 1 = None)
        (''Trusted Issuers Registry account '' @ toBase58 C tirState @ '' is missing.'')) (\<lambda>_.
      case info_at infos 2 of
        None \<Rightarrow> fail_with (''Claim Topics Registry account '' @ toBase58 C ctrState @ '' is missing.'')
      | Some ctrInfo \<Rightarrow>
      case info_at infos 3 of
        None \<Rightarrow> fail_with (''Compliance state account '' @ toBase58 C complianceState @ '' is missing.'')
      | Some complianceInfo \<Rightarrow>
      h_bind (refuse (acc_owner complianceInfo \<noteq> si_compliance ids)
        (''Compliance state '' @ toBase58 C complianceState @ '' is owned by '' @
         toBase58 C (acc_owner complianceInfo) @ '', expected '' @ toBase58 C (si_compliance ids) @ ''.'')) (\<lambda>_.
      h_bind (case info_at infos 4 of
          None \<Rightarrow> h_return None
        | Some info \<Rightarrow> pure_step (parseWalletIdentityAccount C (acc_data info))) (\<lambda>walletIdentityData.
      h_bind (pure_step (parseCtrTopics (acc_data ctrInfo))) (\<lambda>requiredTopics.
      h_return \<lparr> rc_ids = ids, rc_tokenState = tokenStateData, rc_irpState = irpState,
        rc_irpOwner = irpOwner, rc_irsState = irsState, rc_irsOwner = irsOwner,
        rc_tirState = tirState, rc_ctrState = ctrState, rc_complianceState = complianceState,
        rc_walletIdentity = walletIdentity, rc_walletIdentityData = walletIdentityData,
        rc_requiredTopics = requiredTopics \<rparr>)))))))))))))))))))"

section \<open>Claims\<close>

record account_check =
  ac_role :: string
  ac_pubkey :: pubkey
  ac_exists :: bool
  ac_ownerProgram :: "pubkey option"
  ac_accountType :: string
  ac_isSigner :: bool
  ac_isWritable :: bool

record claim_detail =
  cd_claim :: pubkey
  cd_topic :: int
  cd_issuerFid :: pubkey
  cd_issuerEntry :: pubkey
  cd_expectedClaim :: pubkey
  cd_claimPdaValid :: bool
  cd_revoked :: bool
  cd_expired :: bool
  cd_trusted :: bool
  cd_signerValid :: bool
  cd_accountOrder :: "string list"
  cd_accountChecks :: "account_check list"

record claim_validation =
  cv_reason :: "string option"
  cv_requiredTopics :: "int list"
  cv_checkedClaims :: "claim_detail list"
  cv_remainingAccounts :: "account_meta list"

text \<open>\<open>ok\<close> of the result: no reason to refuse.\<close>

definition cv_ok :: "claim_validation \<Rightarrow> bool" where
  "cv_ok v \<longleftrightarrow> cv_reason v = None"

definition meta :: "pubkey \<Rightarrow> bool \<Rightarrow> bool \<Rightarrow> account_meta" where
  "meta k signer writable = \<lparr> am_pubkey = k, am_isSigner = signer, am_isWritable = writable \<rparr>"

definition read_meta :: "pubkey \<Rightarrow> account_meta" where
  "read_meta k = meta k False False"

text \<open>\<open>if (!list.some((entry) => entry.pubkey.equals(account.pubkey))) list.push(account)\<close>\<close>

definition push_meta :: "account_meta list \<Rightarrow> account_meta \<Rightarrow> account_meta list" where
  "push_meta metas m = (if am_pubkey m \<in> am_pubkey ` set metas then metas else metas @ [m])"

definition account_checks :: "account_meta list \<Rightarrow> account option list \<Rightarrow> account_check list" where
  "account_checks metas infos =
     map (\<lambda>i. \<lparr> ac_role = detailRole i, ac_pubkey = am_pubkey (metas ! i),
       ac_exists = (info_at infos i \<noteq> None), ac_ownerProgram = map_option acc_owner (info_at infos i),
       ac_accountType = accountTypeFromRole (detailRole i), ac_isSigner = am_isSigner (metas ! i),
       ac_isWritable = am_isWritable (metas ! i) \<rparr>) [0..<length metas]"

text \<open>
  How one claim fares: it is accepted with its accounts, or refused with a text for the reason, which
  either replaces an earlier reason or is kept only where there is none.
\<close>

datatype claim_verdict = Accepted "account_meta list" | Refused string | RefusedFirst string

definition claim_expired :: "int \<Rightarrow> int \<Rightarrow> bool" where
  "claim_expired expiresAt now \<longleftrightarrow> expiresAt \<noteq> 0 \<and> expiresAt < now"

definition untrusted_text :: "('w, 'c) client_scheme \<Rightarrow> int \<Rightarrow> pubkey \<Rightarrow> string \<Rightarrow> string" where
  "untrusted_text C topic issuerFid tirOwner =
     ''Claim exists for topic '' @ bigint_toString topic @ '', but claim issuer FID '' @
     toBase58 C issuerFid @ '' is not trusted in this token's TIR. Ask TIR owner '' @ tirOwner @ '' to add it.''"

definition topic_text :: "int \<Rightarrow> string" where
  "topic_text topic = ''Claim for required topic '' @ bigint_toString topic"

definition check_claim ::
    "('w, 'c) client_scheme \<Rightarrow> suite_ids \<Rightarrow> pubkey \<Rightarrow> pubkey \<Rightarrow> string \<Rightarrow> int \<Rightarrow> int \<Rightarrow>
     pubkey \<times> parsed_claim \<Rightarrow> ('w, claim_detail \<times> claim_verdict) operation" where
  "check_claim C ids tirState holderFid tirOwner now topic listed =
    (let claimKey = fst listed; claim = snd listed; expired = claim_expired (pc_expiresAt claim) now in
     h_bind (pure_step (claimIdLeBytes (pc_claimId claim))) (\<lambda>idBytes.
     h_bind (pda_of C [ascii ''claim'', holderFid, idBytes] (si_fid ids)) (\<lambda>expectedClaim.
     h_bind (pda_of C [ascii ''issuer_entry'', tirState, pc_issuerFid claim] (si_tir ids)) (\<lambda>issuerEntry.
     h_bind (pda_of C [ascii ''claim_topic_index'', holderFid, pc_issuerFid claim, u64LeBytes topic]
       (si_fid ids)) (\<lambda>claimTopicIndex.
     let claimPdaValid = (claimKey = expectedClaim);
         accountMetas = map read_meta [claimKey, claimTopicIndex, issuerEntry, pc_issuerFid claim]
     in h_bind (ask (\<lambda>w. accounts_at C w (map am_pubkey accountMetas))) (\<lambda>accountInfos.
     let detail = \<lparr> cd_claim = claimKey, cd_topic = topic, cd_issuerFid = pc_issuerFid claim,
           cd_issuerEntry = issuerEntry, cd_expectedClaim = expectedClaim,
           cd_claimPdaValid = claimPdaValid, cd_revoked = pc_revoked claim, cd_expired = expired,
           cd_trusted = False, cd_signerValid = False,
           cd_accountOrder = [''claim'', ''claimTopicIndex'', ''trustedIssuerEntry'', ''issuerFid''],
           cd_accountChecks = account_checks accountMetas accountInfos \<rparr>
     in if \<not> claimPdaValid then
          h_return (detail, RefusedFirst (topic_text topic @
            '' is not at the canonical claim PDA expected by the token program.''))
        else if pc_revoked claim then h_return (detail, RefusedFirst (topic_text topic @ '' is revoked.''))
        else if expired then h_return (detail, RefusedFirst (topic_text topic @ '' has expired.''))
        else
        h_bind (ask (\<lambda>w. accounts_at C w [issuerEntry, pc_issuerFid claim])) (\<lambda>infos.
        case (info_at infos 0, info_at infos 1) of
          (Some issuerEntryInfo, Some issuerFidInfo) \<Rightarrow>
            h_bind (pure_step (parseIssuerEntryForTopic (acc_data issuerEntryInfo) (pc_topic claim))) (\<lambda>trusted.
            if \<not> trusted then
              h_return (detail, Refused (untrusted_text C topic (pc_issuerFid claim) tirOwner))
            else
              h_bind (pure_step (parseFidIsIssuerAndSigner C (acc_data issuerFidInfo) (pc_signerKey claim))) (\<lambda>signerValid.
              let detail' = detail\<lparr> cd_trusted := True, cd_signerValid := signerValid \<rparr>
              in if \<not> signerValid then
                   h_return (detail', Refused (topic_text topic @
                     '' has an invalid issuer FID profile or signer key mismatch.''))
                 else h_return (detail', Accepted accountMetas)))
        | _ \<Rightarrow> h_return (detail, Refused (untrusted_text C topic (pc_issuerFid claim) tirOwner)))))))))"

text \<open>The loop over the claims of a topic stops at the first one accepted.\<close>

fun check_claims ::
    "(pubkey \<times> parsed_claim \<Rightarrow> ('w, claim_detail \<times> claim_verdict) operation) \<Rightarrow> string \<Rightarrow>
     (pubkey \<times> parsed_claim) list \<Rightarrow> ('w, claim_detail list \<times> (string + account_meta list)) operation" where
  "check_claims check failureReason [] = h_return ([], Inl failureReason)"
| "check_claims check failureReason (c # cs) =
     h_bind (check c) (\<lambda>(detail, verdict).
       case verdict of
         Accepted metas \<Rightarrow> h_return ([detail], Inr metas)
       | Refused reason \<Rightarrow>
           h_bind (check_claims check reason cs) (\<lambda>(ds, r). h_return (detail # ds, r))
       | RefusedFirst reason \<Rightarrow>
           h_bind (check_claims check (if failureReason = [] then reason else failureReason) cs)
             (\<lambda>(ds, r). h_return (detail # ds, r)))"

fun check_topics ::
    "(int \<Rightarrow> pubkey \<times> parsed_claim \<Rightarrow> ('w, claim_detail \<times> claim_verdict) operation) \<Rightarrow>
     (pubkey \<times> parsed_claim) list \<Rightarrow> int list \<Rightarrow> claim_detail list \<Rightarrow> account_meta list \<Rightarrow> int list \<Rightarrow>
     ('w, claim_validation) operation" where
  "check_topics check claims required checked metas [] =
     h_return \<lparr> cv_reason = None, cv_requiredTopics = required, cv_checkedClaims = checked,
       cv_remainingAccounts = metas \<rparr>"
| "check_topics check claims required checked metas (topic # topics) =
     (let topicClaims = filter (\<lambda>c. pc_topic (snd c) = topic) claims
      in if topicClaims = [] then
           h_return \<lparr> cv_reason = Some (''Investor is missing claim for required topic '' @
               bigint_toString topic @ ''.''),
             cv_requiredTopics = required, cv_checkedClaims = checked, cv_remainingAccounts = metas \<rparr>
         else
           h_bind (check_claims (check topic) [] topicClaims) (\<lambda>(ds, r).
             case r of
               Inl failureReason \<Rightarrow>
                 h_return \<lparr> cv_reason = Some (if failureReason = []
                     then ''Investor has no valid claim for required topic '' @ bigint_toString topic @ ''.''
                     else failureReason),
                   cv_requiredTopics = required, cv_checkedClaims = checked @ ds,
                   cv_remainingAccounts = metas \<rparr>
             | Inr accountMetas \<Rightarrow>
                 check_topics check claims required (checked @ ds)
                   (foldl push_meta metas accountMetas) topics))"

text \<open>The claims the node lists, parsed; an account that is no claim is left out.\<close>

fun parsed_claims :: "('x) chain_scheme \<Rightarrow> (pubkey \<times> account) list \<Rightarrow> (pubkey \<times> parsed_claim) list res" where
  "parsed_claims C [] = Inr []"
| "parsed_claims C ((k, a) # as) =
     (case parseClaimAccount C (acc_data a) of Inl e \<Rightarrow> Inl e | Inr c \<Rightarrow>
        case parsed_claims C as of Inl e \<Rightarrow> Inl e | Inr cs \<Rightarrow>
          Inr (case c of None \<Rightarrow> cs | Some c \<Rightarrow> (k, c) # cs))"

definition unregistered_text :: string where
  "unregistered_text = ''Investor identity is not registered in this token's Identity Registry Storage (IRS). The investor must register their FID identity before minting.''"

definition seconds_now :: "('w, 'c) client_scheme \<Rightarrow> ('w, int) operation" where
  "seconds_now C = h_bind (ask_now C) (\<lambda>ms. h_return (ms div 1000))"

definition validateRecipientClaimsForMint ::
    "('w, 'c) client_scheme \<Rightarrow> registry_context \<Rightarrow> ('w, claim_validation) operation" where
  "validateRecipientClaimsForMint C registry =
    (let ids = rc_ids registry; required = rc_requiredTopics registry;
         refused = (\<lambda>reason. h_return \<lparr> cv_reason = Some reason, cv_requiredTopics = required,
           cv_checkedClaims = [], cv_remainingAccounts = [] \<rparr>)
     in if required = [] then
          h_return \<lparr> cv_reason = None, cv_requiredTopics = required, cv_checkedClaims = [],
            cv_remainingAccounts = [] \<rparr>
        else case rc_walletIdentityData registry of
          None \<Rightarrow> refused unregistered_text
        | Some identity \<Rightarrow>
          (let holderFid = wd_fid identity in
           h_bind (ask (\<lambda>w. account_at C w holderFid)) (\<lambda>fidInfo.
           if fidInfo = None then
             refused (''Investor wallet identity points to missing FID account '' @ toBase58 C holderFid @
               ''. Ask the investor to register FID before minting.'')
           else
           h_bind (ask (\<lambda>w. program_accounts_at C w (si_fid ids)
             [FilterSize CLAIM_ACCOUNT_SIZE, FilterKey 8 holderFid])) (\<lambda>claimAccounts.
           h_bind (seconds_now C) (\<lambda>now.
           h_bind (pure_step (parsed_claims C claimAccounts)) (\<lambda>claims.
           h_bind (ask (\<lambda>w. account_at C w (rc_tirState registry))) (\<lambda>tirInfo.
           h_bind (case tirInfo of
               None \<Rightarrow> h_return ''unknown''
             | Some info \<Rightarrow> h_bind (key_at C info 8) (\<lambda>k. h_return (toBase58 C k))) (\<lambda>tirOwner.
           check_topics (check_claim C ids (rc_tirState registry) holderFid tirOwner now)
             claims required [] [] required))))))))"

section \<open>Preflight\<close>

definition verifyRecipientMintPreflight ::
    "('w, 'c) client_scheme \<Rightarrow> program_ids \<Rightarrow> pubkey \<Rightarrow> pubkey \<Rightarrow> pubkey option \<Rightarrow>
     suite_ids option \<Rightarrow> token_view option \<Rightarrow>
     ('w, registry_context \<times> wallet_identity_data \<times> claim_validation) operation" where
  "verifyRecipientMintPreflight C P mintPubkey recipient destinationTokenAccount resolvedIds resolvedTokenState =
    h_bind (case resolvedIds of Some i \<Rightarrow> h_return i | None \<Rightarrow> getProgramIds C P) (\<lambda>ids.
    h_bind (case resolvedTokenState of Some t \<Rightarrow> h_return t | None \<Rightarrow> fetchTokenState C P mintPubkey) (\<lambda>tokenStateData.
    h_bind (resolveMintRegistryContext C mintPubkey recipient ids tokenStateData True) (\<lambda>registry.
    case rc_walletIdentityData registry of
      None \<Rightarrow> fail_with unregistered_text
    | Some identity \<Rightarrow>
      h_bind (refuse (wd_wallet identity \<noteq> recipient)
        (''Wrong wallet identity subject. Expected investor wallet '' @ toBase58 C recipient @
         '', got '' @ toBase58 C (wd_wallet identity) @ ''.'')) (\<lambda>_.
      h_bind (refuse (destinationTokenAccount = Some (wd_wallet identity))
        ''Wrong wallet identity subject. The recipient ATA was used where the investor wallet owner is required.'') (\<lambda>_.
      h_bind (refuse (wd_irs identity \<noteq> rc_irsState registry)
        (''Investor identity belongs to IRS '' @ toBase58 C (wd_irs identity) @
         '', but this token uses IRS '' @ toBase58 C (rc_irsState registry) @ ''.'')) (\<lambda>_.
      h_bind (refuse (\<not> wd_isActive identity)
        (''Investor identity is registered but inactive in this token's Identity Registry Storage (IRS). Please ask the central platform administrator / IRS State Owner ('' @
         toBase58 C (rc_irpOwner registry) @ '') to activate this identity.'')) (\<lambda>_.
      h_bind (validateRecipientClaimsForMint C registry) (\<lambda>claimValidation.
      case cv_reason claimValidation of
        Some reason \<Rightarrow> fail_with reason
      | None \<Rightarrow> h_return (registry, identity, claimValidation)))))))))"

end
