(* ===== verification/TokenService.thy ===== *)
theory TokenService
  imports TokenClaims ModuleStates
begin

text \<open>
  The operations of the token service of the web client (\<open>frontend/src/services/token.ts\<close>): the
  health of a token, roles and frozen wallets, the compliance modules before a mint, and the
  transactions that mint, burn, freeze, pause and name agents. The accounts an instruction names are
  in the order of the call, by the names of the interface description.
\<close>

section \<open>Discriminators of modules\<close>

definition COUNTRY_RESTRICT_DISCRIMINATOR :: bytes where
  "COUNTRY_RESTRICT_DISCRIMINATOR = byte_list [76, 19, 17, 199, 175, 143, 115, 145]"

definition MAX_BALANCE_DISCRIMINATOR :: bytes where
  "MAX_BALANCE_DISCRIMINATOR = byte_list [71, 123, 34, 239, 158, 46, 90, 228]"

definition MAX_TRANSFER_DISCRIMINATOR :: bytes where
  "MAX_TRANSFER_DISCRIMINATOR = byte_list [108, 137, 95, 208, 99, 247, 215, 190]"

definition LOCKUP_DISCRIMINATOR :: bytes where
  "LOCKUP_DISCRIMINATOR = byte_list [211, 128, 131, 151, 82, 8, 195, 227]"

definition SUPPLY_CAP_DISCRIMINATOR :: bytes where
  "SUPPLY_CAP_DISCRIMINATOR = byte_list [147, 219, 44, 120, 239, 162, 27, 102]"

definition MODULE_PROGRAM_IDS :: "('x) chain_scheme \<Rightarrow> module_ids \<Rightarrow> string set" where
  "MODULE_PROGRAM_IDS C M = toBase58 C ` set [MOD_MAX_INVESTORS M, MOD_COUNTRY_RESTRICT M, MOD_MAX_BALANCE M,
     MOD_MAX_TRANSFER M, MOD_LOCKUP M, MOD_DAILY_LIMIT M, MOD_SUPPLY_CAP M, MOD_COUNTRY_CAP M]"

text \<open>The addresses in the interface descriptions, and the key of the token program of the library.\<close>

definition TOKEN_IDL_ADDRESS :: "('x) chain_scheme \<Rightarrow> pubkey" where
  "TOKEN_IDL_ADDRESS C = const_key C ''6Naj8HsuNdUJQyyzmPssm1mZRDF7F5VMQ91n9QyMoyGj''"

definition TOKEN_2022_TEXT :: string where
  "TOKEN_2022_TEXT = ''TokenzQdBNbLqP5VEhdkAS6EPFLC1PHnBqCXEpPxuEb''"

section \<open>Control flow\<close>

text \<open>\<open>try { ... } catch {}\<close> around the rest of a function that then returns \<open>d\<close>: the value so far.\<close>

definition try_step :: "'b \<Rightarrow> ('w, 'a) operation \<Rightarrow> ('a \<Rightarrow> ('w, 'b) operation) \<Rightarrow> ('w, 'b) operation" where
  "try_step d m k s = (case m s of (t, Inl e) \<Rightarrow> (t, Inr d) | (t, Inr x) \<Rightarrow> k x t)"

text \<open>\<open>err instanceof Error\<close> and its message.\<close>

definition thrown_message :: "jsval \<Rightarrow> string option" where
  "thrown_message e = (case e of
     JObj fs \<Rightarrow> (case js_field fs ''message'' of JStr m \<Rightarrow> Some m | _ \<Rightarrow> None) | _ \<Rightarrow> None)"

text \<open>\<open>getAssociatedTokenAddressSync\<close>\<close>

definition ata :: "('w, 'c) client_scheme \<Rightarrow> pubkey \<Rightarrow> pubkey \<Rightarrow> ('w, pubkey) operation" where
  "ata C mint owner = pure_step (case ata_of C mint owner of Inl e \<Rightarrow> Inl (JsError e) | Inr k \<Rightarrow> Inr k)"

section \<open>Reads\<close>

record token_health =
  th_mint :: string
  th_transferable :: bool
  th_reason :: "string option"
  th_missing :: "string list"

definition fetchTokenMintHealth ::
    "('w, 'c) client_scheme \<Rightarrow> program_ids \<Rightarrow> pubkey \<Rightarrow> ('w, token_health) operation" where
  "fetchTokenMintHealth C P mint =
    (let health = (\<lambda>ok reason missing. \<lparr> th_mint = toBase58 C mint, th_transferable = ok,
           th_reason = reason, th_missing = missing \<rparr>)
     in h_bind (fetchTokenState C P mint) (\<lambda>tokenState.
        if tv_paused tokenState then
          h_return (health False (Some ''Transfers are paused for this token.'') [])
        else
        h_bind (key_of_text C (tv_compliance tokenState)) (\<lambda>complianceKey.
        h_bind (ask (\<lambda>w. account_at C w complianceKey)) (\<lambda>complianceInfo.
        case complianceInfo of
          None \<Rightarrow> h_return (health False (Some ''The token compliance account is missing on-chain.'') [])
        | Some info \<Rightarrow>
          (let data = acc_data info in
           if length data < 78 then
             h_return (health False (Some ''The token compliance account is malformed on-chain.'') [])
           else
           h_bind (pure_step (readU32 data 72)) (\<lambda>moduleCount.
           h_bind (pure_step (read_items (readPubkey C) 32 (nat moduleCount) data 76)) (\<lambda>(modules, offset).
           if offset < length data \<and> data ! offset = 1 then
             h_return (health False (Some ''Compliance modules are paused for this token.'') [])
           else if modules = [] then h_return (health True None [])
           else
           h_bind (ask (\<lambda>w. accounts_at C w modules)) (\<lambda>moduleInfos.
           let missing = map (\<lambda>i. toBase58 C (modules ! i))
                 (filter (\<lambda>i. info_at moduleInfos i = None) [0..<length modules])
           in if missing \<noteq> [] then
                h_return (health False (Some ''This token has missing compliance module accounts on-chain.'') missing)
              else h_return (health True None [])))))))))"

definition isAgent :: "('w, 'c) client_scheme \<Rightarrow> program_ids \<Rightarrow> pubkey \<Rightarrow> pubkey \<Rightarrow> ('w, bool) operation" where
  "isAgent C P mint wallet =
    or_default False
     (h_bind (getProgramIds C P) (\<lambda>ids.
      h_bind (findAgentRolePda C mint wallet (si_token ids)) (\<lambda>agentRolePda.
      h_bind (ask (\<lambda>w. anchor_agent_role C w (si_token ids) agentRolePda)) (\<lambda>raw.
      h_return (ar_isActive raw)))))"

definition isFrozen :: "('w, 'c) client_scheme \<Rightarrow> program_ids \<Rightarrow> pubkey \<Rightarrow> pubkey \<Rightarrow> ('w, bool) operation" where
  "isFrozen C P mint wallet =
    or_default False
     (h_bind (getProgramIds C P) (\<lambda>ids.
      h_bind (findFrozenWalletPda C mint wallet (si_token ids)) (\<lambda>frozenWalletPda.
      h_bind (ask (\<lambda>w. anchor_frozen_wallet C w (si_token ids) frozenWalletPda)) (\<lambda>_.
      h_return True))))"

text \<open>The entries \<open>(wallet, frozen, balance)\<close> of the frozen wallets, each once, in the order listed.\<close>

definition add_new :: "'a list \<Rightarrow> 'a \<Rightarrow> 'a list" where
  "add_new xs x = (if x \<in> set xs then xs else xs @ [x])"

definition fetchInvestorRegistry ::
    "('w, 'c) client_scheme \<Rightarrow> program_ids \<Rightarrow> pubkey \<Rightarrow> ('w, (string \<times> bool \<times> int) list) operation" where
  "fetchInvestorRegistry C P mint =
    (let frozenDiscriminator = byte_list [165, 203, 218, 18, 62, 58, 187, 59] in
     h_bind (ask (\<lambda>w. program_accounts_at C w (token P)
       [FilterBytes 0 frozenDiscriminator, FilterKey 40 mint])) (\<lambda>frozenAccounts.
     h_return (map (\<lambda>w. (w, True, 0))
       (foldl (\<lambda>ws (k, a). case decode_frozen_wallet C (acc_data a) of
            Inl _ \<Rightarrow> ws | Inr wallet \<Rightarrow> add_new ws (toBase58 C wallet)) [] frozenAccounts))))"

section \<open>Accounts of the modules\<close>

definition readWalletIdentityCountry ::
    "('w, 'c) client_scheme \<Rightarrow> pubkey \<Rightarrow> ('w, int option) operation" where
  "readWalletIdentityCountry C walletIdentity =
     h_bind (ask (\<lambda>w. account_at C w walletIdentity)) (\<lambda>info.
     case info of
       None \<Rightarrow> h_return None
     | Some a \<Rightarrow> if length (acc_data a) < 74 then h_return None
                 else h_bind (pure_step (readU16 (acc_data a) 72)) (\<lambda>c. h_return (Some c)))"

definition push_key ::
    "('x) chain_scheme \<Rightarrow> account_meta list \<Rightarrow> pubkey \<Rightarrow> bool \<Rightarrow> account_meta list" where
  "push_key C accounts k writable =
     (if toBase58 C k \<in> set (map (\<lambda>m. toBase58 C (am_pubkey m)) accounts) then accounts
      else accounts @ [meta k False writable])"

definition pushModuleProgramAccount ::
    "('x) chain_scheme \<Rightarrow> module_ids \<Rightarrow> account_meta list \<Rightarrow> pubkey \<Rightarrow> account_meta list" where
  "pushModuleProgramAccount C M accounts moduleProgramId =
     (if toBase58 C moduleProgramId \<notin> MODULE_PROGRAM_IDS C M then accounts
      else push_key C accounts moduleProgramId False)"

definition country_count_pda ::
    "('x) chain_scheme \<Rightarrow> module_ids \<Rightarrow> pubkey \<Rightarrow> int \<Rightarrow> pubkey res" where
  "country_count_pda C M moduleAccount country =
     (case u16LeBytes country of Inl e \<Rightarrow> Inl e | Inr bs \<Rightarrow>
        case findProgramAddressSync C [ascii ''country_count'', moduleAccount, bs] (MOD_COUNTRY_CAP M) of
          Inl e \<Rightarrow> Inl e | Inr (k, b) \<Rightarrow> Inr k)"

text \<open>The loop of \<open>getMintRemainingAccounts\<close>; an address that cannot be found ends it.\<close>

fun push_modules ::
    "('x) chain_scheme \<Rightarrow> module_ids \<Rightarrow> int option \<Rightarrow> account_meta list \<Rightarrow> (pubkey \<times> account option) list \<Rightarrow>
     account_meta list" where
  "push_modules C M country accounts [] = accounts"
| "push_modules C M country accounts ((moduleAccount, moduleInfo) # rest) =
     (let accounts = push_key C accounts moduleAccount True in
      case moduleInfo of
        None \<Rightarrow> push_modules C M country accounts rest
      | Some info \<Rightarrow>
          (let accounts = pushModuleProgramAccount C M accounts (acc_owner info) in
           case (acc_owner info = MOD_COUNTRY_CAP M, country) of
             (True, Some c) \<Rightarrow>
               (case country_count_pda C M moduleAccount c of
                  Inl e \<Rightarrow> accounts
                | Inr countryCount \<Rightarrow>
                    push_modules C M country (push_key C accounts countryCount True) rest)
           | _ \<Rightarrow> push_modules C M country accounts rest))"

definition with_infos :: "pubkey list \<Rightarrow> account option list \<Rightarrow> (pubkey \<times> account option) list" where
  "with_infos ks infos = map (\<lambda>i. (ks ! i, info_at infos i)) [0..<length ks]"

definition getMintRemainingAccounts ::
    "('w, 'c) client_scheme \<Rightarrow> module_ids \<Rightarrow> pubkey \<Rightarrow> pubkey \<Rightarrow> suite_ids \<Rightarrow> account_meta list \<Rightarrow>
     ('w, account_meta list) operation" where
  "getMintRemainingAccounts C M walletIdentity complianceState ids claimRemainingAccounts =
     or_default claimRemainingAccounts
      (h_bind (ask (\<lambda>w. anchor_compliance_state C w (si_compliance ids) complianceState)) (\<lambda>st.
       h_bind (ask (\<lambda>w. accounts_at C w (cs_modules st))) (\<lambda>moduleInfos.
       h_bind (readWalletIdentityCountry C walletIdentity) (\<lambda>recipientCountry.
       h_return (push_modules C M recipientCountry claimRemainingAccounts
         (with_infos (cs_modules st) moduleInfos))))))"

section \<open>Modules before a mint\<close>

fun country_listed :: "nat \<Rightarrow> bytes \<Rightarrow> nat \<Rightarrow> int \<Rightarrow> bool res" where
  "country_listed 0 data offset country = Inr False"
| "country_listed (Suc n) data offset country =
     (if length data < offset + 2 then Inr False
      else case readU16 data offset of Inl e \<Rightarrow> Inl e
           | Inr c \<Rightarrow> if c = country then Inr True else country_listed n data (offset + 2) country)"

definition country_text :: "('x) chain_scheme \<Rightarrow> pubkey \<Rightarrow> int \<Rightarrow> string" where
  "country_text C moduleAccount country =
     ''Country not allowed: investor country '' @ bigint_toString country @
     '' is not listed in Country Allowed module '' @ toBase58 C moduleAccount @
     ''. KYC claims cannot override token compliance rules.''"

definition balance_text :: "int \<Rightarrow> int \<Rightarrow> string" where
  "balance_text toBalanceAfter maxBalance =
     ''Max balance exceeded: investor balance after mint would be '' @ bigint_toString toBalanceAfter @
     '' base units, but the token max-balance module allows '' @ bigint_toString maxBalance @ ''.''"

definition transfer_text :: "int \<Rightarrow> int \<Rightarrow> string" where
  "transfer_text amount maxAmount =
     ''Max transfer/mint amount exceeded: this mint is '' @ bigint_toString amount @
     '' base units, but the module allows '' @ bigint_toString maxAmount @ ''.''"

definition lockup_text :: "int \<Rightarrow> string" where
  "lockup_text lockupEnd =
     ''Lockup active: this token cannot mint/transfer until Unix time '' @ bigint_toString lockupEnd @ ''.''"

definition supply_text ::
    "('x) chain_scheme \<Rightarrow> pubkey \<Rightarrow> int \<Rightarrow> int \<Rightarrow> int \<Rightarrow> int \<Rightarrow> string" where
  "supply_text C moduleAccount maxSupply trackedSupply amount decimals =
     (let newSupply = trackedSupply + amount; scale = 10 ^ nat decimals;
          looksUnscaled = maxSupply > 0 \<and> maxSupply * scale \<ge> newSupply
      in if looksUnscaled then
           ''Supply cap mismatch: this token's Supply Cap module is set to '' @ bigint_toString maxSupply @
           '' base units, but minting '' @ bigint_toString amount @
           '' base units requires a decimals-scaled cap. Connect the module owner/platform admin and update Supply Cap '' @
           toBase58 C moduleAccount @ '' to at least '' @ bigint_toString (maxSupply * scale) @
           '' base units, or redeploy the token after this fix.''
         else
           ''Max supply exceeded: current module supply is '' @ bigint_toString trackedSupply @
           '' base units, this mint adds '' @ bigint_toString amount @ '', and the configured cap is '' @
           bigint_toString maxSupply @ ''.'')"

definition check_module_for_mint ::
    "('w, 'c) client_scheme \<Rightarrow> module_ids \<Rightarrow> int \<Rightarrow> int \<Rightarrow> int \<Rightarrow> int \<Rightarrow> pubkey \<times> account option \<Rightarrow>
     ('w, unit) operation" where
  "check_module_for_mint C M amount toBalanceAfter recipientCountry decimals entry =
    (let moduleAccount = fst entry in
     case snd entry of
       None \<Rightarrow> h_return ()
     | Some info \<Rightarrow>
       (let data = acc_data info; program = acc_owner info in
        if program = MOD_COUNTRY_RESTRICT M \<and> hasDiscriminator data COUNTRY_RESTRICT_DISCRIMINATOR then
          h_bind (pure_step (readU32 data 72)) (\<lambda>count.
          h_bind (pure_step (country_listed (nat count) data 76 recipientCountry)) (\<lambda>countryAllowed.
          refuse (\<not> countryAllowed) (country_text C moduleAccount recipientCountry)))
        else if program = MOD_MAX_BALANCE M \<and> hasDiscriminator data MAX_BALANCE_DISCRIMINATOR \<and> length data \<ge> 80 then
          h_bind (pure_step (readU64 data 72)) (\<lambda>maxBalance.
          refuse (toBalanceAfter > maxBalance) (balance_text toBalanceAfter maxBalance))
        else if program = MOD_MAX_TRANSFER M \<and> hasDiscriminator data MAX_TRANSFER_DISCRIMINATOR \<and> length data \<ge> 80 then
          h_bind (pure_step (readU64 data 72)) (\<lambda>maxAmount.
          refuse (amount > maxAmount) (transfer_text amount maxAmount))
        else if program = MOD_LOCKUP M \<and> hasDiscriminator data LOCKUP_DISCRIMINATOR \<and> length data \<ge> 80 then
          h_bind (pure_step (readI64 data 72)) (\<lambda>lockupEnd.
          h_bind (seconds_now C) (\<lambda>now.
          refuse (now < lockupEnd) (lockup_text lockupEnd)))
        else if program = MOD_SUPPLY_CAP M \<and> hasDiscriminator data SUPPLY_CAP_DISCRIMINATOR \<and> length data \<ge> 121 then
          h_bind (pure_step (readU64 data 104)) (\<lambda>maxSupply.
          h_bind (pure_step (readU64 data 112)) (\<lambda>trackedSupply.
          refuse (\<not> trackedSupply + amount \<le> maxSupply)
            (supply_text C moduleAccount maxSupply trackedSupply amount decimals)))
        else h_return ()))"

definition supply_words :: "string list" where
  "supply_words = [''Supply cap'', ''Max supply'', ''Country not allowed'', ''Max balance'',
     ''Max transfer'', ''Lockup active'']"

text \<open>Other failures are dropped: the program checks again.\<close>

definition verifySupplyCapForMint ::
    "('w, 'c) client_scheme \<Rightarrow> program_ids \<Rightarrow> module_ids \<Rightarrow> pubkey \<Rightarrow> int \<Rightarrow> int \<Rightarrow> int \<Rightarrow> int \<Rightarrow>
     ('w, unit) operation" where
  "verifySupplyCapForMint C P M complianceState amount toBalanceAfter recipientCountry decimals =
    h_catch
     (h_bind (getProgramIds C P) (\<lambda>ids.
      h_bind (ask (\<lambda>w. anchor_compliance_state C w (si_compliance ids) complianceState)) (\<lambda>st.
      h_bind (ask (\<lambda>w. accounts_at C w (cs_modules st))) (\<lambda>moduleInfos.
      h_each (check_module_for_mint C M amount toBalanceAfter recipientCountry decimals)
        (with_infos (cs_modules st) moduleInfos)))))
     (\<lambda>err. case thrown_message err of
        Some m \<Rightarrow> if contains_any m supply_words then h_throw err else h_return ()
      | None \<Rightarrow> h_return ())"

definition init_country_count ::
    "('w, 'c) client_scheme \<Rightarrow> module_ids \<Rightarrow> pubkey \<Rightarrow> pubkey \<Rightarrow> int \<Rightarrow> ('w, unit) operation" where
  "init_country_count C M moduleAccount moduleOwner country =
    h_bind (pure_step (country_count_pda C M moduleAccount country)) (\<lambda>countryCount.
    h_bind (ask (\<lambda>w. account_at C w countryCount)) (\<lambda>existingCount.
    if existingCount \<noteq> None then h_return ()
    else h_catch
      (h_bind (send_all C [AnchorIx (MOD_COUNTRY_CAP M) ''initializeCountryCount'' [BU16 country]
          [(''owner'', wallet_key C), (''moduleState'', moduleAccount), (''countryCount'', countryCount),
           (''systemProgram'', system_program C)] []]) (\<lambda>_. h_return ()))
      (\<lambda>err. fail_with (''Country-cap support account '' @ toBase58 C countryCount @ '' for country '' @
         bigint_toString country @ '' is missing and could not be initialized by '' @
         toBase58 C (wallet_key C) @
         ''. Upgrade the country-cap module to allow deterministic support-account creation, or connect module owner '' @
         toBase58 C moduleOwner @ '' once to repair this legacy token. '' @ formatTransactionError err))))"

definition prepareCountryCapCountAccounts ::
    "('w, 'c) client_scheme \<Rightarrow> module_ids \<Rightarrow> pubkey \<Rightarrow> int list \<Rightarrow> suite_ids \<Rightarrow> ('w, unit) operation" where
  "prepareCountryCapCountAccounts C M complianceState countries ids =
    h_bind (ask (\<lambda>w. anchor_compliance_state C w (si_compliance ids) complianceState)) (\<lambda>st.
    h_bind (ask (\<lambda>w. accounts_at C w (cs_modules st))) (\<lambda>moduleInfos.
    h_each (\<lambda>(moduleAccount, moduleInfo).
      if map_option acc_owner moduleInfo \<noteq> Some (MOD_COUNTRY_CAP M) then h_return ()
      else h_bind (ask (\<lambda>w. anchor_module_owner C w (MOD_COUNTRY_CAP M) moduleAccount)) (\<lambda>moduleOwner.
           h_each (init_country_count C M moduleAccount moduleOwner) (foldl add_new [] countries)))
      (with_infos (cs_modules st) moduleInfos)))"

section \<open>What an operation that returned did\<close>

lemma refuse_InrD: "refuse c m s = (t, Inr x) \<Longrightarrow> t = s \<and> \<not> c"
  by (auto simp: refuse_def fail_with_def h_throw_def h_return_def split: if_splits)

lemma bind_refuseE:
  assumes "h_bind (refuse c m) k s = (t, Inr y)"
  obtains "\<not> c" and "k () s = (t, Inr y)"
  using assms by (elim h_bind_InrE) (auto dest: refuse_InrD)

lemma catch_InrE:
  assumes "h_catch m k s = (t, Inr x)"
  obtains "m s = (t, Inr x)" | e u where "m s = (u, Inl e)" "k e u = (t, Inr x)"
  using assms by (auto simp: h_catch_def split: prod.splits sum.splits)

lemma fail_with_not_Inr [simp]: "fail_with m s = (t, Inr x) \<longleftrightarrow> False"
  by (simp add: fail_with_def h_throw_def)

lemma ata_InrD: "ata C mintKey owner s = (t, Inr k) \<Longrightarrow> t = s \<and> ata_of C mintKey owner = Inr k"
  by (auto simp: ata_def dest!: pure_step_InrD split: sum.splits)

lemma bind_tripleE:
  assumes "h_bind m (\<lambda>(a, b, c). k a b c) s = (t, Inr y)"
  obtains a b c u where "m s = (u, Inr (a, b, c))" and "k a b c u = (t, Inr y)"
  using assms by (elim h_bind_InrE) auto

end
