(* ===== verification/TransferReads.thy ===== *)
theory TransferReads
  imports TokenService
begin

text \<open>
  The reads of the transfer service of the web client (\<open>frontend/src/services/transfer.ts\<close>): its readers
  of claims and identities, the eligibility of a wallet for a transfer, the capacity of a seller, and the
  accounts a transfer passes on. The readers of topics, issuer entries and issuers are, text for text,
  those of the token service (\<open>TokenParsers\<close>).
\<close>

section \<open>Readers\<close>

record transfer_claim =
  tc_topic :: int
  tc_issuerFid :: pubkey
  tc_signerKey :: pubkey
  tc_revoked :: bool
  tc_expiresAt :: int

definition transfer_claim_fields :: "('x) chain_scheme \<Rightarrow> transfer_claim parser" where
  "transfer_claim_fields C =
    next_field (sized 8 readU64) (\<lambda>topic.
    next_field (sized 32 (readPubkey C)) (\<lambda>issuerFid.
    next_field (skip 32) (\<lambda>_.
    next_field (sized 32 (readPubkey C)) (\<lambda>signerKey.
    next_field (skip 64) (\<lambda>_.
    next_field (skip 8) (\<lambda>_.
    next_field (sized 8 readI64) (\<lambda>expiresAt.
    next_field (sized 1 readFlag) (\<lambda>revoked.
    finish \<lparr> tc_topic = topic, tc_issuerFid = issuerFid, tc_signerKey = signerKey,
      tc_revoked = revoked, tc_expiresAt = expiresAt \<rparr>))))))))"

definition parseTransferClaim :: "('x) chain_scheme \<Rightarrow> bytes \<Rightarrow> transfer_claim option res" where
  "parseTransferClaim C data =
     (if length data < CLAIM_ACCOUNT_SIZE \<or> subarray data 0 8 \<noteq> CLAIM_ACCOUNT_DISCRIMINATOR then Inr None
      else some_res (transfer_claim_fields C data (8 + 32 + 4)))"

record wallet_fid =
  wf_fid :: pubkey
  wf_country :: int
  wf_isActive :: bool

definition wallet_fid_fields :: "('x) chain_scheme \<Rightarrow> wallet_fid parser" where
  "wallet_fid_fields C =
    next_field (sized 32 (readPubkey C)) (\<lambda>fid.
    next_field (sized 2 readU16) (\<lambda>country.
    next_field (skip 32) (\<lambda>_.
    next_field (sized 1 readFlag) (\<lambda>isActive.
    finish \<lparr> wf_fid = fid, wf_country = country, wf_isActive = isActive \<rparr>))))"

definition parseWalletIdentity :: "('x) chain_scheme \<Rightarrow> bytes \<Rightarrow> wallet_fid option res" where
  "parseWalletIdentity C data =
     (if length data < 8 + 32 + 32 + 2 + 32 + 1 then Inr None
      else some_res (wallet_fid_fields C data (8 + 32)))"

definition parse_identity_info ::
    "('w, 'c) client_scheme \<Rightarrow> account option \<Rightarrow> ('w, wallet_fid option) operation" where
  "parse_identity_info C info =
     (case info of None \<Rightarrow> h_return None | Some a \<Rightarrow> pure_step (parseWalletIdentity C (acc_data a)))"

section \<open>Programs and addresses\<close>

definition transfer_program_ids ::
    "('w, 'c) client_scheme \<Rightarrow> program_ids \<Rightarrow> ('w, suite_ids) operation" where
  "transfer_program_ids C P =
     h_bind (getFactoryState C P) (\<lambda>state. h_return (case state of
         None \<Rightarrow> \<lparr> si_token = token P, si_fid = fid P, si_irs = irs P, si_tir = tir P, si_ctr = ctr P,
           si_compliance = compliance P \<rparr>
       | Some f \<Rightarrow> \<lparr> si_token = fs_tokenProgramId f, si_fid = fs_fidProgramId f, si_irs = fs_irsProgramId f,
           si_tir = fs_tirProgramId f, si_ctr = fs_ctrProgramId f,
           si_compliance = fs_complianceProgramId f \<rparr>))"

definition getExtraAccountMetasPda ::
    "('w, 'c) client_scheme \<Rightarrow> pubkey \<Rightarrow> pubkey \<Rightarrow> ('w, pubkey) operation" where
  "getExtraAccountMetasPda C mint hookProgramId =
     pda_of C [ascii ''extra-account-metas'', mint] hookProgramId"

definition getTransferApprovalPda ::
    "('w, 'c) client_scheme \<Rightarrow> pubkey \<Rightarrow> pubkey \<Rightarrow> pubkey \<Rightarrow> pubkey \<Rightarrow> ('w, pubkey) operation" where
  "getTransferApprovalPda C sourceTa destinationTa authority hookProgramId =
     pda_of C [ascii ''transfer_approval'', sourceTa, destinationTa, authority] hookProgramId"

definition getTokenStatePda ::
    "('w, 'c) client_scheme \<Rightarrow> pubkey \<Rightarrow> pubkey \<Rightarrow> ('w, pubkey) operation" where
  "getTokenStatePda C mint tokenProgramId = pda_of C [ascii ''token_state'', mint] tokenProgramId"

definition getTokenAccountAddress ::
    "('w, 'c) client_scheme \<Rightarrow> pubkey \<Rightarrow> pubkey \<Rightarrow> ('w, pubkey) operation" where
  "getTokenAccountAddress C mint owner = ata C mint owner"

definition assertToken2022Account :: "('w, 'c) client_scheme \<Rightarrow> pubkey \<Rightarrow> ('w, unit) operation" where
  "assertToken2022Account C owner = refuse (owner \<noteq> token_2022 C)
     ''Recipient associated token account exists but is not owned by Token-2022.''"

definition daily_usage_pda ::
    "('x) chain_scheme \<Rightarrow> module_ids \<Rightarrow> pubkey \<Rightarrow> pubkey \<Rightarrow> pubkey res" where
  "daily_usage_pda C M moduleAccount wallet =
     (case findProgramAddressSync C [ascii ''daily_usage'', moduleAccount, wallet] (MOD_DAILY_LIMIT M) of
        Inl e \<Rightarrow> Inl e | Inr (k, b) \<Rightarrow> Inr k)"

section \<open>Balances\<close>

definition getRawTokenBalance :: "('w, 'c) client_scheme \<Rightarrow> pubkey \<Rightarrow> ('w, int) operation" where
  "getRawTokenBalance C tokenAccount = ask (\<lambda>w. token_balance_at C w tokenAccount)"

definition getPartialFreezeAmount ::
    "('w, 'c) client_scheme \<Rightarrow> pubkey \<Rightarrow> pubkey \<Rightarrow> pubkey \<Rightarrow> ('w, int) operation" where
  "getPartialFreezeAmount C mint wallet tokenProgramId =
     h_bind (pda_of C [ascii ''partial_freeze'', mint, wallet] tokenProgramId) (\<lambda>partialFreeze.
     h_bind (ask (\<lambda>w. account_at C w partialFreeze)) (\<lambda>info.
     case info of
       None \<Rightarrow> h_return 0
     | Some a \<Rightarrow> if length (acc_data a) < 8 + 32 + 32 + 8 then h_return 0
                 else pure_step (readU64 (acc_data a) (8 + 32 + 32))))"

definition transferable :: "int \<Rightarrow> int \<Rightarrow> int" where
  "transferable sourceBalance partialFreeze =
     (if sourceBalance > partialFreeze then sourceBalance - partialFreeze else 0)"

record listing_capacity =
  lc_sourceAta :: string
  lc_sourceBalance :: string
  lc_transferableBalance :: string
  lc_requestedAmount :: string
  lc_blockers :: "string list"

definition lc_ok :: "listing_capacity \<Rightarrow> bool" where
  "lc_ok r \<longleftrightarrow> lc_blockers r = []"

definition checkSellerListingCapacity ::
    "('w, 'c) client_scheme \<Rightarrow> program_ids \<Rightarrow> pubkey \<Rightarrow> pubkey \<Rightarrow> int \<Rightarrow> ('w, listing_capacity) operation" where
  "checkSellerListingCapacity C P mint seller amount =
    h_bind (transfer_program_ids C P) (\<lambda>ids.
    h_bind (getTokenAccountAddress C mint seller) (\<lambda>sourceAta.
    h_bind (or_default 0 (getRawTokenBalance C sourceAta)) (\<lambda>sourceBalance.
    h_bind (getPartialFreezeAmount C mint seller (si_token ids)) (\<lambda>partialFreeze.
    let transferableBalance = transferable sourceBalance partialFreeze;
        blockers = (if amount \<le> 0 then [''Listing amount must be greater than zero.''] else []) @
          (if sourceBalance < amount then [''Listing amount exceeds current token balance.''] else []) @
          (if transferableBalance < amount
           then [''Listing amount exceeds transferable balance after partial freeze.''] else [])
    in h_return \<lparr> lc_sourceAta = toBase58 C sourceAta, lc_sourceBalance = bigint_toString sourceBalance,
         lc_transferableBalance = bigint_toString transferableBalance,
         lc_requestedAmount = bigint_toString amount, lc_blockers = blockers \<rparr>))))"

section \<open>Claims of a wallet\<close>

record claim_sights =
  sawTopic :: bool
  sawUnrevoked :: bool
  sawUnexpired :: bool
  sawTrusted :: bool

definition entry_trusts :: "account option \<Rightarrow> int \<Rightarrow> ('w, bool) operation" where
  "entry_trusts info topic =
     (case info of None \<Rightarrow> h_return False | Some a \<Rightarrow> pure_step (parseIssuerEntryForTopic (acc_data a) topic))"

definition fid_signs ::
    "('w, 'c) client_scheme \<Rightarrow> account option \<Rightarrow> pubkey \<Rightarrow> ('w, bool) operation" where
  "fid_signs C info signerKey =
     (case info of None \<Rightarrow> h_return False
      | Some a \<Rightarrow> pure_step (parseFidIsIssuerAndSigner C (acc_data a) signerKey))"

text \<open>One claim of the loop; \<open>None\<close> is \<open>return { ok: true }\<close>.\<close>

definition look_at_claim ::
    "('w, 'c) client_scheme \<Rightarrow> suite_ids \<Rightarrow> pubkey \<Rightarrow> int \<Rightarrow> int \<Rightarrow> claim_sights \<Rightarrow> account \<Rightarrow>
     ('w, claim_sights option) operation" where
  "look_at_claim C ids tirState topic now st account =
    h_bind (pure_step (parseTransferClaim C (acc_data account))) (\<lambda>parsed.
    case parsed of
      None \<Rightarrow> h_return (Some st)
    | Some c \<Rightarrow>
      if tc_topic c \<noteq> topic then h_return (Some st) else
      (let st1 = st\<lparr> sawTopic := True \<rparr> in
       if tc_revoked c then h_return (Some st1) else
       let st2 = st1\<lparr> sawUnrevoked := True \<rparr> in
       if claim_expired (tc_expiresAt c) now then h_return (Some st2) else
       let st3 = st2\<lparr> sawUnexpired := True \<rparr> in
       h_bind (pda_of C [ascii ''issuer_entry'', tirState, tc_issuerFid c] (si_tir ids)) (\<lambda>issuerEntry.
       h_bind (ask (\<lambda>w. accounts_at C w [issuerEntry, tc_issuerFid c])) (\<lambda>infos.
       h_bind (entry_trusts (info_at infos 0) (tc_topic c)) (\<lambda>trusted.
       if \<not> trusted then h_return (Some st3) else
       let st4 = st3\<lparr> sawTrusted := True \<rparr> in
       h_bind (fid_signs C (info_at infos 1) (tc_signerKey c)) (\<lambda>signed.
       h_return (if \<not> signed then Some st4 else None)))))))"

fun look_at_claims ::
    "(claim_sights \<Rightarrow> account \<Rightarrow> ('w, claim_sights option) operation) \<Rightarrow> account list \<Rightarrow> claim_sights \<Rightarrow>
     ('w, claim_sights option) operation" where
  "look_at_claims look [] st = h_return (Some st)"
| "look_at_claims look (a # as) st =
     h_bind (look st a) (\<lambda>r. case r of None \<Rightarrow> h_return None | Some st' \<Rightarrow> look_at_claims look as st')"

definition missing_claim_text :: "int \<Rightarrow> string" where
  "missing_claim_text topic =
     ''Missing valid trusted claim for required topic '' @ bigint_toString topic @ ''.''"

definition sights_reason :: "int \<Rightarrow> claim_sights \<Rightarrow> string" where
  "sights_reason topic st =
     (if \<not> sawTopic st then missing_claim_text topic
      else if \<not> sawUnrevoked st then ''Claim for required topic '' @ bigint_toString topic @ '' is revoked.''
      else if \<not> sawUnexpired st then ''Claim for required topic '' @ bigint_toString topic @ '' has expired.''
      else if \<not> sawTrusted st then ''Claim exists for required topic '' @ bigint_toString topic @
        '', but its issuer is not trusted in this token's TIR.''
      else ''Claim for required topic '' @ bigint_toString topic @ '' has an invalid issuer FID signer.'')"

text \<open>The result of \<open>hasValidTrustedClaim\<close>: \<open>None\<close> for ok, or the reason.\<close>

definition hasValidTrustedClaim ::
    "('w, 'c) client_scheme \<Rightarrow> pubkey \<Rightarrow> int \<Rightarrow> pubkey \<Rightarrow> suite_ids \<Rightarrow> ('w, string option) operation" where
  "hasValidTrustedClaim C targetFid topic tirState ids =
    h_bind (seconds_now C) (\<lambda>now.
    h_bind (ask (\<lambda>w. program_accounts_at C w (si_fid ids)
      [FilterSize CLAIM_ACCOUNT_SIZE, FilterKey 8 targetFid])) (\<lambda>claimAccounts.
    h_bind (look_at_claims (look_at_claim C ids tirState topic now) (map snd claimAccounts)
      \<lparr> sawTopic = False, sawUnrevoked = False, sawUnexpired = False, sawTrusted = False \<rparr>) (\<lambda>r.
    h_return (map_option (sights_reason topic) r))))"

section \<open>Eligibility\<close>

record wallet_eligibility =
  we_wallet :: string
  we_walletIdentity :: string
  we_identityExists :: bool
  we_identityActive :: bool
  we_fid :: "string option"
  we_country :: "int option"
  we_blockers :: "string list"

definition frozen_text :: string where
  "frozen_text = ''Wallet is frozen for this token.''"

definition is_frozen_account :: "suite_ids \<Rightarrow> account option \<Rightarrow> bool" where
  "is_frozen_account ids info \<longleftrightarrow>
     (case info of None \<Rightarrow> False | Some a \<Rightarrow> acc_owner a = si_token ids \<and> length (acc_data a) > 0)"

definition claim_blocker ::
    "('w, 'c) client_scheme \<Rightarrow> wallet_fid option \<Rightarrow> pubkey \<Rightarrow> suite_ids \<Rightarrow> int \<Rightarrow> ('w, string list) operation" where
  "claim_blocker C parsedIdentity tirState ids topic =
     (case parsedIdentity of
        None \<Rightarrow> h_return [missing_claim_text topic]
      | Some identity \<Rightarrow> h_bind (hasValidTrustedClaim C (wf_fid identity) topic tirState ids)
          (\<lambda>reason. h_return (list_of_option reason)))"

text \<open>The required topics are numbers here; the code keeps their texts and reads them back.\<close>

definition checkWalletEligibility ::
    "('w, 'c) client_scheme \<Rightarrow> pubkey \<Rightarrow> pubkey \<Rightarrow> pubkey \<Rightarrow> pubkey \<Rightarrow> int list \<Rightarrow> suite_ids \<Rightarrow>
     ('w, wallet_eligibility) operation" where
  "checkWalletEligibility C mint wallet irsState tirState requiredClaimTopics ids =
    h_bind (pda_of C [ascii ''wallet_identity'', irsState, wallet] (si_irs ids)) (\<lambda>walletIdentity.
    h_bind (ask (\<lambda>w. account_at C w walletIdentity)) (\<lambda>identityInfo.
    h_bind (pda_of C [ascii ''fid'', wallet] (si_fid ids)) (\<lambda>fidPda.
    h_bind (ask (\<lambda>w. account_at C w fidPda)) (\<lambda>fidInfo.
    h_bind (parse_identity_info C identityInfo) (\<lambda>parsedIdentity.
    h_bind (pda_of C [ascii ''frozen'', mint, wallet] (si_token ids)) (\<lambda>frozen.
    h_bind (ask (\<lambda>w. account_at C w frozen)) (\<lambda>frozenInfo.
    h_bind (h_collect (claim_blocker C parsedIdentity tirState ids) requiredClaimTopics) (\<lambda>claimBlockers.
    h_return \<lparr> we_wallet = toBase58 C wallet, we_walletIdentity = toBase58 C walletIdentity,
      we_identityExists = (parsedIdentity \<noteq> None),
      we_identityActive = (case parsedIdentity of None \<Rightarrow> False | Some i \<Rightarrow> wf_isActive i),
      we_fid = (case parsedIdentity of Some i \<Rightarrow> Some (toBase58 C (wf_fid i))
        | None \<Rightarrow> (if fidInfo = None then None else Some (toBase58 C fidPda))),
      we_country = map_option wf_country parsedIdentity,
      we_blockers = (if fidInfo = None then [''FID is not registered.''] else []) @
        (case parsedIdentity of
           None \<Rightarrow> [''Wallet is not registered in this token's IRS.'']
         | Some i \<Rightarrow> if wf_isActive i then []
             else [''Wallet identity is registered but inactive in this token's IRS.'']) @
        (if is_frozen_account ids frozenInfo then [frozen_text] else []) @ claimBlockers \<rparr>))))))))"

definition fetchRequiredTopics :: "('w, 'c) client_scheme \<Rightarrow> pubkey \<Rightarrow> ('w, int list) operation" where
  "fetchRequiredTopics C ctrState =
     h_bind (ask (\<lambda>w. account_at C w ctrState)) (\<lambda>info.
     case info of None \<Rightarrow> h_return [] | Some a \<Rightarrow> pure_step (parseCtrTopics (acc_data a)))"

definition senderStatusFromBlockers :: "string list \<Rightarrow> string" where
  "senderStatusFromBlockers blockers =
     (if list_ex (\<lambda>b. js_includes b ''frozen'') blockers then ''SENDER_FROZEN''
      else if list_ex (\<lambda>b. js_includes b ''expired'') blockers then ''SENDER_CLAIM_EXPIRED''
      else ''SENDER_NOT_ELIGIBLE'')"

definition transfer_irs_state :: "('w, 'c) client_scheme \<Rightarrow> pubkey \<Rightarrow> ('w, pubkey) operation" where
  "transfer_irs_state C irpState =
     h_bind (ask (\<lambda>w. account_at C w irpState)) (\<lambda>irpRaw.
     case irpRaw of
       None \<Rightarrow> fail_with ''Identity registry protocol account was not found.''
     | Some a \<Rightarrow> key_at C a 72)"

end
