(* ===== verification/TransferAccounts.thy ===== *)
theory TransferAccounts
  imports TransferReads
begin

text \<open>
  The accounts a transfer passes on: the claims of sender and recipient with their issuers and the
  modules of the compliance program with their support accounts, for the approval, and the accounts of
  the transfer hook. What the code had pushed before a call threw inside a \<open>try\<close> block stays pushed.
\<close>

section \<open>Claims for the approval\<close>

text \<open>The state of one scan: the topics selected, and the two caches, keyed by text.\<close>

record approval_scan =
  as_selected :: "int list"
  as_trusted :: "(string \<times> bool) list"
  as_signers :: "(string \<times> bool) list"
  as_metas :: "account_meta list"

definition isTrustedIssuerForTopic ::
    "('w, 'c) client_scheme \<Rightarrow> suite_ids \<Rightarrow> pubkey \<Rightarrow> (string \<times> bool) list \<Rightarrow> pubkey \<Rightarrow> int \<Rightarrow>
     ('w, bool \<times> (string \<times> bool) list) operation" where
  "isTrustedIssuerForTopic C ids tirState cache issuerFid claimTopic =
    (let cacheKey = toBase58 C issuerFid @ '':'' @ bigint_toString claimTopic
     in case map_of cache cacheKey of
          Some trusted \<Rightarrow> h_return (trusted, cache)
        | None \<Rightarrow>
            h_bind (pda_of C [ascii ''issuer_entry'', tirState, issuerFid] (si_tir ids)) (\<lambda>issuerEntry.
            h_bind (ask (\<lambda>w. account_at C w issuerEntry)) (\<lambda>info.
            h_bind (entry_trusts info claimTopic) (\<lambda>trusted.
            h_return (trusted, (cacheKey, trusted) # cache)))))"

definition issuerSignerMatchesClaim ::
    "('w, 'c) client_scheme \<Rightarrow> (string \<times> bool) list \<Rightarrow> pubkey \<Rightarrow> pubkey \<Rightarrow>
     ('w, bool \<times> (string \<times> bool) list) operation" where
  "issuerSignerMatchesClaim C cache issuerFid signerKey =
    (let cacheKey = toBase58 C issuerFid @ '':'' @ toBase58 C signerKey
     in case map_of cache cacheKey of
          Some matches \<Rightarrow> h_return (matches, cache)
        | None \<Rightarrow>
            h_bind (ask (\<lambda>w. account_at C w issuerFid)) (\<lambda>info.
            h_bind (fid_signs C info signerKey) (\<lambda>matches.
            h_return (matches, (cacheKey, matches) # cache))))"

text \<open>\<open>pushApproval\<close> is \<open>push_key\<close>. One account of the scan, and whether it ends the loop.\<close>

definition scan_claim ::
    "('w, 'c) client_scheme \<Rightarrow> suite_ids \<Rightarrow> pubkey \<Rightarrow> int list \<Rightarrow> int \<Rightarrow> approval_scan \<Rightarrow> pubkey \<times> account \<Rightarrow>
     ('w, approval_scan \<times> bool) operation" where
  "scan_claim C ids tirState requiredTopics now st listed =
    try_step (st, False) (h_lift (decode_claim C (acc_data (snd listed)))) (\<lambda>claim.
    let claimTopic = cl_topic claim in
    if requiredTopics \<noteq> [] \<and> claimTopic \<notin> set requiredTopics then h_return (st, False)
    else if claimTopic \<in> set (as_selected st) then h_return (st, False)
    else if cl_revoked claim then h_return (st, False)
    else if claim_expired (cl_expiresAt claim) now then h_return (st, False)
    else
      try_step (st, False)
        (isTrustedIssuerForTopic C ids tirState (as_trusted st) (cl_issuerFid claim) claimTopic) (\<lambda>(trusted, cache).
      let st1 = st\<lparr> as_trusted := cache \<rparr> in
      if \<not> trusted then h_return (st1, False) else
      try_step (st1, False)
        (issuerSignerMatchesClaim C (as_signers st1) (cl_issuerFid claim) (cl_signerKey claim)) (\<lambda>(matches, cache').
      let st2 = st1\<lparr> as_signers := cache' \<rparr> in
      if \<not> matches then h_return (st2, False) else
      try_step (st2, False)
        (pda_of C [ascii ''issuer_entry'', tirState, cl_issuerFid claim] (si_tir ids)) (\<lambda>issuerEntry.
      let metas = push_key C (push_key C (push_key C (as_metas st2) (fst listed) False) issuerEntry False)
            (cl_issuerFid claim) False;
          st3 = st2\<lparr> as_metas := metas, as_selected := as_selected st2 @ [claimTopic] \<rparr>
      in h_return (st3, requiredTopics \<noteq> [] \<and> length (as_selected st3) \<ge> length requiredTopics)))))"

fun scan_claims ::
    "(approval_scan \<Rightarrow> pubkey \<times> account \<Rightarrow> ('w, approval_scan \<times> bool) operation) \<Rightarrow> (pubkey \<times> account) list \<Rightarrow>
     approval_scan \<Rightarrow> ('w, approval_scan) operation" where
  "scan_claims scan [] st = h_return st"
| "scan_claims scan (a # as) st =
     h_bind (scan st a) (\<lambda>(st', stop). if stop then h_return st' else scan_claims scan as st')"

definition appendClaimsForWallet ::
    "('w, 'c) client_scheme \<Rightarrow> suite_ids \<Rightarrow> pubkey \<Rightarrow> int list \<Rightarrow> int \<Rightarrow> account_meta list \<Rightarrow> pubkey \<Rightarrow>
     ('w, account_meta list) operation" where
  "appendClaimsForWallet C ids tirState requiredTopics now metas wallet =
    h_bind (pda_of C [ascii ''fid'', wallet] (si_fid ids)) (\<lambda>targetFid.
    h_bind (ask (\<lambda>w. program_accounts_at C w (si_fid ids)
      [FilterSize CLAIM_ACCOUNT_SIZE, FilterKey 8 targetFid])) (\<lambda>claimAccounts.
    h_bind (scan_claims (scan_claim C ids tirState requiredTopics now) claimAccounts
      \<lparr> as_selected = [], as_trusted = [], as_signers = [], as_metas = metas \<rparr>) (\<lambda>st.
    h_return (as_metas st))))"

section \<open>Modules for the approval\<close>

definition broken_text :: string where
  "broken_text = ''compliance configuration is broken on-chain''"

definition assertComplianceModuleAccountsExist ::
    "('w, 'c) client_scheme \<Rightarrow> pubkey list \<Rightarrow> pubkey \<Rightarrow> ('w, unit) operation" where
  "assertComplianceModuleAccountsExist C moduleAccounts mint =
    (if moduleAccounts = [] then h_return ()
     else h_bind (ask (\<lambda>w. accounts_at C w moduleAccounts)) (\<lambda>accountInfos.
       let missing = map fst (filter (\<lambda>(k, info). info = None) (with_infos moduleAccounts accountInfos)) in
       if missing = [] then h_return ()
       else fail_with (''This token's '' @ broken_text @ '' for mint '' @ toBase58 C mint @ ''. '' @
         bigint_toString (int (length missing)) @ '' bound module account(s) are missing: '' @
         join_with '', '' (map (toBase58 C) (take 3 missing)) @
         (if length missing > 3 then '', ...'' else []) @
         ''. The token issuer must repair or rebind those compliance modules before transfers can succeed.'')))"

text \<open>\<open>for (const country of [senderCountry, recipientCountry])\<close>; the flag tells whether no address failed.\<close>

fun push_counts ::
    "('x) chain_scheme \<Rightarrow> module_ids \<Rightarrow> pubkey \<Rightarrow> int option list \<Rightarrow> account_meta list \<Rightarrow>
     account_meta list \<times> bool" where
  "push_counts C M moduleAccount [] metas = (metas, True)"
| "push_counts C M moduleAccount (None # cs) metas = push_counts C M moduleAccount cs metas"
| "push_counts C M moduleAccount (Some c # cs) metas =
     (case country_count_pda C M moduleAccount c of
        Inl e \<Rightarrow> (metas, False)
      | Inr countryCount \<Rightarrow> push_counts C M moduleAccount cs (push_key C metas countryCount True))"

definition push_usage ::
    "('x) chain_scheme \<Rightarrow> module_ids \<Rightarrow> pubkey \<Rightarrow> pubkey \<Rightarrow> pubkey \<Rightarrow> account_meta list \<Rightarrow>
     account_meta list \<times> bool" where
  "push_usage C M moduleAccount owner sender metas =
     (if owner \<noteq> MOD_DAILY_LIMIT M then (metas, True)
      else case daily_usage_pda C M moduleAccount sender of
        Inl e \<Rightarrow> (metas, False)
      | Inr dailyUsage \<Rightarrow> (push_key C metas dailyUsage True, True))"

fun push_approval_modules ::
    "('x) chain_scheme \<Rightarrow> module_ids \<Rightarrow> pubkey \<Rightarrow> int option list \<Rightarrow> account_meta list \<Rightarrow>
     (pubkey \<times> account option) list \<Rightarrow> account_meta list" where
  "push_approval_modules C M sender countries metas [] = metas"
| "push_approval_modules C M sender countries metas ((moduleAccount, moduleInfo) # rest) =
     (let metas1 = push_key C metas moduleAccount True in
      case moduleInfo of
        None \<Rightarrow> push_approval_modules C M sender countries metas1 rest
      | Some info \<Rightarrow>
          (case push_usage C M moduleAccount (acc_owner info) sender (push_key C metas1 (acc_owner info) False) of
             (metas2, False) \<Rightarrow> metas2
           | (metas2, True) \<Rightarrow>
               (case (if acc_owner info = MOD_COUNTRY_CAP M then push_counts C M moduleAccount countries metas2
                      else (metas2, True)) of
                  (metas3, False) \<Rightarrow> metas3
                | (metas3, True) \<Rightarrow> push_approval_modules C M sender countries metas3 rest)))"

definition approval_modules ::
    "('w, 'c) client_scheme \<Rightarrow> module_ids \<Rightarrow> suite_ids \<Rightarrow> pubkey \<Rightarrow> pubkey \<Rightarrow> pubkey \<Rightarrow> int option list \<Rightarrow>
     account_meta list \<Rightarrow> ('w, account_meta list) operation" where
  "approval_modules C M ids mint complianceState sender countries metas =
    h_catch
     (h_bind (ask (\<lambda>w. anchor_compliance_state C w (si_compliance ids) complianceState)) (\<lambda>st.
      h_bind (assertComplianceModuleAccountsExist C (cs_modules st) mint) (\<lambda>_.
      h_bind (ask (\<lambda>w. accounts_at C w (cs_modules st))) (\<lambda>moduleInfos.
      h_return (push_approval_modules C M sender countries metas (with_infos (cs_modules st) moduleInfos))))))
     (\<lambda>err. case thrown_message err of
        Some m \<Rightarrow> if js_includes m broken_text then h_throw err else h_return metas
      | None \<Rightarrow> h_return metas)"

definition getTransferApprovalRemainingAccounts ::
    "('w, 'c) client_scheme \<Rightarrow> module_ids \<Rightarrow> pubkey \<Rightarrow> pubkey \<Rightarrow> pubkey \<Rightarrow> pubkey \<Rightarrow> pubkey \<Rightarrow> suite_ids \<Rightarrow>
     int option \<Rightarrow> int option \<Rightarrow> ('w, account_meta list) operation" where
  "getTransferApprovalRemainingAccounts C M sender recipient mint tirState complianceState ids
       senderCountry recipientCountry =
    h_bind (or_default [] (h_bind (pda_of C [ascii ''ctr_state'', mint] (si_ctr ids)) (\<lambda>ctrState.
      h_bind (ask (\<lambda>w. anchor_ctr_topics C w (si_ctr ids) ctrState)) (\<lambda>topics.
      h_return (foldl add_new [] topics))))) (\<lambda>requiredTopics.
    h_bind (seconds_now C) (\<lambda>now.
    h_bind (appendClaimsForWallet C ids tirState requiredTopics now [] sender) (\<lambda>metas1.
    h_bind (appendClaimsForWallet C ids tirState requiredTopics now metas1 recipient) (\<lambda>metas2.
    approval_modules C M ids mint complianceState sender [senderCountry, recipientCountry] metas2))))"

section \<open>Accounts of the transfer hook\<close>

definition hook_module_metas ::
    "('w, 'c) client_scheme \<Rightarrow> module_ids \<Rightarrow> pubkey \<Rightarrow> int option list \<Rightarrow> pubkey \<times> account option \<Rightarrow>
     ('w, account_meta list) operation" where
  "hook_module_metas C M fromWallet countries listed =
    (case snd listed of
       None \<Rightarrow> h_return []
     | Some info \<Rightarrow>
        h_bind (if acc_owner info = MOD_DAILY_LIMIT M
            then h_bind (pure_step (daily_usage_pda C M (fst listed) fromWallet)) (\<lambda>k. h_return [meta k False True])
            else h_return []) (\<lambda>usage.
        h_bind (if acc_owner info = MOD_COUNTRY_CAP M
            then h_collect (\<lambda>c. h_bind (pure_step (country_count_pda C M (fst listed) c))
                   (\<lambda>k. h_return [meta k False True])) (List.map_filter (\<lambda>c. c) countries)
            else h_return []) (\<lambda>counts.
        h_return ([meta (fst listed) False True] @
          (if toBase58 C (acc_owner info) \<in> MODULE_PROGRAM_IDS C M then [read_meta (acc_owner info)] else []) @
          usage @ counts))))"

text \<open>The filter keeps the first of the accounts with one text, and none whose text \<open>existing\<close> has.\<close>

fun new_metas :: "('x) chain_scheme \<Rightarrow> string set \<Rightarrow> account_meta list \<Rightarrow> account_meta list" where
  "new_metas C existing [] = []"
| "new_metas C existing (m # ms) =
     (let key = toBase58 C (am_pubkey m) in
      if key \<in> existing then new_metas C existing ms
      else m # new_metas C (insert key existing) ms)"

definition appendTransferHookAccounts ::
    "('w, 'c) client_scheme \<Rightarrow> program_ids \<Rightarrow> module_ids \<Rightarrow> account_meta list \<Rightarrow> pubkey \<Rightarrow> pubkey \<Rightarrow> pubkey \<Rightarrow>
     pubkey \<Rightarrow> pubkey \<Rightarrow> int option \<Rightarrow> int option \<Rightarrow> suite_ids \<Rightarrow> ('w, account_meta list) operation" where
  "appendTransferHookAccounts C P M keys extraAccountMetas tokenState transferApproval complianceState
       fromWallet fromCountry toCountry ids =
    h_bind (ask (\<lambda>w. anchor_compliance_state C w (si_compliance ids) complianceState)) (\<lambda>st.
    h_bind (if cs_modules st \<noteq> [] then ask (\<lambda>w. accounts_at C w (cs_modules st)) else h_return []) (\<lambda>moduleInfos.
    h_bind (h_collect (hook_module_metas C M fromWallet [fromCountry, toCountry])
      (with_infos (cs_modules st) moduleInfos)) (\<lambda>modules.
    let baseKeys = take 4 keys;
        appended = [read_meta extraAccountMetas, read_meta (si_token ids), read_meta tokenState,
          meta transferApproval False True, read_meta complianceState, read_meta (si_compliance ids)] @
          modules @ [read_meta (tokenHook P)]
    in h_return (baseKeys @ new_metas C ((\<lambda>m. toBase58 C (am_pubkey m)) ` set baseKeys) appended))))"

end
