(* ===== verification/TransferRun.thy ===== *)
theory TransferRun
  imports TransferAccounts
begin

text \<open>
  Transfers (\<open>frontend/src/services/transfer.ts\<close>): the two instructions, their transactions, which go
  through an address lookup table when they are too long, the wait for the table and for the
  confirmation, the simulation, the preflight and the transfer itself.

  The wait for the table polls until a deadline; it is a partial function, so \<open>None\<close> is a wait that
  never ends, and the operations that use it are \<open>running\<close> operations.
\<close>

section \<open>Transactions\<close>

record lookup_table =
  lt_key :: pubkey
  lt_addresses :: "pubkey list"
  lt_lastExtendedSlot :: int

datatype transaction =
    VersionedTx pubkey string "client_ix list" "lookup_table list"
  | LegacyTx pubkey string "client_ix list"

text \<open>
  What the transfer service has of the connection, the wallet and the library besides a \<open>client\<close>:
  \<open>compile_error\<close> is the failure of \<open>compileToV0Message\<close>, \<open>get_logs\<close> the method an error of the library
  has, \<open>ix_view\<close> an instruction as the library builds it, \<open>pause_ms\<close> the world after a timer. The number
  of retries is that of \<open>maxRetries\<close>.
\<close>

record simulated =
  sm_err :: jsval
  sm_logs :: "string list"

record 'w transfer_client = "'w client" +
  latest_blockhash :: "'w \<Rightarrow> jsval + (string \<times> int)"
  compile_error :: "transaction \<Rightarrow> jsval option"
  serialize_tx :: "transaction \<Rightarrow> jsval + bytes"
  sign_tx :: "'w \<Rightarrow> transaction \<Rightarrow> jsval + transaction"
  send_raw :: "bytes \<Rightarrow> nat option \<Rightarrow> 'w \<Rightarrow> 'w \<times> (jsval + string)"
  confirm_tx :: "string \<Rightarrow> string \<Rightarrow> int \<Rightarrow> 'w \<Rightarrow> 'w \<times> (jsval + jsval)"
  status_at :: "'w \<Rightarrow> string \<Rightarrow> jsval + (jsval \<times> string option) option"
  slot_at :: "'w \<Rightarrow> jsval + int"
  lookup_table_at :: "'w \<Rightarrow> pubkey \<Rightarrow> jsval + lookup_table option"
  simulate_tx :: "'w \<Rightarrow> transaction \<Rightarrow> jsval + simulated"
  get_logs :: "'w \<Rightarrow> jsval \<Rightarrow> jsval + string list"
  create_table :: "pubkey \<Rightarrow> int \<Rightarrow> jsval + (client_ix \<times> pubkey)"
  extend_table :: "pubkey \<Rightarrow> pubkey \<Rightarrow> pubkey list \<Rightarrow> client_ix"
  ix_view :: "client_ix \<Rightarrow> transaction_instruction"
  pause_ms :: "int \<Rightarrow> 'w \<Rightarrow> 'w"

definition change_world :: "('w \<Rightarrow> 'w \<times> (jsval + 'a)) \<Rightarrow> ('w, 'a) operation" where
  "change_world f s = (case f (world s) of (w, r) \<Rightarrow> (s\<lparr> world := w \<rparr>, r))"

definition pause_for :: "('w, 'c) transfer_client_scheme \<Rightarrow> int \<Rightarrow> ('w, unit) operation" where
  "pause_for C ms = change_world (\<lambda>w. (pause_ms C ms w, Inr ()))"

section \<open>Errors\<close>

definition compliancePatterns :: "string list" where
  "compliancePatterns = [''ComplianceCheckFailed'', ''DailyLimitExceeded'', ''MaxBalanceExceeded'',
     ''MaxTransferExceeded'', ''LockupActive'', ''SupplyCapExceeded'', ''MaxInvestorsExceeded'',
     ''CountryRestricted'', ''CountryCapExceeded'']"

text \<open>\<open>const [, innerErr] = err.InstructionError\<close> of an array, which is what the node has there.\<close>

definition second_item :: "jsval \<Rightarrow> jsval" where
  "second_item v = (case v of JArr (x # y # _) \<Rightarrow> y | _ \<Rightarrow> JUndefined)"

definition decodeSimulationError :: "jsval \<Rightarrow> string list \<Rightarrow> string" where
  "decodeSimulationError err logs =
    (let logStr = join_with [CHR 0x0A] logs in
     case find (js_includes logStr) compliancePatterns of
       Some p \<Rightarrow> decodeTransferHookError (error_of p)
     | None \<Rightarrow>
       (case match_error_name logStr of
          Some n \<Rightarrow> decodeTransferHookError (error_of (''Error Code: '' @ n))
        | None \<Rightarrow>
          (case match_hex_code logStr of
             Some h \<Rightarrow> decodeTransferHookError (JObj [(''code'', JNum (parse_hex h))])
           | None \<Rightarrow>
             (case error_field err ''InstructionError'' of
                Some e \<Rightarrow> decodeTransferHookError (second_item e)
              | None \<Rightarrow> formatTransactionError err))))"

definition logs_of :: "('w, 'c) transfer_client_scheme \<Rightarrow> jsval \<Rightarrow> ('w, string list) operation" where
  "logs_of C err =
     (case error_field err ''logs'' of
        Some (JArr ls) \<Rightarrow> h_return (map js_String ls)
      | _ \<Rightarrow> ask (\<lambda>w. get_logs C w err))"

definition formatSendError :: "('w, 'c) transfer_client_scheme \<Rightarrow> jsval \<Rightarrow> ('w, string) operation" where
  "formatSendError C err =
     h_bind (or_default [] (logs_of C err)) (\<lambda>logs.
     h_return (if logs \<noteq> [] then decodeSimulationError err logs else formatTransactionError err))"

section \<open>Confirmation\<close>

text \<open>\<open>for (let attempt = 0; attempt < 12; attempt += 1)\<close>\<close>

fun poll_signature :: "('w, 'c) transfer_client_scheme \<Rightarrow> string \<Rightarrow> nat \<Rightarrow> ('w, unit) operation" where
  "poll_signature C signature 0 =
     fail_with ''Transaction was submitted but confirmation is delayed on devnet. Check history/explorer, then retry only if it does not appear.''"
| "poll_signature C signature (Suc attempts) =
     h_bind (ask (\<lambda>w. status_at C w signature)) (\<lambda>status.
     let again = h_bind (pause_for C 1000) (\<lambda>_. poll_signature C signature attempts) in
     case status of
       None \<Rightarrow> again
     | Some (err, confirmationStatus) \<Rightarrow>
         if js_truthy err then fail_with (decodeTransferHookError err)
         else if confirmationStatus \<in> {Some ''confirmed'', Some ''finalized''} then h_return ()
         else again)"

definition confirmSubmittedTransaction ::
    "('w, 'c) transfer_client_scheme \<Rightarrow> string \<Rightarrow> string \<Rightarrow> int \<Rightarrow> ('w, unit) operation" where
  "confirmSubmittedTransaction C signature blockhash lastValidBlockHeight =
    h_catch
     (h_bind (change_world (confirm_tx C signature blockhash lastValidBlockHeight)) (\<lambda>err.
      if js_truthy err then fail_with (decodeTransferHookError err) else h_return ()))
     (\<lambda>err. if \<not> js_includes (formatTransactionError err) ''Transaction expired'' then h_throw err
       else poll_signature C signature 12)"

section \<open>Sending\<close>

definition compileVersionedTransaction ::
    "('w, 'c) transfer_client_scheme \<Rightarrow> pubkey \<Rightarrow> string \<Rightarrow> client_ix list \<Rightarrow> lookup_table list \<Rightarrow>
     ('w, transaction) operation" where
  "compileVersionedTransaction C payerKey recentBlockhash instructions lookupTables =
    (let tx = VersionedTx payerKey recentBlockhash instructions lookupTables
     in case compile_error C tx of Some e \<Rightarrow> h_throw e | None \<Rightarrow> h_return tx)"

definition getSerializedTransactionSize :: "('w, 'c) transfer_client_scheme \<Rightarrow> transaction \<Rightarrow> nat option" where
  "getSerializedTransactionSize C tx = (case serialize_tx C tx of Inl _ \<Rightarrow> None | Inr bs \<Rightarrow> Some (length bs))"

definition too_long :: "nat option \<Rightarrow> bool" where
  "too_long txSize \<longleftrightarrow> (case txSize of None \<Rightarrow> True | Some n \<Rightarrow> n > 1232)"

definition sendLegacyTransaction ::
    "('w, 'c) transfer_client_scheme \<Rightarrow> pubkey \<Rightarrow> client_ix list \<Rightarrow> ('w, string) operation" where
  "sendLegacyTransaction C payerKey instructions =
    h_bind (ask (latest_blockhash C)) (\<lambda>(blockhash, lastValidBlockHeight).
    h_bind (ask (\<lambda>w. sign_tx C w (LegacyTx payerKey blockhash instructions))) (\<lambda>signed.
    h_bind (h_lift (serialize_tx C signed)) (\<lambda>raw.
    h_bind (change_world (send_raw C raw None)) (\<lambda>signature.
    h_bind (confirmSubmittedTransaction C signature blockhash lastValidBlockHeight) (\<lambda>_.
    h_return signature)))))"

definition collectLookupTableAddresses ::
    "('w, 'c) transfer_client_scheme \<Rightarrow> pubkey \<Rightarrow> client_ix list \<Rightarrow> pubkey list" where
  "collectLookupTableAddresses C payerKey instructions =
    (let pushAddress = (\<lambda>addresses k. if toBase58 C k = toBase58 C payerKey \<or>
             toBase58 C k \<in> toBase58 C ` set addresses then addresses else addresses @ [k])
     in foldl (\<lambda>addresses ix. foldl pushAddress (pushAddress addresses (ix_programId (ix_view C ix)))
          (map am_pubkey (filter (\<lambda>m. \<not> am_isSigner m) (ix_keys (ix_view C ix))))) [] instructions)"

text \<open>The slices of the loop \<open>for (let index = 0; index < lookupAddresses.length; index += 24)\<close>.\<close>

function slices :: "nat \<Rightarrow> 'a list \<Rightarrow> 'a list list" where
  "slices n xs = (if xs = [] \<or> n = 0 then [] else take n xs # slices n (drop n xs))"
  by auto
termination by (relation "measure (\<lambda>(n, xs). length xs)") auto

declare slices.simps [simp del]

definition extend_lookup_table ::
    "('w, 'c) transfer_client_scheme \<Rightarrow> pubkey \<Rightarrow> client_ix \<Rightarrow> pubkey \<Rightarrow> nat \<times> pubkey list \<Rightarrow>
     ('w, unit) operation" where
  "extend_lookup_table C payerKey createLookupTableIx lookupTableAddress chunk =
     h_bind (sendLegacyTransaction C payerKey
       ((if fst chunk = 0 then [createLookupTableIx] else []) @
        [extend_table C payerKey lookupTableAddress (snd chunk)])) (\<lambda>_. h_return ())"

section \<open>Waiting for the lookup table\<close>

text \<open>One round: the table when it is ready, or what the node has of it.\<close>

definition poll_lookup_table ::
    "('w, 'c) transfer_client_scheme \<Rightarrow> pubkey \<Rightarrow> nat \<Rightarrow> ('w, lookup_table + lookup_table option) operation" where
  "poll_lookup_table C lookupTableAddress expectedAddressCount =
    h_bind (ask (\<lambda>w. lookup_table_at C w lookupTableAddress)) (\<lambda>lookupTable.
    case lookupTable of
      None \<Rightarrow> h_return (Inr None)
    | Some t \<Rightarrow>
        if length (lt_addresses t) \<ge> expectedAddressCount then
          h_bind (ask (slot_at C)) (\<lambda>currentSlot.
          h_return (if currentSlot > lt_lastExtendedSlot t then Inl t else Inr (Some t)))
        else h_return (Inr (Some t)))"

definition table_timeout :: "lookup_table option \<Rightarrow> ('w, lookup_table) operation" where
  "table_timeout lastLookupTable =
     fail_with (if lastLookupTable \<noteq> None
       then ''Address lookup table was created but was not ready for this slot. Please retry the transfer.''
       else ''Address lookup table was not available after creation.'')"

partial_function (option) await_lookup_table ::
    "('w, 'c) transfer_client_scheme \<Rightarrow> pubkey \<Rightarrow> nat \<Rightarrow> int \<Rightarrow> lookup_table option \<Rightarrow> 'w service \<Rightarrow>
     ('w service \<times> (jsval + lookup_table)) option" where
  "await_lookup_table C address count deadline lastLookupTable s =
     (if now_ms C (world s) < deadline then
        (case poll_lookup_table C address count s of
           (t, Inl e) \<Rightarrow> Some (t, Inl e)
         | (t, Inr (Inl table)) \<Rightarrow> Some (t, Inr table)
         | (t, Inr (Inr found)) \<Rightarrow>
             await_lookup_table C address count deadline found (fst (pause_for C 500 t)))
      else Some (table_timeout lastLookupTable s))"

type_synonym ('w, 'a) running = "'w service \<Rightarrow> ('w service \<times> (jsval + 'a)) option"

definition run :: "('w, 'a) operation \<Rightarrow> ('w, 'a) running" where
  "run m s = Some (m s)"

definition r_bind :: "('w, 'a) running \<Rightarrow> ('a \<Rightarrow> ('w, 'b) running) \<Rightarrow> ('w, 'b) running" where
  "r_bind m k s = (case m s of None \<Rightarrow> None | Some (t, Inl e) \<Rightarrow> Some (t, Inl e) | Some (t, Inr x) \<Rightarrow> k x t)"

definition r_catch :: "('w, 'a) running \<Rightarrow> (jsval \<Rightarrow> ('w, 'a) running) \<Rightarrow> ('w, 'a) running" where
  "r_catch m k s = (case m s of None \<Rightarrow> None | Some (t, Inl e) \<Rightarrow> k e t | Some (t, Inr x) \<Rightarrow> Some (t, Inr x))"

definition waitForLookupTableActivation ::
    "('w, 'c) transfer_client_scheme \<Rightarrow> pubkey \<Rightarrow> nat \<Rightarrow> ('w, lookup_table) running" where
  "waitForLookupTableActivation C lookupTableAddress expectedAddressCount =
     r_bind (run (ask_now C)) (\<lambda>now.
     await_lookup_table C lookupTableAddress expectedAddressCount (now + 20000) None)"

definition createLookupTableForInstructions ::
    "('w, 'c) transfer_client_scheme \<Rightarrow> pubkey \<Rightarrow> client_ix list \<Rightarrow> ('w, lookup_table) running" where
  "createLookupTableForInstructions C payerKey instructions =
    r_bind (run (h_bind (ask (slot_at C)) (\<lambda>slot.
      h_bind (h_lift (create_table C payerKey (slot - 1))) (\<lambda>(createLookupTableIx, lookupTableAddress).
      h_bind (h_each (extend_lookup_table C payerKey createLookupTableIx lookupTableAddress)
        (enumerate 0 (slices 24 (collectLookupTableAddresses C payerKey instructions)))) (\<lambda>_.
      h_return lookupTableAddress))))) (\<lambda>lookupTableAddress.
    waitForLookupTableActivation C lookupTableAddress
      (length (collectLookupTableAddresses C payerKey instructions)))"

definition too_long_text :: "nat option \<Rightarrow> string" where
  "too_long_text txSize =
     ''Transfer transaction is '' @
     (case txSize of None \<Rightarrow> ''too large to serialize'' | Some n \<Rightarrow> bigint_toString (int n)) @
     '' bytes, above Solana's 1232-byte limit even with an address lookup table.''"

text \<open>The transaction, compressed by a lookup table where it is too long, with its block hash.\<close>

definition versioned_transaction ::
    "('w, 'c) transfer_client_scheme \<Rightarrow> pubkey \<Rightarrow> client_ix list \<Rightarrow> ('w, transaction \<times> string \<times> int) running" where
  "versioned_transaction C payerKey instructions =
    r_bind (run (h_bind (ask (latest_blockhash C)) (\<lambda>(blockhash, height).
      h_bind (compileVersionedTransaction C payerKey blockhash instructions []) (\<lambda>tx.
      h_return (tx, blockhash, height))))) (\<lambda>(tx, blockhash, height).
    if \<not> too_long (getSerializedTransactionSize C tx) then run (h_return (tx, blockhash, height))
    else r_bind (createLookupTableForInstructions C payerKey instructions) (\<lambda>lookupTable.
      run (h_bind (ask (latest_blockhash C)) (\<lambda>(blockhash, height).
        h_bind (compileVersionedTransaction C payerKey blockhash instructions [lookupTable]) (\<lambda>tx.
        let lutTxSize = getSerializedTransactionSize C tx in
        if too_long lutTxSize then fail_with (too_long_text lutTxSize)
        else h_return (tx, blockhash, height))))))"

definition submit_transaction ::
    "('w, 'c) transfer_client_scheme \<Rightarrow> transaction \<times> string \<times> int \<Rightarrow> ('w, string) operation" where
  "submit_transaction C prepared =
    (case prepared of (tx, blockhash, height) \<Rightarrow>
     h_bind (ask (\<lambda>w. sign_tx C w tx)) (\<lambda>signed.
     h_bind (h_catch (h_bind (h_lift (serialize_tx C signed)) (\<lambda>raw. change_world (send_raw C raw (Some 3))))
       (\<lambda>err. h_bind (formatSendError C err) fail_with)) (\<lambda>signature.
     h_bind (confirmSubmittedTransaction C signature blockhash height) (\<lambda>_.
     h_return signature))))"

definition sendVersionedInstructions ::
    "('w, 'c) transfer_client_scheme \<Rightarrow> pubkey \<Rightarrow> client_ix list \<Rightarrow> ('w, string) running" where
  "sendVersionedInstructions C payerKey instructions =
     r_bind (versioned_transaction C payerKey instructions) (\<lambda>prepared. run (submit_transaction C prepared))"

end
