(* ===== verification/TransferOperations.thy ===== *)
theory TransferOperations
  imports TransferRun
begin

text \<open>
  The operations of the transfer service (\<open>frontend/src/services/transfer.ts\<close>): the two instructions of a
  transfer, its simulation, the preflight, the accounts it creates first, and the transfer.
\<close>

section \<open>Instructions\<close>

definition RECIPIENT_ATA_NOTICE :: string where
  "RECIPIENT_ATA_NOTICE = ''Recipient Token-2022 account does not exist yet. Send Transfer will create it first, then run the compliant transfer.''"

definition OVERSIZED_SIMULATION_NOTICE :: string where
  "OVERSIZED_SIMULATION_NOTICE = ''Transfer needs address lookup table compression because of compliance accounts. Simulation packet is too large, but Send Transfer will create the lookup table and submit the compliant transfer.''"

text \<open>The keys \<open>createTransferCheckedInstruction\<close> documents: source, mint, destination and owner.\<close>

definition transfer_checked_keys :: "pubkey \<Rightarrow> pubkey \<Rightarrow> pubkey \<Rightarrow> pubkey \<Rightarrow> account_meta list" where
  "transfer_checked_keys sourceTa mint destinationTa owner =
     [meta sourceTa False True, meta mint False False, meta destinationTa False True, meta owner True False]"

text \<open>The balance of the recipient's account, which need not exist where \<open>allowMissing\<close> holds.\<close>

definition destination_balance ::
    "('w, 'c) client_scheme \<Rightarrow> bool \<Rightarrow> pubkey \<Rightarrow> ('w, int) operation" where
  "destination_balance C allowMissing destinationTa =
    h_bind (ask (\<lambda>w. account_at C w destinationTa)) (\<lambda>destinationInfo.
    case destinationInfo of
      None \<Rightarrow> if \<not> allowMissing then fail_with RECIPIENT_ATA_NOTICE else h_return 0
    | Some a \<Rightarrow> h_bind (assertToken2022Account C (acc_owner a)) (\<lambda>_. getRawTokenBalance C destinationTa))"

text \<open>The identities of sender and recipient in the registry of the token.\<close>

definition transfer_identities ::
    "('w, 'c) client_scheme \<Rightarrow> suite_ids \<Rightarrow> pubkey \<Rightarrow> pubkey \<Rightarrow> pubkey \<Rightarrow>
     ('w, pubkey \<times> pubkey \<times> wallet_fid option \<times> wallet_fid option) operation" where
  "transfer_identities C ids irsState from to =
    h_bind (pda_of C [ascii ''wallet_identity'', irsState, from] (si_irs ids)) (\<lambda>fromWalletIdentity.
    h_bind (pda_of C [ascii ''wallet_identity'', irsState, to] (si_irs ids)) (\<lambda>toWalletIdentity.
    h_bind (ask (\<lambda>w. accounts_at C w [fromWalletIdentity, toWalletIdentity])) (\<lambda>infos.
    h_bind (parse_identity_info C (info_at infos 0)) (\<lambda>fromIdentity.
    h_bind (parse_identity_info C (info_at infos 1)) (\<lambda>toIdentity.
    h_return (fromWalletIdentity, toWalletIdentity, fromIdentity, toIdentity))))))"

definition buildTransferInstructions ::
    "('w, 'c) client_scheme \<Rightarrow> program_ids \<Rightarrow> module_ids \<Rightarrow> pubkey \<Rightarrow> pubkey \<Rightarrow> pubkey \<Rightarrow> int \<Rightarrow> int \<Rightarrow>
     suite_ids \<Rightarrow> bool \<Rightarrow> ('w, client_ix \<times> client_ix) operation" where
  "buildTransferInstructions C P M mint from to amount decimals ids allowMissingDestinationAta =
    h_bind (getTokenAccountAddress C mint from) (\<lambda>sourceTa.
    h_bind (getTokenAccountAddress C mint to) (\<lambda>destinationTa.
    h_bind (getExtraAccountMetasPda C mint (tokenHook P)) (\<lambda>extraAccountMetas.
    h_bind (getTokenStatePda C mint (si_token ids)) (\<lambda>tokenState.
    h_bind (getTransferApprovalPda C sourceTa destinationTa from (tokenHook P)) (\<lambda>transferApproval.
    h_bind (getRawTokenBalance C sourceTa) (\<lambda>sourceBalance.
    h_bind (destination_balance C allowMissingDestinationAta destinationTa) (\<lambda>destinationBalance.
    h_bind (refuse (sourceBalance < amount) ''Insufficient token balance.'') (\<lambda>_.
    h_bind (ask (\<lambda>w. anchor_token_state C w (si_token ids) tokenState)) (\<lambda>ts.
    let irpState = ts_identityRegistry ts; complianceState = ts_compliance ts in
    h_bind (transfer_irs_state C irpState) (\<lambda>irsState.
    h_bind (pda_of C [ascii ''tir_state'', mint] (si_tir ids)) (\<lambda>tirState.
    h_bind (pda_of C [ascii ''ctr_state'', mint] (si_ctr ids)) (\<lambda>ctrState.
    h_bind (transfer_identities C ids irsState from to) (\<lambda>(fromWalletIdentity, toWalletIdentity, fromIdentity, toIdentity).
    h_bind (pda_of C [ascii ''frozen'', mint, from] (si_token ids)) (\<lambda>fromFrozen.
    h_bind (pda_of C [ascii ''frozen'', mint, to] (si_token ids)) (\<lambda>toFrozen.
    h_bind (pda_of C [ascii ''partial_freeze'', mint, from] (si_token ids)) (\<lambda>fromPartialFreeze.
    let fromCountry = map_option wf_country fromIdentity; toCountry = map_option wf_country toIdentity in
    h_bind (getTransferApprovalRemainingAccounts C M from to mint tirState complianceState ids
      fromCountry toCountry) (\<lambda>approvalRemainingAccounts.
    h_bind (appendTransferHookAccounts C P M (transfer_checked_keys sourceTa mint destinationTa from)
      extraAccountMetas tokenState transferApproval complianceState from fromCountry toCountry ids) (\<lambda>keys.
    h_return
      (AnchorIx (si_token ids) ''transfer'' [BU64 amount, BU64 sourceBalance, BU64 destinationBalance]
         [(''tokenState'', tokenState), (''sourceTokenAccount'', sourceTa), (''tokenMintAccount'', mint),
          (''destinationTokenAccount'', destinationTa), (''fromWallet'', from), (''toWallet'', to),
          (''extraAccountMetas'', extraAccountMetas), (''controllerProgram'', si_token ids),
          (''hookProgram'', tokenHook P), (''transferApproval'', transferApproval),
          (''systemProgram'', system_program C), (''irpState'', irpState), (''irsState'', irsState),
          (''tirState'', tirState), (''ctrState'', ctrState), (''complianceState'', complianceState),
          (''complianceProgram'', si_compliance ids), (''fromWalletIdentity'', fromWalletIdentity),
          (''toWalletIdentity'', toWalletIdentity), (''fromFrozen'', fromFrozen), (''toFrozen'', toFrozen),
          (''fromPartialFreeze'', fromPartialFreeze), (''tokenProgram'', token_2022 C)]
         approvalRemainingAccounts,
       TransferCheckedIx sourceTa mint destinationTa from amount decimals keys)))))))))))))))))))"

definition createRecipientAtaInstruction ::
    "('w, 'c) client_scheme \<Rightarrow> pubkey \<Rightarrow> pubkey \<Rightarrow> pubkey \<Rightarrow> ('w, client_ix) operation" where
  "createRecipientAtaInstruction C mint payer recipient =
     h_bind (getTokenAccountAddress C mint recipient) (\<lambda>destinationTa.
     h_return (CreateAtaIx payer destinationTa recipient mint))"

section \<open>Simulation\<close>

record simulation_result =
  sr_success :: bool
  sr_error :: "string option"
  sr_notice :: "string option"
  sr_logs :: "string list"

record build_simulation = simulation_result +
  bs_destinationAta :: string
  bs_destinationAtaExists :: bool
  bs_instructionCount :: nat
  bs_transactionSize :: "nat option"
  bs_approvalOnlySimulation :: bool

text \<open>\<open>destinationAtaCreatedInSimulation\<close> is always the negation of \<open>destinationAtaExists\<close>.\<close>

definition buildAndSimulateTransfer ::
    "('w, 'c) transfer_client_scheme \<Rightarrow> program_ids \<Rightarrow> module_ids \<Rightarrow> pubkey \<Rightarrow> pubkey \<Rightarrow> pubkey \<Rightarrow> int \<Rightarrow> int \<Rightarrow>
     ('w, build_simulation) operation" where
  "buildAndSimulateTransfer C P M mint from to amount decimals =
    h_bind (transfer_program_ids C P) (\<lambda>ids.
    h_bind (getTokenAccountAddress C mint to) (\<lambda>destinationAta.
    h_bind (ask (\<lambda>w. account_at C w destinationAta)) (\<lambda>destinationInfo.
    h_bind (case destinationInfo of
        Some a \<Rightarrow> h_bind (assertToken2022Account C (acc_owner a)) (\<lambda>_. h_return [])
      | None \<Rightarrow> h_bind (createRecipientAtaInstruction C mint from to) (\<lambda>ix. h_return [ix])) (\<lambda>setupIxs.
    h_bind (buildTransferInstructions C P M mint from to amount decimals ids (destinationInfo = None)) (\<lambda>(approveIx, transferIx).
    h_bind (ask (latest_blockhash C)) (\<lambda>(blockhash, height).
    let fullInstructions = setupIxs @ [approveIx, transferIx] in
    h_bind (compileVersionedTransaction C from blockhash fullInstructions []) (\<lambda>fullVtx.
    let approvalOnly = too_long (getSerializedTransactionSize C fullVtx) in
    h_bind (if approvalOnly then compileVersionedTransaction C from blockhash (setupIxs @ [approveIx]) []
      else h_return fullVtx) (\<lambda>simulationTarget.
    let targetSize = getSerializedTransactionSize C simulationTarget;
        outcome = (\<lambda>success err notice logs. \<lparr> sr_success = success, sr_error = err, sr_notice = notice, sr_logs = logs,
          bs_destinationAta = toBase58 C destinationAta, bs_destinationAtaExists = (destinationInfo \<noteq> None),
          bs_instructionCount = length fullInstructions, bs_transactionSize = targetSize,
          bs_approvalOnlySimulation = approvalOnly \<rparr>)
    in if too_long targetSize then h_return (outcome True None (Some OVERSIZED_SIMULATION_NOTICE) [])
       else h_bind (ask (\<lambda>w. simulate_tx C w simulationTarget)) (\<lambda>simulation.
         h_return (if js_truthy (sm_err simulation)
           then outcome False (Some (decodeSimulationError (sm_err simulation) (sm_logs simulation))) None (sm_logs simulation)
           else outcome True None None (sm_logs simulation)))))))))))"

definition simulateTokenTransfer ::
    "('w, 'c) transfer_client_scheme \<Rightarrow> program_ids \<Rightarrow> module_ids \<Rightarrow> pubkey \<Rightarrow> pubkey \<Rightarrow> pubkey \<Rightarrow> int \<Rightarrow> int \<Rightarrow>
     ('w, simulation_result) operation" where
  "simulateTokenTransfer C P M mint from to amount decimals =
    h_catch (h_bind (buildAndSimulateTransfer C P M mint from to amount decimals)
        (\<lambda>r. h_return (simulation_result.truncate r)))
      (\<lambda>err. h_return \<lparr> sr_success = False, sr_error = Some (formatTransactionError err), sr_notice = None, sr_logs = [] \<rparr>)"

section \<open>Preflight\<close>

record preflight =
  pf_status :: string
  pf_blockers :: "string list"
  pf_sender :: wallet_eligibility
  pf_recipient :: wallet_eligibility
  pf_requiredClaimTopics :: "int list"
  pf_sourceAta :: string
  pf_destinationAta :: string
  pf_destinationAtaExists :: bool
  pf_sourceBalance :: string
  pf_transferableBalance :: string
  pf_simulation :: "simulation_result option"

definition pf_ok :: "preflight \<Rightarrow> bool" where
  "pf_ok r \<longleftrightarrow> pf_blockers r = []"

definition preflight_status ::
    "wallet_eligibility \<Rightarrow> wallet_eligibility \<Rightarrow> int \<Rightarrow> int \<Rightarrow> int \<Rightarrow> simulation_result option \<Rightarrow> string" where
  "preflight_status sender recipient sourceBalance transferableBalance amount simulation =
    (let has = (\<lambda>t. list_ex (\<lambda>b. js_includes b t) (we_blockers recipient)) in
     if we_blockers sender \<noteq> [] then senderStatusFromBlockers (we_blockers sender)
     else if sourceBalance < amount then ''INSUFFICIENT_TRANSFERABLE_BALANCE''
     else if transferableBalance < amount then ''INSUFFICIENT_TRANSFERABLE_BALANCE''
     else if \<not> we_identityExists recipient \<and> has ''FID'' then ''ACTION_REQUIRED_RECIPIENT_FID''
     else if has ''topic 1'' then ''PENDING_KYC''
     else if has ''topic 2'' then ''PENDING_AML''
     else if \<not> we_identityExists recipient then ''PENDING_ISSUER_WHITELIST''
     else if \<not> we_identityActive recipient then ''PENDING_ISSUER_ACTIVATION''
     else if (case simulation of None \<Rightarrow> False | Some r \<Rightarrow> \<not> sr_success r) then ''TRANSFER_SIMULATION_FAILED''
     else ''READY_TO_TRANSFER'')"

definition balance_blockers :: "int \<Rightarrow> int \<Rightarrow> int \<Rightarrow> string list" where
  "balance_blockers sourceBalance transferableBalance amount =
     (if sourceBalance < amount then [''Insufficient token balance.''] else []) @
     (if transferableBalance < amount then [''Insufficient transferable balance after partial freeze.''] else [])"

definition simulation_blockers :: "simulation_result option \<Rightarrow> string list" where
  "simulation_blockers simulation =
     (case simulation of None \<Rightarrow> []
      | Some r \<Rightarrow> if sr_success r then []
          else [case sr_error r of None \<Rightarrow> ''Transfer simulation failed.''
                | Some e \<Rightarrow> if e = [] then ''Transfer simulation failed.'' else e])"

definition preflightTransfer ::
    "('w, 'c) transfer_client_scheme \<Rightarrow> program_ids \<Rightarrow> module_ids \<Rightarrow> pubkey \<Rightarrow> pubkey \<Rightarrow> pubkey \<Rightarrow> int \<Rightarrow> int \<Rightarrow>
     ('w, preflight) operation" where
  "preflightTransfer C P M mint from to amount decimals =
    h_bind (transfer_program_ids C P) (\<lambda>ids.
    h_bind (getTokenAccountAddress C mint from) (\<lambda>sourceAta.
    h_bind (getTokenAccountAddress C mint to) (\<lambda>destinationAta.
    h_bind (getTokenStatePda C mint (si_token ids)) (\<lambda>tokenState.
    h_bind (ask (\<lambda>w. anchor_token_state C w (si_token ids) tokenState)) (\<lambda>ts.
    h_bind (transfer_irs_state C (ts_identityRegistry ts)) (\<lambda>irsState.
    h_bind (pda_of C [ascii ''ctr_state'', mint] (si_ctr ids)) (\<lambda>ctrState.
    h_bind (pda_of C [ascii ''tir_state'', mint] (si_tir ids)) (\<lambda>tirState.
    h_bind (fetchRequiredTopics C ctrState) (\<lambda>requiredClaimTopics.
    h_bind (or_default 0 (getRawTokenBalance C sourceAta)) (\<lambda>sourceBalance.
    h_bind (getPartialFreezeAmount C mint from (si_token ids)) (\<lambda>partialFreeze.
    let transferableBalance = transferable sourceBalance partialFreeze in
    h_bind (ask (\<lambda>w. account_at C w destinationAta)) (\<lambda>destinationInfo.
    h_bind (checkWalletEligibility C mint from irsState tirState requiredClaimTopics ids) (\<lambda>sender.
    h_bind (checkWalletEligibility C mint to irsState tirState requiredClaimTopics ids) (\<lambda>recipient.
    let blockers = map (\<lambda>b. ''Sender: '' @ b) (we_blockers sender) @
          map (\<lambda>b. ''Recipient: '' @ b) (we_blockers recipient) @
          balance_blockers sourceBalance transferableBalance amount in
    h_bind (if blockers = [] \<and> destinationInfo \<noteq> None
        then h_bind (simulateTokenTransfer C P M mint from to amount decimals) (\<lambda>r. h_return (Some r))
        else h_return None) (\<lambda>simulation.
    h_return \<lparr> pf_status = preflight_status sender recipient sourceBalance transferableBalance amount simulation,
      pf_blockers = blockers @ simulation_blockers simulation, pf_sender = sender, pf_recipient = recipient,
      pf_requiredClaimTopics = requiredClaimTopics, pf_sourceAta = toBase58 C sourceAta,
      pf_destinationAta = toBase58 C destinationAta, pf_destinationAtaExists = (destinationInfo \<noteq> None),
      pf_sourceBalance = bigint_toString sourceBalance,
      pf_transferableBalance = bigint_toString transferableBalance, pf_simulation = simulation \<rparr>)))))))))))))))"

section \<open>Accounts created before a transfer\<close>

definition prepareRecipientTokenAccount ::
    "('w, 'c) transfer_client_scheme \<Rightarrow> pubkey \<Rightarrow> pubkey \<Rightarrow> pubkey \<Rightarrow> ('w, string option) operation" where
  "prepareRecipientTokenAccount C mint payer recipient =
    h_bind (getTokenAccountAddress C mint recipient) (\<lambda>destinationTa.
    h_bind (ask (\<lambda>w. account_at C w destinationTa)) (\<lambda>destinationInfo.
    case destinationInfo of
      Some a \<Rightarrow> h_bind (assertToken2022Account C (acc_owner a)) (\<lambda>_. h_return None)
    | None \<Rightarrow>
        h_bind (createRecipientAtaInstruction C mint payer recipient) (\<lambda>ix.
        h_bind (ask (latest_blockhash C)) (\<lambda>(blockhash, lastValidBlockHeight).
        h_bind (ask (\<lambda>w. sign_tx C w (LegacyTx payer blockhash [ix]))) (\<lambda>signed.
        h_bind (h_lift (serialize_tx C signed)) (\<lambda>raw.
        h_bind (change_world (send_raw C raw None)) (\<lambda>signature.
        h_bind (change_world (confirm_tx C signature blockhash lastValidBlockHeight)) (\<lambda>_.
        h_return (Some signature)))))))))"

text \<open>The addresses in the interface descriptions.\<close>

definition COMPLIANCE_IDL_ADDRESS :: "('x) chain_scheme \<Rightarrow> pubkey" where
  "COMPLIANCE_IDL_ADDRESS C = const_key C ''HnJiNrmDeVFZksgEXaQwyVqHXQLRcyqXEksbYhkiPFFV''"

definition DAILY_LIMIT_IDL_ADDRESS :: "('x) chain_scheme \<Rightarrow> pubkey" where
  "DAILY_LIMIT_IDL_ADDRESS C = const_key C ''5dfHskP5MijaDY2gYsE44CPAuomt1vWgbPdGi62cquoT''"

definition COUNTRY_CAP_IDL_ADDRESS :: "('x) chain_scheme \<Rightarrow> pubkey" where
  "COUNTRY_CAP_IDL_ADDRESS C = const_key C ''EcLffdKdSsCpNczazKsSeRw7FCN6vVjKAEMH5CZGBndr''"

definition support_text ::
    "('w, 'c) client_scheme \<Rightarrow> string \<Rightarrow> string \<Rightarrow> pubkey \<Rightarrow> jsval \<Rightarrow> string" where
  "support_text C what module_name moduleOwner err =
     what @ '' is missing and could not be initialized by '' @ toBase58 C (wallet_key C) @
     ''. Upgrade the '' @ module_name @
     '' module to allow deterministic support-account creation, or connect module owner '' @
     toBase58 C moduleOwner @ '' once to repair this legacy token. '' @ formatTransactionError err"

definition init_wallet_usage ::
    "('w, 'c) client_scheme \<Rightarrow> module_ids \<Rightarrow> pubkey \<Rightarrow> pubkey \<Rightarrow> ('w, unit) operation" where
  "init_wallet_usage C M moduleAccount sender =
    h_bind (pure_step (daily_usage_pda C M moduleAccount sender)) (\<lambda>dailyUsage.
    h_bind (ask (\<lambda>w. account_at C w dailyUsage)) (\<lambda>existingUsage.
    if existingUsage \<noteq> None then h_return ()
    else h_bind (ask (\<lambda>w. anchor_module_owner C w (DAILY_LIMIT_IDL_ADDRESS C) moduleAccount)) (\<lambda>moduleOwner.
      h_catch
        (h_bind (send_all C [AnchorIx (DAILY_LIMIT_IDL_ADDRESS C) ''initializeWalletUsage'' [BPubkey sender]
            [(''owner'', wallet_key C), (''moduleState'', moduleAccount), (''walletUsage'', dailyUsage),
             (''systemProgram'', system_program C)] []]) (\<lambda>_. h_return ()))
        (\<lambda>err. fail_with (support_text C (''Daily-limit support account '' @ toBase58 C dailyUsage)
           ''daily-limit'' moduleOwner err)))))"

definition init_transfer_country ::
    "('w, 'c) client_scheme \<Rightarrow> module_ids \<Rightarrow> pubkey \<Rightarrow> pubkey \<Rightarrow> int \<Rightarrow> ('w, unit) operation" where
  "init_transfer_country C M moduleAccount moduleOwner country =
    h_bind (pure_step (country_count_pda C M moduleAccount country)) (\<lambda>countryCount.
    h_bind (ask (\<lambda>w. account_at C w countryCount)) (\<lambda>existingCount.
    if existingCount \<noteq> None then h_return ()
    else h_catch
      (h_bind (send_all C [AnchorIx (COUNTRY_CAP_IDL_ADDRESS C) ''initializeCountryCount'' [BU16 country]
          [(''owner'', wallet_key C), (''moduleState'', moduleAccount), (''countryCount'', countryCount),
           (''systemProgram'', system_program C)] []]) (\<lambda>_. h_return ()))
      (\<lambda>err. fail_with (support_text C (''Country-cap support account '' @ toBase58 C countryCount @
         '' for country '' @ bigint_toString country) ''country-cap'' moduleOwner err))))"

definition support_module ::
    "('w, 'c) client_scheme \<Rightarrow> module_ids \<Rightarrow> pubkey \<Rightarrow> int list \<Rightarrow> pubkey \<times> account option \<Rightarrow> ('w, unit) operation" where
  "support_module C M sender countries listed =
    (case snd listed of
       None \<Rightarrow> h_return ()
     | Some info \<Rightarrow>
       h_bind (if acc_owner info = MOD_DAILY_LIMIT M then init_wallet_usage C M (fst listed) sender
               else h_return ()) (\<lambda>_.
       if acc_owner info = MOD_COUNTRY_CAP M then
         h_bind (ask (\<lambda>w. anchor_module_owner C w (COUNTRY_CAP_IDL_ADDRESS C) (fst listed))) (\<lambda>moduleOwner.
         h_each (init_transfer_country C M (fst listed) moduleOwner) countries)
       else h_return ()))"

definition wallet_identity_of ::
    "('w, 'c) client_scheme \<Rightarrow> suite_ids \<Rightarrow> pubkey \<Rightarrow> pubkey \<Rightarrow> ('w, wallet_fid option) operation" where
  "wallet_identity_of C ids irsState wallet =
    h_bind (pda_of C [ascii ''wallet_identity'', irsState, wallet] (si_irs ids)) (\<lambda>walletIdentity.
    h_bind (ask (\<lambda>w. account_at C w walletIdentity)) (parse_identity_info C))"

definition prepareTransferSupportAccounts ::
    "('w, 'c) client_scheme \<Rightarrow> module_ids \<Rightarrow> pubkey \<Rightarrow> pubkey \<Rightarrow> pubkey \<Rightarrow> suite_ids \<Rightarrow> ('w, unit) operation" where
  "prepareTransferSupportAccounts C M mint sender recipient ids =
    h_bind (getTokenStatePda C mint (si_token ids)) (\<lambda>tokenState.
    h_bind (ask (\<lambda>w. anchor_token_state C w (si_token ids) tokenState)) (\<lambda>ts.
    h_bind (ask (\<lambda>w. anchor_compliance_state C w (COMPLIANCE_IDL_ADDRESS C) (ts_compliance ts))) (\<lambda>st.
    h_bind (ask (\<lambda>w. accounts_at C w (cs_modules st))) (\<lambda>moduleInfos.
    h_bind (transfer_irs_state C (ts_identityRegistry ts)) (\<lambda>irsState.
    h_bind (wallet_identity_of C ids irsState sender) (\<lambda>senderIdentity.
    h_bind (wallet_identity_of C ids irsState recipient) (\<lambda>recipientIdentity.
    let countries = foldl add_new [] (map wf_country (List.map_filter (\<lambda>i. i) [senderIdentity, recipientIdentity]))
    in h_each (support_module C M sender countries) (with_infos (cs_modules st) moduleInfos))))))))"

section \<open>Transfer\<close>

record transfer_result =
  tx_signature :: string
  tx_success :: bool
  tx_error :: "string option"

definition executeTransfer ::
    "('w, 'c) transfer_client_scheme \<Rightarrow> program_ids \<Rightarrow> module_ids \<Rightarrow> pubkey \<Rightarrow> pubkey \<Rightarrow> pubkey \<Rightarrow> int \<Rightarrow> int \<Rightarrow>
     ('w, transfer_result) running" where
  "executeTransfer C P M mint from to amount decimals =
    r_catch
     (r_bind (run
        (h_bind (transfer_program_ids C P) (\<lambda>ids.
         h_bind (prepareRecipientTokenAccount C mint from to) (\<lambda>_.
         h_bind (prepareTransferSupportAccounts C M mint from to ids) (\<lambda>_.
         buildTransferInstructions C P M mint from to amount decimals ids False))))) (\<lambda>(approveIx, transferIx).
      r_bind (sendVersionedInstructions C from [approveIx]) (\<lambda>_.
      r_bind (sendVersionedInstructions C from [transferIx]) (\<lambda>signature.
      run (h_return \<lparr> tx_signature = signature, tx_success = True, tx_error = None \<rparr>)))))
     (\<lambda>err. run (h_return \<lparr> tx_signature = [], tx_success = False,
        tx_error = Some (formatTransactionError err) \<rparr>))"

end
