(* ===== verification/TokenOperations.thy ===== *)
theory TokenOperations
  imports TokenService
begin

text \<open>
  The transactions of the token service (\<open>frontend/src/services/token.ts\<close>), and the check of one claim
  in the context of one token that the KYC requests use.
\<close>

section \<open>Mint\<close>

definition valid_mint :: "('w, 'c) client_scheme \<Rightarrow> pubkey \<Rightarrow> ('w, unit) operation" where
  "valid_mint C mintPubkey =
     h_catch (ask (\<lambda>w. spl_mint_at C w mintPubkey))
       (\<lambda>_. fail_with (''Mint '' @ toBase58 C mintPubkey @
          '' is not a valid Token-2022 mint. Check that the purchase request tokenContract is the token mint address.''))"

text \<open>The token account of the recipient, which is created where it cannot be read.\<close>

definition destination_account ::
    "('w, 'c) client_scheme \<Rightarrow> pubkey \<Rightarrow> pubkey \<Rightarrow> pubkey \<Rightarrow> pubkey \<Rightarrow> ('w, spl_account) operation" where
  "destination_account C authority recipient mintPubkey destinationTokenAccount =
     h_catch (ask (\<lambda>w. spl_account_at C w destinationTokenAccount))
       (\<lambda>_. h_bind (send_all C [CreateAtaIdempotentIx authority destinationTokenAccount recipient mintPubkey]) (\<lambda>_.
        h_catch (ask (\<lambda>w. spl_account_at C w destinationTokenAccount))
          (\<lambda>err. fail_with (''Failed to create a valid Token-2022 recipient account '' @
             toBase58 C destinationTokenAccount @ '': '' @ formatTransactionError err))))"

definition mint_debug_hint :: string where
  "mint_debug_hint = [char_of (10 :: nat), char_of (10 :: nat)] @
     ''Mint preflight passed, but the token program still rejected recipient verification. Check the [MINT VERIFICATION DEBUG] console block for the exact wallet_identity.fid, canonical claim PDA, issuer entry, and issuer FID accounts passed to the instruction. If this message appears without a fresh debug block, restart the frontend dev server to clear stale compiled code.''"

definition mint_accounts ::
    "pubkey \<Rightarrow> pubkey \<Rightarrow> pubkey \<Rightarrow> pubkey \<Rightarrow> registry_context \<Rightarrow> pubkey \<Rightarrow> pubkey \<Rightarrow> pubkey \<Rightarrow> pubkey \<Rightarrow> pubkey \<Rightarrow>
     (string \<times> pubkey) list" where
  "mint_accounts authority tokenState ownerState agentRole registry complianceProgram toFrozen mintPubkey
       destinationTokenAccount tokenProgram =
     [(''authority'', authority), (''tokenState'', tokenState), (''ownerState'', ownerState),
      (''agentRole'', agentRole), (''irpState'', rc_irpState registry), (''irsState'', rc_irsState registry),
      (''tirState'', rc_tirState registry), (''ctrState'', rc_ctrState registry),
      (''complianceState'', rc_complianceState registry), (''complianceProgram'', complianceProgram),
      (''walletIdentity'', rc_walletIdentity registry), (''toFrozen'', toFrozen),
      (''tokenMintAccount'', mintPubkey), (''destinationTokenAccount'', destinationTokenAccount),
      (''tokenProgram'', tokenProgram)]"

text \<open>The transaction of a mint and what becomes of its error.\<close>

definition mint_transaction ::
    "('w, 'c) client_scheme \<Rightarrow> (pubkey \<Rightarrow> client_ix) \<Rightarrow> ('w, string) operation" where
  "mint_transaction C ix =
     h_catch
       (h_bind (key_of_text C TOKEN_2022_TEXT) (\<lambda>tokenProgram. send_all C [ix tokenProgram]))
       (\<lambda>err. let formatted = formatTransactionError err in
          if js_includes formatted ''Wallet is not verified'' \<or> js_includes formatted ''WalletNotVerified''
          then fail_with (formatted @ mint_debug_hint)
          else fail_with formatted)"

definition mint ::
    "('w, 'c) client_scheme \<Rightarrow> program_ids \<Rightarrow> module_ids \<Rightarrow> pubkey \<Rightarrow> pubkey \<Rightarrow> int \<Rightarrow> ('w, string) operation" where
  "mint C P M mintPubkey recipient amount =
    h_bind (getProgramIds C P) (\<lambda>ids.
    let authority = wallet_key C in
    h_bind (findTokenStatePda C mintPubkey (si_token ids)) (\<lambda>tokenState.
    h_bind (findOwnerStatePda C mintPubkey (si_token ids)) (\<lambda>ownerState.
    h_bind (findAgentRolePda C mintPubkey authority (si_token ids)) (\<lambda>agentRole.
    h_bind (fetchTokenState C P mintPubkey) (\<lambda>ts.
    h_bind (valid_mint C mintPubkey) (\<lambda>_.
    h_bind (ata C mintPubkey recipient) (\<lambda>destinationTokenAccount.
    h_bind (destination_account C authority recipient mintPubkey destinationTokenAccount) (\<lambda>destinationAccount.
    h_bind (refuse (spl_mint destinationAccount \<noteq> mintPubkey)
      ''Recipient token account belongs to a different mint.'') (\<lambda>_.
    h_bind (refuse (spl_owner destinationAccount \<noteq> recipient)
      ''Recipient token account is not owned by the investor wallet.'') (\<lambda>_.
    h_bind (findFrozenWalletPda C mintPubkey recipient (si_token ids)) (\<lambda>toFrozen.
    h_bind (ask (\<lambda>w. account_at C w toFrozen)) (\<lambda>toFrozenInfo.
    let toFrozenAccount = (case toFrozenInfo of
            Some info \<Rightarrow> if acc_owner info = si_token ids \<and> length (acc_data info) > 0 then toFrozen
                         else system_program C
          | None \<Rightarrow> system_program C);
        toBalanceAfter = spl_amount destinationAccount + amount
    in
    h_bind (verifyRecipientMintPreflight C P mintPubkey recipient (Some destinationTokenAccount)
      (Some ids) (Some ts)) (\<lambda>(registry, identity, claimValidation).
    h_bind (prepareCountryCapCountAccounts C M (rc_complianceState registry) [wd_country identity] ids) (\<lambda>_.
    h_bind (getMintRemainingAccounts C M (rc_walletIdentity registry) (rc_complianceState registry) ids
      (cv_remainingAccounts claimValidation)) (\<lambda>remaining.
    h_bind (verifySupplyCapForMint C P M (rc_complianceState registry) amount toBalanceAfter
      (wd_country identity) (tv_decimals ts)) (\<lambda>_.
    mint_transaction C (\<lambda>tokenProgram. AnchorIx (si_token ids) ''mint''
      [BPubkey recipient, BU64 amount, BU64 toBalanceAfter]
      (mint_accounts authority tokenState ownerState agentRole registry (si_compliance ids) toFrozenAccount
        mintPubkey destinationTokenAccount tokenProgram) remaining)))))))))))))))))"

section \<open>Burn\<close>

definition deriveIrsStateFromIrp :: "('w, 'c) client_scheme \<Rightarrow> pubkey \<Rightarrow> ('w, pubkey) operation" where
  "deriveIrsStateFromIrp C irpStatePubkey =
     h_bind (or_default None
       (h_bind (ask (\<lambda>w. account_at C w irpStatePubkey)) (\<lambda>irpRaw.
        case irpRaw of None \<Rightarrow> h_return None
        | Some a \<Rightarrow> h_bind (key_at C a 72) (\<lambda>k. h_return (Some k))))) (\<lambda>found.
     case found of Some k \<Rightarrow> h_return k
     | None \<Rightarrow> fail_with ''Unable to resolve IRS state from the IRP account.'')"

definition burn ::
    "('w, 'c) client_scheme \<Rightarrow> program_ids \<Rightarrow> module_ids \<Rightarrow> pubkey \<Rightarrow> pubkey \<Rightarrow> int \<Rightarrow> ('w, string) operation" where
  "burn C P M mintPubkey from amount =
    h_bind (getProgramIds C P) (\<lambda>ids.
    let authority = wallet_key C in
    h_bind (findTokenStatePda C mintPubkey (si_token ids)) (\<lambda>tokenState.
    h_bind (findOwnerStatePda C mintPubkey (si_token ids)) (\<lambda>ownerState.
    h_bind (findAgentRolePda C mintPubkey authority (si_token ids)) (\<lambda>agentRole.
    h_bind (fetchTokenState C P mintPubkey) (\<lambda>ts.
    h_bind (ata C mintPubkey from) (\<lambda>sourceTokenAccount.
    h_bind (or_default 0 (ask (\<lambda>w. token_balance_at C w sourceTokenAccount))) (\<lambda>fromBalanceBefore.
    let fromBalanceAfter = fromBalanceBefore - amount in
    h_bind (key_of_text C (tv_identityRegistry ts)) (\<lambda>irpStatePubkey.
    h_bind (deriveIrsStateFromIrp C irpStatePubkey) (\<lambda>irsState.
    h_bind (pda_of C [ascii ''wallet_identity'', irsState, from] (si_irs ids)) (\<lambda>fromWalletIdentityPda.
    h_bind (readWalletIdentityCountry C fromWalletIdentityPda) (\<lambda>fromCountry.
    case fromCountry of
      None \<Rightarrow> fail_with ''Sender wallet identity is missing or malformed.''
    | Some country \<Rightarrow>
    h_bind (key_of_text C (tv_compliance ts)) (\<lambda>complianceState.
    h_bind (prepareCountryCapCountAccounts C M complianceState [country] ids) (\<lambda>_.
    h_bind (getMintRemainingAccounts C M fromWalletIdentityPda complianceState ids []) (\<lambda>complianceAccounts.
    with_formatted_errors
      (h_bind (key_of_text C TOKEN_2022_TEXT) (\<lambda>tokenProgram.
       send_all C [AnchorIx (TOKEN_IDL_ADDRESS C) ''burn''
         [BPubkey from, BU64 amount, BU64 fromBalanceAfter]
         [(''authority'', authority), (''tokenState'', tokenState), (''ownerState'', ownerState),
          (''agentRole'', agentRole), (''complianceState'', complianceState),
          (''complianceProgram'', si_compliance ids), (''irsState'', irsState),
          (''fromWalletIdentity'', fromWalletIdentityPda), (''tokenMintAccount'', mintPubkey),
          (''sourceTokenAccount'', sourceTokenAccount), (''tokenProgram'', tokenProgram)]
         complianceAccounts])))))))))))))))) "

section \<open>Frozen wallets, pause and agents\<close>

definition freeze ::
    "('w, 'c) client_scheme \<Rightarrow> program_ids \<Rightarrow> pubkey \<Rightarrow> pubkey \<Rightarrow> ('w, string) operation" where
  "freeze C P mintPubkey wallet =
    h_bind (getProgramIds C P) (\<lambda>ids.
    let authority = wallet_key C in
    h_bind (findTokenStatePda C mintPubkey (si_token ids)) (\<lambda>tokenState.
    h_bind (findOwnerStatePda C mintPubkey (si_token ids)) (\<lambda>ownerState.
    h_bind (findAgentRolePda C mintPubkey authority (si_token ids)) (\<lambda>agentRole.
    h_bind (findFrozenWalletPda C mintPubkey wallet (si_token ids)) (\<lambda>frozenWallet.
    h_bind (ask (\<lambda>w. account_at C w frozenWallet)) (\<lambda>existingFrozenWallet.
    h_bind (refuse (existingFrozenWallet \<noteq> None) ''Wallet is already frozen for this token.'') (\<lambda>_.
    with_formatted_errors (send_all C [AnchorIx (si_token ids) ''freezeWallet'' []
      [(''authority'', authority), (''tokenState'', tokenState), (''ownerState'', ownerState),
       (''agentRole'', agentRole), (''wallet'', wallet), (''frozenWallet'', frozenWallet),
       (''systemProgram'', system_program C)] []]))))))))"

definition unfreeze ::
    "('w, 'c) client_scheme \<Rightarrow> program_ids \<Rightarrow> pubkey \<Rightarrow> pubkey \<Rightarrow> ('w, string) operation" where
  "unfreeze C P mintPubkey wallet =
    h_bind (getProgramIds C P) (\<lambda>ids.
    let authority = wallet_key C in
    h_bind (findTokenStatePda C mintPubkey (si_token ids)) (\<lambda>tokenState.
    h_bind (findOwnerStatePda C mintPubkey (si_token ids)) (\<lambda>ownerState.
    h_bind (findAgentRolePda C mintPubkey authority (si_token ids)) (\<lambda>agentRole.
    h_bind (findFrozenWalletPda C mintPubkey wallet (si_token ids)) (\<lambda>frozenWallet.
    h_bind (ask (\<lambda>w. account_at C w frozenWallet)) (\<lambda>existingFrozenWallet.
    h_bind (refuse (existingFrozenWallet = None) ''Wallet is not frozen for this token.'') (\<lambda>_.
    with_formatted_errors (send_all C [AnchorIx (si_token ids) ''unfreezeWallet'' []
      [(''authority'', authority), (''tokenState'', tokenState), (''ownerState'', ownerState),
       (''agentRole'', agentRole), (''frozenWallet'', frozenWallet)] []]))))))))"

text \<open>The owner-gated operations derive their addresses from the configured token program, and go to the
  program of the interface description.\<close>

definition owner_operation ::
    "('w, 'c) client_scheme \<Rightarrow> program_ids \<Rightarrow> pubkey \<Rightarrow>
     (pubkey \<Rightarrow> pubkey \<Rightarrow> pubkey \<Rightarrow> ('w, string) operation) \<Rightarrow> ('w, string) operation" where
  "owner_operation C P mintPubkey k =
    (let owner = wallet_key C in
     h_bind (findTokenStatePda C mintPubkey (token P)) (\<lambda>tokenState.
     h_bind (findOwnerStatePda C mintPubkey (token P)) (\<lambda>ownerState.
     k owner tokenState ownerState)))"

definition pause :: "('w, 'c) client_scheme \<Rightarrow> program_ids \<Rightarrow> pubkey \<Rightarrow> ('w, string) operation" where
  "pause C P mintPubkey = owner_operation C P mintPubkey (\<lambda>owner tokenState ownerState.
     with_formatted_errors (send_all C [AnchorIx (TOKEN_IDL_ADDRESS C) ''pause'' []
       [(''owner'', owner), (''tokenState'', tokenState), (''ownerState'', ownerState)] []]))"

definition unpause :: "('w, 'c) client_scheme \<Rightarrow> program_ids \<Rightarrow> pubkey \<Rightarrow> ('w, string) operation" where
  "unpause C P mintPubkey = owner_operation C P mintPubkey (\<lambda>owner tokenState ownerState.
     with_formatted_errors (send_all C [AnchorIx (TOKEN_IDL_ADDRESS C) ''unpause'' []
       [(''owner'', owner), (''tokenState'', tokenState), (''ownerState'', ownerState)] []]))"

definition addAgent :: "('w, 'c) client_scheme \<Rightarrow> program_ids \<Rightarrow> pubkey \<Rightarrow> pubkey \<Rightarrow> ('w, string) operation" where
  "addAgent C P mintPubkey agent = owner_operation C P mintPubkey (\<lambda>owner tokenState ownerState.
     h_bind (findAgentRolePda C mintPubkey agent (token P)) (\<lambda>agentRole.
     with_formatted_errors (send_all C [AnchorIx (TOKEN_IDL_ADDRESS C) ''addAgent'' [BPubkey agent]
       [(''owner'', owner), (''tokenState'', tokenState), (''ownerState'', ownerState),
        (''agentRole'', agentRole), (''systemProgram'', system_program C)] []])))"

definition removeAgent :: "('w, 'c) client_scheme \<Rightarrow> program_ids \<Rightarrow> pubkey \<Rightarrow> pubkey \<Rightarrow> ('w, string) operation" where
  "removeAgent C P mintPubkey agent = owner_operation C P mintPubkey (\<lambda>owner tokenState ownerState.
     h_bind (findAgentRolePda C mintPubkey agent (token P)) (\<lambda>agentRole.
     with_formatted_errors (send_all C [AnchorIx (TOKEN_IDL_ADDRESS C) ''removeAgent'' []
       [(''owner'', owner), (''tokenState'', tokenState), (''ownerState'', ownerState),
        (''agentRole'', agentRole)] []])))"

section \<open>One claim for a request\<close>

record claim_probe =
  pr_active :: bool
  pr_revoked :: "bool option"
  pr_expired :: "bool option"
  pr_signerValid :: "bool option"
  pr_signerKey :: "pubkey option"
  pr_checked :: "pubkey option"

record scoped_check =
  sc_reason :: "string option"
  sc_tokenMint :: pubkey
  sc_ctrState :: pubkey
  sc_tirState :: pubkey
  sc_requiredTopics :: "string list"
  sc_topicRequired :: bool
  sc_probe :: claim_probe
  sc_providerTrusted :: bool

definition sc_ok :: "scoped_check \<Rightarrow> bool" where
  "sc_ok r \<longleftrightarrow> sc_reason r = None"

definition no_claim :: claim_probe where
  "no_claim = \<lparr> pr_active = False, pr_revoked = None, pr_expired = None, pr_signerValid = None,
     pr_signerKey = None, pr_checked = None \<rparr>"

text \<open>The first \<open>try\<close> block: what it has found stays when a later step throws.\<close>

definition probe_claim ::
    "('w, 'c) client_scheme \<Rightarrow> pubkey \<Rightarrow> pubkey \<Rightarrow> ('w, claim_probe) operation" where
  "probe_claim C claimTopicIndex issuerFid =
    try_step no_claim (ask (\<lambda>w. account_at C w claimTopicIndex)) (\<lambda>idxInfo.
    case idxInfo of
      None \<Rightarrow> h_return no_claim
    | Some idx \<Rightarrow>
      if \<not> (length (acc_data idx) > 116 \<and> acc_data idx ! 116 = 1) then h_return no_claim
      else let p1 = no_claim\<lparr> pr_active := True \<rparr> in
        try_step p1 (key_at C idx 80) (\<lambda>activeClaimPubkey.
        try_step p1 (pure_step (readU32 (acc_data idx) 112)) (\<lambda>activeClaimId.
        let p2 = p1\<lparr> pr_checked := Some activeClaimPubkey \<rparr> in
        try_step p2 (ask (\<lambda>w. account_at C w activeClaimPubkey)) (\<lambda>claimInfo.
        case claimInfo of
          None \<Rightarrow> h_return p2
        | Some info \<Rightarrow>
          try_step p2 (pure_step (parseClaimAccount C (acc_data info))) (\<lambda>parsed.
          case parsed of
            None \<Rightarrow> h_return p2
          | Some c \<Rightarrow>
            try_step p2 (seconds_now C) (\<lambda>now.
            let p3 = p2\<lparr> pr_signerKey := Some (pc_signerKey c), pr_revoked := Some (pc_revoked c),
                  pr_expired := Some (claim_expired (pc_expiresAt c) now) \<rparr> in
            try_step p3 (ask (\<lambda>w. account_at C w issuerFid)) (\<lambda>issuerFidInfo.
            case issuerFidInfo of
              None \<Rightarrow> h_return (p3\<lparr> pr_signerValid := Some False \<rparr>)
            | Some fidInfo \<Rightarrow>
              if pc_issuerFid c \<noteq> issuerFid then h_return (p3\<lparr> pr_signerValid := Some False \<rparr>)
              else try_step p3 (pure_step (parseFidIsIssuerAndSigner C (acc_data fidInfo) (pc_signerKey c)))
                (\<lambda>v. h_return (p3\<lparr> pr_signerValid := Some v \<rparr>)))))))))"

definition final_decision :: "claim_probe \<Rightarrow> bool \<Rightarrow> bool" where
  "final_decision p trusted \<longleftrightarrow>
     pr_active p \<and> pr_revoked p \<noteq> Some True \<and> pr_expired p \<noteq> Some True \<and>
     pr_signerValid p \<noteq> Some False \<and> trusted"

definition scoped_reason :: "claim_probe \<Rightarrow> bool \<Rightarrow> string \<Rightarrow> string" where
  "scoped_reason p trusted topicStr =
     (if \<not> pr_active p then ''Investor is missing required claim topic '' @ topicStr @ '' for this token.''
      else if pr_revoked p = Some True then ''Investor claim topic '' @ topicStr @ '' is revoked.''
      else if pr_expired p = Some True then ''Investor claim topic '' @ topicStr @ '' is expired.''
      else if pr_signerValid p = Some False then ''Existing investor claim topic '' @ topicStr @
        '' was signed by an old issuer FID signer key. Revoke and reissue this claim.''
      else if \<not> trusted then ''This KYC provider is not trusted in this token's TIR for topic '' @ topicStr @ ''.''
      else ''Request cannot be forwarded until token-specific KYC requirements are satisfied.'')"

definition checkTokenScopedClaimForRequest ::
    "('w, 'c) client_scheme \<Rightarrow> program_ids \<Rightarrow> pubkey \<Rightarrow> pubkey \<Rightarrow> pubkey \<Rightarrow> int \<Rightarrow> ('w, scoped_check) operation" where
  "checkTokenScopedClaimForRequest C P tokenMint investorWallet providerWallet topic =
    h_bind (getProgramIds C P) (\<lambda>ids.
    h_bind (fetchTokenState C P tokenMint) (\<lambda>tokenStateData.
    h_bind (resolveMintRegistryContext C tokenMint investorWallet ids tokenStateData False) (\<lambda>registry.
    let requiredTopics = map bigint_toString (rc_requiredTopics registry);
        topicStr = bigint_toString topic;
        topicRequired = (topicStr \<in> set requiredTopics);
        result = (\<lambda>reason p trusted. \<lparr> sc_reason = reason, sc_tokenMint = tokenMint,
          sc_ctrState = rc_ctrState registry, sc_tirState = rc_tirState registry,
          sc_requiredTopics = requiredTopics, sc_topicRequired = topicRequired,
          sc_probe = p, sc_providerTrusted = trusted \<rparr>)
    in if \<not> topicRequired then
         h_return (result (Some (''This token does not require claim topic '' @ topicStr @ ''.'')) no_claim False)
       else
    h_bind (pda_of C [ascii ''fid'', investorWallet] (si_fid ids)) (\<lambda>targetFid.
    h_bind (pda_of C [ascii ''fid'', providerWallet] (si_fid ids)) (\<lambda>issuerFid.
    h_bind (pda_of C [ascii ''claim_topic_index'', targetFid, issuerFid, u64LeBytes topic] (si_fid ids)) (\<lambda>claimTopicIndex.
    h_bind (probe_claim C claimTopicIndex issuerFid) (\<lambda>p.
    h_bind (pda_of C [ascii ''issuer_entry'', rc_tirState registry, issuerFid] (si_tir ids)) (\<lambda>issuerEntry.
    h_bind (or_default False
      (h_bind (ask (\<lambda>w. account_at C w issuerEntry)) (\<lambda>entryInfo.
       case entryInfo of None \<Rightarrow> h_return False
       | Some a \<Rightarrow> pure_step (parseIssuerEntryForTopic (acc_data a) topic)))) (\<lambda>trusted.
    h_return (if final_decision p trusted then result None (p\<lparr> pr_revoked := None, pr_expired := None \<rparr>) trusted
              else result (Some (scoped_reason p trusted topicStr)) p trusted))))))))))"

end
