(* ===== verification/ComplianceProgram.thy ===== *)
theory ComplianceProgram
  imports ModuleStates
begin

text \<open>
  The compliance program (\<open>contracts/programs/fracks-compliance/src/lib.rs\<close>) with the four module
  programs whose state its hooks change (\<open>contracts/programs/modules\<close>), and the evaluation the token
  program makes of the same modules (\<open>evaluate_compliance\<close> of \<open>fracks-token/src/lib.rs\<close>).

  An account is its owner and its content as its program wrote it, so \<open>is_account_type\<close> followed by
  \<open>deserialize_view\<close> is a case on the content; accounts of any other kind, the empty ones among them,
  are \<open>OtherCell\<close>. An instruction names its accounts with a flag for writable ones, and may write no
  other. \<open>find_program_address\<close> and \<open>create_program_address\<close> are parameters (\<open>None\<close> where the first
  panics), and so is a program the hooks call that is not one of this repository.
\<close>

section \<open>Accounts\<close>

record usage_state =
  du_module :: pubkey
  du_wallet :: pubkey
  du_started :: int
  du_volume :: int
  du_bump :: int

record count_state =
  cc_module :: pubkey
  cc_country :: int
  cc_count :: int
  cc_bump :: int

datatype cell = ModuleCell module_state | UsageCell usage_state | CountCell count_state | OtherCell

type_synonym accounts = "pubkey \<Rightarrow> pubkey \<times> cell"

type_synonym remaining = "(pubkey \<times> bool) list"

datatype comp_error =
    NotOwner | InvalidOwner | MaxModulesReached | ModuleAlreadyBound | ModuleNotBound
  | MissingModuleAccount | InvalidModuleAccount | MissingModuleProgramAccount
  | ModuleHookAuthorityMismatch | MissingModuleSupportAccount | ComplianceCheckFailed
  | ModuleError string | RuntimeError string

record runtime =
  rt_now :: int
  rt_find :: "bytes list \<Rightarrow> pubkey \<Rightarrow> pubkey option"
  rt_create :: "bytes list \<Rightarrow> int \<Rightarrow> pubkey \<Rightarrow> pubkey option"
  rt_modules :: module_ids
  rt_foreign :: "pubkey \<Rightarrow> accounts \<Rightarrow> comp_error + accounts"

definition find_remaining :: "remaining \<Rightarrow> pubkey \<Rightarrow> (pubkey \<times> bool) option" where
  "find_remaining remaining k = find (\<lambda>(k', w). k' = k) remaining"

definition writable :: "remaining \<Rightarrow> pubkey \<Rightarrow> bool" where
  "writable remaining k \<longleftrightarrow> (\<exists>(k', w) \<in> set remaining. k' = k \<and> w)"

section \<open>Arithmetic of the programs\<close>

definition U64_MAX :: int where "U64_MAX = 2 ^ 64 - 1"

definition checked_add :: "int \<Rightarrow> int \<Rightarrow> int option" where
  "checked_add a b = (if a + b \<le> U64_MAX then Some (a + b) else None)"

definition checked_sub :: "int \<Rightarrow> int \<Rightarrow> int option" where
  "checked_sub a b = (if b \<le> a then Some (a - b) else None)"

definition saturating_add :: "int \<Rightarrow> int \<Rightarrow> int" where
  "saturating_add a b = min (a + b) U64_MAX"

definition saturating_sub_i64 :: "int \<Rightarrow> int \<Rightarrow> int" where
  "saturating_sub_i64 a b = max (- (2 ^ 63)) (min (2 ^ 63 - 1) (a - b))"

section \<open>The state of the compliance program\<close>

definition MAX_MODULES :: nat where "MAX_MODULES = 15"

definition initialize_compliance :: "pubkey \<Rightarrow> int \<Rightarrow> pubkey \<Rightarrow> compliance_state_account" where
  "initialize_compliance owner bump token_mint =
     \<lparr> cs_owner = owner, cs_tokenMint = token_mint, cs_modules = [], cs_modulesPaused = False,
       cs_bump = bump \<rparr>"

text \<open>\<open>has_one = owner\<close> of the accounts of the owner operations.\<close>

definition owner_gated ::
    "pubkey \<Rightarrow> compliance_state_account \<Rightarrow> (comp_error + compliance_state_account) \<Rightarrow>
     comp_error + compliance_state_account" where
  "owner_gated signer state r = (if cs_owner state \<noteq> signer then Inl NotOwner else r)"

definition bind_module ::
    "pubkey \<Rightarrow> pubkey \<Rightarrow> compliance_state_account \<Rightarrow> comp_error + compliance_state_account" where
  "bind_module signer module_pubkey state = owner_gated signer state
     (if \<not> length (cs_modules state) < MAX_MODULES then Inl MaxModulesReached
      else if module_pubkey \<in> set (cs_modules state) then Inl ModuleAlreadyBound
      else Inr (state\<lparr> cs_modules := cs_modules state @ [module_pubkey] \<rparr>))"

definition unbind_module ::
    "pubkey \<Rightarrow> pubkey \<Rightarrow> compliance_state_account \<Rightarrow> comp_error + compliance_state_account" where
  "unbind_module signer module_pubkey state = owner_gated signer state
     (if module_pubkey \<notin> set (cs_modules state) then Inl ModuleNotBound
      else Inr (state\<lparr> cs_modules := remove1 module_pubkey (cs_modules state) \<rparr>))"

definition set_modules_paused ::
    "pubkey \<Rightarrow> bool \<Rightarrow> compliance_state_account \<Rightarrow> comp_error + compliance_state_account" where
  "set_modules_paused signer paused state = owner_gated signer state
     (Inr (state\<lparr> cs_modulesPaused := paused \<rparr>))"

definition DEFAULT_KEY :: pubkey where "DEFAULT_KEY = replicate 32 0"

definition transfer_compliance_ownership ::
    "pubkey \<Rightarrow> pubkey \<Rightarrow> compliance_state_account \<Rightarrow> comp_error + compliance_state_account" where
  "transfer_compliance_ownership signer new_owner state = owner_gated signer state
     (if new_owner = DEFAULT_KEY then Inl InvalidOwner else Inr (state\<lparr> cs_owner := new_owner \<rparr>))"

section \<open>Supporting accounts\<close>

fun read_daily_usage ::
    "runtime \<Rightarrow> accounts \<Rightarrow> remaining \<Rightarrow> pubkey \<Rightarrow> pubkey \<Rightarrow> pubkey \<Rightarrow> comp_error + int" where
  "read_daily_usage R A [] m program wallet = Inr 0"
| "read_daily_usage R A ((k, _) # accounts) m program wallet =
     (case A k of
        (owner, UsageCell u) \<Rightarrow>
          if owner \<noteq> program then read_daily_usage R A accounts m program wallet
          else (case rt_find R [ascii ''daily_usage'', m, wallet] program of
              None \<Rightarrow> Inl (RuntimeError ''panic'')
            | Some expected_usage \<Rightarrow>
                if k \<noteq> expected_usage then read_daily_usage R A accounts m program wallet
                else if du_module u = m \<and> du_wallet u = wallet then
                  (if saturating_sub_i64 (rt_now R) (du_started u) \<ge> 86400 then Inr 0 else Inr (du_volume u))
                else read_daily_usage R A accounts m program wallet)
      | _ \<Rightarrow> read_daily_usage R A accounts m program wallet)"

fun find_daily_usage_account ::
    "runtime \<Rightarrow> accounts \<Rightarrow> remaining \<Rightarrow> pubkey \<Rightarrow> pubkey \<Rightarrow> pubkey \<Rightarrow> comp_error + pubkey" where
  "find_daily_usage_account R A [] m program wallet = Inl MissingModuleSupportAccount"
| "find_daily_usage_account R A ((k, _) # accounts) m program wallet =
     (case A k of
        (owner, UsageCell u) \<Rightarrow>
          if owner \<noteq> program then find_daily_usage_account R A accounts m program wallet
          else (case rt_find R [ascii ''daily_usage'', m, wallet] program of
              None \<Rightarrow> Inl (RuntimeError ''panic'')
            | Some expected_usage \<Rightarrow>
                if k \<noteq> expected_usage then find_daily_usage_account R A accounts m program wallet
                else if du_module u = m \<and> du_wallet u = wallet then Inr k
                else find_daily_usage_account R A accounts m program wallet)
      | _ \<Rightarrow> find_daily_usage_account R A accounts m program wallet)"

fun read_country_count ::
    "runtime \<Rightarrow> accounts \<Rightarrow> remaining \<Rightarrow> pubkey \<Rightarrow> pubkey \<Rightarrow> int \<Rightarrow> comp_error + int" where
  "read_country_count R A [] m program country = Inr 0"
| "read_country_count R A ((k, _) # accounts) m program country =
     (case A k of
        (owner, CountCell c) \<Rightarrow>
          if owner \<noteq> program then read_country_count R A accounts m program country
          else (case rt_find R [ascii ''country_count'', m, le_bytes 2 country] program of
              None \<Rightarrow> Inl (RuntimeError ''panic'')
            | Some expected_count \<Rightarrow>
                if k \<noteq> expected_count then read_country_count R A accounts m program country
                else if cc_module c = m \<and> cc_country c = country then Inr (cc_count c)
                else read_country_count R A accounts m program country)
      | _ \<Rightarrow> read_country_count R A accounts m program country)"

fun find_country_count_account ::
    "runtime \<Rightarrow> accounts \<Rightarrow> remaining \<Rightarrow> pubkey \<Rightarrow> pubkey \<Rightarrow> int \<Rightarrow> comp_error + pubkey" where
  "find_country_count_account R A [] m program country = Inl MissingModuleSupportAccount"
| "find_country_count_account R A ((k, _) # accounts) m program country =
     (case A k of
        (owner, CountCell c) \<Rightarrow>
          if owner \<noteq> program then find_country_count_account R A accounts m program country
          else (case rt_find R [ascii ''country_count'', m, le_bytes 2 country] program of
              None \<Rightarrow> Inl (RuntimeError ''panic'')
            | Some expected_count \<Rightarrow>
                if k \<noteq> expected_count then find_country_count_account R A accounts m program country
                else if cc_module c = m \<and> cc_country c = country then Inr k
                else find_country_count_account R A accounts m program country)
      | _ \<Rightarrow> find_country_count_account R A accounts m program country)"

section \<open>May a transfer happen\<close>

definition cap_of :: "(int \<times> int) list \<Rightarrow> int \<Rightarrow> int option" where
  "cap_of caps country = map_option snd (find (\<lambda>(c, cap). c = country) caps)"

text \<open>One module of the loop of \<open>can_transfer\<close>.\<close>

definition module_allows ::
    "runtime \<Rightarrow> accounts \<Rightarrow> remaining \<Rightarrow> pubkey \<Rightarrow> int \<Rightarrow> int \<Rightarrow> int \<Rightarrow> int \<Rightarrow> pubkey \<Rightarrow> comp_error + bool" where
  "module_allows R A remaining from amount to_balance from_country to_country k =
     (case find_remaining remaining k of
        None \<Rightarrow> Inl MissingModuleAccount
      | Some _ \<Rightarrow>
        (case snd (A k) of
           ModuleCell ms \<Rightarrow>
             (case ms of
                MaxInvestorsModule w m h max_investors holder_count b \<Rightarrow>
                  Inr (\<not> (to_balance = 0 \<and> amount > 0 \<and> holder_count \<ge> max_investors))
              | CountryRestrictModule w m allowed b \<Rightarrow>
                  Inr (from_country \<in> set allowed \<and> to_country \<in> set allowed)
              | MaxBalanceModule w m max_balance b \<Rightarrow> Inr (\<not> saturating_add to_balance amount > max_balance)
              | MaxTransferModule w m max_amount b \<Rightarrow> Inr (\<not> amount > max_amount)
              | LockupModule w m lockup_end b \<Rightarrow> Inr (\<not> rt_now R < lockup_end)
              | DailyTransferLimitModule w m h daily_limit b \<Rightarrow>
                  (case read_daily_usage R A remaining k (fst (A k)) from of
                     Inl e \<Rightarrow> Inl e
                   | Inr used \<Rightarrow> Inr (\<not> saturating_add used amount > daily_limit))
              | SupplyCapModule w m h max_supply total_supply b \<Rightarrow> Inr True
              | InvestorCountryCapModule w m h caps b \<Rightarrow>
                  if to_balance = 0 \<and> amount > 0 then
                    (case cap_of caps to_country of
                       None \<Rightarrow> Inr True
                     | Some cap \<Rightarrow>
                         (case read_country_count R A remaining k (fst (A k)) to_country of
                            Inl e \<Rightarrow> Inl e
                          | Inr count \<Rightarrow> Inr (\<not> count \<ge> cap)))
                  else Inr True)
         | _ \<Rightarrow> Inl InvalidModuleAccount))"

fun modules_allow :: "(pubkey \<Rightarrow> comp_error + bool) \<Rightarrow> pubkey list \<Rightarrow> comp_error + bool" where
  "modules_allow allows [] = Inr True"
| "modules_allow allows (k # ks) =
     (case allows k of Inl e \<Rightarrow> Inl e | Inr False \<Rightarrow> Inr False | Inr True \<Rightarrow> modules_allow allows ks)"

definition can_transfer ::
    "runtime \<Rightarrow> accounts \<Rightarrow> compliance_state_account \<Rightarrow> remaining \<Rightarrow> pubkey \<Rightarrow> int \<Rightarrow> int \<Rightarrow> int \<Rightarrow> int \<Rightarrow>
     comp_error + bool" where
  "can_transfer R A state remaining from amount to_balance from_country to_country =
     (if cs_modulesPaused state then Inr True
      else modules_allow (module_allows R A remaining from amount to_balance from_country to_country)
             (cs_modules state))"

end
