(* ===== verification/ComplianceHooks.thy ===== *)
theory ComplianceHooks
  imports ComplianceProgram
begin

text \<open>
  The hooks of the compliance program that record what happened (\<open>transferred\<close>, \<open>created\<close>, \<open>destroyed\<close>),
  the instructions of the module programs they call, and the evaluation of the token program.

  Where a module program has two writable accounts, each is read into a copy of its own, and the
  copies are written back in the order of the declaration when the instruction ends.
\<close>

section \<open>Module programs\<close>

definition put :: "pubkey \<Rightarrow> cell \<Rightarrow> accounts \<Rightarrow> accounts" where
  "put k c A = A(k := (fst (A k), c))"

text \<open>The constraints \<open>seeds\<close>, \<open>bump\<close> and \<open>is_module_authority\<close>.\<close>

definition with_module_authority ::
    "runtime \<Rightarrow> string \<Rightarrow> pubkey \<Rightarrow> pubkey \<Rightarrow> pubkey \<Rightarrow> pubkey \<Rightarrow> pubkey \<Rightarrow> int \<Rightarrow> pubkey \<Rightarrow> comp_error + 'a \<Rightarrow>
     comp_error + 'a" where
  "with_module_authority R seed k program w m h b authority r =
     (if rt_create R [ascii seed, m] b program \<noteq> Some k then Inl (ModuleError ''ConstraintSeeds'')
      else if authority \<noteq> w \<and> authority \<noteq> h then Inl (ModuleError ''NotAuthorized'') else r)"

definition overflow_or :: "'a option \<Rightarrow> ('a \<Rightarrow> comp_error + 'b) \<Rightarrow> comp_error + 'b" where
  "overflow_or v k = (case v of None \<Rightarrow> Inl (ModuleError ''ArithmeticOverflow'') | Some x \<Rightarrow> k x)"

subsection \<open>Number of investors\<close>

definition holders_leave :: "int \<Rightarrow> int \<Rightarrow> int \<Rightarrow> int option" where
  "holders_leave amount from_balance_after n =
     (if amount > 0 \<and> from_balance_after = 0 then checked_sub n 1 else Some n)"

definition holders_enter :: "int \<Rightarrow> int \<Rightarrow> int \<Rightarrow> int option" where
  "holders_enter amount to_balance_after n =
     (if amount > 0 \<and> to_balance_after = amount then checked_add n 1 else Some n)"

definition mutate_max_investors ::
    "runtime \<Rightarrow> pubkey \<Rightarrow> pubkey \<Rightarrow> (int \<Rightarrow> int option) \<Rightarrow> accounts \<Rightarrow> comp_error + accounts" where
  "mutate_max_investors R authority k f A =
     (case snd (A k) of
        ModuleCell (MaxInvestorsModule w m h v n b) \<Rightarrow>
          with_module_authority R ''mod_max_investors'' k (MOD_MAX_INVESTORS (rt_modules R)) w m h b authority
            (overflow_or (f n) (\<lambda>n'. Inr (put k (ModuleCell (MaxInvestorsModule w m h v n' b)) A)))
      | _ \<Rightarrow> Inl (ModuleError ''AccountDiscriminatorMismatch''))"

definition max_investors_transferred where
  "max_investors_transferred R authority k amount from_balance_after to_balance_after =
     mutate_max_investors R authority k (\<lambda>n. case holders_leave amount from_balance_after n of
       None \<Rightarrow> None | Some n' \<Rightarrow> holders_enter amount to_balance_after n')"

definition max_investors_created where
  "max_investors_created R authority k amount to_balance_after =
     mutate_max_investors R authority k (holders_enter amount to_balance_after)"

definition max_investors_destroyed where
  "max_investors_destroyed R authority k amount from_balance_after =
     mutate_max_investors R authority k (holders_leave amount from_balance_after)"

subsection \<open>Supply\<close>

definition mutate_supply_cap ::
    "runtime \<Rightarrow> pubkey \<Rightarrow> pubkey \<Rightarrow> (int \<Rightarrow> int \<Rightarrow> comp_error + int) \<Rightarrow> accounts \<Rightarrow> comp_error + accounts" where
  "mutate_supply_cap R authority k f A =
     (case snd (A k) of
        ModuleCell (SupplyCapModule w m h max_supply total_supply b) \<Rightarrow>
          with_module_authority R ''mod_supply_cap'' k (MOD_SUPPLY_CAP (rt_modules R)) w m h b authority
            (case f max_supply total_supply of
               Inl e \<Rightarrow> Inl e
             | Inr total' \<Rightarrow> Inr (put k (ModuleCell (SupplyCapModule w m h max_supply total' b)) A))
      | _ \<Rightarrow> Inl (ModuleError ''AccountDiscriminatorMismatch''))"

definition supply_cap_created where
  "supply_cap_created R authority k amount =
     mutate_supply_cap R authority k (\<lambda>max_supply total_supply.
       overflow_or (checked_add total_supply amount) (\<lambda>new_total.
         if \<not> new_total \<le> max_supply then Inl (ModuleError ''MaxSupplyExceeded'') else Inr new_total))"

definition supply_cap_destroyed where
  "supply_cap_destroyed R authority k amount =
     mutate_supply_cap R authority k (\<lambda>max_supply total_supply.
       overflow_or (checked_sub total_supply amount) Inr)"

subsection \<open>Daily volume\<close>

definition daily_limit_transferred ::
    "runtime \<Rightarrow> pubkey \<Rightarrow> pubkey \<Rightarrow> pubkey \<Rightarrow> pubkey \<Rightarrow> int \<Rightarrow> accounts \<Rightarrow> comp_error + accounts" where
  "daily_limit_transferred R authority k usage wallet amount A =
     (case (snd (A k), snd (A usage)) of
        (ModuleCell (DailyTransferLimitModule w m h v b), UsageCell u) \<Rightarrow>
          with_module_authority R ''mod_daily_limit'' k (MOD_DAILY_LIMIT (rt_modules R)) w m h b authority
            (if rt_create R [ascii ''daily_usage'', k, wallet] (du_bump u) (MOD_DAILY_LIMIT (rt_modules R)) \<noteq> Some usage
             then Inl (ModuleError ''ConstraintSeeds'')
             else if du_module u \<noteq> k \<or> du_wallet u \<noteq> wallet then Inl (ModuleError ''InvalidUsageAccount'')
             else
               let fresh = (du_started u = 0 \<or> saturating_sub_i64 (rt_now R) (du_started u) \<ge> 86400);
                   u' = (if fresh then u\<lparr> du_started := rt_now R, du_volume := 0 \<rparr> else u)
               in overflow_or (checked_add (du_volume u') amount) (\<lambda>v'.
                    Inr (put usage (UsageCell (u'\<lparr> du_volume := v' \<rparr>)) A)))
      | _ \<Rightarrow> Inl (ModuleError ''AccountDiscriminatorMismatch''))"

subsection \<open>Investors of a country\<close>

definition initialize_count_if_needed :: "pubkey \<Rightarrow> int \<Rightarrow> count_state \<Rightarrow> count_state" where
  "initialize_count_if_needed m country c =
     (if cc_module c = DEFAULT_KEY then c\<lparr> cc_module := m, cc_country := country, cc_count := 0 \<rparr> else c)"

definition count_step ::
    "(int \<Rightarrow> int option) \<Rightarrow> pubkey \<Rightarrow> int \<Rightarrow> count_state \<Rightarrow> count_state option" where
  "count_step f m country c =
     (let c' = initialize_count_if_needed m country c
      in case f (cc_count c') of None \<Rightarrow> None | Some n \<Rightarrow> Some (c'\<lparr> cc_count := n \<rparr>))"

definition count_up where "count_up = count_step (\<lambda>n. checked_add n 1)"
definition count_down where "count_down = count_step (\<lambda>n. checked_sub n 1)"

text \<open>What \<open>transferred\<close> does to the two copies.\<close>

definition country_counts_transferred ::
    "pubkey \<Rightarrow> int \<Rightarrow> int \<Rightarrow> int \<Rightarrow> int \<Rightarrow> int \<Rightarrow> count_state \<Rightarrow> count_state \<Rightarrow>
     (count_state \<times> count_state) option" where
  "country_counts_transferred m amount from_balance_after to_balance_after from_country to_country cf ct =
     (let sender_exits = (amount > 0 \<and> from_balance_after = 0);
          receiver_enters = (amount > 0 \<and> to_balance_after = amount)
      in if from_country = to_country then
           (if sender_exits \<and> \<not> receiver_enters then
              map_option (\<lambda>cf'. (cf', ct)) (count_down m from_country cf)
            else if receiver_enters \<and> \<not> sender_exits then
              map_option (\<lambda>ct'. (cf, ct')) (count_up m to_country ct)
            else Some (cf, ct))
         else
           (case (if sender_exits then count_down m from_country cf else Some cf) of
              None \<Rightarrow> None
            | Some cf' \<Rightarrow> map_option (\<lambda>ct'. (cf', ct'))
                (if receiver_enters then count_up m to_country ct else Some ct)))"

definition country_cap_transferred ::
    "runtime \<Rightarrow> pubkey \<Rightarrow> pubkey \<Rightarrow> pubkey \<Rightarrow> pubkey \<Rightarrow> int \<Rightarrow> int \<Rightarrow> int \<Rightarrow> int \<Rightarrow> int \<Rightarrow> accounts \<Rightarrow>
     comp_error + accounts" where
  "country_cap_transferred R authority k kf kt amount from_balance_after to_balance_after from_country to_country A =
     (case (snd (A k), snd (A kf), snd (A kt)) of
        (ModuleCell (InvestorCountryCapModule w m h caps b), CountCell cf, CountCell ct) \<Rightarrow>
          with_module_authority R ''mod_country_cap'' k (MOD_COUNTRY_CAP (rt_modules R)) w m h b authority
            (if cc_module cf \<noteq> k \<or> cc_module ct \<noteq> k then Inl (ModuleError ''InvalidCountryCount'')
             else overflow_or (country_counts_transferred k amount from_balance_after to_balance_after
                 from_country to_country cf ct)
               (\<lambda>(cf', ct'). Inr (put kt (CountCell ct') (put kf (CountCell cf') A))))
      | _ \<Rightarrow> Inl (ModuleError ''AccountDiscriminatorMismatch''))"

definition mutate_country_count ::
    "runtime \<Rightarrow> pubkey \<Rightarrow> pubkey \<Rightarrow> pubkey \<Rightarrow> (count_state \<Rightarrow> count_state option) \<Rightarrow> accounts \<Rightarrow>
     comp_error + accounts" where
  "mutate_country_count R authority k kc f A =
     (case (snd (A k), snd (A kc)) of
        (ModuleCell (InvestorCountryCapModule w m h caps b), CountCell c) \<Rightarrow>
          with_module_authority R ''mod_country_cap'' k (MOD_COUNTRY_CAP (rt_modules R)) w m h b authority
            (if cc_module c \<noteq> k then Inl (ModuleError ''InvalidCountryCount'')
             else overflow_or (f c) (\<lambda>c'. Inr (put kc (CountCell c') A)))
      | _ \<Rightarrow> Inl (ModuleError ''AccountDiscriminatorMismatch''))"

definition country_cap_created where
  "country_cap_created R authority k kc amount to_balance_after to_country =
     mutate_country_count R authority k kc
       (if amount > 0 \<and> to_balance_after = amount then count_up k to_country else Some)"

definition country_cap_destroyed where
  "country_cap_destroyed R authority k kc amount from_balance_after from_country =
     mutate_country_count R authority k kc
       (if amount > 0 \<and> from_balance_after = 0 then count_down k from_country else Some)"

section \<open>Calls from the hooks\<close>

text \<open>
  The call of a module program: the hook authority is the compliance state, the program is among the
  accounts, and the accounts the module writes are writable. \<open>write\<close> yields the module's effect.
\<close>

definition ensure_hook_authority :: "pubkey \<Rightarrow> pubkey \<Rightarrow> comp_error + 'a \<Rightarrow> comp_error + 'a" where
  "ensure_hook_authority state_key hook_authority r =
     (if state_key \<noteq> hook_authority then Inl ModuleHookAuthorityMismatch else r)"

definition module_program_account ::
    "accounts \<Rightarrow> remaining \<Rightarrow> pubkey \<Rightarrow> comp_error + 'a \<Rightarrow> comp_error + 'a" where
  "module_program_account A remaining k r =
     (case find_remaining remaining (fst (A k)) of None \<Rightarrow> Inl MissingModuleProgramAccount | Some _ \<Rightarrow> r)"

definition call_module ::
    "runtime \<Rightarrow> remaining \<Rightarrow> pubkey \<Rightarrow> pubkey \<Rightarrow> pubkey list \<Rightarrow> (accounts \<Rightarrow> comp_error + accounts) \<Rightarrow> accounts \<Rightarrow>
     comp_error + accounts" where
  "call_module R remaining k program writes f A =
     (if fst (A k) \<noteq> program then rt_foreign R (fst (A k)) A
      else if \<not> list_all (writable remaining) writes then Inl (RuntimeError ''PrivilegeEscalation'')
      else f A)"

definition require_check :: "bool \<Rightarrow> accounts \<Rightarrow> comp_error + accounts" where
  "require_check c A = (if c then Inr A else Inl ComplianceCheckFailed)"

section \<open>Hooks\<close>

text \<open>The loop over the modules of the state, each among the remaining accounts.\<close>

fun for_modules ::
    "remaining \<Rightarrow> (pubkey \<Rightarrow> accounts \<Rightarrow> comp_error + accounts) \<Rightarrow> pubkey list \<Rightarrow> accounts \<Rightarrow>
     comp_error + accounts" where
  "for_modules remaining step [] A = Inr A"
| "for_modules remaining step (k # ks) A =
     (case find_remaining remaining k of
        None \<Rightarrow> Inl MissingModuleAccount
      | Some _ \<Rightarrow> (case step k A of Inl e \<Rightarrow> Inl e | Inr A' \<Rightarrow> for_modules remaining step ks A'))"

definition transferred_step ::
    "runtime \<Rightarrow> pubkey \<Rightarrow> remaining \<Rightarrow> pubkey \<Rightarrow> int \<Rightarrow> int \<Rightarrow> int \<Rightarrow> int \<Rightarrow> int \<Rightarrow> pubkey \<Rightarrow> accounts \<Rightarrow>
     comp_error + accounts" where
  "transferred_step R state_key remaining from amount from_balance_after to_balance_after from_country to_country k A =
     (let M = rt_modules R in case snd (A k) of
        ModuleCell (MaxInvestorsModule w m h v n b) \<Rightarrow>
          ensure_hook_authority state_key h (module_program_account A remaining k
            (call_module R remaining k (MOD_MAX_INVESTORS M) [k]
              (max_investors_transferred R state_key k amount from_balance_after to_balance_after) A))
      | ModuleCell (DailyTransferLimitModule w m h v b) \<Rightarrow>
          ensure_hook_authority state_key h (module_program_account A remaining k
            (case find_daily_usage_account R A remaining k (fst (A k)) from of
               Inl e \<Rightarrow> Inl e
             | Inr usage \<Rightarrow> call_module R remaining k (MOD_DAILY_LIMIT M) [k, usage]
                 (daily_limit_transferred R state_key k usage from amount) A))
      | ModuleCell (InvestorCountryCapModule w m h caps b) \<Rightarrow>
          ensure_hook_authority state_key h (module_program_account A remaining k
            (case find_country_count_account R A remaining k (fst (A k)) from_country of
               Inl e \<Rightarrow> Inl e
             | Inr kf \<Rightarrow>
                 (case find_country_count_account R A remaining k (fst (A k)) to_country of
                    Inl e \<Rightarrow> Inl e
                  | Inr kt \<Rightarrow> call_module R remaining k (MOD_COUNTRY_CAP M) [k, kf, kt]
                      (country_cap_transferred R state_key k kf kt amount from_balance_after to_balance_after
                        from_country to_country) A)))
      | _ \<Rightarrow> Inr A)"

definition transferred ::
    "runtime \<Rightarrow> pubkey \<Rightarrow> compliance_state_account \<Rightarrow> remaining \<Rightarrow> pubkey \<Rightarrow> int \<Rightarrow> int \<Rightarrow> int \<Rightarrow> int \<Rightarrow> int \<Rightarrow> accounts \<Rightarrow>
     comp_error + accounts" where
  "transferred R state_key state remaining from amount from_balance_after to_balance_after from_country to_country A =
     for_modules remaining (transferred_step R state_key remaining from amount from_balance_after to_balance_after
       from_country to_country) (cs_modules state) A"

definition created_step ::
    "runtime \<Rightarrow> pubkey \<Rightarrow> remaining \<Rightarrow> int \<Rightarrow> int \<Rightarrow> int \<Rightarrow> pubkey \<Rightarrow> accounts \<Rightarrow> comp_error + accounts" where
  "created_step R state_key remaining amount to_balance_after to_country k A =
     (let M = rt_modules R in case snd (A k) of
        ModuleCell ms \<Rightarrow>
          (case ms of
             CountryRestrictModule w m allowed b \<Rightarrow> require_check (to_country \<in> set allowed) A
           | MaxBalanceModule w m max_balance b \<Rightarrow> require_check (to_balance_after \<le> max_balance) A
           | MaxTransferModule w m max_amount b \<Rightarrow> require_check (amount \<le> max_amount) A
           | LockupModule w m lockup_end b \<Rightarrow> require_check (rt_now R \<ge> lockup_end) A
           | MaxInvestorsModule w m h v n b \<Rightarrow>
               ensure_hook_authority state_key h (module_program_account A remaining k
                 (call_module R remaining k (MOD_MAX_INVESTORS M) [k]
                   (max_investors_created R state_key k amount to_balance_after) A))
           | SupplyCapModule w m h v n b \<Rightarrow>
               ensure_hook_authority state_key h (module_program_account A remaining k
                 (call_module R remaining k (MOD_SUPPLY_CAP M) [k] (supply_cap_created R state_key k amount) A))
           | InvestorCountryCapModule w m h caps b \<Rightarrow>
               ensure_hook_authority state_key h (module_program_account A remaining k
                 (case find_country_count_account R A remaining k (fst (A k)) to_country of
                    Inl e \<Rightarrow> Inl e
                  | Inr kc \<Rightarrow> call_module R remaining k (MOD_COUNTRY_CAP M) [k, kc]
                      (country_cap_created R state_key k kc amount to_balance_after to_country) A))
           | DailyTransferLimitModule w m h v b \<Rightarrow> Inr A)
      | _ \<Rightarrow> Inr A)"

definition created ::
    "runtime \<Rightarrow> pubkey \<Rightarrow> compliance_state_account \<Rightarrow> remaining \<Rightarrow> int \<Rightarrow> int \<Rightarrow> int \<Rightarrow> accounts \<Rightarrow> comp_error + accounts" where
  "created R state_key state remaining amount to_balance_after to_country A =
     (if cs_modulesPaused state then Inr A
      else for_modules remaining (created_step R state_key remaining amount to_balance_after to_country)
             (cs_modules state) A)"

definition destroyed_step ::
    "runtime \<Rightarrow> pubkey \<Rightarrow> remaining \<Rightarrow> int \<Rightarrow> int \<Rightarrow> int \<Rightarrow> pubkey \<Rightarrow> accounts \<Rightarrow> comp_error + accounts" where
  "destroyed_step R state_key remaining amount from_balance_after from_country k A =
     (let M = rt_modules R in case snd (A k) of
        ModuleCell (MaxInvestorsModule w m h v n b) \<Rightarrow>
          ensure_hook_authority state_key h (module_program_account A remaining k
            (call_module R remaining k (MOD_MAX_INVESTORS M) [k]
              (max_investors_destroyed R state_key k amount from_balance_after) A))
      | ModuleCell (SupplyCapModule w m h v n b) \<Rightarrow>
          ensure_hook_authority state_key h (module_program_account A remaining k
            (call_module R remaining k (MOD_SUPPLY_CAP M) [k] (supply_cap_destroyed R state_key k amount) A))
      | ModuleCell (InvestorCountryCapModule w m h caps b) \<Rightarrow>
          ensure_hook_authority state_key h (module_program_account A remaining k
            (case find_country_count_account R A remaining k (fst (A k)) from_country of
               Inl e \<Rightarrow> Inl e
             | Inr kc \<Rightarrow> call_module R remaining k (MOD_COUNTRY_CAP M) [k, kc]
                 (country_cap_destroyed R state_key k kc amount from_balance_after from_country) A))
      | _ \<Rightarrow> Inr A)"

definition destroyed ::
    "runtime \<Rightarrow> pubkey \<Rightarrow> compliance_state_account \<Rightarrow> remaining \<Rightarrow> int \<Rightarrow> int \<Rightarrow> int \<Rightarrow> accounts \<Rightarrow> comp_error + accounts" where
  "destroyed R state_key state remaining amount from_balance_after from_country A =
     for_modules remaining (destroyed_step R state_key remaining amount from_balance_after from_country)
       (cs_modules state) A"

section \<open>Instructions of the module owners\<close>

text \<open>\<open>initialize_module\<close> of the eight modules, with the arguments of each.\<close>

datatype module_params =
    MaxBalanceParams int | MaxTransferParams int | LockupParams int | MaxInvestorsParams int
  | DailyLimitParams int | SupplyCapParams int | CountryRestrictParams "int list"
  | CountryCapParams "(int \<times> int) list"

definition MAX_COUNTRIES :: nat where "MAX_COUNTRIES = 32"
definition MAX_COUNTRY_CAPS :: nat where "MAX_COUNTRY_CAPS = 32"

fun initialize_module :: "pubkey \<Rightarrow> pubkey \<Rightarrow> int \<Rightarrow> module_params \<Rightarrow> comp_error + module_state" where
  "initialize_module owner m b (MaxBalanceParams v) = Inr (MaxBalanceModule owner m v b)"
| "initialize_module owner m b (MaxTransferParams v) = Inr (MaxTransferModule owner m v b)"
| "initialize_module owner m b (LockupParams v) = Inr (LockupModule owner m v b)"
| "initialize_module owner m b (MaxInvestorsParams v) = Inr (MaxInvestorsModule owner m owner v 0 b)"
| "initialize_module owner m b (DailyLimitParams v) = Inr (DailyTransferLimitModule owner m owner v b)"
| "initialize_module owner m b (SupplyCapParams v) = Inr (SupplyCapModule owner m owner v 0 b)"
| "initialize_module owner m b (CountryRestrictParams cs) =
     (if \<not> length cs \<le> MAX_COUNTRIES then Inl (ModuleError ''TooManyCountries'')
      else Inr (CountryRestrictModule owner m cs b))"
| "initialize_module owner m b (CountryCapParams cs) =
     (if \<not> length cs \<le> MAX_COUNTRY_CAPS then Inl (ModuleError ''TooManyCountryCaps'')
      else Inr (InvestorCountryCapModule owner m owner cs b))"

definition initialize_country_count :: "pubkey \<Rightarrow> int \<Rightarrow> int \<Rightarrow> count_state" where
  "initialize_country_count module_key country bump =
     \<lparr> cc_module = module_key, cc_country = country, cc_count = 0, cc_bump = bump \<rparr>"

definition initialize_wallet_usage :: "pubkey \<Rightarrow> pubkey \<Rightarrow> int \<Rightarrow> usage_state" where
  "initialize_wallet_usage module_key wallet bump =
     \<lparr> du_module = module_key, du_wallet = wallet, du_started = 0, du_volume = 0, du_bump = bump \<rparr>"

text \<open>\<open>set_hook_authority\<close> of the four modules with hooks, and \<open>set_max_supply\<close>; \<open>has_one = owner\<close>.\<close>

fun with_hook :: "pubkey \<Rightarrow> module_state \<Rightarrow> module_state option" where
  "with_hook h' (MaxInvestorsModule w m h v n b) = Some (MaxInvestorsModule w m h' v n b)"
| "with_hook h' (DailyTransferLimitModule w m h v b) = Some (DailyTransferLimitModule w m h' v b)"
| "with_hook h' (SupplyCapModule w m h v n b) = Some (SupplyCapModule w m h' v n b)"
| "with_hook h' (InvestorCountryCapModule w m h cs b) = Some (InvestorCountryCapModule w m h' cs b)"
| "with_hook h' _ = None"

fun module_owner :: "module_state \<Rightarrow> pubkey" where
  "module_owner (MaxBalanceModule w m v b) = w"
| "module_owner (MaxTransferModule w m v b) = w"
| "module_owner (LockupModule w m v b) = w"
| "module_owner (MaxInvestorsModule w m h v n b) = w"
| "module_owner (DailyTransferLimitModule w m h v b) = w"
| "module_owner (SupplyCapModule w m h v n b) = w"
| "module_owner (CountryRestrictModule w m cs b) = w"
| "module_owner (InvestorCountryCapModule w m h cs b) = w"

definition set_hook_authority :: "pubkey \<Rightarrow> pubkey \<Rightarrow> pubkey \<Rightarrow> accounts \<Rightarrow> comp_error + accounts" where
  "set_hook_authority signer hook_authority k A =
     (case snd (A k) of
        ModuleCell ms \<Rightarrow>
          (case with_hook hook_authority ms of
             None \<Rightarrow> Inl (ModuleError ''InstructionFallbackNotFound'')
           | Some ms' \<Rightarrow> if module_owner ms \<noteq> signer then Inl (ModuleError ''NotOwner'')
                         else Inr (put k (ModuleCell ms') A))
      | _ \<Rightarrow> Inl (ModuleError ''AccountDiscriminatorMismatch''))"

definition set_max_supply :: "pubkey \<Rightarrow> int \<Rightarrow> pubkey \<Rightarrow> accounts \<Rightarrow> comp_error + accounts" where
  "set_max_supply signer max_supply k A =
     (case snd (A k) of
        ModuleCell (SupplyCapModule w m h v total_supply b) \<Rightarrow>
          if w \<noteq> signer then Inl (ModuleError ''NotOwner'')
          else if \<not> max_supply \<ge> total_supply then Inl (ModuleError ''MaxSupplyBelowCurrent'')
          else Inr (put k (ModuleCell (SupplyCapModule w m h max_supply total_supply b)) A)
      | _ \<Rightarrow> Inl (ModuleError ''AccountDiscriminatorMismatch''))"

section \<open>Direct calls\<close>

text \<open>
  The hooks of the module programs are instructions like any other: whoever signs as the owner or
  the hook authority of a module may call them without the compliance program. Anchor checks that
  the module account and the accounts beside it belong to the program that is called.
\<close>

datatype module_hook =
    InvestorsTransferred pubkey int int int | InvestorsCreated pubkey int int
  | InvestorsDestroyed pubkey int int | SupplyCreated pubkey int | SupplyDestroyed pubkey int
  | VolumeTransferred pubkey pubkey pubkey int
  | CountryTransferred pubkey pubkey pubkey int int int int int
  | CountryCreated pubkey pubkey int int int | CountryDestroyed pubkey pubkey int int int

fun hook_program :: "module_ids \<Rightarrow> module_hook \<Rightarrow> pubkey" where
  "hook_program M (InvestorsTransferred k a fb tb) = MOD_MAX_INVESTORS M"
| "hook_program M (InvestorsCreated k a tb) = MOD_MAX_INVESTORS M"
| "hook_program M (InvestorsDestroyed k a fb) = MOD_MAX_INVESTORS M"
| "hook_program M (SupplyCreated k a) = MOD_SUPPLY_CAP M"
| "hook_program M (SupplyDestroyed k a) = MOD_SUPPLY_CAP M"
| "hook_program M (VolumeTransferred k usage wallet a) = MOD_DAILY_LIMIT M"
| "hook_program M (CountryTransferred k kf kt a fb tb fc tc) = MOD_COUNTRY_CAP M"
| "hook_program M (CountryCreated k kc a tb tc) = MOD_COUNTRY_CAP M"
| "hook_program M (CountryDestroyed k kc a fb fc) = MOD_COUNTRY_CAP M"

fun hook_accounts :: "module_hook \<Rightarrow> pubkey list" where
  "hook_accounts (InvestorsTransferred k a fb tb) = [k]"
| "hook_accounts (InvestorsCreated k a tb) = [k]"
| "hook_accounts (InvestorsDestroyed k a fb) = [k]"
| "hook_accounts (SupplyCreated k a) = [k]"
| "hook_accounts (SupplyDestroyed k a) = [k]"
| "hook_accounts (VolumeTransferred k usage wallet a) = [k, usage]"
| "hook_accounts (CountryTransferred k kf kt a fb tb fc tc) = [k, kf, kt]"
| "hook_accounts (CountryCreated k kc a tb tc) = [k, kc]"
| "hook_accounts (CountryDestroyed k kc a fb fc) = [k, kc]"

fun hook_amount :: "module_hook \<Rightarrow> int" where
  "hook_amount (InvestorsTransferred k a fb tb) = a"
| "hook_amount (InvestorsCreated k a tb) = a"
| "hook_amount (InvestorsDestroyed k a fb) = a"
| "hook_amount (SupplyCreated k a) = a"
| "hook_amount (SupplyDestroyed k a) = a"
| "hook_amount (VolumeTransferred k usage wallet a) = a"
| "hook_amount (CountryTransferred k kf kt a fb tb fc tc) = a"
| "hook_amount (CountryCreated k kc a tb tc) = a"
| "hook_amount (CountryDestroyed k kc a fb fc) = a"

fun run_hook :: "runtime \<Rightarrow> pubkey \<Rightarrow> module_hook \<Rightarrow> accounts \<Rightarrow> comp_error + accounts" where
  "run_hook R authority (InvestorsTransferred k a fb tb) A = max_investors_transferred R authority k a fb tb A"
| "run_hook R authority (InvestorsCreated k a tb) A = max_investors_created R authority k a tb A"
| "run_hook R authority (InvestorsDestroyed k a fb) A = max_investors_destroyed R authority k a fb A"
| "run_hook R authority (SupplyCreated k a) A = supply_cap_created R authority k a A"
| "run_hook R authority (SupplyDestroyed k a) A = supply_cap_destroyed R authority k a A"
| "run_hook R authority (VolumeTransferred k usage wallet a) A = daily_limit_transferred R authority k usage wallet a A"
| "run_hook R authority (CountryTransferred k kf kt a fb tb fc tc) A =
     country_cap_transferred R authority k kf kt a fb tb fc tc A"
| "run_hook R authority (CountryCreated k kc a tb tc) A = country_cap_created R authority k kc a tb tc A"
| "run_hook R authority (CountryDestroyed k kc a fb fc) A = country_cap_destroyed R authority k kc a fb fc A"

definition direct_hook :: "runtime \<Rightarrow> pubkey \<Rightarrow> module_hook \<Rightarrow> accounts \<Rightarrow> comp_error + accounts" where
  "direct_hook R authority hook A =
     (if \<not> list_all (\<lambda>k. fst (A k) = hook_program (rt_modules R) hook) (hook_accounts hook)
      then Inl (ModuleError ''AccountOwnedByWrongProgram'')
      else run_hook R authority hook A)"

text \<open>
  \<open>call_module_function\<close> of the compliance program: an instruction that its owner chooses, for any
  program, invoked with the owner's own signature.
\<close>

definition call_module_function ::
    "pubkey \<Rightarrow> compliance_state_account \<Rightarrow> (accounts \<Rightarrow> comp_error + accounts) \<Rightarrow> accounts \<Rightarrow>
     comp_error + accounts" where
  "call_module_function signer state instruction A =
     (if cs_owner state \<noteq> signer then Inl NotOwner else instruction A)"

section \<open>The evaluation of the token program\<close>

text \<open>The helpers are those of the compliance program, as the programs have them twice.\<close>

definition evaluate_step ::
    "runtime \<Rightarrow> accounts \<Rightarrow> remaining \<Rightarrow> pubkey \<Rightarrow> int \<Rightarrow> int \<Rightarrow> int \<Rightarrow> int \<Rightarrow> pubkey \<Rightarrow> comp_error + unit" where
  "evaluate_step R A remaining from amount to_balance from_country to_country k =
     (let is_mint = (from = DEFAULT_KEY);
          need = (\<lambda>c. if c then Inr () else Inl ComplianceCheckFailed)
      in case find_remaining remaining k of
        None \<Rightarrow> Inl ComplianceCheckFailed
      | Some _ \<Rightarrow>
        (case snd (A k) of
           ModuleCell ms \<Rightarrow>
             (case ms of
                MaxInvestorsModule w m h max_investors holder_count b \<Rightarrow>
                  need (\<not> (to_balance = 0 \<and> amount > 0 \<and> holder_count \<ge> max_investors))
              | CountryRestrictModule w m allowed b \<Rightarrow>
                  need ((is_mint \<or> from_country \<in> set allowed) \<and> to_country \<in> set allowed)
              | MaxBalanceModule w m max_balance b \<Rightarrow> need (saturating_add to_balance amount \<le> max_balance)
              | MaxTransferModule w m max_amount b \<Rightarrow> need (amount \<le> max_amount)
              | LockupModule w m lockup_end b \<Rightarrow> need (rt_now R \<ge> lockup_end)
              | DailyTransferLimitModule w m h daily_limit b \<Rightarrow>
                  if is_mint then Inr ()
                  else (case read_daily_usage R A remaining k (fst (A k)) from of
                          Inl e \<Rightarrow> Inl e
                        | Inr used \<Rightarrow> need (saturating_add used amount \<le> daily_limit))
              | SupplyCapModule w m h max_supply total_supply b \<Rightarrow> Inr ()
              | InvestorCountryCapModule w m h caps b \<Rightarrow>
                  if to_balance = 0 \<and> amount > 0 then
                    (case cap_of caps to_country of
                       None \<Rightarrow> Inr ()
                     | Some cap \<Rightarrow>
                         (case read_country_count R A remaining k (fst (A k)) to_country of
                            Inl e \<Rightarrow> Inl e
                          | Inr count \<Rightarrow> need (count < cap)))
                  else Inr ())
         | _ \<Rightarrow> Inl ComplianceCheckFailed))"

fun each_module :: "(pubkey \<Rightarrow> comp_error + unit) \<Rightarrow> pubkey list \<Rightarrow> comp_error + unit" where
  "each_module f [] = Inr ()"
| "each_module f (k # ks) = (case f k of Inl e \<Rightarrow> Inl e | Inr _ \<Rightarrow> each_module f ks)"

text \<open>The mint and the token of the state and of the compliance account, \<open>token_compliance\<close> and
  \<open>token_mint\<close>, are those of the token state.\<close>

definition evaluate_compliance ::
    "runtime \<Rightarrow> accounts \<Rightarrow> pubkey \<Rightarrow> pubkey \<Rightarrow> pubkey \<Rightarrow> compliance_state_account \<Rightarrow> remaining \<Rightarrow> pubkey \<Rightarrow>
     int \<Rightarrow> int \<Rightarrow> int \<Rightarrow> int \<Rightarrow> comp_error + unit" where
  "evaluate_compliance R A token_compliance token_mint state_key state remaining from amount to_balance
       from_country to_country =
     (if token_compliance \<noteq> state_key then Inl (RuntimeError ''InvalidRegistryReference'')
      else if \<not> to_balance \<le> U64_MAX - amount then Inl ComplianceCheckFailed
      else if cs_tokenMint state \<noteq> token_mint then Inl (RuntimeError ''InvalidRegistryReference'')
      else if cs_modulesPaused state then Inr ()
      else each_module (evaluate_step R A remaining from amount to_balance from_country to_country)
             (cs_modules state))"

end
