(* ===== verification/ComplianceProperties.thy ===== *)
theory ComplianceProperties
  imports ComplianceHooks
begin

text \<open>
  Correctness of the compliance program. The locale \<open>cell_law\<close> is the contract of a property of module
  accounts that every instruction of the module programs keeps, called by the compliance program or
  directly; its interpretations are the ranges of the amounts and counts the programs store and the
  bound of the supply. The token program's evaluation is
  equivalent to \<open>can_transfer\<close>.
\<close>

section \<open>Reachable accounts\<close>

definition module_programs :: "runtime \<Rightarrow> pubkey set" where
  "module_programs R = (let M = rt_modules R in
     {MOD_MAX_INVESTORS M, MOD_COUNTRY_RESTRICT M, MOD_MAX_BALANCE M, MOD_MAX_TRANSFER M, MOD_LOCKUP M,
      MOD_DAILY_LIMIT M, MOD_SUPPLY_CAP M, MOD_COUNTRY_CAP M})"

text \<open>The runtime lets a program change no account of another program.\<close>

definition foreign_confined :: "runtime \<Rightarrow> bool" where
  "foreign_confined R \<longleftrightarrow> (\<forall>p A A' k. rt_foreign R p A = Inr A' \<longrightarrow>
     fst (A k) \<in> module_programs R \<or> fst (A' k) \<in> module_programs R \<longrightarrow> A' k = A k)"

text \<open>A u64 argument of an instruction.\<close>

abbreviation u64 :: "int \<Rightarrow> bool" where "u64 v \<equiv> 0 \<le> v \<and> v \<le> U64_MAX"

inductive compliance_instruction :: "runtime \<Rightarrow> accounts \<Rightarrow> accounts \<Rightarrow> bool" for R where
  step_init: "compliance_instruction R A (A(k := (program, ModuleCell ms)))"
    if "snd (A k) = OtherCell" "program \<in> module_programs R" "initialize_module owner m b params = Inr ms"
       "case params of MaxBalanceParams v \<Rightarrow> u64 v | MaxTransferParams v \<Rightarrow> u64 v | LockupParams v \<Rightarrow> True
          | MaxInvestorsParams v \<Rightarrow> u64 v | DailyLimitParams v \<Rightarrow> u64 v | SupplyCapParams v \<Rightarrow> u64 v
          | CountryRestrictParams cs \<Rightarrow> True | CountryCapParams cs \<Rightarrow> \<forall>(c, v) \<in> set cs. u64 v"
| step_count: "compliance_instruction R A (A(k := (MOD_COUNTRY_CAP (rt_modules R),
       CountCell (initialize_country_count module_key country bump))))"
    if "snd (A k) = OtherCell"
| step_usage: "compliance_instruction R A (A(k := (MOD_DAILY_LIMIT (rt_modules R),
       UsageCell (initialize_wallet_usage module_key wallet bump))))"
    if "snd (A k) = OtherCell"
| step_hook: "compliance_instruction R A A'"
    if "set_hook_authority signer h k A = Inr A'"
| step_max_supply: "compliance_instruction R A A'"
    if "set_max_supply signer max_supply k A = Inr A'" "u64 max_supply"
| step_transferred: "compliance_instruction R A A'"
    if "transferred R state_key state remaining from amount fb tb fc tc A = Inr A'" "u64 amount"
| step_created: "compliance_instruction R A A'"
    if "created R state_key state remaining amount tb tc A = Inr A'" "u64 amount"
| step_destroyed: "compliance_instruction R A A'"
    if "destroyed R state_key state remaining amount fb fc A = Inr A'" "u64 amount"
| step_direct: "compliance_instruction R A A'"
    if "direct_hook R authority hook A = Inr A'" "u64 (hook_amount hook)"
| step_other: "compliance_instruction R A A'"
    if "rt_foreign R p A = Inr A'"

text \<open>A step is an instruction, or one that the owner of a compliance account forwards.\<close>

inductive compliance_step :: "runtime \<Rightarrow> accounts \<Rightarrow> accounts \<Rightarrow> bool" for R where
  step_instruction: "compliance_step R A A'"
    if "compliance_instruction R A A'"
| step_forward: "compliance_step R A A'"
    if "compliance_step R A B" "instruction A = Inr B" "call_module_function signer state instruction A = Inr A'"

section \<open>What an instruction that succeeds did\<close>

lemmas op_simps = with_module_authority_def overflow_or_def Let_def
lemmas op_splits = cell.splits module_state.splits if_splits option.splits sum.splits prod.splits

lemma mutate_max_investorsE:
  assumes "mutate_max_investors R authority k f A = Inr A'"
  obtains w m h v n b n' where "snd (A k) = ModuleCell (MaxInvestorsModule w m h v n b)" "f n = Some n'"
    "A' = put k (ModuleCell (MaxInvestorsModule w m h v n' b)) A"
  using assms by (auto simp: mutate_max_investors_def op_simps split: op_splits)

lemma mutate_supply_capE:
  assumes "mutate_supply_cap R authority k f A = Inr A'"
  obtains w m h v n b n' where "snd (A k) = ModuleCell (SupplyCapModule w m h v n b)" "f v n = Inr n'"
    "A' = put k (ModuleCell (SupplyCapModule w m h v n' b)) A"
  using assms by (auto simp: mutate_supply_cap_def op_simps split: op_splits)

lemma daily_limit_transferredE:
  assumes "daily_limit_transferred R authority k usage wallet amount A = Inr A'"
  obtains u u' v where "snd (A usage) = UsageCell u" "u' = u \<or> u' = u\<lparr> du_started := rt_now R, du_volume := 0 \<rparr>"
    "checked_add (du_volume u') amount = Some v" "A' = put usage (UsageCell (u'\<lparr> du_volume := v \<rparr>)) A"
proof -
  define fresh where "fresh u = (du_started u = 0 \<or> saturating_sub_i64 (rt_now R) (du_started u) \<ge> 86400)" for u :: usage_state
  from assms obtain u where u: "snd (A usage) = UsageCell u"
    and r: "overflow_or (checked_add (du_volume (if fresh u then u\<lparr> du_started := rt_now R, du_volume := 0 \<rparr> else u)) amount)
      (\<lambda>v'. Inr (put usage (UsageCell ((if fresh u then u\<lparr> du_started := rt_now R, du_volume := 0 \<rparr> else u)
        \<lparr> du_volume := v' \<rparr>)) A)) = Inr A'"
    unfolding daily_limit_transferred_def with_module_authority_def Let_def fresh_def
    by (auto split: cell.splits module_state.splits if_splits)
  define u' where "u' = (if fresh u then u\<lparr> du_started := rt_now R, du_volume := 0 \<rparr> else u)"
  from r obtain v where "checked_add (du_volume u') amount = Some v"
    "A' = put usage (UsageCell (u'\<lparr> du_volume := v \<rparr>)) A"
    unfolding u'_def [symmetric] by (auto simp: overflow_or_def split: option.splits)
  moreover have "u' = u \<or> u' = u\<lparr> du_started := rt_now R, du_volume := 0 \<rparr>" by (simp add: u'_def)
  ultimately show ?thesis using that u by blast
qed

lemma country_counts_steps:
  assumes "country_counts_transferred m amount fb tb fc tc cf ct = Some (cf', ct')"
  shows "(cf' = cf \<or> (\<exists>k x. count_down k x cf = Some cf')) \<and> (ct' = ct \<or> (\<exists>k x. count_up k x ct = Some ct'))"
  using assms by (auto simp: country_counts_transferred_def Let_def split: if_splits option.splits)

lemma country_cap_transferredE:
  assumes "country_cap_transferred R authority k kf kt amount fb tb fc tc A = Inr A'"
  obtains cf ct cf' ct' where "snd (A kf) = CountCell cf" "snd (A kt) = CountCell ct"
    "country_counts_transferred k amount fb tb fc tc cf ct = Some (cf', ct')"
    "A' = put kt (CountCell ct') (put kf (CountCell cf') A)"
  using assms by (auto simp: country_cap_transferred_def op_simps split: op_splits)

lemma mutate_country_countE:
  assumes "mutate_country_count R authority k kc f A = Inr A'"
  obtains c c' where "snd (A kc) = CountCell c" "f c = Some c'" "A' = put kc (CountCell c') A"
  using assms by (auto simp: mutate_country_count_def op_simps split: op_splits)

lemma call_moduleE:
  assumes "call_module R remaining k program writes f A = Inr A'"
  obtains "fst (A k) \<noteq> program" "rt_foreign R (fst (A k)) A = Inr A'" | "fst (A k) = program" "f A = Inr A'"
  using assms by (auto simp: call_module_def split: if_splits)

lemma find_usage_owner:
  "find_daily_usage_account R A accounts m program wallet = Inr k \<Longrightarrow> fst (A k) = program"
  by (induction accounts) (auto split: op_splits)

lemma find_count_owner:
  "find_country_count_account R A accounts m program country = Inr k \<Longrightarrow> fst (A k) = program"
  by (induction accounts) (auto split: op_splits)

lemmas hook_simps = ensure_hook_authority_def module_program_account_def require_check_def Let_def

lemma transferred_stepE:
  assumes "transferred_step R state_key remaining from amount fb tb fc tc k A = Inr A'"
  obtains (same) "A' = A"
    | (investors) "call_module R remaining k (MOD_MAX_INVESTORS (rt_modules R)) [k]
        (max_investors_transferred R state_key k amount fb tb) A = Inr A'"
    | (daily) usage where "find_daily_usage_account R A remaining k (fst (A k)) from = Inr usage"
        "call_module R remaining k (MOD_DAILY_LIMIT (rt_modules R)) [k, usage]
          (daily_limit_transferred R state_key k usage from amount) A = Inr A'"
    | (country) kf kt where "find_country_count_account R A remaining k (fst (A k)) fc = Inr kf"
        "find_country_count_account R A remaining k (fst (A k)) tc = Inr kt"
        "call_module R remaining k (MOD_COUNTRY_CAP (rt_modules R)) [k, kf, kt]
          (country_cap_transferred R state_key k kf kt amount fb tb fc tc) A = Inr A'"
proof (cases "snd (A k)")
  case (ModuleCell ms)
  then show ?thesis
    using assms that by (cases ms) (simp_all add: transferred_step_def hook_simps split: if_splits option.splits sum.splits)
qed (use assms that in \<open>simp_all add: transferred_step_def\<close>)

lemma created_stepE:
  assumes "created_step R state_key remaining amount tb tc k A = Inr A'"
  obtains (same) "A' = A"
    | (investors) "call_module R remaining k (MOD_MAX_INVESTORS (rt_modules R)) [k]
        (max_investors_created R state_key k amount tb) A = Inr A'"
    | (total) "call_module R remaining k (MOD_SUPPLY_CAP (rt_modules R)) [k]
        (supply_cap_created R state_key k amount) A = Inr A'"
    | (country) kc where "find_country_count_account R A remaining k (fst (A k)) tc = Inr kc"
        "call_module R remaining k (MOD_COUNTRY_CAP (rt_modules R)) [k, kc]
          (country_cap_created R state_key k kc amount tb tc) A = Inr A'"
proof -
  have "A' = A \<or> call_module R remaining k (MOD_MAX_INVESTORS (rt_modules R)) [k]
        (max_investors_created R state_key k amount tb) A = Inr A' \<or>
      call_module R remaining k (MOD_SUPPLY_CAP (rt_modules R)) [k] (supply_cap_created R state_key k amount) A = Inr A' \<or>
      (\<exists>kc. find_country_count_account R A remaining k (fst (A k)) tc = Inr kc \<and>
        call_module R remaining k (MOD_COUNTRY_CAP (rt_modules R)) [k, kc]
          (country_cap_created R state_key k kc amount tb tc) A = Inr A')"
  proof (cases "snd (A k)")
    case (ModuleCell ms)
    then show ?thesis
      using assms by (cases ms) (auto simp: created_step_def hook_simps split: if_splits option.splits sum.splits)
  qed (use assms in \<open>simp_all add: created_step_def\<close>)
  then show ?thesis using that by blast
qed

lemma destroyed_stepE:
  assumes "destroyed_step R state_key remaining amount fb fc k A = Inr A'"
  obtains (same) "A' = A"
    | (investors) "call_module R remaining k (MOD_MAX_INVESTORS (rt_modules R)) [k]
        (max_investors_destroyed R state_key k amount fb) A = Inr A'"
    | (total) "call_module R remaining k (MOD_SUPPLY_CAP (rt_modules R)) [k]
        (supply_cap_destroyed R state_key k amount) A = Inr A'"
    | (country) kc where "find_country_count_account R A remaining k (fst (A k)) fc = Inr kc"
        "call_module R remaining k (MOD_COUNTRY_CAP (rt_modules R)) [k, kc]
          (country_cap_destroyed R state_key k kc amount fb fc) A = Inr A'"
proof (cases "snd (A k)")
  case (ModuleCell ms)
  then show ?thesis
    using assms that by (cases ms) (simp_all add: destroyed_step_def hook_simps split: if_splits option.splits sum.splits)
qed (use assms that in \<open>simp_all add: destroyed_step_def\<close>)

lemma set_hook_authorityE:
  assumes "set_hook_authority signer h k A = Inr A'"
  obtains ms ms' where "snd (A k) = ModuleCell ms" "with_hook h ms = Some ms'" "A' = put k (ModuleCell ms') A"
  using assms by (auto simp: set_hook_authority_def split: cell.splits option.splits if_splits)

lemma set_max_supplyE:
  assumes "set_max_supply signer v k A = Inr A'"
  obtains w m h v0 n b where "snd (A k) = ModuleCell (SupplyCapModule w m h v0 n b)" "n \<le> v"
    "A' = put k (ModuleCell (SupplyCapModule w m h v n b)) A"
  using assms by (auto simp: set_max_supply_def split: cell.splits module_state.splits if_splits)

section \<open>Laws of cells\<close>

text \<open>What the instructions of the module programs do to one cell, for a property of cells.\<close>

locale cell_law =
  fixes Q :: "cell \<Rightarrow> bool"
  assumes fresh_module: "initialize_module owner m b params = Inr ms \<Longrightarrow>
      case params of MaxBalanceParams v \<Rightarrow> u64 v | MaxTransferParams v \<Rightarrow> u64 v | LockupParams v \<Rightarrow> True
        | MaxInvestorsParams v \<Rightarrow> u64 v | DailyLimitParams v \<Rightarrow> u64 v | SupplyCapParams v \<Rightarrow> u64 v
        | CountryRestrictParams cs \<Rightarrow> True | CountryCapParams cs \<Rightarrow> \<forall>(c, v) \<in> set cs. u64 v \<Longrightarrow>
      Q (ModuleCell ms)"
    and fresh_count: "Q (CountCell (initialize_country_count k country b))"
    and fresh_usage: "Q (UsageCell (initialize_wallet_usage k wallet b))"
    and hook: "Q (ModuleCell ms) \<Longrightarrow> with_hook h' ms = Some ms' \<Longrightarrow> Q (ModuleCell ms')"
    and max_supply: "Q (ModuleCell (SupplyCapModule w m h v n b)) \<Longrightarrow> u64 v' \<Longrightarrow> n \<le> v' \<Longrightarrow>
      Q (ModuleCell (SupplyCapModule w m h v' n b))"
    and leave: "Q (ModuleCell (MaxInvestorsModule w m h v n b)) \<Longrightarrow> holders_leave a f n = Some n' \<Longrightarrow>
      Q (ModuleCell (MaxInvestorsModule w m h v n' b))"
    and enter: "Q (ModuleCell (MaxInvestorsModule w m h v n b)) \<Longrightarrow> holders_enter a f n = Some n' \<Longrightarrow>
      Q (ModuleCell (MaxInvestorsModule w m h v n' b))"
    and supply_up: "Q (ModuleCell (SupplyCapModule w m h v n b)) \<Longrightarrow> u64 a \<Longrightarrow> n + a \<le> v \<Longrightarrow>
      n + a \<le> U64_MAX \<Longrightarrow> Q (ModuleCell (SupplyCapModule w m h v (n + a) b))"
    and supply_down: "Q (ModuleCell (SupplyCapModule w m h v n b)) \<Longrightarrow> u64 a \<Longrightarrow> a \<le> n \<Longrightarrow>
      Q (ModuleCell (SupplyCapModule w m h v (n - a) b))"
    and usage_reset: "Q (UsageCell u) \<Longrightarrow> Q (UsageCell (u\<lparr> du_started := t, du_volume := 0 \<rparr>))"
    and usage_add: "Q (UsageCell u) \<Longrightarrow> u64 a \<Longrightarrow> checked_add (du_volume u) a = Some v \<Longrightarrow>
      Q (UsageCell (u\<lparr> du_volume := v \<rparr>))"
    and count_enter: "Q (CountCell c) \<Longrightarrow> count_up k country c = Some c' \<Longrightarrow> Q (CountCell c')"
    and count_leave: "Q (CountCell c) \<Longrightarrow> count_down k country c = Some c' \<Longrightarrow> Q (CountCell c')"
begin

text \<open>Every account of a module program has the property.\<close>

definition holds :: "runtime \<Rightarrow> accounts \<Rightarrow> bool" where
  "holds R A \<longleftrightarrow> (\<forall>k. fst (A k) \<in> module_programs R \<longrightarrow> Q (snd (A k)))"

lemma holdsD: "holds R A \<Longrightarrow> fst (A k) \<in> module_programs R \<Longrightarrow> snd (A k) = c \<Longrightarrow> Q c"
  by (auto simp: holds_def)

lemma holds_put: "holds R A \<Longrightarrow> Q c \<Longrightarrow> holds R (put k c A)"
  by (simp add: holds_def put_def)

lemma own_program:
  "MOD_MAX_INVESTORS (rt_modules R) \<in> module_programs R" "MOD_SUPPLY_CAP (rt_modules R) \<in> module_programs R"
  "MOD_DAILY_LIMIT (rt_modules R) \<in> module_programs R" "MOD_COUNTRY_CAP (rt_modules R) \<in> module_programs R"
  by (simp_all add: module_programs_def Let_def)

lemma keeps_foreign: "foreign_confined R \<Longrightarrow> holds R A \<Longrightarrow> rt_foreign R p A = Inr A' \<Longrightarrow> holds R A'"
  unfolding holds_def foreign_confined_def by metis

lemma keeps_max_investors:
  assumes "holds R A" and "fst (A k) \<in> module_programs R" and "mutate_max_investors R authority k f A = Inr A'"
    and "\<And>w m h v n n' b. Q (ModuleCell (MaxInvestorsModule w m h v n b)) \<Longrightarrow> f n = Some n' \<Longrightarrow>
      Q (ModuleCell (MaxInvestorsModule w m h v n' b))"
  shows "holds R A'"
  using assms(3) by (rule mutate_max_investorsE) (use holdsD [OF assms(1,2)] assms(4) holds_put [OF assms(1)] in blast)

lemma keeps_supply_cap:
  assumes "holds R A" and "fst (A k) \<in> module_programs R" and "mutate_supply_cap R authority k f A = Inr A'"
    and "\<And>w m h v n n' b. Q (ModuleCell (SupplyCapModule w m h v n b)) \<Longrightarrow> f v n = Inr n' \<Longrightarrow>
      Q (ModuleCell (SupplyCapModule w m h v n' b))"
  shows "holds R A'"
  using assms(3) by (rule mutate_supply_capE) (use holdsD [OF assms(1,2)] assms(4) holds_put [OF assms(1)] in blast)

lemma keeps_daily_limit:
  assumes "holds R A" and "fst (A usage) \<in> module_programs R" and "u64 amount"
    and "daily_limit_transferred R authority k usage wallet amount A = Inr A'"
  shows "holds R A'"
  using assms(4) by (rule daily_limit_transferredE)
    (use holdsD [OF assms(1,2)] usage_reset usage_add [OF _ assms(3)] holds_put [OF assms(1)] in blast)

lemma keeps_country_cap:
  assumes "holds R A" and "fst (A kf) \<in> module_programs R" and "fst (A kt) \<in> module_programs R"
    and "country_cap_transferred R authority k kf kt amount fb tb fc tc A = Inr A'"
  shows "holds R A'"
proof -
  from assms(4) obtain cf ct cf' ct' where c: "snd (A kf) = CountCell cf" "snd (A kt) = CountCell ct"
    and s: "country_counts_transferred k amount fb tb fc tc cf ct = Some (cf', ct')"
    and A': "A' = put kt (CountCell ct') (put kf (CountCell cf') A)"
    by (rule country_cap_transferredE)
  have "Q (CountCell cf')" "Q (CountCell ct')"
    using country_counts_steps [OF s] holdsD [OF assms(1,2) c(1)] holdsD [OF assms(1,3) c(2)]
      count_enter count_leave by blast+
  then show ?thesis unfolding A' using assms(1) by (blast intro: holds_put)
qed

lemma keeps_country_count:
  assumes "holds R A" and "fst (A kc) \<in> module_programs R" and "mutate_country_count R authority k kc f A = Inr A'"
    and "\<And>c c'. Q (CountCell c) \<Longrightarrow> f c = Some c' \<Longrightarrow> Q (CountCell c')"
  shows "holds R A'"
  using assms(3) by (rule mutate_country_countE) (use holdsD [OF assms(1,2)] assms(4) holds_put [OF assms(1)] in blast)

lemma keeps_call:
  assumes "foreign_confined R" and "holds R A" and "call_module R remaining k program writes f A = Inr A'"
    and "fst (A k) = program \<Longrightarrow> f A = Inr A' \<Longrightarrow> holds R A'"
  shows "holds R A'"
  using assms(3) by (rule call_moduleE) (use assms keeps_foreign in blast)+

lemma keeps_for_modules:
  assumes "\<And>k A A'. holds R A \<Longrightarrow> step k A = Inr A' \<Longrightarrow> holds R A'"
    and "holds R A" and "for_modules remaining step ks A = Inr A'"
  shows "holds R A'"
  using assms(2,3) by (induction ks arbitrary: A) (auto split: op_splits intro: assms(1))

lemma count_changes:
  "(if b then count_up k x else Some) c = Some c' \<Longrightarrow> Q (CountCell c) \<Longrightarrow> Q (CountCell c')"
  "(if b then count_down k x else Some) c = Some c' \<Longrightarrow> Q (CountCell c) \<Longrightarrow> Q (CountCell c')"
  by (auto split: if_splits intro: count_enter count_leave)

lemma keeps_max_investors_hooks:
  assumes "holds R A" and "fst (A k) \<in> module_programs R"
  shows "max_investors_transferred R authority k amount fb tb A = Inr A' \<Longrightarrow> holds R A'"
    and "max_investors_created R authority k amount tb A = Inr A' \<Longrightarrow> holds R A'"
    and "max_investors_destroyed R authority k amount fb A = Inr A' \<Longrightarrow> holds R A'"
proof -
  show "holds R A'" if "max_investors_transferred R authority k amount fb tb A = Inr A'"
  proof (rule keeps_max_investors [OF assms that [unfolded max_investors_transferred_def]])
    fix w m h v n n' b
    assume q: "Q (ModuleCell (MaxInvestorsModule w m h v n b))"
      and "(case holders_leave amount fb n of None \<Rightarrow> None | Some n' \<Rightarrow> holders_enter amount tb n') = Some n'"
    then obtain n1 where "holders_leave amount fb n = Some n1" "holders_enter amount tb n1 = Some n'"
      by (auto split: option.splits)
    then show "Q (ModuleCell (MaxInvestorsModule w m h v n' b))" using enter [OF leave [OF q]] by blast
  qed
  show "holds R A'" if "max_investors_created R authority k amount tb A = Inr A'"
    by (rule keeps_max_investors [OF assms that [unfolded max_investors_created_def]]) (rule enter)
  show "holds R A'" if "max_investors_destroyed R authority k amount fb A = Inr A'"
    by (rule keeps_max_investors [OF assms that [unfolded max_investors_destroyed_def]]) (rule leave)
qed

lemma keeps_supply_cap_hooks:
  assumes "holds R A" and "fst (A k) \<in> module_programs R" and "u64 amount"
  shows "supply_cap_created R authority k amount A = Inr A' \<Longrightarrow> holds R A'"
    and "supply_cap_destroyed R authority k amount A = Inr A' \<Longrightarrow> holds R A'"
proof -
  show "holds R A'" if "supply_cap_created R authority k amount A = Inr A'"
    by (rule keeps_supply_cap [OF assms(1,2) that [unfolded supply_cap_created_def]])
      (use supply_up [OF _ assms(3)] in \<open>auto simp: overflow_or_def checked_add_def split: if_splits option.splits\<close>)
  show "holds R A'" if "supply_cap_destroyed R authority k amount A = Inr A'"
    by (rule keeps_supply_cap [OF assms(1,2) that [unfolded supply_cap_destroyed_def]])
      (use supply_down [OF _ assms(3)] in \<open>auto simp: overflow_or_def checked_sub_def split: if_splits option.splits\<close>)
qed

lemma keeps_country_hooks:
  assumes "holds R A" and "fst (A kc) \<in> module_programs R"
  shows "country_cap_created R authority k kc amount tb tc A = Inr A' \<Longrightarrow> holds R A'"
    and "country_cap_destroyed R authority k kc amount fb fc A = Inr A' \<Longrightarrow> holds R A'"
proof -
  show "holds R A'" if "country_cap_created R authority k kc amount tb tc A = Inr A'"
    by (rule keeps_country_count [OF assms that [unfolded country_cap_created_def]]) (rule count_changes(1))
  show "holds R A'" if "country_cap_destroyed R authority k kc amount fb fc A = Inr A'"
    by (rule keeps_country_count [OF assms that [unfolded country_cap_destroyed_def]]) (rule count_changes(2))
qed

lemma keeps_direct_hook:
  assumes "holds R A" and "direct_hook R authority hook A = Inr A'" and "u64 (hook_amount hook)"
  shows "holds R A'"
proof -
  from assms(2) have own: "\<forall>k \<in> set (hook_accounts hook). fst (A k) = hook_program (rt_modules R) hook"
    and r: "run_hook R authority hook A = Inr A'"
    by (auto simp: direct_hook_def list_all_iff split: if_splits)
  have p: "\<forall>k \<in> set (hook_accounts hook). fst (A k) \<in> module_programs R"
    using own own_program by (cases hook) auto
  show ?thesis
    using p r assms(3)
    by (cases hook)
      (auto intro: keeps_max_investors_hooks [OF assms(1)] keeps_supply_cap_hooks [OF assms(1)]
        keeps_country_hooks [OF assms(1)] keeps_daily_limit [OF assms(1)] keeps_country_cap [OF assms(1)])
qed

lemma keeps_transferred_step:
  assumes F: "foreign_confined R" and H: "holds R A" and "u64 amount"
    and t: "transferred_step R state_key remaining from amount fb tb fc tc k A = Inr A'"
  shows "holds R A'"
proof -
  let ?M = "rt_modules R"
  from t show ?thesis
  proof (cases rule: transferred_stepE)
    case investors
    show ?thesis
      by (rule keeps_call [OF F H investors], rule keeps_max_investors_hooks(1) [OF H])
        (use own_program in simp_all)
  next
    case daily
    show ?thesis
      by (rule keeps_call [OF F H daily(2)], rule keeps_daily_limit [OF H _ assms(3)])
        (use find_usage_owner [OF daily(1)] own_program in simp_all)
  next
    case country
    show ?thesis
      by (rule keeps_call [OF F H country(3)], rule keeps_country_cap [OF H])
        (use find_count_owner [OF country(1)] find_count_owner [OF country(2)] own_program in simp_all)
  qed (use H in simp)
qed

lemma keeps_created_step:
  assumes F: "foreign_confined R" and H: "holds R A" and "u64 amount"
    and t: "created_step R state_key remaining amount tb tc k A = Inr A'"
  shows "holds R A'"
proof -
  let ?M = "rt_modules R"
  from t show ?thesis
  proof (cases rule: created_stepE)
    case investors
    show ?thesis
      by (rule keeps_call [OF F H investors], rule keeps_max_investors_hooks(2) [OF H])
        (use own_program in simp_all)
  next
    case total
    show ?thesis
      by (rule keeps_call [OF F H total], rule keeps_supply_cap_hooks(1) [OF H _ assms(3)])
        (use own_program in simp_all)
  next
    case country
    show ?thesis
      by (rule keeps_call [OF F H country(2)], rule keeps_country_hooks(1) [OF H])
        (use find_count_owner [OF country(1)] own_program in simp_all)
  qed (use H in simp)
qed

lemma keeps_destroyed_step:
  assumes F: "foreign_confined R" and H: "holds R A" and "u64 amount"
    and t: "destroyed_step R state_key remaining amount fb fc k A = Inr A'"
  shows "holds R A'"
proof -
  let ?M = "rt_modules R"
  from t show ?thesis
  proof (cases rule: destroyed_stepE)
    case investors
    show ?thesis
      by (rule keeps_call [OF F H investors], rule keeps_max_investors_hooks(3) [OF H])
        (use own_program in simp_all)
  next
    case total
    show ?thesis
      by (rule keeps_call [OF F H total], rule keeps_supply_cap_hooks(2) [OF H _ assms(3)])
        (use own_program in simp_all)
  next
    case country
    show ?thesis
      by (rule keeps_call [OF F H country(2)], rule keeps_country_hooks(2) [OF H])
        (use find_count_owner [OF country(1)] own_program in simp_all)
  qed (use H in simp)
qed

lemma keeps_owner_instructions:
  assumes "holds R A"
  shows "set_hook_authority signer h k A = Inr A' \<Longrightarrow> holds R A'"
    and "set_max_supply signer v k A = Inr A' \<Longrightarrow> u64 v \<Longrightarrow> holds R A'"
proof -
  have put: "holds R (put k c A)" if "fst (A k) \<in> module_programs R \<Longrightarrow> Q c" for c
    using that assms by (simp add: holds_def put_def)
  show "set_hook_authority signer h k A = Inr A' \<Longrightarrow> holds R A'"
    by (elim set_hook_authorityE) (use put hook holdsD [OF assms] in blast)
  show "set_max_supply signer v k A = Inr A' \<Longrightarrow> u64 v \<Longrightarrow> holds R A'"
    by (elim set_max_supplyE) (use put max_supply holdsD [OF assms] in blast)
qed

lemma holds_update: "holds R A \<Longrightarrow> Q c \<Longrightarrow> holds R (A(k := (p, c)))"
  by (simp add: holds_def)

lemma keeps_instruction:
  assumes "foreign_confined R" and "compliance_instruction R A A'" and "holds R A"
  shows "holds R A'"
  using assms(2)
proof cases
  case step_transferred
  show ?thesis
    by (rule keeps_for_modules [OF _ assms(3) step_transferred(1) [unfolded transferred_def]])
      (rule keeps_transferred_step [OF assms(1) _ step_transferred(2)])
next
  case (step_created state_key state remaining amount tb tc)
  show ?thesis
  proof (cases "cs_modulesPaused state")
    case True
    then show ?thesis using step_created(1) assms(3) by (simp add: created_def)
  next
    case False
    show ?thesis
      by (rule keeps_for_modules [OF _ assms(3)], erule (1) keeps_created_step [OF assms(1) _ step_created(2)])
        (use step_created(1) False in \<open>simp add: created_def\<close>)
  qed
next
  case step_destroyed
  show ?thesis
    by (rule keeps_for_modules [OF _ assms(3) step_destroyed(1) [unfolded destroyed_def]])
      (rule keeps_destroyed_step [OF assms(1) _ step_destroyed(2)])
next
  case step_init
  show ?thesis unfolding step_init(1)
    by (rule holds_update [OF assms(3)], rule fresh_module [OF step_init(4,5)])
next
  case step_count
  show ?thesis unfolding step_count(1) by (rule holds_update [OF assms(3) fresh_count])
next
  case step_usage
  show ?thesis unfolding step_usage(1) by (rule holds_update [OF assms(3) fresh_usage])
next
  case step_hook
  show ?thesis by (rule keeps_owner_instructions(1) [OF assms(3) step_hook])
next
  case step_max_supply
  show ?thesis by (rule keeps_owner_instructions(2) [OF assms(3) step_max_supply])
next
  case step_direct
  show ?thesis by (rule keeps_direct_hook [OF assms(3) step_direct])
next
  case step_other
  show ?thesis by (rule keeps_foreign [OF assms(1,3) step_other])
qed

lemma keeps_step: "compliance_step R A A' \<Longrightarrow> foreign_confined R \<Longrightarrow> holds R A \<Longrightarrow> holds R A'"
  by (induction rule: compliance_step.induct)
    (auto simp: call_module_function_def intro: keeps_instruction split: if_splits)

lemma keeps_steps:
  "foreign_confined R \<Longrightarrow> (compliance_step R)\<^sup>*\<^sup>* A A' \<Longrightarrow> holds R A \<Longrightarrow> holds R A'"
  by (rotate_tac 1, induction rule: rtranclp_induct) (auto intro: keeps_step)

end

section \<open>Ranges of the numbers\<close>

fun typed_module :: "module_state \<Rightarrow> bool" where
  "typed_module (MaxBalanceModule w m v b) = u64 v"
| "typed_module (MaxTransferModule w m v b) = u64 v"
| "typed_module (LockupModule w m v b) = True"
| "typed_module (MaxInvestorsModule w m h v n b) = (u64 v \<and> u64 n)"
| "typed_module (DailyTransferLimitModule w m h v b) = u64 v"
| "typed_module (SupplyCapModule w m h v n b) = (u64 v \<and> u64 n)"
| "typed_module (CountryRestrictModule w m cs b) = (length cs \<le> MAX_COUNTRIES)"
| "typed_module (InvestorCountryCapModule w m h cs b) =
     (length cs \<le> MAX_COUNTRY_CAPS \<and> list_all (\<lambda>(c, v). u64 v) cs)"

fun typed_cell :: "cell \<Rightarrow> bool" where
  "typed_cell (ModuleCell ms) = typed_module ms"
| "typed_cell (UsageCell u) = u64 (du_volume u)"
| "typed_cell (CountCell c) = u64 (cc_count c)"
| "typed_cell OtherCell = True"

lemmas arith_simps = holders_leave_def holders_enter_def checked_add_def checked_sub_def U64_MAX_def
  initialize_country_count_def initialize_wallet_usage_def count_up_def count_down_def count_step_def
  initialize_count_if_needed_def

interpretation typed: cell_law typed_cell
proof
  fix owner m b params ms
  assume "initialize_module owner m b params = Inr ms"
    "case params of MaxBalanceParams v \<Rightarrow> u64 v | MaxTransferParams v \<Rightarrow> u64 v | LockupParams v \<Rightarrow> True
      | MaxInvestorsParams v \<Rightarrow> u64 v | DailyLimitParams v \<Rightarrow> u64 v | SupplyCapParams v \<Rightarrow> u64 v
      | CountryRestrictParams cs \<Rightarrow> True | CountryCapParams cs \<Rightarrow> \<forall>(c, v) \<in> set cs. u64 v"
  then show "typed_cell (ModuleCell ms)"
    by (cases params) (auto simp: U64_MAX_def list_all_iff split: if_splits)
next
  fix ms h' ms'
  assume "typed_cell (ModuleCell ms)" "with_hook h' ms = Some ms'"
  then show "typed_cell (ModuleCell ms')" by (cases ms) auto
qed (auto simp: arith_simps Let_def split: if_splits option.splits)

text \<open>The tracked supply is within the cap.\<close>

fun supply_within :: "cell \<Rightarrow> bool" where
  "supply_within (ModuleCell (SupplyCapModule w m h v n b)) = (0 \<le> n \<and> n \<le> v)"
| "supply_within c = True"

interpretation within: cell_law supply_within
proof
  fix owner m b params ms
  assume "initialize_module owner m b params = Inr ms"
    "case params of MaxBalanceParams v \<Rightarrow> u64 v | MaxTransferParams v \<Rightarrow> u64 v | LockupParams v \<Rightarrow> True
      | MaxInvestorsParams v \<Rightarrow> u64 v | DailyLimitParams v \<Rightarrow> u64 v | SupplyCapParams v \<Rightarrow> u64 v
      | CountryRestrictParams cs \<Rightarrow> True | CountryCapParams cs \<Rightarrow> \<forall>(c, v) \<in> set cs. u64 v"
  then show "supply_within (ModuleCell ms)"
    by (cases params) (auto split: if_splits)
next
  fix ms h' ms'
  assume "supply_within (ModuleCell ms)" "with_hook h' ms = Some ms'"
  then show "supply_within (ModuleCell ms')" by (cases ms) auto
qed auto

section \<open>Two evaluations of the same modules\<close>

lemma evaluate_step_agrees:
  assumes "from \<noteq> DEFAULT_KEY"
  shows "evaluate_step R A remaining from amount tb fc tc k = Inr () \<longleftrightarrow>
    module_allows R A remaining from amount tb fc tc k = Inr True"
proof (cases "snd (A k)")
  case (ModuleCell ms)
  then show ?thesis
    using assms by (cases ms) (auto simp: evaluate_step_def module_allows_def split: option.split sum.split)
qed (simp_all add: evaluate_step_def module_allows_def split: option.split)

lemma modules_agree:
  assumes "\<And>k. f k = Inr () \<longleftrightarrow> g k = Inr True"
  shows "each_module f ks = Inr () \<longleftrightarrow> modules_allow g ks = Inr True"
proof (induction ks)
  case (Cons k ks)
  have "f k = Inr () \<longleftrightarrow> g k = Inr True" by (rule assms)
  then show ?case using Cons by (cases "f k"; cases "g k") (auto split: bool.split)
qed simp

section \<open>Properties\<close>

text \<open>The u64 amounts and counts of the module accounts stay in range.\<close>

lemma module_accounts_stay_typed:
  assumes "foreign_confined R" and "(compliance_step R)\<^sup>*\<^sup>* A A'"
    and "\<forall>k. fst (A k) \<in> module_programs R \<longrightarrow> typed_cell (snd (A k))"
  shows "\<forall>k. fst (A' k) \<in> module_programs R \<longrightarrow> typed_cell (snd (A' k))"
  using typed.keeps_steps [OF assms(1,2)] assms(3) unfolding typed.holds_def by blast

text \<open>
  C10. The supply a supply-cap module tracks never exceeds its cap, in every sequence of
  instructions that starts without module accounts: the hooks of the compliance program, those
  of the module programs when they are called directly or forwarded by the owner of a compliance
  account, the instructions of the owners of the modules, and instructions of other programs,
  which change no account of a module program.
\<close>

theorem tracked_supply_within_cap:
  assumes "foreign_confined R" and "(compliance_step R)\<^sup>*\<^sup>* A A'"
    and "\<forall>k. snd (A k) = OtherCell"
    and "fst (A' k) \<in> module_programs R" and "snd (A' k) = ModuleCell (SupplyCapModule w m h v n b)"
  shows "0 \<le> n \<and> n \<le> v"
proof -
  have "within.holds R A'"
    by (rule within.keeps_steps [OF assms(1,2)]) (simp add: within.holds_def assms(3))
  then show ?thesis using assms(4,5) by (auto simp: within.holds_def)
qed

text \<open>
  C12. Apart from a mint, the token program's own evaluation of the modules passes exactly when
  the compliance program's \<open>can_transfer\<close> answers true, for balances that do not
  overflow and the compliance account of the token.
\<close>

theorem evaluations_agree:
  assumes "from \<noteq> DEFAULT_KEY" and "to_balance \<le> U64_MAX - amount"
    and "token_compliance = state_key" and "cs_tokenMint state = token_mint"
  shows "evaluate_compliance R A token_compliance token_mint state_key state remaining from amount to_balance
      from_country to_country = Inr () \<longleftrightarrow>
    can_transfer R A state remaining from amount to_balance from_country to_country = Inr True"
  using assms modules_agree [OF evaluate_step_agrees [OF assms(1)]]
  by (simp add: evaluate_compliance_def can_transfer_def)

text \<open>
  C35. A transfer within one country after which the sender holds nothing and the receiver held
  some before is not recorded: the hook gives the module the same count account twice, and the
  copy the module did not change is written last.
\<close>

theorem same_country_exit_is_not_counted:
  assumes "cs_modules state = [k]"
    and "snd (A k) = ModuleCell (InvestorCountryCapModule w m h caps b)"
    and "fst (A k) = MOD_COUNTRY_CAP (rt_modules R)"
    and "amount > 0" and "to_balance_after \<noteq> amount"
    and "transferred R state_key state remaining from amount 0 to_balance_after country country A = Inr A'"
  shows "A' = A"
proof -
  have "transferred_step R state_key remaining from amount 0 to_balance_after country country k A = Inr A'"
    using assms(1,6) by (auto simp: transferred_def split: option.splits sum.splits)
  then obtain kc where "country_cap_transferred R state_key k kc kc amount 0 to_balance_after country country A = Inr A'"
    using assms(2,3) by (auto simp: transferred_step_def hook_simps call_module_def split: if_splits option.splits sum.splits)
  then obtain cf ct cf' ct' where c: "snd (A kc) = CountCell cf" "snd (A kc) = CountCell ct"
    and s: "country_counts_transferred k amount 0 to_balance_after country country cf ct = Some (cf', ct')"
    and A': "A' = put kc (CountCell ct') (put kc (CountCell cf') A)"
    by (rule country_cap_transferredE)
  have "ct' = ct" using s assms(4,5) by (auto simp: country_counts_transferred_def)
  then show ?thesis using A' c(2) by (auto simp: put_def fun_eq_iff prod_eq_iff)
qed

lemma only_module:
  "find_remaining [(k, True), (p, False)] k = Some (k, True)" "writable [(k, True), (p, False)] k"
  "\<exists>x. find_remaining [(k, True), (p, False)] p = Some x"
  by (simp_all add: find_remaining_def writable_def) (cases "k = p"; blast)

lemma supply_hooks:
  assumes "cs_modules state = [k]" and "\<not> cs_modulesPaused state"
    and "A k = (MOD_SUPPLY_CAP (rt_modules R), ModuleCell (SupplyCapModule w m state_key max_supply tracked b))"
    and "rt_create R [ascii ''mod_supply_cap'', m] b (MOD_SUPPLY_CAP (rt_modules R)) = Some k"
    and "tracked + amount \<le> max_supply" and "max_supply \<le> U64_MAX"
  shows "created R state_key state [(k, True), (MOD_SUPPLY_CAP (rt_modules R), False)] amount tb tc A =
    Inr (put k (ModuleCell (SupplyCapModule w m state_key max_supply (tracked + amount) b)) A)"
proof -
  obtain x where "find_remaining [(k, True), (MOD_SUPPLY_CAP (rt_modules R), False)] (MOD_SUPPLY_CAP (rt_modules R)) = Some x"
    using only_module(3) by blast
  then show ?thesis
    using assms only_module(1,2) [of k]
    by (simp add: created_def created_step_def hook_simps call_module_def supply_cap_created_def
        mutate_supply_cap_def with_module_authority_def overflow_or_def checked_add_def)
qed

text \<open>
  C35. The hook \<open>destroyed\<close> asks for no authority: for a token with a supply-cap
  module bound to its compliance state, a call with any amount up to the tracked supply lowers
  it by that amount, though no token is burned.
\<close>

lemma destroyed_needs_no_authority:
  assumes "cs_modules state = [k]"
    and "A k = (MOD_SUPPLY_CAP (rt_modules R), ModuleCell (SupplyCapModule w m state_key max_supply tracked b))"
    and "rt_create R [ascii ''mod_supply_cap'', m] b (MOD_SUPPLY_CAP (rt_modules R)) = Some k"
    and "amount \<le> tracked"
  shows "destroyed R state_key state [(k, True), (MOD_SUPPLY_CAP (rt_modules R), False)] amount fb fc A =
    Inr (put k (ModuleCell (SupplyCapModule w m state_key max_supply (tracked - amount) b)) A)"
proof -
  let ?P = "MOD_SUPPLY_CAP (rt_modules R)"
  obtain x where "find_remaining [(k, True), (?P, False)] ?P = Some x" using only_module(3) by blast
  then show ?thesis
    using assms only_module(1,2) [of k] by (simp add: destroyed_def destroyed_step_def hook_simps call_module_def supply_cap_destroyed_def
        mutate_supply_cap_def with_module_authority_def overflow_or_def checked_sub_def)
qed

section \<open>Witnesses\<close>

definition chain_key_of :: "int \<Rightarrow> pubkey" where
  "chain_key_of n = replicate 32 (word_of_int n)"

definition demo_modules :: module_ids where
  "demo_modules = \<lparr> MOD_MAX_INVESTORS = chain_key_of 31, MOD_COUNTRY_RESTRICT = chain_key_of 32,
     MOD_MAX_BALANCE = chain_key_of 33, MOD_MAX_TRANSFER = chain_key_of 34, MOD_LOCKUP = chain_key_of 35,
     MOD_DAILY_LIMIT = chain_key_of 36, MOD_SUPPLY_CAP = chain_key_of 37, MOD_COUNTRY_CAP = chain_key_of 38 \<rparr>"

definition demo_runtime :: runtime where
  "demo_runtime = \<lparr> rt_now = 100, rt_find = (\<lambda>seeds p. Some (chain_key_of 3)),
     rt_create = (\<lambda>seeds b p. Some (if p = chain_key_of 37 then chain_key_of 1 else chain_key_of 2)),
     rt_modules = demo_modules, rt_foreign = (\<lambda>p A. Inl (RuntimeError ''unknown program'')) \<rparr>"

definition no_accounts :: accounts where
  "no_accounts = (\<lambda>k. (chain_key_of 0, OtherCell))"

text \<open>Key 5 owns the modules of mint 6; key 4 is its compliance state.\<close>

definition demo_supply :: "pubkey \<Rightarrow> int \<Rightarrow> accounts" where
  "demo_supply h n = no_accounts(chain_key_of 1 :=
     (chain_key_of 37, ModuleCell (SupplyCapModule (chain_key_of 5) (chain_key_of 6) h 100 n 255)))"

definition demo_state :: "int \<Rightarrow> compliance_state_account" where
  "demo_state n = \<lparr> cs_owner = chain_key_of 5, cs_tokenMint = chain_key_of 6, cs_modules = [chain_key_of n],
     cs_modulesPaused = False, cs_bump = 254 \<rparr>"

lemma demo_confined: "foreign_confined demo_runtime"
  by (simp add: foreign_confined_def demo_runtime_def)

lemma demo_steps: "(compliance_step demo_runtime)\<^sup>*\<^sup>* no_accounts (demo_supply (chain_key_of 4) 30)"
proof -
  have "compliance_step demo_runtime no_accounts (demo_supply (chain_key_of 5) 0)"
    unfolding demo_supply_def
    by (rule step_instruction, rule step_init [where owner = "chain_key_of 5" and m = "chain_key_of 6" and b = 255 and params = "SupplyCapParams 100"])
      (simp_all add: no_accounts_def module_programs_def demo_runtime_def demo_modules_def U64_MAX_def Let_def)
  moreover have "compliance_step demo_runtime (demo_supply (chain_key_of 5) 0) (demo_supply (chain_key_of 4) 0)"
    by (rule step_instruction, rule step_hook [where signer = "chain_key_of 5" and h = "chain_key_of 4" and k = "chain_key_of 1"])
      (simp add: set_hook_authority_def demo_supply_def put_def)
  moreover have "compliance_step demo_runtime (demo_supply (chain_key_of 4) 0) (demo_supply (chain_key_of 4) 30)"
  proof (rule step_instruction, rule step_created [where amount = 30 and state = "demo_state 1" and state_key = "chain_key_of 4"
        and remaining = "[(chain_key_of 1, True), (chain_key_of 37, False)]" and tb = 30 and tc = 586])
    show "created demo_runtime (chain_key_of 4) (demo_state 1) [(chain_key_of 1, True), (chain_key_of 37, False)]
        30 30 586 (demo_supply (chain_key_of 4) 0) = Inr (demo_supply (chain_key_of 4) 30)"
      using supply_hooks [of "demo_state 1" "chain_key_of 1" "demo_supply (chain_key_of 4) 0" demo_runtime
          "chain_key_of 5" "chain_key_of 6" "chain_key_of 4" 100 0 255 30 30 586]
      by (simp add: demo_state_def demo_supply_def demo_runtime_def demo_modules_def U64_MAX_def put_def)
  qed (simp add: U64_MAX_def)
  ultimately show ?thesis
    by (blast intro: rtranclp.rtrancl_into_rtrancl rtranclp.rtrancl_refl)
qed

theorem tracked_supply_within_cap_witness:
  "\<exists>n v. snd (demo_supply (chain_key_of 4) 30 (chain_key_of 1)) =
      ModuleCell (SupplyCapModule (chain_key_of 5) (chain_key_of 6) (chain_key_of 4) v n 255) \<and> 0 < n \<and> n \<le> v"
proof -
  have "fst (demo_supply (chain_key_of 4) 30 (chain_key_of 1)) \<in> module_programs demo_runtime"
    "snd (demo_supply (chain_key_of 4) 30 (chain_key_of 1)) =
      ModuleCell (SupplyCapModule (chain_key_of 5) (chain_key_of 6) (chain_key_of 4) 100 30 255)"
    by (simp_all add: demo_supply_def module_programs_def demo_runtime_def demo_modules_def Let_def)
  moreover have "\<forall>k. snd (no_accounts k) = OtherCell" by (simp add: no_accounts_def)
  ultimately show ?thesis using tracked_supply_within_cap [OF demo_confined demo_steps] by fastforce
qed

theorem evaluations_agree_witness:
  "evaluate_compliance demo_runtime (demo_supply (chain_key_of 4) 30) (chain_key_of 4) (chain_key_of 6)
     (chain_key_of 4) (demo_state 1) [(chain_key_of 1, True)] (chain_key_of 8) 5 7 586 586 = Inr ()"
proof -
  have "can_transfer demo_runtime (demo_supply (chain_key_of 4) 30) (demo_state 1) [(chain_key_of 1, True)]
      (chain_key_of 8) 5 7 586 586 = Inr True" by code_simp
  moreover have "chain_key_of 8 \<noteq> DEFAULT_KEY" "(7 :: int) \<le> U64_MAX - 5" "cs_tokenMint (demo_state 1) = chain_key_of 6"
    by code_simp+
  ultimately show ?thesis using evaluations_agree [of "chain_key_of 8" 7 5 "chain_key_of 4" "chain_key_of 4"] by simp
qed

lemma destroyed_needs_no_authority_witness:
  "destroyed demo_runtime (chain_key_of 4) (demo_state 1) [(chain_key_of 1, True), (chain_key_of 37, False)] 30 0 586
     (demo_supply (chain_key_of 4) 30) =
   Inr (put (chain_key_of 1) (ModuleCell (SupplyCapModule (chain_key_of 5) (chain_key_of 6) (chain_key_of 4) 100 0 255))
     (demo_supply (chain_key_of 4) 30))"
proof -
  have "cs_modules (demo_state 1) = [chain_key_of 1]" by (simp add: demo_state_def)
  moreover have "demo_supply (chain_key_of 4) 30 (chain_key_of 1) = (MOD_SUPPLY_CAP (rt_modules demo_runtime),
      ModuleCell (SupplyCapModule (chain_key_of 5) (chain_key_of 6) (chain_key_of 4) 100 30 255))"
    "rt_create demo_runtime [ascii ''mod_supply_cap'', chain_key_of 6] 255 (MOD_SUPPLY_CAP (rt_modules demo_runtime))
      = Some (chain_key_of 1)"
    by (simp_all add: demo_supply_def demo_runtime_def demo_modules_def)
  ultimately show ?thesis
    using destroyed_needs_no_authority [of "demo_state 1" "chain_key_of 1" "demo_supply (chain_key_of 4) 30" demo_runtime _ _ _ _ 30 _ 30]
    by (simp add: demo_runtime_def demo_modules_def)
qed

text \<open>One investor of country 586, counted by the module at key 2.\<close>

definition demo_counts :: accounts where
  "demo_counts = no_accounts(
     chain_key_of 2 := (chain_key_of 38, ModuleCell (InvestorCountryCapModule (chain_key_of 5) (chain_key_of 6)
       (chain_key_of 4) [(586, 10)] 255)),
     chain_key_of 3 := (chain_key_of 38, CountCell \<lparr> cc_module = chain_key_of 2, cc_country = 586,
       cc_count = 2, cc_bump = 255 \<rparr>))"

definition demo_count_accounts :: remaining where
  "demo_count_accounts = [(chain_key_of 2, True), (chain_key_of 38, False), (chain_key_of 3, True)]"

theorem same_country_exit_is_not_counted_witness:
  "\<exists>A'. transferred demo_runtime (chain_key_of 4) (demo_state 2) demo_count_accounts (chain_key_of 8) 5 0 12 586 586
       demo_counts = Inr A' \<and> A' = demo_counts"
proof -
  have "case transferred demo_runtime (chain_key_of 4) (demo_state 2) demo_count_accounts (chain_key_of 8) 5 0 12 586 586
       demo_counts of Inl _ \<Rightarrow> False | Inr _ \<Rightarrow> True" by code_simp
  then obtain A' where A': "transferred demo_runtime (chain_key_of 4) (demo_state 2) demo_count_accounts (chain_key_of 8)
       5 0 12 586 586 demo_counts = Inr A'" by (auto split: sum.splits)
  have "cs_modules (demo_state 2) = [chain_key_of 2]" by (simp add: demo_state_def)
  moreover have "snd (demo_counts (chain_key_of 2)) = ModuleCell (InvestorCountryCapModule (chain_key_of 5)
       (chain_key_of 6) (chain_key_of 4) [(586, 10)] 255)"
    "fst (demo_counts (chain_key_of 2)) = MOD_COUNTRY_CAP (rt_modules demo_runtime)" by code_simp+
  ultimately show ?thesis
    using same_country_exit_is_not_counted [OF _ _ _ _ _ A'] A' by simp
qed

end
