(* ===== verification/TokenClaimProperties.thy ===== *)
theory TokenClaimProperties
  imports TokenClaims
begin

text \<open>
  Correctness of the verification before a mint: the readers read what the programs write, and a
  validation that returns accepts the recipient exactly when every required topic has a valid claim
  among those the node lists, whose accounts it then passes on.
\<close>

section \<open>The readers read what the programs write\<close>

lemma parses_skip:
  assumes "parses (k ()) bs r" and "length (borsh_val v) = n"
  shows "parses (next_field (skip n) k) (borsh_val v @ bs) r"
  unfolding parses_def
proof (intro allI)
  fix pre post
  have "k () ((pre @ borsh_val v) @ bs @ post) (length (pre @ borsh_val v)) = Inr r"
    using assms(1) unfolding parses_def by blast
  then show "next_field (skip n) k (pre @ (borsh_val v @ bs) @ post) (length pre) = Inr r"
    using assms(2) by (simp add: next_field_def skip_def)
qed

text \<open>A reader that stops before the last fields of a layout.\<close>

lemma parses_short: "parses (finish x) bs x"
  by (simp add: parses_finish)

lemmas short_rules = parses_short pubkey.block.parses_next u8.block.parses_next
  u16.block.parses_next u32.block.parses_next u64.block.parses_next i64.block.parses_next
  flag.block.parses_next

lemma parses_skip_next:
  assumes "parses (k ()) (borsh vs) r" and "length (borsh_val v) = n"
  shows "parses (next_field (skip n) k) (borsh (v # vs)) r"
  using parses_skip [of k "borsh vs" r v n] assms by simp

definition claim_view :: "claim_account_data \<Rightarrow> parsed_claim" where
  "claim_view a = \<lparr> pc_fid = cl_fid a, pc_claimId = cl_claimId a, pc_topic = cl_topic a,
     pc_issuerFid = cl_issuerFid a, pc_signerKey = cl_signerKey a, pc_revoked = cl_revoked a,
     pc_expiresAt = cl_expiresAt a \<rparr>"

lemma length_key: "key_ok C k \<Longrightarrow> length k = 32"
  by (simp add: key_ok_def)

lemma claim_layout_length:
  "list_all (bval_ok C) (claim_account_layout a) \<Longrightarrow> length (borsh (claim_account_layout a)) = 222"
  by (auto simp: claim_account_layout_def dest!: length_key)

lemma subarray_prefix [simp]: "subarray (pre @ post) 0 (length pre) = pre"
  by (simp add: subarray_def)

lemma parseClaimAccount_layout:
  assumes "list_all (bval_ok C) (claim_account_layout a)"
  shows "parseClaimAccount C (CLAIM_ACCOUNT_DISCRIMINATOR @ borsh (claim_account_layout a) @ pad)
    = Inr (Some (claim_view a))"
proof -
  have d: "length CLAIM_ACCOUNT_DISCRIMINATOR = 8"
    by (simp add: CLAIM_ACCOUNT_DISCRIMINATOR_def byte_list_def)
  have "claim_fields C (CLAIM_ACCOUNT_DISCRIMINATOR @ borsh (claim_account_layout a) @ pad) 8
      = Inr (claim_view a)"
    unfolding claim_fields_def
    by (rule parses_run [OF _ d], unfold claim_account_layout_def claim_view_def,
        intro short_rules parses_skip_next)
      (use assms in \<open>simp_all add: claim_account_layout_def length_key\<close>)
  then show ?thesis
    using claim_layout_length [OF assms] d subarray_prefix [of CLAIM_ACCOUNT_DISCRIMINATOR]
    by (simp add: parseClaimAccount_def some_res_def del: subarray_prefix)
qed

definition wallet_identity_view :: "wallet_identity_onchain \<Rightarrow> wallet_identity_data" where
  "wallet_identity_view a = \<lparr> wd_wallet = oc_wi_wallet a, wd_fid = oc_wi_fid a,
     wd_country = oc_wi_country a, wd_irs = oc_wi_irs a, wd_isActive = oc_wi_is_active a \<rparr>"

lemma parseWalletIdentity_layout:
  assumes "list_all (bval_ok C) (wallet_identity_layout a)" and d: "length disc = 8"
  shows "parseWalletIdentityAccount C (disc @ borsh (wallet_identity_layout a) @ pad)
    = Inr (Some (wallet_identity_view a))"
proof -
  have "wallet_identity_fields C (disc @ borsh (wallet_identity_layout a) @ pad) 8
      = Inr (wallet_identity_view a)"
    unfolding wallet_identity_fields_def
    by (rule parses_run [OF _ d], unfold wallet_identity_layout_def wallet_identity_view_def,
        intro short_rules)
      (use assms in \<open>simp_all add: wallet_identity_layout_def\<close>)
  moreover have "length (borsh (wallet_identity_layout a)) \<ge> 99"
    using assms(1) by (auto simp: wallet_identity_layout_def dest!: length_key)
  ultimately show ?thesis using d by (simp add: parseWalletIdentityAccount_def some_res_def)
qed

lemma topic_loop_reads:
  assumes "list_all (fits 8) ts"
  shows "ctr_topic_loop (length ts) (pre @ concat (map (le_bytes 8) ts) @ post) (length pre) = Inr ts"
  using assms
proof (induction ts arbitrary: pre)
  case (Cons t ts)
  have "readU64 (pre @ le_bytes 8 t @ concat (map (le_bytes 8) ts) @ post) (length pre) = Inr t"
    using u64.field_reads [of undefined t pre] Cons.prems by simp
  moreover have "ctr_topic_loop (length ts)
      (pre @ le_bytes 8 t @ concat (map (le_bytes 8) ts) @ post) (length pre + 8) = Inr ts"
    using Cons.IH [of "pre @ le_bytes 8 t"] Cons.prems by simp
  ultimately show ?case by simp
qed simp

lemma issuer_loop_reads:
  assumes "list_all (fits 8) ts"
  shows "issuer_topic_loop (length ts) topic (pre @ concat (map (le_bytes 8) ts) @ post) (length pre) h
    = Inr (Some (h \<or> topic \<in> set ts, length pre + 8 * length ts))"
  using assms
proof (induction ts arbitrary: pre h)
  case (Cons t ts)
  have "readU64 (pre @ le_bytes 8 t @ concat (map (le_bytes 8) ts) @ post) (length pre) = Inr t"
    using u64.field_reads [of undefined t pre] Cons.prems by simp
  moreover have "issuer_topic_loop (length ts) topic
      (pre @ le_bytes 8 t @ concat (map (le_bytes 8) ts) @ post) (length pre + 8) h'
    = Inr (Some (h' \<or> topic \<in> set ts, length pre + 8 + 8 * length ts))" for h'
    using Cons.IH [of "pre @ le_bytes 8 t" h'] Cons.prems by simp
  ultimately show ?case by simp
qed simp

lemma concat_le_length: "length (concat (map (le_bytes n) vs)) = n * length vs"
  by (induction vs) simp_all

lemma parseCtrTopics_layout:
  assumes "list_all (bval_ok C) (claim_topics_state_layout a)" and d: "length disc = 8"
  shows "parseCtrTopics (disc @ borsh (claim_topics_state_layout a) @ pad) = Inr (ctr_topics a)"
proof -
  let ?n = "int (length (ctr_topics a))"
  let ?pre = "disc @ ctr_owner a @ ctr_tokenMint a"
  let ?data = "disc @ borsh (claim_topics_state_layout a) @ pad"
  have l: "length (ctr_owner a) = 32" "length (ctr_tokenMint a) = 32" "list_all (fits 8) (ctr_topics a)" "fits 4 ?n"
    using assms(1) by (auto simp: claim_topics_state_layout_def vec_u64_ok_def dest!: length_key)
  have e: "?data = ?pre @ le_bytes 4 ?n @ concat (map (le_bytes 8) (ctr_topics a)) @ le_bytes 1 (ctr_bump a) @ pad"
    by (simp add: claim_topics_state_layout_def borsh_vec_u64_def)
  have r: "readU32 ?data 72 = Inr ?n"
    using readU32_prefix [OF l(4), of ?pre] l d unfolding e by simp
  have t: "ctr_topic_loop (nat ?n) ?data 76 = Inr (ctr_topics a)"
    using topic_loop_reads [OF l(3), of "?pre @ le_bytes 4 ?n" "le_bytes 1 (ctr_bump a) @ pad"] l d
    unfolding e by simp
  have "length ?data \<ge> 76" using l d unfolding e by (simp add: concat_le_length)
  with r t show ?thesis by (simp add: parseCtrTopics_def)
qed

lemma issuerEntryForTopic_layout:
  assumes "list_all (bval_ok C) (issuer_entry_layout a)" and d: "length disc = 8"
  shows "parseIssuerEntryForTopic (disc @ borsh (issuer_entry_layout a) @ pad) topic
    = Inr (ie_isActive a \<and> topic \<in> set (ie_allowedTopics a))"
proof -
  let ?n = "int (length (ie_allowedTopics a))"
  let ?pre = "disc @ ie_issuerFid a @ ie_tir a"
  let ?tail = "[if ie_isActive a then 1 else 0] @ borsh_string (ie_label a) @ le_bytes 1 (ie_bump a) @ pad"
  let ?data = "disc @ borsh (issuer_entry_layout a) @ pad"
  let ?ts = "concat (map (le_bytes 8) (ie_allowedTopics a))"
  have l: "length (ie_issuerFid a) = 32" "length (ie_tir a) = 32" "list_all (fits 8) (ie_allowedTopics a)" "fits 4 ?n"
    using assms(1) by (auto simp: issuer_entry_layout_def vec_u64_ok_def dest!: length_key)
  have e: "?data = ?pre @ le_bytes 4 ?n @ ?ts @ ?tail"
    by (simp add: issuer_entry_layout_def borsh_vec_u64_def)
  have r: "readU32 ?data 72 = Inr ?n"
    using readU32_prefix [OF l(4), of ?pre] l d unfolding e by simp
  have t: "issuer_topic_loop (nat ?n) topic ?data 76 False
      = Inr (Some (topic \<in> set (ie_allowedTopics a), 76 + 8 * length (ie_allowedTopics a)))"
    using issuer_loop_reads [OF l(3), of topic "?pre @ le_bytes 4 ?n" ?tail False] l d
    unfolding e by simp
  have f: "readU8 ?data (76 + 8 * length (ie_allowedTopics a)) = Inr (if ie_isActive a then 1 else 0)"
  proof -
    have "read_uint 1 ((?pre @ le_bytes 4 ?n @ ?ts) @ [if ie_isActive a then 1 else 0] @
        (borsh_string (ie_label a) @ le_bytes 1 (ie_bump a) @ pad)) (length (?pre @ le_bytes 4 ?n @ ?ts))
      = Inr (le_val [if ie_isActive a then 1 else 0])" by (rule read_uint_at) simp
    then show ?thesis using l d unfolding e by (simp add: concat_le_length readU8_def split: if_splits)
  qed
  have "length ?data \<ge> 77 + 8 * length (ie_allowedTopics a)" using l d unfolding e by (simp add: concat_le_length)
  with r t f show ?thesis by (simp add: parseIssuerEntryForTopic_def Let_def)
qed

lemma parseFid_layout:
  assumes "list_all (bval_ok C) (fid_account_layout a)" and d: "length disc = 8"
  shows "parseFidIsIssuerAndSigner C (disc @ borsh (fid_account_layout a) @ pad) k
    = Inr (fid_isIssuer a \<and> fid_signerKey a = k)"
proof -
  let ?data = "disc @ borsh (fid_account_layout a) @ pad"
  have l: "length (fid_owner a) = 32" "length (fid_managementKey a) = 32" "key_ok C (fid_signerKey a)" "length (fid_signerKey a) = 32"
    using assms(1) by (auto simp: fid_account_layout_def dest: length_key)
  let ?pre = "disc @ fid_owner a @ fid_managementKey a"
  let ?post = "le_bytes 4 (fid_claimCount a) @ [if fid_isIssuer a then 1 else 0] @ le_bytes 2 (fid_country a) @ le_bytes 1 (fid_bump a) @ pad"
  have e: "?data = ?pre @ fid_signerKey a @ ?post"
    by (simp add: fid_account_layout_def)
  have s: "readPubkey C ?data 72 = Inr (fid_signerKey a)"
    using pubkey.field_reads [of C "fid_signerKey a" ?pre ?post] l d unfolding e by simp
  have f: "readFlag ?data 108 = Inr (fid_isIssuer a)"
    using flag.field_reads [of undefined "fid_isIssuer a" "?pre @ fid_signerKey a @ le_bytes 4 (fid_claimCount a)"
        "le_bytes 2 (fid_country a) @ le_bytes 1 (fid_bump a) @ pad"] l d unfolding e by simp
  have "length ?data \<ge> 109" using l d unfolding e by simp
  with s f show ?thesis by (simp add: parseFidIsIssuerAndSigner_def)
qed


section \<open>What an accepted claim is\<close>

text \<open>
  The specification: at a world of the node, a listed claim is valid for a topic of a token when it
  is for that topic, sits at the address of its number, is neither revoked nor expired, and its issuer
  is trusted for the topic by the registry of the token and has the signer of the claim.
\<close>

definition claim_valid ::
    "('w, 'c) client_scheme \<Rightarrow> 'w \<Rightarrow> suite_ids \<Rightarrow> pubkey \<Rightarrow> pubkey \<Rightarrow> int \<Rightarrow> int \<Rightarrow> pubkey \<times> parsed_claim \<Rightarrow> bool" where
  "claim_valid C w ids tirState holderFid now topic listed \<longleftrightarrow>
     (case listed of (claimKey, claim) \<Rightarrow>
       pc_topic claim = topic \<and> \<not> pc_revoked claim \<and> \<not> claim_expired (pc_expiresAt claim) now \<and>
       (\<exists>idBytes bump. claimIdLeBytes (pc_claimId claim) = Inr idBytes \<and>
          find_pda C [ascii ''claim'', holderFid, idBytes] (si_fid ids) = Inr (claimKey, bump)) \<and>
       (\<exists>issuerEntry bump infos entryInfo fidInfo.
          find_pda C [ascii ''issuer_entry'', tirState, pc_issuerFid claim] (si_tir ids) = Inr (issuerEntry, bump) \<and>
          accounts_at C w [issuerEntry, pc_issuerFid claim] = Inr infos \<and>
          info_at infos 0 = Some entryInfo \<and> info_at infos 1 = Some fidInfo \<and>
          parseIssuerEntryForTopic (acc_data entryInfo) topic = Inr True \<and>
          parseFidIsIssuerAndSigner C (acc_data fidInfo) (pc_signerKey claim) = Inr True))"

text \<open>The accounts of an accepted claim: itself, its topic index, the entry and the FID of its issuer.\<close>

definition claim_metas ::
    "('w, 'c) client_scheme \<Rightarrow> suite_ids \<Rightarrow> pubkey \<Rightarrow> pubkey \<Rightarrow> int \<Rightarrow> pubkey \<times> parsed_claim \<Rightarrow> account_meta list \<Rightarrow> bool" where
  "claim_metas C ids tirState holderFid topic listed metas \<longleftrightarrow>
     (\<exists>index issuerEntry b b'.
        find_pda C [ascii ''issuer_entry'', tirState, pc_issuerFid (snd listed)] (si_tir ids) = Inr (issuerEntry, b) \<and>
        find_pda C [ascii ''claim_topic_index'', holderFid, pc_issuerFid (snd listed), u64LeBytes topic]
          (si_fid ids) = Inr (index, b') \<and>
        metas = map read_meta [fst listed, index, issuerEntry, pc_issuerFid (snd listed)])"


lemma check_claim_spec:
  assumes "check_claim C ids tirState holderFid tirOwner now topic c s = (t, Inr (d, v))"
    and "pc_topic (snd c) = topic"
  shows "t = s \<and> cd_topic d = topic \<and> cd_claim d = fst c \<and>
    (case v of
       Accepted metas \<Rightarrow> claim_valid C (world s) ids tirState holderFid now topic c \<and>
         claim_metas C ids tirState holderFid topic c metas
     | Refused m \<Rightarrow> \<not> claim_valid C (world s) ids tirState holderFid now topic c \<and> m \<noteq> []
     | RefusedFirst m \<Rightarrow> \<not> claim_valid C (world s) ids tirState holderFid now topic c \<and> m \<noteq> [])"
proof -
  obtain k cl where c: "c = (k, cl)" by (cases c)
  let ?ex = "claim_expired (pc_expiresAt cl) now"
  note m = assms(1) [unfolded check_claim_def Let_def c fst_conv snd_conv]
  from m obtain idb where idb: "claimIdLeBytes (pc_claimId cl) = Inr idb" by (rule bind_pureE)
  note m = m [unfolded idb bind_pure]
  from m obtain ec b1 where ec: "find_pda C [ascii ''claim'', holderFid, idb] (si_fid ids) = Inr (ec, b1)"
    by (rule bind_pdaE)
  note m = m [unfolded bind_pda [OF ec]]
  from m obtain ie b2 where ie: "find_pda C [ascii ''issuer_entry'', tirState, pc_issuerFid cl] (si_tir ids) = Inr (ie, b2)"
    by (rule bind_pdaE)
  note m = m [unfolded bind_pda [OF ie]]
  from m obtain ix b3 where ix: "find_pda C [ascii ''claim_topic_index'', holderFid, pc_issuerFid cl, u64LeBytes topic] (si_fid ids) = Inr (ix, b3)"
    by (rule bind_pdaE)
  note m = m [unfolded bind_pda [OF ix]]
  from m obtain infos0 where q: "accounts_at C (world s) (map am_pubkey (map read_meta [k, ix, ie, pc_issuerFid cl])) = Inr infos0"
    by (rule bind_askE)
  note m = m [unfolded bind_ask [of "\<lambda>w. accounts_at C w (map am_pubkey (map read_meta [k, ix, ie, pc_issuerFid cl]))", OF q]]
  have valid: "claim_valid C (world s) ids tirState holderFid now topic (k, cl) \<longleftrightarrow>
      k = ec \<and> \<not> pc_revoked cl \<and> \<not> ?ex \<and>
      (\<exists>infos entryInfo fidInfo. accounts_at C (world s) [ie, pc_issuerFid cl] = Inr infos \<and>
          info_at infos 0 = Some entryInfo \<and> info_at infos 1 = Some fidInfo \<and>
          parseIssuerEntryForTopic (acc_data entryInfo) topic = Inr True \<and>
          parseFidIsIssuerAndSigner C (acc_data fidInfo) (pc_signerKey cl) = Inr True)"
    using assms(2) ec ie idb by (auto simp: claim_valid_def c)
  have texts: "topic_text topic @ x \<noteq> []" "untrusted_text C a b y \<noteq> []" for x a b y
    by (simp_all add: topic_text_def untrusted_text_def)
  show ?thesis
  proof (cases "k = ec \<and> \<not> pc_revoked cl \<and> \<not> ?ex")
    case False
    then show ?thesis using m texts unfolding c valid
      by (auto simp: h_return_def split: if_splits)
  next
    case True
    have tm: "pc_topic cl = topic" using assms(2) c by simp
    let ?two = "\<lambda>w. accounts_at C w [ie, pc_issuerFid cl]"
    from True have g: "(k = ec) = True" "(\<not> True) = False" "pc_revoked cl = False" "?ex = False" by simp_all
    note m = m [unfolded g if_False]
    from m obtain infos where inf: "?two (world s) = Inr infos" by (rule bind_askE)
    note m = m [unfolded bind_ask [of ?two, OF inf]]
    show ?thesis
    proof (cases "info_at infos 0 = None \<or> info_at infos 1 = None")
      case none: True
      then have "t = s \<and> cd_topic d = topic \<and> cd_claim d = k \<and> (\<exists>x. v = Refused x \<and> x \<noteq> [])"
        using m texts by (auto simp: h_return_def split: option.splits)
      then show ?thesis using none inf unfolding c valid by auto
    next
      case False
      then obtain ei fi where some: "info_at infos 0 = Some ei" "info_at infos 1 = Some fi" by auto
      note m = m [unfolded some prod.case option.case]
      from m obtain trusted where tr: "parseIssuerEntryForTopic (acc_data ei) (pc_topic cl) = Inr trusted"
        by (rule bind_pureE)
      note m = m [unfolded tr bind_pure]
      show ?thesis
      proof (cases trusted)
        case False
        with m texts inf some tm tr show ?thesis unfolding c valid by (auto simp: h_return_def)
      next
        case tru: True
        have "(\<not> trusted) = False" using tru by simp
        note m = m [unfolded this if_False]
        from m obtain sv where sv: "parseFidIsIssuerAndSigner C (acc_data fi) (pc_signerKey cl) = Inr sv"
          by (rule bind_pureE)
        note m = m [unfolded sv bind_pure]
        have "claim_metas C ids tirState holderFid topic (k, cl) (map read_meta [k, ix, ie, pc_issuerFid cl])"
          unfolding claim_metas_def fst_conv snd_conv using ie ix by blast
        with m texts inf some tm tr tru sv True show ?thesis
          unfolding c valid by (auto simp: h_return_def split: if_splits)
      qed
    qed
  qed
qed

lemma check_claims_spec:
  assumes chk: "\<And>c d v s t. c \<in> set cs \<Longrightarrow> check c s = (t, Inr (d, v)) \<Longrightarrow> t = s \<and>
    (case v of Accepted metas \<Rightarrow> V c (world s) \<and> M c metas
     | Refused m \<Rightarrow> \<not> V c (world s) \<and> m \<noteq> [] | RefusedFirst m \<Rightarrow> \<not> V c (world s) \<and> m \<noteq> [])"
    and "check_claims check f cs s = (t, Inr (ds, r))"
  shows "t = s \<and> (case r of Inl reason \<Rightarrow> (\<forall>c \<in> set cs. \<not> V c (world s)) \<and> (cs \<noteq> [] \<longrightarrow> reason \<noteq> [])
    | Inr metas \<Rightarrow> \<exists>c \<in> set cs. V c (world s) \<and> M c metas)"
  using assms
proof (induction cs arbitrary: f s t ds r)
  case Nil
  then show ?case by (auto simp: h_return_def)
next
  case (Cons c cs)
  from Cons.prems(2) obtain s1 d v where c: "check c s = (s1, Inr (d, v))"
    and k: "(case v of
         Accepted metas \<Rightarrow> h_return ([d], Inr metas)
       | Refused reason \<Rightarrow>
           h_bind (check_claims check reason cs) (\<lambda>(ds, r). h_return (d # ds, r))
       | RefusedFirst reason \<Rightarrow>
           h_bind (check_claims check (if f = [] then reason else f) cs)
             (\<lambda>(ds, r). h_return (d # ds, r))) s1 = (t, Inr (ds, r))"
    by (auto elim!: h_bind_InrE)
  from Cons.prems(1) [OF _ c] have s1: "s1 = s" by simp
  note rest = Cons.prems(1) [OF list.set_intros(2)]
  show ?case
  proof (cases v)
    case (Accepted metas)
    with k Cons.prems(1) [OF _ c] s1 show ?thesis by (auto simp: h_return_def)
  next
    case (Refused m)
    from k [unfolded Refused claim_verdict.case s1] obtain s2 ds' where
      r: "check_claims check m cs s = (s2, Inr (ds', r))" and t: "t = s2"
      by (auto elim!: h_bind_InrE simp: h_return_def)
    have "t = s \<and> (case r of Inl reason \<Rightarrow> (\<forall>c \<in> set cs. \<not> V c (world s)) \<and> (cs \<noteq> [] \<longrightarrow> reason \<noteq> [])
      | Inr metas \<Rightarrow> \<exists>c \<in> set cs. V c (world s) \<and> M c metas)"
      unfolding t by (rule Cons.IH [OF rest r])
    moreover have "\<not> V c (world s)" "m \<noteq> []" using Cons.prems(1) [OF _ c] Refused by auto
    moreover have "cs = [] \<Longrightarrow> r = Inl m" using r by (simp add: h_return_def)
    ultimately show ?thesis by (cases r) auto
  next
    case (RefusedFirst m)
    let ?f = "if f = [] then m else f"
    from k [unfolded RefusedFirst claim_verdict.case s1] obtain s2 ds' where
      r: "check_claims check ?f cs s = (s2, Inr (ds', r))" and t: "t = s2"
      by (auto elim!: h_bind_InrE simp: h_return_def)
    have "t = s \<and> (case r of Inl reason \<Rightarrow> (\<forall>c \<in> set cs. \<not> V c (world s)) \<and> (cs \<noteq> [] \<longrightarrow> reason \<noteq> [])
      | Inr metas \<Rightarrow> \<exists>c \<in> set cs. V c (world s) \<and> M c metas)"
      unfolding t by (rule Cons.IH [OF rest r])
    moreover have "\<not> V c (world s)" "?f \<noteq> []" using Cons.prems(1) [OF _ c] RefusedFirst by auto
    moreover have "cs = [] \<Longrightarrow> r = Inl ?f" using r by (simp add: h_return_def)
    ultimately show ?thesis by (cases r) auto
  qed
qed

lemma push_metas:
  "am_pubkey ` set (foldl push_meta ms xs) = am_pubkey ` set ms \<union> am_pubkey ` set xs"
  "set ms \<subseteq> set (foldl push_meta ms xs)"
  "distinct (map am_pubkey ms) \<Longrightarrow> distinct (map am_pubkey (foldl push_meta ms xs))"
proof -
  have one: "am_pubkey ` set (push_meta ms x) = insert (am_pubkey x) (am_pubkey ` set ms)"
    "set ms \<subseteq> set (push_meta ms x)"
    "distinct (map am_pubkey ms) \<Longrightarrow> distinct (map am_pubkey (push_meta ms x))" for ms x
    by (auto simp: push_meta_def)
  show "am_pubkey ` set (foldl push_meta ms xs) = am_pubkey ` set ms \<union> am_pubkey ` set xs"
    by (induction xs arbitrary: ms) (auto simp: one)
  show "set ms \<subseteq> set (foldl push_meta ms xs)"
    by (induction xs arbitrary: ms) (use one(2) in \<open>auto, blast\<close>)
  show "distinct (map am_pubkey ms) \<Longrightarrow> distinct (map am_pubkey (foldl push_meta ms xs))"
    by (induction xs arbitrary: ms) (use one(3) in \<open>auto simp del: distinct_map\<close>)
qed

lemma check_topics_spec:
  assumes chk: "\<And>topic c d v s t. pc_topic (snd c) = topic \<Longrightarrow> check topic c s = (t, Inr (d, v)) \<Longrightarrow> t = s \<and>
    (case v of Accepted metas \<Rightarrow> V topic c (world s) \<and> M topic c metas
     | Refused m \<Rightarrow> \<not> V topic c (world s) \<and> m \<noteq> []
     | RefusedFirst m \<Rightarrow> \<not> V topic c (world s) \<and> m \<noteq> [])"
    and top: "\<And>topic c w. V topic c w \<Longrightarrow> pc_topic (snd c) = topic"
    and "check_topics check claims required checked metas topics s = (t, Inr v)"
  shows "t = s \<and> set metas \<subseteq> set (cv_remainingAccounts v) \<and> cv_reason v \<noteq> Some [] \<and>
    (cv_reason v = None \<longleftrightarrow> (\<forall>topic \<in> set topics. \<exists>c \<in> set claims. V topic c (world s))) \<and>
    (cv_reason v = None \<longrightarrow> (\<forall>topic \<in> set topics. \<exists>c \<in> set claims. \<exists>ms. V topic c (world s) \<and>
       M topic c ms \<and> am_pubkey ` set ms \<subseteq> am_pubkey ` set (cv_remainingAccounts v)))"
  using assms(3)
proof (induction topics arbitrary: checked metas)
  case Nil
  then show ?case by (auto simp: h_return_def)
next
  case (Cons topic topics)
  let ?tc = "filter (\<lambda>c. pc_topic (snd c) = topic) claims"
  show ?case
  proof (cases "?tc = []")
    case True
    then have "\<not> (\<exists>c \<in> set claims. V topic c (world s))" using top by (auto simp: filter_empty_conv)
    with Cons.prems True show ?thesis by (auto simp: h_return_def)
  next
    case False
    from Cons.prems [unfolded check_topics.simps Let_def] False obtain s1 ds r where
      c: "check_claims (check topic) [] ?tc s = (s1, Inr (ds, r))" and
      k: "(case r of
               Inl failureReason \<Rightarrow>
                 h_return \<lparr> cv_reason = Some (if failureReason = []
                     then ''Investor has no valid claim for required topic '' @ bigint_toString topic @ ''.''
                     else failureReason),
                   cv_requiredTopics = required, cv_checkedClaims = checked @ ds,
                   cv_remainingAccounts = metas \<rparr>
             | Inr accountMetas \<Rightarrow>
                 check_topics check claims required (checked @ ds)
                   (foldl push_meta metas accountMetas) topics) s1 = (t, Inr v)"
      by (auto elim!: h_bind_InrE)
    have "s1 = s \<and> (case r of Inl reason \<Rightarrow> (\<forall>c \<in> set ?tc. \<not> V topic c (world s)) \<and> (?tc \<noteq> [] \<longrightarrow> reason \<noteq> [])
      | Inr metas \<Rightarrow> \<exists>c \<in> set ?tc. V topic c (world s) \<and> M topic c metas)"
      by (rule check_claims_spec [OF _ c]) (use chk in auto)
    then have s1: "s1 = s" and r: "case r of Inl reason \<Rightarrow> (\<forall>c \<in> set ?tc. \<not> V topic c (world s)) \<and> (?tc \<noteq> [] \<longrightarrow> reason \<noteq> [])
      | Inr metas \<Rightarrow> \<exists>c \<in> set ?tc. V topic c (world s) \<and> M topic c metas" by simp_all
    show ?thesis
    proof (cases r)
      case (Inl reason)
      with r have "\<forall>c \<in> set ?tc. \<not> V topic c (world s)" by simp
      then have "\<not> (\<exists>c \<in> set claims. V topic c (world s))" unfolding set_filter using top [of topic] by blast
      with k Inl r False s1 show ?thesis by (auto simp: h_return_def)
    next
      case (Inr ms)
      from k [unfolded Inr sum.case s1] have rest: "check_topics check claims required (checked @ ds) (foldl push_meta metas ms) topics s = (t, Inr v)" .
      note ih = Cons.IH [OF rest]
      from r Inr obtain c where vc: "c \<in> set claims" "V topic c (world s)" "M topic c ms" by auto
      note in_v = ih [THEN conjunct2, THEN conjunct1]
      have "am_pubkey ` set ms \<subseteq> am_pubkey ` set (foldl push_meta metas ms)" by (simp add: push_metas(1))
      then have sub: "am_pubkey ` set ms \<subseteq> am_pubkey ` set (cv_remainingAccounts v)"
        by (rule order_trans) (rule image_mono [OF in_v])
      have sub2: "set metas \<subseteq> set (cv_remainingAccounts v)" using push_metas(2) in_v by (rule order_trans)
      have ex: "\<exists>c \<in> set claims. \<exists>ms. V topic c (world s) \<and> M topic c ms \<and>
          am_pubkey ` set ms \<subseteq> am_pubkey ` set (cv_remainingAccounts v)" using vc sub by blast
      have a: "\<exists>c \<in> set claims. V topic c (world s)" using vc by blast
      show ?thesis
      proof (intro conjI)
        show "cv_reason v = None \<longleftrightarrow> (\<forall>topic \<in> set (topic # topics). \<exists>c \<in> set claims. V topic c (world s))"
          using ih a by (simp only: list.set ball_simps simp_thms)
        show "cv_reason v = None \<longrightarrow> (\<forall>topic \<in> set (topic # topics). \<exists>c \<in> set claims. \<exists>ms. V topic c (world s) \<and>
            M topic c ms \<and> am_pubkey ` set ms \<subseteq> am_pubkey ` set (cv_remainingAccounts v))"
          using ih [THEN conjunct2, THEN conjunct2, THEN conjunct2, THEN conjunct2] ex
          by (simp only: list.set ball_simps simp_thms)
      qed (use ih sub2 in \<open>simp_all only: simp_thms\<close>)
    qed
  qed
qed

section \<open>Validation\<close>

text \<open>The claims the node lists for the holder at the world.\<close>

definition listed_claims ::
    "('w, 'c) client_scheme \<Rightarrow> 'w \<Rightarrow> suite_ids \<Rightarrow> pubkey \<Rightarrow> (pubkey \<times> parsed_claim) list" where
  "listed_claims C w ids holderFid =
     (case program_accounts_at C w (si_fid ids) [FilterSize CLAIM_ACCOUNT_SIZE, FilterKey 8 holderFid] of
        Inl _ \<Rightarrow> [] | Inr as \<Rightarrow> (case parsed_claims C as of Inl _ \<Rightarrow> [] | Inr cs \<Rightarrow> cs))"

text \<open>The result of a validation that returned, over the specification of a valid claim.\<close>

lemma validate_spec:
  assumes "validateRecipientClaimsForMint C registry s = (t, Inr v)"
    and "rc_walletIdentityData registry = Some identity" and "rc_requiredTopics registry \<noteq> []"
  shows "world t = world s \<and> cv_reason v \<noteq> Some [] \<and>
    (let valid = claim_valid C (world s) (rc_ids registry) (rc_tirState registry) (wd_fid identity)
           (now_ms C (world s) div 1000);
         claims = set (listed_claims C (world s) (rc_ids registry) (wd_fid identity));
         found = (\<exists>a. account_at C (world s) (wd_fid identity) = Inr (Some a))
     in (cv_ok v \<longleftrightarrow> found \<and> (\<forall>topic \<in> set (rc_requiredTopics registry). \<exists>c \<in> claims. valid topic c)) \<and>
        (cv_ok v \<longrightarrow> (\<forall>topic \<in> set (rc_requiredTopics registry). \<exists>c \<in> claims. \<exists>ms. valid topic c \<and>
           claim_metas C (rc_ids registry) (rc_tirState registry) (wd_fid identity) topic c ms \<and>
           am_pubkey ` set ms \<subseteq> am_pubkey ` set (cv_remainingAccounts v))))"
proof -
  let ?holder = "wd_fid identity" and ?ids = "rc_ids registry" and ?tir = "rc_tirState registry"
  let ?now = "now_ms C (world s) div 1000"
  note m = assms(1) [unfolded validateRecipientClaimsForMint_def Let_def assms(2) option.case]
  note m = m [unfolded if_not_P [OF assms(3)]]
  from m obtain fidInfo where f: "account_at C (world s) ?holder = Inr fidInfo" by (rule bind_askE)
  note m = m [unfolded bind_ask [of "\<lambda>w. account_at C w ?holder", OF f]]
  show ?thesis
  proof (cases fidInfo)
    case None
    with m f show ?thesis by (auto simp: h_return_def cv_ok_def Let_def)
  next
    case (Some a)
    have ne: "(fidInfo = None) = False" using Some by simp
    note m = m [unfolded ne if_False]
    from m obtain as where as: "program_accounts_at C (world s) (si_fid ?ids) [FilterSize CLAIM_ACCOUNT_SIZE, FilterKey 8 ?holder] = Inr as"
      by (rule bind_askE)
    note m = m [unfolded bind_ask [of "\<lambda>w. program_accounts_at C w (si_fid ?ids) [FilterSize CLAIM_ACCOUNT_SIZE, FilterKey 8 ?holder]", OF as]]
    note m = m [unfolded seconds_now_def h_bind_assoc bind_now h_bind_return]
    from m obtain cs where cs: "parsed_claims C as = Inr cs" by (rule bind_pureE)
    note m = m [unfolded cs bind_pure]
    have lc: "listed_claims C (world s) ?ids ?holder = cs" using as cs by (simp add: listed_claims_def)
    from m obtain ti where ti: "account_at C (world s) ?tir = Inr ti" by (rule bind_askE)
    note m = m [unfolded bind_ask [of "\<lambda>w. account_at C w ?tir", OF ti]]
    obtain owner where m: "check_topics (check_claim C ?ids ?tir ?holder owner ?now) cs
        (rc_requiredTopics registry) [] [] (rc_requiredTopics registry) s = (t, Inr v)"
    proof (cases ti)
      case None
      then show ?thesis using m that [of "''unknown''"] by simp
    next
      case (Some ta)
      note m = m [unfolded Some option.case h_bind_assoc key_at_def]
      from m obtain k where k: "readPubkey C (acc_data ta) 8 = Inr k" by (rule bind_pureE)
      show ?thesis using m [unfolded k bind_pure h_bind_return] that by blast
    qed
    have found: "\<exists>a. account_at C (world s) ?holder = Inr (Some a)" using f Some by blast
    have "t = s \<and> set [] \<subseteq> set (cv_remainingAccounts v) \<and> cv_reason v \<noteq> Some [] \<and>
      (cv_reason v = None \<longleftrightarrow> (\<forall>topic \<in> set (rc_requiredTopics registry). \<exists>c \<in> set cs.
         claim_valid C (world s) ?ids ?tir ?holder ?now topic c)) \<and>
      (cv_reason v = None \<longrightarrow> (\<forall>topic \<in> set (rc_requiredTopics registry). \<exists>c \<in> set cs. \<exists>ms.
         claim_valid C (world s) ?ids ?tir ?holder ?now topic c \<and>
         claim_metas C ?ids ?tir ?holder topic c ms \<and>
         am_pubkey ` set ms \<subseteq> am_pubkey ` set (cv_remainingAccounts v)))"
    proof (rule check_topics_spec [where V = "\<lambda>topic c w. claim_valid C w ?ids ?tir ?holder ?now topic c"
          and M = "claim_metas C ?ids ?tir ?holder", OF _ _ m])
      fix topic c d v s t
      assume "pc_topic (snd c) = topic" "check_claim C ?ids ?tir ?holder owner ?now topic c s = (t, Inr (d, v))"
      from check_claim_spec [OF this(2,1)]
      show "t = s \<and>
       (case v of Accepted metas \<Rightarrow> claim_valid C (world s) ?ids ?tir ?holder ?now topic c \<and> claim_metas C ?ids ?tir ?holder topic c metas
       | Refused m \<Rightarrow> \<not> claim_valid C (world s) ?ids ?tir ?holder ?now topic c \<and> m \<noteq> []
       | RefusedFirst m \<Rightarrow> \<not> claim_valid C (world s) ?ids ?tir ?holder ?now topic c \<and> m \<noteq> [])" by simp
    next
      fix topic c w assume "claim_valid C w ?ids ?tir ?holder ?now topic c"
      then show "pc_topic (snd c) = topic" by (auto simp: claim_valid_def)
    qed
    then show ?thesis using found lc by (simp add: cv_ok_def Let_def)
  qed
qed

end
