(* ===== verification/ChainVerification.thy ===== *)
theory ChainVerification
  imports TokenClaimProperties
begin

text \<open>
  The verification of claims the token program itself runs on the accounts of an instruction
  (\<open>contracts/programs/fracks-irp/src/utils.rs\<close>), and the refinement between the check of the web
  client and this one: the accounts the client passes on after an accepted validation make the
  verification succeed for every required topic.
\<close>

section \<open>Borsh on the chain\<close>

text \<open>The program reads a field only where the data has it, a flag only from 0 or 1, and a text only
  from valid UTF-8.\<close>

definition borsh_fixed :: "nat \<Rightarrow> bytes parser" where
  "borsh_fixed n data off =
     (if off + n \<le> length data then Inr (subarray data off (off + n))
      else Inl (JsError ''unexpected end of data''))"

definition borsh_flag :: "bool parser" where
  "borsh_flag data off =
     (case readU8 data off of Inl e \<Rightarrow> Inl e
      | Inr v \<Rightarrow> if v = 0 then Inr False else if v = 1 then Inr True
                else Inl (JsError ''invalid bool''))"

definition borsh_text :: "bytes \<Rightarrow> nat \<Rightarrow> (utext \<times> nat) res" where
  "borsh_text data off =
     (case readU32 data off of Inl e \<Rightarrow> Inl e | Inr len \<Rightarrow>
        (case borsh_fixed (nat len) data (off + 4) of Inl e \<Rightarrow> Inl e | Inr bs \<Rightarrow>
           if utf8_encode (utf8_decode bs) = bs then Inr (utf8_decode bs, off + 4 + nat len)
           else Inl (JsError ''invalid UTF-8'')))"

interpretation chain_key: wire_field C BPubkey "borsh_fixed 32" 32 for C
proof
  fix x pre post
  assume "bval_ok C (BPubkey x)"
  then have k: "length x = 32" by (simp add: key_ok_def)
  show "length (borsh_val (BPubkey x)) = 32" using k by simp
  show "borsh_fixed 32 (pre @ borsh_val (BPubkey x) @ post) (length pre) = Inr x"
    using subarray_at [of pre x post] k by (simp add: borsh_fixed_def)
qed

interpretation chain_fixed: wire_field C "BFixed n" "borsh_fixed n" n for C n
proof
  fix x pre post
  assume "bval_ok C (BFixed n x)"
  then show "borsh_fixed n (pre @ borsh_val (BFixed n x) @ post) (length pre) = Inr x"
    using subarray_at [of pre x post] by (simp add: borsh_fixed_def)
qed simp

interpretation chain_flag: wire_field C BBool borsh_flag 1 for C
proof
  fix x :: bool and pre post
  have "read_uint 1 (pre @ [if x then 1 else 0] @ post) (length pre) = Inr (if x then 1 else 0)"
    by (subst read_uint_at) auto
  then show "borsh_flag (pre @ borsh_val (BBool x) @ post) (length pre) = Inr x"
    by (simp add: borsh_flag_def readU8_def)
qed simp

interpretation chain_text: wire_block C BString borsh_text for C
proof
  fix s pre post
  let ?b = "utf8_encode s" and ?h = "le_bytes 4 (int (length (utf8_encode s)))"
  assume "bval_ok C (BString s)"
  then have ok: "list_all scalar s" "fits 4 (int (length ?b))" by (simp_all add: string_ok_def)
  have sub: "subarray ((pre @ ?h) @ ?b @ post) (length (pre @ ?h)) (length (pre @ ?h) + length ?b) = ?b"
    by (rule subarray_at)
  then have "borsh_fixed (length ?b) (pre @ ?h @ ?b @ post) (length pre + 4) = Inr ?b"
    by (simp add: borsh_fixed_def)
  then show "borsh_text (pre @ borsh_val (BString s) @ post) (length pre)
      = Inr (s, length pre + length (borsh_val (BString s)))"
    using readU32_prefix [OF ok(2), of pre "?b @ post"] utf8_decode_encode [OF ok(1)]
    by (simp add: borsh_text_def borsh_string_def)
qed

section \<open>The program\<close>

definition claim_account_view :: "claim_account_data parser" where
  "claim_account_view =
    next_field (sized 32 (borsh_fixed 32)) (\<lambda>fid.
    next_field (sized 4 readU32) (\<lambda>claim_id.
    next_field (sized 8 readU64) (\<lambda>topic.
    next_field (sized 32 (borsh_fixed 32)) (\<lambda>issuer_fid.
    next_field (sized 32 (borsh_fixed 32)) (\<lambda>data_hash.
    next_field (sized 32 (borsh_fixed 32)) (\<lambda>signer_key.
    next_field (sized 64 (borsh_fixed 64)) (\<lambda>signature.
    next_field (sized 8 readI64) (\<lambda>issued_at.
    next_field (sized 8 readI64) (\<lambda>expires_at.
    next_field (sized 1 borsh_flag) (\<lambda>revoked.
    next_field (sized 1 readU8) (\<lambda>bump.
    finish \<lparr> cl_fid = fid, cl_claimId = claim_id, cl_topic = topic, cl_issuerFid = issuer_fid,
      cl_dataHash = data_hash, cl_signerKey = signer_key, cl_signature = signature,
      cl_issuedAt = issued_at, cl_expiresAt = expires_at, cl_revoked = revoked,
      cl_bump = bump \<rparr>)))))))))))"

definition issuer_entry_view :: "issuer_entry_account parser" where
  "issuer_entry_view =
    next_field (sized 32 (borsh_fixed 32)) (\<lambda>issuer_fid.
    next_field (sized 32 (borsh_fixed 32)) (\<lambda>tir.
    next_field readVecU64 (\<lambda>allowed_topics.
    next_field (sized 1 borsh_flag) (\<lambda>is_active.
    next_field borsh_text (\<lambda>label.
    next_field (sized 1 readU8) (\<lambda>bump.
    finish \<lparr> ie_issuerFid = issuer_fid, ie_tir = tir, ie_allowedTopics = allowed_topics,
      ie_isActive = is_active, ie_label = label, ie_bump = bump \<rparr>))))))"

definition ISSUER_ENTRY_DISCRIMINATOR :: bytes where
  "ISSUER_ENTRY_DISCRIMINATOR = byte_list [11, 211, 245, 253, 249, 156, 104, 93]"

definition has_account_discriminator :: "account \<Rightarrow> bytes \<Rightarrow> bool" where
  "has_account_discriminator account discriminator \<longleftrightarrow>
     length (acc_data account) \<ge> 8 \<and> take 8 (acc_data account) = discriminator"

definition deserialize_view :: "'a parser \<Rightarrow> account \<Rightarrow> 'a option" where
  "deserialize_view view account =
     (if length (acc_data account) < 8 then None
      else case view (acc_data account) 8 of Inl _ \<Rightarrow> None | Inr x \<Rightarrow> Some x)"

text \<open>\<open>Pubkey::find_program_address(seeds, program).0\<close> panics where there is no address: \<open>None\<close>.\<close>

definition find_program_address :: "('x) chain_scheme \<Rightarrow> bytes list \<Rightarrow> pubkey \<Rightarrow> pubkey option" where
  "find_program_address C seeds program =
     (case find_pda C seeds program of Inl _ \<Rightarrow> None | Inr (k, _) \<Rightarrow> Some k)"

text \<open>\<open>None\<close> is a panic, \<open>Some None\<close> the error \<open>TrustedIssuerNotFound\<close>.\<close>

fun find_issuer_entry ::
    "('x) chain_scheme \<Rightarrow> pubkey \<Rightarrow> (pubkey \<times> account) list \<Rightarrow> pubkey \<Rightarrow> pubkey \<Rightarrow>
     issuer_entry_account option option" where
  "find_issuer_entry C tirId [] tir_state issuer_fid = Some None"
| "find_issuer_entry C tirId ((key, account) # accounts) tir_state issuer_fid =
     (if acc_owner account \<noteq> tirId \<or> \<not> has_account_discriminator account ISSUER_ENTRY_DISCRIMINATOR
      then find_issuer_entry C tirId accounts tir_state issuer_fid
      else case deserialize_view issuer_entry_view account of
        None \<Rightarrow> find_issuer_entry C tirId accounts tir_state issuer_fid
      | Some e \<Rightarrow>
          (case find_program_address C [ascii ''issuer_entry'', tir_state, issuer_fid] tirId of
             None \<Rightarrow> None
           | Some expected_entry \<Rightarrow>
               if key = expected_entry \<and> ie_tir e = tir_state \<and> ie_issuerFid e = issuer_fid
               then Some (Some e)
               else find_issuer_entry C tirId accounts tir_state issuer_fid))"

text \<open>The loop of \<open>verify_claim_for_topic\<close>; \<open>all\<close> are the remaining accounts, in which it also looks for
  the issuer.\<close>

fun claim_loop ::
    "('x) chain_scheme \<Rightarrow> pubkey \<Rightarrow> pubkey \<Rightarrow> pubkey \<Rightarrow> int \<Rightarrow> pubkey \<Rightarrow> (pubkey \<times> account) list \<Rightarrow> int \<Rightarrow>
     (pubkey \<times> account) list \<Rightarrow> bool option" where
  "claim_loop C fidId tirId holder_fid topic tir_state all now [] = Some False"
| "claim_loop C fidId tirId holder_fid topic tir_state all now ((key, account) # accounts) =
     (let continue = claim_loop C fidId tirId holder_fid topic tir_state all now accounts
      in if acc_owner account \<noteq> fidId \<or> \<not> has_account_discriminator account CLAIM_ACCOUNT_DISCRIMINATOR
         then continue
         else case deserialize_view claim_account_view account of
           None \<Rightarrow> continue
         | Some claim \<Rightarrow>
             (case find_program_address C [ascii ''claim'', cl_fid claim, le_bytes 4 (cl_claimId claim)] fidId of
                None \<Rightarrow> None
              | Some expected_claim \<Rightarrow>
                if key \<noteq> expected_claim then continue
                else if cl_fid claim \<noteq> holder_fid \<or> cl_topic claim \<noteq> topic \<or> cl_revoked claim \<or>
                        (cl_expiresAt claim \<noteq> 0 \<and> cl_expiresAt claim < now) then continue
                else case find_issuer_entry C tirId all tir_state (cl_issuerFid claim) of
                    None \<Rightarrow> None
                  | Some None \<Rightarrow> continue
                  | Some (Some issuer_entry) \<Rightarrow>
                      if \<not> ie_isActive issuer_entry \<or> topic \<notin> set (ie_allowedTopics issuer_entry)
                      then continue
                      else case find_program_address C [ascii ''fid'', cl_signerKey claim] fidId of
                          None \<Rightarrow> None
                        | Some expected_issuer_fid \<Rightarrow>
                            if cl_issuerFid claim = expected_issuer_fid then Some True else continue))"

definition verify_claim_for_topic ::
    "('x) chain_scheme \<Rightarrow> pubkey \<Rightarrow> pubkey \<Rightarrow> pubkey \<Rightarrow> int \<Rightarrow> pubkey \<Rightarrow> (pubkey \<times> account) list \<Rightarrow> int \<Rightarrow>
     bool option" where
  "verify_claim_for_topic C fidId tirId holder_fid topic tir_state remaining_accounts now =
     claim_loop C fidId tirId holder_fid topic tir_state remaining_accounts now remaining_accounts"

section \<open>Node and programs\<close>

text \<open>What the RPC node documents: its answers are those of one state \<open>L\<close> of the accounts, and a
  listing has the accounts of the program that pass the filters.\<close>

definition passes :: "client_filter \<Rightarrow> account \<Rightarrow> bool" where
  "passes f a = (case f of FilterSize n \<Rightarrow> length (acc_data a) = n
     | FilterKey off k \<Rightarrow> take (length k) (drop off (acc_data a)) = k
     | FilterBytes off bs \<Rightarrow> take (length bs) (drop off (acc_data a)) = bs)"

definition node_shows :: "('w, 'c) client_scheme \<Rightarrow> 'w \<Rightarrow> (pubkey \<Rightarrow> account option) \<Rightarrow> bool" where
  "node_shows C w L \<longleftrightarrow>
     (\<forall>k. account_at C w k = Inr (L k)) \<and> (\<forall>ks. accounts_at C w ks = Inr (map L ks)) \<and>
     (\<forall>p fs as k a. program_accounts_at C w p fs = Inr as \<longrightarrow> (k, a) \<in> set as \<longrightarrow>
        L k = Some a \<and> acc_owner a = p \<and> (\<forall>f \<in> set fs. passes f a))"

text \<open>
  What the identity and registry programs keep: a claim account is the record of a claim whose issuer
  is the FID of the key that signed it (\<open>add_claim\<close>), and the data at the address of an issuer entry
  is the record of that entry; the instructions that write them are not modelled.
\<close>

definition programs_wrote ::
    "('x) chain_scheme \<Rightarrow> (pubkey \<Rightarrow> account option) \<Rightarrow> pubkey \<Rightarrow> pubkey \<Rightarrow> bool" where
  "programs_wrote C L fidId tirId \<longleftrightarrow>
     (\<forall>k a. L k = Some a \<longrightarrow> acc_owner a = fidId \<longrightarrow>
        has_account_discriminator a CLAIM_ACCOUNT_DISCRIMINATOR \<longrightarrow>
        (\<exists>c pad b. acc_data a = CLAIM_ACCOUNT_DISCRIMINATOR @ borsh (claim_account_layout c) @ pad \<and>
           list_all (bval_ok C) (claim_account_layout c) \<and>
           find_pda C [ascii ''fid'', cl_signerKey c] fidId = Inr (cl_issuerFid c, b))) \<and>
     (\<forall>k a tir f b. find_pda C [ascii ''issuer_entry'', tir, f] tirId = Inr (k, b) \<longrightarrow> L k = Some a \<longrightarrow>
        acc_data a \<noteq> [] \<longrightarrow>
        acc_owner a = tirId \<and>
        (\<exists>e pad. acc_data a = ISSUER_ENTRY_DISCRIMINATOR @ borsh (issuer_entry_layout e) @ pad \<and>
           list_all (bval_ok C) (issuer_entry_layout e) \<and> ie_tir e = tir \<and> ie_issuerFid e = f))"

text \<open>The accounts of an instruction as the program gets them: an address without an account is an
  empty account of the system program.\<close>

definition instruction_accounts ::
    "pubkey \<Rightarrow> (pubkey \<Rightarrow> account option) \<Rightarrow> account_meta list \<Rightarrow> (pubkey \<times> account) list" where
  "instruction_accounts system L metas =
     map (\<lambda>m. (am_pubkey m, case L (am_pubkey m) of Some a \<Rightarrow> a
        | None \<Rightarrow> \<lparr> acc_owner = system, acc_data = [] \<rparr>)) metas"

text \<open>The library finds an address for seeds of the documented sizes.\<close>

definition finds_addresses :: "('x) chain_scheme \<Rightarrow> bool" where
  "finds_addresses C \<longleftrightarrow> (\<forall>seeds p. length seeds \<le> 16 \<longrightarrow> (\<forall>x \<in> set seeds. length x \<le> 32) \<longrightarrow>
     (\<exists>k b. find_pda C seeds p = Inr (k, b)))"

section \<open>The program reads the layouts\<close>

lemmas chain_rules = parses_finish chain_fixed.block.parses_next
  chain_flag.block.parses_next chain_text.parses_next u8.block.parses_next u32.block.parses_next
  u64.block.parses_next i64.block.parses_next vec_u64.parses_next

lemma disc_length [simp]: "length CLAIM_ACCOUNT_DISCRIMINATOR = 8" "length ISSUER_ENTRY_DISCRIMINATOR = 8"
  by (simp_all add: CLAIM_ACCOUNT_DISCRIMINATOR_def ISSUER_ENTRY_DISCRIMINATOR_def byte_list_def)

lemma deserialize_claim:
  assumes "list_all (bval_ok C) (claim_account_layout c)"
    and "acc_data a = CLAIM_ACCOUNT_DISCRIMINATOR @ borsh (claim_account_layout c) @ pad"
  shows "deserialize_view claim_account_view a = Some c"
proof -
  have "parses claim_account_view (borsh (claim_account_layout c)) \<lparr> cl_fid = cl_fid c,
      cl_claimId = cl_claimId c, cl_topic = cl_topic c, cl_issuerFid = cl_issuerFid c,
      cl_dataHash = cl_dataHash c, cl_signerKey = cl_signerKey c, cl_signature = cl_signature c,
      cl_issuedAt = cl_issuedAt c, cl_expiresAt = cl_expiresAt c, cl_revoked = cl_revoked c,
      cl_bump = cl_bump c \<rparr>"
    unfolding claim_account_view_def claim_account_layout_def
    by (intro chain_rules chain_key.block.parses_next [of C]) (use assms(1) in \<open>simp_all add: claim_account_layout_def\<close>)
  then have "parses claim_account_view (borsh (claim_account_layout c)) c" by (cases c) simp
  from parses_run [OF this disc_length(1)] show ?thesis using assms(2) by (simp add: deserialize_view_def)
qed

lemma deserialize_issuer_entry:
  assumes "list_all (bval_ok C) (issuer_entry_layout e)"
    and "acc_data a = ISSUER_ENTRY_DISCRIMINATOR @ borsh (issuer_entry_layout e) @ pad"
  shows "deserialize_view issuer_entry_view a = Some e"
proof -
  have "parses issuer_entry_view (borsh (issuer_entry_layout e)) \<lparr> ie_issuerFid = ie_issuerFid e,
      ie_tir = ie_tir e, ie_allowedTopics = ie_allowedTopics e, ie_isActive = ie_isActive e,
      ie_label = ie_label e, ie_bump = ie_bump e \<rparr>"
    unfolding issuer_entry_view_def issuer_entry_layout_def
    by (intro chain_rules chain_key.block.parses_next [of C]) (use assms(1) in \<open>simp_all add: issuer_entry_layout_def\<close>)
  then have "parses issuer_entry_view (borsh (issuer_entry_layout e)) e" by (cases e) simp
  from parses_run [OF this disc_length(2)] show ?thesis using assms(2) by (simp add: deserialize_view_def)
qed

section \<open>The loop\<close>

lemma find_issuer_entry_found:
  assumes "find_program_address C [ascii ''issuer_entry'', tir_state, issuer_fid] tirId = Some ek"
    and "\<And>a. (ek, a) \<in> set accounts \<Longrightarrow> a = ea"
    and "acc_owner ea = tirId" "has_account_discriminator ea ISSUER_ENTRY_DISCRIMINATOR"
    and "deserialize_view issuer_entry_view ea = Some e" "ie_tir e = tir_state" "ie_issuerFid e = issuer_fid"
  shows "find_issuer_entry C tirId accounts tir_state issuer_fid
    = Some (if ek \<in> fst ` set accounts then Some e else None)"
  using assms(2)
proof (induction accounts)
  case (Cons p accounts)
  obtain key a where p: "p = (key, a)" by (cases p)
  have ih: "find_issuer_entry C tirId accounts tir_state issuer_fid
    = Some (if ek \<in> fst ` set accounts then Some e else None)" by (rule Cons.IH) (simp add: Cons.prems)
  show ?case
  proof (cases "key = ek")
    case True
    then have "a = ea" using Cons.prems p by simp
    then show ?thesis using assms p True by simp
  next
    case False
    then show ?thesis using assms(1) ih by (auto simp: p split: option.split)
  qed
qed simp

lemma find_issuer_entry_answers:
  assumes "find_program_address C [ascii ''issuer_entry'', tir_state, issuer_fid] tirId \<noteq> None"
  shows "find_issuer_entry C tirId accounts tir_state issuer_fid \<noteq> None"
  using assms by (induction accounts) (auto split: option.split)

lemma claim_loop_accepts:
  assumes calm: "\<And>k a. (k, a) \<in> set accounts \<Longrightarrow> acc_owner a = fidId \<Longrightarrow>
      has_account_discriminator a CLAIM_ACCOUNT_DISCRIMINATOR \<Longrightarrow>
      \<exists>c. deserialize_view claim_account_view a = Some c \<and>
        find_program_address C [ascii ''claim'', cl_fid c, le_bytes 4 (cl_claimId c)] fidId \<noteq> None \<and>
        find_issuer_entry C tirId all tir_state (cl_issuerFid c) \<noteq> None \<and>
        find_program_address C [ascii ''fid'', cl_signerKey c] fidId \<noteq> None"
    and there: "(k, a) \<in> set accounts" "acc_owner a = fidId"
      "has_account_discriminator a CLAIM_ACCOUNT_DISCRIMINATOR"
      "deserialize_view claim_account_view a = Some c"
    and "find_program_address C [ascii ''claim'', cl_fid c, le_bytes 4 (cl_claimId c)] fidId = Some k"
      "cl_fid c = holder" "cl_topic c = topic" "\<not> cl_revoked c" "cl_expiresAt c = 0 \<or> now \<le> cl_expiresAt c"
      "find_issuer_entry C tirId all tir_state (cl_issuerFid c) = Some (Some e)" "ie_isActive e"
      "topic \<in> set (ie_allowedTopics e)"
      "find_program_address C [ascii ''fid'', cl_signerKey c] fidId = Some (cl_issuerFid c)"
  shows "claim_loop C fidId tirId holder topic tir_state all now accounts = Some True"
  using calm there(1)
proof (induction accounts)
  case (Cons p accounts)
  obtain k' a' where p: "p = (k', a')" by (cases p)
  show ?case
  proof (cases "p = (k, a)")
    case True
    then show ?thesis using assms(3-) by auto
  next
    case False
    then have m: "(k, a) \<in> set accounts" using Cons.prems(2) by simp
    have ih: "claim_loop C fidId tirId holder topic tir_state all now accounts = Some True"
      by (rule Cons.IH [OF _ m], rule Cons.prems(1), rule list.set_intros(2))
    show ?thesis
    proof (cases "acc_owner a' \<noteq> fidId \<or> \<not> has_account_discriminator a' CLAIM_ACCOUNT_DISCRIMINATOR")
      case True
      then show ?thesis using ih p by simp
    next
      case False
      then obtain c' where "deserialize_view claim_account_view a' = Some c'"
        "find_program_address C [ascii ''claim'', cl_fid c', le_bytes 4 (cl_claimId c')] fidId \<noteq> None"
        "find_issuer_entry C tirId all tir_state (cl_issuerFid c') \<noteq> None"
        "find_program_address C [ascii ''fid'', cl_signerKey c'] fidId \<noteq> None"
        using Cons.prems(1) [of k' a'] p by auto
      then show ?thesis using ih False unfolding p claim_loop.simps Let_def
        by (auto split: option.split)
    qed
  qed
qed simp

section \<open>What the client accepts verifies on the chain\<close>

lemma instruction_accounts_mem:
  "L k = Some a \<Longrightarrow> k \<in> am_pubkey ` set metas \<Longrightarrow> (k, a) \<in> set (instruction_accounts system L metas)"
  by (force simp: instruction_accounts_def)

lemma instruction_accounts_D:
  assumes "(k, a) \<in> set (instruction_accounts system L metas)"
  shows "L k = Some a \<or> acc_data a = []" and "L k = Some a' \<Longrightarrow> a = a'"
  using assms by (auto simp: instruction_accounts_def split: option.splits)

lemma instruction_accounts_keys:
  "fst ` set (instruction_accounts system L metas) = am_pubkey ` set metas"
  by (force simp: instruction_accounts_def)

lemma finds_program_address:
  assumes "finds_addresses C" "length seeds \<le> 16" "\<forall>x \<in> set seeds. length x \<le> 32"
  shows "find_program_address C seeds p \<noteq> None"
proof -
  obtain k b where "find_pda C seeds p = Inr (k, b)"
    using assms unfolding finds_addresses_def by blast
  then show ?thesis by (simp add: find_program_address_def)
qed

lemma programs_wrote_claim:
  assumes "programs_wrote C L fidId tirId" "L k = Some a" "acc_owner a = fidId"
    "has_account_discriminator a CLAIM_ACCOUNT_DISCRIMINATOR"
  obtains c pad b where "acc_data a = CLAIM_ACCOUNT_DISCRIMINATOR @ borsh (claim_account_layout c) @ pad"
    "list_all (bval_ok C) (claim_account_layout c)"
    "find_pda C [ascii ''fid'', cl_signerKey c] fidId = Inr (cl_issuerFid c, b)"
  using assms unfolding programs_wrote_def by blast

lemma programs_wrote_entry:
  assumes "programs_wrote C L fidId tirId"
    "find_pda C [ascii ''issuer_entry'', t, f] tirId = Inr (k, b)" "L k = Some a" "acc_data a \<noteq> []"
  obtains e pad where "acc_owner a = tirId"
    "acc_data a = ISSUER_ENTRY_DISCRIMINATOR @ borsh (issuer_entry_layout e) @ pad"
    "list_all (bval_ok C) (issuer_entry_layout e)" "ie_tir e = t" "ie_issuerFid e = f"
  using assms unfolding programs_wrote_def by blast

lemma parsed_claims_mem:
  "parsed_claims C as = Inr cs \<Longrightarrow> (k, c) \<in> set cs \<Longrightarrow>
    \<exists>a. (k, a) \<in> set as \<and> parseClaimAccount C (acc_data a) = Inr (Some c)"
proof (induction as arbitrary: cs)
  case (Cons p as)
  obtain k' a' where "p = (k', a')" by (cases p)
  with Cons show ?case by (fastforce split: sum.splits option.splits)
qed simp

lemma parseClaimAccount_SomeD:
  assumes "parseClaimAccount C data = Inr (Some c)"
  shows "length data \<ge> 8" and "take 8 data = CLAIM_ACCOUNT_DISCRIMINATOR"
  using assms by (auto simp: parseClaimAccount_def subarray_def split: if_splits)

lemma parseIssuerEntry_nonempty: "parseIssuerEntryForTopic data topic = Inr True \<Longrightarrow> data \<noteq> []"
  by (auto simp: parseIssuerEntryForTopic_def Let_def)

lemma listed_claim:
  assumes "node_shows C w L" "programs_wrote C L (si_fid ids) tirId" "length holder = 32"
    "(k, c) \<in> set (listed_claims C w ids holder)"
  obtains a r pad b where "L k = Some a" "acc_owner a = si_fid ids"
    "acc_data a = CLAIM_ACCOUNT_DISCRIMINATOR @ borsh (claim_account_layout r) @ pad"
    "list_all (bval_ok C) (claim_account_layout r)" "c = claim_view r" "cl_fid r = holder"
    "find_pda C [ascii ''fid'', cl_signerKey r] (si_fid ids) = Inr (cl_issuerFid r, b)"
proof -
  let ?fs = "[FilterSize CLAIM_ACCOUNT_SIZE, FilterKey 8 holder]"
  from assms(4) obtain as cs where as: "program_accounts_at C w (si_fid ids) ?fs = Inr as"
    and cs: "parsed_claims C as = Inr cs" "(k, c) \<in> set cs"
    by (cases "program_accounts_at C w (si_fid ids) ?fs"; cases "parsed_claims C (projr (program_accounts_at C w (si_fid ids) ?fs))")
      (auto simp: listed_claims_def)
  from parsed_claims_mem [OF cs] obtain a where
    a: "(k, a) \<in> set as" "parseClaimAccount C (acc_data a) = Inr (Some c)" by blast
  from assms(1) as a(1) have L: "L k = Some a" "acc_owner a = si_fid ids" and f: "\<forall>f \<in> set ?fs. passes f a"
    unfolding node_shows_def by blast+
  have "has_account_discriminator a CLAIM_ACCOUNT_DISCRIMINATOR"
    using parseClaimAccount_SomeD [OF a(2)] by (simp add: has_account_discriminator_def)
  with assms(2) L obtain r pad b where r: "acc_data a = CLAIM_ACCOUNT_DISCRIMINATOR @ borsh (claim_account_layout r) @ pad"
    "list_all (bval_ok C) (claim_account_layout r)"
    "find_pda C [ascii ''fid'', cl_signerKey r] (si_fid ids) = Inr (cl_issuerFid r, b)"
    by (rule programs_wrote_claim)
  have "c = claim_view r" using a(2) parseClaimAccount_layout [OF r(2), of pad] r(1) by simp
  moreover have "cl_fid r = holder"
    using f r(1,2) assms(3) by (auto simp: passes_def claim_account_layout_def dest!: length_key)
  ultimately show ?thesis using that L r by blast
qed

lemma verifies_on_chain:
  assumes "node_shows C w L" "programs_wrote C L (si_fid ids) (si_tir ids)" "finds_addresses C"
    and "length holder = 32" "length tirState = 32" "chain_now \<le> now"
    and "(k, c) \<in> set (listed_claims C w ids holder)"
    and valid: "claim_valid C w ids tirState holder now topic (k, c)"
    and "claim_metas C ids tirState holder topic (k, c) ms"
    and "am_pubkey ` set ms \<subseteq> am_pubkey ` set metas"
  shows "verify_claim_for_topic C (si_fid ids) (si_tir ids) holder topic tirState
    (instruction_accounts system L metas) chain_now = Some True"
proof -
  let ?all = "instruction_accounts system L metas" and ?fid = "si_fid ids" and ?tir = "si_tir ids"
  from assms(1,2,4,7) obtain a r pad b where a: "L k = Some a" "acc_owner a = ?fid"
    "acc_data a = CLAIM_ACCOUNT_DISCRIMINATOR @ borsh (claim_account_layout r) @ pad"
    and ok: "list_all (bval_ok C) (claim_account_layout r)" and c: "c = claim_view r" "cl_fid r = holder"
    and fid: "find_pda C [ascii ''fid'', cl_signerKey r] ?fid = Inr (cl_issuerFid r, b)"
    by (rule listed_claim)
  have len: "length (cl_issuerFid r) = 32"
    using ok by (auto simp: claim_account_layout_def dest!: length_key)
  from valid obtain idb bump entry be infos entryInfo where
    v: "cl_topic r = topic" "\<not> cl_revoked r" "\<not> claim_expired (cl_expiresAt r) now"
    and addr: "claimIdLeBytes (cl_claimId r) = Inr idb" "find_pda C [ascii ''claim'', holder, idb] ?fid = Inr (k, bump)"
    and entry: "find_pda C [ascii ''issuer_entry'', tirState, cl_issuerFid r] ?tir = Inr (entry, be)"
      "accounts_at C w [entry, cl_issuerFid r] = Inr infos" "info_at infos 0 = Some entryInfo"
      "parseIssuerEntryForTopic (acc_data entryInfo) topic = Inr True"
    unfolding claim_valid_def c(1) by (auto simp: claim_view_def)
  have idb: "idb = le_bytes 4 (cl_claimId r)"
    using addr(1) by (auto simp: claimIdLeBytes_def write_uint_def split: if_splits)
  have "infos = map L [entry, cl_issuerFid r]" using assms(1) entry(2) unfolding node_shows_def by auto
  then have Le: "L entry = Some entryInfo" using entry(3) by (simp add: info_at_def)
  from assms(2) entry(1) Le parseIssuerEntry_nonempty [OF entry(4)] obtain e epad where
    e: "acc_owner entryInfo = ?tir" "acc_data entryInfo = ISSUER_ENTRY_DISCRIMINATOR @ borsh (issuer_entry_layout e) @ epad"
    "list_all (bval_ok C) (issuer_entry_layout e)" "ie_tir e = tirState" "ie_issuerFid e = cl_issuerFid r"
    by (rule programs_wrote_entry)
  have act: "ie_isActive e" "topic \<in> set (ie_allowedTopics e)"
    using entry(4) issuerEntryForTopic_layout [OF e(3), of ISSUER_ENTRY_DISCRIMINATOR epad topic] e(2) by auto
  have mem: "k \<in> am_pubkey ` set metas" "entry \<in> am_pubkey ` set metas"
  proof -
    have "k \<in> am_pubkey ` set ms \<and> entry \<in> am_pubkey ` set ms"
      using assms(9) entry(1) c(1) by (auto simp: claim_metas_def claim_view_def read_meta_def meta_def)
    then show "k \<in> am_pubkey ` set metas" "entry \<in> am_pubkey ` set metas" using assms(10) by auto
  qed
  have fe: "find_program_address C [ascii ''issuer_entry'', tirState, cl_issuerFid r] ?tir = Some entry"
    using entry(1) by (simp add: find_program_address_def)
  have found: "find_issuer_entry C ?tir ?all tirState (cl_issuerFid r) = Some (Some e)"
  proof (subst find_issuer_entry_found [OF fe _ e(1) _ deserialize_issuer_entry [OF e(3,2)] e(4,5)])
    show "(entry, x) \<in> set ?all \<Longrightarrow> x = entryInfo" for x
      using instruction_accounts_D(2) [of entry x system L metas entryInfo] Le by blast
    show "has_account_discriminator entryInfo ISSUER_ENTRY_DISCRIMINATOR"
      using e(2) by (simp add: has_account_discriminator_def)
  qed (use mem(2) in \<open>simp add: instruction_accounts_keys\<close>)
  show ?thesis unfolding verify_claim_for_topic_def
  proof (rule claim_loop_accepts [where k = k and a = a and c = r and e = e])
    fix k' a' assume m: "(k', a') \<in> set ?all" "acc_owner a' = ?fid" "has_account_discriminator a' CLAIM_ACCOUNT_DISCRIMINATOR"
    then have "L k' = Some a'" using instruction_accounts_D(1) [OF m(1)]
      by (auto simp: has_account_discriminator_def)
    from assms(2) this m(2,3) obtain c' pad' b' where c': "acc_data a' = CLAIM_ACCOUNT_DISCRIMINATOR @ borsh (claim_account_layout c') @ pad'"
      "list_all (bval_ok C) (claim_account_layout c')" by (rule programs_wrote_claim)
    have l: "length (cl_fid c') = 32" "length (cl_issuerFid c') = 32" "length (cl_signerKey c') = 32"
      using c'(2) by (auto simp: claim_account_layout_def dest!: length_key)
    have "deserialize_view claim_account_view a' = Some c'" by (rule deserialize_claim [OF c'(2,1)])
    moreover have "find_program_address C [ascii ''claim'', cl_fid c', le_bytes 4 (cl_claimId c')] ?fid \<noteq> None"
      "find_program_address C [ascii ''fid'', cl_signerKey c'] ?fid \<noteq> None"
      by (rule finds_program_address [OF assms(3)]; simp add: l ascii_def)+
    moreover have "find_issuer_entry C ?tir ?all tirState (cl_issuerFid c') \<noteq> None"
      by (rule find_issuer_entry_answers, rule finds_program_address [OF assms(3)])
        (simp_all add: l ascii_def assms(5))
    ultimately show "\<exists>c. deserialize_view claim_account_view a' = Some c \<and>
        find_program_address C [ascii ''claim'', cl_fid c, le_bytes 4 (cl_claimId c)] ?fid \<noteq> None \<and>
        find_issuer_entry C ?tir ?all tirState (cl_issuerFid c) \<noteq> None \<and>
        find_program_address C [ascii ''fid'', cl_signerKey c] ?fid \<noteq> None" by blast
  next
    show "(k, a) \<in> set ?all" by (rule instruction_accounts_mem) (rule a(1), rule mem(1))
    show "has_account_discriminator a CLAIM_ACCOUNT_DISCRIMINATOR" using a(3) by (simp add: has_account_discriminator_def)
    show "deserialize_view claim_account_view a = Some r" by (rule deserialize_claim [OF ok a(3)])
    show "find_program_address C [ascii ''claim'', cl_fid r, le_bytes 4 (cl_claimId r)] ?fid = Some k"
      using addr(2) c(2) idb by (simp add: find_program_address_def)
    show "cl_expiresAt r = 0 \<or> chain_now \<le> cl_expiresAt r" using v(3) assms(6) by (auto simp: claim_expired_def)
    show "find_program_address C [ascii ''fid'', cl_signerKey r] ?fid = Some (cl_issuerFid r)"
      using fid by (simp add: find_program_address_def)
  qed (use a c v found act in simp_all)
qed

end
