(* ===== verification/ClientProperties.thy ===== *)
theory ClientProperties
  imports ChainVerification
begin

text \<open>
  Correctness of the verification the web client runs before a mint, with a sample chain on which the
  hypotheses hold.
\<close>

section \<open>A sample chain\<close>

text \<open>The world of the node is the list of its accounts.\<close>

type_synonym ledger_world = "(pubkey \<times> account) list"

definition demo_key :: "int \<Rightarrow> pubkey" where
  "demo_key n = replicate 32 (word_of_int n)"

definition demo_pda :: "bytes list \<Rightarrow> pubkey \<Rightarrow> string + (pubkey \<times> int)" where
  "demo_pda seeds p = Inr
     (if take 1 seeds = [ascii ''claim''] then demo_key 1
      else if take 1 seeds = [ascii ''claim_topic_index''] then demo_key 2
      else if seeds = [ascii ''issuer_entry'', demo_key 12, demo_key 4] then demo_key 3
      else if seeds = [ascii ''fid'', demo_key 6] then demo_key 4 else demo_key 9, 255)"

definition demo_client :: "ledger_world client" where
  "demo_client = \<lparr> pk_of_string = (\<lambda>s. Inl ''Invalid public key input''), pk_of_bytes = Inr,
     toBase58 = (\<lambda>k. ''key''), token_2022 = demo_key 20, ata_of = (\<lambda>_ _. Inr (demo_key 9)),
     find_pda = demo_pda, account_info = (\<lambda>_. Inr None),
     wallet_key = demo_key 7, system_program = demo_key 21, sysvar_instructions = demo_key 22,
     account_at = (\<lambda>w k. Inr (map_of w k)), accounts_at = (\<lambda>w ks. Inr (map (map_of w) ks)),
     program_accounts_at = (\<lambda>w p fs. Inr (filter (\<lambda>(k, a). acc_owner a = p \<and> list_all (\<lambda>f. passes f a) fs) w)),
     token_balance_at = (\<lambda>_ _. Inr 0), spl_account_at = (\<lambda>_ _. Inl (error_of ''none'')),
     spl_mint_at = (\<lambda>_ _. Inl (error_of ''none'')), now_ms = (\<lambda>_. 1700000000500),
     anchor_token_state = (\<lambda>_ _ _. Inl (error_of ''none'')),
     anchor_owner_state = (\<lambda>_ _ _. Inl (error_of ''none'')),
     anchor_agent_role = (\<lambda>_ _ _. Inl (error_of ''none'')),
     anchor_frozen_wallet = (\<lambda>_ _ _. Inl (error_of ''none'')),
     anchor_compliance_state = (\<lambda>_ _ _. Inl (error_of ''none'')),
     anchor_irp_state = (\<lambda>_ _ _. Inl (error_of ''none'')),
     anchor_irs_state = (\<lambda>_ _ _. Inl (error_of ''none'')),
     anchor_ctr_topics = (\<lambda>_ _ _. Inl (error_of ''none'')),
     anchor_fid_account = (\<lambda>_ _ _. Inl (error_of ''none'')),
     anchor_module_owner = (\<lambda>_ _ _. Inl (error_of ''none'')),
     decode_frozen_wallet = (\<lambda>_. Inl (error_of ''none'')), decode_claim = (\<lambda>_. Inl (error_of ''none'')),
     decode_wallet_identity = (\<lambda>_. Inl (error_of ''none'')), sha256 = (\<lambda>b. b),
     send_tx = (\<lambda>_ w. (w, Inr ''signature'')) \<rparr>"

definition demo_claim :: claim_account_data where
  "demo_claim = \<lparr> cl_fid = demo_key 5, cl_claimId = 0, cl_topic = 1, cl_issuerFid = demo_key 4,
     cl_dataHash = demo_key 0, cl_signerKey = demo_key 6, cl_signature = replicate 64 0,
     cl_issuedAt = 1600000000, cl_expiresAt = 1800000000, cl_revoked = False, cl_bump = 255 \<rparr>"

definition demo_entry :: issuer_entry_account where
  "demo_entry = \<lparr> ie_issuerFid = demo_key 4, ie_tir = demo_key 12, ie_allowedTopics = [1, 2],
     ie_isActive = True, ie_label = [], ie_bump = 254 \<rparr>"

definition demo_fid :: "int \<Rightarrow> bool \<Rightarrow> fid_account_data" where
  "demo_fid signer issuer = \<lparr> fid_owner = demo_key signer, fid_managementKey = demo_key signer,
     fid_signerKey = demo_key signer, fid_claimCount = 0, fid_isIssuer = issuer, fid_country = 586,
     fid_bump = 253 \<rparr>"

definition demo_accounts :: ledger_world where
  "demo_accounts =
    [(demo_key 1, \<lparr> acc_owner = demo_key 11,
        acc_data = CLAIM_ACCOUNT_DISCRIMINATOR @ borsh (claim_account_layout demo_claim) \<rparr>),
     (demo_key 3, \<lparr> acc_owner = demo_key 13,
        acc_data = ISSUER_ENTRY_DISCRIMINATOR @ borsh (issuer_entry_layout demo_entry) \<rparr>),
     (demo_key 4, \<lparr> acc_owner = demo_key 11,
        acc_data = replicate 8 0 @ borsh (fid_account_layout (demo_fid 6 True)) \<rparr>),
     (demo_key 5, \<lparr> acc_owner = demo_key 11,
        acc_data = replicate 8 0 @ borsh (fid_account_layout (demo_fid 8 False)) \<rparr>)]"

definition demo_identity :: wallet_identity_data where
  "demo_identity = \<lparr> wd_wallet = demo_key 8, wd_fid = demo_key 5, wd_country = 586,
     wd_irs = demo_key 14, wd_isActive = True \<rparr>"

definition demo_registry :: registry_context where
  "demo_registry = \<lparr>
     rc_ids = \<lparr> si_token = demo_key 10, si_fid = demo_key 11, si_irs = demo_key 23,
       si_tir = demo_key 13, si_ctr = demo_key 15, si_compliance = demo_key 16 \<rparr>,
     rc_tokenState = \<lparr> tv_tokenMint = [], tv_identityRegistry = [], tv_compliance = [],
       tv_paused = False, tv_decimals = 2, tv_name = [], tv_symbol = [], tv_isin = [], tv_bump = 255 \<rparr>,
     rc_irpState = demo_key 17, rc_irpOwner = demo_key 7, rc_irsState = demo_key 14,
     rc_irsOwner = demo_key 7, rc_tirState = demo_key 12, rc_ctrState = demo_key 18,
     rc_complianceState = demo_key 19, rc_walletIdentity = demo_key 9,
     rc_walletIdentityData = Some demo_identity, rc_requiredTopics = [1] \<rparr>"

definition demo_service :: "ledger_world service" where
  "demo_service = \<lparr> factoryStatePromise = None, world = demo_accounts \<rparr>"

definition demo_validation :: "jsval + claim_validation" where
  "demo_validation = snd (validateRecipientClaimsForMint demo_client demo_registry demo_service)"

lemma demo_validation_run:
  "\<exists>v. validateRecipientClaimsForMint demo_client demo_registry demo_service
       = (demo_service, Inr v) \<and> demo_validation = Inr v \<and> cv_ok v"
proof -
  have "case validateRecipientClaimsForMint demo_client demo_registry demo_service of
     (t, Inl e) \<Rightarrow> False | (t, Inr v) \<Rightarrow> cv_ok v \<and> factoryStatePromise t = None \<and> world t = demo_accounts"
    by code_simp
  then show ?thesis
    by (auto simp: demo_validation_def demo_service_def split: prod.splits sum.splits)
qed

section \<open>The sample chain keeps what is documented\<close>

lemma demo_shows: "node_shows demo_client demo_accounts (map_of demo_accounts)"
proof -
  have d: "distinct (map fst demo_accounts)" by code_simp
  then show ?thesis
    by (auto simp: node_shows_def demo_client_def list_all_iff dest: map_of_is_SomeI)
qed

lemma demo_finds: "finds_addresses demo_client"
  by (auto simp: finds_addresses_def demo_client_def demo_pda_def)

lemma key_ok_sample [simp]: "key_ok demo_client k \<longleftrightarrow> length k = 32"
  by (simp add: key_ok_def demo_client_def)

lemma length_demo_key [simp]: "length (demo_key n) = 32"
  by (simp add: demo_key_def)

lemma demo_layouts:
  "list_all (bval_ok demo_client) (claim_account_layout demo_claim)"
  "list_all (bval_ok demo_client) (issuer_entry_layout demo_entry)"
  by (simp_all add: claim_account_layout_def issuer_entry_layout_def demo_claim_def demo_entry_def
      fits_def vec_u64_ok_def string_ok_def utf8_encode_def)

lemma demo_wrote: "programs_wrote demo_client (map_of demo_accounts) (demo_key 11) (demo_key 13)"
proof -
  let ?L = "map_of demo_accounts"
  let ?claim = "\<lparr> acc_owner = demo_key 11,
        acc_data = CLAIM_ACCOUNT_DISCRIMINATOR @ borsh (claim_account_layout demo_claim) \<rparr>"
  let ?entry = "\<lparr> acc_owner = demo_key 13,
        acc_data = ISSUER_ENTRY_DISCRIMINATOR @ borsh (issuer_entry_layout demo_entry) \<rparr>"
  have claims: "a = ?claim" if "?L k = Some a" "acc_owner a = demo_key 11"
      "has_account_discriminator a CLAIM_ACCOUNT_DISCRIMINATOR" for k a
  proof -
    have "\<forall>(k, a) \<in> set demo_accounts. has_account_discriminator a CLAIM_ACCOUNT_DISCRIMINATOR \<longrightarrow> a = ?claim"
      by code_simp
    then show ?thesis using that map_of_SomeD [of demo_accounts k a] by auto
  qed
  have "find_pda demo_client [ascii ''fid'', cl_signerKey demo_claim] (demo_key 11)
      = Inr (cl_issuerFid demo_claim, 255)" by code_simp
  moreover have entries: "t = demo_key 12 \<and> f = demo_key 4 \<and> a = ?entry"
    if "find_pda demo_client [ascii ''issuer_entry'', t, f] (demo_key 13) = Inr (k, b)" "?L k = Some a" for k a t f b
  proof -
    have "?L (demo_key 9) = None" "?L (demo_key 3) = Some ?entry" by code_simp+
    moreover have "ascii ''issuer_entry'' \<noteq> ascii ''claim''" "ascii ''issuer_entry'' \<noteq> ascii ''claim_topic_index''"
      "ascii ''issuer_entry'' \<noteq> ascii ''fid''" by code_simp+
    ultimately show ?thesis using that by (auto simp: demo_client_def demo_pda_def split: if_splits)
  qed
  have e: "ie_tir demo_entry = demo_key 12" "ie_issuerFid demo_entry = demo_key 4"
    by (simp_all add: demo_entry_def)
  show ?thesis unfolding programs_wrote_def
  proof (intro conjI allI impI)
    fix k a
    assume "?L k = Some a" "acc_owner a = demo_key 11" "has_account_discriminator a CLAIM_ACCOUNT_DISCRIMINATOR"
    then have "a = ?claim" by (rule claims)
    then show "\<exists>c pad b. acc_data a = CLAIM_ACCOUNT_DISCRIMINATOR @ borsh (claim_account_layout c) @ pad \<and>
        list_all (bval_ok demo_client) (claim_account_layout c) \<and>
        find_pda demo_client [ascii ''fid'', cl_signerKey c] (demo_key 11) = Inr (cl_issuerFid c, b)"
      using demo_layouts(1) calculation
      by (intro exI [of _ demo_claim] exI [of _ "[]"] exI [of _ 255]) simp
  next
    fix k a t f b
    assume "find_pda demo_client [ascii ''issuer_entry'', t, f] (demo_key 13) = Inr (k, b)" "?L k = Some a"
    note en = entries [OF this]
    then show "acc_owner a = demo_key 13" by simp
    show "\<exists>e pad. acc_data a = ISSUER_ENTRY_DISCRIMINATOR @ borsh (issuer_entry_layout e) @ pad \<and>
        list_all (bval_ok demo_client) (issuer_entry_layout e) \<and> ie_tir e = t \<and> ie_issuerFid e = f"
      using en demo_layouts(2) e by (intro exI [of _ demo_entry] exI [of _ "[]"]) simp
  qed
qed

section \<open>Claims before a mint\<close>

text \<open>
  C14. A validation of a recipient that returns accepts exactly when the token requires no
  topic, in which case nothing else is looked at, or the recipient is registered, its identity
  account exists and every topic the token requires has, among the claims the node lists for
  this identity, one that is valid: for the topic, at the address of its number, neither revoked
  nor expired, by an issuer the token trusts for the topic and whose signer made the claim. The
  validation does not change the world, and a refusal has a text.
\<close>

theorem recipient_claims_are_validated:
  assumes "validateRecipientClaimsForMint C registry s = (t, Inr v)"
  shows "world t = world s \<and> cv_reason v \<noteq> Some [] \<and>
    (cv_ok v \<longleftrightarrow> rc_requiredTopics registry = [] \<or>
      (\<exists>identity. rc_walletIdentityData registry = Some identity \<and>
        (\<exists>a. account_at C (world s) (wd_fid identity) = Inr (Some a)) \<and>
        (\<forall>topic \<in> set (rc_requiredTopics registry).
          \<exists>c \<in> set (listed_claims C (world s) (rc_ids registry) (wd_fid identity)).
            claim_valid C (world s) (rc_ids registry) (rc_tirState registry) (wd_fid identity)
              (now_ms C (world s) div 1000) topic c)))"
proof (cases "rc_requiredTopics registry = [] \<or> rc_walletIdentityData registry = None")
  case True
  then show ?thesis
    using assms unfolding validateRecipientClaimsForMint_def Let_def
    by (auto simp: h_return_def cv_ok_def unregistered_text_def split: if_splits)
next
  case False
  then obtain identity where i: "rc_walletIdentityData registry = Some identity"
    and ne: "rc_requiredTopics registry \<noteq> []" by auto
  show ?thesis using validate_spec [OF assms i ne] i ne unfolding Let_def by auto
qed

theorem recipient_claims_are_validated_witness:
  "\<exists>c \<in> set (listed_claims demo_client demo_accounts (rc_ids demo_registry) (demo_key 5)).
     claim_valid demo_client demo_accounts (rc_ids demo_registry) (demo_key 12) (demo_key 5)
       1700000000 1 c"
proof -
  obtain v where v: "validateRecipientClaimsForMint demo_client demo_registry demo_service
       = (demo_service, Inr v)" "cv_ok v" using demo_validation_run by blast
  have r: "rc_walletIdentityData demo_registry = Some demo_identity" "rc_requiredTopics demo_registry \<noteq> []"
    by (simp_all add: demo_registry_def)
  have f: "wd_fid demo_identity = demo_key 5" "rc_requiredTopics demo_registry = [1]"
    "rc_tirState demo_registry = demo_key 12" "world demo_service = demo_accounts"
    "now_ms demo_client demo_accounts div 1000 = 1700000000"
    by (simp_all add: demo_identity_def demo_registry_def demo_service_def demo_client_def)
  show ?thesis using recipient_claims_are_validated [OF v(1)] v(2) r by (simp add: f)
qed

text \<open>
  C8. The check of the web client refines the one of the token program: when a validation
  accepts a recipient, then for every required topic the verification the program runs on the
  accounts the client passes on succeeds, provided that the node shows one state of the
  accounts, that the identity and registry programs wrote theirs, and that the clock of the
  chain is not ahead.
\<close>

theorem accepted_claims_verify_on_chain:
  assumes "validateRecipientClaimsForMint C registry s = (t, Inr v)" and "cv_ok v"
    and "rc_walletIdentityData registry = Some identity"
    and "node_shows C (world s) L"
    and "programs_wrote C L (si_fid (rc_ids registry)) (si_tir (rc_ids registry))"
    and "finds_addresses C" and "length (wd_fid identity) = 32" and "length (rc_tirState registry) = 32"
    and "chain_now \<le> now_ms C (world s) div 1000"
    and "topic \<in> set (rc_requiredTopics registry)"
  shows "verify_claim_for_topic C (si_fid (rc_ids registry)) (si_tir (rc_ids registry)) (wd_fid identity)
    topic (rc_tirState registry) (instruction_accounts (system_program C) L (cv_remainingAccounts v))
    chain_now = Some True"
proof -
  have ne: "rc_requiredTopics registry \<noteq> []" using assms(10) by auto
  from validate_spec [OF assms(1,3) ne] assms(2,10) obtain c ms where
    c: "c \<in> set (listed_claims C (world s) (rc_ids registry) (wd_fid identity))"
    and valid: "claim_valid C (world s) (rc_ids registry) (rc_tirState registry) (wd_fid identity)
      (now_ms C (world s) div 1000) topic c"
    and ms: "claim_metas C (rc_ids registry) (rc_tirState registry) (wd_fid identity) topic c ms"
      "am_pubkey ` set ms \<subseteq> am_pubkey ` set (cv_remainingAccounts v)"
    unfolding Let_def by blast
  obtain k pc where "c = (k, pc)" by (cases c)
  with c valid ms show ?thesis using verifies_on_chain [OF assms(4-9)] by blast
qed

theorem accepted_claims_verify_on_chain_witness:
  "case demo_validation of Inl _ \<Rightarrow> False
   | Inr v \<Rightarrow> verify_claim_for_topic demo_client (demo_key 11) (demo_key 13) (demo_key 5) 1
       (demo_key 12) (instruction_accounts (demo_key 21) (map_of demo_accounts) (cv_remainingAccounts v))
       1700000000 = Some True"
proof -
  obtain v where v: "validateRecipientClaimsForMint demo_client demo_registry demo_service
       = (demo_service, Inr v)" "cv_ok v" "demo_validation = Inr v" using demo_validation_run by blast
  have r: "rc_walletIdentityData demo_registry = Some demo_identity" by (simp add: demo_registry_def)
  have f: "wd_fid demo_identity = demo_key 5" "rc_requiredTopics demo_registry = [1]"
    "rc_tirState demo_registry = demo_key 12" "world demo_service = demo_accounts"
    "si_fid (rc_ids demo_registry) = demo_key 11" "si_tir (rc_ids demo_registry) = demo_key 13"
    "system_program demo_client = demo_key 21" "now_ms demo_client demo_accounts div 1000 = 1700000000"
    by (simp_all add: demo_identity_def demo_registry_def demo_service_def demo_client_def)
  show ?thesis
    using accepted_claims_verify_on_chain [OF v(1,2) r _ _ demo_finds, of "map_of demo_accounts" 1700000000 1]
      demo_shows demo_wrote by (simp add: f v(3))
qed

text \<open>The account readers of the token service read what the programs write: from the Borsh
  record of a claim, a wallet identity, the required topics, an issuer entry or an identity they get
  the fields the verification uses, whatever follows the record.\<close>

lemma token_service_reads_records:
  assumes "length disc = 8" and "list_all (bval_ok C) (claim_account_layout claim)"
    and "list_all (bval_ok C) (wallet_identity_layout wi)"
    and "list_all (bval_ok C) (claim_topics_state_layout topics)"
    and "list_all (bval_ok C) (issuer_entry_layout entry)" and "list_all (bval_ok C) (fid_account_layout fidAccount)"
  shows "parseClaimAccount C (CLAIM_ACCOUNT_DISCRIMINATOR @ borsh (claim_account_layout claim) @ pad)
      = Inr (Some (claim_view claim)) \<and>
    parseWalletIdentityAccount C (disc @ borsh (wallet_identity_layout wi) @ pad)
      = Inr (Some (wallet_identity_view wi)) \<and>
    parseCtrTopics (disc @ borsh (claim_topics_state_layout topics) @ pad) = Inr (ctr_topics topics) \<and>
    parseIssuerEntryForTopic (disc @ borsh (issuer_entry_layout entry) @ pad) topic
      = Inr (ie_isActive entry \<and> topic \<in> set (ie_allowedTopics entry)) \<and>
    parseFidIsIssuerAndSigner C (disc @ borsh (fid_account_layout fidAccount) @ pad) signer
      = Inr (fid_isIssuer fidAccount \<and> fid_signerKey fidAccount = signer)"
  by (intro conjI parseClaimAccount_layout parseWalletIdentity_layout parseCtrTopics_layout
      issuerEntryForTopic_layout parseFid_layout assms) (rule assms)+

definition demo_wallet_record :: wallet_identity_onchain where
  "demo_wallet_record = \<lparr> oc_wi_wallet = demo_key 8, oc_wi_fid = demo_key 5, oc_wi_country = 586,
     oc_wi_irs = demo_key 14, oc_wi_is_active = True,
     oc_wi_activated_by = demo_key 7, oc_wi_activated_at = 1600000000, oc_wi_bump = 250 \<rparr>"

definition demo_topics :: claim_topics_state_account where
  "demo_topics = \<lparr> ctr_owner = demo_key 7, ctr_tokenMint = demo_key 24, ctr_topics = [1],
     ctr_bump = 249 \<rparr>"

lemma token_service_reads_records_witness:
  "parseCtrTopics (replicate 8 0 @ borsh (claim_topics_state_layout demo_topics) @ [0, 0]) = Inr [1] \<and>
   parseIssuerEntryForTopic (replicate 8 0 @ borsh (issuer_entry_layout demo_entry) @ [0, 0]) 3 = Inr False"
proof -
  have ok: "length (replicate 8 (0 :: 8 word)) = 8"
    "list_all (bval_ok demo_client) (wallet_identity_layout demo_wallet_record)"
    "list_all (bval_ok demo_client) (claim_topics_state_layout demo_topics)"
    "list_all (bval_ok demo_client) (fid_account_layout (demo_fid 6 True))"
    by (simp_all add: wallet_identity_layout_def claim_topics_state_layout_def fid_account_layout_def
        demo_wallet_record_def demo_topics_def demo_fid_def fits_def vec_u64_ok_def)
  show ?thesis
    using token_service_reads_records [OF ok(1) demo_layouts(1) ok(2,3) demo_layouts(2) ok(4), of "[0, 0]" 3 "[]"]
    by (simp add: demo_topics_def demo_entry_def)
qed

end
