(* ===== verification/TokenServiceProperties.thy ===== *)
theory TokenServiceProperties
  imports TokenOperations ComplianceProperties ClientProperties
begin

text \<open>
  Correctness of the token service: what a mint that returns has checked, that its check of the
  compliance modules implies the one of the compliance program, and what the check of one claim for a
  request decides.
\<close>

section \<open>What a mint that returned did\<close>

text \<open>
  The context of the registry, as the client reads it at one world: the registry account the token
  state names belongs to the mint and names the other accounts; storage and registry have one owner;
  the topics and the identity are those of the accounts at the addresses it names.
\<close>

definition registry_read ::
    "('w, 'c) client_scheme \<Rightarrow> 'w \<Rightarrow> pubkey \<Rightarrow> pubkey \<Rightarrow> suite_ids \<Rightarrow> token_view \<Rightarrow> registry_context \<Rightarrow> bool" where
  "registry_read C w mintPubkey recipient ids ts r \<longleftrightarrow>
     rc_ids r = ids \<and> pk_of_string C (tv_identityRegistry ts) = Inr (rc_irpState r) \<and>
     pk_of_string C (tv_compliance ts) = Inr (rc_complianceState r) \<and>
     (\<exists>irp. account_at C w (rc_irpState r) = Inr (Some irp) \<and>
        readPubkey C (acc_data irp) 8 = Inr mintPubkey \<and> readPubkey C (acc_data irp) 40 = Inr (rc_irpOwner r) \<and>
        readPubkey C (acc_data irp) 72 = Inr (rc_irsState r) \<and> readPubkey C (acc_data irp) 104 = Inr (rc_tirState r) \<and>
        readPubkey C (acc_data irp) 136 = Inr (rc_ctrState r)) \<and>
     (\<exists>b. find_pda C [ascii ''wallet_identity'', rc_irsState r, recipient] (si_irs ids) = Inr (rc_walletIdentity r, b)) \<and>
     (case accounts_at C w [rc_irsState r, rc_tirState r, rc_ctrState r, rc_complianceState r, rc_walletIdentity r] of
        Inl _ \<Rightarrow> False
      | Inr infos \<Rightarrow>
        map_option (\<lambda>a. readPubkey C (acc_data a) 8) (info_at infos 0) = Some (Inr (rc_irpOwner r)) \<and>
        info_at infos 1 \<noteq> None \<and>
        map_option (\<lambda>a. parseCtrTopics (acc_data a)) (info_at infos 2) = Some (Inr (rc_requiredTopics r)) \<and>
        map_option acc_owner (info_at infos 3) = Some (si_compliance ids) \<and>
        (case info_at infos 4 of None \<Rightarrow> rc_walletIdentityData r = None
         | Some a \<Rightarrow> parseWalletIdentityAccount C (acc_data a) = Inr (rc_walletIdentityData r)))"

lemma key_of_text_InrD: "key_of_text C x s = (t, Inr k) \<Longrightarrow> t = s \<and> pk_of_string C x = Inr k"
  by (auto simp: key_of_text_def dest!: pure_step_InrD split: sum.splits)

lemma key_at_InrD: "key_at C a n s = (t, Inr k) \<Longrightarrow> t = s \<and> readPubkey C (acc_data a) n = Inr k"
  by (auto simp: key_at_def dest!: pure_step_InrD)

lemmas step_InrD = key_of_text_InrD key_at_InrD pda_of_InrD ask_InrD pure_step_InrD refuse_InrD

lemma resolve_InrD:
  assumes "resolveMintRegistryContext C mintKey recipient ids ts True s = (t, Inr registry)"
  shows "t = s \<and> registry_read C (world s) mintKey recipient ids ts registry"
  using assms unfolding resolveMintRegistryContext_def
  apply (elim h_bind_InrE)
  apply (auto elim!: h_bind_InrE dest!: step_InrD simp: h_return_def registry_read_def split: option.splits if_splits)
  done

text \<open>A recipient that may receive the token, as the client reads it at one world.\<close>

definition recipient_cleared ::
    "('w, 'c) client_scheme \<Rightarrow> 'w \<Rightarrow> pubkey \<Rightarrow> registry_context \<Rightarrow> wallet_identity_data \<Rightarrow> account_meta list \<Rightarrow> bool" where
  "recipient_cleared C w recipient r identity metas \<longleftrightarrow>
     rc_walletIdentityData r = Some identity \<and> wd_wallet identity = recipient \<and>
     wd_irs identity = rc_irsState r \<and> wd_isActive identity \<and>
     (\<forall>topic \<in> set (rc_requiredTopics r). \<exists>c \<in> set (listed_claims C w (rc_ids r) (wd_fid identity)). \<exists>ms.
        claim_valid C w (rc_ids r) (rc_tirState r) (wd_fid identity) (now_ms C w div 1000) topic c \<and>
        claim_metas C (rc_ids r) (rc_tirState r) (wd_fid identity) topic c ms \<and>
        am_pubkey ` set ms \<subseteq> am_pubkey ` set metas)"

lemma claims_cleared:
  assumes "validateRecipientClaimsForMint C registry s = (t, Inr v)" and "cv_ok v"
    and "rc_walletIdentityData registry = Some identity"
  shows "world t = world s \<and> (\<forall>topic \<in> set (rc_requiredTopics registry).
    \<exists>c \<in> set (listed_claims C (world s) (rc_ids registry) (wd_fid identity)). \<exists>ms.
      claim_valid C (world s) (rc_ids registry) (rc_tirState registry) (wd_fid identity)
        (now_ms C (world s) div 1000) topic c \<and>
      claim_metas C (rc_ids registry) (rc_tirState registry) (wd_fid identity) topic c ms \<and>
      am_pubkey ` set ms \<subseteq> am_pubkey ` set (cv_remainingAccounts v))"
proof (cases "rc_requiredTopics registry = []")
  case True
  then show ?thesis using assms(1) by (simp add: validateRecipientClaimsForMint_def Let_def h_return_def)
next
  case False
  show ?thesis using validate_spec [OF assms(1,3) False] assms(2) unfolding Let_def by blast
qed

lemma preflight_InrD:
  assumes "verifyRecipientMintPreflight C P mintKey recipient dest (Some ids) (Some ts) s = (t, Inr (registry, identity, v))"
  shows "world t = world s \<and> registry_read C (world s) mintKey recipient ids ts registry \<and>
    dest \<noteq> Some recipient \<and>
    recipient_cleared C (world s) recipient registry identity (cv_remainingAccounts v)"
proof -
  from assms have "registry_read C (world s) mintKey recipient ids ts registry \<and>
      rc_walletIdentityData registry = Some identity \<and> wd_wallet identity = recipient \<and> dest \<noteq> Some recipient \<and>
      wd_irs identity = rc_irsState registry \<and> wd_isActive identity \<and> cv_ok v \<and>
      validateRecipientClaimsForMint C registry s = (t, Inr v)"
    unfolding verifyRecipientMintPreflight_def
    by (auto elim!: h_bind_InrE dest!: refuse_InrD resolve_InrD simp: h_return_def cv_ok_def split: option.splits if_splits)
  then show ?thesis
    using claims_cleared [of C registry s t v identity] by (auto simp: recipient_cleared_def)
qed

lemma pushed_mem:
  "m \<in> set accounts \<Longrightarrow> m \<in> set (push_key C accounts k w)"
  "m \<in> set accounts \<Longrightarrow> m \<in> set (pushModuleProgramAccount C M accounts p)"
  by (auto simp: push_key_def pushModuleProgramAccount_def)

lemma push_modules_keeps: "m \<in> set accounts \<Longrightarrow> m \<in> set (push_modules C M country accounts infos)"
proof (induction infos arbitrary: accounts)
  case (Cons p rest)
  then show ?case
    by (cases p) (auto simp: Let_def intro!: Cons.IH pushed_mem split: option.split bool.split sum.split)
qed simp

lemma getMintRemainingAccounts_keeps:
  assumes "getMintRemainingAccounts C M wi cs ids claims s = (t, Inr remaining)"
  shows "set claims \<subseteq> set remaining"
  using assms unfolding getMintRemainingAccounts_def or_default_def
  by (elim catch_InrE) (auto simp: h_return_def elim!: h_bind_InrE dest: push_modules_keeps)

lemma mint_transaction_InrD:
  assumes "mint_transaction C ix s = (t, Inr sig)"
  shows "\<exists>tokenProgram. send_tx C [ix tokenProgram] (world s) = (world t, Inr sig)"
proof -
  from assms have "h_bind (key_of_text C TOKEN_2022_TEXT) (\<lambda>tokenProgram. send_all C [ix tokenProgram]) s = (t, Inr sig)"
    unfolding mint_transaction_def by (rule catch_InrE) (auto simp: Let_def split: if_splits)
  then obtain tokenProgram u where "send_all C [ix tokenProgram] u = (t, Inr sig)" "u = s"
    by (elim h_bind_InrE) (auto simp: key_of_text_def dest: pure_step_InrD)
  then show ?thesis by (intro exI [of _ tokenProgram]) (auto simp: send_all_def split: prod.splits)
qed

text \<open>The token account that receives the tokens: it can be read, or can be once it was created.\<close>

definition account_opened ::
    "('w, 'c) client_scheme \<Rightarrow> 'w \<Rightarrow> pubkey \<Rightarrow> pubkey \<Rightarrow> pubkey \<Rightarrow> spl_account \<Rightarrow> 'w \<Rightarrow> bool" where
  "account_opened C w mintPubkey recipient dest account w' \<longleftrightarrow>
     spl_account_at C w' dest = Inr account \<and>
     (w' = w \<or> (\<exists>e sig. spl_account_at C w dest = Inl e \<and>
        send_tx C [CreateAtaIdempotentIx (wallet_key C) dest recipient mintPubkey] w = (w', Inr sig)))"

lemma destination_account_InrD:
  assumes "destination_account C (wallet_key C) recipient mintPubkey dest s = (t, Inr account)"
  shows "account_opened C (world s) mintPubkey recipient dest account (world t)"
  using assms unfolding destination_account_def account_opened_def
  by (auto simp: send_all_def ask_def elim!: catch_InrE h_bind_InrE split: prod.splits)

lemma valid_mint_InrD: "valid_mint C mintPubkey s = (t, Inr x) \<Longrightarrow> t = s"
  by (auto simp: valid_mint_def ask_def elim!: catch_InrE)

lemma program_ids_kept:
  "getProgramIds C P s = (u, Inr ids) \<Longrightarrow> world u = world s \<and> factoryStatePromise u \<noteq> None"
  by (auto simp: getProgramIds_def getFactoryState_def h_return_def Let_def elim!: h_bind_InrE split: option.splits)

lemma fetchTokenState_InrD:
  assumes "fetchTokenState C P mintPubkey s = (t, Inr ts)" and "factoryStatePromise s \<noteq> None"
  shows "t = s"
  using assms unfolding fetchTokenState_def getProgramIds_def getFactoryState_def findTokenStatePda_def
  by (auto simp: h_return_def elim!: h_bind_InrE dest!: step_InrD split: option.splits)

lemma remaining_reads: "reads_only (getMintRemainingAccounts C M wi cs ids claims)"
  unfolding getMintRemainingAccounts_def readWalletIdentityCountry_def by (intro reads_intros)

lemma mint_check_reads: "reads_only (refuse c text)" "reads_only (seconds_now C)"
  unfolding refuse_def seconds_now_def by (intro reads_intros)+

lemma check_module_reads: "reads_only (check_module_for_mint C M amount after country decimals e)"
  unfolding check_module_for_mint_def Let_def by (intro reads_intros mint_check_reads)

lemma supply_check_reads: "reads_only (verifySupplyCapForMint C P M cs amount after country decimals)"
  unfolding verifySupplyCapForMint_def getProgramIds_def by (intro reads_intros check_module_reads)

lemma mint_stages:
  assumes "mint C P M mintPubkey recipient amount s = (t, Inr sig)"
  obtains s0 ids ts dest s1 registry identity v s2 s3 remaining s4 s5 tokenState ownerState agentRole frozen tokenProgram
    and account :: spl_account where
    "getProgramIds C P s = (s0, Inr ids)" "fetchTokenState C P mintPubkey s0 = (s0, Inr ts)"
    "ata_of C mintPubkey recipient = Inr dest"
    "destination_account C (wallet_key C) recipient mintPubkey dest s0 = (s1, Inr account)"
    "spl_mint account = mintPubkey" "spl_owner account = recipient"
    "verifyRecipientMintPreflight C P mintPubkey recipient (Some dest) (Some ids) (Some ts) s1 = (s2, Inr (registry, identity, v))"
    "prepareCountryCapCountAccounts C M (rc_complianceState registry) [wd_country identity] ids s2 = (s3, Inr ())"
    "getMintRemainingAccounts C M (rc_walletIdentity registry) (rc_complianceState registry) ids
       (cv_remainingAccounts v) s3 = (s4, Inr remaining)"
    "verifySupplyCapForMint C P M (rc_complianceState registry) amount (spl_amount account + amount)
       (wd_country identity) (tv_decimals ts) s4 = (s5, Inr ())"
    "send_tx C [AnchorIx (si_token ids) ''mint'' [BPubkey recipient, BU64 amount, BU64 (spl_amount account + amount)]
       (mint_accounts (wallet_key C) tokenState ownerState agentRole registry (si_compliance ids) frozen mintPubkey
         dest tokenProgram) remaining] (world s5) = (world t, Inr sig)"
  using assms unfolding mint_def Let_def findTokenStatePda_def findOwnerStatePda_def findAgentRolePda_def findFrozenWalletPda_def
  apply (elim bind_tripleE bind_refuseE h_bind_InrE)
  apply (drule mint_transaction_InrD ata_InrD pda_of_InrD valid_mint_InrD ask_InrD)+
  apply (elim exE conjE)
  apply (unfold not_not)
  apply hypsubst
  apply (frule program_ids_kept, elim conjE, frule (1) fetchTokenState_InrD, hypsubst)
  by (rule that) simp_all

section \<open>Modules before a mint\<close>

text \<open>The modules the client checks, and their discriminators.\<close>

fun mint_discriminator :: "module_state \<Rightarrow> bytes option" where
  "mint_discriminator (MaxBalanceModule w m v b) = Some MAX_BALANCE_DISCRIMINATOR"
| "mint_discriminator (MaxTransferModule w m v b) = Some MAX_TRANSFER_DISCRIMINATOR"
| "mint_discriminator (LockupModule w m v b) = Some LOCKUP_DISCRIMINATOR"
| "mint_discriminator (SupplyCapModule w m h v n b) = Some SUPPLY_CAP_DISCRIMINATOR"
| "mint_discriminator (CountryRestrictModule w m cs b) = Some COUNTRY_RESTRICT_DISCRIMINATOR"
| "mint_discriminator _ = None"

definition module_keys_distinct :: "module_ids \<Rightarrow> bool" where
  "module_keys_distinct M \<longleftrightarrow> distinct [MOD_SUPPLY_CAP M, MOD_DAILY_LIMIT M, MOD_MAX_INVESTORS M, MOD_LOCKUP M,
     MOD_MAX_TRANSFER M, MOD_MAX_BALANCE M, MOD_COUNTRY_CAP M, MOD_COUNTRY_RESTRICT M]"

text \<open>An account of a module as its program wrote it, with room for one of each kind.\<close>

definition shows_module :: "module_ids \<Rightarrow> module_state \<Rightarrow> account \<Rightarrow> bool" where
  "shows_module M ms info \<longleftrightarrow> module_ok ms \<and> typed_module ms \<and> acc_owner info = module_program M ms \<and>
     (\<exists>disc pad. acc_data info = disc @ module_bytes ms @ pad \<and> length disc = 8 \<and>
        (\<forall>d. mint_discriminator ms = Some d \<longrightarrow> disc = d))"

lemma hasDiscriminator_prefix: "length d = 8 \<Longrightarrow> hasDiscriminator (d @ bs) d"
  by (simp add: hasDiscriminator_def subarray_def)

lemma mint_discriminator_length: "mint_discriminator ms = Some d \<Longrightarrow> length d = 8"
  by (cases ms) (auto simp: MAX_BALANCE_DISCRIMINATOR_def MAX_TRANSFER_DISCRIMINATOR_def LOCKUP_DISCRIMINATOR_def
      SUPPLY_CAP_DISCRIMINATOR_def COUNTRY_RESTRICT_DISCRIMINATOR_def byte_list_def)

lemma country_listed_reads:
  assumes "list_all (fits 2) cs"
  shows "country_listed (length cs) (pre @ concat (map (le_bytes 2) cs) @ post) (length pre) country
    = Inr (country \<in> set cs)"
  using assms
proof (induction cs arbitrary: pre)
  case (Cons c cs)
  have "readU16 (pre @ le_bytes 2 c @ concat (map (le_bytes 2) cs) @ post) (length pre) = Inr c"
    using u16.field_reads [of undefined c pre] Cons.prems by simp
  moreover have "country_listed (length cs) (pre @ le_bytes 2 c @ concat (map (le_bytes 2) cs) @ post)
      (length pre + 2) country = Inr (country \<in> set cs)"
    using Cons.IH [of "pre @ le_bytes 2 c"] Cons.prems by simp
  ultimately show ?case by auto
qed simp

text \<open>The condition of the check, over the state of the module.\<close>

fun mint_allowed :: "int \<Rightarrow> int \<Rightarrow> int \<Rightarrow> int \<Rightarrow> module_state \<Rightarrow> bool" where
  "mint_allowed now amount after country (MaxBalanceModule w m v b) = (after \<le> v)"
| "mint_allowed now amount after country (MaxTransferModule w m v b) = (amount \<le> v)"
| "mint_allowed now amount after country (LockupModule w m v b) = (v \<le> now)"
| "mint_allowed now amount after country (SupplyCapModule w m h v n b) = (n + amount \<le> v)"
| "mint_allowed now amount after country (CountryRestrictModule w m cs b) = (country \<in> set cs)"
| "mint_allowed now amount after country _ = True"

lemma js_includes_prefix: "take (length t) s = t \<Longrightarrow> js_includes s t"
  unfolding js_includes_def by (rule bexI [of _ 0]) simp_all

lemma bind_pure_run: "h_bind (pure_step (Inr x)) k s = k x s"
  by (simp add: bind_pure)

lemma refuse_run: "refuse c m s = (s, if c then Inl (error_of m) else Inr ())"
  by (simp add: refuse_def fail_with_def h_throw_def h_return_def)

lemma u64_fits: "u64 v \<longleftrightarrow> fits 8 v"
  by (auto simp: fits_def U64_MAX_def)

lemma seconds_now_run: "h_bind (seconds_now C) k s = k (now_ms C (world s) div 1000) s"
  by (simp add: seconds_now_def h_bind_assoc bind_now)

lemma contains_supply_word:
  "w \<in> set supply_words \<Longrightarrow> take (length w) m = w \<Longrightarrow> contains_any m supply_words"
  by (auto simp: contains_any_def list_ex_iff intro: js_includes_prefix)

lemma check_module_spec:
  assumes "shows_module M ms info" and "module_keys_distinct M"
  shows "\<exists>m. contains_any m supply_words \<and>
    check_module_for_mint C M amount after country decimals (k, Some info) s =
      (s, if mint_allowed (now_ms C (world s) div 1000) amount after country ms then Inr () else Inl (error_of m))"
proof -
  from assms(1) obtain disc pad where ok: "module_ok ms" "typed_module ms" "acc_owner info = module_program M ms"
    and d: "acc_data info = disc @ module_bytes ms @ pad" "length disc = 8"
      "\<And>d. mint_discriminator ms = Some d \<Longrightarrow> disc = d"
    unfolding shows_module_def by blast
  note keys = assms(2) [unfolded module_keys_distinct_def]
  have any: "\<exists>m. contains_any m supply_words"
    by (rule exI [of _ "''Max supply''"], rule contains_supply_word [of "''Max supply''"]) (simp_all add: supply_words_def)
  have plain: "mint_discriminator ms = None \<Longrightarrow> ?thesis"
    using any ok(3) keys by (cases ms) (auto simp: check_module_for_mint_def Let_def h_return_def)
  have found: "hasDiscriminator (acc_data info) d" if "mint_discriminator ms = Some d" for d
    using d that hasDiscriminator_prefix by simp
  have refuses: "?thesis" if "take (length w) m = w" "w \<in> set supply_words"
    "check_module_for_mint C M amount after country decimals (k, Some info) s = refuse (\<not> mint_allowed
       (now_ms C (world s) div 1000) amount after country ms) m s" for w m
    using that contains_supply_word [OF that(2,1)] by (intro exI [of _ m]) (simp add: refuse_run)
  note texts = balance_text_def transfer_text_def lockup_text_def country_text_def supply_words_def
  note run = check_module_for_mint_def Let_def bind_pure_run seconds_now_run not_less not_le
  show ?thesis
  proof (cases ms)
    case (MaxBalanceModule w m v b)
    have "readU64 (acc_data info) 72 = Inr v" "length (acc_data info) \<ge> 80"
      using readU64_skip [of v "disc @ w @ m" 72] ok d MaxBalanceModule by simp_all
    with found keys ok(3) MaxBalanceModule show ?thesis
      by (intro refuses [of "''Max balance''" "balance_text after v"])
        (simp add: texts, simp add: texts, simp add: run)
  next
    case (MaxTransferModule w m v b)
    have "readU64 (acc_data info) 72 = Inr v" "length (acc_data info) \<ge> 80"
      using readU64_skip [of v "disc @ w @ m" 72] ok d MaxTransferModule by simp_all
    with found keys ok(3) MaxTransferModule show ?thesis
      by (intro refuses [of "''Max transfer''" "transfer_text amount v"])
        (simp add: texts, simp add: texts, simp add: run)
  next
    case (LockupModule w m v b)
    have "readI64 (acc_data info) 72 = Inr v" "length (acc_data info) \<ge> 80"
      using readI64_skip [of v "disc @ w @ m" 72] ok d LockupModule by simp_all
    with found keys ok(3) LockupModule show ?thesis
      by (intro refuses [of "''Lockup active''" "lockup_text v"])
        (simp add: texts, simp add: texts, simp add: run)
  next
    case (SupplyCapModule w m h v n b)
    have "readU64 (acc_data info) 104 = Inr v" "readU64 (acc_data info) 112 = Inr n" "length (acc_data info) \<ge> 121"
      using readU64_skip [of v "disc @ w @ m @ h" 104] readU64_skip [of n "disc @ w @ m @ h @ le_bytes 8 v" 112]
        ok d SupplyCapModule by (simp_all add: u64_fits)
    moreover have "\<exists>w \<in> set supply_words. take (length w) (supply_text C k v n amount decimals) = w"
      by (simp add: supply_text_def supply_words_def Let_def)
    ultimately show ?thesis using found keys ok(3) SupplyCapModule
      by (elim bexE, intro refuses) (assumption, assumption, simp add: run)
  next
    case (CountryRestrictModule w m cs b)
    have "readU32 (acc_data info) 72 = Inr (int (length cs))"
      using readU32_prefix [of "int (length cs)" "disc @ w @ m"] ok d CountryRestrictModule by simp
    moreover have "country_listed (length cs) (acc_data info) 76 country = Inr (country \<in> set cs)"
      using country_listed_reads [of cs "disc @ w @ m @ le_bytes 4 (int (length cs))" "le_bytes 1 b @ pad" country]
        ok d CountryRestrictModule by simp
    ultimately show ?thesis using found keys ok(3) CountryRestrictModule
      by (intro refuses [of "''Country not allowed''" "country_text C k country"])
        (simp add: texts, simp add: texts, simp add: run)
  qed (use plain in simp_all)
qed


text \<open>The check passes all modules or throws an error that is not dropped.\<close>

lemma each_module_spec:
  assumes "\<And>e. e \<in> set es \<Longrightarrow> \<exists>m. contains_any m supply_words \<and>
      body e s = (s, if ok e then Inr () else Inl (error_of m))"
  shows "\<exists>m. contains_any m supply_words \<and>
    h_each body es s = (s, if \<forall>e \<in> set es. ok e then Inr () else Inl (error_of m))"
  using assms
proof (induction es)
  case Nil
  have "contains_any ''Max supply'' supply_words" by (rule contains_supply_word [of "''Max supply''"]) (simp_all add: supply_words_def)
  then show ?case by (auto simp: h_return_def)
next
  case (Cons e es)
  from Cons.prems [of e] obtain m where m: "contains_any m supply_words"
    "body e s = (s, if ok e then Inr () else Inl (error_of m))" by auto
  from Cons.IH Cons.prems obtain m' where m': "contains_any m' supply_words"
    "h_each body es s = (s, if \<forall>e \<in> set es. ok e then Inr () else Inl (error_of m'))" by auto
  show ?case
    using m m' by (cases "ok e") (auto simp: h_bind_def)
qed

lemma thrown_error [simp]: "thrown_message (error_of m) = Some m"
  by (simp add: thrown_message_def error_of_def js_field_def)

text \<open>The account of a module of the compliance state as both sides see it.\<close>

definition module_shown :: "module_ids \<Rightarrow> accounts \<Rightarrow> pubkey \<Rightarrow> account option \<Rightarrow> module_state \<Rightarrow> bool" where
  "module_shown M A k info ms \<longleftrightarrow>
     A k = (module_program M ms, ModuleCell ms) \<and> (\<exists>a. info = Some a \<and> shows_module M ms a)"

lemma verify_supply_spec:
  assumes "verifySupplyCapForMint C P M complianceState amount after country decimals s = (t, Inr ())"
    and "getProgramIds C P s = (s', Inr ids)"
    and "anchor_compliance_state C (world s) (si_compliance ids) complianceState = Inr st"
    and "accounts_at C (world s) (cs_modules st) = Inr infos"
    and "length infos = length (cs_modules st)" and "module_keys_distinct M"
    and "\<And>i. i < length infos \<Longrightarrow> module_shown M A (cs_modules st ! i) (infos ! i) (ms i)"
    and "i < length infos"
  shows "mint_allowed (now_ms C (world s) div 1000) amount after country (ms i)"
proof -
  have w: "world s' = world s"
    using reads_onlyD [of "getProgramIds C P" s] assms(2) by (simp add: getProgramIds_def reads_intros)
  let ?body = "check_module_for_mint C M amount after country decimals"
  let ?ok = "\<lambda>e. \<forall>i. i < length infos \<longrightarrow> e = (cs_modules st ! i, infos ! i) \<longrightarrow>
    mint_allowed (now_ms C (world s) div 1000) amount after country (ms i)"
  let ?es = "with_infos (cs_modules st) infos"
  have es: "?es = map (\<lambda>i. (cs_modules st ! i, infos ! i)) [0..<length infos]"
    using assms(5) by (simp add: with_infos_def info_at_def)
  have "\<exists>m. contains_any m supply_words \<and> ?body e s' = (s', if ?ok e then Inr () else Inl (error_of m))"
    if e: "e \<in> set ?es" for e
  proof -
    from e es obtain j where j: "j < length infos" "e = (cs_modules st ! j, infos ! j)" by auto
    from assms(7) [OF j(1)] obtain a where a: "infos ! j = Some a" "shows_module M (ms j) a"
      and A: "A (cs_modules st ! j) = (module_program M (ms j), ModuleCell (ms j))"
      unfolding module_shown_def by blast
    have same: "ms i = ms j" if "i < length infos" "cs_modules st ! i = cs_modules st ! j" for i
      using assms(7) [OF that(1)] A that(2) unfolding module_shown_def by simp
    have ok: "?ok e \<longleftrightarrow> mint_allowed (now_ms C (world s) div 1000) amount after country (ms j)"
      unfolding j(2) prod.inject using j(1) same by metis
    show ?thesis
      unfolding ok unfolding j(2) a(1)
      using check_module_spec [OF a(2) assms(6), of C amount after country decimals "cs_modules st ! j" s']
      unfolding w .
  qed
  from each_module_spec [of ?es ?body s' ?ok, OF this] obtain m where m: "contains_any m supply_words"
    "h_each ?body ?es s' = (s', if \<forall>e \<in> set ?es. ?ok e then Inr () else Inl (error_of m))" by blast
  have "h_catch (h_each ?body ?es) (\<lambda>err. case thrown_message err of
        Some m \<Rightarrow> if contains_any m supply_words then h_throw err else h_return ()
      | None \<Rightarrow> h_return ()) s' = (t, Inr ())"
    using assms(1) w unfolding verifySupplyCapForMint_def
    by (simp add: h_catch_def h_bind_def assms(2) ask_def assms(3,4))
  moreover have "h_each ?body ?es s' = (s', Inl (error_of m))" if "\<not> (\<forall>e \<in> set ?es. ?ok e)"
    using m(2) unfolding if_not_P [OF that] .
  ultimately have all: "\<forall>e \<in> set ?es. ?ok e"
    using m(1) by (rule_tac ccontr) (simp add: h_catch_def, simp add: h_throw_def)
  have "(cs_modules st ! i, infos ! i) \<in> set ?es" unfolding es using assms(8) by simp
  with all assms(8) show ?thesis by blast
qed

section \<open>Mint\<close>

text \<open>The two errors by which a module refuses.\<close>

definition refuses_mint :: "comp_error + 'a \<Rightarrow> bool" where
  "refuses_mint r \<longleftrightarrow> r = Inl ComplianceCheckFailed \<or> r = Inl (ModuleError ''MaxSupplyExceeded'')"

lemma refuses_mint_simps [simp]:
  "refuses_mint (Inr x) = False" "refuses_mint (Inl MissingModuleSupportAccount) = False"
  "refuses_mint (Inl (RuntimeError e)) = False" "refuses_mint (Inl ModuleHookAuthorityMismatch) = False"
  "refuses_mint (Inl MissingModuleProgramAccount) = False"
  "refuses_mint (Inl (ModuleError m)) = (m = ''MaxSupplyExceeded'')"
  by (simp_all add: refuses_mint_def)

lemma find_count_error:
  "find_country_count_account R A accounts m program country = Inl e \<Longrightarrow> \<not> refuses_mint (Inl e :: comp_error + 'a)"
  by (induction accounts) (auto split: cell.splits prod.splits option.splits if_splits)

lemma module_guards_refuse:
  "refuses_mint (ensure_hook_authority sk h r) \<Longrightarrow> refuses_mint r"
  "refuses_mint (module_program_account A remaining k r) \<Longrightarrow> refuses_mint r"
  "refuses_mint (with_module_authority R seed k program w m h b authority r) \<Longrightarrow> refuses_mint r"
  "refuses_mint (call_module R remaining k program writes f A) \<Longrightarrow> fst (A k) = program \<Longrightarrow> refuses_mint (f A)"
  by (auto simp: ensure_hook_authority_def module_program_account_def with_module_authority_def call_module_def
      split: if_splits option.splits)

lemma created_step_allowed:
  assumes "mint_allowed now amount after country ms" and "typed_module ms" and "now \<le> rt_now R"
    and A: "A k = (module_program (rt_modules R) ms, ModuleCell ms)"
  shows "\<not> refuses_mint (created_step R state_key remaining amount after country k A)"
proof (cases ms)
  case (MaxInvestorsModule w m h v n b)
  show ?thesis
  proof
    assume "refuses_mint (created_step R state_key remaining amount after country k A)"
    then have "refuses_mint (max_investors_created R state_key k amount after A)"
      using A MaxInvestorsModule by (auto simp: created_step_def Let_def dest!: module_guards_refuse)
    then show False using A MaxInvestorsModule
      by (auto simp: max_investors_created_def mutate_max_investors_def overflow_or_def
          dest!: module_guards_refuse split: option.splits)
  qed
next
  case (SupplyCapModule w m h v n b)
  show ?thesis
  proof
    assume "refuses_mint (created_step R state_key remaining amount after country k A)"
    then have "refuses_mint (supply_cap_created R state_key k amount A)"
      using A SupplyCapModule by (auto simp: created_step_def Let_def dest!: module_guards_refuse)
    then show False using A SupplyCapModule assms(1,2)
      by (auto simp: supply_cap_created_def mutate_supply_cap_def overflow_or_def checked_add_def
          dest!: module_guards_refuse)
  qed
next
  case (InvestorCountryCapModule w m h caps b)
  show ?thesis
  proof
    assume r: "refuses_mint (created_step R state_key remaining amount after country k A)"
    show False
    proof (cases "find_country_count_account R A remaining k (fst (A k)) country")
      case (Inl e)
      then show False using r A InvestorCountryCapModule find_count_error [OF Inl]
        by (auto simp: created_step_def Let_def dest!: module_guards_refuse)
    next
      case (Inr kc)
      then have "refuses_mint (country_cap_created R state_key k kc amount after country A)"
        using r A InvestorCountryCapModule by (auto simp: created_step_def Let_def dest!: module_guards_refuse)
      then show False using A InvestorCountryCapModule
        by (auto simp: country_cap_created_def mutate_country_count_def overflow_or_def
          dest!: module_guards_refuse split: option.splits cell.splits if_splits)
    qed
  qed
qed (use assms in \<open>auto simp: created_step_def require_check_def Let_def\<close>)

text \<open>
  C9. The check of the compliance modules before a mint refines the one of the compliance
  program: when it passes, with every module account read as its program wrote it and a clock
  not ahead of the chain, then no module of the token refuses the mint in the hook
  \<open>created\<close>.
\<close>

theorem mint_guard_refines_compliance:
  assumes "verifySupplyCapForMint C P M complianceState amount after country decimals s = (t, Inr ())"
    and "getProgramIds C P s = (s', Inr ids)"
    and "anchor_compliance_state C (world s) (si_compliance ids) complianceState = Inr st"
    and "accounts_at C (world s) (cs_modules st) = Inr infos"
    and "length infos = length (cs_modules st)" and "module_keys_distinct M"
    and "\<forall>i < length infos. \<exists>ms. module_shown M A (cs_modules st ! i) (infos ! i) ms"
    and "rt_modules R = M" and "now_ms C (world s) div 1000 \<le> rt_now R"
  shows "\<forall>k \<in> set (cs_modules st).
    \<not> refuses_mint (created_step R state_key remaining amount after country k A)"
proof
  fix k assume "k \<in> set (cs_modules st)"
  then obtain i where i: "i < length infos" "k = cs_modules st ! i"
    using assms(5) by (auto simp: in_set_conv_nth)
  from assms(7) obtain ms where ms: "\<And>i. i < length infos \<Longrightarrow> module_shown M A (cs_modules st ! i) (infos ! i) (ms i)"
    by metis
  have A: "A k = (module_program M (ms i), ModuleCell (ms i))" and typed: "typed_module (ms i)"
    using ms [OF i(1)] i(2) by (auto simp: module_shown_def shows_module_def)
  have "mint_allowed (now_ms C (world s) div 1000) amount after country (ms i)"
    by (rule verify_supply_spec [OF assms(1-6) ms i(1)])
  then show "\<not> refuses_mint (created_step R state_key remaining amount after country k A)"
    by (rule created_step_allowed) (use typed A assms(8,9) in simp_all)
qed

text \<open>
  C13. A mint that returns a signature has gone through its checks in order. The token account
  at the derived address, read at the start or after it was created, is of this mint and the
  recipient's. In that world the registry the token state names is bound to the mint, has the
  owner of the storage account it names, and the wallet identity at the recipient's address is
  the recipient's own, active and of that storage; every topic the token requires has a listed
  claim that is valid by then, whose accounts are among those sent. After the counts of the
  country were prepared, the check of the modules passed, and in that same world the mint was
  sent, for the recipient, the amount and the balance read plus the amount, with this identity,
  token account and mint. The world it left is the final one.
\<close>

theorem mint_returns_after_checks:
  assumes "mint C P M mintPubkey recipient amount s = (t, Inr sig)"
  shows "\<exists>s0 ids ts dest account w1 registry identity metas s2 s3 s4 s5 remaining accounts.
    getProgramIds C P s = (s0, Inr ids) \<and> fetchTokenState C P mintPubkey s0 = (s0, Inr ts) \<and>
    ata_of C mintPubkey recipient = Inr dest \<and> dest \<noteq> recipient \<and>
    account_opened C (world s) mintPubkey recipient dest account w1 \<and>
    spl_mint account = mintPubkey \<and> spl_owner account = recipient \<and>
    registry_read C w1 mintPubkey recipient ids ts registry \<and>
    recipient_cleared C w1 recipient registry identity metas \<and>
    world s2 = w1 \<and>
    prepareCountryCapCountAccounts C M (rc_complianceState registry) [wd_country identity] ids s2 = (s3, Inr ()) \<and>
    world s4 = world s3 \<and>
    verifySupplyCapForMint C P M (rc_complianceState registry) amount (spl_amount account + amount)
      (wd_country identity) (tv_decimals ts) s4 = (s5, Inr ()) \<and>
    set metas \<subseteq> set remaining \<and>
    map_of accounts ''walletIdentity'' = Some (rc_walletIdentity registry) \<and>
    map_of accounts ''destinationTokenAccount'' = Some dest \<and> map_of accounts ''tokenMintAccount'' = Some mintPubkey \<and>
    send_tx C [AnchorIx (si_token ids) ''mint'' [BPubkey recipient, BU64 amount, BU64 (spl_amount account + amount)]
       accounts remaining] (world s3) = (world t, Inr sig)"
  using assms
proof (rule mint_stages)
  fix s0 ids ts dest s1 registry identity v s2 s3 remaining s4 s5 tokenState ownerState agentRole frozen tokenProgram
    and account :: spl_account
  assume ids: "getProgramIds C P s = (s0, Inr ids)" and ts: "fetchTokenState C P mintPubkey s0 = (s0, Inr ts)"
    and dest: "ata_of C mintPubkey recipient = Inr dest"
    and open_: "destination_account C (wallet_key C) recipient mintPubkey dest s0 = (s1, Inr account)"
    and own: "spl_mint account = mintPubkey" "spl_owner account = recipient"
    and pre: "verifyRecipientMintPreflight C P mintPubkey recipient (Some dest) (Some ids) (Some ts) s1 = (s2, Inr (registry, identity, v))"
    and prep: "prepareCountryCapCountAccounts C M (rc_complianceState registry) [wd_country identity] ids s2 = (s3, Inr ())"
    and rem: "getMintRemainingAccounts C M (rc_walletIdentity registry) (rc_complianceState registry) ids
       (cv_remainingAccounts v) s3 = (s4, Inr remaining)"
    and cap: "verifySupplyCapForMint C P M (rc_complianceState registry) amount (spl_amount account + amount)
       (wd_country identity) (tv_decimals ts) s4 = (s5, Inr ())"
    and send: "send_tx C [AnchorIx (si_token ids) ''mint'' [BPubkey recipient, BU64 amount, BU64 (spl_amount account + amount)]
       (mint_accounts (wallet_key C) tokenState ownerState agentRole registry (si_compliance ids) frozen mintPubkey
         dest tokenProgram) remaining] (world s5) = (world t, Inr sig)"
  let ?accounts = "mint_accounts (wallet_key C) tokenState ownerState agentRole registry (si_compliance ids) frozen
    mintPubkey dest tokenProgram"
  have "world s0 = world s" using program_ids_kept [OF ids] by simp
  then have "account_opened C (world s) mintPubkey recipient dest account (world s1)"
    using destination_account_InrD [OF open_] by simp
  moreover have "world s4 = world s3" "world s5 = world s3"
    using reads_onlyD [OF remaining_reads, of C M "rc_walletIdentity registry" "rc_complianceState registry" ids
        "cv_remainingAccounts v" s3]
      reads_onlyD [OF supply_check_reads, of C P M "rc_complianceState registry" amount "spl_amount account + amount"
        "wd_country identity" "tv_decimals ts" s4] rem cap by simp_all
  moreover have "map_of ?accounts ''walletIdentity'' = Some (rc_walletIdentity registry)"
    "map_of ?accounts ''destinationTokenAccount'' = Some dest" "map_of ?accounts ''tokenMintAccount'' = Some mintPubkey"
    by (simp_all add: mint_accounts_def)
  moreover have "world s2 = world s1" "registry_read C (world s1) mintPubkey recipient ids ts registry" "dest \<noteq> recipient"
    "recipient_cleared C (world s1) recipient registry identity (cv_remainingAccounts v)"
    using preflight_InrD [OF pre] by simp_all
  moreover note getMintRemainingAccounts_keeps [OF rem]
  ultimately show ?thesis using ids ts dest own prep cap send by metis
qed

section \<open>One claim for a request\<close>

text \<open>
  C36. The check of a claim for a request decides in favour of a trusted provider although the
  claim account could not be read or does not exist: the index of the topic alone makes the
  claim active, and what was never read counts neither as revoked, nor as expired, nor as
  wrongly signed.
\<close>

theorem unread_claim_passes_scoped_check:
  assumes "account_at C (world s) claimTopicIndex = Inr (Some idx)"
    and "length (acc_data idx) > 116" and "acc_data idx ! 116 = 1"
    and "readPubkey C (acc_data idx) 80 = Inr active"
    and "account_at C (world s) active = Inl e \<or> account_at C (world s) active = Inr None"
  shows "\<exists>p. probe_claim C claimTopicIndex issuerFid s = (s, Inr p) \<and> pr_checked p = Some active \<and>
    final_decision p True"
proof -
  let ?p = "no_claim\<lparr> pr_active := True, pr_checked := Some active \<rparr>"
  obtain n where n: "readU32 (acc_data idx) 112 = Inr n"
    using assms(2) by (simp add: readU32_def read_uint_def)
  have "probe_claim C claimTopicIndex issuerFid s = (s, Inr ?p)"
    using assms(5) by (rule disjE)
      (simp_all add: probe_claim_def try_step_def ask_def assms(1-4) n key_at_def pure_step_def h_return_def Let_def)
  then show ?thesis by (intro exI [of _ ?p]) (simp add: final_decision_def no_claim_def)
qed

section \<open>Witnesses\<close>

text \<open>A chain whose keys are written as one character, with a token of mint 24 for the recipient 8.\<close>

definition key_text :: "pubkey \<Rightarrow> string" where
  "key_text k = [char_of (uint (hd k))]"

definition text_key :: "string \<Rightarrow> string + pubkey" where
  "text_key s = (if s = [] then Inl ''Invalid public key input'' else Inr (demo_key (char_code (hd s))))"

definition mint_pda :: "bytes list \<Rightarrow> pubkey \<Rightarrow> string + (pubkey \<times> int)" where
  "mint_pda seeds p = (if take 1 seeds = [ascii ''wallet_identity''] then Inr (demo_key 25, 255) else demo_pda seeds p)"

definition mint_client :: "ledger_world client" where
  "mint_client = demo_client\<lparr> pk_of_string := text_key, toBase58 := key_text, find_pda := mint_pda,
     ata_of := (\<lambda>m w. Inr (demo_key 40)),
     spl_account_at := (\<lambda>w k. Inr \<lparr> spl_mint = demo_key 24, spl_owner = demo_key 8, spl_amount = 5 \<rparr>),
     spl_mint_at := (\<lambda>w k. Inr ()),
     anchor_token_state := (\<lambda>w p k. Inr \<lparr> ts_tokenMint = demo_key 24, ts_identityRegistry = demo_key 17,
       ts_compliance = demo_key 19, ts_paused = False, ts_decimals = 2, ts_name = [], ts_symbol = [], ts_isin = [],
       ts_bump = 255 \<rparr>),
     anchor_compliance_state := (\<lambda>w p k. Inr \<lparr> cs_owner = demo_key 7, cs_tokenMint = demo_key 24,
       cs_modules = [demo_key 41], cs_modulesPaused = False, cs_bump = 255 \<rparr>) \<rparr>"

text \<open>The programs are those of the constants, whose texts begin with \<open>F\<close> (70), \<open>9\<close> (57) and \<open>H\<close> (72).\<close>

definition mint_world :: ledger_world where
  "mint_world =
    [(demo_key 17, \<lparr> acc_owner = demo_key 30, acc_data = replicate 8 0 @ demo_key 24 @ demo_key 7 @ demo_key 14 @
        demo_key 12 @ demo_key 18 \<rparr>),
     (demo_key 14, \<lparr> acc_owner = demo_key 67, acc_data = replicate 8 0 @ demo_key 7 \<rparr>),
     (demo_key 12, \<lparr> acc_owner = demo_key 57, acc_data = replicate 8 0 @ demo_key 7 \<rparr>),
     (demo_key 18, \<lparr> acc_owner = demo_key 56, acc_data = replicate 8 0 @ borsh (claim_topics_state_layout demo_topics) \<rparr>),
     (demo_key 19, \<lparr> acc_owner = demo_key 72, acc_data = replicate 8 0 \<rparr>),
     (demo_key 25, \<lparr> acc_owner = demo_key 67, acc_data = replicate 8 0 @ borsh (wallet_identity_layout demo_wallet_record) \<rparr>),
     (demo_key 1, \<lparr> acc_owner = demo_key 70,
        acc_data = CLAIM_ACCOUNT_DISCRIMINATOR @ borsh (claim_account_layout demo_claim) \<rparr>),
     (demo_key 9, \<lparr> acc_owner = demo_key 57,
        acc_data = ISSUER_ENTRY_DISCRIMINATOR @ borsh (issuer_entry_layout demo_entry) \<rparr>),
     (demo_key 3, \<lparr> acc_owner = demo_key 57,
        acc_data = ISSUER_ENTRY_DISCRIMINATOR @ borsh (issuer_entry_layout demo_entry) \<rparr>),
     (demo_key 4, \<lparr> acc_owner = demo_key 70,
        acc_data = replicate 8 0 @ borsh (fid_account_layout (demo_fid 6 True)) \<rparr>),
     (demo_key 5, \<lparr> acc_owner = demo_key 70,
        acc_data = replicate 8 0 @ borsh (fid_account_layout (demo_fid 8 False)) \<rparr>),
     (demo_key 41, \<lparr> acc_owner = chain_key_of 33,
        acc_data = MAX_BALANCE_DISCRIMINATOR @ module_bytes (MaxBalanceModule (demo_key 7) (demo_key 24) 100 255) \<rparr>)]"

definition mint_service :: "ledger_world service" where
  "mint_service = \<lparr> factoryStatePromise = Some None, world = mint_world \<rparr>"

definition demo_programs :: program_ids where
  "demo_programs = \<lparr> factory = demo_key 60, token = demo_key 61, tokenHook = demo_key 62, irp = demo_key 63,
     irs = demo_key 64, tir = demo_key 65, ctr = demo_key 66, compliance = demo_key 67, fid = demo_key 68 \<rparr>"

theorem mint_returns_after_checks_witness:
  "\<exists>registry identity claims. recipient_cleared mint_client mint_world (demo_key 8) registry identity claims \<and>
    (\<exists>ids ts. registry_read mint_client mint_world (demo_key 24) (demo_key 8) ids ts registry)"
proof -
  have "case mint mint_client demo_programs demo_modules (demo_key 24) (demo_key 8) 30 mint_service of
      (t, Inl e) \<Rightarrow> False | (t, Inr sig) \<Rightarrow> world t = mint_world \<and> sig = ''signature''" by code_simp
  then obtain t where t: "mint mint_client demo_programs demo_modules (demo_key 24) (demo_key 8) 30 mint_service
      = (t, Inr ''signature'')" by (auto split: prod.splits sum.splits)
  have same: "account_opened mint_client (world mint_service) (demo_key 24) (demo_key 8) dest account w \<Longrightarrow> w = mint_world"
    for dest account w by (auto simp: account_opened_def mint_client_def mint_service_def)
  from mint_returns_after_checks [OF t] show ?thesis using same by metis
qed

definition demo_balance_module :: module_state where
  "demo_balance_module = MaxBalanceModule (demo_key 7) (demo_key 24) 100 255"

definition mint_accounts_at :: accounts where
  "mint_accounts_at = no_accounts(demo_key 41 := (chain_key_of 33, ModuleCell demo_balance_module))"

theorem mint_guard_refines_compliance_witness:
  "\<not> refuses_mint (created_step (demo_runtime\<lparr> rt_now := 1700000000 \<rparr>) (demo_key 19) [] 30 35 586 (demo_key 41) mint_accounts_at)"
proof -
  let ?st = "\<lparr> cs_owner = demo_key 7, cs_tokenMint = demo_key 24, cs_modules = [demo_key 41], cs_modulesPaused = False, cs_bump = 255 \<rparr>"
  let ?info = "\<lparr> acc_owner = chain_key_of 33, acc_data = MAX_BALANCE_DISCRIMINATOR @ module_bytes demo_balance_module \<rparr>"
  have v: "verifySupplyCapForMint mint_client demo_programs demo_modules (demo_key 19) 30 35 586 2 mint_service = (mint_service, Inr ())"
  proof -
    have "case verifySupplyCapForMint mint_client demo_programs demo_modules (demo_key 19) 30 35 586 2 mint_service of
      (t, Inl e) \<Rightarrow> False | (t, Inr u) \<Rightarrow> factoryStatePromise t = factoryStatePromise mint_service \<and> world t = world mint_service"
      by code_simp
    then show ?thesis by (auto split: prod.splits sum.splits)
  qed
  have g: "getProgramIds mint_client demo_programs mint_service = (mint_service, Inr (DEPLOYED_PROGRAM_IDS mint_client))"
    by (simp add: getProgramIds_def getFactoryState_def mint_service_def h_bind_def h_return_def)
  have c: "anchor_compliance_state mint_client (world mint_service) (si_compliance (DEPLOYED_PROGRAM_IDS mint_client)) (demo_key 19) = Inr ?st"
    by (simp add: mint_client_def demo_client_def)
  have "map_of mint_world (demo_key 41) = Some ?info" unfolding demo_balance_module_def by code_simp
  then have i: "accounts_at mint_client (world mint_service) (cs_modules ?st) = Inr [Some ?info]"
    by (simp add: mint_client_def demo_client_def mint_service_def)
  have d: "module_keys_distinct demo_modules" by code_simp
  have "length MAX_BALANCE_DISCRIMINATOR = 8" by (simp add: MAX_BALANCE_DISCRIMINATOR_def byte_list_def)
  then have "shows_module demo_modules demo_balance_module ?info"
    unfolding shows_module_def
    by (intro conjI exI [of _ MAX_BALANCE_DISCRIMINATOR] exI [of _ "[]"])
      (simp_all add: demo_balance_module_def demo_modules_def fits_def U64_MAX_def)
  then have m: "module_shown demo_modules mint_accounts_at (demo_key 41) (Some ?info) demo_balance_module"
    by (simp add: module_shown_def mint_accounts_at_def demo_balance_module_def demo_modules_def)
  have "\<forall>k \<in> set (cs_modules ?st). \<not> refuses_mint (created_step (demo_runtime\<lparr> rt_now := 1700000000 \<rparr>) (demo_key 19) [] 30 35 586 k mint_accounts_at)"
    by (rule mint_guard_refines_compliance [OF v g c i _ d])
      (use m in \<open>auto simp: demo_runtime_def mint_client_def demo_client_def\<close>)
  then show ?thesis by simp
qed

text \<open>An active index (key 50) of a claim account (key 51) that does not exist.\<close>

definition stale_index_world :: ledger_world where
  "stale_index_world = [(demo_key 50, \<lparr> acc_owner = demo_key 70, acc_data = replicate 80 0 @ demo_key 51 @
     le_bytes 4 0 @ [1, 255] \<rparr>)]"

theorem unread_claim_passes_scoped_check_witness:
  "\<exists>p. probe_claim mint_client (demo_key 50) (demo_key 4) (mint_service\<lparr> world := stale_index_world \<rparr>)
      = (mint_service\<lparr> world := stale_index_world \<rparr>, Inr p) \<and> final_decision p True"
proof -
  let ?s = "mint_service\<lparr> world := stale_index_world \<rparr>"
  let ?idx = "\<lparr> acc_owner = demo_key 70, acc_data = replicate 80 0 @ demo_key 51 @ le_bytes 4 0 @ [1, 255] \<rparr>"
  have "account_at mint_client (world ?s) (demo_key 50) = Inr (Some ?idx)"
    by (simp add: mint_client_def demo_client_def stale_index_world_def)
  moreover have "account_at mint_client (world ?s) (demo_key 51) = Inr None" by code_simp
  moreover have "length (acc_data ?idx) > 116" "acc_data ?idx ! 116 = 1"
    "readPubkey mint_client (acc_data ?idx) 80 = Inr (demo_key 51)" by code_simp+
  ultimately show ?thesis
    using unread_claim_passes_scoped_check [of mint_client ?s "demo_key 50" ?idx "demo_key 51"] by blast
qed

end
