(* ===== verification/TransferProperties.thy ===== *)
theory TransferProperties
  imports TransferOperations TokenServiceProperties
begin

text \<open>
  Correctness of the transfer service: a transfer returns, what a transfer that succeeded has sent, what
  a passed preflight has checked, which accounts go into the lookup table, and a status that hides a
  blocker.
\<close>

section \<open>Operations that return\<close>

named_theorems returns_intros \<open>a running operation returns\<close>

definition returns :: "('w, 'a) running \<Rightarrow> bool" where
  "returns m \<longleftrightarrow> (\<forall>s. \<exists>r. m s = Some r)"

lemma returns_run [returns_intros]: "returns (run m)"
  by (simp add: returns_def run_def)

lemma returns_bind [returns_intros]: "returns m \<Longrightarrow> (\<And>x. returns (k x)) \<Longrightarrow> returns (r_bind m k)"
  unfolding returns_def r_bind_def by (fastforce split: option.split prod.split sum.split)

lemma returns_catch [returns_intros]: "returns m \<Longrightarrow> (\<And>e. returns (k e)) \<Longrightarrow> returns (r_catch m k)"
  unfolding returns_def r_catch_def by (fastforce split: option.split prod.split sum.split)

lemma returns_cases [returns_intros]:
  "returns m \<Longrightarrow> returns n \<Longrightarrow> returns (if b then m else n)"
  "(\<And>x y. returns (l x y)) \<Longrightarrow> returns (case p of (x, y) \<Rightarrow> l x y)"
  by (simp, cases p, simp)

text \<open>What \<open>setTimeout\<close> documents: the timer of 500 milliseconds takes no less.\<close>

definition timers_advance :: "('w, 'c) transfer_client_scheme \<Rightarrow> bool" where
  "timers_advance C \<longleftrightarrow> (\<forall>w. now_ms C w + 500 \<le> now_ms C (pause_ms C 500 w))"

lemma poll_reads [reads_intros]: "reads_only (poll_lookup_table C address count)"
  unfolding poll_lookup_table_def by (intro reads_intros)

lemma poll_world: "poll_lookup_table C address count s = (t, r) \<Longrightarrow> world t = world s"
  using reads_onlyD [OF poll_reads, of C address count s] by simp

lemma await_returns:
  assumes "timers_advance C"
  shows "\<exists>r. await_lookup_table C address count deadline found s = Some r"
proof (induction "nat (deadline - now_ms C (world s))" arbitrary: found s rule: less_induct)
  case less
  obtain t r where p: "poll_lookup_table C address count s = (t, r)" by (rule prod.exhaust)
  let ?s' = "fst (pause_for C 500 t)"
  have w: "world ?s' = pause_ms C 500 (world s)"
    using poll_world [OF p] by (simp add: pause_for_def change_world_def)
  have "\<exists>r. await_lookup_table C address count deadline found' ?s' = Some r"
    if "now_ms C (world s) < deadline" for found'
  proof (rule less.hyps)
    have "now_ms C (world s) + 500 \<le> now_ms C (world ?s')" using assms by (simp add: w timers_advance_def)
    with that show "nat (deadline - now_ms C (world ?s')) < nat (deadline - now_ms C (world s))" by linarith
  qed
  then show ?case
    by (subst await_lookup_table.simps) (simp add: p split: sum.split)
qed

lemma await_returns_rule [returns_intros]:
  "timers_advance C \<Longrightarrow> returns (await_lookup_table C address count deadline found)"
  unfolding returns_def by (intro allI await_returns)

lemma wait_returns [returns_intros]:
  "timers_advance C \<Longrightarrow> returns (waitForLookupTableActivation C address count)"
  unfolding waitForLookupTableActivation_def by (intro returns_intros)

lemma create_returns [returns_intros]:
  "timers_advance C \<Longrightarrow> returns (createLookupTableForInstructions C payer ixs)"
  unfolding createLookupTableForInstructions_def by (intro returns_intros)

lemma send_returns [returns_intros]:
  "timers_advance C \<Longrightarrow> returns (sendVersionedInstructions C payer ixs)"
  unfolding sendVersionedInstructions_def versioned_transaction_def by (intro returns_intros)

text \<open>
  C15. A transfer returns with a result and throws nothing, whatever the node and the wallet
  answer: the wait for the lookup table ends at its deadline, provided that a timer of half a
  second takes no less, and the wait for the confirmation after twelve rounds.
\<close>

theorem every_transfer_returns:
  assumes "timers_advance C"
  shows "\<exists>t r. executeTransfer C P M mintKey from to amount decimals s = Some (t, Inr r)"
proof -
  have "returns (executeTransfer C P M mintKey from to amount decimals)"
    unfolding executeTransfer_def using assms by (intro returns_intros)
  then obtain t r where e: "executeTransfer C P M mintKey from to amount decimals s = Some (t, r)"
    unfolding returns_def by (metis prod.exhaust)
  moreover from e obtain x where "r = Inr x"
    unfolding executeTransfer_def r_catch_def run_def h_return_def
    by (auto split: option.splits prod.splits sum.splits)
  ultimately show ?thesis by blast
qed

section \<open>What a transfer sent\<close>

lemma r_bind_InrE:
  assumes "r_bind m k s = Some (u, Inr y)"
  obtains t x where "m s = Some (t, Inr x)" and "k x t = Some (u, Inr y)"
  using assms by (auto simp: r_bind_def split: option.splits prod.splits sum.splits)

lemma run_Some [simp]: "run m s = Some r \<longleftrightarrow> m s = r"
  by (simp add: run_def)

lemma change_world_InrD:
  "change_world f s = (t, Inr x) \<Longrightarrow> f (world s) = (world t, Inr x) \<and> t = s\<lparr> world := world t \<rparr>"
  by (auto simp: change_world_def split: prod.splits)

lemma compile_InrD:
  "compileVersionedTransaction C payer bh ixs tables s = (t, Inr tx) \<Longrightarrow>
    t = s \<and> tx = VersionedTx payer bh ixs tables"
  by (auto simp: compileVersionedTransaction_def Let_def h_return_def h_throw_def split: option.splits)

lemma versioned_InrD:
  assumes "versioned_transaction C payer ixs s = Some (t, Inr (tx, bh, h))"
  shows "\<exists>tables. tx = VersionedTx payer bh ixs tables \<and> \<not> too_long (getSerializedTransactionSize C tx)"
  using assms unfolding versioned_transaction_def
  by (elim r_bind_InrE) (auto elim!: r_bind_InrE h_bind_InrE dest!: compile_InrD
      simp: h_return_def Let_def split: if_splits prod.splits)

text \<open>
  What the service does to the world: it sends transactions, asks for their confirmation and lets time
  pass. A world is later than another when a sequence of these leads to it.
\<close>

inductive world_step :: "('w, 'c) transfer_client_scheme \<Rightarrow> 'w \<Rightarrow> 'w \<Rightarrow> bool" for C where
  raw_sent: "send_raw C raw retries w = (w', r) \<Longrightarrow> world_step C w w'"
| transaction_sent: "send_tx C ixs w = (w', r) \<Longrightarrow> world_step C w w'"
| confirmation: "confirm_tx C signature bh h w = (w', r) \<Longrightarrow> world_step C w w'"
| time_passed: "world_step C w (pause_ms C ms w)"

definition later :: "('w, 'c) transfer_client_scheme \<Rightarrow> 'w \<Rightarrow> 'w \<Rightarrow> bool" where
  "later C = (world_step C)\<^sup>*\<^sup>*"

lemma later_refl [simp]: "later C w w" by (simp add: later_def)
lemma later_trans: "later C w w' \<Longrightarrow> later C w' w'' \<Longrightarrow> later C w w''" by (simp add: later_def)
lemma later_step: "world_step C w w' \<Longrightarrow> later C w w'" by (simp add: later_def)

definition moves_on :: "('w, 'c) transfer_client_scheme \<Rightarrow> ('w, 'a) operation \<Rightarrow> bool" where
  "moves_on C m \<longleftrightarrow> (\<forall>s. later C (world s) (world (fst (m s))))"

definition run_moves_on :: "('w, 'c) transfer_client_scheme \<Rightarrow> ('w, 'a) running \<Rightarrow> bool" where
  "run_moves_on C m \<longleftrightarrow> (\<forall>s t r. m s = Some (t, r) \<longrightarrow> later C (world s) (world t))"

named_theorems moves_intros \<open>an operation leads to a later world\<close>

lemma moves_onD: "moves_on C m \<Longrightarrow> m s = (t, r) \<Longrightarrow> later C (world s) (world t)"
  by (simp add: moves_on_def) (metis fst_conv)

lemma run_moves_onD: "run_moves_on C m \<Longrightarrow> m s = Some (t, r) \<Longrightarrow> later C (world s) (world t)"
  by (simp add: run_moves_on_def)

lemma moves_reads: "reads_only m \<Longrightarrow> moves_on C m"
  by (simp add: moves_on_def reads_onlyD)

lemmas moves_basic [moves_intros] = reads_basic [THEN moves_reads] reads_helpers(1) [THEN moves_reads]

lemma moves_bind [moves_intros]:
  assumes "moves_on C m" and "\<And>x. moves_on C (k x)"
  shows "moves_on C (h_bind m k)"
  unfolding moves_on_def
proof
  fix s
  obtain t r where m: "m s = (t, r)" by force
  have "later C (world t) (world (fst (k x t)))" for x using assms(2) by (simp add: moves_on_def)
  note later_trans [OF moves_onD [OF assms(1) m] this]
  then show "later C (world s) (world (fst (h_bind m k s)))"
    using moves_onD [OF assms(1) m] by (cases r) (simp_all add: h_bind_def m)
qed

lemma moves_catch [moves_intros]:
  assumes "moves_on C m" and "\<And>e. moves_on C (k e)"
  shows "moves_on C (h_catch m k)"
  unfolding moves_on_def
proof
  fix s
  obtain t r where m: "m s = (t, r)" by force
  have "later C (world t) (world (fst (k e t)))" for e using assms(2) by (simp add: moves_on_def)
  note later_trans [OF moves_onD [OF assms(1) m] this]
  then show "later C (world s) (world (fst (h_catch m k s)))"
    using moves_onD [OF assms(1) m] by (cases r) (simp_all add: h_catch_def m)
qed

lemma moves_each [moves_intros]: "(\<And>x. moves_on C (body x)) \<Longrightarrow> moves_on C (h_each body xs)"
  by (induction xs) (auto intro: moves_intros)

lemma moves_cases [moves_intros]:
  "moves_on C m \<Longrightarrow> moves_on C n \<Longrightarrow> moves_on C (if b then m else n)"
  "moves_on C m \<Longrightarrow> (\<And>x. moves_on C (k x)) \<Longrightarrow> moves_on C (case v of None \<Rightarrow> m | Some x \<Rightarrow> k x)"
  "(\<And>x y. moves_on C (l x y)) \<Longrightarrow> moves_on C (case p of (x, y) \<Rightarrow> l x y)"
  by (simp, cases v, simp_all, cases p, simp)

lemma moves_changes [moves_intros]:
  "moves_on C (change_world (send_raw C raw retries))" "moves_on C (send_all C ixs)"
  "moves_on C (change_world (confirm_tx C signature bh h))" "moves_on C (pause_for C ms)"
  unfolding moves_on_def change_world_def send_all_def pause_for_def
  by (auto split: prod.split intro: later_step world_step.intros)

lemma run_moves [moves_intros]: "moves_on C m \<Longrightarrow> run_moves_on C (run m)"
  by (auto simp: run_moves_on_def dest: moves_onD)

lemma run_moves_bind [moves_intros]:
  "run_moves_on C m \<Longrightarrow> (\<And>x. run_moves_on C (k x)) \<Longrightarrow> run_moves_on C (r_bind m k)"
  unfolding run_moves_on_def r_bind_def
  by (auto split: option.splits prod.splits sum.splits) (blast intro: later_trans)

text \<open>A signature counts as confirmed by the answer to the confirmation or by a later status.\<close>

definition settled :: "('w, 'c) transfer_client_scheme \<Rightarrow> string \<Rightarrow> 'w \<Rightarrow> bool" where
  "settled C signature w \<longleftrightarrow> (\<exists>err status. status_at C w signature = Inr (Some (err, Some status)) \<and>
     \<not> js_truthy err \<and> status \<in> {''confirmed'', ''finalized''})"

definition confirmed ::
    "('w, 'c) transfer_client_scheme \<Rightarrow> string \<Rightarrow> string \<Rightarrow> int \<Rightarrow> 'w \<Rightarrow> 'w \<Rightarrow> bool" where
  "confirmed C signature bh h w w' \<longleftrightarrow>
     (\<exists>err. confirm_tx C signature bh h w = (w', Inr err) \<and> \<not> js_truthy err) \<or>
     later C w w' \<and> settled C signature w'"

lemma settledI:
  "status_at C w signature = Inr (Some (err, Some status)) \<Longrightarrow> \<not> js_truthy err \<Longrightarrow>
    status = ''confirmed'' \<or> status = ''finalized'' \<Longrightarrow> settled C signature w"
  unfolding settled_def by blast

lemma poll_signature_InrD: "poll_signature C signature n s = (t, Inr ()) \<Longrightarrow> settled C signature (world t)"
proof (induction n arbitrary: s)
  case (Suc n)
  have again: "h_bind (pause_for C 1000) (\<lambda>_. poll_signature C signature n) s = (t, Inr ()) \<Longrightarrow>
      settled C signature (world t)"
    by (elim h_bind_InrE) (rule Suc.IH)
  from Suc.prems obtain status where q: "status_at C (world s) signature = Inr status" and
    r: "(case status of None \<Rightarrow> h_bind (pause_for C 1000) (\<lambda>_. poll_signature C signature n)
        | Some (err, conf) \<Rightarrow> if js_truthy err then fail_with (decodeTransferHookError err)
            else if conf \<in> {Some ''confirmed'', Some ''finalized''} then h_return ()
            else h_bind (pause_for C 1000) (\<lambda>_. poll_signature C signature n)) s = (t, Inr ())"
    unfolding poll_signature.simps Let_def by (rule bind_askE)
  show ?case
  proof (cases status)
    case None
    with r show ?thesis by (simp add: again)
  next
    case (Some p)
    with q r show ?thesis
      by (cases p) (auto simp: h_return_def intro: again settledI split: if_splits)
  qed
qed simp

lemma poll_moves [moves_intros]: "moves_on C (poll_signature C signature n)"
proof (induction n)
  case (Suc n)
  show ?case unfolding poll_signature.simps Let_def
    by (intro moves_intros Suc)
qed (simp add: moves_intros)

lemma confirm_InrD:
  assumes "confirmSubmittedTransaction C signature bh h s = (t, Inr ())"
  shows "confirmed C signature bh h (world s) (world t)"
  using assms unfolding confirmSubmittedTransaction_def
proof (rule catch_InrE)
  assume "h_bind (change_world (confirm_tx C signature bh h))
      (\<lambda>err. if js_truthy err then fail_with (decodeTransferHookError err) else h_return ()) s = (t, Inr ())"
  then show ?thesis
    by (elim h_bind_InrE) (auto simp: confirmed_def h_return_def dest!: change_world_InrD split: if_splits)
next
  fix e v
  assume c: "h_bind (change_world (confirm_tx C signature bh h))
      (\<lambda>err. if js_truthy err then fail_with (decodeTransferHookError err) else h_return ()) s = (v, Inl e)"
    and "(if \<not> js_includes (formatTransactionError e) ''Transaction expired'' then h_throw e
      else poll_signature C signature 12) v = (t, Inr ())"
  then have p: "poll_signature C signature 12 v = (t, Inr ())" by (simp add: h_throw_def split: if_splits)
  have "moves_on C (h_bind (change_world (confirm_tx C signature bh h))
      (\<lambda>err. if js_truthy err then fail_with (decodeTransferHookError err) else h_return ()))"
    by (intro moves_intros)
  from moves_onD [OF this c] have "later C (world s) (world v)" .
  with moves_onD [OF poll_moves p] poll_signature_InrD [OF p] show ?thesis
    unfolding confirmed_def by (blast intro: later_trans)
qed

text \<open>
  The instruction went out, signed, in a transaction of at most 1232 bytes, and was confirmed: from
  the first world on, which the last one is later than.
\<close>

definition delivered ::
    "('w, 'c) transfer_client_scheme \<Rightarrow> pubkey \<Rightarrow> client_ix \<Rightarrow> string \<Rightarrow> 'w \<Rightarrow> 'w \<Rightarrow> bool" where
  "delivered C payer ix signature w w' \<longleftrightarrow>
     (\<exists>bh h tables data signed raw u v. let tx = VersionedTx payer bh [ix] tables in
        later C w u \<and> serialize_tx C tx = Inr data \<and> length data \<le> 1232 \<and> sign_tx C u tx = Inr signed \<and>
        serialize_tx C signed = Inr raw \<and> send_raw C raw (Some 3) u = (v, Inr signature) \<and>
        confirmed C signature bh h v w')"

lemma submit_InrD:
  assumes "submit_transaction C (tx, bh, h) s = (t, Inr signature)"
  shows "\<exists>signed raw v. sign_tx C (world s) tx = Inr signed \<and> serialize_tx C signed = Inr raw \<and>
    send_raw C raw (Some 3) (world s) = (v, Inr signature) \<and> confirmed C signature bh h v (world t)"
proof -
  from assms [unfolded submit_transaction_def prod.case] obtain signed u where
    s: "sign_tx C (world s) tx = Inr signed"
    "h_catch (h_bind (h_lift (serialize_tx C signed)) (\<lambda>raw. change_world (send_raw C raw (Some 3))))
       (\<lambda>err. h_bind (formatSendError C err) fail_with) s = (u, Inr signature)"
    "confirmSubmittedTransaction C signature bh h u = (t, Inr ())"
    by (elim bind_askE h_bind_InrE) (auto simp: h_return_def)
  from s(2) have "h_bind (h_lift (serialize_tx C signed)) (\<lambda>raw. change_world (send_raw C raw (Some 3))) s = (u, Inr signature)"
    by (rule catch_InrE) (auto elim!: h_bind_InrE)
  then obtain raw where "serialize_tx C signed = Inr raw" "send_raw C raw (Some 3) (world s) = (world u, Inr signature)"
    by (elim h_bind_InrE) (auto simp: h_lift_def dest!: change_world_InrD)
  with s(1) confirm_InrD [OF s(3)] show ?thesis by blast
qed

lemma await_moves [moves_intros]: "run_moves_on C (await_lookup_table C address count deadline found)"
proof -
  have "later C (world s) (world (fst y))"
    if "await_lookup_table C address count deadline found s = Some y" for s y
    using that
  proof (induction rule: await_lookup_table.raw_induct [rotated, consumes 1, case_names step])
    case (step await C address count deadline found s y)
    obtain t r where p: "poll_lookup_table C address count s = (t, r)" by (rule prod.exhaust)
    have w: "world t = world s" using poll_world [OF p] .
    have "later C (world s) (world (fst (pause_for C 500 t)))"
      using moves_changes(4) [of C 500] unfolding moves_on_def w [symmetric] by blast
    then have "later C (world s) (world (fst y))"
      if "await C address count deadline found' (fst (pause_for C 500 t)) = Some y" for found'
      using step(1) [OF that] by (rule later_trans)
    with step(2) w show ?case
      by (auto simp: p table_timeout_def fail_with_def h_throw_def split: if_splits sum.splits)
  qed
  then show ?thesis by (auto simp: run_moves_on_def)
qed

lemma confirm_moves [moves_intros]: "moves_on C (confirmSubmittedTransaction C signature bh h)"
  unfolding confirmSubmittedTransaction_def by (intro moves_intros)

lemma legacy_moves [moves_intros]: "moves_on C (sendLegacyTransaction C payer ixs)"
  unfolding sendLegacyTransaction_def by (intro moves_intros)

lemma versioned_moves [moves_intros]: "run_moves_on C (versioned_transaction C payer ixs)"
proof -
  have c: "moves_on C (compileVersionedTransaction C payer bh ixs tables)" for bh tables
    unfolding compileVersionedTransaction_def Let_def by (auto intro: moves_intros split: option.split)
  have e: "moves_on C (extend_lookup_table C payer create address chunk)" for create address chunk
    unfolding extend_lookup_table_def by (intro moves_intros)
  have t: "run_moves_on C (createLookupTableForInstructions C payer ixs)"
    unfolding createLookupTableForInstructions_def waitForLookupTableActivation_def by (intro moves_intros e)
  have cases: "run_moves_on C m \<Longrightarrow> run_moves_on C n \<Longrightarrow> run_moves_on C (if b then m else n)"
    "(\<And>x y z. run_moves_on C (l x y z)) \<Longrightarrow> run_moves_on C (case p of (x, y, z) \<Rightarrow> l x y z)"
    for m n :: "('a, transaction \<times> string \<times> int) running" and b l and p :: "transaction \<times> string \<times> int"
    by (simp, cases p, simp)
  show ?thesis
    unfolding versioned_transaction_def Let_def by (intro moves_intros cases c t)
qed

lemma sendVersioned_delivers:
  assumes "sendVersionedInstructions C payer [ix] s = Some (t, Inr signature)"
  shows "delivered C payer ix signature (world s) (world t)"
proof -
  from assms obtain u tx bh h where v: "versioned_transaction C payer [ix] s = Some (u, Inr (tx, bh, h))"
    "submit_transaction C (tx, bh, h) u = (t, Inr signature)"
    unfolding sendVersionedInstructions_def by (elim r_bind_InrE) auto
  from versioned_InrD [OF v(1)] obtain tables where
    tx: "tx = VersionedTx payer bh [ix] tables" "\<not> too_long (getSerializedTransactionSize C tx)" by blast
  from tx(2) obtain data where "serialize_tx C tx = Inr data" "length data \<le> 1232"
    by (auto simp: too_long_def getSerializedTransactionSize_def split: sum.splits)
  with submit_InrD [OF v(2)] run_moves_onD [OF versioned_moves v(1)] show ?thesis
    unfolding delivered_def Let_def tx(1) by blast
qed

section \<open>Accounts of the lookup table\<close>

lemma concat_slices: "n > 0 \<Longrightarrow> concat (slices n xs) = xs"
  by (induction n xs rule: slices.induct) (subst slices.simps, auto)

lemma slices_lengths: "c \<in> set (slices n xs) \<Longrightarrow> 0 < length c \<and> length c \<le> n"
proof (induction n xs rule: slices.induct)
  case (1 n xs)
  from 1(2) show ?case
    by (subst (asm) slices.simps) (use 1(1) in \<open>auto split: if_splits\<close>)
qed

definition push_new :: "('k \<Rightarrow> string) \<Rightarrow> string \<Rightarrow> 'k list \<Rightarrow> 'k \<Rightarrow> 'k list" where
  "push_new text payer ks k = (if text k = payer \<or> text k \<in> text ` set ks then ks else ks @ [k])"

lemma foldl_push_new:
  assumes "distinct (map text acc)" and "payer \<notin> text ` set acc"
  shows "distinct (map text (foldl (push_new text payer) acc ks)) \<and>
    payer \<notin> text ` set (foldl (push_new text payer) acc ks) \<and>
    text ` set (foldl (push_new text payer) acc ks) \<union> {payer} = text ` (set acc \<union> set ks) \<union> {payer}"
  using assms
proof (induction ks arbitrary: acc)
  case (Cons k ks)
  have "distinct (map text (push_new text payer acc k))" "payer \<notin> text ` set (push_new text payer acc k)"
    using Cons.prems by (auto simp: push_new_def)
  from Cons.IH [OF this] show ?case by (auto simp: push_new_def)
qed simp

definition table_keys :: "('w, 'c) transfer_client_scheme \<Rightarrow> client_ix \<Rightarrow> pubkey list" where
  "table_keys C ix = ix_programId (ix_view C ix) # map am_pubkey (filter (\<lambda>m. \<not> am_isSigner m) (ix_keys (ix_view C ix)))"

lemma foldl_nested:
  "foldl (\<lambda>acc x. foldl f (f acc (p x)) (ks x)) acc xs = foldl f acc (concat (map (\<lambda>x. p x # ks x) xs))"
  by (induction xs arbitrary: acc) simp_all

lemma collect_folds:
  "collectLookupTableAddresses C payer ixs =
     foldl (push_new (toBase58 C) (toBase58 C payer)) [] (concat (map (table_keys C) ixs))"
proof -
  let ?f = "push_new (toBase58 C) (toBase58 C payer)"
  have "collectLookupTableAddresses C payer ixs = foldl (\<lambda>addresses ix. foldl ?f (?f addresses (ix_programId (ix_view C ix)))
      (map am_pubkey (filter (\<lambda>m. \<not> am_isSigner m) (ix_keys (ix_view C ix))))) [] ixs"
    by (simp add: collectLookupTableAddresses_def push_new_def [abs_def] Let_def)
  also have "\<dots> = foldl ?f [] (concat (map (table_keys C) ixs))"
    unfolding table_keys_def [abs_def] by (rule foldl_nested)
  finally show ?thesis .
qed

text \<open>
  C18. The lookup table of a long transaction gets, in chunks of 1 to 24 addresses, each program
  and each account that need not sign, once, and never the payer.
\<close>

theorem lookup_table_holds_every_account:
  assumes "addresses = collectLookupTableAddresses C payer ixs"
  shows "concat (slices 24 addresses) = addresses \<and>
    (\<forall>chunk \<in> set (slices 24 addresses). 0 < length chunk \<and> length chunk \<le> 24) \<and>
    distinct (map (toBase58 C) addresses) \<and> toBase58 C payer \<notin> toBase58 C ` set addresses \<and>
    (\<forall>ix \<in> set ixs. \<forall>k \<in> set (table_keys C ix).
       toBase58 C k = toBase58 C payer \<or> toBase58 C k \<in> toBase58 C ` set addresses)"
proof -
  let ?text = "toBase58 C"
  have f: "distinct (map ?text addresses)" "?text payer \<notin> ?text ` set addresses"
    "?text ` set addresses \<union> {?text payer} = ?text ` set (concat (map (table_keys C) ixs)) \<union> {?text payer}"
    using foldl_push_new [of ?text "[]" "?text payer" "concat (map (table_keys C) ixs)"]
    by (simp_all add: assms collect_folds)
  have "?text k = ?text payer \<or> ?text k \<in> ?text ` set addresses" if "ix \<in> set ixs" "k \<in> set (table_keys C ix)" for ix k
  proof -
    have "?text k \<in> ?text ` set addresses \<union> {?text payer}" unfolding f(3) using that by auto
    then show ?thesis by blast
  qed
  moreover have "concat (slices 24 addresses) = addresses" by (rule concat_slices) simp
  ultimately show ?thesis using f(1,2) slices_lengths [of _ 24 addresses] by (intro conjI) blast+
qed

section \<open>What a preflight has checked\<close>

lemma look_reads [reads_intros]: "reads_only (look_at_claim C ids tirState topic now st a)"
  unfolding look_at_claim_def entry_trusts_def fid_signs_def Let_def by (intro reads_intros)

lemma looks_reads [reads_intros]:
  "(\<And>st a. reads_only (look st a)) \<Longrightarrow> reads_only (look_at_claims look as st)"
proof (induction "as" arbitrary: st)
  case (Cons a as)
  show ?case unfolding look_at_claims.simps by (intro reads_intros Cons)
qed (simp add: reads_intros)

lemma claim_blocker_reads [reads_intros]: "reads_only (claim_blocker C identity tirState ids topic)"
  unfolding claim_blocker_def hasValidTrustedClaim_def seconds_now_def by (intro reads_intros)

lemma h_collect_nil:
  assumes "\<And>x. reads_only (body x)" and "h_collect body xs s = (t, Inr [])" and "x \<in> set xs"
  shows "\<exists>u v. world u = world s \<and> body x u = (v, Inr [])"
  using assms(2,3)
proof (induction xs arbitrary: s)
  case (Cons y xs)
  from Cons.prems(1) obtain u where u: "body y s = (u, Inr [])" "h_collect body xs u = (t, Inr [])"
    by (auto elim!: h_bind_InrE simp: h_return_def)
  from reads_onlyD [OF assms(1), of y s] u(1) have "world u = world s" by simp
  with u Cons.IH [OF u(2)] Cons.prems(2) show ?case by (cases "x = y") auto
qed simp

lemma look_at_claims_None:
  assumes "\<And>st a. reads_only (look st a)" and "look_at_claims look as st s = (t, Inr None)"
  shows "\<exists>a \<in> set as. \<exists>st u v. world u = world s \<and> look st a u = (v, Inr None)"
  using assms(2)
proof (induction "as" arbitrary: st s)
  case (Cons a as)
  from Cons.prems obtain u r where u: "look st a s = (u, Inr r)"
    and r: "(case r of None \<Rightarrow> h_return None | Some st' \<Rightarrow> look_at_claims look as st') u = (t, Inr None)"
    unfolding look_at_claims.simps by (rule h_bind_InrE)
  from reads_onlyD [OF assms(1), of st a s] u have w: "world u = world s" by simp
  show ?case
  proof (cases r)
    case None
    with u show ?thesis by (intro bexI [of _ a] exI conjI) auto
  next
    case (Some st')
    with r Cons.IH [of st' u] w show ?thesis by auto
  qed
qed (simp add: h_return_def)

text \<open>A claim the node lists for the holder, for the topic, valid, and by an issuer the token trusts.\<close>

definition trusted_claim ::
    "('w, 'c) client_scheme \<Rightarrow> 'w \<Rightarrow> suite_ids \<Rightarrow> pubkey \<Rightarrow> int \<Rightarrow> pubkey \<Rightarrow> bool" where
  "trusted_claim C w ids tirState topic holder \<longleftrightarrow>
     (\<exists>listing a c e b infos entry issuer.
        program_accounts_at C w (si_fid ids) [FilterSize CLAIM_ACCOUNT_SIZE, FilterKey 8 holder] = Inr listing \<and>
        a \<in> snd ` set listing \<and> parseTransferClaim C (acc_data a) = Inr (Some c) \<and> tc_topic c = topic \<and>
        \<not> tc_revoked c \<and> \<not> claim_expired (tc_expiresAt c) (now_ms C w div 1000) \<and>
        find_pda C [ascii ''issuer_entry'', tirState, tc_issuerFid c] (si_tir ids) = Inr (e, b) \<and>
        accounts_at C w [e, tc_issuerFid c] = Inr infos \<and>
        info_at infos 0 = Some entry \<and> parseIssuerEntryForTopic (acc_data entry) topic = Inr True \<and>
        info_at infos 1 = Some issuer \<and> parseFidIsIssuerAndSigner C (acc_data issuer) (tc_signerKey c) = Inr True)"

lemma look_at_claim_None:
  assumes "look_at_claim C ids tirState topic now st a u = (v, Inr None)"
  obtains c e b infos entry issuer where "parseTransferClaim C (acc_data a) = Inr (Some c)" "tc_topic c = topic"
    "\<not> tc_revoked c" "\<not> claim_expired (tc_expiresAt c) now"
    "find_pda C [ascii ''issuer_entry'', tirState, tc_issuerFid c] (si_tir ids) = Inr (e, b)"
    "accounts_at C (world u) [e, tc_issuerFid c] = Inr infos"
    "info_at infos 0 = Some entry" "parseIssuerEntryForTopic (acc_data entry) topic = Inr True"
    "info_at infos 1 = Some issuer" "parseFidIsIssuerAndSigner C (acc_data issuer) (tc_signerKey c) = Inr True"
  using assms unfolding look_at_claim_def Let_def entry_trusts_def fid_signs_def
  by (elim bind_pureE) (auto elim!: h_bind_InrE dest!: pda_of_InrD ask_InrD pure_step_InrD
      simp: h_return_def split: option.splits if_splits)

lemma valid_claim_InrD:
  assumes "hasValidTrustedClaim C holder topic tirState ids s = (t, Inr None)"
  shows "trusted_claim C (world s) ids tirState topic holder"
proof -
  from assms obtain listing t' where l: "program_accounts_at C (world s) (si_fid ids)
      [FilterSize CLAIM_ACCOUNT_SIZE, FilterKey 8 holder] = Inr listing"
    and k: "look_at_claims (look_at_claim C ids tirState topic (now_ms C (world s) div 1000)) (map snd listing)
      \<lparr> sawTopic = False, sawUnrevoked = False, sawUnexpired = False, sawTrusted = False \<rparr> s = (t', Inr None)"
    unfolding hasValidTrustedClaim_def seconds_now_run
    by (elim bind_askE h_bind_InrE) (auto simp: h_return_def)
  from look_at_claims_None [OF look_reads k] obtain a st u v where
    "a \<in> set (map snd listing)" "world u = world s"
    "look_at_claim C ids tirState topic (now_ms C (world s) div 1000) st a u = (v, Inr None)" by blast
  with l show ?thesis unfolding trusted_claim_def
    by (elim look_at_claim_None) (intro exI conjI, auto)
qed

definition cleared_wallet ::
    "('w, 'c) client_scheme \<Rightarrow> 'w \<Rightarrow> suite_ids \<Rightarrow> pubkey \<Rightarrow> pubkey \<Rightarrow> pubkey \<Rightarrow> int list \<Rightarrow> pubkey \<Rightarrow> bool" where
  "cleared_wallet C w ids irsState tirState mintKey topics wallet \<longleftrightarrow>
     (\<exists>k b a i f fb info.
        find_pda C [ascii ''wallet_identity'', irsState, wallet] (si_irs ids) = Inr (k, b) \<and>
        account_at C w k = Inr (Some a) \<and> parseWalletIdentity C (acc_data a) = Inr (Some i) \<and> wf_isActive i \<and>
        find_pda C [ascii ''frozen'', mintKey, wallet] (si_token ids) = Inr (f, fb) \<and>
        account_at C w f = Inr info \<and> \<not> is_frozen_account ids info \<and>
        (\<forall>topic \<in> set topics. trusted_claim C w ids tirState topic (wf_fid i)))"

lemma eligible_InrD:
  assumes "checkWalletEligibility C mintKey wallet irsState tirState topics ids s = (t, Inr r)" and "we_blockers r = []"
  shows "cleared_wallet C (world s) ids irsState tirState mintKey topics wallet"
proof -
  from assms(1) obtain k b info fp fpb fidInfo identity f fb finfo u blockers where
    q: "find_pda C [ascii ''wallet_identity'', irsState, wallet] (si_irs ids) = Inr (k, b)"
      "account_at C (world s) k = Inr info" "account_at C (world s) fp = Inr fidInfo"
      "parse_identity_info C info s = (s, Inr identity)"
      "find_pda C [ascii ''frozen'', mintKey, wallet] (si_token ids) = Inr (f, fb)"
      "account_at C (world s) f = Inr finfo"
      "h_collect (claim_blocker C identity tirState ids) topics s = (u, Inr blockers)"
    and r: "we_blockers r = (if fidInfo = None then [''FID is not registered.''] else []) @
        (case identity of None \<Rightarrow> [''Wallet is not registered in this token's IRS.'']
         | Some i \<Rightarrow> if wf_isActive i then []
             else [''Wallet identity is registered but inactive in this token's IRS.'']) @
        (if is_frozen_account ids finfo then [frozen_text] else []) @ blockers"
    unfolding checkWalletEligibility_def
    apply (elim bind_pdaE bind_askE h_bind_InrE [of "parse_identity_info C _"] h_bind_InrE [of "h_collect _ _"])
    subgoal premises p for k b info fp fpb fidInfo u1 identity f fb finfo u2 blockers
    proof -
      have u: "u1 = s" using p(6) by (auto simp: parse_identity_info_def h_return_def dest: pure_step_InrD split: option.splits)
      note p' = p(2-) [unfolded u]
      have "r = the_record" if "h_return the_record u2 = (t, Inr r)" for the_record using that by (simp add: h_return_def)
      note r = this [OF p'(9)]
      show ?thesis
        by (rule p(1) [OF p'(1) p'(2) p'(4) p'(5) p'(6) p'(7) p'(8)]) (simp add: r)
    qed
    done
  from r assms(2) obtain i where i: "identity = Some i" "wf_isActive i" "\<not> is_frozen_account ids finfo" "blockers = []"
    by (auto split: option.splits if_splits)
  from q(4) i(1) obtain a where a: "info = Some a" "parseWalletIdentity C (acc_data a) = Inr (Some i)"
    by (auto simp: parse_identity_info_def h_return_def dest: pure_step_InrD split: option.splits)
  have "trusted_claim C (world s) ids tirState topic (wf_fid i)" if topic: "topic \<in> set topics" for topic
  proof -
    from h_collect_nil [OF claim_blocker_reads q(7) [unfolded i(4)] topic] obtain v v' where
      v: "world v = world s" "claim_blocker C identity tirState ids topic v = (v', Inr [])" by blast
    from v(2) i(1) have "\<exists>v''. hasValidTrustedClaim C (wf_fid i) topic tirState ids v = (v'', Inr None)"
      by (auto simp: claim_blocker_def h_return_def list_of_option_def elim!: h_bind_InrE split: option.splits)
    then show ?thesis using valid_claim_InrD v(1) by metis
  qed
  with q a i show ?thesis unfolding cleared_wallet_def by blast
qed

lemma parse_identity_reads [reads_intros]: "reads_only (parse_identity_info C info)"
  unfolding parse_identity_info_def by (intro reads_intros)

lemma transfer_reads [reads_intros]:
  "reads_only (transfer_program_ids C P)" "reads_only (getTokenAccountAddress C mintKey owner)"
  "reads_only (getTokenStatePda C mintKey program)" "reads_only (transfer_irs_state C irpState)"
  "reads_only (fetchRequiredTopics C ctrState)" "reads_only (getRawTokenBalance C account)"
  "reads_only (getPartialFreezeAmount C mintKey wallet program)"
  "reads_only (checkWalletEligibility C mintKey wallet irsState tirState topics ids)"
  unfolding transfer_program_ids_def getTokenAccountAddress_def getTokenStatePda_def transfer_irs_state_def
    fetchRequiredTopics_def getRawTokenBalance_def getPartialFreezeAmount_def checkWalletEligibility_def ata_def key_at_def
  by (intro reads_intros)+

lemma try_reads [reads_intros]:
  "reads_only m \<Longrightarrow> (\<And>x. reads_only (k x)) \<Longrightarrow> reads_only (try_step d m k)"
proof -
  assume m: "reads_only m" and k: "\<And>x. reads_only (k x)"
  have "world (fst (try_step d m k s)) = world s" for s
  proof (cases "m s")
    case (Pair t r)
    with reads_onlyD [OF m, of s] reads_onlyD [OF k, of _ t] show ?thesis
      by (auto simp: try_step_def split: sum.split)
  qed
  then show ?thesis by (simp add: reads_only_def keeps_def)
qed

lemma scan_reads [reads_intros]:
  "reads_only (isTrustedIssuerForTopic C ids tirState cache issuerFid topic)"
  "reads_only (issuerSignerMatchesClaim C cache issuerFid signerKey)"
  "reads_only (scan_claim C ids tirState topics now st listed)"
  unfolding scan_claim_def isTrustedIssuerForTopic_def issuerSignerMatchesClaim_def entry_trusts_def fid_signs_def Let_def
  by (intro reads_intros)+

lemma scans_reads [reads_intros]:
  "(\<And>st a. reads_only (scan st a)) \<Longrightarrow> reads_only (scan_claims scan as st)"
proof (induction "as" arbitrary: st)
  case (Cons a as)
  show ?case unfolding scan_claims.simps by (intro reads_intros Cons)
qed (simp add: reads_intros)

lemma approval_reads [reads_intros]:
  "reads_only (approval_modules C M ids mintKey complianceState sender countries metas)"
  "reads_only (appendClaimsForWallet C ids tirState topics now metas wallet)"
  "reads_only (getTransferApprovalRemainingAccounts C M sender recipient mintKey tirState complianceState ids sc rc)"
  unfolding approval_modules_def appendClaimsForWallet_def getTransferApprovalRemainingAccounts_def
    assertComplianceModuleAccountsExist_def seconds_now_def Let_def
  by (intro reads_intros)+

lemma hook_reads [reads_intros]:
  "reads_only (hook_module_metas C M wallet countries listed)"
  "reads_only (appendTransferHookAccounts C P M keys metas ts approval cs wallet fc tc ids)"
  unfolding hook_module_metas_def appendTransferHookAccounts_def Let_def by (intro reads_intros)+

lemma build_reads [reads_intros]:
  "reads_only (destination_balance C missing destinationTa)"
  "reads_only (transfer_identities C ids irsState from to)"
  "reads_only (createRecipientAtaInstruction C mintKey payer recipient)"
  "reads_only (assertToken2022Account C owner)" "reads_only (refuse c e)"
  "reads_only (buildTransferInstructions C P M mintKey from to amount decimals ids missing)"
  unfolding buildTransferInstructions_def destination_balance_def transfer_identities_def refuse_def
    createRecipientAtaInstruction_def assertToken2022Account_def getExtraAccountMetasPda_def getTransferApprovalPda_def Let_def
  by (intro reads_intros)+

lemma simulate_reads [reads_intros]:
  "reads_only (compileVersionedTransaction C payer bh ixs tables)"
  "reads_only (buildAndSimulateTransfer C P M mintKey from to amount decimals)"
  "reads_only (simulateTokenTransfer C P M mintKey from to amount decimals)"
  unfolding simulateTokenTransfer_def buildAndSimulateTransfer_def compileVersionedTransaction_def Let_def
  by (intro reads_intros)+

section \<open>What a successful transfer did\<close>

lemma prepare_moves [moves_intros]: "moves_on C (prepareRecipientTokenAccount C mintKey payer recipient)"
  unfolding prepareRecipientTokenAccount_def
  by (intro moves_intros transfer_reads [THEN moves_reads] build_reads [THEN moves_reads])

lemma init_moves [moves_intros]:
  "moves_on C (init_wallet_usage C M moduleAccount sender)"
  "moves_on C (init_transfer_country C M moduleAccount moduleOwner country)"
  unfolding init_wallet_usage_def init_transfer_country_def by (intro moves_intros)+

lemma support_moves [moves_intros]: "moves_on C (prepareTransferSupportAccounts C M mintKey sender recipient ids)"
proof -
  have m: "moves_on C (support_module C M sender countries listed)" for countries listed
    unfolding support_module_def by (intro moves_intros)
  have w: "moves_on C (wallet_identity_of C ids irsState wallet)" for irsState wallet
    unfolding wallet_identity_of_def by (intro moves_intros parse_identity_reads [THEN moves_reads])
  show ?thesis
    unfolding prepareTransferSupportAccounts_def Let_def
    by (intro moves_intros m w transfer_reads [THEN moves_reads])
qed

lemma bind_quadE:
  assumes "h_bind m (\<lambda>(a, b, c, d). k a b c d) s = (t, Inr y)"
  obtains a b c d u where "m s = (u, Inr (a, b, c, d))" and "k a b c d u = (t, Inr y)"
  using assms by (elim h_bind_InrE) auto

lemma destination_balance_InrD:
  "destination_balance C False k s = (t, Inr n) \<Longrightarrow> t = s \<and> token_balance_at C (world s) k = Inr n"
  unfolding destination_balance_def assertToken2022Account_def getRawTokenBalance_def
  by (elim bind_askE) (auto elim!: bind_refuseE dest!: ask_InrD split: option.splits)

lemma build_InrD:
  assumes "buildTransferInstructions C P M mintKey from to amount decimals ids False s = (t, Inr (approveIx, transferIx))"
  shows "world t = world s \<and> (\<exists>sourceTa destinationTa sourceBalance destinationBalance accounts remaining keys.
    ata_of C mintKey from = Inr sourceTa \<and> ata_of C mintKey to = Inr destinationTa \<and>
    token_balance_at C (world s) sourceTa = Inr sourceBalance \<and> amount \<le> sourceBalance \<and>
    token_balance_at C (world s) destinationTa = Inr destinationBalance \<and>
    approveIx = AnchorIx (si_token ids) ''transfer'' [BU64 amount, BU64 sourceBalance, BU64 destinationBalance] accounts remaining \<and>
    transferIx = TransferCheckedIx sourceTa mintKey destinationTa from amount decimals keys)"
proof
  show "world t = world s" using reads_onlyD [OF build_reads(6)] assms by (metis fst_conv)
  note m = assms [unfolded buildTransferInstructions_def Let_def getTokenAccountAddress_def getRawTokenBalance_def
    getExtraAccountMetasPda_def getTokenStatePda_def getTransferApprovalPda_def]
  show "\<exists>sourceTa destinationTa sourceBalance destinationBalance accounts remaining keys.
    ata_of C mintKey from = Inr sourceTa \<and> ata_of C mintKey to = Inr destinationTa \<and>
    token_balance_at C (world s) sourceTa = Inr sourceBalance \<and> amount \<le> sourceBalance \<and>
    token_balance_at C (world s) destinationTa = Inr destinationBalance \<and>
    approveIx = AnchorIx (si_token ids) ''transfer'' [BU64 amount, BU64 sourceBalance, BU64 destinationBalance] accounts remaining \<and>
    transferIx = TransferCheckedIx sourceTa mintKey destinationTa from amount decimals keys"
    using m
    apply (elim bind_quadE bind_refuseE h_bind_InrE)
    apply (drule ata_InrD pda_of_InrD ask_InrD destination_balance_InrD)+
    apply (elim exE conjE)
    apply (simp only: h_return_def prod.inject sum.inject not_less)
    by blast
qed

text \<open>
  C16. A transfer that reports success has gone, from one world of the chain to later ones,
  through these steps: it read that the token account of the sender holds the amount, and the
  balance of the recipient; then it delivered the approval with these balances; and only after
  that was confirmed it delivered the transfer of the amount from the account of the sender to
  the one of the recipient, whose confirmation ends in the final world. Each went alone in a
  signed transaction of at most 1232 bytes that was sent and confirmed.
\<close>

theorem successful_transfer_was_delivered:
  assumes "executeTransfer C P M mintKey from to amount decimals s = Some (t, Inr r)" and "tx_success r"
  shows "\<exists>s0 ids sourceTa destinationTa sourceBalance destinationBalance accounts remaining keys approval w w'.
    transfer_program_ids C P s = (s0, Inr ids) \<and>
    ata_of C mintKey from = Inr sourceTa \<and> ata_of C mintKey to = Inr destinationTa \<and>
    later C (world s) w \<and> token_balance_at C w sourceTa = Inr sourceBalance \<and> amount \<le> sourceBalance \<and>
    token_balance_at C w destinationTa = Inr destinationBalance \<and>
    delivered C from (AnchorIx (si_token ids) ''transfer''
      [BU64 amount, BU64 sourceBalance, BU64 destinationBalance] accounts remaining) approval w w' \<and>
    delivered C from (TransferCheckedIx sourceTa mintKey destinationTa from amount decimals keys)
      (tx_signature r) w' (world t)"
proof -
  let ?body = "r_bind (run (h_bind (transfer_program_ids C P) (\<lambda>ids.
         h_bind (prepareRecipientTokenAccount C mintKey from to) (\<lambda>_.
         h_bind (prepareTransferSupportAccounts C M mintKey from to ids) (\<lambda>_.
         buildTransferInstructions C P M mintKey from to amount decimals ids False))))) (\<lambda>(approveIx, transferIx).
      r_bind (sendVersionedInstructions C from [approveIx]) (\<lambda>_.
      r_bind (sendVersionedInstructions C from [transferIx]) (\<lambda>signature.
      run (h_return \<lparr> tx_signature = signature, tx_success = True, tx_error = None \<rparr>))))"
  have "?body s = Some (t, Inr r)"
    using assms unfolding executeTransfer_def r_catch_def
    by (auto simp: h_return_def split: option.splits prod.splits sum.splits)
  then obtain ids s0 u v s1 s2 x y approveIx transferIx approval s3 signature where
    i: "transfer_program_ids C P s = (s0, Inr ids)"
    and p: "prepareRecipientTokenAccount C mintKey from to s0 = (u, Inr x)"
      "prepareTransferSupportAccounts C M mintKey from to ids u = (s1, Inr y)"
    and b: "buildTransferInstructions C P M mintKey from to amount decimals ids False s1 = (s2, Inr (approveIx, transferIx))"
    and a: "sendVersionedInstructions C from [approveIx] s2 = Some (s3, Inr approval)"
    and x: "sendVersionedInstructions C from [transferIx] s3 = Some (t, Inr signature)" "tx_signature r = signature"
    by (elim r_bind_InrE) (auto elim!: r_bind_InrE h_bind_InrE simp: h_return_def)
  have w: "later C (world s) (world s1)"
    using moves_onD [OF transfer_reads(1) [THEN moves_reads] i] moves_onD [OF prepare_moves p(1)]
      moves_onD [OF support_moves p(2)] by (blast intro: later_trans)
  from build_InrD [OF b] obtain sourceTa destinationTa sourceBalance destinationBalance accounts remaining keys where
    q: "world s2 = world s1" "ata_of C mintKey from = Inr sourceTa" "ata_of C mintKey to = Inr destinationTa"
      "token_balance_at C (world s1) sourceTa = Inr sourceBalance" "amount \<le> sourceBalance"
      "token_balance_at C (world s1) destinationTa = Inr destinationBalance"
    and ix: "approveIx = AnchorIx (si_token ids) ''transfer''
        [BU64 amount, BU64 sourceBalance, BU64 destinationBalance] accounts remaining"
      "transferIx = TransferCheckedIx sourceTa mintKey destinationTa from amount decimals keys"
    by (elim exE conjE) (rule that)
  show ?thesis
    using i w q sendVersioned_delivers [OF a] sendVersioned_delivers [OF x(1)] unfolding ix x(2) by metis
qed

lemma bind_readsE:
  assumes "h_bind m k s = (t, Inr y)" and "reads_only m"
  obtains x u where "m s = (u, Inr x)" "world u = world s" "k x u = (t, Inr y)"
proof -
  from assms(1) obtain u x where "m s = (u, Inr x)" "k x u = (t, Inr y)" by (rule h_bind_InrE)
  with reads_onlyD [OF assms(2), of s] show ?thesis by (intro that) simp_all
qed

text \<open>
  What the preflight reads at one world: the registry storage the token state of the mint leads to, the
  registries of issuers and topics of the mint, and what the sender can move.
\<close>

definition transfer_registry_read ::
    "('w, 'c) client_scheme \<Rightarrow> 'w \<Rightarrow> pubkey \<Rightarrow> suite_ids \<Rightarrow> pubkey \<Rightarrow> pubkey \<Rightarrow> int list \<Rightarrow> bool" where
  "transfer_registry_read C w mintKey ids irsState tirState topics \<longleftrightarrow>
     (\<exists>tokenState b ts irp. find_pda C [ascii ''token_state'', mintKey] (si_token ids) = Inr (tokenState, b) \<and>
        anchor_token_state C w (si_token ids) tokenState = Inr ts \<and>
        account_at C w (ts_identityRegistry ts) = Inr (Some irp) \<and> readPubkey C (acc_data irp) 72 = Inr irsState) \<and>
     (\<exists>b. find_pda C [ascii ''tir_state'', mintKey] (si_tir ids) = Inr (tirState, b)) \<and>
     (\<exists>ctrState b info. find_pda C [ascii ''ctr_state'', mintKey] (si_ctr ids) = Inr (ctrState, b) \<and>
        account_at C w ctrState = Inr info \<and>
        (case info of None \<Rightarrow> topics = [] | Some a \<Rightarrow> parseCtrTopics (acc_data a) = Inr topics))"

definition transferable_read ::
    "('w, 'c) client_scheme \<Rightarrow> 'w \<Rightarrow> pubkey \<Rightarrow> suite_ids \<Rightarrow> pubkey \<Rightarrow> int \<Rightarrow> int \<Rightarrow> bool" where
  "transferable_read C w mintKey ids wallet balance held \<longleftrightarrow>
     (\<exists>ta. ata_of C mintKey wallet = Inr ta \<and>
        balance = (case token_balance_at C w ta of Inl _ \<Rightarrow> 0 | Inr n \<Rightarrow> n)) \<and>
     (\<exists>k b info. find_pda C [ascii ''partial_freeze'', mintKey, wallet] (si_token ids) = Inr (k, b) \<and>
        account_at C w k = Inr info \<and>
        (case info of None \<Rightarrow> held = 0
         | Some a \<Rightarrow> if length (acc_data a) < 80 then held = 0 else readU64 (acc_data a) 72 = Inr held))"

lemma transfer_irs_InrD:
  "transfer_irs_state C irpState s = (t, Inr k) \<Longrightarrow>
    \<exists>a. account_at C (world s) irpState = Inr (Some a) \<and> readPubkey C (acc_data a) 72 = Inr k"
  unfolding transfer_irs_state_def by (elim bind_askE) (auto dest!: key_at_InrD split: option.splits)

lemma topics_InrD:
  "fetchRequiredTopics C k s = (t, Inr topics) \<Longrightarrow> \<exists>info. account_at C (world s) k = Inr info \<and>
    (case info of None \<Rightarrow> topics = [] | Some a \<Rightarrow> parseCtrTopics (acc_data a) = Inr topics)"
  unfolding fetchRequiredTopics_def
  by (elim bind_askE) (auto simp: h_return_def dest!: pure_step_InrD split: option.splits)

lemma balance_InrD:
  "or_default 0 (getRawTokenBalance C k) s = (t, Inr n) \<Longrightarrow>
    n = (case token_balance_at C (world s) k of Inl _ \<Rightarrow> 0 | Inr n \<Rightarrow> n)"
  by (auto simp: or_default_def getRawTokenBalance_def h_catch_def ask_def h_return_def split: sum.splits)

lemma freeze_InrD:
  "getPartialFreezeAmount C mintKey wallet program s = (t, Inr held) \<Longrightarrow>
    \<exists>k b info. find_pda C [ascii ''partial_freeze'', mintKey, wallet] program = Inr (k, b) \<and>
      account_at C (world s) k = Inr info \<and>
      (case info of None \<Rightarrow> held = 0
       | Some a \<Rightarrow> if length (acc_data a) < 80 then held = 0 else readU64 (acc_data a) 72 = Inr held)"
  unfolding getPartialFreezeAmount_def
  by (elim bind_pdaE bind_askE) (auto simp: h_return_def dest!: pure_step_InrD split: option.splits if_splits)

lemma preflightTransfer_InrD:
  assumes "preflightTransfer C P M mintKey from to amount decimals s = (t, Inr r)"
  obtains ids irsState tirState balance freeze sender recipient simulation s0 s1 s2 s3 s4 where
    "transfer_program_ids C P s = (s0, Inr ids)"
    "transfer_registry_read C (world s) mintKey ids irsState tirState (pf_requiredClaimTopics r)"
    "transferable_read C (world s) mintKey ids from balance freeze"
    "world s1 = world s" "world s3 = world s"
    "checkWalletEligibility C mintKey from irsState tirState (pf_requiredClaimTopics r) ids s1 = (s2, Inr sender)"
    "checkWalletEligibility C mintKey to irsState tirState (pf_requiredClaimTopics r) ids s3 = (s4, Inr recipient)"
    "pf_sender r = sender" "pf_recipient r = recipient" "pf_simulation r = simulation"
    "pf_blockers r = map (\<lambda>b. ''Sender: '' @ b) (we_blockers sender) @
      map (\<lambda>b. ''Recipient: '' @ b) (we_blockers recipient) @
      balance_blockers balance (transferable balance freeze) amount @ simulation_blockers simulation"
    "pf_status r = preflight_status sender recipient balance (transferable balance freeze) amount simulation"
    "we_blockers recipient \<noteq> [] \<Longrightarrow> simulation = None"
    "pf_sourceBalance r = bigint_toString balance" "pf_transferableBalance r = bigint_toString (transferable balance freeze)"
  using assms unfolding preflightTransfer_def Let_def
  apply -
  apply (erule bind_readsE, (intro reads_intros)[1])+
  subgoal premises p for ids u1 sourceAta u2 destinationAta u3 tokenState u4 ts u5 irsState u6 ctrState u7
      tirState u8 topics u9 balance u10 freeze u11 destinationInfo u12 sender u13 recipient u14 simulation u15
  proof -
    have r: "pf_requiredClaimTopics r = topics" "pf_sender r = sender" "pf_recipient r = recipient"
      "pf_simulation r = simulation" "pf_sourceBalance r = bigint_toString balance"
      "pf_transferableBalance r = bigint_toString (transferable balance freeze)"
      "pf_blockers r = (map (\<lambda>b. ''Sender: '' @ b) (we_blockers sender) @
        map (\<lambda>b. ''Recipient: '' @ b) (we_blockers recipient) @
        balance_blockers balance (transferable balance freeze) amount) @ simulation_blockers simulation"
      "pf_status r = preflight_status sender recipient balance (transferable balance freeze) amount simulation"
      using p(32) by (auto simp: h_return_def)
    have w: "world u4 = world s" "world u5 = world s" "world u8 = world s" "world u9 = world s"
      "world u10 = world s" "world u12 = world s" "world u13 = world s"
      using p(3,5,7,9,11,13,15,17,19,21,23,25,27) by simp_all
    have reg: "transfer_registry_read C (world s) mintKey ids irsState tirState (pf_requiredClaimTopics r)"
      unfolding transfer_registry_read_def r(1)
      using pda_of_InrD [OF p(8) [unfolded getTokenStatePda_def]] ask_InrD [OF p(10)] transfer_irs_InrD [OF p(12)]
        pda_of_InrD [OF p(14)] pda_of_InrD [OF p(16)] topics_InrD [OF p(18)] w(1-3) by auto
    have mov: "transferable_read C (world s) mintKey ids from balance freeze"
      unfolding transferable_read_def
      using ata_InrD [OF p(4) [unfolded getTokenAccountAddress_def]] balance_InrD [OF p(20)] freeze_InrD [OF p(22)] w(4,5)
      by auto
    have sim: "simulation = None" if "we_blockers recipient \<noteq> []"
      using p(30) that by (auto simp: h_return_def split: if_splits)
    show ?thesis
      by (rule p(1) [of u1 ids irsState tirState balance freeze u12 u13 u13 sender u14 recipient simulation])
        (use reg mov sim w p(2,26,28) r in simp_all)
  qed
  done

text \<open>
  C17. A preflight changes nothing, and reads all it decides on in one world. When it passes,
  sender and recipient both have an active identity in the registry storage that the token state
  of the mint leads to, are not frozen and hold, for every topic that the topics account of the
  mint requires, a listed claim that is neither revoked nor expired, by an issuer that the
  issuers registry of the mint trusts and who signed it; the amount is within the balance of the
  token account of the sender less what is partially frozen for it, and a simulation, if one
  ran, succeeded.
\<close>

theorem passed_preflight_is_eligible:
  assumes "preflightTransfer C P M mintKey from to amount decimals s = (t, Inr r)" and "pf_ok r"
  shows "world t = world s \<and>
    (\<exists>s0 ids irsState tirState balance freeze.
       transfer_program_ids C P s = (s0, Inr ids) \<and>
       transfer_registry_read C (world s) mintKey ids irsState tirState (pf_requiredClaimTopics r) \<and>
       (\<forall>wallet \<in> {from, to}. cleared_wallet C (world s) ids irsState tirState mintKey (pf_requiredClaimTopics r) wallet) \<and>
       transferable_read C (world s) mintKey ids from balance freeze \<and>
       amount \<le> transferable balance freeze \<and> amount \<le> balance \<and>
       pf_transferableBalance r = bigint_toString (transferable balance freeze)) \<and>
    (\<forall>outcome. pf_simulation r = Some outcome \<longrightarrow> sr_success outcome)"
proof -
  have "reads_only (preflightTransfer C P M mintKey from to amount decimals)"
    unfolding preflightTransfer_def Let_def by (intro reads_intros)
  from reads_onlyD [OF this, of s] assms(1) have w: "world t = world s" by simp
  from assms(1) obtain ids irsState tirState balance freeze sender recipient simulation s0 s1 s2 s3 s4 where
    rd: "transfer_program_ids C P s = (s0, Inr ids)"
      "transfer_registry_read C (world s) mintKey ids irsState tirState (pf_requiredClaimTopics r)"
      "transferable_read C (world s) mintKey ids from balance freeze"
    and p: "world s1 = world s" "world s3 = world s"
      "checkWalletEligibility C mintKey from irsState tirState (pf_requiredClaimTopics r) ids s1 = (s2, Inr sender)"
      "checkWalletEligibility C mintKey to irsState tirState (pf_requiredClaimTopics r) ids s3 = (s4, Inr recipient)"
      "pf_simulation r = simulation"
    and b: "pf_blockers r = map (\<lambda>b. ''Sender: '' @ b) (we_blockers sender) @
      map (\<lambda>b. ''Recipient: '' @ b) (we_blockers recipient) @
      balance_blockers balance (transferable balance freeze) amount @ simulation_blockers simulation"
    and tb: "pf_transferableBalance r = bigint_toString (transferable balance freeze)"
    by (rule preflightTransfer_InrD) (rule that)
  from b assms(2) have e: "we_blockers sender = []" "we_blockers recipient = []"
    "balance_blockers balance (transferable balance freeze) amount = []" "simulation_blockers simulation = []"
    by (simp_all add: pf_ok_def)
  from eligible_InrD [OF p(3) e(1)] eligible_InrD [OF p(4) e(2)] p(1,2) have
    c: "\<forall>wallet \<in> {from, to}. cleared_wallet C (world s) ids irsState tirState mintKey (pf_requiredClaimTopics r) wallet"
    by simp
  have "amount \<le> transferable balance freeze" "amount \<le> balance"
    using e(3) by (auto simp: balance_blockers_def split: if_splits)
  moreover have "\<forall>outcome. pf_simulation r = Some outcome \<longrightarrow> sr_success outcome"
    using e(4) p(5) by (auto simp: simulation_blockers_def split: option.splits if_splits)
  ultimately show ?thesis using w rd c tb by blast
qed

section \<open>A status that hides a blocker\<close>

lemma eligibility_flags:
  assumes "checkWalletEligibility C mintKey wallet irsState tirState topics ids s = (t, Inr r)"
  shows "(\<not> we_identityExists r \<longrightarrow> ''Wallet is not registered in this token's IRS.'' \<in> set (we_blockers r)) \<and>
    (we_identityExists r \<and> \<not> we_identityActive r \<longrightarrow>
       ''Wallet identity is registered but inactive in this token's IRS.'' \<in> set (we_blockers r))"
  using assms unfolding checkWalletEligibility_def
  by (elim bind_pdaE bind_askE h_bind_InrE) (auto simp: h_return_def split: option.split)

text \<open>
  C38. When the only blocker of a transfer is that the recipient is frozen, the preflight
  refuses it with the status READY_TO_TRANSFER.
\<close>

theorem frozen_recipient_is_reported_ready:
  assumes "preflightTransfer C P M mintKey from to amount decimals s = (t, Inr r)"
    and "we_blockers (pf_sender r) = []" and "we_blockers (pf_recipient r) = [frozen_text]"
    and "''Insufficient transferable balance after partial freeze.'' \<notin> set (pf_blockers r)"
    and "''Insufficient token balance.'' \<notin> set (pf_blockers r)"
  shows "pf_status r = ''READY_TO_TRANSFER'' \<and> \<not> pf_ok r"
proof -
  from assms(1) obtain ids irsState tirState balance freeze sender recipient simulation s1 s2 s3 s4 where
    p: "checkWalletEligibility C mintKey to irsState tirState (pf_requiredClaimTopics r) ids s3 = (s4, Inr recipient)"
    and e: "pf_sender r = sender" "pf_recipient r = recipient"
    and b: "pf_blockers r = map (\<lambda>b. ''Sender: '' @ b) (we_blockers sender) @
      map (\<lambda>b. ''Recipient: '' @ b) (we_blockers recipient) @
      balance_blockers balance (transferable balance freeze) amount @ simulation_blockers simulation"
    and st: "pf_status r = preflight_status sender recipient balance (transferable balance freeze) amount simulation"
      "we_blockers recipient \<noteq> [] \<Longrightarrow> simulation = None"
    by (rule preflightTransfer_InrD) (rule that)
  have k: "we_blockers sender = []" "we_blockers recipient = [frozen_text]" using assms(2,3) e by simp_all
  have f: "we_identityExists recipient" "we_identityActive recipient"
    using eligibility_flags [OF p] k(2) by (auto simp: frozen_text_def)
  have "\<not> balance < amount" "\<not> transferable balance freeze < amount"
    using assms(4,5) b by (auto simp: balance_blockers_def)
  moreover have "\<not> js_includes frozen_text ''topic 1''" "\<not> js_includes frozen_text ''topic 2''"
    by code_simp+
  ultimately have "pf_status r = ''READY_TO_TRANSFER''"
    using st k f by (simp add: preflight_status_def)
  moreover have "\<not> pf_ok r" using b k by (simp add: pf_ok_def)
  ultimately show ?thesis ..
qed

section \<open>What a seller can list\<close>

lemma readU64_nonneg: "readU64 data off = Inr n \<Longrightarrow> 0 \<le> n"
  by (auto simp: readU64_def read_uint_def le_val_nonneg split: if_splits)

lemma seller_lists_what_is_transferable:
  assumes "checkSellerListingCapacity C P mintKey seller amount s = (t, Inr r)"
  shows "world t = world s \<and> (\<exists>balance freeze. 0 \<le> freeze \<and>
    (lc_ok r \<longleftrightarrow> 0 < amount \<and> amount \<le> transferable balance freeze) \<and>
    lc_transferableBalance r = bigint_toString (transferable balance freeze))"
proof -
  have "reads_only (checkSellerListingCapacity C P mintKey seller amount)"
    unfolding checkSellerListingCapacity_def Let_def by (intro reads_intros)
  from reads_onlyD [OF this, of s] assms have w: "world t = world s" by simp
  from assms obtain ids balance freeze u v where
    f: "getPartialFreezeAmount C mintKey seller (si_token (ids :: suite_ids)) u = (v, Inr freeze)"
    and r: "lc_blockers r = (if amount \<le> 0 then [''Listing amount must be greater than zero.''] else []) @
          (if balance < amount then [''Listing amount exceeds current token balance.''] else []) @
          (if transferable balance freeze < amount
           then [''Listing amount exceeds transferable balance after partial freeze.''] else [])"
      "lc_transferableBalance r = bigint_toString (transferable balance freeze)"
    unfolding checkSellerListingCapacity_def Let_def
    by (elim h_bind_InrE) (auto simp: h_return_def)
  have "0 \<le> freeze"
    using f unfolding getPartialFreezeAmount_def
    by (elim bind_pdaE bind_askE) (auto simp: h_return_def dest!: pure_step_InrD readU64_nonneg split: option.splits if_splits)
  moreover from this have "lc_ok r \<longleftrightarrow> 0 < amount \<and> amount \<le> transferable balance freeze"
    by (auto simp: lc_ok_def r(1) transferable_def split: if_splits)
  ultimately show ?thesis using w r(2) by blast
qed

section \<open>Witnesses\<close>

text \<open>A client without a node, whose world is its clock.\<close>

definition no_answer :: "jsval + 'a" where
  "no_answer = Inl (error_of ''none'')"

definition view_ix :: "client_ix \<Rightarrow> transaction_instruction" where
  "view_ix ix = (case ix of
     TransferCheckedIx a m b w n d ks \<Rightarrow> \<lparr> ix_programId = demo_key 20, ix_keys = ks, ix_data = [] \<rparr>
   | _ \<Rightarrow> \<lparr> ix_programId = demo_key 21, ix_keys = [], ix_data = [] \<rparr>)"

definition clock_client :: "int transfer_client" where
  "clock_client = \<lparr> pk_of_string = (\<lambda>s. Inl ''none''), pk_of_bytes = Inr, toBase58 = key_text,
     token_2022 = demo_key 20, ata_of = (\<lambda>m w. Inr (demo_key 40)), find_pda = demo_pda, account_info = (\<lambda>k. Inr None),
     wallet_key = demo_key 7, system_program = demo_key 21, sysvar_instructions = demo_key 22,
     account_at = (\<lambda>w k. no_answer), accounts_at = (\<lambda>w ks. no_answer), program_accounts_at = (\<lambda>w p fs. no_answer),
     token_balance_at = (\<lambda>w k. no_answer), spl_account_at = (\<lambda>w k. no_answer), spl_mint_at = (\<lambda>w k. no_answer),
     now_ms = (\<lambda>w. w), anchor_token_state = (\<lambda>w p k. no_answer), anchor_owner_state = (\<lambda>w p k. no_answer),
     anchor_agent_role = (\<lambda>w p k. no_answer), anchor_frozen_wallet = (\<lambda>w p k. no_answer),
     anchor_compliance_state = (\<lambda>w p k. no_answer), anchor_irp_state = (\<lambda>w p k. no_answer),
     anchor_irs_state = (\<lambda>w p k. no_answer), anchor_ctr_topics = (\<lambda>w p k. no_answer),
     anchor_fid_account = (\<lambda>w p k. no_answer), anchor_module_owner = (\<lambda>w p k. no_answer),
     decode_frozen_wallet = (\<lambda>b. no_answer), decode_claim = (\<lambda>b. no_answer), decode_wallet_identity = (\<lambda>b. no_answer),
     sha256 = (\<lambda>b. b), send_tx = (\<lambda>ixs w. (w, no_answer)),
     latest_blockhash = (\<lambda>w. no_answer), compile_error = (\<lambda>tx. None), serialize_tx = (\<lambda>tx. no_answer),
     sign_tx = (\<lambda>w tx. no_answer), send_raw = (\<lambda>raw n w. (w, no_answer)), confirm_tx = (\<lambda>sig bh h w. (w, no_answer)),
     status_at = (\<lambda>w sig. no_answer), slot_at = (\<lambda>w. no_answer), lookup_table_at = (\<lambda>w k. Inr None),
     simulate_tx = (\<lambda>w tx. no_answer), get_logs = (\<lambda>w e. no_answer), create_table = (\<lambda>k n. no_answer),
     extend_table = (\<lambda>a b ks. CreateAtaIx a b a b), ix_view = view_ix, pause_ms = (\<lambda>ms w. w + ms) \<rparr>"

theorem every_transfer_returns_witness:
  "\<exists>t r. executeTransfer clock_client demo_programs demo_modules (demo_key 24) (demo_key 8) (demo_key 28) 30 2
      \<lparr> factoryStatePromise = Some None, world = 1700000000000 \<rparr> = Some (t, Inr r)"
  by (rule every_transfer_returns) (simp add: timers_advance_def clock_client_def)

theorem lookup_table_holds_every_account_witness:
  "collectLookupTableAddresses clock_client (demo_key 8)
      [TransferCheckedIx (demo_key 1) (demo_key 2) (demo_key 3) (demo_key 8) 5 2
         [meta (demo_key 1) False True, meta (demo_key 2) False False, meta (demo_key 3) False True,
          meta (demo_key 8) True False, meta (demo_key 1) False False]]
     = [demo_key 20, demo_key 1, demo_key 2, demo_key 3] \<and>
   concat (slices 24 [demo_key 20, demo_key 1, demo_key 2, demo_key 3]) = [demo_key 20, demo_key 1, demo_key 2, demo_key 3]"
proof -
  let ?ix = "TransferCheckedIx (demo_key 1) (demo_key 2) (demo_key 3) (demo_key 8) 5 2
         [meta (demo_key 1) False True, meta (demo_key 2) False False, meta (demo_key 3) False True,
          meta (demo_key 8) True False, meta (demo_key 1) False False]"
  have c: "collectLookupTableAddresses clock_client (demo_key 8) [?ix] = [demo_key 20, demo_key 1, demo_key 2, demo_key 3]"
    by code_simp
  from lookup_table_holds_every_account [OF c [symmetric]] c show ?thesis by blast
qed

text \<open>A ledger with the token of mint 24; the wallet 8 is cleared, the wallet 28 is frozen.\<close>

definition transfer_pda :: "bytes list \<Rightarrow> pubkey \<Rightarrow> string + (pubkey \<times> int)" where
  "transfer_pda seeds p =
     (if seeds = [ascii ''frozen'', demo_key 24, demo_key 28] then Inr (demo_key 52, 255)
      else if take 1 seeds = [ascii ''frozen''] then Inr (demo_key 53, 255)
      else if take 1 seeds = [ascii ''partial_freeze''] then Inr (demo_key 54, 255)
      else if take 1 seeds = [ascii ''ctr_state''] then Inr (demo_key 18, 255)
      else if take 1 seeds = [ascii ''tir_state''] then Inr (demo_key 12, 255)
      else if seeds = [ascii ''fid'', demo_key 8] then Inr (demo_key 5, 255)
      else mint_pda seeds p)"

definition transfer_programs :: program_ids where
  "transfer_programs = \<lparr> factory = demo_key 60, token = demo_key 61, tokenHook = demo_key 62, irp = demo_key 63,
     irs = demo_key 67, tir = demo_key 57, ctr = demo_key 56, compliance = demo_key 72, fid = demo_key 70 \<rparr>"

definition transfer_demo :: "ledger_world transfer_client" where
  "transfer_demo = client.extend (mint_client\<lparr> find_pda := transfer_pda, token_balance_at := (\<lambda>w k. Inr 100) \<rparr>)
     (transfer_client.fields (\<lambda>w. Inr (''hash'', 9)) (\<lambda>tx. None) (\<lambda>tx. Inr [0]) (\<lambda>w tx. Inr tx)
       (\<lambda>raw n w. (w, Inr ''signature'')) (\<lambda>sig bh h w. (w, Inr JNull)) (\<lambda>w sig. Inr None) (\<lambda>w. Inr 1)
       (\<lambda>w k. Inr None) (\<lambda>w tx. Inr \<lparr> sm_err = JNull, sm_logs = [] \<rparr>) (\<lambda>w e. no_answer) (\<lambda>k n. no_answer)
       (\<lambda>a b ks. CreateAtaIx a b a b) view_ix (\<lambda>ms w. w))"

definition transfer_world :: ledger_world where
  "transfer_world = mint_world @
     [(demo_key 40, \<lparr> acc_owner = demo_key 20, acc_data = [0] \<rparr>),
      (demo_key 52, \<lparr> acc_owner = demo_key 61, acc_data = [0] \<rparr>)]"

definition transfer_service :: "ledger_world service" where
  "transfer_service = \<lparr> factoryStatePromise = Some None, world = transfer_world \<rparr>"

theorem passed_preflight_is_eligible_witness:
  "\<exists>(ids :: suite_ids) irsState tirState.
     cleared_wallet transfer_demo transfer_world ids irsState tirState (demo_key 24) [1] (demo_key 8)"
proof -
  have "case preflightTransfer transfer_demo transfer_programs demo_modules (demo_key 24) (demo_key 8) (demo_key 8) 30 2
      transfer_service of (t, Inl e) \<Rightarrow> False | (t, Inr r) \<Rightarrow> pf_ok r \<and> pf_requiredClaimTopics r = [1]" by code_simp
  then obtain t r where p: "preflightTransfer transfer_demo transfer_programs demo_modules (demo_key 24) (demo_key 8)
      (demo_key 8) 30 2 transfer_service = (t, Inr r)" "pf_ok r" "pf_requiredClaimTopics r = [1]"
    by (auto split: prod.splits sum.splits)
  have "world transfer_service = transfer_world" by (simp add: transfer_service_def)
  with passed_preflight_is_eligible [OF p(1,2)] p(3) show ?thesis by auto
qed

theorem frozen_recipient_is_reported_ready_witness:
  "case preflightTransfer transfer_demo transfer_programs demo_modules (demo_key 24) (demo_key 8) (demo_key 28) 30 2
      transfer_service of (t, Inl e) \<Rightarrow> False | (t, Inr r) \<Rightarrow> pf_status r = ''READY_TO_TRANSFER'' \<and> \<not> pf_ok r"
proof -
  have "case preflightTransfer transfer_demo transfer_programs demo_modules (demo_key 24) (demo_key 8) (demo_key 28) 30 2
      transfer_service of (t, Inl e) \<Rightarrow> False
    | (t, Inr r) \<Rightarrow> we_blockers (pf_sender r) = [] \<and> we_blockers (pf_recipient r) = [frozen_text] \<and>
        ''Insufficient transferable balance after partial freeze.'' \<notin> set (pf_blockers r) \<and>
        ''Insufficient token balance.'' \<notin> set (pf_blockers r)" by code_simp
  then show ?thesis
    by (auto split: prod.splits sum.splits dest: frozen_recipient_is_reported_ready)
qed

lemma demo_balance: "token_balance_at transfer_demo w k = Inr 100"
  by (simp add: transfer_demo_def client.defs transfer_client.defs mint_client_def demo_client_def)

theorem successful_transfer_was_delivered_witness:
  "\<exists>(ids :: suite_ids) sourceTa destinationTa accounts remaining keys approval signature w w' w''.
     later transfer_demo (world transfer_service) w \<and>
     delivered transfer_demo (demo_key 8) (AnchorIx (si_token ids) ''transfer'' [BU64 30, BU64 100, BU64 100]
       accounts remaining) approval w w' \<and>
     delivered transfer_demo (demo_key 8) (TransferCheckedIx sourceTa (demo_key 24) destinationTa (demo_key 8) 30 2 keys)
       signature w' w''"
proof -
  have "case executeTransfer transfer_demo transfer_programs demo_modules (demo_key 24) (demo_key 8) (demo_key 28) 30 2
      transfer_service of Some (t, Inr r) \<Rightarrow> tx_success r | _ \<Rightarrow> False" by code_simp
  then obtain t r where x: "executeTransfer transfer_demo transfer_programs demo_modules (demo_key 24) (demo_key 8)
      (demo_key 28) 30 2 transfer_service = Some (t, Inr r)" "tx_success r"
    by (auto split: option.splits prod.splits sum.splits)
  from successful_transfer_was_delivered [OF x] show ?thesis unfolding demo_balance sum.inject by blast
qed

end
