(* ===== verification/ComplianceService.thy ===== *)
theory ComplianceService
  imports TransferOperations ComplianceHooks ProgramIdl DecimalUnits
begin

unbundle bit_operations_syntax

text \<open>
  The compliance service of the web client (\<open>frontend/src/services/compliance.ts\<close>): the state of a
  token's compliance, the states of its modules, and the transactions of their owner. The typed
  account fetcher of the module programs is the parameter \<open>F\<close>: the state at a world that the named
  account type yields for an address, which throws for an account of another type.
\<close>

section \<open>Tables\<close>

definition SET_MAX_SUPPLY_DISCRIMINATOR :: bytes where
  "SET_MAX_SUPPLY_DISCRIMINATOR = byte_list [16, 207, 140, 77, 107, 20, 202, 158]"

definition MODULE_SEEDS :: "(string \<times> bytes) list" where
  "MODULE_SEEDS =
     [(''daily_limit'', ascii ''mod_daily_limit''),
      (''max_balance'', ascii ''mod_max_balance''),
      (''max_transfer'', ascii ''mod_max_transfer''),
      (''lockup'', ascii ''mod_lockup''),
      (''supply_cap'', ascii ''mod_supply_cap''),
      (''max_investors'', ascii ''mod_max_investors''),
      (''country_restrict'', ascii ''mod_country''),
      (''country_cap'', ascii ''mod_country_cap'')]"

text \<open>The keys of the table are the addresses of eight different programs.\<close>

definition PROGRAM_TO_MODULE_TYPE :: "('x) chain_scheme \<Rightarrow> module_ids \<Rightarrow> (string \<times> string) list" where
  "PROGRAM_TO_MODULE_TYPE C M =
     [(toBase58 C (MOD_DAILY_LIMIT M), ''daily_limit''),
      (toBase58 C (MOD_MAX_BALANCE M), ''max_balance''),
      (toBase58 C (MOD_MAX_TRANSFER M), ''max_transfer''),
      (toBase58 C (MOD_LOCKUP M), ''lockup''),
      (toBase58 C (MOD_SUPPLY_CAP M), ''supply_cap''),
      (toBase58 C (MOD_MAX_INVESTORS M), ''max_investors''),
      (toBase58 C (MOD_COUNTRY_RESTRICT M), ''country_restrict''),
      (toBase58 C (MOD_COUNTRY_CAP M), ''country_cap'')]"

definition MODULE_DISCRIMINATORS :: "(string \<times> int list) list" where
  "MODULE_DISCRIMINATORS =
     [(''daily_limit'', [115, 149, 71, 136, 202, 55, 13, 36]),
      (''max_balance'', [198, 43, 168, 97, 33, 238, 35, 103]),
      (''max_transfer'', [83, 34, 139, 201, 192, 100, 217, 145]),
      (''lockup'', [175, 232, 189, 58, 200, 162, 121, 86]),
      (''supply_cap'', [45, 86, 210, 133, 77, 26, 65, 217]),
      (''max_investors'', [220, 15, 138, 207, 175, 92, 68, 53]),
      (''country_restrict'', [151, 32, 53, 99, 41, 185, 74, 198]),
      (''country_cap'', [205, 134, 48, 118, 33, 208, 67, 90])]"

section \<open>Reads\<close>

record compliance_view =
  cpv_owner :: string
  cpv_tokenMint :: string
  cpv_modules :: "string list"
  cpv_modulesPaused :: bool
  cpv_bump :: int

definition findComplianceStatePda ::
    "('w, 'c) client_scheme \<Rightarrow> program_ids \<Rightarrow> pubkey \<Rightarrow> ('w, pubkey) operation" where
  "findComplianceStatePda C P mintKey = pda_of C [ascii ''compliance_state'', mintKey] (compliance P)"

definition fetchComplianceState ::
    "('w, 'c) client_scheme \<Rightarrow> program_ids \<Rightarrow> pubkey \<Rightarrow> ('w, compliance_view) operation" where
  "fetchComplianceState C P mintKey =
     h_bind (findComplianceStatePda C P mintKey) (\<lambda>complianceStatePda.
     h_bind (ask (\<lambda>w. anchor_compliance_state C w (COMPLIANCE_IDL_ADDRESS C) complianceStatePda)) (\<lambda>raw.
     h_return \<lparr> cpv_owner = toBase58 C (cs_owner raw), cpv_tokenMint = toBase58 C (cs_tokenMint raw),
       cpv_modules = map (toBase58 C) (cs_modules raw), cpv_modulesPaused = cs_modulesPaused raw,
       cpv_bump = cs_bump raw \<rparr>))"

text \<open>The objects that the service returns for the states of modules: owner, mint, authority of the hooks.\<close>

datatype module_view =
    DailyLimitView string string string int int
  | MaxBalanceView string string int int
  | MaxTransferView string string int int
  | LockupView string string jsnum int
  | SupplyCapView string string string int int int
  | MaxInvestorsView string string string int int int
  | CountryRestrictView string string "int list" int
  | CountryCapView string string string "(int \<times> int) list" int

definition module_account_type :: "string \<Rightarrow> string option" where
  "module_account_type moduleType = map_of
     [(''daily_limit'', ''dailyTransferLimitModule''), (''max_balance'', ''maxBalanceModule''),
      (''max_transfer'', ''maxTransferModule''), (''lockup'', ''lockupModule''),
      (''supply_cap'', ''supplyCapModule''), (''max_investors'', ''maxInvestorsModule''),
      (''country_restrict'', ''countryRestrictModule''), (''country_cap'', ''investorCountryCapModule'')]
     moduleType"

text \<open>\<open>Number(x.toString())\<close> rounds the end of a lockup to a \<open>number\<close>.\<close>

fun module_view_of :: "('x) chain_scheme \<Rightarrow> module_state \<Rightarrow> module_view" where
  "module_view_of C (DailyTransferLimitModule w m h v b) =
     DailyLimitView (toBase58 C w) (toBase58 C m) (toBase58 C h) v b"
| "module_view_of C (MaxBalanceModule w m v b) = MaxBalanceView (toBase58 C w) (toBase58 C m) v b"
| "module_view_of C (MaxTransferModule w m v b) = MaxTransferView (toBase58 C w) (toBase58 C m) v b"
| "module_view_of C (LockupModule w m v b) =
     LockupView (toBase58 C w) (toBase58 C m) (round_double (of_int v)) b"
| "module_view_of C (SupplyCapModule w m h v n b) =
     SupplyCapView (toBase58 C w) (toBase58 C m) (toBase58 C h) v n b"
| "module_view_of C (MaxInvestorsModule w m h v n b) =
     MaxInvestorsView (toBase58 C w) (toBase58 C m) (toBase58 C h) v n b"
| "module_view_of C (CountryRestrictModule w m cs b) = CountryRestrictView (toBase58 C w) (toBase58 C m) cs b"
| "module_view_of C (InvestorCountryCapModule w m h cs b) =
     CountryCapView (toBase58 C w) (toBase58 C m) (toBase58 C h) cs b"

text \<open>A name that every object inherits, such as \<open>toString\<close>, throws as well, with the text of the runtime.\<close>

definition fetchModuleState ::
    "('w, 'c) client_scheme \<Rightarrow> ('w \<Rightarrow> string \<Rightarrow> pubkey \<Rightarrow> jsval + module_state) \<Rightarrow> string \<Rightarrow> pubkey \<Rightarrow>
     pubkey \<Rightarrow> ('w, module_view) operation" where
  "fetchModuleState C F moduleType moduleProgramId mintKey =
     (case map_of MODULE_SEEDS moduleType of
        None \<Rightarrow> fail_with (''Unknown module type: '' @ moduleType)
      | Some seed \<Rightarrow>
          h_bind (pda_of C [seed, mintKey] moduleProgramId) (\<lambda>moduleStatePda.
          case module_account_type moduleType of
            None \<Rightarrow> fail_with (''Unsupported module type: '' @ moduleType)
          | Some accountType \<Rightarrow>
              h_bind (ask (\<lambda>w. F w accountType moduleStatePda)) (\<lambda>raw. h_return (module_view_of C raw))))"

section \<open>Transactions of the owner\<close>

text \<open>\<open>this.program.methods.m(args).accounts({ owner, complianceState, ... }).rpc(...)\<close>\<close>

definition compliance_call ::
    "('w, 'c) client_scheme \<Rightarrow> pubkey \<Rightarrow> string \<Rightarrow> bval list \<Rightarrow> (string \<times> pubkey) list \<Rightarrow> ('w, string) operation" where
  "compliance_call C complianceState name args others = with_formatted_errors (send_all C
     [AnchorIx (COMPLIANCE_IDL_ADDRESS C) name args
        ([(''owner'', wallet_key C), (''complianceState'', complianceState)] @ others) []])"

definition bindModule ::
    "('w, 'c) client_scheme \<Rightarrow> program_ids \<Rightarrow> pubkey \<Rightarrow> pubkey \<Rightarrow> ('w, string) operation" where
  "bindModule C P mintKey modulePubkey = h_bind (findComplianceStatePda C P mintKey) (\<lambda>complianceState.
     compliance_call C complianceState ''bindModule'' [BPubkey modulePubkey] [])"

definition unbindModule ::
    "('w, 'c) client_scheme \<Rightarrow> program_ids \<Rightarrow> pubkey \<Rightarrow> pubkey \<Rightarrow> ('w, string) operation" where
  "unbindModule C P mintKey modulePubkey = h_bind (findComplianceStatePda C P mintKey) (\<lambda>complianceState.
     compliance_call C complianceState ''unbindModule'' [BPubkey modulePubkey] [])"

definition setModulesPaused ::
    "('w, 'c) client_scheme \<Rightarrow> program_ids \<Rightarrow> pubkey \<Rightarrow> bool \<Rightarrow> ('w, string) operation" where
  "setModulesPaused C P mintKey paused = h_bind (findComplianceStatePda C P mintKey) (\<lambda>complianceState.
     compliance_call C complianceState ''setModulesPaused'' [BBool paused] [])"

subsection \<open>Numbers\<close>

text \<open>
  \<open>BigInt(v)\<close> of an unknown value: texts are parsed, numbers must be integers, objects go through
  their text.
\<close>

fun bigint_of_value :: "jsval \<Rightarrow> int res" where
  "bigint_of_value (JStr s) = (case BigInt s of None \<Rightarrow> Inl (JsError ''SyntaxError'') | Some n \<Rightarrow> Inr n)"
| "bigint_of_value (JNum x) = bigint_of_number x"
| "bigint_of_value (JBool b) = Inr (if b then 1 else 0)"
| "bigint_of_value JNull = Inl (JsError ''TypeError'')"
| "bigint_of_value JUndefined = Inl (JsError ''TypeError'')"
| "bigint_of_value v = (case BigInt (js_String v) of None \<Rightarrow> Inl (JsError ''SyntaxError'') | Some n \<Rightarrow> Inr n)"

text \<open>
  \<open>setBigUint64\<close> keeps a number modulo \<open>2 ^ 64\<close>; where it does not exist, two halves are written.
\<close>

definition encodeBN :: "bool \<Rightarrow> int \<Rightarrow> bytes" where
  "encodeBN has_setBigUint64 v =
     (if has_setBigUint64 then le_bytes 8 v
      else let lo = v AND 0xffffffff; hi = drop_bit 32 v AND 0xffffffff
           in le_bytes 4 lo @ le_bytes 4 hi)"

definition toTokenAmount :: "string \<Rightarrow> nat \<Rightarrow> int res" where
  "toTokenAmount v decimals =
     (let parts = split_char (CHR ''.'') (trim v);
          wholeRaw = hd parts;
          fractionRaw = (case tl parts of [] \<Rightarrow> [] | f # _ \<Rightarrow> f);
          whole = str_or wholeRaw ''0'';
          fraction = take decimals (fractionRaw @ replicate (decimals - length fractionRaw) (CHR ''0''))
      in case BigInt whole of
           None \<Rightarrow> Inl (JsError ''SyntaxError'')
         | Some w \<Rightarrow> (case BigInt (str_or fraction ''0'') of
               None \<Rightarrow> Inl (JsError ''SyntaxError'')
             | Some f \<Rightarrow> Inr (w * 10 ^ decimals + f)))"

subsection \<open>Configuration of a module\<close>

definition getModuleProgramId ::
    "('w, 'c) client_scheme \<Rightarrow> module_ids \<Rightarrow> string \<Rightarrow> ('w, pubkey) operation" where
  "getModuleProgramId C M moduleType =
     (case find (\<lambda>(k, v). v = moduleType) (PROGRAM_TO_MODULE_TYPE C M) of
        None \<Rightarrow> fail_with (''No program ID found for module type: '' @ moduleType)
      | Some entry \<Rightarrow> key_of_text C (fst entry))"

definition module_parameter :: "string \<Rightarrow> string option" where
  "module_parameter moduleType = map_of
     [(''daily_limit'', ''daily_limit''), (''max_balance'', ''max_balance''), (''max_transfer'', ''max_amount''),
      (''lockup'', ''lockup_end''), (''supply_cap'', ''max_supply''), (''max_investors'', ''max_investors'')]
     moduleType"

definition encodeModuleConfigData :: "string \<Rightarrow> (string \<times> jsval) list \<Rightarrow> bytes res" where
  "encodeModuleConfigData moduleType params =
     (case map_of MODULE_DISCRIMINATORS moduleType of
        None \<Rightarrow> Inl (JsError (''Unknown module type for encoding: '' @ moduleType))
      | Some disc \<Rightarrow>
          (case module_parameter moduleType of
             None \<Rightarrow> Inr (byte_list disc)
           | Some p \<Rightarrow>
               if js_field params p = JUndefined then Inr (byte_list disc)
               else (case bigint_of_value (js_field params p) of
                       Inl e \<Rightarrow> Inl e
                     | Inr n \<Rightarrow> Inr (byte_list disc @ encodeBN True n))))"

definition configureModule ::
    "('w, 'c) client_scheme \<Rightarrow> program_ids \<Rightarrow> module_ids \<Rightarrow> string \<Rightarrow> pubkey \<Rightarrow> (string \<times> jsval) list \<Rightarrow>
     ('w, string) operation" where
  "configureModule C P M moduleType mintKey params =
     h_bind (findComplianceStatePda C P mintKey) (\<lambda>complianceState.
     h_bind (pure_step (encodeModuleConfigData moduleType params)) (\<lambda>encoded.
     h_bind (getModuleProgramId C M moduleType) (\<lambda>moduleProgram.
     compliance_call C complianceState ''callModuleFunction'' [BBytes encoded]
       [(''moduleProgram'', moduleProgram)])))"

subsection \<open>Supply cap\<close>

definition setSupplyCap ::
    "('w, 'c) client_scheme \<Rightarrow> module_ids \<Rightarrow> pubkey \<Rightarrow> string \<Rightarrow> nat \<Rightarrow> ('w, string) operation" where
  "setSupplyCap C M mintKey readableMaxSupply decimals =
     h_bind (pda_of C [ascii ''mod_supply_cap'', mintKey] (MOD_SUPPLY_CAP M)) (\<lambda>moduleState.
     h_bind (pure_step (toTokenAmount readableMaxSupply decimals)) (\<lambda>maxSupply.
     with_formatted_errors (send_all C [RawIx
       \<lparr> ix_programId = MOD_SUPPLY_CAP M,
         ix_keys = [\<lparr> am_pubkey = wallet_key C, am_isSigner = True, am_isWritable = False \<rparr>,
                    \<lparr> am_pubkey = moduleState, am_isSigner = False, am_isWritable = True \<rparr>],
         ix_data = SET_MAX_SUPPLY_DISCRIMINATOR @ encodeBN True maxSupply \<rparr>])))"

section \<open>Interface descriptions of the modules\<close>

text \<open>The discriminators of the instructions of each module program (\<open>frontend/src/idl/mod_*.json\<close>).\<close>

definition common_module_instructions :: "(string \<times> int list) list" where
  "common_module_instructions =
     [(''can_transfer'', [233, 153, 157, 96, 140, 58, 200, 137]),
      (''created'', [181, 154, 183, 237, 76, 88, 131, 92]),
      (''destroyed'', [212, 251, 145, 156, 56, 131, 108, 36]),
      (''initialize_module'', [237, 8, 2, 139, 239, 178, 75, 161]),
      (''transferred'', [234, 216, 64, 126, 163, 136, 73, 206])]"

definition hook_authority_instruction :: "(string \<times> int list) list" where
  "hook_authority_instruction = [(''set_hook_authority'', [155, 21, 37, 140, 172, 113, 25, 235])]"

definition MODULE_INSTRUCTIONS :: "(string \<times> (string \<times> int list) list) list" where
  "MODULE_INSTRUCTIONS =
     [(''daily_limit'', (''initialize_wallet_usage'', [12, 107, 11, 224, 249, 33, 169, 250]) #
         hook_authority_instruction @ common_module_instructions),
      (''max_balance'', common_module_instructions),
      (''max_transfer'', common_module_instructions),
      (''lockup'', common_module_instructions),
      (''supply_cap'', (''set_max_supply'', [16, 207, 140, 77, 107, 20, 202, 158]) #
         hook_authority_instruction @ common_module_instructions),
      (''max_investors'', hook_authority_instruction @ common_module_instructions),
      (''country_restrict'', common_module_instructions),
      (''country_cap'', (''initialize_country_count'', [187, 113, 130, 75, 24, 40, 202, 11]) #
         hook_authority_instruction @ common_module_instructions)]"

definition supply_cap_idl :: idl where
  "supply_cap_idl =
     [(''can_transfer'', [233, 153, 157, 96, 140, 58, 200, 137], []),
      (''created'', [181, 154, 183, 237, 76, 88, 131, 92], [TU64]),
      (''destroyed'', [212, 251, 145, 156, 56, 131, 108, 36], [TU64]),
      (''initialize_module'', [237, 8, 2, 139, 239, 178, 75, 161], [TPubkey, TU64]),
      (''set_hook_authority'', [155, 21, 37, 140, 172, 113, 25, 235], [TPubkey]),
      (''set_max_supply'', [16, 207, 140, 77, 107, 20, 202, 158], [TU64]),
      (''transferred'', [234, 216, 64, 126, 163, 136, 73, 206], [])]"

end
