(* ===== verification/ComplianceServiceProperties.thy ===== *)
theory ComplianceServiceProperties
  imports ComplianceService TokenServiceProperties
begin

text \<open>
  What a supply cap typed into the client becomes on the chain, and what the configuration of a module
  reaches there.
\<close>

section \<open>Amounts\<close>

lemma le_bytes_append: "le_bytes (a + b) v = le_bytes a v @ le_bytes b (v div 256 ^ a)"
  by (induction a arbitrary: v) (simp_all add: zdiv_zmult2_eq)

lemma le_bytes_mod: "le_bytes n (v mod 256 ^ n) = le_bytes n v"
  by (metis le_bytes_le_val le_val_le_bytes length_le_bytes)

text \<open>Both branches of the encoder write the same bytes.\<close>

lemma encodeBN_branches: "encodeBN b v = le_bytes 8 v"
proof -
  have mask: "x AND 0xffffffff = x mod 256 ^ 4" for x :: int
    using take_bit_eq_mask [of 32 x] by (simp add: take_bit_eq_mod mask_eq_exp_minus_1)
  have "le_bytes 8 v = le_bytes 4 v @ le_bytes 4 (v div 256 ^ 4)"
    using le_bytes_append [of 4 4 v] by simp
  moreover have "drop_bit 32 v = v div 256 ^ 4" by (simp add: drop_bit_eq_div)
  ultimately show ?thesis by (simp add: encodeBN_def Let_def mask le_bytes_mod del: power_numeral)
qed

lemma take_pad: "take d (f @ replicate (d - length f) c) = take d (f @ replicate d c)"
  by (simp add: take_append)

text \<open>On plain decimal text the service computes the same base units as the backend.\<close>

lemma toTokenAmount_agrees:
  assumes "decimalToBaseUnits (JStr s) d = Some n"
  shows "toTokenAmount s d = Inr n"
  using assms
  by (auto simp: decimalToBaseUnits_def toTokenAmount_def Let_def take_pad split: if_splits option.splits)

section \<open>Data of instructions\<close>

lemma read_set_max_supply:
  "program_reads supply_cap_idl (SET_MAX_SUPPLY_DISCRIMINATOR @ encodeBN b n) =
     Some (''set_max_supply'', [BU64 (n mod 2 ^ 64)])"
proof -
  have disc: "SET_MAX_SUPPLY_DISCRIMINATOR = map word_of_int [16, 207, 140, 77, 107, 20, 202, 158]"
    by (simp add: SET_MAX_SUPPLY_DISCRIMINATOR_def byte_list_def)
  have found: "List.find (\<lambda>(m, e, ts). map word_of_int e = SET_MAX_SUPPLY_DISCRIMINATOR) supply_cap_idl =
      Some (''set_max_supply'', [16, 207, 140, 77, 107, 20, 202, 158], [TU64])"
    unfolding disc supply_cap_idl_def by code_simp
  have "take 8 (SET_MAX_SUPPLY_DISCRIMINATOR @ encodeBN b n) = SET_MAX_SUPPLY_DISCRIMINATOR"
    and "drop 8 (SET_MAX_SUPPLY_DISCRIMINATOR @ encodeBN b n) = le_bytes 8 n"
    by (simp_all add: disc encodeBN_branches)
  then show ?thesis
    by (simp add: program_reads_def found get_map_def get_uint_def get_bytes_def)
qed

lemma setSupplyCapE:
  assumes "setSupplyCap C M mintKey cap d s = (t, Inr sig)" and "toTokenAmount cap d = Inr n"
  obtains st b where "find_pda C [ascii ''mod_supply_cap'', mintKey] (MOD_SUPPLY_CAP M) = Inr (st, b)"
    and "send_tx C [RawIx \<lparr> ix_programId = MOD_SUPPLY_CAP M,
           ix_keys = [\<lparr> am_pubkey = wallet_key C, am_isSigner = True, am_isWritable = False \<rparr>,
                      \<lparr> am_pubkey = st, am_isSigner = False, am_isWritable = True \<rparr>],
           ix_data = SET_MAX_SUPPLY_DISCRIMINATOR @ encodeBN True n \<rparr>] (world s) = (world t, Inr sig)"
  using assms
  by (auto simp: setSupplyCap_def bind_pure with_formatted_errors_def send_all_def h_catch_def
      fail_with_def h_throw_def elim!: bind_pdaE split: prod.splits sum.splits)

text \<open>The discriminators of the configuration, against those of the program they are sent to.\<close>

lemma no_such_instruction:
  "list_all (\<lambda>(t, d). case map_of MODULE_INSTRUCTIONS t of None \<Rightarrow> False
     | Some ixs \<Rightarrow> list_all (\<lambda>(n, e). byte_list e \<noteq> byte_list d) ixs) MODULE_DISCRIMINATORS"
  by code_simp

lemma discriminators_have_8_bytes: "list_all (\<lambda>(t, d). length d = 8) MODULE_DISCRIMINATORS"
  by code_simp

lemma encodeModuleConfigDataE:
  assumes "encodeModuleConfigData moduleType params = Inr bytes"
  obtains d rest where "map_of MODULE_DISCRIMINATORS moduleType = Some d" and "bytes = byte_list d @ rest"
    and "length d = 8"
  using assms discriminators_have_8_bytes
  by (auto simp: encodeModuleConfigData_def list_all_iff dest!: map_of_SomeD
      split: option.splits if_splits sum.splits)

lemma module_types_have_instructions:
  assumes "map_of MODULE_DISCRIMINATORS moduleType = Some d"
  shows "\<exists>ixs. map_of MODULE_INSTRUCTIONS moduleType = Some ixs \<and> (\<forall>(n, e) \<in> set ixs. byte_list e \<noteq> byte_list d)"
  using bspec [OF no_such_instruction [unfolded list_all_iff] map_of_SomeD [OF assms]]
  by (cases "map_of MODULE_INSTRUCTIONS moduleType") simp_all

lemma configureModule_data:
  assumes "configureModule C P M moduleType mintKey params s = (t, Inr sig)"
  obtains data cs k where "encodeModuleConfigData moduleType params = Inr data"
    and "getModuleProgramId C M moduleType s = (s, Inr k)"
    and "send_tx C [AnchorIx (COMPLIANCE_IDL_ADDRESS C) ''callModuleFunction'' [BBytes data]
        [(''owner'', wallet_key C), (''complianceState'', cs), (''moduleProgram'', k)] []] (world s)
      = (world t, Inr sig)"
proof -
  from assms obtain cs b data where "find_pda C [ascii ''compliance_state'', mintKey] (compliance P) = Inr (cs, b)"
    and data: "encodeModuleConfigData moduleType params = Inr data"
    and rest: "h_bind (getModuleProgramId C M moduleType) (\<lambda>k. compliance_call C cs ''callModuleFunction''
        [BBytes data] [(''moduleProgram'', k)]) s = (t, Inr sig)"
    unfolding configureModule_def findComplianceStatePda_def by (elim bind_pdaE bind_pureE)
  from rest obtain k u where k: "getModuleProgramId C M moduleType s = (u, Inr k)"
    and sent: "compliance_call C cs ''callModuleFunction'' [BBytes data] [(''moduleProgram'', k)] u = (t, Inr sig)"
    by (elim h_bind_InrE)
  from k have u: "u = s"
    by (auto simp: getModuleProgramId_def key_of_text_def fail_with_def h_throw_def
        dest: pure_step_InrD split: option.splits)
  show ?thesis
    by (rule that [OF data k [unfolded u]])
      (use sent in \<open>auto simp: u compliance_call_def with_formatted_errors_def send_all_def h_catch_def
        fail_with_def h_throw_def split: prod.splits sum.splits\<close>)
qed

section \<open>Properties\<close>

text \<open>
  C19. A supply cap in plain decimal text reaches the program of the module as the base units
  the backend computes from the same text, modulo 2 ^ 64: that number is the argument of the
  only instruction the transaction has and, where the program accepts it, the maximum of the
  module from then on, at least the supply so far. From 2 ^ 64 on it is less than what the text
  says.
\<close>

theorem supply_cap_is_sent_modulo:
  assumes "setSupplyCap C M mintKey cap d s = (t, Inr sig)"
    and "decimalToBaseUnits (JStr cap) d = Some n"
  shows "\<exists>st b ix. find_pda C [ascii ''mod_supply_cap'', mintKey] (MOD_SUPPLY_CAP M) = Inr (st, b) \<and>
      send_tx C [RawIx ix] (world s) = (world t, Inr sig) \<and> ix_programId ix = MOD_SUPPLY_CAP M \<and>
      map am_pubkey (ix_keys ix) = [wallet_key C, st] \<and>
      program_reads supply_cap_idl (ix_data ix) = Some (''set_max_supply'', [BU64 (n mod 2 ^ 64)]) \<and>
      (\<forall>A A'. set_max_supply (wallet_key C) (n mod 2 ^ 64) st A = Inr A' \<longrightarrow>
        (\<exists>m h units bump. snd (A' st) = ModuleCell (SupplyCapModule (wallet_key C) m h (n mod 2 ^ 64) units bump) \<and>
           units \<le> n mod 2 ^ 64)) \<and>
      (n \<ge> 2 ^ 64 \<longrightarrow> n mod 2 ^ 64 < n)"
proof -
  from assms(1) toTokenAmount_agrees [OF assms(2)] obtain st b where
    pda: "find_pda C [ascii ''mod_supply_cap'', mintKey] (MOD_SUPPLY_CAP M) = Inr (st, b)"
    and sent: "send_tx C [RawIx \<lparr> ix_programId = MOD_SUPPLY_CAP M,
           ix_keys = [\<lparr> am_pubkey = wallet_key C, am_isSigner = True, am_isWritable = False \<rparr>,
                      \<lparr> am_pubkey = st, am_isSigner = False, am_isWritable = True \<rparr>],
           ix_data = SET_MAX_SUPPLY_DISCRIMINATOR @ encodeBN True n \<rparr>] (world s) = (world t, Inr sig)"
    by (elim setSupplyCapE)
  have small: "n \<ge> 2 ^ 64 \<longrightarrow> n mod 2 ^ 64 < n"
    using pos_mod_bound [of "2 ^ 64" n] by (auto simp del: pos_mod_bound)
  show ?thesis
    by (intro exI conjI, rule pda, rule sent, simp_all add: read_set_max_supply small)
      (auto simp: set_max_supply_def put_def split: cell.splits module_state.splits if_splits)
qed

definition cap_text :: string where "cap_text = ''18446744073709551617.25''"

theorem supply_cap_is_sent_modulo_witness:
  "decimalToBaseUnits (JStr cap_text) 0 = Some (2 ^ 64 + 1) \<and>
   (\<exists>ix. send_tx demo_client [RawIx ix] demo_accounts = (demo_accounts, Inr ''signature'') \<and>
     program_reads supply_cap_idl (ix_data ix) = Some (''set_max_supply'', [BU64 1]))"
proof -
  have units: "decimalToBaseUnits (JStr cap_text) 0 = Some (2 ^ 64 + 1)" by code_simp
  have "case setSupplyCap demo_client demo_modules (demo_key 24) cap_text 0 demo_service of
      (t, Inl e) \<Rightarrow> False | (t, Inr sig) \<Rightarrow> world t = demo_accounts \<and> sig = ''signature''" by code_simp
  then obtain t where t: "setSupplyCap demo_client demo_modules (demo_key 24) cap_text 0 demo_service
      = (t, Inr ''signature'')" "world t = demo_accounts" by (auto split: prod.splits sum.splits)
  have "world demo_service = demo_accounts" by (simp add: demo_service_def)
  with supply_cap_is_sent_modulo [OF t(1) units] t(2) units show ?thesis by auto
qed

text \<open>
  C39. No configuration of a module takes effect: whatever the module and its parameters, a
  configuration that reports success has handed the module program data that begin with none of
  the discriminators of its instructions.
\<close>

theorem module_configuration_reaches_no_instruction:
  assumes "configureModule C P M moduleType mintKey params s = (t, Inr sig)"
  shows "\<exists>data cs k ixs. send_tx C [AnchorIx (COMPLIANCE_IDL_ADDRESS C) ''callModuleFunction'' [BBytes data]
        [(''owner'', wallet_key C), (''complianceState'', cs), (''moduleProgram'', k)] []] (world s)
      = (world t, Inr sig) \<and> map_of MODULE_INSTRUCTIONS moduleType = Some ixs \<and>
    (\<forall>(name, disc) \<in> set ixs. byte_list disc \<noteq> take 8 data)"
proof -
  from assms obtain data cs k where data: "encodeModuleConfigData moduleType params = Inr data"
    and sent: "send_tx C [AnchorIx (COMPLIANCE_IDL_ADDRESS C) ''callModuleFunction'' [BBytes data]
        [(''owner'', wallet_key C), (''complianceState'', cs), (''moduleProgram'', k)] []] (world s)
      = (world t, Inr sig)" by (rule configureModule_data)
  from data obtain d rest where d: "map_of MODULE_DISCRIMINATORS moduleType = Some d" "data = byte_list d @ rest"
    "length d = 8" by (rule encodeModuleConfigDataE)
  then have "take 8 data = byte_list d" by (simp add: byte_list_def)
  with module_types_have_instructions [OF d(1)] show ?thesis
    by (elim exE conjE) (intro exI conjI, rule sent, simp_all)
qed

theorem module_configuration_reaches_no_instruction_witness:
  "\<exists>data ixs. map_of MODULE_INSTRUCTIONS ''daily_limit'' = Some ixs \<and>
     (\<forall>(name, disc) \<in> set ixs. byte_list disc \<noteq> take 8 data)"
proof -
  define C where "C = demo_client\<lparr> pk_of_string := (\<lambda>_. Inr (demo_key 30)) \<rparr>"
  have "case configureModule C demo_programs demo_modules ''daily_limit'' (demo_key 24)
      [(''daily_limit'', JStr ''500'')] demo_service of (t, Inl e) \<Rightarrow> False | (t, Inr sig) \<Rightarrow> sig = ''signature''"
    unfolding C_def by code_simp
  then obtain t where "configureModule C demo_programs demo_modules ''daily_limit'' (demo_key 24)
      [(''daily_limit'', JStr ''500'')] demo_service = (t, Inr ''signature'')"
    by (auto split: prod.splits sum.splits)
  from module_configuration_reaches_no_instruction [OF this] show ?thesis by blast
qed

text \<open>A text with a sign is neither refused nor read as the number it denotes: the fraction is added.\<close>

lemma signed_cap_is_misread: "toTokenAmount ''-1.5'' 2 = Inr (- 50)"
  by code_simp

end
