(* ===== verification/IdentityReads.thy ===== *)
theory IdentityReads
  imports TokenService
begin

text \<open>
  The reads of the identity service of the web client (\<open>frontend/src/services/identity.ts\<close>): addresses,
  readers of accounts at fixed offsets, the state of the registries, identities and claims.
\<close>

section \<open>Constants and encoders\<close>

definition REVOKE_CLAIM_DISCRIMINATOR :: bytes where
  "REVOKE_CLAIM_DISCRIMINATOR = byte_list [182, 1, 142, 33, 207, 153, 37, 132]"

definition REMOVE_CLAIM_DISCRIMINATOR :: bytes where
  "REMOVE_CLAIM_DISCRIMINATOR = byte_list [4, 246, 59, 78, 67, 11, 210, 12]"

definition REGISTER_IDENTITY_DISCRIMINATOR :: bytes where
  "REGISTER_IDENTITY_DISCRIMINATOR = byte_list [164, 118, 227, 177, 47, 176, 187, 248]"

definition SET_IDENTITY_ACTIVATION_DISCRIMINATOR :: bytes where
  "SET_IDENTITY_ACTIVATION_DISCRIMINATOR = byte_list [116, 97, 228, 110, 7, 8, 137, 48]"

definition WALLET_IDENTITY_DISCRIMINATOR :: bytes where
  "WALLET_IDENTITY_DISCRIMINATOR = byte_list [101, 142, 55, 104, 168, 77, 57, 85]"

definition u64Le :: "int \<Rightarrow> bytes" where "u64Le v = le_bytes 8 v"

definition i64Le :: "int \<Rightarrow> bytes" where "i64Le v = le_bytes 8 v"

definition encodeRegisterIdentityArgs :: "pubkey \<Rightarrow> pubkey \<Rightarrow> int \<Rightarrow> bytes res" where
  "encodeRegisterIdentityArgs wallet fidKey country =
     (case write_uint 2 country of
        Inl e \<Rightarrow> Inl e
      | Inr countryBytes \<Rightarrow> Inr (REGISTER_IDENTITY_DISCRIMINATOR @ wallet @ fidKey @ countryBytes))"

definition encodeSetIdentityActivationArgs :: "bool \<Rightarrow> bytes" where
  "encodeSetIdentityActivationArgs active =
     SET_IDENTITY_ACTIVATION_DISCRIMINATOR @ [if active then 1 else 0]"

text \<open>\<open>error instanceof Error ? error.message : String(error ?? "")\<close>\<close>

definition isClaimDiscriminatorMismatch :: "jsval \<Rightarrow> bool" where
  "isClaimDiscriminatorMismatch err =
     (let message = (case thrown_message err of Some m \<Rightarrow> m
            | None \<Rightarrow> if is_nullish err then [] else js_String err)
      in js_includes message ''AccountDiscriminatorMismatch'' \<or>
         js_includes message ''Account discriminator did not match'' \<or>
         js_includes message ''Error Number: 3002'')"

section \<open>Readers\<close>

definition parseFidOwner :: "('x) chain_scheme \<Rightarrow> bytes \<Rightarrow> pubkey option res" where
  "parseFidOwner C data = (if length data < 40 then Inr None else some_res (readPubkey C data 8))"

record trusted_entry =
  te_issuerFid :: pubkey
  te_tir :: pubkey
  te_topics :: "int list"
  te_isActive :: bool

text \<open>The loop over the topics; \<open>None\<close> is \<open>return null\<close> at the end of the data.\<close>

fun entry_topic_loop :: "nat \<Rightarrow> bytes \<Rightarrow> nat \<Rightarrow> (int list \<times> nat) option res" where
  "entry_topic_loop 0 data offset = Inr (Some ([], offset))"
| "entry_topic_loop (Suc n) data offset =
     (if length data < offset + 8 then Inr None
      else case readU64 data offset of Inl e \<Rightarrow> Inl e | Inr t \<Rightarrow>
        case entry_topic_loop n data (offset + 8) of Inl e \<Rightarrow> Inl e
        | Inr None \<Rightarrow> Inr None
        | Inr (Some (ts, o')) \<Rightarrow> Inr (Some (t # ts, o')))"

definition parseTrustedEntry :: "('x) chain_scheme \<Rightarrow> bytes \<Rightarrow> trusted_entry option res" where
  "parseTrustedEntry C data =
     (let offset = 8 + 32 + 32
      in if length data < offset + 4 then Inr None
         else case readPubkey C data 8 of Inl e \<Rightarrow> Inl e | Inr issuerFid \<Rightarrow>
           case readPubkey C data 40 of Inl e \<Rightarrow> Inl e | Inr tirKey \<Rightarrow>
           case readU32 data offset of Inl e \<Rightarrow> Inl e | Inr topicsLength \<Rightarrow>
           case entry_topic_loop (nat topicsLength) data (offset + 4) of
             Inl e \<Rightarrow> Inl e
           | Inr None \<Rightarrow> Inr None
           | Inr (Some (topics, o')) \<Rightarrow>
               if length data < o' + 1 then Inr None
               else case readU8 data o' of Inl e \<Rightarrow> Inl e | Inr v \<Rightarrow>
                 Inr (Some \<lparr> te_issuerFid = issuerFid, te_tir = tirKey, te_topics = topics,
                   te_isActive = (v = 1) \<rparr>))"

definition parseIssuerEntryTopics :: "('x) chain_scheme \<Rightarrow> bytes \<Rightarrow> int list res" where
  "parseIssuerEntryTopics C data =
     (case parseTrustedEntry C data of
        Inl e \<Rightarrow> Inl e
      | Inr None \<Rightarrow> Inr []
      | Inr (Some parsed) \<Rightarrow> Inr (if te_isActive parsed then te_topics parsed else []))"

text \<open>The interface \<open>WalletIdentity\<close>.\<close>

record identity_view =
  iv_wallet :: string
  iv_fid :: string
  iv_country :: int
  iv_irs :: string
  iv_isActive :: bool
  iv_activatedBy :: string
  iv_activatedAt :: int
  iv_bump :: int

definition registered_identity_fields :: "('x) chain_scheme \<Rightarrow> identity_view parser" where
  "registered_identity_fields C =
    next_field (sized 32 (readPubkey C)) (\<lambda>wallet.
    next_field (sized 32 (readPubkey C)) (\<lambda>fid.
    next_field (sized 2 readU16) (\<lambda>country.
    next_field (sized 32 (readPubkey C)) (\<lambda>irs.
    next_field (sized 1 readFlag) (\<lambda>isActive.
    next_field (sized 32 (readPubkey C)) (\<lambda>activatedBy.
    next_field (sized 8 readI64) (\<lambda>activatedAt.
    next_field (sized 1 readU8) (\<lambda>bump.
    finish \<lparr> iv_wallet = toBase58 C wallet, iv_fid = toBase58 C fid, iv_country = country,
      iv_irs = toBase58 C irs, iv_isActive = isActive, iv_activatedBy = toBase58 C activatedBy,
      iv_activatedAt = activatedAt, iv_bump = bump \<rparr>))))))))"

definition parseRegisteredIdentity :: "('x) chain_scheme \<Rightarrow> bytes \<Rightarrow> identity_view option res" where
  "parseRegisteredIdentity C data =
     (if length data < 8 + 32 + 32 + 2 + 32 + 1 + 32 + 8 + 1 then Inr None
      else some_res (registered_identity_fields C data 8))"

section \<open>Programs and addresses\<close>

record identity_ids =
  ii_fid :: pubkey
  ii_irp :: pubkey
  ii_irs :: pubkey
  ii_tir :: pubkey

definition DEPLOYED_IDENTITY_IDS :: "('x) chain_scheme \<Rightarrow> identity_ids" where
  "DEPLOYED_IDENTITY_IDS C = \<lparr>
     ii_fid = const_key C ''Fb2roXDWjEaZwWJvxAWJTCRsK4Hy4V64MuCwoGXWMUtW'',
     ii_irp = const_key C ''HQqgbvfmSzY1yEyhVbyhYqSsbVrRmjUnPmm2nE4ZwRvZ'',
     ii_irs = const_key C ''CnAZUQ9jFm2eLGA8d8ek1gpLwGc6xZqvnbyJ9s7swbWc'',
     ii_tir = const_key C ''9bgANehpsEDdgyo5DwpY36wmnPdpCihSiAP9TLoBBf4L'' \<rparr>"

definition getIdentityIds :: "('w, 'c) client_scheme \<Rightarrow> program_ids \<Rightarrow> ('w, identity_ids) operation" where
  "getIdentityIds C P =
     h_bind (getFactoryState C P) (\<lambda>state. h_return (case state of
         None \<Rightarrow> DEPLOYED_IDENTITY_IDS C
       | Some f \<Rightarrow> \<lparr> ii_fid = fs_fidProgramId f, ii_irp = fs_irpProgramId f, ii_irs = fs_irsProgramId f,
           ii_tir = fs_tirProgramId f \<rparr>))"

definition findIrpStatePda :: "('w, 'c) client_scheme \<Rightarrow> pubkey \<Rightarrow> pubkey \<Rightarrow> ('w, pubkey) operation" where
  "findIrpStatePda C mintKey programId = pda_of C [ascii ''irp_state'', mintKey] programId"

definition findWalletIdentityPda ::
    "('w, 'c) client_scheme \<Rightarrow> pubkey \<Rightarrow> pubkey \<Rightarrow> pubkey \<Rightarrow> ('w, pubkey) operation" where
  "findWalletIdentityPda C irsState wallet programId = pda_of C [ascii ''wallet_identity'', irsState, wallet] programId"

definition findOnboardingApplicationPda ::
    "('w, 'c) client_scheme \<Rightarrow> pubkey \<Rightarrow> pubkey \<Rightarrow> pubkey \<Rightarrow> ('w, pubkey) operation" where
  "findOnboardingApplicationPda C irsState wallet programId =
     pda_of C [ascii ''onboarding_application'', irsState, wallet] programId"

definition findFidPda :: "('w, 'c) client_scheme \<Rightarrow> pubkey \<Rightarrow> pubkey \<Rightarrow> ('w, pubkey) operation" where
  "findFidPda C wallet programId = pda_of C [ascii ''fid'', wallet] programId"

definition findActiveFidPda :: "('w, 'c) client_scheme \<Rightarrow> program_ids \<Rightarrow> pubkey \<Rightarrow> ('w, pubkey) operation" where
  "findActiveFidPda C P wallet = h_bind (getIdentityIds C P) (\<lambda>ids. findFidPda C wallet (ii_fid ids))"

definition findClaimPda :: "('w, 'c) client_scheme \<Rightarrow> pubkey \<Rightarrow> int \<Rightarrow> pubkey \<Rightarrow> ('w, pubkey) operation" where
  "findClaimPda C fidKey claimId programId =
     h_bind (pure_step (write_uint 4 claimId)) (\<lambda>claimIdLe. pda_of C [ascii ''claim'', fidKey, claimIdLe] programId)"

definition findClaimTopicIndexPda ::
    "('w, 'c) client_scheme \<Rightarrow> pubkey \<Rightarrow> pubkey \<Rightarrow> int \<Rightarrow> pubkey \<Rightarrow> ('w, pubkey) operation" where
  "findClaimTopicIndexPda C targetFid issuerFid topic programId =
     pda_of C [ascii ''claim_topic_index'', targetFid, issuerFid, u64Le topic] programId"

definition findTirStatePda :: "('w, 'c) client_scheme \<Rightarrow> pubkey \<Rightarrow> pubkey \<Rightarrow> ('w, pubkey) operation" where
  "findTirStatePda C mintKey programId = pda_of C [ascii ''tir_state'', mintKey] programId"

definition findIssuerEntryPda ::
    "('w, 'c) client_scheme \<Rightarrow> pubkey \<Rightarrow> pubkey \<Rightarrow> pubkey \<Rightarrow> ('w, pubkey) operation" where
  "findIssuerEntryPda C tirState issuerFid programId = pda_of C [ascii ''issuer_entry'', tirState, issuerFid] programId"

section \<open>Reads of the chain\<close>

record irp_view =
  ipv_owner :: string
  ipv_tokenMint :: string
  ipv_irsAccount :: string
  ipv_tirAccount :: string
  ipv_ctrAccount :: string
  ipv_agents :: "string list"
  ipv_registeredCount :: int
  ipv_bump :: int

definition fetchIrpState :: "('w, 'c) client_scheme \<Rightarrow> program_ids \<Rightarrow> pubkey \<Rightarrow> ('w, irp_view) operation" where
  "fetchIrpState C P mintKey =
     h_bind (getIdentityIds C P) (\<lambda>ids.
     h_bind (findIrpStatePda C mintKey (ii_irp ids)) (\<lambda>irpStatePda.
     h_bind (ask (\<lambda>w. anchor_irp_state C w (ii_irp ids) irpStatePda)) (\<lambda>raw.
     h_return \<lparr> ipv_owner = toBase58 C (irp_owner raw), ipv_tokenMint = toBase58 C (irp_tokenMint raw),
       ipv_irsAccount = toBase58 C (irp_irsAccount raw), ipv_tirAccount = toBase58 C (irp_tirAccount raw),
       ipv_ctrAccount = toBase58 C (irp_ctrAccount raw),
       ipv_agents = map (toBase58 C) (irp_identityAgents raw),
       ipv_registeredCount = irp_registeredCount raw, ipv_bump = irp_bump raw \<rparr>)))"

text \<open>The programs, and the storage the registry of a token names.\<close>

definition registry_storage ::
    "('w, 'c) client_scheme \<Rightarrow> program_ids \<Rightarrow> pubkey \<Rightarrow> ('w, identity_ids \<times> pubkey) operation" where
  "registry_storage C P mintKey =
     h_bind (getIdentityIds C P) (\<lambda>ids.
     h_bind (fetchIrpState C P mintKey) (\<lambda>irpState.
     h_bind (key_of_text C (ipv_irsAccount irpState)) (\<lambda>irsState.
     h_return (ids, irsState))))"

definition fetchWalletIdentity ::
    "('w, 'c) client_scheme \<Rightarrow> program_ids \<Rightarrow> pubkey \<Rightarrow> pubkey \<Rightarrow> ('w, identity_view option) operation" where
  "fetchWalletIdentity C P mintKey wallet = or_default None
     (h_bind (registry_storage C P mintKey) (\<lambda>(ids, irsState).
      h_bind (findWalletIdentityPda C irsState wallet (ii_irs ids)) (\<lambda>walletIdentityPda.
      h_bind (ask (\<lambda>w. account_at C w walletIdentityPda)) (\<lambda>info.
      case info of None \<Rightarrow> h_return None | Some a \<Rightarrow> pure_step (parseRegisteredIdentity C (acc_data a))))))"

record fid_view =
  fv_owner :: string
  fv_managementKey :: string
  fv_signerKey :: string
  fv_claimCount :: int
  fv_isIssuer :: bool
  fv_country :: int
  fv_bump :: int

definition fid_view_of :: "('x) chain_scheme \<Rightarrow> fid_account_data \<Rightarrow> fid_view" where
  "fid_view_of C raw = \<lparr> fv_owner = toBase58 C (fid_owner raw), fv_managementKey = toBase58 C (fid_managementKey raw),
     fv_signerKey = toBase58 C (fid_signerKey raw), fv_claimCount = fid_claimCount raw,
     fv_isIssuer = fid_isIssuer raw, fv_country = fid_country raw, fv_bump = fid_bump raw \<rparr>"

definition fetchFid ::
    "('w, 'c) client_scheme \<Rightarrow> program_ids \<Rightarrow> pubkey \<Rightarrow> ('w, fid_view option) operation" where
  "fetchFid C P wallet = or_default None
     (h_bind (getIdentityIds C P) (\<lambda>ids.
      h_bind (findFidPda C wallet (ii_fid ids)) (\<lambda>fidPda.
      h_bind (ask (\<lambda>w. anchor_fid_account C w (ii_fid ids) fidPda)) (\<lambda>raw.
      h_return (Some (fid_view_of C raw))))))"

text \<open>The loop over the entries of the registry of issuers.\<close>

fun entries_of_wallet ::
    "('w, 'c) client_scheme \<Rightarrow> pubkey \<Rightarrow> (pubkey \<times> account) list \<Rightarrow> ('w, int list) operation" where
  "entries_of_wallet C issuerWallet [] = h_return []"
| "entries_of_wallet C issuerWallet ((k, account) # rest) =
     h_bind (pure_step (parseTrustedEntry C (acc_data account))) (\<lambda>parsed.
     case parsed of
       None \<Rightarrow> entries_of_wallet C issuerWallet rest
     | Some e \<Rightarrow>
         if \<not> te_isActive e then entries_of_wallet C issuerWallet rest
         else
           h_bind (ask (\<lambda>w. account_at C w (te_issuerFid e))) (\<lambda>fidInfo.
           h_bind (case fidInfo of None \<Rightarrow> h_return None | Some a \<Rightarrow> pure_step (parseFidOwner C (acc_data a))) (\<lambda>owner.
           if owner = Some issuerWallet then h_return (te_topics e)
           else entries_of_wallet C issuerWallet rest)))"

definition fetchTrustedIssuerTopics ::
    "('w, 'c) client_scheme \<Rightarrow> program_ids \<Rightarrow> pubkey \<Rightarrow> pubkey \<Rightarrow> ('w, int list) operation" where
  "fetchTrustedIssuerTopics C P mintKey issuerWallet = or_default []
     (h_bind (getIdentityIds C P) (\<lambda>ids.
      h_bind (findFidPda C issuerWallet (ii_fid ids)) (\<lambda>issuerFid.
      h_bind (findTirStatePda C mintKey (ii_tir ids)) (\<lambda>tirState.
      h_bind (findIssuerEntryPda C tirState issuerFid (ii_tir ids)) (\<lambda>issuerEntry.
      h_bind (ask (\<lambda>w. account_at C w issuerEntry)) (\<lambda>info.
      h_bind (case info of None \<Rightarrow> h_return [] | Some a \<Rightarrow> pure_step (parseIssuerEntryTopics C (acc_data a))) (\<lambda>directTopics.
      if directTopics \<noteq> [] then h_return directTopics
      else
        h_bind (ask (\<lambda>w. program_accounts_at C w (ii_tir ids) [FilterKey 40 tirState])) (\<lambda>accounts.
        entries_of_wallet C issuerWallet accounts))))))))"

text \<open>\<open>info.data.length > 116 && info.data.readUInt8(116) === 1\<close>\<close>

definition index_says_active :: "account \<Rightarrow> bool" where
  "index_says_active info \<longleftrightarrow> length (acc_data info) > 116 \<and> acc_data info ! 116 = 1"

definition hasActiveClaimForTopic ::
    "('w, 'c) client_scheme \<Rightarrow> program_ids \<Rightarrow> pubkey \<Rightarrow> pubkey \<Rightarrow> int \<Rightarrow> ('w, bool) operation" where
  "hasActiveClaimForTopic C P targetWallet issuerWallet topic =
     h_bind (getIdentityIds C P) (\<lambda>ids.
     h_bind (findFidPda C targetWallet (ii_fid ids)) (\<lambda>targetFid.
     h_bind (findFidPda C issuerWallet (ii_fid ids)) (\<lambda>issuerFid.
     h_bind (findClaimTopicIndexPda C targetFid issuerFid topic (ii_fid ids)) (\<lambda>claimTopicIndex.
     or_default False
       (h_bind (ask (\<lambda>w. account_at C w claimTopicIndex)) (\<lambda>info.
        h_return (case info of None \<Rightarrow> False | Some a \<Rightarrow> index_says_active a)))))))"

record identity_summary =
  ids_hasIdentity :: bool
  ids_country :: int
  ids_frozen :: bool

definition getIdentityForWallet ::
    "('w, 'c) client_scheme \<Rightarrow> program_ids \<Rightarrow> pubkey \<Rightarrow> pubkey \<Rightarrow> ('w, identity_summary) operation" where
  "getIdentityForWallet C P mintKey wallet =
     h_bind (fetchWalletIdentity C P mintKey wallet) (\<lambda>identity.
     case identity of
       None \<Rightarrow> h_return \<lparr> ids_hasIdentity = False, ids_country = 0, ids_frozen = False \<rparr>
     | Some i \<Rightarrow>
         h_bind (pda_of C [ascii ''frozen'', mintKey, wallet] (token P)) (\<lambda>frozenWalletPda.
         h_bind (or_default False (h_bind (ask (\<lambda>w. account_at C w frozenWalletPda)) (\<lambda>info.
           h_return (info \<noteq> None)))) (\<lambda>isFrozen.
         h_return \<lparr> ids_hasIdentity = True, ids_country = iv_country i, ids_frozen = isFrozen \<rparr>)))"

definition decoded_identity :: "('w, 'c) client_scheme \<Rightarrow> account \<Rightarrow> identity_view option" where
  "decoded_identity C account =
     (case decode_wallet_identity C (acc_data account) of
        Inl e \<Rightarrow> None
      | Inr d \<Rightarrow> Some \<lparr> iv_wallet = toBase58 C (oc_wi_wallet d), iv_fid = toBase58 C (oc_wi_fid d),
          iv_country = oc_wi_country d, iv_irs = toBase58 C (oc_wi_irs d), iv_isActive = oc_wi_is_active d,
          iv_activatedBy = toBase58 C (oc_wi_activated_by d), iv_activatedAt = oc_wi_activated_at d,
          iv_bump = oc_wi_bump d \<rparr>)"

definition fetchAllIdentities ::
    "('w, 'c) client_scheme \<Rightarrow> program_ids \<Rightarrow> pubkey \<Rightarrow> ('w, identity_view list) operation" where
  "fetchAllIdentities C P mintKey =
     h_bind (getIdentityIds C P) (\<lambda>ids.
     h_bind (or_default None (h_bind (fetchIrpState C P mintKey) (\<lambda>irpState.
       h_bind (key_of_text C (ipv_irsAccount irpState)) (\<lambda>k. h_return (Some k))))) (\<lambda>irsState.
     case irsState of
       None \<Rightarrow> h_return []
     | Some irsStatePubkey \<Rightarrow>
         h_bind (ask (\<lambda>w. program_accounts_at C w (ii_irs ids)
           [FilterBytes 0 WALLET_IDENTITY_DISCRIMINATOR, FilterKey 74 irsStatePubkey])) (\<lambda>accounts.
         h_return (List.map_filter (\<lambda>(k, account). decoded_identity C account) accounts))))"

definition fetchIrsOwner ::
    "('w, 'c) client_scheme \<Rightarrow> program_ids \<Rightarrow> pubkey \<Rightarrow> ('w, string option) operation" where
  "fetchIrsOwner C P mintKey = or_default None
     (h_bind (registry_storage C P mintKey) (\<lambda>(ids, irsState).
      h_bind (ask (\<lambda>w. anchor_irs_state C w (ii_irs ids) irsState)) (\<lambda>raw.
      h_return (Some (toBase58 C (oc_irs_owner raw))))))"

end
