(* ===== verification/IdentityOperations.thy ===== *)
theory IdentityOperations
  imports IdentityReads
begin

text \<open>
  The transactions of the identity service (\<open>frontend/src/services/identity.ts\<close>): identities of wallets,
  applications, registration, and the claims that providers issue and revoke. The console output is
  left out. A hash that is reported to the backend without waiting is handed to the parameter \<open>R\<close>.
\<close>

section \<open>Identities of wallets\<close>

text \<open>An operation that calls one method of a program: \<open>program.methods.m(args).accounts({...}).rpc()\<close>.\<close>

definition call_method ::
    "('w, 'c) client_scheme \<Rightarrow> pubkey \<Rightarrow> string \<Rightarrow> bval list \<Rightarrow> (string \<times> pubkey) list \<Rightarrow> ('w, string) operation" where
  "call_method C program name args accounts = send_all C [AnchorIx program name args accounts []]"

definition transferIrpOwnership ::
    "('w, 'c) client_scheme \<Rightarrow> program_ids \<Rightarrow> pubkey \<Rightarrow> pubkey \<Rightarrow> ('w, string) operation" where
  "transferIrpOwnership C P mintKey newOwner =
     h_bind (getIdentityIds C P) (\<lambda>ids.
     h_bind (findIrpStatePda C mintKey (ii_irp ids)) (\<lambda>registryState.
     call_method C (ii_irp ids) ''transferRegistryOwnership'' [BPubkey newOwner]
       [(''owner'', wallet_key C), (''registryState'', registryState)]))"

definition setOwnFidSignerKey ::
    "('w, 'c) client_scheme \<Rightarrow> program_ids \<Rightarrow> pubkey \<Rightarrow> ('w, string) operation" where
  "setOwnFidSignerKey C P newSignerKey =
     h_bind (getIdentityIds C P) (\<lambda>ids.
     let owner = wallet_key C in
     h_bind (findFidPda C owner (ii_fid ids)) (\<lambda>fidKey.
     h_bind (fetchFid C P owner) (\<lambda>fidAccount.
     call_method C (ii_fid ids) ''setSignerKey'' [BPubkey newSignerKey]
       [(''authority'', owner), (''fid'', fidKey)])))"

record fid_report =
  rep_txHash :: string
  rep_actionType :: string
  rep_actorWallet :: string
  rep_entityId :: string
  rep_country :: int
  rep_isIssuer :: bool

definition upper_char :: "char \<Rightarrow> char" where
  "upper_char c = (let n = (of_char c :: nat) in if 97 \<le> n \<and> n \<le> 122 then char_of (n - 32) else c)"

definition report_hash ::
    "(fid_report \<Rightarrow> 'w \<Rightarrow> 'w) \<Rightarrow> fid_report \<Rightarrow> ('w, unit) operation" where
  "report_hash R r s = (s\<lparr> world := R r (world s) \<rparr>, Inr ())"

definition fid_report_of ::
    "('w, 'c) client_scheme \<Rightarrow> string \<Rightarrow> string \<Rightarrow> string \<Rightarrow> pubkey \<Rightarrow> int \<Rightarrow> bool \<Rightarrow> fid_report" where
  "fid_report_of C txHash ownerType suffix fidPda country isIssuer =
     \<lparr> rep_txHash = txHash, rep_actionType = map upper_char ownerType @ suffix,
       rep_actorWallet = toBase58 C (wallet_key C), rep_entityId = toBase58 C fidPda,
       rep_country = country, rep_isIssuer = isIssuer \<rparr>"

text \<open>\<open>ownerType\<close> defaults to the text that follows from \<open>isIssuer\<close>.\<close>

definition default_owner_type :: "bool \<Rightarrow> string" where
  "default_owner_type isIssuer = (if isIssuer then ''issuer'' else ''investor'')"

definition ensureOwnFid ::
    "('w, 'c) client_scheme \<Rightarrow> program_ids \<Rightarrow> (fid_report \<Rightarrow> 'w \<Rightarrow> 'w) \<Rightarrow> int \<Rightarrow> bool \<Rightarrow> string \<Rightarrow>
     ('w, string option) operation" where
  "ensureOwnFid C P R country isIssuer ownerType =
     h_bind (getIdentityIds C P) (\<lambda>ids.
     let owner = wallet_key C in
     h_bind (findFidPda C owner (ii_fid ids)) (\<lambda>fidPda.
     h_bind (fetchFid C P owner) (\<lambda>existing.
     case existing of
       Some f \<Rightarrow>
         if fv_isIssuer f \<noteq> isIssuer \<or> (\<not> isIssuer \<and> fv_country f \<noteq> country) then
           h_bind (call_method C (ii_fid ids) ''updateFidProfile'' [BBool isIssuer, BU16 country]
             [(''authority'', owner), (''fid'', fidPda)]) (\<lambda>txHash.
           h_bind (report_hash R (fid_report_of C txHash ownerType ''_FID_UPDATED'' fidPda country isIssuer)) (\<lambda>_.
           h_return (Some txHash)))
         else h_return None
     | None \<Rightarrow>
         h_bind (call_method C (ii_fid ids) ''createFid'' [BBool isIssuer, BU16 country]
           [(''owner'', owner), (''fid'', fidPda), (''systemProgram'', system_program C)]) (\<lambda>txHash.
         h_bind (report_hash R (fid_report_of C txHash ownerType ''_FID_CREATED'' fidPda country isIssuer)) (\<lambda>_.
         h_return (Some txHash))))))"

section \<open>Applications and registration\<close>

definition submitOnboardingApplication ::
    "('w, 'c) client_scheme \<Rightarrow> program_ids \<Rightarrow> pubkey \<Rightarrow> pubkey \<Rightarrow> bytes \<Rightarrow> ('w, string) operation" where
  "submitOnboardingApplication C P mintKey wallet metadataHash =
     h_bind (registry_storage C P mintKey) (\<lambda>(ids, irsState).
     h_bind (findOnboardingApplicationPda C irsState wallet (ii_irs ids)) (\<lambda>application.
     call_method C (ii_irs ids) ''submitOnboardingApplication'' [BPubkey wallet, BFixed 32 metadataHash]
       [(''applicant'', wallet_key C), (''irsState'', irsState), (''application'', application),
        (''systemProgram'', system_program C)]))"

definition reviewOnboardingApplication ::
    "('w, 'c) client_scheme \<Rightarrow> program_ids \<Rightarrow> pubkey \<Rightarrow> pubkey \<Rightarrow> bool \<Rightarrow> ('w, string) operation" where
  "reviewOnboardingApplication C P mintKey wallet approved =
     h_bind (registry_storage C P mintKey) (\<lambda>(ids, irsState).
     h_bind (findOnboardingApplicationPda C irsState wallet (ii_irs ids)) (\<lambda>application.
     h_bind (findIrpStatePda C mintKey (ii_irp ids)) (\<lambda>registryState.
     call_method C (ii_irs ids) ''reviewOnboardingApplication'' [BBool approved]
       [(''authority'', wallet_key C), (''irsState'', irsState), (''registryState'', registryState),
        (''application'', application)])))"

definition cancelOnboardingApplication ::
    "('w, 'c) client_scheme \<Rightarrow> program_ids \<Rightarrow> pubkey \<Rightarrow> pubkey \<Rightarrow> ('w, string) operation" where
  "cancelOnboardingApplication C P mintKey wallet =
     h_bind (registry_storage C P mintKey) (\<lambda>(ids, irsState).
     h_bind (findOnboardingApplicationPda C irsState wallet (ii_irs ids)) (\<lambda>application.
     call_method C (ii_irs ids) ''cancelOnboardingApplication'' []
       [(''authority'', wallet_key C), (''irsState'', irsState), (''application'', application)]))"

definition meta_of :: "pubkey \<Rightarrow> bool \<Rightarrow> bool \<Rightarrow> account_meta" where
  "meta_of k signer writes = \<lparr> am_pubkey = k, am_isSigner = signer, am_isWritable = writes \<rparr>"

definition registerIdentity ::
    "('w, 'c) client_scheme \<Rightarrow> program_ids \<Rightarrow> pubkey \<Rightarrow> pubkey \<Rightarrow> pubkey \<Rightarrow> int \<Rightarrow> ('w, string) operation" where
  "registerIdentity C P mintKey wallet fidKey country =
     h_bind (registry_storage C P mintKey) (\<lambda>(ids, irsState).
     h_bind (findIrpStatePda C mintKey (ii_irp ids)) (\<lambda>registryState.
     h_bind (findWalletIdentityPda C irsState wallet (ii_irs ids)) (\<lambda>walletIdentity.
     h_bind (pure_step (encodeRegisterIdentityArgs wallet fidKey country)) (\<lambda>data.
     send_all C [RawIx \<lparr> ix_programId = ii_irs ids,
       ix_keys = [meta_of (wallet_key C) True True, meta_of irsState False True,
         meta_of registryState False False, meta_of fidKey False False, meta_of walletIdentity False True,
         meta_of (system_program C) False False],
       ix_data = data \<rparr>]))))"

definition removeIdentity ::
    "('w, 'c) client_scheme \<Rightarrow> program_ids \<Rightarrow> pubkey \<Rightarrow> pubkey \<Rightarrow> ('w, string) operation" where
  "removeIdentity C P mintKey wallet =
     h_bind (registry_storage C P mintKey) (\<lambda>(ids, irsState).
     h_bind (findIrpStatePda C mintKey (ii_irp ids)) (\<lambda>registryState.
     h_bind (findWalletIdentityPda C irsState wallet (ii_irs ids)) (\<lambda>walletIdentity.
     call_method C (ii_irs ids) ''removeIdentity'' []
       [(''authority'', wallet_key C), (''irsState'', irsState), (''registryState'', registryState),
        (''walletIdentity'', walletIdentity)])))"

definition removeOwnIdentity ::
    "('w, 'c) client_scheme \<Rightarrow> program_ids \<Rightarrow> pubkey \<Rightarrow> ('w, string) operation" where
  "removeOwnIdentity C P mintKey =
     h_bind (registry_storage C P mintKey) (\<lambda>(ids, irsState).
     h_bind (findWalletIdentityPda C irsState (wallet_key C) (ii_irs ids)) (\<lambda>walletIdentity.
     call_method C (ii_irs ids) ''removeOwnIdentity'' []
       [(''owner'', wallet_key C), (''irsState'', irsState), (''walletIdentity'', walletIdentity)]))"

definition setIdentityActivation ::
    "('w, 'c) client_scheme \<Rightarrow> program_ids \<Rightarrow> pubkey \<Rightarrow> pubkey \<Rightarrow> bool \<Rightarrow> ('w, string) operation" where
  "setIdentityActivation C P mintKey wallet active =
     h_bind (registry_storage C P mintKey) (\<lambda>(ids, irsState).
     h_bind (findWalletIdentityPda C irsState wallet (ii_irs ids)) (\<lambda>walletIdentity.
     send_all C [RawIx \<lparr> ix_programId = ii_irs ids,
       ix_keys = [meta_of (wallet_key C) True True, meta_of irsState False False,
         meta_of walletIdentity False True],
       ix_data = encodeSetIdentityActivationArgs active \<rparr>]))"

section \<open>Texts of errors\<close>

definition NEWLINE :: string where "NEWLINE = [char_of (10 :: nat)]"

definition hex_text :: "bytes \<Rightarrow> string" where
  "hex_text bs = concat (map (\<lambda>b. let n = unat b; digits = ''0123456789abcdef'' in
     [digits ! (n div 16), digits ! (n mod 16)]) bs)"

definition bool_text :: "bool \<Rightarrow> string" where
  "bool_text b = (if b then ''true'' else ''false'')"

text \<open>The parts of the dumps: whether an account exists and is active, its owner, its discriminator.\<close>

definition active_text :: "account option \<Rightarrow> string" where
  "active_text info = (case info of None \<Rightarrow> ''unknown''
     | Some a \<Rightarrow> if length (acc_data a) > 116 then bool_text (acc_data a ! 116 = 1) else ''unknown'')"

definition owner_text :: "('x) chain_scheme \<Rightarrow> account option \<Rightarrow> string" where
  "owner_text C info = (case info of None \<Rightarrow> ''none'' | Some a \<Rightarrow> toBase58 C (acc_owner a))"

definition discriminator_text :: "account option \<Rightarrow> string" where
  "discriminator_text info = (case info of None \<Rightarrow> ''none'' | Some a \<Rightarrow> hex_text (subarray (acc_data a) 0 8))"

definition revoke_dump ::
    "('w, 'c) client_scheme \<Rightarrow> pubkey \<Rightarrow> pubkey \<Rightarrow> pubkey \<Rightarrow> int \<Rightarrow> pubkey \<Rightarrow> pubkey \<Rightarrow> account option \<Rightarrow>
     account option \<Rightarrow> string" where
  "revoke_dump C targetWallet targetFid issuerFid topic claimTopicIndex claim indexInfo claimInfo =
     join_with NEWLINE
       [''FID claim revoke failed with an Anchor account discriminator mismatch during revoke_claim.'',
        ''targetWallet='' @ toBase58 C targetWallet,
        ''targetFid='' @ toBase58 C targetFid,
        ''issuerOwner='' @ toBase58 C (wallet_key C),
        ''issuerFid='' @ toBase58 C issuerFid,
        ''topic='' @ bigint_toString topic,
        ''claimTopicIndex='' @ toBase58 C claimTopicIndex,
        ''claimTopicIndexExists='' @ bool_text (indexInfo \<noteq> None),
        ''claimTopicIndexActive='' @ active_text indexInfo,
        ''claimTopicIndexDiscriminator='' @ discriminator_text indexInfo,
        ''activeClaim='' @ toBase58 C claim,
        ''activeClaimExists='' @ bool_text (claimInfo \<noteq> None),
        ''activeClaimOwner='' @ owner_text C claimInfo,
        ''activeClaimDiscriminator='' @ discriminator_text claimInfo,
        ''The on-chain dump above shows whether the claim and claim_topic_index PDAs are structurally valid. If both discriminators are correct, the previous frontend revoke call shape was likely wrong and should be retried with the updated client.'']"

definition issue_dump ::
    "('w, 'c) client_scheme \<Rightarrow> pubkey \<Rightarrow> int \<Rightarrow> pubkey \<Rightarrow> pubkey \<Rightarrow> account option \<Rightarrow> account option \<Rightarrow> string" where
  "issue_dump C targetFid claimCount claim claimTopicIndex claimInfo indexInfo =
     join_with NEWLINE
       [''FID claim issuance failed because the on-chain claim account did not match the ClaimAccount type.'',
        ''targetFid='' @ toBase58 C targetFid,
        ''targetFid.claimCount='' @ bigint_toString claimCount,
        ''claimPda='' @ toBase58 C claim,
        ''claimPdaExists='' @ bool_text (claimInfo \<noteq> None),
        ''claimPdaOwner='' @ owner_text C claimInfo,
        ''claimPdaDiscriminator='' @ discriminator_text claimInfo,
        ''claimTopicIndex='' @ toBase58 C claimTopicIndex,
        ''claimTopicIndexExists='' @ bool_text (indexInfo \<noteq> None),
        ''claimTopicIndexActive='' @ active_text indexInfo,
        ''This account state cannot be fixed by retrying the same transaction. Revoke/remove the stale claim index with the correct issuer wallet if possible, or use a fresh investor FID / different trusted issuer topic. The contracts need an admin repair/reset path for corrupted claim indexes.'']"

definition stale_claim_text :: "('x) chain_scheme \<Rightarrow> pubkey \<Rightarrow> string" where
  "stale_claim_text C claim = ''The active claim index points to '' @ toBase58 C claim @
     '', but that account is not a valid ClaimAccount. This stale claim cannot be revoked by the frontend; the FID contract needs a repair/reset instruction or the request must use a different trusted issuer/topic.''"

definition no_claim_text :: "string \<Rightarrow> string" where
  "no_claim_text what = ''No active claim exists to '' @ what @ '' for this investor/topic/provider.''"

section \<open>Revoking and removing claims\<close>

text \<open>The index of a topic as the node shows it, or the error where it is not active.\<close>

definition require_active_index :: "string \<Rightarrow> account option \<Rightarrow> ('w, account) operation" where
  "require_active_index what info =
     (case info of None \<Rightarrow> fail_with (no_claim_text what)
      | Some a \<Rightarrow> if index_says_active a then h_return a else fail_with (no_claim_text what))"

text \<open>The account of the claim that the index points to.\<close>

definition require_claim ::
    "('w, 'c) client_scheme \<Rightarrow> (pubkey \<Rightarrow> string) \<Rightarrow> account \<Rightarrow> ('w, pubkey) operation" where
  "require_claim C stale indexInfo =
     h_bind (key_at C indexInfo 80) (\<lambda>claim.
     h_bind (ask (\<lambda>w. account_at C w claim)) (\<lambda>claimInfo.
     case claimInfo of None \<Rightarrow> fail_with (stale claim)
     | Some a \<Rightarrow> if hasDiscriminator (acc_data a) CLAIM_ACCOUNT_DISCRIMINATOR then h_return claim
                 else fail_with (stale claim)))"

definition revokeActiveClaimForTopic ::
    "('w, 'c) client_scheme \<Rightarrow> program_ids \<Rightarrow> pubkey \<Rightarrow> int \<Rightarrow> ('w, string) operation" where
  "revokeActiveClaimForTopic C P targetWallet topic =
     h_bind (getIdentityIds C P) (\<lambda>ids.
     let issuerOwner = wallet_key C in
     h_bind (findFidPda C issuerOwner (ii_fid ids)) (\<lambda>issuerFid.
     h_bind (findFidPda C targetWallet (ii_fid ids)) (\<lambda>targetFid.
     h_bind (findClaimTopicIndexPda C targetFid issuerFid topic (ii_fid ids)) (\<lambda>claimTopicIndex.
     h_bind (ask (\<lambda>w. account_at C w claimTopicIndex)) (\<lambda>indexInfo.
     h_bind (require_active_index ''revoke'' indexInfo) (\<lambda>index.
     h_bind (require_claim C (stale_claim_text C) index) (\<lambda>claim.
     h_catch
       (send_all C [RawIx \<lparr> ix_programId = ii_fid ids,
          ix_keys = [meta_of issuerOwner True True, meta_of issuerFid False False, meta_of claim False True,
            meta_of claimTopicIndex False True],
          ix_data = REVOKE_CLAIM_DISCRIMINATOR \<rparr>])
       (\<lambda>err. if isClaimDiscriminatorMismatch err then
            h_bind (ask (\<lambda>w. accounts_at C w [claimTopicIndex, claim])) (\<lambda>infos.
            fail_with (revoke_dump C targetWallet targetFid issuerFid topic claimTopicIndex claim
              (info_at infos 0) (info_at infos 1)))
          else h_throw err))))))))"

definition removeActiveClaimForTopicAsHolder ::
    "('w, 'c) client_scheme \<Rightarrow> program_ids \<Rightarrow> pubkey \<Rightarrow> pubkey \<Rightarrow> int \<Rightarrow> ('w, string) operation" where
  "removeActiveClaimForTopicAsHolder C P targetWallet issuerWallet topic =
     h_bind (getIdentityIds C P) (\<lambda>ids.
     let authority = wallet_key C in
     h_bind (findFidPda C targetWallet (ii_fid ids)) (\<lambda>targetFid.
     h_bind (findFidPda C issuerWallet (ii_fid ids)) (\<lambda>issuerFid.
     h_bind (findClaimTopicIndexPda C targetFid issuerFid topic (ii_fid ids)) (\<lambda>claimTopicIndex.
     h_bind (ask (\<lambda>w. accounts_at C w [targetFid, claimTopicIndex])) (\<lambda>infos.
     case info_at infos 0 of
       None \<Rightarrow> fail_with (''Target FID '' @ toBase58 C targetFid @ '' does not exist.'')
     | Some fidInfo \<Rightarrow>
     h_bind (require_active_index ''remove'' (info_at infos 1)) (\<lambda>index.
     h_bind (pure_step (parseFidOwner C (acc_data fidInfo))) (\<lambda>fidOwner.
     h_bind (if length (acc_data fidInfo) \<ge> 72 then h_bind (key_at C fidInfo 40) (\<lambda>k. h_return (Some k))
             else h_return None) (\<lambda>fidManagementKey.
     h_bind (refuse (fidOwner = None \<or> (fidOwner \<noteq> Some authority \<and> fidManagementKey \<noteq> Some authority))
       (''Connected wallet '' @ toBase58 C authority @ '' is not the owner or management key for target FID '' @
        toBase58 C targetFid @ ''.'')) (\<lambda>_.
     h_bind (require_claim C (\<lambda>claim. ''The active claim index points to '' @ toBase58 C claim @
       '', but that account is not a valid ClaimAccount.'') index) (\<lambda>claim.
     send_all C [RawIx \<lparr> ix_programId = ii_fid ids,
       ix_keys = [meta_of authority True True, meta_of targetFid False False, meta_of claim False True,
         meta_of claimTopicIndex False True],
       ix_data = REMOVE_CLAIM_DISCRIMINATOR \<rparr>]))))))))))"

section \<open>Issuing claims\<close>

definition YEAR_SECONDS :: int where "YEAR_SECONDS = 365 * 24 * 60 * 60"

definition issuer_required_text :: string where
  "issuer_required_text = ''Connected wallet must have an issuer FID to issue claims.''"

text \<open>The identity of the issuer, which is created where it does not exist.\<close>

definition require_issuer ::
    "('w, 'c) client_scheme \<Rightarrow> program_ids \<Rightarrow> (fid_report \<Rightarrow> 'w \<Rightarrow> 'w) \<Rightarrow> ('w, fid_view) operation" where
  "require_issuer C P R =
     h_bind (fetchFid C P (wallet_key C)) (\<lambda>first.
     h_bind (case first of Some f \<Rightarrow> h_return first
       | None \<Rightarrow> h_bind (ensureOwnFid C P R 0 True (default_owner_type True)) (\<lambda>_. fetchFid C P (wallet_key C))) (\<lambda>found.
     case found of None \<Rightarrow> fail_with issuer_required_text
     | Some f \<Rightarrow> if fv_isIssuer f then h_return f else fail_with issuer_required_text))"

definition signer_text :: "('x) chain_scheme \<Rightarrow> pubkey \<Rightarrow> pubkey \<Rightarrow> string" where
  "signer_text C claimSigner issuerOwner =
     ''Provider FID signer key must equal the connected provider wallet for the updated Phantom-only claim flow. '' @
     ''On-chain signer key: '' @ toBase58 C claimSigner @ ''. '' @
     ''Connected wallet: '' @ toBase58 C issuerOwner @ ''. '' @
     ''Restore the provider FID signer key to the provider wallet in Identity Manager, then issue the claim again.''"

definition refuse_used_claim ::
    "('w, 'c) client_scheme \<Rightarrow> pubkey \<Rightarrow> int \<Rightarrow> account option \<Rightarrow> ('w, unit) operation" where
  "refuse_used_claim C claim claimCount info =
     (case info of None \<Rightarrow> h_return ()
      | Some a \<Rightarrow>
          if hasDiscriminator (acc_data a) CLAIM_ACCOUNT_DISCRIMINATOR then
            fail_with (''Next claim PDA '' @ toBase58 C claim @ '' already contains a ClaimAccount for claim id '' @
              bigint_toString claimCount @
              ''. The investor FID claim_count is stale; this requires a FID contract repair or a new investor FID.'')
          else
            fail_with (''Next claim PDA '' @ toBase58 C claim @
              '' already exists but is not a ClaimAccount. The FID claim counter points at an unusable account; this requires a FID contract repair or a new investor FID.''))"

definition add_claim_data :: "int \<Rightarrow> pubkey \<Rightarrow> bytes \<Rightarrow> bytes \<Rightarrow> int \<Rightarrow> bytes res" where
  "add_claim_data topic issuerFid dataHash signature expiresAt = buildInstructionData ''add_claim''
     [encodeU64 topic, Inr issuerFid, Inr dataHash, Inr (subarray signature 0 64), encodeI64 expiresAt]"

text \<open>What is thrown instead of the error of a transaction.\<close>

definition issue_failure ::
    "('w, 'c) client_scheme \<Rightarrow> identity_ids \<Rightarrow> pubkey \<Rightarrow> pubkey \<Rightarrow> int \<Rightarrow> jsval \<Rightarrow> ('w, string) operation" where
  "issue_failure C ids targetWallet issuerFid topic err =
     (if isClaimDiscriminatorMismatch err then
        h_bind (findFidPda C targetWallet (ii_fid ids)) (\<lambda>freshTargetFid.
        h_bind (ask (\<lambda>w. anchor_fid_account C w (ii_fid ids) freshTargetFid)) (\<lambda>freshTarget.
        h_bind (findClaimPda C freshTargetFid (fid_claimCount freshTarget) (ii_fid ids)) (\<lambda>freshClaim.
        h_bind (findClaimTopicIndexPda C freshTargetFid issuerFid topic (ii_fid ids)) (\<lambda>freshIndex.
        h_bind (ask (\<lambda>w. accounts_at C w [freshClaim, freshIndex])) (\<lambda>infos.
        fail_with (issue_dump C freshTargetFid (fid_claimCount freshTarget) freshClaim freshIndex
          (info_at infos 0) (info_at infos 1)))))))
      else h_throw err)"

definition issueClaim ::
    "('w, 'c) client_scheme \<Rightarrow> program_ids \<Rightarrow> (fid_report \<Rightarrow> 'w \<Rightarrow> 'w) \<Rightarrow> pubkey \<Rightarrow> int \<Rightarrow> ('w, string) operation" where
  "issueClaim C P R targetWallet topic =
     h_bind (getIdentityIds C P) (\<lambda>ids.
     let issuerOwner = wallet_key C in
     h_bind (findFidPda C issuerOwner (ii_fid ids)) (\<lambda>issuerFid.
     h_bind (findFidPda C targetWallet (ii_fid ids)) (\<lambda>targetFid.
     h_bind (require_issuer C P R) (\<lambda>_.
     h_bind (ask (\<lambda>w. anchor_fid_account C w (ii_fid ids) targetFid)) (\<lambda>targetFidAccount.
     let claimCount = fid_claimCount targetFidAccount in
     h_bind (findClaimPda C targetFid claimCount (ii_fid ids)) (\<lambda>claim.
     h_bind (ask (\<lambda>w. account_at C w claim)) (\<lambda>existingClaimInfo.
     h_bind (refuse_used_claim C claim claimCount existingClaimInfo) (\<lambda>_.
     h_bind (findClaimTopicIndexPda C targetFid issuerFid topic (ii_fid ids)) (\<lambda>claimTopicIndex.
     h_bind (ask_now C) (\<lambda>now.
     let expiresAt = now div 1000 + YEAR_SECONDS;
         dataHash = sha256 C [] in
     h_bind (fetchFid C P issuerOwner) (\<lambda>refreshed.
     h_bind (case refreshed of None \<Rightarrow> fail_with issuer_required_text
       | Some f \<Rightarrow> if fv_isIssuer f then h_return f else fail_with issuer_required_text) (\<lambda>issuerFidAccount.
     h_bind (key_of_text C (fv_signerKey issuerFidAccount)) (\<lambda>claimSigner.
     h_bind (refuse (claimSigner \<noteq> issuerOwner) (signer_text C claimSigner issuerOwner)) (\<lambda>_.
     h_bind (pure_step (add_claim_data topic issuerFid dataHash (replicate 64 0) expiresAt)) (\<lambda>data.
     h_catch
       (send_all C [RawIx \<lparr> ix_programId = ii_fid ids,
          ix_keys = [meta_of issuerOwner True True, meta_of targetFid False True, meta_of claim False True,
            meta_of claimTopicIndex False True, meta_of (sysvar_instructions C) False False,
            meta_of (system_program C) False False],
          ix_data = data \<rparr>])
       (issue_failure C ids targetWallet issuerFid topic))))))))))))))))"

definition claimMessage ::
    "('w, 'c) client_scheme \<Rightarrow> pubkey \<Rightarrow> pubkey \<Rightarrow> int \<Rightarrow> bytes \<Rightarrow> int \<Rightarrow> bytes" where
  "claimMessage C issuerFid targetFid topic dataHash expiresAt =
     sha256 C (issuerFid @ targetFid @ u64Le topic @ dataHash @ i64Le expiresAt)"

record signing_context =
  sg_issuerOwner :: pubkey
  sg_issuerFid :: pubkey
  sg_targetFid :: pubkey
  sg_claimSigner :: pubkey
  sg_dataHash :: bytes
  sg_message :: bytes
  sg_expiresAt :: int

definition buildClaimSigningContext ::
    "('w, 'c) client_scheme \<Rightarrow> program_ids \<Rightarrow> (fid_report \<Rightarrow> 'w \<Rightarrow> 'w) \<Rightarrow> pubkey \<Rightarrow> int \<Rightarrow>
     ('w, signing_context) operation" where
  "buildClaimSigningContext C P R targetWallet topic =
     h_bind (getIdentityIds C P) (\<lambda>ids.
     let issuerOwner = wallet_key C in
     h_bind (findFidPda C issuerOwner (ii_fid ids)) (\<lambda>issuerFid.
     h_bind (require_issuer C P R) (\<lambda>issuerFidAccount.
     h_bind (findFidPda C targetWallet (ii_fid ids)) (\<lambda>targetFid.
     h_bind (ask_now C) (\<lambda>now.
     let expiresAt = now div 1000 + YEAR_SECONDS;
         dataHash = sha256 C [];
         message = claimMessage C issuerFid targetFid topic dataHash expiresAt in
     h_bind (key_of_text C (fv_signerKey issuerFidAccount)) (\<lambda>claimSigner.
     h_return \<lparr> sg_issuerOwner = issuerOwner, sg_issuerFid = issuerFid, sg_targetFid = targetFid,
       sg_claimSigner = claimSigner, sg_dataHash = dataHash, sg_message = message,
       sg_expiresAt = expiresAt \<rparr>))))))"

end
