(* ===== verification/FidProgram.thy ===== *)
theory FidProgram
  imports Accounts Handlers ProgramIdl
begin

text \<open>
  The identity program (\<open>contracts/programs/fracks-fid\<close>): its accounts, its seven instructions with the
  constraints of their account structs in the order in which they are checked, and the helpers of
  \<open>utils.rs\<close>. The cells of the accounts are their content as the program reads it; \<open>NoCell\<close> is an
  account that does not exist and \<open>ForeignCell\<close> one of another program. The derivation of addresses
  is a parameter, with \<open>None\<close> where the runtime panics or refuses. Events and rents are left out.
\<close>

section \<open>Accounts\<close>

record topic_index =
  cx_target_fid :: pubkey
  cx_issuer_fid :: pubkey
  cx_topic :: int
  cx_active_claim :: pubkey
  cx_active_claim_id :: int
  cx_is_active :: bool
  cx_bump :: int

datatype fid_cell =
    NoCell | ForeignCell | FidCell fid_account_data | ClaimCell claim_account_data | IndexCell topic_index

type_synonym fid_accounts = "pubkey \<Rightarrow> fid_cell"

datatype fid_error =
    Unauthorized | InvalidIssuerFid | MissingEd25519Instruction | InvalidInstructionsSysvar
  | ArithmeticOverflow | ClaimFidMismatch | InvalidClaimSignature | DuplicateClaimTopicIssuer
  | FidAlreadyExists | InvalidCountryCode | InvalidClaimTopicIndex | AnchorError string

record fid_runtime =
  fr_find :: "bytes list \<Rightarrow> (pubkey \<times> int) option"
  fr_create :: "bytes list \<Rightarrow> int \<Rightarrow> pubkey option"
  fr_hash :: "bytes \<Rightarrow> bytes"
  fr_instructions_id :: pubkey
  fr_ed25519_id :: pubkey

definition COUNTRY_MAX :: int where "COUNTRY_MAX = 999"

definition PUBKEY_DEFAULT :: pubkey where "PUBKEY_DEFAULT = replicate 32 0"

definition fid_seeds :: "pubkey \<Rightarrow> bytes list" where
  "fid_seeds owner = [ascii ''fid'', owner]"

definition claim_seeds :: "pubkey \<Rightarrow> int \<Rightarrow> bytes list" where
  "claim_seeds target claim_id = [ascii ''claim'', target, le_bytes 4 claim_id]"

definition index_seeds :: "pubkey \<Rightarrow> pubkey \<Rightarrow> int \<Rightarrow> bytes list" where
  "index_seeds target issuer topic = [ascii ''claim_topic_index'', target, issuer, le_bytes 8 topic]"

section \<open>Constraints\<close>

definition demand :: "bool \<Rightarrow> fid_error \<Rightarrow> fid_error + 'a \<Rightarrow> fid_error + 'a" where
  "demand ok e r = (if ok then r else Inl e)"

text \<open>\<open>seeds = ..., bump\<close> of an account that may be created: the address and its bump.\<close>

definition at_canonical ::
    "fid_runtime \<Rightarrow> bytes list \<Rightarrow> pubkey \<Rightarrow> (int \<Rightarrow> fid_error + 'a) \<Rightarrow> fid_error + 'a" where
  "at_canonical E seeds k cont = (case fr_find E seeds of
     None \<Rightarrow> Inl (AnchorError ''MaxSeedLengthExceeded'')
   | Some (k', b) \<Rightarrow> demand (k' = k) (AnchorError ''ConstraintSeeds'') (cont b))"

text \<open>\<open>seeds = ..., bump = b\<close>\<close>

definition at_bump :: "fid_runtime \<Rightarrow> bytes list \<Rightarrow> int \<Rightarrow> pubkey \<Rightarrow> fid_error + 'a \<Rightarrow> fid_error + 'a" where
  "at_bump E seeds b k r = demand (fr_create E seeds b = Some k) (AnchorError ''ConstraintSeeds'') r"

text \<open>What Anchor throws where an account is not of the type that the instruction names.\<close>

definition wrong_account :: "fid_cell \<Rightarrow> fid_error + 'a" where
  "wrong_account c = Inl (AnchorError (case c of NoCell \<Rightarrow> ''AccountNotInitialized''
     | ForeignCell \<Rightarrow> ''AccountOwnedByWrongProgram'' | _ \<Rightarrow> ''AccountDiscriminatorMismatch''))"

definition as_fid :: "fid_accounts \<Rightarrow> pubkey \<Rightarrow> (fid_account_data \<Rightarrow> fid_error + 'a) \<Rightarrow> fid_error + 'a" where
  "as_fid A k cont = (case A k of FidCell f \<Rightarrow> cont f | c \<Rightarrow> wrong_account c)"

definition as_claim :: "fid_accounts \<Rightarrow> pubkey \<Rightarrow> (claim_account_data \<Rightarrow> fid_error + 'a) \<Rightarrow> fid_error + 'a" where
  "as_claim A k cont = (case A k of ClaimCell c \<Rightarrow> cont c | c \<Rightarrow> wrong_account c)"

definition as_index :: "fid_accounts \<Rightarrow> pubkey \<Rightarrow> (topic_index \<Rightarrow> fid_error + 'a) \<Rightarrow> fid_error + 'a" where
  "as_index A k cont = (case A k of IndexCell x \<Rightarrow> cont x | c \<Rightarrow> wrong_account c)"

section \<open>Instructions on an identity\<close>

definition validate_country :: "bool \<Rightarrow> int \<Rightarrow> fid_error + unit" where
  "validate_country is_issuer country =
     (if is_issuer then demand (country \<le> COUNTRY_MAX) InvalidCountryCode (Inr ())
      else demand (country > 0 \<and> country \<le> COUNTRY_MAX) InvalidCountryCode (Inr ()))"

definition empty_fid :: fid_account_data where
  "empty_fid = \<lparr> fid_owner = PUBKEY_DEFAULT, fid_managementKey = PUBKEY_DEFAULT, fid_signerKey = PUBKEY_DEFAULT,
     fid_claimCount = 0, fid_isIssuer = False, fid_country = 0, fid_bump = 0 \<rparr>"

text \<open>\<open>init_if_needed\<close>: an account that does not exist starts with zeros.\<close>

definition init_fid :: "fid_accounts \<Rightarrow> pubkey \<Rightarrow> (fid_account_data \<Rightarrow> fid_error + 'a) \<Rightarrow> fid_error + 'a" where
  "init_fid A k cont = (case A k of NoCell \<Rightarrow> cont empty_fid | FidCell f \<Rightarrow> cont f | c \<Rightarrow> wrong_account c)"

definition create_fid ::
    "fid_runtime \<Rightarrow> pubkey \<Rightarrow> pubkey \<Rightarrow> bool \<Rightarrow> int \<Rightarrow> fid_accounts \<Rightarrow> fid_error + fid_accounts" where
  "create_fid E owner fidKey is_issuer country A =
     at_canonical E (fid_seeds owner) fidKey (\<lambda>bump. init_fid A fidKey (\<lambda>f.
     demand (fid_owner f = PUBKEY_DEFAULT) FidAlreadyExists
       (case validate_country is_issuer country of Inl e \<Rightarrow> Inl e | Inr _ \<Rightarrow>
          Inr (A(fidKey := FidCell \<lparr> fid_owner = owner, fid_managementKey = owner, fid_signerKey = owner,
            fid_claimCount = 0, fid_isIssuer = is_issuer, fid_country = (if is_issuer then 0 else country),
            fid_bump = bump \<rparr>)))))"

definition set_management_key ::
    "fid_runtime \<Rightarrow> pubkey \<Rightarrow> pubkey \<Rightarrow> pubkey \<Rightarrow> fid_accounts \<Rightarrow> fid_error + fid_accounts" where
  "set_management_key E owner fidKey new_key A = as_fid A fidKey (\<lambda>f.
     at_bump E (fid_seeds owner) (fid_bump f) fidKey
     (demand (fid_owner f = owner) Unauthorized
       (Inr (A(fidKey := FidCell (f\<lparr> fid_managementKey := new_key \<rparr>))))))"

text \<open>The authority of an identity is its owner or its management key.\<close>

definition by_authority ::
    "fid_runtime \<Rightarrow> pubkey \<Rightarrow> pubkey \<Rightarrow> fid_accounts \<Rightarrow> (fid_account_data \<Rightarrow> fid_error + 'a) \<Rightarrow> fid_error + 'a" where
  "by_authority E authority fidKey A cont = as_fid A fidKey (\<lambda>f.
     at_bump E (fid_seeds (fid_owner f)) (fid_bump f) fidKey
     (demand (authority = fid_owner f \<or> authority = fid_managementKey f) Unauthorized (cont f)))"

definition set_signer_key ::
    "fid_runtime \<Rightarrow> pubkey \<Rightarrow> pubkey \<Rightarrow> pubkey \<Rightarrow> fid_accounts \<Rightarrow> fid_error + fid_accounts" where
  "set_signer_key E authority fidKey new_key A = by_authority E authority fidKey A (\<lambda>f.
     Inr (A(fidKey := FidCell (f\<lparr> fid_signerKey := new_key \<rparr>))))"

definition update_fid_profile ::
    "fid_runtime \<Rightarrow> pubkey \<Rightarrow> pubkey \<Rightarrow> bool \<Rightarrow> int \<Rightarrow> fid_accounts \<Rightarrow> fid_error + fid_accounts" where
  "update_fid_profile E authority fidKey is_issuer country A = by_authority E authority fidKey A (\<lambda>f.
     case validate_country is_issuer country of Inl e \<Rightarrow> Inl e | Inr _ \<Rightarrow>
       Inr (A(fidKey := FidCell (f\<lparr> fid_isIssuer := is_issuer,
         fid_country := (if is_issuer then 0 else country) \<rparr>))))"

section \<open>Instructions on claims\<close>

definition empty_index :: topic_index where
  "empty_index = \<lparr> cx_target_fid = PUBKEY_DEFAULT, cx_issuer_fid = PUBKEY_DEFAULT, cx_topic = 0,
     cx_active_claim = PUBKEY_DEFAULT, cx_active_claim_id = 0, cx_is_active = False, cx_bump = 0 \<rparr>"

definition init_index :: "fid_accounts \<Rightarrow> pubkey \<Rightarrow> (topic_index \<Rightarrow> fid_error + 'a) \<Rightarrow> fid_error + 'a" where
  "init_index A k cont = (case A k of NoCell \<Rightarrow> cont empty_index | IndexCell x \<Rightarrow> cont x | c \<Rightarrow> wrong_account c)"

text \<open>The accounts of \<open>add_claim\<close>; the account of the claim exists from its constraint on.\<close>

definition add_claim ::
    "fid_runtime \<Rightarrow> int \<Rightarrow> pubkey \<Rightarrow> pubkey \<Rightarrow> pubkey \<Rightarrow> pubkey \<Rightarrow> int \<Rightarrow> pubkey \<Rightarrow> bytes \<Rightarrow> bytes \<Rightarrow> int \<Rightarrow>
     fid_accounts \<Rightarrow> fid_error + fid_accounts" where
  "add_claim E now issuer_owner targetKey claimKey indexKey topic issuer_fid data_hash signature expires_at A =
     as_fid A targetKey (\<lambda>target.
     let claim_id = fid_claimCount target in
     at_canonical E (claim_seeds targetKey claim_id) claimKey (\<lambda>claim_bump.
     demand (A claimKey = NoCell) (AnchorError ''account already in use'')
     (at_canonical E (index_seeds targetKey issuer_fid topic) indexKey (\<lambda>index_bump.
     init_index (A(claimKey := ForeignCell)) indexKey (\<lambda>x.
     case fr_find E (fid_seeds issuer_owner) of
       None \<Rightarrow> Inl (AnchorError ''MaxSeedLengthExceeded'')
     | Some (expected_issuer_fid, _) \<Rightarrow>
     demand (issuer_fid = expected_issuer_fid) InvalidIssuerFid
     (demand (\<not> cx_is_active x) DuplicateClaimTopicIssuer
     (demand (claim_id + 1 < 2 ^ 32) ArithmeticOverflow
       (Inr (A(targetKey := FidCell (target\<lparr> fid_claimCount := claim_id + 1 \<rparr>),
               claimKey := ClaimCell \<lparr> cl_fid = targetKey, cl_claimId = claim_id, cl_topic = topic,
                 cl_issuerFid = issuer_fid, cl_dataHash = data_hash, cl_signerKey = issuer_owner,
                 cl_signature = signature, cl_issuedAt = now, cl_expiresAt = expires_at, cl_revoked = False,
                 cl_bump = claim_bump \<rparr>,
               indexKey := IndexCell \<lparr> cx_target_fid = targetKey, cx_issuer_fid = issuer_fid,
                 cx_topic = topic, cx_active_claim = claimKey, cx_active_claim_id = claim_id,
                 cx_is_active = True, cx_bump = index_bump \<rparr>))))))))))"

text \<open>The constraints that \<open>RevokeClaim\<close> and \<open>RemoveClaim\<close> share.\<close>

definition claim_account ::
    "fid_runtime \<Rightarrow> pubkey \<Rightarrow> fid_accounts \<Rightarrow> (claim_account_data \<Rightarrow> fid_error + 'a) \<Rightarrow> fid_error + 'a" where
  "claim_account E claimKey A cont = as_claim A claimKey (\<lambda>c.
     at_bump E (claim_seeds (cl_fid c) (cl_claimId c)) (cl_bump c) claimKey (cont c))"

definition index_account ::
    "fid_runtime \<Rightarrow> pubkey \<Rightarrow> claim_account_data \<Rightarrow> fid_accounts \<Rightarrow> (topic_index \<Rightarrow> fid_error + 'a) \<Rightarrow>
     fid_error + 'a" where
  "index_account E indexKey c A cont = as_index A indexKey (\<lambda>x.
     at_bump E (index_seeds (cl_fid c) (cl_issuerFid c) (cl_topic c)) (cx_bump x) indexKey
     (demand (cx_target_fid x = cl_fid c) InvalidClaimTopicIndex
     (demand (cx_issuer_fid x = cl_issuerFid c) InvalidClaimTopicIndex
     (demand (cx_topic x = cl_topic c) InvalidClaimTopicIndex (cont x)))))"

definition release_index :: "pubkey \<Rightarrow> topic_index \<Rightarrow> topic_index" where
  "release_index claimKey x =
     (if cx_active_claim x = claimKey then x\<lparr> cx_is_active := False, cx_active_claim := PUBKEY_DEFAULT \<rparr> else x)"

definition revoke_claim ::
    "fid_runtime \<Rightarrow> pubkey \<Rightarrow> pubkey \<Rightarrow> pubkey \<Rightarrow> fid_accounts \<Rightarrow> fid_error + fid_accounts" where
  "revoke_claim E issuer_owner claimKey indexKey A =
     claim_account E claimKey A (\<lambda>c. index_account E indexKey c A (\<lambda>x.
     demand (issuer_owner = cl_signerKey c) InvalidIssuerFid
       (Inr (A(claimKey := ClaimCell (c\<lparr> cl_revoked := True \<rparr>),
               indexKey := IndexCell (release_index claimKey x))))))"

definition remove_claim ::
    "fid_runtime \<Rightarrow> pubkey \<Rightarrow> pubkey \<Rightarrow> pubkey \<Rightarrow> pubkey \<Rightarrow> fid_accounts \<Rightarrow> fid_error + fid_accounts" where
  "remove_claim E authority fidKey claimKey indexKey A =
     as_fid A fidKey (\<lambda>f. claim_account E claimKey A (\<lambda>c.
     demand (cl_fid c = fidKey) ClaimFidMismatch
     (index_account E indexKey c A (\<lambda>x.
     demand (authority = fid_owner f \<or> authority = fid_managementKey f) Unauthorized
       (Inr (A(indexKey := IndexCell (release_index claimKey x), claimKey := NoCell)))))))"

section \<open>Signatures\<close>

text \<open>
  The helpers for an \<open>ed25519\<close> instruction before \<open>add_claim\<close>, which \<open>add_claim\<close> does not call. The
  instructions of a transaction are their programs and data.
\<close>

definition construct_claim_message ::
    "fid_runtime \<Rightarrow> pubkey \<Rightarrow> pubkey \<Rightarrow> int \<Rightarrow> bytes \<Rightarrow> int \<Rightarrow> bytes" where
  "construct_claim_message E issuer_fid holder_fid topic data_hash expires_at =
     fr_hash E (issuer_fid @ holder_fid @ le_bytes 8 topic @ data_hash @ le_bytes 8 expires_at)"

definition rust_slice :: "bytes \<Rightarrow> nat \<Rightarrow> nat \<Rightarrow> bytes option" where
  "rust_slice data offset len =
     (if offset + len \<le> length data then Some (take len (drop offset data)) else None)"

definition rust_read_u16 :: "bytes \<Rightarrow> nat \<Rightarrow> nat option" where
  "rust_read_u16 data offset = map_option (\<lambda>b. nat (le_val b)) (rust_slice data offset 2)"

definition ed25519_fields :: "bytes \<Rightarrow> nat list option" where
  "ed25519_fields data = those (map (rust_read_u16 data) [2, 4, 6, 8, 10, 12, 14])"

definition verify_ed25519_data :: "bytes \<Rightarrow> pubkey \<Rightarrow> bytes \<Rightarrow> bytes \<Rightarrow> fid_error + unit" where
  "verify_ed25519_data data expected_pubkey expected_message expected_signature =
     (if length data < 16 \<or> data ! 0 \<noteq> 1 then Inl InvalidClaimSignature
      else case ed25519_fields data of
          Some [sig_at, sig_ix, key_at, key_ix, msg_at, msg_size, msg_ix] \<Rightarrow>
            demand (sig_ix = 65535 \<and> key_ix = 65535 \<and> msg_ix = 65535 \<and>
                msg_size = length expected_message \<and>
                rust_slice data key_at 32 = Some expected_pubkey \<and>
                rust_slice data sig_at 64 = Some expected_signature \<and>
                rust_slice data msg_at msg_size = Some expected_message) InvalidClaimSignature (Inr ())
        | _ \<Rightarrow> Inl InvalidClaimSignature)"

definition verify_ed25519_instruction ::
    "fid_runtime \<Rightarrow> (pubkey \<times> bytes) list \<Rightarrow> nat \<Rightarrow> pubkey \<Rightarrow> pubkey \<Rightarrow> bytes \<Rightarrow> bytes \<Rightarrow> fid_error + unit" where
  "verify_ed25519_instruction E instructions current_index sysvar expected_pubkey expected_message
       expected_signature =
     demand (sysvar = fr_instructions_id E) InvalidInstructionsSysvar
     (demand (current_index > 0) MissingEd25519Instruction
       (case find (\<lambda>(p, d). p = fr_ed25519_id E) (rev (take current_index instructions)) of
          None \<Rightarrow> Inl MissingEd25519Instruction
        | Some (p, d) \<Rightarrow> verify_ed25519_data d expected_pubkey expected_message expected_signature))"

section \<open>The entry point\<close>

text \<open>
  The program takes the instruction that the data of a call name and its accounts in the order of the
  struct; further accounts are ignored. The first account of each instruction signs.
\<close>

fun profile_args :: "bval list \<Rightarrow> (bool \<times> int) option" where
  "profile_args [BBool is_issuer, BU16 country] = Some (is_issuer, country)"
| "profile_args _ = None"

fun key_arg :: "bval list \<Rightarrow> pubkey option" where
  "key_arg [BPubkey key] = Some key"
| "key_arg _ = None"

definition u64_arg where "u64_arg v = (case v of BU64 t \<Rightarrow> Some t | _ \<Rightarrow> None)"
definition pubkey_arg where "pubkey_arg v = (case v of BPubkey k \<Rightarrow> Some k | _ \<Rightarrow> None)"
definition fixed_arg where "fixed_arg v = (case v of BFixed n b \<Rightarrow> Some b | _ \<Rightarrow> None)"
definition i64_arg where "i64_arg v = (case v of BI64 t \<Rightarrow> Some t | _ \<Rightarrow> None)"

definition claim_args :: "bval list \<Rightarrow> (int \<times> pubkey \<times> bytes \<times> bytes \<times> int) option" where
  "claim_args args = (case args of
     [a, b, c, d, e] \<Rightarrow>
       (case (u64_arg a, pubkey_arg b, fixed_arg c, fixed_arg d, i64_arg e) of
          (Some topic, Some issuer_fid, Some data_hash, Some signature, Some expires_at) \<Rightarrow>
            Some (topic, issuer_fid, data_hash, signature, expires_at)
        | _ \<Rightarrow> None)
   | _ \<Rightarrow> None)"

definition malformed :: "fid_error + 'a" where
  "malformed = Inl (AnchorError ''InstructionDidNotDeserialize'')"

definition missing_keys :: "fid_error + 'a" where
  "missing_keys = Inl (AnchorError ''AccountNotEnoughKeys'')"

definition fid_entry ::
    "fid_runtime \<Rightarrow> int \<Rightarrow> pubkey list \<Rightarrow> (string \<times> bval list) option \<Rightarrow> fid_accounts \<Rightarrow> fid_error + fid_accounts" where
  "fid_entry E now keys call A =
    (case call of
       None \<Rightarrow> Inl (AnchorError ''InstructionFallbackNotFound'')
     | Some (name, args) \<Rightarrow>
        if name = ''create_fid'' then
          (case profile_args args of None \<Rightarrow> malformed | Some (is_issuer, country) \<Rightarrow>
            (case keys of owner # fidKey # _ \<Rightarrow> create_fid E owner fidKey is_issuer country A | _ \<Rightarrow> missing_keys))
        else if name = ''set_management_key'' then
          (case key_arg args of None \<Rightarrow> malformed | Some key \<Rightarrow>
            (case keys of owner # fidKey # _ \<Rightarrow> set_management_key E owner fidKey key A | _ \<Rightarrow> missing_keys))
        else if name = ''set_signer_key'' then
          (case key_arg args of None \<Rightarrow> malformed | Some key \<Rightarrow>
            (case keys of authority # fidKey # _ \<Rightarrow> set_signer_key E authority fidKey key A | _ \<Rightarrow> missing_keys))
        else if name = ''update_fid_profile'' then
          (case profile_args args of None \<Rightarrow> malformed | Some (is_issuer, country) \<Rightarrow>
            (case keys of authority # fidKey # _ \<Rightarrow> update_fid_profile E authority fidKey is_issuer country A
             | _ \<Rightarrow> missing_keys))
        else if name = ''add_claim'' then
          (case claim_args args of None \<Rightarrow> malformed | Some (topic, issuer_fid, data_hash, signature, expires_at) \<Rightarrow>
            (case keys of issuer_owner # targetKey # claimKey # indexKey # _ \<Rightarrow>
               add_claim E now issuer_owner targetKey claimKey indexKey topic issuer_fid data_hash signature
                 expires_at A | _ \<Rightarrow> missing_keys))
        else if name = ''revoke_claim'' then
          (case keys of issuer_owner # claimKey # indexKey # _ \<Rightarrow> revoke_claim E issuer_owner claimKey indexKey A
           | _ \<Rightarrow> missing_keys)
        else if name = ''remove_claim'' then
          (case keys of authority # fidKey # claimKey # indexKey # _ \<Rightarrow>
             remove_claim E authority fidKey claimKey indexKey A | _ \<Rightarrow> missing_keys)
        else Inl (AnchorError ''InstructionFallbackNotFound''))"

end
