(* ===== verification/FidProperties.thy ===== *)
theory FidProperties
  imports FidProgram
begin

text \<open>
  The claims on the chain: whatever instructions the identity program runs, at most one claim that is
  not revoked exists for an investor, an issuer and a topic, and the index of the three points to it.
  A family \<open>W\<close> of wallets signs; the addresses the program derives for them are assumed to differ.
\<close>

section \<open>Addresses\<close>

definition fid_address :: "fid_runtime \<Rightarrow> pubkey set \<Rightarrow> pubkey \<Rightarrow> bool" where
  "fid_address E W k \<longleftrightarrow> (\<exists>w \<in> W. \<exists>b. fr_find E (fid_seeds w) = Some (k, b))"

definition u32 :: "int \<Rightarrow> bool" where "u32 v \<longleftrightarrow> 0 \<le> v \<and> v < 2 ^ 32"
definition u64_topic :: "int \<Rightarrow> bool" where "u64_topic v \<longleftrightarrow> 0 \<le> v \<and> v < 2 ^ 64"

inductive program_seeds :: "fid_runtime \<Rightarrow> pubkey set \<Rightarrow> bytes list \<Rightarrow> bool" for E W where
  ps_fid: "w \<in> W \<Longrightarrow> program_seeds E W (fid_seeds w)"
| ps_claim: "fid_address E W k \<Longrightarrow> u32 i \<Longrightarrow> program_seeds E W (claim_seeds k i)"
| ps_index: "fid_address E W k \<Longrightarrow> fid_address E W g \<Longrightarrow> u64_topic t \<Longrightarrow> program_seeds E W (index_seeds k g t)"

text \<open>
  No two of the seeds in use hash to one address, an address found with a bump is the address created
  with it, and nobody signs for the default key.
\<close>

definition separate_addresses :: "fid_runtime \<Rightarrow> pubkey set \<Rightarrow> bool" where
  "separate_addresses E W \<longleftrightarrow> PUBKEY_DEFAULT \<notin> W \<and>
     (\<forall>s k b. fr_find E s = Some (k, b) \<longrightarrow> fr_create E s b = Some k) \<and>
     (\<forall>s s' k b b'. program_seeds E W s \<longrightarrow> program_seeds E W s' \<longrightarrow> fr_find E s = Some (k, b) \<longrightarrow>
        fr_find E s' = Some (k, b') \<longrightarrow> s = s')"

lemma seeds_inj:
  "fid_seeds w = fid_seeds w' \<longleftrightarrow> w = w'"
  "u32 i \<Longrightarrow> u32 j \<Longrightarrow> claim_seeds k i = claim_seeds l j \<longleftrightarrow> k = l \<and> i = j"
  "u64_topic t \<Longrightarrow> u64_topic t' \<Longrightarrow> index_seeds k g t = index_seeds l h t' \<longleftrightarrow> k = l \<and> g = h \<and> t = t'"
  by (auto simp: fid_seeds_def claim_seeds_def index_seeds_def u32_def u64_topic_def dest!: le_bytes_inj)

lemma seeds_differ:
  "fid_seeds w \<noteq> claim_seeds k i" "fid_seeds w \<noteq> index_seeds k g t" "claim_seeds k i \<noteq> index_seeds l g t"
  "claim_seeds k i \<noteq> fid_seeds w" "index_seeds k g t \<noteq> fid_seeds w" "index_seeds l g t \<noteq> claim_seeds k i"
  by (simp_all add: fid_seeds_def claim_seeds_def index_seeds_def)

lemma separateD:
  assumes "separate_addresses E W" "program_seeds E W s" "program_seeds E W s'"
    and "fr_find E s = Some (k, b)" "fr_find E s' = Some (k, b')"
  shows "s = s'"
  using assms unfolding separate_addresses_def by blast

section \<open>Steps\<close>

inductive fid_step :: "fid_runtime \<Rightarrow> pubkey set \<Rightarrow> fid_accounts \<Rightarrow> fid_accounts \<Rightarrow> bool" for E W where
  step_create: "create_fid E w k is_issuer country A = Inr A' \<Longrightarrow> w \<in> W \<Longrightarrow> fid_step E W A A'"
| step_management: "set_management_key E w k key A = Inr A' \<Longrightarrow> fid_step E W A A'"
| step_signer: "set_signer_key E w k key A = Inr A' \<Longrightarrow> fid_step E W A A'"
| step_profile: "update_fid_profile E w k is_issuer country A = Inr A' \<Longrightarrow> fid_step E W A A'"
| step_add: "add_claim E now w tk ck ik t g h sig ex A = Inr A' \<Longrightarrow> w \<in> W \<Longrightarrow> u64_topic t \<Longrightarrow> fid_step E W A A'"
| step_revoke: "revoke_claim E w ck ik A = Inr A' \<Longrightarrow> fid_step E W A A'"
| step_remove: "remove_claim E w k ck ik A = Inr A' \<Longrightarrow> fid_step E W A A'"
| step_elsewhere: "A k \<in> {NoCell, ForeignCell} \<Longrightarrow> c \<in> {NoCell, ForeignCell} \<Longrightarrow> fid_step E W A (A(k := c))"

inductive fid_reachable :: "fid_runtime \<Rightarrow> pubkey set \<Rightarrow> fid_accounts \<Rightarrow> bool" for E W where
  fr_start: "(\<And>k. A k \<in> {NoCell, ForeignCell}) \<Longrightarrow> fid_reachable E W A"
| fr_step: "fid_reachable E W A \<Longrightarrow> fid_step E W A A' \<Longrightarrow> fid_reachable E W A'"

section \<open>The invariant\<close>

definition fid_fine :: "fid_runtime \<Rightarrow> pubkey set \<Rightarrow> pubkey \<Rightarrow> fid_account_data \<Rightarrow> bool" where
  "fid_fine E W k f \<longleftrightarrow> fid_owner f \<in> W \<and> fr_find E (fid_seeds (fid_owner f)) = Some (k, fid_bump f) \<and>
     u32 (fid_claimCount f)"

definition claim_fine :: "fid_runtime \<Rightarrow> pubkey set \<Rightarrow> fid_accounts \<Rightarrow> pubkey \<Rightarrow> claim_account_data \<Rightarrow> bool" where
  "claim_fine E W A k c \<longleftrightarrow> fr_find E (claim_seeds (cl_fid c) (cl_claimId c)) = Some (k, cl_bump c) \<and>
     0 \<le> cl_claimId c \<and> cl_signerKey c \<in> W \<and> u64_topic (cl_topic c) \<and>
     (\<exists>b. fr_find E (fid_seeds (cl_signerKey c)) = Some (cl_issuerFid c, b)) \<and>
     (\<exists>f. A (cl_fid c) = FidCell f \<and> cl_claimId c < fid_claimCount f) \<and>
     (\<not> cl_revoked c \<longrightarrow> (\<exists>ik x. fr_find E (index_seeds (cl_fid c) (cl_issuerFid c) (cl_topic c)) = Some (ik, cx_bump x) \<and>
        A ik = IndexCell x \<and> cx_is_active x \<and> cx_active_claim x = k))"

definition index_fine :: "fid_runtime \<Rightarrow> pubkey set \<Rightarrow> fid_accounts \<Rightarrow> pubkey \<Rightarrow> topic_index \<Rightarrow> bool" where
  "index_fine E W A k x \<longleftrightarrow>
     fr_find E (index_seeds (cx_target_fid x) (cx_issuer_fid x) (cx_topic x)) = Some (k, cx_bump x) \<and>
     fid_address E W (cx_target_fid x) \<and> fid_address E W (cx_issuer_fid x) \<and> u64_topic (cx_topic x) \<and>
     (\<not> cx_is_active x \<longrightarrow> cx_active_claim x = PUBKEY_DEFAULT) \<and>
     (cx_is_active x \<longrightarrow> (\<exists>c. A (cx_active_claim x) = ClaimCell c \<and> cl_fid c = cx_target_fid x \<and>
        cl_issuerFid c = cx_issuer_fid x \<and> cl_topic c = cx_topic x \<and> cl_claimId c = cx_active_claim_id x \<and>
        \<not> cl_revoked c))"

definition fid_inv :: "fid_runtime \<Rightarrow> pubkey set \<Rightarrow> fid_accounts \<Rightarrow> bool" where
  "fid_inv E W A \<longleftrightarrow> (\<forall>k. (\<forall>f. A k = FidCell f \<longrightarrow> fid_fine E W k f) \<and>
     (\<forall>c. A k = ClaimCell c \<longrightarrow> claim_fine E W A k c) \<and> (\<forall>x. A k = IndexCell x \<longrightarrow> index_fine E W A k x))"

lemma fid_invD:
  "fid_inv E W A \<Longrightarrow> A k = FidCell f \<Longrightarrow> fid_fine E W k f"
  "fid_inv E W A \<Longrightarrow> A k = ClaimCell c \<Longrightarrow> claim_fine E W A k c"
  "fid_inv E W A \<Longrightarrow> A k = IndexCell x \<Longrightarrow> index_fine E W A k x"
  by (simp_all add: fid_inv_def)

lemma fid_invI:
  assumes "\<And>k f. A k = FidCell f \<Longrightarrow> fid_fine E W k f" "\<And>k c. A k = ClaimCell c \<Longrightarrow> claim_fine E W A k c"
    and "\<And>k x. A k = IndexCell x \<Longrightarrow> index_fine E W A k x"
  shows "fid_inv E W A"
  using assms by (simp add: fid_inv_def)

lemma fid_fine_address: "fid_fine E W k f \<Longrightarrow> fid_address E W k"
  by (auto simp: fid_fine_def fid_address_def)

lemma claim_fine_address: "fid_inv E W A \<Longrightarrow> claim_fine E W A k c \<Longrightarrow> fid_address E W (cl_fid c) \<and> u32 (cl_claimId c)"
  by (auto simp: claim_fine_def u32_def fid_fine_def dest!: fid_invD(1) intro!: fid_fine_address)

text \<open>An account outside the claims and indexes changes.\<close>

lemma inv_fid_change:
  assumes inv: "fid_inv E W A" and old: "A k = NoCell \<or> A k = ForeignCell \<or> A k = FidCell f"
    and new: "fid_fine E W k f'" "A k = FidCell f \<longrightarrow> fid_claimCount f \<le> fid_claimCount f'"
  shows "fid_inv E W (A(k := FidCell f'))"
proof (rule fid_invI)
  fix l g assume "(A(k := FidCell f')) l = FidCell g"
  then show "fid_fine E W l g" using fid_invD(1) [OF inv] new(1) by (auto split: if_splits)
next
  fix l c assume "(A(k := FidCell f')) l = ClaimCell c"
  then have "claim_fine E W A l c" using fid_invD(2) [OF inv] by (auto split: if_splits)
  then show "claim_fine E W (A(k := FidCell f')) l c"
    using old new(2) unfolding claim_fine_def by fastforce
next
  fix l x assume "(A(k := FidCell f')) l = IndexCell x"
  then have "index_fine E W A l x" using fid_invD(3) [OF inv] by (auto split: if_splits)
  then show "index_fine E W (A(k := FidCell f')) l x"
    using old unfolding index_fine_def by fastforce
qed

lemma inv_elsewhere:
  assumes inv: "fid_inv E W A" and "A k \<in> {NoCell, ForeignCell}" "c \<in> {NoCell, ForeignCell}"
  shows "fid_inv E W (A(k := c))"
proof (rule fid_invI)
  fix l g assume "(A(k := c)) l = FidCell g"
  then show "fid_fine E W l g" using fid_invD(1) [OF inv] assms(3) by (auto split: if_splits)
next
  fix l d assume "(A(k := c)) l = ClaimCell d"
  then have "claim_fine E W A l d" using fid_invD(2) [OF inv] assms(3) by (auto split: if_splits)
  then show "claim_fine E W (A(k := c)) l d" using assms(2) unfolding claim_fine_def by fastforce
next
  fix l x assume "(A(k := c)) l = IndexCell x"
  then have "index_fine E W A l x" using fid_invD(3) [OF inv] assms(3) by (auto split: if_splits)
  then show "index_fine E W (A(k := c)) l x" using assms(2) unfolding index_fine_def by fastforce
qed

section \<open>Instructions keep it\<close>

lemma demandE [elim!]:
  assumes "demand ok e r = Inr y" obtains "ok" "r = Inr y"
  using assms by (auto simp: demand_def split: if_splits)

lemma at_canonicalE [elim!]:
  assumes "at_canonical E seeds k cont = Inr y"
  obtains b where "fr_find E seeds = Some (k, b)" "cont b = Inr y"
  using assms by (auto simp: at_canonical_def split: option.splits)

lemma at_bumpE [elim!]:
  assumes "at_bump E seeds b k r = Inr y" obtains "fr_create E seeds b = Some k" "r = Inr y"
  using assms by (auto simp: at_bump_def)

lemma as_cellE [elim!]:
  "as_fid A k cf = Inr y \<Longrightarrow> (\<And>f. A k = FidCell f \<Longrightarrow> cf f = Inr y \<Longrightarrow> P) \<Longrightarrow> P"
  "as_claim A k cc = Inr y \<Longrightarrow> (\<And>c. A k = ClaimCell c \<Longrightarrow> cc c = Inr y \<Longrightarrow> P) \<Longrightarrow> P"
  "as_index A k cx = Inr y \<Longrightarrow> (\<And>x. A k = IndexCell x \<Longrightarrow> cx x = Inr y \<Longrightarrow> P) \<Longrightarrow> P"
  by (auto simp: as_fid_def as_claim_def as_index_def wrong_account_def split: fid_cell.splits)

lemma by_authorityE [elim!]:
  assumes "by_authority E w k A cont = Inr y"
  obtains f where "A k = FidCell f" "w = fid_owner f \<or> w = fid_managementKey f" "cont f = Inr y"
  using assms unfolding by_authority_def by blast

lemma init_indexE:
  assumes "init_index A k cont = Inr y"
  obtains x where "A k = NoCell \<or> A k = IndexCell x" "cont x = Inr y"
  using assms by (auto simp: init_index_def wrong_account_def split: fid_cell.splits)

lemma keep_create:
  assumes "create_fid E w k is_issuer country A = Inr A'" "w \<in> W" "PUBKEY_DEFAULT \<notin> W" and inv: "fid_inv E W A"
  shows "fid_inv E W A'"
proof -
  from assms(1) obtain b f where find: "fr_find E (fid_seeds w) = Some (k, b)"
    and f: "A k = NoCell \<or> A k = FidCell f" "fid_owner f = PUBKEY_DEFAULT"
    and A': "A' = A(k := FidCell \<lparr> fid_owner = w, fid_managementKey = w, fid_signerKey = w,
            fid_claimCount = 0, fid_isIssuer = is_issuer, fid_country = (if is_issuer then 0 else country),
            fid_bump = b \<rparr>)"
    by (auto simp: create_fid_def init_fid_def wrong_account_def split: fid_cell.splits sum.splits)
  have "A k = NoCell"
    using f fid_invD(1) [OF inv, of k f] assms(3) by (auto simp: fid_fine_def)
  then show ?thesis
    unfolding A' by (intro inv_fid_change [OF inv]) (auto simp: fid_fine_def find assms(2) u32_def)
qed

lemma keep_fid_update:
  assumes inv: "fid_inv E W A" and "A k = FidCell f" "A' = A(k := FidCell f')"
    and "fid_owner f' = fid_owner f" "fid_bump f' = fid_bump f" "fid_claimCount f' = fid_claimCount f"
  shows "fid_inv E W A'"
  using fid_invD(1) [OF inv assms(2)] assms
  by (auto intro!: inv_fid_change [OF inv, where f = f] simp: fid_fine_def)

lemma keep_profile:
  assumes "fid_inv E W A"
  shows "set_management_key E w k key A = Inr A' \<Longrightarrow> fid_inv E W A'"
    and "set_signer_key E w k key A = Inr A' \<Longrightarrow> fid_inv E W A'"
    and "update_fid_profile E w k is_issuer country A = Inr A' \<Longrightarrow> fid_inv E W A'"
proof -
  note update = keep_fid_update [OF assms _ refl]
  show "set_management_key E w k key A = Inr A' \<Longrightarrow> fid_inv E W A'"
    by (clarsimp simp: set_management_key_def) (rule update; simp)
  show "set_signer_key E w k key A = Inr A' \<Longrightarrow> fid_inv E W A'"
    by (simp only: set_signer_key_def, elim by_authorityE, clarsimp) (rule update; simp)
  show "update_fid_profile E w k is_issuer country A = Inr A' \<Longrightarrow> fid_inv E W A'"
    by (simp only: update_fid_profile_def, elim by_authorityE, clarsimp split: sum.splits)
      (intro conjI impI; rule update; simp)
qed

lemma add_claimE:
  assumes "add_claim E now w tk ck ik t g h sig ex A = Inr A'"
  obtains f cb ib gb x where "A tk = FidCell f" "fid_claimCount f + 1 < 2 ^ 32"
    "fr_find E (claim_seeds tk (fid_claimCount f)) = Some (ck, cb)" "A ck = NoCell"
    "fr_find E (index_seeds tk g t) = Some (ik, ib)" "ik \<noteq> ck"
    "A ik = NoCell \<or> (A ik = IndexCell x \<and> \<not> cx_is_active x)"
    "fr_find E (fid_seeds w) = Some (g, gb)"
    "A' = A(tk := FidCell (f\<lparr> fid_claimCount := fid_claimCount f + 1 \<rparr>),
       ck := ClaimCell \<lparr> cl_fid = tk, cl_claimId = fid_claimCount f, cl_topic = t, cl_issuerFid = g,
         cl_dataHash = h, cl_signerKey = w, cl_signature = sig, cl_issuedAt = now, cl_expiresAt = ex,
         cl_revoked = False, cl_bump = cb \<rparr>,
       ik := IndexCell \<lparr> cx_target_fid = tk, cx_issuer_fid = g, cx_topic = t, cx_active_claim = ck,
         cx_active_claim_id = fid_claimCount f, cx_is_active = True, cx_bump = ib \<rparr>)"
proof -
  define final where "final f cb ib = A(tk := FidCell (f\<lparr> fid_claimCount := fid_claimCount f + 1 \<rparr>),
       ck := ClaimCell \<lparr> cl_fid = tk, cl_claimId = fid_claimCount f, cl_topic = t, cl_issuerFid = g,
         cl_dataHash = h, cl_signerKey = w, cl_signature = sig, cl_issuedAt = now, cl_expiresAt = ex,
         cl_revoked = False, cl_bump = cb \<rparr>,
       ik := IndexCell \<lparr> cx_target_fid = tk, cx_issuer_fid = g, cx_topic = t, cx_active_claim = ck,
         cx_active_claim_id = fid_claimCount f, cx_is_active = True, cx_bump = ib \<rparr>)" for f cb ib
  from assms obtain f where f: "A tk = FidCell f"
    and "at_canonical E (claim_seeds tk (fid_claimCount f)) ck (\<lambda>cb. demand (A ck = NoCell) (AnchorError ''account already in use'')
      (at_canonical E (index_seeds tk g t) ik (\<lambda>ib. init_index (A(ck := ForeignCell)) ik (\<lambda>x.
       case fr_find E (fid_seeds w) of None \<Rightarrow> Inl (AnchorError ''MaxSeedLengthExceeded'')
       | Some (k, _) \<Rightarrow> demand (g = k) InvalidIssuerFid (demand (\<not> cx_is_active x) DuplicateClaimTopicIssuer
         (demand (fid_claimCount f + 1 < 2 ^ 32) ArithmeticOverflow (Inr (final f cb ib)))))))) = Inr A'"
    unfolding add_claim_def Let_def final_def by (rule as_cellE(1))
  then obtain cb ib x where c: "fr_find E (claim_seeds tk (fid_claimCount f)) = Some (ck, cb)"
    "A ck = NoCell" "fr_find E (index_seeds tk g t) = Some (ik, ib)"
    and x: "(A(ck := ForeignCell)) ik = NoCell \<or> (A(ck := ForeignCell)) ik = IndexCell x"
    and rest: "(case fr_find E (fid_seeds w) of None \<Rightarrow> Inl (AnchorError ''MaxSeedLengthExceeded'')
     | Some (k, _) \<Rightarrow> demand (g = k) InvalidIssuerFid (demand (\<not> cx_is_active x) DuplicateClaimTopicIssuer
         (demand (fid_claimCount f + 1 < 2 ^ 32) ArithmeticOverflow (Inr (final f cb ib))))) = Inr A'"
    by (elim at_canonicalE demandE init_indexE) blast
  from x have ik: "ik \<noteq> ck" "A ik = NoCell \<or> A ik = IndexCell x" by (auto split: if_splits)
  from rest obtain gb where "fr_find E (fid_seeds w) = Some (g, gb)" "\<not> cx_is_active x"
    "fid_claimCount f + 1 < 2 ^ 32" "A' = final f cb ib"
    by (cases "fr_find E (fid_seeds w)") auto
  then show ?thesis using f c ik by (intro that [of f cb ib x gb]) (auto simp: final_def)
qed

lemma keep_add_claim:
  assumes "add_claim E now w tk ck ik t g h sig ex A = Inr A'" "w \<in> W" "u64_topic t" and inv: "fid_inv E W A"
  shows "fid_inv E W A'"
  using assms(1)
proof (rule add_claimE)
  fix f cb ib gb x
  assume f: "A tk = FidCell f" "fid_claimCount f + 1 < 2 ^ 32"
    and claim: "fr_find E (claim_seeds tk (fid_claimCount f)) = Some (ck, cb)" "A ck = NoCell"
    and index: "fr_find E (index_seeds tk g t) = Some (ik, ib)" "ik \<noteq> ck"
    and old: "A ik = NoCell \<or> (A ik = IndexCell x \<and> \<not> cx_is_active x)"
    and issuer: "fr_find E (fid_seeds w) = Some (g, gb)"
    and A': "A' = A(tk := FidCell (f\<lparr> fid_claimCount := fid_claimCount f + 1 \<rparr>),
       ck := ClaimCell \<lparr> cl_fid = tk, cl_claimId = fid_claimCount f, cl_topic = t, cl_issuerFid = g,
         cl_dataHash = h, cl_signerKey = w, cl_signature = sig, cl_issuedAt = now, cl_expiresAt = ex,
         cl_revoked = False, cl_bump = cb \<rparr>,
       ik := IndexCell \<lparr> cx_target_fid = tk, cx_issuer_fid = g, cx_topic = t, cx_active_claim = ck,
         cx_active_claim_id = fid_claimCount f, cx_is_active = True, cx_bump = ib \<rparr>)"
  have ne: "tk \<noteq> ck" "tk \<noteq> ik" using f(1) claim(2) old by auto
  have tk: "fid_fine E W tk f" using fid_invD(1) [OF inv f(1)] .
  then have count: "0 \<le> fid_claimCount f" by (simp add: fid_fine_def u32_def)
  have addr: "fid_address E W tk" "fid_address E W g"
    using fid_fine_address [OF tk] issuer assms(2) by (auto simp: fid_address_def)
  show ?thesis
  proof (rule fid_invI)
    fix k e assume "A' k = FidCell e"
    then show "fid_fine E W k e"
      using fid_invD(1) [OF inv] tk f(2) unfolding A'
      by (auto simp: fid_fine_def u32_def split: if_splits)
  next
    fix k c assume c: "A' k = ClaimCell c"
    show "claim_fine E W A' k c"
    proof (cases "k = ck")
      case True
      with c index(2) have "c = \<lparr> cl_fid = tk, cl_claimId = fid_claimCount f, cl_topic = t, cl_issuerFid = g,
         cl_dataHash = h, cl_signerKey = w, cl_signature = sig, cl_issuedAt = now, cl_expiresAt = ex,
         cl_revoked = False, cl_bump = cb \<rparr>" by (auto simp: A')
      with True claim(1) index issuer assms(2,3) count ne show ?thesis by (auto simp: claim_fine_def A')
    next
      case False
      with c have kA: "A k = ClaimCell c" by (auto simp: A' split: if_splits)
      have fine: "claim_fine E W A k c" using fid_invD(2) [OF inv kA] .
      then have "\<exists>e. A' (cl_fid c) = FidCell e \<and> cl_claimId c < fid_claimCount e"
        using f(1) claim(2) old by (auto simp: claim_fine_def A' split: if_splits)
      moreover have "A' j = IndexCell y" if "A j = IndexCell y" "cx_is_active y" for j y
        using that f(1) claim(2) old by (auto simp: A')
      ultimately show ?thesis using fine unfolding claim_fine_def by blast
    qed
  next
    fix k y assume y: "A' k = IndexCell y"
    show "index_fine E W A' k y"
    proof (cases "k = ik")
      case True
      with y index addr assms(3) ne show ?thesis by (auto simp: A' index_fine_def)
    next
      case False
      with y have kA: "A k = IndexCell y" by (auto simp: A' split: if_splits)
      have "A' j = ClaimCell c" if "A j = ClaimCell c" for j c
        using that f(1) claim(2) old by (auto simp: A')
      then show ?thesis using fid_invD(3) [OF inv kA] unfolding index_fine_def by blast
    qed
  qed
qed

text \<open>What revoking and removing a claim have in common: the claim is gone, or is revoked, and its index released.\<close>

lemma keep_release:
  assumes inv: "fid_inv E W A" and c: "A ck = ClaimCell c" and x: "A ik = IndexCell x"
    and same: "cx_target_fid x = cl_fid c" "cx_issuer_fid x = cl_issuerFid c" "cx_topic x = cl_topic c"
    and new: "n = NoCell \<or> n = ClaimCell (c\<lparr> cl_revoked := True \<rparr>)"
    and A': "A' = A(ck := n, ik := IndexCell (release_index ck x))"
  shows "fid_inv E W A'"
proof (rule fid_invI)
  have ne: "ck \<noteq> ik" using c x by auto
  fix k e assume "A' k = FidCell e"
  then show "fid_fine E W k e" using fid_invD(1) [OF inv] new by (auto simp: A' split: if_splits)
next
  have ne: "ck \<noteq> ik" using c x by auto
  fix k d assume d: "A' k = ClaimCell d"
  have fids: "A' j = FidCell e" if "A j = FidCell e" for j e using that c x by (auto simp: A')
  show "claim_fine E W A' k d"
  proof (cases "k = ck")
    case True
    with d ne new have "d = c\<lparr> cl_revoked := True \<rparr>" by (auto simp: A')
    with fid_invD(2) [OF inv c] fids True show ?thesis unfolding claim_fine_def by auto
  next
    case False
    with d have kA: "A k = ClaimCell d" by (auto simp: A' split: if_splits)
    have idx: "\<exists>z. A' j = IndexCell z \<and> cx_is_active z \<and> cx_active_claim z = k \<and> cx_bump z = cx_bump y"
      if "A j = IndexCell y" "cx_is_active y" "cx_active_claim y = k" for j y
      using that x c False by (auto simp: A' release_index_def)
    note old = fid_invD(2) [OF inv kA, unfolded claim_fine_def]
    have "\<exists>j z. fr_find E (index_seeds (cl_fid d) (cl_issuerFid d) (cl_topic d)) = Some (j, cx_bump z) \<and>
        A' j = IndexCell z \<and> cx_is_active z \<and> cx_active_claim z = k" if live: "\<not> cl_revoked d"
    proof -
      from old live obtain j y where "fr_find E (index_seeds (cl_fid d) (cl_issuerFid d) (cl_topic d)) = Some (j, cx_bump y)"
        and y: "A j = IndexCell y" "cx_is_active y" "cx_active_claim y = k" by blast
      with idx [OF y] show ?thesis by metis
    qed
    with old fids show ?thesis unfolding claim_fine_def by blast
  qed
next
  have ne: "ck \<noteq> ik" using c x by auto
  fix k y assume y: "A' k = IndexCell y"
  have others: "A' j = ClaimCell d" if "A j = ClaimCell d" "j \<noteq> ck" for j d using that x by (auto simp: A')
  show "index_fine E W A' k y"
  proof (cases "k = ik")
    case True
    with y have "y = release_index ck x" by (simp add: A')
    then show ?thesis using fid_invD(3) [OF inv x] others True
      by (auto simp: index_fine_def release_index_def)
  next
    case False
    with y new have kA: "A k = IndexCell y" by (auto simp: A' split: if_splits)
    have fine: "index_fine E W A k y" using fid_invD(3) [OF inv kA] .
    have "cx_active_claim y \<noteq> ck" if "cx_is_active y"
    proof
      assume "cx_active_claim y = ck"
      with fine that c same have "cx_target_fid y = cx_target_fid x" "cx_issuer_fid y = cx_issuer_fid x"
        "cx_topic y = cx_topic x" by (auto simp: index_fine_def)
      with fine fid_invD(3) [OF inv x] False show False by (auto simp: index_fine_def)
    qed
    then show ?thesis using fine others unfolding index_fine_def by blast
  qed
qed

lemma claim_accountE [elim!]:
  assumes "claim_account E ck A cont = Inr y" obtains c where "A ck = ClaimCell c" "cont c = Inr y"
  using assms unfolding claim_account_def by blast

lemma index_accountE [elim!]:
  assumes "index_account E ik c A cont = Inr y"
  obtains x where "A ik = IndexCell x" "cx_target_fid x = cl_fid c" "cx_issuer_fid x = cl_issuerFid c"
    "cx_topic x = cl_topic c" "cont x = Inr y"
  using assms unfolding index_account_def by blast

lemma keep_revoke:
  assumes "revoke_claim E w ck ik A = Inr A'" and inv: "fid_inv E W A"
  shows "fid_inv E W A'"
  using assms(1) unfolding revoke_claim_def
  by (elim claim_accountE index_accountE demandE)
    (rule keep_release [OF inv, where n = "ClaimCell (_\<lparr> cl_revoked := True \<rparr>)"], auto)

lemma keep_remove:
  assumes "remove_claim E w k ck ik A = Inr A'" and inv: "fid_inv E W A"
  shows "fid_inv E W A'"
proof -
  from assms(1) obtain c x where "A ck = ClaimCell c" "A ik = IndexCell x"
    "cx_target_fid x = cl_fid c" "cx_issuer_fid x = cl_issuerFid c" "cx_topic x = cl_topic c"
    and "A' = A(ik := IndexCell (release_index ck x), ck := NoCell)"
    unfolding remove_claim_def by (elim as_cellE(1) claim_accountE index_accountE demandE) auto
  then show ?thesis by (intro keep_release [OF inv]) (auto intro: fun_upd_twist)
qed

lemma step_keeps:
  assumes "fid_step E W A A'" "PUBKEY_DEFAULT \<notin> W" "fid_inv E W A"
  shows "fid_inv E W A'"
  using assms
  by cases (blast intro: keep_create keep_profile keep_add_claim keep_revoke keep_remove inv_elsewhere)+

lemma fid_reachable_inv: "fid_reachable E W A \<Longrightarrow> PUBKEY_DEFAULT \<notin> W \<Longrightarrow> fid_inv E W A"
proof (induction rule: fid_reachable.induct)
  case (fr_start A)
  then show ?case by (metis fid_cell.distinct fid_invI insertE singletonD)
qed (rule step_keeps)

section \<open>Live claims\<close>

text \<open>The abstract view: for which investor, issuer and topic there is a claim that is not revoked.\<close>

definition triple :: "claim_account_data \<Rightarrow> pubkey \<times> pubkey \<times> int" where
  "triple c = (cl_fid c, cl_issuerFid c, cl_topic c)"

definition live :: "fid_accounts \<Rightarrow> (pubkey \<times> pubkey \<times> int) set" where
  "live A = {t. \<exists>k c. A k = ClaimCell c \<and> \<not> cl_revoked c \<and> triple c = t}"

lemma live_claim_indexed:
  assumes "fid_inv E W A" "A k = ClaimCell c" "\<not> cl_revoked c" "triple c = (f, g, t)"
  obtains ik x where "fr_find E (index_seeds f g t) = Some (ik, cx_bump x)" "A ik = IndexCell x"
    "cx_is_active x" "cx_active_claim x = k"
  using fid_invD(2) [OF assms(1,2)] assms(3,4) by (auto simp: claim_fine_def triple_def)

lemma live_claim_unique:
  assumes inv: "fid_inv E W A" and "A k = ClaimCell c" "\<not> cl_revoked c" "A k' = ClaimCell c'" "\<not> cl_revoked c'"
    and "triple c = triple c'"
  shows "k = k'"
proof -
  obtain f g t where t: "triple c = (f, g, t)" by (cases "triple c")
  then have t': "triple c' = (f, g, t)" using assms(6) by simp
  from live_claim_indexed [OF inv assms(2,3) t] live_claim_indexed [OF inv assms(4,5) t']
  show ?thesis by (metis fid_cell.inject(3) option.inject prod.inject)
qed

lemma live_update: "(\<And>k c. A k = ClaimCell c \<longleftrightarrow> A' k = ClaimCell c) \<Longrightarrow> live A' = live A"
  by (simp add: live_def)

lemma live_drop:
  assumes inv: "fid_inv E W A" and c: "A ck = ClaimCell c" and x: "A ik = IndexCell x"
    and new: "n = NoCell \<or> n = ClaimCell (c\<lparr> cl_revoked := True \<rparr>)"
    and A': "A' = A(ck := n, ik := IndexCell y)"
  shows "live A' = (if cl_revoked c then live A else live A - {triple c})"
proof -
  have ne: "ck \<noteq> ik" using c x by auto
  have A'k: "A' k = ClaimCell d \<and> \<not> cl_revoked d \<longleftrightarrow> A k = ClaimCell d \<and> \<not> cl_revoked d \<and> k \<noteq> ck" for k d
    using ne new x by (auto simp: A')
  then have live': "live A' = {t. \<exists>k d. A k = ClaimCell d \<and> \<not> cl_revoked d \<and> k \<noteq> ck \<and> triple d = t}"
    by (auto simp: live_def)
  show ?thesis
  proof (cases "cl_revoked c")
    case True
    then have "live A' = live A" by (subst live', unfold live_def) (use c in fastforce)
    then show ?thesis using True by simp
  next
    case False
    have only: "triple d \<noteq> triple c \<longleftrightarrow> k \<noteq> ck" if "A k = ClaimCell d" "\<not> cl_revoked d" for k d
      using that c live_claim_unique [OF inv that c False] by auto
    have "live A' = live A - {triple c}"
    proof (intro set_eqI)
      fix t
      show "t \<in> live A' \<longleftrightarrow> t \<in> live A - {triple c}"
        by (subst live') (use only in \<open>auto simp: live_def\<close>)
    qed
    then show ?thesis using False by simp
  qed
qed

lemma add_claim_live:
  assumes "add_claim E now w tk ck ik t g h sig ex A = Inr A'" and inv: "fid_inv E W A"
  shows "(tk, g, t) \<notin> live A \<and> live A' = insert (tk, g, t) (live A)"
  using assms(1)
proof (rule add_claimE)
  fix f cb ib gb x
  assume f: "A tk = FidCell f" and "A ck = NoCell" "ik \<noteq> ck"
    and index: "fr_find E (index_seeds tk g t) = Some (ik, ib)"
    and old: "A ik = NoCell \<or> (A ik = IndexCell x \<and> \<not> cx_is_active x)"
    and A': "A' = A(tk := FidCell (f\<lparr> fid_claimCount := fid_claimCount f + 1 \<rparr>),
       ck := ClaimCell \<lparr> cl_fid = tk, cl_claimId = fid_claimCount f, cl_topic = t, cl_issuerFid = g,
         cl_dataHash = h, cl_signerKey = w, cl_signature = sig, cl_issuedAt = now, cl_expiresAt = ex,
         cl_revoked = False, cl_bump = cb \<rparr>,
       ik := IndexCell \<lparr> cx_target_fid = tk, cx_issuer_fid = g, cx_topic = t, cx_active_claim = ck,
         cx_active_claim_id = fid_claimCount f, cx_is_active = True, cx_bump = ib \<rparr>)"
  have "(tk, g, t) \<notin> live A"
  proof
    assume "(tk, g, t) \<in> live A"
    then obtain k c where "A k = ClaimCell c" "\<not> cl_revoked c" "triple c = (tk, g, t)" by (auto simp: live_def)
    then obtain j y where "fr_find E (index_seeds tk g t) = Some (j, cx_bump y)" "A j = IndexCell y" "cx_is_active y"
      by (rule live_claim_indexed [OF inv])
    with index old show False by auto
  qed
  define n where "n = \<lparr> cl_fid = tk, cl_claimId = fid_claimCount f, cl_topic = t, cl_issuerFid = g,
         cl_dataHash = h, cl_signerKey = w, cl_signature = sig, cl_issuedAt = now, cl_expiresAt = ex,
         cl_revoked = False, cl_bump = cb \<rparr>"
  have new: "A' k = ClaimCell c \<longleftrightarrow> (k = ck \<and> c = n) \<or> A k = ClaimCell c" for k c
    using f old \<open>A ck = NoCell\<close> \<open>ik \<noteq> ck\<close> by (auto simp: A' n_def)
  have n: "\<not> cl_revoked n" "triple n = (tk, g, t)" by (simp_all add: n_def triple_def)
  have "live A' = insert (tk, g, t) (live A)" unfolding live_def new using n by auto
  with \<open>(tk, g, t) \<notin> live A\<close> show ?thesis ..
qed

lemma revoke_claim_live:
  assumes "revoke_claim E w ck ik A = Inr A'" and inv: "fid_inv E W A"
  shows "\<exists>c. A ck = ClaimCell c \<and> cl_signerKey c = w \<and>
    live A' = (if cl_revoked c then live A else live A - {triple c})"
proof -
  from assms(1) obtain c x where "A ck = ClaimCell c" "A ik = IndexCell x" "cl_signerKey c = w"
    and "A' = A(ck := ClaimCell (c\<lparr> cl_revoked := True \<rparr>), ik := IndexCell (release_index ck x))"
    unfolding revoke_claim_def by (elim claim_accountE index_accountE demandE) auto
  then show ?thesis using live_drop [OF inv] by blast
qed

lemma remove_claim_live:
  assumes "remove_claim E w k ck ik A = Inr A'" and inv: "fid_inv E W A"
  shows "\<exists>c f. A ck = ClaimCell c \<and> cl_fid c = k \<and> A k = FidCell f \<and> w \<in> {fid_owner f, fid_managementKey f} \<and>
    live A' = (if cl_revoked c then live A else live A - {triple c})"
proof -
  from assms(1) obtain c x f where c: "A ck = ClaimCell c" "A ik = IndexCell x"
    and f: "cl_fid c = k" "A k = FidCell f" "w \<in> {fid_owner f, fid_managementKey f}"
    and "A' = A(ik := IndexCell (release_index ck x), ck := NoCell)"
    unfolding remove_claim_def by (elim as_cellE(1) claim_accountE index_accountE demandE) auto
  then have "A' = A(ck := NoCell, ik := IndexCell (release_index ck x))" by (auto intro: fun_upd_twist)
  then show ?thesis using live_drop [OF inv c] f c(1) by blast
qed

lemma live_fid_change:
  "A k = NoCell \<or> A k = FidCell f \<Longrightarrow> live (A(k := FidCell f')) = live A"
  by (rule live_update) auto

lemma profile_live:
  "create_fid E w k is_issuer country A = Inr A' \<Longrightarrow> live A' = live A"
  "set_management_key E w k key A = Inr A' \<Longrightarrow> live A' = live A"
  "set_signer_key E w k key A = Inr A' \<Longrightarrow> live A' = live A"
  "update_fid_profile E w k is_issuer country A = Inr A' \<Longrightarrow> live A' = live A"
  unfolding create_fid_def set_management_key_def set_signer_key_def update_fid_profile_def
  by (auto elim!: init_indexE simp: init_fid_def wrong_account_def live_fid_change split: fid_cell.splits sum.splits)

section \<open>Properties\<close>

text \<open>
  C20. Whatever instructions the wallets send the identity program, a claim that is not revoked
  is the only one of its holder, issuer and topic, the topic index of the three is active and
  points to it, its holder exists with a counter above its number, and the wallet that signed it
  is the one behind the identity of its issuer.
\<close>

theorem one_live_claim:
  assumes "fid_reachable E W A" "PUBKEY_DEFAULT \<notin> W"
    and "A k = ClaimCell c" "\<not> cl_revoked c"
  shows "(\<forall>k' c'. A k' = ClaimCell c' \<and> \<not> cl_revoked c' \<and> triple c' = triple c \<longrightarrow> k' = k) \<and>
    (\<exists>ik x. fr_find E (index_seeds (cl_fid c) (cl_issuerFid c) (cl_topic c)) = Some (ik, cx_bump x) \<and>
      A ik = IndexCell x \<and> cx_is_active x \<and> cx_active_claim x = k) \<and>
    (\<exists>f. A (cl_fid c) = FidCell f \<and> 0 \<le> cl_claimId c \<and> cl_claimId c < fid_claimCount f) \<and>
    (\<exists>b. fr_find E (fid_seeds (cl_signerKey c)) = Some (cl_issuerFid c, b))"
proof -
  have inv: "fid_inv E W A" using assms(1,2) by (rule fid_reachable_inv)
  have fine: "claim_fine E W A k c" using fid_invD(2) [OF inv assms(3)] .
  show ?thesis
  proof (intro conjI allI impI)
    fix k' c' assume "A k' = ClaimCell c' \<and> \<not> cl_revoked c' \<and> triple c' = triple c"
    then show "k' = k" using live_claim_unique [OF inv, of k' c' k c] assms(3,4) by blast
  qed (use fine assms(4) in \<open>auto simp: claim_fine_def\<close>)
qed

text \<open>
  C21. The instructions of the identity program implement a set of triples of holder, issuer and
  topic: adding a claim adds a triple that was not there, revoking, which only the signer of the
  claim can do, and removing, which only owner or manager of the holder can do, take out its
  triple, and the other instructions leave the set alone.
\<close>

theorem program_refines_live_claims:
  assumes "fid_reachable E W A" "PUBKEY_DEFAULT \<notin> W"
  shows "(add_claim E now w tk ck ik t g h sig ex A = Inr A' \<longrightarrow>
      (tk, g, t) \<notin> live A \<and> live A' = insert (tk, g, t) (live A)) \<and>
    (revoke_claim E w ck ik A = Inr A' \<longrightarrow> (\<exists>c. A ck = ClaimCell c \<and> cl_signerKey c = w \<and>
      live A' = (if cl_revoked c then live A else live A - {triple c}))) \<and>
    (remove_claim E w k ck ik A = Inr A' \<longrightarrow> (\<exists>c f. A ck = ClaimCell c \<and> cl_fid c = k \<and> A k = FidCell f \<and>
      w \<in> {fid_owner f, fid_managementKey f} \<and>
      live A' = (if cl_revoked c then live A else live A - {triple c}))) \<and>
    (create_fid E w k is_issuer country A = Inr A' \<or> set_management_key E w k key A = Inr A' \<or>
      set_signer_key E w k key A = Inr A' \<or> update_fid_profile E w k is_issuer country A = Inr A' \<longrightarrow>
      live A' = live A)"
proof -
  have inv: "fid_inv E W A" using assms by (rule fid_reachable_inv)
  show ?thesis
    by (intro conjI impI; (elim disjE)?;
      rule add_claim_live [OF _ inv, THEN conjunct1] add_claim_live [OF _ inv, THEN conjunct2]
        revoke_claim_live [OF _ inv] remove_claim_live [OF _ inv] profile_live; assumption)
qed

section \<open>A sample chain\<close>

text \<open>Addresses of 32 bytes that are codes of the seeds in use, for two wallets.\<close>

definition seed_code :: "bytes \<Rightarrow> bytes" where
  "seed_code b = (if length b \<le> 8 then b else [b ! 4])"

definition demo_address :: "bytes list \<Rightarrow> pubkey" where
  "demo_address s = take 32 (of_nat (length s) # concat (map seed_code s) @ replicate 32 0)"

definition demo_fid_runtime :: fid_runtime where
  "demo_fid_runtime = \<lparr> fr_find = (\<lambda>s. Some (demo_address s, 255)), fr_create = (\<lambda>s b. Some (demo_address s)),
     fr_hash = (\<lambda>b. b), fr_instructions_id = replicate 32 7, fr_ed25519_id = replicate 32 8 \<rparr>"

definition holder_wallet :: pubkey where "holder_wallet = replicate 32 1"
definition issuer_wallet :: pubkey where "issuer_wallet = replicate 32 2"
definition holder_fid :: pubkey where "holder_fid = demo_address (fid_seeds holder_wallet)"
definition issuer_fid_key :: pubkey where "issuer_fid_key = demo_address (fid_seeds issuer_wallet)"
definition demo_claim_key :: pubkey where "demo_claim_key = demo_address (claim_seeds holder_fid 0)"
definition demo_index_key :: pubkey where "demo_index_key = demo_address (index_seeds holder_fid issuer_fid_key 1)"

lemma demo_address_length: "length (demo_address s) = 32"
  by (simp add: demo_address_def)

lemma demo_codes:
  "length w = 32 \<Longrightarrow> demo_address (fid_seeds w) = 2 # ascii ''fid'' @ (w ! 4) # replicate 27 0"
  "length k = 32 \<Longrightarrow> demo_address (claim_seeds k i) = 3 # ascii ''claim'' @ (k ! 4) # le_bytes 4 i @ replicate 21 0"
  "length k = 32 \<Longrightarrow> length g = 32 \<Longrightarrow> demo_address (index_seeds k g t) =
     4 # ascii ''m'' @ (k ! 4) # (g ! 4) # le_bytes 8 t @ replicate 20 0"
  by (simp_all add: demo_address_def fid_seeds_def claim_seeds_def index_seeds_def seed_code_def ascii_def)

lemma demo_fid_addresses:
  "fid_address demo_fid_runtime {holder_wallet, issuer_wallet} k \<longleftrightarrow> k \<in> {holder_fid, issuer_fid_key}"
  by (auto simp: fid_address_def demo_fid_runtime_def holder_fid_def issuer_fid_key_def)

lemma demo_fids:
  "length holder_wallet = 32" "length issuer_wallet = 32" "length holder_fid = 32" "length issuer_fid_key = 32"
  "holder_wallet ! 4 = 1" "issuer_wallet ! 4 = 2" "holder_fid ! 4 = 1" "issuer_fid_key ! 4 = 2"
  by (simp_all add: holder_fid_def issuer_fid_key_def demo_address_length) code_simp+

lemma demo_separate: "separate_addresses demo_fid_runtime {holder_wallet, issuer_wallet}"
proof -
  have "s = s'" if "program_seeds demo_fid_runtime {holder_wallet, issuer_wallet} s"
      "program_seeds demo_fid_runtime {holder_wallet, issuer_wallet} s'" "demo_address s = demo_address s'" for s s'
    using that
    by (auto elim!: program_seeds.cases
        simp: demo_codes demo_fids demo_fid_addresses seeds_inj u32_def u64_topic_def dest!: le_bytes_inj)
  moreover have "PUBKEY_DEFAULT \<notin> {holder_wallet, issuer_wallet}"
    by (auto simp: PUBKEY_DEFAULT_def holder_wallet_def issuer_wallet_def dest!: arg_cong [of _ _ hd])
  ultimately show ?thesis unfolding separate_addresses_def demo_fid_runtime_def by auto
qed

definition after_step :: "fid_error + fid_accounts \<Rightarrow> (fid_accounts \<Rightarrow> fid_error + fid_accounts) \<Rightarrow> fid_error + fid_accounts" where
  "after_step r step = (case r of Inl e \<Rightarrow> Inl e | Inr A \<Rightarrow> step A)"

lemma after_stepE: "after_step r step = Inr A' \<Longrightarrow> (\<And>A. r = Inr A \<Longrightarrow> step A = Inr A' \<Longrightarrow> P) \<Longrightarrow> P"
  by (cases r) (auto simp: after_step_def)

definition fid_world_1 :: "fid_error + fid_accounts" where
  "fid_world_1 = create_fid demo_fid_runtime holder_wallet holder_fid False 586 (\<lambda>_. NoCell)"

definition fid_world_2 :: "fid_error + fid_accounts" where
  "fid_world_2 = after_step fid_world_1
     (create_fid demo_fid_runtime issuer_wallet issuer_fid_key True 0)"

definition fid_world_3 :: "fid_error + fid_accounts" where
  "fid_world_3 = after_step fid_world_2
     (add_claim demo_fid_runtime 5 issuer_wallet holder_fid demo_claim_key demo_index_key 1 issuer_fid_key [] [] 9)"

lemma demo_worlds_reachable:
  shows "fid_world_2 = Inr A \<Longrightarrow> fid_reachable demo_fid_runtime {holder_wallet, issuer_wallet} A"
    and "fid_world_3 = Inr A \<Longrightarrow> fid_reachable demo_fid_runtime {holder_wallet, issuer_wallet} A"
proof -
  let ?W = "{holder_wallet, issuer_wallet}"
  have one: "fid_reachable demo_fid_runtime ?W A" if "fid_world_1 = Inr A" for A
    using that unfolding fid_world_1_def
    by (intro fr_step [OF fr_start step_create]) auto
  have two: "fid_reachable demo_fid_runtime ?W A" if "fid_world_2 = Inr A" for A
    using that unfolding fid_world_2_def by (elim after_stepE) (rule fr_step [OF one step_create], auto)
  then show "fid_world_2 = Inr A \<Longrightarrow> fid_reachable demo_fid_runtime ?W A" .
  show "fid_world_3 = Inr A \<Longrightarrow> fid_reachable demo_fid_runtime ?W A"
    unfolding fid_world_3_def
    by (elim after_stepE) (rule fr_step [OF two step_add], auto simp: u64_topic_def)
qed

lemma demo_wallets: "PUBKEY_DEFAULT \<notin> {holder_wallet, issuer_wallet}"
  using demo_separate by (simp add: separate_addresses_def)

theorem one_live_claim_witness:
  "\<exists>A ik x. fid_world_3 = Inr A \<and> A ik = IndexCell x \<and> cx_is_active x \<and> cx_active_claim x = demo_claim_key"
proof -
  have "case fid_world_3 of Inl e \<Rightarrow> False | Inr A \<Rightarrow>
      (case A demo_claim_key of ClaimCell c \<Rightarrow> \<not> cl_revoked c | _ \<Rightarrow> False)" by code_simp
  then obtain A c where A: "fid_world_3 = Inr A" and c: "A demo_claim_key = ClaimCell c" "\<not> cl_revoked c"
    by (auto split: sum.splits fid_cell.splits)
  from one_live_claim [OF demo_worlds_reachable(2) [OF A] demo_wallets c] A show ?thesis by blast
qed

theorem program_refines_live_claims_witness:
  "\<exists>A A'. fid_world_2 = Inr A \<and> fid_world_3 = Inr A' \<and>
     live A' = insert (holder_fid, issuer_fid_key, 1) (live A)"
proof -
  have "case fid_world_3 of Inl e \<Rightarrow> False | Inr A \<Rightarrow> True" by code_simp
  then obtain A A' where A: "fid_world_2 = Inr A" "fid_world_3 = Inr A'"
    and added: "add_claim demo_fid_runtime 5 issuer_wallet holder_fid demo_claim_key demo_index_key 1 issuer_fid_key
         [] [] 9 A = Inr A'"
    by (cases fid_world_3) (auto simp: fid_world_3_def elim: after_stepE)
  from program_refines_live_claims [OF demo_worlds_reachable(1) [OF A(1)] demo_wallets, THEN conjunct1, rule_format, OF added]
  show ?thesis using A by blast
qed

end
