(* ===== verification/IdentityProperties.thy ===== *)
theory IdentityProperties
  imports IdentityOperations FidProperties TokenServiceProperties
begin

text \<open>
  The identity service of the client against the identity program: what it reads of the claims on the
  chain, what a successful issue of a claim means there, and that no revocation it sends can succeed. A
  world has the accounts of the program; a transaction that the node confirms has been executed by it.
\<close>

section \<open>A chain with the program\<close>

text \<open>The data of an index as the program writes them; keys have 32 bytes.\<close>

definition index_bytes :: "topic_index \<Rightarrow> bytes" where
  "index_bytes x = cx_target_fid x @ cx_issuer_fid x @ le_bytes 8 (cx_topic x) @ cx_active_claim x @
     le_bytes 4 (cx_active_claim_id x) @ [if cx_is_active x then 1 else 0] @ le_bytes 1 (cx_bump x)"

definition shows_cell :: "('w, 'c) client_scheme \<Rightarrow> 'w \<Rightarrow> pubkey \<Rightarrow> pubkey \<Rightarrow> fid_cell \<Rightarrow> bool" where
  "shows_cell C w p k c = (case c of
     NoCell \<Rightarrow> account_at C w k = Inr None
   | ForeignCell \<Rightarrow> (\<exists>seeds b. find_pda C seeds p = Inr (k, b)) \<longrightarrow>
       (\<exists>a. account_at C w k = Inr (Some a) \<and> acc_data a = [])
   | FidCell f \<Rightarrow> anchor_fid_account C w p k = Inr f
   | ClaimCell c \<Rightarrow> \<exists>a. account_at C w k = Inr (Some a) \<and> hasDiscriminator (acc_data a) CLAIM_ACCOUNT_DISCRIMINATOR
   | IndexCell x \<Rightarrow> length (cx_target_fid x) = 32 \<and> length (cx_issuer_fid x) = 32 \<and> length (cx_active_claim x) = 32 \<and>
       (\<exists>a disc. account_at C w k = Inr (Some a) \<and> acc_data a = disc @ index_bytes x \<and> length disc = 8))"

definition shows_fids :: "('w, 'c) client_scheme \<Rightarrow> 'w \<Rightarrow> pubkey \<Rightarrow> fid_accounts \<Rightarrow> bool" where
  "shows_fids C w p A \<longleftrightarrow> (\<forall>k. shows_cell C w p k (A k) \<and>
     (\<forall>f. anchor_fid_account C w p k = Inr f \<longrightarrow> A k = FidCell f))"

text \<open>
  The worlds \<open>V\<close> of a node with the program \<open>p\<close> for the wallets \<open>W\<close>: \<open>fa\<close> are the accounts of a world.
\<close>

definition fid_chain ::
    "('w, 'c) client_scheme \<Rightarrow> fid_runtime \<Rightarrow> pubkey \<Rightarrow> pubkey set \<Rightarrow> 'w set \<Rightarrow> ('w \<Rightarrow> fid_accounts) \<Rightarrow> bool" where
  "fid_chain C E p W V fa \<longleftrightarrow> separate_addresses E W \<and>
     (\<forall>s. fr_find E s = (case find_pda C s p of Inl e \<Rightarrow> None | Inr a \<Rightarrow> Some a)) \<and>
     (\<forall>w \<in> V. fid_reachable E W (fa w) \<and> shows_fids C w p (fa w)) \<and>
     (\<forall>ixs. \<forall>w \<in> V. fst (send_tx C ixs w) \<in> V) \<and>
     (\<forall>ix w w' sig. w \<in> V \<longrightarrow> send_tx C [RawIx ix] w = (w', Inr sig) \<longrightarrow> ix_programId ix = p \<longrightarrow>
        (\<exists>now. fid_entry E now (map am_pubkey (ix_keys ix)) (program_reads fid_idl (ix_data ix)) (fa w) = Inr (fa w')))"

lemma fid_chainD:
  assumes "fid_chain C E p W V fa"
  shows "separate_addresses E W" "PUBKEY_DEFAULT \<notin> W"
    and "find_pda C s p = Inr (k, b) \<Longrightarrow> fr_find E s = Some (k, b)"
    and "w \<in> V \<Longrightarrow> fid_reachable E W (fa w)" "w \<in> V \<Longrightarrow> shows_fids C w p (fa w)"
    and "w \<in> V \<Longrightarrow> fst (send_tx C ixs w) \<in> V"
    and "w \<in> V \<Longrightarrow> send_tx C [RawIx ix] w = (w', Inr sig) \<Longrightarrow> ix_programId ix = p \<Longrightarrow>
        \<exists>now. fid_entry E now (map am_pubkey (ix_keys ix)) (program_reads fid_idl (ix_data ix)) (fa w) = Inr (fa w')"
  using assms by (auto simp: fid_chain_def separate_addresses_def)

lemma fid_chain_inv: "fid_chain C E p W V fa \<Longrightarrow> w \<in> V \<Longrightarrow> fid_inv E W (fa w)"
  by (rule fid_reachable_inv) (simp_all add: fid_chainD)

section \<open>Reading claims\<close>

lemma getIdentityIds_reads: "reads_only (getIdentityIds C P)"
  unfolding getIdentityIds_def by (intro reads_intros)

lemma getIdentityIds_world: "getIdentityIds C P s = (t, r) \<Longrightarrow> world t = world s"
  using reads_onlyD [OF getIdentityIds_reads, of C P s] by simp

lemma index_active_byte:
  assumes "acc_data a = disc @ index_bytes x" "length disc = 8"
    and "length (cx_target_fid x) = 32" "length (cx_issuer_fid x) = 32" "length (cx_active_claim x) = 32"
  shows "index_says_active a = cx_is_active x"
  using assms by (simp add: index_says_active_def index_bytes_def nth_append)

text \<open>What stands at the address of an index.\<close>

lemma index_cell:
  assumes inv: "fid_inv E W A" and sep: "separate_addresses E W"
    and ik: "fr_find E (index_seeds f g t) = Some (ik, b)" and "fid_address E W f" "fid_address E W g" "u64_topic t"
  shows "A ik = NoCell \<or> A ik = ForeignCell \<or>
    (\<exists>x. A ik = IndexCell x \<and> cx_target_fid x = f \<and> cx_issuer_fid x = g \<and> cx_topic x = t)"
proof -
  have ps: "program_seeds E W (index_seeds f g t)" using assms(4-6) by (rule ps_index)
  show ?thesis
  proof (cases "A ik")
    case (FidCell e)
    then have "fid_fine E W ik e" by (rule fid_invD(1) [OF inv])
    then have "fid_seeds (fid_owner e) = index_seeds f g t"
      by (auto simp: fid_fine_def intro!: separateD [OF sep ps_fid ps _ ik])
    then show ?thesis by (simp add: seeds_differ)
  next
    case (ClaimCell c)
    then have fine: "claim_fine E W A ik c" by (rule fid_invD(2) [OF inv])
    then have "claim_seeds (cl_fid c) (cl_claimId c) = index_seeds f g t"
      using claim_fine_address [OF inv fine]
      by (auto simp: claim_fine_def intro!: separateD [OF sep ps_claim ps _ ik])
    then show ?thesis by (simp add: seeds_differ)
  next
    case (IndexCell x)
    then have fine: "index_fine E W A ik x" by (rule fid_invD(3) [OF inv])
    then have "index_seeds (cx_target_fid x) (cx_issuer_fid x) (cx_topic x) = index_seeds f g t"
      by (auto simp: index_fine_def intro!: separateD [OF sep ps_index ps _ ik])
    then show ?thesis using IndexCell fine assms(6) by (auto simp: seeds_inj index_fine_def)
  qed auto
qed

lemma live_iff_index:
  assumes "fid_inv E W A" "separate_addresses E W" "fr_find E (index_seeds f g t) = Some (ik, b)"
    and "fid_address E W f" "fid_address E W g" "u64_topic t"
  shows "(f, g, t) \<in> live A \<longleftrightarrow> (\<exists>x. A ik = IndexCell x \<and> cx_is_active x)"
proof
  assume "(f, g, t) \<in> live A"
  then obtain k c where "A k = ClaimCell c" "\<not> cl_revoked c" "triple c = (f, g, t)" by (auto simp: live_def)
  then show "\<exists>x. A ik = IndexCell x \<and> cx_is_active x"
    by (rule live_claim_indexed [OF assms(1)]) (use assms(3) in auto)
next
  assume "\<exists>x. A ik = IndexCell x \<and> cx_is_active x"
  then obtain x where x: "A ik = IndexCell x" "cx_is_active x" by blast
  with index_cell [OF assms] have "cx_target_fid x = f" "cx_issuer_fid x = g" "cx_topic x = t" by auto
  with fid_invD(3) [OF assms(1) x(1)] x(2) show "(f, g, t) \<in> live A"
    by (auto simp: index_fine_def live_def triple_def)
qed

lemma node_shows_index:
  assumes chain: "fid_chain C E p W V fa" and w: "w \<in> V"
    and ik: "find_pda C (index_seeds f g t) p = Inr (ik, b)" and "fid_address E W f" "fid_address E W g" "u64_topic t"
  obtains info where "account_at C w ik = Inr info"
    "(case info of None \<Rightarrow> False | Some a \<Rightarrow> index_says_active a) \<longleftrightarrow> (f, g, t) \<in> live (fa w)"
proof -
  note inv = fid_chain_inv [OF chain w] and sep = fid_chainD(1) [OF chain] and fr = fid_chainD(3) [OF chain ik]
  have cell: "shows_cell C w p ik (fa w ik)" using fid_chainD(5) [OF chain w] by (simp add: shows_fids_def)
  note live = live_iff_index [OF inv sep fr assms(4-6)]
  from index_cell [OF inv sep fr assms(4-6)] show ?thesis
  proof (elim disjE exE conjE)
    assume "fa w ik = NoCell"
    with cell live show ?thesis by (intro that [of None]) (auto simp: shows_cell_def)
  next
    assume "fa w ik = ForeignCell"
    with cell ik live show ?thesis by (auto simp: shows_cell_def index_says_active_def intro: that)
  next
    fix x assume x: "fa w ik = IndexCell x"
    with cell obtain a disc where "account_at C w ik = Inr (Some a)" "acc_data a = disc @ index_bytes x"
      "length disc = 8" "length (cx_target_fid x) = 32" "length (cx_issuer_fid x) = 32" "length (cx_active_claim x) = 32"
      by (auto simp: shows_cell_def)
    with x live show ?thesis by (intro that [of "Some a"]) (simp_all add: index_active_byte)
  qed
qed

lemma pda_seeds:
  "findFidPda C w p = pda_of C (fid_seeds w) p"
  "findClaimTopicIndexPda C f g t p = pda_of C (index_seeds f g t) p"
  by (simp_all add: findFidPda_def fid_seeds_def findClaimTopicIndexPda_def index_seeds_def u64Le_def)

lemma fid_addressI: "w \<in> W \<Longrightarrow> fr_find E (fid_seeds w) = Some (k, b) \<Longrightarrow> fid_address E W k"
  by (auto simp: fid_address_def)

lemma bind_idsE:
  assumes "h_bind (getIdentityIds C P) k s = (t, Inr y)"
  obtains s1 ids where "getIdentityIds C P s = (s1, Inr ids)" "world s1 = world s" "k ids s1 = (t, Inr y)"
  using assms by (elim h_bind_InrE) (metis getIdentityIds_world that)

text \<open>
  In all worlds of the node the factory names the same programs, and the service has not asked for them
  or has this answer.
\<close>

definition factory_agrees ::
    "('w, 'c) client_scheme \<Rightarrow> program_ids \<Rightarrow> pubkey \<Rightarrow> 'w set \<Rightarrow> factory_state_account option \<Rightarrow> bool" where
  "factory_agrees C P p V st \<longleftrightarrow>
     (\<forall>w \<in> V. (case fetchFactoryStateAccount (chain_at C w) P of Inl _ \<Rightarrow> None | Inr a \<Rightarrow> a) = st) \<and>
     p = (case st of None \<Rightarrow> ii_fid (DEPLOYED_IDENTITY_IDS C) | Some f \<Rightarrow> fs_fidProgramId f)"

definition serves :: "'w set \<Rightarrow> factory_state_account option \<Rightarrow> 'w service \<Rightarrow> bool" where
  "serves V st s \<longleftrightarrow> world s \<in> V \<and> factoryStatePromise s \<in> {None, Some st}"

lemma ids_of_service:
  assumes "getIdentityIds C P s = (t, Inr ids)" "factory_agrees C P p V st" "serves V st s"
  shows "ii_fid ids = p \<and> serves V st t"
  using assms
  by (auto simp: getIdentityIds_def getFactoryState_def h_bind_def h_return_def factory_agrees_def serves_def
      Let_def split: option.splits)

lemma ids_keep: "factory_agrees C P p V st \<Longrightarrow> keeps (serves V st) (getIdentityIds C P)"
  by (auto simp: keeps_def getIdentityIds_def getFactoryState_def h_bind_def h_return_def factory_agrees_def serves_def
      Let_def split: option.splits)

lemma keeps_same: "(\<And>s. fst (m s) = s) \<Longrightarrow> keeps I m"
  by (simp add: keeps_def)

lemma pda_keep: "keeps I (pda_of C seeds p)"
  unfolding pda_of_def by (intro keeps_bind keeps_same) (auto simp: pure_step_def h_throw_def h_return_def split: sum.split)

lemma ask_keep: "keeps I (ask q)"
  by (simp add: keeps_def ask_def)

lemma fail_keep: "keeps I (fail_with m)"
  by (simp add: fail_with_def keeps_basic)

text \<open>
  C22. On a chain that runs the identity program, whose node answers every account read, the
  identity service reports an active claim for a topic exactly when the program holds an
  unrevoked claim of this holder, issuer and topic, and changes nothing.
\<close>

theorem client_sees_live_claims:
  assumes chain: "fid_chain C E p W V fa" and p: "factory_agrees C P p V st" and s: "serves V st s"
    and W: "holder \<in> W" "issuer \<in> W" and topic: "u64_topic topic"
    and run: "hasActiveClaimForTopic C P holder issuer topic s = (t, Inr found)"
  shows "world t = world s \<and> (\<exists>f g b b'. fr_find E (fid_seeds holder) = Some (f, b) \<and>
    fr_find E (fid_seeds issuer) = Some (g, b') \<and> (found \<longleftrightarrow> (f, g, topic) \<in> live (fa (world s))))"
proof -
  from run obtain s1 ids f b g b' ik b'' where ids: "getIdentityIds C P s = (s1, Inr ids)" "world s1 = world s"
    and f: "find_pda C (fid_seeds holder) (ii_fid ids) = Inr (f, b)"
    and g: "find_pda C (fid_seeds issuer) (ii_fid ids) = Inr (g, b')"
    and ik: "find_pda C (index_seeds f g topic) (ii_fid ids) = Inr (ik, b'')"
    and last: "or_default False (h_bind (ask (\<lambda>w. account_at C w ik)) (\<lambda>info.
        h_return (case info of None \<Rightarrow> False | Some a \<Rightarrow> index_says_active a))) s1 = (t, Inr found)"
    unfolding hasActiveClaimForTopic_def pda_seeds by (elim bind_idsE bind_pdaE) (rule that)
  have "ii_fid ids = p" and w: "world s \<in> V" using ids_of_service [OF ids(1) p s] s by (simp_all add: serves_def)
  note found = f [unfolded \<open>ii_fid ids = p\<close>] g [unfolded \<open>ii_fid ids = p\<close>] ik [unfolded \<open>ii_fid ids = p\<close>]
  note fr = fid_chainD(3) [OF chain found(1)] fid_chainD(3) [OF chain found(2)]
  obtain info where info: "account_at C (world s) ik = Inr info"
    "(case info of None \<Rightarrow> False | Some a \<Rightarrow> index_says_active a) \<longleftrightarrow> (f, g, topic) \<in> live (fa (world s))"
    using node_shows_index [OF chain w found(3) fid_addressI [OF W(1) fr(1)] fid_addressI [OF W(2) fr(2)] topic] by blast
  have "t = s1 \<and> found = ((f, g, topic) \<in> live (fa (world s)))"
    using last info ids(2) by (simp add: or_default_def h_catch_def bind_ask h_return_def)
  then show ?thesis using fr ids(2) by auto
qed

section \<open>Revoking\<close>

lemma pda_of_world: "pda_of C seeds p s = (t, r) \<Longrightarrow> world t = world s"
  using reads_onlyD [OF reads_helpers(1), of C seeds p s] by simp

lemma require_claim_InrD: "require_claim C stale index s = (t, Inr k) \<Longrightarrow> t = s"
  by (auto simp: require_claim_def key_at_def h_return_def fail_with_def h_throw_def
      elim!: bind_pureE bind_askE split: option.splits if_splits)

lemma require_active_index_InrD:
  "require_active_index what info s = (t, Inr a) \<Longrightarrow> t = s \<and> info = Some a \<and> index_says_active a"
  by (auto simp: require_active_index_def h_return_def fail_with_def h_throw_def split: option.splits if_splits)

lemma issuer_is_no_claim:
  assumes inv: "fid_inv E W A" and sep: "separate_addresses E W" and "w \<in> W"
    and g: "fr_find E (fid_seeds w) = Some (g, b)"
  shows "A g \<noteq> ClaimCell c"
proof
  assume c: "A g = ClaimCell c"
  have fine: "claim_fine E W A g c" using fid_invD(2) [OF inv c] .
  then have "fid_seeds w = claim_seeds (cl_fid c) (cl_claimId c)"
    using claim_fine_address [OF inv fine] assms(3)
    by (auto simp: claim_fine_def intro!: separateD [OF sep ps_fid ps_claim g])
  then show False by (simp add: seeds_differ)
qed

lemma program_reads_revoke: "program_reads fid_idl REVOKE_CLAIM_DISCRIMINATOR = Some (''revoke_claim'', [])"
  by code_simp

lemma send_all_InrD: "send_all C ixs s = (t, Inr x) \<Longrightarrow> send_tx C ixs (world s) = (world t, Inr x)"
  by (auto simp: send_all_def split: prod.splits)

lemma revokeE:
  assumes "revokeActiveClaimForTopic C P holder topic s = (t, Inr sig)"
  obtains s1 ids g b ck ik where "getIdentityIds C P s = (s1, Inr ids)"
    "find_pda C (fid_seeds (wallet_key C)) (ii_fid ids) = Inr (g, b)"
    "send_tx C [RawIx \<lparr> ix_programId = ii_fid ids,
       ix_keys = [meta_of (wallet_key C) True True, meta_of g False False, meta_of ck False True,
         meta_of ik False True], ix_data = REVOKE_CLAIM_DISCRIMINATOR \<rparr>] (world s) = (world t, Inr sig)"
proof -
  from assms obtain s1 ids g b f ik info index ck u v h where ids: "getIdentityIds C P s = (s1, Inr ids)" "world s1 = world s"
    and g: "find_pda C (fid_seeds (wallet_key C)) (ii_fid ids) = Inr (g, b)"
    and index: "require_active_index ''revoke'' info s1 = (u, Inr index)"
    and ck: "require_claim C (stale_claim_text C) index u = (v, Inr ck)"
    and sent: "h_catch (send_all C [RawIx \<lparr> ix_programId = ii_fid ids,
          ix_keys = [meta_of (wallet_key C) True True, meta_of g False False, meta_of ck False True,
            meta_of ik False True], ix_data = REVOKE_CLAIM_DISCRIMINATOR \<rparr>])
       (\<lambda>err. if isClaimDiscriminatorMismatch err then
            h_bind (ask (\<lambda>w. accounts_at C w [ik, ck])) (\<lambda>infos.
            fail_with (h g f ik ck infos))
          else h_throw err) v = (t, Inr sig)"
    unfolding revokeActiveClaimForTopic_def pda_seeds Let_def
    by (elim bind_idsE bind_pdaE bind_askE, elim h_bind_InrE) (rule that)
  have "world v = world s"
    using require_claim_InrD [OF ck] require_active_index_InrD [OF index] ids(2) by simp
  then have "send_tx C [RawIx \<lparr> ix_programId = ii_fid ids,
       ix_keys = [meta_of (wallet_key C) True True, meta_of g False False, meta_of ck False True,
         meta_of ik False True], ix_data = REVOKE_CLAIM_DISCRIMINATOR \<rparr>] (world s) = (world t, Inr sig)"
    using sent by (auto elim!: catch_InrE h_bind_InrE dest: send_all_InrD simp: h_throw_def split: if_splits)
  with ids(1) g show ?thesis by (rule that)
qed

text \<open>
  C40. On a chain that runs the identity program, whose node answers every account read and
  where nothing but the service's own transactions changes the accounts meanwhile, revoking the
  active claim of a topic through the identity service fails for every holder and topic: the
  transaction names the identity of the issuer where the program expects the claim.
\<close>

theorem no_revocation_succeeds:
  assumes chain: "fid_chain C E p W V fa" and p: "factory_agrees C P p V st" and s: "serves V st s"
    and W: "wallet_key C \<in> W"
  shows "\<exists>e. snd (revokeActiveClaimForTopic C P holder topic s) = Inl e"
proof (rule ccontr)
  assume "\<nexists>e. snd (revokeActiveClaimForTopic C P holder topic s) = Inl e"
  then obtain t sig where "revokeActiveClaimForTopic C P holder topic s = (t, Inr sig)"
    by (metis obj_sumE prod.collapse)
  then obtain s1 ids g b ck ik where ids: "getIdentityIds C P s = (s1, Inr ids)"
    and g: "find_pda C (fid_seeds (wallet_key C)) (ii_fid ids) = Inr (g, b)"
    and sent: "send_tx C [RawIx \<lparr> ix_programId = ii_fid ids,
       ix_keys = [meta_of (wallet_key C) True True, meta_of g False False, meta_of ck False True,
         meta_of ik False True], ix_data = REVOKE_CLAIM_DISCRIMINATOR \<rparr>] (world s) = (world t, Inr sig)"
    by (rule revokeE)
  have p': "ii_fid ids = p" and w: "world s \<in> V" using ids_of_service [OF ids p s] s by (simp_all add: serves_def)
  note fr = fid_chainD(3) [OF chain g [unfolded p']]
  have "fa (world s) g \<noteq> ClaimCell c" for c
    by (rule issuer_is_no_claim [OF fid_chain_inv [OF chain w] fid_chainD(1) [OF chain] W fr])
  moreover have "\<exists>now. fid_entry E now [wallet_key C, g, ck, ik] (Some (''revoke_claim'', [])) (fa (world s)) = Inr (fa (world t))"
    using fid_chainD(7) [OF chain w sent] p' by (simp add: program_reads_revoke meta_of_def)
  then have "revoke_claim E (wallet_key C) g ck (fa (world s)) = Inr (fa (world t))"
    by (simp add: fid_entry_def)
  ultimately show False unfolding revoke_claim_def by (elim claim_accountE) auto
qed

section \<open>Issuing\<close>

lemma fetchFid_reads: "reads_only (fetchFid C P w)"
  unfolding fetchFid_def findFidPda_def
  by (intro reads_intros getIdentityIds_reads)

lemma fetchFid_keep: "factory_agrees C P p V st \<Longrightarrow> keeps (serves V st) (fetchFid C P w)"
  unfolding fetchFid_def findFidPda_def or_default_def
  by (intro keeps_catch keeps_bind ids_keep pda_keep ask_keep keeps_basic)

lemma report_keep: "(\<And>r w. w \<in> V \<Longrightarrow> R r w \<in> V) \<Longrightarrow> keeps (serves V st) (report_hash R r)"
  by (simp add: keeps_def report_hash_def serves_def)

lemma send_keep: "fid_chain C E p W V fa \<Longrightarrow> keeps (serves V st) (send_all C ixs)"
  using fid_chainD(6) [of C E p W V fa _ ixs]
  by (auto simp: keeps_def send_all_def serves_def split: prod.splits) (metis fst_conv)+

lemma require_issuer_keep:
  assumes "fid_chain C E p W V fa" "factory_agrees C P p V st" and R: "\<And>r w. w \<in> V \<Longrightarrow> R r w \<in> V"
  shows "keeps (serves V st) (require_issuer C P R)"
  unfolding require_issuer_def ensureOwnFid_def call_method_def findFidPda_def Let_def
  by (intro keeps_bind keeps_option keeps_if keeps_basic ids_keep [OF assms(2)] fetchFid_keep [OF assms(2)]
      report_keep [OF R] send_keep [OF assms(1)] pda_keep fail_keep)

lemma fetchFid_InrD:
  assumes "fetchFid C P w s = (t, Inr (Some v))" and "factory_agrees C P p V st" "serves V st s"
  obtains g b raw where "find_pda C (fid_seeds w) p = Inr (g, b)" "anchor_fid_account C (world s) p g = Inr raw"
    "v = fid_view_of C raw" "world t = world s"
proof -
  have wt: "world t = world s" using reads_onlyD [OF fetchFid_reads, of C P w s] assms(1) by simp
  from assms(1) have "h_bind (getIdentityIds C P) (\<lambda>ids. h_bind (pda_of C (fid_seeds w) (ii_fid ids)) (\<lambda>fidPda.
      h_bind (ask (\<lambda>w. anchor_fid_account C w (ii_fid ids) fidPda)) (\<lambda>raw.
      h_return (Some (fid_view_of C raw))))) s = (t, Inr (Some v))"
    unfolding fetchFid_def or_default_def pda_seeds by (elim catch_InrE) (auto simp: h_return_def)
  then obtain s1 ids g b raw where ids: "getIdentityIds C P s = (s1, Inr ids)" "world s1 = world s"
    and "find_pda C (fid_seeds w) (ii_fid ids) = Inr (g, b)"
    "anchor_fid_account C (world s1) (ii_fid ids) g = Inr raw" "v = fid_view_of C raw"
    by (elim bind_idsE bind_pdaE bind_askE) (auto simp: h_return_def intro: that)
  moreover have "ii_fid ids = p" using ids_of_service [OF ids(1) assms(2,3)] ..
  ultimately show ?thesis using wt by (intro that [of g b raw]) (auto simp: h_return_def)
qed

lemma add_claim_bytes:
  "add_claim_data topic g h sig ex = Inr (byte_list [70, 114, 85, 106, 66, 244, 46, 99] @ le_bytes 8 topic @ g @ h @
     subarray sig 0 64 @ le_bytes 8 ex)"
proof -
  have "getInstructionDiscriminator ''add_claim'' = Inr (byte_list [70, 114, 85, 106, 66, 244, 46, 99])" by code_simp
  then show ?thesis by (simp add: add_claim_data_def buildInstructionData_def encodeU64_def encodeI64_def concat_res_def)
qed

lemma get_uint_mod:
  "get_uint n (le_bytes n v @ rest) = Some (v mod 256 ^ n, rest)" "get_uint n (le_bytes n v) = Some (v mod 256 ^ n, [])"
  using get_bytes_at [of "le_bytes n v" n rest] get_bytes_at [of "le_bytes n v" n "[]"]
  by (simp_all add: get_uint_def get_map_def)

lemma read_add_claim:
  assumes "length g = 32" "length h = 32" "length sig = 64"
  shows "program_reads fid_idl (byte_list [70, 114, 85, 106, 66, 244, 46, 99] @ le_bytes 8 topic @ g @ h @ sig @ le_bytes 8 ex) =
    Some (''add_claim'', [BU64 (topic mod 256 ^ 8), BPubkey g, BFixed 32 h, BFixed 64 sig, BI64 (to_signed 8 (ex mod 256 ^ 8))])"
proof -
  let ?d = "byte_list [70, 114, 85, 106, 66, 244, 46, 99]"
  have found: "List.find (\<lambda>(m, e, ts). map word_of_int e = ?d) fid_idl =
      Some (''add_claim'', [70, 114, 85, 106, 66, 244, 46, 99], [TU64, TPubkey, TFixed 32, TFixed 64, TI64])"
    by code_simp
  have "take 8 (?d @ le_bytes 8 topic @ g @ h @ sig @ le_bytes 8 ex) = ?d"
    and "drop 8 (?d @ le_bytes 8 topic @ g @ h @ sig @ le_bytes 8 ex) = le_bytes 8 topic @ g @ h @ sig @ le_bytes 8 ex"
    by (simp_all add: byte_list_def)
  moreover have "borsh_read [TU64, TPubkey, TFixed 32, TFixed 64, TI64] (le_bytes 8 topic @ g @ h @ sig @ le_bytes 8 ex) =
      Some ([BU64 (topic mod 256 ^ 8), BPubkey g, BFixed 32 h, BFixed 64 sig, BI64 (to_signed 8 (ex mod 256 ^ 8))], [])"
    using assms by (simp only: borsh_read.simps borsh_get.simps get_map_def get_uint_mod get_bytes_at
        option.case prod.case)
  ultimately show ?thesis by (simp only: program_reads_def found option.case prod.case)
qed

lemma refuse_used_claim_InrD: "refuse_used_claim C k n info s = (t, Inr u) \<Longrightarrow> t = s \<and> info = None"
  by (auto simp: refuse_used_claim_def h_return_def split: option.splits if_splits)

lemma bind_nowE:
  assumes "h_bind (ask_now C) k s = (t, Inr y)" obtains "k (now_ms C (world s)) s = (t, Inr y)"
  using assms by (simp add: bind_now)

lemma bind_keyE:
  assumes "h_bind (key_of_text C x) k s = (t, Inr y)"
  obtains a where "pk_of_string C x = Inr a" "k a s = (t, Inr y)"
  using assms unfolding key_of_text_def by (elim bind_pureE) (auto split: sum.splits intro: that)

lemma require_viewE:
  assumes "(case refreshed of None \<Rightarrow> fail_with m
     | Some f \<Rightarrow> if fv_isIssuer f then h_return f else fail_with m) s = (t, Inr v)"
  obtains "refreshed = Some v" "fv_isIssuer v" "t = s"
  using assms by (auto simp: h_return_def split: option.splits if_splits)

lemma issueClaimE:
  assumes chain: "fid_chain C E p W V fa" and R: "\<And>r w. w \<in> V \<Longrightarrow> R r w \<in> V"
    and p: "factory_agrees C P p V st" and s: "serves V st s" and run: "issueClaim C P R holder topic s = (t, Inr sig)"
  obtains w f g b b' ck ik raw rest where "w \<in> V" "find_pda C (fid_seeds holder) p = Inr (f, b)"
    "find_pda C (fid_seeds (wallet_key C)) p = Inr (g, b')" "anchor_fid_account C w p g = Inr raw" "fid_isIssuer raw"
    "pk_of_string C (toBase58 C (fid_signerKey raw)) = Inr (wallet_key C)"
    "send_tx C [RawIx \<lparr> ix_programId = p, ix_keys = meta_of (wallet_key C) True True # meta_of f False True #
        meta_of ck False True # meta_of ik False True # rest,
       ix_data = byte_list [70, 114, 85, 106, 66, 244, 46, 99] @ le_bytes 8 topic @ g @ sha256 C [] @
         replicate 64 0 @ le_bytes 8 (now_ms C w div 1000 + YEAR_SECONDS) \<rparr>] w = (world t, Inr sig)"
proof -
  define sent where "sent ids f g ck ik data = h_catch
       (send_all C [RawIx \<lparr> ix_programId = ii_fid ids,
          ix_keys = [meta_of (wallet_key C) True True, meta_of f False True, meta_of ck False True,
            meta_of ik False True, meta_of (sysvar_instructions C) False False,
            meta_of (system_program C) False False],
          ix_data = data \<rparr>])
       (issue_failure C ids holder g topic)" for ids :: identity_ids and f g ck ik data
  from run obtain s1 ids g b' f b s2 v ck s3 info s4 ik s5 v' data and target :: fid_account_data
    where ids: "getIdentityIds C P s = (s1, Inr ids)" "world s1 = world s"
    and g: "find_pda C (fid_seeds (wallet_key C)) (ii_fid ids) = Inr (g, b')"
    and f: "find_pda C (fid_seeds holder) (ii_fid ids) = Inr (f, b)"
    and issuer: "require_issuer C P R s1 = (s2, Inr v)"
    and ck: "findClaimPda C f (fid_claimCount target) (ii_fid ids) s2 = (s3, Inr ck)"
    and free: "refuse_used_claim C ck (fid_claimCount target) info s3 = (s4, Inr ())"
    and refreshed: "fetchFid C P (wallet_key C) s4 = (s5, Inr (Some v'))" "fv_isIssuer v'"
    and key: "pk_of_string C (fv_signerKey v') = Inr (wallet_key C)"
    and data: "add_claim_data topic g (sha256 C []) (replicate 64 0) (now_ms C (world s4) div 1000 + YEAR_SECONDS) = Inr data"
    and last: "sent ids f g ck ik data s5 = (t, Inr sig)"
    unfolding issueClaim_def pda_seeds Let_def sent_def [symmetric]
    by - (elim bind_idsE bind_pdaE, erule h_bind_InrE, erule bind_askE, erule h_bind_InrE, erule bind_askE,
        erule h_bind_InrE, erule bind_pdaE, erule bind_nowE, erule h_bind_InrE, erule h_bind_InrE,
        erule bind_keyE, erule bind_refuseE, erule bind_pureE, erule require_viewE, rule that, auto)
  have p': "ii_fid ids = p" and s1: "serves V st s1" using ids_of_service [OF ids(1) p s] by simp_all
  have "serves V st (fst (require_issuer C P R s1))"
    by (rule keepsD [OF require_issuer_keep [OF chain p]]) (use R s1 in auto)
  then have "serves V st s2" using issuer by simp
  moreover have "s3 = s2"
    using ck unfolding findClaimPda_def by (elim bind_pureE) (auto dest: pda_of_InrD)
  moreover have "s4 = s3" using refuse_used_claim_InrD [OF free] by simp
  ultimately have s4: "serves V st s4" and w: "world s4 \<in> V" by (simp_all add: serves_def)
  from refreshed(1) p s4 obtain g' b'' raw where raw: "find_pda C (fid_seeds (wallet_key C)) p = Inr (g', b'')"
    "anchor_fid_account C (world s4) p g' = Inr raw" "v' = fid_view_of C raw" "world s5 = world s4"
    by (rule fetchFid_InrD)
  have "send_tx C [RawIx \<lparr> ix_programId = p, ix_keys = [meta_of (wallet_key C) True True, meta_of f False True,
      meta_of ck False True, meta_of ik False True, meta_of (sysvar_instructions C) False False,
      meta_of (system_program C) False False], ix_data = data \<rparr>] (world s4) = (world t, Inr sig)"
    using last raw(4) unfolding sent_def p'
    by (auto elim!: catch_InrE h_bind_InrE dest: send_all_InrD simp: issue_failure_def h_throw_def split: if_splits)
  moreover have "subarray (replicate 64 (0 :: byte)) 0 64 = replicate 64 0" by (simp add: subarray_def)
  ultimately show ?thesis
    using that [OF w f [unfolded p'] raw(1)] g raw refreshed(2) key data
    by (simp add: p' add_claim_bytes fid_view_of_def)
qed

text \<open>
  C23. On a chain that runs the identity program, whose node answers every account read and
  where nothing but the service's own transactions changes the accounts meanwhile, when the
  identity service reports that a claim was issued, the program has gained exactly this live
  claim: of the holder, the identity of the wallet and the topic, which had none, signed by the
  wallet, expiring a year from now; the wallet has an issuer identity whose signer key is the
  wallet.
\<close>

theorem issued_claim_is_live:
  assumes chain: "fid_chain C E p W V fa" and p: "factory_agrees C P p V st" and s: "serves V st s"
    and R: "\<forall>r. \<forall>w \<in> V. R r w \<in> V" and W: "wallet_key C \<in> W" and topic: "u64_topic topic"
    and sizes: "\<forall>seeds k b. find_pda C seeds p = Inr (k, b) \<longrightarrow> length k = 32" "length (sha256 C []) = 32"
    and clock: "\<forall>w \<in> V. 0 \<le> now_ms C w \<and> now_ms C w < 2 ^ 60"
    and run: "issueClaim C P R holder topic s = (t, Inr sig)"
  shows "\<exists>w f g b b' ck c issuer. w \<in> V \<and> fr_find E (fid_seeds holder) = Some (f, b) \<and>
    fr_find E (fid_seeds (wallet_key C)) = Some (g, b') \<and>
    (f, g, topic) \<notin> live (fa w) \<and> live (fa (world t)) = insert (f, g, topic) (live (fa w)) \<and>
    fa (world t) ck = ClaimCell c \<and> triple c = (f, g, topic) \<and> \<not> cl_revoked c \<and> cl_signerKey c = wallet_key C \<and>
    cl_expiresAt c = now_ms C w div 1000 + YEAR_SECONDS \<and> fa w g = FidCell issuer \<and> fid_isIssuer issuer \<and>
    pk_of_string C (toBase58 C (fid_signerKey issuer)) = Inr (wallet_key C)"
proof (rule issueClaimE [OF chain _ p s run])
  fix w f g b b' ck ik rest and raw :: fid_account_data
  assume w: "w \<in> V" and f: "find_pda C (fid_seeds holder) p = Inr (f, b)"
    and g: "find_pda C (fid_seeds (wallet_key C)) p = Inr (g, b')"
    and raw: "anchor_fid_account C w p g = Inr raw" "fid_isIssuer raw"
      "pk_of_string C (toBase58 C (fid_signerKey raw)) = Inr (wallet_key C)"
    and sent: "send_tx C [RawIx \<lparr> ix_programId = p, ix_keys = meta_of (wallet_key C) True True # meta_of f False True #
        meta_of ck False True # meta_of ik False True # rest,
       ix_data = byte_list [70, 114, 85, 106, 66, 244, 46, 99] @ le_bytes 8 topic @ g @ sha256 C [] @
         replicate 64 0 @ le_bytes 8 (now_ms C w div 1000 + YEAR_SECONDS) \<rparr>] w = (world t, Inr sig)"
  define ex where "ex = now_ms C w div 1000 + YEAR_SECONDS"
  have "0 \<le> ex" "ex < 2 ^ 62" using clock w by (auto simp: ex_def YEAR_SECONDS_def)
  then have ex: "to_signed 8 (ex mod 256 ^ 8) = ex" by (intro to_signed_mod) auto
  have lg: "length g = 32" using sizes(1) g by blast
  have topic_mod: "topic mod 256 ^ 8 = topic" using topic by (auto simp: u64_topic_def)
  have "\<exists>now. fid_entry E now (wallet_key C # f # ck # ik # map am_pubkey rest)
      (Some (''add_claim'', [BU64 topic, BPubkey g, BFixed 32 (sha256 C []), BFixed 64 (replicate 64 0), BI64 ex]))
      (fa w) = Inr (fa (world t))"
    using fid_chainD(7) [OF chain w sent]
    by (simp add: meta_of_def read_add_claim [OF lg sizes(2)] topic_mod [simplified] ex [simplified]
        ex_def [symmetric])
  then obtain now where "add_claim E now (wallet_key C) f ck ik topic g (sha256 C []) (replicate 64 0) ex (fa w) = Inr (fa (world t))"
    by (auto simp: fid_entry_def claim_args_def u64_arg_def pubkey_arg_def fixed_arg_def i64_arg_def)
  note added = this
  have l: "(f, g, topic) \<notin> live (fa w) \<and> live (fa (world t)) = insert (f, g, topic) (live (fa w))"
    using added fid_chain_inv [OF chain w] by (rule add_claim_live)
  have c: "\<exists>c. fa (world t) ck = ClaimCell c \<and> triple c = (f, g, topic) \<and> \<not> cl_revoked c \<and> cl_signerKey c = wallet_key C \<and>
      cl_expiresAt c = ex"
    using added by (rule add_claimE) (simp add: triple_def)
  have "fa w g = FidCell raw" using fid_chainD(5) [OF chain w] raw(1) by (simp add: shows_fids_def)
  then show ?thesis
    using w fid_chainD(3) [OF chain f] fid_chainD(3) [OF chain g] l c raw(2,3) unfolding ex_def by blast
qed (use R in blast)

section \<open>A sample client\<close>

text \<open>The world is the accounts of the program; a transaction of one of the two wallets runs it.\<close>

definition shown_account :: "fid_cell \<Rightarrow> account option" where
  "shown_account c = (case c of
     NoCell \<Rightarrow> None
   | ForeignCell \<Rightarrow> Some \<lparr> acc_owner = [], acc_data = [] \<rparr>
   | FidCell f \<Rightarrow> Some \<lparr> acc_owner = [], acc_data = replicate 8 0 \<rparr>
   | ClaimCell d \<Rightarrow> Some \<lparr> acc_owner = [], acc_data = CLAIM_ACCOUNT_DISCRIMINATOR \<rparr>
   | IndexCell x \<Rightarrow> Some \<lparr> acc_owner = [], acc_data = replicate 8 0 @ index_bytes x \<rparr>)"

definition run_fid :: "client_ix list \<Rightarrow> fid_accounts \<Rightarrow> fid_accounts \<times> (jsval + string)" where
  "run_fid ixs A = (case ixs of
     [RawIx ix] \<Rightarrow>
       (case map am_pubkey (ix_keys ix) of
          signer # keys \<Rightarrow>
            if signer = holder_wallet \<or> signer = issuer_wallet then
              (case fid_entry demo_fid_runtime 5 (signer # keys) (program_reads fid_idl (ix_data ix)) A of
                 Inr A' \<Rightarrow> (A', Inr ''signature'') | Inl e \<Rightarrow> (A, Inl (error_of ''refused'')))
            else (A, Inl (error_of ''unsigned''))
        | [] \<Rightarrow> (A, Inl (error_of ''unsigned'')))
   | _ \<Rightarrow> (A, Inl (error_of ''unsupported'')))"

definition identity_client :: "fid_accounts client" where
  "identity_client = \<lparr> pk_of_string = (\<lambda>t. Inr (map (\<lambda>c. of_nat (of_char c)) t)),
     pk_of_bytes = (\<lambda>b. if length b = 32 then Inr b else Inl ''Invalid public key input''),
     toBase58 = map (\<lambda>b. char_of (unat b)), token_2022 = demo_key 20, ata_of = (\<lambda>_ _. Inr (demo_key 9)),
     find_pda = (\<lambda>s p. Inr (demo_address s, 255)), account_info = (\<lambda>_. Inr None),
     wallet_key = issuer_wallet, system_program = demo_key 21, sysvar_instructions = demo_key 22,
     account_at = (\<lambda>A k. Inr (shown_account (A k))), accounts_at = (\<lambda>A ks. Inr (map (\<lambda>k. shown_account (A k)) ks)),
     program_accounts_at = (\<lambda>_ _ _. Inr []),
     token_balance_at = (\<lambda>_ _. Inr 0), spl_account_at = (\<lambda>_ _. Inl (error_of ''none'')),
     spl_mint_at = (\<lambda>_ _. Inl (error_of ''none'')), now_ms = (\<lambda>_. 1700000000500),
     anchor_token_state = (\<lambda>_ _ _. Inl (error_of ''none'')),
     anchor_owner_state = (\<lambda>_ _ _. Inl (error_of ''none'')),
     anchor_agent_role = (\<lambda>_ _ _. Inl (error_of ''none'')),
     anchor_frozen_wallet = (\<lambda>_ _ _. Inl (error_of ''none'')),
     anchor_compliance_state = (\<lambda>_ _ _. Inl (error_of ''none'')),
     anchor_irp_state = (\<lambda>_ _ _. Inl (error_of ''none'')),
     anchor_irs_state = (\<lambda>_ _ _. Inl (error_of ''none'')),
     anchor_ctr_topics = (\<lambda>_ _ _. Inl (error_of ''none'')),
     anchor_fid_account = (\<lambda>A p k. case A k of FidCell f \<Rightarrow> Inr f | _ \<Rightarrow> Inl (error_of ''none'')),
     anchor_module_owner = (\<lambda>_ _ _. Inl (error_of ''none'')),
     decode_frozen_wallet = (\<lambda>_. Inl (error_of ''none'')), decode_claim = (\<lambda>_. Inl (error_of ''none'')),
     decode_wallet_identity = (\<lambda>_. Inl (error_of ''none'')), sha256 = (\<lambda>b. replicate 32 0),
     send_tx = run_fid \<rparr>"

definition demo_wallet_set :: "pubkey set" where "demo_wallet_set = {holder_wallet, issuer_wallet}"

definition demo_fid_worlds :: "fid_accounts set" where
  "demo_fid_worlds = {A. fid_reachable demo_fid_runtime demo_wallet_set A}"

subsection \<open>It is such a chain\<close>

lemma find_in_list: "List.find P xs = Some x \<Longrightarrow> x \<in> set xs \<and> P x"
  by (induction xs) (auto split: if_splits)

lemma program_reads_topic:
  assumes "program_reads fid_idl data = Some (''add_claim'', BU64 t # args)"
  shows "u64_topic t"
proof -
  from assms obtain d ts r where e: "(''add_claim'', d, ts) \<in> set fid_idl"
    and read: "borsh_read ts (drop 8 data) = Some (BU64 t # args, r)"
    unfolding program_reads_def by (auto split: option.splits dest!: find_in_list)
  have "\<forall>(n, d, ts) \<in> set fid_idl. n = ''add_claim'' \<longrightarrow> ts = [TU64, TPubkey, TFixed 32, TFixed 64, TI64]"
    by code_simp
  with e have "ts = [TU64, TPubkey, TFixed 32, TFixed 64, TI64]" by blast
  with read have "get_uint 8 (drop 8 data) \<noteq> None \<and> fst (the (get_uint 8 (drop 8 data))) = t"
    by (auto simp: get_map_def split: option.splits prod.splits)
  then show ?thesis
    using le_val_nonneg [of "take 8 (drop 8 data)"] le_val_bound [of "take 8 (drop 8 data)"]
    by (auto simp: get_uint_def get_map_def get_bytes_def u64_topic_def split: if_splits)
qed

lemma claim_args_topic: "claim_args args = Some (t, r) \<Longrightarrow> \<exists>rest. args = BU64 t # rest"
  by (auto simp: claim_args_def u64_arg_def split: list.splits option.splits bval.splits)

lemma fid_entry_step:
  assumes "fid_entry E now (w # keys) (program_reads fid_idl data) A = Inr A'" and "w \<in> W"
  shows "fid_step E W A A'"
proof (cases "program_reads fid_idl data")
  case None
  with assms show ?thesis by (simp add: fid_entry_def)
next
  case (Some call)
  obtain name args where call: "call = (name, args)" by (cases call)
  have topic: "u64_topic t" if "name = ''add_claim''" "claim_args args = Some (t, r)" for t r
    using that program_reads_topic [of data t] claim_args_topic [OF that(2)] Some call by auto
  show ?thesis
    using assms topic unfolding Some call fid_entry_def malformed_def missing_keys_def
    by (auto split: if_splits list.splits option.splits intro: fid_step.intros)
qed

lemma run_fid_cases:
  "run_fid ixs A = (A', r) \<Longrightarrow> (A' = A \<and> (\<exists>e. r = Inl e)) \<or>
     (\<exists>ix w keys. ixs = [RawIx ix] \<and> map am_pubkey (ix_keys ix) = w # keys \<and> w \<in> demo_wallet_set \<and>
       fid_entry demo_fid_runtime 5 (w # keys) (program_reads fid_idl (ix_data ix)) A = Inr A')"
  by (auto simp: run_fid_def demo_wallet_set_def split: list.splits client_ix.splits if_splits sum.splits)

lemma run_fid_reachable: "A \<in> demo_fid_worlds \<Longrightarrow> fst (run_fid ixs A) \<in> demo_fid_worlds"
  using run_fid_cases [of ixs A "fst (run_fid ixs A)" "snd (run_fid ixs A)"]
  by (auto simp: demo_fid_worlds_def intro: fr_step fid_entry_step)

lemma demo_set: "separate_addresses demo_fid_runtime demo_wallet_set" "PUBKEY_DEFAULT \<notin> demo_wallet_set"
  unfolding demo_wallet_set_def by (rule demo_separate, rule demo_wallets)

lemma demo_find: "fr_find demo_fid_runtime s = Some (k, b) \<longleftrightarrow> k = demo_address s \<and> b = 255"
  by (auto simp: demo_fid_runtime_def)

lemma demo_addresses_32: "fid_address demo_fid_runtime W k \<Longrightarrow> length k = 32"
  by (auto simp: fid_address_def demo_find demo_address_length)

lemma demo_index_sizes:
  assumes inv: "fid_inv demo_fid_runtime W A" and x: "A k = IndexCell x"
  shows "length (cx_target_fid x) = 32 \<and> length (cx_issuer_fid x) = 32 \<and> length (cx_active_claim x) = 32"
proof -
  have fine: "index_fine demo_fid_runtime W A k x" using fid_invD(3) [OF inv x] .
  have "length (cx_active_claim x) = 32"
  proof (cases "cx_is_active x")
    case True
    with fine obtain c where "A (cx_active_claim x) = ClaimCell c" by (auto simp: index_fine_def)
    from fid_invD(2) [OF inv this] show ?thesis by (auto simp: claim_fine_def demo_find demo_address_length)
  next
    case False
    with fine show ?thesis by (simp add: index_fine_def PUBKEY_DEFAULT_def)
  qed
  with fine show ?thesis by (auto simp: index_fine_def demo_addresses_32)
qed

lemma demo_shows_fids:
  assumes "A \<in> demo_fid_worlds"
  shows "shows_fids identity_client A p A"
proof -
  have inv: "fid_inv demo_fid_runtime demo_wallet_set A"
    using assms demo_set(2) by (auto simp: demo_fid_worlds_def intro: fid_reachable_inv)
  have "shows_cell identity_client A p k (A k)" for k
  proof (cases "A k")
    case (IndexCell x)
    then show ?thesis using demo_index_sizes [OF inv IndexCell]
      by (auto simp: shows_cell_def identity_client_def shown_account_def)
  next
    case (ClaimCell c)
    have "hasDiscriminator CLAIM_ACCOUNT_DISCRIMINATOR CLAIM_ACCOUNT_DISCRIMINATOR" by code_simp
    then show ?thesis using ClaimCell by (auto simp: shows_cell_def identity_client_def shown_account_def)
  qed (auto simp: shows_cell_def identity_client_def shown_account_def)
  then show ?thesis by (auto simp: shows_fids_def identity_client_def split: fid_cell.splits)
qed

lemma demo_fid_chain: "fid_chain identity_client demo_fid_runtime p demo_wallet_set demo_fid_worlds (\<lambda>A. A)"
proof -
  have find: "fr_find demo_fid_runtime s = (case find_pda identity_client s p of Inl e \<Rightarrow> None | Inr a \<Rightarrow> Some a)" for s
    by (simp add: demo_fid_runtime_def identity_client_def)
  have send: "send_tx identity_client = run_fid" by (simp add: identity_client_def)
  show ?thesis
    unfolding fid_chain_def find send
    by (intro conjI allI ballI impI demo_set(1) refl run_fid_reachable demo_shows_fids)
      (auto simp: demo_fid_worlds_def dest!: run_fid_cases)
qed

lemma demo_factory_cell:
  assumes "A \<in> demo_fid_worlds"
  shows "A (demo_address [ascii ''factory_state'']) = NoCell \<or> A (demo_address [ascii ''factory_state'']) = ForeignCell"
proof -
  have inv: "fid_inv demo_fid_runtime demo_wallet_set A"
    using assms demo_set(2) by (auto simp: demo_fid_worlds_def intro: fid_reachable_inv)
  have first: "demo_address s ! 0 = of_nat (length s)" for s by (simp add: demo_address_def)
  define F where "F = demo_address [ascii ''factory_state'']"
  have "F ! 0 = 1" using first [of "[ascii ''factory_state'']"] by (simp add: F_def)
  then have other: "F \<noteq> demo_address s" if "length s \<in> {2, 3, 4}" for s
    using first [of s] that by auto
  have ne: "F \<noteq> demo_address (fid_seeds w)" "F \<noteq> demo_address (claim_seeds k i)" "F \<noteq> demo_address (index_seeds k g t)"
    for w k i g t by (rule other, simp add: fid_seeds_def claim_seeds_def index_seeds_def)+
  have "A F = NoCell \<or> A F = ForeignCell"
  proof (cases "A F")
    case (FidCell f)
    then show ?thesis using fid_invD(1) [OF inv FidCell] ne(1) by (simp add: fid_fine_def demo_find)
  next
    case (ClaimCell c)
    then show ?thesis using fid_invD(2) [OF inv ClaimCell] ne(2) by (simp add: claim_fine_def demo_find)
  next
    case (IndexCell x)
    then show ?thesis using fid_invD(3) [OF inv IndexCell] ne(3) by (simp add: index_fine_def demo_find)
  qed auto
  then show ?thesis by (simp add: F_def)
qed

definition demo_fid_program :: pubkey where
  "demo_fid_program = ii_fid (DEPLOYED_IDENTITY_IDS identity_client)"

lemma demo_factory: "factory_agrees identity_client demo_programs demo_fid_program demo_fid_worlds None"
proof -
  have pda: "findProgramAddressSync (chain_at identity_client A) s q = Inr (demo_address s, 255)" for A s q
    by (simp add: findProgramAddressSync_def chain_at_def identity_client_def)
  have key: "\<exists>e. readPubkey (chain_at identity_client A) [] 8 = Inl e" for A
    by (simp add: readPubkey_def chain_at_def identity_client_def subarray_def)
  have decode: "\<exists>e. decodeFactoryState (chain_at identity_client A) [] = Inl e" for A
  proof -
    obtain e where "readPubkey (chain_at identity_client A) [] 8 = Inl e" using key by blast
    then show ?thesis by (simp add: decodeFactoryState_def next_field_def sized_def)
  qed
  have info: "account_info (chain_at identity_client A) k = Inr (shown_account (A k))" for A k
    by (simp add: chain_at_def identity_client_def)
  have "(case fetchFactoryStateAccount (chain_at identity_client A) demo_programs of Inl _ \<Rightarrow> None | Inr a \<Rightarrow> a) = None"
    if "A \<in> demo_fid_worlds" for A
    using demo_factory_cell [OF that] decode [of A]
    by (auto simp: fetchFactoryStateAccount_def with_pda_def deriveFactoryStatePDA_def pda fetchDecodedAccount_def
        fetchRawAccount_def info shown_account_def)
  then show ?thesis by (simp add: factory_agrees_def demo_fid_program_def)
qed

definition demo_fid_service :: "fid_accounts \<Rightarrow> fid_accounts service" where
  "demo_fid_service A = \<lparr> factoryStatePromise = None, world = A \<rparr>"

lemma demo_serves:
  "fid_world_2 = Inr A \<Longrightarrow> serves demo_fid_worlds None (demo_fid_service A)"
  "fid_world_3 = Inr A \<Longrightarrow> serves demo_fid_worlds None (demo_fid_service A)"
  using demo_worlds_reachable [folded demo_wallet_set_def]
  by (auto simp: serves_def demo_fid_service_def demo_fid_worlds_def)

lemma case_InrD:
  "(case q of Inl e \<Rightarrow> False | Inr A \<Rightarrow> Q A) \<Longrightarrow> \<exists>A. q = Inr A \<and> Q A"
  "(case r of (t, Inl e) \<Rightarrow> False | (t, Inr x) \<Rightarrow> R x) \<Longrightarrow> \<exists>t x. r = (t, Inr x) \<and> R x"
  by (cases q, simp_all, cases r, cases "snd r", auto)

theorem client_sees_live_claims_witness:
  "\<exists>A. fid_world_3 = Inr A \<and> (holder_fid, issuer_fid_key, 1) \<in> live A"
proof -
  have "case fid_world_3 of Inl e \<Rightarrow> False | Inr A \<Rightarrow>
     (case hasActiveClaimForTopic identity_client demo_programs holder_wallet issuer_wallet 1 (demo_fid_service A) of
        (t, Inl e) \<Rightarrow> False | (t, Inr found) \<Rightarrow> found)" by code_simp
  then obtain A t where A: "fid_world_3 = Inr A"
    and run: "hasActiveClaimForTopic identity_client demo_programs holder_wallet issuer_wallet 1 (demo_fid_service A)
      = (t, Inr True)"
    by (auto dest!: case_InrD)
  have "holder_wallet \<in> demo_wallet_set" "issuer_wallet \<in> demo_wallet_set" "u64_topic 1"
    by (simp_all add: demo_wallet_set_def u64_topic_def)
  from client_sees_live_claims [OF demo_fid_chain demo_factory demo_serves(2) [OF A] this run] A
  show ?thesis by (auto simp: demo_find holder_fid_def issuer_fid_key_def demo_fid_service_def)
qed

theorem no_revocation_succeeds_witness:
  "\<exists>A e. fid_world_3 = Inr A \<and> (holder_fid, issuer_fid_key, 1) \<in> live A \<and>
     snd (revokeActiveClaimForTopic identity_client demo_programs holder_wallet 1 (demo_fid_service A)) = Inl e"
proof -
  have "case fid_world_3 of Inl e \<Rightarrow> False | Inr A \<Rightarrow>
      (case A demo_claim_key of ClaimCell c \<Rightarrow> \<not> cl_revoked c \<and> triple c = (holder_fid, issuer_fid_key, 1) | _ \<Rightarrow> False)"
    by code_simp
  then obtain A where A: "fid_world_3 = Inr A" "(holder_fid, issuer_fid_key, 1) \<in> live A"
    by (auto simp: live_def split: sum.splits fid_cell.splits)
  have "wallet_key identity_client \<in> demo_wallet_set" by (simp add: demo_wallet_set_def identity_client_def)
  from no_revocation_succeeds [OF demo_fid_chain demo_factory demo_serves(2) [OF A(1)] this] A
  show ?thesis by blast
qed

theorem issued_claim_is_live_witness:
  "\<exists>A B. fid_world_2 = Inr A \<and> (holder_fid, issuer_fid_key, 1) \<notin> live B \<and>
     live (world (fst (issueClaim identity_client demo_programs (\<lambda>r w. w) holder_wallet 1 (demo_fid_service A)))) =
       insert (holder_fid, issuer_fid_key, 1) (live B)"
proof -
  have "case fid_world_2 of Inl e \<Rightarrow> False | Inr A \<Rightarrow>
     (case issueClaim identity_client demo_programs (\<lambda>r w. w) holder_wallet 1 (demo_fid_service A) of
        (t, Inl e) \<Rightarrow> False | (t, Inr sig) \<Rightarrow> True)" by code_simp
  then obtain A t sig where A: "fid_world_2 = Inr A"
    and run: "issueClaim identity_client demo_programs (\<lambda>r w. w) holder_wallet 1 (demo_fid_service A) = (t, Inr sig)"
    by (auto dest!: case_InrD)
  have wallet: "wallet_key identity_client = issuer_wallet" by (simp add: identity_client_def)
  have hyps: "wallet_key identity_client \<in> demo_wallet_set" "u64_topic 1"
    "\<forall>seeds k b. find_pda identity_client seeds demo_fid_program = Inr (k, b) \<longrightarrow> length k = 32"
    "length (sha256 identity_client []) = 32" "\<forall>w \<in> demo_fid_worlds. 0 \<le> now_ms identity_client w \<and> now_ms identity_client w < 2 ^ 60"
    by (auto simp: demo_wallet_set_def u64_topic_def identity_client_def demo_address_length)
  from issued_claim_is_live [OF demo_fid_chain demo_factory demo_serves(1) [OF A] _ hyps run]
  obtain B where "(holder_fid, issuer_fid_key, 1) \<notin> live B"
    "live (world t) = insert (holder_fid, issuer_fid_key, 1) (live B)"
    by (auto simp: demo_find holder_fid_def issuer_fid_key_def wallet)
  with A run show ?thesis by (intro exI [of _ A] exI [of _ B]) simp
qed

end
