(* ===== verification/Spec2Isabelle.thy ===== *)
theory Spec2Isabelle
  imports PurchaseProperties ListingProperties TransferRequests AdminGuard Kyc Issuance AccountFetch
    InstructionProperties IndexerRun IndexedQueries AssetProperties Auth Sandbox ErrorProperties
    TransferProperties ComplianceServiceProperties IdentityProperties
begin

text \<open>
  A verification library for Fracks, a platform for tokenised assets. The platform has a NestJS
  backend over PostgreSQL (\<open>backend/src\<close>), a web client (\<open>frontend/src\<close>) and programs on the Solana
  chain (\<open>contracts/programs\<close>). The backend keeps the off-chain workflow: purchase requests with
  their compliance check, a secondary market of listings and buy intents, transfer requests, KYC,
  issuance requests, and a ledger of the transaction hashes the client reports. The client builds
  the instructions for the programs, decodes their accounts and checks a transaction before it is sent.

  \<^bold>\<open>Foundations.\<close> \<open>Prelude\<close> has the exceptions, the handler type (a state goes in; a state and an
  exception or value come out, writes before an exception stay), the SQL table operations and the
  locale \<open>keyed_table\<close>. \<open>JsValue\<close> and \<open>JsNumber\<close> model the JavaScript values, strings and IEEE
  numbers the services rely on. \<open>Bytes\<close> has little-endian integers, buffers, and the record \<open>chain\<close>
  of the library functions that are parameters (key parsing, address derivation, account lookup).
  \<open>Utf8\<close> has the text encoding with its round trip.

  \<^bold>\<open>Backend.\<close>
  \<^item> \<open>DecimalUnits\<close>: amounts between decimal text and base units (\<open>decimalToBaseUnits\<close> of the
    purchase service, \<open>formatBaseUnits\<close> of the indexer, \<open>parseTokenAmount\<close> of the client), with the
    round trip and the agreement of client and backend.
  \<^item> \<open>Ledger\<close>: \<open>blockchain-transactions.service.ts\<close>; recording is an upsert by hash.
  \<^item> \<open>PurchaseRequests\<close>, \<open>PurchaseProperties\<close>: \<open>token-purchase-requests.service.ts\<close>, every operation;
    calls that run one at a time keep the supply cap and one open request per investor and token, and
    two calls of \<open>create\<close> that overlap are both stored.
  \<^item> \<open>TokenListings\<close>, \<open>ListingProperties\<close>: \<open>token-listings.service.ts\<close>; amounts are conserved, the
    service refines an abstract market of sales, overlapping updates can oversell.
  \<^item> \<open>TransferRequests\<close>: \<open>token-transfer-requests.service.ts\<close>.
  \<^item> \<open>AdminGuard\<close>: the wallet-signature guard with its nonce table, and the role guard.
  \<^item> \<open>Kyc\<close>: KYC applications and user roles. \<open>Issuance\<close>: the two issuance services and redemption.
  \<^item> \<open>Auth\<close>: registration, login and refresh tokens; a refresh rotates the newest session, and a
    replaced token is accepted again because password hashes compare 72 bytes.
  \<^item> \<open>ComplianceRules\<close>: country rules, transfer limits, identity snapshots, the simulated transfer
    and the activity log, whose entries form a chain.
  \<^item> \<open>AssetRegistry\<close>, \<open>AssetProperties\<close>: trusted issuers, asset requests and assets.
  \<^item> \<open>Sandbox\<close>: the simulators and the exit desk with its credit line. \<open>IndexedQueries\<close>: the read
    side of the indexer.

  \<^bold>\<open>Indexer.\<close> \<open>Handlers\<close> has the sequencing of handlers and the rules by which an invariant is
  carried through one. \<open>IndexerParse\<close> has the account parsers of \<open>backend/src/indexer/indexer.service.ts\<close>,
  \<open>Indexer\<close> its service: calls with retries over fallback endpoints, the metadata of a token, assets,
  token states, balances and the run row. \<open>IndexerProperties\<close> shows that the retries reach a working
  endpoint and that the parsers read what the programs write, \<open>IndexedLimits\<close> that the limits of the
  compliance modules on the chain are, after a run, the maximum amount, maximum balance and supply cap
  the purchase service reads,
  \<open>IndexerRun\<close> that a run keeps the tables and that its size filter finds no deployment.

  \<^bold>\<open>Client and chain.\<close>
  \<^item> \<open>Wire\<close>: the argument encoders and account readers of \<open>frontend/src/lib/solana/index.ts\<close> against
    the Borsh format; the locales \<open>wire_block\<close> and \<open>wire_field\<close> are the contract of a reader, each
    reader is an interpretation.
  \<^item> \<open>Addresses\<close>: the derived addresses; two accounts share one only by a hash collision.
  \<^item> \<open>Accounts\<close>, \<open>AccountFetch\<close>: account types, decoders, fetchers; what the programs write
    (layouts of \<open>contracts/programs/*/src/lib.rs\<close>) is what the client reads, with the four decoders
    that do not follow the layout treated apart.
  \<^item> \<open>Instructions\<close>, \<open>ProgramIdl\<close>, \<open>InstructionProperties\<close>: the 67 instruction builders against the
    interface descriptions of the programs.

  \<^bold>\<open>Client services.\<close> \<open>ClientHost\<close> has what they run on: the record \<open>client\<close> of the RPC node, the
  wallet and the typed account fetchers, which are parameters over a world that transactions change,
  and operations that throw, catch and wait.
  \<^item> \<open>ErrorMessages\<close>, \<open>ErrorProperties\<close>: \<open>lib/errors.ts\<close>, from the texts of the node to the error of a
    program; which entries of its tables can be reached.
  \<^item> \<open>TokenParsers\<close>, \<open>TokenClaims\<close>, \<open>TokenClaimProperties\<close>, \<open>ChainVerification\<close>, \<open>ClientProperties\<close>: the
    check of the claims of a recipient in \<open>services/token.ts\<close>, and that what it accepts is what
    \<open>fracks-irp/src/utils.rs\<close> accepts.
  \<^item> \<open>TokenService\<close>, \<open>TokenOperations\<close>, \<open>TokenServiceProperties\<close>: its other operations; what a mint that
    returns has checked, and in which world.
  \<^item> \<open>TransferReads\<close>, \<open>TransferAccounts\<close>, \<open>TransferRun\<close>, \<open>TransferOperations\<close>, \<open>TransferProperties\<close>:
    \<open>services/transfer.ts\<close>; every transfer returns, a transfer that reports success delivered its
    approval and then itself, from one world of the chain to later ones, and a passed preflight is eligible.
  \<^item> \<open>ComplianceService\<close>, \<open>ComplianceServiceProperties\<close>: \<open>services/compliance.ts\<close>; what a supply cap
    becomes on the chain, and that no configuration of a module reaches an instruction.
  \<^item> \<open>IdentityReads\<close>, \<open>IdentityOperations\<close>, \<open>IdentityProperties\<close>: \<open>services/identity.ts\<close>; on a chain that
    runs the identity program, and whose node answers every account read, the service sees the live
    claims, adds one, and can revoke none.

  \<^bold>\<open>Programs.\<close> \<open>ModuleStates\<close>, \<open>ComplianceProgram\<close>, \<open>ComplianceHooks\<close> and \<open>ComplianceProperties\<close> model the
  compliance program with its modules (\<open>fracks-compliance\<close>, \<open>modules\<close>): the locale \<open>cell_law\<close> is the
  contract of a property of module accounts that every instruction keeps, called through the compliance
  program or directly; the supply a module tracks stays within its cap, and the evaluation of the token
  program agrees with \<open>can_transfer\<close>. \<open>FidProgram\<close> and \<open>FidProperties\<close> model the identity program (\<open>fracks-fid\<close>): it
  implements the set of live claims. Anchor's account constraints are guards before the body of an
  instruction, in the order of the struct; derivation of addresses and hashes are parameters, of which
  the theorems on reachable accounts assume that the addresses of different accounts differ.

  \<^bold>\<open>State and steps.\<close> A component with tables has a record of its tables; a handler is a function
  on it; reachable states are those of an inductive step relation with one rule per handler, and the
  invariants are proved by rule induction. A rule runs one handler to its end; where a handler awaits
  between its queries and this matters (purchase requests, listings), its parts are definitions of their
  own and what overlapping calls do is stated. Ids, clocks and replies of the RPC node are arguments.
  No definition uses fuel: every loop of the code is a recursion over a list, a count or a shrinking
  buffer, but for the wait for a lookup table, a \<open>partial_function (option)\<close> that is shown to end where
  the timers advance the clock. Witnesses run the operations on sample tables and sample chains, which
  satisfy the hypotheses that the theorems make of the node.

  \<^bold>\<open>Not modelled.\<close> The React pages and components (rendering and event wiring), the generated
  Prisma client, the NestJS controllers and modules (routing), signing and sending of transactions, the
  services \<open>services/factory.ts\<close> and \<open>lib/trex-client.ts\<close>, the instructions of the remaining programs,
  console output, tests and debug scripts.
\<close>

end
